(* ===== verification/Rfq_Blacklist.thy ===== *)
theory Rfq_Blacklist
  imports Prelude
begin

text \<open>
  The blacklist of transaction origins (\<open>src/utils/rfq_blocked_address_utils.ts\<close>,
  \<open>rfq_dyanmic_blacklist.ts\<close>): a set of addresses that is read at once and refreshed from the database in the
  background when it has expired. A refresh ends when the database answers, so \<open>blacklist_step\<close> interleaves
  it with the calls that read or change the set. A set iterates in insertion order and is a list
  without repetition. Metrics and logging are left out; the table of the database and the clock are
  arguments of the steps.
\<close>

section \<open>State and operations\<close>

record RfqBlockedAddressUtils =
  blocked :: "string list"
  expiresAt :: int
  hasUpdatePromise :: bool
  updating :: bool
  ttlMs :: int

definition MAX_SET_SIZE :: nat where
  "MAX_SET_SIZE = 5000"

definition new_RfqBlockedAddressUtils :: "string list \<Rightarrow> int \<Rightarrow> int \<Rightarrow> RfqBlockedAddressUtils" where
  "new_RfqBlockedAddressUtils initialBlockedSet ttl now =
     \<lparr>blocked = initialBlockedSet, expiresAt = now, hasUpdatePromise = False, updating = False, ttlMs = ttl\<rparr>"

text \<open>\<open>isBlocked\<close> answers from the set as it is; the last component says whether it starts an update,
  which sends its query before it waits.\<close>

definition isBlocked :: "int \<Rightarrow> string \<Rightarrow> RfqBlockedAddressUtils \<Rightarrow> bool \<times> RfqBlockedAddressUtils \<times> bool" where
  "isBlocked now address u =
     (let start = (now > expiresAt u \<and> \<not> updating u);
          u1 = (if start then u\<lparr>updating := True, hasUpdatePromise := True\<rparr> else u)
      in (toLowerCase address \<in> set (blocked u1), u1, start))"

text \<open>The rest of \<open>_updateBlockedSetAsync\<close>, once the rows of the table have arrived.\<close>

definition finish_update :: "int \<Rightarrow> string list \<Rightarrow> RfqBlockedAddressUtils \<Rightarrow> RfqBlockedAddressUtils" where
  "finish_update now table u =
     (let blockedAddresses = take MAX_SET_SIZE table
      in u\<lparr>blocked := uniq (map toLowerCase blockedAddresses), expiresAt := now + ttlMs u, updating := False\<rparr>)"

definition blacklist_create :: "bool \<Rightarrow> bool \<Rightarrow> string list \<Rightarrow> int \<Rightarrow> int \<Rightarrow> RfqBlockedAddressUtils option" where
  "blacklist_create enabled hasConnection initialBlockedSet ttl now =
     (if \<not> enabled \<or> \<not> hasConnection then None else Some (new_RfqBlockedAddressUtils initialBlockedSet ttl now))"

definition blacklist_add :: "string \<Rightarrow> RfqBlockedAddressUtils \<Rightarrow> RfqBlockedAddressUtils" where
  "blacklist_add value u = u\<lparr>blocked := uniq (blocked u @ [value])\<rparr>"

definition blacklist_clear :: "RfqBlockedAddressUtils \<Rightarrow> RfqBlockedAddressUtils" where
  "blacklist_clear u = u\<lparr>blocked := []\<rparr>"

definition blacklist_delete :: "string \<Rightarrow> RfqBlockedAddressUtils \<Rightarrow> bool \<times> RfqBlockedAddressUtils" where
  "blacklist_delete value u = (value \<in> set (blocked u), u\<lparr>blocked := removeAll value (blocked u)\<rparr>)"

section \<open>Interleaving\<close>

text \<open>The object, the number of queries the database has not answered, and whether one was refused.\<close>

record BlacklistState =
  bl_utils :: RfqBlockedAddressUtils
  bl_queries :: nat
  bl_refused :: bool

inductive blacklist_step :: "BlacklistState \<Rightarrow> BlacklistState \<Rightarrow> bool" where
  has: "isBlocked now address (bl_utils s) = (answer, u, start) \<Longrightarrow>
     blacklist_step s (s\<lparr>bl_utils := u, bl_queries := bl_queries s + (if start then 1 else 0)\<rparr>)"
| rows: "bl_queries s = Suc n \<Longrightarrow>
     blacklist_step s (s\<lparr>bl_utils := finish_update now table (bl_utils s), bl_queries := n\<rparr>)"
| refused: "bl_queries s = Suc n \<Longrightarrow> blacklist_step s (s\<lparr>bl_queries := n, bl_refused := True\<rparr>)"
| add: "blacklist_step s (s\<lparr>bl_utils := blacklist_add v (bl_utils s)\<rparr>)"
| clear: "blacklist_step s (s\<lparr>bl_utils := blacklist_clear (bl_utils s)\<rparr>)"
| delete: "blacklist_step s (s\<lparr>bl_utils := snd (blacklist_delete v (bl_utils s))\<rparr>)"

inductive_cases blacklist_stepE: "blacklist_step s s'"

definition initial_blacklist :: "string list \<Rightarrow> int \<Rightarrow> int \<Rightarrow> BlacklistState" where
  "initial_blacklist initialBlockedSet ttl now =
     \<lparr>bl_utils = new_RfqBlockedAddressUtils initialBlockedSet ttl now, bl_queries = 0, bl_refused = False\<rparr>"

section \<open>Invariant\<close>

text \<open>At most one query is out, and the object is updating exactly while it is out or after it was refused.\<close>

definition single_flight :: "BlacklistState \<Rightarrow> bool" where
  "single_flight s \<longleftrightarrow> bl_queries s \<le> 1 \<and>
     updating (bl_utils s) = (bl_queries s = 1 \<or> bl_refused s) \<and>
     \<not> (bl_queries s = 1 \<and> bl_refused s) \<and> distinct (blocked (bl_utils s))"

lemmas blacklist_defs = isBlocked_def finish_update_def blacklist_add_def blacklist_clear_def blacklist_delete_def

lemma single_flight_step: "blacklist_step s s' \<Longrightarrow> single_flight s \<Longrightarrow> single_flight s'"
  by (erule blacklist_stepE)
     (auto simp: single_flight_def blacklist_defs Let_def distinct_removeAll split: if_splits)

lemma reachable_single_flight:
  assumes "blacklist_step\<^sup>*\<^sup>* (initial_blacklist bs ttl t0) s" "distinct bs"
  shows "single_flight s"
  using assms(1)
proof (induction rule: rtranclp_induct)
  case base
  then show ?case using assms(2)
    by (simp add: initial_blacklist_def new_RfqBlockedAddressUtils_def single_flight_def)
qed (rule single_flight_step)

text \<open>After a refusal nothing asks the database again.\<close>

definition stuck :: "BlacklistState \<Rightarrow> bool" where
  "stuck s \<longleftrightarrow> bl_queries s = 0 \<and> updating (bl_utils s)"

lemma stuck_step: "blacklist_step s s' \<Longrightarrow> stuck s \<Longrightarrow> stuck s' \<and> expiresAt (bl_utils s') = expiresAt (bl_utils s)"
  by (erule blacklist_stepE) (auto simp: stuck_def blacklist_defs Let_def split: if_splits)

lemma stuck_forever:
  assumes "blacklist_step\<^sup>*\<^sup>* s s'" "stuck s"
  shows "stuck s' \<and> expiresAt (bl_utils s') = expiresAt (bl_utils s)"
  using assms by (induction rule: rtranclp_induct) (auto dest: stuck_step)

lemma refused_is_stuck:
  assumes "single_flight s" "bl_refused s" shows "stuck s"
  using assms by (auto simp: single_flight_def stuck_def)

section \<open>Properties\<close>

text \<open>C14: Whatever the order of lookups, changes and answers of the database, at most one refresh is out and it
  is out only while the object is updating. While the refreshed set is fresh, a lookup blocks exactly the
  addresses of the first 5000 rows, whatever their case, and does not ask the database.\<close>

theorem blacklist_refresh_protocol:
  assumes "blacklist_step\<^sup>*\<^sup>* (initial_blacklist bs ttl t0) s" "distinct bs"
    and "u = finish_update t table (bl_utils s)" "t' \<le> t + ttlMs u"
  shows "bl_queries s \<le> 1 \<and> (bl_queries s = 1 \<longrightarrow> updating (bl_utils s)) \<and>
    isBlocked t' address u =
      (toLowerCase address \<in> toLowerCase ` set (take MAX_SET_SIZE table), u, False)"
  using reachable_single_flight[OF assms(1,2)] assms(3,4)
  by (auto simp: single_flight_def isBlocked_def finish_update_def Let_def)

theorem blacklist_refresh_protocol_witness:
  "isBlocked 7 ''0xAB'' (finish_update 5 [''0xab'', ''0xcd''] (bl_utils (initial_blacklist [] 30 0))) =
     (True, finish_update 5 [''0xab'', ''0xcd''] (bl_utils (initial_blacklist [] 30 0)), False)"
proof -
  have "toLowerCase ''0xAB'' = ''0xab''" "toLowerCase ''0xab'' = ''0xab''" by code_simp+
  then show ?thesis
    using blacklist_refresh_protocol[of "[]" 30 0 "initial_blacklist [] 30 0"
        "finish_update 5 [''0xab'', ''0xcd''] (bl_utils (initial_blacklist [] 30 0))" 5 "[''0xab'', ''0xcd'']" 7 "''0xAB''"]
    by (simp add: initial_blacklist_def new_RfqBlockedAddressUtils_def MAX_SET_SIZE_def) (simp add: finish_update_def)
qed

text \<open>A refresh that the database refuses is the last one: from then on the object stays in the updating
  state, no query is sent any more and the expiry never moves, so the set changes only by explicit calls.\<close>

theorem refused_refresh_is_last:
  assumes "blacklist_step\<^sup>*\<^sup>* (initial_blacklist bs ttl t0) s" "distinct bs" "bl_refused s"
    and "blacklist_step\<^sup>*\<^sup>* s s'"
  shows "updating (bl_utils s') \<and> bl_queries s' = 0 \<and> expiresAt (bl_utils s') = expiresAt (bl_utils s)"
  using stuck_forever[OF assms(4) refused_is_stuck[OF reachable_single_flight[OF assms(1,2)] assms(3)]]
  by (simp add: stuck_def)

theorem refused_refresh_is_last_witness:
  "\<exists>s. blacklist_step\<^sup>*\<^sup>* (initial_blacklist [] 30 0) s \<and> bl_refused s \<and> updating (bl_utils s) \<and> bl_queries s = 0"
proof -
  let ?s0 = "initial_blacklist [] 30 0"
  let ?u = "(bl_utils ?s0)\<lparr>updating := True, hasUpdatePromise := True\<rparr>"
  let ?s1 = "?s0\<lparr>bl_utils := ?u, bl_queries := 1\<rparr>"
  let ?s2 = "?s1\<lparr>bl_queries := 0, bl_refused := True\<rparr>"
  have "blacklist_step ?s0 ?s1"
    using blacklist_step.has[of 1 "[]" ?s0 False ?u True]
    by (simp add: isBlocked_def initial_blacklist_def new_RfqBlockedAddressUtils_def)
  moreover have "blacklist_step ?s1 ?s2" using blacklist_step.refused[of ?s1 0] by simp
  ultimately have reach: "blacklist_step\<^sup>*\<^sup>* ?s0 ?s2" by (meson rtranclp.rtrancl_into_rtrancl rtranclp.rtrancl_refl)
  then have "updating (bl_utils ?s2) \<and> bl_queries ?s2 = 0"
    using refused_refresh_is_last[of "[]" 30 0 ?s2 ?s2] by simp
  then show ?thesis using reach by (intro exI[of _ ?s2]) simp
qed

end
