(* ===== verification/Result_Cache.thy ===== *)
theory Result_Cache
  imports Prelude
begin

text \<open>
  The cache of an asynchronous function (\<open>src/utils/result_cache.ts\<close>). A call answers from the cache while
  the entry of its argument has not expired, and otherwise waits for the function; calls that wait overlap with
  others, which \<open>cache_step\<close> interleaves. The function is code of the caller: its answers are arguments
  of the steps, and so is which results JavaScript takes for true. Arguments are named by the
  property key they become. Logging is left out.
\<close>

section \<open>State and operations\<close>

type_synonym 'r CachedResult = "int \<times> 'r"
type_synonym 'r cache = "(string \<times> 'r CachedResult) list"

definition TEN_MINUTES_MS :: int where
  "TEN_MINUTES_MS = 10 * 60 * 1000"

datatype 'r outcome = Returned int 'r | Thrown js_error

text \<open>Whether \<open>getResultAsync\<close> has to call the function.\<close>

definition needs_update :: "('r \<Rightarrow> bool) \<Rightarrow> int \<Rightarrow> int \<Rightarrow> 'r CachedResult option \<Rightarrow> bool" where
  "needs_update truthy cacheExpiryMs now entry =
     (case entry of
        None \<Rightarrow> True
      | Some (timestamp, result) \<Rightarrow> \<not> truthy result \<or> timestamp = 0 \<or> timestamp < now - cacheExpiryMs)"

text \<open>The function has answered, or thrown, for a call that had read \<open>entry\<close>.\<close>

definition on_result :: "int \<Rightarrow> string \<Rightarrow> 'r \<Rightarrow> 'r cache \<Rightarrow> 'r cache \<times> 'r outcome" where
  "on_result now key result resultCache = (AList.update key (now, result) resultCache, Returned now result)"

definition on_error :: "('r \<Rightarrow> bool) \<Rightarrow> js_error \<Rightarrow> 'r CachedResult option \<Rightarrow> 'r outcome" where
  "on_error truthy e entry =
     (case entry of
        None \<Rightarrow> Thrown e
      | Some (timestamp, result) \<Rightarrow> if \<not> truthy result then Thrown e else Returned timestamp result)"

section \<open>Interleaving\<close>

text \<open>The cache, the calls that wait with the entry they read, the clock, and the answers the function has
  given so far, each with its key and time.\<close>

record 'r CacheState =
  cs_cache :: "'r cache"
  cs_calls :: "(string \<times> 'r CachedResult option) list"
  cs_now :: int
  cs_answers :: "(string \<times> int \<times> 'r) list"

datatype 'r label = Tick | Hit string "'r outcome" | Miss string | Done string bool "'r outcome"

text \<open>\<open>Done\<close> carries whether the function threw.\<close>

inductive cache_step :: "('r \<Rightarrow> bool) \<Rightarrow> int \<Rightarrow> 'r CacheState \<Rightarrow> 'r label \<Rightarrow> 'r CacheState \<Rightarrow> bool"
  for truthy expiry where
  tick: "cs_now s \<le> t \<Longrightarrow> cache_step truthy expiry s Tick (s\<lparr>cs_now := t\<rparr>)"
| hit: "map_of (cs_cache s) key = Some (t, r) \<Longrightarrow> \<not> needs_update truthy expiry (cs_now s) (Some (t, r)) \<Longrightarrow>
     cache_step truthy expiry s (Hit key (Returned t r)) s"
| miss: "needs_update truthy expiry (cs_now s) (map_of (cs_cache s) key) \<Longrightarrow>
     cache_step truthy expiry s (Miss key) (s\<lparr>cs_calls := cs_calls s @ [(key, map_of (cs_cache s) key)]\<rparr>)"
| answer: "cs_calls s = cs @ (key, entry) # ds \<Longrightarrow> on_result (cs_now s) key r (cs_cache s) = (cache, out) \<Longrightarrow>
     cache_step truthy expiry s (Done key False out)
       (s\<lparr>cs_cache := cache, cs_calls := cs @ ds, cs_answers := (key, cs_now s, r) # cs_answers s\<rparr>)"
| error: "cs_calls s = cs @ (key, entry) # ds \<Longrightarrow>
     cache_step truthy expiry s (Done key True (on_error truthy e entry)) (s\<lparr>cs_calls := cs @ ds\<rparr>)"

inductive_cases cache_stepE: "cache_step truthy expiry s l s'"

definition empty_cache :: "int \<Rightarrow> 'r CacheState" where
  "empty_cache t0 = \<lparr>cs_cache = [], cs_calls = [], cs_now = t0, cs_answers = []\<rparr>"

inductive cache_reachable :: "('r \<Rightarrow> bool) \<Rightarrow> int \<Rightarrow> int \<Rightarrow> 'r CacheState \<Rightarrow> bool" for truthy expiry t0 where
  init: "cache_reachable truthy expiry t0 (empty_cache t0)"
| step: "cache_reachable truthy expiry t0 s \<Longrightarrow> cache_step truthy expiry s l s' \<Longrightarrow>
     cache_reachable truthy expiry t0 s'"

section \<open>Invariant\<close>

text \<open>The cache holds the last answer for every key, and a waiting call read an answer given before.\<close>

definition last_answer :: "(string \<times> int \<times> 'r) list \<Rightarrow> string \<Rightarrow> 'r CachedResult option" where
  "last_answer answers key = map_of answers key"

definition cache_inv :: "'r CacheState \<Rightarrow> bool" where
  "cache_inv s \<longleftrightarrow> (\<forall>key. map_of (cs_cache s) key = last_answer (cs_answers s) key) \<and>
     (\<forall>(key, entry) \<in> set (cs_calls s). \<forall>t r. entry = Some (t, r) \<longrightarrow> (key, t, r) \<in> set (cs_answers s)) \<and>
     (\<forall>(key, t, r) \<in> set (cs_answers s). t \<le> cs_now s)"

lemma cache_inv_step:
  assumes "cache_step truthy expiry s l s'" "cache_inv s"
  shows "cache_inv s'"
  using assms(1)
proof cases
  case (tick t)
  then show ?thesis using assms(2) by (fastforce simp: cache_inv_def)
next
  case (miss key)
  moreover have "(key, t, r) \<in> set (cs_answers s)" if "map_of (cs_cache s) key = Some (t, r)" for t r
    using that assms(2) by (auto simp: cache_inv_def last_answer_def dest: map_of_SomeD)
  ultimately show ?thesis using assms(2) by (auto simp: cache_inv_def)
next
  case (answer cs key entry ds r cache out)
  then show ?thesis using assms(2)
    by (fastforce simp: cache_inv_def last_answer_def on_result_def update_conv)
qed (use assms(2) in \<open>auto simp: cache_inv_def\<close>)

lemma reachable_cache_inv: "cache_reachable truthy expiry t0 s \<Longrightarrow> cache_inv s"
proof (induction rule: cache_reachable.induct)
  case init
  then show ?case by (simp add: cache_inv_def last_answer_def empty_cache_def)
qed (rule cache_inv_step)

section \<open>Properties\<close>

text \<open>However calls overlap, a call returns only what the function answered for its argument, with the
  time of the answer. A call that does not ask the function gets the last answer, no older than the
  expiry; a call whose function throws either throws that error or falls back on an answer given before; and
  a call whose function answers returns that answer.\<close>

theorem result_cache_sound:
  assumes "cache_reachable truthy expiry t0 s" "cache_step truthy expiry s l s'"
  shows "case l of
      Hit key out \<Rightarrow> (\<exists>t r. out = Returned t r \<and> truthy r \<and> last_answer (cs_answers s) key = Some (t, r) \<and>
        cs_now s - expiry \<le> t \<and> t \<le> cs_now s \<and> s' = s)
    | Done key False out \<Rightarrow> (\<exists>r. out = Returned (cs_now s) r \<and> last_answer (cs_answers s') key = Some (cs_now s, r))
    | Done key True out \<Rightarrow> (\<exists>e. out = Thrown e) \<or>
        (\<exists>t r. out = Returned t r \<and> truthy r \<and> (key, t, r) \<in> set (cs_answers s) \<and> t \<le> cs_now s)
    | _ \<Rightarrow> True"
  using assms(2)
proof cases
  case (hit key t r)
  then have "last_answer (cs_answers s) key = Some (t, r)"
    using reachable_cache_inv[OF assms(1)] by (simp add: cache_inv_def)
  moreover from this have "t \<le> cs_now s"
    using reachable_cache_inv[OF assms(1)] by (fastforce simp: cache_inv_def last_answer_def dest: map_of_SomeD)
  ultimately show ?thesis using hit by (auto simp: needs_update_def)
next
  case (error cs key entry ds e)
  then show ?thesis using reachable_cache_inv[OF assms(1)]
    by (fastforce simp: on_error_def cache_inv_def split: option.splits)
qed (auto simp: on_result_def last_answer_def)

theorem result_cache_sound_witness:
  "\<exists>s s'. cache_reachable (\<lambda>_. True) 10 1 s \<and> cache_step (\<lambda>_. True) 10 s (Hit ''k'' (Returned 1 (7 :: int))) s' \<and>
     last_answer (cs_answers s) ''k'' = Some (1, 7)"
proof -
  let ?s0 = "empty_cache 1 :: int CacheState"
  let ?s1 = "?s0\<lparr>cs_calls := [(''k'', None)]\<rparr>"
  let ?s2 = "?s0\<lparr>cs_cache := [(''k'', (1, 7))], cs_answers := [(''k'', 1, 7)]\<rparr>"
  have "cache_step (\<lambda>_. True) 10 ?s0 (Miss ''k'') ?s1"
    using cache_step.miss[of "\<lambda>_. True" 10 ?s0 "''k''"] by (simp add: needs_update_def empty_cache_def)
  moreover have "cache_step (\<lambda>_. True) 10 ?s1 (Done ''k'' False (Returned 1 7)) ?s2"
    using cache_step.answer[of ?s1 "[]" "''k''" None "[]" 7 "[(''k'', (1, 7))]" "Returned 1 7" "\<lambda>_. True" 10]
    by (simp add: on_result_def empty_cache_def)
  ultimately have reach: "cache_reachable (\<lambda>_. True) 10 1 ?s2"
    by (meson cache_reachable.intros)
  moreover have hit: "cache_step (\<lambda>_. True) 10 ?s2 (Hit ''k'' (Returned 1 7)) ?s2"
    by (rule cache_step.hit) (simp_all add: needs_update_def empty_cache_def)
  ultimately show ?thesis using result_cache_sound[OF reach hit] by auto
qed

end
