(* ===== verification/Js_Number.thy ===== *)
theory Js_Number
  imports Prelude
begin

text \<open>
  The JavaScript \<open>number\<close>: IEEE 754 binary64 with round-to-nearest-even, over exact rationals.
  \<open>rnd64\<close> is the rounding every arithmetic operation ends with, and \<open>dec\<close> the decimal value that
  \<open>Number.prototype.toString\<close> prints (the shortest decimal that reads back as the same double),
  which is what a \<open>BigNumber\<close> made from a number holds. The exponent range is not bounded:
  overflow to infinity and subnormal numbers are outside the amounts the code handles. The lemmas
  show that \<open>rnd64\<close> is monotone, idempotent, odd and exact on integers below \<open>2 ^ 53\<close>, and that
  \<open>dec\<close> round-trips and is monotone on doubles.
\<close>

section \<open>Magnitudes\<close>

text \<open>The number of digits of a positive integer in base \<open>b\<close>.\<close>

function ndigits :: "int \<Rightarrow> int \<Rightarrow> nat" where
  "ndigits b x = (if x \<le> 0 \<or> b \<le> 1 then 0 else Suc (ndigits b (x div b)))"
  by pat_completeness auto
termination
proof (relation "measure (\<lambda>(b, x). nat x)")
  fix b x :: int
  assume a: "\<not> (x \<le> 0 \<or> b \<le> 1)"
  then have "x div b < x" by (intro int_div_less_self) auto
  then show "((b, x div b), (b, x)) \<in> measure (\<lambda>(b, x). nat x)" using a by auto
qed simp

declare ndigits.simps [simp del]

lemma ndigits_bounds:
  assumes "1 < b" "0 < x"
  shows "0 < ndigits b x \<and> b ^ (ndigits b x - 1) \<le> x \<and> x < b ^ ndigits b x"
  using assms
proof (induction b x rule: ndigits.induct)
  case (1 b x)
  show ?case
  proof (cases "x < b")
    case True
    then have "x div b = 0" using "1.prems" by simp
    then have "ndigits b x = 1" using "1.prems" by (simp add: ndigits.simps)
    then show ?thesis using True "1.prems" by simp
  next
    case False
    define y where "y = x div b"
    define n where "n = ndigits b y"
    have y: "0 < y" using False "1.prems" by (simp add: y_def pos_imp_zdiv_pos_iff)
    have IH: "0 < n" "b ^ (n - 1) \<le> y" "y < b ^ n"
      using "1.IH" "1.prems" y by (auto simp: y_def n_def)
    have nx: "ndigits b x = Suc n" using "1.prems" by (simp add: ndigits.simps[of b x] y_def n_def)
    have x: "x = b * y + x mod b" "0 \<le> x mod b" "x mod b < b" using "1.prems" by (auto simp: y_def)
    have "b ^ n = b * b ^ (n - 1)" using IH(1) by (cases n) auto
    also have "\<dots> \<le> b * y" using IH(2) "1.prems" by simp
    also have "\<dots> \<le> x" using x by linarith
    finally have lo: "b ^ n \<le> x" .
    have "y + 1 \<le> b ^ n" using IH(3) by simp
    then have "b * (y + 1) \<le> b * b ^ n" using "1.prems" by (intro mult_left_mono) auto
    moreover have "x < b * (y + 1)" using x by (simp add: distrib_left) 
    ultimately show ?thesis using nx lo by simp
  qed
qed

lemma ndigits_powi_bounds:
  assumes "1 < B" "0 < x"
  shows "of_int B powi (int (ndigits B x) - 1) \<le> (of_int x :: rat)"
    and "(of_int x :: rat) < of_int B powi int (ndigits B x)"
proof -
  note b = ndigits_bounds[OF assms]
  have "(of_int (B ^ (ndigits B x - 1)) :: rat) \<le> of_int x" using b by (simp only: of_int_le_iff)
  moreover have "int (ndigits B x) - 1 = int (ndigits B x - 1)" using b by simp
  ultimately show "of_int B powi (int (ndigits B x) - 1) \<le> (of_int x :: rat)"
    by (simp only: power_int_of_nat) simp
  have "(of_int x :: rat) < of_int (B ^ ndigits B x)" using b by (simp only: of_int_less_iff)
  then show "(of_int x :: rat) < of_int B powi int (ndigits B x)" by (simp only: power_int_of_nat) simp
qed

text \<open>The exponent of the leading digit in base \<open>B\<close>.\<close>

definition expo :: "int \<Rightarrow> rat \<Rightarrow> int" where
  "expo B x =
     (let (p, q) = quotient_of \<bar>x\<bar>; k = int (ndigits B p) - int (ndigits B q)
      in if of_int B powi k \<le> \<bar>x\<bar> then k else k - 1)"

section \<open>Rounding to binary64\<close>

text \<open>Round to the nearest integer, ties to the even one.\<close>

definition rne :: "rat \<Rightarrow> int" where
  "rne y = (let f = \<lfloor>y\<rfloor>; d = y - of_int f in
     if d < 1 / 2 then f else if 1 / 2 < d then f + 1 else if even f then f else f + 1)"

definition rnd64 :: "rat \<Rightarrow> rat" where
  "rnd64 x = (if x = 0 then 0 else let u = 2 powi (expo 2 x - 52) in of_int (rne (x / u)) * u)"

section \<open>The decimal a double prints as\<close>

text \<open>The closest decimal with \<open>n\<close> significant digits that reads back as \<open>x\<close>, if there is one.\<close>

definition dec_at :: "nat \<Rightarrow> rat \<Rightarrow> rat option" where
  "dec_at n x =
     (let u = 10 powi (expo 10 x - int n + 1);
          lo = of_int \<lfloor>x / u\<rfloor> * u; hi = (of_int \<lfloor>x / u\<rfloor> + 1) * u
      in if rnd64 lo = x \<and> (rnd64 hi \<noteq> x \<or> x - lo \<le> hi - x) then Some lo
         else if rnd64 hi = x then Some hi else None)"

fun dec_search :: "nat list \<Rightarrow> rat \<Rightarrow> rat" where
  "dec_search [] x = x"
| "dec_search (n # ns) x = (case dec_at n x of Some d \<Rightarrow> d | None \<Rightarrow> dec_search ns x)"

definition dec :: "rat \<Rightarrow> rat" where
  "dec x = (if x = 0 then 0 else dec_search [1..<18] x)"


section \<open>Properties of the rounding\<close>

lemma expo_bounds:
  assumes "1 < B" "x \<noteq> 0"
  shows "of_int B powi expo B x \<le> \<bar>x\<bar>" and "\<bar>x\<bar> < of_int B powi (expo B x + 1)"
proof -
  obtain p q where pq: "quotient_of \<bar>x\<bar> = (p, q)" by force
  have q: "0 < q" using pq by (rule quotient_of_denom_pos)
  have x: "\<bar>x\<bar> = of_int p / of_int q" using pq by (rule quotient_of_div)
  have "0 < of_int p / (of_int q :: rat)" using assms(2) x by (metis zero_less_abs_iff)
  then have p: "0 < p" using q by (simp add: zero_less_divide_iff)
  define m n where "m = ndigits B p" and "n = ndigits B q"
  let ?B = "of_int B :: rat"
  let ?k = "int m - int n"
  have B0: "?B \<noteq> 0" "0 < ?B" using assms(1) by auto
  have pl: "?B powi (int m - 1) \<le> of_int p" and pu: "of_int p < ?B powi int m"
    using ndigits_powi_bounds[OF assms(1) p] by (simp_all add: m_def)
  have ql: "?B powi (int n - 1) \<le> of_int q" and qu: "of_int q < ?B powi int n"
    using ndigits_powi_bounds[OF assms(1) q] by (simp_all add: n_def)
  have "?B powi (?k - 1) = ?B powi (int m - 1) / ?B powi int n"
    using B0 by (simp add: power_int_diff)
  also have "\<dots> \<le> of_int p / of_int q"
    using pl qu q p B0 by (intro frac_le) auto
  finally have lower: "?B powi (?k - 1) \<le> \<bar>x\<bar>" using x by simp
  have "of_int p / of_int q < ?B powi int m / ?B powi (int n - 1)"
    using pu ql q p B0 by (intro frac_less) auto
  also have "\<dots> = ?B powi (?k + 1)" using B0 by (simp add: power_int_diff power_int_add)
  finally have upper: "\<bar>x\<bar> < ?B powi (?k + 1)" using x by simp
  have e: "expo B x = (if ?B powi ?k \<le> \<bar>x\<bar> then ?k else ?k - 1)"
    unfolding expo_def using pq by (simp add: m_def n_def Let_def)
  show "?B powi expo B x \<le> \<bar>x\<bar>" using lower e by auto
  show "\<bar>x\<bar> < ?B powi (expo B x + 1)" using upper e by auto
qed

lemma expo_unique:
  assumes "1 < B" "of_int B powi e \<le> \<bar>x :: rat\<bar>" "\<bar>x\<bar> < of_int B powi (e + 1)"
  shows "expo B x = e"
proof -
  let ?B = "of_int B :: rat"
  have b: "1 < ?B" using assms(1) by simp
  then have "0 < ?B powi e" by (intro zero_less_power_int) simp
  then have x: "x \<noteq> 0" using assms(2) by auto
  note eb = expo_bounds[OF assms(1) x]
  have "?B powi e < ?B powi (expo B x + 1)" using assms(2) eb(2) by linarith
  then have 1: "e < expo B x + 1"
    using power_int_increasing[of "expo B x + 1" e ?B] b by (meson less_le_not_le linorder_not_less)
  have "?B powi expo B x < ?B powi (e + 1)" using assms(3) eb(1) by linarith
  then have 2: "expo B x < e + 1"
    using power_int_increasing[of "e + 1" "expo B x" ?B] b by (meson less_le_not_le linorder_not_less)
  from 1 2 show ?thesis by simp
qed

lemma rne_of_int [simp]: "rne (of_int k) = k"
  by (simp add: rne_def)

lemma rne_err: "\<bar>of_int (rne y) - y\<bar> \<le> 1 / 2"
proof -
  have "of_int \<lfloor>y\<rfloor> \<le> y" "y < of_int \<lfloor>y\<rfloor> + 1" by linarith+
  then show ?thesis by (auto simp: rne_def Let_def abs_le_iff)
qed

lemma rne_mono: "x \<le> y \<Longrightarrow> rne x \<le> rne y"
proof (cases "\<lfloor>x\<rfloor> = \<lfloor>y\<rfloor>")
  case True
  assume "x \<le> y"
  with True show ?thesis by (auto simp: rne_def Let_def)
next
  case False
  assume "x \<le> y"
  then have "\<lfloor>x\<rfloor> + 1 \<le> \<lfloor>y\<rfloor>" using False floor_mono[of x y] by linarith
  moreover have "rne x \<le> \<lfloor>x\<rfloor> + 1" "\<lfloor>y\<rfloor> \<le> rne y" by (auto simp: rne_def Let_def)
  ultimately show ?thesis by linarith
qed

lemma rne_minus: "rne (- y) = - rne y"
proof (cases "y = of_int \<lfloor>y\<rfloor>")
  case True
  then show ?thesis by (metis rne_of_int of_int_minus)
next
  case False
  have f: "of_int \<lfloor>y\<rfloor> < y" "y < of_int \<lfloor>y\<rfloor> + 1" using False by linarith+
  have m: "\<lfloor>- y\<rfloor> = - \<lfloor>y\<rfloor> - 1" using f by (intro floor_unique) auto
  show ?thesis unfolding rne_def Let_def m using f by auto
qed

lemma powi_less_iff: "1 < (b :: rat) \<Longrightarrow> b powi m < b powi n \<longleftrightarrow> m < n"
  by (meson linorder_not_less order_less_imp_le power_int_increasing power_int_strict_increasing less_imp_le)

lemma rnd64_0 [simp]: "rnd64 0 = 0"
  by (simp add: rnd64_def)

lemma expo_minus [simp]: "expo B (- x) = expo B x"
  by (simp add: expo_def)

lemma rnd64_minus: "rnd64 (- x) = - rnd64 x"
proof -
  have "- x / u = - (x / u)" for u :: rat by simp
  then show ?thesis by (simp add: rnd64_def Let_def rne_minus)
qed

text \<open>The scaled significand lies in \<open>[2^52, 2^53)\<close>.\<close>

lemma scaled_bounds:
  assumes "x \<noteq> 0"
  shows "2 ^ 52 \<le> \<bar>x\<bar> / 2 powi (expo 2 x - 52)" and "\<bar>x\<bar> / 2 powi (expo 2 x - 52) < 2 ^ 53"
proof -
  have u: "(0::rat) < 2 powi (expo 2 x - 52)" by simp
  have e: "2 powi expo 2 x = 2 powi (expo 2 x - 52) * (2 ^ 52 :: rat)"
    by (simp add: power_int_diff)
  have e1: "2 powi (expo 2 x + 1) = 2 powi (expo 2 x - 52) * (2 ^ 53 :: rat)"
    by (simp add: power_int_diff power_int_add)
  note b = expo_bounds[of 2 x, simplified, OF assms]
  show "2 ^ 52 \<le> \<bar>x\<bar> / 2 powi (expo 2 x - 52)"
    using b(1) u unfolding e by (simp add: pos_le_divide_eq mult.commute)
  show "\<bar>x\<bar> / 2 powi (expo 2 x - 52) < 2 ^ 53"
    using b(2) u unfolding e1 by (simp add: pos_divide_less_eq mult.commute)
qed

lemma rnd64_bounds_pos:
  assumes "0 < x"
  shows "2 powi expo 2 x \<le> rnd64 x" and "rnd64 x \<le> 2 powi (expo 2 x + 1)"
proof -
  let ?u = "2 powi (expo 2 x - 52) :: rat"
  have u: "0 < ?u" by simp
  note sb = scaled_bounds[of x]
  have "rne (of_int (2 ^ 52)) \<le> rne (x / ?u)" using sb(1) assms by (intro rne_mono) simp
  then have l: "2 ^ 52 \<le> rne (x / ?u)" by (simp only: rne_of_int)
  have "rne (x / ?u) \<le> rne (of_int (2 ^ 53))" using sb(2) assms by (intro rne_mono) simp
  then have r: "rne (x / ?u) \<le> 2 ^ 53" by (simp only: rne_of_int)
  have "2 powi expo 2 x = of_int (2 ^ 52) * ?u" by (simp add: power_int_diff)
  also have "\<dots> \<le> of_int (rne (x / ?u)) * ?u" using l u
    by (intro mult_right_mono) (auto simp only: of_int_le_iff less_imp_le)
  finally show "2 powi expo 2 x \<le> rnd64 x" using assms by (simp add: rnd64_def Let_def)
  have "of_int (rne (x / ?u)) * ?u \<le> of_int (2 ^ 53) * ?u" using r u
    by (intro mult_right_mono) (auto simp only: of_int_le_iff less_imp_le)
  also have "\<dots> = 2 powi (expo 2 x + 1)" by (simp add: power_int_diff power_int_add)
  finally show "rnd64 x \<le> 2 powi (expo 2 x + 1)" using assms by (simp add: rnd64_def Let_def)
qed

lemma rnd64_mono_pos:
  assumes "0 < x" "x \<le> y"
  shows "rnd64 x \<le> rnd64 y"
proof (cases "expo 2 x = expo 2 y")
  case True
  let ?u = "2 powi (expo 2 y - 52) :: rat"
  have "rne (x / ?u) \<le> rne (y / ?u)" using assms by (intro rne_mono divide_right_mono) auto
  then show ?thesis using assms True by (simp add: rnd64_def Let_def)
next
  case False
  have "2 powi expo 2 x < (2 :: rat) powi (expo 2 y + 1)"
    using expo_bounds[of 2 x] expo_bounds[of 2 y] assms by simp
  then have "expo 2 x < expo 2 y + 1" by (simp add: powi_less_iff)
  then have "expo 2 x + 1 \<le> expo 2 y" using False by simp
  then have "2 powi (expo 2 x + 1) \<le> (2 :: rat) powi expo 2 y" by (intro power_int_increasing) auto
  then show ?thesis using rnd64_bounds_pos[of x] rnd64_bounds_pos[of y] assms by simp
qed

lemma rnd64_pos: "0 < x \<Longrightarrow> 0 < rnd64 x"
  using less_le_trans[OF _ rnd64_bounds_pos(1)[of x]] by simp

lemma rnd64_mono: "x \<le> y \<Longrightarrow> rnd64 x \<le> rnd64 y"
proof -
  assume xy: "x \<le> y"
  consider "0 < x" | "y < 0" | "x \<le> 0" "0 \<le> y" by linarith
  then show ?thesis
  proof cases
    case 1
    then show ?thesis using xy by (rule rnd64_mono_pos)
  next
    case 2
    then have "rnd64 (- y) \<le> rnd64 (- x)" using xy by (intro rnd64_mono_pos) auto
    then show ?thesis by (simp add: rnd64_minus)
  next
    case 3
    have "rnd64 x \<le> 0" using rnd64_pos[of "- x"] 3 by (cases "x = 0") (auto simp: rnd64_minus)
    moreover have "0 \<le> rnd64 y" using rnd64_pos[of y] 3 by (cases "y = 0") auto
    ultimately show ?thesis by simp
  qed
qed

lemma rnd64_grid:
  assumes "x \<noteq> 0" "x = of_int k * 2 powi (expo 2 x - 52)"
  shows "rnd64 x = x"
proof -
  have "x / 2 powi (expo 2 x - 52) = of_int k" by (subst assms(2)) simp
  then show ?thesis using assms by (simp add: rnd64_def Let_def)
qed

lemma rnd64_idem_pos: "0 < x \<Longrightarrow> rnd64 (rnd64 x) = rnd64 x"
proof -
  assume x: "0 < x"
  let ?u = "2 powi (expo 2 x - 52) :: rat"
  let ?y = "rnd64 x"
  have y: "?y = of_int (rne (x / ?u)) * ?u" using x by (simp add: rnd64_def Let_def)
  note b = rnd64_bounds_pos[OF x]
  have y0: "0 < ?y" using x by (rule rnd64_pos)
  show ?thesis
  proof (cases "?y = 2 powi (expo 2 x + 1)")
    case True
    have "2 powi (expo 2 x + 1) < (2 :: rat) powi (expo 2 x + 1 + 1)" by (subst powi_less_iff) auto
    then have e: "expo 2 ?y = expo 2 x + 1" using True by (intro expo_unique) auto
    have "?y = of_int (2 ^ 52) * 2 powi (expo 2 ?y - 52)"
      unfolding e by (subst True) (simp add: power_int_diff power_int_add)
    then show ?thesis using y0 by (intro rnd64_grid[where k = "2 ^ 52"]) simp_all
  next
    case False
    then have e: "expo 2 ?y = expo 2 x" using b y0 by (intro expo_unique) auto
    have "?y = of_int (rne (x / ?u)) * 2 powi (expo 2 ?y - 52)" unfolding e by (rule y)
    then show ?thesis using y0 by (intro rnd64_grid[where k = "rne (x / ?u)"]) simp_all
  qed
qed

lemma rnd64_idem [simp]: "rnd64 (rnd64 x) = rnd64 x"
proof -
  consider "0 < x" | "x = 0" | "0 < - x" by linarith
  then show ?thesis
  proof cases
    case 3
    then have "rnd64 (rnd64 (- x)) = rnd64 (- x)" by (rule rnd64_idem_pos)
    then show ?thesis by (simp add: rnd64_minus)
  qed (auto simp: rnd64_idem_pos)
qed

lemma rnd64_of_nat:
  assumes "n < 2 ^ 53"
  shows "rnd64 (of_nat n) = of_nat n"
proof (cases "n = 0")
  case False
  let ?x = "of_nat n :: rat"
  have x: "?x \<noteq> 0" using False by simp
  have "2 powi expo 2 ?x \<le> ?x" using expo_bounds(1)[of 2 ?x] x by simp
  also have "?x < 2 ^ 53" using assms by simp
  also have "(2 ^ 53 :: rat) = 2 powi 53" by simp
  finally have e: "expo 2 ?x < 53" by (simp only: powi_less_iff[of 2, simplified])
  define j where "j = nat (52 - expo 2 ?x)"
  have "expo 2 ?x - 52 = - int j" using e by (simp add: j_def)
  then have "?x = of_int (int n * 2 ^ j) * 2 powi (expo 2 ?x - 52)"
    by (simp add: power_int_minus)
  then show ?thesis using x by (intro rnd64_grid)
qed simp

lemma rnd64_1 [simp]: "rnd64 1 = 1"
  using rnd64_of_nat[of 1] by simp

lemma dec_search_roundtrip: "rnd64 x = x \<Longrightarrow> rnd64 (dec_search ns x) = x"
  by (induction ns) (auto simp: dec_at_def Let_def split: option.splits if_splits)

lemma dec_roundtrip: "rnd64 x = x \<Longrightarrow> rnd64 (dec x) = x"
  by (auto simp: dec_def dec_search_roundtrip)

lemma dec_mono:
  assumes "rnd64 x = x" "rnd64 y = y" "x \<le> y"
  shows "dec x \<le> dec y"
proof (cases "x = y")
  case False
  then have "x < y" using assms(3) by simp
  then have "\<not> rnd64 (dec y) \<le> rnd64 (dec x)" using dec_roundtrip assms by simp
  then show ?thesis using rnd64_mono[of "dec y" "dec x"] by linarith
qed simp

lemma dec_0 [simp]: "dec 0 = 0" by (simp add: dec_def)
lemma dec_1 [simp]: "dec 1 = 1" by code_simp
lemma dec_2 [simp]: "dec 2 = 2" by code_simp

text \<open>Integers below \<open>2^53 - 1\<close> are printed exactly.\<close>

lemma rnd64_nat_eq:
  assumes "m + 1 < 2 ^ 53" "rnd64 (of_nat c) = of_nat m"
  shows "c = m"
proof -
  have "\<not> m + 1 \<le> c"
  proof
    assume "m + 1 \<le> c"
    then have "of_nat (m + 1) \<le> (of_nat c :: rat)" by (simp only: of_nat_le_iff)
    then have "rnd64 (of_nat (m + 1)) \<le> of_nat m" using rnd64_mono assms(2) by metis
    then show False using rnd64_of_nat[OF assms(1)] by simp
  qed
  then have "rnd64 (of_nat c) = of_nat c" using assms(1) by (intro rnd64_of_nat) simp
  with assms(2) show ?thesis by simp
qed

lemma dec_at_nat:
  assumes "0 < m" "m + 1 < 2 ^ 53" "expo 10 (of_nat m) = int e" "n \<le> e + 1"
  shows "dec_at n (of_nat m) \<in> {None, Some (of_nat m)}"
    and "n = e + 1 \<Longrightarrow> dec_at n (of_nat m) = Some (of_nat m)"
proof -
  let ?k = "e + 1 - n"
  have u: "10 powi (expo 10 (of_nat m) - int n + 1) = (of_nat (10 ^ ?k) :: rat)"
    using assms(4) by (simp add: assms(3) power_int_def nat_diff_distrib' flip: of_nat_power)
  have fl: "\<lfloor>of_nat m / of_nat (10 ^ ?k) :: rat\<rfloor> = int (m div 10 ^ ?k)"
    using floor_divide_of_nat_eq[of m "10 ^ ?k"] by simp
  let ?q = "m div 10 ^ ?k"
  have lo: "of_int (int ?q) * of_nat (10 ^ ?k) = (of_nat (?q * 10 ^ ?k) :: rat)" by simp
  have hi: "(of_int (int ?q) + 1) * of_nat (10 ^ ?k) = (of_nat ((?q + 1) * 10 ^ ?k) :: rat)"
    by (simp add: distrib_right)
  have at: "dec_at n (of_nat m) =
     (let lo = of_nat (?q * 10 ^ ?k); hi = of_nat ((?q + 1) * 10 ^ ?k)
      in if rnd64 lo = of_nat m \<and> (rnd64 hi \<noteq> of_nat m \<or> of_nat m - lo \<le> hi - of_nat m) then Some lo
         else if rnd64 hi = of_nat m then Some hi else None)"
    unfolding dec_at_def Let_def u fl lo hi ..
  show "dec_at n (of_nat m) \<in> {None, Some (of_nat m)}"
    unfolding at Let_def using rnd64_nat_eq[OF assms(2), of "?q * 10 ^ ?k"]
      rnd64_nat_eq[OF assms(2), of "(?q + 1) * 10 ^ ?k"] by (simp split: if_split del: of_nat_mult)
  show "dec_at n (of_nat m) = Some (of_nat m)" if "n = e + 1"
  proof -
    have "rnd64 (of_nat m) = of_nat m" using assms(2) by (intro rnd64_of_nat) simp
    moreover have "rnd64 (of_nat (m + 1)) \<noteq> of_nat m" using rnd64_nat_eq[OF assms(2), of "m + 1"] by auto
    ultimately show ?thesis unfolding at using that by simp
  qed
qed

lemma dec_search_found:
  "(\<forall>n \<in> set ns. dec_at n x \<in> {None, Some x}) \<Longrightarrow> \<exists>n \<in> set ns. dec_at n x = Some x \<Longrightarrow>
   dec_search (ns @ ms) x = x"
  by (induction ns) (force split: option.split)+

lemma dec_of_nat:
  assumes "m + 1 < 2 ^ 53"
  shows "dec (of_nat m) = of_nat m"
proof (cases "m = 0")
  case False
  then have m: "0 < m" by simp
  note eb = expo_bounds[of 10 "of_nat m", simplified]
  let ?e = "expo 10 (of_nat m)"
  have up: "(of_nat m :: rat) < 10 powi 16"
  proof -
    have "(of_nat m :: rat) < of_nat (2 ^ 53)" using assms by (simp only: of_nat_less_iff)
    also have "\<dots> < 10 powi 16" by simp
    finally show ?thesis .
  qed
  have "(10 :: rat) powi ?e < 10 powi 16" using eb(1)[OF m] up by linarith
  then have e16: "?e < 16" by (subst (asm) powi_less_iff) simp_all
  have "(10 :: rat) powi 0 < 10 powi (?e + 1)" using eb(2)[OF m] m
    by (metis One_nat_def Suc_leI le_less_trans of_nat_1 of_nat_le_iff power_int_0_right)
  then have e0: "0 \<le> ?e" by (subst (asm) powi_less_iff) simp_all
  define e where "e = nat ?e"
  have e: "?e = int e" "e < 16" using e0 e16 by (auto simp: e_def)
  have "[1..<18] = [1..<e + 2] @ [e + 2..<18]"
    using e(2) upt_add_eq_append[of 1 "e + 2" "16 - e"] by simp
  moreover have "dec_search ([1..<e + 2] @ [e + 2..<18]) (of_nat m) = of_nat m"
  proof (rule dec_search_found)
    show "\<forall>n \<in> set [1..<e + 2]. dec_at n (of_nat m) \<in> {None, Some (of_nat m)}"
      by (intro ballI dec_at_nat(1)[OF m assms e(1)]) auto
    show "\<exists>n \<in> set [1..<e + 2]. dec_at n (of_nat m) = Some (of_nat m)"
      using dec_at_nat(2)[OF m assms e(1), of "e + 1"] by (intro bexI[of _ "e + 1"]) auto
  qed
  ultimately show ?thesis using m by (simp add: dec_def)
qed simp

end
