(* ===== verification/Big_Number.thy ===== *)
theory Big_Number
  imports Js_Number
begin

text \<open>
  The numbers of the program. \<open>xnum\<close> is a rational, an infinity or NaN; it is both the
  \<open>BigNumber\<close> of bignumber.js (exact addition, subtraction and multiplication) and, rounded by
  \<open>rnd64\<close>, the JavaScript \<open>number\<close>. A comparison with NaN is false. Signed zero is not
  distinguished.

  A BigNumber quotient is the exact quotient rounded to the configured number of decimal places.
  That configuration is made by the package \<open>@0x/utils\<close>, so the rounding is an argument \<open>rnd\<close> of
  every definition that divides; the locale \<open>quotient_rounding\<close> states what its documentation
  promises, and is interpreted on rounding half away from zero to any number of places.
\<close>

section \<open>Extended rationals\<close>

datatype xnum = Fin rat | PosInf | NegInf | NaN

type_synonym BigNumber = xnum
type_synonym js_number = xnum

fun xsgn :: "xnum \<Rightarrow> rat" where
  "xsgn (Fin a) = sgn a"
| "xsgn PosInf = 1"
| "xsgn NegInf = - 1"
| "xsgn NaN = 0"

instantiation xnum :: "{zero, one, plus, minus, uminus, times, abs, ord}"
begin

definition zero_xnum :: xnum where
  "zero_xnum = Fin 0"

definition one_xnum :: xnum where
  "one_xnum = Fin 1"

fun plus_xnum :: "xnum \<Rightarrow> xnum \<Rightarrow> xnum" where
  "plus_xnum (Fin a) (Fin b) = Fin (a + b)"
| "plus_xnum NaN y = NaN"
| "plus_xnum x NaN = NaN"
| "plus_xnum PosInf NegInf = NaN"
| "plus_xnum NegInf PosInf = NaN"
| "plus_xnum PosInf y = PosInf"
| "plus_xnum NegInf y = NegInf"
| "plus_xnum x PosInf = PosInf"
| "plus_xnum x NegInf = NegInf"

fun uminus_xnum :: "xnum \<Rightarrow> xnum" where
  "uminus_xnum (Fin a) = Fin (- a)"
| "uminus_xnum PosInf = NegInf"
| "uminus_xnum NegInf = PosInf"
| "uminus_xnum NaN = NaN"

definition minus_xnum :: "xnum \<Rightarrow> xnum \<Rightarrow> xnum" where
  "minus_xnum x y = x + (- y)"

definition times_xnum :: "xnum \<Rightarrow> xnum \<Rightarrow> xnum" where
  "times_xnum x y =
     (case (x, y) of (Fin a, Fin b) \<Rightarrow> Fin (a * b)
      | _ \<Rightarrow> if xsgn x * xsgn y = 0 then NaN
             else if 0 < xsgn x * xsgn y then PosInf else NegInf)"

fun abs_xnum :: "xnum \<Rightarrow> xnum" where
  "abs_xnum (Fin a) = Fin \<bar>a\<bar>"
| "abs_xnum NaN = NaN"
| "abs_xnum x = PosInf"

fun less_xnum :: "xnum \<Rightarrow> xnum \<Rightarrow> bool" where
  "less_xnum (Fin a) (Fin b) = (a < b)"
| "less_xnum NaN y = False"
| "less_xnum x NaN = False"
| "less_xnum NegInf y = (y \<noteq> NegInf)"
| "less_xnum (Fin a) PosInf = True"
| "less_xnum PosInf y = False"
| "less_xnum (Fin a) NegInf = False"

definition less_eq_xnum :: "xnum \<Rightarrow> xnum \<Rightarrow> bool" where
  "less_eq_xnum x y = (x \<noteq> NaN \<and> y \<noteq> NaN \<and> (x < y \<or> x = y))"

instance ..

end

text \<open>The exact quotient, with the IEEE conventions for zero and infinite divisors.\<close>

definition xdiv :: "xnum \<Rightarrow> xnum \<Rightarrow> xnum" where
  "xdiv x y =
     (case (x, y) of
        (Fin a, Fin b) \<Rightarrow>
          if b \<noteq> 0 then Fin (a / b) else if a = 0 then NaN else if 0 < a then PosInf else NegInf
      | (NaN, _) \<Rightarrow> NaN
      | (_, NaN) \<Rightarrow> NaN
      | (Fin a, _) \<Rightarrow> Fin 0
      | (_, Fin b) \<Rightarrow> if b < 0 then - x else x
      | _ \<Rightarrow> NaN)"

fun xmap :: "(rat \<Rightarrow> rat) \<Rightarrow> xnum \<Rightarrow> xnum" where
  "xmap f (Fin a) = Fin (f a)"
| "xmap f x = x"

section \<open>BigNumber operations\<close>

definition bn_div :: "(rat \<Rightarrow> rat) \<Rightarrow> BigNumber \<Rightarrow> BigNumber \<Rightarrow> BigNumber" where
  "bn_div rnd x y = xmap rnd (xdiv x y)"

datatype RoundingMode = ROUND_UP | ROUND_DOWN | ROUND_CEIL | ROUND_FLOOR | ROUND_HALF_UP

text \<open>Up and down are away from and towards zero; half-up rounds a tie away from zero.\<close>

fun round_mode :: "RoundingMode \<Rightarrow> rat \<Rightarrow> int" where
  "round_mode ROUND_UP a = (if 0 \<le> a then \<lceil>a\<rceil> else \<lfloor>a\<rfloor>)"
| "round_mode ROUND_DOWN a = (if 0 \<le> a then \<lfloor>a\<rfloor> else \<lceil>a\<rceil>)"
| "round_mode ROUND_CEIL a = \<lceil>a\<rceil>"
| "round_mode ROUND_FLOOR a = \<lfloor>a\<rfloor>"
| "round_mode ROUND_HALF_UP a = (if 0 \<le> a then \<lfloor>a + 1 / 2\<rfloor> else \<lceil>a - 1 / 2\<rceil>)"

definition integerValue :: "RoundingMode \<Rightarrow> BigNumber \<Rightarrow> BigNumber" where
  "integerValue m x = xmap (\<lambda>a. of_int (round_mode m a)) x"

text \<open>\<open>x.integerValue()\<close> uses the default mode, half-up.\<close>

abbreviation integerValue_default :: "BigNumber \<Rightarrow> BigNumber" where
  "integerValue_default \<equiv> integerValue ROUND_HALF_UP"

definition dividedToIntegerBy :: "BigNumber \<Rightarrow> BigNumber \<Rightarrow> BigNumber" where
  "dividedToIntegerBy x y = integerValue ROUND_DOWN (xdiv x y)"

definition bn_eq :: "BigNumber \<Rightarrow> BigNumber \<Rightarrow> bool" where
  "bn_eq x y = (x \<noteq> NaN \<and> x = y)"

fun is_fin :: "xnum \<Rightarrow> bool" where
  "is_fin (Fin a) = True"
| "is_fin x = False"

text \<open>\<open>BigNumber.min\<close>, \<open>max\<close> and \<open>sum\<close>: NaN when any argument is, and on no argument.\<close>

definition bn_min :: "BigNumber \<Rightarrow> BigNumber \<Rightarrow> BigNumber" where
  "bn_min x y = (if x = NaN \<or> y = NaN then NaN else if y < x then y else x)"

definition bn_max :: "BigNumber \<Rightarrow> BigNumber \<Rightarrow> BigNumber" where
  "bn_max x y = (if x = NaN \<or> y = NaN then NaN else if x < y then y else x)"

fun bn_sum :: "BigNumber list \<Rightarrow> BigNumber" where
  "bn_sum [] = NaN"
| "bn_sum (x # xs) = foldl (+) x xs"

fun bn_maximum :: "BigNumber list \<Rightarrow> BigNumber" where
  "bn_maximum [] = NaN"
| "bn_maximum (x # xs) = foldl bn_max x xs"

section \<open>JavaScript number operations\<close>

definition js_add :: "js_number \<Rightarrow> js_number \<Rightarrow> js_number" where
  "js_add x y = xmap rnd64 (x + y)"

definition js_sub :: "js_number \<Rightarrow> js_number \<Rightarrow> js_number" where
  "js_sub x y = xmap rnd64 (x - y)"

definition js_mul :: "js_number \<Rightarrow> js_number \<Rightarrow> js_number" where
  "js_mul x y = xmap rnd64 (x * y)"

definition js_div :: "js_number \<Rightarrow> js_number \<Rightarrow> js_number" where
  "js_div x y = xmap rnd64 (xdiv x y)"

text \<open>\<open>new BigNumber(n)\<close> of a number, and \<open>b.toNumber()\<close>.\<close>

definition bn_of_number :: "js_number \<Rightarrow> BigNumber" where
  "bn_of_number x = xmap dec x"

definition toNumber :: "BigNumber \<Rightarrow> js_number" where
  "toNumber x = xmap rnd64 x"

text \<open>\<open>_.sum(xs)\<close> on numbers.\<close>

definition js_sum :: "js_number list \<Rightarrow> js_number" where
  "js_sum xs = foldl js_add 0 xs"

definition js_ceil :: "js_number \<Rightarrow> js_number" where
  "js_ceil x = xmap (\<lambda>a. of_int \<lceil>a\<rceil>) x"

text \<open>The double a JavaScript number literal or variable holds.\<close>

definition is_double :: "rat \<Rightarrow> bool" where
  "is_double x \<longleftrightarrow> rnd64 x = x"

section \<open>Computation on finite numbers\<close>

lemma xnum_arith [simp]:
  "0 = Fin 0" "1 = Fin 1"
  "Fin a - Fin b = Fin (a - b)" "Fin a * Fin b = Fin (a * b)"
  "Fin a \<le> Fin b \<longleftrightarrow> a \<le> b"
  by (auto simp: zero_xnum_def one_xnum_def minus_xnum_def times_xnum_def less_eq_xnum_def)

lemma xdiv_Fin [simp]: "b \<noteq> 0 \<Longrightarrow> xdiv (Fin a) (Fin b) = Fin (a / b)"
  by (simp add: xdiv_def)

lemma bn_div_Fin [simp]: "b \<noteq> 0 \<Longrightarrow> bn_div rnd (Fin a) (Fin b) = Fin (rnd (a / b))"
  by (simp add: bn_div_def)

lemma bn_div_zero_zero [simp]: "bn_div rnd (Fin 0) (Fin 0) = NaN"
  by (simp add: bn_div_def xdiv_def)

lemma integerValue_Fin [simp]: "integerValue m (Fin a) = Fin (of_int (round_mode m a))"
  by (simp add: integerValue_def)

lemma bn_eq_Fin [simp]: "bn_eq (Fin a) (Fin b) \<longleftrightarrow> a = b"
  by (simp add: bn_eq_def)

lemma bn_min_Fin [simp]: "bn_min (Fin a) (Fin b) = Fin (min a b)"
  by (auto simp: bn_min_def min_def)

lemma bn_max_Fin [simp]: "bn_max (Fin a) (Fin b) = Fin (max a b)"
  by (auto simp: bn_max_def max_def)

lemma js_ops_Fin [simp]:
  "js_add (Fin a) (Fin b) = Fin (rnd64 (a + b))"
  "js_sub (Fin a) (Fin b) = Fin (rnd64 (a - b))"
  "js_mul (Fin a) (Fin b) = Fin (rnd64 (a * b))"
  "b \<noteq> 0 \<Longrightarrow> js_div (Fin a) (Fin b) = Fin (rnd64 (a / b))"
  "bn_of_number (Fin a) = Fin (dec a)"
  "toNumber (Fin a) = Fin (rnd64 a)"
  "js_ceil (Fin a) = Fin (of_int \<lceil>a\<rceil>)"
  by (simp_all add: js_add_def js_sub_def js_mul_def js_div_def bn_of_number_def toNumber_def
      js_ceil_def)

lemma is_finE [elim?]:
  assumes "is_fin x"
  obtains a where "x = Fin a"
  using assms by (cases x) auto

lemma is_fin_iff: "is_fin x \<longleftrightarrow> (\<exists>a. x = Fin a)"
  by (cases x) auto

lemma foldl_plus_Fin: "foldl (+) (Fin a) (map Fin xs) = Fin (a + sum_list xs)"
  by (induction xs arbitrary: a) (auto simp: add.assoc)

lemma bn_sum_Fin [simp]: "xs \<noteq> [] \<Longrightarrow> bn_sum (map Fin xs) = Fin (sum_list xs)"
  by (cases xs) (simp_all add: foldl_plus_Fin)

fun xval :: "xnum \<Rightarrow> rat" where
  "xval (Fin a) = a"
| "xval x = 0"

lemma is_fin_add: "is_fin x \<Longrightarrow> is_fin y \<Longrightarrow> is_fin (x + y)"
  by (cases x; cases y) auto

lemma is_fin_diff: "is_fin x \<Longrightarrow> is_fin y \<Longrightarrow> is_fin (x - y)"
  by (cases x; cases y) auto

lemma is_fin_mult: "is_fin x \<Longrightarrow> is_fin y \<Longrightarrow> is_fin (x * y)"
  by (cases x; cases y) auto

lemma is_fin_integerValue: "is_fin x \<Longrightarrow> is_fin (integerValue m x)"
  by (cases x) auto

lemma is_fin_zero: "is_fin 0"
  by simp

lemmas is_fin_arith [finite_intros] =
  is_fin_add is_fin_diff is_fin_mult is_fin_integerValue is_fin_zero

lemma xval_add: "is_fin x \<Longrightarrow> is_fin y \<Longrightarrow> xval (x + y) = xval x + xval y"
  by (cases x; cases y) auto

lemma xval_diff: "is_fin x \<Longrightarrow> is_fin y \<Longrightarrow> xval (x - y) = xval x - xval y"
  by (cases x; cases y) auto

lemma Fin_xval: "is_fin x \<Longrightarrow> Fin (xval x) = x"
  by (cases x) auto

section \<open>Rounding to integers\<close>

lemma round_mode_of_int [simp]: "round_mode m (of_int k) = k"
  by (cases m) (auto simp: floor_unique ceiling_unique)

lemma round_mode_0 [simp]: "round_mode m 0 = 0"
  using round_mode_of_int[of m 0] by simp

lemma round_mode_mono: "a \<le> b \<Longrightarrow> round_mode m a \<le> round_mode m b"
proof (cases m)
  case ROUND_UP
  assume "a \<le> b"
  have "\<lfloor>a\<rfloor> \<le> \<lfloor>b\<rfloor>" "\<lceil>a\<rceil> \<le> \<lceil>b\<rceil>" using \<open>a \<le> b\<close> by (auto intro: floor_mono ceiling_mono)
  moreover have "\<lfloor>a\<rfloor> \<le> \<lceil>b\<rceil>" using \<open>a \<le> b\<close> by linarith
  ultimately show ?thesis using ROUND_UP \<open>a \<le> b\<close> by auto
next
  case ROUND_DOWN
  assume "a \<le> b"
  have mono: "\<lfloor>a\<rfloor> \<le> \<lfloor>b\<rfloor>" "\<lceil>a\<rceil> \<le> \<lceil>b\<rceil>" using \<open>a \<le> b\<close> by (auto intro: floor_mono ceiling_mono)
  have "\<lceil>a\<rceil> \<le> 0" "0 \<le> \<lfloor>b\<rfloor>" if "a < 0" "0 \<le> b"
    using that by (simp_all add: ceiling_le_iff)
  then have "\<lceil>a\<rceil> \<le> \<lfloor>b\<rfloor>" if "a < 0" "0 \<le> b"
    using that by (meson order_trans)
  with mono show ?thesis using ROUND_DOWN \<open>a \<le> b\<close> by auto
next
  case ROUND_HALF_UP
  assume "a \<le> b"
  have "\<lceil>a - 1 / 2\<rceil> \<le> 0" "0 \<le> \<lfloor>b + 1 / 2\<rfloor>" if "a < 0" "0 \<le> b"
    using that by (simp_all add: ceiling_le_iff)
  then have "\<lceil>a - 1 / 2\<rceil> \<le> \<lfloor>b + 1 / 2\<rfloor>" if "a < 0" "0 \<le> b"
    using that by (meson order_trans)
  then show ?thesis using ROUND_HALF_UP \<open>a \<le> b\<close> by (auto intro: floor_mono ceiling_mono)
qed (auto intro: floor_mono ceiling_mono)

lemma round_mode_nonneg [simp]: "0 \<le> a \<Longrightarrow> 0 \<le> round_mode m a"
  using round_mode_mono[of 0 a m] by simp

lemma round_down_le: "0 \<le> a \<Longrightarrow> of_int (round_mode ROUND_DOWN a) \<le> a"
  by simp

lemma round_up_ge: "0 \<le> a \<Longrightarrow> a \<le> of_int (round_mode ROUND_UP a)"
  by simp

section \<open>The rounding of quotients\<close>

text \<open>What bignumber.js documents of \<open>dividedBy\<close>: the exact quotient, rounded to a grid of
  decimal fractions that contains the integers.\<close>

locale quotient_rounding =
  fixes rnd :: "rat \<Rightarrow> rat" and eps :: rat
  assumes rnd_mono: "x \<le> y \<Longrightarrow> rnd x \<le> rnd y"
    and rnd_int: "rnd (of_int k) = of_int k"
    and rnd_err: "\<bar>rnd x - x\<bar> \<le> eps"
begin

lemma rnd_0 [simp]: "rnd 0 = 0"
  using rnd_int[of 0] by simp

lemma rnd_1 [simp]: "rnd 1 = 1"
  using rnd_int[of 1] by simp

lemma rnd_nonneg: "0 \<le> x \<Longrightarrow> 0 \<le> rnd x"
  using rnd_mono[of 0 x] by simp

lemma rnd_le_1: "x \<le> 1 \<Longrightarrow> rnd x \<le> 1"
  using rnd_mono[of x 1] by simp

lemma rnd_nonpos: "x \<le> 0 \<Longrightarrow> rnd x \<le> 0"
  using rnd_mono[of x 0] by simp

lemma eps_nonneg: "0 \<le> eps"
  using rnd_err[of 0] by simp

text \<open>Rounding a share of the unit keeps it a share, so scaling by a rounded ratio never
  exceeds the amount.\<close>

lemma rnd_share:
  assumes "0 \<le> a" "a \<le> b" "0 < b"
  shows "0 \<le> rnd (a / b)" "rnd (a / b) \<le> 1"
  using assms by (auto intro: rnd_nonneg rnd_le_1)

lemma floor_rnd:
  "\<lfloor>x\<rfloor> \<le> \<lfloor>rnd x\<rfloor>" "\<lceil>rnd x\<rceil> \<le> \<lceil>x\<rceil>"
proof -
  have "of_int \<lfloor>x\<rfloor> \<le> rnd x" using rnd_mono[of "of_int \<lfloor>x\<rfloor>" x] rnd_int by simp
  then show "\<lfloor>x\<rfloor> \<le> \<lfloor>rnd x\<rfloor>" by (simp add: le_floor_iff)
  have "rnd x \<le> of_int \<lceil>x\<rceil>" using rnd_mono[of x "of_int \<lceil>x\<rceil>"] rnd_int by simp
  then show "\<lceil>rnd x\<rceil> \<le> \<lceil>x\<rceil>" by (simp add: ceiling_le_iff)
qed

text \<open>A quotient of integers whose divisor is below the resolution of the grid rounds down and up
  to an integer as if the quotient were exact.\<close>

lemma floor_rnd_exact:
  assumes "0 < b" "of_int b * eps < 1"
  shows "\<lfloor>rnd (of_int a / of_int b)\<rfloor> = a div b"
proof -
  let ?x = "of_int a / of_int b :: rat"
  have fl: "\<lfloor>?x\<rfloor> = a div b" by (rule floor_divide_of_int_eq)
  have "a + 1 \<le> b * (a div b + 1)"
    using assms(1) pos_mod_bound[of b a] mult_div_mod_eq[of b a] unfolding distrib_left by linarith
  then have "of_int a + 1 \<le> of_int b * (of_int (a div b) + 1 :: rat)"
    by (metis (mono_tags) of_int_1 of_int_add of_int_le_iff of_int_mult)
  then have "?x + 1 / of_int b \<le> of_int (a div b) + 1"
    using assms(1) by (simp add: field_simps)
  moreover have "rnd ?x \<le> ?x + eps" using rnd_err[of ?x] by linarith
  moreover have "eps < 1 / of_int b" using assms by (simp add: field_simps)
  ultimately have "rnd ?x < of_int (a div b) + 1" by linarith
  moreover have "of_int (a div b) \<le> rnd ?x"
    using floor_rnd(1)[of ?x] by (simp add: fl le_floor_iff)
  ultimately show ?thesis by (simp add: floor_unique)
qed

lemma ceiling_rnd_exact:
  assumes "0 < b" "of_int b * eps < 1"
  shows "\<lceil>rnd (of_int a / of_int b)\<rceil> = - ((- a) div b)"
proof -
  let ?x = "of_int a / of_int b :: rat"
  let ?q = "- ((- a) div b)"
  have cl: "\<lceil>?x\<rceil> = ?q"
    using floor_divide_of_int_eq[of "- a" b, where 'a = rat] by (simp add: ceiling_def)
  have "- a + 1 \<le> b * ((- a) div b + 1)"
    using assms(1) pos_mod_bound[of b "- a"] mult_div_mod_eq[of b "- a"]
    unfolding distrib_left by linarith
  then have "of_int (- a) + 1 \<le> of_int b * (of_int ((- a) div b) + 1 :: rat)"
    by (metis (mono_tags) of_int_1 of_int_add of_int_le_iff of_int_mult)
  then have "of_int ?q - 1 \<le> ?x - 1 / of_int b"
    using assms(1) by (simp add: field_simps)
  moreover have "?x - eps \<le> rnd ?x" using rnd_err[of ?x] by linarith
  moreover have "eps < 1 / of_int b" using assms by (simp add: field_simps)
  ultimately have "of_int ?q - 1 < rnd ?x" by linarith
  moreover have "rnd ?x \<le> of_int ?q"
    using floor_rnd(2)[of ?x] unfolding cl by (simp add: ceiling_le_iff)
  ultimately show ?thesis by (intro ceiling_unique) auto
qed

end

text \<open>Rounding half away from zero to \<open>d\<close> decimal places.\<close>

definition round_dp :: "nat \<Rightarrow> rat \<Rightarrow> rat" where
  "round_dp d x = of_int (round_mode ROUND_HALF_UP (x * 10 ^ d)) / 10 ^ d"

lemma round_half_up_err: "\<bar>of_int (round_mode ROUND_HALF_UP a) - a\<bar> \<le> 1 / 2"
proof -
  have "of_int \<lfloor>a + 1 / 2\<rfloor> \<le> a + 1 / 2" "a + 1 / 2 < of_int \<lfloor>a + 1 / 2\<rfloor> + 1" by linarith+
  moreover have "a - 1 / 2 \<le> of_int \<lceil>a - 1 / 2\<rceil>" "of_int \<lceil>a - 1 / 2\<rceil> < a - 1 / 2 + 1" by linarith+
  ultimately show ?thesis by (auto simp only: round_mode.simps abs_le_iff split: if_splits)
qed

interpretation dp: quotient_rounding "round_dp d" "1 / (2 * 10 ^ d)" for d
proof
  show "round_dp d x \<le> round_dp d y" if "x \<le> y" for x y
    using that round_mode_mono[of "x * 10 ^ d" "y * 10 ^ d" ROUND_HALF_UP]
    by (simp add: round_dp_def divide_right_mono del: round_mode.simps)
  show "round_dp d (of_int k) = of_int k" for k
    using round_mode_of_int[of ROUND_HALF_UP "k * 10 ^ d"]
    by (simp add: round_dp_def del: round_mode.simps round_mode_of_int)
  show "\<bar>round_dp d x - x\<bar> \<le> 1 / (2 * 10 ^ d)" for x
  proof -
    have "\<bar>round_dp d x - x\<bar> = \<bar>of_int (round_mode ROUND_HALF_UP (x * 10 ^ d)) - x * 10 ^ d\<bar> / 10 ^ d"
      by (simp add: round_dp_def field_simps del: round_mode.simps)
    also have "\<dots> \<le> (1 / 2) / 10 ^ d"
      by (intro divide_right_mono round_half_up_err) simp
    finally show ?thesis by simp
  qed
qed

text \<open>The configuration of \<open>@0x/utils\<close>: 78 decimal places.\<close>

abbreviation rnd78 :: "rat \<Rightarrow> rat" where
  "rnd78 \<equiv> round_dp 78"

section \<open>Slippage factors\<close>

text \<open>\<open>1 - s\<close> and \<open>1 + s\<close> are computed on doubles and read by BigNumber as decimals; for a slippage
  in the unit interval they stay between 0 and 1, and between 1 and 2.\<close>

lemma slip_down_bounds:
  assumes "0 \<le> s" "s \<le> 1"
  shows "0 \<le> dec (rnd64 (1 - s))" "dec (rnd64 (1 - s)) \<le> 1"
proof -
  have "0 \<le> rnd64 (1 - s)" "rnd64 (1 - s) \<le> 1"
    using rnd64_mono[of 0 "1 - s"] rnd64_mono[of "1 - s" 1] assms by auto
  then show "0 \<le> dec (rnd64 (1 - s))" "dec (rnd64 (1 - s)) \<le> 1"
    using dec_mono[of 0 "rnd64 (1 - s)"] dec_mono[of "rnd64 (1 - s)" 1] by auto
qed

lemma rnd64_2 [simp]: "rnd64 2 = 2"
  using rnd64_of_nat[of 2] by simp

lemma slip_up_bounds:
  assumes "0 \<le> s" "s \<le> 1"
  shows "1 \<le> dec (rnd64 (1 + s))" "dec (rnd64 (1 + s)) \<le> 2"
proof -
  have "1 \<le> rnd64 (1 + s)" "rnd64 (1 + s) \<le> 2"
    using rnd64_mono[of 1 "1 + s"] rnd64_mono[of "1 + s" 2] assms by auto
  then show "1 \<le> dec (rnd64 (1 + s))" "dec (rnd64 (1 + s)) \<le> 2"
    using dec_mono[of 1 "rnd64 (1 + s)"] dec_mono[of "rnd64 (1 + s)" 2] by auto
qed

section \<open>Exact integers\<close>

text \<open>A finite JavaScript number that is an integer below \<open>2^53 - 1\<close> converts without loss.\<close>

lemma bn_of_number_of_nat: "m + 1 < 2 ^ 53 \<Longrightarrow> bn_of_number (Fin (of_nat m)) = Fin (of_nat m)"
  by (simp add: dec_of_nat)

lemma toNumber_of_nat: "m < 2 ^ 53 \<Longrightarrow> toNumber (Fin (of_nat m)) = Fin (of_nat m)"
  by (simp add: rnd64_of_nat)

lemma js_add_of_nat: "m + n < 2 ^ 53 \<Longrightarrow> js_add (Fin (of_nat m)) (Fin (of_nat n)) = Fin (of_nat (m + n))"
  using rnd64_of_nat[of "m + n"] by simp

lemma js_mul_of_nat: "m * n < 2 ^ 53 \<Longrightarrow> js_mul (Fin (of_nat m)) (Fin (of_nat n)) = Fin (of_nat (m * n))"
  using rnd64_of_nat[of "m * n"] by simp

end
