(* ===== verification/Market_Types.thy ===== *)
theory Market_Types
  imports Big_Number
begin

text \<open>
  The data of the swap aggregator: liquidity sources, market operations, fill data, native orders,
  samples, fills and optimized orders (\<open>src/asset-swapper/types.ts\<close> and
  \<open>src/asset-swapper/utils/market_operation_utils/types.ts\<close>). An optional field is an option; an
  interface tree discriminated by its use, such as \<open>FillData\<close>, is a datatype with one constructor
  per interface. Strings of 20-byte addresses and opaque ids are \<open>string\<close>.
\<close>

unbundle bit_operations_syntax

type_synonym Address = string

section \<open>Sources, sides and chains\<close>

datatype MarketOperation = Sell | Buy

text \<open>The DEX sources, in the order the enum lists them.\<close>

datatype ERC20BridgeSource =
    Native | Uniswap | UniswapV2 | Curve | Balancer | BalancerV2 | Bancor | MakerPsm |
    MStable | Mooniswap | MultiHop | Shell | SushiSwap | Dodo | DodoV2 | CryptoCom | KyberDmm |
    Component | Saddle | UniswapV3 | CurveV2 | Lido | ShibaSwap | AaveV2 | AaveV3 | Compound |
    Synapse | BancorV3 | Synthetix | WOOFi | PancakeSwap | PancakeSwapV2 | BiSwap | MDex |
    KnightSwap | BakerySwap | Nerve | Belt | Ellipsis | ApeSwap | ACryptos | QuickSwap | Dfyn |
    WaultSwap | FirebirdOneSwap | IronSwap | MeshSwap | Dystopia | Pangolin | TraderJoe |
    Platypus | GMX | UbeSwap | MobiusMoney | SpiritSwap | SpookySwap | Beethovenx |
    MorpheusSwap | Yoshi | Velodrome

definition ERC20BridgeSource_values :: "ERC20BridgeSource list" where
  "ERC20BridgeSource_values =
    [Native, Uniswap, UniswapV2, Curve, Balancer, BalancerV2, Bancor, MakerPsm, MStable,
     Mooniswap, MultiHop, Shell, SushiSwap, Dodo, DodoV2, CryptoCom, KyberDmm, Component,
     Saddle, UniswapV3, CurveV2, Lido, ShibaSwap, AaveV2, AaveV3, Compound, Synapse, BancorV3,
     Synthetix, WOOFi, PancakeSwap, PancakeSwapV2, BiSwap, MDex, KnightSwap, BakerySwap, Nerve,
     Belt, Ellipsis, ApeSwap, ACryptos, QuickSwap, Dfyn, WaultSwap, FirebirdOneSwap, IronSwap,
     MeshSwap, Dystopia, Pangolin, TraderJoe, Platypus, GMX, UbeSwap, MobiusMoney, SpiritSwap,
     SpookySwap, Beethovenx, MorpheusSwap, Yoshi, Velodrome]"

text \<open>The string value of every source.\<close>

fun source_value :: "ERC20BridgeSource \<Rightarrow> string" where
  "source_value Native = ''Native''"
| "source_value Uniswap = ''Uniswap''"
| "source_value UniswapV2 = ''Uniswap_V2''"
| "source_value Curve = ''Curve''"
| "source_value Balancer = ''Balancer''"
| "source_value BalancerV2 = ''Balancer_V2''"
| "source_value Bancor = ''Bancor''"
| "source_value MakerPsm = ''MakerPsm''"
| "source_value MStable = ''mStable''"
| "source_value Mooniswap = ''Mooniswap''"
| "source_value MultiHop = ''MultiHop''"
| "source_value Shell = ''Shell''"
| "source_value SushiSwap = ''SushiSwap''"
| "source_value Dodo = ''DODO''"
| "source_value DodoV2 = ''DODO_V2''"
| "source_value CryptoCom = ''CryptoCom''"
| "source_value KyberDmm = ''KyberDMM''"
| "source_value Component = ''Component''"
| "source_value Saddle = ''Saddle''"
| "source_value UniswapV3 = ''Uniswap_V3''"
| "source_value CurveV2 = ''Curve_V2''"
| "source_value Lido = ''Lido''"
| "source_value ShibaSwap = ''ShibaSwap''"
| "source_value AaveV2 = ''Aave_V2''"
| "source_value AaveV3 = ''Aave_V3''"
| "source_value Compound = ''Compound''"
| "source_value Synapse = ''Synapse''"
| "source_value BancorV3 = ''BancorV3''"
| "source_value Synthetix = ''Synthetix''"
| "source_value WOOFi = ''WOOFi''"
| "source_value PancakeSwap = ''PancakeSwap''"
| "source_value PancakeSwapV2 = ''PancakeSwap_V2''"
| "source_value BiSwap = ''BiSwap''"
| "source_value MDex = ''MDex''"
| "source_value KnightSwap = ''KnightSwap''"
| "source_value BakerySwap = ''BakerySwap''"
| "source_value Nerve = ''Nerve''"
| "source_value Belt = ''Belt''"
| "source_value Ellipsis = ''Ellipsis''"
| "source_value ApeSwap = ''ApeSwap''"
| "source_value ACryptos = ''ACryptoS''"
| "source_value QuickSwap = ''QuickSwap''"
| "source_value Dfyn = ''Dfyn''"
| "source_value WaultSwap = ''WaultSwap''"
| "source_value FirebirdOneSwap = ''FirebirdOneSwap''"
| "source_value IronSwap = ''IronSwap''"
| "source_value MeshSwap = ''MeshSwap''"
| "source_value Dystopia = ''Dystopia''"
| "source_value Pangolin = ''Pangolin''"
| "source_value TraderJoe = ''TraderJoe''"
| "source_value Platypus = ''Platypus''"
| "source_value GMX = ''GMX''"
| "source_value UbeSwap = ''UbeSwap''"
| "source_value MobiusMoney = ''MobiusMoney''"
| "source_value SpiritSwap = ''SpiritSwap''"
| "source_value SpookySwap = ''SpookySwap''"
| "source_value Beethovenx = ''Beethovenx''"
| "source_value MorpheusSwap = ''MorpheusSwap''"
| "source_value Yoshi = ''Yoshi''"
| "source_value Velodrome = ''Velodrome''"

datatype ChainId =
    Mainnet | Goerli | Ganache | BSC | Polygon | PolygonMumbai | Avalanche | Fantom | Celo
  | Optimism | Arbitrum

text \<open>The order types of the fill-quote transformer.\<close>

datatype FillQuoteTransformerOrderType = Bridge | Limit | Rfq | Otc

section \<open>Native orders\<close>

text \<open>The fields of a signed native order that the aggregator reads; the taker fee is that of a limit
  order.\<close>

record OrderFields =
  ord_maker :: Address
  ord_taker :: Address
  ord_makerToken :: Address
  ord_takerToken :: Address
  ord_makerAmount :: BigNumber
  ord_takerAmount :: BigNumber
  ord_takerTokenFeeAmount :: BigNumber
  ord_expiry :: BigNumber

record SignedNativeOrder =
  sno_order :: OrderFields
  sno_type :: FillQuoteTransformerOrderType
  sno_signature :: string

record NativeOrderFillableAmountFields =
  fillableMakerAmount :: BigNumber
  fillableTakerAmount :: BigNumber
  fillableTakerFeeAmount :: BigNumber

record NativeOrderWithFillableAmounts = SignedNativeOrder +
  nof_amounts :: NativeOrderFillableAmountFields

section \<open>Fill data\<close>

record CurveInfo =
  exchangeFunctionSelector :: string
  sellQuoteFunctionSelector :: string
  buyQuoteFunctionSelector :: string
  curve_poolAddress :: Address
  curve_tokens :: "Address list"
  metaTokens :: "Address list option"
  curve_gasSchedule :: js_number

record BalancerBatchSwapStep =
  step_poolId :: string
  assetInIndex :: nat
  assetOutIndex :: nat
  step_amount :: BigNumber
  userData :: string

record PathAmount =
  pa_path :: string
  pa_inputAmount :: BigNumber
  pa_gasUsed :: js_number

record AaveV3L2EncodedParameter =
  l2_inputAmount :: BigNumber
  l2Parameter :: string

datatype FillData =
    NoFillData
  | NativeFD NativeOrderWithFillableAmounts
  | CurveFD nat nat CurveInfo \<comment> \<open>fromTokenIdx, toTokenIdx, pool\<close>
  | PoolFD Address \<comment> \<open>Balancer, Shell and Mooniswap fill data: poolAddress\<close>
  | BalancerV2BatchSwapFD Address "BalancerBatchSwapStep list" "Address list" ChainId
  | UniswapV2FD "Address list" Address \<comment> \<open>tokenAddressPath, router\<close>
  | BancorFD "Address list" Address \<comment> \<open>path, networkAddress\<close>
  | DODOFD Address bool Address \<comment> \<open>poolAddress, isSellBase, helperAddress\<close>
  | GenericRouterFD Address
  | MultiHopFD ERC20BridgeSource FillData ERC20BridgeSource FillData Address
      \<comment> \<open>first hop source and data, second hop source and data, intermediate token\<close>
  | MakerPsmFD bool Address Address string Address
      \<comment> \<open>isSellOperation, takerToken, psmAddress, ilkIdentifier, gemTokenAddress\<close>
  | TickDEXMultiPathFD "Address list" Address "PathAmount list"
      \<comment> \<open>tokenAddressPath, router, pathAmounts\<close>
  | FinalTickDEXMultiPathFD "Address list" Address string js_number
      \<comment> \<open>tokenAddressPath, router, path, gasUsed\<close>
  | KyberDmmFD "Address list" Address "Address list"
  | LidoFD Address Address Address Address
      \<comment> \<open>stEthTokenAddress, wstEthTokenAddress, takerToken, makerToken\<close>
  | AaveV2FD Address Address Address Address
      \<comment> \<open>lendingPool, aToken, underlyingToken, takerToken\<close>
  | AaveV3FD Address Address Address Address "AaveV3L2EncodedParameter list"
  | CompoundFD Address Address Address \<comment> \<open>cToken, takerToken, makerToken\<close>
  | GMXFD Address Address Address "Address list"
  | PlatypusFD Address "Address list" "Address list"
  | WOOFiFD Address Address Address ChainId \<comment> \<open>router, takerToken, makerToken, chainId\<close>
  | VelodromeFD Address bool
  | SynthetixFD Address string string ChainId
      \<comment> \<open>synthetix, takerTokenSymbolBytes32, makerTokenSymbolBytes32, chainId\<close>

section \<open>Samples, fills and orders\<close>

record DexSample =
  ds_source :: ERC20BridgeSource
  ds_fillData :: FillData
  ds_input :: BigNumber
  ds_output :: BigNumber

record FillBase =
  fill_input :: BigNumber
  fill_output :: BigNumber
  fill_adjustedOutput :: BigNumber
  fill_gas :: js_number

record Fill = FillBase +
  fill_source :: ERC20BridgeSource
  fill_type :: FillQuoteTransformerOrderType
  fill_fillData :: FillData
  fill_sourcePathId :: string
  fill_flags :: int

record FeeEstimateResult =
  fe_gas :: js_number
  fe_fee :: BigNumber

type_synonym FeeSchedule = "ERC20BridgeSource \<Rightarrow> FillData \<Rightarrow> FeeEstimateResult"
type_synonym GasSchedule = "ERC20BridgeSource \<Rightarrow> FillData \<Rightarrow> js_number"
type_synonym ExchangeProxyOverhead = "int \<Rightarrow> BigNumber"
type_synonym FillAdjustor = "MarketOperation \<Rightarrow> Fill list \<Rightarrow> Fill list"

record OptimizedOrder =
  oo_source :: ERC20BridgeSource
  oo_fillData :: FillData
  oo_type :: FillQuoteTransformerOrderType
  oo_makerToken :: Address
  oo_takerToken :: Address
  oo_makerAmount :: BigNumber
  oo_takerAmount :: BigNumber
  oo_fill :: FillBase

record TwoHopOrder =
  firstHopOrder :: OptimizedOrder
  secondHopOrder :: OptimizedOrder

record OptimizedOrdersByType =
  nativeOrders :: "OptimizedOrder list"
  twoHopOrders :: "TwoHopOrder list"
  bridgeOrders :: "OptimizedOrder list"

record PathContext =
  ctx_side :: MarketOperation
  ctx_inputToken :: Address
  ctx_outputToken :: Address

record SwapQuoteInfo =
  qi_takerAmount :: BigNumber
  qi_totalTakerAmount :: BigNumber
  qi_makerAmount :: BigNumber
  qi_protocolFeeInWeiAmount :: BigNumber
  qi_gas :: js_number
  qi_slippage :: js_number

section \<open>Constants\<close>

definition ZERO_AMOUNT :: BigNumber where
  "ZERO_AMOUNT = Fin 0"

definition MAX_UINT256 :: BigNumber where
  "MAX_UINT256 = Fin (2 ^ 256 - 1)"

definition NULL_ADDRESS :: Address where
  "NULL_ADDRESS = ''0x0000000000000000000000000000000000000000''"

lemma ZERO_AMOUNT_Fin [simp]: "ZERO_AMOUNT = Fin 0"
  by (simp add: ZERO_AMOUNT_def)

section \<open>The source enumeration\<close>

lemma all_sources: "s \<in> set ERC20BridgeSource_values"
  by (cases s) (simp_all add: ERC20BridgeSource_values_def)

lemma distinct_sources: "distinct ERC20BridgeSource_values"
  by (simp add: ERC20BridgeSource_values_def)

lemma distinct_source_values: "distinct (map source_value ERC20BridgeSource_values)"
  by (simp add: ERC20BridgeSource_values_def)

lemma source_value_inj: "source_value a = source_value b \<longleftrightarrow> a = b"
  using distinct_source_values all_sources[of a] all_sources[of b]
  by (auto simp: distinct_map dest: inj_onD)

end
