(* ===== verification/Source_Filters.thy ===== *)
theory Source_Filters
  imports Market_Types
begin

text \<open>
  The allow/deny filter over liquidity sources
  (\<open>src/asset-swapper/utils/market_operation_utils/source_filters.ts\<close>) and the flags that record which
  sources a path uses (\<open>SOURCE_FLAGS\<close> of \<open>constants.ts\<close>, \<open>mergeSourceFlags\<close> of \<open>path.ts\<close>). A filter means a
  set of sources; the lemmas relate every operation to that set, and the flags to the sources merged.
\<close>

section \<open>Source filters\<close>

record SourceFilters =
  validSources :: "ERC20BridgeSource list"
  excludedSources :: "ERC20BridgeSource list"
  includedSources :: "ERC20BridgeSource list"

definition new_SourceFilters ::
  "ERC20BridgeSource list \<Rightarrow> ERC20BridgeSource list \<Rightarrow> ERC20BridgeSource list \<Rightarrow> SourceFilters" where
  "new_SourceFilters valid excluded included =
     \<lparr>validSources = uniq valid, excludedSources = uniq excluded, includedSources = uniq included\<rparr>"

definition SourceFilters_all :: SourceFilters where
  "SourceFilters_all = new_SourceFilters ERC20BridgeSource_values [] []"

definition isAllowed :: "SourceFilters \<Rightarrow> ERC20BridgeSource \<Rightarrow> bool" where
  "isAllowed f source =
     (if length (validSources f) > 0 \<and> source \<notin> set (validSources f) then False
      else if source \<in> set (excludedSources f) then False
      else if length (includedSources f) > 0 \<and> source \<notin> set (includedSources f) then False
      else True)"

definition areAnyAllowed :: "SourceFilters \<Rightarrow> ERC20BridgeSource list \<Rightarrow> bool" where
  "areAnyAllowed f sources = list_ex (isAllowed f) sources"

definition areAllAllowed :: "SourceFilters \<Rightarrow> ERC20BridgeSource list \<Rightarrow> bool" where
  "areAllAllowed f sources = list_all (isAllowed f) sources"

definition getAllowed :: "SourceFilters \<Rightarrow> ERC20BridgeSource list \<Rightarrow> ERC20BridgeSource list" where
  "getAllowed f sources = filter (isAllowed f) sources"

definition filter_sources :: "SourceFilters \<Rightarrow> ERC20BridgeSource list" where
  "filter_sources f = filter (isAllowed f) (validSources f)"

definition exclude :: "SourceFilters \<Rightarrow> ERC20BridgeSource list \<Rightarrow> SourceFilters" where
  "exclude f sources =
     new_SourceFilters (validSources f) (excludedSources f @ sources) (includedSources f)"

definition validate :: "SourceFilters \<Rightarrow> ERC20BridgeSource list \<Rightarrow> SourceFilters" where
  "validate f sources =
     new_SourceFilters (validSources f @ sources) (excludedSources f) (includedSources f)"

definition include_sources :: "SourceFilters \<Rightarrow> ERC20BridgeSource list \<Rightarrow> SourceFilters" where
  "include_sources f sources =
     new_SourceFilters (validSources f) (excludedSources f) (includedSources f @ sources)"

definition merge_filters :: "SourceFilters \<Rightarrow> SourceFilters \<Rightarrow> SourceFilters" where
  "merge_filters f other =
     (let valid = (if length (validSources f) = 0 then validSources other
                   else if length (validSources other) \<noteq> 0
                        then filter (\<lambda>s. s \<in> set (validSources other)) (validSources f)
                        else validSources f)
      in new_SourceFilters valid (excludedSources f @ excludedSources other)
           (includedSources f @ includedSources other))"

section \<open>Source flags\<close>

text \<open>The keys of \<open>SOURCE_FLAGS\<close>: three native order kinds, then the sources.\<close>

datatype SourceFlagKey = RfqOrder | LimitOrder | OtcOrder | SourceKey ERC20BridgeSource

definition source_flag_keys :: "SourceFlagKey list" where
  "source_flag_keys = [RfqOrder, LimitOrder, OtcOrder] @ map SourceKey ERC20BridgeSource_values"

fun index_of :: "'a \<Rightarrow> 'a list \<Rightarrow> nat" where
  "index_of x [] = 0"
| "index_of x (y # ys) = (if x = y then 0 else Suc (index_of x ys))"

definition SOURCE_FLAGS :: "SourceFlagKey \<Rightarrow> int" where
  "SOURCE_FLAGS k =
     (if k = SourceKey Native then 0 else push_bit (index_of k source_flag_keys) 1)"

definition mergeSourceFlags :: "int list \<Rightarrow> int" where
  "mergeSourceFlags flags = foldl (OR) 0 flags"

section \<open>The set a filter means\<close>

definition allowed_set :: "SourceFilters \<Rightarrow> ERC20BridgeSource set" where
  "allowed_set f =
     {s. (validSources f = [] \<or> s \<in> set (validSources f)) \<and> s \<notin> set (excludedSources f) \<and>
         (includedSources f = [] \<or> s \<in> set (includedSources f))}"

lemma isAllowed_iff: "isAllowed f s \<longleftrightarrow> s \<in> allowed_set f"
  by (auto simp: isAllowed_def allowed_set_def)

lemma new_SourceFilters_sel [simp]:
  "set (validSources (new_SourceFilters v e i)) = set v"
  "set (excludedSources (new_SourceFilters v e i)) = set e"
  "set (includedSources (new_SourceFilters v e i)) = set i"
  "validSources (new_SourceFilters v e i) = [] \<longleftrightarrow> v = []"
  "includedSources (new_SourceFilters v e i) = [] \<longleftrightarrow> i = []"
  by (simp_all add: new_SourceFilters_def)

lemma filter_eq_Nil_inter:
  "filter (\<lambda>s. s \<in> set ys) xs = [] \<longleftrightarrow> set xs \<inter> set ys = {}"
  by (auto simp: filter_empty_conv)

lemma allowed_exclude: "allowed_set (exclude f xs) = allowed_set f - set xs"
  by (auto simp: allowed_set_def exclude_def)

lemma allowed_include:
  "allowed_set (include_sources f xs) =
     (if includedSources f = [] \<and> xs \<noteq> [] then allowed_set f \<inter> set xs
      else allowed_set f \<union>
        (if includedSources f = [] then {} else
         {s \<in> set xs. (validSources f = [] \<or> s \<in> set (validSources f)) \<and> s \<notin> set (excludedSources f)}))"
  by (auto simp: allowed_set_def include_sources_def)

text \<open>Merging two filters is intersecting their sets, as long as their valid lists share a source
  (or one is unrestricted) and not both restrict by inclusion.\<close>

lemma allowed_merge:
  assumes "validSources f = [] \<or> validSources g = [] \<or>
             set (validSources f) \<inter> set (validSources g) \<noteq> {}"
    and "includedSources f = [] \<or> includedSources g = []"
  shows "allowed_set (merge_filters f g) = allowed_set f \<inter> allowed_set g"
  using assms by (auto simp: allowed_set_def merge_filters_def Let_def filter_eq_Nil_inter)

text \<open>Two filters whose valid lists are disjoint merge into a filter with no valid list at all,
  which allows every source that neither excludes: the restriction of both is lost.\<close>

lemma merge_disjoint_allows_all:
  assumes "validSources f \<noteq> []" "validSources g \<noteq> []"
    and "set (validSources f) \<inter> set (validSources g) = {}"
    and "includedSources f = []" "includedSources g = []"
  shows "isAllowed (merge_filters f g) s \<longleftrightarrow>
           s \<notin> set (excludedSources f) \<and> s \<notin> set (excludedSources g)"
proof -
  have "filter (\<lambda>s. s \<in> set (validSources g)) (validSources f) = []"
    using assms(3) by (simp add: filter_eq_Nil_inter)
  then show ?thesis using assms
    by (auto simp: isAllowed_iff allowed_set_def merge_filters_def Let_def)
qed

section \<open>Bits of the flags\<close>

lemma index_of_inj:
  "x \<in> set xs \<Longrightarrow> y \<in> set xs \<Longrightarrow> index_of x xs = index_of y xs \<Longrightarrow> x = y"
  by (induction xs) (auto split: if_splits)

lemma key_in: "k \<in> set source_flag_keys"
  using all_sources by (cases k) (auto simp: source_flag_keys_def)

lemma bit_SOURCE_FLAGS:
  "bit (SOURCE_FLAGS k) n \<longleftrightarrow> k \<noteq> SourceKey Native \<and> n = index_of k source_flag_keys"
  by (auto simp: SOURCE_FLAGS_def bit_exp_iff)

lemma bit_foldl_OR: "bit (foldl (OR) (a :: int) fs) n \<longleftrightarrow> bit a n \<or> (\<exists>f \<in> set fs. bit f n)"
  by (induction fs arbitrary: a) (auto simp: bit_or_iff)

lemma bit_mergeSourceFlags: "bit (mergeSourceFlags fs) n \<longleftrightarrow> (\<exists>f \<in> set fs. bit f n)"
  by (simp add: mergeSourceFlags_def bit_foldl_OR)

lemma foldl_OR_nonneg: "0 \<le> (a :: int) \<Longrightarrow> \<forall>f \<in> set fs. 0 \<le> f \<Longrightarrow> 0 \<le> foldl (OR) a fs"
  by (induction fs arbitrary: a) auto

lemma SOURCE_FLAGS_nonneg [simp]: "0 \<le> SOURCE_FLAGS k"
  by (simp add: SOURCE_FLAGS_def)

text \<open>Testing a merged flag word against the flag of one key.\<close>

lemma and_flag_pos_iff:
  assumes "k \<noteq> SourceKey Native"
  shows "0 < (w AND SOURCE_FLAGS k) \<longleftrightarrow> bit w (index_of k source_flag_keys)"
proof -
  let ?n = "index_of k source_flag_keys"
  have "w AND SOURCE_FLAGS k = (if bit w ?n then SOURCE_FLAGS k else 0)"
    by (rule bit_eqI) (auto simp: bit_and_iff bit_SOURCE_FLAGS)
  moreover have "0 < SOURCE_FLAGS k" using assms by (simp add: SOURCE_FLAGS_def)
  ultimately show ?thesis by simp
qed

lemma merged_flags_test:
  assumes "k \<noteq> SourceKey Native"
  shows "0 < (mergeSourceFlags (map SOURCE_FLAGS ks) AND SOURCE_FLAGS k) \<longleftrightarrow> k \<in> set ks"
  using assms key_in index_of_inj[of k source_flag_keys]
  by (auto simp: and_flag_pos_iff bit_mergeSourceFlags bit_SOURCE_FLAGS)

section \<open>Properties\<close>

text \<open>Every query of a filter answers for the same set of sources, and excluding sources removes
  exactly those from it.\<close>

theorem source_filter_queries:
  "(areAnyAllowed f xs \<longleftrightarrow> set xs \<inter> allowed_set f \<noteq> {}) \<and>
   (areAllAllowed f xs \<longleftrightarrow> set xs \<subseteq> allowed_set f) \<and>
   set (getAllowed f xs) = set xs \<inter> allowed_set f \<and>
   set (filter_sources f) = set (validSources f) \<inter> allowed_set f \<and>
   (isAllowed (exclude f xs) s \<longleftrightarrow> isAllowed f s \<and> s \<notin> set xs)"
  by (auto simp: areAnyAllowed_def areAllAllowed_def getAllowed_def filter_sources_def isAllowed_iff allowed_exclude
      list_ex_iff list_all_iff)

text \<open>Merging two filters allows exactly what both allow, provided their valid lists overlap (or one
  of them is empty) and at most one of them has an inclusion list.\<close>

theorem merge_filters_intersect:
  assumes "validSources f = [] \<or> validSources g = [] \<or>
             set (validSources f) \<inter> set (validSources g) \<noteq> {}"
    and "includedSources f = [] \<or> includedSources g = []"
  shows "isAllowed (merge_filters f g) s \<longleftrightarrow> isAllowed f s \<and> isAllowed g s"
  using allowed_merge[OF assms] by (simp add: isAllowed_iff)

theorem merge_filters_intersect_witness:
  "\<not> isAllowed (merge_filters (new_SourceFilters [Native, Curve] [] [])
                 (new_SourceFilters [Curve, Lido] [Curve] [])) Curve"
proof -
  let ?f = "new_SourceFilters [Native, Curve] [] []"
  let ?g = "new_SourceFilters [Curve, Lido] [Curve] []"
  have "isAllowed (merge_filters ?f ?g) Curve \<longleftrightarrow> isAllowed ?f Curve \<and> isAllowed ?g Curve"
    by (rule merge_filters_intersect) auto
  moreover have "\<not> isAllowed ?g Curve" by (simp add: isAllowed_def)
  ultimately show ?thesis by simp
qed

text \<open>The merged flag word of a list of flag keys tests positive for a key exactly when that key
  was merged: distinct sources never share a bit. The source Native has no bit of its own.\<close>

theorem source_flags_faithful:
  "(k \<noteq> SourceKey Native \<longrightarrow>
     (0 < (mergeSourceFlags (map SOURCE_FLAGS ks) AND SOURCE_FLAGS k) \<longleftrightarrow> k \<in> set ks)) \<and>
   SOURCE_FLAGS (SourceKey Native) = 0"
  by (auto simp: merged_flags_test) (simp add: SOURCE_FLAGS_def)

theorem source_flags_faithful_witness:
  "0 < (mergeSourceFlags (map SOURCE_FLAGS [SourceKey Curve, SourceKey MultiHop])
         AND SOURCE_FLAGS (SourceKey MultiHop))"
  using source_flags_faithful[of "SourceKey MultiHop" "[SourceKey Curve, SourceKey MultiHop]"]
  by simp

end
