(* ===== verification/Fills.thy ===== *)
theory Fills
  imports Source_Filters
begin

text \<open>
  Rates (\<open>rate_utils.ts\<close>), the fillable amounts of native orders (\<open>src/asset-swapper/utils/utils.ts\<close>)
  and the conversion of orders and samples to fills (\<open>fills.ts\<close>). A random path id drawn by
  \<open>hexUtils.random()\<close> is an argument, and so are the fee schedule and the rounding of quotients.
\<close>

section \<open>Rates\<close>

definition getCompleteRate ::
  "(rat \<Rightarrow> rat) \<Rightarrow> MarketOperation \<Rightarrow> BigNumber \<Rightarrow> BigNumber \<Rightarrow> BigNumber \<Rightarrow> BigNumber" where
  "getCompleteRate rnd side input output targetInput =
     (if bn_eq input 0 \<or> bn_eq output 0 \<or> bn_eq targetInput 0 then ZERO_AMOUNT
      else if side = Sell then bn_div rnd output targetInput
      else bn_div rnd input output * bn_div rnd input targetInput)"

definition getRate :: "(rat \<Rightarrow> rat) \<Rightarrow> MarketOperation \<Rightarrow> BigNumber \<Rightarrow> BigNumber \<Rightarrow> BigNumber" where
  "getRate rnd side input output =
     (if bn_eq input 0 \<or> bn_eq output 0 then ZERO_AMOUNT
      else if side = Sell then bn_div rnd output input else bn_div rnd input output)"

section \<open>Fillable amounts of native orders\<close>

definition getNativeAdjustedMakerFillAmount ::
  "(rat \<Rightarrow> rat) \<Rightarrow> OrderFields \<Rightarrow> BigNumber \<Rightarrow> BigNumber" where
  "getNativeAdjustedMakerFillAmount rnd order takerFillAmount =
     integerValue ROUND_FLOOR
       (bn_div rnd (takerFillAmount * ord_makerAmount order) (ord_takerAmount order))"

definition getNativeAdjustedTakerFillAmount ::
  "(rat \<Rightarrow> rat) \<Rightarrow> OrderFields \<Rightarrow> BigNumber \<Rightarrow> BigNumber" where
  "getNativeAdjustedTakerFillAmount rnd order makerFillAmount =
     integerValue ROUND_CEIL
       (bn_div rnd (makerFillAmount * ord_takerAmount order) (ord_makerAmount order))"

definition getNativeAdjustedTakerFeeAmount ::
  "(rat \<Rightarrow> rat) \<Rightarrow> OrderFields \<Rightarrow> BigNumber \<Rightarrow> BigNumber" where
  "getNativeAdjustedTakerFeeAmount rnd order takerFillAmount =
     integerValue ROUND_FLOOR
       (bn_div rnd (takerFillAmount * ord_takerTokenFeeAmount order) (ord_takerAmount order))"

definition EMPTY_FILLABLE_AMOUNTS :: NativeOrderFillableAmountFields where
  "EMPTY_FILLABLE_AMOUNTS =
     \<lparr>fillableMakerAmount = ZERO_AMOUNT, fillableTakerAmount = ZERO_AMOUNT,
      fillableTakerFeeAmount = ZERO_AMOUNT\<rparr>"

definition getNativeAdjustedFillableAmountsFromTakerAmount ::
  "(rat \<Rightarrow> rat) \<Rightarrow> ('a) SignedNativeOrder_scheme \<Rightarrow> BigNumber \<Rightarrow> NativeOrderFillableAmountFields" where
  "getNativeAdjustedFillableAmountsFromTakerAmount rnd order takerFillableAmount =
     (if bn_eq takerFillableAmount 0 then EMPTY_FILLABLE_AMOUNTS
      else \<lparr>fillableMakerAmount =
              getNativeAdjustedMakerFillAmount rnd (sno_order order) takerFillableAmount,
            fillableTakerAmount = takerFillableAmount,
            fillableTakerFeeAmount =
              (if sno_type order = Limit
               then getNativeAdjustedTakerFeeAmount rnd (sno_order order) takerFillableAmount
               else ZERO_AMOUNT)\<rparr>)"

definition getNativeAdjustedFillableAmountsFromMakerAmount ::
  "(rat \<Rightarrow> rat) \<Rightarrow> ('a) SignedNativeOrder_scheme \<Rightarrow> BigNumber \<Rightarrow> NativeOrderFillableAmountFields" where
  "getNativeAdjustedFillableAmountsFromMakerAmount rnd order makerFillableAmount =
     (if bn_eq makerFillableAmount 0 then EMPTY_FILLABLE_AMOUNTS
      else let takerFillableAmount =
                 getNativeAdjustedTakerFillAmount rnd (sno_order order) makerFillableAmount
           in \<lparr>fillableMakerAmount = makerFillableAmount,
               fillableTakerAmount = takerFillableAmount,
               fillableTakerFeeAmount =
                 (if sno_type order = Limit
                  then getNativeAdjustedTakerFeeAmount rnd (sno_order order) takerFillableAmount
                  else ZERO_AMOUNT)\<rparr>)"

section \<open>Fills\<close>

fun toNativeSourceFlagKey :: "FillQuoteTransformerOrderType \<Rightarrow> SourceFlagKey" where
  "toNativeSourceFlagKey Limit = LimitOrder"
| "toNativeSourceFlagKey Rfq = RfqOrder"
| "toNativeSourceFlagKey Otc = OtcOrder"
| "toNativeSourceFlagKey Bridge = LimitOrder"

definition ethToOutputAmount ::
  "BigNumber \<Rightarrow> BigNumber \<Rightarrow> BigNumber \<Rightarrow> BigNumber \<Rightarrow> BigNumber \<Rightarrow> BigNumber" where
  "ethToOutputAmount input output inputAmountPerEth outputAmountPerEth ethAmount =
     (if \<not> bn_eq outputAmountPerEth 0
      then integerValue_default (outputAmountPerEth * ethAmount)
      else inputAmountPerEth * ethAmount * dividedToIntegerBy output input)"

definition adjustOutput :: "MarketOperation \<Rightarrow> BigNumber \<Rightarrow> BigNumber \<Rightarrow> BigNumber" where
  "adjustOutput side output penalty = (if side = Sell then output - penalty else output + penalty)"

definition nativeOrderToFill ::
  "(rat \<Rightarrow> rat) \<Rightarrow> string \<Rightarrow> MarketOperation \<Rightarrow> NativeOrderWithFillableAmounts \<Rightarrow> BigNumber \<Rightarrow>
   BigNumber \<Rightarrow> BigNumber \<Rightarrow> FeeSchedule \<Rightarrow> bool \<Rightarrow> Fill option" where
  "nativeOrderToFill rnd sourcePathId side order targetInput outputAmountPerEth inputAmountPerEth
       fees filterNegativeAdjustedRateOrders =
     (let makerAmount = fillableMakerAmount (nof_amounts order);
          takerAmount = fillableTakerAmount (nof_amounts order)
                        + fillableTakerFeeAmount (nof_amounts order);
          input = (if side = Sell then takerAmount else makerAmount);
          output = (if side = Sell then makerAmount else takerAmount);
          est = fees Native (NativeFD order);
          outputPenalty =
            ethToOutputAmount input output inputAmountPerEth outputAmountPerEth (fe_fee est);
          clippedInput = bn_min targetInput input;
          clippedOutput = bn_div rnd clippedInput input * output;
          adjustedOutput = (if side = Sell then clippedOutput - outputPenalty
                            else clippedOutput + outputPenalty);
          adjustedRate = (if side = Sell then bn_div rnd adjustedOutput clippedInput
                          else bn_div rnd clippedInput adjustedOutput)
      in if filterNegativeAdjustedRateOrders \<and> adjustedRate \<le> 0 then None
         else Some \<lparr>fill_input = clippedInput, fill_output = clippedOutput,
                    fill_adjustedOutput = adjustedOutput, fill_gas = fe_gas est,
                    fill_source = Native, fill_type = sno_type order,
                    fill_fillData = NativeFD order, fill_sourcePathId = sourcePathId,
                    fill_flags = SOURCE_FLAGS (toNativeSourceFlagKey (sno_type order))\<rparr>)"

definition dexSampleToFill ::
  "string \<Rightarrow> MarketOperation \<Rightarrow> DexSample \<Rightarrow> BigNumber \<Rightarrow> BigNumber \<Rightarrow> FeeSchedule \<Rightarrow> Fill" where
  "dexSampleToFill sourcePathId side sample outputAmountPerEth inputAmountPerEth fees =
     (let est = fees (ds_source sample) (ds_fillData sample);
          penalty = ethToOutputAmount (ds_input sample) (ds_output sample) inputAmountPerEth
                      outputAmountPerEth (fe_fee est)
      in \<lparr>fill_input = ds_input sample, fill_output = ds_output sample,
          fill_adjustedOutput = adjustOutput side (ds_output sample) penalty,
          fill_gas = fe_gas est, fill_source = ds_source sample, fill_type = Bridge,
          fill_fillData = ds_fillData sample, fill_sourcePathId = sourcePathId,
          fill_flags = SOURCE_FLAGS (SourceKey (ds_source sample))\<rparr>)"

text \<open>The sample of a two-hop fill carries multi-hop fill data; on any other fill data the code
  reads a property of undefined.\<close>

definition twoHopSampleToFill ::
  "MarketOperation \<Rightarrow> DexSample \<Rightarrow> BigNumber \<Rightarrow> (FillData \<Rightarrow> FeeEstimateResult) \<Rightarrow> js_error + Fill" where
  "twoHopSampleToFill side twoHopSample outputAmountPerEth multihopFeeEstimate =
     (case ds_fillData twoHopSample of
        MultiHopFD src1 fd1 src2 fd2 tok \<Rightarrow>
          (let flags = SOURCE_FLAGS (SourceKey MultiHop) OR SOURCE_FLAGS (SourceKey src1)
                       OR SOURCE_FLAGS (SourceKey src2);
               sourcePenalty = integerValue_default
                 (outputAmountPerEth * fe_fee (multihopFeeEstimate (ds_fillData twoHopSample)))
           in Inr \<lparr>fill_input = ds_input twoHopSample, fill_output = ds_output twoHopSample,
                   fill_adjustedOutput = adjustOutput side (ds_output twoHopSample) sourcePenalty,
                   fill_gas = 0, fill_source = ds_source twoHopSample, fill_type = Bridge,
                   fill_fillData = ds_fillData twoHopSample,
                   fill_sourcePathId = source_value MultiHop @ ''-'' @ source_value src1 @ ''-''
                                       @ source_value src2,
                   fill_flags = flags\<rparr>)
      | _ \<Rightarrow> Inl TypeError)"

section \<open>Amounts of native orders\<close>

text \<open>An order of the exchange: integer amounts below \<open>2\<^sup>2\<^sup>5\<^sup>6\<close>, the amounts exchanged positive.\<close>

definition uint256_order :: "OrderFields \<Rightarrow> int \<Rightarrow> int \<Rightarrow> int \<Rightarrow> bool" where
  "uint256_order order m t f \<longleftrightarrow>
     ord_makerAmount order = Fin (of_int m) \<and> ord_takerAmount order = Fin (of_int t) \<and>
     ord_takerTokenFeeAmount order = Fin (of_int f) \<and>
     0 < m \<and> m < 2 ^ 256 \<and> 0 < t \<and> t < 2 ^ 256 \<and> 0 \<le> f \<and> f < 2 ^ 256"

lemma uint256_resolution: "b < 2 ^ 256 \<Longrightarrow> of_int b * (1 / (2 * 10 ^ 78)) < (1 :: rat)"
proof -
  assume "b < 2 ^ 256"
  then have "of_int b < (2 ^ 256 :: rat)" by (metis of_int_less_iff of_int_numeral of_int_power)
  also have "(2 ^ 256 :: rat) < 2 * 10 ^ 78" by simp
  finally show ?thesis by simp
qed

lemma quotient_floor:
  assumes "0 < b" "b < 2 ^ 256"
  shows "integerValue ROUND_FLOOR (bn_div rnd78 (Fin (of_int a)) (Fin (of_int b)))
         = Fin (of_int (a div b))"
  using assms dp.floor_rnd_exact[of b 78 a] uint256_resolution by simp

lemma quotient_ceiling:
  assumes "0 < b" "b < 2 ^ 256"
  shows "integerValue ROUND_CEIL (bn_div rnd78 (Fin (of_int a)) (Fin (of_int b)))
         = Fin (of_int (- ((- a) div b)))"
  using assms dp.ceiling_rnd_exact[of b 78 a] uint256_resolution by simp

lemma Fin_of_int_mult: "Fin (of_int a) * Fin (of_int b) = Fin (of_int (a * b))"
  by simp

lemma makerFill_exact:
  assumes "uint256_order order m t f"
  shows "getNativeAdjustedMakerFillAmount rnd78 order (Fin (of_int x)) = Fin (of_int (x * m div t))"
  using assms
  by (simp only: getNativeAdjustedMakerFillAmount_def uint256_order_def Fin_of_int_mult quotient_floor)

lemma takerFill_exact:
  assumes "uint256_order order m t f"
  shows "getNativeAdjustedTakerFillAmount rnd78 order (Fin (of_int y))
         = Fin (of_int (- ((- (y * t)) div m)))"
  using assms
  by (simp only: getNativeAdjustedTakerFillAmount_def uint256_order_def Fin_of_int_mult quotient_ceiling)

lemma takerFee_exact:
  assumes "uint256_order order m t f"
  shows "getNativeAdjustedTakerFeeAmount rnd78 order (Fin (of_int x)) = Fin (of_int (x * f div t))"
  using assms
  by (simp only: getNativeAdjustedTakerFeeAmount_def uint256_order_def Fin_of_int_mult quotient_floor)

lemma le_div_iff_int: "0 < c \<Longrightarrow> b \<le> a div c \<longleftrightarrow> b * c \<le> (a :: int)"
proof
  assume "0 < c" "b \<le> a div c"
  then have "b * c \<le> a div c * c" by simp
  also have "\<dots> \<le> a" using \<open>0 < c\<close> pos_mod_sign[of c a] div_mult_mod_eq[of a c] by linarith
  finally show "b * c \<le> a" .
next
  assume "0 < c" "b * c \<le> a"
  then show "b \<le> a div c" using zdiv_mono1[of "b * c" a c] by simp
qed

lemma ceil_div_le_iff: "0 < c \<Longrightarrow> - ((- a) div c) \<le> b \<longleftrightarrow> a \<le> b * (c :: int)"
  using le_div_iff_int[of c "- b" "- a"] by auto

section \<open>Penalties\<close>

lemma ethToOutputAmount_nonneg:
  assumes "0 < p" "0 \<le> e"
  shows "\<exists>a. ethToOutputAmount input output inPerEth (Fin p) (Fin e) = Fin a \<and> 0 \<le> a"
  using assms by (simp add: ethToOutputAmount_def del: round_mode.simps)

context quotient_rounding
begin

text \<open>The complete rate is the rate scaled down by the share of the target that is filled.\<close>

lemma complete_rate_le_rate:
  assumes "0 < i" "i \<le> t" "0 < out"
  shows "getCompleteRate rnd side (Fin i) (Fin out) (Fin t) \<le> getRate rnd side (Fin i) (Fin out)"
proof (cases side)
  case Sell
  then show ?thesis using assms
    by (auto simp: getCompleteRate_def getRate_def intro!: rnd_mono divide_left_mono)
next
  case Buy
  have "rnd (i / out) * rnd (i / t) \<le> rnd (i / out)"
    using assms rnd_share[of i t] rnd_nonneg[of "i / out"] by (simp add: mult_left_le)
  then show ?thesis using Buy assms by (auto simp: getCompleteRate_def getRate_def)
qed

lemma complete_rate_full:
  assumes "0 < i"
  shows "getCompleteRate rnd side (Fin i) (Fin out) (Fin i) = getRate rnd side (Fin i) (Fin out)"
  using assms by (cases side) (auto simp: getCompleteRate_def getRate_def)

lemma rnd_pos_imp: "0 < rnd x \<Longrightarrow> 0 < x"
  using rnd_nonpos[of x] by linarith

text \<open>The fill of a native order whose amounts and fee are non-negative numbers.\<close>

lemma clip_cases:
  assumes "0 < i" "target = PosInf \<or> target = Fin g \<and> 0 < g"
  obtains c where "bn_min target (Fin i) = Fin c" "0 < c" "c \<le> i"
proof (cases "target = PosInf")
  case True
  then show thesis using that[of i] assms by (simp add: bn_min_def)
next
  case False
  then show thesis using that[of "min g i"] assms by simp
qed

lemma native_fill_shape:
  assumes amounts: "fillableMakerAmount (nof_amounts order) = Fin mk"
      "fillableTakerAmount (nof_amounts order) + fillableTakerFeeAmount (nof_amounts order) = Fin tk"
      "0 < mk" "0 < tk"
    and target: "target = PosInf \<or> target = Fin g \<and> 0 < g"
    and fee: "fe_fee (fees Native (NativeFD order)) = Fin e" "0 \<le> e" "0 < p"
    and fill: "nativeOrderToFill rnd pid side order target (Fin p) inPerEth fees flt = Some fl"
  defines "input \<equiv> (if side = Sell then tk else mk)" and "output \<equiv> (if side = Sell then mk else tk)"
  shows "\<exists>c z a. fill_input fl = Fin c \<and> bn_min target (Fin input) = Fin c \<and> 0 < c \<and> c \<le> input \<and>
     fill_output fl = Fin (z * output) \<and> z = rnd (c / input) \<and> 0 \<le> z \<and> z \<le> 1 \<and>
     fill_adjustedOutput fl = Fin a \<and>
     (side = Sell \<longrightarrow> a \<le> z * output \<and> (flt \<longrightarrow> 0 < a)) \<and> (side = Buy \<longrightarrow> z * output \<le> a)"
proof -
  have pos: "0 < input" "0 < output" using amounts by (simp_all add: input_def output_def)
  obtain c where c: "bn_min target (Fin input) = Fin c" "0 < c" "c \<le> input"
    using clip_cases[OF pos(1) target] by blast
  obtain w where w: "ethToOutputAmount (Fin input) (Fin output) inPerEth (Fin p) (Fin e) = Fin w" "0 \<le> w"
    using ethToOutputAmount_nonneg[OF fee(3,2)] by blast
  have z: "0 \<le> rnd (c / input)" "rnd (c / input) \<le> 1"
    using rnd_share[of c input] c pos by auto
  show ?thesis
  proof (cases side)
    case Sell
    then show ?thesis using fill amounts fee c w z pos
      by (auto simp: nativeOrderToFill_def Let_def input_def output_def not_le
          split: if_splits dest!: rnd_pos_imp simp: zero_less_divide_iff)
  next
    case Buy
    then show ?thesis using fill amounts fee c w z pos
      by (auto simp: nativeOrderToFill_def Let_def input_def output_def split: if_splits)
  qed
qed

end

section \<open>Properties\<close>

text \<open>C11: For an order with uint256 amounts, the taker amount computed for a maker amount and the maker
  amount computed for a taker amount form a Galois connection, so converting back and forth never
  favours the taker: the taker amount for \<open>y\<close> is at most \<open>x\<close> exactly when \<open>y\<close> is at most the maker
  amount for \<open>x\<close>. The decimal rounding of BigNumber quotients does not disturb this.\<close>

theorem native_fill_galois:
  assumes "uint256_order order m t f"
  shows "getNativeAdjustedTakerFillAmount rnd78 order (Fin (of_int y)) \<le> Fin (of_int x) \<longleftrightarrow>
         Fin (of_int y) \<le> getNativeAdjustedMakerFillAmount rnd78 order (Fin (of_int x))"
proof -
  have "0 < m" "0 < t" using assms by (auto simp: uint256_order_def)
  then have "- ((- (y * t)) div m) \<le> x \<longleftrightarrow> y \<le> x * m div t"
    by (simp add: ceil_div_le_iff le_div_iff_int)
  then show ?thesis
    by (simp only: makerFill_exact[OF assms] takerFill_exact[OF assms] xnum_arith of_int_le_iff)
qed

definition sample_order :: OrderFields where
  "sample_order = \<lparr>ord_maker = ''m'', ord_taker = NULL_ADDRESS, ord_makerToken = ''A'', ord_takerToken = ''B'',
     ord_makerAmount = Fin 10, ord_takerAmount = Fin 3, ord_takerTokenFeeAmount = Fin 1,
     ord_expiry = Fin 0\<rparr>"

lemma sample_order_uint256: "uint256_order sample_order 10 3 1"
  by (simp add: uint256_order_def sample_order_def)

theorem native_fill_galois_witness:
  "getNativeAdjustedTakerFillAmount rnd78 sample_order (Fin 7) \<le> Fin 3 \<longleftrightarrow>
   Fin 7 \<le> getNativeAdjustedMakerFillAmount rnd78 sample_order (Fin 3)"
  using native_fill_galois[OF sample_order_uint256, of 7 3] by simp

text \<open>The fillable amounts computed from a taker amount that fits the order fit the order: they are
  integers, the maker amount and the fee are at most the order's, and the full taker amount gives
  exactly the order's amounts; only limit orders charge a fee.\<close>

theorem fillable_amounts_within_order:
  assumes "uint256_order (sno_order order) m t f" "0 < x" "x \<le> t"
  shows "\<exists>mk fee. getNativeAdjustedFillableAmountsFromTakerAmount rnd78 order (Fin (of_int x)) =
       \<lparr>fillableMakerAmount = Fin (of_int mk), fillableTakerAmount = Fin (of_int x),
        fillableTakerFeeAmount = Fin (of_int fee)\<rparr> \<and>
     0 \<le> mk \<and> mk \<le> m \<and> 0 \<le> fee \<and> fee \<le> f \<and> (sno_type order \<noteq> Limit \<longrightarrow> fee = 0) \<and>
     (x = t \<longrightarrow> mk = m \<and> (sno_type order = Limit \<longrightarrow> fee = f))"
proof -
  have pos: "0 < m" "0 < t" "0 \<le> f" using assms by (auto simp: uint256_order_def)
  have share: "0 \<le> x * k div t \<and> x * k div t \<le> k \<and> (x = t \<longrightarrow> x * k div t = k)" if "0 \<le> k" for k
  proof -
    have "x * k div t \<le> t * k div t"
      using assms that pos by (intro zdiv_mono1 mult_right_mono) auto
    then show ?thesis using assms that pos by (simp add: pos_imp_zdiv_nonneg_iff)
  qed
  let ?fee = "if sno_type order = Limit then x * f div t else 0"
  have "getNativeAdjustedFillableAmountsFromTakerAmount rnd78 order (Fin (of_int x)) =
       \<lparr>fillableMakerAmount = Fin (of_int (x * m div t)), fillableTakerAmount = Fin (of_int x),
        fillableTakerFeeAmount = Fin (of_int ?fee)\<rparr>"
    using makerFill_exact[OF assms(1), of x] takerFee_exact[OF assms(1), of x] assms(2)
    by (simp add: getNativeAdjustedFillableAmountsFromTakerAmount_def)
  then show ?thesis using share[of m] share[of f] pos
    by (intro exI[of _ "x * m div t"] exI[of _ ?fee]) auto
qed

definition sample_signed_order :: SignedNativeOrder where
  "sample_signed_order = \<lparr>sno_order = sample_order, sno_type = Limit, sno_signature = []\<rparr>"

theorem fillable_amounts_within_order_witness:
  "\<exists>mk fee. getNativeAdjustedFillableAmountsFromTakerAmount rnd78 sample_signed_order (Fin 3) =
     \<lparr>fillableMakerAmount = Fin (of_int mk), fillableTakerAmount = Fin 3,
      fillableTakerFeeAmount = Fin (of_int fee)\<rparr> \<and> mk = 10 \<and> fee = 1"
  using fillable_amounts_within_order[of sample_signed_order 10 3 1 3] sample_order_uint256
  by (simp add: sample_signed_order_def)

text \<open>The rate by which paths are compared never rewards falling short of the target: at a positive
  output, a path that fills only part of the target has a complete rate of at most its rate, and a
  path that fills all of it has exactly its rate.\<close>

theorem complete_rate_penalizes_short_paths:
  assumes "0 < i" "i \<le> t" "0 < out"
  shows "getCompleteRate (round_dp d) side (Fin i) (Fin out) (Fin t)
           \<le> getRate (round_dp d) side (Fin i) (Fin out) \<and>
         getCompleteRate (round_dp d) side (Fin t) (Fin out) (Fin t)
           = getRate (round_dp d) side (Fin t) (Fin out)"
  using dp.complete_rate_le_rate[OF assms] dp.complete_rate_full[of t] assms by auto

theorem complete_rate_penalizes_short_paths_witness:
  "getCompleteRate rnd78 Buy (Fin 2) (Fin 6) (Fin 4) \<le> getRate rnd78 Buy (Fin 2) (Fin 6)"
  using complete_rate_penalizes_short_paths[of 2 4 6 78 Buy] by simp

text \<open>The fill made from a native order takes the smaller of the target and the order's fillable
  input, outputs the same share of the order's fillable output, and is penalised in the right
  direction: a sell's adjusted output is at most its output, a buy's at least. With filtering on, a
  sell fill always has a positive adjusted output.\<close>

theorem nativeOrderToFill_bounds:
  assumes "fillableMakerAmount (nof_amounts order) = Fin mk"
    and "fillableTakerAmount (nof_amounts order) + fillableTakerFeeAmount (nof_amounts order) = Fin tk"
    and "0 < mk" "0 < tk" "target = PosInf \<or> target = Fin g \<and> 0 < g"
    and "fe_fee (fees Native (NativeFD order)) = Fin e" "0 \<le> e" "0 < p"
    and "nativeOrderToFill (round_dp d) pid side order target (Fin p) inPerEth fees flt = Some fl"
  shows "fill_input fl = bn_min target (Fin (if side = Sell then tk else mk)) \<and>
     (\<exists>z out a. out = z * (if side = Sell then mk else tk) \<and> 0 \<le> z \<and> z \<le> 1 \<and>
        z = round_dp d (xval (fill_input fl) / (if side = Sell then tk else mk)) \<and>
        fill_output fl = Fin out \<and> fill_adjustedOutput fl = Fin a \<and>
        (if side = Sell then a \<le> out \<and> (flt \<longrightarrow> 0 < a) else out \<le> a))"
  using dp.native_fill_shape[OF assms] by (cases side) auto

definition sample_native :: NativeOrderWithFillableAmounts where
  "sample_native = \<lparr>sno_order = sample_order, sno_type = Limit, sno_signature = [],
     nof_amounts = \<lparr>fillableMakerAmount = Fin 10, fillableTakerAmount = Fin 3,
                    fillableTakerFeeAmount = Fin 1\<rparr>\<rparr>"

definition sample_fee_schedule :: FeeSchedule where
  "sample_fee_schedule s fd = \<lparr>fe_gas = Fin 100, fe_fee = Fin 2\<rparr>"

lemma sample_native_amounts:
  "fillableMakerAmount (nof_amounts sample_native) = Fin 10"
  "fillableTakerAmount (nof_amounts sample_native) + fillableTakerFeeAmount (nof_amounts sample_native)
     = Fin 4"
  "fe_fee (sample_fee_schedule Native (NativeFD sample_native)) = Fin 2"
  by (simp_all add: sample_native_def sample_fee_schedule_def)

lemma sample_native_fill:
  "nativeOrderToFill rnd78 [] Sell sample_native PosInf (Fin 1) (Fin 0) sample_fee_schedule False =
   Some \<lparr>fill_input = Fin 4, fill_output = Fin 10, fill_adjustedOutput = Fin 8, fill_gas = Fin 100,
         fill_source = Native, fill_type = Limit, fill_fillData = NativeFD sample_native,
         fill_sourcePathId = [], fill_flags = SOURCE_FLAGS LimitOrder\<rparr>"
  using round_mode_of_int[of ROUND_HALF_UP 2]
  by (simp add: nativeOrderToFill_def sample_native_def sample_fee_schedule_def Let_def bn_min_def
      ethToOutputAmount_def)

theorem nativeOrderToFill_bounds_witness:
  "\<exists>fl z out a. nativeOrderToFill rnd78 [] Sell sample_native PosInf (Fin 1) (Fin 0)
       sample_fee_schedule False = Some fl \<and> fill_output fl = Fin out \<and> out = z * 10 \<and>
     fill_adjustedOutput fl = Fin a \<and> a \<le> out"
  using nativeOrderToFill_bounds[OF sample_native_amounts(1,2) _ _ _ sample_native_amounts(3) _ _
      sample_native_fill]
  by (simp add: sample_native_fill bn_min_def)

end
