(* ===== verification/Orders.thy ===== *)
theory Orders
  imports Fills
begin

text \<open>
  Optimized orders (\<open>orders.ts\<close>): native, bridge and two-hop orders made from fills, the bridge source
  ids and the bridge data of the fill-quote transformer. \<open>encodeBridgeSourceId\<close> and the ABI encoder come
  from packages of the protocol and are arguments; what the code decides is which protocol and name
  a source gets, which ABI type it is encoded with, and which values are encoded. Fill data whose
  shape does not fit its source (which the casts of the code rule out) ends in a TypeError.
\<close>

definition NoBridgeForSource :: js_error where
  "NoBridgeForSource = Error ''NO_BRIDGE_FOR_SOURCE''"

section \<open>Bridge source ids\<close>

text \<open>The members of the protocol enumeration that the code names.\<close>

datatype BridgeProtocol =
    BP_Balancer | BP_BalancerV2Batch | BP_Bancor | BP_Curve | BP_CryptoCom | BP_Dodo | BP_MakerPsm
  | BP_Mooniswap | BP_MStable | BP_Shell | BP_UniswapV2 | BP_Uniswap | BP_DodoV2 | BP_Nerve
  | BP_UniswapV3 | BP_KyberDmm | BP_CurveV2 | BP_Lido | BP_AaveV2 | BP_AaveV3 | BP_Compound
  | BP_GMX | BP_Platypus | BP_BancorV3 | BP_Solidly | BP_Synthetix | BP_WOOFi

fun bridge_protocol_and_name :: "ERC20BridgeSource \<Rightarrow> (BridgeProtocol \<times> string) option" where
  "bridge_protocol_and_name Balancer = Some (BP_Balancer, ''Balancer'')"
| "bridge_protocol_and_name BalancerV2 = Some (BP_BalancerV2Batch, ''BalancerV2'')"
| "bridge_protocol_and_name Bancor = Some (BP_Bancor, ''Bancor'')"
| "bridge_protocol_and_name Curve = Some (BP_Curve, ''Curve'')"
| "bridge_protocol_and_name CryptoCom = Some (BP_CryptoCom, ''CryptoCom'')"
| "bridge_protocol_and_name Dodo = Some (BP_Dodo, ''Dodo'')"
| "bridge_protocol_and_name MakerPsm = Some (BP_MakerPsm, ''MakerPsm'')"
| "bridge_protocol_and_name Mooniswap = Some (BP_Mooniswap, ''Mooniswap'')"
| "bridge_protocol_and_name MStable = Some (BP_MStable, ''MStable'')"
| "bridge_protocol_and_name Shell = Some (BP_Shell, ''Shell'')"
| "bridge_protocol_and_name SushiSwap = Some (BP_UniswapV2, ''SushiSwap'')"
| "bridge_protocol_and_name Uniswap = Some (BP_Uniswap, ''Uniswap'')"
| "bridge_protocol_and_name UniswapV2 = Some (BP_UniswapV2, ''UniswapV2'')"
| "bridge_protocol_and_name DodoV2 = Some (BP_DodoV2, ''DodoV2'')"
| "bridge_protocol_and_name PancakeSwap = Some (BP_UniswapV2, ''PancakeSwap'')"
| "bridge_protocol_and_name PancakeSwapV2 = Some (BP_UniswapV2, ''PancakeSwapV2'')"
| "bridge_protocol_and_name BakerySwap = Some (BP_UniswapV2, ''BakerySwap'')"
| "bridge_protocol_and_name Nerve = Some (BP_Nerve, ''Nerve'')"
| "bridge_protocol_and_name Synapse = Some (BP_Nerve, ''Synapse'')"
| "bridge_protocol_and_name Belt = Some (BP_Curve, ''Belt'')"
| "bridge_protocol_and_name Ellipsis = Some (BP_Curve, ''Ellipsis'')"
| "bridge_protocol_and_name Component = Some (BP_Shell, ''Component'')"
| "bridge_protocol_and_name Saddle = Some (BP_Nerve, ''Saddle'')"
| "bridge_protocol_and_name ApeSwap = Some (BP_UniswapV2, ''ApeSwap'')"
| "bridge_protocol_and_name UniswapV3 = Some (BP_UniswapV3, ''UniswapV3'')"
| "bridge_protocol_and_name KyberDmm = Some (BP_KyberDmm, ''KyberDmm'')"
| "bridge_protocol_and_name QuickSwap = Some (BP_UniswapV2, ''QuickSwap'')"
| "bridge_protocol_and_name Dfyn = Some (BP_UniswapV2, ''Dfyn'')"
| "bridge_protocol_and_name CurveV2 = Some (BP_CurveV2, ''CurveV2'')"
| "bridge_protocol_and_name WaultSwap = Some (BP_UniswapV2, ''WaultSwap'')"
| "bridge_protocol_and_name FirebirdOneSwap = Some (BP_Nerve, ''FirebirdOneSwap'')"
| "bridge_protocol_and_name Lido = Some (BP_Lido, ''Lido'')"
| "bridge_protocol_and_name ShibaSwap = Some (BP_UniswapV2, ''ShibaSwap'')"
| "bridge_protocol_and_name IronSwap = Some (BP_Nerve, ''IronSwap'')"
| "bridge_protocol_and_name ACryptos = Some (BP_Curve, ''ACryptoS'')"
| "bridge_protocol_and_name Pangolin = Some (BP_UniswapV2, ''Pangolin'')"
| "bridge_protocol_and_name TraderJoe = Some (BP_UniswapV2, ''TraderJoe'')"
| "bridge_protocol_and_name UbeSwap = Some (BP_UniswapV2, ''UbeSwap'')"
| "bridge_protocol_and_name Beethovenx = Some (BP_BalancerV2Batch, ''Beethovenx'')"
| "bridge_protocol_and_name SpiritSwap = Some (BP_UniswapV2, ''SpiritSwap'')"
| "bridge_protocol_and_name SpookySwap = Some (BP_UniswapV2, ''SpookySwap'')"
| "bridge_protocol_and_name MorpheusSwap = Some (BP_UniswapV2, ''MorpheusSwap'')"
| "bridge_protocol_and_name Yoshi = Some (BP_UniswapV2, ''Yoshi'')"
| "bridge_protocol_and_name AaveV2 = Some (BP_AaveV2, ''AaveV2'')"
| "bridge_protocol_and_name AaveV3 = Some (BP_AaveV3, ''AaveV3'')"
| "bridge_protocol_and_name Compound = Some (BP_Compound, ''Compound'')"
| "bridge_protocol_and_name MobiusMoney = Some (BP_Nerve, ''MobiusMoney'')"
| "bridge_protocol_and_name BiSwap = Some (BP_UniswapV2, ''BiSwap'')"
| "bridge_protocol_and_name MDex = Some (BP_UniswapV2, ''MDex'')"
| "bridge_protocol_and_name KnightSwap = Some (BP_UniswapV2, ''KnightSwap'')"
| "bridge_protocol_and_name GMX = Some (BP_GMX, ''GMX'')"
| "bridge_protocol_and_name Platypus = Some (BP_Platypus, ''Platypus'')"
| "bridge_protocol_and_name MeshSwap = Some (BP_UniswapV2, ''MeshSwap'')"
| "bridge_protocol_and_name BancorV3 = Some (BP_BancorV3, ''BancorV3'')"
| "bridge_protocol_and_name Velodrome = Some (BP_Solidly, ''Velodrome'')"
| "bridge_protocol_and_name Dystopia = Some (BP_Solidly, ''Dystopia'')"
| "bridge_protocol_and_name Synthetix = Some (BP_Synthetix, ''Synthetix'')"
| "bridge_protocol_and_name WOOFi = Some (BP_WOOFi, ''WOOFi'')"
| "bridge_protocol_and_name Native = None"
| "bridge_protocol_and_name MultiHop = None"

definition getErc20BridgeSourceToBridgeSource ::
  "(BridgeProtocol \<Rightarrow> string \<Rightarrow> string) \<Rightarrow> ERC20BridgeSource \<Rightarrow> js_error + string" where
  "getErc20BridgeSourceToBridgeSource encodeBridgeSourceId source =
     (case bridge_protocol_and_name source of
        Some (protocol, name) \<Rightarrow> Inr (encodeBridgeSourceId protocol name)
      | None \<Rightarrow> Inl NoBridgeForSource)"

section \<open>Bridge data\<close>

text \<open>The ABI types the encoders are created with, and the JavaScript values given to them.\<close>

datatype AbiType =
    T_address | T_bytes4 | T_bytes32 | T_bytes | T_int128 | T_uint256 | T_bool
  | T_array AbiType | T_tuple "AbiType list"

datatype AbiValue =
    V_string string | V_number nat | V_BigNumber BigNumber | V_bool bool
  | V_list "AbiValue list" | V_struct "AbiValue list"

definition curve_like :: "ERC20BridgeSource list" where
  "curve_like = [Curve, CurveV2, Nerve, Synapse, Belt, Ellipsis, Saddle, FirebirdOneSwap, IronSwap,
     ACryptos, MobiusMoney]"

definition uniswapV2_like :: "ERC20BridgeSource list" where
  "uniswapV2_like = [UniswapV2, SushiSwap, CryptoCom, PancakeSwap, PancakeSwapV2, BakerySwap, ApeSwap,
     QuickSwap, Dfyn, WaultSwap, ShibaSwap, Pangolin, TraderJoe, UbeSwap, SpiritSwap, SpookySwap,
     MorpheusSwap, BiSwap, MDex, KnightSwap, Yoshi, MeshSwap]"

definition poolEncoder :: "AbiType list" where
  "poolEncoder = [T_address]"

definition curveEncoder :: "AbiType list" where
  "curveEncoder = [T_address, T_bytes4, T_int128, T_int128]"

definition makerPsmEncoder :: "AbiType list" where
  "makerPsmEncoder = [T_address, T_address]"

definition balancerV2BatchEncoder :: "AbiType list" where
  "balancerV2BatchEncoder =
     [T_address, T_array (T_tuple [T_bytes32, T_uint256, T_uint256, T_uint256, T_bytes]),
      T_array T_address]"

definition routerAddressPathEncoder :: "AbiType list" where
  "routerAddressPathEncoder = [T_address, T_array T_address]"

definition BRIDGE_ENCODERS :: "ERC20BridgeSource \<Rightarrow> AbiType list option" where
  "BRIDGE_ENCODERS source =
     (if source \<in> set curve_like then Some curveEncoder
      else if source \<in> set ([Bancor, BancorV3] @ uniswapV2_like) then Some routerAddressPathEncoder
      else if source \<in> set [Shell, Component, Mooniswap, MStable, Balancer, Uniswap]
           then Some poolEncoder
      else case source of
        Dodo \<Rightarrow> Some [T_address, T_address, T_bool]
      | DodoV2 \<Rightarrow> Some [T_address, T_bool]
      | GMX \<Rightarrow> Some [T_address, T_address, T_address, T_array T_address]
      | Platypus \<Rightarrow> Some [T_address, T_array T_address, T_array T_address]
      | MakerPsm \<Rightarrow> Some makerPsmEncoder
      | BalancerV2 \<Rightarrow> Some balancerV2BatchEncoder
      | Beethovenx \<Rightarrow> Some balancerV2BatchEncoder
      | UniswapV3 \<Rightarrow> Some [T_address, T_bytes]
      | KyberDmm \<Rightarrow> Some [T_address, T_array T_address, T_array T_address]
      | Lido \<Rightarrow> Some [T_address, T_address]
      | AaveV2 \<Rightarrow> Some [T_address, T_address]
      | AaveV3 \<Rightarrow> Some [T_address, T_address, T_bytes32]
      | Compound \<Rightarrow> Some [T_address]
      | Velodrome \<Rightarrow> Some [T_address, T_bool]
      | Dystopia \<Rightarrow> Some [T_address, T_bool]
      | Synthetix \<Rightarrow> Some [T_address, T_bytes32, T_bytes32]
      | WOOFi \<Rightarrow> Some [T_address]
      | _ \<Rightarrow> None)"

definition v_addresses :: "Address list \<Rightarrow> AbiValue" where
  "v_addresses as = V_list (map V_string as)"

definition v_swapStep :: "BalancerBatchSwapStep \<Rightarrow> AbiValue" where
  "v_swapStep st = V_struct [V_string (step_poolId st), V_number (assetInIndex st),
     V_number (assetOutIndex st), V_BigNumber (step_amount st), V_string (userData st)]"

definition InvalidBridgeOrder :: js_error where
  "InvalidBridgeOrder = Error ''Invalid order to encode for Bridge Data''"

text \<open>The array each branch of the switch hands to the encoder.\<close>

definition bridge_values :: "OptimizedOrder \<Rightarrow> js_error + AbiValue list" where
  "bridge_values order =
    (let source = oo_source order; fd = oo_fillData order in
     if source \<in> set curve_like then
       (case fd of CurveFD fromIdx toIdx pool \<Rightarrow>
          Inr [V_string (curve_poolAddress pool), V_string (exchangeFunctionSelector pool),
               V_number fromIdx, V_number toIdx] | _ \<Rightarrow> Inl TypeError)
     else if source \<in> set uniswapV2_like then
       (case fd of UniswapV2FD path router \<Rightarrow> Inr [V_string router, v_addresses path]
        | _ \<Rightarrow> Inl TypeError)
     else if source \<in> set [Balancer, Mooniswap, Shell, Component] then
       (case fd of PoolFD pool \<Rightarrow> Inr [V_string pool] | _ \<Rightarrow> Inl TypeError)
     else if source \<in> set [Beethovenx, BalancerV2] then
       (case fd of BalancerV2BatchSwapFD vault steps assets _ \<Rightarrow>
          Inr [V_string vault, V_list (map v_swapStep steps), v_addresses assets]
        | _ \<Rightarrow> Inl TypeError)
     else if source \<in> set [Bancor, BancorV3] then
       (case fd of BancorFD path networkAddress \<Rightarrow> Inr [V_string networkAddress, v_addresses path]
        | _ \<Rightarrow> Inl TypeError)
     else if source \<in> set [Uniswap, MStable] then
       (case fd of GenericRouterFD router \<Rightarrow> Inr [V_string router] | _ \<Rightarrow> Inl TypeError)
     else if source \<in> set [Dystopia, Velodrome] then
       (case fd of VelodromeFD router isStable \<Rightarrow> Inr [V_string router, V_bool isStable]
        | _ \<Rightarrow> Inl TypeError)
     else case source of
       Dodo \<Rightarrow> (case fd of DODOFD pool isSellBase helper \<Rightarrow>
                  Inr [V_string helper, V_string pool, V_bool isSellBase] | _ \<Rightarrow> Inl TypeError)
     | DodoV2 \<Rightarrow> (case fd of DODOFD pool isSellBase _ \<Rightarrow> Inr [V_string pool, V_bool isSellBase]
                  | _ \<Rightarrow> Inl TypeError)
     | MakerPsm \<Rightarrow> (case fd of MakerPsmFD _ _ psm _ gem \<Rightarrow> Inr [V_string psm, V_string gem]
                    | _ \<Rightarrow> Inl TypeError)
     | UniswapV3 \<Rightarrow> (case fd of FinalTickDEXMultiPathFD _ router path _ \<Rightarrow>
                        Inr [V_string router, V_string path] | _ \<Rightarrow> Inl TypeError)
     | KyberDmm \<Rightarrow> (case fd of KyberDmmFD tokens router pools \<Rightarrow>
                      Inr [V_string router, v_addresses pools, v_addresses tokens]
                    | _ \<Rightarrow> Inl TypeError)
     | Lido \<Rightarrow> (case fd of LidoFD stEth wstEth _ _ \<Rightarrow> Inr [V_string stEth, V_string wstEth]
                | _ \<Rightarrow> Inl TypeError)
     | AaveV3 \<Rightarrow> (case fd of AaveV3FD pool aToken _ _ params \<Rightarrow>
                    (case find (\<lambda>l. bn_eq (l2_inputAmount l) (oo_makerAmount order) \<or>
                                    bn_eq (l2_inputAmount l) (oo_takerAmount order)) params of
                       None \<Rightarrow> Inl InvalidBridgeOrder
                     | Some l \<Rightarrow> Inr [V_string pool, V_string aToken, V_string (l2Parameter l)])
                  | _ \<Rightarrow> Inl TypeError)
     | AaveV2 \<Rightarrow> (case fd of AaveV2FD pool aToken _ _ \<Rightarrow> Inr [V_string pool, V_string aToken]
                  | _ \<Rightarrow> Inl TypeError)
     | Compound \<Rightarrow> (case fd of CompoundFD cToken _ _ \<Rightarrow> Inr [V_string cToken] | _ \<Rightarrow> Inl TypeError)
     | GMX \<Rightarrow> (case fd of GMXFD router reader vault path \<Rightarrow>
                 Inr [V_string router, V_string reader, V_string vault, v_addresses path]
               | _ \<Rightarrow> Inl TypeError)
     | Platypus \<Rightarrow> (case fd of PlatypusFD router pool path \<Rightarrow>
                      Inr [V_string router, v_addresses pool, v_addresses path]
                    | _ \<Rightarrow> Inl TypeError)
     | Synthetix \<Rightarrow> (case fd of SynthetixFD synthetix taker maker _ \<Rightarrow>
                       Inr [V_string synthetix, V_string taker, V_string maker]
                     | _ \<Rightarrow> Inl TypeError)
     | WOOFi \<Rightarrow> (case fd of WOOFiFD router _ _ _ \<Rightarrow> Inr [V_string router] | _ \<Rightarrow> Inl TypeError)
     | _ \<Rightarrow> Inl NoBridgeForSource)"

definition createBridgeDataForBridgeOrder ::
  "(AbiType list \<Rightarrow> AbiValue list \<Rightarrow> string) \<Rightarrow> OptimizedOrder \<Rightarrow> js_error + string" where
  "createBridgeDataForBridgeOrder encode order =
     (if oo_source order = MultiHop \<or> oo_source order = Native then Inl InvalidBridgeOrder
      else case BRIDGE_ENCODERS (oo_source order) of
        None \<Rightarrow> Inl NoBridgeForSource
      | Some encoder \<Rightarrow> res_bind (bridge_values order) (\<lambda>vals. Inr (encode encoder vals)))"

section \<open>Orders from fills\<close>

definition getFillTokenAmounts :: "('a) FillBase_scheme \<Rightarrow> MarketOperation \<Rightarrow> BigNumber \<times> BigNumber" where
  "getFillTokenAmounts fill side =
     ((if side = Sell then integerValue ROUND_DOWN (fill_output fill) else fill_input fill),
      (if side = Sell then fill_input fill else integerValue ROUND_UP (fill_output fill)))"

definition toFillBase :: "Fill \<Rightarrow> FillBase" where
  "toFillBase fill =
     \<lparr>fill_input = fill_input fill, fill_output = fill_output fill,
      fill_adjustedOutput = fill_adjustedOutput fill, fill_gas = fill_gas fill\<rparr>"

definition createNativeOptimizedOrder :: "Fill \<Rightarrow> MarketOperation \<Rightarrow> js_error + OptimizedOrder" where
  "createNativeOptimizedOrder fill side =
     (case fill_fillData fill of
        NativeFD native \<Rightarrow>
          (if fill_type fill = Bridge then Inl (Error ''BridgeOrder is not a Native Order'')
           else Inr \<lparr>oo_source = Native, oo_fillData = NativeFD native, oo_type = fill_type fill,
                     oo_makerToken = ord_makerToken (sno_order native),
                     oo_takerToken = ord_takerToken (sno_order native),
                     oo_makerAmount = fst (getFillTokenAmounts fill side),
                     oo_takerAmount = snd (getFillTokenAmounts fill side),
                     oo_fill = toFillBase fill\<rparr>)
      | _ \<Rightarrow> Inl TypeError)"

text \<open>The first path that can satisfy the amount, else the last; undefined when only empty paths
  were given.\<close>

definition getBestUniswapV3PathAmountForInputAmount ::
  "PathAmount list \<Rightarrow> BigNumber \<Rightarrow> js_error + PathAmount option" where
  "getBestUniswapV3PathAmountForInputAmount allPathAmounts inputAmount =
     (if length allPathAmounts = 0 then Inl (Error ''No Uniswap V3 paths'')
      else let pathAmounts = filter (\<lambda>p. pa_path p \<noteq> ''0x'') allPathAmounts
           in case find (\<lambda>p. inputAmount \<le> pa_inputAmount p) pathAmounts of
                Some p \<Rightarrow> Inr (Some p)
              | None \<Rightarrow> Inr (if pathAmounts = [] then None else Some (last pathAmounts)))"

definition createFinalBridgeOrderFillDataFromCollapsedFill :: "Fill \<Rightarrow> js_error + FillData" where
  "createFinalBridgeOrderFillDataFromCollapsedFill fill =
     (if fill_source fill = UniswapV3 then
        (case fill_fillData fill of
           TickDEXMultiPathFD tokenAddressPath router pathAmounts \<Rightarrow>
             res_bind (getBestUniswapV3PathAmountForInputAmount pathAmounts (fill_input fill))
               (\<lambda>best. case best of
                  None \<Rightarrow> Inl TypeError
                | Some p \<Rightarrow> Inr (FinalTickDEXMultiPathFD tokenAddressPath router (pa_path p) (pa_gasUsed p)))
         | _ \<Rightarrow> Inl TypeError)
      else Inr (fill_fillData fill))"

definition createBridgeOrder ::
  "Fill \<Rightarrow> Address \<Rightarrow> Address \<Rightarrow> MarketOperation \<Rightarrow> js_error + OptimizedOrder" where
  "createBridgeOrder fill makerToken takerToken side =
     res_bind (createFinalBridgeOrderFillDataFromCollapsedFill fill)
       (\<lambda>fd. Inr \<lparr>oo_source = fill_source fill, oo_fillData = fd, oo_type = Bridge,
                   oo_makerToken = makerToken, oo_takerToken = takerToken,
                   oo_makerAmount = fst (getFillTokenAmounts fill side),
                   oo_takerAmount = snd (getFillTokenAmounts fill side),
                   oo_fill = toFillBase fill\<rparr>)"

text \<open>The maker and the taker token of a path.\<close>

definition getMakerTakerTokens :: "PathContext \<Rightarrow> Address \<times> Address" where
  "getMakerTakerTokens ctx =
     ((if ctx_side ctx = Sell then ctx_outputToken ctx else ctx_inputToken ctx),
      (if ctx_side ctx = Sell then ctx_inputToken ctx else ctx_outputToken ctx))"

definition hop_fill :: "ERC20BridgeSource \<Rightarrow> FillData \<Rightarrow> BigNumber \<Rightarrow> BigNumber \<Rightarrow> Fill" where
  "hop_fill source fd input output =
     \<lparr>fill_input = input, fill_output = output, fill_adjustedOutput = output, fill_gas = 1,
      fill_source = source, fill_type = Bridge, fill_fillData = fd, fill_sourcePathId = [],
      fill_flags = 0\<rparr>"

definition createOrdersFromTwoHopSample :: "DexSample \<Rightarrow> PathContext \<Rightarrow> js_error + TwoHopOrder" where
  "createOrdersFromTwoHopSample sample ctx =
     (case ds_fillData sample of
        MultiHopFD src1 fd1 src2 fd2 intermediateToken \<Rightarrow>
          (let side = ctx_side ctx;
               makerToken = fst (getMakerTakerTokens ctx);
               takerToken = snd (getMakerTakerTokens ctx);
               firstHopFill = hop_fill src1 fd1 (if side = Sell then ds_input sample else ZERO_AMOUNT)
                                (if side = Sell then ZERO_AMOUNT else ds_output sample);
               secondHopFill = hop_fill src2 fd2 (if side = Sell then MAX_UINT256 else ds_input sample)
                                 (if side = Sell then ds_output sample else MAX_UINT256)
           in res_bind (createBridgeOrder firstHopFill intermediateToken takerToken side)
                (\<lambda>first. res_bind (createBridgeOrder secondHopFill makerToken intermediateToken side)
                  (\<lambda>second. Inr \<lparr>firstHopOrder = first, secondHopOrder = second\<rparr>)))
      | _ \<Rightarrow> Inl TypeError)"

section \<open>Encodable values\<close>

fun fits :: "AbiType \<Rightarrow> AbiValue \<Rightarrow> bool"
  and fits_each :: "AbiType \<Rightarrow> AbiValue list \<Rightarrow> bool"
  and fits_tuple :: "AbiType list \<Rightarrow> AbiValue list \<Rightarrow> bool" where
  "fits t (V_string s) = (t \<in> set [T_address, T_bytes4, T_bytes32, T_bytes])"
| "fits t (V_number n) = (t \<in> set [T_int128, T_uint256])"
| "fits t (V_BigNumber n) = (t = T_uint256)"
| "fits t (V_bool b) = (t = T_bool)"
| "fits t (V_list vs) = (case t of T_array u \<Rightarrow> fits_each u vs | _ \<Rightarrow> False)"
| "fits t (V_struct vs) = (case t of T_tuple ts \<Rightarrow> fits_tuple ts vs | _ \<Rightarrow> False)"
| "fits_each t [] = True"
| "fits_each t (v # vs) = (fits t v \<and> fits_each t vs)"
| "fits_tuple [] [] = True"
| "fits_tuple (t # ts) (v # vs) = (fits t v \<and> fits_tuple ts vs)"
| "fits_tuple ts vs = False"

lemma fits_each_iff: "fits_each t vs \<longleftrightarrow> (\<forall>v \<in> set vs. fits t v)"
  by (induction vs) auto

lemma fits_v_addresses [simp]: "fits (T_array T_address) (v_addresses as)"
  by (simp add: v_addresses_def fits_each_iff)

lemma fits_v_swapSteps [simp]:
  "fits_each (T_tuple [T_bytes32, T_uint256, T_uint256, T_uint256, T_bytes])
     (map v_swapStep steps)"
  by (simp add: v_swapStep_def fits_each_iff)

lemmas bridge_lists = curve_like_def uniswapV2_like_def
lemmas bridge_encoders = curveEncoder_def routerAddressPathEncoder_def poolEncoder_def
  makerPsmEncoder_def balancerV2BatchEncoder_def

lemma bridge_encoder_exists: "s \<noteq> Native \<Longrightarrow> s \<noteq> MultiHop \<Longrightarrow> \<exists>enc. BRIDGE_ENCODERS s = Some enc"
  by (cases s) (simp_all add: BRIDGE_ENCODERS_def bridge_lists)

lemma bridge_values_fit:
  "bridge_values order = Inr vals \<Longrightarrow> BRIDGE_ENCODERS (oo_source order) = Some enc \<Longrightarrow>
   fits_tuple enc vals"
  by (cases "oo_source order")
    (auto simp: bridge_values_def BRIDGE_ENCODERS_def bridge_lists bridge_encoders
        split: FillData.split_asm option.split_asm)

section \<open>Distinct ids\<close>

definition bridge_sources :: "ERC20BridgeSource list" where
  "bridge_sources = filter (\<lambda>s. s \<noteq> Native \<and> s \<noteq> MultiHop) ERC20BridgeSource_values"

lemma bridge_sources_iff: "s \<in> set bridge_sources \<longleftrightarrow> s \<noteq> Native \<and> s \<noteq> MultiHop"
  using all_sources[of s] by (auto simp: bridge_sources_def)

lemma bridge_names_distinct: "distinct (map (map_option snd \<circ> bridge_protocol_and_name) bridge_sources)"
  by (simp add: bridge_sources_def ERC20BridgeSource_values_def)

lemma bridge_name_inj:
  assumes "s \<noteq> Native" "s \<noteq> MultiHop" "t \<noteq> Native" "t \<noteq> MultiHop"
    and "map_option snd (bridge_protocol_and_name s) = map_option snd (bridge_protocol_and_name t)"
  shows "s = t"
proof -
  have "inj_on (map_option snd \<circ> bridge_protocol_and_name) (set bridge_sources)"
    using bridge_names_distinct unfolding distinct_map by blast
  moreover have "s \<in> set bridge_sources" "t \<in> set bridge_sources"
    using assms by (simp_all add: bridge_sources_iff)
  ultimately show ?thesis using assms(5) by (simp add: inj_onD)
qed

lemma bridge_name_cases:
  "(s = Native \<or> s = MultiHop) \<and> bridge_protocol_and_name s = None \<or>
   s \<noteq> Native \<and> s \<noteq> MultiHop \<and>
   (\<exists>p n. bridge_protocol_and_name s = Some (p, n) \<and> n \<noteq> [] \<and> length n \<le> 16)"
  by (cases s) simp_all

section \<open>The path chosen for Uniswap V3\<close>

lemma find_sorted_least:
  assumes "sorted_wrt (\<lambda>p q. pa_inputAmount p \<le> pa_inputAmount q) ps"
    and "find (\<lambda>p. a \<le> pa_inputAmount p) ps = Some p" "q \<in> set ps" "a \<le> pa_inputAmount q"
    and "pa_inputAmount p \<noteq> NaN"
  shows "pa_inputAmount p \<le> pa_inputAmount q"
  using assms by (induction ps) (auto simp: less_eq_xnum_def split: if_splits)

lemma last_in_filter: "filter P xs \<noteq> [] \<Longrightarrow> last (filter P xs) \<in> set xs \<and> P (last (filter P xs))"
  using last_in_set[of "filter P xs"] by simp

section \<open>Properties\<close>

text \<open>Every liquidity source other than Native and MultiHop has a bridge source id, those two have
  none, and with an encoding that is injective on the (16-byte) name, no two sources share
  an id.\<close>

theorem bridge_source_ids_unique:
  assumes "\<And>p n q m. length n \<le> 16 \<Longrightarrow> length m \<le> 16 \<Longrightarrow> enc p n = enc q m \<Longrightarrow> n = m"
  shows "(getErc20BridgeSourceToBridgeSource enc s = Inl NoBridgeForSource \<longleftrightarrow> s = Native \<or> s = MultiHop) \<and>
         (getErc20BridgeSourceToBridgeSource enc s = getErc20BridgeSourceToBridgeSource enc t \<and>
            s \<noteq> Native \<and> s \<noteq> MultiHop \<longrightarrow> s = t)"
proof (intro conjI impI)
  show "getErc20BridgeSourceToBridgeSource enc s = Inl NoBridgeForSource \<longleftrightarrow> s = Native \<or> s = MultiHop"
    using bridge_name_cases[of s] by (auto simp: getErc20BridgeSourceToBridgeSource_def)
  assume eq: "getErc20BridgeSourceToBridgeSource enc s = getErc20BridgeSourceToBridgeSource enc t \<and>
    s \<noteq> Native \<and> s \<noteq> MultiHop"
  then obtain p n where s: "bridge_protocol_and_name s = Some (p, n)" "length n \<le> 16"
    using bridge_name_cases[of s] by auto
  with eq obtain q m where t: "bridge_protocol_and_name t = Some (q, m)" "length m \<le> 16" "t \<noteq> Native" "t \<noteq> MultiHop"
    using bridge_name_cases[of t] by (auto simp: getErc20BridgeSourceToBridgeSource_def)
  have "n = m"
    using eq s t assms[of n m p q] by (simp add: getErc20BridgeSourceToBridgeSource_def)
  then show "s = t" using s t eq bridge_name_inj[of s t] by simp
qed

theorem bridge_source_ids_unique_witness:
  "getErc20BridgeSourceToBridgeSource (\<lambda>p n. n) Curve \<noteq>
   getErc20BridgeSourceToBridgeSource (\<lambda>p n. n) CurveV2"
proof -
  have "getErc20BridgeSourceToBridgeSource (\<lambda>p n. n) Curve =
      getErc20BridgeSourceToBridgeSource (\<lambda>p n. n) CurveV2 \<and> Curve \<noteq> Native \<and> Curve \<noteq> MultiHop \<longrightarrow>
    Curve = CurveV2"
    by (rule bridge_source_ids_unique[THEN conjunct2]) simp
  then show ?thesis by simp
qed

text \<open>C12: Bridge data is only ever encoded with the ABI type registered for the order's source, and the
  values handed to the encoder fit that type component by component; no source is left without an
  encoder.\<close>

theorem bridge_data_well_typed:
  "(createBridgeDataForBridgeOrder encode order = Inr d \<longrightarrow>
     (\<exists>enc vals. BRIDGE_ENCODERS (oo_source order) = Some enc \<and> bridge_values order = Inr vals \<and>
        fits_tuple enc vals \<and> d = encode enc vals)) \<and>
   (oo_source order = Native \<or> oo_source order = MultiHop \<longrightarrow>
      createBridgeDataForBridgeOrder encode order = Inl InvalidBridgeOrder) \<and>
   (BRIDGE_ENCODERS (oo_source order) = None \<longleftrightarrow> oo_source order = Native \<or> oo_source order = MultiHop)"
proof -
  have "BRIDGE_ENCODERS Native = None" "BRIDGE_ENCODERS MultiHop = None"
    by (simp_all add: BRIDGE_ENCODERS_def bridge_lists)
  then show ?thesis
    using bridge_encoder_exists[of "oo_source order"] bridge_values_fit[of order]
    by (auto simp: createBridgeDataForBridgeOrder_def res_bind_eq_Inr split: if_splits option.splits)
qed

definition sample_dodo_order :: OptimizedOrder where
  "sample_dodo_order = \<lparr>oo_source = DodoV2, oo_fillData = DODOFD ''pool'' True ''helper'',
     oo_type = Bridge, oo_makerToken = ''A'', oo_takerToken = ''B'', oo_makerAmount = Fin 1,
     oo_takerAmount = Fin 2,
     oo_fill = \<lparr>fill_input = Fin 2, fill_output = Fin 1, fill_adjustedOutput = Fin 1, fill_gas = Fin 0\<rparr>\<rparr>"

theorem bridge_data_well_typed_witness:
  "\<exists>enc vals. BRIDGE_ENCODERS DodoV2 = Some enc \<and> bridge_values sample_dodo_order = Inr vals \<and>
     fits_tuple enc vals"
  using bridge_data_well_typed[of "\<lambda>ts vs. []" sample_dodo_order "[]"]
  by (simp add: createBridgeDataForBridgeOrder_def bridge_values_def BRIDGE_ENCODERS_def
      sample_dodo_order_def bridge_lists)

text \<open>C13: The Uniswap V3 path chosen for an amount is one of the sampled paths and not the empty one;
  over paths sorted by amount it is the smallest that can satisfy the amount, whenever one can. With
  only empty paths the lookup is undefined instead of the intended error.\<close>

theorem uniswapV3_path_choice:
  assumes "sorted_wrt (\<lambda>p q. pa_inputAmount p \<le> pa_inputAmount q) (filter (\<lambda>p. pa_path p \<noteq> ''0x'') ps)"
    and "ps \<noteq> []"
  shows "\<exists>r. getBestUniswapV3PathAmountForInputAmount ps a = Inr r \<and>
     (r = None \<longleftrightarrow> (\<forall>p \<in> set ps. pa_path p = ''0x'')) \<and>
     (\<forall>p. r = Some p \<longrightarrow> p \<in> set ps \<and> pa_path p \<noteq> ''0x'' \<and>
        (\<forall>q \<in> set ps. pa_path q \<noteq> ''0x'' \<and> a \<le> pa_inputAmount q \<longrightarrow>
           a \<le> pa_inputAmount p \<and> pa_inputAmount p \<le> pa_inputAmount q))"
proof (cases "find (\<lambda>p. a \<le> pa_inputAmount p) (filter (\<lambda>p. pa_path p \<noteq> ''0x'') ps)")
  case None
  then have none: "\<forall>q \<in> set ps. pa_path q \<noteq> ''0x'' \<longrightarrow> \<not> a \<le> pa_inputAmount q"
    by (auto simp: find_None_iff)
  show ?thesis
  proof (cases "filter (\<lambda>p. pa_path p \<noteq> ''0x'') ps = []")
    case True
    then show ?thesis using None assms(2)
      by (auto simp: getBestUniswapV3PathAmountForInputAmount_def filter_empty_conv)
  next
    case False
    then show ?thesis using None none assms(2) last_in_filter[OF False]
      by (auto simp: getBestUniswapV3PathAmountForInputAmount_def filter_empty_conv)
  qed
next
  case (Some p)
  then have p: "p \<in> set ps" "pa_path p \<noteq> ''0x''" "a \<le> pa_inputAmount p"
    by (auto simp: find_Some_iff dest: nth_mem)
  moreover have "pa_inputAmount p \<noteq> NaN" using p(3) by (simp add: less_eq_xnum_def)
  ultimately show ?thesis
    using Some assms(2) find_sorted_least[OF assms(1) Some]
    by (auto simp: getBestUniswapV3PathAmountForInputAmount_def)
qed

definition sample_path_amounts :: "PathAmount list" where
  "sample_path_amounts =
     [\<lparr>pa_path = ''0x'', pa_inputAmount = Fin 9, pa_gasUsed = Fin 0\<rparr>,
      \<lparr>pa_path = ''0x01'', pa_inputAmount = Fin 1, pa_gasUsed = Fin 0\<rparr>,
      \<lparr>pa_path = ''0x02'', pa_inputAmount = Fin 2, pa_gasUsed = Fin 0\<rparr>]"

theorem uniswapV3_path_choice_witness:
  "\<exists>r. getBestUniswapV3PathAmountForInputAmount sample_path_amounts (Fin 2) = Inr r \<and> r \<noteq> None"
  using uniswapV3_path_choice[of sample_path_amounts "Fin 2"]
  by (auto simp: sample_path_amounts_def)

end
