(* ===== verification/Path.thy ===== *)
theory Path
  imports Orders
begin

text \<open>
  Paths (\<open>path.ts\<close>): the fills that together reach a target input, the orders they become, their size
  adjusted for cost, their rate, the comparison of two paths, and slippage applied to their orders.
  The text of an error message that prints numbers is reduced to its fixed part.
\<close>

section \<open>Data\<close>

record PathSize =
  size_input :: BigNumber
  size_output :: BigNumber

record PathPenaltyOpts =
  pp_outputAmountPerEth :: BigNumber
  pp_inputAmountPerEth :: BigNumber
  pp_exchangeProxyOverhead :: ExchangeProxyOverhead

record Path =
  path_context :: PathContext
  path_fills :: "Fill list"
  path_ordersByType :: OptimizedOrdersByType
  path_targetInput :: BigNumber
  path_pathPenaltyOpts :: PathPenaltyOpts
  path_sourceFlags :: int
  path_adjustedSize :: PathSize

section \<open>Creation\<close>

definition add_fill :: "(rat \<Rightarrow> rat) \<Rightarrow> BigNumber \<Rightarrow> PathSize \<Rightarrow> Fill \<Rightarrow> PathSize" where
  "add_fill rnd targetInput currentSize fill =
     (if targetInput < size_input currentSize + fill_input fill
      then let remainingInput = targetInput - size_input currentSize;
               scaledFillOutput = fill_output fill * bn_div rnd remainingInput (fill_input fill);
               penalty = fill_adjustedOutput fill - fill_output fill
           in \<lparr>size_input = targetInput,
               size_output = size_output currentSize + scaledFillOutput + penalty\<rparr>
      else \<lparr>size_input = size_input currentSize + fill_input fill,
            size_output = size_output currentSize + fill_adjustedOutput fill\<rparr>)"

definition createAdjustedSize :: "(rat \<Rightarrow> rat) \<Rightarrow> BigNumber \<Rightarrow> Fill list \<Rightarrow> PathSize" where
  "createAdjustedSize rnd targetInput fills =
     foldl (add_fill rnd targetInput) \<lparr>size_input = ZERO_AMOUNT, size_output = ZERO_AMOUNT\<rparr> fills"

definition fill_as_sample :: "Fill \<Rightarrow> DexSample" where
  "fill_as_sample fill =
     \<lparr>ds_source = fill_source fill, ds_fillData = fill_fillData fill, ds_input = fill_input fill,
      ds_output = fill_output fill\<rparr>"

definition createOrdersByType :: "Fill list \<Rightarrow> PathContext \<Rightarrow> js_error + OptimizedOrdersByType" where
  "createOrdersByType fills ctx =
     res_bind (res_map (\<lambda>fill. createNativeOptimizedOrder fill (ctx_side ctx))
                 (filter (\<lambda>fill. fill_source fill = Native) fills))
     (\<lambda>natives. res_bind (res_map (\<lambda>fill. createOrdersFromTwoHopSample (fill_as_sample fill) ctx)
                            (filter (\<lambda>fill. fill_source fill = MultiHop) fills))
     (\<lambda>twoHops. res_bind (res_map (\<lambda>fill. createBridgeOrder fill (fst (getMakerTakerTokens ctx))
                                             (snd (getMakerTakerTokens ctx)) (ctx_side ctx))
                            (filter (\<lambda>fill. fill_source fill \<noteq> Native \<and> fill_source fill \<noteq> MultiHop) fills))
     (\<lambda>bridges. Inr \<lparr>nativeOrders = natives, twoHopOrders = twoHops, bridgeOrders = bridges\<rparr>)))"

definition Path_create ::
  "(rat \<Rightarrow> rat) \<Rightarrow> PathContext \<Rightarrow> Fill list \<Rightarrow> BigNumber \<Rightarrow> PathPenaltyOpts \<Rightarrow> js_error + Path" where
  "Path_create rnd ctx fills targetInput pathPenaltyOpts =
     res_bind (createOrdersByType fills ctx)
       (\<lambda>ordersByType. Inr
          \<lparr>path_context = ctx, path_fills = fills, path_ordersByType = ordersByType,
           path_targetInput = targetInput, path_pathPenaltyOpts = pathPenaltyOpts,
           path_sourceFlags = mergeSourceFlags (map fill_flags fills),
           path_adjustedSize = createAdjustedSize rnd targetInput fills\<rparr>)"

section \<open>Queries\<close>

definition hasTwoHop :: "Path \<Rightarrow> bool" where
  "hasTwoHop p = (0 < (path_sourceFlags p AND SOURCE_FLAGS (SourceKey MultiHop)))"

definition getOrders :: "Path \<Rightarrow> OptimizedOrder list" where
  "getOrders p =
     nativeOrders (path_ordersByType p) @ bridgeOrders (path_ordersByType p) @
     concat (map (\<lambda>t. [firstHopOrder t, secondHopOrder t]) (twoHopOrders (path_ordersByType p)))"

definition getExchangeProxyOverheadAppliedSize :: "Path \<Rightarrow> PathSize" where
  "getExchangeProxyOverheadAppliedSize p =
     (let input = size_input (path_adjustedSize p);
          output = size_output (path_adjustedSize p);
          opts = path_pathPenaltyOpts p;
          gasOverhead = pp_exchangeProxyOverhead opts (path_sourceFlags p);
          pathPenalty = ethToOutputAmount input output (pp_inputAmountPerEth opts)
                          (pp_outputAmountPerEth opts) gasOverhead
      in \<lparr>size_input = input,
          size_output = (if ctx_side (path_context p) = Sell then output - pathPenalty
                         else output + pathPenalty)\<rparr>)"

definition adjustedRate :: "(rat \<Rightarrow> rat) \<Rightarrow> Path \<Rightarrow> BigNumber" where
  "adjustedRate rnd p =
     (let sz = getExchangeProxyOverheadAppliedSize p
      in getRate rnd (ctx_side (path_context p)) (size_input sz) (size_output sz))"

definition adjustedCompleteRate :: "(rat \<Rightarrow> rat) \<Rightarrow> Path \<Rightarrow> BigNumber" where
  "adjustedCompleteRate rnd p =
     (let sz = getExchangeProxyOverheadAppliedSize p
      in getCompleteRate rnd (ctx_side (path_context p)) (size_input sz) (size_output sz)
           (path_targetInput p))"

definition isAdjustedBetterThan :: "(rat \<Rightarrow> rat) \<Rightarrow> Path \<Rightarrow> Path \<Rightarrow> js_error + bool" where
  "isAdjustedBetterThan rnd p other =
     (if \<not> bn_eq (path_targetInput p) (path_targetInput other)
      then Inl (Error ''Target input mismatch'')
      else let targetInput = path_targetInput p;
               input = size_input (path_adjustedSize p);
               otherInput = size_input (path_adjustedSize other)
           in if input < targetInput \<or> otherInput < targetInput then Inr (otherInput < input)
              else Inr (adjustedCompleteRate rnd other < adjustedCompleteRate rnd p))"

section \<open>Slippage\<close>

definition checkSlippage :: "js_number \<Rightarrow> js_error + unit" where
  "checkSlippage maxSlippage =
     (if maxSlippage < 0 \<or> 1 < maxSlippage then Inl (Error ''slippage must be [0, 1]'') else Inr ())"

definition slipOrder :: "js_number \<Rightarrow> MarketOperation \<Rightarrow> OptimizedOrder \<Rightarrow> OptimizedOrder" where
  "slipOrder maxSlippage side order =
     (if oo_source order = Native \<or> maxSlippage = 0 then order
      else if side = Sell
      then order\<lparr>oo_makerAmount :=
             (if bn_eq (oo_makerAmount order) MAX_UINT256 then MAX_UINT256
              else integerValue ROUND_DOWN
                     (oo_makerAmount order * bn_of_number (js_sub 1 maxSlippage)))\<rparr>
      else order\<lparr>oo_takerAmount :=
             (if bn_eq (oo_takerAmount order) MAX_UINT256 then MAX_UINT256
              else integerValue ROUND_UP
                     (oo_takerAmount order * bn_of_number (js_add 1 maxSlippage)))\<rparr>)"

definition getSlippedOrdersByType :: "Path \<Rightarrow> js_number \<Rightarrow> js_error + OptimizedOrdersByType" where
  "getSlippedOrdersByType p maxSlippage =
     res_bind (checkSlippage maxSlippage)
       (\<lambda>_. let slip = slipOrder maxSlippage (ctx_side (path_context p));
                os = path_ordersByType p
             in Inr \<lparr>nativeOrders = nativeOrders os,
                     twoHopOrders = map (\<lambda>t. \<lparr>firstHopOrder = slip (firstHopOrder t),
                                              secondHopOrder = slip (secondHopOrder t)\<rparr>)
                                      (twoHopOrders os),
                     bridgeOrders = map slip (bridgeOrders os)\<rparr>)"

definition getSlippedOrders :: "Path \<Rightarrow> js_number \<Rightarrow> js_error + OptimizedOrder list" where
  "getSlippedOrders p maxSlippage =
     res_bind (checkSlippage maxSlippage)
       (\<lambda>_. Inr (map (slipOrder maxSlippage (ctx_side (path_context p))) (getOrders p)))"

section \<open>The adjusted size\<close>

text \<open>Fills with positive finite input and finite outputs.\<close>

definition regular_fill :: "Fill \<Rightarrow> bool" where
  "regular_fill f \<longleftrightarrow> is_fin (fill_input f) \<and> 0 < fill_input f \<and> is_fin (fill_output f) \<and>
     is_fin (fill_adjustedOutput f)"

lemma regular_fillE:
  assumes "regular_fill f"
  obtains i out a where "fill_input f = Fin i" "0 < i" "fill_output f = Fin out" "fill_adjustedOutput f = Fin a"
  using assms by (auto simp: regular_fill_def is_fin_iff)

text \<open>What a fill adds to the output when \<open>left\<close> of the target remains: all of its adjusted output when it
  fits, else the share of its output that is still wanted, less the whole of its penalty.\<close>

definition counted_output :: "(rat \<Rightarrow> rat) \<Rightarrow> rat \<Rightarrow> Fill \<Rightarrow> rat" where
  "counted_output rnd left f =
     (if xval (fill_input f) \<le> left then xval (fill_adjustedOutput f)
      else xval (fill_output f) * rnd (left / xval (fill_input f)) -
             (xval (fill_output f) - xval (fill_adjustedOutput f)))"

lemma add_fill_regular:
  assumes "regular_fill f" "c \<le> t"
  shows "add_fill rnd (Fin t) \<lparr>size_input = Fin c, size_output = Fin u\<rparr> f =
      \<lparr>size_input = Fin (min t (c + xval (fill_input f))), size_output = Fin (u + counted_output rnd (t - c) f)\<rparr>"
  using assms(1) by (rule regular_fillE) (use assms(2) in \<open>auto simp: add_fill_def Let_def min_def counted_output_def\<close>)

definition input_sum :: "Fill list \<Rightarrow> rat" where
  "input_sum fs = sum_list (map (\<lambda>f. xval (fill_input f)) fs)"

lemma regular_pos: "regular_fill f \<Longrightarrow> 0 < xval (fill_input f)"
  by (erule regular_fillE) simp

lemma input_sum_nonneg: "\<forall>f \<in> set fs. regular_fill f \<Longrightarrow> 0 \<le> input_sum fs"
  unfolding input_sum_def by (intro sum_list_nonneg) (auto dest!: bspec regular_pos)

text \<open>The target that is left for the \<open>k\<close>-th fill once those before it are counted.\<close>

definition left_for :: "rat \<Rightarrow> Fill list \<Rightarrow> nat \<Rightarrow> rat" where
  "left_for t fs k = max 0 (t - input_sum (take k fs))"

lemma left_for_simps:
  "0 \<le> t \<Longrightarrow> left_for t fs 0 = t"
  "0 \<le> input_sum (take k fs) \<Longrightarrow>
   left_for t (f # fs) (Suc k) = left_for (t - min t (xval (fill_input f))) fs k"
  by (simp_all add: left_for_def input_sum_def max_def min_def)

lemma foldl_add_fill:
  assumes "\<forall>f \<in> set fs. regular_fill f" "c \<le> t"
  shows "foldl (add_fill rnd (Fin t)) \<lparr>size_input = Fin c, size_output = Fin u\<rparr> fs =
      \<lparr>size_input = Fin (min t (c + input_sum fs)),
       size_output = Fin (u + (\<Sum>k < length fs. counted_output rnd (left_for (t - c) fs k) (fs ! k)))\<rparr>"
  using assms
proof (induction fs arbitrary: c u)
  case Nil
  then show ?case by (simp add: input_sum_def)
next
  case (Cons f fs)
  let ?c = "min t (c + xval (fill_input f))"
  have pos: "0 < xval (fill_input f)" "0 \<le> input_sum fs"
    using Cons.prems regular_pos[of f] input_sum_nonneg[of fs] by auto
  have "left_for (t - ?c) fs k = left_for (t - c) (f # fs) (Suc k)" for k
  proof -
    have "0 \<le> input_sum (take k fs)"
      using Cons.prems by (intro input_sum_nonneg) (auto dest: in_set_takeD)
    moreover have "t - c - min (t - c) (xval (fill_input f)) = t - ?c" by (auto simp: min_def)
    ultimately show ?thesis by (simp only: left_for_simps)
  qed
  moreover have "min t (?c + input_sum fs) = min t (c + input_sum (f # fs))"
    using pos by (simp add: input_sum_def min_def)
  moreover have "(\<Sum>k < length (f # fs). counted_output rnd (left_for (t - c) (f # fs) k) ((f # fs) ! k)) =
      counted_output rnd (t - c) f + (\<Sum>k < length fs. counted_output rnd (left_for (t - c) (f # fs) (Suc k)) (fs ! k))"
    using Cons.prems by (simp only: length_Cons sum.lessThan_Suc_shift) (simp add: left_for_simps)
  ultimately show ?case
    using Cons.prems Cons.IH[of ?c "u + counted_output rnd (t - c) f"] by (simp add: add_fill_regular)
qed

lemma counted_outputs_fitting:
  assumes "\<forall>f \<in> set fs. regular_fill f" "input_sum fs \<le> t"
  shows "(\<Sum>k < length fs. counted_output rnd (left_for t fs k) (fs ! k)) =
     sum_list (map (\<lambda>f. xval (fill_adjustedOutput f)) fs)"
proof -
  have "counted_output rnd (left_for t fs k) (fs ! k) = xval (fill_adjustedOutput (fs ! k))" if "k < length fs" for k
  proof -
    have "input_sum fs = input_sum (take k fs) + (xval (fill_input (fs ! k)) + input_sum (drop (Suc k) fs))"
      using that by (subst id_take_nth_drop[OF that]) (simp add: input_sum_def)
    moreover have "0 \<le> input_sum (drop (Suc k) fs)"
      using assms(1) by (intro input_sum_nonneg) (auto dest: in_set_dropD)
    ultimately have "xval (fill_input (fs ! k)) \<le> left_for t fs k" using assms(2) by (simp add: left_for_def)
    then show ?thesis by (simp add: counted_output_def)
  qed
  then show ?thesis by (simp add: sum_list_sum_nth atLeast0LessThan)
qed

text \<open>Clipping never gains output.\<close>

lemma counted_output_le:
  assumes "regular_fill f" "0 \<le> xval (fill_output f)" "\<And>x. x \<le> 1 \<Longrightarrow> rnd x \<le> 1"
  shows "counted_output rnd left f \<le> xval (fill_adjustedOutput f)"
proof (cases "xval (fill_input f) \<le> left")
  case False
  then have "left / xval (fill_input f) \<le> 1" using regular_pos[OF assms(1)] by simp
  then have "xval (fill_output f) * rnd (left / xval (fill_input f)) \<le> xval (fill_output f) * 1"
    by (intro mult_left_mono assms)
  with False show ?thesis by (simp add: counted_output_def)
qed (simp add: counted_output_def)

section \<open>Orders of a path\<close>

text \<open>The input side of an order: what it takes in a sell, what it gives in a buy.\<close>

definition order_input :: "MarketOperation \<Rightarrow> OptimizedOrder \<Rightarrow> BigNumber" where
  "order_input side od = (if side = Sell then oo_takerAmount od else oo_makerAmount od)"

definition twoHop_input :: "MarketOperation \<Rightarrow> TwoHopOrder \<Rightarrow> BigNumber" where
  "twoHop_input side t = order_input side (if side = Sell then firstHopOrder t else secondHopOrder t)"

lemma native_order_facts:
  assumes "createNativeOptimizedOrder f side = Inr od"
  shows "oo_source od = Native \<and> order_input side od = fill_input f"
  using assms
  by (auto simp: createNativeOptimizedOrder_def order_input_def getFillTokenAmounts_def
      split: FillData.splits if_splits)

lemma bridge_order_facts:
  assumes "createBridgeOrder f m t side = Inr od"
  shows "oo_source od = fill_source f \<and> order_input side od = fill_input f \<and>
         oo_makerToken od = m \<and> oo_takerToken od = t"
  using assms
  by (auto simp: createBridgeOrder_def order_input_def getFillTokenAmounts_def res_bind_eq_Inr)

lemma twoHop_order_facts:
  assumes "createOrdersFromTwoHopSample s ctx = Inr t"
  shows "twoHop_input (ctx_side ctx) t = ds_input s \<and>
         oo_makerToken (firstHopOrder t) = oo_takerToken (secondHopOrder t) \<and>
         oo_takerToken (firstHopOrder t) = snd (getMakerTakerTokens ctx) \<and>
         oo_makerToken (secondHopOrder t) = fst (getMakerTakerTokens ctx)"
  using assms
  by (auto simp: createOrdersFromTwoHopSample_def twoHop_input_def res_bind_eq_Inr Let_def hop_fill_def
      split: FillData.splits dest!: bridge_order_facts)

lemma res_map_map:
  assumes "res_map f xs = Inr ys" "\<And>x y. f x = Inr y \<Longrightarrow> g y = h x"
  shows "map g ys = map h xs"
  using assms by (auto simp: res_map_Inr_iff list_all2_conv_all_nth intro: nth_equalityI)

lemma res_map_mem: "res_map f xs = Inr ys \<Longrightarrow> \<forall>y \<in> set ys. \<exists>x \<in> set xs. f x = Inr y"
  by (induction xs arbitrary: ys) (fastforce simp: res_bind_eq_Inr)+

lemma createOrdersByType_facts:
  assumes "createOrdersByType fs ctx = Inr os"
  defines "side \<equiv> ctx_side ctx"
  shows "map (order_input side) (nativeOrders os) =
           map fill_input (filter (\<lambda>f. fill_source f = Native) fs)"
    and "map (twoHop_input side) (twoHopOrders os) =
           map fill_input (filter (\<lambda>f. fill_source f = MultiHop) fs)"
    and "map (order_input side) (bridgeOrders os) =
           map fill_input (filter (\<lambda>f. fill_source f \<noteq> Native \<and> fill_source f \<noteq> MultiHop) fs)"
    and "\<forall>od \<in> set (nativeOrders os). oo_source od = Native"
    and "\<forall>od \<in> set (bridgeOrders os). oo_source od \<noteq> Native \<and> oo_source od \<noteq> MultiHop"
proof -
  obtain ns ts bs where
    ns: "res_map (\<lambda>f. createNativeOptimizedOrder f side) (filter (\<lambda>f. fill_source f = Native) fs) = Inr ns" and
    ts: "res_map (\<lambda>f. createOrdersFromTwoHopSample (fill_as_sample f) ctx)
           (filter (\<lambda>f. fill_source f = MultiHop) fs) = Inr ts" and
    bs: "res_map (\<lambda>f. createBridgeOrder f (fst (getMakerTakerTokens ctx)) (snd (getMakerTakerTokens ctx)) side)
           (filter (\<lambda>f. fill_source f \<noteq> Native \<and> fill_source f \<noteq> MultiHop) fs) = Inr bs" and
    os: "os = \<lparr>nativeOrders = ns, twoHopOrders = ts, bridgeOrders = bs\<rparr>"
    using assms(1) by (auto simp: createOrdersByType_def res_bind_eq_Inr side_def)
  show "map (order_input side) (nativeOrders os) = map fill_input (filter (\<lambda>f. fill_source f = Native) fs)"
    using res_map_map[OF ns, of "order_input side" fill_input] native_order_facts by (simp add: os)
  show "map (twoHop_input side) (twoHopOrders os) = map fill_input (filter (\<lambda>f. fill_source f = MultiHop) fs)"
    using res_map_map[OF ts, of "twoHop_input side" fill_input] twoHop_order_facts
    by (fastforce simp: os fill_as_sample_def side_def)
  show "map (order_input side) (bridgeOrders os) =
      map fill_input (filter (\<lambda>f. fill_source f \<noteq> Native \<and> fill_source f \<noteq> MultiHop) fs)"
    using res_map_map[OF bs, of "order_input side" fill_input] bridge_order_facts by (simp add: os)
  show "\<forall>od \<in> set (nativeOrders os). oo_source od = Native"
    using res_map_mem[OF ns] native_order_facts by (fastforce simp: os)
  show "\<forall>od \<in> set (bridgeOrders os). oo_source od \<noteq> Native \<and> oo_source od \<noteq> MultiHop"
    using res_map_mem[OF bs] bridge_order_facts by (fastforce simp: os)
qed

lemma sum_split3:
  fixes g :: "Fill \<Rightarrow> rat"
  shows "sum_list (map g fs) =
     sum_list (map g (filter (\<lambda>f. fill_source f = Native) fs)) +
     sum_list (map g (filter (\<lambda>f. fill_source f = MultiHop) fs)) +
     sum_list (map g (filter (\<lambda>f. fill_source f \<noteq> Native \<and> fill_source f \<noteq> MultiHop) fs))"
  by (induction fs) auto

lemma Path_create_facts:
  assumes "Path_create rnd ctx fs t opts = Inr p"
  shows "createOrdersByType fs ctx = Inr (path_ordersByType p)" "path_context p = ctx"
    "path_fills p = fs" "path_targetInput p = t" "path_pathPenaltyOpts p = opts"
    "path_sourceFlags p = mergeSourceFlags (map fill_flags fs)"
    "path_adjustedSize p = createAdjustedSize rnd t fs"
  using assms by (auto simp: Path_create_def res_bind_eq_Inr)

lemma path_orders_input:
  assumes "Path_create rnd ctx fs t opts = Inr p"
  shows "sum_list (map (xval \<circ> order_input (ctx_side ctx)) (nativeOrders (path_ordersByType p))) +
         sum_list (map (xval \<circ> twoHop_input (ctx_side ctx)) (twoHopOrders (path_ordersByType p))) +
         sum_list (map (xval \<circ> order_input (ctx_side ctx)) (bridgeOrders (path_ordersByType p)))
         = input_sum fs"
proof -
  note orders = createOrdersByType_facts(1-3)[OF Path_create_facts(1)[OF assms]]
  show ?thesis
    using arg_cong[OF orders(1), of "map xval"] arg_cong[OF orders(2), of "map xval"]
      arg_cong[OF orders(3), of "map xval"] sum_split3[of "\<lambda>f. xval (fill_input f)" fs]
    by (simp add: input_sum_def comp_def)
qed

section \<open>Slipped orders\<close>

lemma slip_down: "0 \<le> m \<Longrightarrow> 0 \<le> f \<Longrightarrow> f \<le> 1 \<Longrightarrow> of_int \<lfloor>m * f :: rat\<rfloor> \<le> m \<and> 0 \<le> \<lfloor>m * f\<rfloor>"
  by (metis mult_left_le mult_nonneg_nonneg of_int_floor_le order_trans zero_le_floor)

lemma slip_up: "0 \<le> m \<Longrightarrow> 1 \<le> f \<Longrightarrow> f \<le> 2 \<Longrightarrow> m \<le> of_int \<lceil>m * f :: rat\<rceil> \<and> \<lceil>m * f\<rceil> \<le> \<lceil>2 * m\<rceil>"
proof -
  assume "0 \<le> m" "1 \<le> f" "f \<le> 2"
  then have "m * 1 \<le> m * f" "m * f \<le> m * 2" by (simp_all only: mult_left_mono)
  then have "m \<le> m * f" "m * f \<le> 2 * m" by simp_all
  then show ?thesis by (meson ceiling_mono le_of_int_ceiling order_trans)
qed

lemma slipOrder_bounds:
  assumes "0 \<le> s" "s \<le> 1" "oo_makerAmount od = Fin m" "0 \<le> m" "oo_takerAmount od = Fin k" "0 \<le> k"
  shows "\<exists>m' k'. oo_makerAmount (slipOrder (Fin s) side od) = Fin m' \<and>
           oo_takerAmount (slipOrder (Fin s) side od) = Fin k' \<and>
     (if side = Sell then k' = k \<and> 0 \<le> m' \<and> m' \<le> m
      else m' = m \<and> k \<le> k' \<and> k' \<le> of_int \<lceil>2 * k\<rceil>)"
proof -
  define d where "d = dec (rnd64 (1 - s))"
  define u where "u = dec (rnd64 (1 + s))"
  have "0 \<le> d" "d \<le> 1" "1 \<le> u" "u \<le> 2"
    using slip_down_bounds[OF assms(1,2)] slip_up_bounds[OF assms(1,2)] by (simp_all add: d_def u_def)
  then have "of_int \<lfloor>m * d\<rfloor> \<le> m \<and> 0 \<le> \<lfloor>m * d\<rfloor>" "k \<le> of_int \<lceil>k * u\<rceil> \<and> \<lceil>k * u\<rceil> \<le> \<lceil>2 * k\<rceil>"
      "0 \<le> m * d" "0 \<le> k * u" "k \<le> of_int \<lceil>2 * k\<rceil>"
    using slip_down[of m d] slip_up[of k u] assms by (auto intro: order_trans[OF _ le_of_int_ceiling])
  then show ?thesis
    using assms by (cases side) (auto simp: slipOrder_def MAX_UINT256_def bn_eq_def d_def[symmetric] u_def[symmetric])
qed

lemma slipOrder_same:
  "oo_source (slipOrder s side od) = oo_source od" "oo_fillData (slipOrder s side od) = oo_fillData od"
  "oo_type (slipOrder s side od) = oo_type od" "oo_fill (slipOrder s side od) = oo_fill od"
  "oo_source od = Native \<Longrightarrow> slipOrder s side od = od"
  by (auto simp: slipOrder_def)

lemma slip_ordersByType:
  assumes "\<forall>od \<in> set (nativeOrders (path_ordersByType p)). oo_source od = Native"
  shows "getSlippedOrders p s =
    res_bind (getSlippedOrdersByType p s) (\<lambda>os. Inr (getOrders (p\<lparr>path_ordersByType := os\<rparr>)))"
  using assms
  by (cases "checkSlippage s")
    (auto simp: getSlippedOrders_def getSlippedOrdersByType_def getOrders_def Let_def slipOrder_same
      map_concat comp_def intro: map_idI)

section \<open>Comparison\<close>

lemma xless_irrefl [simp]: "\<not> x < (x :: xnum)"
  by (cases x) auto

lemma xless_trans: "x < y \<Longrightarrow> y < z \<Longrightarrow> x < (z :: xnum)"
  by (cases x; cases y; cases z) auto

lemma xless_le_trans: "x < y \<Longrightarrow> y \<le> z \<Longrightarrow> x < (z :: xnum)"
  by (auto simp: less_eq_xnum_def intro: xless_trans)

lemma xle_not_less: "x \<le> y \<Longrightarrow> \<not> y < (x :: xnum)"
  by (cases x; cases y) (auto simp: less_eq_xnum_def)

lemma xle_less_cases: "x \<le> y \<Longrightarrow> x < y \<or> x = (y :: xnum)"
  by (auto simp: less_eq_xnum_def)

definition within_target :: "Path \<Rightarrow> bool" where
  "within_target p \<longleftrightarrow> size_input (path_adjustedSize p) \<le> path_targetInput p"

lemma better_iff:
  assumes "within_target p" "within_target q" "path_targetInput p = path_targetInput q"
  shows "isAdjustedBetterThan rnd p q = Inr b \<longleftrightarrow>
    (b \<longleftrightarrow> size_input (path_adjustedSize q) < size_input (path_adjustedSize p) \<or>
          size_input (path_adjustedSize p) = path_targetInput p \<and>
          size_input (path_adjustedSize q) = path_targetInput p \<and>
          adjustedCompleteRate rnd q < adjustedCompleteRate rnd p)"
  using assms unfolding isAdjustedBetterThan_def within_target_def bn_eq_def
  by (auto simp: Let_def less_eq_xnum_def dest: xless_trans)

lemma better_target: "isAdjustedBetterThan rnd p q = Inr b \<Longrightarrow> path_targetInput p = path_targetInput q"
  by (auto simp: isAdjustedBetterThan_def bn_eq_def split: if_splits)

lemma better_irrefl: "within_target p \<Longrightarrow> isAdjustedBetterThan rnd p p = Inr False"
  by (simp add: better_iff)

lemma better_trans:
  assumes "within_target p" "within_target q" "within_target r"
    and "isAdjustedBetterThan rnd p q = Inr True" "isAdjustedBetterThan rnd q r = Inr True"
  shows "isAdjustedBetterThan rnd p r = Inr True"
proof -
  have t: "path_targetInput p = path_targetInput q" "path_targetInput q = path_targetInput r"
    using assms(4,5) better_target by blast+
  then show ?thesis
    using assms by (auto simp: better_iff dest: xless_trans)
qed

section \<open>Flags and two-hop orders\<close>

text \<open>A fill whose flag word marks MultiHop exactly when its source is MultiHop.\<close>

definition well_flagged :: "Fill \<Rightarrow> bool" where
  "well_flagged f \<longleftrightarrow>
     (bit (fill_flags f) (index_of (SourceKey MultiHop) source_flag_keys) \<longleftrightarrow> fill_source f = MultiHop)"

lemma flag_bit_MultiHop:
  "bit (SOURCE_FLAGS k) (index_of (SourceKey MultiHop) source_flag_keys) \<longleftrightarrow> k = SourceKey MultiHop"
  using index_of_inj[OF key_in key_in, of "SourceKey MultiHop" k] by (auto simp: bit_SOURCE_FLAGS)

lemma dexSampleToFill_flagged: "well_flagged (dexSampleToFill pid side sample o1 i1 fees)"
  by (simp add: well_flagged_def dexSampleToFill_def Let_def flag_bit_MultiHop)

lemma nativeOrderToFill_flagged:
  "nativeOrderToFill rnd pid side order t o1 i1 fees flt = Some f \<Longrightarrow> well_flagged f"
  by (cases "sno_type order")
    (auto simp: well_flagged_def nativeOrderToFill_def Let_def flag_bit_MultiHop split: if_splits)

lemma twoHopSampleToFill_flagged:
  "twoHopSampleToFill side sample o1 est = Inr f \<Longrightarrow> ds_source sample = MultiHop \<Longrightarrow> well_flagged f"
  by (auto simp: well_flagged_def twoHopSampleToFill_def Let_def flag_bit_MultiHop bit_or_iff
      split: FillData.splits)

section \<open>Properties\<close>

text \<open>C8: The adjusted size of a path of regular fills takes exactly the smaller of the target and the sum
  of the fill inputs. Its output counts a fill that fits into what the fills before it leave of the
  target with its whole adjusted output, and one that is clipped with the wanted share of its output
  less its whole penalty; when all fills fit this is the sum of the adjusted outputs, and clipping
  never gains output.\<close>

theorem adjusted_size_input:
  assumes "\<forall>f \<in> set fs. regular_fill f" "0 \<le> t"
  shows "size_input (createAdjustedSize rnd (Fin t) fs) = Fin (min t (input_sum fs)) \<and>
         size_output (createAdjustedSize rnd (Fin t) fs) =
           Fin (\<Sum>k < length fs.
             (let i = xval (fill_input (fs ! k)); out = xval (fill_output (fs ! k));
                  adjusted = xval (fill_adjustedOutput (fs ! k));
                  left = max 0 (t - input_sum (take k fs))
              in if i \<le> left then adjusted else out * rnd (left / i) - (out - adjusted))) \<and>
         (input_sum fs \<le> t \<longrightarrow> size_output (createAdjustedSize rnd (Fin t) fs) =
            Fin (sum_list (map (\<lambda>f. xval (fill_adjustedOutput f)) fs))) \<and>
         ((\<forall>f \<in> set fs. 0 \<le> xval (fill_output f)) \<and> (\<forall>x \<le> 1. rnd x \<le> 1) \<longrightarrow>
            size_output (createAdjustedSize rnd (Fin t) fs) \<le>
              Fin (sum_list (map (\<lambda>f. xval (fill_adjustedOutput f)) fs)))"
proof -
  have size: "createAdjustedSize rnd (Fin t) fs = \<lparr>size_input = Fin (min t (input_sum fs)),
      size_output = Fin (\<Sum>k < length fs. counted_output rnd (left_for t fs k) (fs ! k))\<rparr>"
    using foldl_add_fill[OF assms, of rnd 0] by (simp add: createAdjustedSize_def)
  moreover have "(\<Sum>k < length fs. counted_output rnd (left_for t fs k) (fs ! k)) \<le>
      sum_list (map (\<lambda>f. xval (fill_adjustedOutput f)) fs)"
    if "\<forall>f \<in> set fs. 0 \<le> xval (fill_output f)" "\<forall>x \<le> 1. rnd x \<le> 1"
    using assms(1) that unfolding sum_list_sum_nth length_map atLeast0LessThan
    by (intro sum_mono) (simp add: counted_output_le)
  ultimately show ?thesis
    using counted_outputs_fitting[OF assms(1), of t rnd]
    by (simp add: counted_output_def left_for_def Let_def)
qed

definition sample_fill :: "ERC20BridgeSource \<Rightarrow> rat \<Rightarrow> rat \<Rightarrow> Fill" where
  "sample_fill src i out =
     \<lparr>fill_input = Fin i, fill_output = Fin out, fill_adjustedOutput = Fin (out - 1), fill_gas = Fin 100,
      fill_source = src, fill_type = Bridge, fill_fillData = NoFillData, fill_sourcePathId = [],
      fill_flags = SOURCE_FLAGS (SourceKey src)\<rparr>"

theorem adjusted_size_input_witness:
  "createAdjustedSize rnd78 (Fin 8) [sample_fill Curve 4 5, sample_fill SushiSwap 8 9] =
     \<lparr>size_input = Fin 8, size_output = Fin (15 / 2)\<rparr>"
proof -
  have half: "rnd78 (1 / 2) = 1 / 2" by code_simp
  show ?thesis
    using adjusted_size_input[of "[sample_fill Curve 4 5, sample_fill SushiSwap 8 9]" 8 rnd78]
    by (cases "createAdjustedSize rnd78 (Fin 8) [sample_fill Curve 4 5, sample_fill SushiSwap 8 9]")
      (simp add: sample_fill_def regular_fill_def input_sum_def half)
qed

text \<open>C9: The orders of a path spend exactly the inputs of its fills: native and bridge orders one fill
  each, a two-hop order on its outer hop.\<close>

theorem path_orders_conserve_input:
  assumes "Path_create rnd ctx fs t opts = Inr p"
  shows "sum_list (map (xval \<circ> order_input (ctx_side ctx)) (nativeOrders (path_ordersByType p))) +
         sum_list (map (xval \<circ> twoHop_input (ctx_side ctx)) (twoHopOrders (path_ordersByType p))) +
         sum_list (map (xval \<circ> order_input (ctx_side ctx)) (bridgeOrders (path_ordersByType p)))
         = input_sum fs"
  by (rule path_orders_input[OF assms])

definition sample_context :: PathContext where
  "sample_context = \<lparr>ctx_side = Sell, ctx_inputToken = ''B'', ctx_outputToken = ''A''\<rparr>"

definition sample_penalty :: PathPenaltyOpts where
  "sample_penalty = \<lparr>pp_outputAmountPerEth = Fin 1, pp_inputAmountPerEth = Fin 1,
                     pp_exchangeProxyOverhead = (\<lambda>flags. Fin 1)\<rparr>"

definition sample_path :: "rat \<Rightarrow> Path" where
  "sample_path i =
     \<lparr>path_context = sample_context, path_fills = [sample_fill Curve i 5],
      path_ordersByType = \<lparr>nativeOrders = [], twoHopOrders = [], bridgeOrders =
        [\<lparr>oo_source = Curve, oo_fillData = NoFillData, oo_type = Bridge, oo_makerToken = ''A'',
          oo_takerToken = ''B'', oo_makerAmount = Fin 5, oo_takerAmount = Fin i,
          oo_fill = toFillBase (sample_fill Curve i 5)\<rparr>]\<rparr>,
      path_targetInput = Fin 10, path_pathPenaltyOpts = sample_penalty,
      path_sourceFlags = mergeSourceFlags [SOURCE_FLAGS (SourceKey Curve)],
      path_adjustedSize = createAdjustedSize rnd78 (Fin 10) [sample_fill Curve i 5]\<rparr>"

lemma sample_path_create:
  "Path_create rnd78 sample_context [sample_fill Curve i 5] (Fin 10) sample_penalty = Inr (sample_path i)"
proof -
  have "integerValue ROUND_DOWN (Fin 5) = Fin 5"
    using round_mode_of_int[of ROUND_DOWN 5] by simp
  then show ?thesis
    by (simp add: Path_create_def createOrdersByType_def createBridgeOrder_def sample_path_def
        createFinalBridgeOrderFillDataFromCollapsedFill_def getFillTokenAmounts_def getMakerTakerTokens_def
        sample_context_def) (simp add: sample_fill_def)
qed

theorem path_orders_conserve_input_witness:
  "sum_list (map (xval \<circ> order_input Sell) (bridgeOrders (path_ordersByType (sample_path 4)))) = 4"
  using path_orders_conserve_input[OF sample_path_create[of 4]]
  by (simp add: sample_context_def sample_path_def input_sum_def sample_fill_def)

text \<open>Comparing paths with the same target is a strict partial order, so choosing the best of several
  paths does not depend on cycles; a path that covers more of the target always beats one that covers
  less, whatever their rates.\<close>

theorem path_comparison_strict_order:
  assumes "within_target p" "within_target q" "within_target r"
  shows "isAdjustedBetterThan rnd p p = Inr False \<and>
    (isAdjustedBetterThan rnd p q = Inr True \<and> isAdjustedBetterThan rnd q r = Inr True \<longrightarrow>
       isAdjustedBetterThan rnd p r = Inr True) \<and>
    (path_targetInput p = path_targetInput q \<and>
     size_input (path_adjustedSize q) < size_input (path_adjustedSize p) \<longrightarrow>
       isAdjustedBetterThan rnd p q = Inr True)"
proof (intro conjI impI)
  show "isAdjustedBetterThan rnd p p = Inr False" using assms(1) by (rule better_irrefl)
qed (use better_trans[OF assms] better_iff[OF assms(1,2)] in blast)+

lemma sample_within_target: "0 < i \<Longrightarrow> within_target (sample_path i)"
  using foldl_add_fill[of "[sample_fill Curve i 5]" 0 10 rnd78 0]
  by (auto simp: within_target_def sample_path_def createAdjustedSize_def regular_fill_def sample_fill_def)

theorem path_comparison_strict_order_witness:
  "isAdjustedBetterThan rnd78 (sample_path 4) (sample_path 4) = Inr False"
  using path_comparison_strict_order[OF sample_within_target sample_within_target sample_within_target,
      of 4 4 4 rnd78] by simp

text \<open>C10: Slippage moves every amount in the tolerated direction only: in a sell the maker amount shrinks
  (never below zero) and the taker amount stays, in a buy the taker amount grows (to at most twice,
  rounded up) and the maker amount stays; native orders are untouched.\<close>

theorem slippage_bounds:
  assumes "0 \<le> s" "s \<le> 1" "oo_makerAmount od = Fin m" "0 \<le> m" "oo_takerAmount od = Fin k" "0 \<le> k"
  shows "(\<exists>m' k'. oo_makerAmount (slipOrder (Fin s) side od) = Fin m' \<and>
             oo_takerAmount (slipOrder (Fin s) side od) = Fin k' \<and>
            (if side = Sell then k' = k \<and> 0 \<le> m' \<and> m' \<le> m
             else m' = m \<and> k \<le> k' \<and> k' \<le> of_int \<lceil>2 * k\<rceil>)) \<and>
         (oo_source od = Native \<longrightarrow> slipOrder (Fin s) side od = od)"
  using slipOrder_bounds[OF assms] slipOrder_same(5) by auto

theorem slippage_bounds_witness:
  "\<exists>m' k'. oo_makerAmount (slipOrder (Fin (1 / 4)) Sell sample_dodo_order) = Fin m' \<and>
     oo_takerAmount (slipOrder (Fin (1 / 4)) Sell sample_dodo_order) = Fin k' \<and> k' = 2 \<and> 0 \<le> m' \<and> m' \<le> 1"
  using slippage_bounds[of "1 / 4" sample_dodo_order 1 2 Sell] by (simp add: sample_dodo_order_def)

text \<open>The two ways of asking a created path for slipped orders agree: slipping the flat list of orders
  is flattening the slipped orders by type, and both reject exactly the slippages outside of the
  unit interval.\<close>

theorem slipped_orders_agree:
  assumes "Path_create rnd ctx fs t opts = Inr p"
  shows "getSlippedOrders p s =
      res_bind (getSlippedOrdersByType p s) (\<lambda>os. Inr (getOrders (p\<lparr>path_ordersByType := os\<rparr>))) \<and>
    ((\<exists>os. getSlippedOrdersByType p s = Inr os) \<longleftrightarrow> \<not> (s < 0 \<or> 1 < s))"
  using slip_ordersByType[OF createOrdersByType_facts(4)[OF Path_create_facts(1)[OF assms]]]
  by (auto simp: getSlippedOrdersByType_def checkSlippage_def Let_def)

theorem slipped_orders_agree_witness:
  "\<exists>os. getSlippedOrdersByType (sample_path 4) (Fin (1 / 2)) = Inr os"
  using slipped_orders_agree[OF sample_path_create, of 4 "Fin (1 / 2)"] by simp

text \<open>A path made of fills whose flags mark their sources reports a two-hop exactly when it has
  two-hop orders.\<close>

theorem hasTwoHop_iff_twoHop_orders:
  assumes "Path_create rnd ctx fs t opts = Inr p" "\<forall>f \<in> set fs. well_flagged f"
  shows "hasTwoHop p \<longleftrightarrow> twoHopOrders (path_ordersByType p) \<noteq> []"
proof -
  have "hasTwoHop p \<longleftrightarrow> (\<exists>f \<in> set fs. fill_source f = MultiHop)"
    using assms(2) unfolding well_flagged_def
    by (simp add: hasTwoHop_def and_flag_pos_iff bit_mergeSourceFlags Path_create_facts[OF assms(1)])
  also have "\<dots> \<longleftrightarrow> filter (\<lambda>f. fill_source f = MultiHop) fs \<noteq> []"
    by (auto simp: filter_empty_conv)
  also have "\<dots> \<longleftrightarrow> twoHopOrders (path_ordersByType p) \<noteq> []"
    using createOrdersByType_facts(2)[OF Path_create_facts(1)[OF assms(1)]]
    by (metis map_is_Nil_conv)
  finally show ?thesis .
qed

theorem hasTwoHop_iff_twoHop_orders_witness: "\<not> hasTwoHop (sample_path 4)"
proof -
  have "well_flagged (sample_fill Curve 4 5)"
    by (simp add: well_flagged_def sample_fill_def flag_bit_MultiHop)
  then have "hasTwoHop (sample_path 4) \<longleftrightarrow> twoHopOrders (path_ordersByType (sample_path 4)) \<noteq> []"
    using hasTwoHop_iff_twoHop_orders[OF sample_path_create[of 4]] by simp
  then show ?thesis by (simp add: sample_path_def)
qed

end
