(* ===== verification/Source_Tables.thy ===== *)
theory Source_Tables
  imports Path
begin

text \<open>
  The tables of \<open>constants.ts\<close> that drive source selection: the sources sampled on each chain for
  sells and buys, the sources that price the fee token, the sources with a direct (VIP) route, and
  the default gas and fee schedules. The address of the wrapped native token on mainnet and the
  decoding of bytes32 strings come from packages and are arguments.
\<close>

section \<open>Sources by chain\<close>

text \<open>An object with a default for every chain, overridden by the entries given.\<close>

definition valueByChainId :: "(ChainId \<times> 'a) list \<Rightarrow> 'a \<Rightarrow> ChainId \<Rightarrow> 'a" where
  "valueByChainId rest defaultValue chain =
     (case map_of rest chain of Some v \<Rightarrow> v | None \<Rightarrow> defaultValue)"

fun SELL_SOURCE_FILTER_BY_CHAIN_ID :: "ChainId \<Rightarrow> SourceFilters" where
  "SELL_SOURCE_FILTER_BY_CHAIN_ID Mainnet =
     new_SourceFilters
        [Native, Uniswap, UniswapV2, Curve, Balancer, BalancerV2, Bancor, BancorV3, MStable,
         SushiSwap, Shell, MultiHop, Dodo, DodoV2, CryptoCom, Lido, MakerPsm, KyberDmm,
         Component, Saddle, UniswapV3, CurveV2, ShibaSwap, Synapse, Synthetix, AaveV2,
         Compound] [] []"
| "SELL_SOURCE_FILTER_BY_CHAIN_ID Goerli =
     new_SourceFilters
        [Native, SushiSwap, Uniswap, UniswapV2, UniswapV3, MultiHop] [] []"
| "SELL_SOURCE_FILTER_BY_CHAIN_ID PolygonMumbai =
     new_SourceFilters
        [Native, UniswapV3] [] []"
| "SELL_SOURCE_FILTER_BY_CHAIN_ID Ganache =
     new_SourceFilters
        [Native] [] []"
| "SELL_SOURCE_FILTER_BY_CHAIN_ID BSC =
     new_SourceFilters
        [BakerySwap, Belt, Dodo, DodoV2, Ellipsis, Mooniswap, MultiHop, Nerve, Synapse,
         PancakeSwap, PancakeSwapV2, SushiSwap, ApeSwap, WaultSwap, FirebirdOneSwap,
         ACryptos, KyberDmm, BiSwap, MDex, KnightSwap, WOOFi] [] []"
| "SELL_SOURCE_FILTER_BY_CHAIN_ID Polygon =
     new_SourceFilters
        [Native, SushiSwap, QuickSwap, Dfyn, MStable, Curve, DodoV2, Dodo, CurveV2,
         WaultSwap, ApeSwap, FirebirdOneSwap, BalancerV2, KyberDmm, MultiHop, IronSwap,
         AaveV2, UniswapV3, Synapse, MeshSwap, WOOFi, AaveV3] [] []"
| "SELL_SOURCE_FILTER_BY_CHAIN_ID Avalanche =
     new_SourceFilters
        [MultiHop, Pangolin, TraderJoe, SushiSwap, Curve, CurveV2, KyberDmm, AaveV2, Synapse,
         GMX, Platypus, WOOFi, AaveV3] [] []"
| "SELL_SOURCE_FILTER_BY_CHAIN_ID Fantom =
     new_SourceFilters
        [MultiHop, Beethovenx, Curve, CurveV2, MorpheusSwap, SpiritSwap, SpookySwap,
         SushiSwap, Synapse, Yoshi, WOOFi] [] []"
| "SELL_SOURCE_FILTER_BY_CHAIN_ID Celo =
     new_SourceFilters
        [UbeSwap, SushiSwap, MultiHop, MobiusMoney] [] []"
| "SELL_SOURCE_FILTER_BY_CHAIN_ID Optimism =
     new_SourceFilters
        [UniswapV3, Synapse, Curve, CurveV2, MultiHop, Saddle, Velodrome, Synthetix,
         Beethovenx, AaveV3, WOOFi] [] []"
| "SELL_SOURCE_FILTER_BY_CHAIN_ID Arbitrum =
     new_SourceFilters
        [UniswapV3, SushiSwap, BalancerV2, Synapse, CurveV2, GMX, MultiHop, Saddle, AaveV3,
         WOOFi] [] []"

fun BUY_SOURCE_FILTER_BY_CHAIN_ID :: "ChainId \<Rightarrow> SourceFilters" where
  "BUY_SOURCE_FILTER_BY_CHAIN_ID Mainnet =
     new_SourceFilters
        [Native, Uniswap, UniswapV2, Curve, Balancer, BalancerV2, BancorV3, MStable, Shell,
         SushiSwap, MultiHop, Dodo, DodoV2, Lido, CryptoCom, MakerPsm, KyberDmm, Component,
         Saddle, UniswapV3, CurveV2, ShibaSwap, Synapse, Synthetix, AaveV2, Compound] [] []"
| "BUY_SOURCE_FILTER_BY_CHAIN_ID Goerli =
     new_SourceFilters
        [Native, SushiSwap, Uniswap, UniswapV2, UniswapV3, MultiHop] [] []"
| "BUY_SOURCE_FILTER_BY_CHAIN_ID PolygonMumbai =
     new_SourceFilters
        [Native, UniswapV3] [] []"
| "BUY_SOURCE_FILTER_BY_CHAIN_ID Ganache =
     new_SourceFilters
        [Native] [] []"
| "BUY_SOURCE_FILTER_BY_CHAIN_ID BSC =
     new_SourceFilters
        [BakerySwap, Belt, Dodo, DodoV2, Ellipsis, Mooniswap, MultiHop, Nerve, Synapse,
         PancakeSwap, PancakeSwapV2, SushiSwap, ApeSwap, WaultSwap, FirebirdOneSwap,
         ACryptos, KyberDmm, BiSwap, MDex, KnightSwap, WOOFi] [] []"
| "BUY_SOURCE_FILTER_BY_CHAIN_ID Polygon =
     new_SourceFilters
        [Native, SushiSwap, QuickSwap, Dfyn, MStable, Curve, DodoV2, Dodo, CurveV2,
         WaultSwap, ApeSwap, FirebirdOneSwap, BalancerV2, KyberDmm, MultiHop, IronSwap,
         AaveV2, UniswapV3, Synapse, MeshSwap, WOOFi, AaveV3] [] []"
| "BUY_SOURCE_FILTER_BY_CHAIN_ID Avalanche =
     new_SourceFilters
        [MultiHop, Pangolin, TraderJoe, SushiSwap, Curve, CurveV2, KyberDmm, AaveV2, Synapse,
         GMX, Platypus, WOOFi, AaveV3] [] []"
| "BUY_SOURCE_FILTER_BY_CHAIN_ID Fantom =
     new_SourceFilters
        [MultiHop, Beethovenx, Curve, CurveV2, MorpheusSwap, SpiritSwap, SpookySwap,
         SushiSwap, Synapse, Yoshi, WOOFi] [] []"
| "BUY_SOURCE_FILTER_BY_CHAIN_ID Celo =
     new_SourceFilters
        [UbeSwap, SushiSwap, MultiHop, MobiusMoney] [] []"
| "BUY_SOURCE_FILTER_BY_CHAIN_ID Optimism =
     new_SourceFilters
        [UniswapV3, Synapse, Curve, CurveV2, MultiHop, Saddle, Velodrome, Synthetix,
         Beethovenx, AaveV3, WOOFi] [] []"
| "BUY_SOURCE_FILTER_BY_CHAIN_ID Arbitrum =
     new_SourceFilters
        [UniswapV3, SushiSwap, BalancerV2, Synapse, CurveV2, GMX, MultiHop, Saddle, AaveV3,
         WOOFi] [] []"

definition FEE_QUOTE_SOURCES_BY_CHAIN_ID :: "ChainId \<Rightarrow> ERC20BridgeSource list" where
  "FEE_QUOTE_SOURCES_BY_CHAIN_ID =
     valueByChainId
       [(Mainnet, [UniswapV2, SushiSwap, UniswapV3, Lido]),
        (BSC, [PancakeSwap, Mooniswap, SushiSwap]),
        (Goerli, [UniswapV2, SushiSwap]),
        (PolygonMumbai, [UniswapV3]),
        (Polygon, [QuickSwap, SushiSwap, UniswapV3]),
        (Avalanche, [Pangolin, TraderJoe, SushiSwap]),
        (Fantom, [SpiritSwap, SpookySwap, SushiSwap]),
        (Celo, [UbeSwap, SushiSwap]),
        (Optimism, [UniswapV3]),
        (Arbitrum, [UniswapV3, SushiSwap])]
       []"

definition VIP_ERC20_BRIDGE_SOURCES_BY_CHAIN_ID :: "ChainId \<Rightarrow> ERC20BridgeSource list" where
  "VIP_ERC20_BRIDGE_SOURCES_BY_CHAIN_ID =
     valueByChainId
       [(Mainnet, [UniswapV2, SushiSwap, UniswapV3, Curve, Native]),
        (BSC, [PancakeSwap, PancakeSwapV2, BakerySwap, SushiSwap, ApeSwap, Native])]
       []"

section \<open>Gas schedule\<close>

text \<open>The types of the program rule out fill data of a shape that a branch does not expect; it is the
  error value here.\<close>

definition per_hop :: "js_number \<Rightarrow> nat \<Rightarrow> js_number \<Rightarrow> js_number" where
  "per_hop gas len cost =
     (if 2 < len then js_add gas (js_mul (Fin (of_nat len - 2)) cost) else gas)"

definition uniswapV2CloneGasSchedule :: "FillData \<Rightarrow> js_error + js_number" where
  "uniswapV2CloneGasSchedule fd =
     (case fd of UniswapV2FD path router \<Rightarrow> Inr (per_hop (Fin 90000) (length path) (Fin 60000))
      | _ \<Rightarrow> Inl TypeError)"

definition native_gas :: "FillData \<Rightarrow> js_error + js_number" where
  "native_gas fd =
     (case fd of
        NativeFD native \<Rightarrow>
          (case sno_type native of
             Limit \<Rightarrow> Inr (toNumber (Fin 0 + bn_of_number (Fin 100000)))
           | Rfq \<Rightarrow> Inr (Fin 100000)
           | Bridge \<Rightarrow> Inr (Fin 100000)
           | Otc \<Rightarrow> Inr (Fin 85000))
      | _ \<Rightarrow> Inr (Fin 100000))"

definition curve_gas :: "FillData \<Rightarrow> js_error + js_number" where
  "curve_gas fd =
     (case fd of CurveFD fromIdx toIdx pool \<Rightarrow> Inr (curve_gasSchedule pool) | _ \<Rightarrow> Inl TypeError)"

definition balancerV2_gas :: "FillData \<Rightarrow> js_error + js_number" where
  "balancerV2_gas fd =
     (case fd of BalancerV2BatchSwapFD vault steps assets chain \<Rightarrow>
        Inr (js_add (Fin 140000) (js_mul (Fin (of_nat (length steps) - 1)) (Fin 80000)))
      | _ \<Rightarrow> Inl TypeError)"

definition makerPsm_gas :: "FillData \<Rightarrow> js_error + js_number" where
  "makerPsm_gas fd =
     (case fd of MakerPsmFD isSell takerToken psm ilk gem \<Rightarrow>
        Inr (if takerToken = gem then Fin 210000 else Fin 290000)
      | _ \<Rightarrow> Inl TypeError)"

definition dodo_gas :: "FillData \<Rightarrow> js_error + js_number" where
  "dodo_gas fd =
     (case fd of DODOFD pool isSellBase helper \<Rightarrow> Inr (if isSellBase then Fin 180000 else Fin 300000)
      | _ \<Rightarrow> Inl TypeError)"

definition bancor_gas :: "FillData \<Rightarrow> js_error + js_number" where
  "bancor_gas fd =
     (case fd of BancorFD path network \<Rightarrow> Inr (per_hop (Fin 200000) (length path) (Fin 60000))
      | _ \<Rightarrow> Inl TypeError)"

definition kyberDmm_gas :: "FillData \<Rightarrow> js_error + js_number" where
  "kyberDmm_gas fd =
     (case fd of KyberDmmFD path router pools \<Rightarrow> Inr (per_hop (Fin 170000) (length path) (Fin 65000))
      | _ \<Rightarrow> Inl TypeError)"

text \<open>The gas of the middle one of the sampled paths with a positive gas, 0 when there is none.\<close>

definition medianGasUsedForPath :: "PathAmount list \<Rightarrow> js_number" where
  "medianGasUsedForPath pathAmounts =
     (let pathAmountsWithGasUsed = filter (\<lambda>p. 0 < pa_gasUsed p) pathAmounts;
          i = length pathAmountsWithGasUsed div 2
      in if i < length pathAmountsWithGasUsed then pa_gasUsed (pathAmountsWithGasUsed ! i) else Fin 0)"

definition uniswapV3_estimate :: "js_number \<Rightarrow> Address list \<Rightarrow> js_number" where
  "uniswapV3_estimate gasUsed tokenAddressPath =
     (let base = Fin 34000; gas = js_add base gasUsed
      in if gas = base then per_hop (Fin 100000) (length tokenAddressPath) (Fin 32000) else gas)"

definition uniswapV3_gas :: "FillData \<Rightarrow> js_error + js_number" where
  "uniswapV3_gas fd =
     (case fd of
        FinalTickDEXMultiPathFD tokens router path gasUsed \<Rightarrow>
          if path \<noteq> [] then Inr (uniswapV3_estimate gasUsed tokens) else Inl TypeError
      | TickDEXMultiPathFD tokens router pathAmounts \<Rightarrow>
          Inr (uniswapV3_estimate (medianGasUsedForPath pathAmounts) tokens)
      | _ \<Rightarrow> Inl TypeError)"

definition lido_gas :: "Address \<Rightarrow> FillData \<Rightarrow> js_error + js_number" where
  "lido_gas wethAddress fd =
     (case fd of LidoFD stEth wstEth takerToken makerToken \<Rightarrow>
        Inr (if takerToken = wethAddress then Fin 226000
             else if takerToken = stEth then Fin 120000 else Fin 95000)
      | _ \<Rightarrow> Inl TypeError)"

definition aave_gas :: "FillData \<Rightarrow> js_error + js_number" where
  "aave_gas fd =
     (case fd of
        AaveV2FD pool aToken underlyingToken takerToken \<Rightarrow>
          Inr (if takerToken = underlyingToken then Fin 400000 else Fin 300000)
      | AaveV3FD pool aToken underlyingToken takerToken params \<Rightarrow>
          Inr (if takerToken = underlyingToken then Fin 400000 else Fin 300000)
      | _ \<Rightarrow> Inl TypeError)"

definition compound_gas :: "Address \<Rightarrow> FillData \<Rightarrow> js_error + js_number" where
  "compound_gas wethAddress fd =
     (case fd of CompoundFD cToken takerToken makerToken \<Rightarrow>
        Inr (if takerToken = cToken
             then if makerToken = wethAddress then Fin 120000 else Fin 150000
             else if takerToken = wethAddress then Fin 210000 else Fin 250000)
      | _ \<Rightarrow> Inl TypeError)"

definition synthetix_gas :: "(string \<Rightarrow> string) \<Rightarrow> FillData \<Rightarrow> js_error + js_number" where
  "synthetix_gas parseBytes32String fd =
     (case fd of SynthetixFD synthetix takerBytes makerBytes chainId \<Rightarrow>
        let maker = parseBytes32String makerBytes; taker = parseBytes32String takerBytes
        in Inr (if chainId = Mainnet
                then if taker = ''sBTC'' \<or> maker = ''sBTC'' then Fin 800000
                     else if taker = ''sETH'' \<or> maker = ''sETH'' then Fin 700000 else Fin 580000
                else if taker = ''sUSD'' \<or> maker = ''sUSD'' then Fin 480000 else Fin 580000)
      | _ \<Rightarrow> Inl TypeError)"

definition woofi_quoteTokenAddresses :: "Address list" where
  "woofi_quoteTokenAddresses =
     [''0xe9e7cea3dedca5984780bafc599bd69add087d56'', ''0xb97ef9ef8734c71904d8002f8b6bc66dd9c48a6e'',
      ''0x04068da6c83afcfa0e13ba15a6696662335d5b75'', ''0x2791bca1f2de4661ed88a30c99a7a9449aa84174'',
      ''0xff970a61a04b1ca14834a43f5de4533ebddb5cc8'', ''0x7f5c764cbc14f9669b88837ca1490cca17c31607'']"

definition woofi_gas :: "FillData \<Rightarrow> js_error + js_number" where
  "woofi_gas fd =
     (case fd of WOOFiFD router takerToken makerToken chainId \<Rightarrow>
        let hasQuoteToken = (takerToken \<in> set woofi_quoteTokenAddresses \<or>
                             makerToken \<in> set woofi_quoteTokenAddresses)
        in Inr (if chainId = BSC then if hasQuoteToken then Fin 550000 else Fin 1000000
                else if chainId = Avalanche then if hasQuoteToken then Fin 300000 else Fin 550000
                else if chainId = Polygon then if hasQuoteToken then Fin 500000 else Fin 700000
                else if hasQuoteToken then Fin 400000 else Fin 600000)
      | _ \<Rightarrow> Inl TypeError)"

definition beethovenx_gas :: "FillData \<Rightarrow> js_error + js_number" where
  "beethovenx_gas fd =
     (case fd of BalancerV2BatchSwapFD vault steps assets chainId \<Rightarrow>
        Inr (if chainId = Fantom
             then js_add (Fin 125000) (js_mul (Fin (of_nat (length steps) - 1)) (Fin 50000))
             else js_add (Fin 305000) (js_mul (Fin (of_nat (length steps) - 1)) (Fin 100000)))
      | _ \<Rightarrow> Inl TypeError)"

definition single_source_gas ::
  "Address \<Rightarrow> (string \<Rightarrow> string) \<Rightarrow> ERC20BridgeSource \<Rightarrow> FillData \<Rightarrow> js_error + js_number" where
  "single_source_gas wethAddress parseBytes32String source fd =
     (if source \<in> set curve_like then curve_gas fd
      else if source \<in> set uniswapV2_like then uniswapV2CloneGasSchedule fd
      else case source of
        Native \<Rightarrow> native_gas fd
      | Uniswap \<Rightarrow> Inr (Fin 90000)
      | Balancer \<Rightarrow> Inr (Fin 120000)
      | BalancerV2 \<Rightarrow> balancerV2_gas fd
      | MStable \<Rightarrow> Inr (Fin 200000)
      | MakerPsm \<Rightarrow> makerPsm_gas fd
      | Mooniswap \<Rightarrow> Inr (Fin 130000)
      | Shell \<Rightarrow> Inr (Fin 170000)
      | Component \<Rightarrow> Inr (Fin 188000)
      | Dodo \<Rightarrow> dodo_gas fd
      | DodoV2 \<Rightarrow> Inr (Fin 100000)
      | Bancor \<Rightarrow> bancor_gas fd
      | BancorV3 \<Rightarrow> Inr (Fin 250000)
      | KyberDmm \<Rightarrow> kyberDmm_gas fd
      | UniswapV3 \<Rightarrow> uniswapV3_gas fd
      | Lido \<Rightarrow> lido_gas wethAddress fd
      | AaveV2 \<Rightarrow> aave_gas fd
      | AaveV3 \<Rightarrow> aave_gas fd
      | Compound \<Rightarrow> compound_gas wethAddress fd
      | Synthetix \<Rightarrow> synthetix_gas parseBytes32String fd
      | WOOFi \<Rightarrow> woofi_gas fd
      | GMX \<Rightarrow> Inr (Fin 450000)
      | Platypus \<Rightarrow> Inr (Fin 450000)
      | Beethovenx \<Rightarrow> beethovenx_gas fd
      | Velodrome \<Rightarrow> Inr (Fin 160000)
      | Dystopia \<Rightarrow> Inr (Fin 160000)
      | _ \<Rightarrow> Inl TypeError)"

fun DEFAULT_GAS_SCHEDULE ::
  "Address \<Rightarrow> (string \<Rightarrow> string) \<Rightarrow> ERC20BridgeSource \<Rightarrow> FillData \<Rightarrow> js_error + js_number" where
  "DEFAULT_GAS_SCHEDULE weth parse source fd =
     (if source = MultiHop
      then case fd of
             MultiHopFD src1 fd1 src2 fd2 tok \<Rightarrow>
               res_bind (DEFAULT_GAS_SCHEDULE weth parse src1 fd1)
                 (\<lambda>firstHopGas. res_bind (DEFAULT_GAS_SCHEDULE weth parse src2 fd2)
                   (\<lambda>secondHopGas. Inr (toNumber (bn_of_number firstHopGas + bn_of_number secondHopGas
                                                     + bn_of_number (Fin 30000)))))
           | _ \<Rightarrow> Inl TypeError
      else single_source_gas weth parse source fd)"

definition DEFAULT_FEE_SCHEDULE ::
  "Address \<Rightarrow> (string \<Rightarrow> string) \<Rightarrow> ERC20BridgeSource \<Rightarrow> FillData \<Rightarrow> js_error + FeeEstimateResult" where
  "DEFAULT_FEE_SCHEDULE weth parse source fd =
     res_bind (DEFAULT_GAS_SCHEDULE weth parse source fd)
       (\<lambda>gas. Inr \<lparr>fe_gas = gas, fe_fee = ZERO_AMOUNT\<rparr>)"

declare DEFAULT_GAS_SCHEDULE.simps [simp del]

section \<open>Properties\<close>

lemma filter_sources_plain: "set (filter_sources (new_SourceFilters v [] [])) = set v"
  by (auto simp: filter_sources_def isAllowed_def new_SourceFilters_def)

text \<open>The tables agree with each other on every chain: a source sampled for buys is sampled for sells,
  every source that prices the fee token is a sell source, and every VIP source is a sell source
  or Native.\<close>

theorem chain_tables_consistent:
  "set (filter_sources (BUY_SOURCE_FILTER_BY_CHAIN_ID chain))
     \<subseteq> set (filter_sources (SELL_SOURCE_FILTER_BY_CHAIN_ID chain)) \<and>
   set (FEE_QUOTE_SOURCES_BY_CHAIN_ID chain) \<subseteq> set (filter_sources (SELL_SOURCE_FILTER_BY_CHAIN_ID chain)) \<and>
   set (VIP_ERC20_BRIDGE_SOURCES_BY_CHAIN_ID chain)
     \<subseteq> insert Native (set (filter_sources (SELL_SOURCE_FILTER_BY_CHAIN_ID chain)))"
  by (cases chain)
    (auto simp: FEE_QUOTE_SOURCES_BY_CHAIN_ID_def VIP_ERC20_BRIDGE_SOURCES_BY_CHAIN_ID_def
      valueByChainId_def filter_sources_plain)

lemma per_hop_of_nat:
  assumes "2 \<le> len" "g + len * c < 2 ^ 53"
  shows "per_hop (Fin (of_nat g)) len (Fin (of_nat c)) = Fin (of_nat (g + (len - 2) * c))"
proof (cases "2 < len")
  case True
  have d: "of_nat len - 2 = (of_nat (len - 2) :: rat)" using assms(1) by simp
  have le: "(len - 2) * c \<le> len * c" by simp
  have "js_mul (Fin (of_nat (len - 2))) (Fin (of_nat c)) = Fin (of_nat ((len - 2) * c))"
    using assms(2) le by (intro js_mul_of_nat) linarith
  moreover have "js_add (Fin (of_nat g)) (Fin (of_nat ((len - 2) * c))) = Fin (of_nat (g + (len - 2) * c))"
    using assms(2) le by (intro js_add_of_nat) linarith
  ultimately show ?thesis using True unfolding per_hop_def d by simp
qed (use assms in \<open>simp add: per_hop_def\<close>)

text \<open>Gas is estimated exactly on integers: a multi-hop costs the gas of its two hops plus 30000, and
  a swap on any Uniswap V2 clone 90000 plus 60000 for every token between the first and the last.\<close>

theorem gas_schedule_exact:
  "(DEFAULT_GAS_SCHEDULE weth parse s1 fd1 = Inr (Fin (of_nat m)) \<and>
    DEFAULT_GAS_SCHEDULE weth parse s2 fd2 = Inr (Fin (of_nat n)) \<and> m + n + 30001 < 2 ^ 53 \<longrightarrow>
      DEFAULT_GAS_SCHEDULE weth parse MultiHop (MultiHopFD s1 fd1 s2 fd2 tok) = Inr (Fin (of_nat (m + n + 30000)))) \<and>
   (s \<in> set uniswapV2_like \<and> 2 \<le> length path \<and> length path < 2 ^ 32 \<longrightarrow>
      DEFAULT_GAS_SCHEDULE weth parse s (UniswapV2FD path router) =
        Inr (Fin (of_nat (90000 + (length path - 2) * 60000))))"
proof (intro conjI impI)
  assume a: "DEFAULT_GAS_SCHEDULE weth parse s1 fd1 = Inr (Fin (of_nat m)) \<and>
    DEFAULT_GAS_SCHEDULE weth parse s2 fd2 = Inr (Fin (of_nat n)) \<and> m + n + 30001 < 2 ^ 53"
  have "bn_of_number (Fin (of_nat m)) = Fin (of_nat m)" "bn_of_number (Fin (of_nat n)) = Fin (of_nat n)"
      "bn_of_number (Fin (of_nat 30000)) = Fin (of_nat 30000)"
    using a by (intro bn_of_number_of_nat; simp)+
  moreover have "toNumber (Fin (of_nat (m + n + 30000))) = Fin (of_nat (m + n + 30000))"
    using a by (intro toNumber_of_nat) simp
  ultimately show "DEFAULT_GAS_SCHEDULE weth parse MultiHop (MultiHopFD s1 fd1 s2 fd2 tok) =
      Inr (Fin (of_nat (m + n + 30000)))"
    using a by (subst DEFAULT_GAS_SCHEDULE.simps) simp
next
  assume b: "s \<in> set uniswapV2_like \<and> 2 \<le> length path \<and> length path < 2 ^ 32"
  then have "s \<noteq> MultiHop" "s \<notin> set curve_like" by (auto simp: uniswapV2_like_def curve_like_def)
  moreover have "90000 + length path * 60000 < (2 :: nat) ^ 53"
    using b by simp
  ultimately show "DEFAULT_GAS_SCHEDULE weth parse s (UniswapV2FD path router) =
        Inr (Fin (of_nat (90000 + (length path - 2) * 60000)))"
    using b per_hop_of_nat[of "length path" 90000 60000]
    by (simp add: DEFAULT_GAS_SCHEDULE.simps single_source_gas_def uniswapV2CloneGasSchedule_def)
qed

theorem gas_schedule_exact_witness:
  "DEFAULT_GAS_SCHEDULE [] id SushiSwap (UniswapV2FD [''A'', ''B'', ''C''] ''r'') = Inr (Fin 150000)"
  using gas_schedule_exact[of "[]" id Native NoFillData 0 Native NoFillData 0 "[]" SushiSwap
      "[''A'', ''B'', ''C'']" "''r''"]
  by (simp add: uniswapV2_like_def)

text \<open>Every order for which bridge data can be encoded also has a gas estimate; the one exception is a
  Uniswap V3 order whose final path is the empty string.\<close>

theorem gas_schedule_total:
  assumes "bridge_values order = Inr vals"
  shows "(\<exists>g. DEFAULT_GAS_SCHEDULE weth parse (oo_source order) (oo_fillData order) = Inr g) \<or>
         (\<exists>tokens router gas. oo_source order = UniswapV3 \<and>
            oo_fillData order = FinalTickDEXMultiPathFD tokens router [] gas)"
  using assms
  by (cases "oo_source order")
    (auto simp: DEFAULT_GAS_SCHEDULE.simps single_source_gas_def bridge_values_def bridge_lists
      curve_gas_def uniswapV2CloneGasSchedule_def balancerV2_gas_def makerPsm_gas_def dodo_gas_def
      bancor_gas_def kyberDmm_gas_def uniswapV3_gas_def lido_gas_def aave_gas_def compound_gas_def
      synthetix_gas_def woofi_gas_def beethovenx_gas_def Let_def
      split: FillData.split_asm option.split_asm if_split_asm)

theorem gas_schedule_total_witness:
  "\<exists>g. DEFAULT_GAS_SCHEDULE [] id DodoV2 (DODOFD ''pool'' True ''helper'') = Inr g"
  using gas_schedule_total[of sample_dodo_order "[V_string ''pool'', V_bool True]" "[]" id]
  by (simp add: sample_dodo_order_def bridge_values_def bridge_lists)

end
