(* ===== verification/Path_Optimizer.thy ===== *)
theory Path_Optimizer
  imports Source_Tables
begin

text \<open>
  The path optimizer (\<open>path_optimizer.ts\<close>): samples and native orders are serialized for the router,
  the router distributes the input over them, and the routed amounts become fills and a path. The
  router itself (\<open>route\<close> of \<open>@0x/neon-router\<close>), the random ids and the printed form of the numeric
  order type come from packages and are fields of \<open>RouterEnv\<close>. Metrics and logging are left out.
\<close>

section \<open>Data\<close>

function show_nat :: "nat \<Rightarrow> string" where
  "show_nat n = (if n < 10 then [char_of (48 + n)] else show_nat (n div 10) @ [char_of (48 + n mod 10)])"
  by auto
termination by (relation "measure id") auto

declare show_nat.simps [simp del]

record SerializedPath =
  sp_ids :: "string list"
  sp_inputs :: "js_number list"
  sp_outputs :: "js_number list"
  sp_outputFees :: "js_number list"
  sp_isVip :: bool

datatype SamplesOrNativeOrders =
    Samples "DexSample list" | NativeOrders "NativeOrderWithFillableAmounts list"

record RoutablePath =
  rp_pathId :: string
  rp_items :: SamplesOrNativeOrders
  rp_serializedPath :: SerializedPath

record OptimizerCapture =
  oc_side :: MarketOperation
  oc_targetInput :: js_number
  oc_pathsIn :: "SerializedPath list"

record Route =
  inputAmounts :: "js_number list"
  outputAmounts :: "js_number list"

record NeonRouterOutput =
  allSourcesRoute :: Route
  vipSourcesRoute :: Route

record RouterEnv =
  env_rnd :: "rat \<Rightarrow> rat"
  env_newId :: "nat \<Rightarrow> string"
  env_fillId :: string
  env_orderType :: "FillQuoteTransformerOrderType \<Rightarrow> string"
  env_route :: "OptimizerCapture \<Rightarrow> nat \<Rightarrow> NeonRouterOutput"

record PathOptimizer =
  po_pathContext :: PathContext
  po_chainId :: ChainId
  po_feeSchedule :: FeeSchedule
  po_neonRouterNumSamples :: nat
  po_fillAdjustor :: FillAdjustor
  po_pathPenaltyOpts :: PathPenaltyOpts
  po_inputAmount :: BigNumber

definition MIN_NUM_SAMPLE_INPUTS :: nat where
  "MIN_NUM_SAMPLE_INPUTS = 3"

definition ONE_BASE_UNIT :: BigNumber where
  "ONE_BASE_UNIT = Fin 1"

text \<open>A JavaScript number used as a condition is false when it is 0 or NaN.\<close>

definition falsy :: "js_number \<Rightarrow> bool" where
  "falsy n \<longleftrightarrow> n = Fin 0 \<or> n = NaN"

definition round_to_number :: "BigNumber \<Rightarrow> js_number" where
  "round_to_number x = toNumber (integerValue_default x)"

section \<open>Fills from samples\<close>

definition nativeOrderToNormalizedAmounts ::
  "MarketOperation \<Rightarrow> NativeOrderWithFillableAmounts \<Rightarrow> BigNumber \<times> BigNumber" where
  "nativeOrderToNormalizedAmounts side nativeOrder =
     (let makerAmount = fillableMakerAmount (nof_amounts nativeOrder);
          takerAmount = fillableTakerAmount (nof_amounts nativeOrder)
                        + fillableTakerFeeAmount (nof_amounts nativeOrder)
      in (if side = Sell then takerAmount else makerAmount,
          if side = Sell then makerAmount else takerAmount))"

definition first_fill :: "Fill list \<Rightarrow> Fill option" where
  "first_fill fills = (case fills of [] \<Rightarrow> None | f # _ \<Rightarrow> Some f)"

definition createFillFromDexSample :: "RouterEnv \<Rightarrow> PathOptimizer \<Rightarrow> DexSample \<Rightarrow> Fill option" where
  "createFillFromDexSample env po sample =
     (let side = ctx_side (po_pathContext po);
          fill = dexSampleToFill (env_fillId env) side sample
                   (pp_outputAmountPerEth (po_pathPenaltyOpts po))
                   (pp_inputAmountPerEth (po_pathPenaltyOpts po)) (po_feeSchedule po)
      in first_fill (po_fillAdjustor po side [fill]))"

definition worst_hop :: "MarketOperation \<Rightarrow> Fill \<Rightarrow> Fill \<Rightarrow> Fill" where
  "worst_hop side first second =
     (if side = Sell
      then if fill_adjustedOutput first < fill_adjustedOutput second then first else second
      else if fill_adjustedOutput first < fill_adjustedOutput second then second else first)"

definition createFillFromTwoHopSample :: "PathOptimizer \<Rightarrow> DexSample \<Rightarrow> js_error + Fill" where
  "createFillFromTwoHopSample po sample =
     (let side = ctx_side (po_pathContext po) in
      res_bind (twoHopSampleToFill side sample (pp_outputAmountPerEth (po_pathPenaltyOpts po))
                  (po_feeSchedule po MultiHop))
        (\<lambda>fill. case ds_fillData sample of
           MultiHopFD src1 fd1 src2 fd2 tok \<Rightarrow>
             (case (first_fill (po_fillAdjustor po side [fill\<lparr>fill_source := src1\<rparr>]),
                    first_fill (po_fillAdjustor po side [fill\<lparr>fill_source := src2\<rparr>])) of
                (Some first, Some second) \<Rightarrow> Inr (worst_hop side first second)
              | _ \<Rightarrow> Inl TypeError)
         | _ \<Rightarrow> Inl TypeError))"

definition calculateOutputFee ::
  "PathOptimizer \<Rightarrow> DexSample + NativeOrderWithFillableAmounts \<Rightarrow> BigNumber" where
  "calculateOutputFee po sampleOrNativeOrder =
     (case sampleOrNativeOrder of
        Inl sample \<Rightarrow>
          ethToOutputAmount (ds_input sample) (ds_output sample)
            (pp_inputAmountPerEth (po_pathPenaltyOpts po)) (pp_outputAmountPerEth (po_pathPenaltyOpts po))
            (fe_fee (po_feeSchedule po (ds_source sample) (ds_fillData sample)))
      | Inr nativeOrder \<Rightarrow>
          (let amounts = nativeOrderToNormalizedAmounts (ctx_side (po_pathContext po)) nativeOrder
           in ethToOutputAmount (fst amounts) (snd amounts)
                (pp_inputAmountPerEth (po_pathPenaltyOpts po)) (pp_outputAmountPerEth (po_pathPenaltyOpts po))
                (fe_fee (po_feeSchedule po Native (NativeFD nativeOrder)))))"

section \<open>Serialization for the router\<close>

definition outputFee_of :: "Fill \<Rightarrow> js_number" where
  "outputFee_of f = round_to_number \<bar>fill_output f - fill_adjustedOutput f\<bar>"

text \<open>Samples from the end with a zero or non-finite output are dropped.\<close>

definition dropTrailingInvalid :: "DexSample list \<Rightarrow> DexSample list" where
  "dropTrailingInvalid samples =
     rev (dropWhile (\<lambda>s. bn_eq (ds_output s) 0 \<or> \<not> is_fin (ds_output s)) (rev samples))"

definition serializeSamples ::
  "RouterEnv \<Rightarrow> PathOptimizer \<Rightarrow> nat \<Rightarrow> DexSample list \<Rightarrow> js_error + SerializedPath" where
  "serializeSamples env po pathIndex samples =
     res_bind (res_map (\<lambda>sample. case createFillFromDexSample env po sample of
                                   None \<Rightarrow> Inl TypeError | Some f \<Rightarrow> Inr f) samples)
       (\<lambda>fills. Inr
          \<lparr>sp_ids = map (\<lambda>(sampleIdx, f). source_value (fill_source f) @ ''-'' @ show_nat pathIndex
                                           @ ''-'' @ show_nat sampleIdx) (List.enumerate 0 fills),
           sp_inputs = map (\<lambda>f. round_to_number (fill_input f)) fills,
           sp_outputs = map (\<lambda>f. round_to_number (fill_output f)) fills,
           sp_outputFees = map outputFee_of fills,
           sp_isVip = (case samples of [] \<Rightarrow> False
                       | s # _ \<Rightarrow> ds_source s \<in> set (VIP_ERC20_BRIDGE_SOURCES_BY_CHAIN_ID (po_chainId po)))\<rparr>)"

fun singleSourceSamplesLoop ::
  "RouterEnv \<Rightarrow> PathOptimizer \<Rightarrow> DexSample list list \<Rightarrow> RoutablePath list \<Rightarrow> js_error + RoutablePath list" where
  "singleSourceSamplesLoop env po [] routablePaths = Inr routablePaths"
| "singleSourceSamplesLoop env po (singleSourceSamples # rest) routablePaths =
     (if length singleSourceSamples = 0 then singleSourceSamplesLoop env po rest routablePaths
      else let withOutput = dropTrailingInvalid singleSourceSamples in
        if length withOutput < MIN_NUM_SAMPLE_INPUTS
        then singleSourceSamplesLoop env po rest routablePaths
        else res_bind (serializeSamples env po (length routablePaths) withOutput)
               (\<lambda>serialized. singleSourceSamplesLoop env po rest
                  (routablePaths @
                     [\<lparr>rp_pathId = env_newId env (length routablePaths), rp_items = Samples withOutput,
                       rp_serializedPath = serialized\<rparr>])))"

definition singleSourceSamplesToRoutablePaths ::
  "RouterEnv \<Rightarrow> PathOptimizer \<Rightarrow> DexSample list list \<Rightarrow> js_error + RoutablePath list" where
  "singleSourceSamplesToRoutablePaths env po samples = singleSourceSamplesLoop env po samples []"

definition twoHopRoutablePath ::
  "PathOptimizer \<Rightarrow> nat \<times> DexSample list \<Rightarrow> js_error + RoutablePath" where
  "twoHopRoutablePath po ix =
     (case ix of (i, samples) \<Rightarrow>
        res_bind (res_map (createFillFromTwoHopSample po) samples)
          (\<lambda>fills. Inr
             \<lparr>rp_pathId = ''two-hop-'' @ show_nat i, rp_items = Samples samples,
              rp_serializedPath =
                \<lparr>sp_ids = map fill_sourcePathId fills,
                 sp_inputs = map (\<lambda>f. round_to_number (fill_input f)) fills,
                 sp_outputs = map (\<lambda>f. round_to_number (fill_output f)) fills,
                 sp_outputFees = map outputFee_of fills, sp_isVip = False\<rparr>\<rparr>))"

definition twoHopSamplesToRoutablePaths ::
  "PathOptimizer \<Rightarrow> DexSample list list \<Rightarrow> js_error + RoutablePath list" where
  "twoHopSamplesToRoutablePaths po twoHopSamples =
     res_map (twoHopRoutablePath po) (List.enumerate 0 twoHopSamples)"

text \<open>The native order \<open>idx\<close> sampled at \<open>1, ..., n - 1\<close> equal steps up to the smaller of the order and
  the input amount.\<close>

definition native_sample :: "nat \<Rightarrow> BigNumber \<Rightarrow> BigNumber \<Rightarrow> nat \<Rightarrow> BigNumber" where
  "native_sample n scaleToInput amount i =
     bn_min (amount * scaleToInput * bn_of_number (js_div (Fin (of_nat i)) (Fin (of_nat n - 1)))) amount"

definition nativeOrderRoutablePath ::
  "RouterEnv \<Rightarrow> PathOptimizer \<Rightarrow> string \<Rightarrow> nat \<Rightarrow> nat \<Rightarrow> NativeOrderWithFillableAmounts \<Rightarrow> RoutablePath option" where
  "nativeOrderRoutablePath env po pathId pathIndex idx nativeOrder =
     (let amounts = nativeOrderToNormalizedAmounts (ctx_side (po_pathContext po)) nativeOrder;
          normalizedOrderInput = fst amounts;
          normalizedOrderOutput = snd amounts;
          n = po_neonRouterNumSamples po
      in if normalizedOrderInput \<le> 0 \<or> normalizedOrderOutput \<le> 0 then None
         else
           let fee = round_to_number (calculateOutputFee po (Inr nativeOrder));
               scaleToInput = bn_min (bn_div (env_rnd env) (po_inputAmount po) normalizedOrderInput) (Fin 1)
           in Some \<lparr>rp_pathId = pathId, rp_items = NativeOrders [nativeOrder],
                rp_serializedPath =
                  \<lparr>sp_ids = map (\<lambda>i. source_value Native @ ''-'' @ env_orderType env (sno_type nativeOrder)
                                     @ ''-'' @ show_nat pathIndex @ ''-'' @ show_nat idx @ ''-'' @ show_nat i)
                              [1..<n],
                   sp_inputs = map (\<lambda>i. round_to_number
                     (native_sample n scaleToInput normalizedOrderInput i)) [1..<n],
                   sp_outputs = map (\<lambda>i. round_to_number
                     (native_sample n scaleToInput normalizedOrderOutput i)) [1..<n],
                   sp_outputFees = map (\<lambda>i. fee) [1..<n],
                   sp_isVip = (sno_type nativeOrder \<noteq> Limit)\<rparr>\<rparr>)"

fun nativeOrdersLoop ::
  "RouterEnv \<Rightarrow> PathOptimizer \<Rightarrow> string \<Rightarrow> (nat \<times> NativeOrderWithFillableAmounts) list \<Rightarrow> RoutablePath list
   \<Rightarrow> RoutablePath list" where
  "nativeOrdersLoop env po pathId [] routablePaths = routablePaths"
| "nativeOrdersLoop env po pathId ((idx, nativeOrder) # rest) routablePaths =
     (case nativeOrderRoutablePath env po pathId (length routablePaths) idx nativeOrder of
        None \<Rightarrow> nativeOrdersLoop env po pathId rest routablePaths
      | Some rp \<Rightarrow> nativeOrdersLoop env po pathId rest (routablePaths @ [rp]))"

definition nativeOrdersToRoutablePaths ::
  "RouterEnv \<Rightarrow> PathOptimizer \<Rightarrow> string \<Rightarrow> NativeOrderWithFillableAmounts list \<Rightarrow> RoutablePath list" where
  "nativeOrdersToRoutablePaths env po nativeOrderSourcePathId orders =
     nativeOrdersLoop env po nativeOrderSourcePathId (List.enumerate 0 orders) []"

section \<open>Routes to paths\<close>

text \<open>The fill for a routed amount: the sample just above it with the routed output, or the first or
  the last sample when the amount lies outside of the sampled range.\<close>

fun closest_fill ::
  "RouterEnv \<Rightarrow> PathOptimizer \<Rightarrow> DexSample list \<Rightarrow> BigNumber \<Rightarrow> js_number \<Rightarrow> nat \<Rightarrow> Fill \<Rightarrow> Fill" where
  "closest_fill env po routeSamples routeInputCorrected outputAmount k fill =
     (let orElse = (\<lambda>r d. case r of Some f \<Rightarrow> f | None \<Rightarrow> d);
          fill = (if k = 0 then orElse (createFillFromDexSample env po (routeSamples ! 0)) fill else fill)
      in if ds_input (routeSamples ! k) < routeInputCorrected
         then if k + 1 < length routeSamples
              then orElse (createFillFromDexSample env po
                     ((routeSamples ! (k + 1))
                        \<lparr>ds_input := routeInputCorrected,
                         ds_output := integerValue_default (bn_of_number outputAmount)\<rparr>)) fill
              else orElse (createFillFromDexSample env po (routeSamples ! k)) fill
         else case k of 0 \<Rightarrow> fill
              | Suc k' \<Rightarrow> closest_fill env po routeSamples routeInputCorrected outputAmount k' fill)"

declare closest_fill.simps [simp del]

definition scaleOutput :: "BigNumber \<Rightarrow> BigNumber \<Rightarrow> BigNumber" where
  "scaleOutput maxSampledOutput output =
     bn_max (bn_min (integerValue_default output) maxSampledOutput) (Fin 1)"

definition route_fill ::
  "RouterEnv \<Rightarrow> PathOptimizer \<Rightarrow> BigNumber \<Rightarrow> js_number \<Rightarrow> js_number \<Rightarrow> RoutablePath \<Rightarrow> js_error + Fill option" where
  "route_fill env po precisionErrorScalar routeInputAmount outputAmount rp =
     (let inputAmount = po_inputAmount po;
          routeInputCorrected =
            bn_min (integerValue ROUND_CEIL (precisionErrorScalar * bn_of_number routeInputAmount))
              inputAmount
      in case rp_items rp of
           NativeOrders orders \<Rightarrow>
             (if orders = [] then Inl TypeError
              else Inr (map_option (\<lambda>f. f\<lparr>fill_sourcePathId := rp_pathId rp\<rparr>)
                     (nativeOrderToFill (env_rnd env) (env_fillId env) (ctx_side (po_pathContext po))
                        (last orders) routeInputCorrected
                        (pp_outputAmountPerEth (po_pathPenaltyOpts po))
                        (pp_inputAmountPerEth (po_pathPenaltyOpts po)) (po_feeSchedule po) False)))
         | Samples samples \<Rightarrow>
             (if samples = [] then Inl TypeError
              else case createFillFromDexSample env po (last samples) of
                None \<Rightarrow> Inr None
              | Some lastFill \<Rightarrow>
                  (let fill = closest_fill env po samples routeInputCorrected outputAmount
                                (length samples - 1) lastFill;
                       maxSampledOutput = integerValue_default (bn_maximum (map ds_output samples))
                   in Inr (Some (fill\<lparr>fill_input := routeInputCorrected,
                                      fill_output := scaleOutput maxSampledOutput (fill_output fill),
                                      fill_adjustedOutput :=
                                        scaleOutput maxSampledOutput (fill_adjustedOutput fill),
                                      fill_sourcePathId := rp_pathId rp\<rparr>)))))"

text \<open>None when an output amount is not finite.\<close>

fun route_fills ::
  "RouterEnv \<Rightarrow> PathOptimizer \<Rightarrow> BigNumber \<Rightarrow> (js_number \<times> js_number \<times> RoutablePath) list
   \<Rightarrow> js_error + Fill list option" where
  "route_fills env po scalar [] = Inr (Some [])"
| "route_fills env po scalar ((routeInputAmount, outputAmount, rp) # rest) =
     (if \<not> is_fin outputAmount then Inr None
      else if falsy routeInputAmount \<or> falsy outputAmount then route_fills env po scalar rest
      else res_bind (route_fill env po scalar routeInputAmount outputAmount rp)
             (\<lambda>f. res_bind (route_fills env po scalar rest)
                (\<lambda>fs. Inr (map_option (\<lambda>fs. case f of None \<Rightarrow> fs | Some f \<Rightarrow> f # fs) fs))))"

definition createPathFromRoute ::
  "RouterEnv \<Rightarrow> PathOptimizer \<Rightarrow> RoutablePath list \<Rightarrow> Route \<Rightarrow> js_error + Path option" where
  "createPathFromRoute env po routablePaths route =
     (let routesAndPath = zip (inputAmounts route) (zip (outputAmounts route) routablePaths);
          totalRoutedAmount = bn_sum (map bn_of_number (inputAmounts route));
          precisionErrorScalar = bn_div (env_rnd env) (po_inputAmount po) totalRoutedAmount
      in res_bind (route_fills env po precisionErrorScalar routesAndPath)
           (\<lambda>adjustedFills. case adjustedFills of
              None \<Rightarrow> Inr None
            | Some fills \<Rightarrow>
                if length fills = 0 then Inr None
                else res_bind (Path_create (env_rnd env) (po_pathContext po) fills (po_inputAmount po)
                                 (po_pathPenaltyOpts po)) (\<lambda>p. Inr (Some p))))"

definition routeFromNeonRouter :: "RouterEnv \<Rightarrow> OptimizerCapture \<Rightarrow> nat \<Rightarrow> js_error + NeonRouterOutput" where
  "routeFromNeonRouter env optimizerCapture numSamples =
     (let numPathsIn = length (oc_pathsIn optimizerCapture);
          out = env_route env optimizerCapture numSamples
      in if numPathsIn \<noteq> length (inputAmounts (allSourcesRoute out)) \<or>
            numPathsIn \<noteq> length (outputAmounts (allSourcesRoute out)) \<or>
            numPathsIn \<noteq> length (inputAmounts (vipSourcesRoute out)) \<or>
            numPathsIn \<noteq> length (outputAmounts (vipSourcesRoute out))
         then Inl (Error ''different number of sources in the Router output than the input'')
         else Inr out)"

definition validTwoHop :: "DexSample \<Rightarrow> bool" where
  "validTwoHop sample =
     ((case ds_fillData sample of MultiHopFD _ _ _ _ _ \<Rightarrow> True | _ \<Rightarrow> False) \<and>
      ZERO_AMOUNT < ds_output sample)"

definition findRoutesAndCreateOptimalPath ::
  "RouterEnv \<Rightarrow> PathOptimizer \<Rightarrow> DexSample list list \<Rightarrow> DexSample list list \<Rightarrow>
   NativeOrderWithFillableAmounts list \<Rightarrow> js_error + (Path option \<times> Path option) option" where
  "findRoutesAndCreateOptimalPath env po samples twoHopSamples orders =
     (if po_inputAmount po \<le> ONE_BASE_UNIT then Inr None
      else
        res_bind (singleSourceSamplesToRoutablePaths env po samples)
        (\<lambda>singleSource. res_bind (twoHopSamplesToRoutablePaths po (map (filter validTwoHop) twoHopSamples))
        (\<lambda>twoHop.
           let native = nativeOrdersToRoutablePaths env po (env_newId env (length samples)) orders;
               allRoutablePaths = singleSource @ twoHop @ native;
               serializedPaths = map rp_serializedPath allRoutablePaths
           in if length serializedPaths = 0 then Inr None
              else
                let capture = \<lparr>oc_side = ctx_side (po_pathContext po),
                               oc_targetInput = toNumber (po_inputAmount po), oc_pathsIn = serializedPaths\<rparr>
                in res_bind (routeFromNeonRouter env capture (po_neonRouterNumSamples po))
                   (\<lambda>out. res_bind (createPathFromRoute env po allRoutablePaths (allSourcesRoute out))
                   (\<lambda>allSourcesPath. res_bind (createPathFromRoute env po allRoutablePaths (vipSourcesRoute out))
                   (\<lambda>vipSourcesPath. Inr (Some (allSourcesPath, vipSourcesPath))))))))"

definition findOptimalPathFromSamples ::
  "RouterEnv \<Rightarrow> PathOptimizer \<Rightarrow> DexSample list list \<Rightarrow> DexSample list list \<Rightarrow>
   NativeOrderWithFillableAmounts list \<Rightarrow> js_error + Path option" where
  "findOptimalPathFromSamples env po samples twoHopQuotes orders =
     res_bind (findRoutesAndCreateOptimalPath env po samples twoHopQuotes orders)
       (\<lambda>paths. case paths of
          None \<Rightarrow> Inr None
        | Some (None, vipSourcesPath) \<Rightarrow> Inr vipSourcesPath
        | Some (Some allSourcesPath, None) \<Rightarrow> Inr (Some allSourcesPath)
        | Some (Some allSourcesPath, Some vipSourcesPath) \<Rightarrow>
            res_bind (isAdjustedBetterThan (env_rnd env) vipSourcesPath allSourcesPath)
              (\<lambda>better. Inr (Some (if better then vipSourcesPath else allSourcesPath))))"

section \<open>Fill adjustors\<close>

text \<open>What the optimizer relies on of the adjustor it is given: one adjusted fill for every fill, with the
  input, source and flags of the original.\<close>

locale fill_adjustor =
  fixes adjustFills :: FillAdjustor
  assumes length_adjust: "length (adjustFills side fs) = length fs"
    and adjust_keeps: "i < length fs \<Longrightarrow>
      fill_input (adjustFills side fs ! i) = fill_input (fs ! i) \<and>
      fill_source (adjustFills side fs ! i) = fill_source (fs ! i) \<and>
      fill_flags (adjustFills side fs ! i) = fill_flags (fs ! i) \<and>
      fill_fillData (adjustFills side fs ! i) = fill_fillData (fs ! i)"
begin

lemma adjust_one:
  "\<exists>g. adjustFills side [f] = [g] \<and> fill_input g = fill_input f \<and> fill_source g = fill_source f \<and>
       fill_flags g = fill_flags f \<and> fill_fillData g = fill_fillData f"
proof -
  have "length (adjustFills side [f]) = 1" using length_adjust[of side "[f]"] by simp
  then obtain g where "adjustFills side [f] = [g]"
    by (metis One_nat_def length_0_conv length_Suc_conv)
  then show ?thesis using adjust_keeps[of 0 "[f]" side] by simp
qed

lemma createFill_defined:
  assumes "po_fillAdjustor po = adjustFills"
  shows "\<exists>g. createFillFromDexSample env po sample = Some g \<and> fill_input g = ds_input sample \<and>
    fill_source g = ds_source sample \<and> well_flagged g"
proof -
  define f where "f = dexSampleToFill (env_fillId env) (ctx_side (po_pathContext po)) sample
    (pp_outputAmountPerEth (po_pathPenaltyOpts po)) (pp_inputAmountPerEth (po_pathPenaltyOpts po))
    (po_feeSchedule po)"
  obtain g where "adjustFills (ctx_side (po_pathContext po)) [f] = [g]" "fill_input g = fill_input f"
      "fill_source g = fill_source f" "fill_flags g = fill_flags f"
    using adjust_one by blast
  moreover have "well_flagged f" "fill_input f = ds_input sample" "fill_source f = ds_source sample"
    using dexSampleToFill_flagged by (simp_all add: f_def dexSampleToFill_def Let_def)
  ultimately show ?thesis
    by (simp add: createFillFromDexSample_def first_fill_def Let_def assms well_flagged_def
        flip: f_def)
qed

end

definition IdentityFillAdjustor :: FillAdjustor where
  "IdentityFillAdjustor side fills = fills"

interpretation identity_adjustor: fill_adjustor IdentityFillAdjustor
  by unfold_locales (simp_all add: IdentityFillAdjustor_def)

section \<open>Routed inputs\<close>

text \<open>The size of a path takes its input from the inputs of the fills alone.\<close>

lemma size_input_of_inputs:
  assumes "map fill_input fs = map Fin xs" "\<forall>x \<in> set xs. 0 \<le> x" "c \<le> t" "size_input z = Fin c"
  shows "size_input (foldl (add_fill rnd (Fin t)) z fs) = Fin (min t (c + sum_list xs))"
  using assms
proof (induction fs arbitrary: xs c z)
  case (Cons f fs)
  then obtain x ys where xs: "xs = x # ys" "fill_input f = Fin x" "map fill_input fs = map Fin ys"
    by (cases xs) auto
  let ?z = "add_fill rnd (Fin t) z f"
  have "size_input ?z = Fin (min t (c + x))"
    using Cons.prems xs by (auto simp: add_fill_def Let_def min_def)
  then have "size_input (foldl (add_fill rnd (Fin t)) ?z fs) = Fin (min t (min t (c + x) + sum_list ys))"
    using Cons.prems xs by (intro Cons.IH) auto
  moreover have "0 \<le> sum_list ys" using Cons.prems xs by (intro sum_list_nonneg) auto
  ultimately show ?case using Cons.prems xs by (simp add: min_def)
qed simp

text \<open>The corrected inputs, each rounded up and capped at the amount, cover the amount.\<close>

lemma corrected_cover:
  fixes A :: int and c :: rat and ys :: "rat list"
  assumes "0 \<le> c" "\<forall>y \<in> set ys. 0 \<le> y" "of_int A - 1 < c * sum_list ys" "0 \<le> A"
  shows "A \<le> sum_list (map (\<lambda>y. min \<lceil>c * y\<rceil> A) ys)"
proof (cases "\<exists>y \<in> set ys. A \<le> \<lceil>c * y\<rceil>")
  case True
  then obtain y where y: "y \<in> set ys" "min \<lceil>c * y\<rceil> A = A" by auto
  have nn: "\<forall>y \<in> set ys. 0 \<le> min \<lceil>c * y\<rceil> A"
    using assms by (auto simp: less_le_trans[of "-1" 0])
  then have "min \<lceil>c * y\<rceil> A \<le> sum_list (map (\<lambda>y. min \<lceil>c * y\<rceil> A) ys)"
    using y(1) by (intro member_le_sum_list) auto
  then show ?thesis using y by simp
next
  case False
  then have eq: "map (\<lambda>y. min \<lceil>c * y\<rceil> A) ys = map (\<lambda>y. \<lceil>c * y\<rceil>) ys" by (auto simp: min_def)
  have "c * sum_list ys = sum_list (map (\<lambda>y. c * y) ys)" by (simp add: sum_list_const_mult)
  also have "\<dots> \<le> sum_list (map (\<lambda>y. of_int \<lceil>c * y\<rceil>) ys)" by (intro sum_list_mono) simp
  also have "\<dots> = of_int (sum_list (map (\<lambda>y. \<lceil>c * y\<rceil>) ys))" by (induction ys) auto
  finally have "of_int A - 1 < (of_int (sum_list (map (\<lambda>y. \<lceil>c * y\<rceil>) ys)) :: rat)"
    using assms(3) by linarith
  then have "A - 1 < sum_list (map (\<lambda>y. \<lceil>c * y\<rceil>) ys)"
    by (metis (mono_tags) of_int_1 of_int_diff of_int_less_iff)
  then show ?thesis unfolding eq by simp
qed

lemma scalar_cover:
  assumes "0 < A" "0 < T" "T < 2 ^ 256"
  shows "of_int A - 1 < rnd78 (of_int A / T) * T" "0 \<le> rnd78 (of_int A / T)"
proof -
  have e: "T * (1 / (2 * 10 ^ 78)) < 1"
    using assms(3) order_less_trans[of T "2 ^ 256" "2 * 10 ^ 78"] by simp
  have "of_int A / T - 1 / (2 * 10 ^ 78) \<le> rnd78 (of_int A / T)"
    using dp.rnd_err[of 78 "of_int A / T"] unfolding abs_le_iff by linarith
  then have "(of_int A / T - 1 / (2 * 10 ^ 78)) * T \<le> rnd78 (of_int A / T) * T"
    using assms by (intro mult_right_mono) auto
  moreover have "(of_int A / T - 1 / (2 * 10 ^ 78)) * T = of_int A - T * (1 / (2 * 10 ^ 78))"
    using assms(2) by (simp add: left_diff_distrib)
  ultimately show "of_int A - 1 < rnd78 (of_int A / T) * T" using e by linarith
  show "0 \<le> rnd78 (of_int A / T)" using assms by (intro dp.rnd_nonneg) simp
qed

text \<open>A row of a route over samples: a non-negative double as input, a finite output that is not zero
  when the input is not, and at least one sample.\<close>

definition sampled_row :: "js_number \<times> js_number \<times> RoutablePath \<Rightarrow> bool" where
  "sampled_row row \<longleftrightarrow>
     (case row of (r, out, rp) \<Rightarrow>
        is_fin r \<and> 0 \<le> xval r \<and> is_double (xval r) \<and> is_fin out \<and> (out = Fin 0 \<longrightarrow> r = Fin 0) \<and>
        (case rp_items rp of Samples ss \<Rightarrow> ss \<noteq> [] | NativeOrders os \<Rightarrow> False))"

definition row_amount :: "js_number \<times> 'a \<Rightarrow> rat" where
  "row_amount row = dec (xval (fst row))"

lemma row_amount_nonneg: "sampled_row row \<Longrightarrow> 0 \<le> row_amount row"
  using dec_mono[of 0 "xval (fst row)"] by (auto simp: sampled_row_def row_amount_def is_double_def)

lemma route_fill_input:
  assumes "fill_adjustor (po_fillAdjustor po)" "po_inputAmount po = Fin a" "sampled_row (r, out, rp)"
  shows "\<exists>f. route_fill env po (Fin c) r out rp = Inr (Some f) \<and>
     fill_input f = Fin (min (of_int \<lceil>c * row_amount (r, out, rp)\<rceil>) a)"
proof -
  obtain x where r: "r = Fin x" using assms(3) by (auto simp: sampled_row_def is_fin_iff)
  obtain ss where ss: "rp_items rp = Samples ss" "ss \<noteq> []"
    using assms(3) by (auto simp: sampled_row_def split: SamplesOrNativeOrders.splits)
  obtain g where "createFillFromDexSample env po (last ss) = Some g"
    using fill_adjustor.createFill_defined[OF assms(1) refl] by blast
  then show ?thesis using ss assms(2) r by (simp add: route_fill_def Let_def row_amount_def)
qed

lemma route_fills_inputs:
  assumes "fill_adjustor (po_fillAdjustor po)" "po_inputAmount po = Fin a" "\<forall>row \<in> set rows. sampled_row row"
  shows "\<exists>fs. route_fills env po (Fin c) rows = Inr (Some fs) \<and>
     map fill_input fs = map Fin (map (\<lambda>row. min (of_int \<lceil>c * row_amount row\<rceil>) a)
       (filter (\<lambda>row. fst row \<noteq> Fin 0) rows))"
  using assms(3)
proof (induction rows)
  case (Cons row rows)
  obtain r out rp where row: "row = (r, out, rp)" by (cases row)
  obtain fs where fs: "route_fills env po (Fin c) rows = Inr (Some fs)"
      "map fill_input fs = map Fin (map (\<lambda>row. min (of_int \<lceil>c * row_amount row\<rceil>) a)
        (filter (\<lambda>row. fst row \<noteq> Fin 0) rows))"
    using Cons by auto
  have sr: "sampled_row (r, out, rp)" using Cons.prems row by simp
  obtain f where f: "route_fill env po (Fin c) r out rp = Inr (Some f)"
      "fill_input f = Fin (min (of_int \<lceil>c * row_amount (r, out, rp)\<rceil>) a)"
    using route_fill_input[OF assms(1,2) sr] by blast
  show ?case using sr fs f by (auto simp: row sampled_row_def falsy_def is_fin_iff)
qed simp

lemma zero_rows_sum:
  assumes "0 \<le> A"
  shows "sum_list (map (\<lambda>row. min \<lceil>c * row_amount row\<rceil> A) (filter (\<lambda>row. fst row \<noteq> Fin 0) rows)) =
         sum_list (map (\<lambda>row. min \<lceil>c * row_amount row\<rceil> (A :: int)) rows)"
  using assms by (induction rows) (auto simp: row_amount_def)

lemma bn_sum_rows:
  assumes "\<forall>r \<in> set rs. is_fin r" "rs \<noteq> []"
  shows "bn_sum (map bn_of_number rs) = Fin (sum_list (map (\<lambda>r. dec (xval r)) rs))"
proof -
  have "map bn_of_number rs = map Fin (map (\<lambda>r. dec (xval r)) rs)"
    using assms(1) by (auto simp: is_fin_iff)
  then show ?thesis using assms(2) by (metis bn_sum_Fin map_is_Nil_conv)
qed

section \<open>Choosing a path\<close>

lemma better_defined:
  assumes "path_targetInput p = path_targetInput q" "path_targetInput p \<noteq> NaN"
  shows "\<exists>b. isAdjustedBetterThan rnd p q = Inr b"
  using assms by (auto simp: isAdjustedBetterThan_def bn_eq_def Let_def)

lemma better_asym:
  assumes "within_target p" "within_target q" "isAdjustedBetterThan rnd p q = Inr True"
  shows "isAdjustedBetterThan rnd q p = Inr False"
proof -
  have t: "path_targetInput p = path_targetInput q" using assms(3) by (rule better_target)
  then have "path_targetInput q \<noteq> NaN" using assms(1) by (auto simp: within_target_def less_eq_xnum_def)
  then obtain b where b: "isAdjustedBetterThan rnd q p = Inr b"
    using better_defined[of q p] t by auto
  then show ?thesis using better_trans[OF assms(1,2,1) assms(3)] better_irrefl[OF assms(1)]
    by (cases b) auto
qed

section \<open>Serialized samples\<close>

lemma dropTrailing_last:
  "dropTrailingInvalid ss \<noteq> [] \<Longrightarrow>
   is_fin (ds_output (last (dropTrailingInvalid ss))) \<and> ds_output (last (dropTrailingInvalid ss)) \<noteq> Fin 0"
  using hd_dropWhile[of "\<lambda>s. bn_eq (ds_output s) 0 \<or> \<not> is_fin (ds_output s)" "rev ss"]
  by (auto simp: dropTrailingInvalid_def last_rev bn_eq_def)

lemma dropTrailing_prefix: "\<exists>ts. ss = dropTrailingInvalid ss @ ts"
proof -
  let ?P = "\<lambda>s. bn_eq (ds_output s) 0 \<or> \<not> is_fin (ds_output s)"
  have "rev ss = takeWhile ?P (rev ss) @ dropWhile ?P (rev ss)" by simp
  then have "ss = rev (dropWhile ?P (rev ss)) @ rev (takeWhile ?P (rev ss))"
    by (metis rev_append rev_rev_ident)
  then show ?thesis unfolding dropTrailingInvalid_def by blast
qed

text \<open>A path that the router can take: at least three samples, the last one with an output, and as
  many serialized entries as samples.\<close>

definition routable_samples :: "RoutablePath \<Rightarrow> bool" where
  "routable_samples rp \<longleftrightarrow>
     (case rp_items rp of
        Samples ss \<Rightarrow> MIN_NUM_SAMPLE_INPUTS \<le> length ss \<and> is_fin (ds_output (last ss)) \<and>
          ds_output (last ss) \<noteq> Fin 0 \<and> length (sp_inputs (rp_serializedPath rp)) = length ss \<and>
          length (sp_outputs (rp_serializedPath rp)) = length ss \<and>
          length (sp_outputFees (rp_serializedPath rp)) = length ss \<and>
          length (sp_ids (rp_serializedPath rp)) = length ss
      | NativeOrders os \<Rightarrow> False)"

lemma serializeSamples_lengths:
  assumes "serializeSamples env po k ss = Inr sp"
  shows "length (sp_inputs sp) = length ss" "length (sp_outputs sp) = length ss"
    "length (sp_outputFees sp) = length ss" "length (sp_ids sp) = length ss"
proof -
  obtain fills where "res_map (\<lambda>sample. case createFillFromDexSample env po sample of
      None \<Rightarrow> Inl TypeError | Some f \<Rightarrow> Inr f) ss = Inr fills"
    and sp: "length (sp_inputs sp) = length fills" "length (sp_outputs sp) = length fills"
      "length (sp_outputFees sp) = length fills" "length (sp_ids sp) = length fills"
    using assms by (auto simp: serializeSamples_def res_bind_eq_Inr)
  then have "length fills = length ss" by (auto simp: res_map_Inr_iff dest: list_all2_lengthD)
  then show "length (sp_inputs sp) = length ss" "length (sp_outputs sp) = length ss"
    "length (sp_outputFees sp) = length ss" "length (sp_ids sp) = length ss"
    using sp by simp_all
qed

lemma singleSourceLoop_routable:
  "singleSourceSamplesLoop env po samples acc = Inr rps \<Longrightarrow> \<forall>rp \<in> set acc. routable_samples rp \<Longrightarrow>
   \<forall>rp \<in> set rps. routable_samples rp"
proof (induction samples arbitrary: acc)
  case (Cons ss rest)
  show ?case
  proof (cases "length ss = 0 \<or> length (dropTrailingInvalid ss) < MIN_NUM_SAMPLE_INPUTS")
    case True
    then show ?thesis using Cons.prems by (intro Cons.IH[of acc]) (auto simp: Let_def split: if_splits)
  next
    case False
    then obtain sp where sp: "serializeSamples env po (length acc) (dropTrailingInvalid ss) = Inr sp"
      using Cons.prems(1) by (auto simp: Let_def res_bind_eq_Inr)
    have "dropTrailingInvalid ss \<noteq> []" using False by (auto simp: MIN_NUM_SAMPLE_INPUTS_def)
    then have "routable_samples \<lparr>rp_pathId = env_newId env (length acc),
        rp_items = Samples (dropTrailingInvalid ss), rp_serializedPath = sp\<rparr>"
      using False serializeSamples_lengths[OF sp] dropTrailing_last[of ss]
      by (simp add: routable_samples_def not_less)
    then show ?thesis
      using False Cons.prems sp
      by (intro Cons.IH[of "acc @ [\<lparr>rp_pathId = env_newId env (length acc),
        rp_items = Samples (dropTrailingInvalid ss), rp_serializedPath = sp\<rparr>]"]) (auto simp: Let_def)
  qed
qed simp

section \<open>Native order samples\<close>

lemma native_fraction:
  assumes "i \<le> j" "j < n"
  shows "dec (rnd64 (of_nat i / (of_nat n - 1))) \<le> dec (rnd64 (of_nat j / (of_nat n - 1)))"
    and "0 \<le> dec (rnd64 (of_nat i / (of_nat n - 1)))"
    and "dec (rnd64 (of_nat i / (of_nat n - 1))) \<le> 1"
proof -
  have n: "0 \<le> of_nat n - (1 :: rat)" and ij: "of_nat i \<le> (of_nat j :: rat)"
    and jn: "of_nat j \<le> of_nat n - (1 :: rat)"
    using assms by (auto simp: of_nat_diff[symmetric] less_eq_Suc_le le_diff_eq
        simp flip: of_nat_Suc)
  show "dec (rnd64 (of_nat i / (of_nat n - 1))) \<le> dec (rnd64 (of_nat j / (of_nat n - 1)))"
    using n ij by (intro dec_mono rnd64_mono divide_right_mono) simp_all
  have "rnd64 0 \<le> rnd64 (of_nat i / (of_nat n - 1))" using n by (intro rnd64_mono) simp
  then show "0 \<le> dec (rnd64 (of_nat i / (of_nat n - 1)))"
    using dec_mono[of 0 "rnd64 (of_nat i / (of_nat n - 1))"] by simp
  have "of_nat i / (of_nat n - 1) \<le> (1 :: rat)" using n ij jn assms by (auto simp: divide_le_eq_1)
  then have "rnd64 (of_nat i / (of_nat n - 1)) \<le> 1" using rnd64_mono[of _ 1] by simp
  then show "dec (rnd64 (of_nat i / (of_nat n - 1))) \<le> 1"
    using dec_mono[of "rnd64 (of_nat i / (of_nat n - 1))" 1] by simp
qed

lemma native_sample_bounds:
  assumes "0 \<le> a" "0 \<le> z" "i \<le> j" "j < n" "1 < n"
  shows "\<exists>u v. native_sample n (Fin z) (Fin a) i = Fin u \<and> native_sample n (Fin z) (Fin a) j = Fin v \<and>
     0 \<le> u \<and> u \<le> v \<and> v \<le> a"
proof -
  define p q where "p = dec (rnd64 (of_nat i / (of_nat n - 1)))" and "q = dec (rnd64 (of_nat j / (of_nat n - 1)))"
  have pq: "p \<le> q" "0 \<le> p" using native_fraction[OF assms(3,4)] by (simp_all add: p_def q_def)
  have n: "of_nat n - 1 \<noteq> (0 :: rat)" using assms(5) by (metis diff_eq_eq add_0 of_nat_1 of_nat_eq_iff less_irrefl)
  have "a * z * p \<le> a * z * q" "0 \<le> a * z * p"
    using pq assms by (auto intro: mult_left_mono)
  then show ?thesis
    using assms n by (auto simp: native_sample_def p_def[symmetric] q_def[symmetric])
qed

lemma native_sample_full:
  assumes "0 \<le> a" "0 \<le> z" "z \<le> 1" "1 < n"
  shows "native_sample n (Fin z) (Fin a) (n - 1) = Fin (a * z)"
proof -
  have n: "of_nat n - 1 = (of_nat (n - 1) :: rat)" "of_nat (n - 1) \<noteq> (0 :: rat)"
    using assms(4) by auto
  have "a * z \<le> a" using assms by (simp add: mult_left_le)
  then show ?thesis using n by (simp add: native_sample_def min_def)
qed

section \<open>Properties\<close>

text \<open>C1: When the router distributes the input over sampled sources, the path made of its answer covers the
  whole input amount, although the router works on doubles: the amounts are rescaled, rounded up and
  capped, and BigNumber's decimal quotient does not lose a unit. (For an integer amount, routed
  amounts that sum to less than \<open>2\<^sup>2\<^sup>5\<^sup>6\<close>, and an adjustor that keeps the fills' inputs.)\<close>

theorem routed_path_covers_input:
  assumes "fill_adjustor (po_fillAdjustor po)" "env_rnd env = rnd78"
    and "po_inputAmount po = Fin (of_int A)" "0 < A"
    and "length (inputAmounts route) = length rps" "length (outputAmounts route) = length rps"
    and "\<forall>row \<in> set (zip (inputAmounts route) (zip (outputAmounts route) rps)). sampled_row row"
    and "0 < sum_list (map (\<lambda>r. dec (xval r)) (inputAmounts route))"
    and "sum_list (map (\<lambda>r. dec (xval r)) (inputAmounts route)) < 2 ^ 256"
    and "createPathFromRoute env po rps route = Inr result"
  shows "\<exists>p. result = Some p \<and> path_targetInput p = Fin (of_int A) \<and>
             size_input (path_adjustedSize p) = Fin (of_int A)"
proof -
  define rows where "rows = zip (inputAmounts route) (zip (outputAmounts route) rps)"
  define T where "T = sum_list (map (\<lambda>r. dec (xval r)) (inputAmounts route))"
  define c where "c = rnd78 (of_int A / T)"
  have fst_rows: "map fst rows = inputAmounts route" using assms(5,6) by (simp add: rows_def)
  then have T: "T = sum_list (map row_amount rows)"
    unfolding T_def fst_rows[symmetric] row_amount_def[abs_def] by (simp add: comp_def)
  have fin: "\<forall>r \<in> set (inputAmounts route). is_fin r"
  proof
    fix r assume "r \<in> set (inputAmounts route)"
    then obtain row where "row \<in> set rows" "fst row = r"
      unfolding fst_rows[symmetric] by auto
    then show "is_fin r" using assms(7) by (cases row) (auto simp: rows_def sampled_row_def)
  qed
  have T0: "0 < T" "T < 2 ^ 256" using assms(8,9) by (simp_all add: T_def)
  then have "inputAmounts route \<noteq> []" by (auto simp: T_def)
  then have total: "bn_div rnd78 (Fin (of_int A)) (bn_sum (map bn_of_number (inputAmounts route))) = Fin c"
    using bn_sum_rows[OF fin] T0 by (simp add: c_def flip: T_def)
  obtain fs where fs: "route_fills env po (Fin c) rows = Inr (Some fs)"
      "map fill_input fs = map Fin (map (\<lambda>row. min (of_int \<lceil>c * row_amount row\<rceil>) (of_int A))
        (filter (\<lambda>row. fst row \<noteq> Fin 0) rows))"
    using route_fills_inputs[OF assms(1,3), of rows env c] assms(7) by (auto simp: rows_def)
  define xs where "xs = map (\<lambda>row. min \<lceil>c * row_amount row\<rceil> A) (filter (\<lambda>row. fst row \<noteq> Fin 0) rows)"
  have inputs: "map fill_input fs = map Fin (map of_int xs)"
    using fs(2) by (simp add: xs_def of_int_min comp_def)
  note cov = scalar_cover[OF assms(4) T0, folded c_def]
  have "A \<le> sum_list (map (\<lambda>y. min \<lceil>c * y\<rceil> A) (map row_amount rows))"
    using cov assms(4,7) row_amount_nonneg by (intro corrected_cover) (auto simp: T rows_def)
  then have sum: "A \<le> sum_list xs"
    using assms(4) zero_rows_sum[of A c rows] by (simp add: xs_def comp_def)
  then have "fs \<noteq> []" using assms(4) inputs by auto
  with fs(1) total assms(2,3,10) obtain p where p: "result = Some p"
      "Path_create rnd78 (po_pathContext po) fs (Fin (of_int A)) (po_pathPenaltyOpts po) = Inr p"
    by (auto simp: createPathFromRoute_def Let_def res_bind_eq_Inr simp flip: rows_def)
  have nonneg: "\<forall>x \<in> set xs. 0 \<le> x"
    using cov(2) assms(4,7) row_amount_nonneg
    by (auto simp: xs_def rows_def less_le_trans[of "-1" 0])
  have "size_input (createAdjustedSize rnd78 (Fin (of_int A)) fs) =
      Fin (min (of_int A) (0 + sum_list (map of_int xs)))"
    unfolding createAdjustedSize_def
    using nonneg assms(4) inputs by (intro size_input_of_inputs) auto
  moreover have "sum_list (map of_int xs) = (of_int (sum_list xs) :: rat)" by (induction xs) auto
  ultimately show ?thesis
    using p Path_create_facts[OF p(2)] sum by (simp add: min_def)
qed

text \<open>A concrete market: one source sampled three times, and a router that sends everything to it.\<close>

definition sample_samples :: "DexSample list" where
  "sample_samples =
     [\<lparr>ds_source = Curve, ds_fillData = NoFillData, ds_input = Fin 2, ds_output = Fin 4\<rparr>,
      \<lparr>ds_source = Curve, ds_fillData = NoFillData, ds_input = Fin 4, ds_output = Fin 7\<rparr>,
      \<lparr>ds_source = Curve, ds_fillData = NoFillData, ds_input = Fin 6, ds_output = Fin 9\<rparr>]"

definition sample_route :: Route where
  "sample_route = \<lparr>inputAmounts = [Fin 6], outputAmounts = [Fin 9]\<rparr>"

definition sample_env :: RouterEnv where
  "sample_env = \<lparr>env_rnd = rnd78, env_newId = show_nat, env_fillId = [], env_orderType = (\<lambda>t. []),
     env_route = (\<lambda>capture n. \<lparr>allSourcesRoute = sample_route, vipSourcesRoute = sample_route\<rparr>)\<rparr>"

definition sample_optimizer :: PathOptimizer where
  "sample_optimizer = \<lparr>po_pathContext = sample_context, po_chainId = Celo,
     po_feeSchedule = sample_fee_schedule, po_neonRouterNumSamples = 4,
     po_fillAdjustor = IdentityFillAdjustor, po_pathPenaltyOpts = sample_penalty, po_inputAmount = Fin 6\<rparr>"

definition sample_routable :: RoutablePath where
  "sample_routable = \<lparr>rp_pathId = [], rp_items = Samples sample_samples,
     rp_serializedPath = \<lparr>sp_ids = [], sp_inputs = [], sp_outputs = [], sp_outputFees = [], sp_isVip = False\<rparr>\<rparr>"

lemma dec_6 [simp]: "dec 6 = 6"
  using dec_of_nat[of 6] by simp

lemma rnd64_6 [simp]: "rnd64 6 = 6"
  using rnd64_of_nat[of 6] by simp

lemmas sample_market_defs =
  createPathFromRoute_def sample_route_def sample_env_def sample_optimizer_def sample_routable_def
  sample_samples_def route_fill_def falsy_def Let_def closest_fill.simps createFillFromDexSample_def
  first_fill_def IdentityFillAdjustor_def dexSampleToFill_def Path_create_def createOrdersByType_def
  createBridgeOrder_def createFinalBridgeOrderFillDataFromCollapsedFill_def

lemma sample_route_result:
  "\<exists>result. createPathFromRoute sample_env sample_optimizer [sample_routable] sample_route = Inr result"
  by (simp add: sample_market_defs del: round_mode.simps)

theorem routed_path_covers_input_witness:
  "\<exists>p. createPathFromRoute sample_env sample_optimizer [sample_routable] sample_route = Inr (Some p) \<and>
       size_input (path_adjustedSize p) = Fin 6"
proof -
  obtain result where r: "createPathFromRoute sample_env sample_optimizer [sample_routable] sample_route = Inr result"
    using sample_route_result by blast
  have "\<exists>p. result = Some p \<and> path_targetInput p = Fin (of_int 6) \<and>
      size_input (path_adjustedSize p) = Fin (of_int 6)"
    by (rule routed_path_covers_input[OF _ _ _ _ _ _ _ _ _ r])
      (simp_all add: sample_optimizer_def sample_env_def sample_route_def sample_routable_def
        sample_samples_def sampled_row_def is_double_def identity_adjustor.fill_adjustor_axioms)
  then show ?thesis using r by auto
qed

text \<open>Of the path over all sources and the path over the VIP sources, both for the same target, the
  optimizer returns one that neither beats; amounts of at most one base unit are not routed.\<close>

theorem optimizer_picks_best:
  assumes "findRoutesAndCreateOptimalPath env po samples twoHops orders = Inr (Some (Some a, Some v))"
    and "within_target a" "within_target v" "path_targetInput a = path_targetInput v"
  shows "\<exists>p. findOptimalPathFromSamples env po samples twoHops orders = Inr (Some p) \<and> p \<in> {a, v} \<and>
     isAdjustedBetterThan (env_rnd env) a p = Inr False \<and>
     isAdjustedBetterThan (env_rnd env) v p = Inr False \<and> \<not> po_inputAmount po \<le> ONE_BASE_UNIT"
proof -
  have "path_targetInput v \<noteq> NaN" using assms(3) by (auto simp: within_target_def less_eq_xnum_def)
  then obtain b where b: "isAdjustedBetterThan (env_rnd env) v a = Inr b"
    using better_defined[of v a] assms(4) by auto
  have big: "\<not> po_inputAmount po \<le> ONE_BASE_UNIT"
    using assms(1) by (auto simp: findRoutesAndCreateOptimalPath_def)
  show ?thesis
  proof (cases b)
    case True
    then show ?thesis
      using assms b big better_asym[OF assms(3,2)] better_irrefl[OF assms(3)]
      by (simp add: findOptimalPathFromSamples_def)
  next
    case False
    then show ?thesis
      using assms b big better_irrefl[OF assms(2)] by (simp add: findOptimalPathFromSamples_def)
  qed
qed

lemma sample_find_routes:
  "\<exists>p. findRoutesAndCreateOptimalPath sample_env sample_optimizer [sample_samples] [] [] =
         Inr (Some (Some p, Some p)) \<and> within_target p"
proof -
  obtain sp where sp: "singleSourceSamplesToRoutablePaths sample_env sample_optimizer [sample_samples] =
      Inr [sample_routable\<lparr>rp_pathId := show_nat 0, rp_serializedPath := sp\<rparr>]"
    by (simp add: singleSourceSamplesToRoutablePaths_def sample_samples_def dropTrailingInvalid_def
        MIN_NUM_SAMPLE_INPUTS_def serializeSamples_def createFillFromDexSample_def sample_env_def
        sample_optimizer_def IdentityFillAdjustor_def first_fill_def Let_def sample_routable_def)
  let ?rp = "sample_routable\<lparr>rp_pathId := show_nat 0, rp_serializedPath := sp\<rparr>"
  have "\<exists>result. createPathFromRoute sample_env sample_optimizer [?rp] sample_route = Inr result"
    by (simp add: sample_market_defs del: round_mode.simps)
  then obtain result where r: "createPathFromRoute sample_env sample_optimizer [?rp] sample_route = Inr result"
    by blast
  obtain f where f: "route_fills sample_env sample_optimizer (Fin 1) [(Fin 6, Fin 9, ?rp)] = Inr (Some f)"
      "map fill_input f = [Fin 6]"
    using route_fills_inputs[of sample_optimizer 6 "[(Fin 6, Fin 9, ?rp)]" sample_env 1]
      identity_adjustor.fill_adjustor_axioms
    by (auto simp: sample_optimizer_def sampled_row_def is_double_def sample_routable_def
        sample_samples_def row_amount_def)
  have c: "bn_div (env_rnd sample_env) (po_inputAmount sample_optimizer) (bn_sum [Fin 6]) = Fin 1"
    by (simp add: sample_env_def sample_optimizer_def)
  obtain p where p: "result = Some p"
      "Path_create (env_rnd sample_env) (po_pathContext sample_optimizer) f
         (po_inputAmount sample_optimizer) (po_pathPenaltyOpts sample_optimizer) = Inr p"
    using r f c by (auto simp: createPathFromRoute_def sample_route_def Let_def res_bind_eq_Inr
        simp del: bn_sum.simps bn_div_Fin)
  have "size_input (createAdjustedSize (env_rnd sample_env) (Fin 6) f) = Fin 6"
    using size_input_of_inputs[of f "[6]" 0 6] f(2) by (simp add: createAdjustedSize_def)
  then have "within_target p"
    using Path_create_facts[OF p(2)] by (simp add: within_target_def sample_optimizer_def)
  moreover have "findRoutesAndCreateOptimalPath sample_env sample_optimizer [sample_samples] [] [] =
         Inr (Some (Some p, Some p))"
    using sp r p(1)
    by (simp add: findRoutesAndCreateOptimalPath_def twoHopSamplesToRoutablePaths_def
        nativeOrdersToRoutablePaths_def routeFromNeonRouter_def Let_def ONE_BASE_UNIT_def)
      (simp add: sample_env_def sample_optimizer_def sample_route_def)
  ultimately show ?thesis by blast
qed

theorem optimizer_picks_best_witness:
  "\<exists>p. findOptimalPathFromSamples sample_env sample_optimizer [sample_samples] [] [] = Inr (Some p)"
proof -
  obtain p where p: "findRoutesAndCreateOptimalPath sample_env sample_optimizer [sample_samples] [] [] =
      Inr (Some (Some p, Some p))" "within_target p"
    using sample_find_routes by blast
  then show ?thesis using optimizer_picks_best[OF p(1) p(2) p(2) refl] by auto
qed

text \<open>Every single-source path handed to the router has at least the three samples the router needs,
  ends in a sample with a finite, non-zero output, and is serialized entry by entry.\<close>

theorem single_source_paths_routable:
  assumes "singleSourceSamplesToRoutablePaths env po samples = Inr rps"
  shows "list_all routable_samples rps"
  using singleSourceLoop_routable[of env po samples "[]" rps] assms
  by (simp add: singleSourceSamplesToRoutablePaths_def list_all_iff)

theorem single_source_paths_routable_witness:
  "\<exists>rps. singleSourceSamplesToRoutablePaths sample_env sample_optimizer [sample_samples, []] = Inr rps \<and>
     list_all routable_samples rps"
proof -
  obtain rps where "singleSourceSamplesToRoutablePaths sample_env sample_optimizer [sample_samples, []] = Inr rps"
    by (simp add: singleSourceSamplesToRoutablePaths_def sample_samples_def dropTrailingInvalid_def
        MIN_NUM_SAMPLE_INPUTS_def serializeSamples_def createFillFromDexSample_def sample_env_def
        sample_optimizer_def IdentityFillAdjustor_def first_fill_def Let_def)
  then show ?thesis using single_source_paths_routable by blast
qed

text \<open>Two-hop paths are not held to that minimum: one without any valid sample is still passed on.\<close>

lemma two_hop_path_without_samples:
  "\<exists>rp. twoHopSamplesToRoutablePaths po [[]] = Inr [rp] \<and> rp_items rp = Samples []"
  by (simp add: twoHopSamplesToRoutablePaths_def twoHopRoutablePath_def)

lemma round_to_number_mono: "a \<le> b \<Longrightarrow> round_to_number (Fin a) \<le> round_to_number (Fin b)"
  using round_mode_mono[of a b ROUND_HALF_UP]
  by (simp add: round_to_number_def rnd64_mono del: round_mode.simps)

lemma native_samples_sorted:
  assumes "0 \<le> a" "0 \<le> z" "1 < n"
  shows "sorted_wrt (\<le>) (map (\<lambda>i. round_to_number (native_sample n (Fin z) (Fin a) i)) [1..<n])"
proof (clarsimp simp: sorted_wrt_iff_nth_less)
  fix i j assume ij: "i < j" "j < n - Suc 0"
  then have "Suc i \<le> Suc j" "Suc j < n" by auto
  then obtain u v where "native_sample n (Fin z) (Fin a) (Suc i) = Fin u"
      "native_sample n (Fin z) (Fin a) (Suc j) = Fin v" "u \<le> v"
    using native_sample_bounds[of a z "Suc i" "Suc j" n] assms by auto
  then show "round_to_number (native_sample n (Fin z) (Fin a) (Suc i))
      \<le> round_to_number (native_sample n (Fin z) (Fin a) (Suc j))"
    by (simp add: round_to_number_mono)
qed

text \<open>A native order with positive amounts is always offered to the router, sampled at one point less
  than the configured number, with non-decreasing inputs and outputs; the last sample is the order
  scaled down to the input amount.\<close>

theorem native_order_samples:
  assumes "nativeOrderToNormalizedAmounts (ctx_side (po_pathContext po)) order = (Fin a, Fin b)"
    and "0 < a" "0 < b" "po_inputAmount po = Fin I" "0 < I" "env_rnd env = round_dp d"
    and "1 < po_neonRouterNumSamples po"
  shows "\<exists>rp z. nativeOrderRoutablePath env po pid k idx order = Some rp \<and>
     z = min (round_dp d (I / a)) 1 \<and>
     length (sp_inputs (rp_serializedPath rp)) = po_neonRouterNumSamples po - 1 \<and>
     length (sp_outputs (rp_serializedPath rp)) = po_neonRouterNumSamples po - 1 \<and>
     sorted_wrt (\<le>) (sp_inputs (rp_serializedPath rp)) \<and>
     sorted_wrt (\<le>) (sp_outputs (rp_serializedPath rp)) \<and>
     last (sp_inputs (rp_serializedPath rp)) = round_to_number (Fin (a * z)) \<and>
     last (sp_outputs (rp_serializedPath rp)) = round_to_number (Fin (b * z))"
proof -
  let ?n = "po_neonRouterNumSamples po"
  define z where "z = min (round_dp d (I / a)) 1"
  have z: "0 \<le> z" "z \<le> 1" using assms dp.rnd_nonneg[of "I / a" d] by (auto simp: z_def)
  have "last [1..<?n] = ?n - 1" "[1..<?n] \<noteq> []" using assms(7) by auto
  then show ?thesis
    using assms z native_samples_sorted[of a z ?n] native_samples_sorted[of b z ?n]
      native_sample_full[of a z ?n] native_sample_full[of b z ?n]
    by (simp add: nativeOrderRoutablePath_def Let_def last_map flip: z_def)
qed

theorem native_order_samples_witness:
  "\<exists>rp. nativeOrderRoutablePath sample_env sample_optimizer [] 0 0 sample_native = Some rp \<and>
     length (sp_inputs (rp_serializedPath rp)) = 3"
  using native_order_samples[of sample_optimizer sample_native 4 10 6 sample_env 78 "[]" 0 0]
  by (auto simp: sample_optimizer_def sample_env_def nativeOrderToNormalizedAmounts_def sample_native_def
      sample_context_def)

end
