(* ===== verification/Sampler.thy ===== *)
theory Sampler
  imports Market_Types
begin

text \<open>
  The sampler (\<open>sampler.ts\<close>): the amounts at which sources are sampled, and the batch that runs many sampler
  operations in one call of the sampler contract. The contract is an argument: it answers a list of
  encoded calls. The operations themselves are given by how they are encoded and how their answers are read.
\<close>

section \<open>Sample amounts\<close>

primrec bn_pow :: "BigNumber \<Rightarrow> nat \<Rightarrow> BigNumber" where
  "bn_pow x 0 = 1"
| "bn_pow x (Suc n) = x * bn_pow x n"

definition getSampleAmounts :: "(rat \<Rightarrow> rat) \<Rightarrow> BigNumber \<Rightarrow> nat \<Rightarrow> js_number \<Rightarrow> BigNumber list" where
  "getSampleAmounts rnd maxFillAmount numSamples expBase =
     (let distribution = map (bn_pow (bn_of_number expBase)) [0..<numSamples];
          distributionSum = bn_sum distribution;
          stepSizes = map (\<lambda>d. bn_div rnd d distributionSum) distribution
      in map (\<lambda>i. if i = numSamples - 1 then maxFillAmount
                  else integerValue ROUND_UP (maxFillAmount * bn_sum (0 # take (i + 1) stepSizes)))
           [0..<numSamples])"

section \<open>Batched calls\<close>

definition NULL_BYTES :: string where
  "NULL_BYTES = ''0x''"

record 'r BatchedOperation =
  encodeCall :: string
  handleCallResults :: "string \<Rightarrow> js_error + 'r"
  handleRevert :: "string \<Rightarrow> js_error + 'r"

text \<open>The answers are handed out in order to the operations that made a call; the others read the empty answer.\<close>

fun distribute_results :: "'r BatchedOperation list \<Rightarrow> (string \<times> bool) list \<Rightarrow> js_error + 'r list" where
  "distribute_results [] rawCallResults = Inr []"
| "distribute_results (op # ops) rawCallResults =
     (if encodeCall op = NULL_BYTES
      then res_bind (handleCallResults op NULL_BYTES)
             (\<lambda>r. res_bind (distribute_results ops rawCallResults) (\<lambda>rs. Inr (r # rs)))
      else (case rawCallResults of
              [] \<Rightarrow> Inl TypeError
            | (data, success) # rest \<Rightarrow>
                res_bind (if success then handleCallResults op data else handleRevert op data)
                  (\<lambda>r. res_bind (distribute_results ops rest) (\<lambda>rs. Inr (r # rs)))))"

definition executeBatchAsync ::
  "(string list \<Rightarrow> js_error + (string \<times> bool) list) \<Rightarrow> 'r BatchedOperation list \<Rightarrow> js_error + 'r list" where
  "executeBatchAsync batchCall ops =
     (let callDatas = map encodeCall ops
      in if \<forall>cd \<in> set callDatas. cd = NULL_BYTES
         then res_map (\<lambda>op. handleCallResults op NULL_BYTES) ops
         else res_bind (batchCall (filter (\<lambda>cd. cd \<noteq> NULL_BYTES) callDatas)) (distribute_results ops))"

section \<open>Lemmas\<close>

lemma bn_pow_Fin [simp]: "bn_pow (Fin b) n = Fin (b ^ n)"
  by (induction n) simp_all

text \<open>The exact distribution, and the rounded share of the amount up to the \<open>i\<close>-th sample.\<close>

definition geometric :: "rat \<Rightarrow> nat \<Rightarrow> rat" where
  "geometric b n = (\<Sum>j < n. b ^ j)"

definition share_upto :: "(rat \<Rightarrow> rat) \<Rightarrow> rat \<Rightarrow> nat \<Rightarrow> nat \<Rightarrow> rat" where
  "share_upto rnd b n i = (\<Sum>j < Suc i. rnd (b ^ j / geometric b n))"

lemma sum_list_upt_lt: "(\<Sum>j\<leftarrow>[0..<n]. f j) = (\<Sum>j < n. f j :: rat)"
  by (simp add: interv_sum_list_conv_sum_set_nat lessThan_atLeast0)

lemma geometric_pos: "0 < b \<Longrightarrow> 0 < n \<Longrightarrow> 0 < geometric b n"
  unfolding geometric_def by (intro sum_pos) auto

lemma getSampleAmounts_eq:
  assumes "0 < dec b" "0 < n"
  shows "getSampleAmounts rnd (Fin a) n (Fin b) =
    map (\<lambda>i. Fin (if i = n - 1 then a else of_int (round_mode ROUND_UP (a * share_upto rnd (dec b) n i)))) [0..<n]"
proof -
  let ?g = "geometric (dec b) n"
  let ?steps = "map (\<lambda>j. rnd (dec b ^ j / ?g)) [0..<n]"
  have dist: "map (bn_pow (bn_of_number (Fin b))) [0..<n] = map Fin (map (\<lambda>j. dec b ^ j) [0..<n])"
    by (intro nth_equalityI) simp_all
  then have "bn_sum (map (bn_pow (bn_of_number (Fin b))) [0..<n]) = bn_sum (map Fin (map (\<lambda>j. dec b ^ j) [0..<n]))"
    by (rule arg_cong)
  also have "\<dots> = Fin ?g" using assms(2) by (subst bn_sum_Fin) (simp_all add: geometric_def sum_list_upt_lt)
  finally have total: "bn_sum (map (bn_pow (bn_of_number (Fin b))) [0..<n]) = Fin ?g" .
  have steps: "map (\<lambda>d. bn_div rnd d (Fin ?g)) (map (bn_pow (bn_of_number (Fin b))) [0..<n]) = map Fin ?steps"
    unfolding dist using geometric_pos[OF assms] by simp
  have pre: "bn_sum (0 # take (i + 1) (map Fin ?steps)) = Fin (share_upto rnd (dec b) n i)" if "i < n" for i
  proof -
    have "0 # take (i + 1) (map Fin ?steps) = map Fin (0 # map (\<lambda>j. rnd (dec b ^ j / ?g)) [0..<Suc i])"
      using that by (simp add: take_map min_def)
    then show ?thesis
      using bn_sum_Fin[of "0 # map (\<lambda>j. rnd (dec b ^ j / ?g)) [0..<Suc i]"]
      by (simp add: share_upto_def sum_list_upt_lt del: upt_Suc)
  qed
  show ?thesis
    unfolding getSampleAmounts_def Let_def total steps
    by (rule map_cong[OF refl]) (subst pre, simp_all del: bn_sum.simps round_mode.simps)
qed

context quotient_rounding
begin

lemma share_upto_bounds:
  assumes "0 < b" "i < n - 1" "of_nat n * eps \<le> b ^ (n - 1) / geometric b n"
  shows "0 \<le> share_upto rnd b n i" "share_upto rnd b n i \<le> 1"
    "i \<le> k \<Longrightarrow> share_upto rnd b n i \<le> share_upto rnd b n k"
proof -
  let ?g = "geometric b n"
  have pos: "0 < ?g" using geometric_pos[of b n] assms by simp
  have step: "0 \<le> rnd (b ^ j / ?g)" for j using pos assms(1) by (intro rnd_nonneg) simp
  show "0 \<le> share_upto rnd b n i" unfolding share_upto_def by (intro sum_nonneg) (simp add: step)
  show "i \<le> k \<Longrightarrow> share_upto rnd b n i \<le> share_upto rnd b n k"
    unfolding share_upto_def by (intro sum_mono2) (auto simp: step)
  have "share_upto rnd b n i \<le> share_upto rnd b n (n - 2)"
    unfolding share_upto_def using assms(2) by (intro sum_mono2) (auto simp: step)
  also have "\<dots> \<le> (\<Sum>j < n - 1. b ^ j / ?g + eps)"
  proof -
    have "Suc (n - 2) = n - 1" using assms(2) by simp
    moreover have "rnd (b ^ j / ?g) \<le> b ^ j / ?g + eps" for j using rnd_err[of "b ^ j / ?g"] by linarith
    ultimately show ?thesis unfolding share_upto_def by (simp only:) (intro sum_mono)
  qed
  also have "\<dots> = (\<Sum>j < n - 1. b ^ j) / ?g + of_nat (n - 1) * eps"
    by (simp add: sum.distrib sum_divide_distrib)
  also have "(\<Sum>j < n - 1. b ^ j) = ?g - b ^ (n - 1)"
    using sum.lessThan_Suc[of "\<lambda>j. b ^ j" "n - 1"] assms(2) by (simp add: geometric_def)
  also have "(?g - b ^ (n - 1)) / ?g + of_nat (n - 1) * eps \<le> 1"
    using pos assms(2,3) eps_nonneg mult_right_mono[of "of_nat (n - 1)" "of_nat n" eps]
    by (simp add: diff_divide_distrib)
  finally show "share_upto rnd b n i \<le> 1" .
qed

end

text \<open>What an operation gives when its call is answered on its own.\<close>

definition run_operation :: "(string \<Rightarrow> string \<times> bool) \<Rightarrow> 'r BatchedOperation \<Rightarrow> js_error + 'r" where
  "run_operation answer op =
     (if encodeCall op = NULL_BYTES then handleCallResults op NULL_BYTES
      else let (data, success) = answer (encodeCall op)
           in if success then handleCallResults op data else handleRevert op data)"

lemma distribute_results_run:
  "distribute_results ops (map answer (filter (\<lambda>cd. cd \<noteq> NULL_BYTES) (map encodeCall ops))) =
   res_map (run_operation answer) ops"
  by (induction ops) (auto simp: run_operation_def split: prod.splits)

section \<open>Properties\<close>

text \<open>When the rounding of quotients is finer than the last step, the sample amounts are integers that never
  fall, lie between zero and the amount to fill, and end in that amount exactly.\<close>

theorem sample_amounts_increase:
  assumes "0 < dec b" "0 < n" "0 \<le> a"
    and "of_nat n * (1 / (2 * 10 ^ d)) \<le> dec b ^ (n - 1) / geometric (dec b) n"
  shows "\<exists>xs. getSampleAmounts (round_dp d) (Fin (of_int a)) n (Fin b) = map (Fin \<circ> of_int) xs \<and>
    length xs = n \<and> sorted xs \<and> last xs = a \<and> (\<forall>x \<in> set xs. 0 \<le> x \<and> x \<le> a)"
proof -
  define f where "f i = (if i = n - 1 then a else round_mode ROUND_UP (of_int a * share_upto (round_dp d) (dec b) n i))" for i
  note bounds = dp.share_upto_bounds[OF assms(1) _ assms(4)]
  have le: "f i \<le> a" if "i < n" for i
    using round_mode_mono[of "of_int a * share_upto (round_dp d) (dec b) n i" "of_int a" ROUND_UP] bounds(2)[of i]
      mult_left_mono[of "share_upto (round_dp d) (dec b) n i" 1 "of_int a"] assms(3) that
    by (cases "i = n - 1") (simp_all add: f_def del: round_mode.simps)
  have nn: "0 \<le> f i" if "i < n" for i
    using bounds(1)[of i] assms(3) that
    by (cases "i = n - 1") (simp_all add: f_def del: round_mode.simps)
  have mono: "f i \<le> f j" if "i \<le> j" "j < n" for i j
  proof (cases "j = n - 1")
    case True
    then show ?thesis using le[of i] that by (simp add: f_def)
  next
    case False
    then show ?thesis using that bounds(3)[of i j] assms(3)
      by (auto simp: f_def simp del: round_mode.simps intro!: round_mode_mono mult_left_mono)
  qed
  have "getSampleAmounts (round_dp d) (Fin (of_int a)) n (Fin b) = map (Fin \<circ> of_int) (map f [0..<n])"
    unfolding getSampleAmounts_eq[OF assms(1,2)] by (simp add: f_def del: round_mode.simps)
  moreover have "sorted (map f [0..<n])" using mono by (simp add: sorted_iff_nth_mono)
  moreover have "last (map f [0..<n]) = a" using assms(2) by (simp add: last_map f_def)
  ultimately show ?thesis using le nn by (intro exI[of _ "map f [0..<n]"]) auto
qed

theorem sample_amounts_increase_witness:
  "\<exists>xs. getSampleAmounts rnd78 (Fin 1000) 40 (Fin 1) = map (Fin \<circ> of_int) xs \<and> last xs = 1000"
  using sample_amounts_increase[of 1 40 1000 78] by (auto simp: geometric_def)

text \<open>C15: A batch gives every operation the result of its own call: the results are those of running each
  operation alone, whichever operations make no call, and the first error escapes.\<close>

theorem batch_results_align:
  assumes "\<forall>cs. batchCall cs = Inr (map answer cs)"
  shows "executeBatchAsync batchCall ops = res_map (run_operation answer) ops"
proof (cases "\<forall>cd \<in> set (map encodeCall ops). cd = NULL_BYTES")
  case True
  then have "res_map (\<lambda>op. handleCallResults op NULL_BYTES) ops = res_map (run_operation answer) ops"
    by (induction ops) (auto simp: run_operation_def)
  then show ?thesis using True by (simp add: executeBatchAsync_def)
next
  case False
  then show ?thesis using assms distribute_results_run by (auto simp: executeBatchAsync_def Let_def)
qed

definition sample_operation :: "string \<Rightarrow> string BatchedOperation" where
  "sample_operation call =
     \<lparr>encodeCall = call, handleCallResults = Inr, handleRevert = (\<lambda>data. Inl (Error data))\<rparr>"

theorem batch_results_align_witness:
  "executeBatchAsync (\<lambda>cs. Inr (map (\<lambda>c. (c @ ''!'', True)) cs))
     [sample_operation ''a'', sample_operation ''0x'', sample_operation ''b''] = Inr [''a!'', ''0x'', ''b!'']"
  using batch_results_align[of "\<lambda>cs. Inr (map (\<lambda>c. (c @ ''!'', True)) cs)" "\<lambda>c. (c @ ''!'', True)"
      "[sample_operation ''a'', sample_operation ''0x'', sample_operation ''b'']"]
  by (simp add: run_operation_def sample_operation_def NULL_BYTES_def)

end
