(* ===== verification/Quote_Report.thy ===== *)
theory Quote_Report
  imports Market_Types
begin

text \<open>
  The reports on the sources of a quote (\<open>quote_report_generator.ts\<close>, \<open>quote_requestor.ts\<close>): what was
  considered and what was delivered. A signature is represented by the id its fields print to. An
  amount that is looked up by signature and not found is undefined, hence an option.
\<close>

section \<open>Data\<close>

record V4RFQIndicativeQuoteMM =
  iq_makerToken :: Address
  iq_takerToken :: Address
  iq_makerAmount :: BigNumber
  iq_takerAmount :: BigNumber
  iq_expiry :: BigNumber
  iq_makerUri :: string

record RawQuotes =
  rq_nativeOrders :: "NativeOrderWithFillableAmounts list"
  rq_rfqtIndicativeQuotes :: "V4RFQIndicativeQuoteMM list"
  rq_twoHopQuotes :: "DexSample list list"
  rq_dexQuotes :: "DexSample list list"

text \<open>The quote requestor remembers which maker a signature came from.\<close>

type_synonym QuoteRequestor = "(string \<times> string) list"

definition getMakerUriForSignature :: "QuoteRequestor \<Rightarrow> string \<Rightarrow> string option" where
  "getMakerUriForSignature requestor signature = map_of requestor signature"

definition setMakerUriForSignature :: "string \<Rightarrow> string \<Rightarrow> QuoteRequestor \<Rightarrow> QuoteRequestor" where
  "setMakerUriForSignature signature makerUri requestor = AList.update signature makerUri requestor"

record QuoteReportEntryBase =
  liquiditySource :: ERC20BridgeSource
  re_makerAmount :: BigNumber
  re_takerAmount :: BigNumber
  re_fillData :: FillData

datatype ExtendedQuoteReportEntry =
    BridgeQuoteReportEntry QuoteReportEntryBase
  | MultiHopQuoteReportEntry QuoteReportEntryBase "ERC20BridgeSource list"
  | NativeLimitOrderQuoteReportEntry QuoteReportEntryBase "BigNumber option" \<comment> \<open>fillableTakerAmount\<close>
  | NativeRfqOrderQuoteReportEntry QuoteReportEntryBase "BigNumber option" OrderFields string "js_number option"
      \<comment> \<open>fillableTakerAmount, nativeOrder, makerUri, comparisonPrice\<close>
  | IndicativeRfqOrderQuoteReportEntry QuoteReportEntryBase BigNumber string "js_number option"

record QuoteReport =
  sourcesConsidered :: "ExtendedQuoteReportEntry list"
  sourcesDelivered :: "ExtendedQuoteReportEntry list"

record ExtendedQuoteReportIndexedEntry =
  ie_entry :: ExtendedQuoteReportEntry
  quoteEntryIndex :: nat
  isDelivered :: bool

record ExtendedQuoteReportSources =
  ext_sourcesConsidered :: "ExtendedQuoteReportIndexedEntry list"
  ext_sourcesDelivered :: "ExtendedQuoteReportIndexedEntry list"

datatype LiquidityDelivered = DeliveredFills "Fill list" | DeliveredTwoHop DexSample

section \<open>Report entries\<close>

definition nativeDataToId :: "'a SignedNativeOrder_scheme \<Rightarrow> string" where
  "nativeDataToId data = sno_signature data"

definition dexSampleToReportSource :: "DexSample \<Rightarrow> MarketOperation \<Rightarrow> js_error + ExtendedQuoteReportEntry" where
  "dexSampleToReportSource ds marketOperation =
     (if ds_source ds = Native then Inl (Error ''Unexpected liquidity source Native'')
      else Inr (BridgeQuoteReportEntry
             \<lparr>liquiditySource = ds_source ds,
              re_makerAmount = (case marketOperation of Buy \<Rightarrow> ds_input ds | Sell \<Rightarrow> ds_output ds),
              re_takerAmount = (case marketOperation of Buy \<Rightarrow> ds_output ds | Sell \<Rightarrow> ds_input ds),
              re_fillData = ds_fillData ds\<rparr>))"

definition isDexSampleFilter :: "DexSample \<Rightarrow> BigNumber \<Rightarrow> bool" where
  "isDexSampleFilter ds amount \<longleftrightarrow> bn_eq (ds_input ds) amount \<and> 0 < ds_output ds"

definition multiHopSampleToReportSource :: "DexSample \<Rightarrow> MarketOperation \<Rightarrow> js_error + ExtendedQuoteReportEntry" where
  "multiHopSampleToReportSource ds marketOperation =
     (case ds_fillData ds of
        MultiHopFD firstHop d1 secondHop d2 intermediate \<Rightarrow>
          Inr (MultiHopQuoteReportEntry
             \<lparr>liquiditySource = MultiHop,
              re_makerAmount = (case marketOperation of Buy \<Rightarrow> ds_input ds | Sell \<Rightarrow> ds_output ds),
              re_takerAmount = (case marketOperation of Buy \<Rightarrow> ds_output ds | Sell \<Rightarrow> ds_input ds),
              re_fillData = ds_fillData ds\<rparr> [firstHop, secondHop])
      | _ \<Rightarrow> Inl TypeError)"

fun isNativeOrderFromCollapsedFill :: "FillQuoteTransformerOrderType \<Rightarrow> bool" where
  "isNativeOrderFromCollapsedFill Limit = True"
| "isNativeOrderFromCollapsedFill Rfq = True"
| "isNativeOrderFromCollapsedFill Otc = True"
| "isNativeOrderFromCollapsedFill Bridge = False"

fun isRFQOrderfromType :: "FillQuoteTransformerOrderType \<Rightarrow> bool" where
  "isRFQOrderfromType Rfq = True"
| "isRFQOrderfromType Otc = True"
| "isRFQOrderfromType Limit = False"
| "isRFQOrderfromType Bridge = False"

definition nativeOrderToReportEntry ::
  "FillQuoteTransformerOrderType \<Rightarrow> NativeOrderWithFillableAmounts \<Rightarrow> BigNumber option \<Rightarrow> BigNumber option \<Rightarrow>
   QuoteRequestor option \<Rightarrow> ExtendedQuoteReportEntry" where
  "nativeOrderToReportEntry type fillData fillableAmount comparisonPrice quoteRequestor =
     (let base = \<lparr>liquiditySource = Native, re_makerAmount = ord_makerAmount (sno_order fillData),
                  re_takerAmount = ord_takerAmount (sno_order fillData), re_fillData = NativeFD fillData\<rparr>;
          isRFQ = isRFQOrderfromType type;
          rfqtMakerUri = (if isRFQ then Option.bind quoteRequestor
                             (\<lambda>q. getMakerUriForSignature q (sno_signature fillData)) else None)
      in if isRFQ
         then NativeRfqOrderQuoteReportEntry base fillableAmount (sno_order fillData)
                (case rfqtMakerUri of None \<Rightarrow> [] | Some uri \<Rightarrow> uri) (map_option toNumber comparisonPrice)
         else NativeLimitOrderQuoteReportEntry base fillableAmount)"

definition indicativeQuoteToReportEntry ::
  "V4RFQIndicativeQuoteMM \<Rightarrow> BigNumber option \<Rightarrow> ExtendedQuoteReportEntry" where
  "indicativeQuoteToReportEntry order comparisonPrice =
     IndicativeRfqOrderQuoteReportEntry
       \<lparr>liquiditySource = Native, re_makerAmount = iq_makerAmount order, re_takerAmount = iq_takerAmount order,
        re_fillData = NoFillData\<rparr>
       (iq_takerAmount order) (iq_makerUri order) (map_option toNumber comparisonPrice)"

section \<open>Reports\<close>

fun isRFQ_entry :: "ExtendedQuoteReportEntry \<Rightarrow> bool" where
  "isRFQ_entry (NativeRfqOrderQuoteReportEntry b f ord uri p) = True"
| "isRFQ_entry (IndicativeRfqOrderQuoteReportEntry b f uri p) = True"
| "isRFQ_entry e = False"

text \<open>The table from the ids of native orders to their fillable amounts; a later order replaces an earlier one
  with the same id.\<close>

definition fillable_amounts :: "NativeOrderWithFillableAmounts list \<Rightarrow> (string \<times> BigNumber) list" where
  "fillable_amounts orders =
     foldl (\<lambda>m order. AList.update (nativeDataToId order) (fillableTakerAmount (nof_amounts order)) m) [] orders"

definition fill_to_report_entry ::
  "MarketOperation \<Rightarrow> (string \<times> BigNumber) list \<Rightarrow> BigNumber option \<Rightarrow> QuoteRequestor option \<Rightarrow> Fill \<Rightarrow>
   js_error + ExtendedQuoteReportEntry" where
  "fill_to_report_entry marketOperation fillable comparisonPrice quoteRequestor collapsedFill =
     (if isNativeOrderFromCollapsedFill (fill_type collapsedFill)
      then (case fill_fillData collapsedFill of
              NativeFD order \<Rightarrow>
                Inr (nativeOrderToReportEntry (fill_type collapsedFill) order
                       (map_of fillable (nativeDataToId order)) comparisonPrice quoteRequestor)
            | _ \<Rightarrow> Inl TypeError)
      else dexSampleToReportSource
             \<lparr>ds_source = fill_source collapsedFill, ds_fillData = fill_fillData collapsedFill,
              ds_input = fill_input collapsedFill, ds_output = fill_output collapsedFill\<rparr> marketOperation)"

definition delivered_entries ::
  "MarketOperation \<Rightarrow> NativeOrderWithFillableAmounts list \<Rightarrow> LiquidityDelivered \<Rightarrow> BigNumber option \<Rightarrow>
   QuoteRequestor option \<Rightarrow> js_error + ExtendedQuoteReportEntry list" where
  "delivered_entries marketOperation orders liquidityDelivered comparisonPrice quoteRequestor =
     (case liquidityDelivered of
        DeliveredFills fills \<Rightarrow>
          res_map (fill_to_report_entry marketOperation (fillable_amounts orders) comparisonPrice quoteRequestor) fills
      | DeliveredTwoHop sample \<Rightarrow>
          res_bind (multiHopSampleToReportSource sample marketOperation) (\<lambda>e. Inr [e]))"

definition order_entries ::
  "NativeOrderWithFillableAmounts list \<Rightarrow> BigNumber option \<Rightarrow> QuoteRequestor option \<Rightarrow> ExtendedQuoteReportEntry list" where
  "order_entries orders comparisonPrice quoteRequestor =
     map (\<lambda>order. nativeOrderToReportEntry (sno_type order) order (Some (fillableTakerAmount (nof_amounts order)))
            comparisonPrice quoteRequestor) orders"

definition generateQuoteReport ::
  "MarketOperation \<Rightarrow> NativeOrderWithFillableAmounts list \<Rightarrow> LiquidityDelivered \<Rightarrow> BigNumber option \<Rightarrow>
   QuoteRequestor option \<Rightarrow> js_error + QuoteReport" where
  "generateQuoteReport marketOperation orders liquidityDelivered comparisonPrice quoteRequestor =
     (let considered = filter isRFQ_entry (order_entries orders comparisonPrice quoteRequestor)
      in res_bind (delivered_entries marketOperation orders liquidityDelivered comparisonPrice quoteRequestor)
           (\<lambda>delivered. Inr \<lparr>sourcesConsidered = considered, sourcesDelivered = delivered\<rparr>))"

definition indexed_entries :: "ExtendedQuoteReportEntry list \<Rightarrow> ExtendedQuoteReportIndexedEntry list" where
  "indexed_entries entries =
     map (\<lambda>(index, quote). \<lparr>ie_entry = quote, quoteEntryIndex = index, isDelivered = False\<rparr>)
       (zip [0..<length entries] entries)"

definition generateExtendedQuoteReportSources ::
  "MarketOperation \<Rightarrow> RawQuotes \<Rightarrow> LiquidityDelivered \<Rightarrow> BigNumber \<Rightarrow> BigNumber option \<Rightarrow> QuoteRequestor option \<Rightarrow>
   js_error + ExtendedQuoteReportSources" where
  "generateExtendedQuoteReportSources marketOperation quotes liquidityDelivered amount comparisonPrice quoteRequestor =
     res_bind (res_map (\<lambda>sample. multiHopSampleToReportSource sample marketOperation) (concat (rq_twoHopQuotes quotes)))
     (\<lambda>multiHops. res_bind
        (res_map (\<lambda>quote. dexSampleToReportSource quote marketOperation)
           (concat (map (filter (\<lambda>quote. isDexSampleFilter quote amount)) (rq_dexQuotes quotes))))
     (\<lambda>dexes. res_bind
        (delivered_entries marketOperation (rq_nativeOrders quotes) liquidityDelivered comparisonPrice quoteRequestor)
     (\<lambda>delivered. Inr
        \<lparr>ext_sourcesConsidered = indexed_entries
           (order_entries (rq_nativeOrders quotes) comparisonPrice quoteRequestor
            @ map (\<lambda>order. indicativeQuoteToReportEntry order comparisonPrice) (rq_rfqtIndicativeQuotes quotes)
            @ multiHops @ dexes),
         ext_sourcesDelivered = indexed_entries delivered\<rparr>)))"

section \<open>Lemmas\<close>

fun entry_base :: "ExtendedQuoteReportEntry \<Rightarrow> QuoteReportEntryBase" where
  "entry_base (BridgeQuoteReportEntry b) = b"
| "entry_base (MultiHopQuoteReportEntry b hops) = b"
| "entry_base (NativeLimitOrderQuoteReportEntry b f) = b"
| "entry_base (NativeRfqOrderQuoteReportEntry b f ord uri p) = b"
| "entry_base (IndicativeRfqOrderQuoteReportEntry b f uri p) = b"

fun entry_fillable :: "ExtendedQuoteReportEntry \<Rightarrow> BigNumber option" where
  "entry_fillable (NativeLimitOrderQuoteReportEntry b f) = f"
| "entry_fillable (NativeRfqOrderQuoteReportEntry b f ord uri p) = f"
| "entry_fillable (IndicativeRfqOrderQuoteReportEntry b f uri p) = Some f"
| "entry_fillable e = None"

lemma fillable_amounts_foldl:
  "map_of (foldl (\<lambda>m order. AList.update (nativeDataToId order) (fillableTakerAmount (nof_amounts order)) m) m0 orders) k =
   (case find (\<lambda>order. nativeDataToId order = k) (rev orders) of
      None \<Rightarrow> map_of m0 k | Some order \<Rightarrow> Some (fillableTakerAmount (nof_amounts order)))"
proof (induction orders rule: rev_induct)
  case (snoc order orders)
  then show ?case by (auto simp: update_conv)
qed simp

lemma fillable_amounts_lookup:
  assumes "distinct (map nativeDataToId orders)" "order \<in> set orders"
  shows "map_of (fillable_amounts orders) (nativeDataToId order) = Some (fillableTakerAmount (nof_amounts order))"
proof -
  obtain found where found: "find (\<lambda>o'. nativeDataToId o' = nativeDataToId order) (rev orders) = Some found"
    using assms(2) by (cases "find (\<lambda>o'. nativeDataToId o' = nativeDataToId order) (rev orders)")
      (auto simp: find_None_iff)
  then obtain i where i: "i < length (rev orders)" "found = rev orders ! i" "nativeDataToId found = nativeDataToId order"
    unfolding find_Some_iff by blast
  then have "found \<in> set orders" using nth_mem[OF i(1)] by simp
  with i(3) have "found = order" using assms by (auto simp: distinct_map dest: inj_onD)
  then show ?thesis using found by (simp add: fillable_amounts_def fillable_amounts_foldl)
qed

lemma indexed_entries_simps [simp]:
  "map ie_entry (indexed_entries es) = es" "map quoteEntryIndex (indexed_entries es) = [0..<length es]"
  by (auto simp: indexed_entries_def case_prod_beta comp_def intro: nth_equalityI)

text \<open>A fill as the optimizer makes it: a native fill carries its order, any other comes from a DEX. What a
  delivered entry says of its fill.\<close>

definition reportable :: "NativeOrderWithFillableAmounts list \<Rightarrow> Fill \<Rightarrow> bool" where
  "reportable orders f \<longleftrightarrow>
     (if fill_source f = Native then fill_type f \<noteq> Bridge \<and> (\<exists>order \<in> set orders. fill_fillData f = NativeFD order)
      else fill_type f = Bridge)"

definition entry_of_fill :: "MarketOperation \<Rightarrow> Fill \<Rightarrow> ExtendedQuoteReportEntry \<Rightarrow> bool" where
  "entry_of_fill side f e \<longleftrightarrow>
     liquiditySource (entry_base e) = fill_source f \<and> re_fillData (entry_base e) = fill_fillData f \<and>
     isRFQ_entry e = (fill_type f \<in> {Rfq, Otc}) \<and>
     (case fill_fillData f of
        NativeFD order \<Rightarrow> fill_source f = Native \<longrightarrow> entry_fillable e = Some (fillableTakerAmount (nof_amounts order))
      | _ \<Rightarrow> (re_makerAmount (entry_base e), re_takerAmount (entry_base e)) =
          (if side = Sell then (fill_output f, fill_input f) else (fill_input f, fill_output f)))"

lemma fill_entry:
  assumes "reportable orders f" "distinct (map nativeDataToId orders)"
  shows "\<exists>e. fill_to_report_entry side (fillable_amounts orders) p q f = Inr e \<and> entry_of_fill side f e"
proof (cases "fill_source f = Native")
  case True
  then obtain order where order: "order \<in> set orders" "fill_fillData f = NativeFD order" "fill_type f \<noteq> Bridge"
    using assms(1) by (auto simp: reportable_def)
  then show ?thesis using True fillable_amounts_lookup[OF assms(2) order(1)]
    by (cases "fill_type f")
       (auto simp: fill_to_report_entry_def entry_of_fill_def nativeOrderToReportEntry_def Let_def)
next
  case False
  then show ?thesis using assms(1)
    by (cases side; cases "fill_fillData f")
       (auto simp: reportable_def fill_to_report_entry_def entry_of_fill_def dexSampleToReportSource_def)
qed

lemma delivered_entries_of_fills:
  assumes "\<forall>f \<in> set fills. reportable orders f" "distinct (map nativeDataToId orders)"
  shows "\<exists>es. delivered_entries side orders (DeliveredFills fills) p q = Inr es \<and>
    list_all2 (entry_of_fill side) fills es"
  unfolding delivered_entries_def using assms fill_entry by (auto intro!: res_map_total)

text \<open>The samples of a report come from where the sampler puts them.\<close>

definition well_sorted_quotes :: "RawQuotes \<Rightarrow> bool" where
  "well_sorted_quotes quotes \<longleftrightarrow>
     (\<forall>sample \<in> set (concat (rq_twoHopQuotes quotes)).
        \<exists>s1 d1 s2 d2 t. ds_fillData sample = MultiHopFD s1 d1 s2 d2 t) \<and>
     (\<forall>sample \<in> set (concat (rq_dexQuotes quotes)). ds_source sample \<noteq> Native)"

lemma two_hop_entries:
  assumes "well_sorted_quotes quotes"
  shows "\<exists>es. res_map (\<lambda>sample. multiHopSampleToReportSource sample side) (concat (rq_twoHopQuotes quotes)) = Inr es \<and>
    list_all2 (\<lambda>sample e. re_fillData (entry_base e) = ds_fillData sample) (concat (rq_twoHopQuotes quotes)) es"
  using assms by (intro res_map_total) (fastforce simp: well_sorted_quotes_def multiHopSampleToReportSource_def)

lemma dex_entries:
  fixes amount
  assumes "well_sorted_quotes quotes"
  defines "picked \<equiv> concat (map (filter (\<lambda>quote. isDexSampleFilter quote amount)) (rq_dexQuotes quotes))"
  shows "\<exists>es. res_map (\<lambda>quote. dexSampleToReportSource quote side) picked = Inr es \<and>
    list_all2 (\<lambda>sample e. re_fillData (entry_base e) = ds_fillData sample) picked es"
  using assms by (intro res_map_total) (auto simp: well_sorted_quotes_def dexSampleToReportSource_def)

section \<open>Properties\<close>

text \<open>The extended report of a path is always produced. It numbers what was considered from zero: every
  native order, every indicative quote, every two-hop sample, and the samples that fill the whole amount
  with some output. What was delivered is one entry per fill, in order, with the source, fill data and amounts of
  the fill; an entry is marked RFQ exactly for RFQ and OTC orders and carries the amount its order could fill.\<close>

theorem quote_report_matches_path:
  assumes "\<forall>f \<in> set fills. reportable (rq_nativeOrders quotes) f"
    and "distinct (map nativeDataToId (rq_nativeOrders quotes))" "well_sorted_quotes quotes"
  shows "\<exists>r. generateExtendedQuoteReportSources side quotes (DeliveredFills fills) amount p q = Inr r \<and>
    list_all2 (entry_of_fill side) fills (map ie_entry (ext_sourcesDelivered r)) \<and>
    map quoteEntryIndex (ext_sourcesConsidered r) =
      [0..<length (rq_nativeOrders quotes) + length (rq_rfqtIndicativeQuotes quotes) +
          length (concat (rq_twoHopQuotes quotes)) +
          length (filter (\<lambda>s. isDexSampleFilter s amount) (concat (rq_dexQuotes quotes)))]"
proof -
  obtain es1 where es1:
    "res_map (\<lambda>sample. multiHopSampleToReportSource sample side) (concat (rq_twoHopQuotes quotes)) = Inr es1"
    "length es1 = length (concat (rq_twoHopQuotes quotes))"
    using two_hop_entries[OF assms(3), of side] by (auto simp: list_all2_lengthD)
  obtain es2 where es2:
    "res_map (\<lambda>quote. dexSampleToReportSource quote side)
       (concat (map (filter (\<lambda>quote. isDexSampleFilter quote amount)) (rq_dexQuotes quotes))) = Inr es2"
    "length es2 = length (filter (\<lambda>s. isDexSampleFilter s amount) (concat (rq_dexQuotes quotes)))"
    using dex_entries[OF assms(3), of side amount] by (auto simp: list_all2_lengthD filter_concat)
  obtain es3 where es3:
    "delivered_entries side (rq_nativeOrders quotes) (DeliveredFills fills) p q = Inr es3"
    "list_all2 (entry_of_fill side) fills es3"
    using delivered_entries_of_fills[OF assms(1,2)] by blast
  then show ?thesis using es1 es2
    by (simp add: generateExtendedQuoteReportSources_def order_entries_def add.assoc)
qed

definition sample_raw_quotes :: RawQuotes where
  "sample_raw_quotes =
     \<lparr>rq_nativeOrders = [], rq_rfqtIndicativeQuotes = [], rq_twoHopQuotes = [],
      rq_dexQuotes = [[\<lparr>ds_source = Curve, ds_fillData = NoFillData, ds_input = Fin 5, ds_output = Fin 7\<rparr>]]\<rparr>"

definition sample_report_fill :: Fill where
  "sample_report_fill =
     \<lparr>fill_input = Fin 5, fill_output = Fin 7, fill_adjustedOutput = Fin 7, fill_gas = Fin 0, fill_source = Curve,
      fill_type = Bridge, fill_fillData = NoFillData, fill_sourcePathId = [], fill_flags = 0\<rparr>"

theorem quote_report_matches_path_witness:
  "\<exists>r. generateExtendedQuoteReportSources Sell sample_raw_quotes (DeliveredFills [sample_report_fill]) (Fin 5) None None
       = Inr r \<and> map quoteEntryIndex (ext_sourcesConsidered r) = [0] \<and>
     list_all2 (entry_of_fill Sell) [sample_report_fill] (map ie_entry (ext_sourcesDelivered r))"
proof -
  have "(\<forall>f \<in> set [sample_report_fill]. reportable (rq_nativeOrders sample_raw_quotes) f) \<and>
      distinct (map nativeDataToId (rq_nativeOrders sample_raw_quotes)) \<and> well_sorted_quotes sample_raw_quotes"
    by (simp add: reportable_def sample_report_fill_def sample_raw_quotes_def well_sorted_quotes_def)
  then show ?thesis
    using quote_report_matches_path[of "[sample_report_fill]" sample_raw_quotes Sell "Fin 5" None None]
    by (auto simp: sample_raw_quotes_def isDexSampleFilter_def)
qed

end
