(* ===== verification/Market_Operations.thy ===== *)
theory Market_Operations
  imports Path_Optimizer Sampler Quote_Report
begin

text \<open>
  The market operation utilities (\<open>market_operation_utils/index.ts\<close>, \<open>comparison_price.ts\<close>,
  \<open>rfq_client_mappers.ts\<close>, \<open>alt_mm_implementation_utils.ts\<close>): the liquidity of a market is sampled, a first path
  is routed over it, market makers are asked for RFQ quotes against the price of that path, and the path is
  routed again when they answer. The chain (asked through the sampler), the RFQ client, the firm-quote
  validator and the constructors and unit conversion of protocol packages are fields of \<open>MarketEnv\<close> and of
  the request options. Options are given after the defaults have been filled in. The refresh of the pool
  caches in the background, metrics and logging are left out.
\<close>

section \<open>Data\<close>

record AltOffering =
  alt_id :: string
  baseAsset :: Address
  quoteAsset :: Address
  baseAssetDecimals :: js_number
  quoteAssetDecimals :: js_number

type_synonym AltRfqMakerAssetOfferings = "(string \<times> AltOffering list) list"

record RfqClientRequest =
  rr_altRfqAssetOfferings :: "AltRfqMakerAssetOfferings option"
  rr_assetFillAmount :: BigNumber
  rr_chainId :: ChainId
  rr_comparisonPrice :: "BigNumber option"
  rr_integratorId :: string
  rr_intentOnFilling :: bool
  rr_makerToken :: Address
  rr_marketOperation :: MarketOperation
  rr_takerAddress :: Address
  rr_takerToken :: Address
  rr_txOrigin :: Address

record RfqClientV1Quote =
  v1_order :: OrderFields
  v1_signature :: string
  v1_makerUri :: string

record RfqtV2Quote =
  v2_order :: OrderFields
  v2_signature :: string
  v2_makerUri :: string
  v2_fillableMakerAmount :: BigNumber
  v2_fillableTakerAmount :: BigNumber
  v2_fillableTakerFeeAmount :: BigNumber

record RfqClient =
  getV1PricesAsync :: "RfqClientRequest \<Rightarrow> js_error + V4RFQIndicativeQuoteMM list"
  getV2PricesAsync :: "RfqClientRequest \<Rightarrow> js_error + V4RFQIndicativeQuoteMM list"
  getV1QuotesAsync :: "RfqClientRequest \<Rightarrow> js_error + RfqClientV1Quote list"
  getV2QuotesAsync :: "RfqClientRequest \<Rightarrow> js_error + RfqtV2Quote list"

record GetMarketOrdersRfqOpts =
  rfq_takerAddress :: Address
  rfq_txOrigin :: Address
  rfq_integratorId :: string
  rfq_intentOnFilling :: bool
  rfq_isIndicative :: bool
  rfq_altRfqAssetOfferings :: "AltRfqMakerAssetOfferings option"
  rfq_rfqClient :: "RfqClient option"
  rfq_quoteRequestor :: "QuoteRequestor option"
  rfq_firmQuoteValidator :: "(OrderFields list \<Rightarrow> js_error + BigNumber list) option"

record GetMarketOrdersOpts =
  mo_excludedSources :: "ERC20BridgeSource list"
  mo_includedSources :: "ERC20BridgeSource list"
  mo_numSamples :: nat
  mo_sampleDistributionBase :: js_number
  mo_neonRouterNumSamples :: nat
  mo_feeSchedule :: FeeSchedule
  mo_exchangeProxyOverhead :: ExchangeProxyOverhead
  mo_rfqt :: "GetMarketOrdersRfqOpts option"
  mo_shouldGenerateQuoteReport :: bool
  mo_fillAdjustor :: FillAdjustor
  mo_gasPrice :: BigNumber

record MarketSideLiquidity =
  msl_side :: MarketOperation
  msl_inputAmount :: BigNumber
  msl_inputToken :: Address
  msl_outputToken :: Address
  msl_outputAmountPerEth :: BigNumber
  msl_inputAmountPerEth :: BigNumber
  msl_quoteSourceFilters :: SourceFilters
  msl_makerTokenDecimals :: js_number
  msl_takerTokenDecimals :: js_number
  msl_quotes :: RawQuotes
  msl_isRfqSupported :: bool
  msl_blockNumber :: js_number
  msl_samplerGasUsage :: js_number

record GenerateOptimizedOrdersOpts =
  go_feeSchedule :: FeeSchedule
  go_exchangeProxyOverhead :: ExchangeProxyOverhead
  go_gasPrice :: BigNumber
  go_neonRouterNumSamples :: nat
  go_fillAdjustor :: FillAdjustor

text \<open>What the sampler is asked for one market, in one call, and what it answers. The sources of two-hop
  quotes are empty when two-hops are not allowed.\<close>

record SamplerQuery =
  sq_side :: MarketOperation
  sq_makerToken :: Address
  sq_takerToken :: Address
  sq_limitOrders :: "SignedNativeOrder list"
  sq_feeSources :: "ERC20BridgeSource list"
  sq_nativeFeeToken :: Address
  sq_nativeFeeTokenAmount :: BigNumber
  sq_feeSchedule :: FeeSchedule
  sq_sources :: "ERC20BridgeSource list"
  sq_sampleAmounts :: "BigNumber list"
  sq_twoHopSources :: "ERC20BridgeSource list"
  sq_twoHopAmounts :: "BigNumber list"
  sq_txOrigin :: Address

record SamplerAnswers =
  sa_blockNumber :: BigNumber
  sa_gasLimit :: BigNumber
  sa_makerTokenDecimals :: BigNumber
  sa_takerTokenDecimals :: BigNumber
  sa_orderFillableAmounts :: "BigNumber list"
  sa_ethToMakerAssetRate :: BigNumber
  sa_ethToTakerAssetRate :: BigNumber
  sa_dexQuotes :: "DexSample list list"
  sa_twoHopQuotes :: "DexSample list list"
  sa_isTxOriginContract :: bool
  sa_gasLeft :: BigNumber

record MarketEnv =
  me_router :: RouterEnv
  me_chainId :: ChainId
  me_nativeFeeToken :: Address
  me_execute :: "SamplerQuery \<Rightarrow> js_error + SamplerAnswers"
  me_newRfqOrder :: "V4RFQIndicativeQuoteMM \<Rightarrow> OrderFields"
  me_toUnitAmount :: "BigNumber \<Rightarrow> js_number \<Rightarrow> BigNumber"

abbreviation me_rnd :: "MarketEnv \<Rightarrow> rat \<Rightarrow> rat" where
  "me_rnd env \<equiv> env_rnd (me_router env)"

record OptimizerResult =
  or_path :: Path
  or_marketSideLiquidity :: MarketSideLiquidity
  or_takerAmountPerEth :: BigNumber
  or_makerAmountPerEth :: BigNumber

record OptimizerResultWithReport =
  rw_result :: OptimizerResult
  rw_quoteReport :: "QuoteReport option"
  rw_extendedQuoteReportSources :: ExtendedQuoteReportSources

section \<open>Constants\<close>

definition NoOptimalPath :: js_error where
  "NoOptimalPath = Error ''NO_OPTIMAL_PATH''"

definition ONE_ETHER :: BigNumber where
  "ONE_ETHER = Fin (10 ^ 18)"

definition NATIVE_FEE_TOKEN_AMOUNT_BY_CHAIN_ID :: "ChainId \<Rightarrow> BigNumber" where
  "NATIVE_FEE_TOKEN_AMOUNT_BY_CHAIN_ID =
     valueByChainId
       [(Mainnet, ONE_ETHER * bn_of_number (Fin (rnd64 (1 / 10)))),
        (Optimism, ONE_ETHER * bn_of_number (Fin (rnd64 (1 / 10)))),
        (Arbitrum, ONE_ETHER * bn_of_number (Fin (rnd64 (1 / 10))))] ONE_ETHER"

definition COMPARISON_PRICE_DECIMALS :: nat where
  "COMPARISON_PRICE_DECIMALS = 10"

definition EMPTY_BYTES32 :: string where
  "EMPTY_BYTES32 = ''0x'' @ replicate 64 (CHR ''0'')"

text \<open>The id of the signature with \<open>v = 1\<close> and empty \<open>r\<close> and \<open>s\<close>.\<close>

definition INVALID_SIGNATURE :: string where
  "INVALID_SIGNATURE = ''1'' @ EMPTY_BYTES32 @ EMPTY_BYTES32"

section \<open>Sampling a market\<close>

definition isMicroSwap :: "(rat \<Rightarrow> rat) \<Rightarrow> ChainId \<Rightarrow> BigNumber \<Rightarrow> BigNumber \<Rightarrow> bool" where
  "isMicroSwap rnd chainId inputAmount inputAmountPerNativeWei =
     (if chainId \<noteq> Optimism then False
      else bn_div rnd inputAmount inputAmountPerNativeWei
             < NATIVE_FEE_TOKEN_AMOUNT_BY_CHAIN_ID chainId * bn_of_number (Fin (rnd64 (1 / 100))))"

definition computeGasUsed :: "BigNumber \<Rightarrow> BigNumber \<Rightarrow> BigNumber" where
  "computeGasUsed gasLimit gasLeft = gasLimit - gasLeft"

definition has_hops :: "DexSample \<Rightarrow> bool" where
  "has_hops q = (case ds_fillData q of MultiHopFD s1 d1 s2 d2 t \<Rightarrow> True | _ \<Rightarrow> False)"

definition filterTwoHopQuotes :: "DexSample list list \<Rightarrow> bool \<Rightarrow> DexSample list list" where
  "filterTwoHopQuotes twoHopQuotesList micro =
     (if micro then [] else filter (\<lambda>quotes. quotes \<noteq> []) (map (filter has_hops) twoHopQuotesList))"

definition filterOutDexQuotes :: "ChainId \<Rightarrow> DexSample list list \<Rightarrow> bool \<Rightarrow> DexSample list list" where
  "filterOutDexQuotes chainId dexQuotes micro =
     filter (\<lambda>samples. case samples of
               [] \<Rightarrow> False
             | sample # _ \<Rightarrow>
                 if \<not> micro then True else ds_source sample \<in> set (FEE_QUOTE_SOURCES_BY_CHAIN_ID chainId)) dexQuotes"

text \<open>The orders with their fillable amounts; an amount that is missing is undefined and reading it fails.\<close>

fun attach_amounts ::
  "(SignedNativeOrder \<Rightarrow> BigNumber \<Rightarrow> NativeOrderFillableAmountFields) \<Rightarrow> SignedNativeOrder list \<Rightarrow> BigNumber list \<Rightarrow>
   js_error + NativeOrderWithFillableAmounts list" where
  "attach_amounts f [] amounts = Inr []"
| "attach_amounts f (order # orders) [] = Inl TypeError"
| "attach_amounts f (order # orders) (amount # amounts) =
     res_bind (attach_amounts f orders amounts)
       (\<lambda>rest. Inr (SignedNativeOrder.extend order \<lparr>nof_amounts = f order amount\<rparr> # rest))"

definition request_filters :: "GetMarketOrdersOpts \<Rightarrow> SourceFilters" where
  "request_filters opts =
     include_sources (exclude (new_SourceFilters [] [] []) (mo_excludedSources opts)) (mo_includedSources opts)"

definition txOrigin_of :: "GetMarketOrdersOpts \<Rightarrow> Address" where
  "txOrigin_of opts =
     (case mo_rfqt opts of
        None \<Rightarrow> NULL_ADDRESS
      | Some rfqt \<Rightarrow> if rfq_txOrigin rfqt = [] then NULL_ADDRESS else rfq_txOrigin rfqt)"

definition sampler_query ::
  "MarketEnv \<Rightarrow> MarketOperation \<Rightarrow> SourceFilters \<Rightarrow> Address \<Rightarrow> Address \<Rightarrow> SignedNativeOrder list \<Rightarrow> BigNumber \<Rightarrow>
   GetMarketOrdersOpts \<Rightarrow> SamplerQuery" where
  "sampler_query env side quoteSourceFilters makerToken takerToken limitOrders amount opts =
     \<lparr>sq_side = side, sq_makerToken = makerToken, sq_takerToken = takerToken, sq_limitOrders = limitOrders,
      sq_feeSources = FEE_QUOTE_SOURCES_BY_CHAIN_ID (me_chainId env),
      sq_nativeFeeToken = me_nativeFeeToken env,
      sq_nativeFeeTokenAmount = NATIVE_FEE_TOKEN_AMOUNT_BY_CHAIN_ID (me_chainId env),
      sq_feeSchedule = mo_feeSchedule opts, sq_sources = filter_sources quoteSourceFilters,
      sq_sampleAmounts = getSampleAmounts (me_rnd env) amount (mo_numSamples opts) (mo_sampleDistributionBase opts),
      sq_twoHopSources = (if isAllowed quoteSourceFilters MultiHop then filter_sources quoteSourceFilters else []),
      sq_twoHopAmounts = [amount], sq_txOrigin = txOrigin_of opts\<rparr>"

definition getMarketSellLiquidity ::
  "MarketEnv \<Rightarrow> Address \<Rightarrow> Address \<Rightarrow> SignedNativeOrder list \<Rightarrow> BigNumber \<Rightarrow> GetMarketOrdersOpts \<Rightarrow>
   js_error + MarketSideLiquidity" where
  "getMarketSellLiquidity env makerToken takerToken limitOrders takerAmount opts =
     (let quoteSourceFilters = merge_filters (SELL_SOURCE_FILTER_BY_CHAIN_ID (me_chainId env)) (request_filters opts)
      in res_bind (me_execute env
             (sampler_query env Sell quoteSourceFilters makerToken takerToken limitOrders takerAmount opts))
         (\<lambda>answers.
            let outputAmountPerEth = sa_ethToMakerAssetRate answers;
                inputAmountPerEth = sa_ethToTakerAssetRate answers;
                gasUsed = computeGasUsed (sa_gasLimit answers) (sa_gasLeft answers);
                micro = isMicroSwap (me_rnd env) (me_chainId env) takerAmount inputAmountPerEth
            in res_bind (attach_amounts (getNativeAdjustedFillableAmountsFromTakerAmount (me_rnd env))
                           limitOrders (sa_orderFillableAmounts answers))
               (\<lambda>limitOrdersWithFillableAmounts. Inr
                  \<lparr>msl_side = Sell, msl_inputAmount = takerAmount, msl_inputToken = takerToken,
                   msl_outputToken = makerToken, msl_outputAmountPerEth = outputAmountPerEth,
                   msl_inputAmountPerEth = inputAmountPerEth, msl_quoteSourceFilters = quoteSourceFilters,
                   msl_makerTokenDecimals = toNumber (sa_makerTokenDecimals answers),
                   msl_takerTokenDecimals = toNumber (sa_takerTokenDecimals answers),
                   msl_quotes = \<lparr>rq_nativeOrders = limitOrdersWithFillableAmounts, rq_rfqtIndicativeQuotes = [],
                     rq_twoHopQuotes = filterTwoHopQuotes (sa_twoHopQuotes answers) micro,
                     rq_dexQuotes = filterOutDexQuotes (me_chainId env) (sa_dexQuotes answers) micro\<rparr>,
                   msl_isRfqSupported = (mo_rfqt opts \<noteq> None \<and> \<not> sa_isTxOriginContract answers),
                   msl_blockNumber = toNumber (sa_blockNumber answers),
                   msl_samplerGasUsage = toNumber gasUsed\<rparr>)))"

definition getMarketBuyLiquidity ::
  "MarketEnv \<Rightarrow> Address \<Rightarrow> Address \<Rightarrow> SignedNativeOrder list \<Rightarrow> BigNumber \<Rightarrow> GetMarketOrdersOpts \<Rightarrow>
   js_error + MarketSideLiquidity" where
  "getMarketBuyLiquidity env makerToken takerToken limitOrders makerAmount opts =
     (let quoteSourceFilters = merge_filters (BUY_SOURCE_FILTER_BY_CHAIN_ID (me_chainId env)) (request_filters opts)
      in res_bind (me_execute env
             (sampler_query env Buy quoteSourceFilters makerToken takerToken limitOrders makerAmount opts))
         (\<lambda>answers.
            let gasUsed = computeGasUsed (sa_gasLimit answers) (sa_gasLeft answers);
                micro = isMicroSwap (me_rnd env) (me_chainId env) makerAmount (sa_ethToMakerAssetRate answers)
            in res_bind (attach_amounts (getNativeAdjustedFillableAmountsFromMakerAmount (me_rnd env))
                           limitOrders (sa_orderFillableAmounts answers))
               (\<lambda>limitOrdersWithFillableAmounts. Inr
                  \<lparr>msl_side = Buy, msl_inputAmount = makerAmount, msl_inputToken = makerToken,
                   msl_outputToken = takerToken, msl_outputAmountPerEth = sa_ethToTakerAssetRate answers,
                   msl_inputAmountPerEth = sa_ethToMakerAssetRate answers,
                   msl_quoteSourceFilters = quoteSourceFilters,
                   msl_makerTokenDecimals = toNumber (sa_makerTokenDecimals answers),
                   msl_takerTokenDecimals = toNumber (sa_takerTokenDecimals answers),
                   msl_quotes = \<lparr>rq_nativeOrders = limitOrdersWithFillableAmounts, rq_rfqtIndicativeQuotes = [],
                     rq_twoHopQuotes = filterTwoHopQuotes (sa_twoHopQuotes answers) micro,
                     rq_dexQuotes = filterOutDexQuotes (me_chainId env) (sa_dexQuotes answers) micro\<rparr>,
                   msl_isRfqSupported = (\<not> sa_isTxOriginContract answers),
                   msl_blockNumber = toNumber (sa_blockNumber answers),
                   msl_samplerGasUsage = toNumber gasUsed\<rparr>)))"

definition getMarketLiquidity ::
  "MarketEnv \<Rightarrow> MarketOperation \<Rightarrow> Address \<Rightarrow> Address \<Rightarrow> SignedNativeOrder list \<Rightarrow> BigNumber \<Rightarrow> GetMarketOrdersOpts \<Rightarrow>
   js_error + MarketSideLiquidity" where
  "getMarketLiquidity env side makerToken takerToken limitOrders amount opts =
     (if side = Sell then getMarketSellLiquidity env makerToken takerToken limitOrders amount opts
      else getMarketBuyLiquidity env makerToken takerToken limitOrders amount opts)"

section \<open>The price for market makers to beat\<close>

text \<open>The fill data \<open>{ type: Rfq }\<close>: nothing but the type is given.\<close>

definition rfq_type_only :: FillData where
  "rfq_type_only =
     NativeFD \<lparr>sno_order = \<lparr>ord_maker = [], ord_taker = [], ord_makerToken = [], ord_takerToken = [], ord_makerAmount = NaN,
                 ord_takerAmount = NaN, ord_takerTokenFeeAmount = NaN, ord_expiry = NaN\<rparr>,
               sno_type = Rfq, sno_signature = [],
               nof_amounts = \<lparr>fillableMakerAmount = NaN, fillableTakerAmount = NaN, fillableTakerFeeAmount = NaN\<rparr>\<rparr>"

definition getComparisonPrices ::
  "(rat \<Rightarrow> rat) \<Rightarrow> (BigNumber \<Rightarrow> js_number \<Rightarrow> BigNumber) \<Rightarrow> BigNumber \<Rightarrow> BigNumber \<Rightarrow> MarketSideLiquidity \<Rightarrow>
   (FillData \<Rightarrow> js_error + FeeEstimateResult) \<Rightarrow> ExchangeProxyOverhead \<Rightarrow> BigNumber option" where
  "getComparisonPrices rnd toUnitAmount rate amount liquidity nativeOrderFeeEstimate exchangeProxyOverhead =
     (case nativeOrderFeeEstimate rfq_type_only of
        Inl e \<Rightarrow> None
      | Inr estimate \<Rightarrow>
          let feeInEth = fe_fee estimate + exchangeProxyOverhead (SOURCE_FLAGS RfqOrder);
              feePenalty =
                (if \<not> bn_eq (msl_outputAmountPerEth liquidity) 0 then msl_outputAmountPerEth liquidity * feeInEth
                 else msl_inputAmountPerEth liquidity * feeInEth *
                   (if msl_side liquidity = Sell then rate else bn_div rnd 1 rate));
              orderMakerAmount =
                (if msl_side liquidity = Sell then rate * amount + feePenalty else amount);
              orderTakerAmount =
                (if msl_side liquidity = Sell then amount else bn_div rnd amount rate - feePenalty)
          in if 0 < orderTakerAmount \<and> 0 < orderMakerAmount
             then let optimalMakerUnitAmount =
                        toUnitAmount (integerValue ROUND_UP orderMakerAmount) (msl_makerTokenDecimals liquidity);
                      optimalTakerUnitAmount =
                        toUnitAmount (integerValue ROUND_DOWN orderTakerAmount) (msl_takerTokenDecimals liquidity)
                  in Some (xmap (round_dp COMPARISON_PRICE_DECIMALS)
                       (bn_div rnd optimalMakerUnitAmount optimalTakerUnitAmount))
             else None)"

section \<open>Routing\<close>

definition indicative_order :: "MarketEnv \<Rightarrow> V4RFQIndicativeQuoteMM \<Rightarrow> NativeOrderWithFillableAmounts" where
  "indicative_order env q =
     \<lparr>sno_order = me_newRfqOrder env q, sno_type = Rfq, sno_signature = INVALID_SIGNATURE,
      nof_amounts = \<lparr>fillableMakerAmount = iq_makerAmount q, fillableTakerAmount = iq_takerAmount q,
                     fillableTakerFeeAmount = ZERO_AMOUNT\<rparr>\<rparr>"

definition optimizer_for :: "MarketEnv \<Rightarrow> MarketSideLiquidity \<Rightarrow> GenerateOptimizedOrdersOpts \<Rightarrow> PathOptimizer" where
  "optimizer_for env liquidity opts =
     \<lparr>po_pathContext = \<lparr>ctx_side = msl_side liquidity, ctx_inputToken = msl_inputToken liquidity,
                        ctx_outputToken = msl_outputToken liquidity\<rparr>,
      po_chainId = me_chainId env, po_feeSchedule = go_feeSchedule opts,
      po_neonRouterNumSamples = go_neonRouterNumSamples opts, po_fillAdjustor = go_fillAdjustor opts,
      po_pathPenaltyOpts = \<lparr>pp_outputAmountPerEth = msl_outputAmountPerEth liquidity,
                            pp_inputAmountPerEth = msl_inputAmountPerEth liquidity,
                            pp_exchangeProxyOverhead = go_exchangeProxyOverhead opts\<rparr>,
      po_inputAmount = msl_inputAmount liquidity\<rparr>"

definition generateOptimizedOrders ::
  "MarketEnv \<Rightarrow> MarketSideLiquidity \<Rightarrow> GenerateOptimizedOrdersOpts \<Rightarrow> js_error + OptimizerResult" where
  "generateOptimizedOrders env liquidity opts =
     (let quotes = msl_quotes liquidity;
          augmentedRfqtIndicativeQuotes = map (indicative_order env) (rq_rfqtIndicativeQuotes quotes);
          sell = (msl_side liquidity = Sell)
      in res_bind (findOptimalPathFromSamples (me_router env) (optimizer_for env liquidity opts)
                     (rq_dexQuotes quotes) (rq_twoHopQuotes quotes)
                     (rq_nativeOrders quotes @ augmentedRfqtIndicativeQuotes))
         (\<lambda>optimalPath. case optimalPath of
            None \<Rightarrow> Inl NoOptimalPath
          | Some path \<Rightarrow> Inr
              \<lparr>or_path = path, or_marketSideLiquidity = liquidity,
               or_takerAmountPerEth =
                 (if sell then msl_inputAmountPerEth liquidity else msl_outputAmountPerEth liquidity),
               or_makerAmountPerEth =
                 (if sell then msl_outputAmountPerEth liquidity else msl_inputAmountPerEth liquidity)\<rparr>))"

definition getPhaseOneRoutingResult ::
  "MarketEnv \<Rightarrow> MarketSideLiquidity \<Rightarrow> BigNumber \<Rightarrow> GenerateOptimizedOrdersOpts \<Rightarrow>
   (FillData \<Rightarrow> js_error + FeeEstimateResult) \<Rightarrow> ExchangeProxyOverhead \<Rightarrow>
   js_error + (OptimizerResult option \<times> BigNumber option)" where
  "getPhaseOneRoutingResult env liquidity amount optimizerOpts nativeOrderFeeEstimate exchangeProxyOverhead =
     (case generateOptimizedOrders env liquidity optimizerOpts of
        Inl e \<Rightarrow> if e \<noteq> NoOptimalPath then Inl e else Inr (None, None)
      | Inr result \<Rightarrow>
          Inr (Some result,
               getComparisonPrices (me_rnd env) (me_toUnitAmount env) (adjustedRate (me_rnd env) (or_path result))
                 amount liquidity nativeOrderFeeEstimate exchangeProxyOverhead))"

section \<open>RFQ quotes\<close>

definition toSignedNativeOrder :: "RfqClientV1Quote \<Rightarrow> SignedNativeOrder" where
  "toSignedNativeOrder quote =
     \<lparr>sno_order = v1_order quote, sno_type = Rfq, sno_signature = v1_signature quote\<rparr>"

definition toSignedNativeOrderWithFillableAmounts :: "RfqtV2Quote \<Rightarrow> NativeOrderWithFillableAmounts" where
  "toSignedNativeOrderWithFillableAmounts quote =
     \<lparr>sno_order = v2_order quote, sno_type = Otc, sno_signature = v2_signature quote,
      nof_amounts = \<lparr>fillableMakerAmount = v2_fillableMakerAmount quote,
                     fillableTakerAmount = v2_fillableTakerAmount quote,
                     fillableTakerFeeAmount = v2_fillableTakerFeeAmount quote\<rparr>\<rparr>"

definition getAltMarketInfo :: "AltOffering list \<Rightarrow> Address \<Rightarrow> Address \<Rightarrow> AltOffering option" where
  "getAltMarketInfo offerings buyTokenAddress sellTokenAddress =
     (let buy = toLowerCase buyTokenAddress; sell = toLowerCase sellTokenAddress
      in find (\<lambda>offering. buy = toLowerCase (baseAsset offering) \<and> sell = toLowerCase (quoteAsset offering) \<or>
                          sell = toLowerCase (baseAsset offering) \<and> buy = toLowerCase (quoteAsset offering)) offerings)"

text \<open>The offerings of the current pair, one for every endpoint that has one.\<close>

definition filteredOfferings :: "AltRfqMakerAssetOfferings option \<Rightarrow> Address \<Rightarrow> Address \<Rightarrow> AltRfqMakerAssetOfferings" where
  "filteredOfferings offerings makerToken takerToken =
     (case offerings of
        None \<Rightarrow> []
      | Some table \<Rightarrow>
          List.map_filter (\<lambda>(endpoint, altOfferings).
            map_option (\<lambda>offering. (endpoint, [offering])) (getAltMarketInfo altOfferings makerToken takerToken)) table)"

definition v1_request ::
  "MarketEnv \<Rightarrow> GetMarketOrdersRfqOpts \<Rightarrow> Address \<Rightarrow> Address \<Rightarrow> BigNumber \<Rightarrow> MarketOperation \<Rightarrow> BigNumber option \<Rightarrow>
   RfqClientRequest" where
  "v1_request env rfqt makerToken takerToken amount side wholeOrderPrice =
     \<lparr>rr_altRfqAssetOfferings = Some (filteredOfferings (rfq_altRfqAssetOfferings rfqt) makerToken takerToken),
      rr_assetFillAmount = amount, rr_chainId = me_chainId env, rr_comparisonPrice = wholeOrderPrice,
      rr_integratorId = rfq_integratorId rfqt, rr_intentOnFilling = rfq_intentOnFilling rfqt,
      rr_makerToken = makerToken, rr_marketOperation = side, rr_takerAddress = rfq_takerAddress rfqt,
      rr_takerToken = takerToken, rr_txOrigin = rfq_txOrigin rfqt\<rparr>"

definition v2_request ::
  "MarketEnv \<Rightarrow> GetMarketOrdersRfqOpts \<Rightarrow> Address \<Rightarrow> Address \<Rightarrow> BigNumber \<Rightarrow> MarketOperation \<Rightarrow> RfqClientRequest" where
  "v2_request env rfqt makerToken takerToken amount side =
     (v1_request env rfqt makerToken takerToken amount side None)\<lparr>rr_altRfqAssetOfferings := None\<rparr>"

text \<open>\<open>Promise.all\<close> of the two calls; when both fail, the first error is taken.\<close>

definition ask_both :: "RfqClient option \<Rightarrow> (RfqClient \<Rightarrow> js_error + 'a list) \<Rightarrow> (RfqClient \<Rightarrow> js_error + 'b list) \<Rightarrow>
  js_error + ('a list \<times> 'b list)" where
  "ask_both client v1 v2 =
     (case client of
        None \<Rightarrow> Inr ([], [])
      | Some c \<Rightarrow> res_bind (v1 c) (\<lambda>xs. res_bind (v2 c) (\<lambda>ys. Inr (xs, ys))))"

text \<open>Phase two routes over the sources that phase one chose.\<close>

definition phase2_liquidity :: "MarketSideLiquidity \<Rightarrow> OptimizerResult option \<Rightarrow> MarketSideLiquidity" where
  "phase2_liquidity liquidity optimizerResult =
     (let phase1OptimalSources =
            (case optimizerResult of None \<Rightarrow> [] | Some result \<Rightarrow> map oo_source (getOrders (or_path result)));
          quotes = msl_quotes liquidity
      in liquidity\<lparr>msl_quotes := quotes\<lparr>rq_dexQuotes :=
           filter (\<lambda>q. q \<noteq> [] \<and> ds_source (hd q) \<in> set phase1OptimalSources) (rq_dexQuotes quotes)\<rparr>\<rparr>)"

definition set_maker_uri ::
  "(string \<times> string) list \<Rightarrow> QuoteRequestor option \<Rightarrow> QuoteRequestor option" where
  "set_maker_uri pairs requestor =
     map_option (\<lambda>q. foldl (\<lambda>q (signature, makerUri). setMakerUriForSignature signature makerUri q) q pairs) requestor"

text \<open>The fillable amounts of first-generation firm quotes; a missing amount is undefined and reading it fails.\<close>

definition firm_fillable_amounts ::
  "(rat \<Rightarrow> rat) \<Rightarrow> SignedNativeOrder \<Rightarrow> BigNumber \<Rightarrow> NativeOrderFillableAmountFields" where
  "firm_fillable_amounts rnd order takerFillable =
     \<lparr>fillableMakerAmount = getNativeAdjustedMakerFillAmount rnd (sno_order order) takerFillable,
      fillableTakerAmount = takerFillable, fillableTakerFeeAmount = ZERO_AMOUNT\<rparr>"

definition firm_orders ::
  "MarketEnv \<Rightarrow> GetMarketOrdersRfqOpts \<Rightarrow> RfqClientV1Quote list \<Rightarrow> RfqtV2Quote list \<Rightarrow>
   js_error + NativeOrderWithFillableAmounts list" where
  "firm_orders env rfqt v1Quotes v2Quotes =
     (let v1FirmQuotes = map toSignedNativeOrder v1Quotes
      in res_bind (case rfq_firmQuoteValidator rfqt of
                     None \<Rightarrow> Inr (map (ord_takerAmount \<circ> sno_order) v1FirmQuotes)
                   | Some validator \<Rightarrow> validator (map sno_order v1FirmQuotes))
         (\<lambda>amounts. res_bind (attach_amounts (firm_fillable_amounts (me_rnd env)) v1FirmQuotes amounts)
         (\<lambda>v1Orders. Inr (v1Orders @ map toSignedNativeOrderWithFillableAmounts v2Quotes))))"

text \<open>The liquidity, the result and the quote requestor after the RFQ phase.\<close>

definition rfq_phase ::
  "MarketEnv \<Rightarrow> GetMarketOrdersRfqOpts \<Rightarrow> Address \<Rightarrow> Address \<Rightarrow> BigNumber \<Rightarrow> MarketOperation \<Rightarrow>
   GenerateOptimizedOrdersOpts \<Rightarrow> BigNumber option \<Rightarrow> MarketSideLiquidity \<Rightarrow> OptimizerResult option \<Rightarrow>
   js_error + (MarketSideLiquidity \<times> OptimizerResult option \<times> QuoteRequestor option)" where
  "rfq_phase env rfqt makerToken takerToken amount side opts wholeOrderPrice liquidity optimizerResult =
     (let r1 = v1_request env rfqt makerToken takerToken amount side wholeOrderPrice;
          r2 = v2_request env rfqt makerToken takerToken amount side;
          reroute = (\<lambda>liquidity1 requestor.
            res_bind (generateOptimizedOrders env (phase2_liquidity liquidity1 optimizerResult) opts)
              (\<lambda>result. Inr (liquidity1, Some result, requestor)))
      in if rfq_isIndicative rfqt
         then res_bind (ask_both (rfq_rfqClient rfqt) (\<lambda>c. getV1PricesAsync c r1) (\<lambda>c. getV2PricesAsync c r2))
           (\<lambda>(v1Prices, v2Prices).
              let indicativeQuotes = v1Prices @ v2Prices
              in if length indicativeQuotes > 0
                 then reroute (liquidity\<lparr>msl_quotes :=
                        (msl_quotes liquidity)\<lparr>rq_rfqtIndicativeQuotes := indicativeQuotes\<rparr>\<rparr>) (rfq_quoteRequestor rfqt)
                 else Inr (liquidity, optimizerResult, rfq_quoteRequestor rfqt))
         else res_bind (ask_both (rfq_rfqClient rfqt) (\<lambda>c. getV1QuotesAsync c r1) (\<lambda>c. getV2QuotesAsync c r2))
           (\<lambda>(v1Quotes, v2Quotes).
              let requestor = set_maker_uri (map (\<lambda>q. (v1_signature q, v1_makerUri q)) v1Quotes
                    @ map (\<lambda>q. (v2_signature q, v2_makerUri q)) v2Quotes) (rfq_quoteRequestor rfqt)
              in if length v1Quotes > 0 \<or> length v2Quotes > 0
                 then res_bind (firm_orders env rfqt v1Quotes v2Quotes)
                   (\<lambda>orders. reroute (liquidity\<lparr>msl_quotes :=
                        (msl_quotes liquidity)\<lparr>rq_nativeOrders := orders @ rq_nativeOrders (msl_quotes liquidity)\<rparr>\<rparr>) requestor)
                 else Inr (liquidity, optimizerResult, requestor)))"

definition rfq_enabled :: "MarketSideLiquidity \<Rightarrow> GetMarketOrdersOpts \<Rightarrow> bool" where
  "rfq_enabled liquidity opts \<longleftrightarrow> msl_isRfqSupported liquidity \<and>
     (case mo_rfqt opts of None \<Rightarrow> False | Some rfqt \<Rightarrow> rfq_quoteRequestor rfqt \<noteq> None) \<and>
     isAllowed (msl_quoteSourceFilters liquidity) Native"

definition optimizer_opts :: "GetMarketOrdersOpts \<Rightarrow> GenerateOptimizedOrdersOpts" where
  "optimizer_opts opts =
     \<lparr>go_feeSchedule = mo_feeSchedule opts, go_exchangeProxyOverhead = mo_exchangeProxyOverhead opts,
      go_gasPrice = mo_gasPrice opts, go_neonRouterNumSamples = mo_neonRouterNumSamples opts,
      go_fillAdjustor = mo_fillAdjustor opts\<rparr>"

definition quote_reports ::
  "GetMarketOrdersOpts \<Rightarrow> QuoteRequestor option \<Rightarrow> MarketSideLiquidity \<Rightarrow> BigNumber \<Rightarrow> OptimizerResult \<Rightarrow>
   BigNumber option \<Rightarrow> js_error + OptimizerResultWithReport" where
  "quote_reports opts requestor liquidity amount result wholeOrderPrice =
     (let side = msl_side liquidity; quotes = msl_quotes liquidity;
          delivered = DeliveredFills (path_fills (or_path result))
      in res_bind (if mo_shouldGenerateQuoteReport opts
                   then res_bind (generateQuoteReport side (rq_nativeOrders quotes) delivered wholeOrderPrice requestor)
                          (\<lambda>report. Inr (Some report))
                   else Inr None)
         (\<lambda>quoteReport. res_bind
            (generateExtendedQuoteReportSources side quotes delivered amount wholeOrderPrice requestor)
         (\<lambda>extended. Inr \<lparr>rw_result = result, rw_quoteReport = quoteReport,
                          rw_extendedQuoteReportSources = extended\<rparr>)))"

definition getOptimizerResultAsync ::
  "MarketEnv \<Rightarrow> Address \<Rightarrow> Address \<Rightarrow> SignedNativeOrder list \<Rightarrow> BigNumber \<Rightarrow> MarketOperation \<Rightarrow> GetMarketOrdersOpts \<Rightarrow>
   js_error + OptimizerResultWithReport" where
  "getOptimizerResultAsync env makerToken takerToken limitOrders amount side opts =
     res_bind (getMarketLiquidity env side makerToken takerToken limitOrders amount opts)
     (\<lambda>liquidity. res_bind
        (getPhaseOneRoutingResult env liquidity amount ((optimizer_opts opts)\<lparr>go_fillAdjustor := IdentityFillAdjustor\<rparr>)
           (\<lambda>fd. Inr (mo_feeSchedule opts Native fd)) (mo_exchangeProxyOverhead opts))
     (\<lambda>(phaseOne, wholeOrderPrice). res_bind
        (if rfq_enabled liquidity opts
         then rfq_phase env (the (mo_rfqt opts)) makerToken takerToken amount side (optimizer_opts opts)
                wholeOrderPrice liquidity phaseOne
         else Inr (liquidity, phaseOne, Option.bind (mo_rfqt opts) rfq_quoteRequestor))
     (\<lambda>(liquidity1, optimizerResult, requestor).
        case optimizerResult of
          None \<Rightarrow> Inl NoOptimalPath
        | Some result \<Rightarrow> quote_reports opts requestor liquidity1 amount result wholeOrderPrice)))"

text \<open>\<open>getTokenAmountPerWei\<close> asks for one rate only; \<open>rate\<close> is the answer of the chain.\<close>

definition getTokenAmountPerWei ::
  "(ERC20BridgeSource list \<Rightarrow> Address \<Rightarrow> Address \<Rightarrow> BigNumber \<Rightarrow> FeeSchedule \<Rightarrow> js_error + BigNumber) \<Rightarrow>
   MarketEnv \<Rightarrow> Address \<Rightarrow> GetMarketOrdersOpts \<Rightarrow> js_error + BigNumber" where
  "getTokenAmountPerWei rate env tokenAddress opts =
     rate (FEE_QUOTE_SOURCES_BY_CHAIN_ID (me_chainId env)) tokenAddress (me_nativeFeeToken env)
       (NATIVE_FEE_TOKEN_AMOUNT_BY_CHAIN_ID (me_chainId env)) (mo_feeSchedule opts)"

section \<open>Sources of a request\<close>

definition side_filters :: "ChainId \<Rightarrow> MarketOperation \<Rightarrow> SourceFilters" where
  "side_filters chainId side =
     (if side = Sell then SELL_SOURCE_FILTER_BY_CHAIN_ID chainId else BUY_SOURCE_FILTER_BY_CHAIN_ID chainId)"

text \<open>What a request means: the sources of the chain for the side, less the excluded ones, and only the included
  ones when any are named.\<close>

definition requested_sources :: "ChainId \<Rightarrow> MarketOperation \<Rightarrow> GetMarketOrdersOpts \<Rightarrow> ERC20BridgeSource set" where
  "requested_sources chainId side opts =
     {s \<in> set (validSources (side_filters chainId side)). s \<notin> set (mo_excludedSources opts) \<and>
        (mo_includedSources opts = [] \<or> s \<in> set (mo_includedSources opts))}"

lemma side_filters_plain [simp]:
  "excludedSources (side_filters chainId side) = []" "includedSources (side_filters chainId side) = []"
  by (cases chainId; simp add: side_filters_def new_SourceFilters_def uniq_def)+

lemma merged_filter_sets:
  "set (filter_sources (merge_filters (side_filters chainId side) (request_filters opts))) =
     requested_sources chainId side opts"
  "validSources (side_filters chainId side) \<noteq> [] \<Longrightarrow>
   allowed_set (merge_filters (side_filters chainId side) (request_filters opts)) = requested_sources chainId side opts"
  by (auto simp: filter_sources_def isAllowed_iff allowed_set_def merge_filters_def request_filters_def
      include_sources_def exclude_def requested_sources_def Let_def new_SourceFilters_def)

lemma getMarketLiquidity_cases:
  assumes "getMarketLiquidity env side makerToken takerToken limitOrders amount opts = Inr l"
  defines "filters \<equiv> merge_filters (side_filters (me_chainId env) side) (request_filters opts)"
  obtains answers micro where
    "me_execute env (sampler_query env side filters makerToken takerToken limitOrders amount opts) = Inr answers"
    "msl_quoteSourceFilters l = filters" "msl_side l = side" "msl_inputAmount l = amount"
    "rq_dexQuotes (msl_quotes l) = filterOutDexQuotes (me_chainId env) (sa_dexQuotes answers) micro"
    "rq_twoHopQuotes (msl_quotes l) = filterTwoHopQuotes (sa_twoHopQuotes answers) micro"
    "micro = isMicroSwap (me_rnd env) (me_chainId env) amount (msl_inputAmountPerEth l)"
    "rq_rfqtIndicativeQuotes (msl_quotes l) = []"
  using assms(1) unfolding filters_def
  by (cases side)
     (auto simp: getMarketLiquidity_def getMarketSellLiquidity_def getMarketBuyLiquidity_def side_filters_def Let_def
       res_bind_eq_Inr)

lemma filterOutDexQuotes_set:
  "set (filterOutDexQuotes chainId qs micro) =
     {q \<in> set qs. q \<noteq> [] \<and> (micro \<longrightarrow> ds_source (hd q) \<in> set (FEE_QUOTE_SOURCES_BY_CHAIN_ID chainId))}"
  unfolding filterOutDexQuotes_def by (rule set_eqI, rename_tac q, case_tac q) auto

text \<open>Without a rate to the native token the value of the input is not zero but infinite, and the swap is not
  a micro swap.\<close>

lemma micro_swap_needs_rate: "0 < a \<Longrightarrow> \<not> isMicroSwap rnd chainId (Fin a) (Fin 0)"
  by (simp add: isMicroSwap_def bn_div_def xdiv_def NATIVE_FEE_TOKEN_AMOUNT_BY_CHAIN_ID_def valueByChainId_def
      ONE_ETHER_def)

section \<open>Phases\<close>

definition phase_one :: "MarketEnv \<Rightarrow> MarketSideLiquidity \<Rightarrow> GetMarketOrdersOpts \<Rightarrow> js_error + OptimizerResult" where
  "phase_one env l opts = generateOptimizedOrders env l ((optimizer_opts opts)\<lparr>go_fillAdjustor := IdentityFillAdjustor\<rparr>)"

text \<open>No market maker answers: there is no client, or both generations answer with nothing.\<close>

definition no_rfq_answers ::
  "MarketEnv \<Rightarrow> MarketSideLiquidity \<Rightarrow> GetMarketOrdersOpts \<Rightarrow> bool" where
  "no_rfq_answers env l opts \<longleftrightarrow>
     \<not> rfq_enabled l opts \<or>
     (case mo_rfqt opts of None \<Rightarrow> True | Some rfqt \<Rightarrow>
       (case rfq_rfqClient rfqt of None \<Rightarrow> True | Some c \<Rightarrow>
          \<forall>r. getV1PricesAsync c r = Inr [] \<and> getV2PricesAsync c r = Inr [] \<and>
              getV1QuotesAsync c r = Inr [] \<and> getV2QuotesAsync c r = Inr []))"

lemma rfq_phase_no_answers:
  assumes "case rfq_rfqClient rfqt of None \<Rightarrow> True | Some c \<Rightarrow>
      \<forall>r. getV1PricesAsync c r = Inr [] \<and> getV2PricesAsync c r = Inr [] \<and>
          getV1QuotesAsync c r = Inr [] \<and> getV2QuotesAsync c r = Inr []"
  shows "rfq_phase env rfqt mk tk amount side opts price l result = Inr (l, result, rfq_quoteRequestor rfqt)"
  using assms
  by (cases "rfq_rfqClient rfqt"; cases "rfq_quoteRequestor rfqt")
     (simp_all add: rfq_phase_def ask_both_def Let_def set_maker_uri_def)

lemma getPhaseOne_cases:
  "getPhaseOneRoutingResult env l amount (optimizer_opts opts\<lparr>go_fillAdjustor := IdentityFillAdjustor\<rparr>) fee over =
     (case phase_one env l opts of
        Inl e \<Rightarrow> if e = NoOptimalPath then Inr (None, None) else Inl e
      | Inr r \<Rightarrow> Inr (Some r, getComparisonPrices (me_rnd env) (me_toUnitAmount env)
                   (adjustedRate (me_rnd env) (or_path r)) amount l fee over))"
  by (simp add: getPhaseOneRoutingResult_def phase_one_def split: sum.splits)

text \<open>A price computed on amounts rounded in the makers' favour, in whole units of the tokens.\<close>

lemma unit_price_lower_bound:
  fixes m t :: rat
  assumes "0 < m" "1 \<le> t"
  shows "(m / 10 ^ md) / (t / 10 ^ td) \<le>
    (of_int (round_mode ROUND_UP m) / 10 ^ md) / (of_int (round_mode ROUND_DOWN t) / 10 ^ td)"
proof -
  have up: "m \<le> of_int (round_mode ROUND_UP m)" using assms by (intro round_up_ge) simp
  have down: "of_int (round_mode ROUND_DOWN t) \<le> t" using assms by (intro round_down_le) simp
  have "round_mode ROUND_DOWN 1 \<le> round_mode ROUND_DOWN t" using assms(2) by (intro round_mode_mono)
  then have pos: "(0 :: rat) < of_int (round_mode ROUND_DOWN t)" by simp
  show ?thesis
    by (rule frac_le) (use up down pos assms in \<open>simp_all add: divide_right_mono del: round_mode.simps\<close>)
qed

lemma two_roundings_below:
  fixes x y r1 r2 e1 e2 :: rat
  shows "y \<le> x \<Longrightarrow> \<bar>r1 - x\<bar> \<le> e1 \<Longrightarrow> \<bar>r2 - r1\<bar> \<le> e2 \<Longrightarrow> y - e1 - e2 \<le> r2"
  by linarith

section \<open>Properties\<close>

text \<open>C16: Liquidity is sampled in one query whose sources are exactly those the request means: the sources of the
  chain for the side, less the excluded ones, and only the included ones when any are named. Two-hops are
  sampled over the same sources or not at all. The quotes kept are non-empty sampled quotes; on a micro
  swap they come from the fee sources and no two-hop quote is kept.\<close>

theorem sampled_sources_respect_request:
  assumes "getMarketLiquidity env side makerToken takerToken limitOrders amount opts = Inr l"
  shows "\<exists>q answers. me_execute env q = Inr answers \<and> sq_side q = side \<and>
    set (sq_sources q) = requested_sources (me_chainId env) side opts \<and>
    (sq_twoHopSources q = [] \<or> sq_twoHopSources q = sq_sources q) \<and>
    (\<forall>quote \<in> set (rq_dexQuotes (msl_quotes l)). quote \<noteq> [] \<and> quote \<in> set (sa_dexQuotes answers)) \<and>
    (isMicroSwap (me_rnd env) (me_chainId env) amount (msl_inputAmountPerEth l) \<longrightarrow>
       rq_twoHopQuotes (msl_quotes l) = [] \<and>
       (\<forall>quote \<in> set (rq_dexQuotes (msl_quotes l)).
          ds_source (hd quote) \<in> set (FEE_QUOTE_SOURCES_BY_CHAIN_ID (me_chainId env))))"
proof -
  let ?f = "merge_filters (side_filters (me_chainId env) side) (request_filters opts)"
  let ?q = "sampler_query env side ?f makerToken takerToken limitOrders amount opts"
  obtain answers micro where a: "me_execute env ?q = Inr answers"
      "rq_dexQuotes (msl_quotes l) = filterOutDexQuotes (me_chainId env) (sa_dexQuotes answers) micro"
      "rq_twoHopQuotes (msl_quotes l) = filterTwoHopQuotes (sa_twoHopQuotes answers) micro"
      "micro = isMicroSwap (me_rnd env) (me_chainId env) amount (msl_inputAmountPerEth l)"
    using getMarketLiquidity_cases[OF assms] by metis
  have "set (sq_sources ?q) = requested_sources (me_chainId env) side opts"
    by (simp add: sampler_query_def merged_filter_sets)
  moreover have "sq_side ?q = side" "sq_twoHopSources ?q = [] \<or> sq_twoHopSources ?q = sq_sources ?q"
    by (simp_all add: sampler_query_def)
  ultimately show ?thesis using a
    by (intro exI[of _ ?q] exI[of _ answers]) (auto simp: filterOutDexQuotes_set filterTwoHopQuotes_def)
qed

definition sample_answers :: SamplerAnswers where
  "sample_answers =
     \<lparr>sa_blockNumber = Fin 1, sa_gasLimit = Fin 10, sa_makerTokenDecimals = Fin 18, sa_takerTokenDecimals = Fin 18,
      sa_orderFillableAmounts = [], sa_ethToMakerAssetRate = Fin 1, sa_ethToTakerAssetRate = Fin 1,
      sa_dexQuotes = [[], [\<lparr>ds_source = Curve, ds_fillData = NoFillData, ds_input = Fin 5, ds_output = Fin 7\<rparr>]],
      sa_twoHopQuotes = [], sa_isTxOriginContract = True, sa_gasLeft = Fin 4\<rparr>"

definition sample_market_env :: MarketEnv where
  "sample_market_env =
     \<lparr>me_router = sample_env, me_chainId = Mainnet, me_nativeFeeToken = ''0xee'', me_execute = (\<lambda>q. Inr sample_answers),
      me_newRfqOrder = (\<lambda>q. sample_order),
      me_toUnitAmount = (\<lambda>x n. xdiv x (Fin (10 ^ nat \<lfloor>xval n\<rfloor>)))\<rparr>"

definition sample_market_opts :: GetMarketOrdersOpts where
  "sample_market_opts =
     \<lparr>mo_excludedSources = [Uniswap], mo_includedSources = [], mo_numSamples = 3,
      mo_sampleDistributionBase = Fin 1, mo_neonRouterNumSamples = 14, mo_feeSchedule = sample_fee_schedule,
      mo_exchangeProxyOverhead = (\<lambda>_. Fin 0), mo_rfqt = None, mo_shouldGenerateQuoteReport = False,
      mo_fillAdjustor = IdentityFillAdjustor, mo_gasPrice = Fin 1\<rparr>"

lemma sample_liquidity:
  "\<exists>l. getMarketLiquidity sample_market_env Sell ''0xa'' ''0xb'' [] (Fin 5) sample_market_opts = Inr l \<and>
     \<not> rfq_enabled l sample_market_opts"
  by (simp add: getMarketLiquidity_def getMarketSellLiquidity_def Let_def sample_market_env_def sample_market_opts_def
      rfq_enabled_def)

theorem sampled_sources_respect_request_witness:
  "\<exists>l (q :: SamplerQuery). getMarketLiquidity sample_market_env Sell ''0xa'' ''0xb'' [] (Fin 5) sample_market_opts = Inr l \<and>
     set (sq_sources q) = requested_sources Mainnet Sell sample_market_opts \<and> Uniswap \<notin> set (sq_sources q)"
proof -
  obtain l where l: "getMarketLiquidity sample_market_env Sell ''0xa'' ''0xb'' [] (Fin 5) sample_market_opts = Inr l"
    using sample_liquidity by blast
  obtain q :: SamplerQuery where "set (sq_sources q) = requested_sources Mainnet Sell sample_market_opts"
    using sampled_sources_respect_request[OF l] by (auto simp: sample_market_env_def)
  then show ?thesis using l by (auto simp: requested_sources_def sample_market_opts_def)
qed

text \<open>When RFQ is not enabled for the request or no market maker answers, the market is routed once, with no
  slippage adjustment: the call fails exactly when that routing fails, with its error, and otherwise reports
  the path it found.\<close>

theorem routed_once_without_rfq:
  assumes "getMarketLiquidity env side makerToken takerToken limitOrders amount opts = Inr l"
    and "no_rfq_answers env l opts"
  shows "getOptimizerResultAsync env makerToken takerToken limitOrders amount side opts =
    res_bind (phase_one env l opts)
      (\<lambda>r. quote_reports opts (Option.bind (mo_rfqt opts) rfq_quoteRequestor) l amount r
         (getComparisonPrices (me_rnd env) (me_toUnitAmount env) (adjustedRate (me_rnd env) (or_path r)) amount l
            (\<lambda>fd. Inr (mo_feeSchedule opts Native fd)) (mo_exchangeProxyOverhead opts)))"
proof -
  have rfq: "(if rfq_enabled l opts
      then rfq_phase env (the (mo_rfqt opts)) makerToken takerToken amount side (optimizer_opts opts) price l result
      else Inr (l, result, Option.bind (mo_rfqt opts) rfq_quoteRequestor)) =
      Inr (l, result, Option.bind (mo_rfqt opts) rfq_quoteRequestor)" for price result
  proof (cases "rfq_enabled l opts")
    case True
    then obtain rfqt where "mo_rfqt opts = Some rfqt" by (auto simp: rfq_enabled_def split: option.splits)
    then show ?thesis using True assms(2) rfq_phase_no_answers[of rfqt]
      by (simp add: no_rfq_answers_def)
  qed simp
  show ?thesis
    by (cases "phase_one env l opts")
       (auto simp: getOptimizerResultAsync_def assms(1) getPhaseOne_cases rfq)
qed

theorem routed_once_without_rfq_witness:
  "\<exists>l. getOptimizerResultAsync sample_market_env ''0xa'' ''0xb'' [] (Fin 5) Sell sample_market_opts =
     res_bind (phase_one sample_market_env l sample_market_opts)
       (\<lambda>r. quote_reports sample_market_opts None l (Fin 5) r
          (getComparisonPrices (me_rnd sample_market_env) (me_toUnitAmount sample_market_env)
             (adjustedRate (me_rnd sample_market_env) (or_path r)) (Fin 5) l
             (\<lambda>fd. Inr (mo_feeSchedule sample_market_opts Native fd)) (mo_exchangeProxyOverhead sample_market_opts)))"
proof -
  obtain l where l: "getMarketLiquidity sample_market_env Sell ''0xa'' ''0xb'' [] (Fin 5) sample_market_opts = Inr l"
      "\<not> rfq_enabled l sample_market_opts"
    using sample_liquidity by blast
  have "no_rfq_answers sample_market_env l sample_market_opts" using l(2) by (simp add: no_rfq_answers_def)
  from routed_once_without_rfq[OF l(1) this] show ?thesis by (auto simp: sample_market_opts_def)
qed

text \<open>The price that market makers are asked to beat is at least the price of the routed path after fees, in
  whole units of the two tokens, up to the rounding of a quotient and of the tenth decimal place: on a sell
  the maker amount is rounded up, on a buy the taker amount is rounded down.\<close>

theorem comparison_price_competitive:
  assumes "\<forall>x n. toUnit (Fin x) (Fin (of_nat n)) = Fin (x / 10 ^ n)"
    and "nativeFee rfq_type_only = Inr est" "fe_fee est + overhead (SOURCE_FLAGS RfqOrder) = Fin fee"
    and "msl_makerTokenDecimals l = Fin (of_nat md)" "msl_takerTokenDecimals l = Fin (of_nat td)"
    and "msl_outputAmountPerEth l = Fin perEth" "perEth \<noteq> 0" "0 < rate"
    and "maker = (if msl_side l = Sell then rate * amount + perEth * fee else amount)" "0 < maker"
    and "taker = (if msl_side l = Sell then amount else round_dp d (amount / rate) - perEth * fee)" "1 \<le> taker"
  shows "\<exists>p. getComparisonPrices (round_dp d) toUnit (Fin rate) (Fin amount) l nativeFee overhead = Some (Fin p) \<and>
    (maker / 10 ^ md) / (taker / 10 ^ td) - 1 / (2 * 10 ^ d) - 1 / (2 * 10 ^ COMPARISON_PRICE_DECIMALS) \<le> p"
proof -
  let ?m = "of_int (round_mode ROUND_UP maker) / 10 ^ md :: rat"
  let ?t = "of_int (round_mode ROUND_DOWN taker) / 10 ^ td :: rat"
  let ?p = "round_dp COMPARISON_PRICE_DECIMALS (round_dp d (?m / ?t))"
  have "round_mode ROUND_DOWN 1 \<le> round_mode ROUND_DOWN taker" using assms(12) by (intro round_mode_mono)
  then have t: "?t \<noteq> 0" by simp
  have amounts: "(if msl_side l = Sell then Fin rate * Fin amount + Fin perEth * Fin fee else Fin amount) = Fin maker"
      "(if msl_side l = Sell then Fin amount else bn_div (round_dp d) (Fin amount) (Fin rate) - Fin perEth * Fin fee)
        = Fin taker"
    using assms(8,9,11) by (simp_all split: if_splits)
  have pen: "(if \<not> bn_eq (Fin perEth) 0 then Fin perEth * Fin fee else x) = Fin perEth * Fin fee" for x
    using assms(7) by simp
  have guard: "0 < Fin taker \<and> 0 < Fin maker" using assms(10,12) by simp
  have "getComparisonPrices (round_dp d) toUnit (Fin rate) (Fin amount) l nativeFee overhead =
      Some (xmap (round_dp COMPARISON_PRICE_DECIMALS) (bn_div (round_dp d)
        (toUnit (integerValue ROUND_UP (Fin maker)) (Fin (of_nat md)))
        (toUnit (integerValue ROUND_DOWN (Fin taker)) (Fin (of_nat td)))))"
    by (simp only: getComparisonPrices_def assms(2-6) sum.case Let_def pen amounts guard if_True simp_thms)
  then have "getComparisonPrices (round_dp d) toUnit (Fin rate) (Fin amount) l nativeFee overhead = Some (Fin ?p)"
    using t by (simp add: assms(1) del: round_mode.simps)
  moreover have "(maker / 10 ^ md) / (taker / 10 ^ td) \<le> ?m / ?t"
    using assms(10,12) by (intro unit_price_lower_bound)
  then have "(maker / 10 ^ md) / (taker / 10 ^ td) - 1 / (2 * 10 ^ d) - 1 / (2 * 10 ^ COMPARISON_PRICE_DECIMALS) \<le> ?p"
    by (rule two_roundings_below) (rule dp.rnd_err)+
  ultimately show ?thesis by blast
qed

definition sample_priced_liquidity :: MarketSideLiquidity where
  "sample_priced_liquidity =
     \<lparr>msl_side = Sell, msl_inputAmount = Fin 10, msl_inputToken = ''0xb'', msl_outputToken = ''0xa'',
      msl_outputAmountPerEth = Fin 1, msl_inputAmountPerEth = Fin 1,
      msl_quoteSourceFilters = new_SourceFilters [] [] [], msl_makerTokenDecimals = Fin (of_nat 0),
      msl_takerTokenDecimals = Fin (of_nat 0), msl_quotes = sample_raw_quotes, msl_isRfqSupported = False,
      msl_blockNumber = Fin 0, msl_samplerGasUsage = Fin 0\<rparr>"

theorem comparison_price_competitive_witness:
  "\<exists>p. getComparisonPrices rnd78 (me_toUnitAmount sample_market_env) (Fin 2) (Fin 10) sample_priced_liquidity
      (\<lambda>_. Inr \<lparr>fe_gas = Fin 0, fe_fee = Fin 1\<rparr>) (\<lambda>_. Fin 0) = Some (Fin p) \<and>
    21 / 10 - 1 / (2 * 10 ^ 78) - 1 / (2 * 10 ^ COMPARISON_PRICE_DECIMALS) \<le> p"
proof -
  have "\<forall>x n. me_toUnitAmount sample_market_env (Fin x) (Fin (of_nat n)) = Fin (x / 10 ^ n)"
    by (simp add: sample_market_env_def)
  from comparison_price_competitive[OF this, of "\<lambda>_. Inr \<lparr>fe_gas = Fin 0, fe_fee = Fin 1\<rparr>"
      "\<lparr>fe_gas = Fin 0, fe_fee = Fin 1\<rparr>" "\<lambda>_. Fin 0" 1 sample_priced_liquidity 0 0 1 2 21 10 10 78]
  show ?thesis by (simp add: sample_priced_liquidity_def)
qed

end
