(* ===== verification/Quote_Simulation.thy ===== *)
theory Quote_Simulation
  imports Path
begin

text \<open>
  The simulation of a quote (\<open>src/asset-swapper/utils/quote_simulation.ts\<close>): orders are filled one
  after the other until the amount is used up, once as quoted (best case) and once with slippage and
  the gas and protocol fees of every order (worst case). The gas schedule is an argument.
\<close>

section \<open>Data\<close>

record QuoteFillResult =
  makerAssetAmount :: BigNumber
  takerAssetAmount :: BigNumber
  takerFeeMakerAssetAmount :: BigNumber
  takerFeeTakerAssetAmount :: BigNumber
  totalMakerAssetAmount :: BigNumber
  totalTakerAssetAmount :: BigNumber
  protocolFeeAmount :: BigNumber
  qfr_gas :: js_number
  fillAmountBySource :: "(ERC20BridgeSource \<times> BigNumber) list"

record IntermediateQuoteFillResult =
  ir_input :: BigNumber
  ir_output :: BigNumber
  ir_inputFee :: BigNumber
  ir_outputFee :: BigNumber
  ir_protocolFee :: BigNumber
  ir_gas :: js_number
  ir_inputBySource :: "(ERC20BridgeSource \<times> BigNumber) list"

definition EMPTY_QUOTE_INTERMEDIATE_FILL_RESULT :: IntermediateQuoteFillResult where
  "EMPTY_QUOTE_INTERMEDIATE_FILL_RESULT =
     \<lparr>ir_input = ZERO_AMOUNT, ir_output = ZERO_AMOUNT, ir_inputFee = ZERO_AMOUNT,
      ir_outputFee = ZERO_AMOUNT, ir_protocolFee = ZERO_AMOUNT, ir_gas = 0, ir_inputBySource = []\<rparr>"

record QuoteFillInfoOpts =
  qo_gasSchedule :: GasSchedule
  qo_protocolFeeMultiplier :: "BigNumber option"
  qo_slippage :: "js_number option"

record QuoteFillInfo =
  qfi_orders :: "OptimizedOrder list"
  qfi_fillAmount :: BigNumber
  qfi_gasPrice :: BigNumber
  qfi_side :: MarketOperation
  qfi_opts :: QuoteFillInfoOpts

definition PROTOCOL_FEE_MULTIPLIER :: BigNumber where
  "PROTOCOL_FEE_MULTIPLIER = Fin 0"

definition protocolFeeMultiplier_of :: "QuoteFillInfoOpts \<Rightarrow> BigNumber" where
  "protocolFeeMultiplier_of opts =
     (case qo_protocolFeeMultiplier opts of None \<Rightarrow> PROTOCOL_FEE_MULTIPLIER | Some m \<Rightarrow> m)"

definition slippage_of :: "QuoteFillInfoOpts \<Rightarrow> js_number" where
  "slippage_of opts = (case qo_slippage opts of None \<Rightarrow> 0 | Some s \<Rightarrow> s)"

record QuoteFillOrderCall =
  fo_order :: OptimizedOrder
  totalOrderInput :: BigNumber
  totalOrderOutput :: BigNumber
  totalOrderInputFee :: BigNumber
  totalOrderOutputFee :: BigNumber

section \<open>Simulation\<close>

definition hasProtocolFee :: "OptimizedOrder \<Rightarrow> bool" where
  "hasProtocolFee order = (oo_type order = Limit)"

definition solveForInputFillAmount ::
  "(rat \<Rightarrow> rat) \<Rightarrow> BigNumber \<Rightarrow> BigNumber \<Rightarrow> BigNumber \<Rightarrow> BigNumber \<Rightarrow> BigNumber" where
  "solveForInputFillAmount rnd remainingInput fillableInput orderInput orderInputFee =
     (let denom = orderInput + orderInputFee
      in if bn_eq denom 0 then fillableInput
         else bn_min fillableInput (bn_div rnd (remainingInput * orderInput) denom))"

definition source_amount :: "(ERC20BridgeSource \<times> BigNumber) list \<Rightarrow> ERC20BridgeSource \<Rightarrow> BigNumber" where
  "source_amount bySource source = (case map_of bySource source of None \<Rightarrow> ZERO_AMOUNT | Some a \<Rightarrow> a)"

fun fill_loop ::
  "(rat \<Rightarrow> rat) \<Rightarrow> BigNumber \<Rightarrow> GasSchedule \<Rightarrow> QuoteFillOrderCall list \<Rightarrow> BigNumber \<Rightarrow>
   IntermediateQuoteFillResult \<Rightarrow> IntermediateQuoteFillResult" where
  "fill_loop rnd protocolFeePerFillOrder gasSchedule [] remainingInput result = result"
| "fill_loop rnd protocolFeePerFillOrder gasSchedule (fo # fos) remainingInput result =
     (if remainingInput \<le> 0 then result
      else
        let source = oo_source (fo_order fo);
            fill = oo_fill (fo_order fo);
            filledInput = solveForInputFillAmount rnd remainingInput (fill_input fill)
                            (totalOrderInput fo) (totalOrderInputFee fo);
            filledOutput = fill_output fill * bn_div rnd filledInput (fill_input fill);
            filledInputFee = bn_div rnd filledInput (totalOrderInput fo) * totalOrderInputFee fo;
            filledOutputFee = bn_div rnd filledOutput (totalOrderOutput fo) * totalOrderOutputFee fo
        in fill_loop rnd protocolFeePerFillOrder gasSchedule fos
             (remainingInput - (filledInput + filledInputFee))
             \<lparr>ir_input = ir_input result + filledInput,
              ir_output = ir_output result + filledOutput,
              ir_inputFee = ir_inputFee result + filledInputFee,
              ir_outputFee = ir_outputFee result + filledOutputFee,
              ir_protocolFee = ir_protocolFee result +
                (if hasProtocolFee (fo_order fo) then protocolFeePerFillOrder else ZERO_AMOUNT),
              ir_gas = js_add (ir_gas result) (gasSchedule source (oo_fillData (fo_order fo))),
              ir_inputBySource =
                AList.update source (source_amount (ir_inputBySource result) source + filledInput)
                  (ir_inputBySource result)\<rparr>)"

definition fillQuoteOrders ::
  "(rat \<Rightarrow> rat) \<Rightarrow> QuoteFillOrderCall list \<Rightarrow> BigNumber \<Rightarrow> BigNumber \<Rightarrow> GasSchedule
   \<Rightarrow> IntermediateQuoteFillResult" where
  "fillQuoteOrders rnd fillOrders inputAmount protocolFeePerFillOrder gasSchedule =
     fill_loop rnd protocolFeePerFillOrder gasSchedule fillOrders inputAmount
       EMPTY_QUOTE_INTERMEDIATE_FILL_RESULT"

text \<open>The taker fee of a limit order; the fill data of a limit order is a native order.\<close>

definition order_fee :: "(rat \<Rightarrow> rat) \<Rightarrow> OptimizedOrder \<Rightarrow> js_error + BigNumber" where
  "order_fee rnd od =
     (if oo_type od = Limit
      then case oo_fillData od of
             NativeFD native \<Rightarrow> Inr (getNativeAdjustedTakerFeeAmount rnd (sno_order native) (oo_takerAmount od))
           | _ \<Rightarrow> Inl TypeError
      else Inr ZERO_AMOUNT)"

definition createBestCaseFillOrderCall ::
  "(rat \<Rightarrow> rat) \<Rightarrow> MarketOperation \<Rightarrow> OptimizedOrder \<Rightarrow> js_error + QuoteFillOrderCall" where
  "createBestCaseFillOrderCall rnd side od =
     res_bind (order_fee rnd od) (\<lambda>fee. Inr
       (if side = Sell
        then \<lparr>fo_order = od, totalOrderInput = oo_takerAmount od, totalOrderOutput = oo_makerAmount od,
              totalOrderInputFee = fee, totalOrderOutputFee = ZERO_AMOUNT\<rparr>
        else \<lparr>fo_order = od, totalOrderInput = oo_makerAmount od, totalOrderOutput = oo_takerAmount od,
              totalOrderInputFee = ZERO_AMOUNT, totalOrderOutputFee = fee\<rparr>))"

definition createBestCaseFillOrderCalls ::
  "(rat \<Rightarrow> rat) \<Rightarrow> QuoteFillInfo \<Rightarrow> js_error + QuoteFillOrderCall list" where
  "createBestCaseFillOrderCalls rnd quoteInfo =
     res_map (createBestCaseFillOrderCall rnd (qfi_side quoteInfo)) (qfi_orders quoteInfo)"

definition roundInputAmount :: "BigNumber \<Rightarrow> MarketOperation \<Rightarrow> BigNumber" where
  "roundInputAmount amount side = integerValue (if side = Sell then ROUND_UP else ROUND_DOWN) amount"

definition roundOutputAmount :: "BigNumber \<Rightarrow> MarketOperation \<Rightarrow> BigNumber" where
  "roundOutputAmount amount side = integerValue (if side = Sell then ROUND_DOWN else ROUND_UP) amount"

definition roundIntermediateFillResult ::
  "IntermediateQuoteFillResult \<Rightarrow> MarketOperation \<Rightarrow> IntermediateQuoteFillResult" where
  "roundIntermediateFillResult ir side =
     \<lparr>ir_input = roundInputAmount (ir_input ir) side,
      ir_output = roundOutputAmount (ir_output ir) side,
      ir_inputFee = roundInputAmount (ir_inputFee ir) side,
      ir_outputFee = roundOutputAmount (ir_outputFee ir) side,
      ir_protocolFee = integerValue ROUND_UP (ir_protocolFee ir),
      ir_gas = js_ceil (ir_gas ir),
      ir_inputBySource = map (\<lambda>(k, v). (k, roundInputAmount v side)) (ir_inputBySource ir)\<rparr>"

definition fromIntermediateQuoteFillResult ::
  "IntermediateQuoteFillResult \<Rightarrow> MarketOperation \<Rightarrow> QuoteFillResult" where
  "fromIntermediateQuoteFillResult ir0 side =
     (let ir = roundIntermediateFillResult ir0 side in
      if side = Sell
      then \<lparr>makerAssetAmount = ir_output ir, takerAssetAmount = ir_input ir,
            takerFeeMakerAssetAmount = ir_outputFee ir, takerFeeTakerAssetAmount = ir_inputFee ir,
            totalMakerAssetAmount = ir_output ir + ir_outputFee ir,
            totalTakerAssetAmount = ir_input ir + ir_inputFee ir,
            protocolFeeAmount = ir_protocolFee ir, qfr_gas = ir_gas ir,
            fillAmountBySource = ir_inputBySource ir\<rparr>
      else \<lparr>makerAssetAmount = ir_input ir, takerAssetAmount = ir_output ir,
            takerFeeMakerAssetAmount = ir_inputFee ir, takerFeeTakerAssetAmount = ir_outputFee ir,
            totalMakerAssetAmount = ir_input ir + ir_inputFee ir,
            totalTakerAssetAmount = ir_output ir + ir_outputFee ir,
            protocolFeeAmount = ir_protocolFee ir, qfr_gas = ir_gas ir,
            fillAmountBySource = ir_inputBySource ir\<rparr>)"

definition getTotalGasUsedByFills :: "OptimizedOrder list \<Rightarrow> GasSchedule \<Rightarrow> js_number" where
  "getTotalGasUsedByFills orders gasSchedule =
     js_sum (map (\<lambda>od. gasSchedule (oo_source od) (oo_fillData od)) orders)"

definition simulateBestCaseFill :: "(rat \<Rightarrow> rat) \<Rightarrow> QuoteFillInfo \<Rightarrow> js_error + QuoteFillResult" where
  "simulateBestCaseFill rnd quoteInfo =
     (let opts = qfi_opts quoteInfo;
          protocolFeePerFillOrder = qfi_gasPrice quoteInfo * protocolFeeMultiplier_of opts
      in res_bind (createBestCaseFillOrderCalls rnd quoteInfo)
           (\<lambda>calls. Inr (fromIntermediateQuoteFillResult
              (fillQuoteOrders rnd calls (qfi_fillAmount quoteInfo) protocolFeePerFillOrder
                 (qo_gasSchedule opts)) (qfi_side quoteInfo))))"

definition simulateWorstCaseFill :: "(rat \<Rightarrow> rat) \<Rightarrow> QuoteFillInfo \<Rightarrow> js_error + QuoteFillResult" where
  "simulateWorstCaseFill rnd quoteInfo =
     (let opts = qfi_opts quoteInfo;
          protocolFeePerFillOrder = qfi_gasPrice quoteInfo * protocolFeeMultiplier_of opts;
          s = slippage_of opts
      in res_bind (createBestCaseFillOrderCalls rnd quoteInfo)
           (\<lambda>bestCase.
              let result = (fillQuoteOrders rnd bestCase (qfi_fillAmount quoteInfo)
                              protocolFeePerFillOrder (qo_gasSchedule opts))
                    \<lparr>ir_gas := getTotalGasUsedByFills (qfi_orders quoteInfo) (qo_gasSchedule opts),
                     ir_protocolFee := protocolFeePerFillOrder *
                       Fin (of_nat (length (filter hasProtocolFee (qfi_orders quoteInfo))))\<rparr>
              in Inr (fromIntermediateQuoteFillResult
                   (result\<lparr>ir_output :=
                      (if qfi_side quoteInfo = Sell
                       then integerValue ROUND_DOWN (ir_output result * bn_of_number (js_sub 1 s))
                       else integerValue ROUND_UP (ir_output result * bn_of_number (js_add 1 s)))\<rparr>)
                   (qfi_side quoteInfo))))"

section \<open>Regular orders\<close>

definition pos_amount :: "BigNumber \<Rightarrow> bool" where
  "pos_amount x \<longleftrightarrow> is_fin x \<and> 0 < xval x"

definition nonneg_amount :: "BigNumber \<Rightarrow> bool" where
  "nonneg_amount x \<longleftrightarrow> is_fin x \<and> 0 \<le> xval x"

lemma nonneg_amount_Fin [simp]: "nonneg_amount (Fin a) \<longleftrightarrow> 0 \<le> a"
  by (simp add: nonneg_amount_def)

lemma pos_amount_Fin [simp]: "pos_amount (Fin a) \<longleftrightarrow> 0 < a"
  by (simp add: pos_amount_def)

lemma nonneg_amountE: "nonneg_amount x \<Longrightarrow> (\<And>a. x = Fin a \<Longrightarrow> 0 \<le> a \<Longrightarrow> P) \<Longrightarrow> P"
  by (cases x) (auto simp: nonneg_amount_def)

lemma pos_amountE: "pos_amount x \<Longrightarrow> (\<And>a. x = Fin a \<Longrightarrow> 0 < a \<Longrightarrow> P) \<Longrightarrow> P"
  by (cases x) (auto simp: pos_amount_def)

lemma nonneg_amount_add: "nonneg_amount x \<Longrightarrow> nonneg_amount y \<Longrightarrow> nonneg_amount (x + y)"
  by (elim nonneg_amountE) simp

lemma nonneg_amount_mult: "nonneg_amount x \<Longrightarrow> nonneg_amount y \<Longrightarrow> nonneg_amount (x * y)"
  by (elim nonneg_amountE) simp

lemma nonneg_amount_round: "nonneg_amount x \<Longrightarrow> nonneg_amount (integerValue m x)"
  by (elim nonneg_amountE) (simp del: round_mode.simps)

text \<open>A call for an order with positive amounts and a non-negative output and fees.\<close>

definition regular_call :: "QuoteFillOrderCall \<Rightarrow> bool" where
  "regular_call fo \<longleftrightarrow>
     pos_amount (fill_input (oo_fill (fo_order fo))) \<and> nonneg_amount (fill_output (oo_fill (fo_order fo))) \<and>
     pos_amount (totalOrderInput fo) \<and> pos_amount (totalOrderOutput fo) \<and>
     nonneg_amount (totalOrderInputFee fo) \<and> nonneg_amount (totalOrderOutputFee fo)"

definition good_result :: "IntermediateQuoteFillResult \<Rightarrow> bool" where
  "good_result r \<longleftrightarrow>
     nonneg_amount (ir_input r) \<and> nonneg_amount (ir_output r) \<and> nonneg_amount (ir_inputFee r) \<and>
     nonneg_amount (ir_outputFee r) \<and> distinct (map fst (ir_inputBySource r)) \<and>
     (\<forall>(k, v) \<in> set (ir_inputBySource r). nonneg_amount v) \<and>
     sum_list (map (\<lambda>kv. xval (snd kv)) (ir_inputBySource r)) = xval (ir_input r)"

lemma good_empty: "good_result EMPTY_QUOTE_INTERMEDIATE_FILL_RESULT"
  by (simp add: good_result_def EMPTY_QUOTE_INTERMEDIATE_FILL_RESULT_def)

lemma source_amount_nonneg:
  "\<forall>(k, v) \<in> set al. nonneg_amount v \<Longrightarrow> nonneg_amount (source_amount al s)"
  by (auto simp: source_amount_def split: option.split dest: map_of_SomeD)

lemma bySource_update:
  assumes "distinct (map fst al)" "\<forall>(k, v) \<in> set al. nonneg_amount v" "nonneg_amount x"
  shows "distinct (map fst (AList.update s (source_amount al s + x) al))"
    and "\<forall>(k, v) \<in> set (AList.update s (source_amount al s + x) al). nonneg_amount v"
    and "sum_list (map (\<lambda>kv. xval (snd kv)) (AList.update s (source_amount al s + x) al)) =
         sum_list (map (\<lambda>kv. xval (snd kv)) al) + xval x"
proof -
  show "distinct (map fst (AList.update s (source_amount al s + x) al))" using assms(1) by blast
  have n: "nonneg_amount (source_amount al s + x)"
    using assms by (intro nonneg_amount_add source_amount_nonneg)
  show "\<forall>(k, v) \<in> set (AList.update s (source_amount al s + x) al). nonneg_amount v"
    using n assms(2) set_update_subset[of s "source_amount al s + x" al] by blast
  have "is_fin (source_amount al s)" "is_fin x"
    using source_amount_nonneg[OF assms(2)] assms(3) by (auto simp: nonneg_amount_def)
  then show "sum_list (map (\<lambda>kv. xval (snd kv)) (AList.update s (source_amount al s + x) al)) =
         sum_list (map (\<lambda>kv. xval (snd kv)) al) + xval x"
    using sum_list_update[OF assms(1), of "\<lambda>kv. xval (snd kv)" s "source_amount al s + x"]
    by (simp add: xval_add source_amount_def split: option.splits)
qed

text \<open>One iteration of the loop.\<close>

definition filled_input :: "(rat \<Rightarrow> rat) \<Rightarrow> BigNumber \<Rightarrow> QuoteFillOrderCall \<Rightarrow> BigNumber" where
  "filled_input rnd m fo = solveForInputFillAmount rnd m (fill_input (oo_fill (fo_order fo)))
     (totalOrderInput fo) (totalOrderInputFee fo)"

lemma fill_loop_step:
  assumes "\<not> m \<le> 0"
  obtains r' where "fill_loop rnd fee gs (fo # fos) m r =
      fill_loop rnd fee gs fos
        (m - (filled_input rnd m fo + bn_div rnd (filled_input rnd m fo) (totalOrderInput fo) * totalOrderInputFee fo)) r'"
    "ir_input r' = ir_input r + filled_input rnd m fo"
    "ir_protocolFee r' = ir_protocolFee r + (if hasProtocolFee (fo_order fo) then fee else ZERO_AMOUNT)"
  by (rule that, subst fill_loop.simps(2), subst if_not_P[OF assms], unfold Let_def filled_input_def,
      rule refl, simp_all)

context quotient_rounding
begin

lemma div_nonneg: "nonneg_amount x \<Longrightarrow> pos_amount y \<Longrightarrow> nonneg_amount (bn_div rnd x y)"
  by (elim nonneg_amountE pos_amountE) (simp add: rnd_nonneg)

lemma solve_bounds:
  assumes "0 \<le> m" "pos_amount fillable" "pos_amount tot" "nonneg_amount fee"
  shows "nonneg_amount (solveForInputFillAmount rnd (Fin m) fillable tot fee) \<and>
         solveForInputFillAmount rnd (Fin m) fillable tot fee \<le> fillable"
  using assms(2-4)
  by (elim nonneg_amountE pos_amountE)
    (use assms(1) in \<open>auto simp: solveForInputFillAmount_def Let_def rnd_nonneg\<close>)

lemma fill_loop_good:
  assumes "\<forall>fo \<in> set fos. regular_call fo" "good_result r"
  shows "good_result (fill_loop rnd fee gs fos (Fin m) r)"
  using assms
proof (induction fos arbitrary: m r)
  case (Cons fo fos)
  show ?case
  proof (cases "m \<le> 0")
    case False
    let ?fill = "oo_fill (fo_order fo)"
    let ?x = "solveForInputFillAmount rnd (Fin m) (fill_input ?fill) (totalOrderInput fo) (totalOrderInputFee fo)"
    let ?out = "fill_output ?fill * bn_div rnd ?x (fill_input ?fill)"
    let ?inFee = "bn_div rnd ?x (totalOrderInput fo) * totalOrderInputFee fo"
    let ?outFee = "bn_div rnd ?out (totalOrderOutput fo) * totalOrderOutputFee fo"
    have reg: "regular_call fo" using Cons.prems by simp
    then have x: "nonneg_amount ?x"
      using False solve_bounds[of m "fill_input ?fill" "totalOrderInput fo" "totalOrderInputFee fo"]
      by (simp add: regular_call_def)
    then have amounts: "nonneg_amount ?out" "nonneg_amount ?inFee" "nonneg_amount ?outFee"
      using reg by (auto simp: regular_call_def intro!: nonneg_amount_mult div_nonneg)
    then obtain m' where m': "Fin m - (?x + ?inFee) = Fin m'"
      using x by (elim nonneg_amountE) simp
    have "good_result \<lparr>ir_input = ir_input r + ?x, ir_output = ir_output r + ?out,
        ir_inputFee = ir_inputFee r + ?inFee, ir_outputFee = ir_outputFee r + ?outFee,
        ir_protocolFee = ir_protocolFee r + (if hasProtocolFee (fo_order fo) then fee else ZERO_AMOUNT),
        ir_gas = js_add (ir_gas r) (gs (oo_source (fo_order fo)) (oo_fillData (fo_order fo))),
        ir_inputBySource = AList.update (oo_source (fo_order fo))
          (source_amount (ir_inputBySource r) (oo_source (fo_order fo)) + ?x) (ir_inputBySource r)\<rparr>"
      using Cons.prems(2) x amounts bySource_update[of "ir_inputBySource r" ?x]
      by (auto simp: good_result_def nonneg_amount_def xval_add intro!: nonneg_amount_add is_fin_add)
    then show ?thesis
      using False m' Cons.IH Cons.prems by (simp add: Let_def)
  qed (use Cons.prems in simp)
qed simp

text \<open>Orders with integer fills and no fee on the input fill exactly up to the amount.\<close>

lemma fill_loop_exact:
  assumes "\<forall>fo \<in> set fos. fill_input (oo_fill (fo_order fo)) = Fin (of_int (k fo)) \<and> 0 < k fo \<and>
      pos_amount (totalOrderInput fo) \<and> totalOrderInputFee fo = Fin 0"
    and "ir_input r = Fin a" "0 \<le> A"
  shows "ir_input (fill_loop rnd fee gs fos (Fin (of_int A)) r) =
         Fin (a + of_int (min A (sum_list (map k fos))))"
  using assms
proof (induction fos arbitrary: a A r)
  case (Cons fo fos)
  have k: "0 < k fo" "0 \<le> sum_list (map k fos)"
    using Cons.prems(1) by (auto intro!: sum_list_nonneg simp: less_imp_le)
  show ?case
  proof (cases "A \<le> 0")
    case True
    then show ?thesis using Cons.prems k by simp
  next
    case False
    obtain t where t: "totalOrderInput fo = Fin t" "0 < t"
      using Cons.prems(1) by (auto elim: pos_amountE)
    have x: "filled_input rnd (Fin (of_int A)) fo = Fin (of_int (min (k fo) A))"
      using Cons.prems(1) t rnd_int[of A]
      by (simp add: filled_input_def solveForInputFillAmount_def Let_def of_int_min)
    have rem: "Fin (of_int A) - (filled_input rnd (Fin (of_int A)) fo +
        bn_div rnd (filled_input rnd (Fin (of_int A)) fo) (totalOrderInput fo) * totalOrderInputFee fo) =
        Fin (of_int (A - min (k fo) A))"
      unfolding x using Cons.prems(1) t by simp
    obtain r' where step: "fill_loop rnd fee gs (fo # fos) (Fin (of_int A)) r =
        fill_loop rnd fee gs fos (Fin (of_int (A - min (k fo) A))) r'"
        "ir_input r' = Fin (a + of_int (min (k fo) A))"
      using fill_loop_step[of "Fin (of_int A)" rnd fee gs fo fos r, unfolded rem, unfolded x] False Cons.prems(2)
      by (auto simp del: of_int_diff)
    have "a + of_int (min (k fo) A) + of_int (min (A - min (k fo) A) (sum_list (map k fos))) =
        a + of_int (min A (sum_list (map k (fo # fos))))"
      using k False by (simp add: min_def)
    then show ?thesis
      using Cons.IH[OF _ step(2), of "A - min (k fo) A"] Cons.prems(1) unfolding step(1)
      by (simp del: of_int_diff)
  qed
qed simp

end

section \<open>Gas and protocol fees of all orders\<close>

lemma js_fold_mono:
  assumes "rnd64 a = a" "\<forall>x \<in> set xs. nonneg_amount x"
  shows "\<exists>b. foldl js_add (Fin a) xs = Fin b \<and> a \<le> b \<and> rnd64 b = b"
  using assms
proof (induction xs arbitrary: a)
  case (Cons x xs)
  then obtain y where y: "x = Fin y" "0 \<le> y" by (auto elim: nonneg_amountE)
  have "a \<le> rnd64 (a + y)" using rnd64_mono[of a "a + y"] y Cons.prems(1) by simp
  moreover obtain b where "foldl js_add (Fin (rnd64 (a + y))) xs = Fin b" "rnd64 (a + y) \<le> b" "rnd64 b = b"
    using Cons.IH[of "rnd64 (a + y)"] Cons.prems(2) by auto
  ultimately show ?case using y by auto
qed simp

definition call_gas :: "GasSchedule \<Rightarrow> QuoteFillOrderCall \<Rightarrow> js_number" where
  "call_gas gs fo = gs (oo_source (fo_order fo)) (oo_fillData (fo_order fo))"

lemma fill_loop_gas:
  assumes "\<forall>fo \<in> set fos. nonneg_amount (call_gas gs fo)" "ir_gas r = Fin a" "rnd64 a = a"
  shows "\<exists>g. ir_gas (fill_loop rnd fee gs fos m r) = Fin g \<and> Fin g \<le> foldl js_add (Fin a) (map (call_gas gs) fos)"
  using assms
proof (induction fos arbitrary: a m r)
  case (Cons fo fos)
  obtain y where y: "call_gas gs fo = Fin y" "0 \<le> y" using Cons.prems(1) by (auto elim: nonneg_amountE)
  show ?case
  proof (cases "m \<le> 0")
    case True
    then show ?thesis
      using Cons.prems js_fold_mono[of a "map (call_gas gs) (fo # fos)"] by auto
  next
    case False
    then show ?thesis
      using Cons.IH[of _ "rnd64 (a + y)"] Cons.prems y by (simp add: Let_def call_gas_def)
  qed
qed simp

lemma fill_loop_protocolFee:
  assumes "0 \<le> \<phi>" "ir_protocolFee r = Fin a"
  shows "\<exists>q. ir_protocolFee (fill_loop rnd (Fin \<phi>) gs fos m r) = Fin q \<and> a \<le> q \<and>
    q \<le> a + \<phi> * of_nat (length (filter (\<lambda>fo. hasProtocolFee (fo_order fo)) fos))"
  using assms(2)
proof (induction fos arbitrary: a m r)
  case (Cons fo fos)
  show ?case
  proof (cases "m \<le> 0")
    case True
    then show ?thesis using Cons.prems assms(1) by simp
  next
    case False
    let ?p = "if hasProtocolFee (fo_order fo) then \<phi> else 0"
    obtain m' r' where step: "fill_loop rnd (Fin \<phi>) gs (fo # fos) m r = fill_loop rnd (Fin \<phi>) gs fos m' r'"
        "ir_protocolFee r' = Fin (a + ?p)"
      by (rule fill_loop_step[OF False, of rnd "Fin \<phi>" gs fo fos r]) (use Cons.prems in auto)
    obtain q where "ir_protocolFee (fill_loop rnd (Fin \<phi>) gs (fo # fos) m r) = Fin q" "a + ?p \<le> q"
        "q \<le> a + ?p + \<phi> * of_nat (length (filter (\<lambda>fo. hasProtocolFee (fo_order fo)) fos))"
      using Cons.IH[OF step(2), of m'] unfolding step(1) by auto
    then show ?thesis using assms(1) by (auto simp: algebra_simps)
  qed
qed simp

section \<open>Best and worst case\<close>

lemma worst_sell:
  assumes "0 \<le> out" "0 \<le> d" "d \<le> 1"
  shows "integerValue ROUND_DOWN (integerValue ROUND_DOWN (Fin out * Fin d)) \<le> integerValue ROUND_DOWN (Fin out)"
proof -
  have "round_mode ROUND_DOWN (out * d) \<le> round_mode ROUND_DOWN out"
    using assms by (intro round_mode_mono) (simp add: mult_left_le)
  then show ?thesis by (simp del: round_mode.simps)
qed

lemma worst_buy:
  assumes "0 \<le> out" "1 \<le> u"
  shows "integerValue ROUND_UP (Fin out) \<le> integerValue ROUND_UP (integerValue ROUND_UP (Fin out * Fin u))"
proof -
  have "out * 1 \<le> out * u" using assms by (intro mult_left_mono)
  then have "round_mode ROUND_UP out \<le> round_mode ROUND_UP (out * u)"
    by (intro round_mode_mono) simp
  then show ?thesis by (simp del: round_mode.simps)
qed

text \<open>An order the simulation can fill: positive amounts and input, a non-negative output and fee.\<close>

definition regular_order :: "(rat \<Rightarrow> rat) \<Rightarrow> OptimizedOrder \<Rightarrow> bool" where
  "regular_order rnd od \<longleftrightarrow>
     pos_amount (oo_makerAmount od) \<and> pos_amount (oo_takerAmount od) \<and>
     pos_amount (fill_input (oo_fill od)) \<and> nonneg_amount (fill_output (oo_fill od)) \<and>
     (case order_fee rnd od of Inl e \<Rightarrow> False | Inr fee \<Rightarrow> nonneg_amount fee)"

lemma regular_order_call:
  assumes "regular_order rnd od"
  obtains fo where "createBestCaseFillOrderCall rnd side od = Inr fo" "regular_call fo" "fo_order fo = od"
  using assms
  by (cases "order_fee rnd od"; cases side)
    (auto simp: regular_order_def createBestCaseFillOrderCall_def regular_call_def)

lemma regular_orders_calls:
  assumes "\<forall>od \<in> set ods. regular_order rnd od"
  shows "\<exists>fos. res_map (createBestCaseFillOrderCall rnd side) ods = Inr fos \<and>
    (\<forall>fo \<in> set fos. regular_call fo) \<and> map fo_order fos = ods"
  using assms
proof (induction ods)
  case (Cons od ods)
  obtain fo where "createBestCaseFillOrderCall rnd side od = Inr fo" "regular_call fo" "fo_order fo = od"
    using regular_order_call[of rnd od side] Cons.prems by auto
  then show ?case using Cons by auto
qed simp

definition worst_output :: "MarketOperation \<Rightarrow> js_number \<Rightarrow> BigNumber \<Rightarrow> BigNumber" where
  "worst_output side s out =
     (if side = Sell then integerValue ROUND_DOWN (out * bn_of_number (js_sub 1 s))
      else integerValue ROUND_UP (out * bn_of_number (js_add 1 s)))"

lemma worst_output_bounds:
  assumes "0 \<le> out" "0 \<le> s" "s \<le> 1"
  shows "\<exists>z w. roundOutputAmount (Fin out) side = Fin z \<and>
    roundOutputAmount (worst_output side (Fin s) (Fin out)) side = Fin w \<and>
    (if side = Sell then 0 \<le> w \<and> w \<le> z else z \<le> w)"
proof -
  let ?d = "dec (rnd64 (1 - s))" and ?u = "dec (rnd64 (1 + s))"
  note d = slip_down_bounds[OF assms(2,3)] and u = slip_up_bounds[OF assms(2,3)]
  show ?thesis
  proof (cases side)
    case Sell
    have "0 \<le> round_mode ROUND_DOWN (out * ?d)" using assms(1) d by (intro round_mode_nonneg) simp
    then show ?thesis using Sell worst_sell[OF assms(1) d] round_mode_nonneg[OF assms(1), of ROUND_DOWN]
      by (simp add: roundOutputAmount_def worst_output_def del: round_mode.simps)
  next
    case Buy
    then show ?thesis using worst_buy[OF assms(1) u(1)]
      by (simp add: roundOutputAmount_def worst_output_def del: round_mode.simps)
  qed
qed

lemma js_ceil_mono: "Fin a \<le> Fin b \<Longrightarrow> js_ceil (Fin a) \<le> js_ceil (Fin b)"
  by (simp add: ceiling_mono)

lemma good_resultE:
  assumes "good_result r"
  obtains i out inFee outFee where "ir_input r = Fin i" "ir_output r = Fin out" "ir_inputFee r = Fin inFee"
    "ir_outputFee r = Fin outFee" "0 \<le> i" "0 \<le> out" "0 \<le> inFee" "0 \<le> outFee"
  using assms by (auto simp: good_result_def elim!: nonneg_amountE)

definition fin_le :: "xnum \<Rightarrow> xnum \<Rightarrow> bool" where
  "fin_le x y \<longleftrightarrow> is_fin x \<and> is_fin y \<and> xval x \<le> xval y"

lemma fin_leE: "fin_le x y \<Longrightarrow> (\<And>a b. x = Fin a \<Longrightarrow> y = Fin b \<Longrightarrow> a \<le> b \<Longrightarrow> P) \<Longrightarrow> P"
  by (cases x; cases y) (auto simp: fin_le_def)

lemma fin_le_Fin [simp]: "fin_le (Fin a) (Fin b) \<longleftrightarrow> a \<le> b"
  by (simp add: fin_le_def)

lemma fin_le_imp_le: "fin_le x y \<Longrightarrow> x \<le> y"
  by (erule fin_leE) simp

lemma results_dominated:
  fixes side :: MarketOperation
  assumes "good_result r" "ir_gas r = Fin g" "ir_protocolFee r = Fin fb" "g \<le> h" "fb \<le> fw" "0 \<le> s" "s \<le> 1"
  defines "b \<equiv> fromIntermediateQuoteFillResult r side"
    and "w \<equiv> fromIntermediateQuoteFillResult (r\<lparr>ir_gas := Fin h, ir_protocolFee := Fin fw,
           ir_output := worst_output side (Fin s) (ir_output r)\<rparr>) side"
  shows "if side = Sell
      then is_fin (takerAssetAmount b) \<and> takerAssetAmount w = takerAssetAmount b \<and>
           is_fin (totalTakerAssetAmount b) \<and> totalTakerAssetAmount w = totalTakerAssetAmount b \<and>
           fin_le (totalMakerAssetAmount w) (totalMakerAssetAmount b)
      else is_fin (totalMakerAssetAmount b) \<and> totalMakerAssetAmount w = totalMakerAssetAmount b \<and>
           makerAssetAmount w = makerAssetAmount b \<and>
           fin_le (totalTakerAssetAmount b) (totalTakerAssetAmount w)"
    and "fin_le (qfr_gas b) (qfr_gas w)" and "fin_le (protocolFeeAmount b) (protocolFeeAmount w)"
    and "fillAmountBySource w = fillAmountBySource b"
proof -
  obtain i out inFee outFee where a: "ir_input r = Fin i" "ir_output r = Fin out" "ir_inputFee r = Fin inFee"
      "ir_outputFee r = Fin outFee" "0 \<le> out"
    using assms(1) by (rule good_resultE)
  obtain z v where zw: "roundOutputAmount (Fin out) side = Fin z"
      "roundOutputAmount (worst_output side (Fin s) (Fin out)) side = Fin v"
      "if side = Sell then 0 \<le> v \<and> v \<le> z else z \<le> v"
    using worst_output_bounds[OF a(5) assms(6,7)] by blast
  have fee: "round_mode ROUND_UP fb \<le> round_mode ROUND_UP fw" using assms(5) by (rule round_mode_mono)
  note defs = b_def w_def fromIntermediateQuoteFillResult_def roundIntermediateFillResult_def Let_def
    roundInputAmount_def
  show "if side = Sell
      then is_fin (takerAssetAmount b) \<and> takerAssetAmount w = takerAssetAmount b \<and>
           is_fin (totalTakerAssetAmount b) \<and> totalTakerAssetAmount w = totalTakerAssetAmount b \<and>
           fin_le (totalMakerAssetAmount w) (totalMakerAssetAmount b)
      else is_fin (totalMakerAssetAmount b) \<and> totalMakerAssetAmount w = totalMakerAssetAmount b \<and>
           makerAssetAmount w = makerAssetAmount b \<and>
           fin_le (totalTakerAssetAmount b) (totalTakerAssetAmount w)"
    using a zw by (cases side) (auto simp: defs roundOutputAmount_def simp del: round_mode.simps)
  show "fin_le (qfr_gas b) (qfr_gas w)"
    using assms(2,4) by (cases side) (auto simp: defs ceiling_mono)
  show "fin_le (protocolFeeAmount b) (protocolFeeAmount w)"
    using assms(3) fee by (cases side) (auto simp: defs simp del: round_mode.simps)
  show "fillAmountBySource w = fillAmountBySource b" by (simp add: defs)
qed

context quotient_rounding
begin

text \<open>Both simulations of regular orders share one intermediate result.\<close>

lemma simulate_shape:
  assumes "\<forall>od \<in> set (qfi_orders q). regular_order rnd od" "qfi_fillAmount q = Fin amount"
    and "qfi_gasPrice q * protocolFeeMultiplier_of (qfi_opts q) = Fin \<phi>" "0 \<le> \<phi>"
    and "\<forall>od \<in> set (qfi_orders q). nonneg_amount (qo_gasSchedule (qfi_opts q) (oo_source od) (oo_fillData od))"
  shows "\<exists>r g h fb fw. good_result r \<and> ir_gas r = Fin g \<and> ir_protocolFee r = Fin fb \<and> g \<le> h \<and> fb \<le> fw \<and>
    simulateBestCaseFill rnd q = Inr (fromIntermediateQuoteFillResult r (qfi_side q)) \<and>
    simulateWorstCaseFill rnd q = Inr (fromIntermediateQuoteFillResult
      (r\<lparr>ir_gas := Fin h, ir_protocolFee := Fin fw,
         ir_output := worst_output (qfi_side q) (slippage_of (qfi_opts q)) (ir_output r)\<rparr>) (qfi_side q))"
proof -
  let ?gs = "qo_gasSchedule (qfi_opts q)"
  obtain fos where fos: "createBestCaseFillOrderCalls rnd q = Inr fos" "\<forall>fo \<in> set fos. regular_call fo"
      "map fo_order fos = qfi_orders q"
    using regular_orders_calls[OF assms(1)] by (auto simp: createBestCaseFillOrderCalls_def)
  define r where "r = fillQuoteOrders rnd fos (Fin amount) (Fin \<phi>) ?gs"
  have good: "good_result r"
    using fill_loop_good[OF fos(2) good_empty] by (simp add: r_def fillQuoteOrders_def)
  have gas_map: "map (call_gas ?gs) fos = map (\<lambda>od. ?gs (oo_source od) (oo_fillData od)) (qfi_orders q)"
    by (simp add: call_gas_def[abs_def] flip: fos(3))
  have gas_nonneg: "\<forall>fo \<in> set fos. nonneg_amount (call_gas ?gs fo)"
    using assms(5) by (auto simp: call_gas_def simp flip: fos(3))
  obtain h where h: "foldl js_add (Fin 0) (map (call_gas ?gs) fos) = Fin h"
    using js_fold_mono[of 0 "map (call_gas ?gs) fos"] gas_nonneg by auto
  obtain g where g: "ir_gas r = Fin g" "g \<le> h"
    using fill_loop_gas[OF gas_nonneg, of EMPTY_QUOTE_INTERMEDIATE_FILL_RESULT 0 rnd "Fin \<phi>" "Fin amount"] h
    by (auto simp: r_def fillQuoteOrders_def EMPTY_QUOTE_INTERMEDIATE_FILL_RESULT_def)
  have total: "getTotalGasUsedByFills (qfi_orders q) ?gs = Fin h"
    using h by (simp add: getTotalGasUsedByFills_def js_sum_def flip: gas_map)
  have len: "length (filter (\<lambda>fo. hasProtocolFee (fo_order fo)) fos) = length (filter hasProtocolFee (qfi_orders q))"
    by (simp add: filter_map comp_def flip: fos(3))
  obtain fb where fb: "ir_protocolFee r = Fin fb"
      "fb \<le> \<phi> * of_nat (length (filter hasProtocolFee (qfi_orders q)))"
    using fill_loop_protocolFee[OF assms(4), of EMPTY_QUOTE_INTERMEDIATE_FILL_RESULT 0 rnd ?gs fos "Fin amount"] len
    by (auto simp: r_def fillQuoteOrders_def EMPTY_QUOTE_INTERMEDIATE_FILL_RESULT_def)
  show ?thesis
    using good g fb fos(1) assms(2,3) total
    by (intro exI[of _ r] exI[of _ g] exI[of _ h] exI[of _ fb]
        exI[of _ "\<phi> * of_nat (length (filter hasProtocolFee (qfi_orders q)))"])
      (simp add: simulateBestCaseFill_def simulateWorstCaseFill_def Let_def worst_output_def
        flip: r_def)
qed

end

section \<open>Properties\<close>

text \<open>C3: The worst case of a quote of regular orders never promises more than its best case: in a sell the
  taker pays the same and receives at most as much, in a buy the maker amount is the same and the
  taker pays at least as much; gas and protocol fees are at least those of the best case.\<close>

theorem worst_case_dominated:
  assumes "\<forall>od \<in> set (qfi_orders q). regular_order (round_dp d) od" "qfi_fillAmount q = Fin amount"
    and "qfi_gasPrice q * protocolFeeMultiplier_of (qfi_opts q) = Fin \<phi>" "0 \<le> \<phi>"
    and "\<forall>od \<in> set (qfi_orders q). nonneg_amount (qo_gasSchedule (qfi_opts q) (oo_source od) (oo_fillData od))"
    and "slippage_of (qfi_opts q) = Fin s" "0 \<le> s" "s \<le> 1"
  shows "\<exists>b w. simulateBestCaseFill (round_dp d) q = Inr b \<and> simulateWorstCaseFill (round_dp d) q = Inr w \<and>
     (if qfi_side q = Sell
      then totalTakerAssetAmount w = totalTakerAssetAmount b \<and> takerAssetAmount w = takerAssetAmount b \<and>
           totalMakerAssetAmount w \<le> totalMakerAssetAmount b
      else totalMakerAssetAmount w = totalMakerAssetAmount b \<and> makerAssetAmount w = makerAssetAmount b \<and>
           totalTakerAssetAmount b \<le> totalTakerAssetAmount w) \<and>
     qfr_gas b \<le> qfr_gas w \<and> protocolFeeAmount b \<le> protocolFeeAmount w \<and>
     fillAmountBySource w = fillAmountBySource b"
proof -
  obtain r g h fb fw where r: "good_result r" "ir_gas r = Fin g" "ir_protocolFee r = Fin fb" "g \<le> h" "fb \<le> fw"
      "simulateBestCaseFill (round_dp d) q = Inr (fromIntermediateQuoteFillResult r (qfi_side q))"
      "simulateWorstCaseFill (round_dp d) q = Inr (fromIntermediateQuoteFillResult
        (r\<lparr>ir_gas := Fin h, ir_protocolFee := Fin fw,
           ir_output := worst_output (qfi_side q) (Fin s) (ir_output r)\<rparr>) (qfi_side q))"
    using dp.simulate_shape[OF assms(1-5)] unfolding assms(6) by blast
  show ?thesis
    using results_dominated[OF r(1-5) assms(7,8), of "qfi_side q"] r(6,7) by (auto dest: fin_le_imp_le)
qed

definition sample_curve_order :: OptimizedOrder where
  "sample_curve_order = \<lparr>oo_source = Curve, oo_fillData = NoFillData, oo_type = Bridge,
     oo_makerToken = ''A'', oo_takerToken = ''B'', oo_makerAmount = Fin 5, oo_takerAmount = Fin 4,
     oo_fill = \<lparr>fill_input = Fin 4, fill_output = Fin 5, fill_adjustedOutput = Fin 5, fill_gas = Fin 100\<rparr>\<rparr>"

definition sample_quote :: QuoteFillInfo where
  "sample_quote = \<lparr>qfi_orders = [sample_curve_order, sample_curve_order], qfi_fillAmount = Fin 6,
     qfi_gasPrice = Fin 1, qfi_side = Sell,
     qfi_opts = \<lparr>qo_gasSchedule = (\<lambda>src fd. Fin 100), qo_protocolFeeMultiplier = None,
                 qo_slippage = Some (Fin (1 / 4))\<rparr>\<rparr>"

lemma sample_curve_regular: "regular_order rnd sample_curve_order"
  by (simp add: regular_order_def sample_curve_order_def order_fee_def)

lemma sample_quote_opts:
  "protocolFeeMultiplier_of (qfi_opts sample_quote) = Fin 0" "slippage_of (qfi_opts sample_quote) = Fin (1 / 4)"
  by (simp_all add: sample_quote_def protocolFeeMultiplier_of_def PROTOCOL_FEE_MULTIPLIER_def slippage_of_def)

theorem worst_case_dominated_witness:
  "\<exists>b w. simulateBestCaseFill rnd78 sample_quote = Inr b \<and> simulateWorstCaseFill rnd78 sample_quote = Inr w \<and>
     totalMakerAssetAmount w \<le> totalMakerAssetAmount b"
  using worst_case_dominated[of sample_quote 78 6 0 "1 / 4"] sample_curve_regular sample_quote_opts
  by (auto simp: sample_quote_def)

text \<open>Filling regular orders accounts for every unit: the amounts by source are non-negative, each
  source appears once, and they sum to the input filled.\<close>

theorem fill_by_source_complete:
  assumes "\<forall>fo \<in> set fos. regular_call fo"
  shows "let r = fillQuoteOrders (round_dp d) fos (Fin m) fee gs in
     distinct (map fst (ir_inputBySource r)) \<and>
     (\<forall>(k, v) \<in> set (ir_inputBySource r). nonneg_amount v) \<and>
     ir_input r = Fin (sum_list (map (\<lambda>kv. xval (snd kv)) (ir_inputBySource r)))"
  using dp.fill_loop_good[OF assms good_empty, of d fee gs m]
  by (auto simp: fillQuoteOrders_def good_result_def Let_def elim!: nonneg_amountE)

definition sample_call :: QuoteFillOrderCall where
  "sample_call = \<lparr>fo_order = sample_curve_order, totalOrderInput = Fin 4, totalOrderOutput = Fin 5,
                  totalOrderInputFee = Fin 0, totalOrderOutputFee = Fin 0\<rparr>"

theorem fill_by_source_complete_witness:
  "\<exists>a. ir_input (fillQuoteOrders rnd78 [sample_call] (Fin 3) (Fin 0) (\<lambda>s fd. Fin 1)) = Fin a"
  using fill_by_source_complete[of "[sample_call]" 78 3 "Fin 0" "\<lambda>s fd. Fin 1"]
  by (simp add: sample_call_def regular_call_def sample_curve_order_def Let_def)

text \<open>C4: A quote whose orders charge no fee on the input fills exactly the smaller of the requested
  amount and what the orders offer.\<close>

theorem simulation_fills_exactly:
  assumes "\<forall>od \<in> set (qfi_orders q). regular_order (round_dp d) od \<and>
      fill_input (oo_fill od) = Fin (of_int (k od)) \<and> (qfi_side q = Sell \<longrightarrow> oo_type od \<noteq> Limit)"
    and "qfi_fillAmount q = Fin (of_int A)" "0 \<le> A"
  shows "\<exists>r. simulateBestCaseFill (round_dp d) q = Inr r \<and>
     (if qfi_side q = Sell then takerAssetAmount r else makerAssetAmount r) =
       Fin (of_int (min A (sum_list (map k (qfi_orders q)))))"
proof -
  obtain fos where fos: "createBestCaseFillOrderCalls (round_dp d) q = Inr fos"
      "\<forall>fo \<in> set fos. regular_call fo" "map fo_order fos = qfi_orders q"
    using regular_orders_calls[of "qfi_orders q" "round_dp d" "qfi_side q"] assms(1)
    by (auto simp: createBestCaseFillOrderCalls_def)
  have fee0: "totalOrderInputFee fo = Fin 0" if fo: "fo \<in> set fos" for fo
  proof -
    obtain od where od: "od \<in> set (qfi_orders q)" "createBestCaseFillOrderCall (round_dp d) (qfi_side q) od = Inr fo"
      using res_map_mem[of "createBestCaseFillOrderCall (round_dp d) (qfi_side q)" "qfi_orders q" fos] fos(1) fo
      by (auto simp: createBestCaseFillOrderCalls_def)
    have "qfi_side q = Sell \<longrightarrow> oo_type od \<noteq> Limit" using od(1) assms(1) by blast
    then show ?thesis using od(2)
      by (cases "qfi_side q") (auto simp: createBestCaseFillOrderCall_def order_fee_def res_bind_eq_Inr)
  qed
  have "\<forall>fo \<in> set fos. fill_input (oo_fill (fo_order fo)) = Fin (of_int (k (fo_order fo))) \<and> 0 < k (fo_order fo) \<and>
      pos_amount (totalOrderInput fo) \<and> totalOrderInputFee fo = Fin 0"
  proof
    fix fo assume fo: "fo \<in> set fos"
    then have "fo_order fo \<in> set (qfi_orders q)" by (simp flip: fos(3))
    then show "fill_input (oo_fill (fo_order fo)) = Fin (of_int (k (fo_order fo))) \<and> 0 < k (fo_order fo) \<and>
      pos_amount (totalOrderInput fo) \<and> totalOrderInputFee fo = Fin 0"
      using assms(1) fos(2) fee0 fo by (auto simp: regular_call_def)
  qed
  from dp.fill_loop_exact[OF this _ assms(3), of EMPTY_QUOTE_INTERMEDIATE_FILL_RESULT 0 d]
  have "ir_input (fillQuoteOrders (round_dp d) fos (Fin (of_int A)) fee gs) =
      Fin (of_int (min A (sum_list (map k (qfi_orders q)))))" for fee gs
    by (simp add: fillQuoteOrders_def EMPTY_QUOTE_INTERMEDIATE_FILL_RESULT_def comp_def flip: fos(3))
  then show ?thesis using fos(1) assms(2)
    by (auto simp: simulateBestCaseFill_def Let_def fromIntermediateQuoteFillResult_def
        roundIntermediateFillResult_def roundInputAmount_def simp del: round_mode.simps)
qed

theorem simulation_fills_exactly_witness:
  "\<exists>r. simulateBestCaseFill rnd78 sample_quote = Inr r \<and> takerAssetAmount r = Fin 6"
proof -
  have "\<exists>r. simulateBestCaseFill rnd78 sample_quote = Inr r \<and>
     (if qfi_side sample_quote = Sell then takerAssetAmount r else makerAssetAmount r) =
       Fin (of_int (min 6 (sum_list (map (\<lambda>od. 4) (qfi_orders sample_quote)))))"
    using sample_curve_regular
    by (intro simulation_fills_exactly) (simp_all add: sample_quote_def, simp_all add: sample_curve_order_def)
  then show ?thesis by (simp add: sample_quote_def)
qed

end
