(* ===== verification/Quote_Info.thy ===== *)
theory Quote_Info
  imports Quote_Simulation
begin

text \<open>
  The figures of a swap quote (\<open>src/asset-swapper/utils/quote_info.ts\<close>): the simulated single-hop
  orders and the two-hop orders of a path merge into one best-case and one worst-case quote, with
  the share of every source.
\<close>

section \<open>Data\<close>

record MultiHopFill =
  mh_amount :: BigNumber
  mh_intermediateToken :: Address
  mh_hops :: "ERC20BridgeSource list"

record MultiHopBreakdown =
  mb_proportion :: BigNumber
  mb_intermediateToken :: Address
  mb_hops :: "ERC20BridgeSource list"

record SwapQuoteSourceBreakdown =
  sb_singleSource :: "(ERC20BridgeSource \<times> BigNumber) list"
  sb_multihop :: "MultiHopBreakdown list"

record QuoteInfo =
  bestCaseQuoteInfo :: SwapQuoteInfo
  worstCaseQuoteInfo :: SwapQuoteInfo
  sourceBreakdown :: SwapQuoteSourceBreakdown

record QuoteInfoParams =
  qp_path :: Path
  qp_operation :: MarketOperation
  qp_assetFillAmount :: BigNumber
  qp_gasPrice :: BigNumber
  qp_gasSchedule :: GasSchedule
  qp_slippage :: js_number

section \<open>Operations\<close>

definition fillResultsToQuoteInfo :: "QuoteFillResult \<Rightarrow> js_number \<Rightarrow> SwapQuoteInfo" where
  "fillResultsToQuoteInfo fr slippage =
     \<lparr>qi_takerAmount = takerAssetAmount fr, qi_totalTakerAmount = totalTakerAssetAmount fr,
      qi_makerAmount = totalMakerAssetAmount fr, qi_protocolFeeInWeiAmount = protocolFeeAmount fr,
      qi_gas = qfr_gas fr, qi_slippage = slippage\<rparr>"

definition single_hop_quote ::
  "OptimizedOrder list \<Rightarrow> MarketOperation \<Rightarrow> BigNumber \<Rightarrow> BigNumber \<Rightarrow> GasSchedule \<Rightarrow> js_number option \<Rightarrow> QuoteFillInfo" where
  "single_hop_quote optimizedOrders operation assetFillAmount gasPrice gasSchedule slippage =
     \<lparr>qfi_orders = optimizedOrders, qfi_fillAmount = assetFillAmount, qfi_gasPrice = gasPrice,
      qfi_side = operation,
      qfi_opts = \<lparr>qo_gasSchedule = gasSchedule, qo_protocolFeeMultiplier = None, qo_slippage = slippage\<rparr>\<rparr>"

definition calculateSingleHopQuoteInfo ::
  "(rat \<Rightarrow> rat) \<Rightarrow> OptimizedOrder list \<Rightarrow> MarketOperation \<Rightarrow> BigNumber \<Rightarrow> BigNumber \<Rightarrow> GasSchedule \<Rightarrow>
   js_number \<Rightarrow> js_error + SwapQuoteInfo \<times> SwapQuoteInfo \<times> (ERC20BridgeSource \<times> BigNumber) list" where
  "calculateSingleHopQuoteInfo rnd optimizedOrders operation assetFillAmount gasPrice gasSchedule slippage =
     res_bind (simulateBestCaseFill rnd
         (single_hop_quote optimizedOrders operation assetFillAmount gasPrice gasSchedule None))
       (\<lambda>best. res_bind (simulateWorstCaseFill rnd
           (single_hop_quote optimizedOrders operation assetFillAmount gasPrice gasSchedule (Some slippage)))
         (\<lambda>worst. Inr (fillResultsToQuoteInfo best 0, fillResultsToQuoteInfo worst slippage,
                        fillAmountBySource best)))"

definition calculateTwoHopQuoteInfo ::
  "TwoHopOrder \<Rightarrow> MarketOperation \<Rightarrow> GasSchedule \<Rightarrow> js_number \<Rightarrow> SwapQuoteInfo \<times> SwapQuoteInfo \<times> MultiHopFill" where
  "calculateTwoHopQuoteInfo twoHopOrder operation gasSchedule slippage =
     (let first = firstHopOrder twoHopOrder;
          second = secondHopOrder twoHopOrder;
          gas = toNumber (bn_of_number (gasSchedule MultiHop
                  (MultiHopFD (oo_source first) (oo_fillData first) (oo_source second) (oo_fillData second) [])));
          isSell = (operation = Sell);
          worstTaker = (if isSell then oo_takerAmount first
                        else integerValue ROUND_UP (oo_takerAmount first * bn_of_number (js_add 1 slippage)))
      in (\<lparr>qi_takerAmount = oo_takerAmount first, qi_totalTakerAmount = oo_takerAmount first,
           qi_makerAmount = oo_makerAmount second, qi_protocolFeeInWeiAmount = ZERO_AMOUNT,
           qi_gas = gas, qi_slippage = 0\<rparr>,
          \<lparr>qi_takerAmount = worstTaker, qi_totalTakerAmount = worstTaker,
           qi_makerAmount =
             (if isSell then integerValue_default (oo_makerAmount second * bn_of_number (js_sub 1 slippage))
              else oo_makerAmount second),
           qi_protocolFeeInWeiAmount = ZERO_AMOUNT, qi_gas = gas, qi_slippage = slippage\<rparr>,
          \<lparr>mh_amount = oo_takerAmount first, mh_intermediateToken = oo_takerToken second,
           mh_hops = [oo_source first, oo_source second]\<rparr>))"

definition mergeSwapQuoteInfos :: "SwapQuoteInfo list \<Rightarrow> js_error + SwapQuoteInfo" where
  "mergeSwapQuoteInfos swapQuoteInfos =
     (if length swapQuoteInfos = 0 then Inl (Error ''swapQuoteInfos.length should be at least one'')
      else if length (uniq (map qi_slippage swapQuoteInfos)) \<noteq> 1
           then Inl (Error ''slippages of swapQuoteInfos vary'')
      else Inr \<lparr>qi_takerAmount = bn_sum (map qi_takerAmount swapQuoteInfos),
                qi_totalTakerAmount = bn_sum (map qi_totalTakerAmount swapQuoteInfos),
                qi_makerAmount = bn_sum (map qi_makerAmount swapQuoteInfos),
                qi_protocolFeeInWeiAmount = bn_sum (map qi_protocolFeeInWeiAmount swapQuoteInfos),
                qi_gas = js_sum (map qi_gas swapQuoteInfos),
                qi_slippage = qi_slippage (hd swapQuoteInfos)\<rparr>)"

definition calculateSwapQuoteOrdersBreakdown ::
  "(rat \<Rightarrow> rat) \<Rightarrow> (ERC20BridgeSource \<times> BigNumber) list \<Rightarrow> MultiHopFill list \<Rightarrow> SwapQuoteSourceBreakdown" where
  "calculateSwapQuoteOrdersBreakdown rnd bySource multihopFills =
     (let totalFillAmount = bn_sum (map snd bySource @ map mh_amount multihopFills)
      in \<lparr>sb_singleSource = map (\<lambda>(k, amount). (k, bn_div rnd amount totalFillAmount)) bySource,
          sb_multihop = map (\<lambda>f. \<lparr>mb_proportion = bn_div rnd (mh_amount f) totalFillAmount,
                                   mb_intermediateToken = mh_intermediateToken f, mb_hops = mh_hops f\<rparr>)
                          multihopFills\<rparr>)"

definition calculateQuoteInfo :: "(rat \<Rightarrow> rat) \<Rightarrow> QuoteInfoParams \<Rightarrow> js_error + QuoteInfo" where
  "calculateQuoteInfo rnd params =
     (let os = path_ordersByType (qp_path params);
          singleHopOrders = nativeOrders os @ bridgeOrders os
      in res_bind (calculateSingleHopQuoteInfo rnd singleHopOrders (qp_operation params)
                     (qp_assetFillAmount params) (qp_gasPrice params) (qp_gasSchedule params) (qp_slippage params))
         (\<lambda>(best, worst, bySource).
            let twoHops = map (\<lambda>t. calculateTwoHopQuoteInfo t (qp_operation params) (qp_gasSchedule params)
                                      (qp_slippage params)) (twoHopOrders os)
            in res_bind (mergeSwapQuoteInfos (best # map fst twoHops))
               (\<lambda>bestCase. res_bind (mergeSwapQuoteInfos (worst # map (fst \<circ> snd) twoHops))
               (\<lambda>worstCase. Inr \<lparr>bestCaseQuoteInfo = bestCase, worstCaseQuoteInfo = worstCase,
                 sourceBreakdown = calculateSwapQuoteOrdersBreakdown rnd bySource (map (snd \<circ> snd) twoHops)\<rparr>))))"

section \<open>Sums of dominated figures\<close>

lemma foldl_fin_le:
  assumes "list_all2 fin_le xs ys" "fin_le a b"
    and "\<And>u v x y. fin_le u v \<Longrightarrow> fin_le x y \<Longrightarrow> fin_le (f u x) (f v y)"
  shows "fin_le (foldl f a xs) (foldl f b ys)"
  using assms(1,2) by (induction xs ys arbitrary: a b rule: list_all2_induct) (auto intro: assms(3))

lemma bn_sum_fin_le: "list_all2 fin_le xs ys \<Longrightarrow> xs \<noteq> [] \<Longrightarrow> fin_le (bn_sum xs) (bn_sum ys)"
  by (cases xs; cases ys) (auto intro!: foldl_fin_le elim!: fin_leE)

lemma js_sum_fin_le: "list_all2 fin_le xs ys \<Longrightarrow> fin_le (js_sum xs) (js_sum ys)"
  unfolding js_sum_def by (rule foldl_fin_le) (auto elim!: fin_leE intro!: rnd64_mono add_mono)

text \<open>A worst-case figure of a quote against its best case.\<close>

definition dominated :: "MarketOperation \<Rightarrow> SwapQuoteInfo \<Rightarrow> SwapQuoteInfo \<Rightarrow> bool" where
  "dominated side b w \<longleftrightarrow>
     (if side = Sell
      then is_fin (qi_takerAmount b) \<and> qi_takerAmount w = qi_takerAmount b \<and>
           is_fin (qi_totalTakerAmount b) \<and> qi_totalTakerAmount w = qi_totalTakerAmount b \<and>
           fin_le (qi_makerAmount w) (qi_makerAmount b)
      else fin_le (qi_totalTakerAmount b) (qi_totalTakerAmount w) \<and>
           is_fin (qi_makerAmount b) \<and> qi_makerAmount w = qi_makerAmount b) \<and>
     fin_le (qi_gas b) (qi_gas w) \<and> fin_le (qi_protocolFeeInWeiAmount b) (qi_protocolFeeInWeiAmount w)"

lemma uniq_single: "\<forall>x \<in> set xs. x = a \<Longrightarrow> xs \<noteq> [] \<Longrightarrow> length (uniq xs) = 1"
proof -
  assume "\<forall>x \<in> set xs. x = a" "xs \<noteq> []"
  then have "set (uniq xs) = {a}" using set_uniq[of xs] by (cases xs) auto
  then show ?thesis using distinct_card[OF distinct_uniq, of xs] by simp
qed

lemma list_all2_map_weaken:
  "list_all2 R bs ws \<Longrightarrow> (\<And>b w. R b w \<Longrightarrow> S (f b) (f w)) \<Longrightarrow> list_all2 S (map f bs) (map f ws)"
  by (induction rule: list_all2_induct) auto

lemma dominated_map_eq:
  "list_all2 R bs ws \<Longrightarrow> (\<And>b w. R b w \<Longrightarrow> f w = f b \<and> is_fin (f b)) \<Longrightarrow>
   map f ws = map f bs \<and> (\<forall>x \<in> set (map f bs). is_fin x)"
  by (induction rule: list_all2_induct) auto

lemma bn_sum_is_fin: "\<forall>x \<in> set xs. is_fin x \<Longrightarrow> xs \<noteq> [] \<Longrightarrow> is_fin (bn_sum xs)"
proof -
  assume "\<forall>x \<in> set xs. is_fin x" "xs \<noteq> []"
  then have "xs = map Fin (map xval xs)" by (auto simp: Fin_xval intro: map_idI[symmetric])
  then show ?thesis using \<open>xs \<noteq> []\<close> by (metis bn_sum_Fin is_fin.simps(1) map_is_Nil_conv)
qed

lemma merge_dominated:
  assumes "list_all2 (dominated side) bs ws" "bs \<noteq> []"
    and "\<forall>b \<in> set bs. qi_slippage b = s" "\<forall>w \<in> set ws. qi_slippage w = t"
  shows "\<exists>b w. mergeSwapQuoteInfos bs = Inr b \<and> mergeSwapQuoteInfos ws = Inr w \<and> dominated side b w \<and>
               qi_slippage b = s \<and> qi_slippage w = t"
proof -
  have ws: "ws \<noteq> []" using assms(1,2) by auto
  have ls: "length (uniq (map qi_slippage bs)) = 1" "length (uniq (map qi_slippage ws)) = 1"
    using assms ws uniq_single[of "map qi_slippage bs" s] uniq_single[of "map qi_slippage ws" t] by auto
  have gas: "fin_le (js_sum (map qi_gas bs)) (js_sum (map qi_gas ws))"
    by (intro js_sum_fin_le list_all2_map_weaken[OF assms(1)]) (simp add: dominated_def)
  have fee: "fin_le (bn_sum (map qi_protocolFeeInWeiAmount bs)) (bn_sum (map qi_protocolFeeInWeiAmount ws))"
    by (intro bn_sum_fin_le list_all2_map_weaken[OF assms(1)]) (use assms(2) in \<open>auto simp: dominated_def\<close>)
  have heads: "qi_slippage (hd bs) = s" "qi_slippage (hd ws) = t" using assms ws by auto
  show ?thesis
  proof (cases side)
    case Sell
    have "fin_le (bn_sum (map qi_makerAmount ws)) (bn_sum (map qi_makerAmount bs))"
    proof (intro bn_sum_fin_le)
      have "list_all2 (\<lambda>w b. dominated side b w) ws bs" using assms(1) by (simp add: list_all2_conv_all_nth)
      then show "list_all2 fin_le (map qi_makerAmount ws) (map qi_makerAmount bs)"
        by (rule list_all2_map_weaken) (simp add: dominated_def Sell)
    qed (use ws in simp)
    moreover have "map qi_takerAmount ws = map qi_takerAmount bs \<and> (\<forall>x \<in> set (map qi_takerAmount bs). is_fin x)"
        "map qi_totalTakerAmount ws = map qi_totalTakerAmount bs \<and> (\<forall>x \<in> set (map qi_totalTakerAmount bs). is_fin x)"
      by (rule dominated_map_eq[OF assms(1)]; simp add: dominated_def Sell)+
    ultimately show ?thesis
      using ls gas fee heads ws assms(2) Sell
      by (simp add: mergeSwapQuoteInfos_def dominated_def bn_sum_is_fin)
  next
    case Buy
    have "fin_le (bn_sum (map qi_totalTakerAmount bs)) (bn_sum (map qi_totalTakerAmount ws))"
      by (intro bn_sum_fin_le list_all2_map_weaken[OF assms(1)]) (use assms(2) Buy in \<open>auto simp: dominated_def\<close>)
    moreover have "map qi_makerAmount ws = map qi_makerAmount bs \<and> (\<forall>x \<in> set (map qi_makerAmount bs). is_fin x)"
      by (rule dominated_map_eq[OF assms(1)]) (simp add: dominated_def Buy)
    ultimately show ?thesis
      using ls gas fee heads ws assms(2) Buy
      by (simp add: mergeSwapQuoteInfos_def dominated_def bn_sum_is_fin)
  qed
qed

section \<open>Parts of a quote\<close>

lemma best_case_ignores_slippage:
  "simulateBestCaseFill rnd (single_hop_quote os op amount gp gs None) =
   simulateBestCaseFill rnd (single_hop_quote os op amount gp gs (Some s))"
  by (simp add: simulateBestCaseFill_def createBestCaseFillOrderCalls_def single_hop_quote_def
      protocolFeeMultiplier_of_def Let_def)

lemma single_hop_dominated:
  assumes "\<forall>od \<in> set os. regular_order (round_dp d) od" "0 \<le> s" "s \<le> 1"
    and "\<forall>od \<in> set os. nonneg_amount (gs (oo_source od) (oo_fillData od))"
  shows "\<exists>b w bySource. calculateSingleHopQuoteInfo (round_dp d) os op (Fin amount) (Fin gp) gs (Fin s) =
      Inr (b, w, bySource) \<and> dominated op b w \<and> qi_slippage b = Fin 0 \<and> qi_slippage w = Fin s"
proof -
  let ?q = "single_hop_quote os op (Fin amount) (Fin gp) gs (Some (Fin s))"
  have q: "qfi_orders ?q = os" "qfi_fillAmount ?q = Fin amount" "qfi_side ?q = op"
      "qfi_gasPrice ?q * protocolFeeMultiplier_of (qfi_opts ?q) = Fin 0"
      "qo_gasSchedule (qfi_opts ?q) = gs" "slippage_of (qfi_opts ?q) = Fin s"
    by (simp_all add: single_hop_quote_def protocolFeeMultiplier_of_def PROTOCOL_FEE_MULTIPLIER_def slippage_of_def)
  obtain r g h fb fw where r: "good_result r" "ir_gas r = Fin g" "ir_protocolFee r = Fin fb" "g \<le> h" "fb \<le> fw"
      "simulateBestCaseFill (round_dp d) ?q = Inr (fromIntermediateQuoteFillResult r op)"
      "simulateWorstCaseFill (round_dp d) ?q = Inr (fromIntermediateQuoteFillResult
        (r\<lparr>ir_gas := Fin h, ir_protocolFee := Fin fw, ir_output := worst_output op (Fin s) (ir_output r)\<rparr>) op)"
    using dp.simulate_shape[of ?q d amount 0] assms(1,4) unfolding q by auto
  show ?thesis
    using r(6,7) results_dominated[OF r(1-5) assms(2,3), of op]
    by (cases op)
      (auto simp: calculateSingleHopQuoteInfo_def best_case_ignores_slippage[of _ _ _ _ _ _ "Fin s"]
        fillResultsToQuoteInfo_def dominated_def)
qed

lemma two_hop_dominated:
  assumes "oo_makerAmount (secondHopOrder t) = Fin (of_int m)" "0 \<le> m"
    and "oo_takerAmount (firstHopOrder t) = Fin k" "0 \<le> k" "0 \<le> s" "s \<le> 1"
    and "is_fin (gs MultiHop (MultiHopFD (oo_source (firstHopOrder t)) (oo_fillData (firstHopOrder t))
           (oo_source (secondHopOrder t)) (oo_fillData (secondHopOrder t)) []))"
  shows "dominated op (fst (calculateTwoHopQuoteInfo t op gs (Fin s)))
           (fst (snd (calculateTwoHopQuoteInfo t op gs (Fin s))))"
proof -
  let ?d = "dec (rnd64 (1 - s))" and ?u = "dec (rnd64 (1 + s))"
  note d = slip_down_bounds[OF assms(5,6)] and u = slip_up_bounds[OF assms(5,6)]
  have "round_mode ROUND_HALF_UP (of_int m * ?d) \<le> round_mode ROUND_HALF_UP (of_int m)"
    using assms(2) d by (intro round_mode_mono) (simp add: mult_left_le)
  then have maker: "round_mode ROUND_HALF_UP (of_int m * ?d) \<le> m" by (simp only: round_mode_of_int)
  have "k * 1 \<le> k * ?u" using assms(4) u by (intro mult_left_mono) auto
  moreover have "k * ?u \<le> of_int (round_mode ROUND_UP (k * ?u))"
    using assms(4) u by (intro round_up_ge) simp
  ultimately have taker: "k \<le> of_int (round_mode ROUND_UP (k * ?u))" by linarith
  obtain g where g: "gs MultiHop (MultiHopFD (oo_source (firstHopOrder t)) (oo_fillData (firstHopOrder t))
           (oo_source (secondHopOrder t)) (oo_fillData (secondHopOrder t)) []) = Fin g"
    using assms(7) by (auto simp: is_fin_iff)
  show ?thesis
    using assms(1,3) maker taker g
    by (cases op) (auto simp: calculateTwoHopQuoteInfo_def dominated_def Let_def simp del: round_mode.simps)
qed

text \<open>A two-hop order with an integer maker amount, a taker amount and a gas estimate.\<close>

definition regular_twoHop :: "GasSchedule \<Rightarrow> TwoHopOrder \<Rightarrow> bool" where
  "regular_twoHop gs t \<longleftrightarrow>
     (\<exists>m. oo_makerAmount (secondHopOrder t) = Fin (of_int m) \<and> 0 \<le> m) \<and>
     (\<exists>k. oo_takerAmount (firstHopOrder t) = Fin k \<and> 0 \<le> k) \<and>
     is_fin (gs MultiHop (MultiHopFD (oo_source (firstHopOrder t)) (oo_fillData (firstHopOrder t))
           (oo_source (secondHopOrder t)) (oo_fillData (secondHopOrder t)) []))"

lemma regular_twoHop_dominated:
  "regular_twoHop gs t \<Longrightarrow> 0 \<le> s \<Longrightarrow> s \<le> 1 \<Longrightarrow>
   dominated op (fst (calculateTwoHopQuoteInfo t op gs (Fin s))) (fst (snd (calculateTwoHopQuoteInfo t op gs (Fin s))))"
  unfolding regular_twoHop_def using two_hop_dominated by blast

lemma two_hop_slippages:
  "qi_slippage (fst (calculateTwoHopQuoteInfo t op gs s)) = 0"
  "qi_slippage (fst (snd (calculateTwoHopQuoteInfo t op gs s))) = s"
  by (simp_all add: calculateTwoHopQuoteInfo_def Let_def)

section \<open>Properties\<close>

text \<open>C2: A quote for a path of regular orders is always produced (merging never fails), and its worst case
  is dominated by its best case over single-hop and two-hop orders together: selling, the taker
  amount is the same and the maker amount at most as large; buying, the maker amount is the same
  and the taker amount at least as large; gas and protocol fees never shrink.\<close>

theorem quote_info_dominated:
  assumes "os = path_ordersByType (qp_path params)"
    and "\<forall>od \<in> set (nativeOrders os @ bridgeOrders os). regular_order (round_dp d) od \<and>
      nonneg_amount (qp_gasSchedule params (oo_source od) (oo_fillData od))"
    and "\<forall>t \<in> set (twoHopOrders os). regular_twoHop (qp_gasSchedule params) t"
    and "qp_assetFillAmount params = Fin amount" "qp_gasPrice params = Fin gp"
    and "qp_slippage params = Fin s" "0 \<le> s" "s \<le> 1"
  shows "\<exists>qi. calculateQuoteInfo (round_dp d) params = Inr qi \<and>
     dominated (qp_operation params) (bestCaseQuoteInfo qi) (worstCaseQuoteInfo qi) \<and>
     qi_slippage (bestCaseQuoteInfo qi) = Fin 0 \<and> qi_slippage (worstCaseQuoteInfo qi) = Fin s"
proof -
  let ?op = "qp_operation params" and ?gs = "qp_gasSchedule params"
  define hops where "hops = map (\<lambda>t. calculateTwoHopQuoteInfo t ?op ?gs (Fin s)) (twoHopOrders os)"
  obtain b w bySource where single: "calculateSingleHopQuoteInfo (round_dp d) (nativeOrders os @ bridgeOrders os)
      ?op (Fin amount) (Fin gp) ?gs (Fin s) = Inr (b, w, bySource)" "dominated ?op b w"
      "qi_slippage b = Fin 0" "qi_slippage w = Fin s"
    using single_hop_dominated[of "nativeOrders os @ bridgeOrders os" d s ?gs ?op amount gp] assms(2,7,8) by auto
  have hop: "\<forall>h \<in> set hops. dominated ?op (fst h) (fst (snd h)) \<and> qi_slippage (fst h) = Fin 0 \<and>
      qi_slippage (fst (snd h)) = Fin s"
    using assms(3,7,8) regular_twoHop_dominated by (auto simp: hops_def two_hop_slippages)
  have "list_all2 (dominated ?op) (b # map fst hops) (w # map (fst \<circ> snd) hops)"
    using single hop by (simp add: list.rel_map list_all2_same)
  then obtain bb ww where "mergeSwapQuoteInfos (b # map fst hops) = Inr bb"
      "mergeSwapQuoteInfos (w # map (fst \<circ> snd) hops) = Inr ww" "dominated ?op bb ww"
      "qi_slippage bb = Fin 0" "qi_slippage ww = Fin s"
    using merge_dominated[of ?op "b # map fst hops" "w # map (fst \<circ> snd) hops" "Fin 0" "Fin s"] single hop
    by auto
  then show ?thesis
    using single(1) assms(1,4-6) by (simp add: calculateQuoteInfo_def Let_def hops_def)
qed

definition sample_params :: QuoteInfoParams where
  "sample_params = \<lparr>qp_path = sample_path 4, qp_operation = Sell, qp_assetFillAmount = Fin 4,
     qp_gasPrice = Fin 1, qp_gasSchedule = (\<lambda>src fd. Fin 100), qp_slippage = Fin (1 / 4)\<rparr>"

theorem quote_info_dominated_witness:
  "\<exists>qi. calculateQuoteInfo rnd78 sample_params = Inr qi \<and>
     dominated Sell (bestCaseQuoteInfo qi) (worstCaseQuoteInfo qi)"
  using quote_info_dominated[OF refl, of sample_params 78 4 1 "1 / 4"]
  by (auto simp: sample_params_def sample_path_def regular_order_def order_fee_def sample_fill_def toFillBase_def)

text \<open>The breakdown of a quote by source is a partition of the filled amount: every share lies between
  0 and 1, and the shares sum to 1 up to the rounding of one division each.\<close>

theorem source_shares_sum_to_one:
  assumes "map snd bySource @ map mh_amount hops = map Fin xs" "\<forall>x \<in> set xs. 0 \<le> x" "0 < sum_list xs"
    and "shares = map snd (sb_singleSource (calculateSwapQuoteOrdersBreakdown (round_dp d) bySource hops)) @
                  map mb_proportion (sb_multihop (calculateSwapQuoteOrdersBreakdown (round_dp d) bySource hops))"
  shows "(\<forall>x \<in> set shares. is_fin x \<and> 0 \<le> xval x \<and> xval x \<le> 1) \<and>
         \<bar>sum_list (map xval shares) - 1\<bar> \<le> of_nat (length shares) / (2 * 10 ^ d)"
proof -
  let ?T = "sum_list xs"
  have xs0: "xs \<noteq> []" using assms(3) by auto
  have tot: "bn_sum (map snd bySource @ map mh_amount hops) = Fin ?T"
    unfolding assms(1) by (rule bn_sum_Fin[OF xs0])
  have "shares = map (\<lambda>a. bn_div (round_dp d) a (Fin ?T)) (map snd bySource @ map mh_amount hops)"
    unfolding assms(4) by (simp add: calculateSwapQuoteOrdersBreakdown_def Let_def tot comp_def case_prod_beta)
  also have "\<dots> = map Fin (map (\<lambda>x. round_dp d (x / ?T)) xs)"
    unfolding assms(1) using assms(3) by simp
  finally have shares: "shares = map Fin (map (\<lambda>x. round_dp d (x / ?T)) xs)" .
  have share: "0 \<le> round_dp d (x / ?T)" "round_dp d (x / ?T) \<le> 1" if "x \<in> set xs" for x
    using dp.rnd_share[of x ?T d] assms(2,3) that member_le_sum_list[of x xs] by auto
  have err: "\<bar>sum_list (map (\<lambda>x. round_dp d (x / ?T)) ys) - sum_list ys / ?T\<bar> \<le> of_nat (length ys) / (2 * 10 ^ d)" for ys
  proof (induction ys)
    case (Cons y ys)
    have "\<bar>round_dp d (y / ?T) - y / ?T\<bar> \<le> 1 / (2 * 10 ^ d)" by (rule dp.rnd_err)
    then show ?case using Cons.IH by (simp add: add_divide_distrib abs_le_iff)
  qed simp
  show ?thesis
    using err[of xs] share assms(3) by (auto simp: shares comp_def)
qed

theorem source_shares_sum_to_one_witness:
  "\<bar>sum_list (map xval (map snd (sb_singleSource (calculateSwapQuoteOrdersBreakdown rnd78
       [(Curve, Fin 1), (SushiSwap, Fin 2)] [])))) - 1\<bar> \<le> 2 / (2 * 10 ^ 78)"
  using source_shares_sum_to_one[of "[(Curve, Fin 1), (SushiSwap, Fin 2)]" "[]" "[1, 2]"
      "map snd (sb_singleSource (calculateSwapQuoteOrdersBreakdown rnd78 [(Curve, Fin 1), (SushiSwap, Fin 2)] []))" 78]
  by (simp add: calculateSwapQuoteOrdersBreakdown_def)

text \<open>The worst-case maker amount of a two-hop sell is rounded half-up, while the slipped order that
  enforces it on chain is rounded down: at a slippage of one half, an amount of 3 is quoted as 2 and
  enforced as 1.\<close>

lemma dec_half: "dec (rnd64 (1 / 2)) = 1 / 2"
  by code_simp

lemma two_hop_worst_case_above_slipped_order:
  assumes "oo_makerAmount (secondHopOrder t) = Fin 3" "oo_source (secondHopOrder t) \<noteq> Native"
  shows "qi_makerAmount (fst (snd (calculateTwoHopQuoteInfo t Sell gs (Fin (1 / 2))))) = Fin 2"
    and "oo_makerAmount (slipOrder (Fin (1 / 2)) Sell (secondHopOrder t)) = Fin 1"
proof -
  have half: "js_sub (Fin 1) (Fin (1 / 2)) = Fin (rnd64 (1 / 2))" by simp
  show "qi_makerAmount (fst (snd (calculateTwoHopQuoteInfo t Sell gs (Fin (1 / 2))))) = Fin 2"
    unfolding calculateTwoHopQuoteInfo_def Let_def using assms half by (simp add: dec_half)
  show "oo_makerAmount (slipOrder (Fin (1 / 2)) Sell (secondHopOrder t)) = Fin 1"
    unfolding slipOrder_def using assms half by (simp add: MAX_UINT256_def dec_half floor_eq_iff)
qed

end
