(* ===== verification/Result_Rules.thy ===== *)
theory Result_Rules
  imports Prelude
begin

text \<open>
  Rules for reasoning about fallible code: \<open>ensures P m\<close> says that a call that returns, returns a value
  with property \<open>P\<close>, and \<open>succeeds P m\<close> that it does return one. The rules follow the sequencing, the
  branches and the loops of the code.
\<close>

definition ensures :: "('a \<Rightarrow> bool) \<Rightarrow> 'e + 'a \<Rightarrow> bool" where
  "ensures P m \<longleftrightarrow> (\<forall>x. m = Inr x \<longrightarrow> P x)"

definition succeeds :: "('a \<Rightarrow> bool) \<Rightarrow> 'e + 'a \<Rightarrow> bool" where
  "succeeds P m \<longleftrightarrow> (\<exists>x. m = Inr x \<and> P x)"

named_theorems ensures_rules \<open>rules for partial correctness of fallible code\<close>

lemma ensures_D: "ensures P m \<Longrightarrow> m = Inr x \<Longrightarrow> P x"
  by (simp add: ensures_def)

lemma ensures_I: "(\<And>x. m = Inr x \<Longrightarrow> P x) \<Longrightarrow> ensures P m"
  by (simp add: ensures_def)

lemma ensures_throw [ensures_rules]: "ensures P (Inl e)"
  by (simp add: ensures_def)

lemma ensures_return [ensures_rules]: "P x \<Longrightarrow> ensures P (Inr x)"
  by (simp add: ensures_def)

lemma ensures_bind [ensures_rules]: "(\<And>x. m = Inr x \<Longrightarrow> ensures P (f x)) \<Longrightarrow> ensures P (res_bind m f)"
  by (auto simp: ensures_def res_bind_eq_Inr)

lemma ensures_if [ensures_rules]:
  "(b \<Longrightarrow> ensures P m) \<Longrightarrow> (\<not> b \<Longrightarrow> ensures P n) \<Longrightarrow> ensures P (if b then m else n)"
  by simp

lemma ensures_option [ensures_rules]:
  "(x = None \<Longrightarrow> ensures P m) \<Longrightarrow> (\<And>y. x = Some y \<Longrightarrow> ensures P (f y)) \<Longrightarrow>
   ensures P (case x of None \<Rightarrow> m | Some y \<Rightarrow> f y)"
  by (simp split: option.split)

lemma ensures_mono: "ensures P m \<Longrightarrow> (\<And>x. P x \<Longrightarrow> Q x) \<Longrightarrow> ensures Q m"
  by (simp add: ensures_def)

lemma ensures_map: "(\<And>x. x \<in> set xs \<Longrightarrow> ensures (P x) (f x)) \<Longrightarrow> ensures (list_all2 P xs) (res_map f xs)"
  by (auto simp: ensures_def res_map_Inr_iff list_all2_conv_all_nth)

lemma succeeds_D: "succeeds P m \<Longrightarrow> \<exists>x. m = Inr x \<and> P x"
  by (simp add: succeeds_def)

lemma succeeds_return: "P x \<Longrightarrow> succeeds P (Inr x)"
  by (simp add: succeeds_def)

lemma succeeds_bind: "succeeds Q m \<Longrightarrow> (\<And>x. m = Inr x \<Longrightarrow> Q x \<Longrightarrow> succeeds P (f x)) \<Longrightarrow> succeeds P (res_bind m f)"
  by (fastforce simp: succeeds_def res_bind_eq_Inr)

lemma succeeds_if: "(b \<Longrightarrow> succeeds P m) \<Longrightarrow> (\<not> b \<Longrightarrow> succeeds P n) \<Longrightarrow> succeeds P (if b then m else n)"
  by simp

lemma succeeds_mono: "succeeds P m \<Longrightarrow> (\<And>x. P x \<Longrightarrow> Q x) \<Longrightarrow> succeeds Q m"
  by (auto simp: succeeds_def)

lemma succeeds_map: "(\<And>x. x \<in> set xs \<Longrightarrow> succeeds (P x) (f x)) \<Longrightarrow> succeeds (list_all2 P xs) (res_map f xs)"
  unfolding succeeds_def by (rule res_map_total) blast

end
