(* ===== verification/Quote_Consumer.thy ===== *)
theory Quote_Consumer
  imports Quote_Info Quote_Report Source_Tables Result_Rules
begin

text \<open>
  The quote consumers (\<open>quote_consumer_utils.ts\<close>, \<open>feature_rules/*.ts\<close>,
  \<open>exchange_proxy_swap_quote_consumer.ts\<close>): a swap quote becomes a call of the exchange proxy. A call
  and the data of a transformer are kept as the arguments given to the contract wrapper and to the
  encoders of \<open>@0x/protocol-utils\<close>, in place of the hex strings these return. An argument that is
  undefined is refused by every encoder and is a \<open>TypeError\<close> here. The address that stands for the
  native token, the nonce of a deployed transformer, the contract addresses of a chain and the
  encoders of bridge data are parameters.
\<close>

section \<open>Swap quotes and options\<close>

text \<open>\<open>makerTokenFillAmount\<close> of a buy quote and \<open>takerTokenFillAmount\<close> of a sell quote are the one field
  \<open>swq_fillAmount\<close>.\<close>

record SwapQuote =
  swq_type :: MarketOperation
  swq_fillAmount :: BigNumber
  swq_takerToken :: Address
  swq_makerToken :: Address
  swq_gasPrice :: BigNumber
  swq_path :: Path
  swq_bestCaseQuoteInfo :: SwapQuoteInfo
  swq_worstCaseQuoteInfo :: SwapQuoteInfo
  swq_sourceBreakdown :: SwapQuoteSourceBreakdown
  swq_quoteReport :: "QuoteReport option"
  swq_extendedQuoteReportSources :: "ExtendedQuoteReportSources option"
  swq_makerTokenDecimals :: js_number
  swq_takerTokenDecimals :: js_number
  swq_takerAmountPerEth :: BigNumber
  swq_makerAmountPerEth :: BigNumber
  swq_blockNumber :: js_number
  swq_samplerGasUsage :: js_number

datatype AffiliateFeeType = NoFee | PercentageFee | PositiveSlippageFee | GaslessFee

record AffiliateFeeAmount =
  feeType :: AffiliateFeeType
  af_recipient :: Address
  buyTokenFeeAmount :: BigNumber
  sellTokenFeeAmount :: BigNumber

datatype MetaTransactionVersion = v1 | v2

record ExchangeProxyContractOpts =
  isFromETH :: bool
  isToETH :: bool
  sellTokenAffiliateFees :: "AffiliateFeeAmount list"
  buyTokenAffiliateFees :: "AffiliateFeeAmount list"
  positiveSlippageFee :: "AffiliateFeeAmount option"
  refundReceiver :: Address
  metaTransactionVersion :: "MetaTransactionVersion option"
  shouldSellEntireBalance :: bool

definition DEFAULT_EXCHANGE_PROXY_EXTENSION_CONTRACT_OPTS :: ExchangeProxyContractOpts where
  "DEFAULT_EXCHANGE_PROXY_EXTENSION_CONTRACT_OPTS =
     \<lparr>isFromETH = False, isToETH = False, sellTokenAffiliateFees = [], buyTokenAffiliateFees = [],
      positiveSlippageFee = None, refundReceiver = NULL_ADDRESS, metaTransactionVersion = None,
      shouldSellEntireBalance = False\<rparr>"

definition POSITIVE_SLIPPAGE_FEE_TRANSFORMER_GAS :: BigNumber where
  "POSITIVE_SLIPPAGE_FEE_TRANSFORMER_GAS = Fin 30000"

section \<open>Transformations and calls\<close>

record TransformerNonces =
  n_wethTransformer :: int
  n_payTakerTransformer :: int
  n_fillQuoteTransformer :: int
  n_affiliateFeeTransformer :: int
  n_positiveSlippageFeeTransformer :: int

record ContractAddresses =
  ca_exchangeProxy :: Address
  ca_etherToken :: Address
  ca_exchangeProxyTransformerDeployer :: Address
  ca_wethTransformer :: Address
  ca_payTakerTransformer :: Address
  ca_fillQuoteTransformer :: Address
  ca_affiliateFeeTransformer :: Address
  ca_positiveSlippageFeeTransformer :: Address

text \<open>The parameters of the consumer: what the protocol libraries provide.\<close>

record ProtocolLib =
  pl_ETH_TOKEN_ADDRESS :: Address
  pl_findTransformerNonce :: "Address \<Rightarrow> Address \<Rightarrow> int"
  pl_contractAddresses :: "ChainId \<Rightarrow> ContractAddresses"
  pl_abiEncode :: "AbiType list \<Rightarrow> AbiValue list \<Rightarrow> string"
  pl_encodeBridgeSourceId :: "BridgeProtocol \<Rightarrow> string \<Rightarrow> string"

datatype FillQuoteTransformerSide = SideSell | SideBuy

record FQTBridgeOrder =
  bo_bridgeData :: string
  bo_makerTokenAmount :: BigNumber
  bo_takerTokenAmount :: BigNumber
  bo_source :: string

record FQTNativeOrderInfo =
  no_order :: OrderFields
  no_signature :: string
  no_maxTakerTokenFillAmount :: BigNumber

record FQTOrders =
  fqt_bridgeOrders :: "FQTBridgeOrder list"
  fqt_limitOrders :: "FQTNativeOrderInfo list"
  fqt_rfqOrders :: "FQTNativeOrderInfo list"
  fqt_otcOrders :: "FQTNativeOrderInfo list"
  fqt_fillSequence :: "FillQuoteTransformerOrderType list"

record TokenFee =
  tf_token :: Address
  tf_amount :: BigNumber
  tf_recipient :: Address

datatype TransformerData =
    AffiliateFeeData "TokenFee list"
  | WethData Address BigNumber \<comment> \<open>token, amount\<close>
  | FillQuoteData FillQuoteTransformerSide Address Address FQTOrders Address BigNumber
      \<comment> \<open>side, sellToken, buyToken, the orders, refundReceiver, fillAmount\<close>
  | PositiveSlippageFeeData Address BigNumber Address \<comment> \<open>token, bestCaseAmount, recipient\<close>
  | PayTakerData "Address list" "BigNumber list" \<comment> \<open>tokens, amounts\<close>

record ERC20Transformation =
  deploymentNonce :: int
  tr_data :: TransformerData

datatype MultiplexSubcallData =
    SubRfq OrderFields string
  | SubOtc OrderFields string
  | SubUniswapV2 "Address list" bool \<comment> \<open>tokens, isSushi\<close>
  | SubUniswapV3 string
  | SubTransformERC20 "ERC20Transformation list"

record BatchSubcall =
  sc_sellAmount :: BigNumber
  sc_data :: MultiplexSubcallData

text \<open>The number of a subcall in the enumeration of the multiplex feature.\<close>

fun MultiplexSubcall :: "MultiplexSubcallData \<Rightarrow> nat" where
  "MultiplexSubcall (SubRfq _ _) = 1"
| "MultiplexSubcall (SubOtc _ _) = 2"
| "MultiplexSubcall (SubUniswapV2 _ _) = 3"
| "MultiplexSubcall (SubUniswapV3 _) = 4"
| "MultiplexSubcall (SubTransformERC20 _) = 6"

record CurveLiquidityProviderData =
  clp_curveAddress :: Address
  clp_exchangeFunctionSelector :: string
  clp_fromCoinIdx :: BigNumber
  clp_toCoinIdx :: BigNumber

datatype ExchangeProxyCall =
    sellToUniswap "Address list" BigNumber BigNumber bool
  | sellEthForTokenToUniswapV3 string BigNumber Address
  | sellTokenForEthToUniswapV3 string BigNumber BigNumber Address
  | sellTokenForTokenToUniswapV3 string BigNumber BigNumber Address
  | sellToPancakeSwap "Address list" BigNumber BigNumber int
  | sellToLiquidityProvider Address Address Address Address BigNumber BigNumber CurveLiquidityProviderData
  | fillRfqOrder OrderFields string BigNumber
  | batchFillRfqOrders "OrderFields list" "string list" "BigNumber list" bool
  | fillOtcOrderWithEth OrderFields string
  | fillOtcOrderForEth OrderFields string BigNumber
  | fillOtcOrder OrderFields string BigNumber
  | multiplexBatchSellEthForToken Address "BatchSubcall list" BigNumber
  | multiplexBatchSellTokenForEth Address "BatchSubcall list" BigNumber BigNumber
  | multiplexBatchSellTokenForToken Address Address "BatchSubcall list" BigNumber BigNumber
  | multiplexMultiHopSellEthForToken "Address list" "MultiplexSubcallData list" BigNumber
  | multiplexMultiHopSellTokenForEth "Address list" "MultiplexSubcallData list" BigNumber BigNumber
  | multiplexMultiHopSellTokenForToken "Address list" "MultiplexSubcallData list" BigNumber BigNumber
  | transformERC20 Address Address BigNumber BigNumber "ERC20Transformation list"

record CalldataInfo =
  calldata :: ExchangeProxyCall
  ethAmount :: BigNumber
  toAddress :: Address
  allowanceTarget :: Address
  gasOverhead :: BigNumber

section \<open>Compatibility of a quote with a feature\<close>

definition MULTIPLEX_BATCH_FILL_SOURCES :: "ERC20BridgeSource list" where
  "MULTIPLEX_BATCH_FILL_SOURCES = [UniswapV2, SushiSwap, Native, UniswapV3]"

definition MULTIPLEX_MULTIHOP_FILL_SOURCES :: "ERC20BridgeSource list" where
  "MULTIPLEX_MULTIHOP_FILL_SOURCES = [UniswapV2, SushiSwap, UniswapV3]"

definition requiresTransformERC20 :: "ExchangeProxyContractOpts \<Rightarrow> bool" where
  "requiresTransformERC20 opts =
     (if metaTransactionVersion opts \<noteq> None then True
      else if list_ex (\<lambda>f. 0 < buyTokenFeeAmount f \<or> 0 < sellTokenFeeAmount f)
                (sellTokenAffiliateFees opts @ buyTokenAffiliateFees opts) then True
      else if shouldSellEntireBalance opts then True
      else False)"

definition isMultiplexBatchFillCompatible :: "SwapQuote \<Rightarrow> ExchangeProxyContractOpts \<Rightarrow> bool" where
  "isMultiplexBatchFillCompatible quote opts =
     (if requiresTransformERC20 opts then False
      else if hasTwoHop (swq_path quote) then False
      else if Limit \<in> set (map oo_type (getOrders (swq_path quote))) then False
      else list_all (\<lambda>source. source \<in> set MULTIPLEX_BATCH_FILL_SOURCES)
             (map oo_source (getOrders (swq_path quote))))"

definition isMultiplexMultiHopFillCompatible :: "Path \<Rightarrow> ExchangeProxyContractOpts \<Rightarrow> bool" where
  "isMultiplexMultiHopFillCompatible path opts =
     (if requiresTransformERC20 opts then False
      else let os = path_ordersByType path in
        if length (bridgeOrders os) \<noteq> 0 \<or> length (nativeOrders os) \<noteq> 0 then False
        else case twoHopOrders os of
          [t] \<Rightarrow> oo_source (firstHopOrder t) \<in> set MULTIPLEX_MULTIHOP_FILL_SOURCES \<and>
                oo_source (secondHopOrder t) \<in> set MULTIPLEX_MULTIHOP_FILL_SOURCES
        | _ \<Rightarrow> False)"

definition isDirectSwapCompatible ::
  "Path \<Rightarrow> ExchangeProxyContractOpts \<Rightarrow> ERC20BridgeSource list \<Rightarrow> bool" where
  "isDirectSwapCompatible path opts directSources =
     (if requiresTransformERC20 opts then False
      else case getOrders path of
        [order] \<Rightarrow> oo_source order \<in> set directSources
      | _ \<Rightarrow> False)"

definition getMaxQuoteSlippageRate :: "SwapQuote \<Rightarrow> js_number" where
  "getMaxQuoteSlippageRate quote = qi_slippage (swq_worstCaseQuoteInfo quote)"

definition isBuyQuote :: "SwapQuote \<Rightarrow> bool" where
  "isBuyQuote quote = (swq_type quote = Buy)"

definition getTransformerNonces :: "ProtocolLib \<Rightarrow> ContractAddresses \<Rightarrow> TransformerNonces" where
  "getTransformerNonces lib ca =
     (let nonce = \<lambda>transformer. pl_findTransformerNonce lib transformer (ca_exchangeProxyTransformerDeployer ca)
      in \<lparr>n_wethTransformer = nonce (ca_wethTransformer ca),
          n_payTakerTransformer = nonce (ca_payTakerTransformer ca),
          n_fillQuoteTransformer = nonce (ca_fillQuoteTransformer ca),
          n_affiliateFeeTransformer = nonce (ca_affiliateFeeTransformer ca),
          n_positiveSlippageFeeTransformer = nonce (ca_positiveSlippageFeeTransformer ca)\<rparr>)"

section \<open>The orders of a fill-quote transformer\<close>

definition native_info :: "OptimizedOrder \<Rightarrow> js_error + FQTNativeOrderInfo" where
  "native_info order =
     (case oo_fillData order of
        NativeFD native \<Rightarrow>
          Inr \<lparr>no_order = sno_order native, no_signature = sno_signature native,
               no_maxTakerTokenFillAmount = oo_takerAmount order\<rparr>
      | _ \<Rightarrow> Inl TypeError)"

definition bridge_info :: "ProtocolLib \<Rightarrow> OptimizedOrder \<Rightarrow> js_error + FQTBridgeOrder" where
  "bridge_info lib order =
     res_bind (createBridgeDataForBridgeOrder (pl_abiEncode lib) order)
       (\<lambda>bridgeData. res_bind (getErc20BridgeSourceToBridgeSource (pl_encodeBridgeSourceId lib) (oo_source order))
         (\<lambda>source. Inr \<lparr>bo_bridgeData = bridgeData, bo_makerTokenAmount = oo_makerAmount order,
                         bo_takerTokenAmount = oo_takerAmount order, bo_source = source\<rparr>))"

definition push_order :: "ProtocolLib \<Rightarrow> FQTOrders \<Rightarrow> OptimizedOrder \<Rightarrow> js_error + FQTOrders" where
  "push_order lib fqtData order =
     res_bind
       (case oo_type order of
          Bridge \<Rightarrow> res_bind (bridge_info lib order)
            (\<lambda>i. Inr (fqtData\<lparr>fqt_bridgeOrders := fqt_bridgeOrders fqtData @ [i]\<rparr>))
        | Limit \<Rightarrow> res_bind (native_info order)
            (\<lambda>i. Inr (fqtData\<lparr>fqt_limitOrders := fqt_limitOrders fqtData @ [i]\<rparr>))
        | Rfq \<Rightarrow> res_bind (native_info order)
            (\<lambda>i. Inr (fqtData\<lparr>fqt_rfqOrders := fqt_rfqOrders fqtData @ [i]\<rparr>))
        | Otc \<Rightarrow> res_bind (native_info order)
            (\<lambda>i. Inr (fqtData\<lparr>fqt_otcOrders := fqt_otcOrders fqtData @ [i]\<rparr>)))
       (\<lambda>d. Inr (d\<lparr>fqt_fillSequence := fqt_fillSequence d @ [oo_type order]\<rparr>))"

fun push_orders :: "ProtocolLib \<Rightarrow> FQTOrders \<Rightarrow> OptimizedOrder list \<Rightarrow> js_error + FQTOrders" where
  "push_orders lib fqtData [] = Inr fqtData"
| "push_orders lib fqtData (order # orders) =
     res_bind (push_order lib fqtData order) (\<lambda>d. push_orders lib d orders)"

definition getFQTTransformerDataFromOptimizedOrders ::
  "ProtocolLib \<Rightarrow> OptimizedOrder list \<Rightarrow> js_error + FQTOrders" where
  "getFQTTransformerDataFromOptimizedOrders lib orders =
     push_orders lib \<lparr>fqt_bridgeOrders = [], fqt_limitOrders = [], fqt_rfqOrders = [], fqt_otcOrders = [],
       fqt_fillSequence = []\<rparr> orders"

section \<open>The common context of the rules\<close>

record SwapContext =
  cx_sellToken :: Address
  cx_buyToken :: Address
  cx_sellAmount :: BigNumber
  cx_minBuyAmount :: BigNumber
  cx_ethAmount :: BigNumber
  cx_maxSlippage :: js_number

definition getSwapContext :: "SwapQuote \<Rightarrow> ExchangeProxyContractOpts \<Rightarrow> SwapContext" where
  "getSwapContext quote opts =
     (let sellAmount = bn_max (qi_totalTakerAmount (swq_bestCaseQuoteInfo quote))
                              (qi_totalTakerAmount (swq_worstCaseQuoteInfo quote))
      in \<lparr>cx_sellToken = swq_takerToken quote, cx_buyToken = swq_makerToken quote,
          cx_sellAmount = sellAmount,
          cx_minBuyAmount = qi_makerAmount (swq_worstCaseQuoteInfo quote),
          cx_ethAmount = qi_protocolFeeInWeiAmount (swq_worstCaseQuoteInfo quote) +
                         (if isFromETH opts then sellAmount else 0),
          cx_maxSlippage = getMaxQuoteSlippageRate quote\<rparr>)"

text \<open>The tokens of a Uniswap V2 style path, with the native token at the ends that are native.\<close>

definition native_ends :: "Address \<Rightarrow> bool \<Rightarrow> bool \<Rightarrow> Address list \<Rightarrow> Address list" where
  "native_ends ETH_TOKEN_ADDRESS fromETH toETH path =
     map (\<lambda>(i, a). if i = 0 \<and> fromETH then ETH_TOKEN_ADDRESS
                    else if i = length path - 1 \<and> toETH then ETH_TOKEN_ADDRESS
                    else a) (enumerate 0 path)"

fun tokenAddressPath_of :: "FillData \<Rightarrow> (js_error, Address list) sum" where
  "tokenAddressPath_of (UniswapV2FD tokenAddressPath _) = Inr tokenAddressPath"
| "tokenAddressPath_of (TickDEXMultiPathFD tokenAddressPath _ _) = Inr tokenAddressPath"
| "tokenAddressPath_of (FinalTickDEXMultiPathFD tokenAddressPath _ _ _) = Inr tokenAddressPath"
| "tokenAddressPath_of (KyberDmmFD tokenAddressPath _ _) = Inr tokenAddressPath"
| "tokenAddressPath_of (GMXFD _ _ _ tokenAddressPath) = Inr tokenAddressPath"
| "tokenAddressPath_of (PlatypusFD _ _ tokenAddressPath) = Inr tokenAddressPath"
| "tokenAddressPath_of _ = Inl TypeError"

fun uniswapV3Path_of :: "FillData \<Rightarrow> (js_error, string) sum" where
  "uniswapV3Path_of (FinalTickDEXMultiPathFD _ _ path _) = Inr path"
| "uniswapV3Path_of _ = Inl TypeError"

definition first_order :: "OptimizedOrder list \<Rightarrow> js_error + OptimizedOrder" where
  "first_order orders = (case orders of [] \<Rightarrow> Inl TypeError | order # _ \<Rightarrow> Inr order)"

section \<open>The consumer\<close>

record ExchangeProxySwapQuoteConsumer =
  qc_chainId :: ChainId
  qc_contractAddresses :: ContractAddresses
  qc_transformerNonces :: TransformerNonces

text \<open>The registry of the consumer creates both rules with the chain and the addresses of the consumer, so
  the rules read them from it.\<close>

definition create_consumer :: "ProtocolLib \<Rightarrow> ChainId \<Rightarrow> ContractAddresses \<Rightarrow> ExchangeProxySwapQuoteConsumer" where
  "create_consumer lib chainId ca =
     \<lparr>qc_chainId = chainId, qc_contractAddresses = ca, qc_transformerNonces = getTransformerNonces lib ca\<rparr>"

definition calldata_info ::
  "ExchangeProxySwapQuoteConsumer \<Rightarrow> ExchangeProxyCall \<Rightarrow> BigNumber \<Rightarrow> BigNumber \<Rightarrow> CalldataInfo" where
  "calldata_info consumer call eth overhead =
     (let exchangeProxy = ca_exchangeProxy (qc_contractAddresses consumer)
      in \<lparr>calldata = call, ethAmount = eth, toAddress = exchangeProxy, allowanceTarget = exchangeProxy,
          gasOverhead = overhead\<rparr>)"

definition NATIVE_FEE_TOKEN_BY_CHAIN_ID :: "ProtocolLib \<Rightarrow> ChainId \<Rightarrow> Address" where
  "NATIVE_FEE_TOKEN_BY_CHAIN_ID lib =
     valueByChainId
       (map (\<lambda>c. (c, ca_etherToken (pl_contractAddresses lib c)))
          [Mainnet, BSC, Ganache, Goerli, PolygonMumbai, Polygon, Avalanche, Fantom, Celo, Optimism, Arbitrum])
       NULL_ADDRESS"

definition CURVE_LIQUIDITY_PROVIDER_BY_CHAIN_ID :: "ChainId \<Rightarrow> Address" where
  "CURVE_LIQUIDITY_PROVIDER_BY_CHAIN_ID =
     valueByChainId [(Mainnet, ''0x561b94454b65614ae3db0897b74303f4acf7cc75'')] NULL_ADDRESS"

section \<open>The Uniswap V2 rule\<close>

definition uniswapV2_isCompatible ::
  "ExchangeProxySwapQuoteConsumer \<Rightarrow> SwapQuote \<Rightarrow> ExchangeProxyContractOpts \<Rightarrow> bool" where
  "uniswapV2_isCompatible consumer quote opts =
     (if qc_chainId consumer \<noteq> Mainnet then False
      else isDirectSwapCompatible (swq_path quote) opts [UniswapV2, SushiSwap])"

definition uniswapV2_createCalldata ::
  "ProtocolLib \<Rightarrow> ExchangeProxySwapQuoteConsumer \<Rightarrow> SwapQuote \<Rightarrow> ExchangeProxyContractOpts \<Rightarrow>
   js_error + CalldataInfo" where
  "uniswapV2_createCalldata lib consumer quote opts =
     (let ctx = getSwapContext quote opts
      in res_bind (getSlippedOrders (swq_path quote) (cx_maxSlippage ctx))
         (\<lambda>slipped. res_bind (first_order slipped)
         (\<lambda>slippedOrder. res_bind (tokenAddressPath_of (oo_fillData slippedOrder))
         (\<lambda>tokens. Inr (calldata_info consumer
            (sellToUniswap (native_ends (pl_ETH_TOKEN_ADDRESS lib) (isFromETH opts) (isToETH opts) tokens)
               (cx_sellAmount ctx) (cx_minBuyAmount ctx) (oo_source slippedOrder = SushiSwap))
            (if isFromETH opts then cx_sellAmount ctx else ZERO_AMOUNT) ZERO_AMOUNT)))))"

section \<open>The transformERC20 rule\<close>

definition getIntermediateTokens :: "TwoHopOrder list \<Rightarrow> Address list" where
  "getIntermediateTokens twoHops = map (\<lambda>t. oo_makerToken (firstHopOrder t)) twoHops"

definition getTwoHopFillAmount :: "MarketOperation \<Rightarrow> TwoHopOrder list \<Rightarrow> BigNumber" where
  "getTwoHopFillAmount side twoHops =
     (if side = Sell then bn_sum (Fin 0 # map (\<lambda>t. oo_takerAmount (firstHopOrder t)) twoHops)
      else bn_sum (Fin 0 # map (\<lambda>t. oo_makerAmount (secondHopOrder t)) twoHops))"

definition getNonTwoHopFillAmount :: "SwapQuote \<Rightarrow> BigNumber" where
  "getNonTwoHopFillAmount quote =
     swq_fillAmount quote -
       getTwoHopFillAmount (swq_type quote) (twoHopOrders (path_ordersByType (swq_path quote)))"

definition fqt ::
  "ProtocolLib \<Rightarrow> ExchangeProxySwapQuoteConsumer \<Rightarrow> FillQuoteTransformerSide \<Rightarrow> Address \<Rightarrow> Address \<Rightarrow>
   OptimizedOrder list \<Rightarrow> Address \<Rightarrow> BigNumber \<Rightarrow> js_error + ERC20Transformation" where
  "fqt lib consumer side sellToken buyToken orders receiver fillAmount =
     res_bind (getFQTTransformerDataFromOptimizedOrders lib orders)
       (\<lambda>fqtOrders. Inr
          \<lparr>deploymentNonce = n_fillQuoteTransformer (qc_transformerNonces consumer),
           tr_data = FillQuoteData side sellToken buyToken fqtOrders
                       (if receiver \<noteq> [] then receiver else NULL_ADDRESS) fillAmount\<rparr>)"

definition two_hop_transformations ::
  "ProtocolLib \<Rightarrow> ExchangeProxySwapQuoteConsumer \<Rightarrow> SwapQuote \<Rightarrow> ExchangeProxyContractOpts \<Rightarrow> TwoHopOrder \<Rightarrow>
   js_error + ERC20Transformation list" where
  "two_hop_transformations lib consumer quote opts twoHop =
     (let ctx = getSwapContext quote opts;
          intermediateToken = oo_makerToken (firstHopOrder twoHop)
      in res_bind (fqt lib consumer SideSell (cx_sellToken ctx) intermediateToken [firstHopOrder twoHop]
                     (refundReceiver opts)
                     (if \<not> isBuyQuote quote \<and> shouldSellEntireBalance opts then MAX_UINT256
                      else oo_takerAmount (firstHopOrder twoHop)))
         (\<lambda>first. res_bind (fqt lib consumer SideSell intermediateToken (cx_buyToken ctx) [secondHopOrder twoHop]
                              (refundReceiver opts) MAX_UINT256)
         (\<lambda>second. Inr [first, second])))"

definition createTwoHopTransformations ::
  "ProtocolLib \<Rightarrow> ExchangeProxySwapQuoteConsumer \<Rightarrow> SwapQuote \<Rightarrow> ExchangeProxyContractOpts \<Rightarrow>
   js_error + ERC20Transformation list" where
  "createTwoHopTransformations lib consumer quote opts =
     res_bind (getSlippedOrdersByType (swq_path quote) (cx_maxSlippage (getSwapContext quote opts)))
       (\<lambda>slipped. res_bind (res_map (two_hop_transformations lib consumer quote opts) (twoHopOrders slipped))
         (\<lambda>ts. Inr (concat ts)))"

definition createNonTwoHopTransformation ::
  "ProtocolLib \<Rightarrow> ExchangeProxySwapQuoteConsumer \<Rightarrow> SwapQuote \<Rightarrow> ExchangeProxyContractOpts \<Rightarrow>
   js_error + ERC20Transformation option" where
  "createNonTwoHopTransformation lib consumer quote opts =
     (let ctx = getSwapContext quote opts
      in res_bind (getSlippedOrdersByType (swq_path quote) (cx_maxSlippage ctx))
         (\<lambda>slipped. let nonTwoHopOrders = nativeOrders slipped @ bridgeOrders slipped in
            if length nonTwoHopOrders = 0 then Inr None
            else res_bind
              (fqt lib consumer (if isBuyQuote quote then SideBuy else SideSell) (cx_sellToken ctx)
                 (cx_buyToken ctx) nonTwoHopOrders (refundReceiver opts)
                 (if \<not> isBuyQuote quote \<and> shouldSellEntireBalance opts then MAX_UINT256
                  else getNonTwoHopFillAmount quote))
              (\<lambda>t. Inr (Some t))))"

definition createFillQuoteTransformations ::
  "ProtocolLib \<Rightarrow> ExchangeProxySwapQuoteConsumer \<Rightarrow> SwapQuote \<Rightarrow> ExchangeProxyContractOpts \<Rightarrow>
   js_error + ERC20Transformation list" where
  "createFillQuoteTransformations lib consumer quote opts =
     res_bind (createTwoHopTransformations lib consumer quote opts)
       (\<lambda>twoHops. res_bind (createNonTwoHopTransformation lib consumer quote opts)
         (\<lambda>nonTwoHop. Inr (case nonTwoHop of None \<Rightarrow> twoHops | Some t \<Rightarrow> twoHops @ [t])))"

definition createPayTakerTransformation ::
  "ProtocolLib \<Rightarrow> ExchangeProxySwapQuoteConsumer \<Rightarrow> SwapQuote \<Rightarrow> ExchangeProxyContractOpts \<Rightarrow> ERC20Transformation" where
  "createPayTakerTransformation lib consumer quote opts =
     \<lparr>deploymentNonce = n_payTakerTransformer (qc_transformerNonces consumer),
      tr_data = PayTakerData
        (cx_sellToken (getSwapContext quote opts) #
         getIntermediateTokens (twoHopOrders (path_ordersByType (swq_path quote))) @
         (if \<not> isToETH opts then [pl_ETH_TOKEN_ADDRESS lib] else [])) []\<rparr>"

text \<open>The loop over the buy-token fees changes the transformations, the gas overhead and the minimum
  buy amount.\<close>

record FeeLoop =
  fl_transformations :: "ERC20Transformation list"
  fl_gasOverhead :: BigNumber
  fl_minBuyAmount :: BigNumber

definition bestCaseAmountWithSurplus :: "SwapQuote \<Rightarrow> BigNumber" where
  "bestCaseAmountWithSurplus quote =
     (let best = qi_makerAmount (swq_bestCaseQuoteInfo quote)
      in bn_max (integerValue_default
                  (best + POSITIVE_SLIPPAGE_FEE_TRANSFORMER_GAS * swq_gasPrice quote * swq_makerAmountPerEth quote))
                best)"

definition push_fee :: "ExchangeProxySwapQuoteConsumer \<Rightarrow> Address \<Rightarrow> AffiliateFeeAmount \<Rightarrow> FeeLoop \<Rightarrow> FeeLoop" where
  "push_fee consumer token fee s =
     (if 0 < buyTokenFeeAmount fee
      then s\<lparr>fl_transformations := fl_transformations s @
               [\<lparr>deploymentNonce = n_affiliateFeeTransformer (qc_transformerNonces consumer),
                 tr_data = AffiliateFeeData
                   [\<lparr>tf_token = token, tf_amount = buyTokenFeeAmount fee, tf_recipient = af_recipient fee\<rparr>]\<rparr>],
             fl_minBuyAmount := bn_max 0 (fl_minBuyAmount s - buyTokenFeeAmount fee)\<rparr>
      else s)"

definition buy_token_fee ::
  "ProtocolLib \<Rightarrow> ExchangeProxySwapQuoteConsumer \<Rightarrow> SwapQuote \<Rightarrow> ExchangeProxyContractOpts \<Rightarrow> FeeLoop \<Rightarrow>
   AffiliateFeeAmount \<Rightarrow> FeeLoop" where
  "buy_token_fee lib consumer quote opts s fee =
     (let token = (if isToETH opts then pl_ETH_TOKEN_ADDRESS lib else swq_makerToken quote) in
      if af_recipient fee = NULL_ADDRESS then s
      else case feeType fee of
        NoFee \<Rightarrow> s
      | PositiveSlippageFee \<Rightarrow>
          s\<lparr>fl_transformations := fl_transformations s @
              [\<lparr>deploymentNonce = n_positiveSlippageFeeTransformer (qc_transformerNonces consumer),
                tr_data = PositiveSlippageFeeData token (bestCaseAmountWithSurplus quote) (af_recipient fee)\<rparr>],
            fl_gasOverhead := POSITIVE_SLIPPAGE_FEE_TRANSFORMER_GAS + fl_gasOverhead s\<rparr>
      | PercentageFee \<Rightarrow> push_fee consumer token fee s
      | GaslessFee \<Rightarrow> push_fee consumer token fee s)"

definition buyTokenFees :: "ExchangeProxyContractOpts \<Rightarrow> AffiliateFeeAmount list" where
  "buyTokenFees opts =
     buyTokenAffiliateFees opts @ (case positiveSlippageFee opts of None \<Rightarrow> [] | Some fee \<Rightarrow> [fee])"

definition sell_fee_transformations ::
  "ProtocolLib \<Rightarrow> ExchangeProxySwapQuoteConsumer \<Rightarrow> SwapQuote \<Rightarrow> ExchangeProxyContractOpts \<Rightarrow>
   ERC20Transformation list" where
  "sell_fee_transformations lib consumer quote opts =
     (if 0 < length (sellTokenAffiliateFees opts) then
        [\<lparr>deploymentNonce = n_affiliateFeeTransformer (qc_transformerNonces consumer),
          tr_data = AffiliateFeeData
            (map (\<lambda>fee. \<lparr>tf_token = (if isFromETH opts then pl_ETH_TOKEN_ADDRESS lib else swq_takerToken quote),
                         tf_amount = sellTokenFeeAmount fee, tf_recipient = af_recipient fee\<rparr>)
               (filter (\<lambda>fee. 0 < sellTokenFeeAmount fee) (sellTokenAffiliateFees opts)))\<rparr>]
      else [])"

definition adjusted_sell_amount :: "SwapQuote \<Rightarrow> ExchangeProxyContractOpts \<Rightarrow> BigNumber" where
  "adjusted_sell_amount quote opts =
     (let sellAmount = cx_sellAmount (getSwapContext quote opts) in
      if 0 < length (sellTokenAffiliateFees opts) \<and> metaTransactionVersion opts = Some v1
      then sellAmount + foldl (\<lambda>s fee. s + sellTokenFeeAmount fee) (Fin 0) (sellTokenAffiliateFees opts)
      else sellAmount)"

definition wrap_transformation ::
  "ExchangeProxySwapQuoteConsumer \<Rightarrow> Address \<Rightarrow> BigNumber \<Rightarrow> ERC20Transformation list" where
  "wrap_transformation consumer token amount =
     (if qc_chainId consumer \<noteq> Celo
      then [\<lparr>deploymentNonce = n_wethTransformer (qc_transformerNonces consumer), tr_data = WethData token amount\<rparr>]
      else [])"

definition transformERC20_createCalldata ::
  "ProtocolLib \<Rightarrow> ExchangeProxySwapQuoteConsumer \<Rightarrow> SwapQuote \<Rightarrow> ExchangeProxyContractOpts \<Rightarrow>
   js_error + CalldataInfo" where
  "transformERC20_createCalldata lib consumer quote opts =
     (let ctx = getSwapContext quote opts;
          ETH = pl_ETH_TOKEN_ADDRESS lib;
          sellAmount = adjusted_sell_amount quote opts;
          sellOrBalance = (if shouldSellEntireBalance opts then MAX_UINT256 else sellAmount)
      in res_bind (createFillQuoteTransformations lib consumer quote opts)
         (\<lambda>fills.
            let s = foldl (buy_token_fee lib consumer quote opts)
                      \<lparr>fl_transformations =
                         sell_fee_transformations lib consumer quote opts @
                         (if isFromETH opts then wrap_transformation consumer ETH sellOrBalance else []) @
                         fills @
                         (if isToETH opts
                          then wrap_transformation consumer
                                 (NATIVE_FEE_TOKEN_BY_CHAIN_ID lib (qc_chainId consumer)) MAX_UINT256
                          else []),
                       fl_gasOverhead = ZERO_AMOUNT, fl_minBuyAmount = cx_minBuyAmount ctx\<rparr>
                      (buyTokenFees opts);
                TO_ETH_ADDRESS = (if qc_chainId consumer = Celo
                                  then ca_etherToken (qc_contractAddresses consumer) else ETH)
            in Inr (calldata_info consumer
                 (transformERC20 (if isFromETH opts then ETH else cx_sellToken ctx)
                    (if isToETH opts then TO_ETH_ADDRESS else cx_buyToken ctx)
                    sellOrBalance (fl_minBuyAmount s)
                    (fl_transformations s @ [createPayTakerTransformation lib consumer quote opts]))
                 (cx_ethAmount ctx) (fl_gasOverhead s))))"

section \<open>Multiplex calls\<close>

definition uniswapV2_subcall :: "OptimizedOrder \<Rightarrow> js_error + MultiplexSubcallData" where
  "uniswapV2_subcall order =
     res_bind (tokenAddressPath_of (oo_fillData order))
       (\<lambda>tokens. Inr (SubUniswapV2 tokens (oo_source order = SushiSwap)))"

definition uniswapV3_subcall :: "OptimizedOrder \<Rightarrow> js_error + MultiplexSubcallData" where
  "uniswapV3_subcall order = res_bind (uniswapV3Path_of (oo_fillData order)) (\<lambda>path. Inr (SubUniswapV3 path))"

definition native_subcall :: "OptimizedOrder \<Rightarrow> js_error + MultiplexSubcallData" where
  "native_subcall order =
     (if oo_type order \<noteq> Rfq \<and> oo_type order \<noteq> Otc
      then Inl (Error ''Multiplex batch fill only supported for RFQ native orders and OTC Orders'')
      else res_bind (native_info order)
        (\<lambda>i. Inr (if oo_type order \<noteq> Otc then SubRfq (no_order i) (no_signature i)
                   else SubOtc (no_order i) (no_signature i))))"

text \<open>Once an order has no subcall of its own, it and all that follow go into one \<open>transformERC20\<close>
  subcall and the loop ends.\<close>

definition rest_subcall ::
  "ProtocolLib \<Rightarrow> ExchangeProxySwapQuoteConsumer \<Rightarrow> SwapQuote \<Rightarrow> OptimizedOrder list \<Rightarrow> js_error + BatchSubcall" where
  "rest_subcall lib consumer quote rest =
     res_bind (getFQTTransformerDataFromOptimizedOrders lib rest)
       (\<lambda>fqtOrders. Inr
          \<lparr>sc_sellAmount = bn_sum (map oo_takerAmount rest),
           sc_data = SubTransformERC20
             [\<lparr>deploymentNonce = n_fillQuoteTransformer (qc_transformerNonces consumer),
               tr_data = FillQuoteData SideSell (swq_takerToken quote) (swq_makerToken quote) fqtOrders
                           NULL_ADDRESS MAX_UINT256\<rparr>,
              \<lparr>deploymentNonce = n_payTakerTransformer (qc_transformerNonces consumer),
               tr_data = PayTakerData [swq_takerToken quote] []\<rparr>]\<rparr>)"

fun batch_subcalls ::
  "ProtocolLib \<Rightarrow> ExchangeProxySwapQuoteConsumer \<Rightarrow> SwapQuote \<Rightarrow> OptimizedOrder list \<Rightarrow>
   js_error + BatchSubcall list" where
  "batch_subcalls lib consumer quote [] = Inr []"
| "batch_subcalls lib consumer quote (order # orders) =
     (let continue_with = \<lambda>sub.
            res_bind sub
              (\<lambda>d. res_bind (batch_subcalls lib consumer quote orders)
                (\<lambda>rest. Inr (\<lparr>sc_sellAmount = oo_takerAmount order, sc_data = d\<rparr> # rest)))
      in case oo_source order of
           Native \<Rightarrow> continue_with (native_subcall order)
         | UniswapV2 \<Rightarrow> continue_with (uniswapV2_subcall order)
         | SushiSwap \<Rightarrow> continue_with (uniswapV2_subcall order)
         | UniswapV3 \<Rightarrow> continue_with (uniswapV3_subcall order)
         | _ \<Rightarrow> res_bind (rest_subcall lib consumer quote (order # orders)) (\<lambda>sub. Inr [sub]))"

definition encodeMultiplexBatchFillCalldata ::
  "ProtocolLib \<Rightarrow> ExchangeProxySwapQuoteConsumer \<Rightarrow> SwapQuote \<Rightarrow> ExchangeProxyContractOpts \<Rightarrow>
   js_error + ExchangeProxyCall" where
  "encodeMultiplexBatchFillCalldata lib consumer quote opts =
     (let worst = swq_worstCaseQuoteInfo quote
      in res_bind (getSlippedOrders (swq_path quote) (getMaxQuoteSlippageRate quote))
         (\<lambda>slippedOrders. res_bind (batch_subcalls lib consumer quote slippedOrders)
         (\<lambda>subcalls. Inr
            (if isFromETH opts
             then multiplexBatchSellEthForToken (swq_makerToken quote) subcalls (qi_makerAmount worst)
             else if isToETH opts
             then multiplexBatchSellTokenForEth (swq_takerToken quote) subcalls (qi_totalTakerAmount worst)
                    (qi_makerAmount worst)
             else multiplexBatchSellTokenForToken (swq_takerToken quote) (swq_makerToken quote) subcalls
                    (qi_totalTakerAmount worst) (qi_makerAmount worst)))))"

definition multihop_subcall :: "OptimizedOrder \<Rightarrow> js_error + MultiplexSubcallData" where
  "multihop_subcall order =
     (case oo_source order of
        UniswapV2 \<Rightarrow> uniswapV2_subcall order
      | SushiSwap \<Rightarrow> uniswapV2_subcall order
      | UniswapV3 \<Rightarrow> uniswapV3_subcall order
      | _ \<Rightarrow> Inl (Error (''Multiplex multi-hop unsupported source: '' @ source_value (oo_source order))))"

definition encodeMultiplexMultiHopFillCalldata ::
  "SwapQuote \<Rightarrow> ExchangeProxyContractOpts \<Rightarrow> js_error + ExchangeProxyCall" where
  "encodeMultiplexMultiHopFillCalldata quote opts =
     (let worst = swq_worstCaseQuoteInfo quote
      in res_bind (getSlippedOrdersByType (swq_path quote) (getMaxQuoteSlippageRate quote))
         (\<lambda>os. if \<not> (length (nativeOrders os) = 0 \<and> length (bridgeOrders os) = 0)
                then Inl (Error ''non-multihop should not go through multiplexMultihop'')
                else case twoHopOrders os of
                  [twoHop] \<Rightarrow>
                    (let tokens = [swq_takerToken quote, oo_makerToken (firstHopOrder twoHop), swq_makerToken quote]
                     in res_bind (res_map multihop_subcall [firstHopOrder twoHop, secondHopOrder twoHop])
                        (\<lambda>subcalls. Inr
                           (if isFromETH opts
                            then multiplexMultiHopSellEthForToken tokens subcalls (qi_makerAmount worst)
                            else if isToETH opts
                            then multiplexMultiHopSellTokenForEth tokens subcalls (qi_totalTakerAmount worst)
                                   (qi_makerAmount worst)
                            else multiplexMultiHopSellTokenForToken tokens subcalls (qi_totalTakerAmount worst)
                                   (qi_makerAmount worst))))
                | _ \<Rightarrow> Inl (Error ''multiplexMultiHop only supports single multihop order '')))"

section \<open>The direct routes\<close>

definition PANCAKE_SWAP_FORKS :: "ERC20BridgeSource list" where
  "PANCAKE_SWAP_FORKS = [PancakeSwap, PancakeSwapV2, BakerySwap, SushiSwap, ApeSwap]"

text \<open>\<open>xs.indexOf(x)\<close>.\<close>

fun indexOf :: "'a \<Rightarrow> 'a list \<Rightarrow> int" where
  "indexOf x [] = - 1"
| "indexOf x (y # ys) = (if x = y then 0 else if indexOf x ys = - 1 then - 1 else 1 + indexOf x ys)"

definition uniswapV3_call ::
  "ExchangeProxyContractOpts \<Rightarrow> BigNumber \<Rightarrow> BigNumber \<Rightarrow> string \<Rightarrow> ExchangeProxyCall" where
  "uniswapV3_call opts sellAmount minBuyAmount path =
     (if isFromETH opts then sellEthForTokenToUniswapV3 path minBuyAmount NULL_ADDRESS
      else if isToETH opts then sellTokenForEthToUniswapV3 path sellAmount minBuyAmount NULL_ADDRESS
      else sellTokenForTokenToUniswapV3 path sellAmount minBuyAmount NULL_ADDRESS)"

definition curve_call ::
  "ProtocolLib \<Rightarrow> ExchangeProxySwapQuoteConsumer \<Rightarrow> SwapQuote \<Rightarrow> ExchangeProxyContractOpts \<Rightarrow> BigNumber \<Rightarrow>
   FillData \<Rightarrow> js_error + ExchangeProxyCall" where
  "curve_call lib consumer quote opts sellAmount fillData =
     (case fillData of
        CurveFD fromTokenIdx toTokenIdx pool \<Rightarrow> Inr
          (sellToLiquidityProvider
             (if isFromETH opts then pl_ETH_TOKEN_ADDRESS lib else swq_takerToken quote)
             (if isToETH opts then pl_ETH_TOKEN_ADDRESS lib else swq_makerToken quote)
             (CURVE_LIQUIDITY_PROVIDER_BY_CHAIN_ID (qc_chainId consumer)) NULL_ADDRESS sellAmount
             (qi_makerAmount (swq_worstCaseQuoteInfo quote))
             \<lparr>clp_curveAddress = curve_poolAddress pool,
              clp_exchangeFunctionSelector = exchangeFunctionSelector pool,
              clp_fromCoinIdx = Fin (of_nat fromTokenIdx), clp_toCoinIdx = Fin (of_nat toTokenIdx)\<rparr>)
      | _ \<Rightarrow> Inl TypeError)"

text \<open>The amounts of the RFQ orders, clipped to what remains to be sold.\<close>

fun fillAmountPerOrder :: "BigNumber \<Rightarrow> OptimizedOrder list \<Rightarrow> BigNumber list" where
  "fillAmountPerOrder remaining [] = []"
| "fillAmountPerOrder remaining (order # orders) =
     (let fillAmount = bn_min (oo_takerAmount order) remaining
      in fillAmount # fillAmountPerOrder (remaining - fillAmount) orders)"

definition rfq_call :: "BigNumber \<Rightarrow> OptimizedOrder list \<Rightarrow> js_error + ExchangeProxyCall" where
  "rfq_call sellAmount slippedOrders =
     res_bind (res_map native_info slippedOrders)
       (\<lambda>infos. let amounts = fillAmountPerOrder sellAmount slippedOrders in
          Inr (if length slippedOrders = 1
               then fillRfqOrder (no_order (infos ! 0)) (no_signature (infos ! 0)) (amounts ! 0)
               else batchFillRfqOrders (map no_order infos) (map no_signature infos) amounts True))"

definition otc_call ::
  "ExchangeProxyContractOpts \<Rightarrow> BigNumber \<Rightarrow> OptimizedOrder \<Rightarrow> js_error + ExchangeProxyCall" where
  "otc_call opts sellAmount order =
     res_bind (native_info order)
       (\<lambda>i. Inr (if isFromETH opts then fillOtcOrderWithEth (no_order i) (no_signature i)
                  else if isToETH opts then fillOtcOrderForEth (no_order i) (no_signature i) sellAmount
                  else fillOtcOrder (no_order i) (no_signature i) sellAmount))"

definition route_calldata ::
  "ProtocolLib \<Rightarrow> ExchangeProxySwapQuoteConsumer \<Rightarrow> SwapQuote \<Rightarrow> ExchangeProxyContractOpts \<Rightarrow>
   js_error + CalldataInfo" where
  "route_calldata lib consumer quote opts =
     (let chainId = qc_chainId consumer;
          sellAmount = bn_max (qi_totalTakerAmount (swq_bestCaseQuoteInfo quote))
                              (qi_totalTakerAmount (swq_worstCaseQuoteInfo quote));
          minBuyAmount = qi_makerAmount (swq_worstCaseQuoteInfo quote);
          protocolFee = qi_protocolFeeInWeiAmount (swq_worstCaseQuoteInfo quote);
          eth = (if isFromETH opts then protocolFee + sellAmount else protocolFee);
          sellEth = (if isFromETH opts then sellAmount else ZERO_AMOUNT);
          direct = isDirectSwapCompatible (swq_path quote) opts;
          weth = NATIVE_FEE_TOKEN_BY_CHAIN_ID lib Mainnet
      in res_bind (getSlippedOrders (swq_path quote) (getMaxQuoteSlippageRate quote))
         (\<lambda>slippedOrders.
            if uniswapV2_isCompatible consumer quote opts then uniswapV2_createCalldata lib consumer quote opts
            else if chainId = Mainnet \<and> direct [UniswapV3] then
              res_bind (first_order slippedOrders)
                (\<lambda>order. res_bind (uniswapV3Path_of (oo_fillData order))
                (\<lambda>path. Inr (calldata_info consumer (uniswapV3_call opts sellAmount minBuyAmount path)
                                sellEth ZERO_AMOUNT)))
            else if chainId = BSC \<and> direct [PancakeSwap, PancakeSwapV2, BakerySwap, SushiSwap, ApeSwap] then
              res_bind (first_order slippedOrders)
                (\<lambda>order. res_bind (tokenAddressPath_of (oo_fillData order))
                (\<lambda>tokens. Inr (calldata_info consumer
                   (sellToPancakeSwap
                      (native_ends (pl_ETH_TOKEN_ADDRESS lib) (isFromETH opts) (isToETH opts) tokens)
                      sellAmount minBuyAmount (indexOf (oo_source order) PANCAKE_SWAP_FORKS))
                   sellEth ZERO_AMOUNT)))
            else if chainId = Mainnet \<and> direct [Curve] \<and>
                    weth \<notin> set [swq_takerToken quote, swq_makerToken quote] then
              res_bind (first_order slippedOrders)
                (\<lambda>order. res_bind (curve_call lib consumer quote opts sellAmount (oo_fillData order))
                (\<lambda>call. Inr (calldata_info consumer call sellEth ZERO_AMOUNT)))
            else if chainId \<in> set [Mainnet, Polygon] \<and> \<not> isToETH opts \<and> \<not> isFromETH opts \<and>
                    list_all (\<lambda>order. oo_type order = Rfq) slippedOrders \<and> \<not> requiresTransformERC20 opts then
              res_bind (rfq_call sellAmount slippedOrders)
                (\<lambda>call. Inr (calldata_info consumer call ZERO_AMOUNT ZERO_AMOUNT))
            else if chainId \<in> set [Mainnet, Polygon, PolygonMumbai] \<and>
                    list_all (\<lambda>order. oo_type order = Otc) slippedOrders \<and> \<not> requiresTransformERC20 opts \<and>
                    length slippedOrders = 1 then
              res_bind (first_order slippedOrders)
                (\<lambda>order. res_bind (otc_call opts sellAmount order)
                (\<lambda>call. Inr (calldata_info consumer call sellEth ZERO_AMOUNT)))
            else if chainId = Mainnet \<and> isMultiplexBatchFillCompatible quote opts then
              res_bind (encodeMultiplexBatchFillCalldata lib consumer quote opts)
                (\<lambda>call. Inr (calldata_info consumer call eth ZERO_AMOUNT))
            else if chainId = Mainnet \<and> isMultiplexMultiHopFillCompatible (swq_path quote) opts then
              res_bind (encodeMultiplexMultiHopFillCalldata quote opts)
                (\<lambda>call. Inr (calldata_info consumer call eth ZERO_AMOUNT))
            else transformERC20_createCalldata lib consumer quote opts))"

text \<open>A partial options object is the change it makes to the defaults it is spread over.\<close>

definition getCalldataOrThrow ::
  "ProtocolLib \<Rightarrow> ExchangeProxySwapQuoteConsumer \<Rightarrow> SwapQuote \<Rightarrow>
   (ExchangeProxyContractOpts \<Rightarrow> ExchangeProxyContractOpts) \<Rightarrow> js_error + CalldataInfo" where
  "getCalldataOrThrow lib consumer quote opts =
     route_calldata lib consumer quote (opts DEFAULT_EXCHANGE_PROXY_EXTENSION_CONTRACT_OPTS)"

end
