(* ===== verification/Quote_Calldata.thy ===== *)
theory Quote_Calldata
  imports Quote_Consumer
begin

text \<open>
  What the calls made by the quote consumers do: the fill-quote transformer replays the orders of the
  quote in their sequence, the direct routes are taken only when no affiliate fee, meta-transaction or
  whole-balance sale needs \<open>transformERC20\<close> (and drop a positive slippage fee), the minimum buy amount and the sell amounts of a call
  follow from the quote, and a quote found compatible with the multiplex feature is always encoded.
\<close>

section \<open>The orders of a fill-quote transformer\<close>

text \<open>The transformer walks the fill sequence and takes the next order of each type from the array of
  that type; it must end with all arrays used up.\<close>

datatype FQTFill =
    FillBridge FQTBridgeOrder
  | FillLimit FQTNativeOrderInfo
  | FillRfq FQTNativeOrderInfo
  | FillOtc FQTNativeOrderInfo

fun replay ::
  "FillQuoteTransformerOrderType list \<Rightarrow> FQTBridgeOrder list \<Rightarrow> FQTNativeOrderInfo list \<Rightarrow>
   FQTNativeOrderInfo list \<Rightarrow> FQTNativeOrderInfo list \<Rightarrow> FQTFill list option" where
  "replay [] [] [] [] [] = Some []"
| "replay (Bridge # ts) (b # bs) ls rs cs = map_option ((#) (FillBridge b)) (replay ts bs ls rs cs)"
| "replay (Limit # ts) bs (l # ls) rs cs = map_option ((#) (FillLimit l)) (replay ts bs ls rs cs)"
| "replay (Rfq # ts) bs ls (r # rs) cs = map_option ((#) (FillRfq r)) (replay ts bs ls rs cs)"
| "replay (Otc # ts) bs ls rs (c # cs) = map_option ((#) (FillOtc c)) (replay ts bs ls rs cs)"
| "replay _ _ _ _ _ = None"

definition replay_orders :: "FQTOrders \<Rightarrow> FQTFill list option" where
  "replay_orders d =
     replay (fqt_fillSequence d) (fqt_bridgeOrders d) (fqt_limitOrders d) (fqt_rfqOrders d) (fqt_otcOrders d)"

definition order_fill :: "ProtocolLib \<Rightarrow> OptimizedOrder \<Rightarrow> js_error + FQTFill" where
  "order_fill lib order =
     (case oo_type order of
        Bridge \<Rightarrow> map_sum id FillBridge (bridge_info lib order)
      | Limit \<Rightarrow> map_sum id FillLimit (native_info order)
      | Rfq \<Rightarrow> map_sum id FillRfq (native_info order)
      | Otc \<Rightarrow> map_sum id FillOtc (native_info order))"

lemma replay_snoc:
  assumes "replay ts bs ls rs cs = Some fs"
  shows "replay (ts @ [Bridge]) (bs @ [b]) ls rs cs = Some (fs @ [FillBridge b])"
    and "replay (ts @ [Limit]) bs (ls @ [n]) rs cs = Some (fs @ [FillLimit n])"
    and "replay (ts @ [Rfq]) bs ls (rs @ [n]) cs = Some (fs @ [FillRfq n])"
    and "replay (ts @ [Otc]) bs ls rs (cs @ [n]) = Some (fs @ [FillOtc n])"
  using assms by (induction ts bs ls rs cs arbitrary: fs rule: replay.induct) auto

lemma push_order_fill:
  assumes "replay_orders d = Some fs"
  shows "map_sum id replay_orders (push_order lib d order) =
    map_sum id (\<lambda>f. Some (fs @ [f])) (order_fill lib order)"
  using assms replay_snoc
  by (auto simp: push_order_def order_fill_def replay_orders_def res_bind_def
      split: FillQuoteTransformerOrderType.splits sum.splits)

lemma push_orders_fills:
  assumes "replay_orders d = Some fs"
  shows "map_sum id replay_orders (push_orders lib d orders) =
    map_sum id (\<lambda>gs. Some (fs @ gs)) (res_map (order_fill lib) orders)"
  using assms
proof (induction orders arbitrary: d fs)
  case Nil
  then show ?case by simp
next
  case (Cons order orders)
  note step = push_order_fill[OF Cons.prems, of lib order]
  show ?case
  proof (cases "order_fill lib order")
    case (Inl e)
    with step show ?thesis by (cases "push_order lib d order") auto
  next
    case (Inr f)
    with step obtain d' where d': "push_order lib d order = Inr d'" "replay_orders d' = Some (fs @ [f])"
      by (cases "push_order lib d order") auto
    show ?thesis
      using Cons.IH[OF d'(2)] d'(1) Inr by (cases "res_map (order_fill lib) orders") auto
  qed
qed

section \<open>Clipped RFQ amounts\<close>

lemma fillAmountPerOrder_bounds:
  assumes "0 \<le> s" "\<forall>order \<in> set orders. \<exists>a. oo_takerAmount order = Fin a \<and> 0 \<le> a"
  shows "list_all2 (\<lambda>amount order. 0 \<le> amount \<and> amount \<le> oo_takerAmount order)
           (fillAmountPerOrder (Fin s) orders) orders \<and>
         sum_list (map xval (fillAmountPerOrder (Fin s) orders)) =
           min s (sum_list (map (\<lambda>order. xval (oo_takerAmount order)) orders))"
  using assms
proof (induction orders arbitrary: s)
  case (Cons order orders)
  from Cons.prems obtain a where a: "oo_takerAmount order = Fin a" "0 \<le> a" by auto
  have "0 \<le> sum_list (map (\<lambda>order. xval (oo_takerAmount order)) orders)"
    using Cons.prems by (intro sum_list_nonneg) fastforce
  then show ?case using Cons.IH[of "s - min a s"] Cons.prems a by (simp add: Let_def min_def)
qed simp

lemma fillAmountPerOrder_greedy:
  assumes "0 \<le> s" "\<forall>order \<in> set orders. \<exists>a. oo_takerAmount order = Fin a \<and> 0 \<le> a"
    "i < j" "j < length orders"
    "fillAmountPerOrder (Fin s) orders ! i < oo_takerAmount (orders ! i)"
  shows "fillAmountPerOrder (Fin s) orders ! j = 0"
  using assms
proof (induction orders arbitrary: s i j)
  case (Cons order orders)
  from Cons.prems obtain a where a: "oo_takerAmount order = Fin a" "0 \<le> a" by auto
  have zero: "k < length os \<Longrightarrow> \<forall>order \<in> set os. \<exists>a. oo_takerAmount order = Fin a \<and> 0 \<le> a \<Longrightarrow>
      fillAmountPerOrder (Fin 0) os ! k = 0" for k os
    by (induction os arbitrary: k) (auto simp: Let_def nth_Cons' min_def)
  obtain j' where j: "j = Suc j'" using Cons.prems by (cases j) auto
  show ?case
  proof (cases i)
    case 0
    then have "min a s = s" using Cons.prems a by (simp add: Let_def)
    then show ?thesis using zero[of j' orders] Cons.prems a j by (simp add: Let_def)
  next
    case (Suc i')
    then show ?thesis
      using Cons.IH[of "s - min a s" i' j'] Cons.prems a j by (simp add: Let_def)
  qed
qed simp

section \<open>The loop over the buy-token fees\<close>

definition charged :: "AffiliateFeeAmount \<Rightarrow> bool" where
  "charged fee \<longleftrightarrow> af_recipient fee \<noteq> NULL_ADDRESS \<and> feeType fee \<in> {PercentageFee, GaslessFee} \<and>
     0 < buyTokenFeeAmount fee"

definition takes_surplus :: "AffiliateFeeAmount \<Rightarrow> bool" where
  "takes_surplus fee \<longleftrightarrow> af_recipient fee \<noteq> NULL_ADDRESS \<and> feeType fee = PositiveSlippageFee"

definition total_charged :: "AffiliateFeeAmount list \<Rightarrow> rat" where
  "total_charged fees = sum_list (map (\<lambda>fee. xval (buyTokenFeeAmount fee)) (filter charged fees))"

definition fee_token :: "ProtocolLib \<Rightarrow> SwapQuote \<Rightarrow> ExchangeProxyContractOpts \<Rightarrow> Address" where
  "fee_token lib quote opts = (if isToETH opts then pl_ETH_TOKEN_ADDRESS lib else swq_makerToken quote)"

definition fee_transformation ::
  "ExchangeProxySwapQuoteConsumer \<Rightarrow> SwapQuote \<Rightarrow> Address \<Rightarrow> AffiliateFeeAmount \<Rightarrow> ERC20Transformation" where
  "fee_transformation consumer quote token fee =
     (if feeType fee = PositiveSlippageFee
      then \<lparr>deploymentNonce = n_positiveSlippageFeeTransformer (qc_transformerNonces consumer),
            tr_data = PositiveSlippageFeeData token (bestCaseAmountWithSurplus quote) (af_recipient fee)\<rparr>
      else \<lparr>deploymentNonce = n_affiliateFeeTransformer (qc_transformerNonces consumer),
            tr_data = AffiliateFeeData
              [\<lparr>tf_token = token, tf_amount = buyTokenFeeAmount fee, tf_recipient = af_recipient fee\<rparr>]\<rparr>)"

lemma buy_token_fee_cases:
  assumes "fl_gasOverhead s = Fin g" "fl_minBuyAmount s = Fin w" "is_fin (buyTokenFeeAmount fee)"
  shows "buy_token_fee lib consumer quote opts s fee =
     \<lparr>fl_transformations = fl_transformations s @
        (if charged fee \<or> takes_surplus fee then [fee_transformation consumer quote (fee_token lib quote opts) fee] else []),
      fl_gasOverhead = Fin (if takes_surplus fee then g + 30000 else g),
      fl_minBuyAmount = Fin (if charged fee then max 0 (w - xval (buyTokenFeeAmount fee)) else w)\<rparr>"
  using assms unfolding fee_token_def
  by (cases "feeType fee"; cases s)
    (auto simp: buy_token_fee_def push_fee_def charged_def takes_surplus_def fee_transformation_def Let_def
      POSITIVE_SLIPPAGE_FEE_TRANSFORMER_GAS_def is_fin_iff max_def)

lemma total_charged_nonneg: "\<forall>fee \<in> set fees. is_fin (buyTokenFeeAmount fee) \<Longrightarrow> 0 \<le> total_charged fees"
  unfolding total_charged_def by (intro sum_list_nonneg) (fastforce simp: charged_def is_fin_iff)

lemma charged_pos: "charged fee \<Longrightarrow> is_fin (buyTokenFeeAmount fee) \<Longrightarrow> 0 < xval (buyTokenFeeAmount fee)"
  by (auto simp: charged_def is_fin_iff)

lemma fee_loop:
  assumes "\<forall>fee \<in> set fees. is_fin (buyTokenFeeAmount fee)" "0 \<le> w"
  shows "foldl (buy_token_fee lib consumer quote opts)
      \<lparr>fl_transformations = ts, fl_gasOverhead = Fin g, fl_minBuyAmount = Fin w\<rparr> fees =
    \<lparr>fl_transformations = ts @ map (fee_transformation consumer quote (fee_token lib quote opts))
        (filter (\<lambda>fee. charged fee \<or> takes_surplus fee) fees),
     fl_gasOverhead = Fin (g + 30000 * of_nat (length (filter takes_surplus fees))),
     fl_minBuyAmount = Fin (max 0 (w - total_charged fees))\<rparr>"
  using assms
proof (induction fees arbitrary: ts g w)
  case Nil
  then show ?case by (simp add: total_charged_def)
next
  case (Cons fee fees)
  have "0 \<le> total_charged fees" using Cons.prems by (intro total_charged_nonneg) simp
  moreover have "charged fee \<Longrightarrow> 0 < xval (buyTokenFeeAmount fee)"
    using Cons.prems by (intro charged_pos) auto
  ultimately have "max 0 ((if charged fee then max 0 (w - xval (buyTokenFeeAmount fee)) else w) - total_charged fees)
      = max 0 (w - total_charged (fee # fees))"
    by (auto simp: total_charged_def max_def)
  then show ?case
    using Cons.prems
    by (simp add: buy_token_fee_cases Cons.IH algebra_simps)
qed

section \<open>Sell-token fees\<close>

definition sell_fee_payments :: "ProtocolLib \<Rightarrow> SwapQuote \<Rightarrow> ExchangeProxyContractOpts \<Rightarrow> TokenFee list" where
  "sell_fee_payments lib quote opts =
     map (\<lambda>fee. \<lparr>tf_token = (if isFromETH opts then pl_ETH_TOKEN_ADDRESS lib else swq_takerToken quote),
                  tf_amount = sellTokenFeeAmount fee, tf_recipient = af_recipient fee\<rparr>)
       (filter (\<lambda>fee. 0 < sellTokenFeeAmount fee) (sellTokenAffiliateFees opts))"

lemma sell_fee_transformations_payments:
  "sell_fee_transformations lib consumer quote opts =
     (if sellTokenAffiliateFees opts = [] then []
      else [\<lparr>deploymentNonce = n_affiliateFeeTransformer (qc_transformerNonces consumer),
             tr_data = AffiliateFeeData (sell_fee_payments lib quote opts)\<rparr>])"
  by (simp add: sell_fee_transformations_def sell_fee_payments_def)

lemma sum_sell_fees:
  assumes "\<forall>fee \<in> set fees. \<exists>a. sellTokenFeeAmount fee = Fin a \<and> 0 \<le> a"
  shows "foldl (\<lambda>s fee. s + sellTokenFeeAmount fee) (Fin u) fees =
    Fin (u + sum_list (map (\<lambda>fee. xval (sellTokenFeeAmount fee)) (filter (\<lambda>fee. 0 < sellTokenFeeAmount fee) fees)))"
  using assms
proof (induction fees arbitrary: u)
  case (Cons fee fees)
  then obtain a where "sellTokenFeeAmount fee = Fin a" "0 \<le> a" by auto
  then show ?case using Cons by (cases "a = 0") (simp_all add: algebra_simps)
qed simp

lemma adjusted_sell_amount_fin:
  assumes "bn_max (qi_totalTakerAmount (swq_bestCaseQuoteInfo quote)) (qi_totalTakerAmount (swq_worstCaseQuoteInfo quote)) =
      Fin taker"
    "\<forall>fee \<in> set (sellTokenAffiliateFees opts). \<exists>a. sellTokenFeeAmount fee = Fin a \<and> 0 \<le> a"
  shows "adjusted_sell_amount quote opts =
    Fin (taker + (if metaTransactionVersion opts = Some v1
                  then sum_list (map (xval \<circ> tf_amount) (sell_fee_payments lib quote opts)) else 0))"
  using sum_sell_fees[OF assms(2), of 0]
  by (auto simp: adjusted_sell_amount_def getSwapContext_def Let_def assms(1) sell_fee_payments_def comp_def)

section \<open>Routes\<close>

fun is_transform :: "ExchangeProxyCall \<Rightarrow> bool" where
  "is_transform (transformERC20 _ _ _ _ _) = True"
| "is_transform _ = False"

text \<open>The least amount a call must buy; a fill of native orders has their price instead.\<close>

fun call_minBuy :: "ExchangeProxyCall \<Rightarrow> BigNumber option" where
  "call_minBuy (sellToUniswap _ _ m _) = Some m"
| "call_minBuy (sellEthForTokenToUniswapV3 _ m _) = Some m"
| "call_minBuy (sellTokenForEthToUniswapV3 _ _ m _) = Some m"
| "call_minBuy (sellTokenForTokenToUniswapV3 _ _ m _) = Some m"
| "call_minBuy (sellToPancakeSwap _ _ m _) = Some m"
| "call_minBuy (sellToLiquidityProvider _ _ _ _ _ m _) = Some m"
| "call_minBuy (multiplexBatchSellEthForToken _ _ m) = Some m"
| "call_minBuy (multiplexBatchSellTokenForEth _ _ _ m) = Some m"
| "call_minBuy (multiplexBatchSellTokenForToken _ _ _ _ m) = Some m"
| "call_minBuy (multiplexMultiHopSellEthForToken _ _ m) = Some m"
| "call_minBuy (multiplexMultiHopSellTokenForEth _ _ _ m) = Some m"
| "call_minBuy (multiplexMultiHopSellTokenForToken _ _ _ m) = Some m"
| "call_minBuy (transformERC20 _ _ _ m _) = Some m"
| "call_minBuy _ = None"

text \<open>Only orders signed by a maker are filled without a minimum.\<close>

fun fills_native :: "ExchangeProxyCall \<Rightarrow> bool" where
  "fills_native (fillRfqOrder _ _ _) = True"
| "fills_native (batchFillRfqOrders _ _ _ _) = True"
| "fills_native (fillOtcOrderWithEth _ _) = True"
| "fills_native (fillOtcOrderForEth _ _ _) = True"
| "fills_native (fillOtcOrder _ _ _) = True"
| "fills_native _ = False"

definition direct_call :: "SwapQuote \<Rightarrow> ExchangeProxyCall \<Rightarrow> bool" where
  "direct_call quote call \<longleftrightarrow> \<not> is_transform call \<and>
     call_minBuy call = (if fills_native call then None else Some (qi_makerAmount (swq_worstCaseQuoteInfo quote)))"

lemma calldata_info_simps [simp]:
  "calldata (calldata_info consumer call eth overhead) = call"
  "ethAmount (calldata_info consumer call eth overhead) = eth"
  "gasOverhead (calldata_info consumer call eth overhead) = overhead"
  "toAddress (calldata_info consumer call eth overhead) = ca_exchangeProxy (qc_contractAddresses consumer)"
  "allowanceTarget (calldata_info consumer call eth overhead) = ca_exchangeProxy (qc_contractAddresses consumer)"
  by (simp_all add: calldata_info_def Let_def)

lemma uniswapV2_direct_call:
  "uniswapV2_createCalldata lib consumer quote opts = Inr info \<Longrightarrow> direct_call quote (calldata info)"
  by (auto simp: direct_call_def uniswapV2_createCalldata_def getSwapContext_def res_bind_eq_Inr Let_def)

lemma curve_direct_call: "curve_call lib consumer quote opts a fd = Inr call \<Longrightarrow> direct_call quote call"
  by (cases fd) (auto simp: direct_call_def curve_call_def)

lemma batch_direct_call:
  "encodeMultiplexBatchFillCalldata lib consumer quote opts = Inr call \<Longrightarrow> direct_call quote call"
  by (auto simp: direct_call_def encodeMultiplexBatchFillCalldata_def res_bind_eq_Inr Let_def
      split: if_splits)

lemma singleton_case_Inr:
  "(case xs of [] \<Rightarrow> Inl e | [x] \<Rightarrow> f x | x # y # zs \<Rightarrow> Inl e) = Inr v \<longleftrightarrow> (\<exists>x. xs = [x] \<and> f x = Inr v)"
  by (simp split: list.split)

lemma multihop_direct_call:
  "encodeMultiplexMultiHopFillCalldata quote opts = Inr call \<Longrightarrow> direct_call quote call"
  by (auto simp: direct_call_def encodeMultiplexMultiHopFillCalldata_def res_bind_eq_Inr Let_def
      singleton_case_Inr split: if_splits)

lemma simple_direct_calls:
  "direct_call quote (uniswapV3_call opts a (qi_makerAmount (swq_worstCaseQuoteInfo quote)) path)"
  "direct_call quote (sellToPancakeSwap tokens a (qi_makerAmount (swq_worstCaseQuoteInfo quote)) k)"
  "rfq_call a orders = Inr call \<Longrightarrow> direct_call quote call"
  "otc_call opts a order = Inr call \<Longrightarrow> direct_call quote call"
  by (auto simp: direct_call_def uniswapV3_call_def rfq_call_def otc_call_def res_bind_eq_Inr Let_def
      split: if_splits)

lemmas direct_calls =
  uniswapV2_direct_call curve_direct_call batch_direct_call multihop_direct_call simple_direct_calls

lemma compatible_no_transform:
  "isDirectSwapCompatible path opts sources \<Longrightarrow> \<not> requiresTransformERC20 opts"
  "isMultiplexBatchFillCompatible quote opts \<Longrightarrow> \<not> requiresTransformERC20 opts"
  "isMultiplexMultiHopFillCompatible path opts \<Longrightarrow> \<not> requiresTransformERC20 opts"
  "uniswapV2_isCompatible consumer quote opts \<Longrightarrow> \<not> requiresTransformERC20 opts"
  by (auto simp: isDirectSwapCompatible_def isMultiplexBatchFillCompatible_def
      isMultiplexMultiHopFillCompatible_def uniswapV2_isCompatible_def split: if_splits)

definition proxy_call :: "ExchangeProxySwapQuoteConsumer \<Rightarrow> CalldataInfo \<Rightarrow> bool" where
  "proxy_call consumer info \<longleftrightarrow>
     toAddress info = ca_exchangeProxy (qc_contractAddresses consumer) \<and>
     allowanceTarget info = ca_exchangeProxy (qc_contractAddresses consumer)"

definition direct_info :: "ExchangeProxySwapQuoteConsumer \<Rightarrow> SwapQuote \<Rightarrow> ExchangeProxyContractOpts \<Rightarrow> CalldataInfo \<Rightarrow> bool" where
  "direct_info consumer quote opts info \<longleftrightarrow>
     \<not> requiresTransformERC20 opts \<and> proxy_call consumer info \<and> direct_call quote (calldata info) \<and>
     gasOverhead info = 0 \<and>
     (let sellEth = (if isFromETH opts then cx_sellAmount (getSwapContext quote opts) else 0) in
      ethAmount info = sellEth \<or>
      ethAmount info = qi_protocolFeeInWeiAmount (swq_worstCaseQuoteInfo quote) + sellEth)"

lemma uniswapV2_direct:
  assumes "uniswapV2_createCalldata lib consumer quote opts = Inr info" "\<not> requiresTransformERC20 opts"
  shows "direct_info consumer quote opts info"
  using assms direct_calls(1)[OF assms(1)]
  by (auto simp: direct_info_def proxy_call_def uniswapV2_createCalldata_def res_bind_eq_Inr Let_def)

lemma xnum_plus_0 [simp]: "x + Fin 0 = x"
  by (cases x) auto

lemma direct_infoI:
  assumes "\<not> requiresTransformERC20 opts" "direct_call quote call"
    "sellEth = (if isFromETH opts then cx_sellAmount (getSwapContext quote opts) else ZERO_AMOUNT)"
    "eth = sellEth \<or> eth = qi_protocolFeeInWeiAmount (swq_worstCaseQuoteInfo quote) + sellEth"
  shows "direct_info consumer quote opts (calldata_info consumer call eth ZERO_AMOUNT)"
  using assms by (auto simp: direct_info_def proxy_call_def Let_def)

lemma route_calldata_cases:
  assumes "route_calldata lib consumer quote opts = Inr info"
  shows "direct_info consumer quote opts info \<or> transformERC20_createCalldata lib consumer quote opts = Inr info"
proof -
  define S where "S = cx_sellAmount (getSwapContext quote opts)"
  define E where "E = (if isFromETH opts then S else ZERO_AMOUNT)"
  define fee where "fee = qi_protocolFeeInWeiAmount (swq_worstCaseQuoteInfo quote)"
  have sell: "bn_max (qi_totalTakerAmount (swq_bestCaseQuoteInfo quote))
      (qi_totalTakerAmount (swq_worstCaseQuoteInfo quote)) = S"
    by (simp add: getSwapContext_def Let_def S_def)
  have eth: "(if isFromETH opts then fee + S else fee) = fee + E" by (simp add: E_def)
  have D: "direct_info consumer quote opts (calldata_info consumer call e ZERO_AMOUNT)"
    if "\<not> requiresTransformERC20 opts" "direct_call quote call" "e = E \<or> e = fee + E" for call e
    using that unfolding E_def S_def fee_def by (rule direct_infoI[OF _ _ refl])
  have "ensures (\<lambda>info. direct_info consumer quote opts info \<or>
      transformERC20_createCalldata lib consumer quote opts = Inr info) (route_calldata lib consumer quote opts)"
    unfolding route_calldata_def Let_def sell fee_def[symmetric] eth E_def[symmetric]
    by (intro ensures_rules;
        (rule ensures_I, simp add: uniswapV2_direct compatible_no_transform(4); fail
        | rule disjI1, rule D, metis compatible_no_transform,
          (rule simple_direct_calls(1,2); fail | erule direct_calls), simp add: E_def))
  then show ?thesis using assms by (rule ensures_D)
qed

text \<open>A direct route does not look at the positive slippage fee: the same call is made whatever it is.\<close>

lemma positive_slippage_unread:
  fixes opts :: ExchangeProxyContractOpts and fee :: "AffiliateFeeAmount option"
  defines "opts' \<equiv> opts\<lparr>positiveSlippageFee := fee\<rparr>"
  shows "requiresTransformERC20 opts' = requiresTransformERC20 opts"
    "isDirectSwapCompatible path opts' sources = isDirectSwapCompatible path opts sources"
    "isMultiplexBatchFillCompatible quote opts' = isMultiplexBatchFillCompatible quote opts"
    "isMultiplexMultiHopFillCompatible path opts' = isMultiplexMultiHopFillCompatible path opts"
    "uniswapV2_isCompatible consumer quote opts' = uniswapV2_isCompatible consumer quote opts"
    "uniswapV2_createCalldata lib consumer quote opts' = uniswapV2_createCalldata lib consumer quote opts"
    "uniswapV3_call opts' = uniswapV3_call opts" "otc_call opts' = otc_call opts"
    "curve_call lib consumer quote opts' = curve_call lib consumer quote opts"
    "encodeMultiplexBatchFillCalldata lib consumer quote opts' = encodeMultiplexBatchFillCalldata lib consumer quote opts"
    "encodeMultiplexMultiHopFillCalldata quote opts' = encodeMultiplexMultiHopFillCalldata quote opts"
    "isFromETH opts' = isFromETH opts" "isToETH opts' = isToETH opts"
  by (simp_all add: opts'_def requiresTransformERC20_def isDirectSwapCompatible_def
      isMultiplexBatchFillCompatible_def isMultiplexMultiHopFillCompatible_def uniswapV2_isCompatible_def
      uniswapV2_createCalldata_def getSwapContext_def uniswapV3_call_def[abs_def] otc_call_def[abs_def]
      curve_call_def[abs_def] encodeMultiplexBatchFillCalldata_def encodeMultiplexMultiHopFillCalldata_def
      Let_def cong: if_cong list.case_cong)

lemma transform_is_transform:
  "transformERC20_createCalldata lib consumer quote opts = Inr info \<Longrightarrow> is_transform (calldata info)"
  by (auto simp: transformERC20_createCalldata_def res_bind_eq_Inr Let_def)

definition direct_kept :: "js_error + CalldataInfo \<Rightarrow> js_error + CalldataInfo \<Rightarrow> bool" where
  "direct_kept m n \<longleftrightarrow> (\<forall>info. m = Inr info \<and> \<not> is_transform (calldata info) \<longrightarrow> n = Inr info)"

lemma direct_kept_refl: "direct_kept m m"
  by (simp add: direct_kept_def)

lemma direct_kept_if: "direct_kept m m' \<Longrightarrow> direct_kept n n' \<Longrightarrow> direct_kept (if b then m else n) (if b then m' else n')"
  by simp

lemma direct_kept_bind: "(\<And>x. direct_kept (f x) (g x)) \<Longrightarrow> direct_kept (res_bind m f) (res_bind m g)"
  by (simp add: direct_kept_def res_bind_eq_Inr) blast

lemma direct_kept_transform: "direct_kept (transformERC20_createCalldata lib consumer quote opts) n"
  using transform_is_transform by (auto simp: direct_kept_def)

lemma direct_route_drops_positive_slippage:
  assumes "route_calldata lib consumer quote opts = Inr info" "\<not> is_transform (calldata info)"
  shows "route_calldata lib consumer quote (opts\<lparr>positiveSlippageFee := fee\<rparr>) = Inr info"
proof -
  have "direct_kept (route_calldata lib consumer quote opts)
      (route_calldata lib consumer quote (opts\<lparr>positiveSlippageFee := fee\<rparr>))"
    unfolding route_calldata_def positive_slippage_unread Let_def
    by (rule direct_kept_bind) (intro direct_kept_if direct_kept_transform direct_kept_refl)
  then show ?thesis using assms by (simp add: direct_kept_def)
qed

section \<open>Amounts sold by the fill-quote transformers\<close>

definition sold_by :: "Address \<Rightarrow> ERC20Transformation \<Rightarrow> rat" where
  "sold_by token t =
     (case tr_data t of FillQuoteData _ sellToken _ _ _ amount \<Rightarrow> if sellToken = token then xval amount else 0
      | _ \<Rightarrow> 0)"

lemma fqt_data:
  "fqt lib consumer side sell buy orders r amount = Inr t \<Longrightarrow>
   sold_by token t = (if sell = token then xval amount else 0)"
  by (auto simp: fqt_def sold_by_def res_bind_eq_Inr)

lemma slip_sell_taker: "oo_takerAmount (slipOrder s Sell order) = oo_takerAmount order"
  by (simp add: slipOrder_def)

lemma slip_tokens:
  "oo_makerToken (slipOrder s side order) = oo_makerToken order"
  "oo_takerToken (slipOrder s side order) = oo_takerToken order"
  by (simp_all add: slipOrder_def)

lemma two_hop_sold:
  assumes "two_hop_transformations lib consumer quote opts t = Inr ts" "\<not> shouldSellEntireBalance opts"
    "oo_makerToken (firstHopOrder t) \<noteq> swq_takerToken quote"
  shows "sum_list (map (sold_by (swq_takerToken quote)) ts) = xval (oo_takerAmount (firstHopOrder t))"
  using assms
  by (auto simp: two_hop_transformations_def res_bind_eq_Inr Let_def getSwapContext_def fqt_data)

lemma two_hops_sold:
  assumes "res_map (two_hop_transformations lib consumer quote opts) hops = Inr tss"
    "\<not> shouldSellEntireBalance opts" "\<forall>t \<in> set hops. oo_makerToken (firstHopOrder t) \<noteq> swq_takerToken quote"
  shows "sum_list (map (sold_by (swq_takerToken quote)) (concat tss)) =
    sum_list (map (\<lambda>t. xval (oo_takerAmount (firstHopOrder t))) hops)"
  using assms by (induction hops arbitrary: tss) (auto simp: res_bind_eq_Inr two_hop_sold)

lemma getTwoHopFillAmount_sell:
  assumes "\<forall>t \<in> set hops. is_fin (oo_takerAmount (firstHopOrder t))"
  shows "getTwoHopFillAmount Sell hops = Fin (sum_list (map (\<lambda>t. xval (oo_takerAmount (firstHopOrder t))) hops))"
proof -
  have "map (\<lambda>t. oo_takerAmount (firstHopOrder t)) hops =
      map Fin (map (\<lambda>t. xval (oo_takerAmount (firstHopOrder t))) hops)"
    using assms by (auto simp: Fin_xval)
  then show ?thesis by (simp only: getTwoHopFillAmount_def bn_sum.simps foldl_plus_Fin if_True refl add_0)
qed

lemma two_hop_transformations_sold:
  assumes "createTwoHopTransformations lib consumer quote opts = Inr two"
    "ctx_side (path_context (swq_path quote)) = Sell" "\<not> shouldSellEntireBalance opts"
    "\<forall>t \<in> set (twoHopOrders (path_ordersByType (swq_path quote))).
       is_fin (oo_takerAmount (firstHopOrder t)) \<and> oo_makerToken (firstHopOrder t) \<noteq> swq_takerToken quote"
  shows "sum_list (map (sold_by (swq_takerToken quote)) two) =
    sum_list (map (\<lambda>t. xval (oo_takerAmount (firstHopOrder t))) (twoHopOrders (path_ordersByType (swq_path quote))))"
proof -
  obtain slipped tss where slipped: "getSlippedOrdersByType (swq_path quote) (getMaxQuoteSlippageRate quote) = Inr slipped"
    and tss: "res_map (two_hop_transformations lib consumer quote opts) (twoHopOrders slipped) = Inr tss" "two = concat tss"
    using assms(1) by (auto simp: createTwoHopTransformations_def res_bind_eq_Inr getSwapContext_def Let_def)
  have "sum_list (map (sold_by (swq_takerToken quote)) two) =
      sum_list (map (\<lambda>t. xval (oo_takerAmount (firstHopOrder t))) (twoHopOrders slipped))"
    using slipped assms(2,4)
    by (auto simp: tss(2) getSlippedOrdersByType_def res_bind_eq_Inr Let_def slip_tokens
        intro!: two_hops_sold[OF tss(1) assms(3)])
  also have "\<dots> = sum_list (map (\<lambda>t. xval (oo_takerAmount (firstHopOrder t)))
      (twoHopOrders (path_ordersByType (swq_path quote))))"
    using slipped assms(2)
    by (auto simp: getSlippedOrdersByType_def res_bind_eq_Inr Let_def slip_sell_taker comp_def)
  finally show ?thesis .
qed

lemma non_two_hop_sold:
  assumes "createNonTwoHopTransformation lib consumer quote opts = Inr nonTwoHop"
    "swq_type quote = Sell" "\<not> shouldSellEntireBalance opts"
  shows "if nativeOrders (path_ordersByType (swq_path quote)) @ bridgeOrders (path_ordersByType (swq_path quote)) = []
    then nonTwoHop = None
    else \<exists>t. nonTwoHop = Some t \<and> sold_by (swq_takerToken quote) t = xval (getNonTwoHopFillAmount quote)"
  using assms
  by (auto simp: createNonTwoHopTransformation_def res_bind_eq_Inr Let_def getSwapContext_def isBuyQuote_def
      getSlippedOrdersByType_def fqt_data split: if_splits)

section \<open>Multiplex calls of compatible quotes\<close>

text \<open>The fill data that the sources of the multiplex features come with.\<close>

definition multiplex_fill :: "Fill \<Rightarrow> bool" where
  "multiplex_fill f \<longleftrightarrow>
     (fill_source f \<in> {UniswapV2, SushiSwap} \<longrightarrow> (\<exists>tokens router. fill_fillData f = UniswapV2FD tokens router))"

definition multiplex_order :: "OptimizedOrder \<Rightarrow> bool" where
  "multiplex_order order \<longleftrightarrow>
     (oo_source order = Native \<longrightarrow> oo_type order \<noteq> Bridge \<and> (\<exists>native. oo_fillData order = NativeFD native)) \<and>
     (oo_source order \<in> {UniswapV2, SushiSwap} \<longrightarrow> (\<exists>ts r. oo_fillData order = UniswapV2FD ts r)) \<and>
     (oo_source order = UniswapV3 \<longrightarrow> (\<exists>ts r path g. oo_fillData order = FinalTickDEXMultiPathFD ts r path g))"

lemma native_multiplex_order: "createNativeOptimizedOrder f side = Inr order \<Longrightarrow> multiplex_order order"
  by (auto simp: createNativeOptimizedOrder_def multiplex_order_def split: FillData.split_asm if_split_asm)

lemma uniswapV3_final:
  "createFinalBridgeOrderFillDataFromCollapsedFill f = Inr fd \<Longrightarrow> fill_source f = UniswapV3 \<Longrightarrow>
   \<exists>ts r path g. fd = FinalTickDEXMultiPathFD ts r path g"
  by (auto simp: createFinalBridgeOrderFillDataFromCollapsedFill_def res_bind_eq_Inr
      split: FillData.split_asm option.split_asm)

lemma bridge_multiplex_order:
  assumes "createBridgeOrder f m t side = Inr order" "multiplex_fill f" "fill_source f \<noteq> Native"
  shows "multiplex_order order"
proof -
  obtain fd where fd: "createFinalBridgeOrderFillDataFromCollapsedFill f = Inr fd"
      "oo_source order = fill_source f" "oo_fillData order = fd"
    using assms(1) by (auto simp: createBridgeOrder_def res_bind_eq_Inr)
  moreover have "fill_source f \<noteq> UniswapV3 \<Longrightarrow> fd = fill_fillData f"
    using fd(1) by (simp add: createFinalBridgeOrderFillDataFromCollapsedFill_def)
  ultimately show ?thesis
    using assms(2,3) uniswapV3_final[OF fd(1)] by (auto simp: multiplex_order_def multiplex_fill_def)
qed

lemma multiplex_path_orders:
  assumes "Path_create rnd ctx fs t po = Inr p" "\<forall>f \<in> set fs. multiplex_fill f"
  shows "\<forall>order \<in> set (nativeOrders (path_ordersByType p) @ bridgeOrders (path_ordersByType p)).
    multiplex_order order"
proof -
  let ?side = "ctx_side ctx"
  have "createOrdersByType fs ctx = Inr (path_ordersByType p)" by (rule Path_create_facts(1)[OF assms(1)])
  then obtain ns ts bs where
    ns: "res_map (\<lambda>f. createNativeOptimizedOrder f ?side) (filter (\<lambda>f. fill_source f = Native) fs) = Inr ns" and
    bs: "res_map (\<lambda>f. createBridgeOrder f (fst (getMakerTakerTokens ctx)) (snd (getMakerTakerTokens ctx)) ?side)
           (filter (\<lambda>f. fill_source f \<noteq> Native \<and> fill_source f \<noteq> MultiHop) fs) = Inr bs" and
    os: "path_ordersByType p = \<lparr>nativeOrders = ns, twoHopOrders = ts, bridgeOrders = bs\<rparr>"
    by (auto simp: createOrdersByType_def res_bind_eq_Inr dest: sym)
  have "multiplex_order order" if "order \<in> set ns" for order
    using res_map_mem[OF ns] that native_multiplex_order by blast
  moreover have "multiplex_order order" if "order \<in> set bs" for order
    using res_map_mem[OF bs] that assms(2) bridge_multiplex_order by (metis (mono_tags, lifting) mem_Collect_eq set_filter)
  ultimately show ?thesis by (auto simp: os)
qed

lemma multiplex_order_slip [simp]: "multiplex_order (slipOrder s side order) = multiplex_order order"
  by (simp add: multiplex_order_def slipOrder_same)

text \<open>The subcall that belongs to an order.\<close>

definition own_subcall :: "OptimizedOrder \<Rightarrow> BatchSubcall \<Rightarrow> bool" where
  "own_subcall order sub \<longleftrightarrow> sc_sellAmount sub = oo_takerAmount order \<and>
     (case sc_data sub of
        SubRfq n sig \<Rightarrow> \<exists>native. oo_type order = Rfq \<and> oo_fillData order = NativeFD native \<and> n = sno_order native \<and> sig = sno_signature native
      | SubOtc n sig \<Rightarrow> \<exists>native. oo_type order = Otc \<and> oo_fillData order = NativeFD native \<and> n = sno_order native \<and> sig = sno_signature native
      | SubUniswapV2 tokens isSushi \<Rightarrow>
          \<exists>router. oo_fillData order = UniswapV2FD tokens router \<and>
            oo_source order = (if isSushi then SushiSwap else UniswapV2)
      | SubUniswapV3 path \<Rightarrow>
          oo_source order = UniswapV3 \<and> (\<exists>ts r g. oo_fillData order = FinalTickDEXMultiPathFD ts r path g)
      | SubTransformERC20 _ \<Rightarrow> False)"

definition own_data :: "OptimizedOrder \<Rightarrow> js_error + MultiplexSubcallData" where
  "own_data order =
     (if oo_source order = Native then native_subcall order
      else if oo_source order = UniswapV3 then uniswapV3_subcall order
      else uniswapV2_subcall order)"

lemma batch_subcalls_step:
  assumes "oo_source order \<in> set MULTIPLEX_BATCH_FILL_SOURCES"
  shows "batch_subcalls lib consumer quote (order # orders) =
    res_bind (own_data order) (\<lambda>d. res_bind (batch_subcalls lib consumer quote orders)
      (\<lambda>rest. Inr (\<lparr>sc_sellAmount = oo_takerAmount order, sc_data = d\<rparr> # rest)))"
proof -
  consider "oo_source order = Native" | "oo_source order = UniswapV2" | "oo_source order = SushiSwap"
    | "oo_source order = UniswapV3"
    using assms by (auto simp: MULTIPLEX_BATCH_FILL_SOURCES_def)
  then show ?thesis by cases (simp_all add: own_data_def)
qed

lemma native_own:
  assumes "multiplex_order order" "oo_source order = Native" "oo_type order \<noteq> Limit"
  shows "succeeds (\<lambda>d. own_subcall order \<lparr>sc_sellAmount = oo_takerAmount order, sc_data = d\<rparr>) (own_data order)"
proof -
  obtain native where "oo_fillData order = NativeFD native" "oo_type order = Rfq \<or> oo_type order = Otc"
    using assms by (cases "oo_type order") (auto simp: multiplex_order_def)
  then show ?thesis
    using assms(2) by (auto simp: succeeds_def own_data_def native_subcall_def native_info_def own_subcall_def)
qed

lemma uniswap_own:
  assumes "multiplex_order order" "oo_source order \<in> {UniswapV2, SushiSwap, UniswapV3}"
  shows "succeeds (\<lambda>d. own_subcall order \<lparr>sc_sellAmount = oo_takerAmount order, sc_data = d\<rparr>) (own_data order)"
proof (cases "oo_source order = UniswapV3")
  case True
  then obtain ts r path g where "oo_fillData order = FinalTickDEXMultiPathFD ts r path g"
    using assms by (auto simp: multiplex_order_def)
  with True show ?thesis by (simp add: succeeds_def own_data_def uniswapV3_subcall_def own_subcall_def)
next
  case False
  then obtain ts r where "oo_fillData order = UniswapV2FD ts r"
    using assms by (auto simp: multiplex_order_def)
  with False assms(2) show ?thesis
    by (auto simp: succeeds_def own_data_def uniswapV2_subcall_def own_subcall_def)
qed

lemma batch_subcalls_own:
  assumes "\<forall>order \<in> set orders. multiplex_order order \<and> oo_type order \<noteq> Limit \<and>
    oo_source order \<in> set MULTIPLEX_BATCH_FILL_SOURCES"
  shows "succeeds (list_all2 own_subcall orders) (batch_subcalls lib consumer quote orders)"
  using assms
proof (induction orders)
  case Nil
  then show ?case by (simp add: succeeds_def)
next
  case (Cons order orders)
  then have src: "oo_source order \<in> set MULTIPLEX_BATCH_FILL_SOURCES" by simp
  then have "succeeds (\<lambda>d. own_subcall order \<lparr>sc_sellAmount = oo_takerAmount order, sc_data = d\<rparr>) (own_data order)"
    using native_own[of order] uniswap_own[of order] Cons.prems by (auto simp: MULTIPLEX_BATCH_FILL_SOURCES_def)
  then show ?case
    using Cons.IH Cons.prems unfolding batch_subcalls_step[OF src] by (auto simp: succeeds_def)
qed

section \<open>Samples\<close>

definition sample_lib :: ProtocolLib where
  "sample_lib = \<lparr>pl_ETH_TOKEN_ADDRESS = ''E'', pl_findTransformerNonce = (\<lambda>a d. int (length a)),
     pl_contractAddresses = (\<lambda>chain. \<lparr>ca_exchangeProxy = ''P'', ca_etherToken = ''W'',
       ca_exchangeProxyTransformerDeployer = ''D'', ca_wethTransformer = ''1'', ca_payTakerTransformer = ''12'',
       ca_fillQuoteTransformer = ''123'', ca_affiliateFeeTransformer = ''1234'',
       ca_positiveSlippageFeeTransformer = ''12345''\<rparr>),
     pl_abiEncode = (\<lambda>types vals. ''0x''), pl_encodeBridgeSourceId = (\<lambda>protocol name. name)\<rparr>"

definition sample_consumer :: ExchangeProxySwapQuoteConsumer where
  "sample_consumer = create_consumer sample_lib Mainnet (pl_contractAddresses sample_lib Mainnet)"

definition uniswap_fill :: "ERC20BridgeSource \<Rightarrow> rat \<Rightarrow> Fill" where
  "uniswap_fill src i = (sample_fill src i 5)\<lparr>fill_fillData := UniswapV2FD [''B'', ''A''] ''R''\<rparr>"

definition uniswap_order :: "ERC20BridgeSource \<Rightarrow> rat \<Rightarrow> OptimizedOrder" where
  "uniswap_order src i =
     \<lparr>oo_source = src, oo_fillData = UniswapV2FD [''B'', ''A''] ''R'', oo_type = Bridge, oo_makerToken = ''A'',
      oo_takerToken = ''B'', oo_makerAmount = Fin 5, oo_takerAmount = Fin i, oo_fill = toFillBase (uniswap_fill src i)\<rparr>"

definition uniswap_path :: Path where
  "uniswap_path =
     \<lparr>path_context = sample_context, path_fills = [uniswap_fill UniswapV2 4, uniswap_fill SushiSwap 6],
      path_ordersByType = \<lparr>nativeOrders = [], twoHopOrders = [],
        bridgeOrders = [uniswap_order UniswapV2 4, uniswap_order SushiSwap 6]\<rparr>,
      path_targetInput = Fin 10, path_pathPenaltyOpts = sample_penalty,
      path_sourceFlags = mergeSourceFlags [SOURCE_FLAGS (SourceKey UniswapV2), SOURCE_FLAGS (SourceKey SushiSwap)],
      path_adjustedSize = createAdjustedSize rnd78 (Fin 10) [uniswap_fill UniswapV2 4, uniswap_fill SushiSwap 6]\<rparr>"

lemma uniswap_path_create:
  "Path_create rnd78 sample_context [uniswap_fill UniswapV2 4, uniswap_fill SushiSwap 6] (Fin 10) sample_penalty =
   Inr uniswap_path"
proof -
  have "integerValue ROUND_DOWN (Fin 5) = Fin 5"
    using round_mode_of_int[of ROUND_DOWN 5] by simp
  then show ?thesis
    by (simp add: Path_create_def createOrdersByType_def createBridgeOrder_def uniswap_path_def uniswap_order_def
        createFinalBridgeOrderFillDataFromCollapsedFill_def getFillTokenAmounts_def getMakerTakerTokens_def
        sample_context_def) (simp add: uniswap_fill_def sample_fill_def)
qed

definition sample_info :: SwapQuoteInfo where
  "sample_info = \<lparr>qi_takerAmount = Fin 10, qi_totalTakerAmount = Fin 10, qi_makerAmount = Fin 9,
     qi_protocolFeeInWeiAmount = Fin 0, qi_gas = Fin 100, qi_slippage = Fin 0\<rparr>"

definition sample_quote :: "Path \<Rightarrow> SwapQuote" where
  "sample_quote path =
     \<lparr>swq_type = Sell, swq_fillAmount = Fin 10, swq_takerToken = ''B'', swq_makerToken = ''A'', swq_gasPrice = Fin 1,
      swq_path = path, swq_bestCaseQuoteInfo = sample_info, swq_worstCaseQuoteInfo = sample_info,
      swq_sourceBreakdown = \<lparr>sb_singleSource = [], sb_multihop = []\<rparr>, swq_quoteReport = None,
      swq_extendedQuoteReportSources = None, swq_makerTokenDecimals = Fin 18, swq_takerTokenDecimals = Fin 18,
      swq_takerAmountPerEth = Fin 1, swq_makerAmountPerEth = Fin 1, swq_blockNumber = Fin 1, swq_samplerGasUsage = Fin 1\<rparr>"

lemma uniswap_fills_fit:
  "\<forall>f \<in> set [uniswap_fill UniswapV2 4, uniswap_fill SushiSwap 6]. well_flagged f \<and> multiplex_fill f"
  by (simp add: well_flagged_def multiplex_fill_def uniswap_fill_def sample_fill_def flag_bit_MultiHop)

lemma uniswap_path_simps [simp]:
  "path_context uniswap_path = sample_context" "\<not> hasTwoHop uniswap_path"
  "getOrders uniswap_path = [uniswap_order UniswapV2 4, uniswap_order SushiSwap 6]"
  using hasTwoHop_iff_twoHop_orders[OF uniswap_path_create] uniswap_fills_fit
  by (simp_all add: uniswap_path_def getOrders_def)

lemmas sample_quote_defs = sample_quote_def sample_info_def uniswap_order_def sample_context_def
  sample_consumer_def create_consumer_def DEFAULT_EXCHANGE_PROXY_EXTENSION_CONTRACT_OPTS_def

section \<open>Properties\<close>

text \<open>C17: The orders handed to a fill-quote transformer are exactly those of the quote: walking the fill
  sequence and taking the next order of each type gives back the given orders, in order, each with its
  amounts, and uses up every array; orders that cannot be encoded are refused with the error of the first
  of them. So the transformer data refines the plain list of fills.\<close>

theorem fqt_data_replays_orders:
  "map_sum id replay_orders (getFQTTransformerDataFromOptimizedOrders lib orders) =
   map_sum id Some (res_map (order_fill lib) orders)"
  unfolding getFQTTransformerDataFromOptimizedOrders_def
  by (subst push_orders_fills[of _ "[]"]) (simp_all add: replay_orders_def)

text \<open>C18: Whatever the route, a call goes to the exchange proxy, and a quote takes a direct route (not
  \<open>transformERC20\<close>) only when it is no meta-transaction, sells no whole balance and has no affiliate fee
  of a positive amount in its two lists of affiliate fees. A positive slippage fee does not keep it from
  one and is then dropped: the call is the same whatever that fee is. On a direct route no gas is
  added, and the worst-case amount of the quote is the minimum the call must buy, except that a call
  that fills orders signed by a maker (RFQ, OTC) has no minimum.\<close>

theorem direct_routes_carry_no_affiliate_fees:
  fixes partial_opts :: "ExchangeProxyContractOpts \<Rightarrow> ExchangeProxyContractOpts"
  defines "opts \<equiv> partial_opts DEFAULT_EXCHANGE_PROXY_EXTENSION_CONTRACT_OPTS"
  assumes "getCalldataOrThrow lib consumer quote partial_opts = Inr info"
  shows "toAddress info = ca_exchangeProxy (qc_contractAddresses consumer) \<and>
     allowanceTarget info = toAddress info \<and>
     (if is_transform (calldata info) then transformERC20_createCalldata lib consumer quote opts = Inr info
      else metaTransactionVersion opts = None \<and> \<not> shouldSellEntireBalance opts \<and>
        (\<forall>fee \<in> set (sellTokenAffiliateFees opts @ buyTokenAffiliateFees opts).
           \<not> 0 < buyTokenFeeAmount fee \<and> \<not> 0 < sellTokenFeeAmount fee) \<and>
        (\<forall>slippageFee. getCalldataOrThrow lib consumer quote
           (\<lambda>defaults. (partial_opts defaults)\<lparr>positiveSlippageFee := slippageFee\<rparr>) = Inr info) \<and>
        gasOverhead info = 0 \<and>
        call_minBuy (calldata info) =
          (if fills_native (calldata info) then None else Some (qi_makerAmount (swq_worstCaseQuoteInfo quote))))"
proof -
  have route: "route_calldata lib consumer quote opts = Inr info"
    using assms(2) unfolding getCalldataOrThrow_def opts_def .
  then have "direct_info consumer quote opts info \<or> transformERC20_createCalldata lib consumer quote opts = Inr info"
    by (rule route_calldata_cases)
  then show ?thesis
  proof
    assume "direct_info consumer quote opts info"
    with direct_route_drops_positive_slippage[OF route] show ?thesis
      by (auto simp: direct_info_def proxy_call_def direct_call_def requiresTransformERC20_def list_ex_iff
          getCalldataOrThrow_def opts_def split: if_splits)
  next
    assume "transformERC20_createCalldata lib consumer quote opts = Inr info"
    then show ?thesis
      by (auto simp: transformERC20_createCalldata_def res_bind_eq_Inr Let_def)
  qed
qed

text \<open>C19: With finite amounts a \<open>transformERC20\<close> call is made of exactly these transformations, in this order:
  one that pays every sell-token fee of a positive amount to its recipient, out of the native token when
  that is sold; the wrapping of what is sold when it is the native token; the fills; the unwrapping of
  what is bought; for each buy-token fee that names a recipient the one transformation that charges it;
  and the payout of the rest. A meta-transaction of version 1 sells the amount of the quote and the
  sell-token fees on top, any other call the amount alone. The minimum buy amount is lowered by exactly
  the charged buy-token fees and never below zero, and the gas of one positive-slippage transformer is
  added per such fee.\<close>

theorem transform_settles_fees:
  assumes "transformERC20_createCalldata lib consumer quote opts = Inr info"
    "\<forall>fee \<in> set (buyTokenFees opts). is_fin (buyTokenFeeAmount fee)"
    "\<forall>fee \<in> set (sellTokenAffiliateFees opts). \<exists>amount. sellTokenFeeAmount fee = Fin amount \<and> 0 \<le> amount"
    "qi_makerAmount (swq_worstCaseQuoteInfo quote) = Fin w" "0 \<le> w"
    "bn_max (qi_totalTakerAmount (swq_bestCaseQuoteInfo quote)) (qi_totalTakerAmount (swq_worstCaseQuoteInfo quote)) =
       Fin taker"
  shows "\<exists>fills sell.
    createFillQuoteTransformations lib consumer quote opts = Inr fills \<and>
    sell = (if shouldSellEntireBalance opts then MAX_UINT256
            else Fin (taker + (if metaTransactionVersion opts = Some v1
                               then sum_list (map (xval \<circ> tf_amount) (sell_fee_payments lib quote opts)) else 0))) \<and>
    calldata info = transformERC20 (if isFromETH opts then pl_ETH_TOKEN_ADDRESS lib else swq_takerToken quote)
      (if \<not> isToETH opts then swq_makerToken quote
       else if qc_chainId consumer = Celo then ca_etherToken (qc_contractAddresses consumer)
       else pl_ETH_TOKEN_ADDRESS lib)
      sell (Fin (max 0 (w - total_charged (buyTokenFees opts))))
      ((if sellTokenAffiliateFees opts = [] then []
        else [\<lparr>deploymentNonce = n_affiliateFeeTransformer (qc_transformerNonces consumer),
               tr_data = AffiliateFeeData (sell_fee_payments lib quote opts)\<rparr>]) @
       (if isFromETH opts then wrap_transformation consumer (pl_ETH_TOKEN_ADDRESS lib) sell else []) @
       fills @
       (if isToETH opts
        then wrap_transformation consumer (NATIVE_FEE_TOKEN_BY_CHAIN_ID lib (qc_chainId consumer)) MAX_UINT256
        else []) @
       map (fee_transformation consumer quote (fee_token lib quote opts))
         (filter (\<lambda>fee. charged fee \<or> takes_surplus fee) (buyTokenFees opts)) @
       [createPayTakerTransformation lib consumer quote opts]) \<and>
    gasOverhead info = Fin (30000 * of_nat (length (filter takes_surplus (buyTokenFees opts))))"
proof -
  obtain fills where fills: "createFillQuoteTransformations lib consumer quote opts = Inr fills"
    using assms(1) by (auto simp: transformERC20_createCalldata_def res_bind_eq_Inr Let_def)
  note amount = adjusted_sell_amount_fin[OF assms(6,3), of lib]
  let ?sell = "if shouldSellEntireBalance opts then MAX_UINT256 else adjusted_sell_amount quote opts"
  have info: "Inr info = transformERC20_createCalldata lib consumer quote opts" by (simp add: assms(1))
  show ?thesis
    by (rule exI[of _ fills], rule exI[of _ ?sell])
      (use info in \<open>simp add: transformERC20_createCalldata_def fills Let_def getSwapContext_def assms(4)
        fee_loop[OF assms(2,5)] sell_fee_transformations_payments amount[symmetric]\<close>)
qed

text \<open>Batched RFQ orders are filled in order with what remains to be sold: no order beyond its size,
  in total the smaller of the sell amount and the sizes of the orders, and nothing of an order that
  follows one that is not filled completely.\<close>

theorem rfq_fill_amounts_clipped:
  assumes "0 \<le> s" "\<forall>order \<in> set orders. \<exists>a. oo_takerAmount order = Fin a \<and> 0 \<le> a"
  shows "list_all2 (\<lambda>amount order. 0 \<le> amount \<and> amount \<le> oo_takerAmount order)
           (fillAmountPerOrder (Fin s) orders) orders \<and>
    sum_list (map xval (fillAmountPerOrder (Fin s) orders)) =
      min s (sum_list (map (\<lambda>order. xval (oo_takerAmount order)) orders)) \<and>
    (\<forall>i j. i < j \<and> j < length orders \<and>
       fillAmountPerOrder (Fin s) orders ! i < oo_takerAmount (orders ! i) \<longrightarrow>
       fillAmountPerOrder (Fin s) orders ! j = 0)"
  using fillAmountPerOrder_bounds[OF assms] fillAmountPerOrder_greedy[OF assms] by blast

theorem rfq_fill_amounts_clipped_witness:
  "fillAmountPerOrder (Fin 5) [uniswap_order UniswapV2 4, uniswap_order SushiSwap 6] = [Fin 4, Fin 1] \<and>
   sum_list (map xval (fillAmountPerOrder (Fin 5) [uniswap_order UniswapV2 4, uniswap_order SushiSwap 6])) = 5"
  using rfq_fill_amounts_clipped[of 5 "[uniswap_order UniswapV2 4, uniswap_order SushiSwap 6]"]
  by (simp add: uniswap_order_def)

theorem direct_routes_carry_no_affiliate_fees_witness:
  "call_minBuy (multiplexBatchSellTokenForToken ''B'' ''A''
     [\<lparr>sc_sellAmount = Fin 4, sc_data = SubUniswapV2 [''B'', ''A''] False\<rparr>,
      \<lparr>sc_sellAmount = Fin 6, sc_data = SubUniswapV2 [''B'', ''A''] True\<rparr>] (Fin 10) (Fin 9)) = Some (Fin 9) \<and>
   getCalldataOrThrow sample_lib sample_consumer (sample_quote uniswap_path) id =
     Inr (calldata_info sample_consumer (multiplexBatchSellTokenForToken ''B'' ''A''
       [\<lparr>sc_sellAmount = Fin 4, sc_data = SubUniswapV2 [''B'', ''A''] False\<rparr>,
        \<lparr>sc_sellAmount = Fin 6, sc_data = SubUniswapV2 [''B'', ''A''] True\<rparr>] (Fin 10) (Fin 9)) (Fin 0) (Fin 0)) \<and>
   getCalldataOrThrow sample_lib sample_consumer (sample_quote uniswap_path)
     (\<lambda>defaults. defaults\<lparr>positiveSlippageFee := Some \<lparr>feeType = PositiveSlippageFee, af_recipient = ''F'',
        buyTokenFeeAmount = Fin 0, sellTokenFeeAmount = Fin 0\<rparr>\<rparr>) =
   getCalldataOrThrow sample_lib sample_consumer (sample_quote uniswap_path) id"
proof -
  have call: "getCalldataOrThrow sample_lib sample_consumer (sample_quote uniswap_path) id =
     Inr (calldata_info sample_consumer (multiplexBatchSellTokenForToken ''B'' ''A''
       [\<lparr>sc_sellAmount = Fin 4, sc_data = SubUniswapV2 [''B'', ''A''] False\<rparr>,
        \<lparr>sc_sellAmount = Fin 6, sc_data = SubUniswapV2 [''B'', ''A''] True\<rparr>] (Fin 10) (Fin 9)) (Fin 0) (Fin 0))"
    by (simp add: getCalldataOrThrow_def route_calldata_def sample_quote_defs getSlippedOrders_def
        getMaxQuoteSlippageRate_def checkSlippage_def slipOrder_def uniswapV2_isCompatible_def
        isDirectSwapCompatible_def requiresTransformERC20_def isMultiplexBatchFillCompatible_def
        MULTIPLEX_BATCH_FILL_SOURCES_def encodeMultiplexBatchFillCalldata_def uniswapV2_subcall_def Let_def)
  show ?thesis using direct_routes_carry_no_affiliate_fees[OF call] call by simp
qed

text \<open>C20: A sale is never over- or undersold. Unless the whole balance is sold (then every transformer takes all
  there is), with first hops that buy another token than the one sold, the amounts of the taker token
  that the fill-quote transformers of a sell quote take add up to exactly the fill amount of the quote,
  over its two-hops and its remaining orders; when there are only two-hops, to exactly what their first
  hops take, which is the sum of the inputs of the fills that the path was created from.\<close>

theorem sell_amounts_conserved:
  assumes "createFillQuoteTransformations lib consumer quote opts = Inr ts"
    "swq_type quote = Sell" "ctx_side (path_context (swq_path quote)) = Sell" "\<not> shouldSellEntireBalance opts"
    "swq_fillAmount quote = Fin a"
    "\<forall>t \<in> set (twoHopOrders (path_ordersByType (swq_path quote))).
       is_fin (oo_takerAmount (firstHopOrder t)) \<and> oo_makerToken (firstHopOrder t) \<noteq> swq_takerToken quote"
  shows "sum_list (map (sold_by (swq_takerToken quote)) ts) =
      (if nativeOrders (path_ordersByType (swq_path quote)) @ bridgeOrders (path_ordersByType (swq_path quote)) = []
       then sum_list (map (\<lambda>t. xval (oo_takerAmount (firstHopOrder t)))
              (twoHopOrders (path_ordersByType (swq_path quote))))
       else a) \<and>
    (\<forall>rnd ctx fs t po. Path_create rnd ctx fs t po = Inr (swq_path quote) \<and> (a = input_sum fs \<or>
       nativeOrders (path_ordersByType (swq_path quote)) @ bridgeOrders (path_ordersByType (swq_path quote)) = []) \<longrightarrow>
       sum_list (map (sold_by (swq_takerToken quote)) ts) = input_sum fs)"
proof -
  let ?hops = "twoHopOrders (path_ordersByType (swq_path quote))"
  let ?rest = "nativeOrders (path_ordersByType (swq_path quote)) @ bridgeOrders (path_ordersByType (swq_path quote))"
  let ?sum = "\<lambda>hops. sum_list (map (\<lambda>t. xval (oo_takerAmount (firstHopOrder t))) hops)"
  obtain two nonTwoHop where
    two: "createTwoHopTransformations lib consumer quote opts = Inr two" and
    non: "createNonTwoHopTransformation lib consumer quote opts = Inr nonTwoHop" and
    ts: "ts = (case nonTwoHop of None \<Rightarrow> two | Some t \<Rightarrow> two @ [t])"
    using assms(1) by (auto simp: createFillQuoteTransformations_def res_bind_eq_Inr)
  have hops: "sum_list (map (sold_by (swq_takerToken quote)) two) = ?sum ?hops"
    by (rule two_hop_transformations_sold[OF two assms(3,4,6)])
  have rest: "if ?rest = [] then nonTwoHop = None
      else \<exists>t. nonTwoHop = Some t \<and> sold_by (swq_takerToken quote) t = xval (getNonTwoHopFillAmount quote)"
    by (rule non_two_hop_sold[OF non assms(2,4)])
  have "getNonTwoHopFillAmount quote = Fin (a - ?sum ?hops)"
    using assms(6) by (simp add: getNonTwoHopFillAmount_def assms(2,5) getTwoHopFillAmount_sell)
  with hops rest have sold: "sum_list (map (sold_by (swq_takerToken quote)) ts) = (if ?rest = [] then ?sum ?hops else a)"
    by (auto simp: ts split: if_splits)
  moreover have "?sum ?hops = input_sum fs"
    if "Path_create rnd ctx fs t po = Inr (swq_path quote)" "?rest = []" for rnd ctx fs t po
    using path_orders_input[OF that(1)] that(2) Path_create_facts(2)[OF that(1)] assms(3)
    by (simp add: twoHop_input_def order_input_def comp_def)
  ultimately show ?thesis by auto
qed

lemma uniswap_bridge_info:
  "src = UniswapV2 \<or> src = SushiSwap \<Longrightarrow>
   bridge_info sample_lib (uniswap_order src i) =
     Inr \<lparr>bo_bridgeData = ''0x'', bo_makerTokenAmount = Fin 5, bo_takerTokenAmount = Fin i,
          bo_source = snd (the (bridge_protocol_and_name src))\<rparr>"
  by (auto simp: bridge_info_def createBridgeDataForBridgeOrder_def BRIDGE_ENCODERS_def bridge_values_def
      getErc20BridgeSourceToBridgeSource_def uniswapV2_like_def curve_like_def uniswap_order_def sample_lib_def)

lemma uniswap_transformation:
  "\<exists>fqtOrders. createFillQuoteTransformations sample_lib sample_consumer (sample_quote uniswap_path) opts =
    Inr [\<lparr>deploymentNonce = 3, tr_data = FillQuoteData SideSell ''B'' ''A'' fqtOrders
      (if refundReceiver opts \<noteq> [] then refundReceiver opts else NULL_ADDRESS)
      (if shouldSellEntireBalance opts then MAX_UINT256 else Fin 10)\<rparr>]"
proof -
  have "slipOrder (Fin 0) Sell order = order" for order by (simp add: slipOrder_def)
  moreover have "oo_type (uniswap_order src i) = Bridge" for src i by (simp add: uniswap_order_def)
  ultimately show ?thesis
    by (simp add: createFillQuoteTransformations_def createTwoHopTransformations_def createNonTwoHopTransformation_def
        getSlippedOrdersByType_def checkSlippage_def getSwapContext_def getMaxQuoteSlippageRate_def isBuyQuote_def
        getNonTwoHopFillAmount_def getTwoHopFillAmount_def fqt_def getFQTTransformerDataFromOptimizedOrders_def
        push_order_def uniswap_bridge_info sample_quote_def sample_info_def sample_context_def uniswap_path_def
        sample_consumer_def create_consumer_def getTransformerNonces_def Let_def)
      (simp add: sample_lib_def)
qed

text \<open>A quote that goes over \<open>C\<close> for 4 and directly for the rest, and one that only goes over \<open>C\<close>.\<close>

definition hop_order :: "Address \<Rightarrow> Address \<Rightarrow> BigNumber \<Rightarrow> BigNumber \<Rightarrow> OptimizedOrder" where
  "hop_order taker maker takerAmount makerAmount =
     (uniswap_order UniswapV2 4)\<lparr>oo_fillData := UniswapV2FD [taker, maker] ''R'', oo_makerToken := maker,
        oo_takerToken := taker, oo_makerAmount := makerAmount, oo_takerAmount := takerAmount\<rparr>"

definition two_hop_path :: "rat \<Rightarrow> OptimizedOrder list \<Rightarrow> Path" where
  "two_hop_path i rest = uniswap_path\<lparr>path_ordersByType :=
     \<lparr>nativeOrders = [],
      twoHopOrders = [\<lparr>firstHopOrder = hop_order ''B'' ''C'' (Fin i) (Fin 0),
                       secondHopOrder = hop_order ''C'' ''A'' MAX_UINT256 (Fin 5)\<rparr>],
      bridgeOrders = rest\<rparr>\<rparr>"

lemma hop_bridge_info:
  "bridge_info sample_lib (hop_order taker maker a m) =
     Inr \<lparr>bo_bridgeData = ''0x'', bo_makerTokenAmount = m, bo_takerTokenAmount = a,
          bo_source = snd (the (bridge_protocol_and_name UniswapV2))\<rparr>"
  by (auto simp: bridge_info_def createBridgeDataForBridgeOrder_def BRIDGE_ENCODERS_def bridge_values_def
      getErc20BridgeSourceToBridgeSource_def uniswapV2_like_def curve_like_def hop_order_def uniswap_order_def
      sample_lib_def)

lemma two_hop_transformation:
  assumes "rest = [] \<or> rest = [uniswap_order SushiSwap 6]"
  shows "\<exists>ts. createFillQuoteTransformations sample_lib sample_consumer (sample_quote (two_hop_path i rest))
    DEFAULT_EXCHANGE_PROXY_EXTENSION_CONTRACT_OPTS = Inr ts"
proof -
  have "slipOrder (Fin 0) Sell order = order" for order by (simp add: slipOrder_def)
  moreover have "oo_type (uniswap_order src j) = Bridge" for src j by (simp add: uniswap_order_def)
  moreover have "oo_type (hop_order t m a b) = Bridge" for t m a b by (simp add: hop_order_def uniswap_order_def)
  ultimately show ?thesis
    using assms
    by (auto simp: createFillQuoteTransformations_def createTwoHopTransformations_def two_hop_transformations_def
        createNonTwoHopTransformation_def getSlippedOrdersByType_def checkSlippage_def getSwapContext_def
        getMaxQuoteSlippageRate_def fqt_def getFQTTransformerDataFromOptimizedOrders_def push_order_def
        hop_bridge_info uniswap_bridge_info sample_quote_def sample_info_def sample_context_def two_hop_path_def
        uniswap_path_def Let_def)
qed

theorem sell_amounts_conserved_witness:
  "\<exists>mixed pure.
     createFillQuoteTransformations sample_lib sample_consumer
       (sample_quote (two_hop_path 4 [uniswap_order SushiSwap 6])) DEFAULT_EXCHANGE_PROXY_EXTENSION_CONTRACT_OPTS = Inr mixed \<and>
     sum_list (map (sold_by ''B'') mixed) = 10 \<and>
     createFillQuoteTransformations sample_lib sample_consumer
       (sample_quote (two_hop_path 10 [])) DEFAULT_EXCHANGE_PROXY_EXTENSION_CONTRACT_OPTS = Inr pure \<and>
     sum_list (map (sold_by ''B'') pure) = 10"
proof -
  let ?opts = "DEFAULT_EXCHANGE_PROXY_EXTENSION_CONTRACT_OPTS"
  note defs = sample_quote_def sample_context_def two_hop_path_def uniswap_path_def hop_order_def uniswap_order_def
    DEFAULT_EXCHANGE_PROXY_EXTENSION_CONTRACT_OPTS_def
  obtain mixed where m: "createFillQuoteTransformations sample_lib sample_consumer
      (sample_quote (two_hop_path 4 [uniswap_order SushiSwap 6])) ?opts = Inr mixed"
    using two_hop_transformation by blast
  obtain pure where p: "createFillQuoteTransformations sample_lib sample_consumer
      (sample_quote (two_hop_path 10 [])) ?opts = Inr pure"
    using two_hop_transformation by blast
  have "sum_list (map (sold_by ''B'') mixed) = 10"
    using sell_amounts_conserved[OF m, of 10] by (simp add: defs)
  moreover have "sum_list (map (sold_by ''B'') pure) = 10"
    using sell_amounts_conserved[OF p, of 10] by (simp add: defs)
  ultimately show ?thesis using m p by blast
qed

definition sample_fee_opts :: ExchangeProxyContractOpts where
  "sample_fee_opts = DEFAULT_EXCHANGE_PROXY_EXTENSION_CONTRACT_OPTS
     \<lparr>sellTokenAffiliateFees := [\<lparr>feeType = GaslessFee, af_recipient = ''G'', buyTokenFeeAmount = Fin 0,
        sellTokenFeeAmount = Fin 3\<rparr>],
      buyTokenAffiliateFees := [\<lparr>feeType = PercentageFee, af_recipient = ''F'', buyTokenFeeAmount = Fin 2,
        sellTokenFeeAmount = Fin 0\<rparr>],
      metaTransactionVersion := Some v1\<rparr>"

theorem transform_settles_fees_witness:
  "\<exists>info fills.
     transformERC20_createCalldata sample_lib sample_consumer (sample_quote uniswap_path) sample_fee_opts = Inr info \<and>
     calldata info = transformERC20 ''B'' ''A'' (Fin 13) (Fin 7)
       ([\<lparr>deploymentNonce = 4, tr_data = AffiliateFeeData [\<lparr>tf_token = ''B'', tf_amount = Fin 3, tf_recipient = ''G''\<rparr>]\<rparr>] @
        fills @
        [\<lparr>deploymentNonce = 4, tr_data = AffiliateFeeData [\<lparr>tf_token = ''A'', tf_amount = Fin 2, tf_recipient = ''F''\<rparr>]\<rparr>,
         createPayTakerTransformation sample_lib sample_consumer (sample_quote uniswap_path) sample_fee_opts])"
proof -
  obtain info where info: "transformERC20_createCalldata sample_lib sample_consumer (sample_quote uniswap_path)
      sample_fee_opts = Inr info"
    using uniswap_transformation[of sample_fee_opts]
    by (auto simp: transformERC20_createCalldata_def Let_def)
  note fee_defs = total_charged_def buyTokenFees_def sample_fee_opts_def charged_def takes_surplus_def NULL_ADDRESS_def
    DEFAULT_EXCHANGE_PROXY_EXTENSION_CONTRACT_OPTS_def sell_fee_payments_def fee_transformation_def fee_token_def
  have nonces: "n_affiliateFeeTransformer (qc_transformerNonces sample_consumer) = 4"
    by (simp add: sample_consumer_def create_consumer_def getTransformerNonces_def sample_lib_def Let_def)
  have fees: "\<forall>fee \<in> set (buyTokenFees sample_fee_opts). is_fin (buyTokenFeeAmount fee)"
      "\<forall>fee \<in> set (sellTokenAffiliateFees sample_fee_opts). \<exists>amount. sellTokenFeeAmount fee = Fin amount \<and> 0 \<le> amount"
    by (simp_all add: fee_defs)
  have amounts: "qi_makerAmount (swq_worstCaseQuoteInfo (sample_quote uniswap_path)) = Fin 9"
      "bn_max (qi_totalTakerAmount (swq_bestCaseQuoteInfo (sample_quote uniswap_path)))
        (qi_totalTakerAmount (swq_worstCaseQuoteInfo (sample_quote uniswap_path))) = Fin 10"
    by (simp_all add: sample_quote_def sample_info_def)
  show ?thesis
    using transform_settles_fees[OF info fees amounts(1) _ amounts(2)] info
    by (auto simp: fee_defs nonces sample_quote_def comp_def)
qed

text \<open>A quote found compatible with the multiplex batch feature is always encoded: when its path was made
  of fills whose flags and fill data fit their sources and its slippage is valid, encoding does not
  throw, and every order of the path has one subcall of its own, with its data and its sell amount.\<close>

theorem multiplex_batch_encodes:
  assumes "isMultiplexBatchFillCompatible quote opts"
    "Path_create rnd ctx fs t po = Inr (swq_path quote)" "\<forall>f \<in> set fs. well_flagged f \<and> multiplex_fill f"
    "checkSlippage (getMaxQuoteSlippageRate quote) = Inr ()"
  shows "\<exists>slipped subs call.
    getSlippedOrders (swq_path quote) (getMaxQuoteSlippageRate quote) = Inr slipped \<and>
    length slipped = length fs \<and>
    batch_subcalls lib consumer quote slipped = Inr subs \<and> list_all2 own_subcall slipped subs \<and>
    encodeMultiplexBatchFillCalldata lib consumer quote opts = Inr call"
proof -
  let ?os = "path_ordersByType (swq_path quote)"
  have compat: "\<not> hasTwoHop (swq_path quote)" "\<forall>order \<in> set (getOrders (swq_path quote)).
      oo_type order \<noteq> Limit \<and> oo_source order \<in> set MULTIPLEX_BATCH_FILL_SOURCES"
    using assms(1)
    by (auto simp: isMultiplexBatchFillCompatible_def list_all_iff image_iff split: if_splits)
  have hops: "twoHopOrders ?os = []"
    using compat(1) hasTwoHop_iff_twoHop_orders[OF assms(2)] assms(3) by blast
  then have orders: "getOrders (swq_path quote) = nativeOrders ?os @ bridgeOrders ?os"
    by (simp add: getOrders_def)
  define slipped where "slipped = map (slipOrder (getMaxQuoteSlippageRate quote)
      (ctx_side (path_context (swq_path quote)))) (getOrders (swq_path quote))"
  have 1: "getSlippedOrders (swq_path quote) (getMaxQuoteSlippageRate quote) = Inr slipped"
    by (simp add: getSlippedOrders_def assms(4) slipped_def)
  have "\<forall>order \<in> set (getOrders (swq_path quote)). multiplex_order order"
    using multiplex_path_orders[OF assms(2)] assms(3) orders by simp
  then have "succeeds (list_all2 own_subcall slipped) (batch_subcalls lib consumer quote slipped)"
    using compat(2) by (intro batch_subcalls_own) (simp add: slipped_def slipOrder_same)
  then obtain subs where 2: "batch_subcalls lib consumer quote slipped = Inr subs" "list_all2 own_subcall slipped subs"
    by (auto simp: succeeds_def)
  note facts = createOrdersByType_facts(1-3)[OF Path_create_facts(1)[OF assms(2)]]
  have "filter (\<lambda>f. fill_source f = MultiHop) fs = []"
    using facts(2) hops by simp
  then have "filter (\<lambda>f. fill_source f \<noteq> Native \<and> fill_source f \<noteq> MultiHop) fs =
      filter (\<lambda>f. \<not> fill_source f = Native) fs"
    by (intro filter_cong) (auto simp: filter_empty_conv)
  then have "length slipped = length fs"
    using arg_cong[OF facts(1), of length] arg_cong[OF facts(3), of length]
      sum_length_filter_compl[of "\<lambda>f. fill_source f = Native" fs]
    by (simp add: slipped_def orders)
  then show ?thesis using 1 2 by (simp add: encodeMultiplexBatchFillCalldata_def Let_def)
qed

theorem multiplex_batch_encodes_witness:
  "\<exists>call. encodeMultiplexBatchFillCalldata sample_lib sample_consumer (sample_quote uniswap_path)
     DEFAULT_EXCHANGE_PROXY_EXTENSION_CONTRACT_OPTS = Inr call"
proof -
  have path: "Path_create rnd78 sample_context [uniswap_fill UniswapV2 4, uniswap_fill SushiSwap 6] (Fin 10)
      sample_penalty = Inr (swq_path (sample_quote uniswap_path))"
    using uniswap_path_create by (simp add: sample_quote_def)
  have compatible: "isMultiplexBatchFillCompatible (sample_quote uniswap_path) DEFAULT_EXCHANGE_PROXY_EXTENSION_CONTRACT_OPTS"
    by (simp add: isMultiplexBatchFillCompatible_def requiresTransformERC20_def sample_quote_defs
        MULTIPLEX_BATCH_FILL_SOURCES_def)
  have slippage: "checkSlippage (getMaxQuoteSlippageRate (sample_quote uniswap_path)) = Inr ()"
    by (simp add: checkSlippage_def getMaxQuoteSlippageRate_def sample_quote_def sample_info_def)
  show ?thesis
    using multiplex_batch_encodes[OF compatible path uniswap_fills_fit slippage]
    by blast
qed


end
