(* ===== verification/Swap_Quoter.thy ===== *)
theory Swap_Quoter
  imports Market_Operations Quote_Calldata
begin

text \<open>
  The swap quoter (\<open>swap_quoter.ts\<close>), the gas overhead of the exchange proxy and the request options of
  the service (\<open>options.ts\<close>), and the order book it asks for limit orders (\<open>orderbook/*.ts\<close>). A partial
  options object is the change it makes to the defaults it is merged into. The gas price oracle, the
  address check of \<open>@0x/assert\<close>, the expiry check of a limit order, the lookup of a transaction origin in
  the blacklist, the gas schedule (total on the fill data of the sources) and the parameters of the market
  operations are fields of \<open>QuoterEnv\<close>.
\<close>

section \<open>Gas overhead by source flags\<close>

definition TX_BASE_GAS :: BigNumber where
  "TX_BASE_GAS = Fin 21000"

definition FILL_QUOTE_TRANSFORMER_GAS_OVERHEAD :: BigNumber where
  "FILL_QUOTE_TRANSFORMER_GAS_OVERHEAD = Fin 150000"

definition MULTIPLEX_BATCH_FILL_SOURCE_FLAGS :: int where
  "MULTIPLEX_BATCH_FILL_SOURCE_FLAGS =
     SOURCE_FLAGS (SourceKey UniswapV2) OR SOURCE_FLAGS (SourceKey SushiSwap) OR SOURCE_FLAGS RfqOrder OR
     SOURCE_FLAGS (SourceKey UniswapV3) OR SOURCE_FLAGS OtcOrder"

definition MULTIPLEX_MULTIHOP_FILL_SOURCE_FLAGS :: int where
  "MULTIPLEX_MULTIHOP_FILL_SOURCE_FLAGS =
     SOURCE_FLAGS (SourceKey UniswapV2) OR SOURCE_FLAGS (SourceKey SushiSwap) OR SOURCE_FLAGS (SourceKey UniswapV3)"

definition EXCHANGE_PROXY_OVERHEAD_NO_VIP :: ExchangeProxyOverhead where
  "EXCHANGE_PROXY_OVERHEAD_NO_VIP sourceFlags = FILL_QUOTE_TRANSFORMER_GAS_OVERHEAD"

definition EXCHANGE_PROXY_OVERHEAD_FULLY_FEATURED :: "ChainId \<Rightarrow> ExchangeProxyOverhead" where
  "EXCHANGE_PROXY_OVERHEAD_FULLY_FEATURED chainId sourceFlags =
     (if sourceFlags \<in> set (map (SOURCE_FLAGS \<circ> SourceKey) [UniswapV2, SushiSwap]) then TX_BASE_GAS
      else if sourceFlags \<in> set (map (SOURCE_FLAGS \<circ> SourceKey)
                [SushiSwap, PancakeSwap, PancakeSwapV2, BakerySwap, ApeSwap]) \<and> chainId = BSC then TX_BASE_GAS
      else if SOURCE_FLAGS (SourceKey UniswapV3) = sourceFlags then TX_BASE_GAS + Fin 5000
      else if SOURCE_FLAGS (SourceKey Curve) = sourceFlags then TX_BASE_GAS + Fin 40000
      else if SOURCE_FLAGS RfqOrder = sourceFlags then TX_BASE_GAS + Fin 5000
      else if SOURCE_FLAGS OtcOrder = sourceFlags then TX_BASE_GAS
      else if MULTIPLEX_BATCH_FILL_SOURCE_FLAGS OR sourceFlags = MULTIPLEX_BATCH_FILL_SOURCE_FLAGS then
        (if sourceFlags AND SOURCE_FLAGS OtcOrder = SOURCE_FLAGS OtcOrder then TX_BASE_GAS + Fin 10000
         else TX_BASE_GAS + Fin 15000)
      else if MULTIPLEX_MULTIHOP_FILL_SOURCE_FLAGS OR sourceFlags =
              MULTIPLEX_MULTIHOP_FILL_SOURCE_FLAGS OR SOURCE_FLAGS (SourceKey MultiHop) then TX_BASE_GAS + Fin 25000
      else FILL_QUOTE_TRANSFORMER_GAS_OVERHEAD)"

section \<open>Options and state\<close>

record RfqRequestOpts = GetMarketOrdersRfqOpts +
  nativeExclusivelyRFQ :: bool

record SwapQuoteRequestOpts =
  so_gasPrice :: "BigNumber option"
  so_bridgeSlippage :: js_number
  so_excludedSources :: "ERC20BridgeSource list"
  so_includedSources :: "ERC20BridgeSource list"
  so_numSamples :: nat
  so_sampleDistributionBase :: js_number
  so_neonRouterNumSamples :: nat
  so_exchangeProxyOverhead :: ExchangeProxyOverhead
  so_rfqt :: "RfqRequestOpts option"
  so_shouldGenerateQuoteReport :: bool
  so_fillAdjustor :: FillAdjustor

definition DEFAULT_GET_MARKET_ORDERS_OPTS :: SwapQuoteRequestOpts where
  "DEFAULT_GET_MARKET_ORDERS_OPTS =
     \<lparr>so_gasPrice = None, so_bridgeSlippage = Fin (rnd64 (5 / 1000)), so_excludedSources = [],
      so_includedSources = [], so_numSamples = 40, so_sampleDistributionBase = 1, so_neonRouterNumSamples = 40 + 1,
      so_exchangeProxyOverhead = (\<lambda>_. ZERO_AMOUNT), so_rfqt = None, so_shouldGenerateQuoteReport = True,
      so_fillAdjustor = IdentityFillAdjustor\<rparr>"

definition DEFAULT_QUOTE_SLIPPAGE_PERCENTAGE :: js_number where
  "DEFAULT_QUOTE_SLIPPAGE_PERCENTAGE = Fin (rnd64 (1 / 100))"

text \<open>The options of the service are spread over the defaults; \<open>sampleDistributionBase\<close> is configured.\<close>

definition ASSET_SWAPPER_MARKET_ORDERS_OPTS ::
  "ChainId \<Rightarrow> js_number \<Rightarrow> SwapQuoteRequestOpts \<Rightarrow> SwapQuoteRequestOpts" where
  "ASSET_SWAPPER_MARKET_ORDERS_OPTS chainId sampleDistributionBase opts =
     opts\<lparr>so_bridgeSlippage := DEFAULT_QUOTE_SLIPPAGE_PERCENTAGE, so_numSamples := 40,
          so_sampleDistributionBase := sampleDistributionBase, so_neonRouterNumSamples := 40 + 1,
          so_exchangeProxyOverhead := EXCHANGE_PROXY_OVERHEAD_FULLY_FEATURED chainId,
          so_shouldGenerateQuoteReport := True\<rparr>"

definition ASSET_SWAPPER_MARKET_ORDERS_OPTS_NO_VIP ::
  "ChainId \<Rightarrow> js_number \<Rightarrow> SwapQuoteRequestOpts \<Rightarrow> SwapQuoteRequestOpts" where
  "ASSET_SWAPPER_MARKET_ORDERS_OPTS_NO_VIP chainId sampleDistributionBase opts =
     (ASSET_SWAPPER_MARKET_ORDERS_OPTS chainId sampleDistributionBase opts)
       \<lparr>so_exchangeProxyOverhead := EXCHANGE_PROXY_OVERHEAD_NO_VIP\<rparr>"

record SwapQuoter =
  sw_chainId :: ChainId
  sw_expiryBufferMs :: js_number
  sw_permitsNoFees :: bool
  sw_integratorIds :: "string list"

record QuoterEnv =
  qe_market :: MarketEnv
  qe_gasPriceEstimate :: "js_error + BigNumber"
  qe_isETHAddressHex :: "string \<Rightarrow> bool"
  qe_willExpire :: "OrderFields \<Rightarrow> js_number \<Rightarrow> bool"
  qe_isBlacklisted :: "string \<Rightarrow> bool"
  qe_gasSchedule :: GasSchedule
  qe_orders :: "Address \<Rightarrow> Address \<Rightarrow> js_error + (OrderFields \<times> string) list"
  qe_isNative :: "Address \<Rightarrow> bool"
  qe_tokenRate :: "ERC20BridgeSource list \<Rightarrow> Address \<Rightarrow> Address \<Rightarrow> BigNumber \<Rightarrow> FeeSchedule \<Rightarrow> js_error + BigNumber"

section \<open>The order book\<close>

definition apiOrderToOrderbookOrder :: "OrderFields \<times> string \<Rightarrow> SignedNativeOrder" where
  "apiOrderToOrderbookOrder apiOrder =
     \<lparr>sno_order = fst apiOrder, sno_type = Limit, sno_signature = snd apiOrder\<rparr>"

text \<open>A failed request to the order book service gives no orders.\<close>

definition orderbook_getOrdersAsync ::
  "(Address \<Rightarrow> Address \<Rightarrow> js_error + (OrderFields \<times> string) list) \<Rightarrow> Address \<Rightarrow> Address \<Rightarrow>
   (SignedNativeOrder \<Rightarrow> bool) option \<Rightarrow> SignedNativeOrder list" where
  "orderbook_getOrdersAsync service makerToken takerToken pruneFn =
     (let apiOrders = (case service makerToken takerToken of Inl _ \<Rightarrow> [] | Inr records \<Rightarrow> records);
          orders = map apiOrderToOrderbookOrder apiOrders
      in case pruneFn of Some prune \<Rightarrow> filter prune orders | None \<Rightarrow> orders)"

definition limitOrderPruningFn :: "QuoterEnv \<Rightarrow> SwapQuoter \<Rightarrow> SignedNativeOrder \<Rightarrow> bool" where
  "limitOrderPruningFn env quoter limitOrder =
     (let order = sno_order limitOrder;
          isOpenOrder = (ord_taker order = NULL_ADDRESS);
          willOrderExpire = qe_willExpire env order (js_div (sw_expiryBufferMs quoter) (Fin 1000));
          isFeeTypeAllowed = (sw_permitsNoFees quoter \<and> bn_eq (ord_takerTokenFeeAmount order) ZERO_AMOUNT)
      in isOpenOrder \<and> \<not> willOrderExpire \<and> isFeeTypeAllowed)"

definition getLimitOrders ::
  "QuoterEnv \<Rightarrow> SwapQuoter \<Rightarrow> MarketOperation \<Rightarrow> Address \<Rightarrow> Address \<Rightarrow> SwapQuoteRequestOpts \<Rightarrow> SignedNativeOrder list" where
  "getLimitOrders env quoter side makerToken takerToken opts =
     (let requestFilters = new_SourceFilters [] (so_excludedSources opts) (so_includedSources opts);
          sourceFilter = (if side = Sell then SELL_SOURCE_FILTER_BY_CHAIN_ID (sw_chainId quoter)
                          else BUY_SOURCE_FILTER_BY_CHAIN_ID (sw_chainId quoter));
          quoteFilter = merge_filters sourceFilter requestFilters
      in if \<not> isAllowed quoteFilter Native \<or>
            (case so_rfqt opts of None \<Rightarrow> False | Some r \<Rightarrow> nativeExclusivelyRFQ r) then []
         else orderbook_getOrdersAsync (qe_orders env) makerToken takerToken (Some (limitOrderPruningFn env quoter)))"

section \<open>RFQ options\<close>

definition isIntegratorIdWhitelisted :: "SwapQuoter \<Rightarrow> string \<Rightarrow> bool" where
  "isIntegratorIdWhitelisted quoter integratorId =
     (if integratorId = [] then False else integratorId \<in> set (sw_integratorIds quoter))"

definition isTxOriginBlacklisted :: "QuoterEnv \<Rightarrow> string \<Rightarrow> bool" where
  "isTxOriginBlacklisted env txOrigin =
     (if txOrigin = [] then False else qe_isBlacklisted env (toLowerCase txOrigin))"

definition validateRfqtOpts ::
  "QuoterEnv \<Rightarrow> SwapQuoter \<Rightarrow> SourceFilters \<Rightarrow> RfqRequestOpts option \<Rightarrow> js_error + RfqRequestOpts option" where
  "validateRfqtOpts env quoter sourceFilters rfqt =
     (case rfqt of
        None \<Rightarrow> Inr None
      | Some r \<Rightarrow>
          if nativeExclusivelyRFQ r \<and> \<not> isAllowed sourceFilters Native
          then Inl (Error ''Native liquidity cannot be excluded if \"rfqt.nativeExclusivelyRFQ\" is set'')
          else if \<not> isIntegratorIdWhitelisted quoter (rfq_integratorId r) then Inr None
          else if isTxOriginBlacklisted env (rfq_txOrigin r) then Inr None
          else if rfq_intentOnFilling r \<and> isIntegratorIdWhitelisted quoter (rfq_integratorId r) \<and>
                  isAllowed sourceFilters Native \<and> (rfq_txOrigin r = [] \<or> rfq_txOrigin r = NULL_ADDRESS)
          then Inl (Error ''RFQ-T firm quote requests must specify a tx origin'')
          else Inr (Some r))"

section \<open>Quotes\<close>

definition scaled_fee_schedule :: "GasSchedule \<Rightarrow> BigNumber \<Rightarrow> FeeSchedule" where
  "scaled_fee_schedule gasSchedule gasPrice source fillData =
     (let gas = gasSchedule source fillData in \<lparr>fe_gas = gas, fe_fee = gasPrice * bn_of_number gas\<rparr>)"

text \<open>The options of the market operations: fees scaled by the gas price, and the RFQ client passed on when
  RFQ is enabled.\<close>

definition market_opts ::
  "QuoterEnv \<Rightarrow> SwapQuoteRequestOpts \<Rightarrow> BigNumber \<Rightarrow> RfqRequestOpts option \<Rightarrow> RfqClient option \<Rightarrow> GetMarketOrdersOpts" where
  "market_opts env opts gasPrice rfqt rfqClient =
     \<lparr>mo_excludedSources = so_excludedSources opts, mo_includedSources = so_includedSources opts,
      mo_numSamples = so_numSamples opts, mo_sampleDistributionBase = so_sampleDistributionBase opts,
      mo_neonRouterNumSamples = so_neonRouterNumSamples opts,
      mo_feeSchedule = scaled_fee_schedule (qe_gasSchedule env) gasPrice,
      mo_exchangeProxyOverhead = (\<lambda>flags. gasPrice * so_exchangeProxyOverhead opts flags),
      mo_rfqt = map_option (\<lambda>r. (GetMarketOrdersRfqOpts.truncate r)
                  \<lparr>rfq_quoteRequestor := Some [], rfq_rfqClient := rfqClient\<rparr>) rfqt,
      mo_shouldGenerateQuoteReport = so_shouldGenerateQuoteReport opts,
      mo_fillAdjustor = so_fillAdjustor opts, mo_gasPrice = gasPrice\<rparr>"

definition createSwapQuote ::
  "(rat \<Rightarrow> rat) \<Rightarrow> OptimizerResultWithReport \<Rightarrow> Address \<Rightarrow> Address \<Rightarrow> MarketOperation \<Rightarrow> BigNumber \<Rightarrow> BigNumber \<Rightarrow>
   GasSchedule \<Rightarrow> js_number \<Rightarrow> js_error + SwapQuote" where
  "createSwapQuote rnd optimizerResult makerToken takerToken operation assetFillAmount gasPrice gasSchedule slippage =
     (let result = rw_result optimizerResult;
          liquidity = or_marketSideLiquidity result
      in res_bind (calculateQuoteInfo rnd
             \<lparr>qp_path = or_path result, qp_operation = operation, qp_assetFillAmount = assetFillAmount,
              qp_gasPrice = gasPrice, qp_gasSchedule = gasSchedule, qp_slippage = slippage\<rparr>)
         (\<lambda>info. Inr
            \<lparr>swq_type = operation, swq_fillAmount = assetFillAmount, swq_takerToken = takerToken,
             swq_makerToken = makerToken, swq_gasPrice = gasPrice, swq_path = or_path result,
             swq_bestCaseQuoteInfo = bestCaseQuoteInfo info, swq_worstCaseQuoteInfo = worstCaseQuoteInfo info,
             swq_sourceBreakdown = sourceBreakdown info, swq_quoteReport = rw_quoteReport optimizerResult,
             swq_extendedQuoteReportSources = Some (rw_extendedQuoteReportSources optimizerResult),
             swq_makerTokenDecimals = msl_makerTokenDecimals liquidity,
             swq_takerTokenDecimals = msl_takerTokenDecimals liquidity,
             swq_takerAmountPerEth = or_takerAmountPerEth result,
             swq_makerAmountPerEth = or_makerAmountPerEth result,
             swq_blockNumber = msl_blockNumber liquidity, swq_samplerGasUsage = msl_samplerGasUsage liquidity\<rparr>))"

definition add_gas_overhead :: "js_number \<Rightarrow> SwapQuote \<Rightarrow> SwapQuote" where
  "add_gas_overhead overhead quote =
     quote\<lparr>swq_bestCaseQuoteInfo := (swq_bestCaseQuoteInfo quote)
              \<lparr>qi_gas := js_add (qi_gas (swq_bestCaseQuoteInfo quote)) overhead\<rparr>,
           swq_worstCaseQuoteInfo := (swq_worstCaseQuoteInfo quote)
              \<lparr>qi_gas := js_add (qi_gas (swq_worstCaseQuoteInfo quote)) overhead\<rparr>\<rparr>"

definition getSwapQuoteAsync ::
  "QuoterEnv \<Rightarrow> SwapQuoter \<Rightarrow> Address \<Rightarrow> Address \<Rightarrow> BigNumber \<Rightarrow> MarketOperation \<Rightarrow>
   (SwapQuoteRequestOpts \<Rightarrow> SwapQuoteRequestOpts) \<Rightarrow> RfqClient option \<Rightarrow> js_error + SwapQuote" where
  "getSwapQuoteAsync env quoter makerToken takerToken assetFillAmount marketOperation options rfqClient =
     (let opts = options DEFAULT_GET_MARKET_ORDERS_OPTS;
          rnd = me_rnd (qe_market env)
      in if \<not> qe_isETHAddressHex env makerToken then Inl (Error ''makerToken'')
         else if \<not> qe_isETHAddressHex env takerToken then Inl (Error ''takerToken'')
         else res_bind (case so_gasPrice opts of Some gasPrice \<Rightarrow> Inr gasPrice | None \<Rightarrow> qe_gasPriceEstimate env)
         (\<lambda>gasPrice. res_bind (validateRfqtOpts env quoter
              (new_SourceFilters [] (so_excludedSources opts) (so_includedSources opts)) (so_rfqt opts))
         (\<lambda>rfqt. let calcOpts = market_opts env opts gasPrice rfqt rfqClient;
                      limitOrders = getLimitOrders env quoter marketOperation makerToken takerToken
                                      (opts\<lparr>so_rfqt := rfqt\<rparr>)
          in res_bind (getOptimizerResultAsync (qe_market env) makerToken takerToken limitOrders assetFillAmount
                         marketOperation calcOpts)
         (\<lambda>result. res_bind (createSwapQuote rnd result makerToken takerToken marketOperation assetFillAmount
                                gasPrice (qe_gasSchedule env) (so_bridgeSlippage opts))
         (\<lambda>swapQuote. Inr (add_gas_overhead
            (toNumber (so_exchangeProxyOverhead opts (path_sourceFlags (or_path (rw_result result))))) swapQuote))))))"

definition quoter_getTokenAmountPerWei ::
  "QuoterEnv \<Rightarrow> Address \<Rightarrow> GetMarketOrdersOpts \<Rightarrow> js_error + BigNumber" where
  "quoter_getTokenAmountPerWei env tokenAddress opts =
     (if qe_isNative env tokenAddress then Inr (Fin 1)
      else getTokenAmountPerWei (qe_tokenRate env) (qe_market env) tokenAddress opts)"

section \<open>Limit orders and RFQ\<close>

lemma quote_filter_Native:
  assumes "isAllowed (merge_filters (side_filters chainId side)
    (new_SourceFilters [] (so_excludedSources opts) (so_includedSources opts))) Native"
  shows "Native \<notin> set (so_excludedSources opts) \<and>
    (so_includedSources opts = [] \<or> Native \<in> set (so_includedSources opts))"
  using assms
  by (auto simp: isAllowed_iff allowed_set_def merge_filters_def Let_def new_SourceFilters_def)

lemma market_opts_no_rfq: "market_opts env opts gasPrice None client = market_opts env opts gasPrice None client'"
  by (simp add: market_opts_def)

lemma market_opts_rfqt: "market_opts env (opts\<lparr>so_rfqt := r\<rparr>) gasPrice rfqt client = market_opts env opts gasPrice rfqt client"
  by (simp add: market_opts_def)

text \<open>An RFQ request is refused without an error.\<close>

definition rfq_refused :: "QuoterEnv \<Rightarrow> SwapQuoter \<Rightarrow> RfqRequestOpts \<Rightarrow> bool" where
  "rfq_refused env quoter r \<longleftrightarrow>
     \<not> isIntegratorIdWhitelisted quoter (rfq_integratorId r) \<or> isTxOriginBlacklisted env (rfq_txOrigin r)"

section \<open>Source flags and routes\<close>

definition fill_key :: "Fill \<Rightarrow> SourceFlagKey" where
  "fill_key f = (if fill_source f = Native then toNativeSourceFlagKey (fill_type f) else SourceKey (fill_source f))"

text \<open>The flag of a fill is that of its source or of its native order type; a two-hop has at least its own.\<close>

definition flagged_by_source :: "Fill \<Rightarrow> bool" where
  "flagged_by_source f \<longleftrightarrow>
     (if fill_source f = MultiHop then bit (fill_flags f) (index_of (SourceKey MultiHop) source_flag_keys)
      else fill_flags f = SOURCE_FLAGS (fill_key f))"

definition batch_keys :: "SourceFlagKey list" where
  "batch_keys = [SourceKey UniswapV2, SourceKey SushiSwap, RfqOrder, SourceKey UniswapV3, OtcOrder]"

lemma batch_flags_bit:
  "bit MULTIPLEX_BATCH_FILL_SOURCE_FLAGS (index_of k source_flag_keys) \<longleftrightarrow> k \<in> set batch_keys"
  using index_of_inj[OF key_in key_in, of _ k]
  by (auto simp: MULTIPLEX_BATCH_FILL_SOURCE_FLAGS_def bit_or_iff bit_SOURCE_FLAGS batch_keys_def)

lemma batch_fill_keys:
  assumes "MULTIPLEX_BATCH_FILL_SOURCE_FLAGS OR mergeSourceFlags (map fill_flags fs) = MULTIPLEX_BATCH_FILL_SOURCE_FLAGS"
    "f \<in> set fs" "flagged_by_source f"
  shows "fill_source f \<noteq> MultiHop \<and> fill_key f \<in> set batch_keys"
proof -
  have sub: "bit (fill_flags f) n \<Longrightarrow> bit MULTIPLEX_BATCH_FILL_SOURCE_FLAGS n" for n
    using assms(1,2) by (metis bit_mergeSourceFlags bit_or_iff image_eqI image_set)
  have "fill_source f \<noteq> MultiHop"
    using assms(3) sub batch_flags_bit[of "SourceKey MultiHop"]
    by (auto simp: flagged_by_source_def batch_keys_def split: if_splits)
  moreover have "fill_key f \<noteq> SourceKey Native"
    by (cases "fill_type f") (auto simp: fill_key_def split: if_splits)
  ultimately show ?thesis
    using assms(3) sub batch_flags_bit[of "fill_key f"]
    by (auto simp: flagged_by_source_def bit_SOURCE_FLAGS)
qed

text \<open>The orders of a path come from its fills.\<close>

lemma path_order_origin:
  assumes "Path_create rnd ctx fs t po = Inr p" "order \<in> set (nativeOrders (path_ordersByType p) @ bridgeOrders (path_ordersByType p))"
  shows "\<exists>f \<in> set fs. oo_source order = fill_source f \<and> (fill_source f = Native \<longrightarrow> oo_type order = fill_type f) \<and>
    (fill_source f \<noteq> Native \<longrightarrow> oo_type order = Bridge)"
proof -
  have "createOrdersByType fs ctx = Inr (path_ordersByType p)" by (rule Path_create_facts(1)[OF assms(1)])
  then obtain ns ts bs where
    ns: "res_map (\<lambda>f. createNativeOptimizedOrder f (ctx_side ctx)) (filter (\<lambda>f. fill_source f = Native) fs) = Inr ns" and
    bs: "res_map (\<lambda>f. createBridgeOrder f (fst (getMakerTakerTokens ctx)) (snd (getMakerTakerTokens ctx)) (ctx_side ctx))
           (filter (\<lambda>f. fill_source f \<noteq> Native \<and> fill_source f \<noteq> MultiHop) fs) = Inr bs" and
    os: "path_ordersByType p = \<lparr>nativeOrders = ns, twoHopOrders = ts, bridgeOrders = bs\<rparr>"
    by (auto simp: createOrdersByType_def res_bind_eq_Inr dest: sym)
  have native: "createNativeOptimizedOrder f side = Inr order \<Longrightarrow> oo_source order = Native \<and> oo_type order = fill_type f" for f side
    by (auto simp: createNativeOptimizedOrder_def split: FillData.split_asm if_split_asm)
  have bridge: "createBridgeOrder f m k side = Inr order \<Longrightarrow> oo_source order = fill_source f \<and> oo_type order = Bridge" for f m k side
    by (auto simp: createBridgeOrder_def res_bind_eq_Inr)
  from assms(2) consider "order \<in> set ns" | "order \<in> set bs" by (auto simp: os)
  then show ?thesis
  proof cases
    case 1
    then obtain f where "f \<in> set fs" "fill_source f = Native" "createNativeOptimizedOrder f (ctx_side ctx) = Inr order"
      using res_map_mem[OF ns] by auto
    then show ?thesis using native by (intro bexI[of _ f]) auto
  next
    case 2
    then obtain f where "f \<in> set fs" "fill_source f \<noteq> Native"
        "createBridgeOrder f (fst (getMakerTakerTokens ctx)) (snd (getMakerTakerTokens ctx)) (ctx_side ctx) = Inr order"
      using res_map_mem[OF bs] by auto
    then show ?thesis using bridge by (intro bexI[of _ f]) auto
  qed
qed

lemma batch_flags_compatible:
  assumes "Path_create rnd ctx fs t po = Inr (swq_path quote)" "\<forall>f \<in> set fs. flagged_by_source f"
    "MULTIPLEX_BATCH_FILL_SOURCE_FLAGS OR path_sourceFlags (swq_path quote) = MULTIPLEX_BATCH_FILL_SOURCE_FLAGS"
    "\<not> requiresTransformERC20 opts"
  shows "isMultiplexBatchFillCompatible quote opts"
proof -
  let ?p = "swq_path quote"
  have keys: "fill_source f \<noteq> MultiHop \<and> fill_key f \<in> set batch_keys" if "f \<in> set fs" for f
    using batch_fill_keys[OF _ that] assms(2,3) that by (simp add: Path_create_facts(6)[OF assms(1)])
  have no_bit: "\<not> bit (fill_flags f) (index_of (SourceKey MultiHop) source_flag_keys)" if "f \<in> set fs" for f
    using keys[OF that] assms(2) that index_of_inj[OF key_in key_in, of "SourceKey MultiHop" "fill_key f"]
    by (auto simp: flagged_by_source_def bit_SOURCE_FLAGS batch_keys_def)
  then have "\<not> hasTwoHop ?p"
    by (simp add: hasTwoHop_def and_flag_pos_iff bit_mergeSourceFlags Path_create_facts(6)[OF assms(1)])
  moreover have "twoHopOrders (path_ordersByType ?p) = []"
    using createOrdersByType_facts(2)[OF Path_create_facts(1)[OF assms(1)]] keys
    by (metis (mono_tags, lifting) filter_False map_is_Nil_conv)
  moreover have "oo_type order \<noteq> Limit \<and> oo_source order \<in> set MULTIPLEX_BATCH_FILL_SOURCES"
    if "order \<in> set (nativeOrders (path_ordersByType ?p) @ bridgeOrders (path_ordersByType ?p))" for order
    using path_order_origin[OF assms(1) that] keys
    by (fastforce simp: fill_key_def batch_keys_def MULTIPLEX_BATCH_FILL_SOURCES_def split: if_splits)
  ultimately show ?thesis
    using assms(4) by (force simp: isMultiplexBatchFillCompatible_def getOrders_def list_all_iff)
qed

lemma batch_route_direct:
  assumes "qc_chainId consumer = Mainnet" "isMultiplexBatchFillCompatible quote opts"
  shows "ensures (\<lambda>info. direct_info consumer quote opts info) (route_calldata lib consumer quote opts)"
proof -
  have "ensures (\<lambda>info. direct_info consumer quote opts info \<or>
      transformERC20_createCalldata lib consumer quote opts = Inr info) (route_calldata lib consumer quote opts)"
    using route_calldata_cases by (blast intro: ensures_I)
  moreover have "ensures (\<lambda>info. \<not> is_transform (calldata info)) (route_calldata lib consumer quote opts)"
    unfolding route_calldata_def Let_def
    by (intro ensures_rules)
      (use assms direct_calls in \<open>auto simp: ensures_def direct_call_def uniswapV2_createCalldata_def res_bind_eq_Inr Let_def
         rfq_call_def otc_call_def uniswapV3_call_def\<close>)
  moreover have "transformERC20_createCalldata lib consumer quote opts = Inr info \<Longrightarrow> is_transform (calldata info)" for info
    by (auto simp: transformERC20_createCalldata_def res_bind_eq_Inr Let_def)
  ultimately show ?thesis unfolding ensures_def by blast
qed

text \<open>Several two-hops over Uniswap sources are assumed to cost \<open>25000\<close> gas over a plain transaction,
  as one two-hop does, but the multiplex feature takes only a single two-hop: the call that is made is
  a \<open>transformERC20\<close>, for which \<open>150000\<close> is assumed elsewhere.\<close>

lemma multihop_flag_bit:
  assumes "MULTIPLEX_MULTIHOP_FILL_SOURCE_FLAGS OR w =
    MULTIPLEX_MULTIHOP_FILL_SOURCE_FLAGS OR SOURCE_FLAGS (SourceKey MultiHop)"
  shows "bit w (index_of (SourceKey MultiHop) source_flag_keys)"
proof -
  let ?n = "index_of (SourceKey MultiHop) source_flag_keys"
  have "\<not> bit MULTIPLEX_MULTIHOP_FILL_SOURCE_FLAGS ?n"
    using index_of_inj[OF key_in key_in, of "SourceKey MultiHop"]
    by (auto simp: MULTIPLEX_MULTIHOP_FILL_SOURCE_FLAGS_def bit_or_iff bit_SOURCE_FLAGS)
  then show ?thesis using arg_cong[OF assms, of "\<lambda>v. bit v ?n"] by (simp add: bit_or_iff bit_SOURCE_FLAGS)
qed

theorem several_two_hops_underestimated:
  assumes "qc_chainId consumer = Mainnet" "1 < length (twoHopOrders (path_ordersByType (swq_path quote)))"
    "\<forall>order \<in> set (getOrders (swq_path quote)). oo_type order = Bridge"
    "MULTIPLEX_MULTIHOP_FILL_SOURCE_FLAGS OR path_sourceFlags (swq_path quote) =
      MULTIPLEX_MULTIHOP_FILL_SOURCE_FLAGS OR SOURCE_FLAGS (SourceKey MultiHop)"
    "route_calldata lib consumer quote opts = Inr info"
  shows "EXCHANGE_PROXY_OVERHEAD_FULLY_FEATURED Mainnet (path_sourceFlags (swq_path quote)) = TX_BASE_GAS + Fin 25000 \<and>
    is_transform (calldata info)"
proof
  let ?w = "path_sourceFlags (swq_path quote)" and ?n = "index_of (SourceKey MultiHop) source_flag_keys"
  have bit: "bit ?w ?n" by (rule multihop_flag_bit[OF assms(4)])
  then have no_key: "k \<noteq> SourceKey MultiHop \<Longrightarrow> ?w \<noteq> SOURCE_FLAGS k" for k by (auto simp: flag_bit_MultiHop)
  have no_batch: "MULTIPLEX_BATCH_FILL_SOURCE_FLAGS OR ?w \<noteq> MULTIPLEX_BATCH_FILL_SOURCE_FLAGS"
    using bit batch_flags_bit[of "SourceKey MultiHop"] by (metis bit_or_iff batch_keys_def list.set_intros
      list.distinct(1) ERC20BridgeSource.distinct set_ConsD SourceFlagKey.distinct SourceFlagKey.inject empty_iff list.set(1))
  show "EXCHANGE_PROXY_OVERHEAD_FULLY_FEATURED Mainnet ?w = TX_BASE_GAS + Fin 25000"
    using no_key no_batch assms(4)
    by (simp add: EXCHANGE_PROXY_OVERHEAD_FULLY_FEATURED_def no_key[symmetric])
  have hops: "hasTwoHop (swq_path quote)" using bit by (simp add: hasTwoHop_def and_flag_pos_iff)
  have many: "1 < length (getOrders (swq_path quote))"
    using assms(2) by (cases "twoHopOrders (path_ordersByType (swq_path quote))") (auto simp: getOrders_def)
  then have direct: "\<not> isDirectSwapCompatible (swq_path quote) opts sources" for sources
    by (auto simp: isDirectSwapCompatible_def split: list.split)
  have multihop: "\<not> isMultiplexMultiHopFillCompatible (swq_path quote) opts"
    using assms(2) by (auto simp: isMultiplexMultiHopFillCompatible_def Let_def split: list.split)
  have slipped: "1 < length slipped \<and> \<not> list_all (\<lambda>order. oo_type order = Rfq) slipped"
    if "getSlippedOrders (swq_path quote) (getMaxQuoteSlippageRate quote) = Inr slipped" for slipped
    using that assms(3) many
    by (cases "getOrders (swq_path quote)") (auto simp: getSlippedOrders_def res_bind_eq_Inr slipOrder_same)
  have "transformERC20_createCalldata lib consumer quote opts = Inr info"
    using assms(1,5) direct multihop hops
    by (auto simp: route_calldata_def Let_def res_bind_eq_Inr uniswapV2_isCompatible_def
        isMultiplexBatchFillCompatible_def dest: slipped split: if_split_asm)
  then show "is_transform (calldata info)"
    by (auto simp: transformERC20_createCalldata_def res_bind_eq_Inr Let_def)
qed

section \<open>Properties\<close>

text \<open>C21: Limit orders reach the router only when the request allows native liquidity and does not restrict it
  to RFQ, and each of them is an order of the book that is open to any taker, carries no taker fee and
  does not expire within the buffer; when the order book fails there are none.\<close>

theorem limit_orders_pruned:
  "(\<forall>order \<in> set (getLimitOrders env quoter side makerToken takerToken opts).
      sno_type order = Limit \<and> ord_taker (sno_order order) = NULL_ADDRESS \<and>
      bn_eq (ord_takerTokenFeeAmount (sno_order order)) (Fin 0) \<and>
      \<not> qe_willExpire env (sno_order order) (js_div (sw_expiryBufferMs quoter) (Fin 1000)) \<and>
      (\<exists>records. qe_orders env makerToken takerToken = Inr records \<and>
         (sno_order order, sno_signature order) \<in> set records)) \<and>
   (getLimitOrders env quoter side makerToken takerToken opts \<noteq> [] \<longrightarrow>
      Native \<notin> set (so_excludedSources opts) \<and>
      (so_includedSources opts = [] \<or> Native \<in> set (so_includedSources opts)) \<and>
      (case so_rfqt opts of None \<Rightarrow> True | Some r \<Rightarrow> \<not> nativeExclusivelyRFQ r))"
proof (intro conjI)
  show "\<forall>order \<in> set (getLimitOrders env quoter side makerToken takerToken opts).
      sno_type order = Limit \<and> ord_taker (sno_order order) = NULL_ADDRESS \<and>
      bn_eq (ord_takerTokenFeeAmount (sno_order order)) (Fin 0) \<and>
      \<not> qe_willExpire env (sno_order order) (js_div (sw_expiryBufferMs quoter) (Fin 1000)) \<and>
      (\<exists>records. qe_orders env makerToken takerToken = Inr records \<and>
         (sno_order order, sno_signature order) \<in> set records)"
    by (cases "qe_orders env makerToken takerToken")
      (auto simp: getLimitOrders_def orderbook_getOrdersAsync_def limitOrderPruningFn_def Let_def
        apiOrderToOrderbookOrder_def)
  show "getLimitOrders env quoter side makerToken takerToken opts \<noteq> [] \<longrightarrow>
      Native \<notin> set (so_excludedSources opts) \<and>
      (so_includedSources opts = [] \<or> Native \<in> set (so_includedSources opts)) \<and>
      (case so_rfqt opts of None \<Rightarrow> True | Some r \<Rightarrow> \<not> nativeExclusivelyRFQ r)"
    using quote_filter_Native[of "sw_chainId quoter" side opts]
    by (auto simp: getLimitOrders_def Let_def side_filters_def split: option.splits if_split_asm)
qed

definition sample_quoter :: SwapQuoter where
  "sample_quoter = \<lparr>sw_chainId = Mainnet, sw_expiryBufferMs = Fin 60000, sw_permitsNoFees = True,
     sw_integratorIds = [''acme'']\<rparr>"

definition open_order :: "rat \<Rightarrow> OrderFields" where
  "open_order fee = sample_order\<lparr>ord_takerTokenFeeAmount := Fin fee\<rparr>"

definition sample_quoter_env :: QuoterEnv where
  "sample_quoter_env =
     \<lparr>qe_market = sample_market_env, qe_gasPriceEstimate = Inr (Fin 1), qe_isETHAddressHex = (\<lambda>_. True),
      qe_willExpire = (\<lambda>_ _. False), qe_isBlacklisted = (\<lambda>a. a = ''0xbad''), qe_gasSchedule = (\<lambda>_ _. Fin 1),
      qe_orders = (\<lambda>_ _. Inr [(open_order 1, ''sig1''), (open_order 0, ''sig2'')]), qe_isNative = (\<lambda>_. False),
      qe_tokenRate = (\<lambda>_ _ _ _ _. Inr (Fin 1))\<rparr>"

theorem limit_orders_pruned_witness:
  "getLimitOrders sample_quoter_env sample_quoter Sell ''0xa'' ''0xb'' DEFAULT_GET_MARKET_ORDERS_OPTS =
     [\<lparr>sno_order = open_order 0, sno_type = Limit, sno_signature = ''sig2''\<rparr>] \<and>
   ord_taker (open_order 0) = NULL_ADDRESS"
proof -
  have allowed: "isAllowed (merge_filters (SELL_SOURCE_FILTER_BY_CHAIN_ID Mainnet) (new_SourceFilters [] [] [])) Native"
    by (simp add: isAllowed_def merge_filters_def Let_def new_SourceFilters_def uniq_def)
  then have orders: "getLimitOrders sample_quoter_env sample_quoter Sell ''0xa'' ''0xb'' DEFAULT_GET_MARKET_ORDERS_OPTS =
     [\<lparr>sno_order = open_order 0, sno_type = Limit, sno_signature = ''sig2''\<rparr>]"
    by (simp add: getLimitOrders_def Let_def sample_quoter_def DEFAULT_GET_MARKET_ORDERS_OPTS_def
        orderbook_getOrdersAsync_def sample_quoter_env_def limitOrderPruningFn_def apiOrderToOrderbookOrder_def
        open_order_def sample_order_def)
  then show ?thesis
    using limit_orders_pruned[of sample_quoter_env sample_quoter Sell "''0xa''" "''0xb''" DEFAULT_GET_MARKET_ORDERS_OPTS]
    by simp
qed

text \<open>C22: A refused RFQ request has no influence on a quote: when the integrator is not whitelisted or the
  transaction origin is blacklisted, the quote, errors included, is the one made without RFQ options,
  whichever RFQ client was given.\<close>

theorem refused_rfq_has_no_influence:
  fixes options :: "SwapQuoteRequestOpts \<Rightarrow> SwapQuoteRequestOpts"
  defines "opts \<equiv> options DEFAULT_GET_MARKET_ORDERS_OPTS"
  assumes "so_rfqt opts = Some r" "rfq_refused env quoter r"
    "nativeExclusivelyRFQ r \<Longrightarrow>
      isAllowed (new_SourceFilters [] (so_excludedSources opts) (so_includedSources opts)) Native"
  shows "getSwapQuoteAsync env quoter makerToken takerToken amount side options client =
    getSwapQuoteAsync env quoter makerToken takerToken amount side (\<lambda>o'. (options o')\<lparr>so_rfqt := None\<rparr>) client'"
proof -
  have "validateRfqtOpts env quoter (new_SourceFilters [] (so_excludedSources opts) (so_includedSources opts))
      (so_rfqt opts) = Inr None"
    using assms(2-4) by (auto simp: validateRfqtOpts_def rfq_refused_def)
  then show ?thesis
    by (simp add: getSwapQuoteAsync_def opts_def Let_def market_opts_rfqt validateRfqtOpts_def
        market_opts_no_rfq[of _ _ _ client client'])
qed

definition sample_rfqt :: "string \<Rightarrow> RfqRequestOpts" where
  "sample_rfqt origin =
     \<lparr>rfq_takerAddress = NULL_ADDRESS, rfq_txOrigin = origin, rfq_integratorId = ''acme'',
      rfq_intentOnFilling = True, rfq_isIndicative = False, rfq_altRfqAssetOfferings = None, rfq_rfqClient = None,
      rfq_quoteRequestor = None, rfq_firmQuoteValidator = None, nativeExclusivelyRFQ = False\<rparr>"

lemma sample_rfqt_sel: "rfq_txOrigin (sample_rfqt x) = x" "rfq_integratorId (sample_rfqt x) = ''acme''" "\<not> nativeExclusivelyRFQ (sample_rfqt x)"
  by (simp_all add: sample_rfqt_def)

theorem refused_rfq_has_no_influence_witness:
  "\<forall>client. getSwapQuoteAsync sample_quoter_env sample_quoter ''0xa'' ''0xb'' (Fin 5) Sell
     (\<lambda>o'. o'\<lparr>so_rfqt := Some (sample_rfqt ''0xbad'')\<rparr>) client =
   getSwapQuoteAsync sample_quoter_env sample_quoter ''0xa'' ''0xb'' (Fin 5) Sell
     (\<lambda>o'. o'\<lparr>so_rfqt := Some (sample_rfqt ''0xbad''), so_rfqt := None\<rparr>) None"
proof
  have "rfq_refused sample_quoter_env sample_quoter (sample_rfqt ''0xbad'')"
    by (simp add: rfq_refused_def isTxOriginBlacklisted_def sample_rfqt_sel sample_quoter_env_def toLowerCase_def
        char_lower_def)
  then show "getSwapQuoteAsync sample_quoter_env sample_quoter ''0xa'' ''0xb'' (Fin 5) Sell
     (\<lambda>o'. o'\<lparr>so_rfqt := Some (sample_rfqt ''0xbad'')\<rparr>) client =
   getSwapQuoteAsync sample_quoter_env sample_quoter ''0xa'' ''0xb'' (Fin 5) Sell
     (\<lambda>o'. o'\<lparr>so_rfqt := Some (sample_rfqt ''0xbad''), so_rfqt := None\<rparr>) None" for client
    by (intro refused_rfq_has_no_influence[where r = "sample_rfqt ''0xbad''"]) (simp_all add: sample_rfqt_sel)
qed

text \<open>The gas overhead assumed while routing agrees with the call that is made: on Mainnet, when every fill
  of a path comes from a source the batch feature takes, at most \<open>15000\<close> gas over a plain transaction is
  assumed, and, unless the request itself needs it, the call is not a \<open>transformERC20\<close>.\<close>

theorem overhead_matches_route:
  assumes "Path_create rnd ctx fs t po = Inr (swq_path quote)" "\<forall>f \<in> set fs. flagged_by_source f"
    "\<forall>f \<in> set fs. fill_key f \<in> set batch_keys"
    "qc_chainId consumer = Mainnet" "\<not> requiresTransformERC20 opts"
  shows "EXCHANGE_PROXY_OVERHEAD_FULLY_FEATURED Mainnet (path_sourceFlags (swq_path quote)) \<le> TX_BASE_GAS + Fin 15000 \<and>
    (\<forall>info. route_calldata lib consumer quote opts = Inr info \<longrightarrow> direct_info consumer quote opts info)"
proof
  have "fill_flags f = SOURCE_FLAGS (fill_key f)" if "f \<in> set fs" for f
    using bspec[OF assms(2) that] bspec[OF assms(3) that]
    by (auto simp: flagged_by_source_def batch_keys_def fill_key_def split: if_splits)
  then have "bit (path_sourceFlags (swq_path quote)) n \<Longrightarrow> bit MULTIPLEX_BATCH_FILL_SOURCE_FLAGS n" for n
    using assms(3) batch_flags_bit
    by (auto simp: Path_create_facts(6)[OF assms(1)] bit_mergeSourceFlags bit_SOURCE_FLAGS)
  then have flags: "MULTIPLEX_BATCH_FILL_SOURCE_FLAGS OR path_sourceFlags (swq_path quote) = MULTIPLEX_BATCH_FILL_SOURCE_FLAGS"
    by (intro bit_eqI) (auto simp: bit_or_iff)
  have not_curve: "SOURCE_FLAGS (SourceKey Curve) \<noteq> path_sourceFlags (swq_path quote)"
  proof
    assume "SOURCE_FLAGS (SourceKey Curve) = path_sourceFlags (swq_path quote)"
    then have "bit MULTIPLEX_BATCH_FILL_SOURCE_FLAGS (index_of (SourceKey Curve) source_flag_keys)"
      using flags by (metis bit_SOURCE_FLAGS bit_or_iff ERC20BridgeSource.distinct SourceFlagKey.inject)
    then show False by (simp add: batch_flags_bit batch_keys_def)
  qed
  then show "EXCHANGE_PROXY_OVERHEAD_FULLY_FEATURED Mainnet (path_sourceFlags (swq_path quote)) \<le> TX_BASE_GAS + Fin 15000"
    using flags by (simp add: EXCHANGE_PROXY_OVERHEAD_FULLY_FEATURED_def TX_BASE_GAS_def)
  show "\<forall>info. route_calldata lib consumer quote opts = Inr info \<longrightarrow> direct_info consumer quote opts info"
    using batch_route_direct[OF assms(4) batch_flags_compatible[OF assms(1,2) flags assms(5)]]
    by (simp add: ensures_def)
qed

theorem overhead_matches_route_witness:
  "EXCHANGE_PROXY_OVERHEAD_FULLY_FEATURED Mainnet (path_sourceFlags uniswap_path) \<le> TX_BASE_GAS + Fin 15000"
proof -
  have path: "Path_create rnd78 sample_context [uniswap_fill UniswapV2 4, uniswap_fill SushiSwap 6] (Fin 10)
      sample_penalty = Inr (swq_path (Quote_Calldata.sample_quote uniswap_path))"
    using uniswap_path_create by (simp add: Quote_Calldata.sample_quote_def)
  show ?thesis
    using overhead_matches_route[OF path, of sample_consumer DEFAULT_EXCHANGE_PROXY_EXTENSION_CONTRACT_OPTS sample_lib]
    by (simp add: flagged_by_source_def fill_key_def uniswap_fill_def sample_fill_def batch_keys_def
        sample_consumer_def create_consumer_def requiresTransformERC20_def
        DEFAULT_EXCHANGE_PROXY_EXTENSION_CONTRACT_OPTS_def Quote_Calldata.sample_quote_def)
qed

end
