(* ===== verification/Pair_Utils.thy ===== *)
theory Pair_Utils
  imports Prelude "HOL-Library.List_Lexorder" "HOL-Library.Char_ord"
begin

text \<open>
  Keys of token pairs (\<open>src/utils/pair_utils.ts\<close>). Strings are sorted by the codes of their characters,
  the order \<open>Array.prototype.sort\<close> uses. A key does not depend on the order or the case of
  the tokens, and determines them.
\<close>

section \<open>Operations\<close>

definition toKey :: "string \<Rightarrow> string \<Rightarrow> string" where
  "toKey tokenA tokenB = join_with (CHR ''-'') (sort (map toLowerCase [tokenA, tokenB]))"

definition fromKey :: "string \<Rightarrow> js_error + (string \<times> string)" where
  "fromKey k =
     (let a = split_on (CHR ''-'') k
      in if length a \<noteq> 2 then Inl (Error '''') else Inr (a ! 0, a ! 1))"

definition toUniqueArray :: "string list \<Rightarrow> js_error + (string \<times> string) list" where
  "toUniqueArray pairKeys = res_map fromKey (uniq pairKeys)"

section \<open>Lemmas\<close>

text \<open>A token name that a key can hold.\<close>

definition dash_free :: "string \<Rightarrow> bool" where
  "dash_free s \<longleftrightarrow> CHR ''-'' \<notin> set s"

lemma of_char_lower:
  "(of_char (char_lower c) :: nat) =
     (if 65 \<le> (of_char c :: nat) \<and> (of_char c :: nat) \<le> 90 then of_char c + 32 else of_char c)"
  by (simp add: char_lower_def)

lemma char_lower_dash: "char_lower c = CHR ''-'' \<longleftrightarrow> c = CHR ''-''"
proof
  assume "char_lower c = CHR ''-''"
  then have "(of_char (char_lower c) :: nat) = 45" by simp
  then have "(of_char c :: nat) = 45" by (auto simp: of_char_lower split: if_splits)
  then have "(of_char c :: nat) = of_char (CHR ''-'')" by simp
  then show "c = CHR ''-''" by (simp only: of_char_eq_iff)
qed (simp add: char_lower_def)

lemma dash_free_lower [simp]: "dash_free (toLowerCase s) \<longleftrightarrow> dash_free s"
  by (auto simp: dash_free_def toLowerCase_def eq_commute[of "CHR ''-''"] char_lower_dash)

lemma toKey_split:
  "toKey a b = (let x = toLowerCase a; y = toLowerCase b in min x y @ CHR ''-'' # max x y)"
  by (auto simp: toKey_def Let_def min_def max_def)

lemma toKey_commute: "toKey a b = toKey b a"
  by (simp add: toKey_split Let_def min.commute max.commute)

lemma toKey_lower [simp]: "toKey (toLowerCase a) (toLowerCase b) = toKey a b"
  by (simp add: toKey_def)

lemma fromKey_toKey:
  assumes "dash_free a" "dash_free b"
  shows "fromKey (toKey a b) =
    Inr (min (toLowerCase a) (toLowerCase b), max (toLowerCase a) (toLowerCase b))"
proof -
  let ?x = "min (toLowerCase a) (toLowerCase b)" and ?y = "max (toLowerCase a) (toLowerCase b)"
  have "dash_free ?x" "dash_free ?y" using assms by (auto simp: min_def max_def)
  then have "split_on (CHR ''-'') (toKey a b) = [?x, ?y]"
    by (simp add: toKey_split Let_def split_on_append_sep split_on_no_sep dash_free_def)
  then show ?thesis by (simp add: fromKey_def)
qed

definition sorted_pair :: "string \<times> string \<Rightarrow> string \<times> string" where
  "sorted_pair p = (min (toLowerCase (fst p)) (toLowerCase (snd p)), max (toLowerCase (fst p)) (toLowerCase (snd p)))"

lemma sorted_pair_eq_iff:
  "sorted_pair (a, b) = sorted_pair (c, d) \<longleftrightarrow>
     {toLowerCase a, toLowerCase b} = {toLowerCase c, toLowerCase d}"
  by (auto simp: sorted_pair_def min_def max_def doubleton_eq_iff split: if_splits)

lemma fromKey_toKey_pair:
  "dash_free a \<Longrightarrow> dash_free b \<Longrightarrow> fromKey (toKey a b) = Inr (sorted_pair (a, b))"
  by (simp add: fromKey_toKey sorted_pair_def)

lemma toKey_eq_iff:
  assumes "dash_free a" "dash_free b" "dash_free c" "dash_free d"
  shows "toKey a b = toKey c d \<longleftrightarrow>
    {toLowerCase a, toLowerCase b} = {toLowerCase c, toLowerCase d}"
proof
  assume "toKey a b = toKey c d"
  then show "{toLowerCase a, toLowerCase b} = {toLowerCase c, toLowerCase d}"
    using fromKey_toKey_pair assms by (metis Inr_inject sorted_pair_eq_iff)
next
  assume "{toLowerCase a, toLowerCase b} = {toLowerCase c, toLowerCase d}"
  then show "toKey a b = toKey c d"
    by (auto simp: toKey_split Let_def doubleton_eq_iff min.commute max.commute)
qed

text \<open>Reading distinct keys back gives distinct pairs: the pair determines the key.\<close>

lemma sorted_pair_key:
  assumes "fromKey k = Inr p" shows "k = fst p @ CHR ''-'' # snd p"
proof -
  have join: "join_with (CHR ''-'') (split_on (CHR ''-'') k) = k" for k
  proof (induction k)
    case (Cons c cs)
    then show ?case by (auto split: list.splits) (metis (no_types) join_with.simps(2,3) neq_Nil_conv append_Cons)
  qed simp
  have "length (split_on (CHR ''-'') k) = 2"
    using assms by (auto simp: fromKey_def Let_def split: if_splits)
  then obtain x y where "split_on (CHR ''-'') k = [x, y]"
    by (auto simp: numeral_2_eq_2 length_Suc_conv)
  then show ?thesis using assms join[of k] by (auto simp: fromKey_def)
qed

lemma toUniqueArray_pairs:
  assumes "\<forall>(a, b) \<in> set ps. dash_free a \<and> dash_free b"
  shows "\<exists>rs. toUniqueArray (map (\<lambda>(a, b). toKey a b) ps) = Inr rs \<and> distinct rs \<and>
    set rs = sorted_pair ` set ps"
proof -
  let ?keys = "map (\<lambda>(a, b). toKey a b) ps" and ?read = "\<lambda>k. projr (fromKey k)"
  have ok: "\<exists>p. k = toKey (fst p) (snd p) \<and> p \<in> set ps \<and> fromKey k = Inr (sorted_pair p)"
    if "k \<in> set ?keys" for k
    using that assms fromKey_toKey_pair by fastforce
  then have read: "fromKey k = Inr (?read k)" if "k \<in> set ?keys" for k using that by fastforce
  then have "toUniqueArray ?keys = Inr (map ?read (uniq ?keys))"
    unfolding toUniqueArray_def by (intro res_map_all_Inr) simp
  moreover have "inj_on ?read (set ?keys)"
    using read by (intro inj_onI) (metis sorted_pair_key)
  then have "distinct (map ?read (uniq ?keys))" by (simp add: distinct_map)
  moreover have "?read (toKey a b) = sorted_pair (a, b)" if "(a, b) \<in> set ps" for a b
    using that assms fromKey_toKey_pair by fastforce
  then have "?read ` set ?keys = sorted_pair ` set ps" by force
  ultimately show ?thesis by simp
qed

section \<open>Properties\<close>

text \<open>The key of a pair names the two tokens whatever their order and case: reading it back gives the
  lower-case tokens sorted, two pairs have the same key exactly when they are the same two tokens, and the
  unique pairs of a list of keys are read back without an error, without repetition and without loss.\<close>

theorem pair_keys_roundtrip:
  assumes "\<forall>(a, b) \<in> set ps. dash_free a \<and> dash_free b"
    and "(a, b) \<in> set ps" "(c, d) \<in> set ps"
  shows "fromKey (toKey a b) = Inr (sorted_pair (a, b)) \<and>
    (toKey a b = toKey c d \<longleftrightarrow> {toLowerCase a, toLowerCase b} = {toLowerCase c, toLowerCase d}) \<and>
    (\<exists>rs. toUniqueArray (map (\<lambda>(a, b). toKey a b) ps) = Inr rs \<and> distinct rs \<and>
       set rs = sorted_pair ` set ps)"
proof -
  have "dash_free a" "dash_free b" "dash_free c" "dash_free d" using assms by auto
  then show ?thesis using fromKey_toKey_pair toKey_eq_iff toUniqueArray_pairs[OF assms(1)] by simp
qed

theorem pair_keys_roundtrip_witness:
  "fromKey (toKey ''0xB'' ''0xa'') = Inr (''0xa'', ''0xb'') \<and>
   toKey ''0xB'' ''0xa'' = toKey ''0xA'' ''0xb''"
proof -
  have lower: "toLowerCase ''0xB'' = ''0xb''" "toLowerCase ''0xa'' = ''0xa''" "toLowerCase ''0xA'' = ''0xa''"
      "toLowerCase ''0xb'' = ''0xb''" "''0xa'' < ''0xb''" "\<not> ''0xb'' < ''0xa''"
    by code_simp+
  show ?thesis
    using pair_keys_roundtrip[of "[(''0xB'', ''0xa''), (''0xA'', ''0xb'')]" "''0xB''" "''0xa''" "''0xA''" "''0xb''"]
    by (auto simp: dash_free_def sorted_pair_def lower min_def max_def less_le)
qed

end
