(* ===== verification/Slippage_Model.thy ===== *)
theory Slippage_Model
  imports Path_Optimizer Pair_Utils
begin

text \<open>
  The slippage model (\<open>src/utils/slippage_model_manager.ts\<close>, \<open>s3_client.ts\<close> and
  \<open>slippage_model_fill_adjustor.ts\<close>): a table of linear models, one for every pair and source, kept in step with a
  file; the slippage it predicts for a trade; and the adjustor that charges the prediction to the fills the
  optimizer compares. The storage service, the parsing and validation of the file and the
  token metadata are fields of \<open>SlippageEnv\<close>; a refresh waits for two answers of the storage, so several can be
  under way at once, and \<open>refresh_step\<close> interleaves them. Times are milliseconds. Metrics and logging are left out.
\<close>

section \<open>Data\<close>

record SlippageModel =
  sm_token0 :: string
  sm_token1 :: string
  sm_source :: string
  sm_slippageCoefficient :: js_number
  sm_volumeCoefficient :: js_number
  sm_intercept :: js_number
  sm_token0PriceInUsd :: js_number

type_synonym SlippageModelCacheForPair = "(string \<times> SlippageModel) list"
type_synonym SlippageModelCache = "(string \<times> SlippageModelCacheForPair) list"

record SlippageEnv =
  se_parse :: "string \<Rightarrow> js_error + SlippageModel list"
  se_isNativeSymbolOrAddress :: "string \<Rightarrow> bool"
  se_nativeFeeToken :: string
  se_bucket :: "string option"

record GetSwapQuoteResponseLiquiditySource =
  ls_name :: string
  ls_proportion :: BigNumber
  ls_intermediateToken :: "string option"
  ls_hops :: "string list option"

record SlippageModelManager =
  lastRefreshed :: int
  cachedSlippageModel :: SlippageModelCache

definition ONE_IN_BASE_POINTS :: js_number where
  "ONE_IN_BASE_POINTS = Fin 10000"

definition SLIPPAGE_MODEL_S3_FILE_VALID_INTERVAL_MS :: int where
  "SLIPPAGE_MODEL_S3_FILE_VALID_INTERVAL_MS = 60 * 60 * 1000 * 2"

section \<open>The cache\<close>

text \<open>One model of the file; a model whose tokens are not in the order of the key is skipped.\<close>

definition add_model :: "SlippageModelCache \<Rightarrow> SlippageModel \<Rightarrow> SlippageModelCache" where
  "add_model cache m =
     (let pairKey = toKey (sm_token0 m) (sm_token1 m);
          token0 = toLowerCase (sm_token0 m)
      in if take (length token0) pairKey \<noteq> token0 then cache
         else let cache1 = (if map_of cache pairKey = None then AList.update pairKey [] cache else cache)
              in AList.update pairKey
                   (AList.update (sm_source m)
                      (m\<lparr>sm_token0 := token0, sm_token1 := toLowerCase (sm_token1 m)\<rparr>)
                      (the (map_of cache1 pairKey))) cache1)"

definition createSlippageModelCache :: "SlippageEnv \<Rightarrow> string \<Rightarrow> js_error + SlippageModelCache" where
  "createSlippageModelCache env content =
     res_bind (se_parse env content) (\<lambda>models. Inr (foldl add_model [] models))"

section \<open>Predictions\<close>

definition normalizeTokenAddress :: "SlippageEnv \<Rightarrow> string \<Rightarrow> string" where
  "normalizeTokenAddress env token =
     (if se_isNativeSymbolOrAddress env token then toLowerCase (se_nativeFeeToken env) else toLowerCase token)"

definition calculateExpectedSlippageForModel ::
  "BigNumber \<Rightarrow> BigNumber \<Rightarrow> SlippageModel \<Rightarrow> BigNumber option" where
  "calculateExpectedSlippageForModel token0Amount maxSlippageRate m =
     (let volumeUsd = token0Amount * bn_of_number (sm_token0PriceInUsd m);
          volumeTerm = volumeUsd * bn_of_number (sm_volumeCoefficient m);
          slippageTerm = maxSlippageRate * bn_of_number ONE_IN_BASE_POINTS * bn_of_number (sm_slippageCoefficient m);
          expectedSlippage = bn_sum [slippageTerm, volumeTerm, bn_of_number (sm_intercept m)];
          expectedSlippageCap = maxSlippageRate * bn_of_number (Fin (- 1))
      in Some (bn_min 0 (bn_max expectedSlippage expectedSlippageCap)))"

definition calculateSingleSourceExpectedSlippage ::
  "SlippageModelManager \<Rightarrow> string \<Rightarrow> string \<Rightarrow> BigNumber \<Rightarrow> BigNumber \<Rightarrow>
   GetSwapQuoteResponseLiquiditySource \<Rightarrow> js_number \<Rightarrow> BigNumber option" where
  "calculateSingleSourceExpectedSlippage manager buyToken sellToken buyAmount sellAmount source maxSlippageRate =
     (if ls_name source = ''0x'' \<or> ls_name source = source_value Native then Some 0
      else case map_of (cachedSlippageModel manager) (toKey buyToken sellToken) of
        None \<Rightarrow> None
      | Some slippageModelCacheForPair \<Rightarrow>
          (case map_of slippageModelCacheForPair (ls_name source) of
             None \<Rightarrow> None
           | Some slippageModel \<Rightarrow>
               let token0Amount = ls_proportion source *
                     (if sm_token0 slippageModel = toLowerCase buyToken then buyAmount else sellAmount)
               in (case calculateExpectedSlippageForModel token0Amount (bn_of_number maxSlippageRate) slippageModel of
                     None \<Rightarrow> None
                   | Some expectedSlippageOfSource \<Rightarrow> Some (ls_proportion source * expectedSlippageOfSource))))"

text \<open>The loop over the sources; the total so far is \<open>expectedSlippage\<close>.\<close>

fun expectedSlippage_loop ::
  "SlippageModelManager \<Rightarrow> string \<Rightarrow> string \<Rightarrow> BigNumber \<Rightarrow> BigNumber \<Rightarrow> js_number \<Rightarrow>
   GetSwapQuoteResponseLiquiditySource list \<Rightarrow> BigNumber \<Rightarrow> BigNumber option" where
  "expectedSlippage_loop manager buyToken sellToken buyAmount sellAmount maxSlippageRate [] expectedSlippage =
     Some expectedSlippage"
| "expectedSlippage_loop manager buyToken sellToken buyAmount sellAmount maxSlippageRate (source # sources)
     expectedSlippage =
     (if bn_eq (ls_proportion source) 0
      then expectedSlippage_loop manager buyToken sellToken buyAmount sellAmount maxSlippageRate sources expectedSlippage
      else case calculateSingleSourceExpectedSlippage manager buyToken sellToken buyAmount sellAmount source
                  maxSlippageRate of
             None \<Rightarrow> None
           | Some singleSourceSlippage \<Rightarrow>
               expectedSlippage_loop manager buyToken sellToken buyAmount sellAmount maxSlippageRate sources
                 (expectedSlippage + singleSourceSlippage))"

definition calculateExpectedSlippage ::
  "SlippageEnv \<Rightarrow> SlippageModelManager \<Rightarrow> string \<Rightarrow> string \<Rightarrow> BigNumber \<Rightarrow> BigNumber \<Rightarrow>
   GetSwapQuoteResponseLiquiditySource list \<Rightarrow> js_number \<Rightarrow> BigNumber option" where
  "calculateExpectedSlippage env manager buyToken sellToken buyAmount sellAmount sources maxSlippageRate =
     expectedSlippage_loop manager (normalizeTokenAddress env buyToken) (normalizeTokenAddress env sellToken)
       buyAmount sellAmount maxSlippageRate sources 0"

section \<open>The fill adjustor\<close>

definition slip_fill ::
  "SlippageEnv \<Rightarrow> SlippageModelManager \<Rightarrow> string \<Rightarrow> string \<Rightarrow> js_number \<Rightarrow> MarketOperation \<Rightarrow> Fill \<Rightarrow> Fill" where
  "slip_fill env manager sellToken buyToken maxSlippageRate side f =
     (case calculateExpectedSlippage env manager buyToken sellToken
             (if side = Sell then fill_output f else fill_input f)
             (if side = Sell then fill_input f else fill_output f)
             [\<lparr>ls_name = source_value (fill_source f), ls_proportion = 1,
               ls_intermediateToken = None, ls_hops = None\<rparr>] maxSlippageRate of
        None \<Rightarrow> f
      | Some expectedSlippage \<Rightarrow>
          let previousPenalty = \<bar>fill_output f - fill_adjustedOutput f\<bar>;
              slippageAdjustedOutput = integerValue ROUND_UP (fill_output f * (1 + expectedSlippage));
              slippagePenalty = \<bar>fill_output f - slippageAdjustedOutput\<bar>
          in f\<lparr>fill_adjustedOutput :=
                integerValue_default (adjustOutput side (fill_output f) (previousPenalty + slippagePenalty))\<rparr>)"

definition SlippageModelFillAdjustor ::
  "SlippageEnv \<Rightarrow> SlippageModelManager \<Rightarrow> string \<Rightarrow> string \<Rightarrow> js_number \<Rightarrow> FillAdjustor" where
  "SlippageModelFillAdjustor env manager sellToken buyToken maxSlippageRate side fills =
     map (slip_fill env manager sellToken buyToken maxSlippageRate side) fills"

text \<open>The optimizer may be given this adjustor: it changes nothing but the adjusted output.\<close>

lemma slip_fill_keeps:
  "fill_input (slip_fill env m s b r side f) = fill_input f"
  "fill_output (slip_fill env m s b r side f) = fill_output f"
  "fill_source (slip_fill env m s b r side f) = fill_source f"
  "fill_flags (slip_fill env m s b r side f) = fill_flags f"
  "fill_fillData (slip_fill env m s b r side f) = fill_fillData f"
  by (simp_all add: slip_fill_def Let_def split: option.splits)

interpretation slippage_adjustor: fill_adjustor "SlippageModelFillAdjustor env manager sellToken buyToken maxSlippageRate"
  for env manager sellToken buyToken maxSlippageRate
  by unfold_locales (simp_all add: SlippageModelFillAdjustor_def slip_fill_keeps)

section \<open>Refreshing\<close>

text \<open>The answers of the storage service to \<open>headObject\<close> and \<open>getObject\<close>: an error with its code, or the
  metadata and the body, each of which may be missing.\<close>

datatype HeadObject = HeadFailed string | Head "int option"
datatype GetObject = GetFailed string | Object "string option" "int option"

definition hasFileAsync :: "HeadObject \<Rightarrow> js_error + int option" where
  "hasFileAsync response =
     (case response of
        Head (Some lastModified) \<Rightarrow> Inr (Some lastModified)
      | Head None \<Rightarrow> Inl (Error ''Failed to get metadata of S3 object'')
      | HeadFailed code \<Rightarrow> if code = ''NotFound'' then Inr None else Inl (Error code))"

definition getFileContentAsync :: "GetObject \<Rightarrow> js_error + (string \<times> int)" where
  "getFileContentAsync response =
     (case response of
        Object (Some body) (Some lastModified) \<Rightarrow> Inr (body, lastModified)
      | Object _ _ \<Rightarrow> Inl (Error ''Failed to get content of S3 object'')
      | GetFailed code \<Rightarrow> Inl (Error code))"

definition resetCache :: "SlippageModelManager \<Rightarrow> SlippageModelManager" where
  "resetCache manager = manager\<lparr>cachedSlippageModel := [], lastRefreshed := 0\<rparr>"

text \<open>What a refresh does when \<open>hasFileAsync\<close> has answered, and whether it goes on to load the file.\<close>

definition on_hasFile :: "SlippageModelManager \<Rightarrow> int \<Rightarrow> js_error + int option \<Rightarrow> SlippageModelManager \<times> bool" where
  "on_hasFile manager refreshTime answer =
     (case answer of
        Inl e \<Rightarrow> (manager, False)
      | Inr None \<Rightarrow> (resetCache manager, False)
      | Inr (Some lastModified) \<Rightarrow>
          if lastModified < refreshTime - SLIPPAGE_MODEL_S3_FILE_VALID_INTERVAL_MS then (resetCache manager, False)
          else if lastModified \<le> lastRefreshed manager then (manager, False)
          else (manager, True))"

text \<open>What it does when the content has arrived: the cache is replaced unless the content is refused.\<close>

definition on_content :: "SlippageEnv \<Rightarrow> SlippageModelManager \<Rightarrow> js_error + (string \<times> int) \<Rightarrow> SlippageModelManager" where
  "on_content env manager answer =
     (case answer of
        Inl e \<Rightarrow> manager
      | Inr (content, lastModified) \<Rightarrow>
          (case createSlippageModelCache env content of
             Inl e \<Rightarrow> manager
           | Inr cache \<Rightarrow> manager\<lparr>cachedSlippageModel := cache, lastRefreshed := lastModified\<rparr>))"

text \<open>A refresh with nothing else in between.\<close>

definition refreshAsync ::
  "SlippageEnv \<Rightarrow> int \<Rightarrow> HeadObject \<Rightarrow> GetObject \<Rightarrow> SlippageModelManager \<Rightarrow> SlippageModelManager" where
  "refreshAsync env refreshTime head object manager =
     (if se_bucket env = None then manager
      else let (manager1, load) = on_hasFile manager refreshTime (hasFileAsync head)
           in if load then on_content env manager1 (getFileContentAsync object) else manager1)"

text \<open>The manager while refreshes are under way: each waits for the metadata, with its start time,
  or for the content.\<close>

datatype RefreshPhase = AwaitHasFile int | AwaitContent

record RefreshState =
  rs_manager :: SlippageModelManager
  rs_pending :: "RefreshPhase list"

definition initial_refresh_state :: RefreshState where
  "initial_refresh_state =
     \<lparr>rs_manager = resetCache \<lparr>lastRefreshed = 0, cachedSlippageModel = []\<rparr>, rs_pending = []\<rparr>"

inductive refresh_step :: "SlippageEnv \<Rightarrow> RefreshState \<Rightarrow> RefreshState \<Rightarrow> bool" for env where
  start: "se_bucket env \<noteq> None \<Longrightarrow>
     refresh_step env s (s\<lparr>rs_pending := rs_pending s @ [AwaitHasFile now]\<rparr>)"
| metadata: "rs_pending s = ps @ AwaitHasFile t # qs \<Longrightarrow>
     on_hasFile (rs_manager s) t (hasFileAsync head) = (m, load) \<Longrightarrow>
     refresh_step env s \<lparr>rs_manager = m, rs_pending = ps @ (if load then [AwaitContent] else []) @ qs\<rparr>"
| loaded: "rs_pending s = ps @ AwaitContent # qs \<Longrightarrow>
     refresh_step env s
       \<lparr>rs_manager = on_content env (rs_manager s) (getFileContentAsync object), rs_pending = ps @ qs\<rparr>"

inductive_cases refresh_stepE: "refresh_step env s s'"

section \<open>Bounds of a prediction\<close>

text \<open>The numbers of a model are finite; JSON has no others.\<close>

definition finite_model :: "SlippageModel \<Rightarrow> bool" where
  "finite_model m \<longleftrightarrow> is_fin (sm_slippageCoefficient m) \<and> is_fin (sm_volumeCoefficient m) \<and>
     is_fin (sm_intercept m) \<and> is_fin (sm_token0PriceInUsd m)"

definition finite_models :: "SlippageModelManager \<Rightarrow> bool" where
  "finite_models manager \<longleftrightarrow>
     (\<forall>(k, ms) \<in> set (cachedSlippageModel manager). \<forall>(name, m) \<in> set ms. finite_model m)"

lemma finite_models_lookup:
  "finite_models manager \<Longrightarrow> map_of (cachedSlippageModel manager) k = Some ms \<Longrightarrow> map_of ms name = Some m \<Longrightarrow>
   finite_model m"
  by (auto simp: finite_models_def dest!: map_of_SomeD)

lemma dec_minus_1 [simp]: "dec (- 1) = - 1" by code_simp

lemma model_slippage_bounds:
  assumes "finite_model m" "0 \<le> r"
  shows "\<exists>v. calculateExpectedSlippageForModel (Fin a) (Fin r) m = Some (Fin v) \<and> - r \<le> v \<and> v \<le> 0"
  using assms
  by (auto simp: calculateExpectedSlippageForModel_def finite_model_def is_fin_iff ONE_IN_BASE_POINTS_def)

text \<open>A source without a prediction: not native, and with no model for the pair.\<close>

definition unmodelled :: "SlippageModelManager \<Rightarrow> string \<Rightarrow> string \<Rightarrow> string \<Rightarrow> bool" where
  "unmodelled manager buyToken sellToken name \<longleftrightarrow> name \<noteq> ''0x'' \<and> name \<noteq> ''Native'' \<and>
     (case map_of (cachedSlippageModel manager) (toKey buyToken sellToken) of
        None \<Rightarrow> True | Some ms \<Rightarrow> map_of ms name = None)"

lemma single_source_bounds:
  assumes "finite_models manager" "ls_proportion src = Fin p" "0 \<le> p" "0 \<le> dec r"
  shows "\<not> unmodelled manager bt st (ls_name src) \<Longrightarrow>
      \<exists>v. calculateSingleSourceExpectedSlippage manager bt st (Fin ba) (Fin sa) src (Fin r) = Some (Fin v) \<and>
        - dec r * p \<le> v \<and> v \<le> 0"
    and "unmodelled manager bt st (ls_name src) \<Longrightarrow>
      calculateSingleSourceExpectedSlippage manager bt st (Fin ba) (Fin sa) src (Fin r) = None"
proof -
  assume known: "\<not> unmodelled manager bt st (ls_name src)"
  show "\<exists>v. calculateSingleSourceExpectedSlippage manager bt st (Fin ba) (Fin sa) src (Fin r) = Some (Fin v) \<and>
        - dec r * p \<le> v \<and> v \<le> 0"
  proof (cases "ls_name src = ''0x'' \<or> ls_name src = ''Native''")
    case True
    then show ?thesis using assms
      by (auto simp: calculateSingleSourceExpectedSlippage_def)
  next
    case False
    then obtain ms m where ms: "map_of (cachedSlippageModel manager) (toKey bt st) = Some ms"
        "map_of ms (ls_name src) = Some m"
      using known by (auto simp: unmodelled_def split: option.splits)
    let ?a = "p * (if sm_token0 m = toLowerCase bt then ba else sa)"
    obtain v where "calculateExpectedSlippageForModel (Fin ?a) (Fin (dec r)) m = Some (Fin v)"
        "- dec r \<le> v" "v \<le> 0"
      using model_slippage_bounds[OF finite_models_lookup[OF assms(1) ms] assms(4)] by blast
    moreover have "- dec r * p \<le> v * p" using assms(3) \<open>- dec r \<le> v\<close> by (intro mult_right_mono)
    ultimately show ?thesis using False ms assms(2,3)
      by (auto simp: calculateSingleSourceExpectedSlippage_def bn_of_number_def mult.commute
          mult_nonneg_nonpos if_distrib[of Fin] if_distrib[of "(*) (Fin p)"] split: if_splits)
  qed
qed (auto simp: unmodelled_def calculateSingleSourceExpectedSlippage_def split: option.splits)

lemma slippage_loop_bounds:
  assumes "finite_models manager" "0 \<le> dec r" "\<forall>src \<in> set srcs. \<exists>p. ls_proportion src = Fin p \<and> 0 \<le> p"
  shows "if \<exists>src \<in> set srcs. ls_proportion src \<noteq> Fin 0 \<and> unmodelled manager bt st (ls_name src)
    then expectedSlippage_loop manager bt st (Fin ba) (Fin sa) (Fin r) srcs (Fin e) = None
    else \<exists>v. expectedSlippage_loop manager bt st (Fin ba) (Fin sa) (Fin r) srcs (Fin e) = Some (Fin v) \<and>
      e - dec r * (\<Sum>src\<leftarrow>srcs. xval (ls_proportion src)) \<le> v \<and> v \<le> e"
  using assms(3)
proof (induction srcs arbitrary: e)
  case (Cons src srcs)
  then obtain p where p: "ls_proportion src = Fin p" "0 \<le> p" by auto
  note one = single_source_bounds[OF assms(1) p assms(2)]
  show ?case
  proof (cases "p = 0")
    case True
    then show ?thesis using Cons.IH[of e] Cons.prems p by auto
  next
    case nz: False
    show ?thesis
    proof (cases "unmodelled manager bt st (ls_name src)")
      case True
      then show ?thesis using one(2) nz p by auto
    next
      case False
      from one(1)[OF this] obtain v where
        "calculateSingleSourceExpectedSlippage manager bt st (Fin ba) (Fin sa) src (Fin r) = Some (Fin v)"
        "- dec r * p \<le> v" "v \<le> 0" by blast
      then show ?thesis using Cons.IH[of "e + v"] Cons.prems p nz False
        by (fastforce simp: algebra_simps split: if_splits)
    qed
  qed
qed simp

text \<open>A slippage rate as a request carries it.\<close>

definition slippage_rate :: "rat \<Rightarrow> bool" where
  "slippage_rate r \<longleftrightarrow> is_double r \<and> 0 \<le> r \<and> r \<le> 1"

lemma slippage_rate_dec: "slippage_rate r \<Longrightarrow> 0 \<le> dec r \<and> dec r \<le> 1"
  using dec_mono[of 0 r] dec_mono[of r 1] by (simp add: slippage_rate_def is_double_def)

section \<open>Charged fills\<close>

text \<open>A fill with integral amounts whose adjusted output is not better than its output, and the fill after
  an adjustment of at most the rate \<open>d\<close> of its output, against the taker.\<close>

definition charged_fill :: "MarketOperation \<Rightarrow> Fill \<Rightarrow> bool" where
  "charged_fill side f \<longleftrightarrow>
     (\<exists>i out adj. fill_input f = Fin i \<and> fill_output f = Fin (of_int out) \<and> 0 \<le> out \<and>
        fill_adjustedOutput f = Fin (of_int adj) \<and> (if side = Sell then adj \<le> out else out \<le> adj))"

definition charged_further :: "MarketOperation \<Rightarrow> rat \<Rightarrow> Fill \<Rightarrow> Fill \<Rightarrow> bool" where
  "charged_further side d f g \<longleftrightarrow> charged_fill side g \<and>
     g\<lparr>fill_adjustedOutput := fill_adjustedOutput f\<rparr> = f \<and>
     (let old = xval (fill_adjustedOutput f); new = xval (fill_adjustedOutput g);
          limit = d * xval (fill_output f)
      in if side = Sell then old - limit \<le> new \<and> new \<le> old else old \<le> new \<and> new \<le> old + limit)"

lemma penalty_bounds:
  fixes v d :: rat and out :: int
  assumes "- d \<le> v" "v \<le> 0" "d \<le> 1" "0 \<le> out"
  shows "0 \<le> out - round_mode ROUND_UP (of_int out * (1 + v))"
    and "of_int (out - round_mode ROUND_UP (of_int out * (1 + v))) \<le> d * of_int out"
proof -
  have nn: "0 \<le> of_int out * (1 + v)" using assms by (intro mult_nonneg_nonneg) auto
  have "of_int out * (1 + v) \<le> of_int out * 1" using assms by (intro mult_left_mono) auto
  from round_mode_mono[OF this, of ROUND_UP]
  show "0 \<le> out - round_mode ROUND_UP (of_int out * (1 + v))" by simp
  have "of_int out * (1 - d) \<le> of_int out * (1 + v)" using assms by (intro mult_left_mono) auto
  also note round_up_ge[OF nn]
  finally show "of_int (out - round_mode ROUND_UP (of_int out * (1 + v))) \<le> d * of_int out"
    by (simp add: algebra_simps)
qed

lemma integral_adjustment:
  "integerValue_default (adjustOutput side (Fin (of_int out))
      (\<bar>Fin (of_int out) - Fin (of_int adj)\<bar> + \<bar>Fin (of_int out) - Fin (of_int k)\<bar>)) =
   Fin (of_int (let pen = \<bar>out - adj\<bar> + \<bar>out - k\<bar> in if side = Sell then out - pen else out + pen))"
  by (simp add: adjustOutput_def Let_def del: of_int_add of_int_diff of_int_abs
      flip: of_int_add of_int_diff of_int_abs)

lemma slip_fill_charged:
  assumes "finite_models manager" "slippage_rate r" "charged_fill side f"
  shows "charged_further side (dec r) f (slip_fill env manager st bt (Fin r) side f)"
proof -
  note rate = slippage_rate_dec[OF assms(2)]
  obtain i out adj where f: "fill_input f = Fin i" "fill_output f = Fin (of_int out)" "0 \<le> out"
      "fill_adjustedOutput f = Fin (of_int adj)" "if side = Sell then adj \<le> out else out \<le> adj"
    using assms(3) by (auto simp: charged_fill_def)
  let ?src = "\<lparr>ls_name = source_value (fill_source f), ls_proportion = 1, ls_intermediateToken = None,
    ls_hops = None\<rparr>"
  let ?b = "if side = Sell then of_int out else i" and ?s = "if side = Sell then i else of_int out"
  define e where "e = calculateExpectedSlippage env manager bt st (Fin ?b) (Fin ?s) [?src] (Fin r)"
  have "e = None \<or> (\<exists>v. e = Some (Fin v) \<and> - dec r \<le> v \<and> v \<le> 0)"
    using slippage_loop_bounds[OF assms(1) conjunct1[OF rate], of "[?src]" "normalizeTokenAddress env bt"
        "normalizeTokenAddress env st" ?b ?s 0]
    by (auto simp: e_def calculateExpectedSlippage_def split: if_splits)
  moreover have unfold: "slip_fill env manager st bt (Fin r) side f = (case e of None \<Rightarrow> f
      | Some x \<Rightarrow> f\<lparr>fill_adjustedOutput := integerValue_default (adjustOutput side (fill_output f)
          (\<bar>fill_output f - fill_adjustedOutput f\<bar> +
           \<bar>fill_output f - integerValue ROUND_UP (fill_output f * (1 + x))\<bar>))\<rparr>)"
    using f by (simp add: slip_fill_def e_def Let_def split: option.splits)
  ultimately show ?thesis
  proof (elim disjE exE conjE)
    assume "e = None"
    then show ?thesis using unfold f rate assms(3)
      by (auto simp: charged_further_def Let_def)
  next
    fix v assume v: "e = Some (Fin v)" "- dec r \<le> v" "v \<le> 0"
    define k where "k = round_mode ROUND_UP (of_int out * (1 + v))"
    let ?adj = "if side = Sell then adj - (out - k) else adj + (out - k)"
    note pen = penalty_bounds[OF v(2,3) conjunct2[OF rate] f(3), folded k_def]
    have "integerValue ROUND_UP (fill_output f * (1 + Fin v)) = Fin (of_int k)"
      by (simp add: f(2) k_def del: round_mode.simps)
    then have "fill_adjustedOutput (slip_fill env manager st bt (Fin r) side f) =
        Fin (of_int (let pen = \<bar>out - adj\<bar> + \<bar>out - k\<bar> in if side = Sell then out - pen else out + pen))"
      using integral_adjustment[of side out adj k] v(1) f(2,4) by (simp only: unfold option.case) simp
    then have "fill_adjustedOutput (slip_fill env manager st bt (Fin r) side f) = Fin (of_int ?adj)"
      using f(5) pen(1) by (simp add: Let_def split: if_splits)
    moreover have "slip_fill env manager st bt (Fin r) side f =
        f\<lparr>fill_adjustedOutput := fill_adjustedOutput (slip_fill env manager st bt (Fin r) side f)\<rparr>"
      using v(1) by (simp add: unfold)
    ultimately have "slip_fill env manager st bt (Fin r) side f = f\<lparr>fill_adjustedOutput := Fin (of_int ?adj)\<rparr>"
      by simp
    then show ?thesis using f pen
      by (auto simp: charged_further_def charged_fill_def Let_def)
  qed
qed

section \<open>The cache stays well formed\<close>

text \<open>Every entry sits under the key of its pair and its own source, with lower-case tokens of which
  the first is the one the key starts with.\<close>

definition well_keyed :: "string \<Rightarrow> SlippageModelCacheForPair \<Rightarrow> bool" where
  "well_keyed k ms \<longleftrightarrow> distinct (map fst ms) \<and>
     (\<forall>(name, m) \<in> set ms. sm_source m = name \<and> k = toKey (sm_token0 m) (sm_token1 m) \<and>
        toLowerCase (sm_token0 m) = sm_token0 m \<and> toLowerCase (sm_token1 m) = sm_token1 m \<and>
        take (length (sm_token0 m)) k = sm_token0 m)"

definition cache_ok :: "SlippageModelCache \<Rightarrow> bool" where
  "cache_ok cache \<longleftrightarrow> distinct (map fst cache) \<and> (\<forall>(k, ms) \<in> set cache. well_keyed k ms)"

lemma well_keyed_update:
  assumes "well_keyed k ms" "k = toKey (sm_token0 m) (sm_token1 m)" "sm_source m = name"
    "toLowerCase (sm_token0 m) = sm_token0 m" "toLowerCase (sm_token1 m) = sm_token1 m"
    "take (length (sm_token0 m)) k = sm_token0 m"
  shows "well_keyed k (AList.update name m ms)"
  using assms set_update_subset[of name m ms] by (fastforce simp: well_keyed_def distinct_update)

lemma cache_ok_update:
  "cache_ok cache \<Longrightarrow> well_keyed k ms \<Longrightarrow> cache_ok (AList.update k ms cache)"
  using set_update_subset[of k ms cache] by (fastforce simp: cache_ok_def distinct_update)

lemma cache_ok_lookup: "cache_ok cache \<Longrightarrow> map_of cache k = Some ms \<Longrightarrow> well_keyed k ms"
  by (auto simp: cache_ok_def dest!: map_of_SomeD)

lemma add_model_ok:
  assumes "cache_ok cache" shows "cache_ok (add_model cache m)"
proof -
  define k where "k = toKey (sm_token0 m) (sm_token1 m)"
  define cache1 where "cache1 = (if map_of cache k = None then AList.update k [] cache else cache)"
  define m1 where "m1 = m\<lparr>sm_token0 := toLowerCase (sm_token0 m), sm_token1 := toLowerCase (sm_token1 m)\<rparr>"
  have "cache_ok cache1" using assms by (simp add: cache1_def cache_ok_update well_keyed_def)
  moreover have "map_of cache1 k \<noteq> None" by (simp add: cache1_def update_conv)
  ultimately have base: "well_keyed k (the (map_of cache1 k))" using cache_ok_lookup by fastforce
  show ?thesis
  proof (cases "take (length (toLowerCase (sm_token0 m))) k = toLowerCase (sm_token0 m)")
    case True
    then have "well_keyed k (AList.update (sm_source m) m1 (the (map_of cache1 k)))"
      using base by (intro well_keyed_update) (simp_all add: m1_def k_def)
    then have "cache_ok (AList.update k (AList.update (sm_source m) m1 (the (map_of cache1 k))) cache1)"
      by (rule cache_ok_update[OF \<open>cache_ok cache1\<close>])
    then show ?thesis using True
      by (simp add: add_model_def Let_def m1_def flip: k_def cache1_def)
  qed (use assms in \<open>simp add: add_model_def Let_def flip: k_def\<close>)
qed

lemma createSlippageModelCache_ok:
  "createSlippageModelCache env content = Inr cache \<Longrightarrow> cache_ok cache"
proof -
  have "cache_ok c \<Longrightarrow> cache_ok (foldl add_model c ms)" for c ms
    by (induction ms arbitrary: c) (simp_all add: add_model_ok)
  moreover have "cache_ok []" by (simp add: cache_ok_def)
  ultimately show "createSlippageModelCache env content = Inr cache \<Longrightarrow> cache_ok cache"
    by (auto simp: createSlippageModelCache_def res_bind_eq_Inr)
qed

lemma refresh_handlers_ok:
  assumes "cache_ok (cachedSlippageModel m)"
  shows "cache_ok (cachedSlippageModel (fst (on_hasFile m t answer)))"
    and "cache_ok (cachedSlippageModel (on_content env m content))"
  using assms createSlippageModelCache_ok
  by (auto simp: on_hasFile_def on_content_def resetCache_def cache_ok_def split: sum.splits option.splits)

lemma refresh_step_ok:
  assumes "refresh_step env s s'" "cache_ok (cachedSlippageModel (rs_manager s))"
  shows "cache_ok (cachedSlippageModel (rs_manager s'))"
  using assms(1)
proof cases
  case (metadata ps t qs head m load)
  then show ?thesis using refresh_handlers_ok(1)[OF assms(2), of t "hasFileAsync head"] by simp
qed (use assms(2) refresh_handlers_ok in auto)

lemma reachable_cache_ok:
  assumes "(refresh_step env)\<^sup>*\<^sup>* initial_refresh_state s"
  shows "cache_ok (cachedSlippageModel (rs_manager s))"
  using assms
proof (induction rule: rtranclp_induct)
  case base
  then show ?case by (simp add: initial_refresh_state_def resetCache_def cache_ok_def)
qed (rule refresh_step_ok)

section \<open>Properties\<close>

definition sample_model :: SlippageModel where
  "sample_model = \<lparr>sm_token0 = ''0xa'', sm_token1 = ''0xb'', sm_source = ''Curve'',
     sm_slippageCoefficient = Fin 0, sm_volumeCoefficient = Fin (- 1), sm_intercept = Fin 0,
     sm_token0PriceInUsd = Fin 1\<rparr>"

definition sample_manager :: SlippageModelManager where
  "sample_manager = \<lparr>lastRefreshed = 1, cachedSlippageModel = [(toKey ''0xa'' ''0xb'', [(''Curve'', sample_model)])]\<rparr>"

definition sample_slippage_env :: SlippageEnv where
  "sample_slippage_env = \<lparr>se_parse = (\<lambda>_. Inr [sample_model]), se_isNativeSymbolOrAddress = (\<lambda>_. False),
     se_nativeFeeToken = ''0xc'', se_bucket = Some ''bucket''\<rparr>"

lemma sample_slippage_ok: "finite_models sample_manager" "slippage_rate 1"
  by (simp_all add: sample_manager_def sample_model_def finite_models_def finite_model_def slippage_rate_def
      is_double_def)

text \<open>The expected slippage of a trade is missing exactly when a source that takes part is not native and
  has no model for the pair; otherwise it lies between minus the maximal slippage rate, weighted by the
  proportions of the sources, and zero.\<close>

theorem expected_slippage_bounds:
  assumes "finite_models manager" "slippage_rate r"
    and "\<forall>src \<in> set srcs. \<exists>p. ls_proportion src = Fin p \<and> 0 \<le> p"
  shows "if \<exists>src \<in> set srcs. ls_proportion src \<noteq> Fin 0 \<and>
        unmodelled manager (normalizeTokenAddress env bt) (normalizeTokenAddress env st) (ls_name src)
    then calculateExpectedSlippage env manager bt st (Fin ba) (Fin sa) srcs (Fin r) = None
    else \<exists>v. calculateExpectedSlippage env manager bt st (Fin ba) (Fin sa) srcs (Fin r) = Some (Fin v) \<and>
      - (dec r * (\<Sum>src\<leftarrow>srcs. xval (ls_proportion src))) \<le> v \<and> v \<le> 0"
  using slippage_loop_bounds[OF assms(1) conjunct1[OF slippage_rate_dec[OF assms(2)]] assms(3),
      of "normalizeTokenAddress env bt" "normalizeTokenAddress env st" ba sa 0]
  by (simp only: calculateExpectedSlippage_def zero_xnum_def diff_0)

theorem expected_slippage_bounds_witness:
  "\<exists>v. calculateExpectedSlippage sample_slippage_env sample_manager ''0xa'' ''0xb'' (Fin 2) (Fin 3)
      [\<lparr>ls_name = ''Curve'', ls_proportion = Fin 1, ls_intermediateToken = None, ls_hops = None\<rparr>,
       \<lparr>ls_name = ''Lido'', ls_proportion = Fin 0, ls_intermediateToken = None, ls_hops = None\<rparr>] (Fin 1) =
      Some (Fin v) \<and> - 1 \<le> v \<and> v \<le> 0"
  using expected_slippage_bounds[OF sample_slippage_ok, of
      "[\<lparr>ls_name = ''Curve'', ls_proportion = Fin 1, ls_intermediateToken = None, ls_hops = None\<rparr>,
        \<lparr>ls_name = ''Lido'', ls_proportion = Fin 0, ls_intermediateToken = None, ls_hops = None\<rparr>]"
      sample_slippage_env "''0xa''" "''0xb''" 2 3]
  by (simp add: unmodelled_def normalizeTokenAddress_def sample_slippage_env_def sample_manager_def)

text \<open>The slippage adjustor charges the predicted slippage to every fill against the taker, on top of what is
  charged already: on a sell the adjusted output falls, on a buy it grows, by at most the maximal
  slippage rate of the output, and nothing else of the fill changes.\<close>

theorem slippage_adjustor_charges:
  assumes "finite_models manager" "slippage_rate r" "\<forall>f \<in> set fs. charged_fill side f"
  shows "list_all2 (charged_further side (dec r)) fs
    (SlippageModelFillAdjustor env manager st bt (Fin r) side fs)"
  using assms(3) slip_fill_charged[OF assms(1,2)]
  by (simp add: SlippageModelFillAdjustor_def list_all2_map2 list_all2_same)

definition sample_charged :: Fill where
  "sample_charged = sample_fill Curve 10 100"

theorem slippage_adjustor_charges_witness:
  "charged_further Sell 1 sample_charged
     (slip_fill sample_slippage_env sample_manager ''0xa'' ''0xb'' (Fin 1) Sell sample_charged)"
proof -
  have "charged_fill Sell sample_charged"
    unfolding charged_fill_def sample_charged_def sample_fill_def
    by (rule exI[of _ 10], rule exI[of _ 100], rule exI[of _ 99]) simp
  then show ?thesis
    using slippage_adjustor_charges[OF sample_slippage_ok, of "[sample_charged]" Sell sample_slippage_env
        "''0xa''" "''0xb''"]
    by (simp add: SlippageModelFillAdjustor_def)
qed

text \<open>However refreshes interleave, every cached model sits under the key of its pair and its own source; a
  refresh that gets its answers leaves no models older than the validity interval, and one that fails
  leaves the cache as it was.\<close>

theorem slippage_cache_keyed_and_fresh:
  assumes "(refresh_step env)\<^sup>*\<^sup>* initial_refresh_state s" "se_bucket env \<noteq> None"
    and "getFileContentAsync object = Inr (content, t')" "se_parse env content = Inr models"
    and "\<forall>t. hasFileAsync head = Inr (Some t) \<longrightarrow> t \<le> t'"
    and "m = refreshAsync env now head object (rs_manager s)"
  shows "cache_ok (cachedSlippageModel m) \<and>
    (case hasFileAsync head of
       Inl e \<Rightarrow> m = rs_manager s
     | Inr _ \<Rightarrow> cachedSlippageModel m = [] \<or> now - SLIPPAGE_MODEL_S3_FILE_VALID_INTERVAL_MS \<le> lastRefreshed m)"
proof
  note ok = reachable_cache_ok[OF assms(1)]
  show "cache_ok (cachedSlippageModel m)"
    using refresh_handlers_ok[OF ok] refresh_handlers_ok(2)[OF refresh_handlers_ok(1)[OF ok]]
    by (auto simp: assms(6) ok refreshAsync_def split: prod.splits) (metis fst_conv)+
  show "case hasFileAsync head of
       Inl e \<Rightarrow> m = rs_manager s
     | Inr _ \<Rightarrow> cachedSlippageModel m = [] \<or> now - SLIPPAGE_MODEL_S3_FILE_VALID_INTERVAL_MS \<le> lastRefreshed m"
    using assms(2-5)
    by (auto simp: assms(6) refreshAsync_def on_hasFile_def on_content_def resetCache_def
        createSlippageModelCache_def split: sum.splits option.splits if_splits)
qed

theorem slippage_cache_keyed_and_fresh_witness:
  "cache_ok (cachedSlippageModel (refreshAsync sample_slippage_env 7200005 (Head (Some 6)) (Object (Some ''f'') (Some 7))
     (rs_manager initial_refresh_state)))"
  using slippage_cache_keyed_and_fresh[of sample_slippage_env initial_refresh_state
      "Object (Some ''f'') (Some 7)" "''f''" 7 "[sample_model]" "Head (Some 6)"]
  by (simp add: sample_slippage_env_def getFileContentAsync_def hasFileAsync_def)

end
