(* ===== verification/Service_Utils.thy ===== *)
theory Service_Utils
  imports Swap_Quoter Slippage_Model
begin

text \<open>
  The helpers of the swap service: \<open>utils/service_utils.ts\<close> (attribution of call data, the sources of a
  response, buy-token fees), \<open>utils/number_utils.ts\<close> and \<open>utils/utils.ts\<close>. The clock, the values of
  \<open>Math.random\<close>, the ABI encoder of the affiliate call and the configured fee recipient are fields of
  \<open>AttributionEnv\<close>.
\<close>

section \<open>Digits\<close>

definition hex_digits :: string where
  "hex_digits = ''0123456789abcdef''"

text \<open>\<open>n.toString(b)\<close> of a non-negative integer, for a base up to 16.\<close>

function to_base :: "nat \<Rightarrow> nat \<Rightarrow> string" where
  "to_base b n = (if b < 2 \<or> n < b then [hex_digits ! n] else to_base b (n div b) @ [hex_digits ! (n mod b)])"
  by pat_completeness auto

termination by (relation "measure snd") auto

declare to_base.simps [simp del]

definition digit_value :: "char \<Rightarrow> nat option" where
  "digit_value c = map_of (zip hex_digits [0..<16]) (char_lower c)"

text \<open>\<open>new BigNumber(s, b)\<close> of a string of digits.\<close>

definition of_base :: "nat \<Rightarrow> string \<Rightarrow> nat" where
  "of_base b s = foldl (\<lambda>acc c. acc * b + the (digit_value c)) 0 s"

definition bn_of_base :: "nat \<Rightarrow> string \<Rightarrow> BigNumber" where
  "bn_of_base b s =
     (if s \<noteq> [] \<and> list_all (\<lambda>c. case digit_value c of Some d \<Rightarrow> d < b | None \<Rightarrow> False) s
      then Fin (of_nat (of_base b s)) else NaN)"

lemma bn_of_base_eq:
  "bn_of_base b s =
     (if s \<noteq> [] \<and> (\<forall>c \<in> set s. \<exists>d. digit_value c = Some d \<and> d < b) then Fin (of_nat (of_base b s)) else NaN)"
proof -
  have "(case digit_value c of Some d \<Rightarrow> d < b | None \<Rightarrow> False) \<longleftrightarrow> (\<exists>d. digit_value c = Some d \<and> d < b)" for c
    by (simp split: option.split)
  then show ?thesis by (simp add: bn_of_base_def list_all_iff)
qed

section \<open>Random identifiers\<close>

definition js_floor :: "js_number \<Rightarrow> js_number" where
  "js_floor x = xmap (\<lambda>a. of_int \<lfloor>a\<rfloor>) x"

definition randomNumberInclusive :: "js_number \<Rightarrow> js_number \<Rightarrow> js_number \<Rightarrow> js_number" where
  "randomNumberInclusive random minimumSpecified maximumSpecified =
     (let min' = js_ceil minimumSpecified;
          max' = js_floor maximumSpecified
      in js_add (js_floor (js_mul random (js_add (js_sub max' min') 1))) min')"

text \<open>\<open>toString(base)\<close> of a number that is a non-negative integer.\<close>

definition int_string :: "nat \<Rightarrow> xnum \<Rightarrow> string" where
  "int_string b x = to_base b (nat \<lfloor>xval x\<rfloor>)"

definition randomHexNumberOfLength :: "(nat \<Rightarrow> js_number) \<Rightarrow> nat \<Rightarrow> string" where
  "randomHexNumberOfLength random numberLength =
     foldl (\<lambda>res i. res @ int_string 16 (randomNumberInclusive (random i) 1 (Fin 15))) [] [0..<numberLength]"

section \<open>Attribution of call data\<close>

record AttributionEnv =
  ae_FEE_RECIPIENT_ADDRESS :: string
  ae_now :: nat \<comment> \<open>\<open>Date.now()\<close>\<close>
  ae_random :: "nat \<Rightarrow> js_number"
  ae_encodeAffiliate :: "string \<Rightarrow> BigNumber \<Rightarrow> string"

record AttributedCallData =
  affiliatedData :: string
  decodedUniqueId :: string

definition timestampInSeconds :: "nat \<Rightarrow> BigNumber" where
  "timestampInSeconds now = integerValue_default (bn_of_number (js_div (Fin (of_nat now)) (Fin 1000)))"

definition attributeCallData :: "AttributionEnv \<Rightarrow> string \<Rightarrow> string option \<Rightarrow> AttributedCallData" where
  "attributeCallData env data affiliateAddress =
     (let affiliateAddressOrDefault =
            (if truthy_string affiliateAddress then the affiliateAddress else ae_FEE_RECIPIENT_ADDRESS env);
          timestamp = timestampInSeconds (ae_now env);
          hexTimestamp = int_string 16 timestamp;
          randomNumber = randomHexNumberOfLength (ae_random env) 10;
          uniqueIdentifier = bn_of_base 16 (randomNumber @ hexTimestamp);
          encodedAffiliateData = ae_encodeAffiliate env affiliateAddressOrDefault uniqueIdentifier
      in \<lparr>affiliatedData = data @ drop 2 encodedAffiliateData,
          decodedUniqueId = randomNumber @ ''-'' @ int_string 10 timestamp\<rparr>)"

section \<open>Gas of call data\<close>

text \<open>\<open>bytes.replace(/0x/g, '')\<close>, and \<open>Buffer.from(s, 'hex')\<close>, which stops at the first pair that is not hex.\<close>

fun remove_0x :: "string \<Rightarrow> string" where
  "remove_0x (c # d # cs) = (if c = CHR ''0'' \<and> d = CHR ''x'' then remove_0x cs else c # remove_0x (d # cs))"
| "remove_0x cs = cs"

fun hex_bytes :: "string \<Rightarrow> nat list" where
  "hex_bytes (c # d # cs) =
     (case (digit_value c, digit_value d) of (Some h, Some l) \<Rightarrow> (16 * h + l) # hex_bytes cs | _ \<Rightarrow> [])"
| "hex_bytes _ = []"

definition calculateCallDataGas :: "string \<Rightarrow> js_number" where
  "calculateCallDataGas bytes =
     foldl (\<lambda>gas b. js_add gas (if b = 0 then Fin 4 else Fin 16)) (toNumber TX_BASE_GAS) (hex_bytes (remove_0x bytes))"

section \<open>Sources of a response\<close>

text \<open>\<open>new BigNumber(x.toPrecision(sd))\<close>: \<open>sd\<close> significant decimal digits.\<close>

definition toPrecision_value :: "nat \<Rightarrow> BigNumber \<Rightarrow> BigNumber" where
  "toPrecision_value sd x =
     xmap (\<lambda>a. if a = 0 then 0
               else let u = 10 powi (expo 10 a - int sd + 1) in of_int (round_mode ROUND_HALF_UP (a / u)) * u) x"

definition PERCENTAGE_SIG_DIGITS :: nat where
  "PERCENTAGE_SIG_DIGITS = 4"

definition toExternalFormat :: "ERC20BridgeSource \<Rightarrow> string" where
  "toExternalFormat source = (if source = Native then ''0x'' else source_value source)"

text \<open>The object spread \<open>{...defaults, ...singleSource}\<close>: the keys of the first, then the new ones of the second.\<close>

definition spread :: "('a \<times> 'b) list \<Rightarrow> ('a \<times> 'b) list \<Rightarrow> ('a \<times> 'b) list" where
  "spread defaults al = foldl (\<lambda>acc (k, v). AList.update k v acc) defaults al"

definition single_source_entries :: "ChainId \<Rightarrow> SwapQuoteSourceBreakdown \<Rightarrow> (ERC20BridgeSource \<times> BigNumber) list" where
  "single_source_entries chainId breakdown =
     spread (map (\<lambda>source. (source, Fin 0))
               (filter (\<lambda>source. source \<noteq> MultiHop) (filter_sources (SELL_SOURCE_FILTER_BY_CHAIN_ID chainId))))
       (sb_singleSource breakdown)"

definition convertToLiquiditySources ::
  "ChainId \<Rightarrow> SwapQuoteSourceBreakdown \<Rightarrow> GetSwapQuoteResponseLiquiditySource list" where
  "convertToLiquiditySources chainId breakdown =
     map (\<lambda>(source, proportion).
            \<lparr>ls_name = toExternalFormat source, ls_proportion = toPrecision_value PERCENTAGE_SIG_DIGITS proportion,
             ls_intermediateToken = None, ls_hops = None\<rparr>) (single_source_entries chainId breakdown) @
     map (\<lambda>b. \<lparr>ls_name = source_value MultiHop,
                ls_proportion = toPrecision_value PERCENTAGE_SIG_DIGITS (mb_proportion b),
                ls_intermediateToken = Some (mb_intermediateToken b),
                ls_hops = Some (map toExternalFormat (mb_hops b))\<rparr>) (sb_multihop breakdown)"

section \<open>Buy-token fees\<close>

text \<open>The percentages are absent for gasless and positive-slippage fees.\<close>

record AffiliateFee =
  fee_feeType :: AffiliateFeeType
  fee_recipient :: string
  fee_buyTokenPercentageFee :: js_number

record AffiliateFeeAmounts =
  am_sellTokenFeeAmount :: BigNumber
  am_buyTokenFeeAmount :: BigNumber
  am_gasCost :: BigNumber

definition AFFILIATE_FEE_TRANSFORMER_GAS :: BigNumber where
  "AFFILIATE_FEE_TRANSFORMER_GAS = Fin 15000"

definition getBuyTokenPercentageFeeOrZero :: "AffiliateFee \<Rightarrow> js_number" where
  "getBuyTokenPercentageFeeOrZero affiliateFee =
     (case fee_feeType affiliateFee of
        GaslessFee \<Rightarrow> 0 | PositiveSlippageFee \<Rightarrow> 0 | _ \<Rightarrow> fee_buyTokenPercentageFee affiliateFee)"

definition getBuyTokenFeeAmounts :: "(rat \<Rightarrow> rat) \<Rightarrow> bool \<Rightarrow> SwapQuote \<Rightarrow> AffiliateFee \<Rightarrow> AffiliateFeeAmounts" where
  "getBuyTokenFeeAmounts rnd GASLESS_SWAP_FEE_ENABLED quote fee =
     (if fee_feeType fee = NoFee \<or> fee_recipient fee = NULL_ADDRESS \<or> fee_recipient fee = []
      then \<lparr>am_sellTokenFeeAmount = 0, am_buyTokenFeeAmount = 0, am_gasCost = 0\<rparr>
      else if fee_feeType fee = GaslessFee
      then \<lparr>am_sellTokenFeeAmount = 0,
            am_buyTokenFeeAmount =
              (if GASLESS_SWAP_FEE_ENABLED
               then integerValue ROUND_DOWN (swq_makerAmountPerEth quote * swq_gasPrice quote *
                      bn_of_number (qi_gas (swq_worstCaseQuoteInfo quote)))
               else 0),
            am_gasCost = AFFILIATE_FEE_TRANSFORMER_GAS\<rparr>
      else \<lparr>am_sellTokenFeeAmount = 0,
            am_buyTokenFeeAmount = integerValue ROUND_DOWN
              (bn_div rnd (qi_makerAmount (swq_worstCaseQuoteInfo quote) *
                             bn_of_number (getBuyTokenPercentageFeeOrZero fee))
                 (bn_of_number (js_add (getBuyTokenPercentageFeeOrZero fee) 1))),
            am_gasCost = (if fee_feeType fee = PercentageFee then AFFILIATE_FEE_TRANSFORMER_GAS
                          else POSITIVE_SLIPPAGE_FEE_TRANSFORMER_GAS)\<rparr>)"

section \<open>Lemmas on digits\<close>

lemma hex_digits_nth [simp]: "n < 16 \<Longrightarrow> digit_value (hex_digits ! n) = Some n"
proof -
  have "list_all (\<lambda>n. digit_value (hex_digits ! n) = Some n) [0..<16]" by code_simp
  then show "n < 16 \<Longrightarrow> digit_value (hex_digits ! n) = Some n" by (simp add: list_all_iff)
qed

lemma of_base_snoc: "of_base b (s @ [c]) = of_base b s * b + the (digit_value c)"
  by (simp add: of_base_def)

lemma of_base_append: "of_base b (s @ t) = of_base b s * b ^ length t + of_base b t"
proof (induction t rule: rev_induct)
  case Nil
  then show ?case by (simp add: of_base_def)
next
  case (snoc c t)
  have "of_base b (s @ t @ [c]) = of_base b (s @ t) * b + the (digit_value c)"
    using of_base_snoc[of b "s @ t" c] by simp
  then show ?case by (simp only: snoc of_base_snoc length_append_singleton power_Suc2 add_mult_distrib mult.assoc add.assoc)
qed

lemma to_base_value:
  assumes "2 \<le> b" "b \<le> 16"
  shows "of_base b (to_base b n) = n \<and> (\<forall>c \<in> set (to_base b n). \<exists>d. digit_value c = Some d \<and> d < b)"
  using assms
proof (induction b n rule: to_base.induct)
  case (1 b n)
  show ?case
  proof (cases "n < b")
    case True
    then show ?thesis using 1 by (simp add: to_base.simps[of b n] of_base_def)
  next
    case False
    then have IH: "of_base b (to_base b (n div b)) = n div b"
      "\<forall>c \<in> set (to_base b (n div b)). \<exists>d. digit_value c = Some d \<and> d < b"
      using 1 by auto
    have "n mod b < b" using 1(2) by simp
    moreover from this have "n mod b < 16" using 1(3) by simp
    ultimately have digit: "digit_value (hex_digits ! (n mod b)) = Some (n mod b)" "n mod b < b" by (simp_all only: hex_digits_nth)
    have step: "to_base b n = to_base b (n div b) @ [hex_digits ! (n mod b)]"
      using False 1(2) by (subst to_base.simps) simp
    show ?thesis
    proof
      show "of_base b (to_base b n) = n" by (simp add: step of_base_snoc IH(1) digit(1))
      show "\<forall>c \<in> set (to_base b n). \<exists>d. digit_value c = Some d \<and> d < b"
        unfolding step using IH(2) digit by (metis Un_iff empty_iff insert_iff list.set(1) list.set(2) set_append)
    qed
  qed
qed

lemma to_base_nonempty [simp]: "to_base b n \<noteq> []"
  by (subst to_base.simps) simp

lemma to_base_length:
  assumes "2 \<le> b" "b ^ k \<le> n" "n < b ^ Suc k"
  shows "length (to_base b n) = Suc k"
  using assms(2,3)
proof (induction k arbitrary: n)
  case 0
  then show ?case by (simp add: to_base.simps[of b n])
next
  case (Suc k)
  have "b \<le> n" using Suc.prems(1) assms(1) by (metis le_trans mult_le_mono2 mult.right_neutral power_Suc one_le_power one_le_numeral)
  moreover have "b ^ k \<le> n div b" using Suc.prems(1) assms(1) by (simp add: less_eq_div_iff_mult_less_eq mult.commute)
  moreover have "n div b < b ^ Suc k" using Suc.prems(2) assms(1) by (simp add: div_less_iff_less_mult mult.commute)
  ultimately show ?case using Suc.IH[of "n div b"] assms(1) by (simp add: to_base.simps[of b n])
qed

section \<open>Identifiers\<close>

text \<open>\<open>Math.random\<close> gives a double from 0 up to, but not including, 1; the largest is \<open>1 - 2 ^ -53\<close>.\<close>

definition random_value :: "js_number \<Rightarrow> bool" where
  "random_value x \<longleftrightarrow> (\<exists>r. x = Fin r \<and> 0 \<le> r \<and> r \<le> 1 - 1 / 2 ^ 53)"

lemma rnd64_small_numerals: "rnd64 14 = 14" "rnd64 15 = 15" "rnd64 0 = 0"
  by code_simp+

lemma random_digit:
  assumes "random_value x"
  shows "\<exists>n. randomNumberInclusive x 1 (Fin 15) = Fin (of_nat n) \<and> 1 \<le> n \<and> n \<le> 15"
proof -
  obtain r where r: "x = Fin r" "0 \<le> r" "r \<le> 1 - 1 / 2 ^ 53" using assms by (auto simp: random_value_def)
  define y where "y = \<lfloor>rnd64 (r * 15)\<rfloor>"
  have "rnd64 ((1 - 1 / 2 ^ 53) * 15) < 15" by code_simp
  moreover have "rnd64 (r * 15) \<le> rnd64 ((1 - 1 / 2 ^ 53) * 15)" using r by (intro rnd64_mono mult_right_mono) auto
  ultimately have "rnd64 (r * 15) < 15" by linarith
  moreover have "0 \<le> rnd64 (r * 15)" using rnd64_mono[of 0 "r * 15"] r by simp
  ultimately have y: "0 \<le> y" "y < 15" by (simp_all add: y_def floor_less_iff)
  have "randomNumberInclusive x 1 (Fin 15) = js_add (Fin (of_nat (nat y))) (Fin (of_nat 1))"
    using y(1) by (simp add: randomNumberInclusive_def r(1) js_floor_def Let_def rnd64_small_numerals y_def)
  also have "\<dots> = Fin (of_nat (nat y + 1))" using y by (intro js_add_of_nat) simp
  finally show ?thesis using y by (intro exI[of _ "nat y + 1"]) auto
qed

lemma random_hex:
  assumes "\<forall>i. random_value (random i)"
  shows "length (randomHexNumberOfLength random n) = n \<and>
    (\<forall>c \<in> set (randomHexNumberOfLength random n). \<exists>d. c = hex_digits ! d \<and> d < 16 \<and> d \<noteq> 0)"
proof (induction n)
  case 0
  then show ?case by (simp add: randomHexNumberOfLength_def)
next
  case (Suc n)
  obtain k where k: "randomNumberInclusive (random n) 1 (Fin 15) = Fin (of_nat k)" "1 \<le> k" "k \<le> 15"
    using random_digit assms by blast
  then have "int_string 16 (randomNumberInclusive (random n) 1 (Fin 15)) = [hex_digits ! k]"
    by (simp add: int_string_def to_base.simps[of 16 k])
  then have "randomHexNumberOfLength random (Suc n) = randomHexNumberOfLength random n @ [hex_digits ! k]"
    by (simp add: randomHexNumberOfLength_def)
  then show ?case using Suc k by auto
qed

text \<open>Reading back the digits of an identifier that does not start with a zero.\<close>

lemma to_base_of_base:
  assumes "2 \<le> b" "b \<le> 16" "s \<noteq> []" "\<forall>c \<in> set s. \<exists>d. c = hex_digits ! d \<and> d < b \<and> d \<noteq> 0"
  shows "to_base b (of_base b s) = s \<and> 0 < of_base b s"
  using assms(3,4)
proof (induction s rule: rev_induct)
  case (snoc c s)
  obtain d where d: "c = hex_digits ! d" "d < b" "d \<noteq> 0" using snoc.prems(2) by auto
  then have dv: "digit_value c = Some d" using assms(2) by (auto intro: hex_digits_nth)
  show ?case
  proof (cases "s = []")
    case True
    then show ?thesis using d dv by (simp add: of_base_def to_base.simps[of b d])
  next
    case False
    then have IH: "to_base b (of_base b s) = s" "0 < of_base b s" using snoc by auto
    then have "b \<le> of_base b s * b + d" using assms(1) by (cases "of_base b s") auto
    then have "to_base b (of_base b s * b + d) = to_base b (of_base b s) @ [hex_digits ! d]"
      using d(2) assms(1) by (subst to_base.simps) simp
    then show ?thesis using IH d dv by (simp add: of_base_snoc)
  qed
qed simp

section \<open>Shares\<close>

lemma map_of_update [simp]: "map_of (AList.update k v al) k' = (if k' = k then Some v else map_of al k')"
  by (simp add: update_conv')

lemma spread_lookup:
  "map_of (spread defaults al) k = (case map_of (rev al) k of Some v \<Rightarrow> Some v | None \<Rightarrow> map_of defaults k)"
  by (induction al rule: rev_induct) (auto simp: spread_def split: option.splits)

lemma spread_keys: "set (map fst (spread defaults al)) = set (map fst defaults) \<union> set (map fst al)"
  by (induction al rule: rev_induct) (auto simp: spread_def simp del: set_map)

lemma spread_distinct: "distinct (map fst defaults) \<Longrightarrow> distinct (map fst (spread defaults al))"
  by (induction al rule: rev_induct) (auto simp: spread_def)

lemma map_of_rev_distinct: "distinct (map fst al) \<Longrightarrow> map_of (rev al) = map_of al"
  by (intro map_of_inject_set[THEN iffD2]) (simp_all add: rev_map[symmetric])

lemma map_of_zero_Some: "map_of (map (\<lambda>s. (s, z)) xs) k = Some v \<longleftrightarrow> k \<in> set xs \<and> v = z"
  by (induction xs) auto

lemma distinct_sell_sources: "distinct (filter_sources (SELL_SOURCE_FILTER_BY_CHAIN_ID chainId))"
  by (cases chainId) (simp_all only: SELL_SOURCE_FILTER_BY_CHAIN_ID.simps filter_sources_def new_SourceFilters_def
      SourceFilters.simps distinct_filter distinct_uniq)

lemma toExternalFormat_inj: "inj toExternalFormat"
proof -
  have "source_value s \<noteq> ''0x''" for s by (cases s) simp_all
  then show ?thesis by (intro injI) (metis toExternalFormat_def source_value_inj)
qed

lemma toPrecision_error:
  assumes "1 \<le> sd"
  shows "\<exists>b. toPrecision_value sd (Fin a) = Fin b \<and> \<bar>b - a\<bar> \<le> \<bar>a\<bar> / (2 * 10 ^ (sd - 1))"
proof (cases "a = 0")
  case True
  then show ?thesis by (simp add: toPrecision_value_def)
next
  case False
  define e where "e = expo 10 a"
  define u :: rat where "u = 10 powi (e - int sd + 1)"
  have u: "0 < u" by (simp add: u_def)
  have le: "10 powi e \<le> \<bar>a\<bar>" using expo_bounds(1)[of 10 a] False by (simp add: e_def)
  have "u * 10 ^ (sd - 1) = 10 powi (e - int sd + 1) * 10 powi (int (sd - 1))" by (simp add: u_def)
  also have "\<dots> = 10 powi e" using assms by (subst power_int_add[symmetric]) auto
  finally have eu: "u = 10 powi e / 10 ^ (sd - 1)" by (simp add: field_simps)
  let ?r = "of_int (round_mode ROUND_HALF_UP (a / u)) :: rat"
  have "\<bar>?r - a / u\<bar> * u \<le> 1 / 2 * u" using round_half_up_err[of "a / u"] u by (intro mult_right_mono) auto
  moreover have "\<bar>x - a / u\<bar> * u = \<bar>x * u - a\<bar>" for x
  proof -
    have "\<bar>x - a / u\<bar> * u = \<bar>(x - a / u) * u\<bar>" using u by (simp add: abs_mult)
    then show ?thesis using u by (simp add: left_diff_distrib)
  qed
  ultimately have "\<bar>?r * u - a\<bar> \<le> u / 2" by simp
  also have "\<dots> \<le> \<bar>a\<bar> / (2 * 10 ^ (sd - 1))" using le by (simp add: eu divide_right_mono field_simps)
  finally show ?thesis using False by (auto simp: toPrecision_value_def u_def e_def Let_def)
qed

section \<open>Gas and fees\<close>

definition byte_gas :: "nat \<Rightarrow> nat" where
  "byte_gas b = (if b = 0 then 4 else 16)"

lemma call_data_gas:
  assumes "length (hex_bytes (remove_0x bytes)) < 2 ^ 40"
  shows "calculateCallDataGas bytes = Fin (of_nat (21000 + sum_list (map byte_gas (hex_bytes (remove_0x bytes)))))"
proof -
  have fold: "foldl (\<lambda>gas b. js_add gas (if b = 0 then Fin 4 else Fin 16)) (Fin (of_nat n)) bs =
      Fin (of_nat (n + sum_list (map byte_gas bs)))" if "n + 16 * length bs < 2 ^ 53" for n bs
    using that
  proof (induction bs arbitrary: n)
    case (Cons b bs)
    have "(if b = 0 then Fin 4 else Fin 16) = Fin (of_nat (byte_gas b))" by (simp add: byte_gas_def)
    moreover have "js_add (Fin (of_nat n)) (Fin (of_nat (byte_gas b))) = Fin (of_nat (n + byte_gas b))"
      using Cons.prems by (intro js_add_of_nat) (simp add: byte_gas_def)
    moreover have "n + byte_gas b + 16 * length bs < 2 ^ 53" using Cons.prems by (simp add: byte_gas_def)
    ultimately show ?case using Cons.IH[of "n + byte_gas b"] by (simp add: add.assoc)
  qed simp
  have "toNumber TX_BASE_GAS = Fin (of_nat 21000)"
    using toNumber_of_nat[of 21000] by (simp add: TX_BASE_GAS_def toNumber_def)
  then show ?thesis using fold[of 21000 "hex_bytes (remove_0x bytes)"] assms by (simp add: calculateCallDataGas_def)
qed

text \<open>A percentage fee never takes more than the minimum the taker buys.\<close>

context quotient_rounding
begin

lemma percentage_fee_bounds:
  assumes "fee_feeType fee = PercentageFee" "fee_buyTokenPercentageFee fee = Fin f" "is_double f" "0 \<le> f"
    "qi_makerAmount (swq_worstCaseQuoteInfo quote) = Fin (of_int m)" "0 \<le> m"
  shows "\<exists>k. am_buyTokenFeeAmount (getBuyTokenFeeAmounts rnd enabled quote fee) = Fin (of_int k) \<and> 0 \<le> k \<and> k \<le> m"
proof -
  let ?g = "rnd64 (f + 1)"
  have f: "rnd64 f = f" using assms(3) by (simp add: is_double_def)
  have le: "f \<le> ?g" using rnd64_mono[of f "f + 1"] f by simp
  have "1 \<le> ?g" using rnd64_mono[of 1 "f + 1"] assms(4) by simp
  then have g: "1 \<le> dec ?g" using dec_mono[of 1 ?g] by simp
  have df: "0 \<le> dec f" "dec f \<le> dec ?g" using dec_mono[of 0 f] dec_mono[of f ?g] assms(4) f le by simp_all
  have "of_int m * dec f / dec ?g \<le> of_int m" using df g assms(6) by (simp add: divide_le_eq mult_left_mono)
  then have up: "rnd (of_int m * dec f / dec ?g) \<le> of_int m" using rnd_mono rnd_int by metis
  have lo: "0 \<le> rnd (of_int m * dec f / dec ?g)" using df g assms(6) by (intro rnd_nonneg divide_nonneg_nonneg mult_nonneg_nonneg) auto
  have "round_mode ROUND_DOWN (rnd (of_int m * dec f / dec ?g)) \<le> m" using up lo by simp linarith
  moreover have "0 \<le> round_mode ROUND_DOWN (rnd (of_int m * dec f / dec ?g))" using lo by (rule round_mode_nonneg)
  moreover have "dec ?g \<noteq> 0" using g by simp
  ultimately show ?thesis
    using assms by (auto simp: getBuyTokenFeeAmounts_def getBuyTokenPercentageFeeOrZero_def simp del: round_mode.simps)
qed

end

section \<open>Properties\<close>

text \<open>The identifier appended to call data can be read back: with a clock between 1978 and 2106, its last
  four bytes are the time in seconds and the five bytes before them the random identifier, and these are
  what the decoded unique id prints; the original call data is kept in front.\<close>

theorem unique_id_roundtrip:
  assumes "\<forall>i. random_value (ae_random env i)"
    "timestampInSeconds (ae_now env) = Fin (of_nat t)" "2 ^ 28 \<le> t" "t < 2 ^ 32"
  shows "\<exists>recipient uniqueId.
    attributeCallData env data affiliate =
      \<lparr>affiliatedData = data @ drop 2 (ae_encodeAffiliate env recipient (Fin (of_nat uniqueId))),
       decodedUniqueId = to_base 16 (uniqueId div 2 ^ 32) @ ''-'' @ to_base 10 (uniqueId mod 2 ^ 32)\<rparr> \<and>
    uniqueId mod 2 ^ 32 = t \<and> length (to_base 16 (uniqueId div 2 ^ 32)) = 10"
proof -
  let ?r = "randomHexNumberOfLength (ae_random env) 10"
  let ?id = "of_base 16 (?r @ to_base 16 t)"
  have r: "length ?r = 10" "\<forall>c \<in> set ?r. \<exists>d. c = hex_digits ! d \<and> d < 16 \<and> d \<noteq> 0"
    using random_hex[OF assms(1), of 10] by auto
  then have ne: "?r \<noteq> []" by auto
  have "length (to_base 16 t) = 8" using to_base_length[of 16 7 t] assms(3,4) by simp
  then have id: "?id = of_base 16 ?r * 2 ^ 32 + t" using to_base_value[of 16 t] by (simp add: of_base_append)
  then have parts: "?id mod 2 ^ 32 = t" "?id div 2 ^ 32 = of_base 16 ?r" using assms(4) by simp_all
  have "\<forall>c \<in> set (?r @ to_base 16 t). \<exists>d. digit_value c = Some d \<and> d < 16"
    using r(2) hex_digits_nth to_base_value[of 16 t] by fastforce
  then have "bn_of_base 16 (?r @ to_base 16 t) = Fin (of_nat ?id)" using ne by (simp add: bn_of_base_eq)
  moreover have "to_base 16 (of_base 16 ?r) = ?r" using to_base_of_base[of 16 ?r] r ne by simp
  ultimately show ?thesis
    using assms(2) parts r(1)
    by (intro exI[of _ "if truthy_string affiliate then the affiliate else ae_FEE_RECIPIENT_ADDRESS env"] exI[of _ ?id])
      (simp add: attributeCallData_def Let_def int_string_def)
qed

definition sample_attribution :: AttributionEnv where
  "sample_attribution =
     \<lparr>ae_FEE_RECIPIENT_ADDRESS = NULL_ADDRESS, ae_now = 1700000000000, ae_random = (\<lambda>_. Fin (1 / 2)),
      ae_encodeAffiliate = (\<lambda>address uniqueId. ''0x869584cd'' @ address)\<rparr>"

theorem unique_id_roundtrip_witness:
  "\<exists>uniqueId :: nat. uniqueId mod 2 ^ 32 = 1700000000 \<and>
     decodedUniqueId (attributeCallData sample_attribution ''0x00'' None) =
       to_base 16 (uniqueId div 2 ^ 32) @ ''-'' @ to_base 10 (uniqueId mod 2 ^ 32)"
proof -
  have "timestampInSeconds 1700000000000 = Fin (of_nat 1700000000)"
    using bn_of_number_of_nat[of 1700000000] toNumber_of_nat[of 1700000000] round_mode_of_int[of ROUND_HALF_UP 1700000000]
    by (simp add: timestampInSeconds_def toNumber_def del: round_mode.simps round_mode_of_int)
  then have now: "timestampInSeconds (ae_now sample_attribution) = Fin (of_nat 1700000000)"
    by (simp only: sample_attribution_def AttributionEnv.simps)
  have random: "\<forall>i. random_value (ae_random sample_attribution i)"
    by (intro allI) (simp add: sample_attribution_def random_value_def exI[of _ "1 / 2"])
  have "2 ^ 28 \<le> (1700000000 :: nat)" "1700000000 < (2 ^ 32 :: nat)" by simp_all
  from unique_id_roundtrip[OF random now this, of "''0x00''" None]
  show ?thesis by (metis AttributedCallData.select_convs(2))
qed

text \<open>The sources of a response name every sell source of the chain and every source of the quote exactly
  once, under distinct names, and the share of each is that of the quote to four significant digits, hence
  off by at most one part in two thousand, or zero when the quote does not use it.\<close>

theorem liquidity_sources_complete:
  fixes chainId :: ChainId
  assumes "distinct (map fst (sb_singleSource b))" "\<forall>(s, p) \<in> set (sb_singleSource b). is_fin p"
  defines "single \<equiv> take (length (single_source_entries chainId b)) (convertToLiquiditySources chainId b)"
  shows "distinct (map ls_name single) \<and>
    set (map ls_name single) = toExternalFormat `
      (({s \<in> set (filter_sources (SELL_SOURCE_FILTER_BY_CHAIN_ID chainId)). s \<noteq> MultiHop}) \<union> fst ` set (sb_singleSource b)) \<and>
    (\<forall>source share. (source, share) \<in> set (single_source_entries chainId b) \<longrightarrow>
       (\<exists>reported. \<lparr>ls_name = toExternalFormat source, ls_proportion = Fin reported,
          ls_intermediateToken = None, ls_hops = None\<rparr> \<in> set single \<and>
        \<bar>reported - xval share\<bar> \<le> \<bar>xval share\<bar> / 2000) \<and>
       share = (case map_of (sb_singleSource b) source of Some p \<Rightarrow> p | None \<Rightarrow> Fin 0))"
proof -
  let ?es = "single_source_entries chainId b"
  let ?row = "\<lambda>(source, proportion). \<lparr>ls_name = toExternalFormat source,
    ls_proportion = toPrecision_value PERCENTAGE_SIG_DIGITS proportion, ls_intermediateToken = None, ls_hops = None\<rparr>"
  let ?ds = "filter (\<lambda>source. source \<noteq> MultiHop) (filter_sources (SELL_SOURCE_FILTER_BY_CHAIN_ID chainId))"
  have single: "single = map ?row ?es" by (simp add: single_def convertToLiquiditySources_def)
  then have names: "map ls_name single = map toExternalFormat (map fst ?es)" by (simp add: case_prod_unfold)
  have dist: "distinct (map fst ?es)"
    unfolding single_source_entries_def by (rule spread_distinct) (simp add: comp_def distinct_sell_sources)
  have inj: "inj toExternalFormat" by (rule toExternalFormat_inj)
  have keys: "set (map fst ?es) = set ?ds \<union> set (map fst (sb_singleSource b))"
    unfolding single_source_entries_def spread_keys by (simp add: comp_def)
  have share: "share = (case map_of (sb_singleSource b) source of Some p \<Rightarrow> p | None \<Rightarrow> Fin 0) \<and> is_fin share"
    if "(source, share) \<in> set ?es" for source share
  proof -
    have "map_of ?es source = Some share" using that dist by (simp add: map_of_eq_Some_iff)
    then have "(case map_of (sb_singleSource b) source of Some v \<Rightarrow> Some v
        | None \<Rightarrow> map_of (map (\<lambda>s. (s, Fin 0)) ?ds) source) = Some share"
      using assms(1) by (simp add: single_source_entries_def spread_lookup map_of_rev_distinct)
    then show ?thesis using assms(2) by (auto simp: map_of_zero_Some split: option.splits dest!: map_of_SomeD)
  qed
  have row: "\<exists>reported. \<lparr>ls_name = toExternalFormat source, ls_proportion = Fin reported,
      ls_intermediateToken = None, ls_hops = None\<rparr> \<in> set single \<and> \<bar>reported - xval share\<bar> \<le> \<bar>xval share\<bar> / 2000"
    if m: "(source, share) \<in> set ?es" for source share
  proof -
    obtain a where a: "share = Fin a" using share[OF m] by (auto simp: is_fin_iff)
    obtain r where r: "toPrecision_value 4 (Fin a) = Fin r" "\<bar>r - a\<bar> \<le> \<bar>a\<bar> / 2000"
      using toPrecision_error[of 4 a] by auto
    have "?row (source, share) \<in> set single" unfolding single set_map by (rule imageI[OF m])
    then show ?thesis using a r by (intro exI[of _ r]) (simp add: PERCENTAGE_SIG_DIGITS_def)
  qed
  have "distinct (map ls_name single)"
    unfolding names using dist inj_on_subset[OF inj subset_UNIV] by (subst distinct_map) (rule conjI)
  moreover have "set (map ls_name single) = toExternalFormat `
      (({s \<in> set (filter_sources (SELL_SOURCE_FILTER_BY_CHAIN_ID chainId)). s \<noteq> MultiHop}) \<union> fst ` set (sb_singleSource b))"
    unfolding names set_map[of toExternalFormat] keys by (auto simp: conj_commute)
  ultimately show ?thesis using share row by blast
qed

theorem liquidity_sources_complete_witness:
  "distinct (map ls_name (take (length (single_source_entries Mainnet
       \<lparr>sb_singleSource = [(Curve, Fin (1 / 3)), (UniswapV2, Fin (2 / 3))], sb_multihop = []\<rparr>))
     (convertToLiquiditySources Mainnet
       \<lparr>sb_singleSource = [(Curve, Fin (1 / 3)), (UniswapV2, Fin (2 / 3))], sb_multihop = []\<rparr>)))"
proof -
  let ?b = "\<lparr>sb_singleSource = [(Curve, Fin (1 / 3)), (UniswapV2, Fin (2 / 3))], sb_multihop = []\<rparr>"
  have "distinct (map fst (sb_singleSource ?b))" "\<forall>(s, p) \<in> set (sb_singleSource ?b). is_fin p" by simp_all
  from liquidity_sources_complete[OF this, of Mainnet] show ?thesis by (rule conjunct1)
qed

end
