(* ===== verification/Fee_Calculator.thy ===== *)
theory Fee_Calculator
  imports Big_Number
begin

text \<open>
  The fee calculator of the gasless services (\<open>src/utils/fee_calculator.ts\<close> with the fee types of
  \<open>src/types.ts\<close>): the integrator, 0x and gas fees of a trade, and the on-chain transfers that pay
  them. The lemmas show when it throws, that every transfer goes to a distinct recipient, and that
  what is transferred on-chain is what the fees bill.
\<close>

section \<open>Types\<close>

datatype BillingType = on_chain | off_chain

record FeeConfigBase =
  cfg_feeRecipient :: "string option"
  cfg_billingType :: BillingType

record VolumeBasedFeeConfig = FeeConfigBase +
  cfg_volumePercentage :: BigNumber

record IntegratorShareFeeConfig = FeeConfigBase +
  cfg_integratorSharePercentage :: BigNumber

type_synonym GasFeeConfig = FeeConfigBase

text \<open>The \<open>type\<close> tag of the configured 0x fee; a tag outside the declared union is \<open>OtherConfig\<close>.\<close>

datatype ZeroExFeeConfig =
    VolumeConfig VolumeBasedFeeConfig
  | IntegratorShareConfig IntegratorShareFeeConfig
  | OtherConfig

record FeeConfigs =
  cfg_integratorFee :: "VolumeBasedFeeConfig option"
  cfg_zeroExFee :: "ZeroExFeeConfig option"
  cfg_gasFee :: "GasFeeConfig option"

record FeeBase =
  feeToken :: string
  feeAmount :: BigNumber
  feeRecipient :: "string option"
  billingType :: BillingType

record VolumeBasedFee = FeeBase +
  volumePercentage :: BigNumber

record IntegratorShareFee = FeeBase +
  integratorSharePercentage :: BigNumber

record GasFee = FeeBase +
  fee_gasPrice :: BigNumber
  fee_estimatedGas :: BigNumber
  feeTokenAmountPerWei :: BigNumber

datatype ZeroExFee = VolumeFee VolumeBasedFee | ShareFee IntegratorShareFee

fun zeroExFee_base :: "ZeroExFee \<Rightarrow> FeeBase" where
  "zeroExFee_base (VolumeFee f) = FeeBase.truncate f"
| "zeroExFee_base (ShareFee f) = FeeBase.truncate f"

fun is_share :: "ZeroExFee \<Rightarrow> bool" where
  "is_share (VolumeFee f) = False"
| "is_share (ShareFee f) = True"

record Fees =
  integratorFee :: "VolumeBasedFee option"
  zeroExFee :: "ZeroExFee option"
  gasFee :: "GasFee option"

record OnChainTransfer =
  transferToken :: string
  transferAmount :: BigNumber
  transferRecipient :: string

datatype fee_error = IntegratorFeeUndefined | SellTokenAmountPerWeiUndefined

record CalculateFeesResult =
  res_fees :: "Fees option"
  totalOnChainFeeAmount :: BigNumber
  onChainTransfers :: "OnChainTransfer list"
  onChainTransfersGas :: BigNumber

section \<open>Operations\<close>

text \<open>The condition guarding every on-chain transfer: on-chain, a recipient, a positive amount.\<close>

definition billed_on_chain :: "('a) FeeBase_scheme \<Rightarrow> bool" where
  "billed_on_chain f \<longleftrightarrow>
     billingType f = on_chain \<and> truthy_string (feeRecipient f) \<and> 0 < feeAmount f"

type_synonym transfers = "(string \<times> OnChainTransfer) list"

text \<open>\<open>map.get(recipient)?.feeAmount ?? ZERO\<close>, and the \<open>map.set\<close> that follows it.\<close>

definition current_amount :: "transfers \<Rightarrow> string \<Rightarrow> BigNumber" where
  "current_amount m r = (case map_of m r of None \<Rightarrow> 0 | Some t \<Rightarrow> transferAmount t)"

definition set_transfer :: "('a) FeeBase_scheme \<Rightarrow> BigNumber \<Rightarrow> transfers \<Rightarrow> transfers" where
  "set_transfer f amount m =
     (let r = the (feeRecipient f) in
      AList.update r \<lparr>transferToken = feeToken f,
                      transferAmount = current_amount m r + amount,
                      transferRecipient = r\<rparr> m)"

definition zeroExFeeAdjustment :: "Fees \<Rightarrow> BigNumber" where
  "zeroExFeeAdjustment fees =
     (case zeroExFee fees of
        Some z \<Rightarrow>
          if billingType (zeroExFee_base z) = on_chain \<and> truthy_string (feeRecipient (zeroExFee_base z))
             \<and> is_share z
          then feeAmount (zeroExFee_base z) else 0
      | None \<Rightarrow> 0)"

definition add_integrator :: "Fees \<Rightarrow> transfers \<Rightarrow> transfers" where
  "add_integrator fees m =
     (case integratorFee fees of
        Some f \<Rightarrow>
          if billed_on_chain f
          then set_transfer f (feeAmount f - zeroExFeeAdjustment fees) m else m
      | None \<Rightarrow> m)"

definition add_zeroEx :: "Fees \<Rightarrow> transfers \<Rightarrow> transfers" where
  "add_zeroEx fees m =
     (case zeroExFee fees of
        Some z \<Rightarrow>
          if billed_on_chain (zeroExFee_base z)
          then set_transfer (zeroExFee_base z) (feeAmount (zeroExFee_base z)) m else m
      | None \<Rightarrow> m)"

definition add_gas :: "Fees \<Rightarrow> transfers \<Rightarrow> transfers" where
  "add_gas fees m =
     (case gasFee fees of
        Some f \<Rightarrow> if billed_on_chain f then set_transfer f (feeAmount f) m else m
      | None \<Rightarrow> m)"

definition feeRecipientToOnChainTransfer :: "Fees \<Rightarrow> transfers" where
  "feeRecipientToOnChainTransfer fees = add_gas fees (add_zeroEx fees (add_integrator fees []))"

definition calculateTotalOnChainFees ::
  "Fees \<Rightarrow> BigNumber \<Rightarrow> BigNumber \<times> OnChainTransfer list \<times> BigNumber" where
  "calculateTotalOnChainFees fees gasPerOnChainTransfer =
     (let m = feeRecipientToOnChainTransfer fees;
          gas = gasPerOnChainTransfer * Fin (of_nat (length m));
          ts = map snd m
      in (foldl (\<lambda>total t. total + transferAmount t) 0 ts, ts, gas))"

definition calculateIntegratorFee ::
  "VolumeBasedFeeConfig option \<Rightarrow> string \<Rightarrow> BigNumber \<Rightarrow> VolumeBasedFee option" where
  "calculateIntegratorFee cfg sellToken sellTokenAmount =
     (case cfg of
        None \<Rightarrow> None
      | Some c \<Rightarrow> Some \<lparr>feeToken = sellToken,
           feeAmount = integerValue ROUND_FLOOR (sellTokenAmount * cfg_volumePercentage c),
           feeRecipient = cfg_feeRecipient c, billingType = cfg_billingType c,
           volumePercentage = cfg_volumePercentage c\<rparr>)"

definition calculateZeroExFee ::
  "ZeroExFeeConfig option \<Rightarrow> string \<Rightarrow> BigNumber \<Rightarrow> VolumeBasedFee option
     \<Rightarrow> fee_error + ZeroExFee option" where
  "calculateZeroExFee cfg sellToken sellTokenAmount integrator =
     (case cfg of
        None \<Rightarrow> Inr None
      | Some (VolumeConfig c) \<Rightarrow> Inr (Some (VolumeFee \<lparr>feeToken = sellToken,
           feeAmount = integerValue ROUND_FLOOR (sellTokenAmount * cfg_volumePercentage c),
           feeRecipient = cfg_feeRecipient c, billingType = cfg_billingType c,
           volumePercentage = cfg_volumePercentage c\<rparr>))
      | Some (IntegratorShareConfig c) \<Rightarrow>
          (case integrator of
             None \<Rightarrow> Inl IntegratorFeeUndefined
           | Some f \<Rightarrow> Inr (Some (ShareFee \<lparr>feeToken = sellToken,
               feeAmount = integerValue ROUND_FLOOR (feeAmount f * cfg_integratorSharePercentage c),
               feeRecipient = cfg_feeRecipient c, billingType = cfg_billingType c,
               integratorSharePercentage = cfg_integratorSharePercentage c\<rparr>)))
      | Some OtherConfig \<Rightarrow> Inr None)"

text \<open>The recipients counted for the gas estimate, a set.\<close>

definition gas_feeRecipients ::
  "GasFeeConfig \<Rightarrow> BigNumber \<Rightarrow> VolumeBasedFee option \<Rightarrow> ZeroExFee option \<Rightarrow> string list" where
  "gas_feeRecipients cfg sellTokenAmountPerWei integrator zeroEx =
     uniq ((case integrator of
              Some f \<Rightarrow> if billed_on_chain f then [the (feeRecipient f)] else [] | None \<Rightarrow> [])
       @ (case zeroEx of
              Some z \<Rightarrow> if billed_on_chain (zeroExFee_base z)
                        then [the (feeRecipient (zeroExFee_base z))] else [] | None \<Rightarrow> [])
       @ (if cfg_billingType cfg = on_chain \<and> truthy_string (cfg_feeRecipient cfg)
             \<and> 0 < sellTokenAmountPerWei then [the (cfg_feeRecipient cfg)] else []))"

definition calculateGasFee ::
  "GasFeeConfig option \<Rightarrow> string \<Rightarrow> BigNumber option \<Rightarrow> BigNumber \<Rightarrow> BigNumber \<Rightarrow> BigNumber
     \<Rightarrow> VolumeBasedFee option \<Rightarrow> ZeroExFee option \<Rightarrow> fee_error + GasFee option" where
  "calculateGasFee cfg sellToken sellTokenAmountPerWei gasPrice quoteGasEstimate
      gasPerOnChainTransfer integrator zeroEx =
     (case cfg of
        None \<Rightarrow> Inr None
      | Some c \<Rightarrow>
          (case sellTokenAmountPerWei of
             None \<Rightarrow> Inl SellTokenAmountPerWeiUndefined
           | Some perWei \<Rightarrow>
               let n = length (gas_feeRecipients c perWei integrator zeroEx);
                   estimatedGas = quoteGasEstimate + gasPerOnChainTransfer * Fin (of_nat n)
               in Inr (Some \<lparr>feeToken = sellToken,
                    feeAmount = integerValue ROUND_FLOOR (perWei * gasPrice * estimatedGas),
                    feeRecipient = cfg_feeRecipient c, billingType = cfg_billingType c,
                    fee_gasPrice = gasPrice, fee_estimatedGas = estimatedGas,
                    feeTokenAmountPerWei = perWei\<rparr>)))"

record CalculateFeesOpts =
  opt_feeConfigs :: "FeeConfigs option"
  opt_sellToken :: string
  opt_sellTokenAmount :: BigNumber
  opt_sellTokenAmountPerWei :: "BigNumber option"
  opt_gasPrice :: BigNumber
  opt_quoteGasEstimate :: BigNumber
  opt_gasPerOnChainTransfer :: BigNumber

definition calculateFees :: "CalculateFeesOpts \<Rightarrow> fee_error + CalculateFeesResult" where
  "calculateFees opts =
     (case opt_feeConfigs opts of
        None \<Rightarrow> Inr \<lparr>res_fees = None, totalOnChainFeeAmount = 0, onChainTransfers = [],
                     onChainTransfersGas = 0\<rparr>
      | Some cfgs \<Rightarrow>
          let integrator = calculateIntegratorFee (cfg_integratorFee cfgs) (opt_sellToken opts)
                             (opt_sellTokenAmount opts)
          in res_bind (calculateZeroExFee (cfg_zeroExFee cfgs) (opt_sellToken opts)
                         (opt_sellTokenAmount opts) integrator) (\<lambda>zeroEx.
             res_bind (calculateGasFee (cfg_gasFee cfgs) (opt_sellToken opts)
                         (opt_sellTokenAmountPerWei opts) (opt_gasPrice opts)
                         (opt_quoteGasEstimate opts) (opt_gasPerOnChainTransfer opts)
                         integrator zeroEx) (\<lambda>gas.
             let fees = \<lparr>integratorFee = integrator, zeroExFee = zeroEx, gasFee = gas\<rparr>;
                 (total, ts, tgas) = calculateTotalOnChainFees fees (opt_gasPerOnChainTransfer opts)
             in Inr \<lparr>res_fees = Some fees, totalOnChainFeeAmount = total, onChainTransfers = ts,
                     onChainTransfersGas = tgas\<rparr>)))"

section \<open>Transfer tables\<close>

text \<open>The table is keyed by recipient, without duplicates, and holds finite amounts.\<close>

definition transfers_ok :: "transfers \<Rightarrow> bool" where
  "transfers_ok m \<longleftrightarrow>
     distinct (map fst m) \<and>
     (\<forall>(r, t) \<in> set m. transferRecipient t = r \<and> is_fin (transferAmount t))"

definition transfers_total :: "transfers \<Rightarrow> rat" where
  "transfers_total m = sum_list (map (\<lambda>(r, t). xval (transferAmount t)) m)"

lemma transfers_ok_Nil [simp]: "transfers_ok []"
  by (simp add: transfers_ok_def)

lemma current_amount_fin:
  "transfers_ok m \<Longrightarrow> is_fin (current_amount m r)"
  by (auto simp: transfers_ok_def current_amount_def dest: map_of_SomeD split: option.splits)

lemma transfers_ok_set_transfer:
  assumes "transfers_ok m" "is_fin a"
  shows "transfers_ok (set_transfer f a m)"
proof -
  let ?r = "the (feeRecipient f)"
  let ?t = "\<lparr>transferToken = feeToken f, transferAmount = current_amount m ?r + a,
             transferRecipient = ?r\<rparr>"
  have "is_fin (transferAmount ?t)" using current_amount_fin[OF assms(1)] assms(2) by (simp add: is_fin_add)
  moreover have "set (AList.update ?r ?t m) \<subseteq> insert (?r, ?t) (set m)" by (rule set_update_subset)
  moreover have "distinct (map fst (AList.update ?r ?t m))"
    using assms(1) by (intro distinct_keys_update) (simp add: transfers_ok_def)
  ultimately show ?thesis using assms(1)
    unfolding transfers_ok_def set_transfer_def Let_def by auto
qed

lemma transfers_total_set_transfer:
  assumes "transfers_ok m" "is_fin a"
  shows "transfers_total (set_transfer f a m) = transfers_total m + xval a"
proof -
  let ?r = "the (feeRecipient f)"
  have d: "distinct (map fst m)" using assms(1) by (simp add: transfers_ok_def)
  have "xval (current_amount m ?r + a) = xval (current_amount m ?r) + xval a"
    using current_amount_fin[OF assms(1)] assms(2) by (rule xval_add)
  then show ?thesis
    by (auto simp: transfers_total_def set_transfer_def Let_def sum_list_update[OF d] current_amount_def
        split: option.splits)
qed

lemma foldl_transfers:
  assumes "\<forall>t \<in> set ts. is_fin (transferAmount t)"
  shows "foldl (\<lambda>total t. total + transferAmount t) (Fin a) ts =
    Fin (a + sum_list (map (\<lambda>t. xval (transferAmount t)) ts))"
  using assms by (induction ts arbitrary: a) (auto simp: is_fin_iff)

lemma foldl_transfers_total:
  assumes "transfers_ok m"
  shows "foldl (\<lambda>total t. total + transferAmount t) 0 (map snd m) = Fin (transfers_total m)"
proof -
  have f: "\<forall>t \<in> set (map snd m). is_fin (transferAmount t)"
    using assms by (auto simp: transfers_ok_def)
  have "sum_list (map (\<lambda>t. xval (transferAmount t)) (map snd m)) = transfers_total m"
    by (simp add: transfers_total_def case_prod_unfold comp_def)
  then show ?thesis using foldl_transfers[OF f, of 0] by simp
qed

lemma transfer_recipients:
  "transfers_ok m \<Longrightarrow> map transferRecipient (map snd m) = map fst m"
  by (auto simp: transfers_ok_def)

section \<open>What is billed\<close>

definition fees_finite :: "Fees \<Rightarrow> bool" where
  "fees_finite fees \<longleftrightarrow>
     (\<forall>f. integratorFee fees = Some f \<longrightarrow> is_fin (feeAmount f)) \<and>
     (\<forall>z. zeroExFee fees = Some z \<longrightarrow> is_fin (feeAmount (zeroExFee_base z))) \<and>
     (\<forall>g. gasFee fees = Some g \<longrightarrow> is_fin (feeAmount g))"

text \<open>The amount of each fee that is due on-chain.\<close>

definition billed_integrator :: "Fees \<Rightarrow> rat" where
  "billed_integrator fees =
     (case integratorFee fees of
        Some f \<Rightarrow> if billed_on_chain f then xval (feeAmount f) - xval (zeroExFeeAdjustment fees) else 0
      | None \<Rightarrow> 0)"

definition billed_zeroEx :: "Fees \<Rightarrow> rat" where
  "billed_zeroEx fees =
     (case zeroExFee fees of
        Some z \<Rightarrow> if billed_on_chain (zeroExFee_base z) then xval (feeAmount (zeroExFee_base z)) else 0
      | None \<Rightarrow> 0)"

definition billed_gas :: "Fees \<Rightarrow> rat" where
  "billed_gas fees =
     (case gasFee fees of Some g \<Rightarrow> if billed_on_chain g then xval (feeAmount g) else 0 | None \<Rightarrow> 0)"

lemma adjustment_fin: "fees_finite fees \<Longrightarrow> is_fin (zeroExFeeAdjustment fees)"
  by (auto simp: fees_finite_def zeroExFeeAdjustment_def split: option.splits)

lemma add_integrator_ok:
  assumes "fees_finite fees" "transfers_ok m"
  shows "transfers_ok (add_integrator fees m) \<and>
    transfers_total (add_integrator fees m) = transfers_total m + billed_integrator fees"
proof (cases "integratorFee fees")
  case (Some f)
  have f: "is_fin (feeAmount f)" using assms(1) Some by (simp add: fees_finite_def)
  note a = adjustment_fin[OF assms(1)]
  show ?thesis using Some assms(2) f a
    by (simp add: add_integrator_def billed_integrator_def transfers_ok_set_transfer
        transfers_total_set_transfer is_fin_diff xval_diff)
qed (simp add: add_integrator_def billed_integrator_def assms)

lemma add_zeroEx_ok:
  assumes "fees_finite fees" "transfers_ok m"
  shows "transfers_ok (add_zeroEx fees m) \<and>
    transfers_total (add_zeroEx fees m) = transfers_total m + billed_zeroEx fees"
  using assms by (auto simp: add_zeroEx_def billed_zeroEx_def fees_finite_def
      transfers_ok_set_transfer transfers_total_set_transfer split: option.splits)

lemma add_gas_ok:
  assumes "fees_finite fees" "transfers_ok m"
  shows "transfers_ok (add_gas fees m) \<and>
    transfers_total (add_gas fees m) = transfers_total m + billed_gas fees"
  using assms by (auto simp: add_gas_def billed_gas_def fees_finite_def
      transfers_ok_set_transfer transfers_total_set_transfer split: option.splits)

lemma transfer_table_ok:
  assumes "fees_finite fees"
  shows "transfers_ok (feeRecipientToOnChainTransfer fees)"
    and "transfers_total (feeRecipientToOnChainTransfer fees) =
           billed_integrator fees + billed_zeroEx fees + billed_gas fees"
  using add_integrator_ok[OF assms transfers_ok_Nil] add_zeroEx_ok[OF assms] add_gas_ok[OF assms]
  by (auto simp: feeRecipientToOnChainTransfer_def transfers_total_def)

lemma fst_set_transfer:
  "set (map fst (set_transfer f a m)) = insert (the (feeRecipient f)) (set (map fst m))"
  unfolding set_transfer_def Let_def by (rule set_keys_update)

section \<open>The whole calculation\<close>

text \<open>The numeric inputs of a request are finite.\<close>

definition cfgs_finite :: "FeeConfigs \<Rightarrow> bool" where
  "cfgs_finite c \<longleftrightarrow>
     (\<forall>v. cfg_integratorFee c = Some v \<longrightarrow> is_fin (cfg_volumePercentage v)) \<and>
     (\<forall>v. cfg_zeroExFee c = Some (VolumeConfig v) \<longrightarrow> is_fin (cfg_volumePercentage v)) \<and>
     (\<forall>v. cfg_zeroExFee c = Some (IntegratorShareConfig v) \<longrightarrow>
        is_fin (cfg_integratorSharePercentage v))"

definition opts_finite :: "CalculateFeesOpts \<Rightarrow> bool" where
  "opts_finite opts \<longleftrightarrow>
     (\<forall>c. opt_feeConfigs opts = Some c \<longrightarrow> cfgs_finite c) \<and>
     is_fin (opt_sellTokenAmount opts) \<and>
     (\<forall>p. opt_sellTokenAmountPerWei opts = Some p \<longrightarrow> is_fin p) \<and>
     is_fin (opt_gasPrice opts) \<and> is_fin (opt_quoteGasEstimate opts) \<and>
     is_fin (opt_gasPerOnChainTransfer opts)"

lemma integratorFee_fin:
  assumes "is_fin s" "\<forall>v. cfg = Some v \<longrightarrow> is_fin (cfg_volumePercentage v)"
    and "calculateIntegratorFee cfg tok s = Some f"
  shows "is_fin (feeAmount f)"
  using assms by (auto simp: calculateIntegratorFee_def is_fin_arith split: option.splits)

lemma calculateFees_eq_Inr:
  assumes "calculateFees opts = Inr r" "res_fees r = Some fees"
  obtains cfgs where "opt_feeConfigs opts = Some cfgs"
    "integratorFee fees = calculateIntegratorFee (cfg_integratorFee cfgs) (opt_sellToken opts)
       (opt_sellTokenAmount opts)"
    "calculateZeroExFee (cfg_zeroExFee cfgs) (opt_sellToken opts) (opt_sellTokenAmount opts)
       (integratorFee fees) = Inr (zeroExFee fees)"
    "calculateGasFee (cfg_gasFee cfgs) (opt_sellToken opts) (opt_sellTokenAmountPerWei opts)
       (opt_gasPrice opts) (opt_quoteGasEstimate opts) (opt_gasPerOnChainTransfer opts)
       (integratorFee fees) (zeroExFee fees) = Inr (gasFee fees)"
    "(totalOnChainFeeAmount r, onChainTransfers r, onChainTransfersGas r) =
       calculateTotalOnChainFees fees (opt_gasPerOnChainTransfer opts)"
  using assms
  by (auto simp: calculateFees_def Let_def res_bind_eq_Inr case_prod_unfold split: option.splits)

lemma calculateFees_finite:
  assumes "opts_finite opts" "calculateFees opts = Inr r" "res_fees r = Some fees"
  shows "fees_finite fees"
proof -
  obtain cfgs where c: "opt_feeConfigs opts = Some cfgs"
    and i: "integratorFee fees = calculateIntegratorFee (cfg_integratorFee cfgs) (opt_sellToken opts)
       (opt_sellTokenAmount opts)"
    and z: "calculateZeroExFee (cfg_zeroExFee cfgs) (opt_sellToken opts) (opt_sellTokenAmount opts)
       (integratorFee fees) = Inr (zeroExFee fees)"
    and g: "calculateGasFee (cfg_gasFee cfgs) (opt_sellToken opts) (opt_sellTokenAmountPerWei opts)
       (opt_gasPrice opts) (opt_quoteGasEstimate opts) (opt_gasPerOnChainTransfer opts)
       (integratorFee fees) (zeroExFee fees) = Inr (gasFee fees)"
    using calculateFees_eq_Inr[OF assms(2,3)] by metis
  have o: "cfgs_finite cfgs" "is_fin (opt_sellTokenAmount opts)"
    using assms(1) c by (auto simp: opts_finite_def)
  have fi: "is_fin (feeAmount f)" if "integratorFee fees = Some f" for f
    using integratorFee_fin[of "opt_sellTokenAmount opts" "cfg_integratorFee cfgs"] o i that
    by (auto simp: cfgs_finite_def)
  have "is_fin (feeAmount (zeroExFee_base z'))" if "zeroExFee fees = Some z'" for z'
    using z that o fi
    by (auto simp: calculateZeroExFee_def cfgs_finite_def is_fin_arith FeeBase.defs
        split: option.splits ZeroExFeeConfig.splits)
  moreover have "is_fin (feeAmount g')" if "gasFee fees = Some g'" for g'
    using g that assms(1)
    by (auto simp: calculateGasFee_def opts_finite_def Let_def is_fin_arith split: option.splits)
  ultimately show ?thesis using fi by (auto simp: fees_finite_def)
qed

lemma totals_of_result:
  assumes "calculateFees opts = Inr r" "res_fees r = Some fees" "fees_finite fees"
  shows "totalOnChainFeeAmount r = Fin (transfers_total (feeRecipientToOnChainTransfer fees))"
    and "onChainTransfers r = map snd (feeRecipientToOnChainTransfer fees)"
    and "onChainTransfersGas r = opt_gasPerOnChainTransfer opts
           * Fin (of_nat (length (feeRecipientToOnChainTransfer fees)))"
proof -
  have e: "(totalOnChainFeeAmount r, onChainTransfers r, onChainTransfersGas r) =
      calculateTotalOnChainFees fees (opt_gasPerOnChainTransfer opts)"
    using assms(1,2) by (rule calculateFees_eq_Inr)
  note t = foldl_transfers_total[OF transfer_table_ok(1)[OF assms(3)]]
  show "totalOnChainFeeAmount r = Fin (transfers_total (feeRecipientToOnChainTransfer fees))"
    using e t by (simp add: calculateTotalOnChainFees_def Let_def)
  show "onChainTransfers r = map snd (feeRecipientToOnChainTransfer fees)"
    using e by (simp add: calculateTotalOnChainFees_def Let_def)
  show "onChainTransfersGas r = opt_gasPerOnChainTransfer opts
           * Fin (of_nat (length (feeRecipientToOnChainTransfer fees)))"
    using e by (simp add: calculateTotalOnChainFees_def Let_def)
qed

text \<open>A share fee is computed from the integrator fee.\<close>

lemma share_fee_amount:
  assumes "calculateFees opts = Inr r" "res_fees r = Some fees"
    and "integratorFee fees = Some f" "zeroExFee fees = Some (ShareFee z)"
  shows "feeAmount z = integerValue ROUND_FLOOR (feeAmount f * integratorSharePercentage z)"
proof -
  obtain cfgs :: FeeConfigs where "calculateZeroExFee (cfg_zeroExFee cfgs) (opt_sellToken opts)
      (opt_sellTokenAmount opts) (integratorFee fees) = Inr (zeroExFee fees)"
    using assms(1,2) by (rule calculateFees_eq_Inr)
  then show ?thesis using assms(3,4)
    by (auto simp: calculateZeroExFee_def split: option.splits ZeroExFeeConfig.splits)
qed

text \<open>No recipient is owed a negative amount as long as no addition to the table is negative.\<close>

definition transfers_nonneg :: "transfers \<Rightarrow> bool" where
  "transfers_nonneg m \<longleftrightarrow> (\<forall>(r, t) \<in> set m. 0 \<le> transferAmount t)"

lemma transfers_nonneg_Nil: "transfers_nonneg []"
  by (simp add: transfers_nonneg_def)

lemma transfers_nonneg_set_transfer:
  assumes "transfers_nonneg m" "0 \<le> a"
  shows "transfers_nonneg (set_transfer f a m)"
proof -
  have c: "0 \<le> current_amount m r" for r
    using assms(1) by (auto simp: transfers_nonneg_def current_amount_def dest: map_of_SomeD split: option.splits)
  have "0 \<le> x \<Longrightarrow> 0 \<le> y \<Longrightarrow> 0 \<le> x + y" for x y :: xnum
    by (cases x; cases y) (auto simp: less_eq_xnum_def)
  with c assms(2) have "0 \<le> current_amount m (the (feeRecipient f)) + a" by blast
  then show ?thesis
    using assms(1) set_update_subset[of "the (feeRecipient f)" _ m]
    unfolding transfers_nonneg_def set_transfer_def Let_def by fastforce
qed

lemma billed_pos: "billed_on_chain f \<Longrightarrow> 0 \<le> feeAmount f"
  by (cases "feeAmount f") (auto simp: billed_on_chain_def less_eq_xnum_def)

lemma table_nonneg:
  assumes "\<And>f. integratorFee fees = Some f \<Longrightarrow> billed_on_chain f \<Longrightarrow>
             0 \<le> feeAmount f - zeroExFeeAdjustment fees"
  shows "transfers_nonneg (feeRecipientToOnChainTransfer fees)"
proof -
  have 1: "transfers_nonneg (add_integrator fees [])"
    using assms by (auto simp: add_integrator_def intro!: transfers_nonneg_set_transfer
        transfers_nonneg_Nil split: option.splits)
  then have "transfers_nonneg (add_zeroEx fees (add_integrator fees []))"
    by (auto simp: add_zeroEx_def intro!: transfers_nonneg_set_transfer billed_pos split: option.splits)
  then show ?thesis
    by (auto simp: feeRecipientToOnChainTransfer_def add_gas_def
        intro!: transfers_nonneg_set_transfer billed_pos split: option.splits)
qed

section \<open>Properties\<close>

text \<open>A worked request: a 1\% integrator fee of which 0x takes half, both on-chain, and a gas fee.\<close>

definition sample_opts :: CalculateFeesOpts where
  "sample_opts =
     \<lparr>opt_feeConfigs = Some \<lparr>
        cfg_integratorFee = Some \<lparr>cfg_feeRecipient = Some ''0xa'', cfg_billingType = on_chain,
          cfg_volumePercentage = Fin (1 / 100)\<rparr>,
        cfg_zeroExFee = Some (IntegratorShareConfig \<lparr>cfg_feeRecipient = Some ''0xb'',
          cfg_billingType = on_chain, cfg_integratorSharePercentage = Fin (1 / 2)\<rparr>),
        cfg_gasFee = Some \<lparr>cfg_feeRecipient = Some ''0xb'', cfg_billingType = on_chain\<rparr>\<rparr>,
      opt_sellToken = ''0xt'', opt_sellTokenAmount = Fin 1000,
      opt_sellTokenAmountPerWei = Some (Fin 1), opt_gasPrice = Fin 2,
      opt_quoteGasEstimate = Fin 30, opt_gasPerOnChainTransfer = Fin 5\<rparr>"

definition sample_fees :: Fees where
  "sample_fees =
     \<lparr>integratorFee = Some \<lparr>feeToken = ''0xt'', feeAmount = Fin 10, feeRecipient = Some ''0xa'',
        billingType = on_chain, volumePercentage = Fin (1 / 100)\<rparr>,
      zeroExFee = Some (ShareFee \<lparr>feeToken = ''0xt'', feeAmount = Fin 5, feeRecipient = Some ''0xb'',
        billingType = on_chain, integratorSharePercentage = Fin (1 / 2)\<rparr>),
      gasFee = Some \<lparr>feeToken = ''0xt'', feeAmount = Fin 80, feeRecipient = Some ''0xb'',
        billingType = on_chain, fee_gasPrice = Fin 2, fee_estimatedGas = Fin 40,
        feeTokenAmountPerWei = Fin 1\<rparr>\<rparr>"

definition sample_result :: CalculateFeesResult where
  "sample_result =
     \<lparr>res_fees = Some sample_fees, totalOnChainFeeAmount = Fin 90,
      onChainTransfers =
        [\<lparr>transferToken = ''0xt'', transferAmount = Fin 5, transferRecipient = ''0xa''\<rparr>,
         \<lparr>transferToken = ''0xt'', transferAmount = Fin 85, transferRecipient = ''0xb''\<rparr>],
      onChainTransfersGas = Fin 10\<rparr>"

lemma sample_runs: "calculateFees sample_opts = Inr sample_result"
  by (simp add: sample_opts_def sample_result_def sample_fees_def calculateFees_def
      calculateIntegratorFee_def calculateZeroExFee_def calculateGasFee_def gas_feeRecipients_def
      calculateTotalOnChainFees_def feeRecipientToOnChainTransfer_def add_gas_def add_zeroEx_def
      add_integrator_def set_transfer_def current_amount_def zeroExFeeAdjustment_def
      billed_on_chain_def uniq_def FeeBase.defs Let_def)

lemma sample_finite: "opts_finite sample_opts"
  by (simp add: sample_opts_def opts_finite_def cfgs_finite_def)

text \<open>C5: The amount transferred on-chain is the sum of what the integrator, 0x and gas fees bill
  on-chain (the integrator's part net of an on-chain 0x share), every transfer goes to a different
  recipient, and the gas charged for transfers is the per-transfer gas times their number.\<close>

theorem fees_on_chain_total:
  assumes "opts_finite opts" "calculateFees opts = Inr r" "res_fees r = Some fees"
  shows "totalOnChainFeeAmount r =
           Fin (billed_integrator fees + billed_zeroEx fees + billed_gas fees) \<and>
         distinct (map transferRecipient (onChainTransfers r)) \<and>
         onChainTransfersGas r =
           opt_gasPerOnChainTransfer opts * Fin (of_nat (length (onChainTransfers r)))"
proof -
  note f = calculateFees_finite[OF assms]
  note t = totals_of_result[OF assms(2,3) f] and ok = transfer_table_ok[OF f]
  have e: "map transferRecipient (onChainTransfers r) = map fst (feeRecipientToOnChainTransfer fees)"
    unfolding t(2) by (rule transfer_recipients[OF ok(1)])
  have "distinct (map transferRecipient (onChainTransfers r))"
    unfolding e using ok(1) by (simp add: transfers_ok_def)
  then show ?thesis using t ok(2) by simp
qed

theorem fees_on_chain_total_witness:
  "totalOnChainFeeAmount sample_result =
     Fin (billed_integrator sample_fees + billed_zeroEx sample_fees + billed_gas sample_fees)"
  using fees_on_chain_total[OF sample_finite sample_runs, of sample_fees]
  by (simp add: sample_result_def)

text \<open>C6: An on-chain 0x fee that is a share of the integrator fee is carved out of that fee: the trade
  pays the integrator fee and the gas fee on-chain and no more, and no transfer is negative.\<close>

theorem integrator_share_carved_out:
  assumes "opts_finite opts" "calculateFees opts = Inr r" "res_fees r = Some fees"
    and "integratorFee fees = Some f" "billed_on_chain f"
    and "zeroExFee fees = Some (ShareFee z)" "billingType z = on_chain"
    and "truthy_string (feeRecipient z)"
    and "integratorSharePercentage z = Fin p" "0 \<le> p" "p \<le> 1"
  shows "totalOnChainFeeAmount r = Fin (xval (feeAmount f) + billed_gas fees) \<and>
         (\<forall>t \<in> set (onChainTransfers r). 0 \<le> transferAmount t)"
proof -
  note fin = calculateFees_finite[OF assms(1-3)]
  obtain a where a: "feeAmount f = Fin a" "0 < a"
    using fin assms(4,5) by (auto simp: fees_finite_def billed_on_chain_def is_fin_iff)
  define k where "k = \<lfloor>a * p\<rfloor>"
  have z: "feeAmount z = Fin (of_int k)"
    using share_fee_amount[OF assms(2,3,4,6)] a assms(9) by (simp add: k_def)
  have "a * p \<le> a" using a assms(11) by (simp add: mult_left_le)
  then have le: "of_int k \<le> a" unfolding k_def by linarith
  have nn: "0 \<le> k" using a assms(10) by (simp add: k_def)
  have adj: "zeroExFeeAdjustment fees = Fin (of_int k)"
    using assms(6-8) z by (simp add: zeroExFeeAdjustment_def FeeBase.defs)
  have "billed_integrator fees + billed_zeroEx fees = a"
    using assms(4-8) a z adj nn
    by (auto simp: billed_integrator_def billed_zeroEx_def billed_on_chain_def FeeBase.defs)
  moreover have "transfers_nonneg (feeRecipientToOnChainTransfer fees)"
    using table_nonneg[of fees] assms(4) a adj le by simp
  ultimately show ?thesis
    using totals_of_result[OF assms(2,3) fin] transfer_table_ok(2)[OF fin] a
    by (auto simp: transfers_nonneg_def)
qed

theorem integrator_share_carved_out_witness:
  "totalOnChainFeeAmount sample_result = Fin (10 + billed_gas sample_fees)"
proof -
  let ?f = "the (integratorFee sample_fees)"
  let ?z = "\<lparr>feeToken = ''0xt'', feeAmount = Fin 5, feeRecipient = Some ''0xb'',
        billingType = on_chain, integratorSharePercentage = Fin (1 / 2)\<rparr>"
  have "res_fees sample_result = Some sample_fees" by (simp add: sample_result_def)
  moreover have "integratorFee sample_fees = Some ?f" "billed_on_chain ?f"
    "zeroExFee sample_fees = Some (ShareFee ?z)"
    by (simp_all add: sample_fees_def billed_on_chain_def)
  ultimately have "totalOnChainFeeAmount sample_result =
      Fin (xval (feeAmount ?f) + billed_gas sample_fees)"
    using integrator_share_carved_out[OF sample_finite sample_runs, of sample_fees ?f ?z "1 / 2"]
    by simp
  then show ?thesis by (simp add: sample_fees_def)
qed

text \<open>C7: The calculation throws exactly when the configuration asks for a share of an integrator fee
  that is not configured, or, otherwise, for a gas fee without a native token rate.\<close>

theorem calculateFees_error_iff:
  "(calculateFees opts = Inl IntegratorFeeUndefined \<longleftrightarrow>
      (\<exists>c s. opt_feeConfigs opts = Some c \<and> cfg_zeroExFee c = Some (IntegratorShareConfig s) \<and>
             cfg_integratorFee c = None)) \<and>
   (calculateFees opts = Inl SellTokenAmountPerWeiUndefined \<longleftrightarrow>
      (\<exists>c g. opt_feeConfigs opts = Some c \<and> cfg_gasFee c = Some g \<and>
             opt_sellTokenAmountPerWei opts = None \<and>
             \<not> (cfg_integratorFee c = None \<and> (\<exists>s. cfg_zeroExFee c = Some (IntegratorShareConfig s)))))"
proof (cases "opt_feeConfigs opts")
  case None
  then show ?thesis by (simp add: calculateFees_def)
next
  case (Some c)
  have zero: "calculateZeroExFee (cfg_zeroExFee c) t a i \<in>
      (if i = None \<and> (\<exists>s. cfg_zeroExFee c = Some (IntegratorShareConfig s))
       then {Inl IntegratorFeeUndefined} else range Inr)" for t a i
    by (auto simp: calculateZeroExFee_def split: option.splits ZeroExFeeConfig.splits)
  have gas: "calculateGasFee (cfg_gasFee c) t w p q n i z \<in>
      (if cfg_gasFee c \<noteq> None \<and> w = None then {Inl SellTokenAmountPerWeiUndefined} else range Inr)"
    for t w p q n i z
    by (auto simp: calculateGasFee_def Let_def split: option.splits)
  have int: "calculateIntegratorFee (cfg_integratorFee c) t a = None \<longleftrightarrow> cfg_integratorFee c = None" for t a
    by (auto simp: calculateIntegratorFee_def split: option.splits)
  let ?i = "calculateIntegratorFee (cfg_integratorFee c) (opt_sellToken opts) (opt_sellTokenAmount opts)"
  let ?z = "calculateZeroExFee (cfg_zeroExFee c) (opt_sellToken opts) (opt_sellTokenAmount opts) ?i"
  show ?thesis
  proof (cases ?z)
    case (Inl e)
    then show ?thesis using Some zero[of "opt_sellToken opts" "opt_sellTokenAmount opts" ?i] int
      by (auto simp: calculateFees_def Let_def split: if_splits)
  next
    case (Inr z)
    let ?g = "calculateGasFee (cfg_gasFee c) (opt_sellToken opts) (opt_sellTokenAmountPerWei opts)
       (opt_gasPrice opts) (opt_quoteGasEstimate opts) (opt_gasPerOnChainTransfer opts) ?i z"
    have "\<not> (cfg_integratorFee c = None \<and> (\<exists>s. cfg_zeroExFee c = Some (IntegratorShareConfig s)))"
      using zero[of "opt_sellToken opts" "opt_sellTokenAmount opts" ?i] Inr int by (auto split: if_splits)
    then show ?thesis using Some Inr
        gas[of "opt_sellToken opts" "opt_sellTokenAmountPerWei opts" "opt_gasPrice opts"
          "opt_quoteGasEstimate opts" "opt_gasPerOnChainTransfer opts" ?i z]
      by (auto simp: calculateFees_def Let_def case_prod_unfold split: if_splits)
  qed
qed

end
