(* ===== verification/Swap_Service.thy ===== *)
theory Swap_Service
  imports Service_Utils Fee_Calculator
begin

text \<open>
  The swap service (\<open>services/swap_service.ts\<close>): from the parameters of a request to the response of the
  \<open>/swap\<close> and \<open>/meta_transaction\<close> endpoints, with the errors of \<open>errors.ts\<close>. The swap quoter the service
  holds is a record of its three operations, built from the quoter of \<open>Swap_Quoter\<close> by \<open>swapQuoter_ops\<close>. The
  node (gas estimates and simulated calls), the decoding of revert data, the ABI encoders, the conversion to
  unit amounts of \<open>@0x/web3-wrapper\<close>, token metadata and the configuration are fields of \<open>SwapService\<close>.
  Logging and metrics are left out.
\<close>

section \<open>Errors\<close>

datatype ValidationErrorCodes = RequiredField | IncorrectFormat | ValueOutOfRange | UnsupportedOption | FieldInvalid

text \<open>The optional description of an item is left out.\<close>

record ValidationErrorItem =
  ve_field :: string
  ve_code :: ValidationErrorCodes
  ve_reason :: string

datatype service_error =
    Thrown js_error
  | InsufficientFundsError "string option"
  | GasEstimationError
  | ServiceDisabledError string
  | ValidationError "ValidationErrorItem list"
  | RevertError string
  | InternalServerError string
  | NotFoundError
  | InvalidAPIKeyError
  | EthSellNotSupportedError
  | RevertAPIError string

definition thrown :: "js_error + 'a \<Rightarrow> service_error + 'a" where
  "thrown r = (case r of Inl e \<Rightarrow> Inl (Thrown e) | Inr x \<Rightarrow> Inr x)"

fun fee_error_message :: "fee_error \<Rightarrow> string" where
  "fee_error_message IntegratorFeeUndefined = ''Integrator fee is undefined''"
| "fee_error_message SellTokenAmountPerWeiUndefined = ''Undefined sellTokenAmountPerWei when gas fee config is not undefined''"

section \<open>Numbers\<close>

text \<open>\<open>x.decimalPlaces(dp, mode)\<close> throws for a number of places that is not an integer in range.\<close>

definition decimalPlaces :: "js_number \<Rightarrow> RoundingMode \<Rightarrow> BigNumber \<Rightarrow> js_error + BigNumber" where
  "decimalPlaces dp mode x =
     (case dp of
        Fin d \<Rightarrow> if 0 \<le> d \<and> d \<le> 10 ^ 9 \<and> d = of_int \<lfloor>d\<rfloor>
                 then Inr (xmap (\<lambda>a. of_int (round_mode mode (a * 10 ^ nat \<lfloor>d\<rfloor>)) / 10 ^ nat \<lfloor>d\<rfloor>) x)
                 else Inl (Error ''[BigNumber Error] Argument out of range'')
      | _ \<Rightarrow> Inl (Error ''[BigNumber Error] Argument not an integer''))"

text \<open>\<open>new BigNumber(10).pow(n)\<close>; a negative power is a quotient.\<close>

definition bn_pow10 :: "(rat \<Rightarrow> rat) \<Rightarrow> js_number \<Rightarrow> js_error + BigNumber" where
  "bn_pow10 rnd n =
     (case n of
        Fin k \<Rightarrow> if k \<noteq> of_int \<lfloor>k\<rfloor> then Inl (Error ''[BigNumber Error] Exponent not an integer'')
                 else if 0 \<le> k then Inr (Fin (10 ^ nat \<lfloor>k\<rfloor>))
                 else Inr (bn_div rnd (Fin 1) (Fin (10 ^ nat (- \<lfloor>k\<rfloor>))))
      | PosInf \<Rightarrow> Inr PosInf | NegInf \<Rightarrow> Inr (Fin 0) | NaN \<Rightarrow> Inr NaN)"

section \<open>Requests and responses\<close>

datatype Endpoint = price_endpoint | quote_endpoint

record Integrator =
  integratorId :: string
  slippageModel :: "bool option"
  positiveSlippagePercent :: "js_number option"
  integrator_feeRecipient :: "string option"

text \<open>\<open>isIndicative\<close> and \<open>nativeExclusivelyRFQ\<close> may be absent, which is false.\<close>

record RfqtParams =
  rp_intentOnFilling :: bool
  rp_isIndicative :: bool
  rp_nativeExclusivelyRFQ :: bool

record GetSwapQuoteParams =
  p_endpoint :: Endpoint
  p_sellToken :: string
  p_buyToken :: string
  p_takerAddress :: "string option"
  p_gasPrice :: "BigNumber option"
  p_rfqt :: "RfqtParams option"
  p_skipValidation :: bool
  p_shouldSellEntireBalance :: bool
  p_isETHSell :: bool
  p_isETHBuy :: bool
  p_metaTransactionVersion :: "MetaTransactionVersion option"
  p_integrator :: "Integrator option"
  p_enableSlippageProtection :: bool
  p_feeConfigs :: "FeeConfigs option"
  p_isDebugEnabled :: bool
  p_sellAmount :: "BigNumber option"
  p_buyAmount :: "BigNumber option"
  p_slippagePercentage :: "js_number option"
  p_excludedSources :: "ERC20BridgeSource list"
  p_includedSources :: "ERC20BridgeSource list option"
  p_affiliateAddress :: "string option"
  p_affiliateFee :: AffiliateFee
  p_priceImpactProtectionPercentage :: js_number

text \<open>An \<open>expectedSlippage\<close> that is absent is \<open>None\<close>, and one that is null \<open>Some None\<close>.\<close>

record GetSwapQuoteResponse =
  r_chainId :: ChainId
  r_price :: BigNumber
  r_guaranteedPrice :: BigNumber
  r_estimatedPriceImpact :: "BigNumber option"
  r_to :: string
  r_data :: string
  r_decodedUniqueId :: string
  r_value :: BigNumber
  r_gas :: BigNumber
  r_estimatedGas :: BigNumber
  r_from :: "string option"
  r_gasPrice :: BigNumber
  r_protocolFee :: BigNumber
  r_minimumProtocolFee :: BigNumber
  r_buyTokenAddress :: string
  r_sellTokenAddress :: string
  r_buyAmount :: BigNumber
  r_sellAmount :: BigNumber
  r_sources :: "GetSwapQuoteResponseLiquiditySource list"
  r_orders :: "OptimizedOrder list"
  r_allowanceTarget :: string
  r_extendedQuoteReportSources :: "ExtendedQuoteReportSources option"
  r_sellTokenToEthRate :: BigNumber
  r_buyTokenToEthRate :: BigNumber
  r_quoteReport :: "QuoteReport option"
  r_blockNumber :: "js_number option"
  r_debugData :: "(js_number \<times> js_number) option"
  r_expectedSlippage :: "BigNumber option option"
  r_fees :: "Fees option"

section \<open>State of the service\<close>

record SwapQuoterOps =
  getGasPriceEstimationOrThrowAsync :: "js_error + BigNumber"
  op_getTokenAmountPerWei :: "Address \<Rightarrow> js_error + BigNumber"
  op_getSwapQuoteAsync :: "Address \<Rightarrow> Address \<Rightarrow> BigNumber \<Rightarrow> MarketOperation \<Rightarrow>
     (SwapQuoteRequestOpts \<Rightarrow> SwapQuoteRequestOpts) \<Rightarrow> RfqClient option \<Rightarrow> js_error + SwapQuote"

definition no_fee_schedule :: "GasSchedule \<Rightarrow> FeeSchedule" where
  "no_fee_schedule gasSchedule source fillData = \<lparr>fe_gas = gasSchedule source fillData, fe_fee = ZERO_AMOUNT\<rparr>"

definition swapQuoter_ops :: "QuoterEnv \<Rightarrow> SwapQuoter \<Rightarrow> SwapQuoterOps" where
  "swapQuoter_ops env quoter =
     \<lparr>getGasPriceEstimationOrThrowAsync = qe_gasPriceEstimate env,
      op_getTokenAmountPerWei = (\<lambda>token. quoter_getTokenAmountPerWei env token
        ((market_opts env DEFAULT_GET_MARKET_ORDERS_OPTS 0 None None)
           \<lparr>mo_feeSchedule := no_fee_schedule (qe_gasSchedule env)\<rparr>)),
      op_getSwapQuoteAsync = getSwapQuoteAsync env quoter\<rparr>"

record TxData =
  tx_to :: string
  tx_data :: string
  tx_from :: string
  tx_value :: BigNumber
  tx_gasPrice :: BigNumber

record rpc_error =
  rpc_message :: string
  rpc_data :: "string option"

record CallResult =
  call_success :: bool
  call_resultData :: string
  call_gasUsed :: BigNumber

text \<open>The node and the revert decoder.\<close>

record Node =
  estimateGasAsync :: "TxData \<Rightarrow> rpc_error + js_number"
  callAsync :: "TxData \<Rightarrow> js_number \<Rightarrow> rpc_error + string"
  fakeTaker_execute :: "TxData \<Rightarrow> rpc_error + CallResult"
  RevertError_decode :: "string \<Rightarrow> js_error + string"
  decodeThrownErrorAsRevertError :: "rpc_error \<Rightarrow> js_error + string"

record SwapService =
  sv_CHAIN_ID :: ChainId
  sv_swapQuoter :: SwapQuoterOps
  sv_rnd :: "rat \<Rightarrow> rat"
  sv_lib :: ProtocolLib
  sv_consumer :: ExchangeProxySwapQuoteConsumer
  sv_encodeCall :: "ExchangeProxyCall \<Rightarrow> string"
  sv_withdraw :: "BigNumber \<Rightarrow> string"
  sv_deposit :: string
  sv_attribution :: AttributionEnv
  sv_node :: Node
  sv_rfqClient :: RfqClient
  sv_isRfqtEnabled :: bool
  sv_firmQuoteValidator :: "(OrderFields list \<Rightarrow> js_error + BigNumber list) option"
  sv_altRfqAssetOfferings :: AltRfqMakerAssetOfferings
  sv_slippageModelManager :: "(SlippageEnv \<times> SlippageModelManager) option"
  sv_toUnitAmount :: "BigNumber \<Rightarrow> js_number \<Rightarrow> js_error + BigNumber"
  sv_wethDecimals :: "js_number option"
  sv_exchangeProxy :: string
  sv_SAMPLE_DISTRIBUTION_BASE :: js_number
  sv_GASLESS_SWAP_FEE_ENABLED :: bool
  sv_ZERO_EX_FEE_TOKENS :: "string list"
  sv_ZERO_EX_FEE_RECIPIENT_ADDRESS :: string

section \<open>Constants\<close>

definition AVG_MULTIPLEX_TRANFORM_ERC_20_GAS :: BigNumber where
  "AVG_MULTIPLEX_TRANFORM_ERC_20_GAS = Fin 933000"

definition TRANSFER_GAS :: BigNumber where
  "TRANSFER_GAS = Fin 27000"

definition TRANSFER_FROM_GAS :: BigNumber where
  "TRANSFER_FROM_GAS = Fin 32000"

definition GAS_LIMIT_BUFFER_MULTIPLIER :: js_number where
  "GAS_LIMIT_BUFFER_MULTIPLIER = js_add (Fin (rnd64 (1 / 10))) 1"

definition DEFAULT_VALIDATION_GAS_LIMIT :: js_number where
  "DEFAULT_VALIDATION_GAS_LIMIT = Fin 10000000"

definition CHAIN_HAS_VIPS :: "ChainId \<Rightarrow> bool" where
  "CHAIN_HAS_VIPS chainId \<longleftrightarrow> chainId \<in> set [Mainnet, BSC]"

definition UNWRAP_QUOTE_GAS :: "ChainId \<Rightarrow> BigNumber" where
  "UNWRAP_QUOTE_GAS chainId = TX_BASE_GAS + (if chainId = Fantom then Fin 37000 else Fin 25000)"

definition WRAP_QUOTE_GAS :: "ChainId \<Rightarrow> BigNumber" where
  "WRAP_QUOTE_GAS chainId = UNWRAP_QUOTE_GAS chainId"

section \<open>Prices\<close>

definition calculateEstimatedPriceImpactPercent ::
  "(rat \<Rightarrow> rat) \<Rightarrow> BigNumber \<Rightarrow> BigNumber \<Rightarrow> BigNumber \<Rightarrow> MarketOperation \<Rightarrow> js_error + BigNumber option" where
  "calculateEstimatedPriceImpactPercent rnd price sellTokenToEthRate buyTokenToEthRate marketSide =
     (if bn_eq sellTokenToEthRate 0 \<or> bn_eq buyTokenToEthRate 0 then Inr None
      else let normalizedPrice = (if marketSide = Sell then price else bn_div rnd 1 price);
               actualPriceToEstimatedPriceRatio =
                 bn_div rnd normalizedPrice (bn_div rnd buyTokenToEthRate sellTokenToEthRate)
           in res_bind (decimalPlaces (Fin 4) ROUND_CEIL ((1 - actualPriceToEstimatedPriceRatio) * Fin 100))
             (\<lambda>estimatedPriceImpactPercentage.
                if estimatedPriceImpactPercentage \<le> 0 then Inr (Some ZERO_AMOUNT)
                else Inr (Some estimatedPriceImpactPercentage)))"

text \<open>One price: maker per taker units for a sell, taker per maker units for a buy.\<close>

definition rounded_price ::
  "(rat \<Rightarrow> rat) \<Rightarrow> bool \<Rightarrow> BigNumber \<Rightarrow> BigNumber \<Rightarrow> js_number \<Rightarrow> js_number \<Rightarrow> js_error + BigNumber" where
  "rounded_price rnd isSelling unitMakerAmount unitTakerAmount buyTokenDecimals sellTokenDecimals =
     (if isSelling then decimalPlaces buyTokenDecimals ROUND_FLOOR (bn_div rnd unitMakerAmount unitTakerAmount)
      else decimalPlaces sellTokenDecimals ROUND_CEIL (bn_div rnd unitTakerAmount unitMakerAmount))"

definition getSwapQuotePrice ::
  "SwapService \<Rightarrow> BigNumber option \<Rightarrow> js_number \<Rightarrow> js_number \<Rightarrow> SwapQuote \<Rightarrow> AffiliateFee \<Rightarrow> BigNumber \<Rightarrow>
   js_error + BigNumber \<times> BigNumber" where
  "getSwapQuotePrice sv buyAmount buyTokenDecimals sellTokenDecimals swapQuote affiliateFee sellFeeAmount =
     (let best = swq_bestCaseQuoteInfo swapQuote; worst = swq_worstCaseQuoteInfo swapQuote; unit = sv_toUnitAmount sv
      in res_bind (unit (qi_makerAmount best) buyTokenDecimals)
      (\<lambda>unitMakerAmount. res_bind (unit (qi_totalTakerAmount best + sellFeeAmount) sellTokenDecimals)
      (\<lambda>unitTakerAmount. res_bind (unit (qi_makerAmount worst) buyTokenDecimals)
      (\<lambda>guaranteedUnitMakerAmount. res_bind (unit (qi_totalTakerAmount worst + sellFeeAmount) sellTokenDecimals)
      (\<lambda>guaranteedUnitTakerAmount.
         let affiliateFeeUnitMakerAmount =
               guaranteedUnitMakerAmount * bn_of_number (getBuyTokenPercentageFeeOrZero affiliateFee);
             isSelling = (buyAmount = None)
         in res_bind (rounded_price (sv_rnd sv) isSelling (unitMakerAmount - affiliateFeeUnitMakerAmount)
                        unitTakerAmount buyTokenDecimals sellTokenDecimals)
         (\<lambda>price. res_bind (rounded_price (sv_rnd sv) isSelling
                        (guaranteedUnitMakerAmount - affiliateFeeUnitMakerAmount)
                        guaranteedUnitTakerAmount buyTokenDecimals sellTokenDecimals)
         (\<lambda>guaranteedPrice. Inr (price, guaranteedPrice))))))))"

section \<open>Alternative RFQ markets\<close>

record AltRfqAsset =
  ara_address :: string
  ara_decimals :: js_number

record AltRfqMarket =
  arm_id :: string
  arm_base :: AltRfqAsset
  arm_quote :: AltRfqAsset

definition altMarketResponseToAltOfferings :: "AltRfqMarket list \<Rightarrow> string \<Rightarrow> AltRfqMakerAssetOfferings" where
  "altMarketResponseToAltOfferings items altRfqUrl =
     [(altRfqUrl, map (\<lambda>market.
        \<lparr>alt_id = arm_id market, baseAsset = toLowerCase (ara_address (arm_base market)),
         quoteAsset = toLowerCase (ara_address (arm_quote market)),
         baseAssetDecimals = ara_decimals (arm_base market), quoteAssetDecimals = ara_decimals (arm_quote market)\<rparr>) items)]"

text \<open>What is read through the cache: nothing without an endpoint and a key, or when the request fails.\<close>

definition getAltMarketOfferingsAsync ::
  "string option \<Rightarrow> string option \<Rightarrow> (string \<Rightarrow> js_error + AltRfqMarket list) \<Rightarrow> AltRfqMakerAssetOfferings" where
  "getAltMarketOfferingsAsync endpoint apiKey request =
     (case (endpoint, apiKey) of
        (Some url, Some _) \<Rightarrow>
          (case request (url @ ''/markets'') of
             Inl _ \<Rightarrow> [] | Inr items \<Rightarrow> altMarketResponseToAltOfferings items url)
      | _ \<Rightarrow> [])"

section \<open>Fees\<close>

record SellTokenFees =
  stf_fees :: "Fees option"
  stf_amount :: BigNumber
  stf_transfers :: "AffiliateFeeAmount list"
  stf_gas :: BigNumber

definition no_sell_token_fees :: SellTokenFees where
  "no_sell_token_fees = \<lparr>stf_fees = None, stf_amount = 0, stf_transfers = [], stf_gas = 0\<rparr>"

definition transfer_to_fee :: "OnChainTransfer \<Rightarrow> AffiliateFeeAmount" where
  "transfer_to_fee onChainTransfer =
     \<lparr>feeType = GaslessFee, af_recipient = transferRecipient onChainTransfer, buyTokenFeeAmount = 0,
      sellTokenFeeAmount = transferAmount onChainTransfer\<rparr>"

definition getSellTokenFees ::
  "SwapService \<Rightarrow> MarketOperation \<Rightarrow> FeeConfigs option \<Rightarrow> string \<Rightarrow> BigNumber \<Rightarrow> BigNumber option \<Rightarrow> BigNumber \<Rightarrow>
   BigNumber \<Rightarrow> BigNumber \<Rightarrow> service_error + SellTokenFees" where
  "getSellTokenFees sv marketSide feeConfigs sellToken sellAmount sellTokenAmountPerWei gasPrice quoteGasEstimate
      gasPerOnChainTransfer =
     res_bind (if sellTokenAmountPerWei = None \<and> marketSide = Sell \<and>
                  (case feeConfigs of None \<Rightarrow> False | Some cfgs \<Rightarrow> cfg_gasFee cfgs \<noteq> None)
               then res_bind (thrown (op_getTokenAmountPerWei (sv_swapQuoter sv) sellToken)) (\<lambda>rate. Inr (Some rate))
               else Inr sellTokenAmountPerWei)
     (\<lambda>amountPerWei.
        case calculateFees
               \<lparr>opt_feeConfigs = feeConfigs, opt_sellToken = sellToken, opt_sellTokenAmount = sellAmount,
                opt_sellTokenAmountPerWei = amountPerWei, opt_gasPrice = gasPrice,
                opt_quoteGasEstimate = quoteGasEstimate, opt_gasPerOnChainTransfer = gasPerOnChainTransfer\<rparr> of
          Inl e \<Rightarrow> Inl (Thrown (Error (fee_error_message e)))
        | Inr r \<Rightarrow>
            if marketSide = Sell \<and> sellAmount \<le> totalOnChainFeeAmount r
            then Inl (InsufficientFundsError (Some ''sellAmount insufficient to cover fees''))
            else Inr \<lparr>stf_fees = res_fees r, stf_amount = totalOnChainFeeAmount r,
                      stf_transfers = filter (\<lambda>t. 0 < sellTokenFeeAmount t) (map transfer_to_fee (onChainTransfers r)),
                      stf_gas = onChainTransfersGas r\<rparr>)"

definition transfer_gas :: "MetaTransactionVersion \<Rightarrow> BigNumber" where
  "transfer_gas version = (if version = v1 then TRANSFER_GAS else TRANSFER_FROM_GAS)"

text \<open>Before the quote: the fees of a meta-transaction that sells, and the gas price they fix.\<close>

definition sell_side_fees ::
  "SwapService \<Rightarrow> GetSwapQuoteParams \<Rightarrow> service_error + SellTokenFees \<times> BigNumber option" where
  "sell_side_fees sv params =
     (case (p_metaTransactionVersion params, p_sellAmount params) of
        (Some version, Some sellAmount) \<Rightarrow>
          res_bind (case p_gasPrice params of Some g \<Rightarrow> Inr g
                    | None \<Rightarrow> thrown (getGasPriceEstimationOrThrowAsync (sv_swapQuoter sv)))
          (\<lambda>gasPrice. res_bind (getSellTokenFees sv Sell (p_feeConfigs params) (p_sellToken params) sellAmount None
                                  gasPrice AVG_MULTIPLEX_TRANFORM_ERC_20_GAS (transfer_gas version))
          (\<lambda>fees. Inr (fees, Some gasPrice)))
      | _ \<Rightarrow> Inr (no_sell_token_fees, p_gasPrice params))"

text \<open>After the quote: the fees of a meta-transaction that buys; otherwise those from before.\<close>

definition buy_side_fees ::
  "SwapService \<Rightarrow> GetSwapQuoteParams \<Rightarrow> SellTokenFees \<Rightarrow> SwapQuote \<Rightarrow> service_error + SellTokenFees" where
  "buy_side_fees sv params fees swapQuote =
     (case (p_metaTransactionVersion params, p_sellAmount params) of
        (Some version, None) \<Rightarrow>
          getSellTokenFees sv Buy (p_feeConfigs params) (p_sellToken params)
            (qi_totalTakerAmount (swq_bestCaseQuoteInfo swapQuote)) (Some (swq_takerAmountPerEth swapQuote))
            (swq_gasPrice swapQuote) (bn_of_number (qi_gas (swq_worstCaseQuoteInfo swapQuote))) (transfer_gas version)
      | _ \<Rightarrow> Inr fees)"

definition positive_slippage_fee :: "SwapService \<Rightarrow> GetSwapQuoteParams \<Rightarrow> AffiliateFeeAmount option" where
  "positive_slippage_fee sv params =
     (let isPairAllowed = (toLowerCase (p_buyToken params) \<in> set (sv_ZERO_EX_FEE_TOKENS sv) \<and>
                           toLowerCase (p_sellToken params) \<in> set (sv_ZERO_EX_FEE_TOKENS sv));
          percent = Option.bind (p_integrator params) positiveSlippagePercent;
          isPostiveSlippageEnabled = (case percent of None \<Rightarrow> False | Some x \<Rightarrow> 0 < x);
          recipient = Option.bind (p_integrator params) integrator_feeRecipient
      in if isPairAllowed \<and> (percent = None \<or> isPostiveSlippageEnabled)
         then Some \<lparr>feeType = PositiveSlippageFee,
                    af_recipient = (if truthy_string recipient then the recipient
                                    else sv_ZERO_EX_FEE_RECIPIENT_ADDRESS sv),
                    buyTokenFeeAmount = 0, sellTokenFeeAmount = 0\<rparr>
         else None)"

section \<open>Options of the quote\<close>

definition service_rfqt :: "SwapService \<Rightarrow> GetSwapQuoteParams \<Rightarrow> RfqRequestOpts option" where
  "service_rfqt sv params =
     (case p_integrator params of
        None \<Rightarrow> None
      | Some integrator \<Rightarrow>
          if p_isETHSell params \<or> p_takerAddress params \<noteq> None \<or>
             (case p_rfqt params of None \<Rightarrow> False | Some r \<Rightarrow> rp_isIndicative r)
          then Some
            \<lparr>rfq_takerAddress = NULL_ADDRESS,
             rfq_txOrigin = (case p_takerAddress params of Some a \<Rightarrow> a | None \<Rightarrow> []),
             rfq_integratorId = integratorId integrator,
             rfq_intentOnFilling = (case p_rfqt params of None \<Rightarrow> False | Some r \<Rightarrow> rp_intentOnFilling r),
             rfq_isIndicative = (case p_rfqt params of None \<Rightarrow> False | Some r \<Rightarrow> rp_isIndicative r),
             rfq_altRfqAssetOfferings = Some (sv_altRfqAssetOfferings sv), rfq_rfqClient = None,
             rfq_quoteRequestor = None, rfq_firmQuoteValidator = sv_firmQuoteValidator sv,
             nativeExclusivelyRFQ = (case p_rfqt params of None \<Rightarrow> False | Some r \<Rightarrow> rp_nativeExclusivelyRFQ r)\<rparr>
          else None)"

definition market_side :: "GetSwapQuoteParams \<Rightarrow> MarketOperation" where
  "market_side params = (if p_sellAmount params \<noteq> None then Sell else Buy)"

definition request_base :: "SwapService \<Rightarrow> GetSwapQuoteParams \<Rightarrow> SwapQuoteRequestOpts \<Rightarrow> SwapQuoteRequestOpts" where
  "request_base sv params =
     (if p_metaTransactionVersion params \<noteq> None \<or> p_shouldSellEntireBalance params \<or>
         fee_feeType (p_affiliateFee params) = PercentageFee \<or> \<not> CHAIN_HAS_VIPS (sv_CHAIN_ID sv)
      then ASSET_SWAPPER_MARKET_ORDERS_OPTS_NO_VIP (sv_CHAIN_ID sv) (sv_SAMPLE_DISTRIBUTION_BASE sv)
      else ASSET_SWAPPER_MARKET_ORDERS_OPTS (sv_CHAIN_ID sv) (sv_SAMPLE_DISTRIBUTION_BASE sv))"

text \<open>\<open>slippagePercentage || DEFAULT_QUOTE_SLIPPAGE_PERCENTAGE\<close>: zero and NaN are falsy.\<close>

definition slippage_or_default :: "js_number option \<Rightarrow> js_number" where
  "slippage_or_default slippage =
     (case slippage of None \<Rightarrow> DEFAULT_QUOTE_SLIPPAGE_PERCENTAGE
      | Some x \<Rightarrow> if x = 0 \<or> x = NaN then DEFAULT_QUOTE_SLIPPAGE_PERCENTAGE else x)"

text \<open>The options object as a change to the quoter's defaults: \<open>_.merge\<close> skips fields that are undefined, so an
  absent slippage, gas price, list of sources, RFQ or report choice leaves the default of the quoter, and
  not that of \<open>options.ts\<close>, which the explicit field has overwritten.\<close>

definition assetSwapperOpts ::
  "SwapService \<Rightarrow> GetSwapQuoteParams \<Rightarrow> BigNumber option \<Rightarrow> SwapQuoteRequestOpts \<Rightarrow> SwapQuoteRequestOpts" where
  "assetSwapperOpts sv params providedGasPrice defaults =
     (request_base sv params defaults)
       \<lparr>so_bridgeSlippage := (case p_slippagePercentage params of Some x \<Rightarrow> x | None \<Rightarrow> so_bridgeSlippage defaults),
        so_gasPrice := (case providedGasPrice of Some g \<Rightarrow> Some g | None \<Rightarrow> so_gasPrice defaults),
        so_excludedSources := p_excludedSources params,
        so_includedSources := (case p_includedSources params of Some xs \<Rightarrow> xs | None \<Rightarrow> so_includedSources defaults),
        so_rfqt := (case service_rfqt sv params of Some r \<Rightarrow> Some r | None \<Rightarrow> so_rfqt defaults),
        so_shouldGenerateQuoteReport :=
          (case p_rfqt params of Some r \<Rightarrow> rp_intentOnFilling r | None \<Rightarrow> so_shouldGenerateQuoteReport defaults),
        so_fillAdjustor :=
          (case sv_slippageModelManager sv of
             Some (env, manager) \<Rightarrow>
               if p_enableSlippageProtection params
               then SlippageModelFillAdjustor env manager (p_sellToken params) (p_buyToken params)
                      (slippage_or_default (p_slippagePercentage params))
               else IdentityFillAdjustor
           | None \<Rightarrow> IdentityFillAdjustor)\<rparr>"

definition fill_amount :: "GetSwapQuoteParams \<Rightarrow> BigNumber \<Rightarrow> js_error + BigNumber" where
  "fill_amount params sellFeeAmount =
     (case p_sellAmount params of
        Some sellAmount \<Rightarrow> Inr (sellAmount - sellFeeAmount)
      | None \<Rightarrow>
          (case p_buyAmount params of
             None \<Rightarrow> Inl TypeError
           | Some buyAmount \<Rightarrow> Inr (integerValue ROUND_DOWN (buyAmount *
               bn_of_number (js_add (getBuyTokenPercentageFeeOrZero (p_affiliateFee params)) 1)))))"

section \<open>Gas estimation\<close>

text \<open>\<open>/needle/.test(s)\<close> for a literal.\<close>

fun contains :: "string \<Rightarrow> string \<Rightarrow> bool" where
  "contains needle [] = (needle = [])"
| "contains needle (c # cs) = (take (length needle) (c # cs) = needle \<or> contains needle cs)"

record CallState =
  cs_result :: CallResult
  cs_ganacheRaw :: "string option"

definition initial_call :: CallState where
  "initial_call = \<lparr>cs_result = \<lparr>call_success = False, call_resultData = ''0x'', call_gasUsed = 0\<rparr>, cs_ganacheRaw = None\<rparr>"

text \<open>The body of the first \<open>try\<close>: the state it leaves, and the error it threw, if any.\<close>

definition simulate_call :: "Node \<Rightarrow> ChainId \<Rightarrow> TxData \<Rightarrow> CallState \<times> rpc_error option" where
  "simulate_call node chainId txData =
     (if chainId = Ganache then
        let (success, gas) = (case estimateGasAsync node txData of
              Inl _ \<Rightarrow> (False, DEFAULT_VALIDATION_GAS_LIMIT) | Inr g \<Rightarrow> (True, g));
            state = initial_call\<lparr>cs_result := (cs_result initial_call)\<lparr>call_success := success\<rparr>\<rparr>
        in (case callAsync node txData gas of
              Inl e \<Rightarrow> (state, Some e)
            | Inr raw \<Rightarrow> (\<lparr>cs_result = \<lparr>call_success = success, call_resultData = raw, call_gasUsed = bn_of_number gas\<rparr>,
                          cs_ganacheRaw = Some raw\<rparr>, None))
      else (case fakeTaker_execute node txData of
              Inl e \<Rightarrow> (initial_call, Some e)
            | Inr result \<Rightarrow> (initial_call\<lparr>cs_result := result\<rparr>, None)))"

text \<open>The first \<open>catch\<close>: an error to throw, or none.\<close>

definition on_rpc_error :: "Node \<Rightarrow> rpc_error \<Rightarrow> service_error option" where
  "on_rpc_error node e =
     (if contains ''insufficient funds'' (rpc_message e) then Some (InsufficientFundsError None)
      else if contains ''execution reverted'' (rpc_message e) \<and> truthy_string (rpc_data e)
      then (case RevertError_decode node (the (rpc_data e)) of
              Inl (Error message) \<Rightarrow> Some (Thrown (Error message))
            | Inl TypeError \<Rightarrow> Some (Thrown (Error ''TypeError''))
            | Inr revertError \<Rightarrow> Some (RevertError revertError))
      else (case decodeThrownErrorAsRevertError node e of
              Inl _ \<Rightarrow> None | Inr revertError \<Rightarrow> Some (RevertError revertError)))"

text \<open>The second \<open>try\<close>: a revert decoded from the result of the call.\<close>

definition result_revert :: "Node \<Rightarrow> CallState \<Rightarrow> string option" where
  "result_revert node state =
     (let raw = cs_ganacheRaw state; result = cs_result state;
          decoded = (\<lambda>data. case RevertError_decode node data of Inl _ \<Rightarrow> None | Inr r \<Rightarrow> Some r)
      in if truthy_string raw then decoded (the raw)
         else if \<not> call_success result then decoded (call_resultData result)
         else None)"

definition estimateGasOrThrowRevertErrorAsync :: "Node \<Rightarrow> ChainId \<Rightarrow> TxData \<Rightarrow> service_error + BigNumber" where
  "estimateGasOrThrowRevertErrorAsync node chainId txData =
     (let (state, thrown_error) = simulate_call node chainId txData
      in case Option.bind thrown_error (on_rpc_error node) of
           Some e \<Rightarrow> Inl e
         | None \<Rightarrow>
             (case result_revert node state of
                Some revertError \<Rightarrow> Inl (RevertError revertError)
              | None \<Rightarrow>
                  let gasEstimate = call_gasUsed (cs_result state) + bn_of_number (calculateCallDataGas (tx_data txData))
                  in if \<not> call_success (cs_result state) then Inl GasEstimationError else Inr gasEstimate))"

section \<open>The quote\<close>

record PartialTransaction =
  pt_to :: string
  pt_value :: BigNumber
  pt_data :: string
  pt_decodedUniqueId :: string
  pt_gasOverhead :: BigNumber

definition getSwapQuotePartialTransaction ::
  "SwapService \<Rightarrow> SwapQuote \<Rightarrow> GetSwapQuoteParams \<Rightarrow> AffiliateFeeAmount list \<Rightarrow> AffiliateFeeAmount list \<Rightarrow>
   js_error + PartialTransaction" where
  "getSwapQuotePartialTransaction sv swapQuote params buyFeeAmounts sellFeeAmounts =
     res_bind (getCalldataOrThrow (sv_lib sv) (sv_consumer sv) swapQuote
        (\<lambda>opts. opts\<lparr>isFromETH := p_isETHSell params, isToETH := p_isETHBuy params,
                     metaTransactionVersion := p_metaTransactionVersion params,
                     shouldSellEntireBalance := p_shouldSellEntireBalance params,
                     buyTokenAffiliateFees := buyFeeAmounts, sellTokenAffiliateFees := sellFeeAmounts,
                     positiveSlippageFee := positive_slippage_fee sv params\<rparr>))
     (\<lambda>info. let attributed = attributeCallData (sv_attribution sv) (sv_encodeCall sv (calldata info))
                                (p_affiliateAddress params)
              in Inr \<lparr>pt_to = toAddress info, pt_value = ethAmount info, pt_data = affiliatedData attributed,
                      pt_decodedUniqueId = decodedUniqueId attributed, pt_gasOverhead = gasOverhead info\<rparr>)"

definition can_estimate_gas :: "GetSwapQuoteParams \<Rightarrow> SwapQuote \<Rightarrow> bool" where
  "can_estimate_gas params swapQuote =
     (p_endpoint params = quote_endpoint \<or>
      map_of (sb_singleSource (swq_sourceBreakdown swapQuote)) Native = None)"

text \<open>The larger of the gas of the quote and the buffered estimate of the node.\<close>

definition improved_gas ::
  "GetSwapQuoteParams \<Rightarrow> PartialTransaction \<Rightarrow> BigNumber \<Rightarrow> BigNumber \<Rightarrow> BigNumber \<Rightarrow> BigNumber" where
  "improved_gas params tx sellTokenFeeOnChainTransferGas fauxGasEstimate callResult =
     (let withOverhead = callResult + pt_gasOverhead tx;
          estimate = (if p_metaTransactionVersion params = Some v2 then withOverhead + sellTokenFeeOnChainTransferGas
                      else withOverhead);
          realGasEstimate = integerValue_default (estimate * bn_of_number GAS_LIMIT_BUFFER_MULTIPLIER)
      in bn_max fauxGasEstimate realGasEstimate)"

definition gas_estimate ::
  "SwapService \<Rightarrow> GetSwapQuoteParams \<Rightarrow> SwapQuote \<Rightarrow> PartialTransaction \<Rightarrow> BigNumber \<Rightarrow> BigNumber \<Rightarrow>
   service_error + BigNumber" where
  "gas_estimate sv params swapQuote tx sellTokenFeeOnChainTransferGas fauxGasEstimate =
     (if truthy_string (p_takerAddress params) \<and> \<not> p_skipValidation params \<and> can_estimate_gas params swapQuote
      then (case estimateGasOrThrowRevertErrorAsync (sv_node sv) (sv_CHAIN_ID sv)
                   \<lparr>tx_to = pt_to tx, tx_data = pt_data tx, tx_from = the (p_takerAddress params),
                    tx_value = pt_value tx, tx_gasPrice = swq_gasPrice swapQuote\<rparr> of
              Inl e \<Rightarrow> if p_endpoint params = quote_endpoint then Inl e else Inr fauxGasEstimate
            | Inr callResult \<Rightarrow> Inr (improved_gas params tx sellTokenFeeOnChainTransferGas fauxGasEstimate callResult))
      else Inr fauxGasEstimate)"

text \<open>The rate of a token to the native token in whole units.\<close>

definition token_to_eth_rate :: "SwapService \<Rightarrow> BigNumber \<Rightarrow> js_number \<Rightarrow> js_error + BigNumber" where
  "token_to_eth_rate sv amountPerEth decimals =
     (case sv_wethDecimals sv of
        None \<Rightarrow> Inl TypeError
      | Some wethDecimals \<Rightarrow> res_bind (bn_pow10 (sv_rnd sv) (js_sub wethDecimals decimals))
          (\<lambda>scale. decimalPlaces decimals ROUND_HALF_UP (amountPerEth * scale)))"

definition check_response :: "GetSwapQuoteParams \<Rightarrow> GetSwapQuoteResponse \<Rightarrow> service_error + GetSwapQuoteResponse" where
  "check_response params response =
     (if r_buyAmount response \<le> 0 then Inl (InsufficientFundsError None)
      else if p_endpoint params = quote_endpoint \<and>
        (case r_estimatedPriceImpact response of None \<Rightarrow> False
         | Some impact \<Rightarrow> bn_of_number (js_mul (p_priceImpactProtectionPercentage params) (Fin 100)) < impact)
      then Inl (ValidationError [\<lparr>ve_field = ''priceImpactProtectionPercentage'', ve_code = ValueOutOfRange, ve_reason = ''PRICE_IMPACT_TOO_HIGH''\<rparr>])
      else Inr response)"

definition add_expected_slippage :: "SwapService \<Rightarrow> GetSwapQuoteParams \<Rightarrow> GetSwapQuoteResponse \<Rightarrow> GetSwapQuoteResponse" where
  "add_expected_slippage sv params response =
     (if (case p_integrator params of None \<Rightarrow> False | Some i \<Rightarrow> slippageModel i = Some True) \<or>
         p_enableSlippageProtection params
      then response\<lparr>r_expectedSlippage := Some
        (case sv_slippageModelManager sv of
           None \<Rightarrow> None
         | Some (env, manager) \<Rightarrow> calculateExpectedSlippage env manager (p_buyToken params) (p_sellToken params)
             (r_buyAmount response) (r_sellAmount response) (r_sources response)
             (case p_slippagePercentage params of Some x \<Rightarrow> x | None \<Rightarrow> NaN))\<rparr>
      else response)"

definition make_response ::
  "SwapService \<Rightarrow> GetSwapQuoteParams \<Rightarrow> SwapQuote \<Rightarrow> SellTokenFees \<Rightarrow> BigNumber \<Rightarrow> PartialTransaction \<Rightarrow>
   BigNumber \<Rightarrow> js_error + GetSwapQuoteResponse" where
  "make_response sv params swapQuote sellFees buyFeeAmount tx gas =
     (let best = swq_bestCaseQuoteInfo swapQuote; worst = swq_worstCaseQuoteInfo swapQuote;
          makerDecimals = swq_makerTokenDecimals swapQuote; takerDecimals = swq_takerTokenDecimals swapQuote;
          protocolFee = qi_protocolFeeInWeiAmount worst
      in res_bind (getSwapQuotePrice sv (p_buyAmount params) makerDecimals takerDecimals swapQuote
                     (p_affiliateFee params) (stf_amount sellFees))
      (\<lambda>(price, guaranteedPrice). res_bind (token_to_eth_rate sv (swq_takerAmountPerEth swapQuote) takerDecimals)
      (\<lambda>sellTokenToEthRate. res_bind (token_to_eth_rate sv (swq_makerAmountPerEth swapQuote) makerDecimals)
      (\<lambda>buyTokenToEthRate. res_bind (calculateEstimatedPriceImpactPercent (sv_rnd sv) price sellTokenToEthRate
                                       buyTokenToEthRate (market_side params))
      (\<lambda>estimatedPriceImpact. Inr
         \<lparr>r_chainId = sv_CHAIN_ID sv, r_price = price, r_guaranteedPrice = guaranteedPrice,
          r_estimatedPriceImpact = estimatedPriceImpact, r_to = pt_to tx, r_data = pt_data tx,
          r_decodedUniqueId = pt_decodedUniqueId tx,
          r_value = (if p_isETHSell params then protocolFee + qi_takerAmount worst else protocolFee),
          r_gas = gas, r_estimatedGas = gas, r_from = p_takerAddress params,
          r_gasPrice = swq_gasPrice swapQuote, r_protocolFee = protocolFee,
          r_minimumProtocolFee = bn_min protocolFee (qi_protocolFeeInWeiAmount best),
          r_buyTokenAddress = (if p_isETHBuy params then pl_ETH_TOKEN_ADDRESS (sv_lib sv) else p_buyToken params),
          r_sellTokenAddress = (if p_isETHSell params then pl_ETH_TOKEN_ADDRESS (sv_lib sv) else p_sellToken params),
          r_buyAmount = qi_makerAmount best - buyFeeAmount,
          r_sellAmount = qi_totalTakerAmount best + stf_amount sellFees,
          r_sources = convertToLiquiditySources (sv_CHAIN_ID sv) (swq_sourceBreakdown swapQuote),
          r_orders = getOrders (swq_path swapQuote),
          r_allowanceTarget = (if p_isETHSell params then NULL_ADDRESS else sv_exchangeProxy sv),
          r_extendedQuoteReportSources = swq_extendedQuoteReportSources swapQuote,
          r_sellTokenToEthRate = sellTokenToEthRate, r_buyTokenToEthRate = buyTokenToEthRate,
          r_quoteReport = swq_quoteReport swapQuote, r_blockNumber = Some (swq_blockNumber swapQuote),
          r_debugData = (if p_isDebugEnabled params
                         then Some (swq_samplerGasUsage swapQuote, swq_blockNumber swapQuote) else None),
          r_expectedSlippage = None,
          r_fees = (if p_metaTransactionVersion params \<noteq> None \<or> p_buyToken params = p_sellToken params
                    then stf_fees sellFees else None)\<rparr>)))))"

text \<open>From the quote to the response.\<close>

definition finish_quote ::
  "SwapService \<Rightarrow> GetSwapQuoteParams \<Rightarrow> SellTokenFees \<Rightarrow> SwapQuote \<Rightarrow> service_error + GetSwapQuoteResponse" where
  "finish_quote sv params fees swapQuote =
     res_bind (buy_side_fees sv params fees swapQuote)
     (\<lambda>sellFees.
        let buyFees = getBuyTokenFeeAmounts (sv_rnd sv) (sv_GASLESS_SWAP_FEE_ENABLED sv) swapQuote (p_affiliateFee params);
            buyFeeAmounts = [\<lparr>feeType = fee_feeType (p_affiliateFee params),
                              af_recipient = fee_recipient (p_affiliateFee params),
                              buyTokenFeeAmount = am_buyTokenFeeAmount buyFees, sellTokenFeeAmount = 0\<rparr>];
            fauxGasEstimate = bn_of_number (qi_gas (swq_worstCaseQuoteInfo swapQuote)) + am_gasCost buyFees +
                              stf_gas sellFees
        in res_bind (thrown (getSwapQuotePartialTransaction sv swapQuote params buyFeeAmounts (stf_transfers sellFees)))
     (\<lambda>tx. res_bind (gas_estimate sv params swapQuote tx (stf_gas sellFees) fauxGasEstimate)
     (\<lambda>gas. res_bind (thrown (make_response sv params swapQuote sellFees (am_buyTokenFeeAmount buyFees) tx gas))
     (\<lambda>response. res_bind (check_response params response)
     (\<lambda>checked. Inr (add_expected_slippage sv params checked))))))"

definition calculateSwapQuoteAsync :: "SwapService \<Rightarrow> GetSwapQuoteParams \<Rightarrow> service_error + GetSwapQuoteResponse" where
  "calculateSwapQuoteAsync sv params =
     (if p_rfqt params \<noteq> None \<and> map_option (map source_value) (p_includedSources params) = Some [''RFQT''] \<and>
         \<not> sv_isRfqtEnabled sv
      then Inl (ServiceDisabledError ''RFQt Service is not available'')
      else res_bind (sell_side_fees sv params)
      (\<lambda>(fees, providedGasPrice). res_bind (thrown (fill_amount params (stf_amount fees)))
      (\<lambda>amount. res_bind (thrown (op_getSwapQuoteAsync (sv_swapQuoter sv) (p_buyToken params) (p_sellToken params)
                   amount (market_side params) (assetSwapperOpts sv params providedGasPrice) (Some (sv_rfqClient sv))))
      (\<lambda>swapQuote. finish_quote sv params fees swapQuote))))"

section \<open>Wrapping\<close>

definition getSwapQuoteForNativeWrappedAsync ::
  "SwapService \<Rightarrow> GetSwapQuoteParams \<Rightarrow> bool \<Rightarrow> service_error + GetSwapQuoteResponse" where
  "getSwapQuoteForNativeWrappedAsync sv params isUnwrap =
     (case (case p_buyAmount params of Some b \<Rightarrow> Some b | None \<Rightarrow> p_sellAmount params) of
        None \<Rightarrow> Inl (Thrown (Error ''sellAmount or buyAmount required''))
      | Some amount \<Rightarrow>
          let data = (if isUnwrap then sv_withdraw sv amount else sv_deposit sv);
              value = (if isUnwrap then 0 else amount);
              attributed = attributeCallData (sv_attribution sv) data (p_affiliateAddress params);
              gasEstimate = (if isUnwrap then UNWRAP_QUOTE_GAS (sv_CHAIN_ID sv) else WRAP_QUOTE_GAS (sv_CHAIN_ID sv))
          in res_bind (case p_gasPrice params of Some g \<Rightarrow> Inr g
                       | None \<Rightarrow> thrown (getGasPriceEstimationOrThrowAsync (sv_swapQuoter sv)))
             (\<lambda>gasPrice. Inr
                \<lparr>r_chainId = sv_CHAIN_ID sv, r_price = 1, r_guaranteedPrice = 1, r_estimatedPriceImpact = Some ZERO_AMOUNT,
                 r_to = NATIVE_FEE_TOKEN_BY_CHAIN_ID (sv_lib sv) (sv_CHAIN_ID sv), r_data = affiliatedData attributed,
                 r_decodedUniqueId = decodedUniqueId attributed, r_value = value, r_gas = gasEstimate,
                 r_estimatedGas = gasEstimate, r_from = p_takerAddress params, r_gasPrice = gasPrice,
                 r_protocolFee = 0, r_minimumProtocolFee = 0,
                 r_buyTokenAddress = (if isUnwrap then pl_ETH_TOKEN_ADDRESS (sv_lib sv) else p_buyToken params),
                 r_sellTokenAddress = (if isUnwrap then p_sellToken params else pl_ETH_TOKEN_ADDRESS (sv_lib sv)),
                 r_buyAmount = amount, r_sellAmount = amount, r_sources = [], r_orders = [],
                 r_allowanceTarget = NULL_ADDRESS, r_extendedQuoteReportSources = None,
                 r_sellTokenToEthRate = 1, r_buyTokenToEthRate = 1, r_quoteReport = None, r_blockNumber = None,
                 r_debugData = None, r_expectedSlippage = None, r_fees = None\<rparr>))"

definition getSwapQuoteForWrapAsync :: "SwapService \<Rightarrow> GetSwapQuoteParams \<Rightarrow> service_error + GetSwapQuoteResponse" where
  "getSwapQuoteForWrapAsync sv params = getSwapQuoteForNativeWrappedAsync sv params False"

definition getSwapQuoteForUnwrapAsync :: "SwapService \<Rightarrow> GetSwapQuoteParams \<Rightarrow> service_error + GetSwapQuoteResponse" where
  "getSwapQuoteForUnwrapAsync sv params = getSwapQuoteForNativeWrappedAsync sv params True"

end
