(* ===== verification/Order_Utils.thy ===== *)
theory Order_Utils
  imports Swap_Service "HOL-Library.Multiset"
begin

text \<open>
  The order helpers of the Standard Relayer API (\<open>utils/order_utils.ts\<close>, \<open>utils/pagination_utils.ts\<close>): signed limit orders, their rows in the database, the order of a book and
  its pages. How a BigNumber is printed and read is configured by \<open>@0x/utils\<close>; the two functions are
  arguments, and the locale \<open>number_text\<close> states that printing a non-negative integer and reading it gives it back.
\<close>

section \<open>Data\<close>

record Signature =
  signatureType :: js_number
  sig_r :: string
  sig_s :: string
  sig_v :: js_number

record SignedLimitOrder =
  sl_signature :: Signature
  sl_sender :: string
  sl_maker :: string
  sl_taker :: string
  sl_takerTokenFeeAmount :: BigNumber
  sl_makerAmount :: BigNumber
  sl_takerAmount :: BigNumber
  sl_makerToken :: string
  sl_takerToken :: string
  sl_salt :: BigNumber
  sl_verifyingContract :: string
  sl_feeRecipient :: string
  sl_expiry :: BigNumber
  sl_chainId :: ChainId
  sl_pool :: string

datatype OrderEventEndState =
    Added | Filled | FullyFilled | Cancelled | Expired | Invalid | Unexpired | Unfunded | FillabilityIncreased
  | StoppedWatching

record SRAOrderMetaData =
  md_orderHash :: string
  md_remainingFillableTakerAmount :: BigNumber
  md_state :: "OrderEventEndState option"
  md_createdAt :: "string option"

record SRAOrder =
  sra_order :: SignedLimitOrder
  sra_metaData :: SRAOrderMetaData

text \<open>A row of the table of valid orders, and of the table of persistent ones.\<close>

record SignedOrderV4Entity =
  en_hash :: string
  en_makerToken :: string
  en_takerToken :: string
  en_makerAmount :: string
  en_takerAmount :: string
  en_maker :: string
  en_taker :: string
  en_pool :: string
  en_expiry :: string
  en_salt :: string
  en_verifyingContract :: string
  en_takerTokenFeeAmount :: string
  en_sender :: string
  en_feeRecipient :: string
  en_signature :: string
  en_remainingFillableTakerAmount :: string
  en_orderState :: "OrderEventEndState option"
  en_createdAt :: "string option"

section \<open>Freshness\<close>

definition isIgnoredOrder :: "string list \<Rightarrow> SRAOrder \<Rightarrow> bool" where
  "isIgnoredOrder addressesToIgnore apiOrder =
     list_ex (\<lambda>addressToIgnore. toLowerCase addressToIgnore \<in>
        set [toLowerCase (sl_maker (sra_order apiOrder)), toLowerCase (sl_makerToken (sra_order apiOrder)),
             toLowerCase (sl_takerToken (sra_order apiOrder))]) addressesToIgnore"

definition isFreshOrder :: "js_number \<Rightarrow> SRAOrder \<Rightarrow> js_number \<Rightarrow> bool" where
  "isFreshOrder now apiOrder expirationBufferSeconds =
     (let dateNowSeconds = js_div now (Fin 1000)
      in js_add dateNowSeconds expirationBufferSeconds < toNumber (sl_expiry (sra_order apiOrder)))"

fun groupByFreshness :: "js_number \<Rightarrow> SRAOrder list \<Rightarrow> js_number \<Rightarrow> SRAOrder list \<times> SRAOrder list" where
  "groupByFreshness now [] buffer = ([], [])"
| "groupByFreshness now (o1 # apiOrders) buffer =
     (let (fresh, expired) = groupByFreshness now apiOrders buffer
      in if isFreshOrder now o1 buffer then (o1 # fresh, expired) else (fresh, o1 # expired))"

section \<open>Order of a book\<close>

text \<open>\<open>a.comparedTo(b)\<close> is null when a number is NaN, which a sort takes for 0.\<close>

definition comparedTo :: "BigNumber \<Rightarrow> BigNumber \<Rightarrow> int" where
  "comparedTo a b = (if a < b then - 1 else if b < a then 1 else 0)"

definition compareOrderByFeeRatio :: "(rat \<Rightarrow> rat) \<Rightarrow> SignedLimitOrder \<Rightarrow> SignedLimitOrder \<Rightarrow> int" where
  "compareOrderByFeeRatio rnd orderA orderB =
     (let orderAFeePrice = bn_div rnd (sl_takerTokenFeeAmount orderA) (sl_takerAmount orderA);
          orderBFeePrice = bn_div rnd (sl_takerTokenFeeAmount orderB) (sl_takerAmount orderB)
      in if \<not> bn_eq orderAFeePrice orderBFeePrice then comparedTo orderBFeePrice orderAFeePrice
         else comparedTo (sl_expiry orderA) (sl_expiry orderB))"

definition compareAskOrder :: "(rat \<Rightarrow> rat) \<Rightarrow> SignedLimitOrder \<Rightarrow> SignedLimitOrder \<Rightarrow> int" where
  "compareAskOrder rnd orderA orderB =
     (let orderAPrice = bn_div rnd (sl_takerAmount orderA) (sl_makerAmount orderA);
          orderBPrice = bn_div rnd (sl_takerAmount orderB) (sl_makerAmount orderB)
      in if \<not> bn_eq orderAPrice orderBPrice then comparedTo orderAPrice orderBPrice
         else compareOrderByFeeRatio rnd orderA orderB)"

definition compareBidOrder :: "(rat \<Rightarrow> rat) \<Rightarrow> SignedLimitOrder \<Rightarrow> SignedLimitOrder \<Rightarrow> int" where
  "compareBidOrder rnd orderA orderB =
     (let orderAPrice = bn_div rnd (sl_makerAmount orderA) (sl_takerAmount orderA);
          orderBPrice = bn_div rnd (sl_makerAmount orderB) (sl_takerAmount orderB)
      in if \<not> bn_eq orderAPrice orderBPrice then comparedTo orderBPrice orderAPrice
         else compareOrderByFeeRatio rnd orderA orderB)"

text \<open>\<open>xs.sort(compare)\<close>, which is stable.\<close>

fun insert_by :: "('a \<Rightarrow> 'a \<Rightarrow> int) \<Rightarrow> 'a \<Rightarrow> 'a list \<Rightarrow> 'a list" where
  "insert_by cmp x [] = [x]"
| "insert_by cmp x (y # ys) = (if cmp x y \<le> 0 then x # y # ys else y # insert_by cmp x ys)"

definition js_sort :: "('a \<Rightarrow> 'a \<Rightarrow> int) \<Rightarrow> 'a list \<Rightarrow> 'a list" where
  "js_sort cmp xs = foldr (insert_by cmp) xs []"

section \<open>Rows\<close>

text \<open>\<open>parseInt(s, 10)\<close>: leading white space, a sign, and the digits that follow.\<close>

definition is_space :: "char \<Rightarrow> bool" where
  "is_space c = (c \<in> set [CHR '' '', CHR 0x09, CHR 0x0A, CHR 0x0B, CHR 0x0C, CHR 0x0D])"

definition is_digit :: "char \<Rightarrow> bool" where
  "is_digit c = (c \<in> set ''0123456789'')"

definition parseInt10 :: "string \<Rightarrow> js_number" where
  "parseInt10 s =
     (let t = dropWhile is_space s;
          negative = (t \<noteq> [] \<and> hd t = CHR ''-'');
          u = (if t \<noteq> [] \<and> hd t \<in> set ''+-'' then tl t else t);
          digits = takeWhile is_digit u
      in if digits = [] then NaN
         else Fin ((if negative then - 1 else 1) * rnd64 (of_nat (of_base 10 digits))))"

text \<open>The parts after a split; a missing one is undefined, and \<open>assert.isNumber\<close> and \<open>assert.isString\<close> throw.\<close>

definition deserializeSignature :: "string \<Rightarrow> js_error + Signature" where
  "deserializeSignature signatureStr =
     (let parts = split_on (CHR '','') signatureStr;
          part = (\<lambda>i. if i < length parts then Some (parts ! i) else None);
          signatureType' = (case part 0 of Some x \<Rightarrow> parseInt10 x | None \<Rightarrow> NaN);
          v = (case part 3 of Some x \<Rightarrow> parseInt10 x | None \<Rightarrow> NaN)
      in if \<not> is_fin signatureType' then Inl (Error ''signatureType'')
         else if \<not> is_fin v then Inl (Error ''signatureV'')
         else case (part 1, part 2) of
           (Some r, Some s) \<Rightarrow> Inr \<lparr>signatureType = signatureType', sig_r = r, sig_s = s, sig_v = v\<rparr>
         | _ \<Rightarrow> Inl (Error ''signature''))"

definition serializeSignature :: "Signature \<Rightarrow> string" where
  "serializeSignature signature =
     join_with (CHR '','') [int_string 10 (signatureType signature), sig_r signature, sig_s signature,
                            int_string 10 (sig_v signature)]"

definition deserializeOrder :: "(string \<Rightarrow> BigNumber) \<Rightarrow> ChainId \<Rightarrow> SignedOrderV4Entity \<Rightarrow> js_error + SignedLimitOrder" where
  "deserializeOrder parse chainId entity =
     res_bind (deserializeSignature (en_signature entity))
     (\<lambda>signature. Inr
        \<lparr>sl_signature = signature, sl_sender = en_sender entity, sl_maker = en_maker entity, sl_taker = en_taker entity,
         sl_takerTokenFeeAmount = parse (en_takerTokenFeeAmount entity), sl_makerAmount = parse (en_makerAmount entity),
         sl_takerAmount = parse (en_takerAmount entity), sl_makerToken = en_makerToken entity,
         sl_takerToken = en_takerToken entity, sl_salt = parse (en_salt entity),
         sl_verifyingContract = en_verifyingContract entity, sl_feeRecipient = en_feeRecipient entity,
         sl_expiry = parse (en_expiry entity), sl_chainId = chainId, sl_pool = en_pool entity\<rparr>)"

definition deserializeOrderToSRAOrder ::
  "(string \<Rightarrow> BigNumber) \<Rightarrow> ChainId \<Rightarrow> SignedOrderV4Entity \<Rightarrow> js_error + SRAOrder" where
  "deserializeOrderToSRAOrder parse chainId entity =
     res_bind (deserializeOrder parse chainId entity)
     (\<lambda>order. Inr \<lparr>sra_order = order,
        sra_metaData = \<lparr>md_orderHash = en_hash entity,
          md_remainingFillableTakerAmount = parse (en_remainingFillableTakerAmount entity),
          md_state = en_orderState entity, md_createdAt = en_createdAt entity\<rparr>\<rparr>)"

definition serializeOrder :: "(BigNumber \<Rightarrow> string) \<Rightarrow> SRAOrder \<Rightarrow> SignedOrderV4Entity" where
  "serializeOrder print apiOrder =
     (let order = sra_order apiOrder; metaData = sra_metaData apiOrder
      in \<lparr>en_hash = md_orderHash metaData, en_makerToken = sl_makerToken order, en_takerToken = sl_takerToken order,
          en_makerAmount = print (sl_makerAmount order), en_takerAmount = print (sl_takerAmount order),
          en_maker = sl_maker order, en_taker = sl_taker order, en_pool = sl_pool order,
          en_expiry = print (sl_expiry order), en_salt = print (sl_salt order),
          en_verifyingContract = sl_verifyingContract order,
          en_takerTokenFeeAmount = print (sl_takerTokenFeeAmount order), en_sender = sl_sender order,
          en_feeRecipient = sl_feeRecipient order, en_signature = serializeSignature (sl_signature order),
          en_remainingFillableTakerAmount = print (md_remainingFillableTakerAmount metaData),
          en_orderState = None, en_createdAt = None\<rparr>)"

text \<open>The fields of an unsigned order as query parameters.\<close>

definition serializeUnsignedLimitOrder :: "(BigNumber \<Rightarrow> string) \<Rightarrow> SignedLimitOrder \<Rightarrow> (string \<times> string) list" where
  "serializeUnsignedLimitOrder print order =
     [(''sender'', sl_sender order), (''maker'', sl_maker order), (''taker'', sl_taker order),
      (''makerAmount'', print (sl_makerAmount order)), (''takerAmount'', print (sl_takerAmount order)),
      (''makerToken'', sl_makerToken order), (''takerToken'', sl_takerToken order),
      (''takerTokenFeeAmount'', print (sl_takerTokenFeeAmount order)), (''salt'', print (sl_salt order)),
      (''verifyingContract'', sl_verifyingContract order), (''feeRecipient'', sl_feeRecipient order),
      (''pool'', sl_pool order), (''expiry'', print (sl_expiry order))]"

definition serializePersistentOrder :: "(BigNumber \<Rightarrow> string) \<Rightarrow> SRAOrder \<Rightarrow> SignedOrderV4Entity" where
  "serializePersistentOrder print apiOrder =
     (serializeOrder print apiOrder)
       \<lparr>en_orderState := Some (case md_state (sra_metaData apiOrder) of Some s \<Rightarrow> s | None \<Rightarrow> Added)\<rparr>"

section \<open>Pages\<close>

record 'a PaginatedCollection =
  pc_total :: js_number
  pc_page :: js_number
  pc_perPage :: js_number
  pc_records :: "'a list"

text \<open>An index of \<open>slice\<close>: truncated, counted from the end when negative, and clamped.\<close>

fun slice_index :: "nat \<Rightarrow> js_number \<Rightarrow> nat" where
  "slice_index n (Fin a) =
     (let k = round_mode ROUND_DOWN a in if k < 0 then nat (max 0 (int n + k)) else min (nat k) n)"
| "slice_index n PosInf = n"
| "slice_index n NegInf = 0"
| "slice_index n NaN = 0"

definition js_slice :: "'a list \<Rightarrow> js_number \<Rightarrow> js_number \<Rightarrow> 'a list" where
  "js_slice xs start end' =
     (let i = slice_index (length xs) start; j = slice_index (length xs) end' in take (j - i) (drop i xs))"

definition paginateSerialize :: "'a list \<Rightarrow> js_number \<Rightarrow> js_number \<Rightarrow> js_number \<Rightarrow> 'a PaginatedCollection" where
  "paginateSerialize collection totalCount page perPage =
     \<lparr>pc_total = totalCount, pc_page = page, pc_perPage = perPage, pc_records = collection\<rparr>"

definition paginate :: "'a list \<Rightarrow> js_number \<Rightarrow> js_number \<Rightarrow> 'a PaginatedCollection" where
  "paginate records page perPage =
     paginateSerialize (js_slice records (js_mul (js_sub page 1) perPage) (js_mul page perPage))
       (Fin (of_nat (length records))) page perPage"

definition paginateDBFilters :: "js_number \<Rightarrow> js_number \<Rightarrow> js_number \<times> js_number" where
  "paginateDBFilters page perPage = (js_mul (js_sub page 1) perPage, perPage)"

definition MAX_PER_PAGE :: js_number where
  "MAX_PER_PAGE = Fin 1000"

text \<open>The query parameters as the numbers \<open>Number\<close> makes of them.\<close>

definition parsePaginationConfig ::
  "js_number option \<Rightarrow> js_number option \<Rightarrow> service_error + js_number \<times> js_number" where
  "parsePaginationConfig queryPage queryPerPage =
     (let page = (case queryPage of None \<Rightarrow> Fin 1 | Some p \<Rightarrow> p);
          perPage = (case queryPerPage of None \<Rightarrow> Fin 20 | Some p \<Rightarrow> p)
      in if MAX_PER_PAGE < perPage
         then Inl (ValidationError [\<lparr>ve_field = ''perPage'', ve_code = ValueOutOfRange,
                ve_reason = ''perPage should be less or equal to 1000''\<rparr>])
         else Inr (page, perPage))"

section \<open>Sorting\<close>

text \<open>A comparator that orders the valid elements totally.\<close>

locale comparator =
  fixes cmp :: "'a \<Rightarrow> 'a \<Rightarrow> int" and valid :: "'a \<Rightarrow> bool"
  assumes cmp_total: "valid x \<Longrightarrow> valid y \<Longrightarrow> cmp x y \<le> 0 \<or> cmp y x \<le> 0"
    and cmp_trans: "valid x \<Longrightarrow> valid y \<Longrightarrow> valid z \<Longrightarrow> cmp x y \<le> 0 \<Longrightarrow> cmp y z \<le> 0 \<Longrightarrow> cmp x z \<le> 0"
begin

lemma set_insert_by: "set (insert_by cmp x ys) = insert x (set ys)"
  by (induction ys) auto

lemma sorted_insert_by:
  assumes "valid x" "\<forall>y \<in> set ys. valid y" "sorted_wrt (\<lambda>a b. cmp a b \<le> 0) ys"
  shows "sorted_wrt (\<lambda>a b. cmp a b \<le> 0) (insert_by cmp x ys)"
  using assms
proof (induction ys)
  case (Cons y ys)
  have "cmp y x \<le> 0" if "\<not> cmp x y \<le> 0" using that cmp_total Cons.prems(1,2) by auto
  moreover have "cmp x z \<le> 0" if "cmp x y \<le> 0" "z \<in> set ys" for z
    using that Cons.prems cmp_trans[of x y z] by auto
  ultimately show ?case using Cons by (auto simp: set_insert_by)
qed simp

lemma sorted_js_sort:
  assumes "\<forall>x \<in> set xs. valid x"
  shows "sorted_wrt (\<lambda>a b. cmp a b \<le> 0) (js_sort cmp xs) \<and> set (js_sort cmp xs) = set xs"
  using assms by (induction xs) (auto simp: js_sort_def set_insert_by intro!: sorted_insert_by)

end

lemma mset_js_sort: "mset (js_sort cmp xs) = mset xs"
proof -
  have "mset (insert_by cmp x ys) = add_mset x (mset ys)" for x ys by (induction ys) auto
  then show ?thesis by (induction xs) (simp_all add: js_sort_def)
qed

definition valid_order :: "SignedLimitOrder \<Rightarrow> bool" where
  "valid_order order \<longleftrightarrow>
     (\<exists>m t f e. sl_makerAmount order = Fin m \<and> sl_takerAmount order = Fin t \<and> sl_takerTokenFeeAmount order = Fin f \<and>
        sl_expiry order = Fin e \<and> 0 < m \<and> 0 < t)"

text \<open>The price of an ask and of a bid, and the ratio of the fee.\<close>

definition ask_price :: "(rat \<Rightarrow> rat) \<Rightarrow> SignedLimitOrder \<Rightarrow> rat" where
  "ask_price rnd order = rnd (xval (sl_takerAmount order) / xval (sl_makerAmount order))"

definition bid_price :: "(rat \<Rightarrow> rat) \<Rightarrow> SignedLimitOrder \<Rightarrow> rat" where
  "bid_price rnd order = rnd (xval (sl_makerAmount order) / xval (sl_takerAmount order))"

definition fee_price :: "(rat \<Rightarrow> rat) \<Rightarrow> SignedLimitOrder \<Rightarrow> rat" where
  "fee_price rnd order = rnd (xval (sl_takerTokenFeeAmount order) / xval (sl_takerAmount order))"

lemma ask_le:
  assumes "valid_order a" "valid_order b"
  shows "compareAskOrder rnd a b \<le> 0 \<longleftrightarrow> ask_price rnd a < ask_price rnd b \<or> ask_price rnd a = ask_price rnd b \<and>
    (fee_price rnd b < fee_price rnd a \<or> fee_price rnd a = fee_price rnd b \<and> xval (sl_expiry a) \<le> xval (sl_expiry b))"
  using assms
  by (auto simp: valid_order_def compareAskOrder_def compareOrderByFeeRatio_def comparedTo_def ask_price_def
      fee_price_def Let_def)

lemma bid_le:
  assumes "valid_order a" "valid_order b"
  shows "compareBidOrder rnd a b \<le> 0 \<longleftrightarrow> bid_price rnd b < bid_price rnd a \<or> bid_price rnd a = bid_price rnd b \<and>
    (fee_price rnd b < fee_price rnd a \<or> fee_price rnd a = fee_price rnd b \<and> xval (sl_expiry a) \<le> xval (sl_expiry b))"
  using assms
  by (auto simp: valid_order_def compareBidOrder_def compareOrderByFeeRatio_def comparedTo_def bid_price_def
      fee_price_def Let_def)

interpretation ask: comparator "\<lambda>a b. compareAskOrder rnd (sra_order a) (sra_order b)" "\<lambda>a. valid_order (sra_order a)" for rnd
  by unfold_locales (auto simp: ask_le)

interpretation bid: comparator "\<lambda>a b. compareBidOrder rnd (sra_order a) (sra_order b)" "\<lambda>a. valid_order (sra_order a)" for rnd
  by unfold_locales (auto simp: bid_le)

lemma groupByFreshness_filter:
  "groupByFreshness now orders buffer =
     (filter (\<lambda>x. isFreshOrder now x buffer) orders, filter (\<lambda>x. \<not> isFreshOrder now x buffer) orders)"
  by (induction orders) auto

section \<open>Pages of a collection\<close>

lemma slice_index_nat [simp]: "slice_index n (Fin (of_nat k)) = min k n"
  using round_mode_of_int[of ROUND_DOWN "int k"] by (simp add: Let_def del: round_mode.simps round_mode_of_int)

lemma page_records:
  assumes "1 \<le> p" "p * n < 2 ^ 53" "1 \<le> n"
  shows "pc_records (paginate xs (Fin (of_nat p)) (Fin (of_nat n))) = take n (drop ((p - 1) * n) xs)"
proof -
  have "p \<le> p * n" using assms(3) by (metis mult.right_neutral mult_le_mono2)
  then have "p < 2 ^ 53" using assms(2) by linarith
  have p1: "of_nat p - 1 = (of_nat (p - 1) :: rat)" using assms(1) by (simp add: of_nat_diff)
  have "(p - 1) * n \<le> p * n" by simp
  then have small: "(p - 1) * n < 2 ^ 53" using assms(2) by linarith
  have "p - 1 < 2 ^ 53" using \<open>p < 2 ^ 53\<close> by linarith
  then have "rnd64 (of_nat p - 1) = of_nat (p - 1)" unfolding p1 by (rule rnd64_of_nat)
  then have "js_sub (Fin (of_nat p)) 1 = Fin (of_nat (p - 1))" by (simp only: xnum_arith(2) js_ops_Fin(2))
  then have slice: "pc_records (paginate xs (Fin (of_nat p)) (Fin (of_nat n))) =
      js_slice xs (Fin (of_nat ((p - 1) * n))) (Fin (of_nat (p * n)))"
    using js_mul_of_nat[OF small] js_mul_of_nat[OF assms(2)]
    by (simp only: paginate_def paginateSerialize_def PaginatedCollection.simps)
  have "p * n = (p - 1) * n + n" using assms(1) by (cases p) auto
  then show ?thesis
    unfolding slice js_slice_def Let_def slice_index_nat
    by (cases "(p - 1) * n \<le> length xs") (auto simp: min_def)
qed

section \<open>Text\<close>

text \<open>What the configured number formatting is relied on for.\<close>

locale number_text =
  fixes print :: "BigNumber \<Rightarrow> string" and parse :: "string \<Rightarrow> BigNumber"
  assumes parse_print: "parse (print (Fin (of_nat n))) = Fin (of_nat n)"

lemma int_string_nat: "int_string b (Fin (of_nat n)) = to_base b n"
  by (simp add: int_string_def)

interpretation decimal: number_text "int_string 10" "bn_of_base 10"
  using to_base_value[of 10] by unfold_locales (simp add: int_string_nat bn_of_base_eq)

lemma decimal_digits: "c \<in> set (to_base 10 n) \<Longrightarrow> is_digit c"
proof (induction "10 :: nat" n rule: to_base.induct)
  case (1 n)
  have dig: "list_all (\<lambda>k. is_digit (hex_digits ! k)) [0..<10]" by code_simp
  have "is_digit (hex_digits ! (n mod 10))" "n < 10 \<Longrightarrow> is_digit (hex_digits ! n)"
    using dig by (simp_all add: list_all_iff)
  then show ?case using 1 by (subst (asm) (2) to_base.simps) (auto split: if_split_asm)
qed

lemma parseInt_print:
  assumes "n < 2 ^ 53"
  shows "parseInt10 (to_base 10 n) = Fin (of_nat n)"
proof -
  have ds: "\<forall>c \<in> set (to_base 10 n). is_digit c" using decimal_digits by blast
  have "\<not> is_space c \<and> c \<notin> set ''+-''" if "is_digit c" for c
    using that by (auto simp: is_digit_def is_space_def)
  then have front: "dropWhile is_space (to_base 10 n) = to_base 10 n" "hd (to_base 10 n) \<notin> set ''+-''"
    using ds by (cases "to_base 10 n"; auto)+
  have all: "takeWhile is_digit (to_base 10 n) = to_base 10 n" using ds by (simp add: takeWhile_eq_all_conv)
  have "of_base 10 (to_base 10 n) = n" using to_base_value[of 10 n] by simp
  then show ?thesis
    using front rnd64_of_nat[OF assms] by (simp add: parseInt10_def Let_def all del: takeWhile_eq_all_conv)
qed

text \<open>A signature and an order as clients post them.\<close>

definition signature_wf :: "Signature \<Rightarrow> bool" where
  "signature_wf sig \<longleftrightarrow>
     (\<exists>t v. signatureType sig = Fin (of_nat t) \<and> sig_v sig = Fin (of_nat v) \<and> t < 2 ^ 53 \<and> v < 2 ^ 53) \<and>
     CHR '','' \<notin> set (sig_r sig) \<and> CHR '','' \<notin> set (sig_s sig)"

definition natural :: "BigNumber \<Rightarrow> bool" where
  "natural x \<longleftrightarrow> (\<exists>n. x = Fin (of_nat n))"

definition order_wf :: "SRAOrder \<Rightarrow> bool" where
  "order_wf order \<longleftrightarrow>
     signature_wf (sl_signature (sra_order order)) \<and>
     natural (sl_takerTokenFeeAmount (sra_order order)) \<and> natural (sl_makerAmount (sra_order order)) \<and>
     natural (sl_takerAmount (sra_order order)) \<and> natural (sl_salt (sra_order order)) \<and>
     natural (sl_expiry (sra_order order)) \<and> natural (md_remainingFillableTakerAmount (sra_metaData order))"

lemma signature_roundtrip:
  assumes "signature_wf sig"
  shows "deserializeSignature (serializeSignature sig) = Inr sig"
proof -
  obtain t v where tv: "signatureType sig = Fin (of_nat t)" "sig_v sig = Fin (of_nat v)" "t < 2 ^ 53" "v < 2 ^ 53"
    and rs: "CHR '','' \<notin> set (sig_r sig)" "CHR '','' \<notin> set (sig_s sig)"
    using assms by (auto simp: signature_wf_def)
  have no_comma: "CHR '','' \<notin> set (to_base 10 n)" for n
    using decimal_digits[of "CHR '',''" n] by (auto simp: is_digit_def)
  have "split_on (CHR '','') (serializeSignature sig) = [to_base 10 t, sig_r sig, sig_s sig, to_base 10 v]"
    unfolding serializeSignature_def tv int_string_nat using rs no_comma by (intro split_join_with) auto
  then show ?thesis
    using tv parseInt_print by (simp add: deserializeSignature_def Let_def)
qed

context number_text
begin

lemma natural_roundtrip: "natural x \<Longrightarrow> parse (print x) = x"
  using parse_print by (auto simp: natural_def)

lemma row_roundtrip:
  assumes "order_wf order" "sl_chainId (sra_order order) = chainId"
  shows "deserializeOrderToSRAOrder parse chainId (serializeOrder print order) =
      Inr (order\<lparr>sra_metaData := (sra_metaData order)\<lparr>md_state := None, md_createdAt := None\<rparr>\<rparr>)"
    "deserializeOrderToSRAOrder parse chainId (serializePersistentOrder print order) =
      Inr (order\<lparr>sra_metaData := (sra_metaData order)
        \<lparr>md_state := Some (case md_state (sra_metaData order) of Some s \<Rightarrow> s | None \<Rightarrow> Added), md_createdAt := None\<rparr>\<rparr>)"
  using assms signature_roundtrip
  by (simp_all add: deserializeOrderToSRAOrder_def deserializeOrder_def serializePersistentOrder_def serializeOrder_def
      Let_def order_wf_def natural_roundtrip)

end

section \<open>Properties\<close>

text \<open>C26: An order survives the database: with any formatting of numbers that reads back what it printed, the row
  of an order read again is the same order with the same hash and fillable amount; a persistent row also
  keeps the state, and one that had none becomes \<open>Added\<close>.\<close>

theorem order_row_roundtrip:
  assumes "\<And>n. parse (print (Fin (of_nat n))) = Fin (of_nat n)"
    "order_wf order" "sl_chainId (sra_order order) = chainId"
  shows "deserializeOrderToSRAOrder parse chainId (serializeOrder print order) =
      Inr (order\<lparr>sra_metaData := (sra_metaData order)\<lparr>md_state := None, md_createdAt := None\<rparr>\<rparr>) \<and>
    deserializeOrderToSRAOrder parse chainId (serializePersistentOrder print order) =
      Inr (order\<lparr>sra_metaData := (sra_metaData order)
        \<lparr>md_state := Some (case md_state (sra_metaData order) of Some s \<Rightarrow> s | None \<Rightarrow> Added), md_createdAt := None\<rparr>\<rparr>)"
  using number_text.row_roundtrip[OF number_text.intro[OF assms(1)] assms(2,3)] by (rule conjI)

definition sample_sra_order :: "rat \<Rightarrow> rat \<Rightarrow> SRAOrder" where
  "sample_sra_order maker taker =
     \<lparr>sra_order =
        \<lparr>sl_signature = \<lparr>signatureType = Fin (of_nat 2), sig_r = ''0xaa'', sig_s = ''0xbb'', sig_v = Fin (of_nat 27)\<rparr>,
         sl_sender = NULL_ADDRESS, sl_maker = ''0xm'', sl_taker = NULL_ADDRESS,
         sl_takerTokenFeeAmount = Fin (of_nat 0), sl_makerAmount = Fin maker, sl_takerAmount = Fin taker,
         sl_makerToken = ''0xa'', sl_takerToken = ''0xb'', sl_salt = Fin (of_nat 7), sl_verifyingContract = ''0xe'',
         sl_feeRecipient = NULL_ADDRESS, sl_expiry = Fin (of_nat 2000000000), sl_chainId = Mainnet, sl_pool = ''0x0''\<rparr>,
      sra_metaData = \<lparr>md_orderHash = ''0xh'', md_remainingFillableTakerAmount = Fin taker, md_state = None,
        md_createdAt = None\<rparr>\<rparr>"

theorem order_row_roundtrip_witness:
  "deserializeOrderToSRAOrder (bn_of_base 10) Mainnet (serializeOrder (int_string 10) (sample_sra_order (of_nat 5) (of_nat 9))) =
     Inr (sample_sra_order (of_nat 5) (of_nat 9))"
proof -
  have "natural (Fin (of_nat n))" for n by (auto simp: natural_def)
  then have "order_wf (sample_sra_order (of_nat 5) (of_nat 9))"
    unfolding order_wf_def signature_wf_def sample_sra_order_def
    by (auto simp del: of_nat_numeral of_nat_0 intro!: exI[of _ "2 :: nat"] exI[of _ "27 :: nat"])
  then show ?thesis
    using order_row_roundtrip[of "bn_of_base 10" "int_string 10" "sample_sra_order (of_nat 5) (of_nat 9)" Mainnet]
      decimal.parse_print
    by (simp add: sample_sra_order_def del: of_nat_numeral)
qed

text \<open>The pages of a collection partition it: the records of pages 1 to \<open>k\<close>, one after the other, are the first
  \<open>k\<close> times the page size records of the collection, in order, so that enough pages give all of it, each record once,
  and every page reports the size of the whole.\<close>

theorem pages_partition:
  assumes "1 \<le> n" "k * n < 2 ^ 53"
  shows "concat (map (\<lambda>p. pc_records (paginate xs (Fin (of_nat p)) (Fin (of_nat n)))) [1..<Suc k]) = take (k * n) xs \<and>
    (\<forall>p. pc_total (paginate xs (Fin (of_nat p)) (Fin (of_nat n))) = Fin (of_nat (length xs))) \<and>
    (length xs \<le> k * n \<longrightarrow>
       concat (map (\<lambda>p. pc_records (paginate xs (Fin (of_nat p)) (Fin (of_nat n)))) [1..<Suc k]) = xs)"
proof -
  have pages: "concat (map (\<lambda>p. pc_records (paginate xs (Fin (of_nat p)) (Fin (of_nat n)))) [1..<Suc k]) = take (k * n) xs"
    using assms(2)
  proof (induction k)
    case (Suc k)
    then have "k * n < 2 ^ 53" by simp
    moreover have "pc_records (paginate xs (Fin (of_nat (Suc k))) (Fin (of_nat n))) = take n (drop (k * n) xs)"
      using page_records[of "Suc k" n xs] Suc.prems assms(1) by simp
    ultimately show ?case using Suc.IH by (simp add: take_add[symmetric] add.commute)
  qed simp
  then show ?thesis by (auto simp: paginate_def paginateSerialize_def)
qed

theorem pages_partition_witness:
  "concat (map (\<lambda>p. pc_records (paginate [1, 2, 3, 4, 5 :: int] (Fin (of_nat p)) (Fin (of_nat 2)))) [1..<Suc 3]) = [1, 2, 3, 4, 5]"
proof -
  have "1 \<le> (2 :: nat)" "3 * 2 < (2 ^ 53 :: nat)" "length [1, 2, 3, 4, 5 :: int] \<le> 3 * 2" by simp_all
  with pages_partition[of 2 3 "[1, 2, 3, 4, 5 :: int]"] show ?thesis by blast
qed

end
