(* ===== verification/Order_Book.thy ===== *)
theory Order_Book
  imports Order_Utils
begin

text \<open>
  The order book service (\<open>services/orderbook_service.ts\<close>), the client of the order watcher
  (\<open>utils/order_watcher.ts\<close>) and the handlers of the Standard Relayer API (\<open>handlers/sra_handlers.ts\<close>). The
  database of typeorm is a record of its queries. The schema validator, the UUID check, order hashes, the formatting of numbers and the HTTP
  client are parameters. Metrics are left out.
\<close>

section \<open>Queries\<close>

datatype FieldTest =
    Equals string
  | InValues "string list"
  | InStates "OrderEventEndState list"
  | MoreThanOrEqual js_number

type_synonym WhereClause = "(string \<times> FieldTest) list"

text \<open>The clauses of a query are alternatives; the window is the rows to skip and to take, in order of the hash.\<close>

record OrderDb =
  db_findOne :: "string \<Rightarrow> SignedOrderV4Entity option"
  db_findOne_persistent :: "string \<Rightarrow> SignedOrderV4Entity option"
  db_find :: "WhereClause list \<Rightarrow> (js_number \<times> js_number) option \<Rightarrow> SignedOrderV4Entity list"
  db_count :: "WhereClause list \<Rightarrow> nat"
  db_find_persistent :: "WhereClause list \<Rightarrow> (js_number \<times> js_number) option \<Rightarrow> SignedOrderV4Entity list"
  db_count_persistent :: "WhereClause list \<Rightarrow> nat"

text \<open>A failed POST of axios: the data of the response, if there was one, and whether the request was made.\<close>

record AxiosError =
  ax_response :: "ValidationErrorItem list option option"
  ax_request :: bool

record OrderBookService =
  ob_db :: OrderDb
  ob_CHAIN_ID :: ChainId
  ob_rnd :: "rat \<Rightarrow> rat"
  ob_parse :: "string \<Rightarrow> BigNumber"
  ob_now :: js_number \<comment> \<open>\<open>Date.now()\<close>\<close>
  ob_post :: "SignedLimitOrder list \<Rightarrow> AxiosError + unit"
  ob_getHash :: "SignedLimitOrder \<Rightarrow> string"
  ob_SRA_ORDER_EXPIRATION_BUFFER_SECONDS :: js_number
  ob_MAX_ORDER_EXPIRATION_BUFFER_SECONDS :: js_number
  ob_whitelistedApiKeys :: "string list"

section \<open>The order watcher\<close>

text \<open>\<open>err.response.data\<close> of an error without a response is itself an error.\<close>

definition watcher_postOrdersAsync ::
  "(SignedLimitOrder list \<Rightarrow> AxiosError + unit) \<Rightarrow> SignedLimitOrder list \<Rightarrow> service_error + unit" where
  "watcher_postOrdersAsync post orders =
     (case post orders of
        Inr _ \<Rightarrow> Inr ()
      | Inl err \<Rightarrow>
          (case ax_response err of
             None \<Rightarrow> Inl (Thrown TypeError)
           | Some (Some validationErrors) \<Rightarrow> Inl (ValidationError validationErrors)
           | Some None \<Rightarrow>
               if ax_request err then Inl (InternalServerError ''failed to submit order to order-watcher'')
               else Inl (InternalServerError ''failed to prepare the order-watcher request'')))"

section \<open>The service\<close>

definition deserialize :: "OrderBookService \<Rightarrow> SignedOrderV4Entity \<Rightarrow> service_error + SRAOrder" where
  "deserialize ob entity = thrown (deserializeOrderToSRAOrder (ob_parse ob) (ob_CHAIN_ID ob) entity)"

definition isAllowedPersistentOrders :: "OrderBookService \<Rightarrow> string \<Rightarrow> bool" where
  "isAllowedPersistentOrders ob apiKey \<longleftrightarrow> apiKey \<in> set (ob_whitelistedApiKeys ob)"

definition getOrderByHashIfExistsAsync :: "OrderBookService \<Rightarrow> string \<Rightarrow> service_error + SRAOrder option" where
  "getOrderByHashIfExistsAsync ob orderHash =
     (case (case db_findOne (ob_db ob) orderHash of Some e \<Rightarrow> Some e | None \<Rightarrow> db_findOne_persistent (ob_db ob) orderHash) of
        None \<Rightarrow> Inr None
      | Some entity \<Rightarrow> res_bind (deserialize ob entity) (\<lambda>order. Inr (Some order)))"

text \<open>\<open>orders.filter(orderUtils.isFreshOrder)\<close>: \<open>filter\<close> passes the index as the second argument, which is the
  buffer in seconds.\<close>

fun filter_fresh :: "js_number \<Rightarrow> nat \<Rightarrow> SRAOrder list \<Rightarrow> SRAOrder list" where
  "filter_fresh now i [] = []"
| "filter_fresh now i (x # xs) =
     (if isFreshOrder now x (Fin (of_nat i)) then x # filter_fresh now (Suc i) xs else filter_fresh now (Suc i) xs)"

definition book_side ::
  "OrderBookService \<Rightarrow> (SignedLimitOrder \<Rightarrow> SignedLimitOrder \<Rightarrow> int) \<Rightarrow> SignedOrderV4Entity list \<Rightarrow>
   service_error + SRAOrder list" where
  "book_side ob cmp entities =
     res_bind (res_map (deserialize ob) entities)
     (\<lambda>orders. Inr (js_sort (\<lambda>a b. cmp (sra_order a) (sra_order b)) (filter_fresh (ob_now ob) 0 orders)))"

definition getOrderBookAsync ::
  "OrderBookService \<Rightarrow> js_number \<Rightarrow> js_number \<Rightarrow> string \<Rightarrow> string \<Rightarrow>
   service_error + SRAOrder PaginatedCollection \<times> SRAOrder PaginatedCollection" where
  "getOrderBookAsync ob page perPage baseToken quoteToken =
     (let entities = db_find (ob_db ob)
            [[(''takerToken'', InValues [baseToken, quoteToken]), (''makerToken'', InValues [baseToken, quoteToken])]] None;
          bidEntities = filter (\<lambda>e. en_takerToken e = baseToken \<and> en_makerToken e = quoteToken) entities;
          askEntities = filter (\<lambda>e. en_takerToken e = quoteToken \<and> en_makerToken e = baseToken) entities
      in res_bind (book_side ob (compareBidOrder (ob_rnd ob)) bidEntities)
      (\<lambda>bids. res_bind (book_side ob (compareAskOrder (ob_rnd ob)) askEntities)
      (\<lambda>asks. Inr (paginate bids page perPage, paginate asks page perPage))))"

definition SignedOrderV4Entity_columns :: "string list" where
  "SignedOrderV4Entity_columns =
     [''hash'', ''makerToken'', ''takerToken'', ''makerAmount'', ''takerAmount'', ''maker'', ''taker'', ''pool'', ''expiry'',
      ''salt'', ''verifyingContract'', ''takerTokenFeeAmount'', ''sender'', ''feeRecipient'', ''signature'',
      ''remainingFillableTakerAmount'', ''createdAt'']"

definition removedStates :: "OrderEventEndState list" where
  "removedStates = [Cancelled, Expired, FullyFilled, Invalid, StoppedWatching, Unfunded]"

text \<open>The alternatives of a query: the fields of the order, and a trader on either side.\<close>

definition order_filters :: "(string \<times> string) list \<Rightarrow> string option \<Rightarrow> WhereClause list" where
  "order_filters orderFieldFilters trader =
     (let orderFilter = map (\<lambda>(k, v). (k, Equals v)) (filter (\<lambda>(k, v). k \<in> set SignedOrderV4Entity_columns) orderFieldFilters)
      in if truthy_string trader
         then [AList.update ''maker'' (Equals (the trader)) orderFilter, AList.update ''taker'' (Equals (the trader)) orderFilter]
         else [orderFilter])"

definition minExpiryTime :: "OrderBookService \<Rightarrow> js_number" where
  "minExpiryTime ob =
     js_add (js_floor (js_div (ob_now ob) (Fin 1000))) (ob_SRA_ORDER_EXPIRATION_BUFFER_SECONDS ob)"

definition getOrdersAsync ::
  "OrderBookService \<Rightarrow> js_number \<Rightarrow> js_number \<Rightarrow> (string \<times> string) list \<Rightarrow> bool \<Rightarrow> string option \<Rightarrow>
   service_error + SRAOrder PaginatedCollection" where
  "getOrdersAsync ob page perPage orderFieldFilters isUnfillable trader =
     (if isUnfillable \<and> map_of orderFieldFilters ''maker'' = None
      then Inl (ValidationError [\<lparr>ve_field = ''maker'', ve_code = RequiredField,
              ve_reason = ''MAKER_ADDRESS_REQUIRED_TO_FETCH_UNFILLABLE_ORDERS''\<rparr>])
      else let filters = order_filters orderFieldFilters trader;
               withExpirationCheck = map (AList.update ''expiry'' (MoreThanOrEqual (minExpiryTime ob))) filters;
               window = Some (paginateDBFilters page perPage);
               removed = map (AList.update ''orderState'' (InStates removedStates)) filters
           in res_bind (res_map (deserialize ob) (db_find (ob_db ob) withExpirationCheck window))
           (\<lambda>apiOrders. res_bind (if isUnfillable
                  then res_map (deserialize ob) (db_find_persistent (ob_db ob) removed window) else Inr [])
           (\<lambda>persistentOrders.
              let totalCount = db_count (ob_db ob) withExpirationCheck +
                               (if isUnfillable then db_count_persistent (ob_db ob) removed else 0)
              in Inr (paginateSerialize (apiOrders @ persistentOrders) (Fin (of_nat totalCount)) page perPage))))"

text \<open>The first order the log would name, if any.\<close>

definition logErrorOnExpiredOrders :: "OrderBookService \<Rightarrow> SRAOrder list \<Rightarrow> SRAOrder option" where
  "logErrorOnExpiredOrders ob expired =
     (let maxExpirationTimeSeconds = js_add (js_div (ob_now ob) (Fin 1000)) (ob_MAX_ORDER_EXPIRATION_BUFFER_SECONDS ob)
      in find (\<lambda>order. maxExpirationTimeSeconds < toNumber (sl_expiry (sra_order order))) expired)"

definition getBatchOrdersAsync ::
  "OrderBookService \<Rightarrow> js_number \<Rightarrow> js_number \<Rightarrow> string list \<Rightarrow> string list \<Rightarrow>
   service_error + SRAOrder PaginatedCollection \<times> SRAOrder option" where
  "getBatchOrdersAsync ob page perPage makerTokens takerTokens =
     res_bind (res_map (deserialize ob)
        (db_find (ob_db ob) [[(''makerToken'', InValues makerTokens), (''takerToken'', InValues takerTokens)]] None))
     (\<lambda>apiOrders. let (fresh, expired) = groupByFreshness (ob_now ob) apiOrders (ob_SRA_ORDER_EXPIRATION_BUFFER_SECONDS ob)
                   in Inr (paginate fresh page perPage, logErrorOnExpiredOrders ob expired))"

definition addOrderAsync :: "OrderBookService \<Rightarrow> SignedLimitOrder \<Rightarrow> service_error + unit" where
  "addOrderAsync ob signedOrder = watcher_postOrdersAsync (ob_post ob) [signedOrder]"

definition addOrdersAsync :: "OrderBookService \<Rightarrow> SignedLimitOrder list \<Rightarrow> service_error + unit" where
  "addOrdersAsync ob signedOrders = watcher_postOrdersAsync (ob_post ob) signedOrders"

text \<open>The rows saved as persistent orders: those of the posted hashes found in the database.\<close>

definition addPersistentOrdersAsync ::
  "OrderBookService \<Rightarrow> SignedLimitOrder list \<Rightarrow> service_error + SignedOrderV4Entity list" where
  "addPersistentOrdersAsync ob signedOrders =
     res_bind (watcher_postOrdersAsync (ob_post ob) signedOrders)
     (\<lambda>_. Inr (db_find (ob_db ob) [[(''hash'', InValues (map (ob_getHash ob) signedOrders))]] None))"

section \<open>Handlers\<close>

text \<open>The JSON of a posted order; absent fields have defaults, and the sender is always the null address.\<close>

record RawOrder =
  raw_signature :: Signature
  raw_maker :: string
  raw_taker :: "string option"
  raw_takerTokenFeeAmount :: "string option"
  raw_makerAmount :: string
  raw_takerAmount :: string
  raw_makerToken :: string
  raw_takerToken :: string
  raw_salt :: string
  raw_verifyingContract :: string
  raw_feeRecipient :: "string option"
  raw_expiry :: string
  raw_chainId :: ChainId
  raw_pool :: "string option"

definition NULL_POOL :: string where
  "NULL_POOL = ''0x0000000000000000000000000000000000000000000000000000000000000000''"

definition unmarshallOrder :: "(string \<Rightarrow> BigNumber) \<Rightarrow> RawOrder \<Rightarrow> SignedLimitOrder" where
  "unmarshallOrder parse raw =
     (let default = (\<lambda>d x. case x of Some y \<Rightarrow> y | None \<Rightarrow> d)
      in \<lparr>sl_signature = raw_signature raw, sl_sender = NULL_ADDRESS, sl_maker = raw_maker raw,
          sl_taker = default NULL_ADDRESS (raw_taker raw),
          sl_takerTokenFeeAmount =
            (if truthy_string (raw_takerTokenFeeAmount raw) then parse (the (raw_takerTokenFeeAmount raw)) else 0),
          sl_makerAmount = parse (raw_makerAmount raw), sl_takerAmount = parse (raw_takerAmount raw),
          sl_makerToken = raw_makerToken raw, sl_takerToken = raw_takerToken raw, sl_salt = parse (raw_salt raw),
          sl_verifyingContract = raw_verifyingContract raw,
          sl_feeRecipient = default NULL_ADDRESS (raw_feeRecipient raw), sl_expiry = parse (raw_expiry raw),
          sl_chainId = raw_chainId raw, sl_pool = default NULL_POOL (raw_pool raw)\<rparr>)"

record SraEnv =
  sra_service :: OrderBookService
  sra_validSchema :: "RawOrder list \<Rightarrow> bool"
  sra_validQuery :: "string \<Rightarrow> (string \<times> string) list \<Rightarrow> bool" \<comment> \<open>by the name of the schema\<close>
  sra_isValidUUID :: "string \<Rightarrow> bool"
  sra_WHITELISTED_TOKENS :: "string list option" \<comment> \<open>\<open>None\<close> is \<open>'*'\<close>\<close>
  sra_FEE_RECIPIENT_ADDRESS :: string
  sra_TAKER_FEE_UNIT_AMOUNT :: BigNumber

definition validateAssetTokenOrThrow :: "string list \<Rightarrow> string \<Rightarrow> string \<Rightarrow> service_error + unit" where
  "validateAssetTokenOrThrow allowedTokens tokenAddress field =
     (if tokenAddress \<notin> set allowedTokens
      then Inl (ValidationError [\<lparr>ve_field = field, ve_code = ValueOutOfRange, ve_reason = tokenAddress @ '' not supported''\<rparr>]) else Inr ())"

definition validate_tokens :: "SraEnv \<Rightarrow> SignedLimitOrder list \<Rightarrow> service_error + unit" where
  "validate_tokens env orders =
     (case sra_WHITELISTED_TOKENS env of
        None \<Rightarrow> Inr ()
      | Some allowedTokens \<Rightarrow>
          res_bind (res_map (\<lambda>order. res_bind (validateAssetTokenOrThrow allowedTokens (sl_makerToken order) ''makerToken'')
            (\<lambda>_. validateAssetTokenOrThrow allowedTokens (sl_takerToken order) ''takerToken'')) orders) (\<lambda>_. Inr ()))"

text \<open>What a POST leaves: whether the OK response was sent, and the error thrown, if any. A confirmation that is
  skipped is sent before the orders are added.\<close>

record PostOutcome =
  sent_ok :: bool
  thrown_error :: "service_error option"

definition post_with :: "(SignedLimitOrder list \<Rightarrow> service_error + 'a) \<Rightarrow> SraEnv \<Rightarrow> bool \<Rightarrow> RawOrder list \<Rightarrow> PostOutcome" where
  "post_with add env shouldSkipConfirmation body =
     (let orders = map (unmarshallOrder (ob_parse (sra_service env))) body;
          checked = (if sra_validSchema env body then validate_tokens env orders
                     else Inl (ValidationError [\<lparr>ve_field = ''body'', ve_code = IncorrectFormat, ve_reason = ''schema''\<rparr>]))
      in case checked of
           Inl e \<Rightarrow> \<lparr>sent_ok = False, thrown_error = Some e\<rparr>
         | Inr _ \<Rightarrow>
             (case add orders of
                Inl e \<Rightarrow> \<lparr>sent_ok = shouldSkipConfirmation, thrown_error = Some e\<rparr>
              | Inr _ \<Rightarrow> \<lparr>sent_ok = True, thrown_error = None\<rparr>))"

definition postOrderAsync :: "SraEnv \<Rightarrow> bool \<Rightarrow> RawOrder \<Rightarrow> PostOutcome" where
  "postOrderAsync env skip body = post_with (\<lambda>orders. addOrderAsync (sra_service env) (hd orders)) env skip [body]"

definition postOrdersAsync :: "SraEnv \<Rightarrow> bool \<Rightarrow> RawOrder list \<Rightarrow> PostOutcome" where
  "postOrdersAsync env skip body = post_with (addOrdersAsync (sra_service env)) env skip body"

definition postPersistentOrderAsync :: "SraEnv \<Rightarrow> string option \<Rightarrow> bool \<Rightarrow> RawOrder \<Rightarrow> PostOutcome" where
  "postPersistentOrderAsync env apiKey skip body =
     (case apiKey of
        None \<Rightarrow> \<lparr>sent_ok = False, thrown_error = Some InvalidAPIKeyError\<rparr>
      | Some key \<Rightarrow>
          if \<not> sra_isValidUUID env key \<or> \<not> isAllowedPersistentOrders (sra_service env) key
          then \<lparr>sent_ok = False, thrown_error = Some InvalidAPIKeyError\<rparr>
          else post_with (addPersistentOrdersAsync (sra_service env)) env skip [body])"

definition getOrderByHashAsync :: "SraEnv \<Rightarrow> string \<Rightarrow> service_error + SRAOrder" where
  "getOrderByHashAsync env orderHash =
     res_bind (getOrderByHashIfExistsAsync (sra_service env) orderHash)
     (\<lambda>found. case found of None \<Rightarrow> Inl NotFoundError | Some order \<Rightarrow> Inr order)"

definition feeRecipients :: "SraEnv \<Rightarrow> js_number option \<Rightarrow> js_number option \<Rightarrow> service_error + string PaginatedCollection" where
  "feeRecipients env queryPage queryPerPage =
     res_bind (parsePaginationConfig queryPage queryPerPage)
     (\<lambda>(page, perPage). Inr (paginate [toLowerCase (sra_FEE_RECIPIENT_ADDRESS env)] page perPage))"

record OrderConfigResponse =
  oc_sender :: string
  oc_feeRecipient :: string
  oc_takerTokenFeeAmount :: BigNumber

definition getOrderConfig :: "SraEnv \<Rightarrow> OrderConfigResponse" where
  "getOrderConfig env =
     \<lparr>oc_sender = NULL_ADDRESS, oc_feeRecipient = toLowerCase (sra_FEE_RECIPIENT_ADDRESS env),
      oc_takerTokenFeeAmount = sra_TAKER_FEE_UNIT_AMOUNT env\<rparr>"

definition validate_query :: "SraEnv \<Rightarrow> string \<Rightarrow> (string \<times> string) list \<Rightarrow> service_error + unit" where
  "validate_query env schema query =
     (if sra_validQuery env schema query then Inr () else Inl (ValidationError [\<lparr>ve_field = ''query'', ve_code = IncorrectFormat, ve_reason = schema\<rparr>]))"

definition orderConfig :: "SraEnv \<Rightarrow> (string \<times> string) list \<Rightarrow> service_error + OrderConfigResponse" where
  "orderConfig env body =
     res_bind (validate_query env ''sraOrderConfigPayloadSchema'' body) (\<lambda>_. Inr (getOrderConfig env))"

definition orderbookAsync ::
  "SraEnv \<Rightarrow> js_number option \<Rightarrow> js_number option \<Rightarrow> string \<Rightarrow> string \<Rightarrow>
   service_error + SRAOrder PaginatedCollection \<times> SRAOrder PaginatedCollection" where
  "orderbookAsync env queryPage queryPerPage baseToken quoteToken =
     res_bind (validate_query env ''sraOrderbookQuerySchema'' [(''baseToken'', baseToken), (''quoteToken'', quoteToken)])
     (\<lambda>_. res_bind (parsePaginationConfig queryPage queryPerPage)
     (\<lambda>(page, perPage). getOrderBookAsync (sra_service env) page perPage (toLowerCase baseToken) (toLowerCase quoteToken)))"

definition ordersAsync ::
  "SraEnv \<Rightarrow> js_number option \<Rightarrow> js_number option \<Rightarrow> (string \<times> string) list \<Rightarrow> service_error + SRAOrder PaginatedCollection" where
  "ordersAsync env queryPage queryPerPage query =
     (let trader = (if truthy_string (map_of query ''trader'') then map_of query ''trader'' else None);
          isUnfillable = (map_of query ''unfillable'' = Some ''true'')
      in res_bind (validate_query env ''sraOrdersQuerySchema'' query)
         (\<lambda>_. res_bind (parsePaginationConfig queryPage queryPerPage)
         (\<lambda>(page, perPage). getOrdersAsync (sra_service env) page perPage query isUnfillable trader)))"

section \<open>The two sides of a book\<close>

lemma filter_fresh_enumerate:
  "filter_fresh now i xs = map snd (filter (\<lambda>(j, x). isFreshOrder now x (Fin (of_nat j))) (enumerate i xs))"
  by (induction xs arbitrary: i) auto

lemma fresh_not_expired:
  assumes "isFreshOrder (Fin now) x (Fin (of_nat j))" "sl_expiry (sra_order x) = Fin e"
  shows "now / 1000 < e"
proof (rule ccontr)
  assume "\<not> now / 1000 < e"
  then have "rnd64 e \<le> rnd64 (now / 1000)" using rnd64_mono by simp
  also have "\<dots> \<le> rnd64 (rnd64 (now / 1000) + of_nat j)"
    using rnd64_mono[of "rnd64 (now / 1000)" "rnd64 (now / 1000) + of_nat j"] by simp
  finally show False using assms by (simp add: isFreshOrder_def)
qed

lemma filter_fresh_not_expired:
  assumes "x \<in> set (filter_fresh (Fin now) i xs)" "sl_expiry (sra_order x) = Fin e"
  shows "x \<in> set xs \<and> now / 1000 < e"
  using assms fresh_not_expired by (auto simp: filter_fresh_enumerate in_set_enumerate_eq)

lemma deserialize_tokens:
  assumes "deserialize ob e = Inr x"
  shows "sl_makerToken (sra_order x) = en_makerToken e \<and> sl_takerToken (sra_order x) = en_takerToken e"
  using assms
  by (auto simp: deserialize_def thrown_def deserializeOrderToSRAOrder_def deserializeOrder_def res_bind_eq_Inr
      split: sum.split_asm)

definition best_ask :: "(rat \<Rightarrow> rat) \<Rightarrow> SRAOrder \<Rightarrow> SRAOrder \<Rightarrow> bool" where
  "best_ask rnd a b \<longleftrightarrow>
     (let a = sra_order a; b = sra_order b
      in ask_price rnd a < ask_price rnd b \<or> ask_price rnd a = ask_price rnd b \<and>
         (fee_price rnd b < fee_price rnd a \<or> fee_price rnd a = fee_price rnd b \<and> xval (sl_expiry a) \<le> xval (sl_expiry b)))"

definition best_bid :: "(rat \<Rightarrow> rat) \<Rightarrow> SRAOrder \<Rightarrow> SRAOrder \<Rightarrow> bool" where
  "best_bid rnd a b \<longleftrightarrow>
     (let a = sra_order a; b = sra_order b
      in bid_price rnd b < bid_price rnd a \<or> bid_price rnd a = bid_price rnd b \<and>
         (fee_price rnd b < fee_price rnd a \<or> fee_price rnd a = fee_price rnd b \<and> xval (sl_expiry a) \<le> xval (sl_expiry b)))"

text \<open>What one side lists: rows of the database with the tokens of the side, none of them expired, and no fresh
  row left out.\<close>

definition lists_side :: "OrderBookService \<Rightarrow> rat \<Rightarrow> string \<Rightarrow> string \<Rightarrow> SignedOrderV4Entity list \<Rightarrow> SRAOrder list \<Rightarrow> bool" where
  "lists_side ob now takerToken makerToken rows orders \<longleftrightarrow>
     (\<forall>x \<in> set orders. sl_takerToken (sra_order x) = takerToken \<and> sl_makerToken (sra_order x) = makerToken \<and>
        now / 1000 < xval (sl_expiry (sra_order x)) \<and> (\<exists>e \<in> set rows. deserialize ob e = Inr x)) \<and>
     (\<forall>e \<in> set rows. \<forall>x. deserialize ob e = Inr x \<longrightarrow> en_takerToken e = takerToken \<longrightarrow> en_makerToken e = makerToken \<longrightarrow>
        (\<forall>j \<le> length rows. isFreshOrder (Fin now) x (Fin (of_nat j))) \<longrightarrow> x \<in> set orders)"

lemma book_side_lists:
  assumes now: "ob_now ob = Fin now"
    and rows: "\<And>e x. e \<in> set rows \<Longrightarrow> deserialize ob e = Inr x \<Longrightarrow> valid_order (sra_order x)"
    and side: "book_side ob cmp (filter (\<lambda>e. en_takerToken e = t \<and> en_makerToken e = m) rows) = Inr orders"
  shows "lists_side ob now t m rows orders"
proof -
  let ?rows = "filter (\<lambda>e. en_takerToken e = t \<and> en_makerToken e = m) rows"
  obtain xs where xs: "res_map (deserialize ob) ?rows = Inr xs"
    and orders: "orders = js_sort (\<lambda>a b. cmp (sra_order a) (sra_order b)) (filter_fresh (Fin now) 0 xs)"
    using side by (auto simp: book_side_def res_bind_eq_Inr now)
  have set: "set orders = set (filter_fresh (Fin now) 0 xs)"
    using mset_js_sort[of _ "filter_fresh (Fin now) 0 xs"] unfolding orders by (metis set_mset_mset)
  have listed: "sl_takerToken (sra_order x) = t \<and> sl_makerToken (sra_order x) = m \<and>
      now / 1000 < xval (sl_expiry (sra_order x)) \<and> (\<exists>e \<in> set rows. deserialize ob e = Inr x)" if "x \<in> set orders" for x
  proof -
    have x: "x \<in> set xs" using that set by (auto simp: filter_fresh_enumerate in_set_enumerate_eq)
    then obtain e where e: "e \<in> set ?rows" "deserialize ob e = Inr x" using res_map_mem[OF xs] by blast
    then obtain d where d: "sl_expiry (sra_order x) = Fin d" using rows[of e x] by (auto simp: valid_order_def)
    show ?thesis
      using e deserialize_tokens[OF e(2)] d filter_fresh_not_expired[OF _ d, of now 0 xs] that set by auto
  qed
  have complete: "x \<in> set orders"
    if e: "e \<in> set rows" "deserialize ob e = Inr x" "en_takerToken e = t" "en_makerToken e = m"
      and fresh: "\<forall>j \<le> length rows. isFreshOrder (Fin now) x (Fin (of_nat j))" for e x
  proof -
    have l2: "list_all2 (\<lambda>e x. deserialize ob e = Inr x) ?rows xs" using xs by (simp add: res_map_Inr_iff)
    have "e \<in> set ?rows" using e by simp
    then obtain j where j: "j < length ?rows" "?rows ! j = e" unfolding in_set_conv_nth by blast
    then have "j < length xs" "xs ! j = x" using l2 e(2) by (auto simp: list_all2_conv_all_nth)
    moreover have "j \<le> length rows" using j(1) length_filter_le[of _ rows] by (metis le_trans less_imp_le)
    ultimately show ?thesis using fresh unfolding set filter_fresh_enumerate
      by (force simp: in_set_enumerate_eq intro!: image_eqI[where x = "(j, x)"])
  qed
  from listed complete show ?thesis unfolding lists_side_def by blast
qed

lemma book_side_sorted:
  assumes rows: "\<And>e x. e \<in> set rows \<Longrightarrow> deserialize ob e = Inr x \<Longrightarrow> valid_order (sra_order x)"
  shows "book_side ob (compareAskOrder rnd) rows = Inr asks \<Longrightarrow> sorted_wrt (best_ask rnd) asks"
    and "book_side ob (compareBidOrder rnd) rows = Inr bids \<Longrightarrow> sorted_wrt (best_bid rnd) bids"
proof -
  have valid: "\<forall>x \<in> set (filter_fresh now 0 xs). valid_order (sra_order x)"
    if "res_map (deserialize ob) rows = Inr xs" for xs now
    using res_map_mem[OF that] rows by (fastforce simp: filter_fresh_enumerate in_set_enumerate_eq)
  show "sorted_wrt (best_ask rnd) asks" if side: "book_side ob (compareAskOrder rnd) rows = Inr asks"
  proof -
    obtain xs where xs: "res_map (deserialize ob) rows = Inr xs"
      and asks: "asks = js_sort (\<lambda>a b. compareAskOrder rnd (sra_order a) (sra_order b)) (filter_fresh (ob_now ob) 0 xs)"
      using side by (auto simp: book_side_def res_bind_eq_Inr)
    note v = valid[OF xs, of "ob_now ob"]
    show ?thesis using ask.sorted_js_sort[OF v, of rnd] v unfolding asks[symmetric]
      by (auto simp: best_ask_def Let_def ask_le intro: sorted_wrt_mono_rel[rotated])
  qed
  show "sorted_wrt (best_bid rnd) bids" if side: "book_side ob (compareBidOrder rnd) rows = Inr bids"
  proof -
    obtain xs where xs: "res_map (deserialize ob) rows = Inr xs"
      and bids: "bids = js_sort (\<lambda>a b. compareBidOrder rnd (sra_order a) (sra_order b)) (filter_fresh (ob_now ob) 0 xs)"
      using side by (auto simp: book_side_def res_bind_eq_Inr)
    note v = valid[OF xs, of "ob_now ob"]
    show ?thesis using bid.sorted_js_sort[OF v, of rnd] v unfolding bids[symmetric]
      by (auto simp: best_bid_def Let_def bid_le intro: sorted_wrt_mono_rel[rotated])
  qed
qed

text \<open>The rows of the query of a book.\<close>

definition book_rows :: "OrderBookService \<Rightarrow> string \<Rightarrow> string \<Rightarrow> SignedOrderV4Entity list" where
  "book_rows ob baseToken quoteToken = db_find (ob_db ob)
     [[(''takerToken'', InValues [baseToken, quoteToken]), (''makerToken'', InValues [baseToken, quoteToken])]] None"

lemma book_side_total:
  assumes "\<And>e. e \<in> set rows \<Longrightarrow> \<exists>x. deserialize ob e = Inr x"
  shows "\<exists>orders. book_side ob cmp (filter P rows) = Inr orders"
proof -
  have "\<exists>xs. res_map (deserialize ob) (filter P rows) = Inr xs" using assms by (induction rows) (auto simp: res_bind_eq_Inr)
  then show ?thesis by (auto simp: book_side_def)
qed

text \<open>C25: The order book of a pair, when every row of the query deserializes to an order with positive amounts: the
  request succeeds; the bids are pages of a list in descending order of price and the asks of one in ascending order
  of price, each then by descending taker fee ratio and ascending expiry; a bid takes the base token and gives the
  quote token and an ask the reverse; no listed order has expired, each is a row of the query, and a row that stays
  fresh for as many seconds as there are rows is listed.\<close>

theorem order_book_best_first:
  assumes now: "ob_now ob = Fin now"
    and rows: "\<forall>e \<in> set (book_rows ob baseToken quoteToken). \<exists>x. deserialize ob e = Inr x \<and> valid_order (sra_order x)"
  shows "\<exists>bids asks.
    getOrderBookAsync ob page perPage baseToken quoteToken = Inr (paginate bids page perPage, paginate asks page perPage) \<and>
    sorted_wrt (best_bid (ob_rnd ob)) bids \<and> sorted_wrt (best_ask (ob_rnd ob)) asks \<and>
    lists_side ob now baseToken quoteToken (book_rows ob baseToken quoteToken) bids \<and>
    lists_side ob now quoteToken baseToken (book_rows ob baseToken quoteToken) asks"
proof -
  let ?rows = "book_rows ob baseToken quoteToken"
  have valid: "valid_order (sra_order x)" if "e \<in> set ?rows" "deserialize ob e = Inr x" for e x using rows that by auto
  have total: "\<exists>x. deserialize ob e = Inr x" if "e \<in> set ?rows" for e using rows that by blast
  obtain bids where bids: "book_side ob (compareBidOrder (ob_rnd ob))
      (filter (\<lambda>e. en_takerToken e = baseToken \<and> en_makerToken e = quoteToken) ?rows) = Inr bids"
    using book_side_total[OF total] by blast
  obtain asks where asks: "book_side ob (compareAskOrder (ob_rnd ob))
      (filter (\<lambda>e. en_takerToken e = quoteToken \<and> en_makerToken e = baseToken) ?rows) = Inr asks"
    using book_side_total[OF total] by blast
  have "getOrderBookAsync ob page perPage baseToken quoteToken = Inr (paginate bids page perPage, paginate asks page perPage)"
    using bids asks by (simp add: getOrderBookAsync_def book_rows_def Let_def)
  moreover have "sorted_wrt (best_bid (ob_rnd ob)) bids" "sorted_wrt (best_ask (ob_rnd ob)) asks"
    using book_side_sorted(2)[OF _ bids] book_side_sorted(1)[OF _ asks] valid by auto
  moreover have "lists_side ob now baseToken quoteToken ?rows bids" "lists_side ob now quoteToken baseToken ?rows asks"
    using book_side_lists[OF now valid bids] book_side_lists[OF now valid asks] by auto
  ultimately show ?thesis by blast
qed

definition sample_ob :: OrderBookService where
  "sample_ob =
     \<lparr>ob_db = \<lparr>db_findOne = (\<lambda>_. None), db_findOne_persistent = (\<lambda>_. None),
        db_find = (\<lambda>_ _. map (\<lambda>n. serializeOrder (int_string 10) (sample_sra_order (of_nat 5) (of_nat n))) [9, 7]),
        db_count = (\<lambda>_. 2),
        db_find_persistent = (\<lambda>_ _. map (\<lambda>n. serializeOrder (int_string 10) (sample_sra_order (of_nat 5) (of_nat n))) [8, 6]),
        db_count_persistent = (\<lambda>_. 2)\<rparr>,
      ob_CHAIN_ID = Mainnet, ob_rnd = (\<lambda>x. x), ob_parse = bn_of_base 10, ob_now = Fin 1600000000000,
      ob_post = (\<lambda>_. Inl \<lparr>ax_response = None, ax_request = True\<rparr>), ob_getHash = (\<lambda>_. ''0xh''),
      ob_SRA_ORDER_EXPIRATION_BUFFER_SECONDS = Fin 10, ob_MAX_ORDER_EXPIRATION_BUFFER_SECONDS = Fin 180,
      ob_whitelistedApiKeys = []\<rparr>"

lemma sample_row:
  "deserialize sample_ob (serializeOrder (int_string 10) (sample_sra_order (of_nat m) (of_nat n))) =
     Inr (sample_sra_order (of_nat m) (of_nat n))"
proof -
  have nat: "natural (Fin (of_nat k))" for k by (auto simp: natural_def)
  have "order_wf (sample_sra_order (of_nat m) (of_nat n))"
    using nat unfolding order_wf_def signature_wf_def sample_sra_order_def
    by (auto simp del: of_nat_numeral of_nat_0 intro!: exI[of _ "2 :: nat"] exI[of _ "27 :: nat"])
  then show ?thesis using decimal.row_roundtrip(1)[of "sample_sra_order (of_nat m) (of_nat n)" Mainnet]
    by (simp add: deserialize_def thrown_def sample_ob_def sample_sra_order_def del: of_nat_numeral)
qed

theorem order_book_best_first_witness:
  "\<exists>bids asks. getOrderBookAsync sample_ob 1 (Fin 20) ''0xa'' ''0xb'' = Inr (paginate bids 1 (Fin 20), paginate asks 1 (Fin 20)) \<and>
     sorted_wrt (best_ask (\<lambda>x. x)) asks \<and> lists_side sample_ob 1600000000000 ''0xb'' ''0xa'' (book_rows sample_ob ''0xa'' ''0xb'') asks"
proof -
  have rows: "book_rows sample_ob ''0xa'' ''0xb'' =
      map (\<lambda>n. serializeOrder (int_string 10) (sample_sra_order (of_nat 5) (of_nat n))) [9, 7]"
    by (simp add: book_rows_def sample_ob_def)
  have "valid_order (sra_order (sample_sra_order (of_nat 5) (of_nat n)))" if "n \<in> {7, 9}" for n
    using that by (auto simp: valid_order_def sample_sra_order_def)
  then have "\<forall>e \<in> set (book_rows sample_ob ''0xa'' ''0xb''). \<exists>x. deserialize sample_ob e = Inr x \<and> valid_order (sra_order x)"
    unfolding rows using sample_row[of 5] by (auto simp del: of_nat_numeral)
  moreover have "ob_now sample_ob = Fin 1600000000000" "ob_rnd sample_ob = (\<lambda>x. x)" by (simp_all add: sample_ob_def)
  ultimately show ?thesis
    using order_book_best_first[of sample_ob 1600000000000 "''0xa''" "''0xb''" 1 "Fin 20"] by metis
qed

section \<open>Batches and pages\<close>

lemma expired_within_buffer:
  assumes "\<not> isFreshOrder (Fin now) x (Fin b)" "sl_expiry (sra_order x) = Fin e" "b \<le> m"
  shows "\<not> js_add (js_div (Fin now) (Fin 1000)) (Fin m) < toNumber (sl_expiry (sra_order x))"
  using assms rnd64_mono[of "rnd64 (now / 1000) + b" "rnd64 (now / 1000) + m"] by (auto simp: isFreshOrder_def)

text \<open>The orders of a batch are the pages of the rows that are still fresh after the buffer, in the order of the
  query. The report on expired orders compares their expiry with a time in the future, so that it names no order
  whenever its buffer is at least that of freshness.\<close>

theorem batch_orders_fresh:
  assumes "ob_now ob = Fin now" "ob_SRA_ORDER_EXPIRATION_BUFFER_SECONDS ob = Fin b"
    "ob_MAX_ORDER_EXPIRATION_BUFFER_SECONDS ob = Fin m" "b \<le> m"
    and rows: "res_map (deserialize ob)
        (db_find (ob_db ob) [[(''makerToken'', InValues makerTokens), (''takerToken'', InValues takerTokens)]] None) = Inr orders"
    and expiry: "\<forall>x \<in> set orders. \<exists>e. sl_expiry (sra_order x) = Fin e"
  shows "getBatchOrdersAsync ob page perPage makerTokens takerTokens =
    Inr (paginate (filter (\<lambda>x. isFreshOrder (Fin now) x (Fin b)) orders) page perPage, None)"
proof -
  have "find (\<lambda>x. js_add (js_div (Fin now) (Fin 1000)) (Fin m) < toNumber (sl_expiry (sra_order x)))
      (filter (\<lambda>x. \<not> isFreshOrder (Fin now) x (Fin b)) orders) = None"
    using expired_within_buffer[OF _ _ assms(4)] expiry by (fastforce simp: find_None_iff)
  then show ?thesis
    using rows assms by (simp add: getBatchOrdersAsync_def groupByFreshness_filter logErrorOnExpiredOrders_def Let_def)
qed

lemma sample_rows:
  "res_map (deserialize sample_ob) (map (\<lambda>n. serializeOrder (int_string 10) (sample_sra_order (of_nat 5) (of_nat n))) ns) =
     Inr (map (\<lambda>n. sample_sra_order (of_nat 5) (of_nat n)) ns)"
  using sample_row[of 5] by (induction ns) (simp_all del: of_nat_numeral)

theorem batch_orders_fresh_witness:
  "getBatchOrdersAsync sample_ob 1 (Fin 20) [''0xa''] [''0xb''] =
     Inr (paginate (filter (\<lambda>x. isFreshOrder (Fin 1600000000000) x (Fin 10))
       (map (\<lambda>n. sample_sra_order (of_nat 5) (of_nat n)) [9, 7])) 1 (Fin 20), None)"
proof (rule batch_orders_fresh[where m = 180])
  show "res_map (deserialize sample_ob) (db_find (ob_db sample_ob)
      [[(''makerToken'', InValues [''0xa'']), (''takerToken'', InValues [''0xb''])]] None) =
    Inr (map (\<lambda>n. sample_sra_order (of_nat 5) (of_nat n)) [9, 7])"
    using sample_rows[of "[9, 7]"] by (simp add: sample_ob_def del: of_nat_numeral list.map)
qed (auto simp: sample_ob_def sample_sra_order_def)

text \<open>The two queries of unfillable orders are paged separately: a page of two has four records.\<close>

lemma unfillable_page_overflows:
  "\<exists>page. getOrdersAsync sample_ob 1 (Fin 2) [(''maker'', ''0xm'')] True None = Inr page \<and>
     pc_perPage page = Fin 2 \<and> length (pc_records page) = 4"
proof -
  have "res_map (deserialize sample_ob) (db_find (ob_db sample_ob) c w) = Inr (map (\<lambda>n. sample_sra_order (of_nat 5) (of_nat n)) [9, 7])"
    "res_map (deserialize sample_ob) (db_find_persistent (ob_db sample_ob) c w) =
      Inr (map (\<lambda>n. sample_sra_order (of_nat 5) (of_nat n)) [8, 6])" for c w
    using sample_rows[of "[9, 7]"] sample_rows[of "[8, 6]"] by (simp_all add: sample_ob_def del: of_nat_numeral list.map)
  then show ?thesis by (simp add: getOrdersAsync_def Let_def paginateSerialize_def)
qed

section \<open>Posting orders\<close>

lemma validate_tokens_ok:
  "validate_tokens env orders = Inr () \<longleftrightarrow>
     (\<forall>allowed. sra_WHITELISTED_TOKENS env = Some allowed \<longrightarrow>
        (\<forall>x \<in> set orders. sl_makerToken x \<in> set allowed \<and> sl_takerToken x \<in> set allowed))"
proof (cases "sra_WHITELISTED_TOKENS env")
  case (Some allowed)
  have "(\<exists>us. res_map (\<lambda>order. res_bind (validateAssetTokenOrThrow allowed (sl_makerToken order) ''makerToken'')
      (\<lambda>_. validateAssetTokenOrThrow allowed (sl_takerToken order) ''takerToken'')) orders = Inr us) \<longleftrightarrow>
    (\<forall>x \<in> set orders. sl_makerToken x \<in> set allowed \<and> sl_takerToken x \<in> set allowed)"
    by (induction orders) (auto simp: res_bind_eq_Inr validateAssetTokenOrThrow_def split: if_splits)
  with Some show ?thesis by (auto simp: validate_tokens_def res_bind_eq_Inr)
qed (simp add: validate_tokens_def)

lemma post_with_outcome:
  fixes add :: "SignedLimitOrder list \<Rightarrow> service_error + 'a"
  defines "outcome \<equiv> \<lambda>env skip body. post_with add env skip body"
  shows "thrown_error (outcome env skip body) = None \<longleftrightarrow>
      sra_validSchema env body \<and> validate_tokens env (map (unmarshallOrder (ob_parse (sra_service env))) body) = Inr () \<and>
      (\<exists>r. add (map (unmarshallOrder (ob_parse (sra_service env))) body) = Inr r)"
    and "sent_ok (outcome env skip body) \<Longrightarrow> thrown_error (outcome env skip body) \<noteq> None \<Longrightarrow> skip"
    and "thrown_error (outcome env skip body) = None \<Longrightarrow> sent_ok (outcome env skip body)"
  unfolding outcome_def by (auto simp: post_with_def Let_def split: sum.splits if_splits)

text \<open>A persistent order is stored only for a known key: the request ends without an error exactly when its
  key is a valid UUID on the whitelist, the body is valid, both tokens are supported and the order watcher accepts
  the order. Every other request ends in an error, and the success response has then been sent only if the caller
  skipped the confirmation and passed every check but the order watcher's.\<close>

theorem persistent_post_outcome:
  "(thrown_error (postPersistentOrderAsync env apiKey skip body) = None \<longleftrightarrow>
      (\<exists>key. apiKey = Some key \<and> sra_isValidUUID env key \<and> key \<in> set (ob_whitelistedApiKeys (sra_service env))) \<and>
      sra_validSchema env [body] \<and>
      (case sra_WHITELISTED_TOKENS env of None \<Rightarrow> True
       | Some allowed \<Rightarrow> raw_makerToken body \<in> set allowed \<and> raw_takerToken body \<in> set allowed) \<and>
      ob_post (sra_service env) [unmarshallOrder (ob_parse (sra_service env)) body] = Inr ()) \<and>
   (thrown_error (postPersistentOrderAsync env apiKey skip body) = None \<longrightarrow> sent_ok (postPersistentOrderAsync env apiKey skip body)) \<and>
   (sent_ok (postPersistentOrderAsync env apiKey skip body) \<and> thrown_error (postPersistentOrderAsync env apiKey skip body) \<noteq> None \<longrightarrow>
      skip \<and> (\<exists>err. ob_post (sra_service env) [unmarshallOrder (ob_parse (sra_service env)) body] = Inl err))"
proof -
  let ?order = "unmarshallOrder (ob_parse (sra_service env)) body"
  let ?add = "addPersistentOrdersAsync (sra_service env)"
  let ?post = "post_with ?add env skip [body]"
  have added: "(\<exists>r. ?add [?order] = Inr r) \<longleftrightarrow> ob_post (sra_service env) [?order] = Inr ()"
    by (cases "ob_post (sra_service env) [?order]")
       (auto simp: addPersistentOrdersAsync_def watcher_postOrdersAsync_def split: option.splits)
  have tokens: "validate_tokens env [?order] = Inr () \<longleftrightarrow> (case sra_WHITELISTED_TOKENS env of None \<Rightarrow> True
       | Some allowed \<Rightarrow> raw_makerToken body \<in> set allowed \<and> raw_takerToken body \<in> set allowed)"
    by (auto simp: validate_tokens_ok unmarshallOrder_def Let_def split: option.split)
  have ok: "thrown_error ?post = None \<longleftrightarrow> sra_validSchema env [body] \<and> validate_tokens env [?order] = Inr () \<and>
      (\<exists>r. ?add [?order] = Inr r)"
    using post_with_outcome(1)[of ?add env skip "[body]"] by simp
  have late: "\<exists>err. ob_post (sra_service env) [?order] = Inl err" if "sent_ok ?post" "thrown_error ?post \<noteq> None"
    using that added by (cases "ob_post (sra_service env) [?order]") (auto simp: post_with_def Let_def split: sum.splits if_splits)
  show ?thesis
    using ok added tokens late post_with_outcome(2,3)[of ?add env skip "[body]"]
    by (auto simp: postPersistentOrderAsync_def isAllowedPersistentOrders_def split: option.split)
qed

definition sample_raw :: RawOrder where
  "sample_raw = \<lparr>raw_signature = sl_signature (sra_order (sample_sra_order 5 9)), raw_maker = ''0xm'', raw_taker = None,
     raw_takerTokenFeeAmount = None, raw_makerAmount = ''5'', raw_takerAmount = ''9'', raw_makerToken = ''0xa'',
     raw_takerToken = ''0xb'', raw_salt = ''7'', raw_verifyingContract = ''0xe'', raw_feeRecipient = None,
     raw_expiry = ''2000000000'', raw_chainId = Mainnet, raw_pool = None\<rparr>"

definition sample_sra_env :: SraEnv where
  "sample_sra_env = \<lparr>sra_service = sample_ob\<lparr>ob_post := (\<lambda>_. Inr ()), ob_whitelistedApiKeys := [''key'']\<rparr>,
     sra_validSchema = (\<lambda>_. True), sra_validQuery = (\<lambda>_ _. True), sra_isValidUUID = (\<lambda>_. True), sra_WHITELISTED_TOKENS = Some [''0xa'', ''0xb''],
     sra_FEE_RECIPIENT_ADDRESS = NULL_ADDRESS, sra_TAKER_FEE_UNIT_AMOUNT = 0\<rparr>"

theorem persistent_post_outcome_witness:
  "sent_ok (postPersistentOrderAsync sample_sra_env (Some ''key'') True sample_raw) \<and>
   thrown_error (postPersistentOrderAsync sample_sra_env (Some ''key'') True sample_raw) = None \<and>
   thrown_error (postPersistentOrderAsync sample_sra_env (Some ''other'') True sample_raw) \<noteq> None"
proof -
  have "thrown_error (postPersistentOrderAsync sample_sra_env (Some ''key'') True sample_raw) = None"
    using persistent_post_outcome[of sample_sra_env "Some ''key''" True sample_raw]
    by (simp add: sample_sra_env_def sample_raw_def)
  moreover have "thrown_error (postPersistentOrderAsync sample_sra_env (Some ''other'') True sample_raw) \<noteq> None"
    using persistent_post_outcome[of sample_sra_env "Some ''other''" True sample_raw]
    by (simp add: sample_sra_env_def)
  ultimately show ?thesis using persistent_post_outcome[of sample_sra_env "Some ''key''" True sample_raw] by simp
qed

text \<open>A request that got no response fails with a \<open>TypeError\<close>, never with the error meant for it.\<close>

lemma watcher_unreachable:
  "post orders = Inl \<lparr>ax_response = None, ax_request = r\<rparr> \<Longrightarrow> watcher_postOrdersAsync post orders = Inl (Thrown TypeError)"
  by (simp add: watcher_postOrdersAsync_def)

end
