(* ===== verification/Config.thy ===== *)
theory Config
  imports Order_Utils "HOL-Library.List_Lexorder" "HOL-Library.Char_ord"
begin

text \<open>
  The configuration of the service (\<open>config.ts\<close>): how environment variables are read and checked, the values
  read from them, and the look-ups of integrators by key and by id. The environment, the file system, \<open>JSON.parse\<close> at
  the types it is used at, and the checks of \<open>@0x/assert\<close> and \<open>uuid-validate\<close> are fields of \<open>ConfigEnv\<close>. Evaluating
  a constant that throws is \<open>Inl\<close>, which ends the start of the service.
\<close>

section \<open>Reading numbers\<close>

text \<open>\<open>parseFloat(s)\<close>: white space, a sign, and the longest decimal literal that follows.\<close>

definition parse_exponent :: "string \<Rightarrow> int" where
  "parse_exponent s =
     (if s \<noteq> [] \<and> hd s \<in> set ''eE''
      then let t = tl s;
               negative = (t \<noteq> [] \<and> hd t = CHR ''-'');
               digits = takeWhile is_digit (if t \<noteq> [] \<and> hd t \<in> set ''+-'' then tl t else t)
           in (if negative then - 1 else 1) * int (of_base 10 digits)
      else 0)"

definition parse_unsigned :: "string \<Rightarrow> js_number" where
  "parse_unsigned u =
     (if take 8 u = ''Infinity'' then PosInf
      else let whole = takeWhile is_digit u;
               rest = dropWhile is_digit u;
               point = (rest \<noteq> [] \<and> hd rest = CHR ''.'');
               fraction = (if point then takeWhile is_digit (tl rest) else []);
               exponent = (if point then dropWhile is_digit (tl rest) else rest)
           in if whole = [] \<and> fraction = [] then NaN
              else Fin (rnd64 (of_nat (of_base 10 (whole @ fraction)) * 10 powi (parse_exponent exponent - int (length fraction)))))"

definition parseFloat :: "string \<Rightarrow> js_number" where
  "parseFloat s =
     (let t = dropWhile is_space s
      in if t \<noteq> [] \<and> hd t = CHR ''-'' then - parse_unsigned (tl t)
         else if t \<noteq> [] \<and> hd t = CHR ''+'' then parse_unsigned (tl t)
         else parse_unsigned t)"

section \<open>Environment variables\<close>

datatype EnvVarType =
    AddressList | StringList | Integer | Float | Port | KeepAliveTimeout | ChainIdVar | ETHAddressHex | UnitAmount | Url
  | UrlList | WhitelistAllTokens | Boolean | NonEmptyString | APIKeys | PrivateKeys | RfqMakerAssetOfferings
  | RateLimitConfig | JsonStringList

record IntegratorAcl =
  acl_apiKeys :: "string list"
  acl_integratorId :: string
  acl_whitelistIntegratorUrls :: "string list option"
  acl_label :: string
  acl_rfqm :: bool
  acl_rfqt :: bool
  acl_slippageModel :: "bool option"
  acl_positiveSlippagePercent :: "js_number option"
  acl_feeRecipient :: "string option"

text \<open>What a variable holds once it is read; a parsed JSON document is a list of strings or of integrators.\<close>

datatype EnvValue =
    EvNumber js_number
  | EvBigNumber BigNumber
  | EvString string
  | EvStrings "string list"
  | EvIntegrators "IntegratorAcl list"
  | EvBool bool
  | EvAll

record ConfigEnv =
  ce_env :: "string \<Rightarrow> string option"
  ce_file :: "string \<Rightarrow> string option"
  ce_parseJson :: "string \<Rightarrow> js_error + EnvValue"
  ce_isETHAddressHex :: "string \<Rightarrow> bool"
  ce_isUri :: "string \<Rightarrow> bool"
  ce_validateUUID :: "string \<Rightarrow> bool"
  ce_validAcl :: "IntegratorAcl list \<Rightarrow> bool"
  ce_tokens :: "js_number \<Rightarrow> string list"

definition assert_all :: "(string \<Rightarrow> bool) \<Rightarrow> string \<Rightarrow> string list \<Rightarrow> js_error + unit" where
  "assert_all ok name xs = (if list_all ok xs then Inr () else Inl (Error (name @ '' is invalid'')))"

definition assertEnvVarType :: "ConfigEnv \<Rightarrow> string \<Rightarrow> string option \<Rightarrow> EnvVarType \<Rightarrow> js_error + EnvValue" where
  "assertEnvVarType ce name value expectedType =
     (case value of
        None \<Rightarrow> Inl (Error (name @ '' is not defined''))
      | Some v \<Rightarrow>
          (let integer = (let n = parseInt10 v in
                 if n = NaN then Inl (Error (name @ '' must be a valid integer, found '' @ v @ ''.'')) else Inr (EvNumber n))
           in case expectedType of
                Port \<Rightarrow>
                  (let n = parseInt10 v in
                   if n = NaN \<or> \<not> (0 \<le> n \<and> n \<le> Fin 65535)
                   then Inl (Error (name @ '' must be between 0 to 65535, found '' @ v @ ''.'')) else Inr (EvNumber n))
              | ChainIdVar \<Rightarrow> integer
              | KeepAliveTimeout \<Rightarrow> integer
              | Integer \<Rightarrow> integer
              | Float \<Rightarrow>
                  (let n = parseFloat v in
                   if n = NaN then Inl (Error (name @ '' must be a valid float, found '' @ v)) else Inr (EvNumber n))
              | ETHAddressHex \<Rightarrow> res_bind (assert_all (ce_isETHAddressHex ce) name [v]) (\<lambda>_. Inr (EvString v))
              | Url \<Rightarrow> res_bind (assert_all (ce_isUri ce) name [v]) (\<lambda>_. Inr (EvString v))
              | UrlList \<Rightarrow>
                  (let urlList = split_on (CHR '','') v
                   in res_bind (assert_all (ce_isUri ce) name urlList) (\<lambda>_. Inr (EvStrings urlList)))
              | Boolean \<Rightarrow> Inr (EvBool (v = ''true''))
              | UnitAmount \<Rightarrow>
                  (let n = bn_of_number (parseFloat v) in
                   if n = NaN \<or> n < 0 then Inl (Error (name @ '' must be valid number greater than 0.'')) else Inr (EvBigNumber n))
              | AddressList \<Rightarrow>
                  (let addressList = map toLowerCase (split_on (CHR '','') v)
                   in res_bind (assert_all (ce_isETHAddressHex ce) name addressList) (\<lambda>_. Inr (EvStrings addressList)))
              | StringList \<Rightarrow> Inr (EvStrings (split_on (CHR '','') v))
              | WhitelistAllTokens \<Rightarrow> Inr EvAll
              | NonEmptyString \<Rightarrow> if v = [] then Inl (Error (name @ '' must be supplied'')) else Inr (EvString v)
              | APIKeys \<Rightarrow>
                  (let apiKeys = filter (\<lambda>key. dropWhile is_space key \<noteq> []) (split_on (CHR '','') v)
                   in res_bind (assert_all (ce_validateUUID ce) name apiKeys) (\<lambda>_. Inr (EvStrings apiKeys)))
              | JsonStringList \<Rightarrow> ce_parseJson ce v
              | _ \<Rightarrow> Inl (Error (''Unrecognised EnvVarType encountered for variable '' @ name))))"

text \<open>\<open>_.isEmpty(process.env.X)\<close>.\<close>

definition env_isEmpty :: "ConfigEnv \<Rightarrow> string \<Rightarrow> bool" where
  "env_isEmpty ce name = (case ce_env ce name of None \<Rightarrow> True | Some v \<Rightarrow> v = [])"

definition resolveEnvVar :: "ConfigEnv \<Rightarrow> string \<Rightarrow> EnvVarType \<Rightarrow> EnvValue \<Rightarrow> js_error + EnvValue" where
  "resolveEnvVar ce envVar envVarType fallback =
     (if env_isEmpty ce envVar then Inr fallback
      else case ce_file ce (the (ce_env ce envVar)) of
             Some content \<Rightarrow> ce_parseJson ce content
           | None \<Rightarrow> assertEnvVarType ce envVar (ce_env ce envVar) envVarType)"

text \<open>\<open>_.isEmpty(process.env.X) ? fallback : assertEnvVarType('X', process.env.X, type)\<close>.\<close>

definition env_or :: "ConfigEnv \<Rightarrow> string \<Rightarrow> EnvVarType \<Rightarrow> EnvValue \<Rightarrow> js_error + EnvValue" where
  "env_or ce name ty fallback =
     (if env_isEmpty ce name then Inr fallback else assertEnvVarType ce name (ce_env ce name) ty)"

text \<open>Values at the type the constant is declared with.\<close>

fun ev_number :: "EnvValue \<Rightarrow> js_error + js_number" where
  "ev_number (EvNumber n) = Inr n"
| "ev_number _ = Inl TypeError"

fun ev_string :: "EnvValue \<Rightarrow> js_error + string" where
  "ev_string (EvString s) = Inr s"
| "ev_string _ = Inl TypeError"

fun ev_strings :: "EnvValue \<Rightarrow> js_error + string list" where
  "ev_strings (EvStrings xs) = Inr xs"
| "ev_strings _ = Inl TypeError"

fun ev_bool :: "EnvValue \<Rightarrow> js_error + bool" where
  "ev_bool (EvBool b) = Inr b"
| "ev_bool _ = Inl TypeError"

definition env_number :: "ConfigEnv \<Rightarrow> string \<Rightarrow> EnvVarType \<Rightarrow> js_number \<Rightarrow> js_error + js_number" where
  "env_number ce name ty fallback = res_bind (env_or ce name ty (EvNumber fallback)) ev_number"

definition env_string :: "ConfigEnv \<Rightarrow> string \<Rightarrow> EnvVarType \<Rightarrow> string \<Rightarrow> js_error + string" where
  "env_string ce name ty fallback = res_bind (env_or ce name ty (EvString fallback)) ev_string"

definition env_bool :: "ConfigEnv \<Rightarrow> string \<Rightarrow> bool \<Rightarrow> js_error + bool" where
  "env_bool ce name fallback = res_bind (env_or ce name Boolean (EvBool fallback)) ev_bool"

text \<open>\<open>_.isEmpty(process.env.X) ? undefined : assertEnvVarType(...)\<close>.\<close>

definition env_optional :: "ConfigEnv \<Rightarrow> string \<Rightarrow> EnvVarType \<Rightarrow> (EnvValue \<Rightarrow> js_error + 'a) \<Rightarrow> js_error + 'a option" where
  "env_optional ce name ty value =
     (if env_isEmpty ce name then Inr None
      else res_bind (assertEnvVarType ce name (ce_env ce name) ty) (\<lambda>v. res_bind (value v) (\<lambda>x. Inr (Some x))))"

definition resolve_strings :: "ConfigEnv \<Rightarrow> string \<Rightarrow> js_error + string list" where
  "resolve_strings ce name = res_bind (resolveEnvVar ce name JsonStringList (EvStrings [])) ev_strings"

section \<open>Constants\<close>

text \<open>Numbers, strings, switches and optional values, each with its default.\<close>

definition DEFAULT_META_TX_MIN_ALLOWED_SLIPPAGE :: js_number where
  "DEFAULT_META_TX_MIN_ALLOWED_SLIPPAGE = Fin (rnd64 (1 / 1000))"

definition HTTP_PORT :: "ConfigEnv \<Rightarrow> js_error + js_number" where
  "HTTP_PORT ce = env_number ce ''HTTP_PORT'' Port (Fin 3000)"

definition HEALTHCHECK_HTTP_PORT :: "ConfigEnv \<Rightarrow> js_error + js_number" where
  "HEALTHCHECK_HTTP_PORT ce = res_bind (HTTP_PORT ce) (\<lambda>port. env_number ce ''HEALTHCHECK_HTTP_PORT'' Port port)"

definition HTTP_KEEP_ALIVE_TIMEOUT :: "ConfigEnv \<Rightarrow> js_error + js_number" where
  "HTTP_KEEP_ALIVE_TIMEOUT ce = env_number ce ''HTTP_KEEP_ALIVE_TIMEOUT'' KeepAliveTimeout (js_mul (Fin 76) (Fin 1000))"

definition HTTP_HEADERS_TIMEOUT :: "ConfigEnv \<Rightarrow> js_error + js_number" where
  "HTTP_HEADERS_TIMEOUT ce = env_number ce ''HTTP_HEADERS_TIMEOUT'' KeepAliveTimeout (js_mul (Fin 77) (Fin 1000))"

definition CHAIN_ID :: "ConfigEnv \<Rightarrow> js_error + js_number" where
  "CHAIN_ID ce = env_number ce ''CHAIN_ID'' ChainIdVar (Fin 1)"

definition RPC_REQUEST_TIMEOUT :: "ConfigEnv \<Rightarrow> js_error + js_number" where
  "RPC_REQUEST_TIMEOUT ce = env_number ce ''RPC_REQUEST_TIMEOUT'' Integer (Fin 5000)"

definition META_TX_MIN_ALLOWED_SLIPPAGE :: "ConfigEnv \<Rightarrow> js_error + js_number" where
  "META_TX_MIN_ALLOWED_SLIPPAGE ce = env_number ce ''META_TX_MIN_ALLOWED_SLIPPAGE'' Float (DEFAULT_META_TX_MIN_ALLOWED_SLIPPAGE)"

definition MAX_ORDER_EXPIRATION_BUFFER_SECONDS :: "ConfigEnv \<Rightarrow> js_error + js_number" where
  "MAX_ORDER_EXPIRATION_BUFFER_SECONDS ce = env_number ce ''MAX_ORDER_EXPIRATION_BUFFER_SECONDS'' KeepAliveTimeout (js_mul (Fin 3) (Fin 60))"

definition SRA_ORDER_EXPIRATION_BUFFER_SECONDS :: "ConfigEnv \<Rightarrow> js_error + js_number" where
  "SRA_ORDER_EXPIRATION_BUFFER_SECONDS ce = env_number ce ''SRA_ORDER_EXPIRATION_BUFFER_SECONDS'' KeepAliveTimeout (Fin 10)"

definition RFQT_REQUEST_MAX_RESPONSE_MS :: "ConfigEnv \<Rightarrow> js_error + js_number" where
  "RFQT_REQUEST_MAX_RESPONSE_MS ce = env_number ce ''RFQT_REQUEST_MAX_RESPONSE_MS'' Integer (Fin 600)"

definition PROMETHEUS_PORT :: "ConfigEnv \<Rightarrow> js_error + js_number" where
  "PROMETHEUS_PORT ce = env_number ce ''PROMETHEUS_PORT'' Port (Fin 8080)"

definition SENTRY_SAMPLE_RATE :: "ConfigEnv \<Rightarrow> js_error + js_number" where
  "SENTRY_SAMPLE_RATE ce = env_number ce ''SENTRY_SAMPLE_RATE'' Float (Fin (rnd64 (1 / 10)))"

definition SENTRY_TRACES_SAMPLE_RATE :: "ConfigEnv \<Rightarrow> js_error + js_number" where
  "SENTRY_TRACES_SAMPLE_RATE ce = env_number ce ''SENTRY_TRACES_SAMPLE_RATE'' Float (Fin (rnd64 (1 / 10)))"

definition SAMPLE_DISTRIBUTION_BASE :: "ConfigEnv \<Rightarrow> js_error + js_number" where
  "SAMPLE_DISTRIBUTION_BASE ce = env_number ce ''SAMPLE_DISTRIBUTION_BASE'' Float (Fin 1)"

definition LOG_LEVEL :: "ConfigEnv \<Rightarrow> js_error + string" where
  "LOG_LEVEL ce = env_string ce ''LOG_LEVEL'' NonEmptyString ''info''"

definition ORDER_WATCHER_URL :: "ConfigEnv \<Rightarrow> js_error + string" where
  "ORDER_WATCHER_URL ce = env_string ce ''ORDER_WATCHER_URL'' Url ''http://127.0.0.1:8080''"

definition ORDER_WATCHER_KAFKA_TOPIC :: "ConfigEnv \<Rightarrow> js_error + string" where
  "ORDER_WATCHER_KAFKA_TOPIC ce = env_string ce ''ORDER_WATCHER_KAFKA_TOPIC'' NonEmptyString ''order_watcher_events''"

definition WEBSOCKET_ORDER_UPDATES_PATH :: "ConfigEnv \<Rightarrow> js_error + string" where
  "WEBSOCKET_ORDER_UPDATES_PATH ce = env_string ce ''WEBSOCKET_ORDER_UPDATES_PATH'' NonEmptyString ''/orderbook/v1''"

definition FEE_RECIPIENT_ADDRESS :: "ConfigEnv \<Rightarrow> js_error + string" where
  "FEE_RECIPIENT_ADDRESS ce = env_string ce ''FEE_RECIPIENT_ADDRESS'' ETHAddressHex NULL_ADDRESS"

definition ZERO_EX_GAS_API_URL :: "ConfigEnv \<Rightarrow> js_error + string" where
  "ZERO_EX_GAS_API_URL ce = env_string ce ''ZERO_EX_GAS_API_URL'' Url ''https://gas.api.0x.org/source/median''"

definition SENTRY_ENVIRONMENT :: "ConfigEnv \<Rightarrow> js_error + string" where
  "SENTRY_ENVIRONMENT ce = env_string ce ''SENTRY_ENVIRONMENT'' NonEmptyString ''development''"

definition ENABLE_RPC_REQUEST_COMPRESSION :: "ConfigEnv \<Rightarrow> js_error + bool" where
  "ENABLE_RPC_REQUEST_COMPRESSION ce = env_bool ce ''ENABLE_RPC_REQUEST_COMPRESSION'' False"

definition LOGGER_INCLUDE_TIMESTAMP :: "ConfigEnv \<Rightarrow> js_error + bool" where
  "LOGGER_INCLUDE_TIMESTAMP ce = env_bool ce ''LOGGER_INCLUDE_TIMESTAMP'' True"

definition ENABLE_PROMETHEUS_METRICS :: "ConfigEnv \<Rightarrow> js_error + bool" where
  "ENABLE_PROMETHEUS_METRICS ce = env_bool ce ''ENABLE_PROMETHEUS_METRICS'' False"

definition SENTRY_ENABLED :: "ConfigEnv \<Rightarrow> js_error + bool" where
  "SENTRY_ENABLED ce = env_bool ce ''SENTRY_ENABLED'' False"

definition GASLESS_SWAP_FEE_ENABLED :: "ConfigEnv \<Rightarrow> js_error + bool" where
  "GASLESS_SWAP_FEE_ENABLED ce = env_bool ce ''GASLESS_SWAP_FEE_ENABLED'' False"

definition SLIPPAGE_MODEL_S3_BUCKET_NAME :: "ConfigEnv \<Rightarrow> js_error + string option" where
  "SLIPPAGE_MODEL_S3_BUCKET_NAME ce = env_optional ce ''SLIPPAGE_MODEL_S3_BUCKET_NAME'' NonEmptyString ev_string"

definition KAFKA_BROKERS :: "ConfigEnv \<Rightarrow> js_error + string list option" where
  "KAFKA_BROKERS ce = env_optional ce ''KAFKA_BROKERS'' StringList ev_strings"

definition KAFKA_CONSUMER_GROUP_ID :: "ConfigEnv \<Rightarrow> js_error + string option" where
  "KAFKA_CONSUMER_GROUP_ID ce = env_optional ce ''KAFKA_CONSUMER_GROUP_ID'' NonEmptyString ev_string"

definition POSTGRES_URI :: "ConfigEnv \<Rightarrow> js_error + string option" where
  "POSTGRES_URI ce = env_optional ce ''POSTGRES_URI'' Url ev_string"

definition POSTGRES_READ_REPLICA_URIS :: "ConfigEnv \<Rightarrow> js_error + string list option" where
  "POSTGRES_READ_REPLICA_URIS ce = env_optional ce ''POSTGRES_READ_REPLICA_URIS'' UrlList ev_strings"

definition ALT_RFQ_MM_ENDPOINT :: "ConfigEnv \<Rightarrow> js_error + string option" where
  "ALT_RFQ_MM_ENDPOINT ce = env_optional ce ''ALT_RFQ_MM_ENDPOINT'' Url ev_string"

definition ALT_RFQ_MM_API_KEY :: "ConfigEnv \<Rightarrow> js_error + string option" where
  "ALT_RFQ_MM_API_KEY ce = env_optional ce ''ALT_RFQ_MM_API_KEY'' NonEmptyString ev_string"

definition KAFKA_TOPIC_QUOTE_REPORT :: "ConfigEnv \<Rightarrow> js_error + string option" where
  "KAFKA_TOPIC_QUOTE_REPORT ce = env_optional ce ''KAFKA_TOPIC_QUOTE_REPORT'' NonEmptyString ev_string"

definition SENTRY_DSN :: "ConfigEnv \<Rightarrow> js_error + string option" where
  "SENTRY_DSN ce = env_optional ce ''SENTRY_DSN'' Url ev_string"

definition ETHEREUM_RPC_URL :: "ConfigEnv \<Rightarrow> js_error + string list" where
  "ETHEREUM_RPC_URL ce =
     res_bind (assertEnvVarType ce ''ETHEREUM_RPC_URL'' (ce_env ce ''ETHEREUM_RPC_URL'') UrlList) ev_strings"

text \<open>\<open>None\<close> is \<open>'*'\<close>: every token is allowed, whatever the value of the variable.\<close>

definition WHITELISTED_TOKENS :: "ConfigEnv \<Rightarrow> js_error + string list option" where
  "WHITELISTED_TOKENS ce =
     (if env_isEmpty ce ''WHITELIST_ALL_TOKENS'' then res_bind (CHAIN_ID ce) (\<lambda>chainId. Inr (Some (ce_tokens ce chainId)))
      else res_bind (assertEnvVarType ce ''WHITELIST_ALL_TOKENS'' (ce_env ce ''WHITELIST_ALL_TOKENS'') WhitelistAllTokens)
        (\<lambda>_. Inr None))"

definition TAKER_FEE_UNIT_AMOUNT :: "ConfigEnv \<Rightarrow> js_error + BigNumber" where
  "TAKER_FEE_UNIT_AMOUNT ce =
     res_bind (env_or ce ''TAKER_FEE_UNIT_AMOUNT'' UnitAmount (EvBigNumber 0))
     (\<lambda>v. case v of EvBigNumber n \<Rightarrow> Inr n | _ \<Rightarrow> Inl TypeError)"

definition ZERO_EX_FEE_RECIPIENT_ADDRESS :: "ConfigEnv \<Rightarrow> js_error + string" where
  "ZERO_EX_FEE_RECIPIENT_ADDRESS ce =
     res_bind (resolveEnvVar ce ''ZERO_EX_FEE_RECIPIENT_ADDRESS'' ETHAddressHex (EvString NULL_ADDRESS)) ev_string"

definition ZERO_EX_FEE_TOKENS :: "ConfigEnv \<Rightarrow> js_error + string list" where
  "ZERO_EX_FEE_TOKENS ce =
     res_bind (resolve_strings ce ''ZERO_EX_FEE_TOKENS'') (\<lambda>xs. Inr (remdups (map toLowerCase xs)))"

definition RFQT_REGISTRY_PASSWORDS :: "ConfigEnv \<Rightarrow> js_error + string list" where
  "RFQT_REGISTRY_PASSWORDS ce = resolve_strings ce ''RFQT_REGISTRY_PASSWORDS''"

definition RFQ_API_URL :: "ConfigEnv \<Rightarrow> js_error + string" where
  "RFQ_API_URL ce = res_bind (resolveEnvVar ce ''RFQ_API_URL'' NonEmptyString (EvString [])) ev_string"

definition ENABLE_RFQT_TX_ORIGIN_BLACKLIST :: "ConfigEnv \<Rightarrow> bool" where
  "ENABLE_RFQT_TX_ORIGIN_BLACKLIST ce = (\<not> env_isEmpty ce ''RFQT_TX_ORIGIN_BLACKLIST'')"

definition RFQT_TX_ORIGIN_BLACKLIST :: "ConfigEnv \<Rightarrow> js_error + string list" where
  "RFQT_TX_ORIGIN_BLACKLIST ce =
     res_bind (resolve_strings ce ''RFQT_TX_ORIGIN_BLACKLIST'') (\<lambda>xs. Inr (remdups (map toLowerCase xs)))"

definition SRA_PERSISTENT_ORDER_POSTING_WHITELISTED_API_KEYS :: "ConfigEnv \<Rightarrow> js_error + string list" where
  "SRA_PERSISTENT_ORDER_POSTING_WHITELISTED_API_KEYS ce =
     (let name = ''SRA_PERSISTENT_ORDER_POSTING_WHITELISTED_API_KEYS''
      in if ce_env ce name = None then Inr [] else res_bind (assertEnvVarType ce name (ce_env ce name) APIKeys) ev_strings)"

section \<open>Integrators\<close>

definition INTEGRATORS_ACL :: "ConfigEnv \<Rightarrow> js_error + IntegratorAcl list" where
  "INTEGRATORS_ACL ce =
     (let bad = Inl (Error ''INTEGRATORS_ACL was defined but is not valid JSON per the schema'')
      in case resolveEnvVar ce ''INTEGRATORS_ACL'' JsonStringList (EvIntegrators []) of
           Inr (EvIntegrators acl) \<Rightarrow> if ce_validAcl ce acl then Inr acl else bad
         | Inr (EvStrings []) \<Rightarrow> if ce_validAcl ce [] then Inr [] else bad
         | _ \<Rightarrow> bad)"

text \<open>A sorted list of the keys of a group.\<close>

definition getApiKeyWhitelistFromIntegratorsAcl :: "IntegratorAcl list \<Rightarrow> (IntegratorAcl \<Rightarrow> bool) \<Rightarrow> string list" where
  "getApiKeyWhitelistFromIntegratorsAcl acl groupType = sort (concat (map acl_apiKeys (filter groupType acl)))"

fun getIntegratorIdFromLabel :: "IntegratorAcl list \<Rightarrow> string \<Rightarrow> string option" where
  "getIntegratorIdFromLabel [] label = None"
| "getIntegratorIdFromLabel (i # acl) label =
     (if acl_label i = label then Some (acl_integratorId i) else getIntegratorIdFromLabel acl label)"

text \<open>\<open>Map.set\<close> for every key of every integrator, in order.\<close>

definition transformIntegratorsAcl :: "(IntegratorAcl \<Rightarrow> string list) \<Rightarrow> IntegratorAcl list \<Rightarrow> string \<rightharpoonup> IntegratorAcl" where
  "transformIntegratorsAcl keys integrators =
     foldl (\<lambda>result integrator. foldl (\<lambda>result key. result(key \<mapsto> integrator)) result (keys integrator)) Map.empty integrators"

definition getIntegratorByIdOrThrow :: "IntegratorAcl list \<Rightarrow> string \<Rightarrow> js_error + IntegratorAcl" where
  "getIntegratorByIdOrThrow acl key =
     (case transformIntegratorsAcl (\<lambda>i. [acl_integratorId i]) acl key of
        None \<Rightarrow> Inl (Error (''Integrator '' @ key @ '' does not exist.'')) | Some i \<Rightarrow> Inr i)"

definition getIntegratorIdForApiKey :: "IntegratorAcl list \<Rightarrow> string \<Rightarrow> string option" where
  "getIntegratorIdForApiKey acl apiKey = map_option acl_integratorId (transformIntegratorsAcl acl_apiKeys acl apiKey)"

definition RFQT_INTEGRATORS :: "IntegratorAcl list \<Rightarrow> IntegratorAcl list" where
  "RFQT_INTEGRATORS acl = filter acl_rfqt acl"

definition RFQT_INTEGRATOR_IDS :: "IntegratorAcl list \<Rightarrow> string list" where
  "RFQT_INTEGRATOR_IDS acl = map acl_integratorId (filter acl_rfqt acl)"

definition RFQT_API_KEY_WHITELIST :: "IntegratorAcl list \<Rightarrow> string list" where
  "RFQT_API_KEY_WHITELIST acl = getApiKeyWhitelistFromIntegratorsAcl acl acl_rfqt"

definition MATCHA_INTEGRATOR_ID :: "IntegratorAcl list \<Rightarrow> string option" where
  "MATCHA_INTEGRATOR_ID acl = getIntegratorIdFromLabel acl ''Matcha''"

section \<open>Properties\<close>

lemma parseInt10_cases:
  obtains "parseInt10 v = NaN" | m where "parseInt10 v = Fin (rnd64 (of_nat m))" | m where "parseInt10 v = Fin (- rnd64 (of_nat m))"
proof -
  define t where "t = dropWhile is_space v"
  define d where "d = takeWhile is_digit (if t \<noteq> [] \<and> hd t \<in> set ''+-'' then tl t else t)"
  have "parseInt10 v = (if d = [] then NaN else
      Fin ((if t \<noteq> [] \<and> hd t = CHR ''-'' then - 1 else 1) * rnd64 (of_nat (of_base 10 d))))"
    by (simp only: parseInt10_def Let_def t_def d_def)
  then show ?thesis using that by (cases "d = []"; cases "t \<noteq> [] \<and> hd t = CHR ''-''") auto
qed

lemma rnd64_nonneg: "0 \<le> x \<Longrightarrow> 0 \<le> rnd64 x"
  using rnd64_mono[of 0 x] by simp

lemma small_number:
  assumes "0 \<le> Fin (sg * rnd64 (of_nat m))" "Fin (sg * rnd64 (of_nat m)) \<le> Fin 65535" "sg = 1 \<or> sg = - 1"
  shows "\<exists>k \<le> 65535. Fin (sg * rnd64 (of_nat m)) = Fin (of_nat k)"
proof (cases "rnd64 (of_nat m :: rat) = 0")
  case False
  then have pos: "sg = 1" using assms(1,3) rnd64_nonneg[of "of_nat m"] by auto
  have "\<not> 65536 \<le> m"
  proof
    assume "65536 \<le> m"
    then have "rnd64 (of_nat 65536) \<le> rnd64 (of_nat m)" by (intro rnd64_mono) simp
    then show False using assms(2) pos rnd64_of_nat[of 65536] by simp
  qed
  then show ?thesis using pos rnd64_of_nat[of m] by (intro exI[of _ m]) auto
qed auto

lemma port_in_range:
  assumes "env_number ce name Port fallback = Inr n" "\<exists>k \<le> 65535. fallback = Fin (of_nat k)"
  shows "\<exists>k \<le> 65535. n = Fin (of_nat k)"
proof (cases "env_isEmpty ce name")
  case True
  then show ?thesis using assms by (auto simp: env_number_def env_or_def)
next
  case False
  then obtain v where v: "parseInt10 v = n" "n \<noteq> NaN" "0 \<le> n" "n \<le> Fin 65535"
    using assms(1)
    by (auto simp: env_number_def env_or_def env_isEmpty_def assertEnvVarType_def Let_def res_bind_eq_Inr
        split: option.split_asm if_split_asm)
  show ?thesis
    by (cases v rule: parseInt10_cases) (use v small_number[of 1] small_number[of "- 1"] in auto)
qed

text \<open>Every port the service listens on is an integer between 0 and 65535, whatever the environment holds: a
  variable that is set to anything else ends the start of the service.\<close>

theorem ports_in_range:
  "(\<forall>p. HTTP_PORT ce = Inr p \<or> HEALTHCHECK_HTTP_PORT ce = Inr p \<or> PROMETHEUS_PORT ce = Inr p \<longrightarrow>
     (\<exists>k \<le> 65535. p = Fin (of_nat k)))"
proof -
  have http: "\<exists>k \<le> 65535. p = Fin (of_nat k)" if "HTTP_PORT ce = Inr p" for p
    using port_in_range[of ce _ "Fin 3000"] that by (auto simp: HTTP_PORT_def intro: exI[of _ "3000 :: nat"])
  moreover have "\<exists>k \<le> 65535. p = Fin (of_nat k)" if "HEALTHCHECK_HTTP_PORT ce = Inr p" for p
    using that port_in_range http by (auto simp: HEALTHCHECK_HTTP_PORT_def res_bind_eq_Inr)
  moreover have "\<exists>k \<le> 65535. p = Fin (of_nat k)" if "PROMETHEUS_PORT ce = Inr p" for p
    using port_in_range[of ce _ "Fin 8080"] that by (auto simp: PROMETHEUS_PORT_def intro: exI[of _ "8080 :: nat"])
  ultimately show ?thesis by blast
qed

lemma set_keys:
  "foldl (\<lambda>result key. result(key \<mapsto> i)) m ks k = (if k \<in> set ks then Some i else m k)"
  by (induction ks arbitrary: m) auto

lemma transform_some:
  "foldl (\<lambda>result i. foldl (\<lambda>result key. result(key \<mapsto> i)) result (keys i)) m acl k = Some i \<Longrightarrow>
     m k = Some i \<or> i \<in> set acl \<and> k \<in> set (keys i)"
  by (induction acl arbitrary: m) (fastforce simp: set_keys split: if_splits)+

lemma transform_defined:
  "foldl (\<lambda>result i. foldl (\<lambda>result key. result(key \<mapsto> i)) result (keys i)) m acl k \<noteq> None \<longleftrightarrow>
     m k \<noteq> None \<or> (\<exists>i \<in> set acl. k \<in> set (keys i))"
  by (induction acl arbitrary: m) (auto simp: set_keys)

lemma known_key_has_integrator:
  assumes "getIntegratorIdForApiKey acl apiKey = Some key"
  shows "(\<exists>i \<in> set acl. apiKey \<in> set (acl_apiKeys i) \<and> acl_integratorId i = key) \<and>
    (\<exists>i \<in> set acl. getIntegratorByIdOrThrow acl key = Inr i \<and> acl_integratorId i = key)"
proof -
  let ?ids = "\<lambda>i. [acl_integratorId i]"
  obtain i where i: "i \<in> set acl" "apiKey \<in> set (acl_apiKeys i)" "acl_integratorId i = key"
    using assms transform_some[of acl_apiKeys Map.empty acl apiKey]
    by (auto simp: getIntegratorIdForApiKey_def transformIntegratorsAcl_def)
  then obtain j where j: "transformIntegratorsAcl ?ids acl key = Some j"
    using transform_defined[of ?ids Map.empty acl key] by (auto simp: transformIntegratorsAcl_def)
  then have "j \<in> set acl \<and> acl_integratorId j = key"
    using transform_some[of ?ids Map.empty acl key j] by (auto simp: transformIntegratorsAcl_def)
  with i j show ?thesis by (auto simp: getIntegratorByIdOrThrow_def)
qed

text \<open>An API key is known exactly when some integrator has it, its id is the id of an integrator with that key,
  and the integrator of that id is found: a request with a key never fails to find its integrator. A key is
  on the RFQ-T whitelist exactly when an integrator allowed to use RFQ-T has it.\<close>

theorem integrator_lookup_total:
  "(getIntegratorIdForApiKey acl apiKey = None \<longleftrightarrow> (\<forall>i \<in> set acl. apiKey \<notin> set (acl_apiKeys i))) \<and>
   (\<forall>key. getIntegratorIdForApiKey acl apiKey = Some key \<longrightarrow>
      (\<exists>i \<in> set acl. apiKey \<in> set (acl_apiKeys i) \<and> acl_integratorId i = key) \<and>
      (\<exists>i \<in> set acl. getIntegratorByIdOrThrow acl key = Inr i \<and> acl_integratorId i = key)) \<and>
   (apiKey \<in> set (RFQT_API_KEY_WHITELIST acl) \<longleftrightarrow> (\<exists>i \<in> set (RFQT_INTEGRATORS acl). apiKey \<in> set (acl_apiKeys i)))"
proof -
  have "getIntegratorIdForApiKey acl apiKey = None \<longleftrightarrow> (\<forall>i \<in> set acl. apiKey \<notin> set (acl_apiKeys i))"
    using transform_defined[of acl_apiKeys Map.empty acl apiKey]
    by (auto simp: getIntegratorIdForApiKey_def transformIntegratorsAcl_def)
  moreover have "apiKey \<in> set (RFQT_API_KEY_WHITELIST acl) \<longleftrightarrow> (\<exists>i \<in> set (RFQT_INTEGRATORS acl). apiKey \<in> set (acl_apiKeys i))"
    by (auto simp: RFQT_API_KEY_WHITELIST_def getApiKeyWhitelistFromIntegratorsAcl_def RFQT_INTEGRATORS_def)
  ultimately show ?thesis using known_key_has_integrator by blast
qed

definition sample_acl :: "IntegratorAcl list" where
  "sample_acl = [\<lparr>acl_apiKeys = [''k1'', ''k2''], acl_integratorId = ''acme'', acl_whitelistIntegratorUrls = None,
     acl_label = ''Acme'', acl_rfqm = False, acl_rfqt = True, acl_slippageModel = None, acl_positiveSlippagePercent = None,
     acl_feeRecipient = None\<rparr>]"

theorem integrator_lookup_total_witness:
  "getIntegratorIdForApiKey sample_acl ''k2'' = Some ''acme'' \<and>
   (\<exists>i \<in> set sample_acl. getIntegratorByIdOrThrow sample_acl ''acme'' = Inr i \<and> acl_integratorId i = ''acme'')"
proof -
  have "getIntegratorIdForApiKey sample_acl ''k2'' = Some ''acme''" by code_simp
  with integrator_lookup_total[of sample_acl "''k2''"] show ?thesis by blast
qed

definition sample_config :: "(string \<rightharpoonup> string) \<Rightarrow> ConfigEnv" where
  "sample_config env = \<lparr>ce_env = env, ce_file = (\<lambda>_. None), ce_parseJson = (\<lambda>_. Inr (EvStrings [])),
     ce_isETHAddressHex = (\<lambda>_. True), ce_isUri = (\<lambda>_. True), ce_validateUUID = (\<lambda>_. True), ce_validAcl = (\<lambda>_. True),
     ce_tokens = (\<lambda>_. [])\<rparr>"

theorem ports_in_range_witness:
  "HTTP_PORT (sample_config [''HTTP_PORT'' \<mapsto> '' 8000x'']) = Inr (Fin 8000) \<and> (\<exists>k \<le> 65535. Fin 8000 = Fin (of_nat k))"
proof -
  have "of_base 10 ''8000'' = 8000" by code_simp
  then have "parseInt10 '' 8000x'' = Fin (rnd64 (of_nat 8000))" by (simp add: parseInt10_def is_space_def is_digit_def)
  then have "parseInt10 '' 8000x'' = Fin 8000" using rnd64_of_nat[of 8000] by simp
  then have "HTTP_PORT (sample_config [''HTTP_PORT'' \<mapsto> '' 8000x'']) = Inr (Fin 8000)"
    by (simp add: HTTP_PORT_def env_number_def env_or_def env_isEmpty_def assertEnvVarType_def sample_config_def)
  with ports_in_range[of "sample_config [''HTTP_PORT'' \<mapsto> '' 8000x'']"] show ?thesis by blast
qed

end
