(* ===== verification/Request_Parsing.thy ===== *)
theory Request_Parsing
  imports Config
begin

text \<open>
  What the handlers share to read a request: the errors of a JSON schema (\<open>utils/schema_utils.ts\<close>), the parsing of
  sources and affiliate fees (\<open>utils/parse_utils.ts\<close>), token addresses (\<open>utils/address_utils.ts\<close>), the calldata
  cost of Arbitrum (\<open>utils/l2_gas_utils.ts\<close>) and the report published for a quote (\<open>utils/quote_report_utils.ts\<close>). A query
  is an association list of its parameters. The schema validator gives the list of its errors; Brotli, the
  look-up of token metadata and Kafka are parameters.
\<close>

section \<open>Schemas\<close>

text \<open>An error of the validator.\<close>

record AjvError =
  ajv_keyword :: string
  ajv_dataPath :: string
  ajv_message :: "string option"
  ajv_missingProperty :: string

text \<open>\<open>s.replace('.', '')\<close>: the first dot only.\<close>

fun remove_first :: "char \<Rightarrow> string \<Rightarrow> string" where
  "remove_first c [] = []"
| "remove_first c (x # xs) = (if x = c then xs else x # remove_first c xs)"

definition schemaValidationErrorToValidationErrorItem :: "AjvError \<Rightarrow> js_error + ValidationErrorItem" where
  "schemaValidationErrorToValidationErrorItem err =
     (let reason = (case ajv_message err of Some m \<Rightarrow> m | None \<Rightarrow> []);
          keyword = ajv_keyword err;
          at_path = (\<lambda>code. Inr \<lparr>ve_field = remove_first (CHR ''.'') (ajv_dataPath err), ve_code = code, ve_reason = reason\<rparr>)
      in if keyword \<in> set [''type'', ''anyOf'', ''allOf'', ''oneOf'', ''additionalProperties'', ''minProperties'',
                          ''maxProperties'', ''pattern'', ''format'', ''uniqueItems'', ''items'', ''dependencies'']
         then at_path IncorrectFormat
         else if keyword \<in> set [''minimum'', ''maximum'', ''minLength'', ''maxLength'', ''minItems'', ''maxItems'', ''enum'', ''const'']
         then at_path ValueOutOfRange
         else if keyword = ''required''
         then Inr \<lparr>ve_field = ajv_missingProperty err, ve_code = RequiredField, ve_reason = reason\<rparr>
         else if keyword = ''not'' then at_path UnsupportedOption
         else Inl (Error (''Unknown schema validation error name: '' @ keyword)))"

definition validateSchema :: "AjvError list \<Rightarrow> service_error + unit" where
  "validateSchema errors =
     (if errors = [] then Inr ()
      else res_bind (thrown (res_map schemaValidationErrorToValidationErrorItem errors)) (\<lambda>items. Inl (ValidationError items)))"

section \<open>Sources\<close>

definition source_of_value :: "string \<Rightarrow> ERC20BridgeSource option" where
  "source_of_value s = find (\<lambda>src. source_value src = s) ERC20BridgeSource_values"

text \<open>The keys of an object are in the order of the first assignment.\<close>

definition dedup :: "'a list \<Rightarrow> 'a list" where
  "dedup xs = rev (remdups (rev xs))"

definition parseStringArrForERC20BridgeSources :: "string list \<Rightarrow> ERC20BridgeSource list" where
  "parseStringArrForERC20BridgeSources sources =
     dedup (List.map_filter (\<lambda>source. source_of_value (if source = ''0x'' then ''Native'' else source)) sources)"

record ParseRequestForExcludedSourcesParams =
  pr_takerAddress :: "string option"
  pr_excludedSources :: "string option"
  pr_includedSources :: "string option"
  pr_intentOnFilling :: "string option"
  pr_apiKey :: "string option"

record ParseRequestForExcludedSourcesResult =
  rs_excludedSources :: "ERC20BridgeSource list"
  rs_includedSources :: "ERC20BridgeSource list"
  rs_nativeExclusivelyRFQT :: bool

definition validation_error :: "string \<Rightarrow> ValidationErrorCodes \<Rightarrow> string \<Rightarrow> service_error + 'a" where
  "validation_error field code reason = Inl (ValidationError [\<lparr>ve_field = field, ve_code = code, ve_reason = reason\<rparr>])"

definition parseRequestForExcludedSources ::
  "ParseRequestForExcludedSourcesParams \<Rightarrow> string list \<Rightarrow> Endpoint \<Rightarrow> service_error + ParseRequestForExcludedSourcesResult" where
  "parseRequestForExcludedSources request validApiKeys endpoint =
     (let ids = (\<lambda>s. if truthy_string s then split_on (CHR '','') (the s) else []);
          excludedIds = ids (pr_excludedSources request);
          includedIds = ids (pr_includedSources request)
      in if excludedIds \<noteq> [] \<and> includedIds \<noteq> []
         then Inl (ValidationError
           [\<lparr>ve_field = ''excludedSources'', ve_code = IncorrectFormat, ve_reason = ''CONFLICTING_FILTERING_ARGUMENTS''\<rparr>,
            \<lparr>ve_field = ''includedSources'', ve_code = IncorrectFormat, ve_reason = ''CONFLICTING_FILTERING_ARGUMENTS''\<rparr>])
         else if excludedIds \<noteq> []
         then Inr \<lparr>rs_excludedSources = parseStringArrForERC20BridgeSources excludedIds, rs_includedSources = [],
            rs_nativeExclusivelyRFQT =
              (''Mesh'' \<in> set excludedIds \<and> ''0x'' \<notin> set excludedIds \<and> ''Native'' \<notin> set excludedIds)\<rparr>
         else if ''RFQT'' \<in> set includedIds
         then (if pr_takerAddress request = None then validation_error ''takerAddress'' RequiredField ''TAKER_ADDRESS_INVALID''
               else case pr_apiKey request of
                      None \<Rightarrow> validation_error ''0x-api-key'' RequiredField ''INVALID_API_KEY''
                    | Some key \<Rightarrow>
                        if key \<notin> set validApiKeys then validation_error ''0x-api-key'' FieldInvalid ''INVALID_API_KEY''
                        else if endpoint = quote_endpoint \<and> pr_intentOnFilling request \<noteq> Some ''true''
                        then validation_error ''intentOnFilling'' RequiredField ''REQUIRES_INTENT_ON_FILLING''
                        else Inr \<lparr>rs_excludedSources = [],
                               rs_includedSources = parseStringArrForERC20BridgeSources (''0x'' # includedIds),
                               rs_nativeExclusivelyRFQT = (''0x'' \<notin> set includedIds \<and> ''Native'' \<notin> set includedIds)\<rparr>)
         else Inr \<lparr>rs_excludedSources = [], rs_includedSources = parseStringArrForERC20BridgeSources includedIds,
            rs_nativeExclusivelyRFQT = False\<rparr>)"

definition parseAssetDatasStringFromQueryParam :: "string \<Rightarrow> string + string list" where
  "parseAssetDatasStringFromQueryParam field =
     (if CHR '','' \<in> set field then Inr (split_on (CHR '','') field) else Inl field)"

section \<open>Affiliate fees\<close>

type_synonym Query = "(string \<times> string) list"

text \<open>\<open>Number.parseFloat(x) || d\<close>; the text of an absent parameter is not a number.\<close>

definition float_or :: "string option \<Rightarrow> js_number \<Rightarrow> js_number" where
  "float_or s d =
     (case s of None \<Rightarrow> d | Some t \<Rightarrow> let n = parseFloat t in if n = NaN \<or> n = 0 then d else n)"

definition parseAffiliateFeeOptions :: "Query \<Rightarrow> service_error + AffiliateFee" where
  "parseAffiliateFeeOptions query =
     (let feeRecipient = map_of query ''feeRecipient'';
          sellTokenPercentageFee = float_or (map_of query ''sellTokenPercentageFee'') 0;
          buyTokenPercentageFee = float_or (map_of query ''buyTokenPercentageFee'') 0
      in if 0 < sellTokenPercentageFee then validation_error ''sellTokenPercentageFee'' UnsupportedOption ''ARGUMENT_NOT_YET_SUPPORTED''
         else if 1 < buyTokenPercentageFee then validation_error ''buyTokenPercentageFee'' ValueOutOfRange ''MUST_BE_LESS_THAN_OR_EQUAL_TO_ONE''
         else let feeType = (if 0 < buyTokenPercentageFee then PercentageFee
                             else if map_of query ''feeType'' = Some ''GASLESS_FEE'' then GaslessFee else NoFee)
              in if feeType \<noteq> NoFee \<and> feeRecipient = None
                 then validation_error ''feeRecipient'' UnsupportedOption ''FEE_RECIPIENT_MISSING''
                 else if truthy_string feeRecipient
                 then Inr \<lparr>fee_feeType = feeType, fee_recipient = the feeRecipient, fee_buyTokenPercentageFee = buyTokenPercentageFee\<rparr>
                 else Inr \<lparr>fee_feeType = feeType, fee_recipient = NULL_ADDRESS, fee_buyTokenPercentageFee = 0\<rparr>)"

section \<open>Addresses\<close>

definition objectETHAddressNormalizer :: "(string \<Rightarrow> bool) \<Rightarrow> Query \<Rightarrow> Query" where
  "objectETHAddressNormalizer isAddress obj =
     map (\<lambda>(key, value). (key, if value \<noteq> [] \<and> isAddress value then toLowerCase value else value)) obj"

text \<open>The address is undefined when a request leaves the token out; whatever the library throws is reported.\<close>

definition findTokenAddressOrThrowApiError ::
  "(string option \<Rightarrow> ChainId \<Rightarrow> string + string) \<Rightarrow> string option \<Rightarrow> string \<Rightarrow> ChainId \<Rightarrow> service_error + string" where
  "findTokenAddressOrThrowApiError findTokenAddress address field chainId =
     (case findTokenAddress address chainId of
        Inr token \<Rightarrow> Inr token | Inl message \<Rightarrow> validation_error field ValueOutOfRange message)"

section \<open>The calldata cost of Arbitrum\<close>

definition ARBITRUM_FIXED_COST_ESTIMATE :: js_number where
  "ARBITRUM_FIXED_COST_ESTIMATE = Fin 140"

definition TX_DATA_NON_ZERO_GAS_EIP2028 :: js_number where
  "TX_DATA_NON_ZERO_GAS_EIP2028 = Fin 16"

definition L1_GAS_COST_BUFFER :: js_number where
  "L1_GAS_COST_BUFFER = Fin (rnd64 (115 / 100))"

definition DEFAULT_ARBITRUM_L1_CALLDATA_PRICE_PER_UNIT :: js_number where
  "DEFAULT_ARBITRUM_L1_CALLDATA_PRICE_PER_UNIT = Fin 6250000000"

text \<open>\<open>brotli\<close> gives the length of the compressed bytes of a hex string.\<close>

definition getByteCountAfterBrotli0 :: "(string \<Rightarrow> nat) \<Rightarrow> string \<Rightarrow> js_number" where
  "getByteCountAfterBrotli0 brotli hexData =
     Fin (of_nat (brotli (if take 2 hexData = ''0x'' then drop 2 hexData else hexData)))"

definition getArbitrumPosterDataCost :: "(string \<Rightarrow> nat) \<Rightarrow> string \<Rightarrow> js_number \<Rightarrow> js_number" where
  "getArbitrumPosterDataCost brotli hexData l1CalldataPricePerUnit =
     (let l1ByteCount = js_add (getByteCountAfterBrotli0 brotli hexData) ARBITRUM_FIXED_COST_ESTIMATE;
          units = js_mul l1ByteCount TX_DATA_NON_ZERO_GAS_EIP2028
      in js_mul units l1CalldataPricePerUnit)"

definition js_ceil :: "js_number \<Rightarrow> js_number" where
  "js_ceil x = xmap (\<lambda>a. of_int \<lceil>a\<rceil>) x"

definition estimateArbitrumL1CalldataGasCost ::
  "(string \<Rightarrow> nat) \<Rightarrow> js_number \<Rightarrow> js_number option \<Rightarrow> string \<Rightarrow> js_number" where
  "estimateArbitrumL1CalldataGasCost brotli l2GasPrice l1CalldataPricePerUnit hexData =
     (let price = (case l1CalldataPricePerUnit of
                     Some p \<Rightarrow> if p = 0 \<or> p = NaN then DEFAULT_ARBITRUM_L1_CALLDATA_PRICE_PER_UNIT else p
                   | None \<Rightarrow> DEFAULT_ARBITRUM_L1_CALLDATA_PRICE_PER_UNIT);
          posterDataCost = js_mul (getArbitrumPosterDataCost brotli hexData price) L1_GAS_COST_BUFFER;
          posterFee = js_div posterDataCost l2GasPrice
      in js_ceil posterFee)"

section \<open>Reports of quotes\<close>

text \<open>\<open>s.indexOf(t)\<close>.\<close>

fun index_of :: "string \<Rightarrow> string \<Rightarrow> int" where
  "index_of pat [] = (if pat = [] then 0 else - 1)"
| "index_of pat (c # cs) =
     (if take (length pat) (c # cs) = pat then 0
      else let i = index_of pat cs in if i < 0 then - 1 else i + 1)"

definition AFFILIATE_DATA_SELECTOR :: string where
  "AFFILIATE_DATA_SELECTOR = ''869584cd''"

text \<open>The ten digits 118 after the selector; a selector that is not there has index -1.\<close>

definition getQuoteIdFromSwapQuote :: "GetSwapQuoteResponse \<Rightarrow> string" where
  "getQuoteIdFromSwapQuote quote =
     (let bytesPos = index_of AFFILIATE_DATA_SELECTOR (r_data quote);
          startingIndex = nat (bytesPos + 118)
      in take 10 (drop startingIndex (r_data quote)))"

definition getTimestampFromUniqueId :: "string \<Rightarrow> js_number" where
  "getTimestampFromUniqueId uniqueId = parseInt10 (drop (nat (index_of ''-'' uniqueId + 1)) uniqueId)"

datatype SubmissionBy = taker_submission | gaslessSwapAmm_submission

record ExtendedQuoteReportLogOptions =
  lo_quoteId :: "string option"
  lo_sellAmount :: "BigNumber option"
  lo_buyAmount :: "BigNumber option"
  lo_buyTokenAddress :: string
  lo_sellTokenAddress :: string
  lo_integratorId :: "string option"
  lo_taker :: "string option"
  lo_slippage :: "js_number option"
  lo_blockNumber :: "js_number option"
  lo_estimatedGas :: BigNumber
  lo_enableSlippageProtection :: bool
  lo_expectedSlippage :: "BigNumber option"
  lo_estimatedPriceImpact :: "BigNumber option"
  lo_priceImpactProtectionPercentage :: js_number
  lo_quoteReportSources :: ExtendedQuoteReportSources
  lo_submissionBy :: SubmissionBy
  lo_decodedUniqueId :: string

text \<open>The published report; amounts are numbers here and decimal strings in the message.\<close>

record PublishedReport =
  pub_quoteId :: "string option"
  pub_taker :: "string option"
  pub_timestamp :: js_number
  pub_firmQuoteReport :: bool
  pub_submissionBy :: SubmissionBy
  pub_buyAmount :: "BigNumber option"
  pub_sellAmount :: "BigNumber option"
  pub_buyTokenAddress :: string
  pub_sellTokenAddress :: string
  pub_integratorId :: "string option"
  pub_slippageBips :: "js_number option"
  pub_decodedUniqueId :: string
  pub_sources :: ExtendedQuoteReportSources
  pub_blockNumber :: "js_number option"
  pub_estimatedGas :: BigNumber
  pub_enableSlippageProtection :: bool
  pub_expectedSlippage :: "BigNumber option"
  pub_estimatedPriceImpact :: "BigNumber option"
  pub_priceImpactProtectionPercentage :: js_number

definition publishQuoteReport ::
  "js_number \<Rightarrow> string option \<Rightarrow> ExtendedQuoteReportLogOptions \<Rightarrow> bool \<Rightarrow> PublishedReport option" where
  "publishQuoteReport now KAFKA_TOPIC logOpts isFirmQuote =
     (if truthy_string KAFKA_TOPIC
      then Some
        \<lparr>pub_quoteId = lo_quoteId logOpts, pub_taker = lo_taker logOpts,
         pub_timestamp = (if lo_submissionBy logOpts = taker_submission
                          then getTimestampFromUniqueId (lo_decodedUniqueId logOpts) else now),
         pub_firmQuoteReport = isFirmQuote, pub_submissionBy = lo_submissionBy logOpts,
         pub_buyAmount = lo_buyAmount logOpts, pub_sellAmount = lo_sellAmount logOpts,
         pub_buyTokenAddress = lo_buyTokenAddress logOpts, pub_sellTokenAddress = lo_sellTokenAddress logOpts,
         pub_integratorId = lo_integratorId logOpts,
         pub_slippageBips = (case lo_slippage logOpts of
            Some x \<Rightarrow> if x = 0 \<or> x = NaN then None else Some (js_mul x (Fin 10000)) | None \<Rightarrow> None),
         pub_decodedUniqueId = lo_decodedUniqueId logOpts, pub_sources = lo_quoteReportSources logOpts,
         pub_blockNumber = lo_blockNumber logOpts, pub_estimatedGas = lo_estimatedGas logOpts,
         pub_enableSlippageProtection = lo_enableSlippageProtection logOpts,
         pub_expectedSlippage = lo_expectedSlippage logOpts, pub_estimatedPriceImpact = lo_estimatedPriceImpact logOpts,
         pub_priceImpactProtectionPercentage = js_mul (lo_priceImpactProtectionPercentage logOpts) (Fin 100)\<rparr>
      else None)"

section \<open>Properties\<close>

lemma distinct_dedup [simp]: "distinct (dedup xs)"
  by (simp add: dedup_def)

lemma set_dedup [simp]: "set (dedup xs) = set xs"
  by (simp add: dedup_def)

lemma source_value_not_0x: "source_value src \<noteq> ''0x''"
  by (cases src) simp_all

lemma source_of_value_eq: "source_of_value s = Some src \<longleftrightarrow> source_value src = s"
proof
  assume "source_of_value s = Some src"
  then show "source_value src = s" by (auto simp: source_of_value_def find_Some_iff)
next
  assume v: "source_value src = s"
  then have "source_of_value s \<noteq> None"
    using all_sources[of src] by (auto simp: source_of_value_def find_None_iff)
  then obtain src' where "source_of_value s = Some src'" by blast
  moreover from this have "source_value src' = s" by (auto simp: source_of_value_def find_Some_iff)
  ultimately show "source_of_value s = Some src" using v source_value_inj by metis
qed

lemma set_parsed_sources:
  "set (parseStringArrForERC20BridgeSources ids) =
     {src. source_value src \<in> set ids \<or> src = Native \<and> ''0x'' \<in> set ids}"
proof -
  have "set (List.map_filter f xs) = {y. \<exists>x \<in> set xs. f x = Some y}" for f :: "string \<Rightarrow> ERC20BridgeSource option" and xs
    by (induction xs) (auto simp: map_filter_simps split: option.splits)
  then have "set (parseStringArrForERC20BridgeSources ids) =
      {src. \<exists>i \<in> set ids. source_value src = (if i = ''0x'' then ''Native'' else i)}"
    by (simp add: parseStringArrForERC20BridgeSources_def source_of_value_eq)
  also have "(\<exists>i \<in> set ids. source_value src = (if i = ''0x'' then ''Native'' else i)) \<longleftrightarrow>
      source_value src \<in> set ids \<or> src = Native \<and> ''0x'' \<in> set ids" for src
    using source_value_not_0x[of src] source_value_inj[of src Native] by (auto split: if_split_asm)
  ultimately show ?thesis by simp
qed

text \<open>The identifiers a parameter lists.\<close>

definition listed_ids :: "string option \<Rightarrow> string list" where
  "listed_ids s = (if truthy_string s then split_on (CHR '','') (the s) else [])"

text \<open>The sources of a request: a request may exclude or include sources, not both; the parsed lists hold, each
  once, exactly the known sources the request names, the open order book also under its name \<open>0x\<close>; and including RFQ-T
  needs a taker, a whitelisted API key and, for a firm quote, the intent to fill, and then includes native orders.\<close>

theorem requested_sources_parsed:
  assumes "parseRequestForExcludedSources request validApiKeys endpoint = Inr r"
  defines "excluded \<equiv> listed_ids (pr_excludedSources request)" and "included \<equiv> listed_ids (pr_includedSources request)"
  shows "(excluded = [] \<or> included = []) \<and> distinct (rs_excludedSources r) \<and> distinct (rs_includedSources r) \<and>
    set (rs_excludedSources r) = {src. source_value src \<in> set excluded \<or> src = Native \<and> ''0x'' \<in> set excluded} \<and>
    set (rs_includedSources r) = {src. source_value src \<in> set included \<or>
      src = Native \<and> (''0x'' \<in> set included \<or> ''RFQT'' \<in> set included)} \<and>
    (''RFQT'' \<in> set included \<longrightarrow> (\<exists>key \<in> set validApiKeys. pr_apiKey request = Some key) \<and> pr_takerAddress request \<noteq> None \<and>
       (endpoint = quote_endpoint \<longrightarrow> pr_intentOnFilling request = Some ''true''))"
proof -
  have distinct: "distinct (parseStringArrForERC20BridgeSources ids)" for ids
    by (simp add: parseStringArrForERC20BridgeSources_def)
  note simps = parseRequestForExcludedSources_def validation_error_def Let_def excluded_def included_def listed_ids_def
    set_parsed_sources distinct
  consider "excluded \<noteq> []" | "excluded = []" "''RFQT'' \<in> set included" | "excluded = []" "''RFQT'' \<notin> set included" by blast
  then show ?thesis
  proof cases
    case 1
    then have "included = []" "r = \<lparr>rs_excludedSources = parseStringArrForERC20BridgeSources excluded, rs_includedSources = [],
       rs_nativeExclusivelyRFQT = (''Mesh'' \<in> set excluded \<and> ''0x'' \<notin> set excluded \<and> ''Native'' \<notin> set excluded)\<rparr>"
      using assms(1) by (auto simp: simps split: if_split_asm)
    then show ?thesis by (simp add: set_parsed_sources distinct)
  next
    case 2
    then have "r = \<lparr>rs_excludedSources = [], rs_includedSources = parseStringArrForERC20BridgeSources (''0x'' # included),
        rs_nativeExclusivelyRFQT = (''0x'' \<notin> set included \<and> ''Native'' \<notin> set included)\<rparr>"
      "\<exists>key \<in> set validApiKeys. pr_apiKey request = Some key" "pr_takerAddress request \<noteq> None"
      "endpoint = quote_endpoint \<longrightarrow> pr_intentOnFilling request = Some ''true''"
      using assms(1) by (auto simp: simps split: if_split_asm option.split_asm)
    then show ?thesis using 2 source_value_not_0x by (auto simp: set_parsed_sources distinct)
  next
    case 3
    then have "r = \<lparr>rs_excludedSources = [], rs_includedSources = parseStringArrForERC20BridgeSources included,
        rs_nativeExclusivelyRFQT = False\<rparr>"
      using assms(1) by (auto simp: simps split: if_split_asm option.split_asm)
    then show ?thesis using 3 by (simp add: set_parsed_sources distinct)
  qed
qed

theorem requested_sources_parsed_witness:
  "parseRequestForExcludedSources \<lparr>pr_takerAddress = Some ''0xt'', pr_excludedSources = None,
      pr_includedSources = Some ''RFQT,Curve,Curve,unknown'', pr_intentOnFilling = Some ''true'', pr_apiKey = Some ''k''\<rparr>
      [''k''] quote_endpoint =
    Inr \<lparr>rs_excludedSources = [], rs_includedSources = [Native, Curve], rs_nativeExclusivelyRFQT = True\<rparr> \<and>
   set [Native, Curve] = {src. source_value src \<in> set (listed_ids (Some ''RFQT,Curve,Curve,unknown'')) \<or>
      src = Native \<and> (''0x'' \<in> set (listed_ids (Some ''RFQT,Curve,Curve,unknown'')) \<or>
        ''RFQT'' \<in> set (listed_ids (Some ''RFQT,Curve,Curve,unknown'')))}"
proof -
  let ?request = "\<lparr>pr_takerAddress = Some ''0xt'', pr_excludedSources = None,
    pr_includedSources = Some ''RFQT,Curve,Curve,unknown'', pr_intentOnFilling = Some ''true'', pr_apiKey = Some ''k''\<rparr>"
  have "parseRequestForExcludedSources ?request [''k''] quote_endpoint =
    Inr \<lparr>rs_excludedSources = [], rs_includedSources = [Native, Curve], rs_nativeExclusivelyRFQT = True\<rparr>" by code_simp
  with requested_sources_parsed[OF this] show ?thesis by simp
qed

text \<open>A parsed affiliate fee is at most one; a positive percentage is a percentage fee and is only charged with a
  recipient, and a request for a fee without a recipient is refused.\<close>

theorem affiliate_fee_parsed:
  assumes "parseAffiliateFeeOptions query = Inr fee"
  shows "\<not> 1 < fee_buyTokenPercentageFee fee \<and> fee_feeType fee \<noteq> PositiveSlippageFee \<and>
    (0 < fee_buyTokenPercentageFee fee \<longrightarrow> fee_feeType fee = PercentageFee \<and> map_of query ''feeRecipient'' = Some (fee_recipient fee)) \<and>
    (fee_feeType fee \<noteq> NoFee \<longrightarrow> map_of query ''feeRecipient'' \<noteq> None)"
  using assms
  by (auto simp: parseAffiliateFeeOptions_def validation_error_def Let_def split: if_split_asm elim: truthy_string.elims)

theorem affiliate_fee_parsed_witness:
  "\<exists>fee. parseAffiliateFeeOptions [(''feeRecipient'', ''0xf''), (''buyTokenPercentageFee'', ''0.5'')] = Inr fee \<and>
     fee_feeType fee = PercentageFee \<and> \<not> 1 < fee_buyTokenPercentageFee fee"
proof -
  have "parseFloat ''0.5'' = Fin (1 / 2)" by code_simp
  then have "parseAffiliateFeeOptions [(''feeRecipient'', ''0xf''), (''buyTokenPercentageFee'', ''0.5'')] =
      Inr \<lparr>fee_feeType = PercentageFee, fee_recipient = ''0xf'', fee_buyTokenPercentageFee = Fin (1 / 2)\<rparr>"
    by (simp add: parseAffiliateFeeOptions_def float_or_def Let_def)
  with affiliate_fee_parsed[OF this] show ?thesis by simp
qed

section \<open>The identifier of a quote\<close>

lemma index_of_first:
  assumes "take (length pat) (drop n xs) = pat" "\<forall>i < n. take (length pat) (drop i xs) \<noteq> pat" "n \<le> length xs"
  shows "index_of pat xs = int n"
  using assms
proof (induction xs arbitrary: n)
  case (Cons x xs)
  show ?case
  proof (cases n)
    case (Suc m)
    have "\<forall>i < m. take (length pat) (drop i xs) \<noteq> pat" using Cons.prems(2) Suc by (metis Suc_mono drop_Suc_Cons)
    moreover have "take (length pat) (x # xs) \<noteq> pat" using Cons.prems(2) Suc by (metis drop0 zero_less_Suc)
    ultimately show ?thesis using Cons.IH[of m] Cons.prems Suc by (simp add: Let_def)
  qed (use Cons.prems in simp)
qed auto

lemma to_base_append:
  assumes "2 \<le> b" "0 < a" "b ^ k \<le> n" "n < b ^ Suc k"
  shows "to_base b (a * b ^ Suc k + n) = to_base b a @ to_base b n"
  using assms(3,4)
proof (induction k arbitrary: n)
  case 0
  then have "n < b" by simp
  moreover have "\<not> a * b + n < b" using assms(1,2) by (cases a) auto
  ultimately show ?case using assms(1) by (simp add: to_base.simps[of b "a * b + n"] to_base.simps[of b n])
next
  case (Suc k)
  have n: "n div b < b ^ Suc k" "b ^ k \<le> n div b" "\<not> n < b"
    using Suc.prems assms(1) by (auto simp: less_mult_imp_div_less mult.commute less_eq_div_iff_mult_less_eq not_less
        intro: order_trans[of b "b * b ^ k" n])
  have step: "(a * b ^ Suc (Suc k) + n) div b = a * b ^ Suc k + n div b" "(a * b ^ Suc (Suc k) + n) mod b = n mod b"
    using assms(1) div_mult_self1[of b n "a * b ^ Suc k"] mod_mult_self1[of n "a * b ^ Suc k" b]
    by (simp_all add: ac_simps)
  have "\<not> a * b ^ Suc (Suc k) + n < b" using n(3) by linarith
  then show ?case
    using Suc.IH[OF n(2,1)] n(3) assms(1) step
    by (simp add: to_base.simps[of b "a * b ^ Suc (Suc k) + n"] to_base.simps[of b n] del: power_Suc)
qed

lemma digit_value_dash: "digit_value (CHR ''-'') = None"
  by code_simp

text \<open>The identifier of a quote can be recovered from what is sent: with an affiliate call encoded as its selector,
  the affiliate and the identifier in words of 32 bytes, and a selector that does not occur before it, the quote id read at
  its fixed offset is the random part of the unique id and the timestamp read from the unique id is the time in seconds
  the quote was made.\<close>

theorem quote_id_recovered:
  assumes random: "\<forall>i. random_value (ae_random env i)"
    and t: "timestampInSeconds (ae_now env) = Fin (of_nat t)" "2 ^ 28 \<le> t" "t < 2 ^ 32"
    and abi: "\<forall>a n. ae_encodeAffiliate env a (Fin (of_nat n)) =
      ''0x'' @ AFFILIATE_DATA_SELECTOR @ word a @ replicate (64 - length (to_base 16 n)) (CHR ''0'') @ to_base 16 n"
      "\<forall>a. length (word a) = 64"
    and quote: "r_data quote = affiliatedData (attributeCallData env hexData affiliate)"
      "r_decodedUniqueId quote = decodedUniqueId (attributeCallData env hexData affiliate)"
    and first: "\<forall>i < length hexData. take 8 (drop i (r_data quote)) \<noteq> AFFILIATE_DATA_SELECTOR"
  shows "r_decodedUniqueId quote = getQuoteIdFromSwapQuote quote @ ''-'' @ to_base 10 t \<and>
    getTimestampFromUniqueId (r_decodedUniqueId quote) = Fin (of_nat t)"
proof -
  obtain a u where u: "attributeCallData env hexData affiliate =
      \<lparr>affiliatedData = hexData @ drop 2 (ae_encodeAffiliate env a (Fin (of_nat u))),
       decodedUniqueId = to_base 16 (u div 2 ^ 32) @ ''-'' @ to_base 10 (u mod 2 ^ 32)\<rparr>"
    "u mod 2 ^ 32 = t" "length (to_base 16 (u div 2 ^ 32)) = 10"
    using unique_id_roundtrip[OF random t] by blast
  let ?r = "to_base 16 (u div 2 ^ 32)"
  have digits: "to_base 16 u = ?r @ to_base 16 t" "length (to_base 16 t) = 8"
  proof -
    show len: "length (to_base 16 t) = 8" using to_base_length[of 16 7 t] t by simp
    have "0 < u div 2 ^ 32" using u(3) by (cases "u div 2 ^ 32 = 0") (simp_all add: to_base.simps[of 16 0])
    then have "to_base 16 (u div 2 ^ 32 * 16 ^ Suc 7 + t) = ?r @ to_base 16 t" using t by (intro to_base_append) auto
    moreover have "u div 2 ^ 32 * 16 ^ Suc 7 + t = u" using u(2) div_mult_mod_eq[of u "2 ^ 32"] by simp
    ultimately show "to_base 16 u = ?r @ to_base 16 t" by simp
  qed
  have data: "r_data quote = hexData @ AFFILIATE_DATA_SELECTOR @ word a @ replicate 46 (CHR ''0'') @ ?r @ to_base 16 t"
    using quote(1) u abi(1) digits by simp
  have "index_of AFFILIATE_DATA_SELECTOR (r_data quote) = int (length hexData)"
  proof (rule index_of_first)
    have len: "length AFFILIATE_DATA_SELECTOR = 8" by (simp add: AFFILIATE_DATA_SELECTOR_def)
    then show "\<forall>i < length hexData. take (length AFFILIATE_DATA_SELECTOR) (drop i (r_data quote)) \<noteq> AFFILIATE_DATA_SELECTOR"
      using first by simp
  qed (simp_all add: data)
  then have "getQuoteIdFromSwapQuote quote = ?r"
    using data abi(2) u(3) by (simp add: getQuoteIdFromSwapQuote_def AFFILIATE_DATA_SELECTOR_def nat_add_distrib)
  moreover have unique: "r_decodedUniqueId quote = ?r @ ''-'' @ to_base 10 t" using quote(2) u by simp
  moreover have "getTimestampFromUniqueId (r_decodedUniqueId quote) = Fin (of_nat t)"
  proof -
    have "CHR ''-'' \<notin> set ?r" using to_base_value[of 16 "u div 2 ^ 32"] by (auto simp: digit_value_dash)
    then have "index_of ''-'' (?r @ ''-'' @ to_base 10 t) = int (length ?r)"
      by (intro index_of_first) (auto simp: take_Suc hd_drop_conv_nth nth_append in_set_conv_nth)
    then show ?thesis using parseInt_print[of t] t(3) unfolding unique getTimestampFromUniqueId_def by (simp add: nat_add_distrib)
  qed
  ultimately show ?thesis by simp
qed

definition affiliate_call :: "string \<Rightarrow> BigNumber \<Rightarrow> string" where
  "affiliate_call a x = (let n = nat \<lfloor>xval x\<rfloor> in ''0x'' @ AFFILIATE_DATA_SELECTOR @ replicate 64 (CHR ''1'') @
     replicate (64 - length (to_base 16 n)) (CHR ''0'') @ to_base 16 n)"

definition sample_response :: GetSwapQuoteResponse where
  "sample_response = (let attributed = attributeCallData (sample_attribution\<lparr>ae_encodeAffiliate := affiliate_call\<rparr>) ''0x'' None
     in undefined\<lparr>r_data := affiliatedData attributed, r_decodedUniqueId := decodedUniqueId attributed\<rparr>)"

theorem quote_id_recovered_witness:
  "r_decodedUniqueId sample_response = getQuoteIdFromSwapQuote sample_response @ ''-'' @ to_base 10 1700000000"
proof -
  let ?env = "sample_attribution\<lparr>ae_encodeAffiliate := affiliate_call\<rparr>"
  have "timestampInSeconds 1700000000000 = Fin (of_nat 1700000000)"
    using bn_of_number_of_nat[of 1700000000] toNumber_of_nat[of 1700000000] round_mode_of_int[of ROUND_HALF_UP 1700000000]
    by (simp add: timestampInSeconds_def toNumber_def del: round_mode.simps round_mode_of_int)
  moreover have "ae_now ?env = 1700000000000" by (simp add: sample_attribution_def)
  ultimately have now: "timestampInSeconds (ae_now ?env) = Fin (of_nat 1700000000)" by (simp del: of_nat_numeral)
  have random: "\<forall>i. random_value (ae_random ?env i)"
    by (intro allI) (simp add: sample_attribution_def random_value_def exI[of _ "1 / 2"])
  have abi: "\<forall>a n. ae_encodeAffiliate ?env a (Fin (of_nat n)) = ''0x'' @ AFFILIATE_DATA_SELECTOR @ replicate 64 (CHR ''1'') @
      replicate (64 - length (to_base 16 n)) (CHR ''0'') @ to_base 16 n"
    by (simp add: affiliate_call_def Let_def)
  have data: "r_data sample_response = affiliatedData (attributeCallData ?env ''0x'' None)"
    "r_decodedUniqueId sample_response = decodedUniqueId (attributeCallData ?env ''0x'' None)"
    by (simp_all add: sample_response_def Let_def)
  have "\<exists>rest. r_data sample_response = ''0x869584cd'' @ rest"
    by (simp add: data attributeCallData_def affiliate_call_def AFFILIATE_DATA_SELECTOR_def Let_def)
  then have first: "\<forall>i < length ''0x''. take 8 (drop i (r_data sample_response)) \<noteq> AFFILIATE_DATA_SELECTOR"
    by (auto simp: AFFILIATE_DATA_SELECTOR_def less_Suc_eq)
  show ?thesis
    using quote_id_recovered[OF random now _ _ abi _ data first] by simp
qed

end
