(* ===== verification/Gas_Price.thy ===== *)
theory Gas_Price
  imports Big_Number
begin

text \<open>
  The cached gas price (\<open>asset-swapper/utils/gas_price_utils.ts\<close>): an estimate that a heartbeat refreshes from an
  oracle, and that a request fetches itself while there is none. A poll and a request that waits both end in
  \<open>updateGasPriceFromOracleOrThrow\<close> when their answer arrives; \<open>gas_step\<close> interleaves them, as the event loop does. The
  oracle's answers are arguments. A response is parsed whatever its status, so that an answer may lack a result.
\<close>

section \<open>State and operations\<close>

definition MAX_ERROR_COUNT :: nat where
  "MAX_ERROR_COUNT = 5"

record GasPrices =
  gp_fast :: js_number
  gp_l1CalldataPricePerUnit :: "js_number option"

text \<open>The request failed or its body is no JSON; the body is \<open>null\<close>; it is a JSON value with or without a result. A
  result that is there is a price, as the declared type says.\<close>

datatype OracleAnswer = OracleFailed | OracleNullBody | OracleAnswered "GasPrices option"

record GasPriceUtils =
  gasPriceEstimation :: "GasPrices option"
  errorCount :: nat

definition new_GasPriceUtils :: GasPriceUtils where
  "new_GasPriceUtils = \<lparr>gasPriceEstimation = None, errorCount = 0\<rparr>"

definition NoGasPriceProvidedOrEstimated :: js_error where
  "NoGasPriceProvidedOrEstimated = Error ''NO_GAS_PRICE_PROVIDED_OR_ESTIMATED''"

text \<open>The new state, and the error if it throws. The error count is reset as soon as there is a body, before its
  result is read, which throws when the body is \<open>null\<close>.\<close>

definition catch_oracle_error :: "GasPriceUtils \<Rightarrow> GasPriceUtils \<times> js_error option" where
  "catch_oracle_error s =
     (if MAX_ERROR_COUNT < errorCount s + 1 \<or> gasPriceEstimation s = None
      then (s\<lparr>errorCount := 0\<rparr>, Some NoGasPriceProvidedOrEstimated)
      else (s\<lparr>errorCount := errorCount s + 1\<rparr>, None))"

fun updateGasPriceFromOracleOrThrow :: "OracleAnswer \<Rightarrow> GasPriceUtils \<Rightarrow> GasPriceUtils \<times> js_error option" where
  "updateGasPriceFromOracleOrThrow (OracleAnswered result) s = (s\<lparr>errorCount := 0, gasPriceEstimation := result\<rparr>, None)"
| "updateGasPriceFromOracleOrThrow OracleNullBody s = catch_oracle_error (s\<lparr>errorCount := 0\<rparr>)"
| "updateGasPriceFromOracleOrThrow OracleFailed s = catch_oracle_error s"

definition getGasPriceEstimationOrDefault :: "GasPrices \<Rightarrow> GasPriceUtils \<Rightarrow> GasPrices" where
  "getGasPriceEstimationOrDefault defaultGasPrices s =
     (case gasPriceEstimation s of
        None \<Rightarrow> defaultGasPrices
      | Some est \<Rightarrow> \<lparr>gp_fast = gp_fast est,
          gp_l1CalldataPricePerUnit = (case gp_l1CalldataPricePerUnit est of
             Some p \<Rightarrow> Some p | None \<Rightarrow> gp_l1CalldataPricePerUnit defaultGasPrices)\<rparr>)"

text \<open>A request with the answer it gets if it has to ask; the estimate may still be undefined.\<close>

definition gasUtils_getGasPriceEstimationOrThrowAsync ::
  "OracleAnswer \<Rightarrow> GasPriceUtils \<Rightarrow> (js_error + GasPrices option) \<times> GasPriceUtils" where
  "gasUtils_getGasPriceEstimationOrThrowAsync answer s =
     (if gasPriceEstimation s = None
      then case updateGasPriceFromOracleOrThrow answer s of
             (s', Some e) \<Rightarrow> (Inl e, s') | (s', None) \<Rightarrow> (Inr (gasPriceEstimation s'), s')
      else (Inr (gasPriceEstimation s), s))"

text \<open>One instance for every URL, made when it is first asked for.\<close>

definition getInstance :: "string \<Rightarrow> (string \<rightharpoonup> GasPriceUtils) \<Rightarrow> GasPriceUtils \<times> (string \<rightharpoonup> GasPriceUtils)" where
  "getInstance url instances =
     (let instances' = (if instances url = None then instances(url \<mapsto> new_GasPriceUtils) else instances)
      in (the (instances' url), instances'))"

section \<open>Interleavings\<close>

text \<open>The polls and the requests that wait for the oracle.\<close>

record GasWorld =
  gw_utils :: GasPriceUtils
  gw_polls :: nat
  gw_requests :: nat

definition new_GasWorld :: GasWorld where
  "new_GasWorld = \<lparr>gw_utils = new_GasPriceUtils, gw_polls = 0, gw_requests = 0\<rparr>"

datatype gas_event = Beat | PollAnswered OracleAnswer | RequestWaits | RequestAnswered OracleAnswer

inductive gas_step :: "GasWorld \<Rightarrow> gas_event \<Rightarrow> GasWorld \<Rightarrow> bool" where
  beat: "gas_step w Beat (w\<lparr>gw_polls := Suc (gw_polls w)\<rparr>)"
| poll_answered: "gw_polls w = Suc n \<Longrightarrow>
    gas_step w (PollAnswered a) (w\<lparr>gw_polls := n, gw_utils := fst (updateGasPriceFromOracleOrThrow a (gw_utils w))\<rparr>)"
| request_waits: "gasPriceEstimation (gw_utils w) = None \<Longrightarrow>
    gas_step w RequestWaits (w\<lparr>gw_requests := Suc (gw_requests w)\<rparr>)"
| request_answered: "gw_requests w = Suc n \<Longrightarrow>
    gas_step w (RequestAnswered a) (w\<lparr>gw_requests := n, gw_utils := fst (updateGasPriceFromOracleOrThrow a (gw_utils w))\<rparr>)"

inductive_cases gas_stepE: "gas_step w e w'"

inductive gas_run :: "GasWorld \<Rightarrow> gas_event list \<Rightarrow> GasWorld \<Rightarrow> bool" where
  stop: "gas_run w [] w"
| step: "gas_step w e w' \<Longrightarrow> gas_run w' es w'' \<Longrightarrow> gas_run w (e # es) w''"

inductive_cases gas_run_ConsE: "gas_run w (e # es) w'"

text \<open>The answer an event brings.\<close>

fun answer_of :: "gas_event \<Rightarrow> OracleAnswer option" where
  "answer_of (PollAnswered a) = Some a"
| "answer_of (RequestAnswered a) = Some a"
| "answer_of _ = None"

lemma gas_step_utils:
  assumes "gas_step w e w'"
  shows "gw_utils w' = (case answer_of e of
    None \<Rightarrow> gw_utils w | Some a \<Rightarrow> fst (updateGasPriceFromOracleOrThrow a (gw_utils w)))"
  using assms by (auto elim: gas_stepE)

text \<open>What a list of answers does to the state, with the errors thrown on the way.\<close>

fun apply_answers :: "OracleAnswer list \<Rightarrow> GasPriceUtils \<Rightarrow> GasPriceUtils \<times> js_error list" where
  "apply_answers [] s = (s, [])"
| "apply_answers (a # as) s =
     (let (s', e) = updateGasPriceFromOracleOrThrow a s; (s'', es) = apply_answers as s'
      in (s'', (case e of Some x \<Rightarrow> [x] | None \<Rightarrow> []) @ es))"

lemma gas_run_answers:
  "gas_run w es w' \<Longrightarrow> gw_utils w' = fst (apply_answers (List.map_filter answer_of es) (gw_utils w))"
  by (induction rule: gas_run.induct) (auto simp: map_filter_simps gas_step_utils Let_def split: option.split prod.split)

section \<open>Invariants\<close>

definition gas_inv :: "GasPriceUtils \<Rightarrow> bool" where
  "gas_inv s \<longleftrightarrow> errorCount s \<le> MAX_ERROR_COUNT \<and> (gasPriceEstimation s = None \<longrightarrow> errorCount s = 0)"

lemma update_inv: "gas_inv s \<Longrightarrow> gas_inv (fst (updateGasPriceFromOracleOrThrow a s))"
  by (cases a) (auto simp: gas_inv_def catch_oracle_error_def MAX_ERROR_COUNT_def)

lemma apply_answers_Cons:
  "fst (apply_answers (a # as) s) = fst (apply_answers as (fst (updateGasPriceFromOracleOrThrow a s)))"
  "snd (apply_answers (a # as) s) = (case snd (updateGasPriceFromOracleOrThrow a s) of Some x \<Rightarrow> [x] | None \<Rightarrow> []) @
     snd (apply_answers as (fst (updateGasPriceFromOracleOrThrow a s)))"
  by (simp_all add: Let_def split: prod.split)

declare apply_answers.simps(2) [simp del] and apply_answers_Cons [simp]

lemma apply_answers_inv: "gas_inv s \<Longrightarrow> gas_inv (fst (apply_answers as s))"
  by (induction as arbitrary: s) (simp_all add: update_inv)

text \<open>The last answer of the oracle that was not a failure.\<close>

fun last_result :: "OracleAnswer list \<Rightarrow> GasPrices option option" where
  "last_result [] = None"
| "last_result (a # as) = (case last_result as of Some r \<Rightarrow> Some r
     | None \<Rightarrow> (case a of OracleAnswered r \<Rightarrow> Some r | _ \<Rightarrow> None))"

lemma apply_answers_estimation:
  "gasPriceEstimation (fst (apply_answers as s)) =
     (case last_result as of Some r \<Rightarrow> r | None \<Rightarrow> gasPriceEstimation s)"
  by (induction as arbitrary: s) (auto simp: catch_oracle_error_def split: OracleAnswer.split option.split)

lemma failures_throw:
  assumes "MAX_ERROR_COUNT < errorCount s + n" "0 < n"
  shows "snd (apply_answers (replicate n OracleFailed) s) \<noteq> []"
  using assms
proof (induction n arbitrary: s)
  case (Suc n)
  show ?case
  proof (cases "MAX_ERROR_COUNT < errorCount s + 1 \<or> gasPriceEstimation s = None")
    case False
    then have "0 < n" using Suc.prems by (cases n) auto
    then show ?thesis using Suc.IH[of "s\<lparr>errorCount := errorCount s + 1\<rparr>"] Suc.prems False by (simp add: catch_oracle_error_def)
  qed (auto simp: catch_oracle_error_def)
qed simp

lemma reachable_utils:
  assumes "gas_run new_GasWorld es w"
  shows "gas_inv (gw_utils w) \<and> gasPriceEstimation (gw_utils w) =
    (case last_result (List.map_filter answer_of es) of Some r \<Rightarrow> r | None \<Rightarrow> None)"
proof -
  have "gas_inv new_GasPriceUtils" by (simp add: gas_inv_def new_GasPriceUtils_def)
  then show ?thesis
    using gas_run_answers[OF assms] apply_answers_inv[of new_GasPriceUtils] apply_answers_estimation[of _ new_GasPriceUtils]
    by (auto simp: new_GasWorld_def new_GasPriceUtils_def split: option.split)
qed

section \<open>Properties\<close>

text \<open>However polls and requests interleave, the cached price is the last result the oracle gave, failures leave it
  as it is, the number of errors counted stays within the limit and is zero while there is no price. A
  request with a cached price gets it at once, and one without throws exactly when the oracle fails.\<close>

theorem cached_price_is_last_result:
  assumes "gas_run new_GasWorld es w"
  shows "gasPriceEstimation (gw_utils w) = (case last_result (List.map_filter answer_of es) of Some r \<Rightarrow> r | None \<Rightarrow> None) \<and>
    errorCount (gw_utils w) \<le> MAX_ERROR_COUNT \<and> (gasPriceEstimation (gw_utils w) = None \<longrightarrow> errorCount (gw_utils w) = 0) \<and>
    (\<forall>answer. fst (gasUtils_getGasPriceEstimationOrThrowAsync answer (gw_utils w)) =
       (case gasPriceEstimation (gw_utils w) of
          Some p \<Rightarrow> Inr (Some p)
        | None \<Rightarrow> (case answer of OracleAnswered r \<Rightarrow> Inr r | _ \<Rightarrow> Inl NoGasPriceProvidedOrEstimated)))"
proof -
  note u = reachable_utils[OF assms]
  then have "\<forall>answer. fst (gasUtils_getGasPriceEstimationOrThrowAsync answer (gw_utils w)) =
       (case gasPriceEstimation (gw_utils w) of
          Some p \<Rightarrow> Inr (Some p)
        | None \<Rightarrow> (case answer of OracleAnswered r \<Rightarrow> Inr r | _ \<Rightarrow> Inl NoGasPriceProvidedOrEstimated))"
    by (auto simp: gasUtils_getGasPriceEstimationOrThrowAsync_def catch_oracle_error_def split: option.split OracleAnswer.split)
  with u show ?thesis by (simp add: gas_inv_def)
qed

definition sample_price :: GasPrices where
  "sample_price = \<lparr>gp_fast = Fin 100, gp_l1CalldataPricePerUnit = None\<rparr>"

lemma sample_run:
  "\<exists>w. gas_run new_GasWorld [Beat, PollAnswered (OracleAnswered (Some sample_price)), Beat] w \<and> gw_polls w = 1"
proof -
  let ?w1 = "new_GasWorld\<lparr>gw_polls := Suc 0\<rparr>"
  let ?w2 = "?w1\<lparr>gw_polls := 0, gw_utils := fst (updateGasPriceFromOracleOrThrow (OracleAnswered (Some sample_price)) (gw_utils ?w1))\<rparr>"
  have s1: "gas_step new_GasWorld Beat ?w1" using gas_step.beat[of new_GasWorld] by (simp add: new_GasWorld_def)
  have s2: "gas_step ?w1 (PollAnswered (OracleAnswered (Some sample_price))) ?w2" by (rule gas_step.poll_answered) simp
  note gas_run.step[OF s1 gas_run.step[OF s2 gas_run.step[OF gas_step.beat gas_run.stop]]]
  then show ?thesis by (intro exI conjI) auto
qed

theorem cached_price_is_last_result_witness:
  "\<exists>w. gas_run new_GasWorld [Beat, PollAnswered (OracleAnswered (Some sample_price)), Beat] w \<and>
     gasPriceEstimation (gw_utils w) = Some sample_price"
proof -
  obtain w where w: "gas_run new_GasWorld [Beat, PollAnswered (OracleAnswered (Some sample_price)), Beat] w" using sample_run by blast
  from cached_price_is_last_result[OF this] w show ?thesis by (auto simp: map_filter_simps)
qed

text \<open>C29: An outage of the oracle is reported in bounded time and ends with its first answer: from every state the
  cache can reach, each sequence of six updates in a row that bring no JSON body throws at least once, and the first update that brings a
  price makes every later request return it without waiting.\<close>

theorem outage_reported_and_ends:
  assumes "gas_run new_GasWorld es w" "MAX_ERROR_COUNT < n"
  shows "snd (apply_answers (replicate n OracleFailed) (gw_utils w)) \<noteq> [] \<and>
    (\<forall>p answer. fst (gasUtils_getGasPriceEstimationOrThrowAsync answer
       (fst (apply_answers (replicate n OracleFailed @ [OracleAnswered (Some p)]) (gw_utils w)))) = Inr (Some p))"
proof -
  have "last_result (replicate k OracleFailed @ [OracleAnswered (Some p)]) = Some (Some p)" for k p
    by (induction k) auto
  then have "gasPriceEstimation (fst (apply_answers (replicate n OracleFailed @ [OracleAnswered (Some p)]) (gw_utils w))) = Some p" for p
    by (simp add: apply_answers_estimation)
  moreover have "snd (apply_answers (replicate n OracleFailed) (gw_utils w)) \<noteq> []"
    using assms(2) by (intro failures_throw) auto
  ultimately show ?thesis by (simp add: gasUtils_getGasPriceEstimationOrThrowAsync_def)
qed

theorem outage_reported_and_ends_witness:
  "snd (apply_answers (replicate 6 OracleFailed) new_GasPriceUtils) \<noteq> []"
  using outage_reported_and_ends[OF gas_run.stop[of new_GasWorld], of 6]
  by (simp add: MAX_ERROR_COUNT_def new_GasWorld_def)

text \<open>Answers that are \<open>null\<close> are never reported while a price is cached, however long they go on: each resets the count.\<close>

lemma null_bodies_unreported:
  assumes "gasPriceEstimation s \<noteq> None"
  shows "snd (apply_answers (replicate n OracleNullBody) s) = [] \<and>
    gasPriceEstimation (fst (apply_answers (replicate n OracleNullBody) s)) = gasPriceEstimation s"
  using assms by (induction n arbitrary: s) (simp_all add: catch_oracle_error_def MAX_ERROR_COUNT_def)

text \<open>An answer without a result, such as the body of an error response, erases the price and counts as a success.\<close>

lemma error_body_erases_price:
  "updateGasPriceFromOracleOrThrow (OracleAnswered None) s = (s\<lparr>errorCount := 0, gasPriceEstimation := None\<rparr>, None)"
  by simp

end
