(* ===== verification/Swap_Responses.thy ===== *)
theory Swap_Responses
  imports Swap_Service
begin

text \<open>
  What the responses of the swap service guarantee: the stages every response went through, gas and errors,
  prices and amounts, a sample service for the witnesses, and the properties.
\<close>

section \<open>The stages of a quote\<close>

lemma res_bindE:
  assumes "res_bind m f = Inr y"
  obtains x where "m = Inr x" "f x = Inr y"
  using assms by (auto simp: res_bind_eq_Inr)

lemma thrown_eq_Inr [simp]: "thrown r = Inr x \<longleftrightarrow> r = Inr x"
  by (cases r) (simp_all add: thrown_def)

lemma thrown_eq_Inl: "thrown r = Inl e \<longleftrightarrow> (\<exists>t. r = Inl t \<and> e = Thrown t)"
  by (cases r) (auto simp: thrown_def)

definition faux_gas :: "SwapService \<Rightarrow> GetSwapQuoteParams \<Rightarrow> SwapQuote \<Rightarrow> SellTokenFees \<Rightarrow> BigNumber" where
  "faux_gas sv params quote sellFees =
     bn_of_number (qi_gas (swq_worstCaseQuoteInfo quote)) +
     am_gasCost (getBuyTokenFeeAmounts (sv_rnd sv) (sv_GASLESS_SWAP_FEE_ENABLED sv) quote (p_affiliateFee params)) +
     stf_gas sellFees"

lemma quote_asked:
  assumes "calculateSwapQuoteAsync sv params = Inr response"
  obtains fees gasPrice amount quote where
    "sell_side_fees sv params = Inr (fees, gasPrice)"
    "fill_amount params (stf_amount fees) = Inr amount"
    "op_getSwapQuoteAsync (sv_swapQuoter sv) (p_buyToken params) (p_sellToken params) amount (market_side params)
       (assetSwapperOpts sv params gasPrice) (Some (sv_rfqClient sv)) = Inr quote"
    "finish_quote sv params fees quote = Inr response"
  using assms by (auto simp: calculateSwapQuoteAsync_def res_bind_eq_Inr split: if_splits)

definition buy_fee_amounts :: "SwapService \<Rightarrow> GetSwapQuoteParams \<Rightarrow> SwapQuote \<Rightarrow> AffiliateFeeAmount list" where
  "buy_fee_amounts sv params quote =
     [\<lparr>feeType = fee_feeType (p_affiliateFee params), af_recipient = fee_recipient (p_affiliateFee params),
       buyTokenFeeAmount = am_buyTokenFeeAmount
         (getBuyTokenFeeAmounts (sv_rnd sv) (sv_GASLESS_SWAP_FEE_ENABLED sv) quote (p_affiliateFee params)),
       sellTokenFeeAmount = 0\<rparr>]"

lemma quote_finished_call:
  assumes "finish_quote sv params fees quote = Inr response"
  obtains sellFees tx gas made where
    "buy_side_fees sv params fees quote = Inr sellFees"
    "getSwapQuotePartialTransaction sv quote params (buy_fee_amounts sv params quote) (stf_transfers sellFees) = Inr tx"
    "gas_estimate sv params quote tx (stf_gas sellFees) (faux_gas sv params quote sellFees) = Inr gas"
    "make_response sv params quote sellFees
       (am_buyTokenFeeAmount (getBuyTokenFeeAmounts (sv_rnd sv) (sv_GASLESS_SWAP_FEE_ENABLED sv) quote (p_affiliateFee params)))
       tx gas = Inr made"
    "check_response params made = Inr made" "response = add_expected_slippage sv params made"
proof -
  have "check_response params r = Inr r' \<Longrightarrow> r' = r" for r r'
    by (auto simp: check_response_def split: if_splits)
  then show ?thesis
    using assms unfolding finish_quote_def Let_def
    by (elim res_bindE) (rule that, assumption, unfold faux_gas_def buy_fee_amounts_def thrown_eq_Inr, assumption,
      assumption, assumption, metis, metis sum.inject(2))
qed

lemma quote_finished:
  assumes "finish_quote sv params fees quote = Inr response"
  obtains sellFees tx gas made where
    "buy_side_fees sv params fees quote = Inr sellFees"
    "gas_estimate sv params quote tx (stf_gas sellFees) (faux_gas sv params quote sellFees) = Inr gas"
    "make_response sv params quote sellFees
       (am_buyTokenFeeAmount (getBuyTokenFeeAmounts (sv_rnd sv) (sv_GASLESS_SWAP_FEE_ENABLED sv) quote (p_affiliateFee params)))
       tx gas = Inr made"
    "check_response params made = Inr made" "response = add_expected_slippage sv params made"
  using assms by (rule quote_finished_call) (rule that)

lemma add_expected_slippage_keeps [simp]:
  "r_buyAmount (add_expected_slippage sv params r) = r_buyAmount r"
  "r_sellAmount (add_expected_slippage sv params r) = r_sellAmount r"
  "r_estimatedPriceImpact (add_expected_slippage sv params r) = r_estimatedPriceImpact r"
  "r_price (add_expected_slippage sv params r) = r_price r"
  "r_sellTokenToEthRate (add_expected_slippage sv params r) = r_sellTokenToEthRate r"
  "r_buyTokenToEthRate (add_expected_slippage sv params r) = r_buyTokenToEthRate r"
  "r_gas (add_expected_slippage sv params r) = r_gas r"
  "r_data (add_expected_slippage sv params r) = r_data r"
  "r_estimatedGas (add_expected_slippage sv params r) = r_estimatedGas r"
  by (simp_all add: add_expected_slippage_def)

lemma make_response_fields:
  assumes "make_response sv params quote sellFees buyFee tx gas = Inr r"
  shows "r_buyAmount r = qi_makerAmount (swq_bestCaseQuoteInfo quote) - buyFee"
    "r_sellAmount r = qi_totalTakerAmount (swq_bestCaseQuoteInfo quote) + stf_amount sellFees"
    "r_gas r = gas" "r_estimatedGas r = gas"
    "calculateEstimatedPriceImpactPercent (sv_rnd sv) (r_price r) (r_sellTokenToEthRate r) (r_buyTokenToEthRate r)
       (market_side params) = Inr (r_estimatedPriceImpact r)"
    "r_data r = pt_data tx"
  using assms by (auto simp: make_response_def Let_def res_bind_eq_Inr)

lemma on_chain_total: "calculateFees opts = Inr r \<Longrightarrow>
   totalOnChainFeeAmount r = foldl (\<lambda>total t. total + transferAmount t) 0 (onChainTransfers r)"
  by (auto simp: calculateFees_def calculateTotalOnChainFees_def Let_def elim!: res_bindE split: option.splits)

text \<open>What a gasless sell is charged: the inputs of the fee calculation, and what becomes of its result.\<close>

definition gasless_fee_opts ::
  "GetSwapQuoteParams \<Rightarrow> MetaTransactionVersion \<Rightarrow> BigNumber \<Rightarrow> BigNumber option \<Rightarrow> BigNumber \<Rightarrow> CalculateFeesOpts" where
  "gasless_fee_opts params version sold rate gasPrice =
     \<lparr>opt_feeConfigs = p_feeConfigs params, opt_sellToken = p_sellToken params, opt_sellTokenAmount = sold,
      opt_sellTokenAmountPerWei = rate, opt_gasPrice = gasPrice,
      opt_quoteGasEstimate = AVG_MULTIPLEX_TRANFORM_ERC_20_GAS,
      opt_gasPerOnChainTransfer = (if version = v1 then TRANSFER_GAS else TRANSFER_FROM_GAS)\<rparr>"

lemma sell_fees_calculated:
  assumes "sell_side_fees sv params = Inr (fees, g)" "p_metaTransactionVersion params = Some version"
    "p_sellAmount params = Some sold"
  obtains rate gasPrice r where
    "if \<exists>cfgs. p_feeConfigs params = Some cfgs \<and> cfg_gasFee cfgs \<noteq> None
     then map_sum id Some (op_getTokenAmountPerWei (sv_swapQuoter sv) (p_sellToken params)) = Inr rate else rate = None"
    "(case p_gasPrice params of None \<Rightarrow> getGasPriceEstimationOrThrowAsync (sv_swapQuoter sv) | Some price \<Rightarrow> Inr price) =
       Inr gasPrice"
    "calculateFees (gasless_fee_opts params version sold rate gasPrice) = Inr r"
    "stf_amount fees = totalOnChainFeeAmount r" "\<not> sold \<le> totalOnChainFeeAmount r"
    "stf_transfers fees = filter (\<lambda>fee. 0 < sellTokenFeeAmount fee) (map transfer_to_fee (onChainTransfers r))"
proof -
  obtain gasPrice where
    price: "(case p_gasPrice params of Some g \<Rightarrow> Inr g
        | None \<Rightarrow> thrown (getGasPriceEstimationOrThrowAsync (sv_swapQuoter sv))) = Inr gasPrice" and
    fees: "getSellTokenFees sv Sell (p_feeConfigs params) (p_sellToken params) sold None gasPrice
        AVG_MULTIPLEX_TRANFORM_ERC_20_GAS (transfer_gas version) = Inr fees"
    using assms by (auto simp: sell_side_fees_def elim!: res_bindE)
  let ?wants = "case p_feeConfigs params of None \<Rightarrow> False | Some cfgs \<Rightarrow> cfg_gasFee cfgs \<noteq> None"
  let ?rate = "if ?wants then res_bind (thrown (op_getTokenAmountPerWei (sv_swapQuoter sv) (p_sellToken params))) (\<lambda>rate. Inr (Some rate))
       else Inr None"
  let ?calculate = "\<lambda>rate. case calculateFees (gasless_fee_opts params version sold rate gasPrice) of
          Inl e \<Rightarrow> Inl (Thrown (Error (fee_error_message e)))
        | Inr r \<Rightarrow>
            if sold \<le> totalOnChainFeeAmount r
            then Inl (InsufficientFundsError (Some ''sellAmount insufficient to cover fees''))
            else Inr \<lparr>stf_fees = res_fees r, stf_amount = totalOnChainFeeAmount r,
                      stf_transfers = filter (\<lambda>t. 0 < sellTokenFeeAmount t) (map transfer_to_fee (onChainTransfers r)),
                      stf_gas = onChainTransfersGas r\<rparr>"
  have "res_bind ?rate ?calculate = Inr fees"
    using fees by (simp only: getSellTokenFees_def gasless_fee_opts_def transfer_gas_def simp_thms)
  then obtain rate where rate: "?rate = Inr rate" and rest: "?calculate rate = Inr fees"
    by (rule res_bindE)
  obtain r where r: "calculateFees (gasless_fee_opts params version sold rate gasPrice) = Inr r"
    using rest by (auto split: sum.split_asm)
  show ?thesis
    by (rule that[of rate gasPrice r])
      (use price rate rest r in \<open>auto simp: res_bind_eq_Inr split: option.splits if_split_asm\<close>)
qed

section \<open>Gas\<close>

lemma estimate_succeeds:
  assumes "estimateGasOrThrowRevertErrorAsync node chainId tx = Inr gas"
  shows "\<exists>state. fst (simulate_call node chainId tx) = state \<and> call_success (cs_result state) \<and>
    gas = call_gasUsed (cs_result state) + bn_of_number (calculateCallDataGas (tx_data tx))"
  using assms
  by (auto simp: estimateGasOrThrowRevertErrorAsync_def Let_def split: prod.splits option.splits if_splits)

lemma bn_max_ge: "bn_max x y \<noteq> NaN \<Longrightarrow> x \<le> bn_max x y \<and> y \<le> bn_max x y"
  by (cases x; cases y) (auto simp: bn_max_def less_eq_xnum_def)

lemma refl_le: "x \<noteq> NaN \<Longrightarrow> x \<le> (x :: xnum)"
  by (simp add: less_eq_xnum_def)

definition nonneg :: "xnum \<Rightarrow> bool" where
  "nonneg x \<longleftrightarrow> (\<exists>a. x = Fin a \<and> 0 \<le> a)"

lemma am_gasCost_nonneg: "nonneg (am_gasCost (getBuyTokenFeeAmounts rnd enabled quote fee))"
  by (auto simp: getBuyTokenFeeAmounts_def nonneg_def AFFILIATE_FEE_TRANSFORMER_GAS_def
      POSITIVE_SLIPPAGE_FEE_TRANSFORMER_GAS_def)

lemma onChainTransfersGas_nonneg:
  assumes "calculateFees opts = Inr r" "nonneg (opt_gasPerOnChainTransfer opts)"
  shows "nonneg (onChainTransfersGas r)"
  using assms
  by (auto simp: calculateFees_def calculateTotalOnChainFees_def nonneg_def Let_def elim!: res_bindE split: option.splits)

lemma getSellTokenFees_gas:
  assumes "getSellTokenFees sv side cfgs token amount perWei gasPrice est per = Inr fees" "nonneg per"
  shows "nonneg (stf_gas fees)"
  using assms unfolding getSellTokenFees_def
  by (auto elim!: res_bindE split: sum.split_asm if_split_asm dest!: onChainTransfersGas_nonneg)

lemma transfer_gas_nonneg: "nonneg (transfer_gas v)"
  by (simp add: transfer_gas_def nonneg_def TRANSFER_GAS_def TRANSFER_FROM_GAS_def)

lemma sell_fees_gas:
  assumes "sell_side_fees sv params = Inr (fees, g)" "buy_side_fees sv params fees quote = Inr sellFees"
  shows "nonneg (stf_gas sellFees)"
proof -
  have "nonneg (stf_gas fees)"
    using assms(1) unfolding sell_side_fees_def
    by (auto simp: no_sell_token_fees_def nonneg_def elim!: res_bindE split: option.split_asm
        dest!: getSellTokenFees_gas[OF _ transfer_gas_nonneg, unfolded nonneg_def])
  then show ?thesis
    using assms(2) unfolding buy_side_fees_def
    by (auto split: option.split_asm dest!: getSellTokenFees_gas[OF _ transfer_gas_nonneg])
qed

lemma faux_gas_ge:
  assumes "nonneg (stf_gas sellFees)" "bn_of_number (qi_gas (swq_worstCaseQuoteInfo quote)) = Fin g"
  shows "\<exists>h. faux_gas sv params quote sellFees = Fin h \<and> g \<le> h"
proof -
  obtain a where "am_gasCost (getBuyTokenFeeAmounts (sv_rnd sv) (sv_GASLESS_SWAP_FEE_ENABLED sv) quote (p_affiliateFee params)) = Fin a"
    "0 \<le> a" using am_gasCost_nonneg unfolding nonneg_def by blast
  with assms show ?thesis by (auto simp: faux_gas_def nonneg_def)
qed

lemma gas_estimate_Inr:
  assumes "gas_estimate sv params quote tx transferGas faux = Inr gas"
  shows "gas \<noteq> NaN \<Longrightarrow> faux \<le> gas"
    "p_endpoint params = quote_endpoint \<Longrightarrow> truthy_string (p_takerAddress params) \<Longrightarrow> \<not> p_skipValidation params \<Longrightarrow>
     \<exists>txData. tx_from txData = the (p_takerAddress params) \<and> tx_data txData = pt_data tx \<and>
       call_success (cs_result (fst (simulate_call (sv_node sv) (sv_CHAIN_ID sv) txData)))"
proof -
  show "gas \<noteq> NaN \<Longrightarrow> faux \<le> gas"
    using assms bn_max_ge[of faux] unfolding gas_estimate_def improved_gas_def Let_def
    by (auto simp: refl_le split: if_split_asm sum.split_asm)
  let ?tx = "\<lparr>tx_to = pt_to tx, tx_data = pt_data tx, tx_from = the (p_takerAddress params),
    tx_value = pt_value tx, tx_gasPrice = swq_gasPrice quote\<rparr>"
  assume "p_endpoint params = quote_endpoint" "truthy_string (p_takerAddress params)" "\<not> p_skipValidation params"
  then obtain g where "estimateGasOrThrowRevertErrorAsync (sv_node sv) (sv_CHAIN_ID sv) ?tx = Inr g"
    using assms by (auto simp: gas_estimate_def can_estimate_gas_def split: if_split_asm sum.split_asm)
  then show "\<exists>txData. tx_from txData = the (p_takerAddress params) \<and> tx_data txData = pt_data tx \<and>
      call_success (cs_result (fst (simulate_call (sv_node sv) (sv_CHAIN_ID sv) txData)))"
    using estimate_succeeds by (intro exI[of _ ?tx]) fastforce
qed

text \<open>The errors that are not about gas.\<close>

definition request_error :: "service_error \<Rightarrow> bool" where
  "request_error e \<longleftrightarrow> e \<noteq> GasEstimationError \<and> (\<forall>m. e \<noteq> RevertError m)"

lemma res_bind_InlE:
  assumes "res_bind m f = Inl e"
  obtains "m = Inl e" | x where "m = Inr x" "f x = Inl e"
  using assms by (auto simp: res_bind_eq_Inl)

lemma request_errors:
  "getSellTokenFees sv side cfgs token amount perWei gasPrice est per = Inl e \<Longrightarrow> request_error e"
  "thrown r = Inl e \<Longrightarrow> request_error e"
  "check_response params r' = Inl e \<Longrightarrow> request_error e"
  unfolding getSellTokenFees_def
  by (auto simp: request_error_def thrown_eq_Inl check_response_def elim!: res_bind_InlE
      split: sum.split_asm if_split_asm)

lemma sell_side_error: "sell_side_fees sv params = Inl e \<Longrightarrow> request_error e"
  by (auto simp: sell_side_fees_def res_bind_eq_Inl dest!: request_errors split: option.split_asm)

lemma buy_side_error: "buy_side_fees sv params fees quote = Inl e \<Longrightarrow> request_error e"
  by (auto simp: buy_side_fees_def dest!: request_errors split: option.split_asm)

lemma price_gas_error: "p_endpoint params = price_endpoint \<Longrightarrow> gas_estimate sv params quote tx t faux \<noteq> Inl e"
  by (auto simp: gas_estimate_def split: sum.split)

lemma price_error:
  assumes "p_endpoint params = price_endpoint" "calculateSwapQuoteAsync sv params = Inl e"
  shows "request_error e"
proof -
  have "finish_quote sv params fees quote = Inl e \<Longrightarrow> request_error e" for fees quote
    using price_gas_error[OF assms(1)]
    by (auto simp: finish_quote_def Let_def res_bind_eq_Inl dest: request_errors buy_side_error)
  then show ?thesis
    using assms(2)
    by (auto simp: calculateSwapQuoteAsync_def res_bind_eq_Inl dest: request_errors sell_side_error
        split: if_split_asm) (simp add: request_error_def)
qed

section \<open>Prices and amounts\<close>

lemma decimalPlaces_Fin:
  assumes "d \<le> 10 ^ 9"
  shows "decimalPlaces (Fin (of_nat d)) mode (Fin a) = Inr (Fin (of_int (round_mode mode (a * 10 ^ d)) / 10 ^ d))"
proof -
  have "(of_nat d :: rat) \<le> of_nat (10 ^ 9)" using assms by (rule of_nat_mono)
  then show ?thesis by (simp add: decimalPlaces_def)
qed

lemma decimalPlaces_bounds:
  fixes a :: rat
  shows "of_int (round_mode ROUND_FLOOR (a * 10 ^ d)) / 10 ^ d \<le> a" "a \<le> of_int (round_mode ROUND_CEIL (a * 10 ^ d)) / 10 ^ d"
  by (simp_all add: pos_divide_le_eq pos_le_divide_eq)

lemma decimalPlaces_mono:
  fixes a b :: rat
  assumes "a \<le> b"
  shows "of_int (round_mode mode (a * 10 ^ d)) / 10 ^ d \<le> (of_int (round_mode mode (b * 10 ^ d)) / 10 ^ d :: rat)"
  using round_mode_mono[of "a * 10 ^ d" "b * 10 ^ d" mode] assms by (intro divide_right_mono) (simp_all del: round_mode.simps)

text \<open>What \<open>Web3Wrapper.toUnitAmount\<close> documents: the base amount divided by the power of ten of the decimals.\<close>

definition unit_amounts :: "(rat \<Rightarrow> rat) \<Rightarrow> (BigNumber \<Rightarrow> js_number \<Rightarrow> js_error + BigNumber) \<Rightarrow> bool" where
  "unit_amounts rnd conv \<longleftrightarrow> (\<forall>a d. 0 \<le> a \<longrightarrow> conv (Fin a) (Fin (of_nat d)) = Inr (Fin (rnd (a / 10 ^ d))))"

text \<open>The price in units of the buy token per unit of the sell token: that of a buy is quoted inverted.\<close>

definition normalized_price :: "(rat \<Rightarrow> rat) \<Rightarrow> MarketOperation \<Rightarrow> rat \<Rightarrow> rat" where
  "normalized_price rnd side price = (if side = Sell then price else rnd (1 / price))"

lemma impact_covers_loss:
  assumes "calculateEstimatedPriceImpactPercent rnd (Fin price) (Fin s) (Fin b) side = Inr impact"
    "s \<noteq> 0" "b \<noteq> 0" "rnd (b / s) \<noteq> 0" "side = Buy \<Longrightarrow> price \<noteq> 0"
  shows "\<exists>i. impact = Some (Fin i) \<and> 0 \<le> i \<and> (1 - rnd (normalized_price rnd side price / rnd (b / s))) * 100 \<le> i"
proof -
  define n where "n = normalized_price rnd side price"
  define x where "x = (1 - rnd (n / rnd (b / s))) * 100"
  define c :: rat where "c = of_int (round_mode ROUND_CEIL (x * 10 ^ 4)) / 10 ^ 4"
  have dp: "decimalPlaces (Fin 4) ROUND_CEIL (Fin x) = Inr (Fin c)" using decimalPlaces_Fin[of 4 ROUND_CEIL x] by (simp add: c_def)
  have n: "(if side = Sell then Fin price else bn_div rnd 1 (Fin price)) = Fin n"
    using assms(5) by (cases side) (simp_all add: n_def normalized_price_def)
  have "(1 - bn_div rnd (Fin n) (bn_div rnd (Fin b) (Fin s))) * Fin 100 = Fin x" using assms(2-4) by (simp add: x_def)
  then have "impact = Some (Fin (if c \<le> 0 then 0 else c))"
    using assms(1-3)
    by (simp add: calculateEstimatedPriceImpactPercent_def n dp ZERO_AMOUNT_def Let_def split: if_split_asm del: bn_div_Fin)
  moreover have "x \<le> c" unfolding c_def by (rule decimalPlaces_bounds(2))
  ultimately show ?thesis by (auto simp: x_def n_def)
qed

context quotient_rounding
begin

text \<open>The guaranteed price is no better than the price, whichever the side.\<close>

lemma guaranteed_price_worse:
  assumes "0 \<le> gm" "gm \<le> um" "0 < ut" "ut \<le> gt" "bd \<le> 10 ^ 9" "sd \<le> 10 ^ 9"
  shows "\<exists>p g. rounded_price rnd True (Fin um) (Fin ut) (Fin (of_nat bd)) (Fin (of_nat sd)) = Inr (Fin p) \<and>
      rounded_price rnd True (Fin gm) (Fin gt) (Fin (of_nat bd)) (Fin (of_nat sd)) = Inr (Fin g) \<and>
      g \<le> p \<and> p \<le> rnd (um / ut)"
    "0 < gm \<Longrightarrow> \<exists>p g. rounded_price rnd False (Fin um) (Fin ut) (Fin (of_nat bd)) (Fin (of_nat sd)) = Inr (Fin p) \<and>
      rounded_price rnd False (Fin gm) (Fin gt) (Fin (of_nat bd)) (Fin (of_nat sd)) = Inr (Fin g) \<and>
      p \<le> g \<and> rnd (ut / um) \<le> p"
proof -
  have "rnd (gm / gt) \<le> rnd (um / ut)" using assms(1-4) by (intro rnd_mono frac_le) auto
  then show "\<exists>p g. rounded_price rnd True (Fin um) (Fin ut) (Fin (of_nat bd)) (Fin (of_nat sd)) = Inr (Fin p) \<and>
      rounded_price rnd True (Fin gm) (Fin gt) (Fin (of_nat bd)) (Fin (of_nat sd)) = Inr (Fin g) \<and>
      g \<le> p \<and> p \<le> rnd (um / ut)"
    using assms decimalPlaces_mono decimalPlaces_bounds(1)
    by (simp add: rounded_price_def decimalPlaces_Fin del: round_mode.simps)
  assume "0 < gm"
  then have "rnd (ut / um) \<le> rnd (gt / gm)" using assms(2-4) by (intro rnd_mono frac_le) auto
  then show "\<exists>p g. rounded_price rnd False (Fin um) (Fin ut) (Fin (of_nat bd)) (Fin (of_nat sd)) = Inr (Fin p) \<and>
      rounded_price rnd False (Fin gm) (Fin gt) (Fin (of_nat bd)) (Fin (of_nat sd)) = Inr (Fin g) \<and>
      p \<le> g \<and> rnd (ut / um) \<le> p"
    using assms \<open>0 < gm\<close> decimalPlaces_mono decimalPlaces_bounds(2)
    by (simp add: rounded_price_def decimalPlaces_Fin del: round_mode.simps)
qed

text \<open>Adding a fee to the amount to buy and taking it from what was bought leaves at least the amount asked for.\<close>

lemma buy_fee_covered:
  assumes "0 \<le> f" "0 \<le> B" "rnd (of_int B * f) = of_int B * f"
  shows "B \<le> \<lfloor>of_int B * (1 + f)\<rfloor> - \<lfloor>rnd (of_int \<lfloor>of_int B * (1 + f)\<rfloor> * f / (1 + f))\<rfloor>"
proof -
  let ?A = "\<lfloor>of_int B * (1 + f)\<rfloor>"
  have "of_int ?A * f \<le> of_int B * (1 + f) * f" using assms(1) by (intro mult_right_mono) simp_all
  then have "of_int ?A * f / (1 + f) \<le> of_int B * f" using assms(1) by (simp add: divide_le_eq mult_ac)
  then have "rnd (of_int ?A * f / (1 + f)) \<le> of_int B * f" using rnd_mono assms(3) by metis
  then have "\<lfloor>rnd (of_int ?A * f / (1 + f))\<rfloor> \<le> \<lfloor>of_int B * f\<rfloor>" by (rule floor_mono)
  moreover have "?A = B + \<lfloor>of_int B * f\<rfloor>" by (simp add: distrib_left)
  ultimately show ?thesis by linarith
qed

lemma price_pair:
  assumes "sv_rnd sv = rnd" "unit_amounts rnd (sv_toUnitAmount sv)"
    "qi_makerAmount (swq_bestCaseQuoteInfo quote) = Fin bm" "qi_totalTakerAmount (swq_bestCaseQuoteInfo quote) = Fin bt"
    "qi_makerAmount (swq_worstCaseQuoteInfo quote) = Fin wm" "qi_totalTakerAmount (swq_worstCaseQuoteInfo quote) = Fin wt"
    "0 \<le> wm" "wm \<le> bm" "0 \<le> bt" "bt \<le> wt" "0 \<le> s"
    "getBuyTokenPercentageFeeOrZero fee = Fin f" "is_double f" "0 \<le> f" "f < 1"
    "bd \<le> 10 ^ 9" "sd \<le> 10 ^ 9" "0 < rnd ((bt + s) / 10 ^ sd)" "buyAmount \<noteq> None \<Longrightarrow> 0 < rnd (wm / 10 ^ bd)"
  shows "\<exists>p g. getSwapQuotePrice sv buyAmount (Fin (of_nat bd)) (Fin (of_nat sd)) quote fee (Fin s) = Inr (Fin p, Fin g) \<and>
    (if buyAmount = None then g \<le> p else p \<le> g)"
proof -
  let ?um = "rnd (bm / 10 ^ bd)" and ?ut = "rnd ((bt + s) / 10 ^ sd)"
  let ?gm = "rnd (wm / 10 ^ bd)" and ?gt = "rnd ((wt + s) / 10 ^ sd)"
  let ?a = "?gm * dec f"
  have dec: "0 \<le> dec f" "dec f \<le> 1" using dec_mono[of 0 f] dec_mono[of f 1] assms(13-15) by (simp_all add: is_double_def)
  have "dec f \<noteq> 1" using dec_roundtrip[of f] assms(13,15) by (auto simp: is_double_def)
  have gm: "0 \<le> ?gm" "?gm \<le> ?um" using assms(7,8) by (auto intro!: rnd_nonneg rnd_mono divide_right_mono)
  have ut: "?ut \<le> ?gt" using assms(10) by (intro rnd_mono divide_right_mono) auto
  have net: "0 \<le> ?gm - ?a" "?gm - ?a \<le> ?um - ?a" using gm dec by (simp_all add: mult_left_le)
  have net_pos: "0 < ?gm - ?a" if "buyAmount \<noteq> None"
    using assms(19)[OF that] dec \<open>dec f \<noteq> 1\<close> by simp
  have unit: "sv_toUnitAmount sv (Fin x) (Fin (of_nat d)) = Inr (Fin (rnd (x / 10 ^ d)))" if "0 \<le> x" for x d
    using assms(2) that by (simp add: unit_amounts_def)
  have prices: "getSwapQuotePrice sv buyAmount (Fin (of_nat bd)) (Fin (of_nat sd)) quote fee (Fin s) =
      res_bind (rounded_price rnd (buyAmount = None) (Fin (?um - ?a)) (Fin ?ut) (Fin (of_nat bd)) (Fin (of_nat sd)))
      (\<lambda>price. res_bind (rounded_price rnd (buyAmount = None) (Fin (?gm - ?a)) (Fin ?gt) (Fin (of_nat bd)) (Fin (of_nat sd)))
      (\<lambda>guaranteed. Inr (price, guaranteed)))"
    using assms by (simp add: getSwapQuotePrice_def unit Let_def)
  show ?thesis
  proof (cases "buyAmount = None")
    case True
    then show ?thesis using guaranteed_price_worse(1)[OF net assms(18) ut assms(16,17)] prices by auto
  next
    case False
    then show ?thesis using guaranteed_price_worse(2)[OF net assms(18) ut assms(16,17) net_pos[OF False]] prices by auto
  qed
qed

end

section \<open>A sample service\<close>

lemma sample_calldata:
  assumes "requiresTransformERC20 opts"
  shows "\<exists>info. route_calldata sample_lib sample_consumer (sample_quote uniswap_path) opts = Inr info"
proof -
  have "\<exists>info. transformERC20_createCalldata sample_lib sample_consumer (sample_quote uniswap_path) opts = Inr info"
    using uniswap_transformation[of opts] by (auto simp: transformERC20_createCalldata_def Let_def)
  moreover have "getSlippedOrders (swq_path (sample_quote uniswap_path)) (getMaxQuoteSlippageRate (sample_quote uniswap_path)) =
      Inr [uniswap_order UniswapV2 4, uniswap_order SushiSwap 6]"
    by (simp add: getSlippedOrders_def getMaxQuoteSlippageRate_def checkSlippage_def slipOrder_def sample_quote_defs)
  ultimately show ?thesis
    using assms
    by (simp add: route_calldata_def uniswapV2_isCompatible_def isDirectSwapCompatible_def
        isMultiplexBatchFillCompatible_def isMultiplexMultiHopFillCompatible_def uniswap_order_def Let_def)
qed

definition sample_node :: Node where
  "sample_node =
     \<lparr>estimateGasAsync = (\<lambda>_. Inr (Fin 1)), callAsync = (\<lambda>_ _. Inr ''0x''),
      fakeTaker_execute = (\<lambda>_. Inr \<lparr>call_success = True, call_resultData = ''0x'', call_gasUsed = Fin 5\<rparr>),
      RevertError_decode = (\<lambda>_. Inl TypeError), decodeThrownErrorAsRevertError = (\<lambda>_. Inl TypeError)\<rparr>"

definition exact_units :: "BigNumber \<Rightarrow> js_number \<Rightarrow> js_error + BigNumber" where
  "exact_units amount decimals =
     (case (amount, decimals) of (Fin a, Fin d) \<Rightarrow> Inr (Fin (rnd78 (a / 10 ^ nat \<lfloor>d\<rfloor>))) | _ \<Rightarrow> Inl TypeError)"

text \<open>A quoter that answers every request with one quote.\<close>

definition sample_service :: "SwapQuote \<Rightarrow> SwapService" where
  "sample_service quote =
     \<lparr>sv_CHAIN_ID = Mainnet,
      sv_swapQuoter = \<lparr>getGasPriceEstimationOrThrowAsync = Inr (Fin 1), op_getTokenAmountPerWei = (\<lambda>_. Inr (Fin 1)),
                       op_getSwapQuoteAsync = (\<lambda>_ _ _ _ _ _. Inr quote)\<rparr>,
      sv_rnd = rnd78, sv_lib = sample_lib, sv_consumer = sample_consumer, sv_encodeCall = (\<lambda>_. ''0x00ff''),
      sv_withdraw = (\<lambda>_. ''0x''), sv_deposit = ''0x'', sv_attribution = sample_attribution, sv_node = sample_node,
      sv_rfqClient = \<lparr>getV1PricesAsync = (\<lambda>_. Inr []), getV2PricesAsync = (\<lambda>_. Inr []), getV1QuotesAsync = (\<lambda>_. Inr []),
                      getV2QuotesAsync = (\<lambda>_. Inr [])\<rparr>,
      sv_isRfqtEnabled = True, sv_firmQuoteValidator = None, sv_altRfqAssetOfferings = [],
      sv_slippageModelManager = None, sv_toUnitAmount = exact_units, sv_wethDecimals = Some (Fin 18),
      sv_exchangeProxy = ''P'', sv_SAMPLE_DISTRIBUTION_BASE = Fin 1, sv_GASLESS_SWAP_FEE_ENABLED = False,
      sv_ZERO_EX_FEE_TOKENS = [], sv_ZERO_EX_FEE_RECIPIENT_ADDRESS = NULL_ADDRESS\<rparr>"

text \<open>A gasless sale of 12 units, of which the integrator takes a sixth.\<close>

definition sample_gasless :: "bool \<Rightarrow> js_number option \<Rightarrow> Endpoint \<Rightarrow> GetSwapQuoteParams" where
  "sample_gasless skip slippage endpoint =
     \<lparr>p_endpoint = endpoint, p_sellToken = ''B'', p_buyToken = ''A'', p_takerAddress = Some ''0xt'', p_gasPrice = None,
      p_rfqt = None, p_skipValidation = skip, p_shouldSellEntireBalance = False, p_isETHSell = False, p_isETHBuy = False,
      p_metaTransactionVersion = Some v1, p_integrator = None, p_enableSlippageProtection = False,
      p_feeConfigs = Some \<lparr>cfg_integratorFee = Some \<lparr>cfg_feeRecipient = Some ''F'', cfg_billingType = on_chain,
                                                   cfg_volumePercentage = Fin (1 / 6)\<rparr>,
                           cfg_zeroExFee = None, cfg_gasFee = None\<rparr>,
      p_isDebugEnabled = False, p_sellAmount = Some (Fin 12), p_buyAmount = None, p_slippagePercentage = slippage,
      p_excludedSources = [], p_includedSources = None, p_affiliateAddress = None,
      p_affiliateFee = \<lparr>fee_feeType = NoFee, fee_recipient = [], fee_buyTokenPercentageFee = Fin 0\<rparr>,
      p_priceImpactProtectionPercentage = Fin (1 / 4)\<rparr>"

abbreviation sample_params :: "Endpoint \<Rightarrow> GetSwapQuoteParams" where
  "sample_params \<equiv> sample_gasless False None"

lemma sample_sell_fees:
  "sell_side_fees (sample_service quote) (sample_gasless skip slippage endpoint) =
     Inr (\<lparr>stf_fees = Some \<lparr>integratorFee = Some \<lparr>feeToken = ''B'', feeAmount = Fin 2, feeRecipient = Some ''F'',
             billingType = on_chain, volumePercentage = Fin (1 / 6)\<rparr>, zeroExFee = None, gasFee = None\<rparr>,
           stf_amount = Fin 2, stf_transfers = [\<lparr>feeType = GaslessFee, af_recipient = ''F'', buyTokenFeeAmount = Fin 0,
             sellTokenFeeAmount = Fin 2\<rparr>], stf_gas = Fin 27000\<rparr>, Some (Fin 1))"
  by (simp add: sell_side_fees_def sample_gasless_def sample_service_def thrown_def getSellTokenFees_def
      calculateFees_def calculateIntegratorFee_def calculateZeroExFee_def calculateGasFee_def Let_def
      calculateTotalOnChainFees_def feeRecipientToOnChainTransfer_def add_gas_def add_zeroEx_def add_integrator_def
      set_transfer_def current_amount_def zeroExFeeAdjustment_def billed_on_chain_def transfer_to_fee_def
      transfer_gas_def TRANSFER_GAS_def)

lemma sample_units:
  "rnd78 (9 / 1000000000000000000) = 9 / 1000000000000000000" "rnd78 (3 / 250000000000000000) = 3 / 250000000000000000"
  "rnd78 (3 / 4) = 3 / 4" "rnd64 25 = 25" "dec 25 = 25"
  "rnd78 (1 / 100000000000000000) = 1 / 100000000000000000"
  by code_simp+

abbreviation sample_sv :: SwapService where
  "sample_sv \<equiv> sample_service (sample_quote uniswap_path)"

lemma sample_rate:
  assumes "sv_wethDecimals sv = Some (Fin 18)"
  shows "token_to_eth_rate sv (Fin 1) (Fin 18) = Inr (Fin 1)"
  using decimalPlaces_Fin[of 18 ROUND_HALF_UP 1] round_mode_of_int[of ROUND_HALF_UP "10 ^ 18"] assms
  by (simp add: token_to_eth_rate_def bn_pow10_def del: round_mode.simps round_mode_of_int)

lemma sample_make_response:
  "\<exists>made. make_response (sample_service (sample_quote uniswap_path)) (sample_gasless skip slippage endpoint) (sample_quote uniswap_path)
      (fst (projr (sell_side_fees (sample_service (sample_quote uniswap_path)) (sample_gasless skip slippage endpoint)))) (Fin 0) tx gas = Inr made \<and>
    r_estimatedPriceImpact made = Some (Fin 25) \<and> r_buyAmount made = Fin 9 \<and> r_sellAmount made = Fin 12 \<and>
    r_price made = Fin (3 / 4) \<and> r_sellTokenToEthRate made = Fin 1 \<and> r_buyTokenToEthRate made = Fin 1"
proof -
  have price: "getSwapQuotePrice (sample_service (sample_quote uniswap_path)) None (Fin 18) (Fin 18) (sample_quote uniswap_path)
      (p_affiliateFee (sample_gasless skip slippage endpoint)) (Fin 2) = Inr (Fin (3 / 4), Fin (3 / 4))"
    by (simp add: getSwapQuotePrice_def sample_service_def exact_units_def sample_quote_defs sample_gasless_def
        getBuyTokenPercentageFeeOrZero_def rounded_price_def decimalPlaces_def Let_def sample_units)
  have rate: "token_to_eth_rate sample_sv (Fin 1) (Fin 18) = Inr (Fin 1)"
    by (rule sample_rate) (simp add: sample_service_def)
  have impact: "calculateEstimatedPriceImpactPercent rnd78 (Fin (3 / 4)) (Fin 1) (Fin 1) Sell = Inr (Some (Fin 25))"
    by code_simp
  show ?thesis
    using price rate impact
    by (simp add: make_response_def Let_def sample_sell_fees)
      (simp add: sample_gasless_def sample_quote_defs sample_service_def market_side_def)
qed

lemma sample_sv_env:
  "sv_lib sample_sv = sample_lib" "sv_consumer sample_sv = sample_consumer" "sv_node sample_sv = sample_node"
  "sv_CHAIN_ID sample_sv = Mainnet" "sv_wethDecimals sample_sv = Some (Fin 18)"
  by (simp_all add: sample_service_def)

lemma sample_sv_sel:
  "op_getSwapQuoteAsync (sv_swapQuoter sample_sv) b s a side opts client = Inr (sample_quote uniswap_path)"
  "p_metaTransactionVersion (sample_gasless skip slippage e) = Some v1" "p_sellAmount (sample_gasless skip slippage e) = Some (Fin 12)"
  "p_endpoint (sample_gasless skip slippage e) = e" "p_takerAddress (sample_gasless skip slippage e) = Some ''0xt''" "p_skipValidation (sample_gasless skip slippage e) = skip"
  by (simp_all add: sample_service_def sample_gasless_def)

lemma sample_tx:
  assumes "p_metaTransactionVersion params \<noteq> None \<or> list_ex (\<lambda>f. 0 < buyTokenFeeAmount f) bs"
    "sv_lib sv = sample_lib" "sv_consumer sv = sample_consumer"
  shows "\<exists>tx. getSwapQuotePartialTransaction sv (sample_quote uniswap_path) params bs ss = Inr tx"
proof -
  let ?opts = "DEFAULT_EXCHANGE_PROXY_EXTENSION_CONTRACT_OPTS\<lparr>isFromETH := p_isETHSell params,
    isToETH := p_isETHBuy params, metaTransactionVersion := p_metaTransactionVersion params,
    shouldSellEntireBalance := p_shouldSellEntireBalance params, buyTokenAffiliateFees := bs,
    sellTokenAffiliateFees := ss, positiveSlippageFee := positive_slippage_fee sv params\<rparr>"
  have "requiresTransformERC20 ?opts"
    using assms(1) by (auto simp: requiresTransformERC20_def list_ex_iff split: if_split)
  then obtain info where "route_calldata sample_lib sample_consumer (sample_quote uniswap_path) ?opts = Inr info"
    using sample_calldata by blast
  then show ?thesis
    using assms(2,3) by (simp add: getSwapQuotePartialTransaction_def getCalldataOrThrow_def Let_def)
qed

lemma sample_gas:
  assumes "sv_node sv = sample_node" "sv_CHAIN_ID sv = Mainnet"
  shows "\<exists>gas. gas_estimate sv params quote tx t faux = Inr gas"
proof -
  have "estimateGasOrThrowRevertErrorAsync (sv_node sv) (sv_CHAIN_ID sv) txData =
      Inr (Fin 5 + bn_of_number (calculateCallDataGas (tx_data txData)))" for txData
    by (simp add: estimateGasOrThrowRevertErrorAsync_def simulate_call_def result_revert_def initial_call_def
        assms sample_node_def Let_def)
  then show ?thesis by (simp add: gas_estimate_def)
qed

lemma sample_response:
  "\<exists>response. calculateSwapQuoteAsync sample_sv (sample_gasless skip slippage endpoint) = Inr response \<and>
     r_buyAmount response = Fin 9 \<and> r_sellAmount response = Fin 12 \<and>
     r_price response = Fin (3 / 4) \<and> r_sellTokenToEthRate response = Fin 1 \<and> r_buyTokenToEthRate response = Fin 1"
proof -
  let ?q = "sample_quote uniswap_path" and ?p = "sample_gasless skip slippage endpoint"
  define fees where "fees = fst (projr (sell_side_fees sample_sv ?p))"
  have sell: "sell_side_fees sample_sv ?p = Inr (fees, Some (Fin 1))" by (simp add: fees_def sample_sell_fees)
  have amount: "stf_amount fees = Fin 2" by (simp add: fees_def sample_sell_fees)
  have no_buy_fee: "getBuyTokenFeeAmounts (sv_rnd sample_sv) (sv_GASLESS_SWAP_FEE_ENABLED sample_sv) ?q (p_affiliateFee ?p) =
      \<lparr>am_sellTokenFeeAmount = 0, am_buyTokenFeeAmount = 0, am_gasCost = 0\<rparr>"
    by (simp add: getBuyTokenFeeAmounts_def sample_gasless_def)
  obtain tx' where tx': "getSwapQuotePartialTransaction sample_sv ?q ?p
      [\<lparr>feeType = NoFee, af_recipient = [], buyTokenFeeAmount = 0, sellTokenFeeAmount = 0\<rparr>] (stf_transfers fees) = Inr tx'"
    using sample_tx[OF disjI1 sample_sv_env(1,2), of ?p] sample_sv_sel(2) by blast
  obtain gas' where gas': "gas_estimate sample_sv ?p ?q tx' (stf_gas fees)
      (bn_of_number (qi_gas (swq_worstCaseQuoteInfo ?q)) + 0 + stf_gas fees) = Inr gas'"
    using sample_gas[OF sample_sv_env(3,4)] by blast
  obtain made where made: "make_response sample_sv ?p ?q fees 0 tx' gas' = Inr made"
    "r_estimatedPriceImpact made = Some (Fin 25)" "r_buyAmount made = Fin 9" "r_sellAmount made = Fin 12"
    "r_price made = Fin (3 / 4)" "r_sellTokenToEthRate made = Fin 1" "r_buyTokenToEthRate made = Fin 1"
    using sample_make_response[of skip slippage endpoint tx' gas'] unfolding fees_def[symmetric] by auto
  have "check_response ?p made = Inr made"
    by (simp add: check_response_def made sample_gasless_def sample_units)
  moreover have "buy_side_fees sample_sv ?p fees ?q = Inr fees" by (simp add: buy_side_fees_def sample_sv_sel)
  moreover have "fee_feeType (p_affiliateFee ?p) = NoFee" "fee_recipient (p_affiliateFee ?p) = []"
    by (simp_all add: sample_gasless_def)
  ultimately have "finish_quote sample_sv ?p fees ?q = Inr (add_expected_slippage sample_sv ?p made)"
    using tx' gas' made(1) no_buy_fee unfolding finish_quote_def Let_def thrown_def
    by (simp only: res_bind_simps sum.case AffiliateFeeAmounts.simps)
  moreover have "fill_amount ?p (stf_amount fees) = Inr (Fin 10)" by (simp add: fill_amount_def sample_sv_sel amount)
  ultimately have "calculateSwapQuoteAsync sample_sv ?p = Inr (add_expected_slippage sample_sv ?p made)"
    by (simp add: calculateSwapQuoteAsync_def sell thrown_def sample_sv_sel) (simp add: sample_gasless_def)
  then show ?thesis using made by simp
qed

section \<open>Properties\<close>

text \<open>C23: Fees of a gasless sell are taken out of the amount sold and nothing else. The fee is the on-chain total
  that \<open>calculateFees\<close> gives for the whole sell amount, at the gas price of the request or else the
  estimated one and, when a gas fee is configured, at the rate of the sell token; it is the sum of the
  on-chain transfers, and less than the amount sold. The router is asked to sell what the user sells
  less that fee; the call charges each positive on-chain transfer as a sell-token fee; and the sell
  amount of the response is what the route takes plus the fee, so exactly the sell amount of the request
  when the route takes all it was asked to.\<close>

theorem gasless_sell_conserved:
  assumes "calculateSwapQuoteAsync sv params = Inr response"
    "p_metaTransactionVersion params = Some version" "p_sellAmount params = Some (Fin sold)"
  shows "\<exists>rate gasPrice fees options quote tx.
    (if \<exists>cfgs. p_feeConfigs params = Some cfgs \<and> cfg_gasFee cfgs \<noteq> None
     then map_sum id Some (op_getTokenAmountPerWei (sv_swapQuoter sv) (p_sellToken params)) = Inr rate else rate = None) \<and>
    (case p_gasPrice params of None \<Rightarrow> getGasPriceEstimationOrThrowAsync (sv_swapQuoter sv) | Some price \<Rightarrow> Inr price) =
      Inr gasPrice \<and>
    calculateFees \<lparr>opt_feeConfigs = p_feeConfigs params, opt_sellToken = p_sellToken params, opt_sellTokenAmount = Fin sold,
      opt_sellTokenAmountPerWei = rate, opt_gasPrice = gasPrice, opt_quoteGasEstimate = AVG_MULTIPLEX_TRANFORM_ERC_20_GAS,
      opt_gasPerOnChainTransfer = (if version = v1 then TRANSFER_GAS else TRANSFER_FROM_GAS)\<rparr> = Inr fees \<and>
    totalOnChainFeeAmount fees = foldl (\<lambda>total t. total + transferAmount t) 0 (onChainTransfers fees) \<and>
    \<not> Fin sold \<le> totalOnChainFeeAmount fees \<and>
    op_getSwapQuoteAsync (sv_swapQuoter sv) (p_buyToken params) (p_sellToken params)
      (Fin sold - totalOnChainFeeAmount fees) Sell options (Some (sv_rfqClient sv)) = Inr quote \<and>
    getSwapQuotePartialTransaction sv quote params (buy_fee_amounts sv params quote)
      (filter (\<lambda>fee. 0 < sellTokenFeeAmount fee) (map transfer_to_fee (onChainTransfers fees))) = Inr tx \<and>
    r_data response = pt_data tx \<and>
    r_sellAmount response = qi_totalTakerAmount (swq_bestCaseQuoteInfo quote) + totalOnChainFeeAmount fees \<and>
    (is_fin (totalOnChainFeeAmount fees) \<and>
       qi_totalTakerAmount (swq_bestCaseQuoteInfo quote) = Fin sold - totalOnChainFeeAmount fees \<longrightarrow>
       r_sellAmount response = Fin sold \<and> 0 < Fin sold - totalOnChainFeeAmount fees)"
proof -
  obtain fees gas amount quote where stages:
    "sell_side_fees sv params = Inr (fees, gas)" "fill_amount params (stf_amount fees) = Inr amount"
    "op_getSwapQuoteAsync (sv_swapQuoter sv) (p_buyToken params) (p_sellToken params) amount (market_side params)
       (assetSwapperOpts sv params gas) (Some (sv_rfqClient sv)) = Inr quote"
    "finish_quote sv params fees quote = Inr response"
    using quote_asked[OF assms(1)] .
  obtain rate gasPrice r where fee:
    "if \<exists>cfgs. p_feeConfigs params = Some cfgs \<and> cfg_gasFee cfgs \<noteq> None
     then map_sum id Some (op_getTokenAmountPerWei (sv_swapQuoter sv) (p_sellToken params)) = Inr rate else rate = None"
    "(case p_gasPrice params of None \<Rightarrow> getGasPriceEstimationOrThrowAsync (sv_swapQuoter sv) | Some price \<Rightarrow> Inr price) =
       Inr gasPrice"
    "calculateFees (gasless_fee_opts params version (Fin sold) rate gasPrice) = Inr r"
    "stf_amount fees = totalOnChainFeeAmount r" "\<not> Fin sold \<le> totalOnChainFeeAmount r"
    "stf_transfers fees = filter (\<lambda>fee. 0 < sellTokenFeeAmount fee) (map transfer_to_fee (onChainTransfers r))"
    by (rule sell_fees_calculated[OF stages(1) assms(2,3)])
  have "buy_side_fees sv params fees quote = Inr fees" using assms(2,3) by (simp add: buy_side_fees_def)
  then obtain tx where call:
    "getSwapQuotePartialTransaction sv quote params (buy_fee_amounts sv params quote) (stf_transfers fees) = Inr tx"
    "r_data response = pt_data tx"
    "r_sellAmount response = qi_totalTakerAmount (swq_bestCaseQuoteInfo quote) + stf_amount fees"
    using stages(4) by (elim quote_finished_call) (simp add: make_response_fields(2,6))
  have asked: "op_getSwapQuoteAsync (sv_swapQuoter sv) (p_buyToken params) (p_sellToken params)
      (Fin sold - totalOnChainFeeAmount r) Sell (assetSwapperOpts sv params gas) (Some (sv_rfqClient sv)) = Inr quote"
    using stages(2,3) assms(3) by (simp add: fill_amount_def market_side_def fee(4))
  have "r_sellAmount response = Fin sold \<and> 0 < Fin sold - totalOnChainFeeAmount r"
    if "is_fin (totalOnChainFeeAmount r)" "qi_totalTakerAmount (swq_bestCaseQuoteInfo quote) = Fin sold - totalOnChainFeeAmount r"
    using that fee(5) call(3) by (auto simp: is_fin_iff fee(4))
  then show ?thesis
    using fee(1,2) fee(3)[unfolded gasless_fee_opts_def] on_chain_total[OF fee(3)] fee(5) asked
      call[unfolded fee(4,6)] by blast
qed

lemma sample_calculated_fees:
  "calculateFees \<lparr>opt_feeConfigs = p_feeConfigs (sample_params quote_endpoint), opt_sellToken = ''B'', opt_sellTokenAmount = Fin 12,
     opt_sellTokenAmountPerWei = rate, opt_gasPrice = price, opt_quoteGasEstimate = gas, opt_gasPerOnChainTransfer = per\<rparr> = Inr r \<Longrightarrow>
   totalOnChainFeeAmount r = Fin 2 \<and>
   onChainTransfers r = [\<lparr>transferToken = ''B'', transferAmount = Fin 2, transferRecipient = ''F''\<rparr>]"
  by (auto simp: sample_gasless_def calculateFees_def calculateIntegratorFee_def calculateZeroExFee_def calculateGasFee_def
      Let_def calculateTotalOnChainFees_def feeRecipientToOnChainTransfer_def add_gas_def add_zeroEx_def add_integrator_def
      set_transfer_def current_amount_def zeroExFeeAdjustment_def billed_on_chain_def)

theorem gasless_sell_conserved_witness:
  "\<exists>response tx. calculateSwapQuoteAsync sample_sv (sample_params quote_endpoint) = Inr response \<and>
     getSwapQuotePartialTransaction sample_sv (sample_quote uniswap_path) (sample_params quote_endpoint)
       (buy_fee_amounts sample_sv (sample_params quote_endpoint) (sample_quote uniswap_path))
       [\<lparr>feeType = GaslessFee, af_recipient = ''F'', buyTokenFeeAmount = 0, sellTokenFeeAmount = Fin 2\<rparr>] = Inr tx \<and>
     r_data response = pt_data tx \<and>
     qi_totalTakerAmount (swq_bestCaseQuoteInfo (sample_quote uniswap_path)) = Fin 12 - Fin 2 \<and>
     r_sellAmount response = Fin 12"
proof -
  obtain response where r: "calculateSwapQuoteAsync sample_sv (sample_params quote_endpoint) = Inr response"
    using sample_response by blast
  have token: "p_sellToken (sample_params quote_endpoint) = ''B''" by (simp add: sample_gasless_def)
  from gasless_sell_conserved[OF r sample_sv_sel(2,3)] obtain rate price options tx and fees :: CalculateFeesResult
    and quote :: SwapQuote where
    fees: "calculateFees \<lparr>opt_feeConfigs = p_feeConfigs (sample_params quote_endpoint), opt_sellToken = ''B'', opt_sellTokenAmount = Fin 12,
      opt_sellTokenAmountPerWei = rate, opt_gasPrice = price, opt_quoteGasEstimate = AVG_MULTIPLEX_TRANFORM_ERC_20_GAS,
      opt_gasPerOnChainTransfer = (if v1 = v1 then TRANSFER_GAS else TRANSFER_FROM_GAS)\<rparr> = Inr fees" and
    quote: "op_getSwapQuoteAsync (sv_swapQuoter sample_sv) (p_buyToken (sample_params quote_endpoint))
      (p_sellToken (sample_params quote_endpoint)) (Fin 12 - totalOnChainFeeAmount fees) Sell options
      (Some (sv_rfqClient sample_sv)) = Inr quote" and
    tx: "getSwapQuotePartialTransaction sample_sv quote (sample_params quote_endpoint)
      (buy_fee_amounts sample_sv (sample_params quote_endpoint) quote)
      (filter (\<lambda>fee. 0 < sellTokenFeeAmount fee) (map transfer_to_fee (onChainTransfers fees))) = Inr tx"
      "r_data response = pt_data tx" and
    sold: "is_fin (totalOnChainFeeAmount fees) \<and>
      qi_totalTakerAmount (swq_bestCaseQuoteInfo quote) = Fin 12 - totalOnChainFeeAmount fees \<longrightarrow> r_sellAmount response = Fin 12"
    unfolding token by metis
  have "quote = sample_quote uniswap_path" using quote by (simp add: sample_sv_sel(1))
  with tx sold sample_calculated_fees[OF fees] r show ?thesis
    by (auto simp: transfer_to_fee_def sample_quote_def sample_info_def)
qed

text \<open>C24: A response always buys something, and a firm quote respects the price impact protection of the request:
  the price, that of a buy inverted to bought units per sold unit, is at least the fraction
  \<open>1 - protection\<close> of the market rate it is measured against. This holds for sells and for buys, whenever
  both tokens have a rate to the native token.\<close>

theorem price_impact_guarded:
  assumes "calculateSwapQuoteAsync sv params = Inr response"
  shows "\<not> r_buyAmount response \<le> Fin 0 \<and>
    (\<forall>price s b protection. p_endpoint params = quote_endpoint \<and> (p_sellAmount params = None \<longrightarrow> price \<noteq> 0) \<and>
       r_price response = Fin price \<and> r_sellTokenToEthRate response = Fin s \<and> r_buyTokenToEthRate response = Fin b \<and>
       s \<noteq> 0 \<and> b \<noteq> 0 \<and> sv_rnd sv (b / s) \<noteq> 0 \<and> p_priceImpactProtectionPercentage params = Fin protection \<longrightarrow>
       1 - dec (rnd64 (protection * 100)) / 100 \<le>
         sv_rnd sv ((if p_sellAmount params \<noteq> None then price else sv_rnd sv (1 / price)) / sv_rnd sv (b / s)))"
proof -
  obtain fees gasPrice amount quote where "finish_quote sv params fees quote = Inr response"
    using quote_asked[OF assms] .
  then obtain sellFees tx gas made where made:
    "make_response sv params quote sellFees
       (am_buyTokenFeeAmount (getBuyTokenFeeAmounts (sv_rnd sv) (sv_GASLESS_SWAP_FEE_ENABLED sv) quote (p_affiliateFee params)))
       tx gas = Inr made"
    "check_response params made = Inr made" "response = add_expected_slippage sv params made"
    by (rule quote_finished)
  have "1 - dec (rnd64 (protection * 100)) / 100 \<le>
      sv_rnd sv (normalized_price (sv_rnd sv) (market_side params) price / sv_rnd sv (b / s))"
    if h: "p_endpoint params = quote_endpoint" "p_sellAmount params = None \<longrightarrow> price \<noteq> 0" "r_price made = Fin price"
      "r_sellTokenToEthRate made = Fin s" "r_buyTokenToEthRate made = Fin b" "s \<noteq> 0" "b \<noteq> 0"
      "sv_rnd sv (b / s) \<noteq> 0" "p_priceImpactProtectionPercentage params = Fin protection" for price s b protection
  proof -
    have "calculateEstimatedPriceImpactPercent (sv_rnd sv) (Fin price) (Fin s) (Fin b) (market_side params) =
        Inr (r_estimatedPriceImpact made)"
      using make_response_fields(5)[OF made(1)] h(3-5) by simp
    moreover have "market_side params = Buy \<Longrightarrow> price \<noteq> 0" using h(2) by (simp add: market_side_def split: if_split_asm)
    ultimately obtain i where i: "r_estimatedPriceImpact made = Some (Fin i)"
      "(1 - sv_rnd sv (normalized_price (sv_rnd sv) (market_side params) price / sv_rnd sv (b / s))) * 100 \<le> i"
      using impact_covers_loss[of "sv_rnd sv" price s b "market_side params" "r_estimatedPriceImpact made"] h(6-8) by blast
    have "i \<le> dec (rnd64 (protection * 100))"
      using made(2) h(1,9) i(1) by (simp add: check_response_def split: if_split_asm)
    then show ?thesis using i(2) by (simp add: field_simps)
  qed
  moreover have "normalized_price (sv_rnd sv) (market_side params) price =
      (if p_sellAmount params \<noteq> None then price else sv_rnd sv (1 / price))" for price
    by (simp add: normalized_price_def market_side_def)
  moreover have "\<not> r_buyAmount made \<le> 0" using made(2) by (simp add: check_response_def split: if_split_asm)
  ultimately show ?thesis using made(3) by simp
qed

theorem price_impact_guarded_witness:
  "\<exists>response. calculateSwapQuoteAsync sample_sv (sample_params quote_endpoint) = Inr response \<and>
     r_price response = Fin (3 / 4) \<and> p_priceImpactProtectionPercentage (sample_params quote_endpoint) = Fin (1 / 4) \<and>
     \<not> r_buyAmount response \<le> Fin 0 \<and> 1 - dec (rnd64 (1 / 4 * 100)) / 100 \<le> rnd78 (3 / 4 / rnd78 (1 / 1))"
proof -
  obtain response where r: "calculateSwapQuoteAsync sample_sv (sample_params quote_endpoint) = Inr response"
    "r_price response = Fin (3 / 4)" "r_sellTokenToEthRate response = Fin 1" "r_buyTokenToEthRate response = Fin 1"
    using sample_response by blast
  have env: "sv_rnd sample_sv = rnd78" "p_priceImpactProtectionPercentage (sample_params quote_endpoint) = Fin (1 / 4)"
    by (simp_all add: sample_service_def sample_gasless_def)
  have one: "rnd78 (1 / 1) \<noteq> 0" using dp.rnd_1[of 78] by simp
  have "1 - dec (rnd64 (1 / 4 * 100)) / 100 \<le> rnd78 (3 / 4 / rnd78 (1 / 1))"
    using price_impact_guarded[OF r(1), THEN conjunct2, THEN spec, of "3 / 4", THEN spec, of 1, THEN spec, of 1,
        THEN spec, of "1 / 4"] r(2-4) one
    by (simp add: env sample_sv_sel)
  moreover have "\<not> r_buyAmount response \<le> Fin 0" using price_impact_guarded[OF r(1)] by blast
  ultimately show ?thesis using r env by blast
qed

text \<open>Gas is estimated conservatively, and only firm quotes depend on it: a price request never fails because
  of the simulated transaction; a firm quote for a known taker, unless validation is skipped, is given
  only when the simulated transaction succeeded; and the gas returned is at least that of the worst case
  of the quote.\<close>

theorem gas_estimation_policy:
  "(\<forall>e. p_endpoint params = price_endpoint \<and> calculateSwapQuoteAsync sv params = Inl e \<longrightarrow>
      e \<noteq> GasEstimationError \<and> (\<forall>m. e \<noteq> RevertError m)) \<and>
   (\<forall>response. calculateSwapQuoteAsync sv params = Inr response \<longrightarrow>
      (p_endpoint params = quote_endpoint \<and> truthy_string (p_takerAddress params) \<and> \<not> p_skipValidation params \<longrightarrow>
         (\<exists>tx. tx_from tx = the (p_takerAddress params) \<and>
            call_success (cs_result (fst (simulate_call (sv_node sv) (sv_CHAIN_ID sv) tx))))) \<and>
      (\<exists>amount options quote. op_getSwapQuoteAsync (sv_swapQuoter sv) (p_buyToken params) (p_sellToken params) amount
           (market_side params) options (Some (sv_rfqClient sv)) = Inr quote \<and>
         (\<forall>g. bn_of_number (qi_gas (swq_worstCaseQuoteInfo quote)) = Fin g \<and> r_gas response \<noteq> NaN \<longrightarrow>
            Fin g \<le> r_gas response)))"
proof (intro conjI allI impI)
  fix e assume "p_endpoint params = price_endpoint \<and> calculateSwapQuoteAsync sv params = Inl e"
  then have "request_error e" using price_error by blast
  then show "e \<noteq> GasEstimationError" "\<And>m. e \<noteq> RevertError m" by (simp_all add: request_error_def)
next
  fix response assume *: "calculateSwapQuoteAsync sv params = Inr response"
  obtain fees gasPrice amount quote where stages:
    "sell_side_fees sv params = Inr (fees, gasPrice)"
    "op_getSwapQuoteAsync (sv_swapQuoter sv) (p_buyToken params) (p_sellToken params) amount (market_side params)
       (assetSwapperOpts sv params gasPrice) (Some (sv_rfqClient sv)) = Inr quote"
    "finish_quote sv params fees quote = Inr response"
    using quote_asked[OF *] .
  obtain sellFees tx gas made where fin:
    "buy_side_fees sv params fees quote = Inr sellFees"
    "gas_estimate sv params quote tx (stf_gas sellFees) (faux_gas sv params quote sellFees) = Inr gas"
    "make_response sv params quote sellFees
       (am_buyTokenFeeAmount (getBuyTokenFeeAmounts (sv_rnd sv) (sv_GASLESS_SWAP_FEE_ENABLED sv) quote (p_affiliateFee params)))
       tx gas = Inr made"
    "response = add_expected_slippage sv params made"
    using stages(3) by (rule quote_finished)
  show "p_endpoint params = quote_endpoint \<and> truthy_string (p_takerAddress params) \<and> \<not> p_skipValidation params \<Longrightarrow>
      \<exists>tx. tx_from tx = the (p_takerAddress params) \<and>
        call_success (cs_result (fst (simulate_call (sv_node sv) (sv_CHAIN_ID sv) tx)))"
    using gas_estimate_Inr(2)[OF fin(2)] by blast
  have gas: "r_gas response = gas" using make_response_fields(3)[OF fin(3)] fin(4) by simp
  have "Fin g \<le> gas" if "bn_of_number (qi_gas (swq_worstCaseQuoteInfo quote)) = Fin g" "gas \<noteq> NaN" for g
    using faux_gas_ge[OF sell_fees_gas[OF stages(1) fin(1)] that(1), of sv params] gas_estimate_Inr(1)[OF fin(2) that(2)]
    by (cases gas) (auto simp: less_eq_xnum_def)
  then show "\<exists>amount options quote. op_getSwapQuoteAsync (sv_swapQuoter sv) (p_buyToken params) (p_sellToken params) amount
           (market_side params) options (Some (sv_rfqClient sv)) = Inr quote \<and>
         (\<forall>g. bn_of_number (qi_gas (swq_worstCaseQuoteInfo quote)) = Fin g \<and> r_gas response \<noteq> NaN \<longrightarrow>
            Fin g \<le> r_gas response)"
    using stages(2) gas by auto
qed

theorem gas_estimation_policy_witness:
  "\<exists>tx. tx_from tx = ''0xt'' \<and> call_success (cs_result (fst (simulate_call sample_node Mainnet tx)))"
proof -
  obtain response where "calculateSwapQuoteAsync sample_sv (sample_params quote_endpoint) = Inr response"
    using sample_response by blast
  with gas_estimation_policy[of "sample_params quote_endpoint" sample_sv] show ?thesis
    by (simp add: sample_sv_sel) (simp add: sample_service_def)
qed

text \<open>The guaranteed price is never better for the taker than the price, on both sides: when the worst case of a
  quote gives no more and takes no less than its best case, both prices are computed without an error
  and the guaranteed one is at most the other for a sell and at least it for a buy.\<close>

theorem guaranteed_price_not_better:
  assumes "sv_rnd sv = round_dp n" "unit_amounts (round_dp n) (sv_toUnitAmount sv)"
    "qi_makerAmount (swq_bestCaseQuoteInfo quote) = Fin bm" "qi_totalTakerAmount (swq_bestCaseQuoteInfo quote) = Fin bt"
    "qi_makerAmount (swq_worstCaseQuoteInfo quote) = Fin wm" "qi_totalTakerAmount (swq_worstCaseQuoteInfo quote) = Fin wt"
    "0 \<le> wm" "wm \<le> bm" "0 \<le> bt" "bt \<le> wt" "0 \<le> s"
    "getBuyTokenPercentageFeeOrZero fee = Fin f" "is_double f" "0 \<le> f" "f < 1"
    "bd \<le> 10 ^ 9" "sd \<le> 10 ^ 9" "0 < round_dp n ((bt + s) / 10 ^ sd)"
    "buyAmount \<noteq> None \<Longrightarrow> 0 < round_dp n (wm / 10 ^ bd)"
  shows "\<exists>p g. getSwapQuotePrice sv buyAmount (Fin (of_nat bd)) (Fin (of_nat sd)) quote fee (Fin s) = Inr (Fin p, Fin g) \<and>
    (if buyAmount = None then g \<le> p else p \<le> g)"
  using assms by (rule dp.price_pair)

theorem guaranteed_price_not_better_witness:
  "\<exists>p g. getSwapQuotePrice sample_sv None (Fin (of_nat 0)) (Fin (of_nat 0)) (sample_quote uniswap_path)
     (p_affiliateFee (sample_params quote_endpoint)) (Fin 2) = Inr (Fin p, Fin g) \<and> (if (None :: BigNumber option) = None then g \<le> p else p \<le> g)"
  by (rule guaranteed_price_not_better[where n = 78 and bm = 9 and bt = 10 and wm = 9 and wt = 10 and f = 0])
    (simp_all add: sample_service_def unit_amounts_def exact_units_def sample_quote_def sample_info_def sample_gasless_def
      getBuyTokenPercentageFeeOrZero_def is_double_def dp.rnd_int[of 78 12, simplified])

text \<open>A buyer gets at least the amount asked for after the affiliate's percentage: when the route buys exactly
  the amount raised by the percentage, what is left after the fee is not below the requested amount.\<close>

theorem buyer_gets_requested_amount:
  assumes "calculateSwapQuoteAsync sv params = Inr response" "sv_rnd sv = round_dp n"
    "p_sellAmount params = None" "p_buyAmount params = Some (Fin (of_int B))" "0 \<le> B"
    "fee_feeType (p_affiliateFee params) = PercentageFee" "fee_buyTokenPercentageFee (p_affiliateFee params) = Fin f"
    "is_double f" "0 \<le> f" "dec (rnd64 (f + 1)) = 1 + dec f" "round_dp n (of_int B * dec f) = of_int B * dec f"
    "\<And>amount options quote. op_getSwapQuoteAsync (sv_swapQuoter sv) (p_buyToken params) (p_sellToken params) amount Buy
       options (Some (sv_rfqClient sv)) = Inr quote \<Longrightarrow>
       qi_makerAmount (swq_bestCaseQuoteInfo quote) = amount \<and> qi_makerAmount (swq_worstCaseQuoteInfo quote) = amount"
  shows "Fin (of_int B) \<le> r_buyAmount response"
proof -
  let ?fee = "p_affiliateFee params" and ?A = "\<lfloor>of_int B * (1 + dec f)\<rfloor>"
  have dec: "0 \<le> dec f" using dec_mono[of 0 f] assms(8,9) by (simp add: is_double_def)
  have rate: "getBuyTokenPercentageFeeOrZero ?fee = Fin f" using assms(6,7) by (simp add: getBuyTokenPercentageFeeOrZero_def)
  obtain fees gasPrice amount quote where stages:
    "fill_amount params (stf_amount fees) = Inr amount"
    "op_getSwapQuoteAsync (sv_swapQuoter sv) (p_buyToken params) (p_sellToken params) amount (market_side params)
       (assetSwapperOpts sv params gasPrice) (Some (sv_rfqClient sv)) = Inr quote"
    "finish_quote sv params fees quote = Inr response"
    using quote_asked[OF assms(1)] .
  have "0 \<le> of_int B * (1 + dec f)" using assms(5) dec by simp
  then have A: "amount = Fin (of_int ?A)" "0 \<le> ?A" using stages(1) assms(3,4,10) rate by (simp_all add: fill_amount_def)
  have maker: "qi_makerAmount (swq_bestCaseQuoteInfo quote) = Fin (of_int ?A)" "qi_makerAmount (swq_worstCaseQuoteInfo quote) = Fin (of_int ?A)"
    using assms(12)[of amount _ quote] stages(2) assms(3) A(1) by (auto simp: market_side_def)
  let ?x = "round_dp n (of_int ?A * dec f / (1 + dec f))"
  have "0 \<le> ?x" using A(2) dec by (intro dp.rnd_nonneg divide_nonneg_nonneg mult_nonneg_nonneg) auto
  moreover have "1 + dec f \<noteq> 0" using dec by simp
  ultimately have fee: "am_buyTokenFeeAmount (getBuyTokenFeeAmounts (sv_rnd sv) enabled quote ?fee) = Fin (of_int \<lfloor>?x\<rfloor>) \<or>
      am_buyTokenFeeAmount (getBuyTokenFeeAmounts (sv_rnd sv) enabled quote ?fee) = Fin 0" for enabled
    using assms(2,6,10) rate maker(2) by (simp add: getBuyTokenFeeAmounts_def)
  have "B \<le> ?A - \<lfloor>?x\<rfloor>" by (rule dp.buy_fee_covered[OF dec assms(5,11)])
  moreover have "B \<le> ?A" using assms(5) dec by (simp add: le_floor_iff distrib_left)
  moreover obtain enabled where "r_buyAmount response = Fin (of_int ?A) -
      am_buyTokenFeeAmount (getBuyTokenFeeAmounts (sv_rnd sv) enabled quote ?fee)"
    using stages(3) maker(1) by (elim quote_finished) (simp add: make_response_fields(1))
  ultimately show ?thesis using fee[of enabled] by (auto simp flip: of_int_diff)
qed

text \<open>A quoter that only answers a purchase of 9 units, and a request for 8 units with a fee of an eighth.\<close>

definition sample_buy_sv :: SwapService where
  "sample_buy_sv = sample_sv\<lparr>sv_swapQuoter := (sv_swapQuoter sample_sv)
     \<lparr>op_getSwapQuoteAsync := (\<lambda>_ _ amount _ _ _. if amount = Fin 9 then Inr (sample_quote uniswap_path) else Inl TypeError)\<rparr>\<rparr>"

definition sample_buy_params :: GetSwapQuoteParams where
  "sample_buy_params = (sample_params price_endpoint)
     \<lparr>p_metaTransactionVersion := None, p_sellAmount := None, p_buyAmount := Some (Fin 8),
      p_affiliateFee := \<lparr>fee_feeType = PercentageFee, fee_recipient = ''F'', fee_buyTokenPercentageFee = Fin (1 / 8)\<rparr>\<rparr>"

lemma sample_eighth: "rnd64 (1 / 8) = 1 / 8" "dec (1 / 8) = 1 / 8" "rnd64 (9 / 8) = 9 / 8" "dec (9 / 8) = 9 / 8"
  by code_simp+

lemma impact_total: "\<exists>impact. calculateEstimatedPriceImpactPercent rnd price s b side = Inr impact"
  by (auto simp: calculateEstimatedPriceImpactPercent_def decimalPlaces_def Let_def)

lemma sample_buy_response:
  "\<exists>response. calculateSwapQuoteAsync sample_buy_sv sample_buy_params = Inr response"
proof -
  let ?q = "sample_quote uniswap_path" and ?p = sample_buy_params
  have params: "p_sellAmount ?p = None" "p_buyAmount ?p = Some (Fin 8)" "p_metaTransactionVersion ?p = None"
    "p_affiliateFee ?p = \<lparr>fee_feeType = PercentageFee, fee_recipient = ''F'', fee_buyTokenPercentageFee = Fin (1 / 8)\<rparr>"
    "p_endpoint ?p = price_endpoint" "p_rfqt ?p = None"
    by (simp_all add: sample_buy_params_def sample_gasless_def)
  have env: "sv_lib sample_buy_sv = sample_lib" "sv_consumer sample_buy_sv = sample_consumer" "sv_node sample_buy_sv = sample_node"
    "sv_CHAIN_ID sample_buy_sv = Mainnet" "sv_wethDecimals sample_buy_sv = Some (Fin 18)" "sv_rnd sample_buy_sv = rnd78"
    "sv_toUnitAmount sample_buy_sv = exact_units"
    by (simp_all add: sample_buy_sv_def sample_service_def)
  have fee: "getBuyTokenFeeAmounts rnd78 enabled ?q (p_affiliateFee ?p) =
      \<lparr>am_sellTokenFeeAmount = 0, am_buyTokenFeeAmount = Fin 1, am_gasCost = AFFILIATE_FEE_TRANSFORMER_GAS\<rparr>" for enabled
    using dp.rnd_1[of 78]
    by (simp add: getBuyTokenFeeAmounts_def params getBuyTokenPercentageFeeOrZero_def sample_eighth NULL_ADDRESS_def
        sample_quote_def sample_info_def)
  obtain tx where tx: "getSwapQuotePartialTransaction sample_buy_sv ?q ?p
      [\<lparr>feeType = PercentageFee, af_recipient = ''F'', buyTokenFeeAmount = Fin 1, sellTokenFeeAmount = 0\<rparr>] [] = Inr tx"
    using sample_tx[OF disjI2 env(1,2)] by fastforce
  obtain gas where gas: "gas_estimate sample_buy_sv ?p ?q tx 0
      (bn_of_number (qi_gas (swq_worstCaseQuoteInfo ?q)) + AFFILIATE_FEE_TRANSFORMER_GAS + 0) = Inr gas"
    using sample_gas[OF env(3,4)] by blast
  have "\<exists>p g. getSwapQuotePrice sample_buy_sv (Some (Fin 8)) (Fin (of_nat 18)) (Fin (of_nat 18)) ?q (p_affiliateFee ?p) (Fin 0) =
      Inr (Fin p, Fin g) \<and> (if Some (Fin 8) = None then g \<le> p else p \<le> g)"
    by (rule dp.price_pair[where d = 78 and bm = 9 and bt = 10 and wm = 9 and wt = 10 and f = "1 / 8"])
      (simp_all add: env unit_amounts_def exact_units_def sample_quote_def sample_info_def params sample_eighth is_double_def
        getBuyTokenPercentageFeeOrZero_def sample_units)
  then obtain p g where price: "getSwapQuotePrice sample_buy_sv (Some (Fin 8)) (Fin 18) (Fin 18) ?q (p_affiliateFee ?p) (Fin 0) =
      Inr (Fin p, Fin g)" by auto
  obtain impact where impact: "calculateEstimatedPriceImpactPercent rnd78 (Fin p) (Fin 1) (Fin 1) Buy = Inr impact"
    using impact_total by blast
  have "\<exists>made. make_response sample_buy_sv ?p ?q no_sell_token_fees (Fin 1) tx gas = Inr made \<and> r_buyAmount made = Fin 8"
    using price impact sample_rate[OF env(5)]
    by (simp add: make_response_def Let_def params env no_sell_token_fees_def market_side_def sample_quote_def sample_info_def)
  then obtain made where made: "make_response sample_buy_sv ?p ?q no_sell_token_fees (Fin 1) tx gas = Inr made"
    "r_buyAmount made = Fin 8" by blast
  have "check_response ?p made = Inr made" by (simp add: check_response_def made(2) params)
  then have "finish_quote sample_buy_sv ?p no_sell_token_fees ?q = Inr (add_expected_slippage sample_buy_sv ?p made)"
    using tx gas made(1) fee
    by (simp add: finish_quote_def Let_def thrown_def buy_side_fees_def params env no_sell_token_fees_def)
  moreover have "fill_amount ?p 0 = Inr (Fin 9)"
    by (simp add: fill_amount_def params getBuyTokenPercentageFeeOrZero_def sample_eighth)
  ultimately show ?thesis
    by (simp add: calculateSwapQuoteAsync_def sell_side_fees_def params thrown_def no_sell_token_fees_def)
      (simp add: sample_buy_sv_def)
qed

theorem buyer_gets_requested_amount_witness:
  "\<exists>response. calculateSwapQuoteAsync sample_buy_sv sample_buy_params = Inr response \<and> Fin (of_int 8) \<le> r_buyAmount response"
proof -
  obtain response where r: "calculateSwapQuoteAsync sample_buy_sv sample_buy_params = Inr response"
    using sample_buy_response by blast
  have "Fin (of_int 8) \<le> r_buyAmount response"
    by (rule buyer_gets_requested_amount[OF r, where n = 78 and f = "1 / 8"])
      (auto simp: sample_buy_sv_def sample_buy_params_def sample_eighth is_double_def sample_service_def
        dp.rnd_1[of 78, simplified] sample_quote_def sample_info_def split: if_split_asm)
  with r show ?thesis by blast
qed

text \<open>The guard against RFQ-only requests never fires: no source is called \<open>RFQT\<close>.\<close>

theorem service_disabled_unreachable: "calculateSwapQuoteAsync sv params \<noteq> Inl (ServiceDisabledError m)"
proof -
  have "source_value s \<noteq> ''RFQT''" for s by (cases s) simp_all
  then have "map_option (map source_value) (p_includedSources params) \<noteq> Some [''RFQT'']"
    by (auto simp: map_eq_Cons_conv)
  moreover have fees: "getSellTokenFees sv side cfgs token amount perWei gasPrice est per \<noteq> Inl (ServiceDisabledError m)"
    for side cfgs token amount perWei gasPrice est per
    unfolding getSellTokenFees_def
    by (auto simp: thrown_eq_Inl elim!: res_bind_InlE split: sum.split_asm if_split_asm)
  moreover have "sell_side_fees sv params \<noteq> Inl (ServiceDisabledError m)"
    "buy_side_fees sv params f quote \<noteq> Inl (ServiceDisabledError m)"
    "check_response params r \<noteq> Inl (ServiceDisabledError m)" for f quote r
    using fees
    by (auto simp: sell_side_fees_def buy_side_fees_def check_response_def thrown_eq_Inl elim!: res_bind_InlE
        split: option.split_asm if_split_asm)
  moreover have "gas_estimate sv params quote tx t faux \<noteq> Inl (ServiceDisabledError m)" for quote tx t faux
  proof -
    have "on_rpc_error node e \<noteq> Some (ServiceDisabledError m)" for node e
      by (simp add: on_rpc_error_def split: sum.split js_error.split)
    then have "estimateGasOrThrowRevertErrorAsync node chainId txData \<noteq> Inl (ServiceDisabledError m)" for node chainId txData
      by (auto simp: estimateGasOrThrowRevertErrorAsync_def Let_def bind_eq_Some_conv
          split: prod.splits option.split_asm if_split_asm)
    then show ?thesis by (auto simp: gas_estimate_def split: sum.split_asm if_split_asm)
  qed
  ultimately show ?thesis
    by (auto simp: calculateSwapQuoteAsync_def finish_quote_def Let_def res_bind_eq_Inl thrown_eq_Inl)
qed

end
