(* ===== verification/Swap_Handlers.thy ===== *)
theory Swap_Handlers
  imports Request_Parsing Gas_Price Swap_Responses
begin

text \<open>
  The handlers of the swap endpoints (\<open>handlers/swap_handlers.ts\<close>): from the query of a request to the parameters of
  the swap service, from its errors to the errors of the API, and from its response to the body that is sent, with the
  report published on Kafka. Token metadata, the schema validator, Brotli, the parsing of decimal strings, the collation
  order and the message of a \<open>TypeError\<close> are fields of \<open>HandlerEnv\<close>, as is the gas price cache. Logging and metrics
  are left out.
\<close>

section \<open>Environment and requests\<close>

record HandlerEnv =
  he_service :: SwapService
  he_acl :: "IntegratorAcl list"
  he_schemaErrors :: "string \<Rightarrow> Query \<Rightarrow> AjvError list" \<comment> \<open>by the name of the schema\<close>
  he_parse :: "string \<Rightarrow> BigNumber"
  he_isNativeSymbolOrAddress :: "string \<Rightarrow> ChainId \<Rightarrow> bool"
  he_isNativeUndefined :: "js_error + bool" \<comment> \<open>what the library makes of an undefined token\<close>
  he_isNativeWrappedSymbolOrAddress :: "string \<Rightarrow> ChainId \<Rightarrow> bool"
  he_findTokenAddress :: "string option \<Rightarrow> ChainId \<Rightarrow> string + string"
  he_brotli :: "string \<Rightarrow> nat"
  he_gasPrices :: GasPriceUtils
  he_now :: js_number
  he_kafkaProducer :: bool
  he_kafkaTopic :: "string option"
  he_typeErrorMessage :: string
  he_registryPasswords :: "string list"
  he_localeCompare :: "string \<Rightarrow> string \<Rightarrow> int"

abbreviation he_chain :: "HandlerEnv \<Rightarrow> ChainId" where
  "he_chain env \<equiv> sv_CHAIN_ID (he_service env)"

record Request =
  rq_query :: Query
  rq_apiKey :: "string option" \<comment> \<open>the header \<open>0x-api-key\<close>\<close>
  rq_origin :: "string option"
  rq_authorization :: "string option"

record SwapRequest =
  sq_params :: GetSwapQuoteParams
  sq_apiKey :: "string option"
  sq_origin :: "string option"
  sq_isWrap :: bool
  sq_isUnwrap :: bool

section \<open>Static handlers\<close>

definition getLiquiditySources :: "HandlerEnv \<Rightarrow> string list" where
  "getLiquiditySources env =
     js_sort (he_localeCompare env)
       (map (\<lambda>s. if s = Native then ''0x'' else source_value s) (filter_sources (SELL_SOURCE_FILTER_BY_CHAIN_ID (he_chain env))))"

text \<open>\<open>/^Bearer\s(.{36})$/\<close>.\<close>

definition bearer_token :: "string \<Rightarrow> string option" where
  "bearer_token auth =
     (if length auth = 43 \<and> take 6 auth = ''Bearer'' \<and> is_space (auth ! 6) \<and>
         list_all (\<lambda>c. c \<notin> set [CHR 0x0A, CHR 0x0D]) (drop 7 auth)
      then Some (drop 7 auth) else None)"

datatype RegistryResponse = UNAUTHORIZED | REGISTRY "string list"

definition getRfqRegistry :: "HandlerEnv \<Rightarrow> Request \<Rightarrow> RegistryResponse" where
  "getRfqRegistry env req =
     (case Option.bind (rq_authorization req) bearer_token of
        None \<Rightarrow> UNAUTHORIZED
      | Some authToken \<Rightarrow>
          if authToken \<notin> set (he_registryPasswords env) then UNAUTHORIZED
          else REGISTRY (RFQT_INTEGRATOR_IDS (he_acl env)))"

section \<open>Parameters\<close>

definition parseOptionalBooleanParam :: "string option \<Rightarrow> bool \<Rightarrow> bool" where
  "parseOptionalBooleanParam param defaultValue =
     (case param of None \<Rightarrow> defaultValue | Some p \<Rightarrow> if p = [] then defaultValue else p = ''true'')"

definition to_integrator :: "IntegratorAcl \<Rightarrow> Integrator" where
  "to_integrator i =
     \<lparr>integratorId = acl_integratorId i, slippageModel = acl_slippageModel i,
      positiveSlippagePercent = acl_positiveSlippagePercent i, integrator_feeRecipient = acl_feeRecipient i\<rparr>"

text \<open>The two tokens, and whether each is the native one; an error for a pair that cannot be swapped.\<close>

record TokenPair =
  tp_sellToken :: string
  tp_buyToken :: string
  tp_isNativeSell :: bool
  tp_isNativeBuy :: bool
  tp_isWrap :: bool
  tp_isUnwrap :: bool

definition both_tokens_error :: "ValidationErrorCodes \<Rightarrow> string \<Rightarrow> service_error + 'a" where
  "both_tokens_error code reason =
     Inl (ValidationError (map (\<lambda>field. \<lparr>ve_field = field, ve_code = code, ve_reason = reason\<rparr>) [''buyToken'', ''sellToken'']))"

text \<open>A token that the request leaves out, which the schema allows, is undefined.\<close>

definition isNativeToken :: "HandlerEnv \<Rightarrow> string option \<Rightarrow> js_error + bool" where
  "isNativeToken env token =
     (case token of
        Some t \<Rightarrow> Inr (he_isNativeSymbolOrAddress env t (he_chain env))
      | None \<Rightarrow> he_isNativeUndefined env)"

definition parse_tokens :: "HandlerEnv \<Rightarrow> Query \<Rightarrow> service_error + TokenPair" where
  "parse_tokens env query =
     (let chain = he_chain env;
          sellTokenRaw = map_of query ''sellToken'';
          buyTokenRaw = map_of query ''buyToken'';
          native = NATIVE_FEE_TOKEN_BY_CHAIN_ID (sv_lib (he_service env)) chain
      in res_bind (thrown (isNativeToken env sellTokenRaw))
      (\<lambda>isNativeSell. res_bind (thrown (isNativeToken env buyTokenRaw))
      (\<lambda>isNativeBuy. res_bind (findTokenAddressOrThrowApiError (he_findTokenAddress env) (if isNativeSell then Some native else sellTokenRaw) ''sellToken'' chain)
      (\<lambda>foundSell. res_bind (findTokenAddressOrThrowApiError (he_findTokenAddress env) (if isNativeBuy then Some native else buyTokenRaw) ''buyToken'' chain)
      (\<lambda>foundBuy.
         let sellToken = toLowerCase foundSell; buyToken = toLowerCase foundBuy;
             isWrap = (isNativeSell \<and> he_isNativeWrappedSymbolOrAddress env buyToken chain);
             isUnwrap = (he_isNativeWrappedSymbolOrAddress env sellToken chain \<and> isNativeBuy)
         in if \<not> isUnwrap \<and> \<not> isWrap \<and> sellToken = buyToken
            then both_tokens_error RequiredField ''buyToken and sellToken must be different''
            else if sellToken = NULL_ADDRESS \<or> buyToken = NULL_ADDRESS
            then both_tokens_error FieldInvalid ''Invalid token combination''
            else Inr \<lparr>tp_sellToken = sellToken, tp_buyToken = buyToken, tp_isNativeSell = isNativeSell,
                      tp_isNativeBuy = isNativeBuy, tp_isWrap = isWrap, tp_isUnwrap = isUnwrap\<rparr>)))))"

text \<open>A fraction of at most one; the reason of a larger one says so.\<close>

definition parse_fraction :: "Query \<Rightarrow> string \<Rightarrow> js_number \<Rightarrow> service_error + js_number" where
  "parse_fraction query name default' =
     (let x = (case map_of query name of None \<Rightarrow> default' | Some v \<Rightarrow> parseFloat v)
      in if 1 < x then validation_error name ValueOutOfRange ''MUST_BE_LESS_THAN_OR_EQUAL_TO_ONE'' else Inr x)"

text \<open>The RFQ options name their last field \<open>nativeExclusivelyRFQT\<close>, which no one reads: it counts as absent.\<close>

definition parse_rfqt :: "Request \<Rightarrow> Endpoint \<Rightarrow> RfqtParams option" where
  "parse_rfqt req endpoint =
     (if truthy_string (rq_apiKey req)
      then if endpoint = quote_endpoint
           then if truthy_string (map_of (rq_query req) ''takerAddress'')
                then Some \<lparr>rp_intentOnFilling = (map_of (rq_query req) ''intentOnFilling'' = Some ''true''), rp_isIndicative = False,
                           rp_nativeExclusivelyRFQ = False\<rparr>
                else None
           else Some \<lparr>rp_intentOnFilling = False, rp_isIndicative = True, rp_nativeExclusivelyRFQ = False\<rparr>
      else None)"

definition parse_skipValidation :: "HandlerEnv \<Rightarrow> Query \<Rightarrow> string option \<Rightarrow> Endpoint \<Rightarrow> bool" where
  "parse_skipValidation env query integrator endpoint =
     (let skip = (case map_of query ''skipValidation'' of None \<Rightarrow> endpoint \<noteq> quote_endpoint | Some v \<Rightarrow> v = ''true'')
      in if endpoint = quote_endpoint \<and> integrator \<noteq> None \<and> integrator = MATCHA_INTEGRATOR_ID (he_acl env) then False else skip)"

definition parse_sources :: "HandlerEnv \<Rightarrow> Request \<Rightarrow> Endpoint \<Rightarrow> service_error + ParseRequestForExcludedSourcesResult" where
  "parse_sources env req endpoint =
     res_bind (parseRequestForExcludedSources
        \<lparr>pr_takerAddress = map_of (rq_query req) ''takerAddress'', pr_excludedSources = map_of (rq_query req) ''excludedSources'',
         pr_includedSources = map_of (rq_query req) ''includedSources'', pr_intentOnFilling = map_of (rq_query req) ''intentOnFilling'',
         pr_apiKey = rq_apiKey req\<rparr> (RFQT_API_KEY_WHITELIST (he_acl env)) endpoint)
     (\<lambda>r. if list_all (\<lambda>s. s \<in> set (rs_excludedSources r)) ERC20BridgeSource_values
          then validation_error ''excludedSources'' ValueOutOfRange ''Request excluded all sources'' else Inr r)"

definition parseSwapQuoteRequestParams :: "HandlerEnv \<Rightarrow> Request \<Rightarrow> Endpoint \<Rightarrow> service_error + SwapRequest" where
  "parseSwapQuoteRequestParams env req endpoint =
     (let query = rq_query req;
          apiKey = rq_apiKey req;
          number = (\<lambda>name. map_option (he_parse env) (map_of query name));
          integratorKey = (if truthy_string apiKey then getIntegratorIdForApiKey (he_acl env) (the apiKey) else None)
      in res_bind (validateSchema (he_schemaErrors env ''swapQuoteRequestSchema'' query))
      (\<lambda>_. res_bind (parse_tokens env query)
      (\<lambda>tokens. res_bind (parse_fraction query ''slippagePercentage'' DEFAULT_QUOTE_SLIPPAGE_PERCENTAGE)
      (\<lambda>slippagePercentage. res_bind (parse_fraction query ''priceImpactProtectionPercentage'' 1)
      (\<lambda>priceImpactProtectionPercentage. res_bind (parse_sources env req endpoint)
      (\<lambda>sources. res_bind (parseAffiliateFeeOptions query)
      (\<lambda>affiliateFee. res_bind (if truthy_string integratorKey
                               then res_bind (thrown (getIntegratorByIdOrThrow (he_acl env) (the integratorKey))) (\<lambda>i. Inr (Some (to_integrator i)))
                               else Inr None)
      (\<lambda>integrator. Inr
         \<lparr>sq_params =
            \<lparr>p_endpoint = endpoint, p_sellToken = tp_sellToken tokens, p_buyToken = tp_buyToken tokens,
             p_takerAddress = map_of query ''takerAddress'', p_gasPrice = number ''gasPrice'', p_rfqt = parse_rfqt req endpoint,
             p_skipValidation = parse_skipValidation env query integratorKey endpoint,
             p_shouldSellEntireBalance = (map_of query ''shouldSellEntireBalance'' = Some ''true''),
             p_isETHSell = tp_isNativeSell tokens, p_isETHBuy = tp_isNativeBuy tokens, p_metaTransactionVersion = None,
             p_integrator = integrator,
             p_enableSlippageProtection = parseOptionalBooleanParam (map_of query ''enableSlippageProtection'') True,
             p_feeConfigs = None, p_isDebugEnabled = (map_of query ''debug'' = Some ''true''),
             p_sellAmount = number ''sellAmount'', p_buyAmount = number ''buyAmount'',
             p_slippagePercentage = Some slippagePercentage, p_excludedSources = rs_excludedSources sources,
             p_includedSources = Some (rs_includedSources sources), p_affiliateAddress = map_of query ''affiliateAddress'',
             p_affiliateFee = affiliateFee, p_priceImpactProtectionPercentage = priceImpactProtectionPercentage\<rparr>,
          sq_apiKey = apiKey, sq_origin = rq_origin req, sq_isWrap = tp_isWrap tokens, sq_isUnwrap = tp_isUnwrap tokens\<rparr>))))))))"

section \<open>Quotes\<close>

definition error_message :: "HandlerEnv \<Rightarrow> js_error \<Rightarrow> string" where
  "error_message env e = (case e of Error m \<Rightarrow> m | TypeError \<Rightarrow> he_typeErrorMessage env)"

definition starts_with :: "string \<Rightarrow> string \<Rightarrow> bool" where
  "starts_with s p \<longleftrightarrow> take (length p) s = p"

text \<open>The errors the API reports for what the asset swapper throws; the field named for a lack of liquidity is an argument.\<close>

definition map_swap_error :: "HandlerEnv \<Rightarrow> string \<Rightarrow> (js_error \<Rightarrow> service_error) \<Rightarrow> service_error \<Rightarrow> service_error" where
  "map_swap_error env amountField other e =
     (case e of
        RevertError data \<Rightarrow> RevertAPIError data
      | Thrown err \<Rightarrow>
          (let m = error_message env err
           in if starts_with m ''INSUFFICIENT_ASSET_LIQUIDITY'' \<or> starts_with m ''NO_OPTIMAL_PATH''
              then ValidationError [\<lparr>ve_field = amountField, ve_code = ValueOutOfRange, ve_reason = ''INSUFFICIENT_ASSET_LIQUIDITY''\<rparr>]
              else if starts_with m ''ASSET_UNAVAILABLE''
              then ValidationError [\<lparr>ve_field = ''token'', ve_code = ValueOutOfRange, ve_reason = m\<rparr>]
              else other err)
      | _ \<Rightarrow> e)"

definition map_error :: "(service_error \<Rightarrow> service_error) \<Rightarrow> service_error + 'a \<Rightarrow> service_error + 'a" where
  "map_error f r = (case r of Inl e \<Rightarrow> Inl (f e) | Inr x \<Rightarrow> Inr x)"

definition add_l1_gas :: "HandlerEnv \<Rightarrow> GetSwapQuoteResponse \<Rightarrow> GetSwapQuoteResponse" where
  "add_l1_gas env swapQuote =
     (if he_chain env = Arbitrum
      then let gasPrices = getGasPriceEstimationOrDefault \<lparr>gp_fast = Fin 100000000, gp_l1CalldataPricePerUnit = None\<rparr> (he_gasPrices env);
               l1GasCostEstimate = bn_of_number (estimateArbitrumL1CalldataGasCost (he_brotli env) (gp_fast gasPrices)
                  (gp_l1CalldataPricePerUnit gasPrices) (r_data swapQuote))
           in swapQuote\<lparr>r_estimatedGas := r_estimatedGas swapQuote + l1GasCostEstimate, r_gas := r_gas swapQuote + l1GasCostEstimate\<rparr>
      else swapQuote)"

definition handler_getSwapQuoteAsync :: "HandlerEnv \<Rightarrow> SwapRequest \<Rightarrow> service_error + GetSwapQuoteResponse" where
  "handler_getSwapQuoteAsync env req =
     (let params = sq_params req; sv = he_service env
      in map_error (map_swap_error env (if p_sellAmount params \<noteq> None then ''sellAmount'' else ''buyAmount'')
                      (\<lambda>err. InternalServerError (error_message env err)))
         (res_bind (if sq_isUnwrap req then getSwapQuoteForUnwrapAsync sv params
                    else if sq_isWrap req then getSwapQuoteForWrapAsync sv params
                    else calculateSwapQuoteAsync sv params)
         (\<lambda>swapQuote. Inr (add_l1_gas env swapQuote))))"

definition quote_report :: "HandlerEnv \<Rightarrow> SwapRequest \<Rightarrow> GetSwapQuoteResponse \<Rightarrow> bool \<Rightarrow> PublishedReport option" where
  "quote_report env req quote isFirmQuote =
     (case r_extendedQuoteReportSources quote of
        None \<Rightarrow> None
      | Some sources \<Rightarrow>
          if \<not> he_kafkaProducer env then None
          else let params = sq_params req in publishQuoteReport (he_now env) (he_kafkaTopic env)
            \<lparr>lo_quoteId = Some (getQuoteIdFromSwapQuote quote), lo_sellAmount = p_sellAmount params,
             lo_buyAmount = p_buyAmount params, lo_buyTokenAddress = r_buyTokenAddress quote,
             lo_sellTokenAddress = r_sellTokenAddress quote,
             lo_integratorId = map_option integratorId (p_integrator params), lo_taker = p_takerAddress params,
             lo_slippage = p_slippagePercentage params, lo_blockNumber = r_blockNumber quote,
             lo_estimatedGas = r_estimatedGas quote, lo_enableSlippageProtection = p_enableSlippageProtection params,
             lo_expectedSlippage = Option.bind (r_expectedSlippage quote) (\<lambda>x. x),
             lo_estimatedPriceImpact = r_estimatedPriceImpact quote,
             lo_priceImpactProtectionPercentage = p_priceImpactProtectionPercentage params,
             lo_quoteReportSources = sources, lo_submissionBy = taker_submission,
             lo_decodedUniqueId = r_decodedUniqueId quote\<rparr> isFirmQuote)"

text \<open>The body of a firm quote: the quote without its reports and its block. Orders have a \<open>fill\<close> and no \<open>fills\<close>, so
  that nothing is left out of them.\<close>

definition firm_response :: "GetSwapQuoteResponse \<Rightarrow> GetSwapQuoteResponse" where
  "firm_response quote =
     quote\<lparr>r_quoteReport := None, r_extendedQuoteReportSources := None, r_blockNumber := None\<rparr>"

record GetSwapPriceResponse =
  sp_chainId :: ChainId
  sp_price :: BigNumber
  sp_estimatedPriceImpact :: "BigNumber option"
  sp_value :: BigNumber
  sp_gasPrice :: BigNumber
  sp_gas :: BigNumber
  sp_estimatedGas :: BigNumber
  sp_protocolFee :: BigNumber
  sp_minimumProtocolFee :: BigNumber
  sp_buyTokenAddress :: string
  sp_buyAmount :: BigNumber
  sp_sellTokenAddress :: string
  sp_sellAmount :: BigNumber
  sp_sources :: "GetSwapQuoteResponseLiquiditySource list"
  sp_allowanceTarget :: string
  sp_sellTokenToEthRate :: BigNumber
  sp_buyTokenToEthRate :: BigNumber
  sp_expectedSlippage :: "BigNumber option option"

definition price_response :: "GetSwapQuoteResponse \<Rightarrow> GetSwapPriceResponse" where
  "price_response quote =
     \<lparr>sp_chainId = r_chainId quote, sp_price = r_price quote, sp_estimatedPriceImpact = r_estimatedPriceImpact quote,
      sp_value = r_value quote, sp_gasPrice = r_gasPrice quote, sp_gas = r_gas quote, sp_estimatedGas = r_estimatedGas quote,
      sp_protocolFee = r_protocolFee quote, sp_minimumProtocolFee = r_minimumProtocolFee quote,
      sp_buyTokenAddress = r_buyTokenAddress quote, sp_buyAmount = r_buyAmount quote,
      sp_sellTokenAddress = r_sellTokenAddress quote, sp_sellAmount = r_sellAmount quote, sp_sources = r_sources quote,
      sp_allowanceTarget = r_allowanceTarget quote, sp_sellTokenToEthRate = r_sellTokenToEthRate quote,
      sp_buyTokenToEthRate = r_buyTokenToEthRate quote, sp_expectedSlippage = r_expectedSlippage quote\<rparr>"

definition getQuoteAsync :: "HandlerEnv \<Rightarrow> Request \<Rightarrow> service_error + GetSwapQuoteResponse \<times> PublishedReport option" where
  "getQuoteAsync env req =
     res_bind (parseSwapQuoteRequestParams env req quote_endpoint)
     (\<lambda>params. res_bind (handler_getSwapQuoteAsync env params)
     (\<lambda>quote. Inr (firm_response quote, quote_report env params quote True)))"

definition getQuotePriceAsync :: "HandlerEnv \<Rightarrow> Request \<Rightarrow> service_error + GetSwapPriceResponse \<times> PublishedReport option" where
  "getQuotePriceAsync env req =
     res_bind (parseSwapQuoteRequestParams env req price_endpoint)
     (\<lambda>params. res_bind (handler_getSwapQuoteAsync env params)
     (\<lambda>quote. Inr (price_response quote, quote_report env params quote False)))"

section \<open>Errors of a request\<close>

fun is_api_error :: "service_error \<Rightarrow> bool" where
  "is_api_error (Thrown _) = False"
| "is_api_error (RevertError _) = False"
| "is_api_error _ = True"

definition api_result :: "service_error + 'a \<Rightarrow> bool" where
  "api_result r = (case r of Inl e \<Rightarrow> is_api_error e | Inr _ \<Rightarrow> True)"

named_theorems api_rules

lemma api_Inr [api_rules, simp]: "api_result (Inr x)"
  by (simp add: api_result_def)

lemma api_ValidationError [api_rules, simp]: "api_result (Inl (ValidationError items))" "api_result (validation_error f c m)"
  "api_result (both_tokens_error c m)"
  by (simp_all add: api_result_def validation_error_def both_tokens_error_def)

lemma api_bind [api_rules]: "api_result m \<Longrightarrow> (\<And>x. m = Inr x \<Longrightarrow> api_result (f x)) \<Longrightarrow> api_result (res_bind m f)"
  by (cases m) (simp_all add: api_result_def)

lemma api_if [api_rules]: "(c \<Longrightarrow> api_result a) \<Longrightarrow> (\<not> c \<Longrightarrow> api_result b) \<Longrightarrow> api_result (if c then a else b)"
  by simp

definition known_keyword :: "AjvError \<Rightarrow> bool" where
  "known_keyword err \<longleftrightarrow> (\<exists>item. schemaValidationErrorToValidationErrorItem err = Inr item)"

lemma api_schema [api_rules]: "list_all known_keyword errors \<Longrightarrow> api_result (validateSchema errors)"
proof -
  assume "list_all known_keyword errors"
  then have "\<exists>items. res_map schemaValidationErrorToValidationErrorItem errors = Inr items"
    by (induction errors) (auto simp: known_keyword_def)
  then show ?thesis by (auto simp: validateSchema_def thrown_def)
qed

text \<open>What the token library throws when a request leaves out a token.\<close>

definition missing_token_error :: "HandlerEnv \<Rightarrow> Query \<Rightarrow> js_error \<Rightarrow> bool" where
  "missing_token_error env query err \<longleftrightarrow> he_isNativeUndefined env = Inl err \<and>
     (map_of query ''sellToken'' = None \<or> map_of query ''buyToken'' = None)"

lemma missing_token_thrown: "missing_token_error env query err \<Longrightarrow> parse_tokens env query = Inl (Thrown err)"
  by (auto simp: missing_token_error_def parse_tokens_def isNativeToken_def thrown_def Let_def split: option.split)

lemma isNativeToken_answered:
  "\<forall>err. \<not> missing_token_error env query err \<Longrightarrow>
   (\<exists>b. isNativeToken env (map_of query ''sellToken'') = Inr b) \<and> (\<exists>b. isNativeToken env (map_of query ''buyToken'') = Inr b)"
  by (cases "he_isNativeUndefined env") (auto simp: missing_token_error_def isNativeToken_def split: option.split)

lemma api_tokens:
  assumes "\<forall>err. \<not> missing_token_error env query err"
  shows "api_result (parse_tokens env query)"
proof -
  obtain s b where native: "thrown (isNativeToken env (map_of query ''sellToken'')) = Inr s"
      "thrown (isNativeToken env (map_of query ''buyToken'')) = Inr b"
    using isNativeToken_answered[OF assms] by (auto simp: thrown_def)
  have "api_result (findTokenAddressOrThrowApiError find a f c)" for find a f c
    by (simp add: findTokenAddressOrThrowApiError_def split: sum.split)
  then show ?thesis unfolding parse_tokens_def Let_def native res_bind_simps by (intro api_rules)
qed

lemma api_parts [api_rules]: "api_result (parse_fraction query name d)" "api_result (parseAffiliateFeeOptions query)"
  by (simp_all add: parse_fraction_def parseAffiliateFeeOptions_def Let_def)

lemma api_sources [api_rules]: "api_result (parse_sources env req endpoint)"
proof -
  have "api_result (parseRequestForExcludedSources r keys endpoint)" for r keys
    by (simp add: parseRequestForExcludedSources_def Let_def split: option.split)
  then show ?thesis unfolding parse_sources_def by (intro api_rules)
qed

lemma api_integrator [api_rules]:
  assumes "truthy_string (getIntegratorIdForApiKey acl apiKey)"
  shows "api_result (thrown (getIntegratorByIdOrThrow acl (the (getIntegratorIdForApiKey acl apiKey))))"
proof -
  obtain key where "getIntegratorIdForApiKey acl apiKey = Some key" using assms by (cases "getIntegratorIdForApiKey acl apiKey") auto
  moreover from known_key_has_integrator[OF this] obtain i where "getIntegratorByIdOrThrow acl key = Inr i" by blast
  ultimately show ?thesis by (simp add: thrown_def)
qed

lemma api_params:
  assumes "list_all known_keyword (he_schemaErrors env ''swapQuoteRequestSchema'' (rq_query req))"
    "parseSwapQuoteRequestParams env req endpoint = Inl e"
  shows "is_api_error e \<or> (\<exists>err. e = Thrown err \<and> missing_token_error env (rq_query req) err)"
proof (cases "\<exists>err. missing_token_error env (rq_query req) err")
  case True
  then obtain err where err: "missing_token_error env (rq_query req) err" by blast
  have "api_result (validateSchema (he_schemaErrors env ''swapQuoteRequestSchema'' (rq_query req)))"
    by (rule api_schema[OF assms(1)])
  then show ?thesis
    using assms(2) err missing_token_thrown[OF err]
    by (auto simp: parseSwapQuoteRequestParams_def Let_def api_result_def res_bind_eq_Inl)
next
  case False
  then have "api_result (parseSwapQuoteRequestParams env req endpoint)"
    unfolding parseSwapQuoteRequestParams_def Let_def
    using assms(1) by (intro api_rules api_tokens) (auto intro: api_integrator split: if_split_asm)
  with assms(2) show ?thesis by (simp add: api_result_def)
qed

lemma api_quote: "api_result (handler_getSwapQuoteAsync env params)"
proof -
  have "is_api_error (map_swap_error env field (\<lambda>err. InternalServerError (error_message env err)) e)" for field e
    by (cases e) (simp_all add: map_swap_error_def Let_def)
  then show ?thesis by (simp add: handler_getSwapQuoteAsync_def Let_def map_error_def api_result_def split: sum.split)
qed

text \<open>C28: Every error of the swap endpoints is an error of the API: whatever the asset swapper, the node or the fee
  calculation throws, a request for a price or a firm quote either succeeds or fails with an error that has a status code and a
  body, as long as the schema validator reports its own keywords only. The one exception is a request that leaves out the token
  to sell or to buy, which the schema allows: what the token library throws when it is asked about undefined is not caught.\<close>

theorem swap_errors_are_api_errors:
  assumes "list_all known_keyword (he_schemaErrors env ''swapQuoteRequestSchema'' (rq_query req))"
  shows "(\<forall>e. getQuoteAsync env req = Inl e \<or> getQuotePriceAsync env req = Inl e \<longrightarrow>
      is_api_error e \<or> (\<exists>err. e = Thrown err \<and> missing_token_error env (rq_query req) err)) \<and>
    ((\<exists>sell. map_of (rq_query req) ''sellToken'' = Some sell) \<and> (\<exists>buy. map_of (rq_query req) ''buyToken'' = Some buy) \<longrightarrow>
      (\<forall>e. getQuoteAsync env req = Inl e \<longrightarrow> is_api_error e) \<and> (\<forall>e. getQuotePriceAsync env req = Inl e \<longrightarrow> is_api_error e))"
proof -
  have quote: "handler_getSwapQuoteAsync env x = Inl e \<Longrightarrow> is_api_error e" for x e
    using api_quote[of env x] by (simp add: api_result_def)
  have "is_api_error e \<or> (\<exists>err. e = Thrown err \<and> missing_token_error env (rq_query req) err)"
    if "getQuoteAsync env req = Inl e \<or> getQuotePriceAsync env req = Inl e" for e
    using that api_params[OF assms] quote by (auto simp: getQuoteAsync_def getQuotePriceAsync_def res_bind_eq_Inl)
  then show ?thesis by (auto simp: missing_token_error_def)
qed

section \<open>Parameters of a request\<close>

lemma parse_tokens_ok:
  assumes "parse_tokens env query = Inr tokens"
  shows "(tp_sellToken tokens = tp_buyToken tokens \<longrightarrow> tp_isWrap tokens \<or> tp_isUnwrap tokens) \<and>
    tp_sellToken tokens \<noteq> NULL_ADDRESS \<and> tp_buyToken tokens \<noteq> NULL_ADDRESS \<and>
    (tp_isWrap tokens \<longrightarrow> tp_isNativeSell tokens) \<and> (tp_isUnwrap tokens \<longrightarrow> tp_isNativeBuy tokens)"
  using assms unfolding parse_tokens_def Let_def both_tokens_error_def
  by (elim res_bindE) (auto split: if_split_asm)

lemma parse_fraction_ok: "parse_fraction query name d = Inr x \<Longrightarrow> \<not> 1 < x"
  by (auto simp: parse_fraction_def Let_def validation_error_def split: if_split_asm)

lemma parse_sources_ok:
  assumes "parse_sources env req endpoint = Inr r"
  shows "\<exists>src. src \<notin> set (rs_excludedSources r)"
proof -
  have "\<not> list_all (\<lambda>s. s \<in> set (rs_excludedSources r)) ERC20BridgeSource_values"
    using assms by (auto simp: parse_sources_def res_bind_eq_Inr validation_error_def split: if_split_asm)
  then show ?thesis by (auto simp: list_all_iff)
qed

lemma parsed_params:
  assumes "parseSwapQuoteRequestParams env req endpoint = Inr r"
  obtains tokens sources slippage impact fee integrator where
    "parse_tokens env (rq_query req) = Inr tokens"
    "parse_fraction (rq_query req) ''slippagePercentage'' DEFAULT_QUOTE_SLIPPAGE_PERCENTAGE = Inr slippage"
    "parse_fraction (rq_query req) ''priceImpactProtectionPercentage'' 1 = Inr impact"
    "parse_sources env req endpoint = Inr sources" "parseAffiliateFeeOptions (rq_query req) = Inr fee"
    "p_sellToken (sq_params r) = tp_sellToken tokens" "p_buyToken (sq_params r) = tp_buyToken tokens"
    "sq_isWrap r = tp_isWrap tokens" "sq_isUnwrap r = tp_isUnwrap tokens"
    "p_isETHSell (sq_params r) = tp_isNativeSell tokens" "p_isETHBuy (sq_params r) = tp_isNativeBuy tokens"
    "p_slippagePercentage (sq_params r) = Some slippage" "p_priceImpactProtectionPercentage (sq_params r) = impact"
    "p_excludedSources (sq_params r) = rs_excludedSources sources" "p_affiliateFee (sq_params r) = fee"
    "p_rfqt (sq_params r) = parse_rfqt req endpoint" "p_integrator (sq_params r) = integrator"
    "p_skipValidation (sq_params r) = parse_skipValidation env (rq_query req)
       (if truthy_string (rq_apiKey req) then getIntegratorIdForApiKey (he_acl env) (the (rq_apiKey req)) else None) endpoint"
  using assms unfolding parseSwapQuoteRequestParams_def Let_def res_bind_eq_Inr by (elim exE conjE) auto

text \<open>The parameters a request is served with: the tokens differ unless native currency is wrapped or unwrapped, and
  none is the null address; slippage and price impact protection are at most one; some source is not excluded; RFQ is
  only requested with an API key, and for a firm quote with a taker; and a firm quote for Matcha is always
  validated.\<close>

theorem swap_params_sound:
  assumes "parseSwapQuoteRequestParams env req endpoint = Inr r"
  shows "(p_sellToken (sq_params r) = p_buyToken (sq_params r) \<longrightarrow> sq_isWrap r \<or> sq_isUnwrap r) \<and>
    p_sellToken (sq_params r) \<noteq> NULL_ADDRESS \<and> p_buyToken (sq_params r) \<noteq> NULL_ADDRESS \<and>
    (sq_isWrap r \<longrightarrow> p_isETHSell (sq_params r)) \<and> (sq_isUnwrap r \<longrightarrow> p_isETHBuy (sq_params r)) \<and>
    (\<forall>x. p_slippagePercentage (sq_params r) = Some x \<longrightarrow> \<not> 1 < x) \<and> \<not> 1 < p_priceImpactProtectionPercentage (sq_params r) \<and>
    (\<exists>src. src \<notin> set (p_excludedSources (sq_params r))) \<and>
    (p_rfqt (sq_params r) \<noteq> None \<longrightarrow> truthy_string (rq_apiKey req) \<and>
       (endpoint = quote_endpoint \<longrightarrow> truthy_string (map_of (rq_query req) ''takerAddress''))) \<and>
    (endpoint = quote_endpoint \<and> truthy_string (rq_apiKey req) \<and> MATCHA_INTEGRATOR_ID (he_acl env) \<noteq> None \<and>
       getIntegratorIdForApiKey (he_acl env) (the (rq_apiKey req)) = MATCHA_INTEGRATOR_ID (he_acl env) \<longrightarrow>
       \<not> p_skipValidation (sq_params r))"
proof -
  from parsed_params[OF assms] obtain tokens sources slippage impact where
    p: "parse_tokens env (rq_query req) = Inr tokens"
    "parse_fraction (rq_query req) ''slippagePercentage'' DEFAULT_QUOTE_SLIPPAGE_PERCENTAGE = Inr slippage"
    "parse_fraction (rq_query req) ''priceImpactProtectionPercentage'' 1 = Inr impact"
    "parse_sources env req endpoint = Inr sources"
    and f: "p_sellToken (sq_params r) = tp_sellToken tokens" "p_buyToken (sq_params r) = tp_buyToken tokens"
    "sq_isWrap r = tp_isWrap tokens" "sq_isUnwrap r = tp_isUnwrap tokens"
    "p_isETHSell (sq_params r) = tp_isNativeSell tokens" "p_isETHBuy (sq_params r) = tp_isNativeBuy tokens"
    "p_slippagePercentage (sq_params r) = Some slippage" "p_priceImpactProtectionPercentage (sq_params r) = impact"
    "p_excludedSources (sq_params r) = rs_excludedSources sources" "p_rfqt (sq_params r) = parse_rfqt req endpoint"
    "p_skipValidation (sq_params r) = parse_skipValidation env (rq_query req)
       (if truthy_string (rq_apiKey req) then getIntegratorIdForApiKey (he_acl env) (the (rq_apiKey req)) else None) endpoint"
    by metis
  have "parse_rfqt req endpoint \<noteq> None \<longrightarrow> truthy_string (rq_apiKey req) \<and>
      (endpoint = quote_endpoint \<longrightarrow> truthy_string (map_of (rq_query req) ''takerAddress''))"
    by (auto simp: parse_rfqt_def)
  moreover have "\<not> parse_skipValidation env q k quote_endpoint" if "MATCHA_INTEGRATOR_ID (he_acl env) \<noteq> None" "k = MATCHA_INTEGRATOR_ID (he_acl env)" for q k
    using that by (simp add: parse_skipValidation_def Let_def)
  ultimately show ?thesis
    using f parse_tokens_ok[OF p(1)] parse_fraction_ok[OF p(2)] parse_fraction_ok[OF p(3)] parse_sources_ok[OF p(4)] by auto
qed

section \<open>A handler\<close>

definition sample_handler :: HandlerEnv where
  "sample_handler =
     \<lparr>he_service = sample_sv, he_acl = [(hd sample_acl)\<lparr>acl_label := ''Matcha''\<rparr>], he_schemaErrors = (\<lambda>_ _. []), he_parse = bn_of_base 10,
      he_isNativeSymbolOrAddress = (\<lambda>s _. s = ''ETH''), he_isNativeUndefined = Inl TypeError, he_isNativeWrappedSymbolOrAddress = (\<lambda>s _. s = ''0xweth''),
      he_findTokenAddress = (\<lambda>token _. case token of None \<Rightarrow> Inl ''Could not find token undefined''
        | Some s \<Rightarrow> if s \<in> set [''0xa'', ''0xb'', ''0xweth''] then Inr s else Inl (''Could not find token '' @ s)),
      he_brotli = length, he_gasPrices = new_GasPriceUtils, he_now = Fin 0, he_kafkaProducer = False, he_kafkaTopic = None,
      he_typeErrorMessage = ''Cannot read properties of undefined'', he_registryPasswords = [],
      he_localeCompare = (\<lambda>_ _. 0)\<rparr>"

definition sample_request :: "string \<Rightarrow> Request" where
  "sample_request buyToken = \<lparr>rq_query = [(''sellToken'', ''0xa''), (''buyToken'', buyToken), (''sellAmount'', ''1000''),
     (''skipValidation'', ''true'')], rq_apiKey = Some ''k1'', rq_origin = None, rq_authorization = None\<rparr>"

lemma sample_acl_lookup:
  "getIntegratorIdForApiKey (he_acl sample_handler) ''k1'' = Some ''acme''" "MATCHA_INTEGRATOR_ID (he_acl sample_handler) = Some ''acme''"
proof -
  have "getIntegratorIdForApiKey [(hd sample_acl)\<lparr>acl_label := ''Matcha''\<rparr>] ''k1'' = Some ''acme''"
    "MATCHA_INTEGRATOR_ID [(hd sample_acl)\<lparr>acl_label := ''Matcha''\<rparr>] = Some ''acme''" by code_simp+
  moreover have "he_acl sample_handler = [(hd sample_acl)\<lparr>acl_label := ''Matcha''\<rparr>]" by (simp add: sample_handler_def)
  ultimately show "getIntegratorIdForApiKey (he_acl sample_handler) ''k1'' = Some ''acme''"
    "MATCHA_INTEGRATOR_ID (he_acl sample_handler) = Some ''acme''" by simp_all
qed

theorem swap_errors_are_api_errors_witness:
  "getQuoteAsync sample_handler (sample_request ''0xc'') =
     Inl (ValidationError [\<lparr>ve_field = ''buyToken'', ve_code = ValueOutOfRange, ve_reason = ''Could not find token 0xc''\<rparr>]) \<and>
   is_api_error (ValidationError [\<lparr>ve_field = ''buyToken'', ve_code = ValueOutOfRange, ve_reason = ''Could not find token 0xc''\<rparr>])"
proof -
  have "getQuoteAsync sample_handler (sample_request ''0xc'') =
     Inl (ValidationError [\<lparr>ve_field = ''buyToken'', ve_code = ValueOutOfRange, ve_reason = ''Could not find token 0xc''\<rparr>])"
    by (simp add: getQuoteAsync_def parseSwapQuoteRequestParams_def parse_tokens_def isNativeToken_def thrown_def sample_handler_def
        sample_request_def validateSchema_def findTokenAddressOrThrowApiError_def validation_error_def Let_def)
  moreover have "list_all known_keyword (he_schemaErrors sample_handler ''swapQuoteRequestSchema'' (rq_query (sample_request ''0xc'')))"
    by (simp add: sample_handler_def)
  ultimately show ?thesis using swap_errors_are_api_errors by blast
qed

lemma sample_request_parsed: "\<exists>r. parseSwapQuoteRequestParams sample_handler (sample_request ''0xb'') quote_endpoint = Inr r"
proof -
  have tokens: "\<exists>t. parse_tokens sample_handler (rq_query (sample_request ''0xb'')) = Inr t"
    by (simp add: parse_tokens_def isNativeToken_def thrown_def sample_handler_def sample_request_def findTokenAddressOrThrowApiError_def
        NULL_ADDRESS_def toLowerCase_def char_lower_def Let_def)
  have slippage: "DEFAULT_QUOTE_SLIPPAGE_PERCENTAGE = Fin (rnd64 (1 / 100)) \<and> rnd64 (1 / 100) \<le> 1"
    by (simp add: DEFAULT_QUOTE_SLIPPAGE_PERCENTAGE_def) code_simp
  then have "\<not> Fin 1 < DEFAULT_QUOTE_SLIPPAGE_PERCENTAGE" by (metis less_xnum.simps(1) not_less)
  then have fraction: "\<exists>x. parse_fraction (rq_query (sample_request ''0xb'')) ''slippagePercentage'' DEFAULT_QUOTE_SLIPPAGE_PERCENTAGE = Inr x"
    "\<exists>x. parse_fraction (rq_query (sample_request ''0xb'')) ''priceImpactProtectionPercentage'' 1 = Inr x"
    by (simp_all add: parse_fraction_def sample_request_def)
  have sources: "\<exists>r. parse_sources sample_handler (sample_request ''0xb'') quote_endpoint = Inr r"
    by (simp add: parse_sources_def parseRequestForExcludedSources_def sample_request_def ERC20BridgeSource_values_def Let_def)
  have fee: "\<exists>f. parseAffiliateFeeOptions (rq_query (sample_request ''0xb'')) = Inr f"
    by (simp add: parseAffiliateFeeOptions_def sample_request_def float_or_def Let_def)
  have "getIntegratorIdForApiKey (he_acl sample_handler) ''k1'' = Some ''acme''" by (simp add: sample_acl_lookup)
  moreover from known_key_has_integrator[OF this] obtain i where "getIntegratorByIdOrThrow (he_acl sample_handler) ''acme'' = Inr i" by blast
  ultimately show ?thesis
    using tokens fraction sources fee
    by (auto simp: parseSwapQuoteRequestParams_def validateSchema_def thrown_def Let_def) (auto simp: sample_handler_def sample_request_def thrown_def)
qed

theorem swap_params_sound_witness:
  "\<exists>r. parseSwapQuoteRequestParams sample_handler (sample_request ''0xb'') quote_endpoint = Inr r \<and>
     \<not> p_skipValidation (sq_params r) \<and> p_sellToken (sq_params r) \<noteq> NULL_ADDRESS"
proof -
  obtain r where r: "parseSwapQuoteRequestParams sample_handler (sample_request ''0xb'') quote_endpoint = Inr r"
    using sample_request_parsed by blast
  have "getIntegratorIdForApiKey (he_acl sample_handler) ''k1'' = Some ''acme''" "MATCHA_INTEGRATOR_ID (he_acl sample_handler) = Some ''acme''"
    by (simp_all add: sample_acl_lookup)
  moreover have "rq_apiKey (sample_request ''0xb'') = Some ''k1''" by (simp add: sample_request_def)
  ultimately show ?thesis using swap_params_sound[OF r] r by auto
qed

end
