(* ===== verification/Meta_Transactions.thy ===== *)
theory Meta_Transactions
  imports Swap_Handlers
begin

text \<open>
  Gasless swaps: the meta-transaction service (\<open>services/meta_transaction_service.ts\<close>) and its handlers
  (\<open>handlers/meta_transaction_handlers.ts\<close>). The service asks the swap service of \<open>Swap_Service\<close> for the trade and wraps
  its call in a meta-transaction for the taker to sign. The random salt, the hashes of meta-transactions and the clock are
  fields of \<open>MetaTransactionService\<close>. The parameters of version 2 of the endpoints come from a JSON body, with the fees the
  integrator asks for.
\<close>

section \<open>Parameters and results\<close>

record MetaTransactionQuoteParams =
  mp_sellTokenAddress :: string
  mp_buyTokenAddress :: string
  mp_takerAddress :: string
  mp_integratorId :: string
  mp_quoteUniqueId :: "string option"
  mp_isETHBuy :: bool
  mp_sellAmount :: "BigNumber option"
  mp_buyAmount :: "BigNumber option"
  mp_slippagePercentage :: js_number
  mp_excludedSources :: "ERC20BridgeSource list"
  mp_includedSources :: "ERC20BridgeSource list option"
  mp_affiliateFee :: AffiliateFee
  mp_affiliateAddress :: "string option"
  mp_priceImpactProtectionPercentage :: js_number
  mp_metaTransactionVersion :: MetaTransactionVersion \<comment> \<open>version 1 of the endpoints sets it to \<open>v1\<close>\<close>
  mp_feeConfigs :: "FeeConfigs option" \<comment> \<open>version 2 only\<close>

record MetaTransactionQuoteResult =
  mq_chainId :: ChainId
  mq_price :: BigNumber
  mq_estimatedPriceImpact :: "BigNumber option"
  mq_gasPrice :: BigNumber
  mq_protocolFee :: BigNumber
  mq_sources :: "GetSwapQuoteResponseLiquiditySource list"
  mq_buyAmount :: BigNumber
  mq_sellAmount :: BigNumber
  mq_estimatedGas :: BigNumber
  mq_allowanceTarget :: string
  mq_sellTokenToEthRate :: BigNumber
  mq_buyTokenToEthRate :: BigNumber
  mq_callData :: string
  mq_minimumProtocolFee :: BigNumber
  mq_buyTokenAddress :: string
  mq_sellTokenAddress :: string
  mq_taker :: string
  mq_fees :: "Fees option"

record MetaTransaction =
  mt_callData :: string
  mt_minGasPrice :: BigNumber
  mt_maxGasPrice :: BigNumber
  mt_expirationTimeSeconds :: BigNumber
  mt_salt :: BigNumber
  mt_signer :: string
  mt_sender :: string
  mt_feeAmount :: BigNumber
  mt_feeToken :: string
  mt_value :: BigNumber
  mt_chainId :: ChainId
  mt_verifyingContract :: string

text \<open>A response: the result with the value to send and the gas, and the meta-transaction with its hash.\<close>

record MetaTransactionQuoteResponse =
  mr_quote :: MetaTransactionQuoteResult
  mr_value :: BigNumber
  mr_gas :: BigNumber
  mr_metaTransaction :: MetaTransaction
  mr_hash :: string

record MetaTransactionService =
  ms_swapService :: SwapService
  ms_exchangeProxyAddress :: string
  ms_FEE_RECIPIENT_ADDRESS :: string
  ms_now :: js_number
  ms_salt :: BigNumber
  ms_getHash :: "MetaTransaction \<Rightarrow> string"
  ms_getExchangeProxyMetaTransactionHash :: "MetaTransaction \<Rightarrow> string"
  ms_kafkaProducer :: bool
  ms_kafkaTopic :: "string option"

section \<open>The service\<close>

definition ONE_GWEI :: BigNumber where
  "ONE_GWEI = Fin 1000000000"

definition META_TX_EXPIRATION_BUFFER_MS :: js_number where
  "META_TX_EXPIRATION_BUFFER_MS = Fin 600000"

definition normalizeGasPrice :: "(rat \<Rightarrow> rat) \<Rightarrow> BigNumber \<Rightarrow> BigNumber" where
  "normalizeGasPrice rnd gasPrice = integerValue ROUND_UP (bn_div rnd gasPrice ONE_GWEI) * ONE_GWEI"

definition createExpirationTime :: "(rat \<Rightarrow> rat) \<Rightarrow> js_number \<Rightarrow> BigNumber" where
  "createExpirationTime rnd now =
     integerValue ROUND_CEIL (bn_div rnd (bn_of_number (js_add now META_TX_EXPIRATION_BUFFER_MS)) (Fin 1000))"

definition meta_transaction :: "MetaTransactionService \<Rightarrow> BigNumber \<Rightarrow> string \<Rightarrow> string \<Rightarrow> BigNumber \<Rightarrow> MetaTransaction" where
  "meta_transaction ms minGasPrice callData takerAddress protocolFee' =
     \<lparr>mt_callData = callData, mt_minGasPrice = minGasPrice, mt_maxGasPrice = Fin (2 ^ 48),
      mt_expirationTimeSeconds = createExpirationTime (sv_rnd (ms_swapService ms)) (ms_now ms), mt_salt = ms_salt ms,
      mt_signer = takerAddress, mt_sender = NULL_ADDRESS, mt_feeAmount = 0, mt_feeToken = NULL_ADDRESS, mt_value = protocolFee',
      mt_chainId = sv_CHAIN_ID (ms_swapService ms), mt_verifyingContract = ms_exchangeProxyAddress ms\<rparr>"

text \<open>The gas price of the first is not used.\<close>

definition generateExchangeProxyMetaTransaction ::
  "MetaTransactionService \<Rightarrow> string \<Rightarrow> string \<Rightarrow> BigNumber \<Rightarrow> BigNumber \<Rightarrow> MetaTransaction" where
  "generateExchangeProxyMetaTransaction ms callData takerAddress gasPrice protocolFee' =
     meta_transaction ms 1 callData takerAddress protocolFee'"

definition generateMetaTransactionV1 :: "MetaTransactionService \<Rightarrow> string \<Rightarrow> string \<Rightarrow> BigNumber \<Rightarrow> MetaTransaction" where
  "generateMetaTransactionV1 ms callData takerAddress protocolFee' = meta_transaction ms 0 callData takerAddress protocolFee'"

definition meta_quote_params ::
  "MetaTransactionService \<Rightarrow> MetaTransactionQuoteParams \<Rightarrow> Endpoint \<Rightarrow> MetaTransactionVersion \<Rightarrow> AffiliateFee \<Rightarrow> GetSwapQuoteParams" where
  "meta_quote_params ms params endpoint version affiliateFee =
     \<lparr>p_endpoint = endpoint, p_sellToken = mp_sellTokenAddress params,
      p_buyToken = (if mp_isETHBuy params
                    then NATIVE_FEE_TOKEN_BY_CHAIN_ID (sv_lib (ms_swapService ms)) (sv_CHAIN_ID (ms_swapService ms))
                    else mp_buyTokenAddress params),
      p_takerAddress = Some (mp_takerAddress params), p_gasPrice = None, p_rfqt = None, p_skipValidation = True,
      p_shouldSellEntireBalance = False, p_isETHSell = False, p_isETHBuy = mp_isETHBuy params,
      p_metaTransactionVersion = Some version, p_integrator = None, p_enableSlippageProtection = False,
      p_feeConfigs = mp_feeConfigs params, p_isDebugEnabled = False, p_sellAmount = mp_sellAmount params,
      p_buyAmount = mp_buyAmount params, p_slippagePercentage = Some (mp_slippagePercentage params),
      p_excludedSources = mp_excludedSources params, p_includedSources = mp_includedSources params,
      p_affiliateAddress = mp_affiliateAddress params, p_affiliateFee = affiliateFee,
      p_priceImpactProtectionPercentage = mp_priceImpactProtectionPercentage params\<rparr>"

definition meta_quote_result :: "MetaTransactionQuoteParams \<Rightarrow> GetSwapQuoteResponse \<Rightarrow> Fees option \<Rightarrow> MetaTransactionQuoteResult" where
  "meta_quote_result params quote fees =
     \<lparr>mq_chainId = r_chainId quote, mq_price = r_price quote, mq_estimatedPriceImpact = r_estimatedPriceImpact quote,
      mq_gasPrice = r_gasPrice quote, mq_protocolFee = r_protocolFee quote, mq_sources = r_sources quote,
      mq_buyAmount = r_buyAmount quote, mq_sellAmount = r_sellAmount quote, mq_estimatedGas = r_estimatedGas quote,
      mq_allowanceTarget = r_allowanceTarget quote, mq_sellTokenToEthRate = r_sellTokenToEthRate quote,
      mq_buyTokenToEthRate = r_buyTokenToEthRate quote, mq_callData = r_data quote, mq_minimumProtocolFee = r_protocolFee quote,
      mq_buyTokenAddress = mp_buyTokenAddress params, mq_sellTokenAddress = mp_sellTokenAddress params,
      mq_taker = mp_takerAddress params, mq_fees = fees\<rparr>"

definition meta_quote_report ::
  "MetaTransactionService \<Rightarrow> MetaTransactionQuoteParams \<Rightarrow> Endpoint \<Rightarrow> GetSwapQuoteResponse \<Rightarrow> PublishedReport option" where
  "meta_quote_report ms params endpoint quote =
     (case r_extendedQuoteReportSources quote of
        None \<Rightarrow> None
      | Some sources \<Rightarrow>
          if endpoint \<noteq> quote_endpoint \<or> \<not> ms_kafkaProducer ms then None
          else publishQuoteReport (ms_now ms) (ms_kafkaTopic ms)
            \<lparr>lo_quoteId = Some (getQuoteIdFromSwapQuote quote), lo_sellAmount = mp_sellAmount params,
             lo_buyAmount = mp_buyAmount params, lo_buyTokenAddress = r_buyTokenAddress quote,
             lo_sellTokenAddress = r_sellTokenAddress quote, lo_integratorId = Some (mp_integratorId params),
             lo_taker = Some (mp_takerAddress params), lo_slippage = Some (mp_slippagePercentage params),
             lo_blockNumber = r_blockNumber quote, lo_estimatedGas = r_estimatedGas quote,
             lo_enableSlippageProtection = False, lo_expectedSlippage = Option.bind (r_expectedSlippage quote) (\<lambda>x. x),
             lo_estimatedPriceImpact = r_estimatedPriceImpact quote,
             lo_priceImpactProtectionPercentage = mp_priceImpactProtectionPercentage params,
             lo_quoteReportSources = sources, lo_submissionBy = gaslessSwapAmm_submission,
             lo_decodedUniqueId = (if truthy_string (mp_quoteUniqueId params) then the (mp_quoteUniqueId params)
                                   else r_decodedUniqueId quote)\<rparr> True)"

definition getMetaTransactionV2Quote_internal ::
  "MetaTransactionService \<Rightarrow> MetaTransactionQuoteParams \<Rightarrow> Endpoint \<Rightarrow>
   service_error + MetaTransactionQuoteResult \<times> PublishedReport option" where
  "getMetaTransactionV2Quote_internal ms params endpoint =
     res_bind (calculateSwapQuoteAsync (ms_swapService ms)
        (meta_quote_params ms params endpoint (mp_metaTransactionVersion params) (mp_affiliateFee params)))
     (\<lambda>quote. Inr (meta_quote_result params quote (r_fees quote), meta_quote_report ms params endpoint quote))"

definition getMetaTransactionQuote_internal ::
  "MetaTransactionService \<Rightarrow> MetaTransactionQuoteParams \<Rightarrow> Endpoint \<Rightarrow>
   service_error + MetaTransactionQuoteResult \<times> PublishedReport option" where
  "getMetaTransactionQuote_internal ms params endpoint =
     res_bind (calculateSwapQuoteAsync (ms_swapService ms)
        (meta_quote_params ms params endpoint v1
          \<lparr>fee_feeType = GaslessFee, fee_recipient = ms_FEE_RECIPIENT_ADDRESS ms, fee_buyTokenPercentageFee = 0\<rparr>))
     (\<lambda>quote. Inr (meta_quote_result params quote None, meta_quote_report ms params endpoint quote))"

definition getMetaTransactionV2PriceAsync ::
  "MetaTransactionService \<Rightarrow> MetaTransactionQuoteParams \<Rightarrow> service_error + MetaTransactionQuoteResult \<times> PublishedReport option" where
  "getMetaTransactionV2PriceAsync ms params = getMetaTransactionV2Quote_internal ms params price_endpoint"

definition getMetaTransactionV1PriceAsync ::
  "MetaTransactionService \<Rightarrow> MetaTransactionQuoteParams \<Rightarrow> service_error + MetaTransactionQuoteResult \<times> PublishedReport option" where
  "getMetaTransactionV1PriceAsync ms params = getMetaTransactionQuote_internal ms params price_endpoint"

definition meta_response ::
  "(MetaTransaction \<Rightarrow> string) \<Rightarrow> MetaTransactionQuoteResult \<Rightarrow> MetaTransaction \<Rightarrow> MetaTransactionQuoteResponse" where
  "meta_response hash quote metaTransaction =
     \<lparr>mr_quote = quote, mr_value = mq_protocolFee quote, mr_gas = mq_estimatedGas quote,
      mr_metaTransaction = metaTransaction, mr_hash = hash metaTransaction\<rparr>"

definition getMetaTransactionV2QuoteAsync ::
  "MetaTransactionService \<Rightarrow> MetaTransactionQuoteParams \<Rightarrow>
   service_error + MetaTransactionQuoteResponse \<times> PublishedReport option" where
  "getMetaTransactionV2QuoteAsync ms params =
     res_bind (getMetaTransactionV2Quote_internal ms params quote_endpoint)
     (\<lambda>(quote, report).
        case mp_metaTransactionVersion params of
          v1 \<Rightarrow> Inr (meta_response (ms_getHash ms) quote (generateMetaTransactionV1 ms (mq_callData quote) (mq_taker quote) 0), report)
        | v2 \<Rightarrow> Inl (Thrown (Error ''metaTransactionVersion v2 is not supported'')))"

definition getMetaTransactionV1QuoteAsync ::
  "MetaTransactionService \<Rightarrow> MetaTransactionQuoteParams \<Rightarrow>
   service_error + MetaTransactionQuoteResponse \<times> PublishedReport option" where
  "getMetaTransactionV1QuoteAsync ms params =
     res_bind (getMetaTransactionQuote_internal ms params quote_endpoint)
     (\<lambda>(quote, report).
        let metaTransaction = generateExchangeProxyMetaTransaction ms (mq_callData quote) (mq_taker quote)
              (normalizeGasPrice (sv_rnd (ms_swapService ms)) (mq_gasPrice quote)) 0
        in Inr (meta_response (ms_getExchangeProxyMetaTransactionHash ms) quote metaTransaction, report))"

section \<open>Reading a request\<close>

text \<open>A fee as the body of a request has it.\<close>

record RawFee =
  rf_type :: string
  rf_feeRecipient :: "string option"
  rf_billingType :: BillingType
  rf_volumePercentage :: string
  rf_integratorSharePercentage :: string

record RawFeeConfigs =
  rc_integratorFee :: "RawFee option"
  rc_zeroExFee :: "RawFee option"
  rc_gasFee :: "RawFee option"

record MetaBody =
  mb_fields :: Query
  mb_feeConfigs :: "RawFeeConfigs option"

definition fee_type_error :: "service_error + 'a" where
  "fee_type_error = validation_error ''feeConfigs'' IncorrectFormat ''INVALID_GASLESS_FEE_TYPE''"

definition parse_percentage :: "(string \<Rightarrow> BigNumber) \<Rightarrow> string \<Rightarrow> service_error + BigNumber" where
  "parse_percentage parse s =
     (let percentage = parse s
      in if 1 \<le> percentage then validation_error ''feeConfigs'' ValueOutOfRange ''MUST_BE_LESS_THAN_OR_EQUAL_TO_ONE''
         else Inr percentage)"

definition parse_volume_fee :: "(string \<Rightarrow> BigNumber) \<Rightarrow> RawFee \<Rightarrow> service_error + VolumeBasedFeeConfig" where
  "parse_volume_fee parse fee =
     res_bind (parse_percentage parse (rf_volumePercentage fee))
     (\<lambda>percentage. Inr \<lparr>cfg_feeRecipient = rf_feeRecipient fee, cfg_billingType = rf_billingType fee, cfg_volumePercentage = percentage\<rparr>)"

definition parse_integratorFee :: "(string \<Rightarrow> BigNumber) \<Rightarrow> RawFee \<Rightarrow> service_error + VolumeBasedFeeConfig" where
  "parse_integratorFee parse fee = (if rf_type fee \<noteq> ''volume'' then fee_type_error else parse_volume_fee parse fee)"

definition parse_gasFee :: "RawFee \<Rightarrow> service_error + GasFeeConfig" where
  "parse_gasFee fee =
     (if rf_type fee \<noteq> ''gas'' then fee_type_error
      else Inr \<lparr>cfg_feeRecipient = rf_feeRecipient fee, cfg_billingType = rf_billingType fee\<rparr>)"

definition parse_zeroExFee ::
  "(string \<Rightarrow> BigNumber) \<Rightarrow> VolumeBasedFeeConfig option \<Rightarrow> RawFee \<Rightarrow> service_error + ZeroExFeeConfig" where
  "parse_zeroExFee parse integratorFeeConfig fee =
     (if rf_type fee = ''volume'' then res_bind (parse_volume_fee parse fee) (\<lambda>cfg. Inr (VolumeConfig cfg))
      else if rf_type fee = ''integrator_share''
      then (if integratorFeeConfig = None then fee_type_error
            else res_bind (parse_percentage parse (rf_integratorSharePercentage fee))
              (\<lambda>percentage. Inr (IntegratorShareConfig \<lparr>cfg_feeRecipient = rf_feeRecipient fee,
                 cfg_billingType = rf_billingType fee, cfg_integratorSharePercentage = percentage\<rparr>)))
      else fee_type_error)"

text \<open>An absent part of the configuration stays absent.\<close>

definition parse_optional :: "('a \<Rightarrow> service_error + 'b) \<Rightarrow> 'a option \<Rightarrow> service_error + 'b option" where
  "parse_optional f x = (case x of None \<Rightarrow> Inr None | Some a \<Rightarrow> res_bind (f a) (\<lambda>b. Inr (Some b)))"

definition parseFeeConfigs :: "(string \<Rightarrow> BigNumber) \<Rightarrow> RawFeeConfigs option \<Rightarrow> service_error + FeeConfigs option" where
  "parseFeeConfigs parse =
     parse_optional (\<lambda>feeConfigs.
       res_bind (parse_optional (parse_integratorFee parse) (rc_integratorFee feeConfigs))
       (\<lambda>integratorFeeConfig. res_bind (parse_optional (parse_zeroExFee parse integratorFeeConfig) (rc_zeroExFee feeConfigs))
       (\<lambda>zeroExFeeConfig. res_bind (parse_optional parse_gasFee (rc_gasFee feeConfigs))
       (\<lambda>gasFeeConfig. Inr \<lparr>cfg_integratorFee = integratorFeeConfig, cfg_zeroExFee = zeroExFeeConfig,
          cfg_gasFee = gasFeeConfig\<rparr>))))"

record MetaEnv =
  me_handler :: HandlerEnv
  me_service :: MetaTransactionService
  me_META_TX_MIN_ALLOWED_SLIPPAGE :: js_number

text \<open>\<open>parseFloat(x) || DEFAULT_QUOTE_SLIPPAGE_PERCENTAGE\<close>, below one and at least the minimum.\<close>

definition parse_meta_slippage :: "js_number \<Rightarrow> Query \<Rightarrow> service_error + js_number" where
  "parse_meta_slippage minSlippage query =
     (let slippagePercentage = float_or (map_of query ''slippagePercentage'') DEFAULT_QUOTE_SLIPPAGE_PERCENTAGE
      in if 1 \<le> slippagePercentage then validation_error ''slippagePercentage'' ValueOutOfRange ''MUST_BE_LESS_THAN_OR_EQUAL_TO_ONE''
         else if slippagePercentage < minSlippage then validation_error ''slippagePercentage'' ValueOutOfRange ''MINIMUM_SLIPPAGE_IS_TOO_LOW''
         else Inr slippagePercentage)"

definition meta_tokens :: "HandlerEnv \<Rightarrow> Query \<Rightarrow> service_error + string \<times> string" where
  "meta_tokens env query =
     res_bind (findTokenAddressOrThrowApiError (he_findTokenAddress env) (map_of query ''buyToken'') ''buyToken'' (he_chain env))
     (\<lambda>buyTokenAddress. res_bind (findTokenAddressOrThrowApiError (he_findTokenAddress env) (map_of query ''sellToken'') ''sellToken'' (he_chain env))
     (\<lambda>sellTokenAddress. Inr (sellTokenAddress, buyTokenAddress)))"

text \<open>A field that the schema, which is checked first, requires.\<close>

definition required_text :: "Query \<Rightarrow> string \<Rightarrow> string" where
  "required_text query name = (case map_of query name of Some v \<Rightarrow> v | None \<Rightarrow> [])"

definition meta_params ::
  "HandlerEnv \<Rightarrow> Query \<Rightarrow> string \<times> string \<Rightarrow> js_number \<Rightarrow> AffiliateFee \<Rightarrow> MetaTransactionVersion \<Rightarrow> FeeConfigs option \<Rightarrow>
   MetaTransactionQuoteParams" where
  "meta_params env query tokens slippagePercentage affiliateFee version feeConfigs =
     (let number = (\<lambda>name. map_option (he_parse env) (map_of query name));
          sources = (\<lambda>name. map_option (\<lambda>s. parseStringArrForERC20BridgeSources (split_on (CHR '','') s)) (map_of query name))
      in \<lparr>mp_sellTokenAddress = fst tokens, mp_buyTokenAddress = snd tokens,
          mp_takerAddress = toLowerCase (required_text query ''takerAddress''), mp_integratorId = required_text query ''integratorId'',
          mp_quoteUniqueId = map_of query ''quoteUniqueId'', mp_isETHBuy = he_isNativeSymbolOrAddress env (snd tokens) (he_chain env),
          mp_sellAmount = number ''sellAmount'', mp_buyAmount = number ''buyAmount'', mp_slippagePercentage = slippagePercentage,
          mp_excludedSources = (case sources ''excludedSources'' of Some xs \<Rightarrow> xs | None \<Rightarrow> []),
          mp_includedSources = sources ''includedSources'', mp_affiliateFee = affiliateFee,
          mp_affiliateAddress = map_of query ''affiliateAddress'',
          mp_priceImpactProtectionPercentage = (case map_of query ''priceImpactProtectionPercentage'' of None \<Rightarrow> 1 | Some v \<Rightarrow> parseFloat v),
          mp_metaTransactionVersion = version, mp_feeConfigs = feeConfigs\<rparr>)"

definition parseV1RequestParams :: "MetaEnv \<Rightarrow> Query \<Rightarrow> service_error + MetaTransactionQuoteParams" where
  "parseV1RequestParams me query =
     (let env = me_handler me
      in res_bind (parseAffiliateFeeOptions query)
      (\<lambda>affiliateFee. res_bind (meta_tokens env query)
      (\<lambda>tokens. res_bind (parse_meta_slippage (me_META_TX_MIN_ALLOWED_SLIPPAGE me) query)
      (\<lambda>slippagePercentage. Inr (meta_params env query tokens slippagePercentage affiliateFee v1 None)))))"

definition parse_version :: "Query \<Rightarrow> service_error + MetaTransactionVersion" where
  "parse_version query =
     (case map_of query ''metaTransactionVersion'' of
        Some v \<Rightarrow> if v = ''v1'' then Inr v1 else if v = ''v2'' then Inr v2
                  else validation_error ''metaTransactionVersion'' IncorrectFormat ''INVALID_META_TRANSACTION_VERSION''
      | None \<Rightarrow> validation_error ''metaTransactionVersion'' IncorrectFormat ''INVALID_META_TRANSACTION_VERSION'')"

definition parseV2RequestBody :: "MetaEnv \<Rightarrow> MetaBody \<Rightarrow> service_error + MetaTransactionQuoteParams" where
  "parseV2RequestBody me body =
     (let env = me_handler me; query = mb_fields body
      in res_bind (meta_tokens env query)
      (\<lambda>tokens. res_bind (parse_version query)
      (\<lambda>version. res_bind (parse_meta_slippage (me_META_TX_MIN_ALLOWED_SLIPPAGE me) query)
      (\<lambda>slippagePercentage. res_bind (parseFeeConfigs (he_parse env) (mb_feeConfigs body))
      (\<lambda>feeConfigs. Inr (meta_params env query tokens slippagePercentage
         \<lparr>fee_feeType = NoFee, fee_recipient = NULL_ADDRESS, fee_buyTokenPercentageFee = 0\<rparr> version feeConfigs))))))"

section \<open>Handlers\<close>

text \<open>The four handlers differ in how they read the request, what they ask the service, and whether an error they do not
  know is thrown again or becomes an internal server error.\<close>

definition meta_handler ::
  "MetaEnv \<Rightarrow> Query \<Rightarrow> service_error + MetaTransactionQuoteParams \<Rightarrow> (js_error \<Rightarrow> service_error) \<Rightarrow>
   (MetaTransactionQuoteParams \<Rightarrow> service_error + 'a) \<Rightarrow> service_error + 'a" where
  "meta_handler me query parsed other ask =
     (let env = me_handler me
      in res_bind (validateSchema (he_schemaErrors env ''metaTransactionQuoteRequestSchema'' query))
      (\<lambda>_. res_bind parsed
      (\<lambda>params.
         if he_isNativeSymbolOrAddress env (mp_sellTokenAddress params) (he_chain env) then Inl EthSellNotSupportedError
         else map_error (map_swap_error env (if mp_buyAmount params \<noteq> None then ''buyAmount'' else ''sellAmount'') other) (ask params))))"

definition getV2QuoteAsync :: "MetaEnv \<Rightarrow> MetaBody \<Rightarrow> service_error + MetaTransactionQuoteResponse \<times> PublishedReport option" where
  "getV2QuoteAsync me body =
     meta_handler me (mb_fields body) (parseV2RequestBody me body) Thrown (getMetaTransactionV2QuoteAsync (me_service me))"

definition getV1QuoteAsync :: "MetaEnv \<Rightarrow> Query \<Rightarrow> service_error + MetaTransactionQuoteResponse \<times> PublishedReport option" where
  "getV1QuoteAsync me query =
     meta_handler me query (parseV1RequestParams me query) Thrown (getMetaTransactionV1QuoteAsync (me_service me))"

text \<open>A price: the result, the value to send and the gas.\<close>

definition meta_price :: "MetaTransactionQuoteResult \<times> PublishedReport option \<Rightarrow> MetaTransactionQuoteResult \<times> BigNumber \<times> BigNumber" where
  "meta_price r = (fst r, mq_protocolFee (fst r), mq_estimatedGas (fst r))"

definition getV2PriceAsync :: "MetaEnv \<Rightarrow> MetaBody \<Rightarrow> service_error + MetaTransactionQuoteResult \<times> BigNumber \<times> BigNumber" where
  "getV2PriceAsync me body =
     meta_handler me (mb_fields body) (parseV2RequestBody me body) (\<lambda>err. InternalServerError (error_message (me_handler me) err))
       (\<lambda>params. res_bind (getMetaTransactionV2PriceAsync (me_service me) params) (\<lambda>r. Inr (meta_price r)))"

definition getV1PriceAsync :: "MetaEnv \<Rightarrow> Query \<Rightarrow> service_error + MetaTransactionQuoteResult \<times> BigNumber \<times> BigNumber" where
  "getV1PriceAsync me query =
     meta_handler me query (parseV1RequestParams me query) (\<lambda>err. InternalServerError (error_message (me_handler me) err))
       (\<lambda>params. res_bind (getMetaTransactionV1PriceAsync (me_service me) params) (\<lambda>r. Inr (meta_price r)))"

section \<open>Fees of a request\<close>

text \<open>Configurations the fee calculation accepts: a share of the integrator fee needs that fee, and no percentage reaches one.\<close>

definition fee_configs_ok :: "FeeConfigs \<Rightarrow> bool" where
  "fee_configs_ok c \<longleftrightarrow>
     (\<forall>f. cfg_integratorFee c = Some f \<longrightarrow> \<not> 1 \<le> cfg_volumePercentage f) \<and>
     (case cfg_zeroExFee c of
        None \<Rightarrow> True
      | Some (VolumeConfig f) \<Rightarrow> \<not> 1 \<le> cfg_volumePercentage f
      | Some (IntegratorShareConfig f) \<Rightarrow> \<not> 1 \<le> cfg_integratorSharePercentage f \<and> cfg_integratorFee c \<noteq> None
      | Some OtherConfig \<Rightarrow> False)"

lemma parse_percentage_ok: "parse_percentage parse t = Inr x \<Longrightarrow> \<not> 1 \<le> x"
  by (auto simp: parse_percentage_def validation_error_def Let_def split: if_split_asm)

lemma parse_volume_fee_ok: "parse_volume_fee parse fee = Inr cfg \<Longrightarrow> \<not> 1 \<le> cfg_volumePercentage cfg"
  using parse_percentage_ok by (fastforce simp: parse_volume_fee_def res_bind_eq_Inr)

lemma parse_optional_Inr: "parse_optional f x = Inr y \<longleftrightarrow> (case x of None \<Rightarrow> y = None | Some a \<Rightarrow> \<exists>b. f a = Inr b \<and> y = Some b)"
  by (auto simp: parse_optional_def res_bind_eq_Inr split: option.split)

lemma parse_optional_Some_Inr: "parse_optional f x = Inr (Some b) \<longleftrightarrow> (\<exists>a. x = Some a \<and> f a = Inr b)"
  by (auto simp: parse_optional_Inr split: option.split)

lemma parse_zeroExFee_ok:
  assumes "parse_zeroExFee parse i fee = Inr z"
  shows "case z of VolumeConfig f \<Rightarrow> \<not> 1 \<le> cfg_volumePercentage f
    | IntegratorShareConfig f \<Rightarrow> \<not> 1 \<le> cfg_integratorSharePercentage f \<and> i \<noteq> None | OtherConfig \<Rightarrow> False"
  using assms parse_volume_fee_ok parse_percentage_ok
  by (fastforce simp: parse_zeroExFee_def fee_type_error_def validation_error_def res_bind_eq_Inr split: if_split_asm)

lemma parseFeeConfigs_ok:
  assumes "parseFeeConfigs parse raw = Inr (Some cfg)"
  shows "fee_configs_ok cfg"
proof -
  obtain r :: RawFeeConfigs and i z g where
    i: "parse_optional (parse_integratorFee parse) (rc_integratorFee r) = Inr i"
    and z: "parse_optional (parse_zeroExFee parse i) (rc_zeroExFee r) = Inr z"
    and cfg: "cfg = \<lparr>cfg_integratorFee = i, cfg_zeroExFee = z, cfg_gasFee = g\<rparr>"
    using assms unfolding parseFeeConfigs_def parse_optional_Some_Inr res_bind_eq_Inr sum.inject
    by blast
  have "\<not> 1 \<le> cfg_volumePercentage f" if "i = Some f" for f
    using i that parse_volume_fee_ok
    by (auto simp: parse_optional_Inr parse_integratorFee_def fee_type_error_def validation_error_def split: option.split_asm if_split_asm)
  moreover have "case w of VolumeConfig f \<Rightarrow> \<not> 1 \<le> cfg_volumePercentage f
      | IntegratorShareConfig f \<Rightarrow> \<not> 1 \<le> cfg_integratorSharePercentage f \<and> i \<noteq> None | OtherConfig \<Rightarrow> False" if "z = Some w" for w
    using z that parse_zeroExFee_ok by (auto simp: parse_optional_Inr split: option.split_asm)
  ultimately show ?thesis by (auto simp: cfg fee_configs_ok_def split: option.split ZeroExFeeConfig.split)
qed

lemma fees_total:
  assumes "\<forall>c. opt_feeConfigs opts = Some c \<longrightarrow> fee_configs_ok c \<and> (cfg_gasFee c \<noteq> None \<longrightarrow> opt_sellTokenAmountPerWei opts \<noteq> None)"
  shows "\<exists>r. calculateFees opts = Inr r"
proof (cases "opt_feeConfigs opts")
  case (Some c)
  let ?i = "calculateIntegratorFee (cfg_integratorFee c) (opt_sellToken opts) (opt_sellTokenAmount opts)"
  obtain z where "calculateZeroExFee (cfg_zeroExFee c) (opt_sellToken opts) (opt_sellTokenAmount opts) ?i = Inr z"
    using assms Some
    by (auto simp: calculateZeroExFee_def calculateIntegratorFee_def fee_configs_ok_def split: option.splits ZeroExFeeConfig.splits)
  moreover have "\<exists>g. calculateGasFee (cfg_gasFee c) (opt_sellToken opts) (opt_sellTokenAmountPerWei opts) (opt_gasPrice opts)
      (opt_quoteGasEstimate opts) (opt_gasPerOnChainTransfer opts) ?i z = Inr g"
    using assms Some by (auto simp: calculateGasFee_def Let_def split: option.splits)
  ultimately show ?thesis using Some by (auto simp: calculateFees_def Let_def split: prod.split)
qed (simp add: calculateFees_def)

section \<open>Expiry\<close>

context quotient_rounding
begin

text \<open>Rounding a time in milliseconds to seconds never shortens it, since the rounded quotient keeps a thousandth apart from
  the whole numbers.\<close>

lemma ceiling_rnd_covers:
  assumes "eps < 1 / 1000"
  shows "of_int n / 1000 \<le> (of_int \<lceil>rnd (of_int n / 1000)\<rceil> :: rat)"
proof (cases "n mod 1000 = 0")
  case True
  then have "of_int n / 1000 = (of_int (n div 1000) :: rat)" by (auto simp: mod_eq_0_iff_dvd dvd_def)
  then show ?thesis using rnd_int[of "n div 1000"] by simp
next
  case False
  have n: "of_int n = (of_int (n div 1000) * 1000 + of_int (n mod 1000) :: rat)"
    by (metis of_int_add of_int_mult of_int_numeral mult_div_mod_eq mult.commute)
  have "1 \<le> n mod 1000" "n mod 1000 < 1000" using False pos_mod_bound[of 1000 n] pos_mod_sign[of 1000 n] by linarith+
  then have "(1 :: rat) \<le> of_int (n mod 1000)" "of_int (n mod 1000) \<le> (1000 :: rat)"
    by (metis of_int_1_le_iff, metis less_imp_le of_int_le_iff of_int_numeral)
  then have "of_int (n div 1000) + 1 / 1000 \<le> (of_int n / 1000 :: rat)" "of_int n / 1000 \<le> (of_int (n div 1000) + 1 :: rat)"
    by (simp_all add: n field_simps)
  then have "of_int (n div 1000) < rnd (of_int n / 1000)"
    using rnd_err[of "of_int n / 1000"] assms by linarith
  then have "n div 1000 + 1 \<le> \<lceil>rnd (of_int n / 1000)\<rceil>" by (simp add: less_ceiling_iff add1_zle_eq)
  then have "of_int (n div 1000) + 1 \<le> (of_int \<lceil>rnd (of_int n / 1000)\<rceil> :: rat)"
    by (metis of_int_1 of_int_add of_int_le_iff)
  then show ?thesis using \<open>of_int n / 1000 \<le> (of_int (n div 1000) + 1 :: rat)\<close> by linarith
qed

end

lemma expiration_time:
  assumes "now < 2 ^ 52" "3 \<le> d"
  shows "\<exists>t. createExpirationTime (round_dp d) (Fin (of_nat now)) = Fin (of_int t) \<and> int now + 600000 \<le> 1000 * t"
proof -
  let ?t = "\<lceil>round_dp d (of_int (int now + 600000) / 1000)\<rceil>"
  have "now + 600000 < 2 ^ 53" using assms(1) by simp
  then have "createExpirationTime (round_dp d) (Fin (of_nat now)) = Fin (of_int ?t)"
    using rnd64_of_nat[of "now + 600000"] dec_of_nat[of "now + 600000"] assms(1)
    by (simp add: createExpirationTime_def META_TX_EXPIRATION_BUFFER_MS_def)
  moreover have "(10 :: rat) ^ 3 \<le> 10 ^ d" using assms(2) by (intro power_increasing) simp_all
  then have "1 / (2 * 10 ^ d) < (1 / 1000 :: rat)" by (simp add: field_simps)
  then have "of_int (int now + 600000) / 1000 \<le> (of_int ?t :: rat)" by (rule dp.ceiling_rnd_covers)
  then have "of_int (int now + 600000) \<le> (of_int (1000 * ?t) :: rat)" by simp
  then have "int now + 600000 \<le> 1000 * ?t" by (simp only: of_int_le_iff)
  ultimately show ?thesis by blast
qed

section \<open>Properties\<close>

lemma meta_parts:
  assumes "getMetaTransactionV1QuoteAsync ms params = Inr (response, report) \<or>
    getMetaTransactionV2QuoteAsync ms params = Inr (response, report)"
  obtains fee version quote minGasPrice where
    "calculateSwapQuoteAsync (ms_swapService ms) (meta_quote_params ms params quote_endpoint version fee) = Inr quote"
    "mr_metaTransaction response = meta_transaction ms minGasPrice (r_data quote) (mp_takerAddress params) 0"
    "mr_hash response \<in> {ms_getHash ms (mr_metaTransaction response), ms_getExchangeProxyMetaTransactionHash ms (mr_metaTransaction response)}"
    "mq_buyAmount (mr_quote response) = r_buyAmount quote" "mq_sellAmount (mr_quote response) = r_sellAmount quote"
    "mr_gas response = r_estimatedGas quote"
  using assms
  by (cases "mp_metaTransactionVersion params") (auto simp: getMetaTransactionV1QuoteAsync_def getMetaTransactionV2QuoteAsync_def getMetaTransactionQuote_internal_def
      getMetaTransactionV2Quote_internal_def res_bind_eq_Inr meta_response_def meta_quote_result_def
      generateExchangeProxyMetaTransaction_def generateMetaTransactionV1_def Let_def)

text \<open>C27: What a taker is asked to sign for a gasless swap, in both versions of the endpoint: the call of the trade that was
  quoted, with the taker as signer, any sender, no value and no fee, for the exchange proxy of the service's chain, with a
  hash of that very meta-transaction, valid for at least ten more minutes; and the amounts shown are those of the trade.\<close>

theorem meta_transaction_wraps_trade:
  assumes "getMetaTransactionV1QuoteAsync ms params = Inr (response, report) \<or>
      getMetaTransactionV2QuoteAsync ms params = Inr (response, report)"
    "ms_now ms = Fin (of_nat now)" "now < 2 ^ 52" "sv_rnd (ms_swapService ms) = round_dp d" "3 \<le> d"
  shows "\<exists>version fee quote t. calculateSwapQuoteAsync (ms_swapService ms) (meta_quote_params ms params quote_endpoint version fee) = Inr quote \<and>
    mt_callData (mr_metaTransaction response) = r_data quote \<and> mt_signer (mr_metaTransaction response) = mp_takerAddress params \<and>
    mt_sender (mr_metaTransaction response) = NULL_ADDRESS \<and> mt_value (mr_metaTransaction response) = 0 \<and>
    mt_feeAmount (mr_metaTransaction response) = 0 \<and> mt_chainId (mr_metaTransaction response) = sv_CHAIN_ID (ms_swapService ms) \<and>
    mt_verifyingContract (mr_metaTransaction response) = ms_exchangeProxyAddress ms \<and>
    mr_hash response \<in> {ms_getHash ms (mr_metaTransaction response), ms_getExchangeProxyMetaTransactionHash ms (mr_metaTransaction response)} \<and>
    mt_expirationTimeSeconds (mr_metaTransaction response) = Fin (of_int t) \<and> int now + 600000 \<le> 1000 * t \<and>
    mq_buyAmount (mr_quote response) = r_buyAmount quote \<and> mq_sellAmount (mr_quote response) = r_sellAmount quote"
proof -
  obtain t where "createExpirationTime (sv_rnd (ms_swapService ms)) (ms_now ms) = Fin (of_int t)" "int now + 600000 \<le> 1000 * t"
    using expiration_time[OF assms(3,5)] assms(2,4) by auto
  moreover obtain fee version quote minGasPrice where
    "calculateSwapQuoteAsync (ms_swapService ms) (meta_quote_params ms params quote_endpoint version fee) = Inr quote"
    "mr_metaTransaction response = meta_transaction ms minGasPrice (r_data quote) (mp_takerAddress params) 0"
    "mr_hash response \<in> {ms_getHash ms (mr_metaTransaction response), ms_getExchangeProxyMetaTransactionHash ms (mr_metaTransaction response)}"
    "mq_buyAmount (mr_quote response) = r_buyAmount quote" "mq_sellAmount (mr_quote response) = r_sellAmount quote"
    using meta_parts[OF assms(1)] .
  ultimately show ?thesis by (intro exI[of _ version] exI[of _ fee] exI[of _ quote] exI[of _ t]) (simp add: meta_transaction_def)
qed

definition sample_meta :: MetaTransactionService where
  "sample_meta = \<lparr>ms_swapService = sample_sv, ms_exchangeProxyAddress = ''P'', ms_FEE_RECIPIENT_ADDRESS = NULL_ADDRESS,
     ms_now = Fin (of_nat 1700000000001), ms_salt = Fin 7, ms_getHash = mt_callData, ms_getExchangeProxyMetaTransactionHash = mt_callData,
     ms_kafkaProducer = False, ms_kafkaTopic = None\<rparr>"

text \<open>The request of \<open>Swap_Responses.sample_gasless\<close>.\<close>

definition sample_meta_params :: MetaTransactionQuoteParams where
  "sample_meta_params = \<lparr>mp_sellTokenAddress = ''B'', mp_buyTokenAddress = ''A'', mp_takerAddress = ''0xt'', mp_integratorId = ''acme'',
     mp_quoteUniqueId = None, mp_isETHBuy = False, mp_sellAmount = Some (Fin 12), mp_buyAmount = None, mp_slippagePercentage = Fin 0,
     mp_excludedSources = [], mp_includedSources = None,
     mp_affiliateFee = \<lparr>fee_feeType = NoFee, fee_recipient = [], fee_buyTokenPercentageFee = Fin 0\<rparr>, mp_affiliateAddress = None,
     mp_priceImpactProtectionPercentage = Fin (1 / 4), mp_metaTransactionVersion = v1,
     mp_feeConfigs = p_feeConfigs (sample_gasless True (Some (Fin 0)) quote_endpoint)\<rparr>"

lemma sample_meta_request:
  "meta_quote_params sample_meta sample_meta_params e v1 (mp_affiliateFee sample_meta_params) = sample_gasless True (Some (Fin 0)) e"
  by (simp add: meta_quote_params_def sample_meta_params_def sample_gasless_def)

lemma sample_meta_quote: "\<exists>response report. getMetaTransactionV2QuoteAsync sample_meta sample_meta_params = Inr (response, report)"
proof -
  obtain quote where "calculateSwapQuoteAsync sample_sv (sample_gasless True (Some (Fin 0)) quote_endpoint) = Inr quote"
    using sample_response by blast
  moreover have "mp_metaTransactionVersion sample_meta_params = v1" "ms_swapService sample_meta = sample_sv"
    by (simp_all add: sample_meta_params_def sample_meta_def)
  ultimately show ?thesis
    by (simp add: getMetaTransactionV2QuoteAsync_def getMetaTransactionV2Quote_internal_def sample_meta_request)
qed

theorem meta_transaction_wraps_trade_witness:
  "\<exists>response report t. getMetaTransactionV2QuoteAsync sample_meta sample_meta_params = Inr (response, report) \<and>
     mt_signer (mr_metaTransaction response) = ''0xt'' \<and> mt_expirationTimeSeconds (mr_metaTransaction response) = Fin (of_int t) \<and>
     1700000600001 \<le> 1000 * t"
proof -
  obtain response report where r: "getMetaTransactionV2QuoteAsync sample_meta sample_meta_params = Inr (response, report)"
    using sample_meta_quote by blast
  have "ms_now sample_meta = Fin (of_nat 1700000000001)" "(1700000000001 :: nat) < 2 ^ 52"
    "sv_rnd (ms_swapService sample_meta) = round_dp 78" "(3 :: nat) \<le> 78" "mp_takerAddress sample_meta_params = ''0xt''"
    by (simp_all add: sample_meta_def sample_service_def sample_meta_params_def)
  with meta_transaction_wraps_trade[OF disjI2[OF r]] r show ?thesis by fastforce
qed

text \<open>A gasless request that is accepted can always be charged: its slippage is below one and not below the configured
  minimum, every percentage of a fee is below one, a share of the integrator fee comes with that fee, and the fee calculation
  returns for every amount, gas price and token, given a rate for the sell token.\<close>

theorem gasless_request_chargeable:
  assumes "parseV2RequestBody me body = Inr params"
  shows "\<not> 1 \<le> mp_slippagePercentage params \<and> \<not> mp_slippagePercentage params < me_META_TX_MIN_ALLOWED_SLIPPAGE me \<and>
    (\<forall>c. mp_feeConfigs params = Some c \<longrightarrow> fee_configs_ok c) \<and>
    (\<forall>opts. opt_feeConfigs opts = mp_feeConfigs params \<and> opt_sellTokenAmountPerWei opts \<noteq> None \<longrightarrow> (\<exists>r. calculateFees opts = Inr r))"
proof -
  obtain slippage cfgs where p: "parse_meta_slippage (me_META_TX_MIN_ALLOWED_SLIPPAGE me) (mb_fields body) = Inr slippage"
    "parseFeeConfigs (he_parse (me_handler me)) (mb_feeConfigs body) = Inr cfgs"
    "mp_slippagePercentage params = slippage" "mp_feeConfigs params = cfgs"
    using assms by (auto simp: parseV2RequestBody_def Let_def res_bind_eq_Inr meta_params_def)
  have "\<not> 1 \<le> slippage \<and> \<not> slippage < me_META_TX_MIN_ALLOWED_SLIPPAGE me"
    using p(1) by (auto simp: parse_meta_slippage_def validation_error_def Let_def split: if_split_asm)
  moreover have ok: "fee_configs_ok c" if "cfgs = Some c" for c using p(2) that parseFeeConfigs_ok by blast
  moreover have "\<exists>r. calculateFees opts = Inr r" if "opt_feeConfigs opts = cfgs" "opt_sellTokenAmountPerWei opts \<noteq> None" for opts
    using that ok by (intro fees_total) auto
  ultimately show ?thesis using p(3,4) by blast
qed

definition sample_meta_env :: MetaEnv where
  "sample_meta_env = \<lparr>me_handler = sample_handler, me_service = sample_meta, me_META_TX_MIN_ALLOWED_SLIPPAGE = Fin 0\<rparr>"

definition sample_body :: "string \<Rightarrow> MetaBody" where
  "sample_body version = \<lparr>mb_fields = [(''buyToken'', ''0xb''), (''sellToken'', ''0xa''), (''sellAmount'', ''12''), (''takerAddress'', ''0xt''),
     (''metaTransactionVersion'', version)],
   mb_feeConfigs = Some \<lparr>rc_integratorFee = Some \<lparr>rf_type = ''volume'', rf_feeRecipient = Some ''F'', rf_billingType = on_chain,
       rf_volumePercentage = ''0'', rf_integratorSharePercentage = []\<rparr>,
     rc_zeroExFee = Some \<lparr>rf_type = ''integrator_share'', rf_feeRecipient = None, rf_billingType = on_chain,
       rf_volumePercentage = [], rf_integratorSharePercentage = ''0''\<rparr>, rc_gasFee = None\<rparr>\<rparr>"

lemma sample_body_parsed:
  assumes "version = ''v1'' \<and> v = v1 \<or> version = ''v2'' \<and> v = v2"
  shows "\<exists>params. parseV2RequestBody sample_meta_env (sample_body version) = Inr params \<and> mp_metaTransactionVersion params = v"
proof -
  have "\<not> Fin 1 \<le> DEFAULT_QUOTE_SLIPPAGE_PERCENTAGE \<and> \<not> DEFAULT_QUOTE_SLIPPAGE_PERCENTAGE < Fin 0" by code_simp
  then have "parse_meta_slippage (Fin 0) (mb_fields (sample_body version)) = Inr DEFAULT_QUOTE_SLIPPAGE_PERCENTAGE"
    by (simp add: parse_meta_slippage_def sample_body_def float_or_def)
  moreover have "\<exists>cfgs. parseFeeConfigs (bn_of_base 10) (mb_feeConfigs (sample_body version)) = Inr cfgs"
  proof -
    have "\<not> Fin 1 \<le> bn_of_base 10 ''0''" by code_simp
    then show ?thesis
      by (simp add: parseFeeConfigs_def parse_optional_def sample_body_def parse_integratorFee_def parse_zeroExFee_def
          parse_volume_fee_def parse_percentage_def)
  qed
  moreover have "meta_tokens sample_handler (mb_fields (sample_body version)) = Inr (''0xa'', ''0xb'')"
    by (simp add: meta_tokens_def sample_handler_def sample_body_def findTokenAddressOrThrowApiError_def)
  moreover have "parse_version (mb_fields (sample_body version)) = Inr v"
    using assms by (auto simp: parse_version_def sample_body_def)
  moreover have "he_parse sample_handler = bn_of_base 10" by (simp add: sample_handler_def)
  ultimately show ?thesis
    by (auto simp: parseV2RequestBody_def sample_meta_env_def Let_def meta_params_def)
qed

theorem gasless_request_chargeable_witness:
  "\<exists>params. parseV2RequestBody sample_meta_env (sample_body ''v1'') = Inr params \<and> \<not> mp_slippagePercentage params < Fin 0"
proof -
  obtain params where r: "parseV2RequestBody sample_meta_env (sample_body ''v1'') = Inr params" using sample_body_parsed by blast
  with gasless_request_chargeable[OF r] show ?thesis by (auto simp: sample_meta_env_def)
qed

text \<open>Version 2 of meta-transactions is accepted by the parser and priced, but never quoted: a request for a quote whose
  version is \<open>v2\<close> fails on every input, and when the trade could be quoted it fails with an error that no handler turns into an
  answer of the API.\<close>

theorem meta_transaction_v2_never_quoted:
  assumes "parseV2RequestBody me body = Inr params" "mp_metaTransactionVersion params = v2"
  shows "(\<forall>r. getV2QuoteAsync me body \<noteq> Inr r) \<and>
    (\<forall>quote. calculateSwapQuoteAsync (ms_swapService (me_service me))
         (meta_quote_params (me_service me) params quote_endpoint v2 (mp_affiliateFee params)) = Inr quote \<and>
       he_schemaErrors (me_handler me) ''metaTransactionQuoteRequestSchema'' (mb_fields body) = [] \<and>
       \<not> he_isNativeSymbolOrAddress (me_handler me) (mp_sellTokenAddress params) (he_chain (me_handler me)) \<longrightarrow>
       getV2QuoteAsync me body = Inl (Thrown (Error ''metaTransactionVersion v2 is not supported'')))"
  using assms
  by (auto simp: getV2QuoteAsync_def meta_handler_def Let_def res_bind_eq_Inr validateSchema_def getMetaTransactionV2QuoteAsync_def
      getMetaTransactionV2Quote_internal_def map_error_def map_swap_error_def starts_with_def error_message_def split: sum.split_asm if_split_asm)

theorem meta_transaction_v2_never_quoted_witness: "\<forall>r. getV2QuoteAsync sample_meta_env (sample_body ''v2'') \<noteq> Inr r"
proof -
  obtain params where "parseV2RequestBody sample_meta_env (sample_body ''v2'') = Inr params" "mp_metaTransactionVersion params = v2"
    using sample_body_parsed by blast
  then show ?thesis using meta_transaction_v2_never_quoted by blast
qed

end
