(* ===== verification/Token_Tables.thy ===== *)
theory Token_Tables
  imports Source_Tables
begin

text \<open>
  The tables of addresses of \<open>market_operation_utils/constants.ts\<close>: tokens, pools,
   routers and registries by chain. An object
  with string keys is a function from its keys (\<open>MAINNET_TOKENS ''DAI''\<close> for \<open>MAINNET_TOKENS.DAI\<close>),
   a table by chain one from
  chains.
\<close>

text \<open>The value of a key of an object literal.\<close>

definition object :: "(string \<times> string) list \<Rightarrow> string \<Rightarrow> string" where
  "object entries key = (case map_of entries key of Some v \<Rightarrow> v | None \<Rightarrow> [])"

section \<open>Tokens\<close>

definition MAINNET_TOKENS :: "string \<Rightarrow> Address" where
  "MAINNET_TOKENS = object [
    (''WETH'', ''0xc02aaa39b223fe8d0a0e5c4f27ead9083c756cc2''),
    (''DAI'', ''0x6b175474e89094c44da98b954eedeac495271d0f''),
    (''USDC'', ''0xa0b86991c6218b36c1d19d4a2e9eb0ce3606eb48''),
    (''USDT'', ''0xdac17f958d2ee523a2206206994597c13d831ec7''),
    (''sUSD'', ''0x57ab1ec28d129707052df4df418d58a2d46d5f51''),
    (''BUSD'', ''0x4fabb145d64652a948d72533023f6e7a623c7c53''),
    (''TUSD'', ''0x0000000000085d4780b73119b644ae5ecd22b376''),
    (''PAX'', ''0x8e870d67f660d95d5be530380d0ec0bd388289e1''),
    (''GUSD'', ''0x056fd409e1d7a124bd7017459dfea2f387b6d5cd''),
    (''HUSD'', ''0xdf574c24545e5ffecb9a659c229253d4111d87e1''),
    (''mUSD'', ''0xe2f2a5c287993345a840db3b0845fbc70f5935a5''),
    (''USDN'', ''0x674c6ad92fd080e4004b2312b45f796a192d27a0''),
    (''dUSD'', ''0x5bc25f649fc4e26069ddf4cf4010f9f706c23831''),
    (''USDP'', ''0x1456688345527be1f37e9e627da0837d6f08c925''),
    (''USX'', ''0x0a5e677a6a24b2f1a2bf4f3bffc443231d2fdec8''),
    (''WCUSD'', ''0xad3e3fc59dff318beceaab7d00eb4f68b1ecf195''),
    (''WBTC'', ''0x2260fac5e5542a773aa44fbcfedf7c193bc2c599''),
    (''RenBTC'', ''0xeb4c2781e4eba804ce9a9803c67d0893436bb27d''),
    (''sBTC'', ''0xfe18be6b3bd88a2d2a7f928d00292e7a9963cfc6''),
    (''tBTC'', ''0x8daebade922df735c38c80c7ebd708af50815faa''),
    (''tBTCv2'', ''0x18084fba666a33d37592fa2633fd49a74dd93a88''),
    (''hBTC'', ''0x0316eb71485b0ab14103307bf65a021042c6d380''),
    (''pBTC'', ''0x5228a22e72ccc52d415ecfd199f99d0665e7733b''),
    (''bBTC'', ''0x9be89d2a4cd102d8fecc6bf9da793be995c22541''),
    (''oBTC'', ''0x8064d9ae6cdf087b1bcd5bdf3531bd5d8c537a68''),
    (''aDAI'', ''0x028171bca77440897b824ca71d1c56cac55b68a3''),
    (''aUSDC'', ''0xbcca60bb61934080951369a648fb03df4f96263c''),
    (''aUSDT'', ''0x3ed3b47dd13ec9a98b44e6204a523e766b225811''),
    (''aSUSD'', ''0x6c5024cd4f8a59110119c56f8933403a539555eb''),
    (''MKR'', ''0x9f8f72aa9304c8b593d555f12ef6589cc3a579a2''),
    (''EURS'', ''0xdb25f211ab05b1c97d595516f45794528a807ad8''),
    (''sEUR'', ''0xd71ecff9342a5ced620049e616c5035f1db98620''),
    (''sETH'', ''0x5e74c9036fb86bd7ecdcb084a0673efc32ea31cb''),
    (''sJPY'', ''0xf6b1c627e95bfc3c1b4c9b825a032ff0fbf3e07d''),
    (''sGBP'', ''0x97fe22e7341a0cd8db6f6c021a24dc8f4dad855f''),
    (''sAUD'', ''0xf48e200eaf9906362bb1442fca31e0835773b8b4''),
    (''sKRW'', ''0x269895a3df4d73b077fc823dd6da1b95f72aaf9b''),
    (''sCHF'', ''0x0f83287ff768d1c1e17a42f44d644d7f22e8ee1d''),
    (''stETH'', ''0xae7ab96520de3a18e5e111b5eaab095312d7fe84''),
    (''wstETH'', ''0x7f39c581f595b53c5cb19bd0b3f8da6c935e2ca0''),
    (''LINK'', ''0x514910771af9ca656af840dff83e8264ecf986ca''),
    (''MANA'', ''0x0f5d2fb29fb7d3cfee444a200298f468908cc942''),
    (''KNC'', ''0xdefa4e8a7bcba345f687a2f1456f5edd9ce97202''),
    (''AAVE'', ''0x7fc66500c84a76ad7e9c93437bfc5ac33e2ddae9''),
    (''sLINK'', ''0xbbc455cb4f1b9e4bfc4b73970d360c8f032efee6''),
    (''yUSD'', ''0x5dbcf33d8c2e976c6b560249878e6f1491bca25c''),
    (''ybCRV'', ''0x2994529c0652d127b7842094103715ec5299bbed''),
    (''yCRV'', ''0xdf5e0e81dff6faf3a7e52ba697820c5e32d806a8''),
    (''ynCRV'', ''0xfcc5c47be19d06bf83eb04298b026f81069ff65b''),
    (''bCRV'', ''0x3b3ac5386837dc563660fb6a0937dfaa5924333b''),
    (''yDAI'', ''0xacd43e627e64355f1861cec6d3a6688b31a6f952''),
    (''yUSDC'', ''0x597ad1e0c13bfe8025993d9e79c69e1c0233522e''),
    (''yUSDT'', ''0x2f08119c6f07c006695e079aafc638b8789faf18''),
    (''yTUSD'', ''0x37d19d1c4e1fa9dc47bd1ea12f742a0887eda74a''),
    (''crETH'', ''0xcbc1065255cbc3ab41a6868c22d1f1c573ab89fd''),
    (''ankrETH'', ''0xe95a203b1a91a908f9b9ce46459d101078c2c3cb''),
    (''vETH'', ''0x898bad2774eb97cf6b94605677f43b41871410b1''),
    (''alETH'', ''0x0100546f2cd4c9d97f798ffc9755e47865ff7ee6''),
    (''HT'', ''0x6f259637dcd74c767781e37bc6133cd6a68aa161''),
    (''UST'', ''0xa47c8bf37f92abed4a126bda807a7b7498661acd''),
    (''STABLEx'', ''0xcd91538b91b4ba7797d39a2f66e63810b50a33d0''),
    (''alUSD'', ''0xbc6da0fe9ad5f3b0d58160288917aa56653660e9''),
    (''FRAX'', ''0x853d955acef822db058eb8505911ed77f175b99e''),
    (''cvxFXS'', ''0xfeef77d3f69374f66429c91d732a244f074bdf74''),
    (''FXS'', ''0x3432b6a60d23ca0dfca7761b7ab56459d9c964d0''),
    (''OHM'', ''0x383518188c0c6d7730d91b2c03a03c837814a899''),
    (''OHMV2'', ''0x64aa3364f17a4d01c6f1751fd97c2bd3d7e7f1d5''),
    (''BTRFLY'', ''0xc0d4ceb216b3ba9c3701b291766fdcba977cec3a''),
    (''STG'', ''0xaf5191b0de278c7286d6c7cc6ab6bb8a73ba2cd6''),
    (''LUSD'', ''0x5f98805a4e8be255a32880fdec7f6728c6568ba0''),
    (''FEI'', ''0x956f47f50a910163d8bf957cf5846d573e7f87ca''),
    (''TRIBE'', ''0xc7283b66eb1eb5fb86327f08e1b5816b0720212b''),
    (''DSU'', ''0x605d26fbd5be761089281d5cec2ce86eea667109''),
    (''ESS'', ''0x24ae124c4cc33d6791f8e8b63520ed7107ac8b3e''),
    (''cvxCRV'', ''0x62b9c7356a2dc64a1969e19c23e4f579f9810aa7''),
    (''CRV'', ''0xd533a949740bb3306d119cc777fa900ba034cd52''),
    (''MIM'', ''0x99d8a9c45b2eca8864373a26d1459e3dff1e17f3''),
    (''EURT'', ''0xc581b735a1688071a1746c968e0798d642ede491''),
    (''nUSD'', ''0x1b84765de8b7566e4ceaf4d0fd3c5af52d3dde4f''),
    (''CVX'', ''0x4e3fbd56cd56c3e72c1403e103b45db9da5b9d2b''),
    (''UST_WORMHOLE'', ''0xa693b19d2931d498c5b318df961919bb4aee87a5''),
    (''RAI'', ''0x03ab458634910aad20ef5f1c8ee96f1d6ac54919''),
    (''DOLA'', ''0x865377367054516e17014ccded1e7d814edc9ce4''),
    (''OUSD'', ''0x2a8e1e676ec238d8a992307b495b45b3feaa5e86''),
    (''agEUR'', ''0x1a7e4e63778b4f12a199c062f3efdd288afcbce8''),
    (''ibEUR'', ''0x96e61422b6a9ba0e068b6c5add4ffabc6a4aae27''),
    (''YFI'', ''0x0bc529c00c6401aef6d220be8c6ea1667f6ad93e''),
    (''LUSDCRV'', ''0xed279fdd11ca84beef15af5d39bb4d4bee23f0ca''),
    (''bLUSD'', ''0xb9d7dddca9a4ac480991865efef82e01273f79c3''),
    (''rsr'', ''0x320623b8e4ff03373931769a31fc52a4e78b5d70''),
    (''crvFRAX'', ''0x3175df0976dfa876431c2e9ee6bc45b65d3473cc''),
    (''cUSDC'', ''0x39aa39c021dfbae8fac545936693ac917d5e7563''),
    (''cDAI'', ''0x5d3a536e4d6dbd6114cc1ead35777bab948e3643''),
    (''cWBTC'', ''0xccf4429db6322d5c611ee964527d42e5d685dd6a'')]"

definition BSC_TOKENS :: "string \<Rightarrow> Address" where
  "BSC_TOKENS = object [
    (''WBNB'', ''0xbb4cdb9cbd36b01bd1cbaebf2de08d9173bc095c''),
    (''BUSD'', ''0xe9e7cea3dedca5984780bafc599bd69add087d56''),
    (''USDT'', ''0x55d398326f99059ff775485246999027b3197955''),
    (''USDC'', ''0x8ac76a51cc950d9822d68b83fe1ad97b32cd580d''),
    (''DAI'', ''0x1af3f329e8be154074d8769d1ffa4ee058b1dbc3''),
    (''PAX'', ''0xb7f8cd00c5a06c0537e2abff0b58033d02e5e094''),
    (''UST'', ''0x23396cf899ca06c4472205fc903bdb4de249d6fc''),
    (''VAI'', ''0x4bd17003473389a42daf6a0a729f6fdb328bbbd7''),
    (''WEX'', ''0xa9c41a46a6b3531d28d5c32f6633dd2ff05dfb90''),
    (''WETH'', ''0x2170ed0880ac9a755fd29b2688956bd959f933f8''),
    (''BTCB'', ''0x7130d2a12b9bcbfae4f2634d864a1ee1ce3ead9c''),
    (''renBTC'', ''0xfce146bf3146100cfe5db4129cf6c82b0ef4ad8c''),
    (''pBTC'', ''0xed28a457a5a76596ac48d87c0f577020f6ea1c4c''),
    (''nUSD'', ''0x23b891e5c62e0955ae2bd185990103928ab817b3''),
    (''BSW'', ''0x965f527d9159dce6288a2219db51fc6eef120dd1''),
    (''WOO'', ''0x4691937a7508860f876c9c0a2a617e7d9e945d4b'')]"

definition POLYGON_TOKENS :: "string \<Rightarrow> Address" where
  "POLYGON_TOKENS = object [
    (''DAI'', ''0x8f3cf7ad23cd3cadbd9735aff958023239c6a063''),
    (''USDC'', ''0x2791bca1f2de4661ed88a30c99a7a9449aa84174''),
    (''USDT'', ''0xc2132d05d31c914a87c6611c10748aeb04b58e8f''),
    (''amDAI'', ''0x27f8d03b3a2196956ed754badc28d73be8830a6e''),
    (''amUSDC'', ''0x1a13f4ca1d028320a707d99520abfefca3998b7f''),
    (''amUSDT'', ''0x60d55f02a771d515e077c9c2403a1ef324885cec''),
    (''WBTC'', ''0x1bfd67037b42cf73acf2047067bd4f2c47d9bfd6''),
    (''WMATIC'', ''0x0d500b1d8e8ef31e21c99d1db9a6444d3adf1270''),
    (''WETH'', ''0x7ceb23fd6bc0add59e62ac25578270cff1b9f619''),
    (''renBTC'', ''0xdbf31df14b66535af65aac99c32e9ea844e14501''),
    (''QUICK'', ''0x831753dd7087cac61ab5644b308642cc1c33dc13''),
    (''DFYN'', ''0xc168e40227e4ebd8c1cae80f7a55a4f0e6d66c97''),
    (''BANANA'', ''0x5d47baba0d66083c52009271faf3f50dcc01023c''),
    (''WEXPOLY'', ''0x4c4bf319237d98a30a929a96112effa8da3510eb''),
    (''nUSD'', ''0xb6c473756050de474286bed418b77aeac39b02af''),
    (''ANY'', ''0x6ab6d61428fde76768d7b45d8bfeec19c6ef91a8''),
    (''WOO'', ''0x1b815d120b3ef02039ee11dc2d33de7aa4a8c603'')]"

definition AVALANCHE_TOKENS :: "string \<Rightarrow> Address" where
  "AVALANCHE_TOKENS = object [
    (''WAVAX'', ''0xb31f66aa3c1e785363f0875a1b74e27b85fd66c7''),
    (''WETH'', ''0x49d5c2bdffac6ce2bfdb6640f4f80f226bc10bab''),
    (''WBTC'', ''0x50b7545627a5162f82a992c33b87adc75187b218''),
    (''BTCb'', ''0x152b9d0fdc40c096757f570a51e494bd4b943e50''),
    (''DAI'', ''0xd586e7f844cea2f87f50152665bcbc2c279d8d70''),
    (''USDC'', ''0xa7d7079b0fead91f3e65f86e8915cb59c1a4c664''),
    (''nUSDC'', ''0xb97ef9ef8734c71904d8002f8b6bc66dd9c48a6e''),
    (''USDt'', ''0x9702230a8ea53601f5cd2dc00fdbc13d4df4a8c7''),
    (''USDT'', ''0xc7198437980c041c805a1edcba50c1ce5db95118''),
    (''aDAI'', ''0x47afa96cdc9fab46904a55a6ad4bf6660b53c38a''),
    (''aUSDC'', ''0x46a51127c3ce23fb7ab1de06226147f446e4a857''),
    (''aUSDT'', ''0x532e6537fea298397212f09a61e03311686f548e''),
    (''nETH'', ''0x19e1ae0ee35c0404f835521146206595d37981ae''),
    (''nUSD'', ''0xcfc37a6ab183dd4aed08c204d1c2773c0b1bdf46''),
    (''aWETH'', ''0x53f7c5869a859f0aec3d334ee8b4cf01e3492f21''),
    (''MIM'', ''0x130966628846bfd36ff31a822705796e8cb8c18d''),
    (''MAG'', ''0x1d60109178c48e4a937d8ab71699d8ebb6f7c5de''),
    (''sAVAX'', ''0x2b2c81e08f1af8835a78bb2a90ae924ace0ea4be''),
    (''UST'', ''0xb599c3590f42f8f995ecfa0f85d2980b76862fc1''),
    (''FRAX'', ''0xd24c2ad096400b6fbcd2ad8b24e7acbc21a1da64''),
    (''YUSD'', ''0x111111111111ed1d73f860f57b2798b683f2d325''),
    (''WOO'', ''0xabc9547b534519ff73921b1fba6e672b5f58d083'')]"

definition CELO_TOKENS :: "string \<Rightarrow> Address" where
  "CELO_TOKENS = object [
    (''WCELO'', ''0x471ece3750da237f93b8e339c536989b8978a438''),
    (''WETHv1'', ''0xe919f65739c26a42616b7b8eedc6b5524d1e3ac4''),
    (''oWETH'', ''0x122013fd7df1c6f636a5bb8f03108e876548b455''),
    (''WBTC'', ''0xbaab46e28388d2779e6e31fd00cf0e5ad95e327b''),
    (''cUSD'', ''0x765de816845861e75a25fca122bb6898b8b1282a''),
    (''cBTC'', ''0xd629eb00deced2a080b7ec630ef6ac117e614f1b''),
    (''cETH'', ''0x2def4285787d58a2f811af24755a8150622f4361''),
    (''UBE'', ''0x00be915b9dcf56a3cbe739d9b9c202ca692409ec''),
    (''mCELO'', ''0x7d00cd74ff385c955ea3d79e47bf06bd7386387d''),
    (''mCUSD'', ''0x918146359264c492bd6934071c6bd31c854edbc3''),
    (''mCEUR'', ''0xe273ad7ee11dcfaa87383ad5977ee1504ac07568''),
    (''amCUSD'', ''0x64defa3544c695db8c535d289d843a189aa26b98''),
    (''MOO'', ''0x17700282592d6917f6a73d0bf8accf4d578c131e''),
    (''wBTC'', ''0x2260fac5e5542a773aa44fbcfedf7c193bc2c599''),
    (''wETH'', ''0xc02aaa39b223fe8d0a0e5c4f27ead9083c756cc2''),
    (''wBTCO'', ''0xbe50a3013a1c94768a1abb78c3cb79ab28fc1ace''),
    (''pUSDC'', ''0xcc82628f6a8defa1e2b0ad7ed448bef3647f7941''),
    (''cUSDC'', ''0x2a3684e9dc20b857375ea04235f2f7edbe818fa7''),
    (''cUSDC_V2'', ''0xef4229c8c3250c675f21bcefa42f58efbff6002a''),
    (''pUSDC_V2'', ''0x1bfc26ce035c368503fae319cc2596716428ca44''),
    (''pUSD'', ''0xeadf4a7168a82d30ba0619e64d5bcf5b30b45226''),
    (''pCELO'', ''0x301a61d01a63c8d670c2b8a43f37d12ef181f997''),
    (''aaUSDC'', ''0xb70e0a782b058bfdb0d109a3599bec1f19328e36''),
    (''asUSDC'', ''0xcd7d7ff64746c1909e44db8e95331f9316478817''),
    (''mcUSDT'', ''0xcfffe0c89a779c09df3df5624f54cdf7ef5fdd5d''),
    (''mcUSDC'', ''0x93db49be12b864019da9cb147ba75cdc0506190e''),
    (''DAI'', ''0x90ca507a5d4458a4c6c6249d186b6dcb02a5bccd'')]"

definition FANTOM_TOKENS :: "string \<Rightarrow> Address" where
  "FANTOM_TOKENS = object [
    (''WFTM'', ''0x21be370d5312f44cb42ce377bc9b8a0cef1a4c83''),
    (''WETH'', ''0x74b23882a30290451a17c44f4f05243b6b58c76d''),
    (''USDC'', ''0x04068da6c83afcfa0e13ba15a6696662335d5b75''),
    (''DAI'', ''0x8d11ec38a3eb5e956b052f67da8bdc9bef8abf3e''),
    (''fUSDT'', ''0x049d68029688eabf473097a2fc38ef61633a3c7a''),
    (''WBTC'', ''0x321162cd933e2be498cd2267a90534a804051b11''),
    (''WCRV'', ''0x1e4f97b9f9f913c46f1632781732927b9019c68b''),
    (''renBTC'', ''0xdbf31df14b66535af65aac99c32e9ea844e14501''),
    (''MIM'', ''0x82f0b8b456c1a451378467398982d4834b6829c1''),
    (''nUSD'', ''0xed2a7edd7413021d440b09d654f3b87712abab66''),
    (''nETH'', ''0x67c10c397dd0ba417329543c1a40eb48aaa7cd00''),
    (''gfUSDT'', ''0x940f41f0ec9ba1a34cf001cc03347ac092f5f6b5''),
    (''gUSDC'', ''0xe578c856933d8e1082740bf7661e379aa2a30b26''),
    (''gDAI'', ''0x07e6332dd090d287d3489245038daf987955dcfb''),
    (''FRAX'', ''0xdc301622e621166bd8e82f2ca0a26c13ad0be355''),
    (''gFTM'', ''0x39b3bd37208cbade74d0fcbdbb12d606295b430a''),
    (''gETH'', ''0x25c130b2624cf12a4ea30143ef50c5d68cefa22f''),
    (''gWBTC'', ''0x38aca5484b8603373acc6961ecd57a6a594510a3''),
    (''gCRV'', ''0x690754a168b022331caa2467207c61919b3f8a98''),
    (''gMIM'', ''0xc664fc7b8487a3e10824cda768c1d239f2403bbe''),
    (''WOO'', ''0x6626c47c00f1d87902fc13eecfac3ed06d5e8d8a''),
    (''USDT'', ''0x049d68029688eabf473097a2fc38ef61633a3c7a''),
    (''alUSD'', ''0xb67fa6defce4042070eb1ae1511dcd6dcc6a532e'')]"

definition OPTIMISM_TOKENS :: "string \<Rightarrow> Address" where
  "OPTIMISM_TOKENS = object [
    (''ETH'', ''0xeeeeeeeeeeeeeeeeeeeeeeeeeeeeeeeeeeeeeeee''),
    (''WETH'', ''0x4200000000000000000000000000000000000006''),
    (''USDC'', ''0x7f5c764cbc14f9669b88837ca1490cca17c31607''),
    (''USDT'', ''0x94b008aa00579c1307b0ef2c499ad98a8ce58e58''),
    (''DAI'', ''0xda10009cbd5d07dd0cecc66161fc93d7c9000da1''),
    (''FRAX'', ''0x2e3d870790dc77a83dd1d18184acc7439a53f475''),
    (''WBTC'', ''0x68f180fcce6836688e9084f035309e29bf0a2095''),
    (''nETH'', ''0x809dc529f07651bd43a172e8db6f4a7a0d771036''),
    (''sWETH'', ''0x121ab82b49b2bc4c7901ca46b8277962b4350204''),
    (''sAAVE'', ''0x00b8d5a5e1ac97cb4341c4bc4367443c8776e8d9''),
    (''sAVAX'', ''0xb2b42b231c68cbb0b4bf2ffebf57782fd97d3da4''),
    (''sBTC'', ''0x298b9b95708152ff6968aafd889c6586e9169f1d''),
    (''sETH'', ''0xe405de8f52ba7559f9df3c368500b6e6ae6cee49''),
    (''sEUR'', ''0xfbc4198702e81ae77c06d58f81b629bdf36f0a71''),
    (''sLINK'', ''0xc5db22719a06418028a40a9b5e9a7c02959d0d08''),
    (''sMATIC'', ''0x81ddfac111913d3d5218dea999216323b7cd6356''),
    (''sSOL'', ''0x8b2f7ae8ca8ee8428b6d76de88326bb413db2766''),
    (''sUNI'', ''0xf5a6115aa582fd1beea22bc93b7dc7a785f60d03''),
    (''sUSD'', ''0x8c6f28f2f1a3c87f0f938b96d27520d9751ec8d9''),
    (''OP'', ''0x4200000000000000000000000000000000000042'')]"

definition ARBITRUM_TOKENS :: "string \<Rightarrow> Address" where
  "ARBITRUM_TOKENS = object [
    (''ETH'', ''0xeeeeeeeeeeeeeeeeeeeeeeeeeeeeeeeeeeeeeeee''),
    (''USDT'', ''0xfd086bc7cd5c481dcc9c85ebe478a1c0b69fcbb9''),
    (''USDC'', ''0xff970a61a04b1ca14834a43f5de4533ebddb5cc8''),
    (''FRAX'', ''0x17fc002b466eec40dae837fc4be5c67993ddbd6f''),
    (''nETH'', ''0x3ea9b0ab55f34fb188824ee288ceaefc63cf908e''),
    (''WETH'', ''0x82af49447d8a07e3bd95bd0d56f35241523fbab1''),
    (''nUSD'', ''0x2913e812cf0dcca30fb28e6cac3d2dcff4497688''),
    (''MIM'', ''0xfea7a6a0b346362bf88a9e4a88416b77a57d6c2a''),
    (''WBTC'', ''0x2f2a2543b76a4166549f7aab2e75bef0aefc5b0f''),
    (''VST'', ''0x64343594ab9b56e99087bfa6f2335db24c2d1f17''),
    (''WOO'', ''0xcafcd85d8ca7ad1e1c6f82f651fa15e33aefd07b'')]"

definition REBASING_TOKENS :: "Address list" where
  "REBASING_TOKENS = [
    MAINNET_TOKENS ''stETH'']"

definition WOOFI_SUPPORTED_TOKENS :: "Address list" where
  "WOOFI_SUPPORTED_TOKENS = [
    BSC_TOKENS ''BUSD'', BSC_TOKENS ''WBNB'', BSC_TOKENS ''WOO'', BSC_TOKENS ''WETH'', BSC_TOKENS ''BTCB'',
    AVALANCHE_TOKENS ''nUSDC'', AVALANCHE_TOKENS ''WAVAX'', AVALANCHE_TOKENS ''BTCb'', AVALANCHE_TOKENS ''WETH'',
    AVALANCHE_TOKENS ''WOO'', FANTOM_TOKENS ''USDC'', FANTOM_TOKENS ''WFTM'', FANTOM_TOKENS ''WETH'',
    FANTOM_TOKENS ''WBTC'', FANTOM_TOKENS ''WOO'', POLYGON_TOKENS ''USDC'', POLYGON_TOKENS ''WMATIC'',
    POLYGON_TOKENS ''WBTC'', POLYGON_TOKENS ''WETH'', POLYGON_TOKENS ''WOO'', ARBITRUM_TOKENS ''ETH'',
    ARBITRUM_TOKENS ''USDC'', ARBITRUM_TOKENS ''WETH'', ARBITRUM_TOKENS ''WBTC'', ARBITRUM_TOKENS ''WOO'',
    OPTIMISM_TOKENS ''ETH'', OPTIMISM_TOKENS ''USDC'', OPTIMISM_TOKENS ''WETH'', OPTIMISM_TOKENS ''WBTC'',
    OPTIMISM_TOKENS ''OP'']"

section \<open>Pools\<close>

definition SADDLE_MAINNET_POOLS :: "string \<Rightarrow> Address" where
  "SADDLE_MAINNET_POOLS = object [
    (''stablesV2'', ''0xacb83e0633d6605c5001e2ab59ef3c745547c8c7''),
    (''alETH'', ''0xa6018520eaacc06c30ff2e1b3ee2c7c22e64196a''),
    (''d4'', ''0xc69ddcd4dfef25d8a793241834d4cc4b3668ead6''),
    (''4Pool'', ''0x101cd330d088634b6f64c2eb4276e63bf1bbfde3''),
    (''fraxBP'', ''0x13cc34aa8037f722405285ad2c82fe570bfa2bdc''),
    (''frax3Pool'', ''0x8caea59f3bf1f341f89c51607e4919841131e47a''),
    (''usx'', ''0x2bff1b48cc01284416e681b099a0cddca0231d72''),
    (''susdMetaPoolV3'', ''0x4568727f50c7246ded8c39214ed6ff3c157f080d''),
    (''fraxAlusdMetaPool'', ''0xfb516cf3710fc6901f2266aaeb8834cf5e4e9558''),
    (''fraxSusdMetaPool'', ''0x69baa0d7c2e864b74173922ca069ac79d3be1556'')]"

definition SADDLE_OPTIMISM_POOLS :: "string \<Rightarrow> Address" where
  "SADDLE_OPTIMISM_POOLS = object [
    (''fraxBP'', ''0xf6c2e0adc659007ba7c48446f5a4e4e94dfe08b5'')]"

definition SADDLE_ARBITRUM_POOLS :: "string \<Rightarrow> Address" where
  "SADDLE_ARBITRUM_POOLS = object [
    (''arbUSDPoolV2'', ''0xfeea4d1bacb0519e8f952460a70719944fe56ee0''),
    (''fraxBP'', ''0x401afbc31ad2a3bc0ed8960d63efcdea749b4849'')]"

definition IRONSWAP_POOLS :: "string \<Rightarrow> Address" where
  "IRONSWAP_POOLS = object [
    (''is3usd'', ''0x837503e8a8753ae17fb8c8151b8e6f586defcb57'')]"

definition NERVE_POOLS :: "string \<Rightarrow> Address" where
  "NERVE_POOLS = object [
    (''threePool'', ''0x1b3771a66ee31180906972580ade9b81afc5fcdc'')]"

definition SYNAPSE_MAINNET_POOLS :: "string \<Rightarrow> Address" where
  "SYNAPSE_MAINNET_POOLS = object [
    (''nUSDLP'', ''0x1116898dda4015ed8ddefb84b6e8bc24528af2d8'')]"

definition SYNAPSE_OPTIMISM_POOLS :: "string \<Rightarrow> Address" where
  "SYNAPSE_OPTIMISM_POOLS = object [
    (''nETHLP'', ''0xe27bff97ce92c3e1ff7aa9f86781fdd6d48f5ee9'')]"

definition SYNAPSE_BSC_POOLS :: "string \<Rightarrow> Address" where
  "SYNAPSE_BSC_POOLS = object [
    (''nUSDLP'', ''0x28ec0b36f0819ecb5005cab836f4ed5a2eca4d13'')]"

definition SYNAPSE_POLYGON_POOLS :: "string \<Rightarrow> Address" where
  "SYNAPSE_POLYGON_POOLS = object [
    (''nUSDLP'', ''0x85fcd7dd0a1e1a9fcd5fd886ed522de8221c3ee5'')]"

definition SYNAPSE_FANTOM_POOLS :: "string \<Rightarrow> Address" where
  "SYNAPSE_FANTOM_POOLS = object [
    (''nUSDLP'', ''0x2913e812cf0dcca30fb28e6cac3d2dcff4497688''),
    (''nETHLP'', ''0x8d9ba570d6cb60c7e3e0f31343efe75ab8e65fb1'')]"

definition SYNAPSE_AVALANCHE_POOLS :: "string \<Rightarrow> Address" where
  "SYNAPSE_AVALANCHE_POOLS = object [
    (''nUSDLP'', ''0xed2a7edd7413021d440b09d654f3b87712abab66''),
    (''nETHLP'', ''0x77a7e60555bc18b4be44c181b2575eee46212d44'')]"

definition SYNAPSE_ARBITRUM_POOLS :: "string \<Rightarrow> Address" where
  "SYNAPSE_ARBITRUM_POOLS = object [
    (''nUSDLP'', ''0x0db3fe3b770c95a0b99d1ed6f2627933466c0dd8''),
    (''nETHLP'', ''0xa067668661c84476afcdc6fa5d758c4c01c34352'')]"

definition FIREBIRDONESWAP_BSC_POOLS :: "string \<Rightarrow> Address" where
  "FIREBIRDONESWAP_BSC_POOLS = object [
    (''oneswap'', ''0x01c9475dbd36e46d1961572c8de24b74616bae9e'')]"

definition FIREBIRDONESWAP_POLYGON_POOLS :: "string \<Rightarrow> Address" where
  "FIREBIRDONESWAP_POLYGON_POOLS = object [
    (''oneswap'', ''0x01c9475dbd36e46d1961572c8de24b74616bae9e'')]"

definition MOBIUSMONEY_CELO_POOLS :: "string \<Rightarrow> Address" where
  "MOBIUSMONEY_CELO_POOLS = object [
    (''usdc_optics_v2'', ''0x9906589ea8fd27504974b7e8201df5bbde986b03''),
    (''dai_optics_v2'', ''0xf3f65dfe0c8c8f2986da0fec159abe6fd4e700b4''),
    (''weth_optics_v2'', ''0x74ef28d635c6c5800dd3cd62d4c4f8752daacb09''),
    (''pusdc_optics_v2'', ''0xcce0d62ce14fb3e4363eb92db37ff3630836c252''),
    (''usdc_allbridge_solana'', ''0x63c1914bf00a9b395a2bf89aada55a5615a3656e''),
    (''usdc_poly_optics'', ''0xa2f0e57d4ceacf025e81c76f28b9ad6e9fbe8735'')]"

definition PLATYPUS_AVALANCHE_POOLS :: "string \<Rightarrow> Address" where
  "PLATYPUS_AVALANCHE_POOLS = object [
    (''usd'', ''0x66357dcace80431aee0a7507e2e361b7e2402370''),
    (''yusd'', ''0xc828d995c686aaba78a4ac89dfc8ec0ff4c5be83''),
    (''frax'', ''0xb8e567fc23c39c94a1f6359509d7b43d1fbed824''),
    (''mim'', ''0x30c30d826be87cd0a4b90855c2f38f7fcfe4eaa7''),
    (''sAVAX'', ''0x4658ea7e9960d6158a261104aaa160cc953bb6ba'')]"

section \<open>Routers, registries and vaults\<close>

definition WOOFI_ROUTER_BY_CHAIN_ID :: "ChainId \<Rightarrow> Address" where
  "WOOFI_ROUTER_BY_CHAIN_ID = valueByChainId [
    (BSC, ''0xc90bfe9951a4efbf20aca5ecd9966b2bf8a01294''), (Fantom, ''0x382a9b0bc5d29e96c3a0b81ce9c64d6c8f150efb''),
    (Avalanche, ''0xc22fbb3133df781e6c25ea6acebe2d2bb8cea2f9''),
    (Polygon, ''0x817eb46d60762442da3d931ff51a30334ca39b74''),
    (Arbitrum, ''0x9aed3a8896a85fe9a8cac52c9b402d092b629a30''),
    (Optimism, ''0xeaf1ac8e89ea0ae13e0f03634a4ff23502527024'')] NULL_ADDRESS"

definition UNISWAPV1_ROUTER_BY_CHAIN_ID :: "ChainId \<Rightarrow> Address" where
  "UNISWAPV1_ROUTER_BY_CHAIN_ID = valueByChainId [
    (Mainnet, ''0xc0a47dfe034b400b47bdad5fecda2621de6c4d95''),
    (Goerli, ''0x6ce570d02d73d4c384b46135e87f8c592a8c86da'')] NULL_ADDRESS"

definition UNISWAPV2_ROUTER_BY_CHAIN_ID :: "ChainId \<Rightarrow> Address" where
  "UNISWAPV2_ROUTER_BY_CHAIN_ID = valueByChainId [
    (Mainnet, ''0xf164fc0ec4e93095b804a4795bbe1e041497b92a''),
    (Goerli, ''0xf164fc0ec4e93095b804a4795bbe1e041497b92a'')] NULL_ADDRESS"

definition SUSHISWAP_ROUTER_BY_CHAIN_ID :: "ChainId \<Rightarrow> Address" where
  "SUSHISWAP_ROUTER_BY_CHAIN_ID = valueByChainId [
    (Mainnet, ''0xd9e1ce17f2641f24ae83637ab66a2cca9c378b9f''), (BSC, ''0x1b02da8cb0d097eb8d57a175b88c7d8b47997506''),
    (Goerli, ''0x1b02da8cb0d097eb8d57a175b88c7d8b47997506''),
    (Polygon, ''0x1b02da8cb0d097eb8d57a175b88c7d8b47997506''),
    (Avalanche, ''0x1b02da8cb0d097eb8d57a175b88c7d8b47997506''),
    (Fantom, ''0x1b02da8cb0d097eb8d57a175b88c7d8b47997506''), (Celo, ''0x1421bde4b10e8dd459b3bcb598810b1337d56842''),
    (Arbitrum, ''0x1b02da8cb0d097eb8d57a175b88c7d8b47997506'')] NULL_ADDRESS"

definition CRYPTO_COM_ROUTER_BY_CHAIN_ID :: "ChainId \<Rightarrow> Address" where
  "CRYPTO_COM_ROUTER_BY_CHAIN_ID = valueByChainId [
    (Mainnet, ''0xceb90e4c17d626be0facd78b79c9c87d7ca181b3'')] NULL_ADDRESS"

definition SHIBASWAP_ROUTER_BY_CHAIN_ID :: "ChainId \<Rightarrow> Address" where
  "SHIBASWAP_ROUTER_BY_CHAIN_ID = valueByChainId [
    (Mainnet, ''0x03f7724180aa6b939894b5ca4314783b0b36b329'')] NULL_ADDRESS"

definition DYSTOPIA_ROUTER_BY_CHAIN_ID :: "ChainId \<Rightarrow> Address" where
  "DYSTOPIA_ROUTER_BY_CHAIN_ID = valueByChainId [
    (Polygon, ''0xbe75dd16d029c6b32b7ad57a0fd9c1c20dd2862e'')] NULL_ADDRESS"

definition KYBER_DMM_ROUTER_BY_CHAIN_ID :: "ChainId \<Rightarrow> Address" where
  "KYBER_DMM_ROUTER_BY_CHAIN_ID = valueByChainId [
    (Mainnet, ''0x1c87257f5e8609940bc751a07bb085bb7f8cdbe6''),
    (Polygon, ''0x546c79662e028b661dfb4767664d0273184e4dd1''), (BSC, ''0x78df70615ffc8066cc0887917f2cd72092c86409''),
    (Avalanche, ''0x8efa5a9ad6d594cf76830267077b78ce0bc5a5f8''),
    (Fantom, ''0x5d5a5a0a465129848c2549669e12cdc2f8de039a'')] NULL_ADDRESS"

definition BISWAP_ROUTER_BY_CHAIN_ID :: "ChainId \<Rightarrow> Address" where
  "BISWAP_ROUTER_BY_CHAIN_ID = valueByChainId [
    (BSC, ''0x3a6d8ca21d1cf76f653a67577fa0d27453350dd8'')] NULL_ADDRESS"

definition MDEX_ROUTER_BY_CHAIN_ID :: "ChainId \<Rightarrow> Address" where
  "MDEX_ROUTER_BY_CHAIN_ID = valueByChainId [
    (BSC, ''0x7dae51bd3e3376b8c7c4900e9107f12be3af1ba8'')] NULL_ADDRESS"

definition KNIGHTSWAP_ROUTER_BY_CHAIN_ID :: "ChainId \<Rightarrow> Address" where
  "KNIGHTSWAP_ROUTER_BY_CHAIN_ID = valueByChainId [
    (BSC, ''0x05e61e0cdcd2170a76f9568a110cee3afdd6c46f'')] NULL_ADDRESS"

definition MOONISWAP_REGISTRIES_BY_CHAIN_ID :: "ChainId \<Rightarrow> Address list" where
  "MOONISWAP_REGISTRIES_BY_CHAIN_ID = valueByChainId [
    (BSC, [''0xd41b24bba51fac0e4827b6f94c0d6ddeb183cd64''])] []"

definition DODOV2_FACTORIES_BY_CHAIN_ID :: "ChainId \<Rightarrow> Address list" where
  "DODOV2_FACTORIES_BY_CHAIN_ID = valueByChainId [
    (Mainnet, [''0x6b4fa0bc61eddc928e0df9c7f01e407bfcd3e5ef'', ''0x72d220ce168c4f361dd4dee5d826a01ad8598f6c'',
     ''0x6fddb76c93299d985f4d3fc7ac468f9a168577a4'']),
    (BSC, [''0xafe0a75dffb395eaabd0a7e1bbbd0b11f8609eef'', ''0x790b4a80fb1094589a3c0efc8740aa9b0c1733fb'',
     ''0x0fb9815938ad069bf90e14fe6c596c514bede767'']),
    (Polygon, [''0x95e887adf9eaa22cc1c6e3cb7f07adc95b4b25a8'', ''0x79887f65f83bdf15bcc8736b5e5bcdb48fb8fe13'',
     ''0x43c49f8dd240e1545f147211ec9f917376ac1e87'']),
    (Arbitrum, [''0xa6cf3d163358af376ec5e8b7cc5e102a05fde63d'', ''0xda4c4411c55b0785e501332354a036c04833b72b'',
     ''0xc8fe2440744dcd733246a4db14093664defd5a53''])] []"

definition BANCOR_REGISTRY_BY_CHAIN_ID :: "ChainId \<Rightarrow> Address" where
  "BANCOR_REGISTRY_BY_CHAIN_ID = valueByChainId [
    (Mainnet, ''0x52ae12abe5d8bd778bd5397f99ca900624cfadd4'')] NULL_ADDRESS"

definition BANCORV3_NETWORK_BY_CHAIN_ID :: "ChainId \<Rightarrow> Address" where
  "BANCORV3_NETWORK_BY_CHAIN_ID = valueByChainId [
    (Mainnet, ''0xeef417e1d5cc832e619ae18d2f140de2999dd4fb'')] NULL_ADDRESS"

definition BANCORV3_NETWORK_INFO_BY_CHAIN_ID :: "ChainId \<Rightarrow> Address" where
  "BANCORV3_NETWORK_INFO_BY_CHAIN_ID = valueByChainId [
    (Mainnet, ''0x8e303d296851b320e6a697bacb979d13c9d6e760'')] NULL_ADDRESS"

definition BALANCER_V2_VAULT_ADDRESS_BY_CHAIN :: "ChainId \<Rightarrow> Address" where
  "BALANCER_V2_VAULT_ADDRESS_BY_CHAIN = valueByChainId [
    (Mainnet, ''0xba12222222228d8ba445958a75a0704d566bf2c8''),
    (Polygon, ''0xba12222222228d8ba445958a75a0704d566bf2c8''),
    (Arbitrum, ''0xba12222222228d8ba445958a75a0704d566bf2c8''),
    (Fantom, ''0x20dd72ed959b6147912c2e529f0a0c651c33c9ce''),
    (Optimism, ''0xba12222222228d8ba445958a75a0704d566bf2c8'')] NULL_ADDRESS"

definition BALANCER_V2_SUBGRAPH_URL_BY_CHAIN :: "ChainId \<Rightarrow> string option" where
  "BALANCER_V2_SUBGRAPH_URL_BY_CHAIN = valueByChainId [
    (Mainnet, Some ''https://api.thegraph.com/subgraphs/name/balancer-labs/balancer-v2''),
    (Polygon, Some ''https://api.thegraph.com/subgraphs/name/balancer-labs/balancer-polygon-v2''),
    (Arbitrum, Some ''https://api.thegraph.com/subgraphs/name/balancer-labs/balancer-arbitrum-v2''),
    (Fantom, Some ''https://api.thegraph.com/subgraphs/name/beethovenxfi/beethovenx''),
    (Optimism, Some ''https://api.thegraph.com/subgraphs/name/beethovenxfi/beethovenx-optimism'')] None"

definition AAVE_V2_SUBGRAPH_URL_BY_CHAIN_ID :: "ChainId \<Rightarrow> string option" where
  "AAVE_V2_SUBGRAPH_URL_BY_CHAIN_ID = valueByChainId [
    (Mainnet, Some ''https://api.thegraph.com/subgraphs/name/aave/protocol-v2''),
    (Polygon, Some ''https://api.thegraph.com/subgraphs/name/aave/aave-v2-matic''),
    (Avalanche, Some ''https://api.thegraph.com/subgraphs/name/aave/protocol-v2-avalanche'')] None"

definition AAVE_V3_SUBGRAPH_URL_BY_CHAIN_ID :: "ChainId \<Rightarrow> string option" where
  "AAVE_V3_SUBGRAPH_URL_BY_CHAIN_ID = valueByChainId [
    (Polygon, Some ''https://api.thegraph.com/subgraphs/name/aave/protocol-v3-polygon''),
    (Avalanche, Some ''https://api.thegraph.com/subgraphs/name/aave/protocol-v3-avalanche''),
    (Arbitrum, Some ''https://api.thegraph.com/subgraphs/name/aave/protocol-v3-arbitrum''),
    (Optimism, Some ''https://api.thegraph.com/subgraphs/name/aave/protocol-v3-optimism'')] None"

definition AAVE_V3_L2_ENCODERS_BY_CHAIN_ID :: "ChainId \<Rightarrow> Address" where
  "AAVE_V3_L2_ENCODERS_BY_CHAIN_ID = valueByChainId [
    (Arbitrum, ''0x9abadecd08572e0ea5af4d47a9c7984a5aa503dc''),
    (Optimism, ''0x9abadecd08572e0ea5af4d47a9c7984a5aa503dc'')] NULL_ADDRESS"

definition COMPOUND_API_URL_BY_CHAIN_ID :: "ChainId \<Rightarrow> string option" where
  "COMPOUND_API_URL_BY_CHAIN_ID = valueByChainId [
    (Mainnet, Some ''https://api.compound.finance/api/v2'')] None"

definition PANCAKESWAP_ROUTER_BY_CHAIN_ID :: "ChainId \<Rightarrow> Address" where
  "PANCAKESWAP_ROUTER_BY_CHAIN_ID = valueByChainId [
    (BSC, ''0x05ff2b0db69458a0750badebc4f9e13add608c7f'')] NULL_ADDRESS"

definition PANCAKESWAPV2_ROUTER_BY_CHAIN_ID :: "ChainId \<Rightarrow> Address" where
  "PANCAKESWAPV2_ROUTER_BY_CHAIN_ID = valueByChainId [
    (BSC, ''0x10ed43c718714eb63d5aa57b78b54704e256024e'')] NULL_ADDRESS"

definition BAKERYSWAP_ROUTER_BY_CHAIN_ID :: "ChainId \<Rightarrow> Address" where
  "BAKERYSWAP_ROUTER_BY_CHAIN_ID = valueByChainId [
    (BSC, ''0xcde540d7eafe93ac5fe6233bee57e1270d3e330f'')] NULL_ADDRESS"

definition APESWAP_ROUTER_BY_CHAIN_ID :: "ChainId \<Rightarrow> Address" where
  "APESWAP_ROUTER_BY_CHAIN_ID = valueByChainId [
    (BSC, ''0xc0788a3ad43d79aa53b09c2eacc313a787d1d607''), (Polygon,
     ''0xc0788a3ad43d79aa53b09c2eacc313a787d1d607'')] NULL_ADDRESS"

definition QUICKSWAP_ROUTER_BY_CHAIN_ID :: "ChainId \<Rightarrow> Address" where
  "QUICKSWAP_ROUTER_BY_CHAIN_ID = valueByChainId [
    (Polygon, ''0xa5e0829caced8ffdd4de3c43696c57f7d7a678ff'')] NULL_ADDRESS"

definition DFYN_ROUTER_BY_CHAIN_ID :: "ChainId \<Rightarrow> Address" where
  "DFYN_ROUTER_BY_CHAIN_ID = valueByChainId [
    (Polygon, ''0xa102072a4c07f06ec3b4900fdc4c7b80b6c57429'')] NULL_ADDRESS"

definition WAULTSWAP_ROUTER_BY_CHAIN_ID :: "ChainId \<Rightarrow> Address" where
  "WAULTSWAP_ROUTER_BY_CHAIN_ID = valueByChainId [
    (BSC, ''0xd48745e39bbed146eec15b79cbf964884f9877c2''), (Polygon,
     ''0x3a1d87f206d12415f5b0a33e786967680aab4f6d'')] NULL_ADDRESS"

definition MESHSWAP_ROUTER_BY_CHAIN_ID :: "ChainId \<Rightarrow> Address" where
  "MESHSWAP_ROUTER_BY_CHAIN_ID = valueByChainId [
    (Polygon, ''0x10f4a785f458bc144e3706575924889954946639'')] NULL_ADDRESS"

definition PANGOLIN_ROUTER_BY_CHAIN_ID :: "ChainId \<Rightarrow> Address" where
  "PANGOLIN_ROUTER_BY_CHAIN_ID = valueByChainId [
    (Avalanche, ''0xe54ca86531e17ef3616d22ca28b0d458b6c89106'')] NULL_ADDRESS"

definition TRADER_JOE_ROUTER_BY_CHAIN_ID :: "ChainId \<Rightarrow> Address" where
  "TRADER_JOE_ROUTER_BY_CHAIN_ID = valueByChainId [
    (Avalanche, ''0x60ae616a2155ee3d9a68541ba4544862310933d4'')] NULL_ADDRESS"

definition UBESWAP_ROUTER_BY_CHAIN_ID :: "ChainId \<Rightarrow> Address" where
  "UBESWAP_ROUTER_BY_CHAIN_ID = valueByChainId [
    (Celo, ''0x7d28570135a2b1930f331c507f65039d4937f66c'')] NULL_ADDRESS"

definition MORPHEUSSWAP_ROUTER_BY_CHAIN_ID :: "ChainId \<Rightarrow> Address" where
  "MORPHEUSSWAP_ROUTER_BY_CHAIN_ID = valueByChainId [
    (Fantom, ''0x8ac868293d97761a1fed6d4a01e9ff17c5594aa3'')] NULL_ADDRESS"

definition SPIRITSWAP_ROUTER_BY_CHAIN_ID :: "ChainId \<Rightarrow> Address" where
  "SPIRITSWAP_ROUTER_BY_CHAIN_ID = valueByChainId [
    (Fantom, ''0x16327e3fbdaca3bcf7e38f5af2599d2ddc33ae52'')] NULL_ADDRESS"

definition SPOOKYSWAP_ROUTER_BY_CHAIN_ID :: "ChainId \<Rightarrow> Address" where
  "SPOOKYSWAP_ROUTER_BY_CHAIN_ID = valueByChainId [
    (Fantom, ''0xf491e7b69e4244ad4002bc14e878a34207e38c29'')] NULL_ADDRESS"

definition GMX_ROUTER_BY_CHAIN_ID :: "ChainId \<Rightarrow> Address" where
  "GMX_ROUTER_BY_CHAIN_ID = valueByChainId [
    (Avalanche, ''0x5f719c2f1095f7b9fc68a68e35b51194f4b6abe8''),
    (Arbitrum, ''0xabbc5f99639c9b6bcb58544ddf04efa6802f4064'')] NULL_ADDRESS"

definition GMX_READER_BY_CHAIN_ID :: "ChainId \<Rightarrow> Address" where
  "GMX_READER_BY_CHAIN_ID = valueByChainId [
    (Avalanche, ''0x67b789d48c926006f5132bfce4e976f0a7a63d5d''),
    (Arbitrum, ''0x22199a49a999c351ef7927602cfb187ec3cae489'')] NULL_ADDRESS"

definition GMX_VAULT_BY_CHAIN_ID :: "ChainId \<Rightarrow> Address" where
  "GMX_VAULT_BY_CHAIN_ID = valueByChainId [
    (Avalanche, ''0x9ab2de34a33fb459b538c43f251eb825645e8595''),
    (Arbitrum, ''0x489ee077994b6658eafa855c308275ead8097c4a'')] NULL_ADDRESS"

definition PLATYPUS_ROUTER_BY_CHAIN_ID :: "ChainId \<Rightarrow> Address" where
  "PLATYPUS_ROUTER_BY_CHAIN_ID = valueByChainId [
    (Avalanche, ''0x73256ec7575d999c360c1eec118ecbefd8da7d12'')] NULL_ADDRESS"

definition YOSHI_ROUTER_BY_CHAIN_ID :: "ChainId \<Rightarrow> Address" where
  "YOSHI_ROUTER_BY_CHAIN_ID = valueByChainId [
    (Fantom, ''0xe4a4642b19c4d0cba965673cd51422b1eda0a78d'')] NULL_ADDRESS"

definition VELODROME_ROUTER_BY_CHAIN_ID :: "ChainId \<Rightarrow> Address" where
  "VELODROME_ROUTER_BY_CHAIN_ID = valueByChainId [
    (Optimism, ''0xa132dab612db5cb9fc9ac426a0cc215a3423f9c9'')] NULL_ADDRESS"

definition SYNTHETIX_READ_PROXY_BY_CHAIN_ID :: "ChainId \<Rightarrow> Address" where
  "SYNTHETIX_READ_PROXY_BY_CHAIN_ID = valueByChainId [
    (Mainnet, ''0x4e3b31eb0e5cb73641ee1e65e7dcefe520ba3ef2''),
    (Optimism, ''0x1cb059b7e74fd21665968c908806143e744d5f30'')] NULL_ADDRESS"

record DodoConfig =
  dodo_helper :: Address
  dodo_registry :: Address

definition DODOV1_CONFIG_BY_CHAIN_ID :: "ChainId \<Rightarrow> DodoConfig" where
  "DODOV1_CONFIG_BY_CHAIN_ID = valueByChainId [
    (Mainnet, \<lparr>dodo_helper = ''0x533da777aedce766ceae696bf90f8541a4ba80eb'',
     dodo_registry = ''0x3a97247df274a17c59a3bd12735ea3fcdfb49950''\<rparr>),
    (BSC, \<lparr>dodo_helper = ''0x0f859706aee7fcf61d5a8939e8cb9dbb6c1eda33'',
     dodo_registry = ''0xca459456a45e300aa7ef447dbb60f87cccb42828''\<rparr>),
    (Polygon, \<lparr>dodo_helper = ''0xdfaf9584f5d229a9dbe5978523317820a8897c5a'',
     dodo_registry = ''0x357c5e9cfa8b834edcef7c7aabd8f9db09119d11''\<rparr>)] \<lparr>dodo_helper = NULL_ADDRESS,
     dodo_registry = NULL_ADDRESS\<rparr>"

record UniswapV3Config =
  v3_factory :: Address
  v3_router :: Address

definition UNISWAPV3_CONFIG_BY_CHAIN_ID :: "ChainId \<Rightarrow> UniswapV3Config" where
  "UNISWAPV3_CONFIG_BY_CHAIN_ID = valueByChainId [
    (Mainnet, \<lparr>v3_factory = ''0x1f98431c8ad98523631ae4a59f267346ea31f984'',
     v3_router = ''0xe592427a0aece92de3edee1f18e0157c05861564''\<rparr>),
    (Goerli, \<lparr>v3_factory = ''0x1f98431c8ad98523631ae4a59f267346ea31f984'',
     v3_router = ''0xe592427a0aece92de3edee1f18e0157c05861564''\<rparr>),
    (PolygonMumbai, \<lparr>v3_factory = ''0x1f98431c8ad98523631ae4a59f267346ea31f984'',
     v3_router = ''0xe592427a0aece92de3edee1f18e0157c05861564''\<rparr>),
    (Polygon, \<lparr>v3_factory = ''0x1f98431c8ad98523631ae4a59f267346ea31f984'',
     v3_router = ''0xe592427a0aece92de3edee1f18e0157c05861564''\<rparr>),
    (Optimism, \<lparr>v3_factory = ''0x1f98431c8ad98523631ae4a59f267346ea31f984'',
     v3_router = ''0xe592427a0aece92de3edee1f18e0157c05861564''\<rparr>),
    (Arbitrum, \<lparr>v3_factory = ''0x1f98431c8ad98523631ae4a59f267346ea31f984'',
     v3_router = ''0xe592427a0aece92de3edee1f18e0157c05861564''\<rparr>)] \<lparr>v3_factory = NULL_ADDRESS,
     v3_router = NULL_ADDRESS\<rparr>"

record LidoInfo =
  stEthToken :: Address
  wstEthToken :: Address
  wethToken :: Address

definition LIDO_INFO_BY_CHAIN :: "ChainId \<Rightarrow> LidoInfo" where
  "LIDO_INFO_BY_CHAIN = valueByChainId [
    (Mainnet, \<lparr>stEthToken = MAINNET_TOKENS ''stETH'', wstEthToken = MAINNET_TOKENS ''wstETH'',
     wethToken = MAINNET_TOKENS ''WETH''\<rparr>)] \<lparr>stEthToken = NULL_ADDRESS, wstEthToken = NULL_ADDRESS,
     wethToken = NULL_ADDRESS\<rparr>"

text \<open>\<open>formatBytes32String\<close>, which pads a short string to 32 bytes, is an argument.\<close>

record PsmInfo =
  psmAddress :: Address
  ilkIdentifier :: string
  gemTokenAddress :: Address

definition MAKER_PSM_INFO_BY_CHAIN_ID :: "(string \<Rightarrow> string) \<Rightarrow> ChainId \<Rightarrow> PsmInfo" where
  "MAKER_PSM_INFO_BY_CHAIN_ID bytes32 = valueByChainId [
    (Mainnet, \<lparr>psmAddress = ''0x89b78cfa322f6c5de0abceecab66aee45393cc5a'', ilkIdentifier = bytes32 ''PSM-USDC-A'',
     gemTokenAddress = ''0xa0b86991c6218b36c1d19d4a2e9eb0ce3606eb48''\<rparr>)] \<lparr>psmAddress = NULL_ADDRESS,
     ilkIdentifier = ''0x'', gemTokenAddress = NULL_ADDRESS\<rparr>"

text \<open>Pools that trade any pair of their tokens, by name.\<close>

record ShellPool =
  shell_poolAddress :: Address
  shell_tokens :: "Address list"

definition MSTABLE_POOLS_BY_CHAIN_ID :: "ChainId \<Rightarrow> (string \<times> ShellPool) list" where
  "MSTABLE_POOLS_BY_CHAIN_ID = valueByChainId [
    (Mainnet, [(''mUSD'', \<lparr>shell_poolAddress = ''0xe2f2a5c287993345a840db3b0845fbc70f5935a5'',
     shell_tokens = [MAINNET_TOKENS ''DAI'', MAINNET_TOKENS ''USDC'', MAINNET_TOKENS ''USDT'']\<rparr>), (''mBTC'',
     \<lparr>shell_poolAddress = ''0x945facb997494cc2570096c74b5f66a3507330a1'', shell_tokens = [MAINNET_TOKENS ''WBTC'',
     MAINNET_TOKENS ''RenBTC'', MAINNET_TOKENS ''sBTC'']\<rparr>)]),
    (Polygon, [(''mUSD'', \<lparr>shell_poolAddress = ''0xe840b73e5287865eec17d250bfb1536704b43b21'',
     shell_tokens = [POLYGON_TOKENS ''DAI'', POLYGON_TOKENS ''USDC'', POLYGON_TOKENS ''USDT'']\<rparr>), (''mBTC'',
     \<lparr>shell_poolAddress = NULL_ADDRESS, shell_tokens = []\<rparr>)])] [(''mUSD'',
     \<lparr>shell_poolAddress = NULL_ADDRESS, shell_tokens = []\<rparr>), (''mBTC'',
     \<lparr>shell_poolAddress = NULL_ADDRESS, shell_tokens = []\<rparr>)]"

definition SHELL_POOLS_BY_CHAIN_ID :: "ChainId \<Rightarrow> (string \<times> ShellPool) list" where
  "SHELL_POOLS_BY_CHAIN_ID = valueByChainId [
    (Mainnet, [(''StableCoins'', \<lparr>shell_poolAddress = ''0x8f26d7bab7a73309141a291525c965ecdea7bf42'',
     shell_tokens = [MAINNET_TOKENS ''USDC'', MAINNET_TOKENS ''USDT'', MAINNET_TOKENS ''sUSD'',
     MAINNET_TOKENS ''DAI'']\<rparr>), (''Bitcoin'',
     \<lparr>shell_poolAddress = ''0xc2d019b901f8d4fdb2b9a65b5d226ad88c66ee8d'', shell_tokens = [MAINNET_TOKENS ''RenBTC'',
     MAINNET_TOKENS ''WBTC'', MAINNET_TOKENS ''sBTC'']\<rparr>)])] [(''StableCoins'',
     \<lparr>shell_poolAddress = NULL_ADDRESS, shell_tokens = []\<rparr>), (''Bitcoin'',
     \<lparr>shell_poolAddress = NULL_ADDRESS, shell_tokens = []\<rparr>)]"

definition COMPONENT_POOLS_BY_CHAIN_ID :: "ChainId \<Rightarrow> (string \<times> ShellPool) list" where
  "COMPONENT_POOLS_BY_CHAIN_ID = valueByChainId [
    (Mainnet, [(''USDP_USDC_USDT'', \<lparr>shell_poolAddress = ''0x49519631b404e06ca79c9c7b0dc91648d86f08db'',
     shell_tokens = [MAINNET_TOKENS ''USDP'', MAINNET_TOKENS ''USDC'', MAINNET_TOKENS ''USDT'']\<rparr>),
     (''USDP_DAI_SUSD'', \<lparr>shell_poolAddress = ''0x6477960dd932d29518d7e8087d5ea3d11e606068'',
     shell_tokens = [MAINNET_TOKENS ''USDP'', MAINNET_TOKENS ''DAI'',
     MAINNET_TOKENS ''sUSD'']\<rparr>)])] [(''USDP_USDC_USDT'', \<lparr>shell_poolAddress = NULL_ADDRESS,
     shell_tokens = []\<rparr>), (''USDP_DAI_SUSD'', \<lparr>shell_poolAddress = NULL_ADDRESS, shell_tokens = []\<rparr>)]"

definition SYNTHETIX_CURRENCY_KEYS_BY_CHAIN_ID :: "ChainId \<Rightarrow> (Address \<times> string) list" where
  "SYNTHETIX_CURRENCY_KEYS_BY_CHAIN_ID = valueByChainId [
    (Mainnet, [(MAINNET_TOKENS ''sAUD'', ''sAUD''), (MAINNET_TOKENS ''sBTC'', ''sBTC''), (MAINNET_TOKENS ''sCHF'',
     ''sCHF''), (MAINNET_TOKENS ''sETH'', ''sETH''), (MAINNET_TOKENS ''sEUR'', ''sEUR''), (MAINNET_TOKENS ''sGBP'',
     ''sGBP''), (MAINNET_TOKENS ''sJPY'', ''sJPY''), (MAINNET_TOKENS ''sKRW'', ''sKRW''), (MAINNET_TOKENS ''sUSD'',
     ''sUSD'')]),
    (Optimism, [(OPTIMISM_TOKENS ''sAAVE'', ''sAAVE''), (OPTIMISM_TOKENS ''sAVAX'', ''sAVAX''), (OPTIMISM_TOKENS ''sBTC'',
     ''sBTC''), (OPTIMISM_TOKENS ''sETH'', ''sETH''), (OPTIMISM_TOKENS ''sEUR'', ''sEUR''), (OPTIMISM_TOKENS ''sLINK'',
     ''sLINK''), (OPTIMISM_TOKENS ''sMATIC'', ''sMATIC''), (OPTIMISM_TOKENS ''sSOL'', ''sSOL''), (OPTIMISM_TOKENS ''sUNI'',
     ''sUNI''), (OPTIMISM_TOKENS ''sUSD'', ''sUSD'')])] []"

definition MAX_DODOV2_POOLS_QUERIED :: nat where
  "MAX_DODOV2_POOLS_QUERIED = 3"


section \<open>Lemmas\<close>

lemma object_eq_iff:
  assumes "distinct (map snd es)" "a \<in> fst ` set es" "b \<in> fst ` set es"
  shows "object es a = object es b \<longleftrightarrow> a = b"
proof
  assume eq: "object es a = object es b"
  obtain u v where "map_of es a = Some u" "map_of es b = Some v"
    using assms(2,3) by (metis map_of_eq_None_iff option.exhaust)
  with eq have "(a, u) \<in> set es" "(b, u) \<in> set es" by (auto simp: object_def dest: map_of_SomeD)
  with assms(1) show "a = b" by (metis distinct_map fst_conv inj_onD snd_conv)
qed simp

lemma object_lower:
  "list_all (\<lambda>e. toLowerCase (snd e) = snd e) es \<Longrightarrow> toLowerCase (object es k) = object es k"
  using map_of_SomeD[of es k]
  by (fastforce simp: object_def list_all_iff toLowerCase_def split: option.splits)

text \<open>The names of the mainnet tokens, which stand for different addresses, all in lower case.\<close>

definition mainnet_names :: "string list" where
  "mainnet_names = [''WETH'', ''DAI'', ''USDC'', ''USDT'', ''sUSD'', ''BUSD'', ''TUSD'', ''PAX'', ''GUSD'', ''HUSD'',
     ''mUSD'', ''USDN'', ''dUSD'', ''USDP'', ''USX'', ''WCUSD'', ''WBTC'', ''RenBTC'', ''sBTC'',
     ''tBTC'', ''tBTCv2'', ''hBTC'', ''pBTC'', ''bBTC'', ''oBTC'', ''aDAI'', ''aUSDC'', ''aUSDT'',
     ''aSUSD'', ''MKR'', ''EURS'', ''sEUR'', ''sETH'', ''sJPY'', ''sGBP'', ''sAUD'', ''sKRW'', ''sCHF'',
     ''stETH'', ''wstETH'', ''LINK'', ''MANA'', ''KNC'', ''AAVE'', ''sLINK'', ''yUSD'', ''ybCRV'',
     ''yCRV'', ''ynCRV'', ''bCRV'', ''yDAI'', ''yUSDC'', ''yUSDT'', ''yTUSD'', ''crETH'', ''ankrETH'',
     ''vETH'', ''alETH'', ''HT'', ''UST'', ''STABLEx'', ''alUSD'', ''FRAX'', ''cvxFXS'', ''FXS'',
     ''OHM'', ''OHMV2'', ''BTRFLY'', ''STG'', ''LUSD'', ''FEI'', ''TRIBE'', ''DSU'', ''ESS'', ''cvxCRV'',
     ''CRV'', ''MIM'', ''EURT'', ''nUSD'', ''CVX'', ''UST_WORMHOLE'', ''RAI'', ''DOLA'', ''OUSD'',
     ''agEUR'', ''ibEUR'', ''YFI'', ''LUSDCRV'', ''bLUSD'', ''rsr'', ''crvFRAX'', ''cUSDC'', ''cDAI'',
     ''cWBTC'']"

lemma MAINNET_TOKENS_eq_iff:
  "a \<in> set mainnet_names \<Longrightarrow> b \<in> set mainnet_names \<Longrightarrow> MAINNET_TOKENS a = MAINNET_TOKENS b \<longleftrightarrow> a = b"
  unfolding MAINNET_TOKENS_def mainnet_names_def by (rule object_eq_iff) simp_all

lemma MAINNET_TOKENS_lower [simp]: "toLowerCase (MAINNET_TOKENS k) = MAINNET_TOKENS k"
  unfolding MAINNET_TOKENS_def by (rule object_lower) code_simp

end
