(* ===== verification/Pool_Tables.thy ===== *)
theory Pool_Tables
  imports Token_Tables
begin

text \<open>
  Pools of Curve and of the sources that imitate it: \<open>curve.ts\<close> and the tables of \<open>constants.ts\<close> that give for every pool its
  address, the selectors of its functions, its tokens in the order of their indices and its gas.
\<close>

text \<open>An object literal with computed keys: a key written twice keeps its first place and its last value.\<close>

definition js_object :: "(string \<times> 'a) list \<Rightarrow> (string \<times> 'a) list" where
  "js_object entries = foldl (\<lambda>m e. AList.update (fst e) (snd e) m) [] entries"

section \<open>Selectors\<close>

definition CurveFunctionSelectors :: "string \<Rightarrow> string" where
  "CurveFunctionSelectors = object [
    (''None'', ''0x00000000''), (''exchange'', ''0x3df02124''), (''exchange_underlying'', ''0xa6417ed6''),
    (''get_dy_underlying'', ''0x07211ef7''), (''get_dx_underlying'', ''0x0e71d1b9''), (''get_dy'', ''0x5e0d443f''),
    (''get_dx'', ''0x67df02ca''), (''get_dy_uint256'', ''0x556d6e9f''),
    (''exchange_underlying_uint256'', ''0x65b2489b''), (''exchange_v2'', ''0x5b41b908''),
    (''exchange_underlying_v2'', ''0x65b2489b''), (''get_dy_v2'', ''0x556d6e9f''),
    (''get_dy_underlying_v2'', ''0x85f11d1e''), (''swap'', ''0x91695586''), (''calculateSwap'', ''0xa95b089f''),
    (''calculateSwapUnderlying'', ''0x75d8e3e4''), (''swapUnderlying'', ''0x78e0fae8'')]"

section \<open>Tokens and addresses of pools\<close>

definition CURVE_TRI_POOL_MAINNET_TOKENS :: "Address list" where
  "CURVE_TRI_POOL_MAINNET_TOKENS = [MAINNET_TOKENS ''DAI'', MAINNET_TOKENS ''USDC'', MAINNET_TOKENS ''USDT'']"

definition CURVE_TRI_BTC_POOL_TOKEN :: "Address list" where
  "CURVE_TRI_BTC_POOL_TOKEN = [MAINNET_TOKENS ''RenBTC'', MAINNET_TOKENS ''WBTC'', MAINNET_TOKENS ''sBTC'']"

definition CURVE_POLYGON_ATRICRYPTO_UNDERLYING_TOKENS :: "Address list" where
  "CURVE_POLYGON_ATRICRYPTO_UNDERLYING_TOKENS = [POLYGON_TOKENS ''DAI'', POLYGON_TOKENS ''USDC'', POLYGON_TOKENS ''USDT'']"

definition CURVE_POLYGON_ATRICRYPTO_TOKENS :: "Address list" where
  "CURVE_POLYGON_ATRICRYPTO_TOKENS = [POLYGON_TOKENS ''amDAI'', POLYGON_TOKENS ''amUSDC'', POLYGON_TOKENS ''amUSDT'']"

definition CURVE_FANTOM_TWO_POOL_TOKENS :: "Address list" where
  "CURVE_FANTOM_TWO_POOL_TOKENS = [FANTOM_TOKENS ''DAI'', FANTOM_TOKENS ''USDC'']"

definition CURVE_ARBITRUM_TWO_POOL_TOKENS :: "Address list" where
  "CURVE_ARBITRUM_TWO_POOL_TOKENS = [ARBITRUM_TOKENS ''USDC'', ARBITRUM_TOKENS ''USDT'']"

definition CURVE_POOLS :: "string \<Rightarrow> Address" where
  "CURVE_POOLS = object [
    (''compound'', ''0xa2b47e3d5c44877cca798226b7b8118f9bfb7a56''),
    (''PAX'', ''0x06364f10b501e868329afbc005b3492902d6c763''),
    (''sUSD'', ''0xa5407eae9ba41422680e2e00537571bcc53efbfd''),
    (''renBTC'', ''0x93054188d876f558f4a66b2ef1d97d16edf0895b''),
    (''sBTC'', ''0x7fc77b5c7614e1533320ea6ddc2eb61fa00a9714''),
    (''HBTC'', ''0x4ca9b3063ec5866a4b82e437059d2c43d1be596f''),
    (''TRI'', ''0xbebc44782c7db0a1a60cb6fe97d0b483032ff1c7''),
    (''GUSD'', ''0x4f062658eaaf2c1ccf8c8e36d6824cdf41167956''),
    (''HUSD'', ''0x3ef6a01a0f81d6046290f3e2a8c5b843e738e604''),
    (''USDN'', ''0x0f9cb53ebe405d49a0bbdbd291a65ff571bc83e1''),
    (''mUSD'', ''0x8474ddbe98f5aa3179b3b3f5942d724afcdec9f6''),
    (''dUSD'', ''0x8038c01a0390a8c547446a0b2c18fc9aefecc10c''),
    (''tBTC'', ''0xc25099792e9349c7dd09759744ea681c7de2cb66''),
    (''pBTC'', ''0x7f55dde206dbad629c080068923b36fe9d6bdbef''),
    (''bBTC'', ''0x071c661b4deefb59e2a3ddb20db036821eee8f4b''),
    (''oBTC'', ''0xd81da8d904b52208541bade1bd6595d8a251f8dd''),
    (''UST'', ''0x890f4e345b1daed0367a877a1612f86a1f86985f''),
    (''eurs'', ''0x0ce6a5ff5217e38315f87032cf90686c96627caa''),
    (''seth'', ''0xc5424b857f758e906013f3555dad202e4bdb4567''),
    (''aave'', ''0xdebf20617708857ebe4f679508e7b7863a8a8eee''),
    (''steth'', ''0xdc24316b9ae028f1497c275eb9192a3ea0f67022''),
    (''saave'', ''0xeb16ae0052ed37f479f7fe63849198df1765a733''),
    (''ankreth'', ''0xa96a65c051bf88b4095ee1f2451c2a9d43f53ae2''),
    (''USDP'', ''0x42d7025938bec20b69cbae5a77421082407f053a''),
    (''ib'', ''0x2dded6da1bf5dbdf597c45fcfaa3194e53ecfeaf''),
    (''link'', ''0xf178c0b5bb7e7abf4e12a4838c7b7c5ba2c623c0''),
    (''btrflyweth'', ''0xf43b15ab692fde1f9c24a9fce700adcc809d5391''),
    (''stgusdc'', ''0x3211c6cbef1429da3d0d58494938299c92ad5860''),
    (''TUSD'', ''0xecd5e75afb02efa118af914515d6521aabd189f1''),
    (''STABLEx'', ''0x3252efd4ea2d6c78091a1f43982ee2c3659cc3d1''),
    (''alUSD'', ''0x43b4fdfd4ff969587185cdb6f0bd875c5fc83f8c''),
    (''FRAX'', ''0xd632f22692fac7611d2aa1c0d552930d43caed3b''),
    (''LUSD'', ''0xed279fdd11ca84beef15af5d39bb4d4bee23f0ca''),
    (''BUSD'', ''0x4807862aa8b2bf68830e4c8dc86d0e9a998e085a''),
    (''DSU3CRV'', ''0x6ec80df362d7042c50d4469bcfbc174c9dd9109a''),
    (''cvxcrv'', ''0x9d0464996170c6b9e75eed71c68b99ddedf279e8''),
    (''cvxfxs'', ''0xd658a338613198204dca1143ac3f01a722b5d94a''),
    (''mim'', ''0x5a6a4d54456819380173272a5e8e9b9904bdf41b''),
    (''eurt'', ''0xfd5db7463a3ab53fd211b4af195c5bccc1a03890''),
    (''ethcrv'', ''0x8301ae4fc9c624d1d396cbdaa1ed877821d7c511''),
    (''ethcvx'', ''0xb576491f1e6e5e62f1d8f26062ee822b40b0e0d4''),
    (''fei_tri'', ''0x06cb22615ba53e60d67bf6c341a0fd5e718e1655''),
    (''rai_tri'', ''0x618788357d0ebd8a37e763adab3bc575d54c2c7d''),
    (''DOLA_tri'', ''0xaa5a67c256e27a5d80712c51971408db3370927d''),
    (''OUSD_tri'', ''0x87650d7bbfc3a9f10587d7778206671719d9910d''),
    (''d3pool'', ''0xbaaa1f5dba42c3389bdbc2c9d2de134f5cd0dc89''),
    (''triEURpool'', ''0xb9446c4ef5ebe66268da6700d26f96273de3d571''),
    (''ibEURsEUR'', ''0x19b080fe1ffa0553469d20ca36219f17fcf03859''),
    (''wethyfi'', ''0xc26b89a667578ec7b3f11b2f98d6fd15c07c54ba''),
    (''ycrvcrv'', ''0x453d92c7d4263201c69aacfaf589ed14202d83a4''),
    (''bLUSD'', ''0x74ed5d42203806c8cdcf2f04ca5f60dc777b901c''),
    (''rsr'', ''0x6a6283ab6e31c2aec3fa08697a8f806b740660b2''),
    (''DOLAFRAX'', ''0xe57180685e3348589e9521aa53af0bcd497e884d''),
    (''crvfrax'', ''0xdcef968d416a41cdac0ed8702fac8128a64241a2'')]"

definition CURVE_V2_POOLS :: "string \<Rightarrow> Address" where
  "CURVE_V2_POOLS = object [
    (''tricrypto'', ''0x80466c64868e1ab14a1ddf27a676c3fcbe638fe5''),
    (''tricrypto2'', ''0xd51a44d3fae010294c616388b506acda1bfaae46'')]"

definition CURVE_POLYGON_POOLS :: "string \<Rightarrow> Address" where
  "CURVE_POLYGON_POOLS = object [
    (''aave'', ''0x445fe580ef8d70ff569ab36e80c647af338db351''),
    (''ren'', ''0xc2d95eef97ec6c17551d45e77b590dc1f9117c67'')]"

definition CURVE_V2_POLYGON_POOLS :: "string \<Rightarrow> Address" where
  "CURVE_V2_POLYGON_POOLS = object [
    (''atricrypto3'', ''0x1d8b86e3d88cdb2d34688e87e72f388cb541b7c8'')]"

definition CURVE_AVALANCHE_POOLS :: "string \<Rightarrow> Address" where
  "CURVE_AVALANCHE_POOLS = object [
    (''aave'', ''0x7f90122bf0700f9e7e1f688fe926940e8839f353''),
    (''mim'', ''0xaea2e71b631fa93683bcf256a8689dfa0e094fcd''),
    (''USDC'', ''0x3a43a5851a3e3e0e25a3c1089670269786be1577'')]"

definition CURVE_V2_AVALANCHE_POOLS :: "string \<Rightarrow> Address" where
  "CURVE_V2_AVALANCHE_POOLS = object [
    (''atricrypto'', ''0x58e57ca18b7a47112b877e31929798cd3d703b0f'')]"

definition CURVE_FANTOM_POOLS :: "string \<Rightarrow> Address" where
  "CURVE_FANTOM_POOLS = object [
    (''fUSDT'', ''0x92d5ebf3593a92888c25c0abef126583d4b5312e''),
    (''twoPool'', ''0x27e611fd27b276acbd5ffd632e5eaebec9761e40''),
    (''ren'', ''0x3ef6a01a0f81d6046290f3e2a8c5b843e738e604''),
    (''tri_v2'', ''0x2dd7c9371965472e5a5fd28fbe165007c61439e1''),
    (''geist'', ''0x0fa949783947bf6c1b171db13aeacbb488845b3f''),
    (''FRAX_twoPool'', ''0x7a656b342e14f745e2b164890e88017e27ae7320'')]"

definition CURVE_V2_FANTOM_POOLS :: "string \<Rightarrow> Address" where
  "CURVE_V2_FANTOM_POOLS = object [
    (''tricrypto'', ''0x3a1659ddcf2339be3aea159ca010979fb49155ff'')]"

definition CURVE_OPTIMISM_POOLS :: "string \<Rightarrow> Address" where
  "CURVE_OPTIMISM_POOLS = object [
    (''tri'', ''0x1337bedc9d22ecbe766df105c9623922a27963ec'')]"

definition CURVE_V2_ARBITRUM_POOLS :: "string \<Rightarrow> Address" where
  "CURVE_V2_ARBITRUM_POOLS = object [
    (''tri'', ''0x960ea3e3c7fb317332d990873d354e18d7645590''),
    (''twoPool'', ''0x7f90122bf0700f9e7e1f688fe926940e8839f353''),
    (''vstFrax'', ''0x59bf0545fca0e5ad48e13da269facd2e8c886ba4''),
    (''MIM'', ''0x30df229cefa463e991e29d42db0bae2e122b2ac7''),
    (''fraxBP'', ''0xc9b8a3fdecb9d5b218d02555a8baf332e5b740d5'')]"

definition BELT_POOLS :: "string \<Rightarrow> Address" where
  "BELT_POOLS = object [
    (''vPool'', ''0xf16d312d119c13dd27fd0dc814b0bcdcaaa62dfd'')]"

definition ELLIPSIS_POOLS :: "string \<Rightarrow> Address" where
  "ELLIPSIS_POOLS = object [
    (''threePool'', ''0x160caed03795365f3a589f10c379ffa7d75d4e76'')]"

definition ACRYPTOS_POOLS :: "string \<Rightarrow> Address" where
  "ACRYPTOS_POOLS = object [
    (''acs4usd'', ''0xb3f0c9ea1f05e312093fdb031e789a756659b0ac''),
    (''acs4vai'', ''0x191409d5a4effe25b0f4240557ba2192d18a191e''),
    (''acs4ust'', ''0x99c92765efc472a9709ced86310d64c4573c4b77''),
    (''acs3btc'', ''0xbe7caa236544d1b9a0e7f91e94b9f5bfd3b5ca81'')]"

section \<open>Kinds of pools\<close>

definition createCurveExchangePool :: "Address list \<Rightarrow> Address \<Rightarrow> js_number \<Rightarrow> CurveInfo" where
  "createCurveExchangePool tokens pool gasSchedule =
     \<lparr>exchangeFunctionSelector = CurveFunctionSelectors ''exchange'',
      sellQuoteFunctionSelector = CurveFunctionSelectors ''get_dy'',
      buyQuoteFunctionSelector = CurveFunctionSelectors ''None'', curve_poolAddress = pool, curve_tokens = tokens,
      metaTokens = None, curve_gasSchedule = gasSchedule\<rparr>"

definition createCurveExchangeUnderlyingPool :: "Address list \<Rightarrow> Address \<Rightarrow> js_number \<Rightarrow> CurveInfo" where
  "createCurveExchangeUnderlyingPool tokens pool gasSchedule =
     \<lparr>exchangeFunctionSelector = CurveFunctionSelectors ''exchange_underlying'',
      sellQuoteFunctionSelector = CurveFunctionSelectors ''get_dy_underlying'',
      buyQuoteFunctionSelector = CurveFunctionSelectors ''None'', curve_poolAddress = pool, curve_tokens = tokens,
      metaTokens = None, curve_gasSchedule = gasSchedule\<rparr>"

definition createCurveMetaTriPool :: "Address list \<Rightarrow> Address \<Rightarrow> js_number \<Rightarrow> CurveInfo" where
  "createCurveMetaTriPool tokens pool gasSchedule =
     \<lparr>exchangeFunctionSelector = CurveFunctionSelectors ''exchange_underlying'',
      sellQuoteFunctionSelector = CurveFunctionSelectors ''get_dy_underlying'',
      buyQuoteFunctionSelector = CurveFunctionSelectors ''None'', curve_poolAddress = pool,
      curve_tokens = tokens @ CURVE_TRI_POOL_MAINNET_TOKENS, metaTokens = Some tokens,
      curve_gasSchedule = gasSchedule\<rparr>"

definition createCurveMetaTriBtcPool :: "Address list \<Rightarrow> Address \<Rightarrow> js_number \<Rightarrow> CurveInfo" where
  "createCurveMetaTriBtcPool tokens pool gasSchedule =
     \<lparr>exchangeFunctionSelector = CurveFunctionSelectors ''exchange_underlying'',
      sellQuoteFunctionSelector = CurveFunctionSelectors ''get_dy_underlying'',
      buyQuoteFunctionSelector = CurveFunctionSelectors ''None'', curve_poolAddress = pool,
      curve_tokens = tokens @ CURVE_TRI_BTC_POOL_TOKEN, metaTokens = Some tokens, curve_gasSchedule = gasSchedule\<rparr>"

definition createCurveMetaTwoPoolFantom :: "Address list \<Rightarrow> Address \<Rightarrow> js_number \<Rightarrow> CurveInfo" where
  "createCurveMetaTwoPoolFantom tokens pool gasSchedule =
     \<lparr>exchangeFunctionSelector = CurveFunctionSelectors ''exchange_underlying'',
      sellQuoteFunctionSelector = CurveFunctionSelectors ''get_dy_underlying'',
      buyQuoteFunctionSelector = CurveFunctionSelectors ''None'', curve_poolAddress = pool,
      curve_tokens = tokens @ CURVE_FANTOM_TWO_POOL_TOKENS, metaTokens = Some tokens,
      curve_gasSchedule = gasSchedule\<rparr>"

definition createCurveMetaTwoPoolArbitrum :: "Address list \<Rightarrow> Address \<Rightarrow> js_number \<Rightarrow> CurveInfo" where
  "createCurveMetaTwoPoolArbitrum tokens pool gasSchedule =
     \<lparr>exchangeFunctionSelector = CurveFunctionSelectors ''exchange_underlying'',
      sellQuoteFunctionSelector = CurveFunctionSelectors ''get_dy_underlying'',
      buyQuoteFunctionSelector = CurveFunctionSelectors ''None'', curve_poolAddress = pool,
      curve_tokens = tokens @ CURVE_ARBITRUM_TWO_POOL_TOKENS, metaTokens = Some tokens,
      curve_gasSchedule = gasSchedule\<rparr>"

definition createCurveExchangeV2Pool :: "Address list \<Rightarrow> Address \<Rightarrow> js_number \<Rightarrow> CurveInfo" where
  "createCurveExchangeV2Pool tokens pool gasSchedule =
     \<lparr>exchangeFunctionSelector = CurveFunctionSelectors ''exchange_v2'',
      sellQuoteFunctionSelector = CurveFunctionSelectors ''get_dy_v2'',
      buyQuoteFunctionSelector = CurveFunctionSelectors ''None'', curve_poolAddress = pool, curve_tokens = tokens,
      metaTokens = None, curve_gasSchedule = gasSchedule\<rparr>"

definition createCurveV2MetaTriPool :: "Address list \<Rightarrow> Address \<Rightarrow> js_number \<Rightarrow> CurveInfo" where
  "createCurveV2MetaTriPool tokens pool gasSchedule =
     \<lparr>exchangeFunctionSelector = CurveFunctionSelectors ''exchange_underlying_v2'',
      sellQuoteFunctionSelector = CurveFunctionSelectors ''get_dy_underlying_v2'',
      buyQuoteFunctionSelector = CurveFunctionSelectors ''None'', curve_poolAddress = pool,
      curve_tokens = CURVE_POLYGON_ATRICRYPTO_UNDERLYING_TOKENS @ tokens, metaTokens = Some tokens,
      curve_gasSchedule = gasSchedule\<rparr>"

definition createCurveFactoryCryptoExchangePool :: "Address list \<Rightarrow> Address \<Rightarrow> js_number \<Rightarrow> CurveInfo" where
  "createCurveFactoryCryptoExchangePool tokens pool gasSchedule =
     \<lparr>exchangeFunctionSelector = CurveFunctionSelectors ''exchange_underlying_uint256'',
      sellQuoteFunctionSelector = CurveFunctionSelectors ''get_dy_uint256'',
      buyQuoteFunctionSelector = CurveFunctionSelectors ''None'', curve_poolAddress = pool, curve_tokens = tokens,
      metaTokens = None, curve_gasSchedule = gasSchedule\<rparr>"

definition ACRYPTOS_ACS4USD_POOL_BSC_TOKENS :: "Address list" where
  "ACRYPTOS_ACS4USD_POOL_BSC_TOKENS = [BSC_TOKENS ''BUSD'', BSC_TOKENS ''USDT'', BSC_TOKENS ''DAI'', BSC_TOKENS ''USDC'']"

definition createAcryptosMetaUsdPool :: "Address list \<Rightarrow> Address \<Rightarrow> js_number \<Rightarrow> CurveInfo" where
  "createAcryptosMetaUsdPool tokens pool gasSchedule =
     \<lparr>exchangeFunctionSelector = CurveFunctionSelectors ''exchange_underlying'',
      sellQuoteFunctionSelector = CurveFunctionSelectors ''get_dy_underlying'',
      buyQuoteFunctionSelector = CurveFunctionSelectors ''None'', curve_poolAddress = pool,
      curve_tokens = tokens @ ACRYPTOS_ACS4USD_POOL_BSC_TOKENS, metaTokens = Some tokens,
      curve_gasSchedule = gasSchedule\<rparr>"

definition createSaddleSwapPool :: "Address list \<Rightarrow> Address \<Rightarrow> js_number \<Rightarrow> CurveInfo" where
  "createSaddleSwapPool tokens pool gasSchedule =
     \<lparr>exchangeFunctionSelector = CurveFunctionSelectors ''swap'',
      sellQuoteFunctionSelector = CurveFunctionSelectors ''calculateSwap'',
      buyQuoteFunctionSelector = CurveFunctionSelectors ''None'', curve_poolAddress = pool, curve_tokens = tokens,
      metaTokens = None, curve_gasSchedule = gasSchedule\<rparr>"

definition createSaddleMetaSwapPool :: "Address list \<Rightarrow> Address \<Rightarrow> js_number \<Rightarrow> CurveInfo" where
  "createSaddleMetaSwapPool tokens pool gasSchedule =
     \<lparr>exchangeFunctionSelector = CurveFunctionSelectors ''swapUnderlying'',
      sellQuoteFunctionSelector = CurveFunctionSelectors ''calculateSwapUnderlying'',
      buyQuoteFunctionSelector = CurveFunctionSelectors ''None'', curve_poolAddress = pool, curve_tokens = tokens,
      metaTokens = Some [hd tokens], curve_gasSchedule = gasSchedule\<rparr>"

definition MOBIUSMONEY_CELO_SHARED :: CurveInfo where
  "MOBIUSMONEY_CELO_SHARED =
     \<lparr>exchangeFunctionSelector = CurveFunctionSelectors ''swap'',
      sellQuoteFunctionSelector = CurveFunctionSelectors ''calculateSwap'',
      buyQuoteFunctionSelector = CurveFunctionSelectors ''None'', curve_poolAddress = NULL_ADDRESS, curve_tokens = [],
      metaTokens = None, curve_gasSchedule = Fin 150000\<rparr>"

section \<open>Pools by chain\<close>

definition CURVE_MAINNET_INFOS :: "(string \<times> CurveInfo) list" where
  "CURVE_MAINNET_INFOS = js_object [
    (CURVE_POOLS ''compound'', createCurveExchangeUnderlyingPool [MAINNET_TOKENS ''DAI'',
     MAINNET_TOKENS ''USDC''] (CURVE_POOLS ''compound'') (Fin 587000)),
    (CURVE_POOLS ''PAX'', createCurveExchangeUnderlyingPool [MAINNET_TOKENS ''DAI'', MAINNET_TOKENS ''USDC'',
     MAINNET_TOKENS ''USDT'', MAINNET_TOKENS ''PAX''] (CURVE_POOLS ''PAX'') (Fin 742000)),
    (CURVE_POOLS ''sUSD'', createCurveExchangeUnderlyingPool [MAINNET_TOKENS ''DAI'', MAINNET_TOKENS ''USDC'',
     MAINNET_TOKENS ''USDT'', MAINNET_TOKENS ''sUSD''] (CURVE_POOLS ''sUSD'') (Fin 302000)),
    (CURVE_POOLS ''renBTC'', createCurveExchangePool [MAINNET_TOKENS ''RenBTC'',
     MAINNET_TOKENS ''WBTC''] (CURVE_POOLS ''renBTC'') (Fin 171000)),
    (CURVE_POOLS ''sBTC'', createCurveExchangePool [MAINNET_TOKENS ''RenBTC'', MAINNET_TOKENS ''WBTC'',
     MAINNET_TOKENS ''sBTC''] (CURVE_POOLS ''sBTC'') (Fin 327000)),
    (CURVE_POOLS ''HBTC'', createCurveExchangePool [MAINNET_TOKENS ''hBTC'',
     MAINNET_TOKENS ''WBTC''] (CURVE_POOLS ''HBTC'') (Fin 210000)),
    (CURVE_POOLS ''TRI'', createCurveExchangePool [MAINNET_TOKENS ''DAI'', MAINNET_TOKENS ''USDC'',
     MAINNET_TOKENS ''USDT''] (CURVE_POOLS ''TRI'') (Fin 176000)),
    (CURVE_POOLS ''GUSD'', createCurveMetaTriPool [MAINNET_TOKENS ''GUSD''] (CURVE_POOLS ''GUSD'') (Fin 411000)),
    (CURVE_POOLS ''HUSD'', createCurveMetaTriPool [MAINNET_TOKENS ''HUSD''] (CURVE_POOLS ''HUSD'') (Fin 396000)),
    (CURVE_POOLS ''USDN'', createCurveMetaTriPool [MAINNET_TOKENS ''USDN''] (CURVE_POOLS ''USDN'') (Fin 398000)),
    (CURVE_POOLS ''mUSD'', createCurveMetaTriPool [MAINNET_TOKENS ''mUSD''] (CURVE_POOLS ''mUSD'') (Fin 385000)),
    (CURVE_POOLS ''dUSD'', createCurveMetaTriPool [MAINNET_TOKENS ''dUSD''] (CURVE_POOLS ''dUSD'') (Fin 371000)),
    (CURVE_POOLS ''tBTC'', createCurveMetaTriBtcPool [MAINNET_TOKENS ''tBTC''] (CURVE_POOLS ''tBTC'') (Fin 482000)),
    (CURVE_POOLS ''pBTC'', createCurveMetaTriBtcPool [MAINNET_TOKENS ''pBTC''] (CURVE_POOLS ''pBTC'') (Fin 503000)),
    (CURVE_POOLS ''bBTC'', createCurveMetaTriBtcPool [MAINNET_TOKENS ''bBTC''] (CURVE_POOLS ''bBTC'') (Fin 497000)),
    (CURVE_POOLS ''oBTC'', createCurveMetaTriBtcPool [MAINNET_TOKENS ''oBTC''] (CURVE_POOLS ''oBTC'') (Fin 488000)),
    (CURVE_POOLS ''UST'', createCurveMetaTriPool [MAINNET_TOKENS ''UST''] (CURVE_POOLS ''UST'') (Fin 340000)),
    (CURVE_POOLS ''eurs'', createCurveExchangePool [MAINNET_TOKENS ''EURS'',
     MAINNET_TOKENS ''sEUR''] (CURVE_POOLS ''eurs'') (Fin 320000)),
    (CURVE_POOLS ''eurt'', createCurveExchangePool [MAINNET_TOKENS ''EURT'',
     MAINNET_TOKENS ''sEUR''] (CURVE_POOLS ''eurt'') (Fin 320000)),
    (CURVE_POOLS ''aave'', createCurveExchangeUnderlyingPool [MAINNET_TOKENS ''DAI'', MAINNET_TOKENS ''USDC'',
     MAINNET_TOKENS ''USDT''] (CURVE_POOLS ''aave'') (Fin 580000)),
    (CURVE_POOLS ''aave'', createCurveExchangePool [MAINNET_TOKENS ''aDAI'', MAINNET_TOKENS ''aUSDC'',
     MAINNET_TOKENS ''aUSDT''] (CURVE_POOLS ''aave'') (Fin 580000)),
    (CURVE_POOLS ''saave'', createCurveExchangeUnderlyingPool [MAINNET_TOKENS ''DAI'',
     MAINNET_TOKENS ''sUSD''] (CURVE_POOLS ''saave'') (Fin 580000)),
    (CURVE_POOLS ''saave'', createCurveExchangePool [MAINNET_TOKENS ''aDAI'',
     MAINNET_TOKENS ''aSUSD''] (CURVE_POOLS ''saave'') (Fin 580000)),
    (CURVE_POOLS ''USDP'', createCurveMetaTriPool [MAINNET_TOKENS ''USDP''] (CURVE_POOLS ''USDP'') (Fin 374000)),
    (CURVE_POOLS ''link'', createCurveExchangePool [MAINNET_TOKENS ''LINK'',
     MAINNET_TOKENS ''sLINK''] (CURVE_POOLS ''link'') (Fin 319000)),
    (CURVE_POOLS ''TUSD'', createCurveMetaTriPool [MAINNET_TOKENS ''TUSD''] (CURVE_POOLS ''TUSD'') (Fin 404000)),
    (CURVE_POOLS ''STABLEx'', createCurveMetaTriPool [MAINNET_TOKENS ''STABLEx''] (CURVE_POOLS ''STABLEx'') (Fin 397000)),
    (CURVE_POOLS ''alUSD'', createCurveMetaTriPool [MAINNET_TOKENS ''alUSD''] (CURVE_POOLS ''alUSD'') (Fin 387000)),
    (CURVE_POOLS ''FRAX'', createCurveMetaTriPool [MAINNET_TOKENS ''FRAX''] (CURVE_POOLS ''FRAX'') (Fin 387000)),
    (CURVE_POOLS ''LUSD'', createCurveMetaTriPool [MAINNET_TOKENS ''LUSD''] (CURVE_POOLS ''LUSD'') (Fin 387000)),
    (CURVE_POOLS ''BUSD'', createCurveMetaTriPool [MAINNET_TOKENS ''BUSD''] (CURVE_POOLS ''BUSD'') (Fin 387000)),
    (CURVE_POOLS ''steth'', createCurveExchangePool [MAINNET_TOKENS ''WETH'',
     MAINNET_TOKENS ''stETH''] (CURVE_POOLS ''steth'') (Fin 151000)),
    (CURVE_POOLS ''seth'', createCurveExchangePool [MAINNET_TOKENS ''WETH'',
     MAINNET_TOKENS ''sETH''] (CURVE_POOLS ''seth'') (Fin 187000)),
    (CURVE_POOLS ''ankreth'', createCurveExchangePool [MAINNET_TOKENS ''WETH'',
     MAINNET_TOKENS ''ankrETH''] (CURVE_POOLS ''ankreth'') (Fin 125000)),
    (CURVE_POOLS ''DSU3CRV'', createCurveMetaTriPool [MAINNET_TOKENS ''DSU''] (CURVE_POOLS ''DSU3CRV'') (Fin 387000)),
    (CURVE_POOLS ''mim'', createCurveMetaTriPool [MAINNET_TOKENS ''MIM''] (CURVE_POOLS ''mim'') (Fin 300000)),
    (CURVE_POOLS ''cvxcrv'', createCurveExchangePool [MAINNET_TOKENS ''CRV'',
     MAINNET_TOKENS ''cvxCRV''] (CURVE_POOLS ''cvxcrv'') (Fin 105000)),
    (CURVE_POOLS ''ethcrv'', (createCurveExchangePool [MAINNET_TOKENS ''WETH'',
     MAINNET_TOKENS ''CRV''] (CURVE_POOLS ''ethcrv'') (Fin 350000))\<lparr>sellQuoteFunctionSelector := CurveFunctionSelectors ''get_dy_uint256'',
     exchangeFunctionSelector := CurveFunctionSelectors ''exchange_underlying_uint256''\<rparr>),
    (CURVE_POOLS ''ethcvx'', (createCurveExchangePool [MAINNET_TOKENS ''WETH'',
     MAINNET_TOKENS ''CVX''] (CURVE_POOLS ''ethcvx'') (Fin 350000))\<lparr>sellQuoteFunctionSelector := CurveFunctionSelectors ''get_dy_uint256'',
     exchangeFunctionSelector := CurveFunctionSelectors ''exchange_underlying_uint256''\<rparr>),
    (CURVE_POOLS ''fei_tri'', createCurveMetaTriPool [MAINNET_TOKENS ''FEI''] (CURVE_POOLS ''fei_tri'') (Fin 340000)),
    (CURVE_POOLS ''rai_tri'', createCurveMetaTriPool [MAINNET_TOKENS ''RAI''] (CURVE_POOLS ''rai_tri'') (Fin 340000)),
    (CURVE_POOLS ''DOLA_tri'', createCurveMetaTriPool [MAINNET_TOKENS ''DOLA''] (CURVE_POOLS ''DOLA_tri'') (Fin 340000)),
    (CURVE_POOLS ''OUSD_tri'', createCurveMetaTriPool [MAINNET_TOKENS ''OUSD''] (CURVE_POOLS ''OUSD_tri'') (Fin 340000)),
    (CURVE_POOLS ''d3pool'', createCurveExchangePool [MAINNET_TOKENS ''FRAX'', MAINNET_TOKENS ''FEI'',
     MAINNET_TOKENS ''alUSD''] (CURVE_POOLS ''d3pool'') (Fin 176000)),
    (CURVE_POOLS ''triEURpool'', createCurveExchangePool [MAINNET_TOKENS ''agEUR'', MAINNET_TOKENS ''EURT'',
     MAINNET_TOKENS ''EURS''] (CURVE_POOLS ''triEURpool'') (Fin 176000)),
    (CURVE_POOLS ''ibEURsEUR'', createCurveExchangePool [MAINNET_TOKENS ''ibEUR'',
     MAINNET_TOKENS ''sEUR''] (CURVE_POOLS ''ibEURsEUR'') (Fin 176000)),
    (CURVE_POOLS ''btrflyweth'', createCurveFactoryCryptoExchangePool [MAINNET_TOKENS ''WETH'',
     MAINNET_TOKENS ''BTRFLY''] (CURVE_POOLS ''btrflyweth'') (Fin 250000)),
    (CURVE_POOLS ''wethyfi'', createCurveFactoryCryptoExchangePool [MAINNET_TOKENS ''WETH'',
     MAINNET_TOKENS ''YFI''] (CURVE_POOLS ''wethyfi'') (Fin 250000)),
    (CURVE_POOLS ''stgusdc'', createCurveFactoryCryptoExchangePool [MAINNET_TOKENS ''STG'',
     MAINNET_TOKENS ''USDC''] (CURVE_POOLS ''stgusdc'') (Fin 250000)),
    (CURVE_POOLS ''cvxfxs'', createCurveFactoryCryptoExchangePool [MAINNET_TOKENS ''FXS'',
     MAINNET_TOKENS ''cvxFXS''] (CURVE_POOLS ''cvxfxs'') (Fin 390000)),
    (CURVE_POOLS ''ycrvcrv'', createCurveExchangePool [MAINNET_TOKENS ''CRV'',
     MAINNET_TOKENS ''ynCRV''] (CURVE_POOLS ''ycrvcrv'') (Fin 450000)),
    (CURVE_POOLS ''bLUSD'', createCurveFactoryCryptoExchangePool [MAINNET_TOKENS ''bLUSD'',
     MAINNET_TOKENS ''LUSDCRV''] (CURVE_POOLS ''bLUSD'') (Fin 390000)),
    (CURVE_POOLS ''crvfrax'', createCurveExchangePool [MAINNET_TOKENS ''FRAX'',
     MAINNET_TOKENS ''USDC''] (CURVE_POOLS ''crvfrax'') (Fin 390000)),
    (CURVE_POOLS ''rsr'', createCurveFactoryCryptoExchangePool [MAINNET_TOKENS ''rsr'',
     MAINNET_TOKENS ''crvFRAX''] (CURVE_POOLS ''rsr'') (Fin 390000)),
    (CURVE_POOLS ''DOLAFRAX'', createCurveExchangePool [MAINNET_TOKENS ''DOLA'',
     MAINNET_TOKENS ''crvFRAX''] (CURVE_POOLS ''DOLAFRAX'') (Fin 260000))]"

definition CURVE_V2_MAINNET_INFOS :: "(string \<times> CurveInfo) list" where
  "CURVE_V2_MAINNET_INFOS = js_object [
    (CURVE_V2_POOLS ''tricrypto'', createCurveExchangeV2Pool [MAINNET_TOKENS ''USDT'', MAINNET_TOKENS ''WBTC'',
     MAINNET_TOKENS ''WETH''] (CURVE_V2_POOLS ''tricrypto'') (Fin 300000)),
    (CURVE_V2_POOLS ''tricrypto2'', createCurveExchangeV2Pool [MAINNET_TOKENS ''USDT'', MAINNET_TOKENS ''WBTC'',
     MAINNET_TOKENS ''WETH''] (CURVE_V2_POOLS ''tricrypto2'') (Fin 300000))]"

definition CURVE_POLYGON_INFOS :: "(string \<times> CurveInfo) list" where
  "CURVE_POLYGON_INFOS = js_object [
    (''aave_exchangeunderlying'',
     createCurveExchangeUnderlyingPool CURVE_POLYGON_ATRICRYPTO_UNDERLYING_TOKENS (CURVE_POLYGON_POOLS ''aave'') (Fin 300000)),
    (''aave_exchange'', createCurveExchangePool CURVE_POLYGON_ATRICRYPTO_TOKENS (CURVE_POLYGON_POOLS ''aave'') (Fin 150000)),
    (CURVE_POLYGON_POOLS ''ren'', createCurveExchangeUnderlyingPool [POLYGON_TOKENS ''WBTC'',
     POLYGON_TOKENS ''renBTC''] (CURVE_POLYGON_POOLS ''ren'') (Fin 350000))]"

definition CURVE_V2_POLYGON_INFOS :: "(string \<times> CurveInfo) list" where
  "CURVE_V2_POLYGON_INFOS = js_object [
    (CURVE_V2_POLYGON_POOLS ''atricrypto3'', createCurveV2MetaTriPool [POLYGON_TOKENS ''WBTC'',
     POLYGON_TOKENS ''WETH''] (CURVE_V2_POLYGON_POOLS ''atricrypto3'') (Fin 300000))]"

definition CURVE_AVALANCHE_INFOS :: "(string \<times> CurveInfo) list" where
  "CURVE_AVALANCHE_INFOS = js_object [
    (''aave_exchangeunderlying'', createCurveExchangeUnderlyingPool [AVALANCHE_TOKENS ''DAI'', AVALANCHE_TOKENS ''USDC'',
     AVALANCHE_TOKENS ''USDT''] (CURVE_AVALANCHE_POOLS ''aave'') (Fin 850000)),
    (''aave_exchange'', createCurveExchangePool [AVALANCHE_TOKENS ''aDAI'', AVALANCHE_TOKENS ''aUSDC'',
     AVALANCHE_TOKENS ''aUSDT''] (CURVE_AVALANCHE_POOLS ''aave'') (Fin 150000)),
    (CURVE_AVALANCHE_POOLS ''mim'', createCurveExchangePool [AVALANCHE_TOKENS ''MIM'', AVALANCHE_TOKENS ''USDT'',
     AVALANCHE_TOKENS ''USDC''] (CURVE_AVALANCHE_POOLS ''mim'') (Fin 150000)),
    (CURVE_AVALANCHE_POOLS ''USDC'', createCurveExchangePool [AVALANCHE_TOKENS ''USDC'',
     AVALANCHE_TOKENS ''nUSDC''] (CURVE_AVALANCHE_POOLS ''USDC'') (Fin 150000))]"

definition CURVE_V2_AVALANCHE_INFOS :: "(string \<times> CurveInfo) list" where
  "CURVE_V2_AVALANCHE_INFOS = js_object [
    (CURVE_V2_AVALANCHE_POOLS ''atricrypto'',
     \<lparr>exchangeFunctionSelector = CurveFunctionSelectors ''exchange_underlying_v2'',
     sellQuoteFunctionSelector = CurveFunctionSelectors ''get_dy_underlying_v2'',
     buyQuoteFunctionSelector = CurveFunctionSelectors ''None'',
     curve_poolAddress = CURVE_V2_AVALANCHE_POOLS ''atricrypto'', curve_tokens = [AVALANCHE_TOKENS ''DAI'',
     AVALANCHE_TOKENS ''USDC'', AVALANCHE_TOKENS ''USDT'', AVALANCHE_TOKENS ''WBTC'', AVALANCHE_TOKENS ''WETH''],
     metaTokens = None, curve_gasSchedule = Fin 1300000\<rparr>)]"

definition CURVE_FANTOM_INFOS :: "(string \<times> CurveInfo) list" where
  "CURVE_FANTOM_INFOS = js_object [
    (CURVE_FANTOM_POOLS ''ren'', createCurveExchangePool [FANTOM_TOKENS ''WBTC'',
     FANTOM_TOKENS ''renBTC''] (CURVE_FANTOM_POOLS ''ren'') (Fin 171000)),
    (CURVE_FANTOM_POOLS ''twoPool'', createCurveExchangePool [FANTOM_TOKENS ''DAI'',
     FANTOM_TOKENS ''USDC''] (CURVE_FANTOM_POOLS ''twoPool'') (Fin 176000)),
    (CURVE_FANTOM_POOLS ''fUSDT'', createCurveExchangeUnderlyingPool [FANTOM_TOKENS ''fUSDT'', FANTOM_TOKENS ''DAI'',
     FANTOM_TOKENS ''USDC''] (CURVE_FANTOM_POOLS ''fUSDT'') (Fin 587000)),
    (CURVE_FANTOM_POOLS ''tri_v2'', createCurveExchangePool [FANTOM_TOKENS ''MIM'', FANTOM_TOKENS ''fUSDT'',
     FANTOM_TOKENS ''USDC''] (CURVE_FANTOM_POOLS ''tri_v2'') (Fin 176000)),
    (CURVE_FANTOM_POOLS ''FRAX_twoPool'',
     createCurveMetaTwoPoolFantom [FANTOM_TOKENS ''FRAX''] (CURVE_FANTOM_POOLS ''FRAX_twoPool'') (Fin 411000))]"

definition CURVE_V2_FANTOM_INFOS :: "(string \<times> CurveInfo) list" where
  "CURVE_V2_FANTOM_INFOS = js_object [
    (CURVE_V2_FANTOM_POOLS ''tricrypto'', createCurveExchangeV2Pool [FANTOM_TOKENS ''fUSDT'', FANTOM_TOKENS ''WBTC'',
     FANTOM_TOKENS ''WETH''] (CURVE_V2_FANTOM_POOLS ''tricrypto'') (Fin 300000))]"

definition CURVE_OPTIMISM_INFOS :: "(string \<times> CurveInfo) list" where
  "CURVE_OPTIMISM_INFOS = js_object [
    (CURVE_OPTIMISM_POOLS ''tri'', createCurveExchangePool [OPTIMISM_TOKENS ''DAI'', OPTIMISM_TOKENS ''USDC'',
     OPTIMISM_TOKENS ''USDT''] (CURVE_OPTIMISM_POOLS ''tri'') (Fin 150000))]"

definition CURVE_V2_ARBITRUM_INFOS :: "(string \<times> CurveInfo) list" where
  "CURVE_V2_ARBITRUM_INFOS = js_object [
    (CURVE_V2_ARBITRUM_POOLS ''tri'', createCurveExchangeV2Pool [ARBITRUM_TOKENS ''USDT'', ARBITRUM_TOKENS ''WBTC'',
     ARBITRUM_TOKENS ''WETH''] (CURVE_V2_ARBITRUM_POOLS ''tri'') (Fin 600000)),
    (CURVE_V2_ARBITRUM_POOLS ''twoPool'', createCurveExchangePool [ARBITRUM_TOKENS ''USDC'',
     ARBITRUM_TOKENS ''USDT''] (CURVE_V2_ARBITRUM_POOLS ''twoPool'') (Fin 400000)),
    (CURVE_V2_ARBITRUM_POOLS ''MIM'',
     createCurveMetaTwoPoolArbitrum [ARBITRUM_TOKENS ''MIM''] (CURVE_V2_ARBITRUM_POOLS ''MIM'') (Fin 400000)),
    (CURVE_V2_ARBITRUM_POOLS ''fraxBP'', createCurveExchangePool [ARBITRUM_TOKENS ''FRAX'',
     ARBITRUM_TOKENS ''USDC''] (CURVE_V2_ARBITRUM_POOLS ''fraxBP'') (Fin 200000)),
    (CURVE_V2_ARBITRUM_POOLS ''vstFrax'', createCurveExchangePool [ARBITRUM_TOKENS ''VST'',
     ARBITRUM_TOKENS ''FRAX''] (CURVE_V2_ARBITRUM_POOLS ''vstFrax'') (Fin 200000))]"

definition BELT_BSC_INFOS :: "(string \<times> CurveInfo) list" where
  "BELT_BSC_INFOS = js_object [
    (BELT_POOLS ''vPool'', createCurveExchangeUnderlyingPool [BSC_TOKENS ''DAI'', BSC_TOKENS ''USDC'', BSC_TOKENS ''USDT'',
     BSC_TOKENS ''BUSD''] (BELT_POOLS ''vPool'') (Fin 4490000))]"

definition ELLIPSIS_BSC_INFOS :: "(string \<times> CurveInfo) list" where
  "ELLIPSIS_BSC_INFOS = js_object [
    (ELLIPSIS_POOLS ''threePool'', createCurveExchangePool [BSC_TOKENS ''BUSD'', BSC_TOKENS ''USDC'',
     BSC_TOKENS ''USDT''] (ELLIPSIS_POOLS ''threePool'') (Fin 140000))]"

definition ACRYPTOS_BSC_INFOS :: "(string \<times> CurveInfo) list" where
  "ACRYPTOS_BSC_INFOS = js_object [
    (ACRYPTOS_POOLS ''acs4usd'',
     createCurveExchangePool ACRYPTOS_ACS4USD_POOL_BSC_TOKENS (ACRYPTOS_POOLS ''acs4usd'') (Fin 145000)),
    (ACRYPTOS_POOLS ''acs4vai'', createAcryptosMetaUsdPool [BSC_TOKENS ''VAI''] (ACRYPTOS_POOLS ''acs4vai'') (Fin 300000)),
    (ACRYPTOS_POOLS ''acs4ust'', createAcryptosMetaUsdPool [BSC_TOKENS ''UST''] (ACRYPTOS_POOLS ''acs4ust'') (Fin 300000)),
    (ACRYPTOS_POOLS ''acs3btc'', createCurveExchangePool [BSC_TOKENS ''BTCB'', BSC_TOKENS ''renBTC'',
     BSC_TOKENS ''pBTC''] (ACRYPTOS_POOLS ''acs3btc'') (Fin 145000))]"

definition SADDLE_MAINNET_INFOS :: "(string \<times> CurveInfo) list" where
  "SADDLE_MAINNET_INFOS = js_object [
    (SADDLE_MAINNET_POOLS ''stablesV2'', createSaddleSwapPool [MAINNET_TOKENS ''DAI'', MAINNET_TOKENS ''USDC'',
     MAINNET_TOKENS ''USDT''] (SADDLE_MAINNET_POOLS ''stablesV2'') (Fin 150000)),
    (SADDLE_MAINNET_POOLS ''alETH'', createSaddleSwapPool [MAINNET_TOKENS ''WETH'', MAINNET_TOKENS ''alETH'',
     MAINNET_TOKENS ''sETH''] (SADDLE_MAINNET_POOLS ''alETH'') (Fin 200000)),
    (SADDLE_MAINNET_POOLS ''fraxBP'', createSaddleSwapPool [MAINNET_TOKENS ''USDC'',
     MAINNET_TOKENS ''FRAX''] (SADDLE_MAINNET_POOLS ''fraxBP'') (Fin 150000)),
    (SADDLE_MAINNET_POOLS ''usx'', createSaddleSwapPool [MAINNET_TOKENS ''USDC'',
     MAINNET_TOKENS ''USX''] (SADDLE_MAINNET_POOLS ''usx'') (Fin 150000)),
    (SADDLE_MAINNET_POOLS ''susdMetaPoolV3'', createSaddleMetaSwapPool [MAINNET_TOKENS ''sUSD'', MAINNET_TOKENS ''DAI'',
     MAINNET_TOKENS ''USDC'', MAINNET_TOKENS ''USDT''] (SADDLE_MAINNET_POOLS ''susdMetaPoolV3'') (Fin 370000)),
    (SADDLE_MAINNET_POOLS ''fraxAlusdMetaPool'', createSaddleMetaSwapPool [MAINNET_TOKENS ''alUSD'',
     MAINNET_TOKENS ''USDC'', MAINNET_TOKENS ''FRAX''] (SADDLE_MAINNET_POOLS ''fraxAlusdMetaPool'') (Fin 320000)),
    (SADDLE_MAINNET_POOLS ''fraxSusdMetaPool'', createSaddleMetaSwapPool [MAINNET_TOKENS ''sUSD'', MAINNET_TOKENS ''USDC'',
     MAINNET_TOKENS ''FRAX''] (SADDLE_MAINNET_POOLS ''fraxSusdMetaPool'') (Fin 370000))]"

definition SADDLE_OPTIMISM_INFOS :: "(string \<times> CurveInfo) list" where
  "SADDLE_OPTIMISM_INFOS = js_object [
    (SADDLE_OPTIMISM_POOLS ''fraxBP'', createSaddleSwapPool [OPTIMISM_TOKENS ''USDC'',
     OPTIMISM_TOKENS ''FRAX''] (SADDLE_OPTIMISM_POOLS ''fraxBP'') (Fin 150000))]"

definition SADDLE_ARBITRUM_INFOS :: "(string \<times> CurveInfo) list" where
  "SADDLE_ARBITRUM_INFOS = js_object [
    (SADDLE_ARBITRUM_POOLS ''fraxBP'', createSaddleSwapPool [ARBITRUM_TOKENS ''USDC'',
     ARBITRUM_TOKENS ''FRAX''] (SADDLE_ARBITRUM_POOLS ''fraxBP'') (Fin 200000)),
    (SADDLE_ARBITRUM_POOLS ''arbUSDPoolV2'', createSaddleSwapPool [ARBITRUM_TOKENS ''FRAX'', ARBITRUM_TOKENS ''USDC'',
     ARBITRUM_TOKENS ''USDT''] (SADDLE_ARBITRUM_POOLS ''arbUSDPoolV2'') (Fin 200000))]"

definition IRONSWAP_POLYGON_INFOS :: "(string \<times> CurveInfo) list" where
  "IRONSWAP_POLYGON_INFOS = js_object [
    (IRONSWAP_POOLS ''is3usd'', \<lparr>exchangeFunctionSelector = CurveFunctionSelectors ''swap'',
     sellQuoteFunctionSelector = CurveFunctionSelectors ''calculateSwap'',
     buyQuoteFunctionSelector = CurveFunctionSelectors ''None'', curve_poolAddress = IRONSWAP_POOLS ''is3usd'',
     curve_tokens = [POLYGON_TOKENS ''USDC'', POLYGON_TOKENS ''USDT'', POLYGON_TOKENS ''DAI''], metaTokens = None,
     curve_gasSchedule = Fin 150000\<rparr>)]"

definition NERVE_BSC_INFOS :: "(string \<times> CurveInfo) list" where
  "NERVE_BSC_INFOS = js_object [
    (NERVE_POOLS ''threePool'', \<lparr>exchangeFunctionSelector = CurveFunctionSelectors ''swap'',
     sellQuoteFunctionSelector = CurveFunctionSelectors ''calculateSwap'',
     buyQuoteFunctionSelector = CurveFunctionSelectors ''None'', curve_poolAddress = NERVE_POOLS ''threePool'',
     curve_tokens = [BSC_TOKENS ''BUSD'', BSC_TOKENS ''USDT'', BSC_TOKENS ''USDC''], metaTokens = None,
     curve_gasSchedule = Fin 140000\<rparr>)]"

definition SYNAPSE_BSC_INFOS :: "(string \<times> CurveInfo) list" where
  "SYNAPSE_BSC_INFOS = js_object [
    (SYNAPSE_BSC_POOLS ''nUSDLP'', \<lparr>exchangeFunctionSelector = CurveFunctionSelectors ''swap'',
     sellQuoteFunctionSelector = CurveFunctionSelectors ''calculateSwap'',
     buyQuoteFunctionSelector = CurveFunctionSelectors ''None'', curve_poolAddress = SYNAPSE_BSC_POOLS ''nUSDLP'',
     curve_tokens = [BSC_TOKENS ''nUSD'', BSC_TOKENS ''BUSD'', BSC_TOKENS ''USDC'', BSC_TOKENS ''USDT''], metaTokens = None,
     curve_gasSchedule = Fin 140000\<rparr>)]"

definition SYNAPSE_FANTOM_INFOS :: "(string \<times> CurveInfo) list" where
  "SYNAPSE_FANTOM_INFOS = js_object [
    (SYNAPSE_FANTOM_POOLS ''nUSDLP'', \<lparr>exchangeFunctionSelector = CurveFunctionSelectors ''swap'',
     sellQuoteFunctionSelector = CurveFunctionSelectors ''calculateSwap'',
     buyQuoteFunctionSelector = CurveFunctionSelectors ''None'', curve_poolAddress = SYNAPSE_FANTOM_POOLS ''nUSDLP'',
     curve_tokens = [FANTOM_TOKENS ''nUSD'', FANTOM_TOKENS ''MIM'', FANTOM_TOKENS ''USDC'', FANTOM_TOKENS ''fUSDT''],
     metaTokens = None, curve_gasSchedule = Fin 140000\<rparr>)]"

definition SYNAPSE_MAINNET_INFOS :: "(string \<times> CurveInfo) list" where
  "SYNAPSE_MAINNET_INFOS = js_object [
    (SYNAPSE_MAINNET_POOLS ''nUSDLP'', \<lparr>exchangeFunctionSelector = CurveFunctionSelectors ''swap'',
     sellQuoteFunctionSelector = CurveFunctionSelectors ''calculateSwap'',
     buyQuoteFunctionSelector = CurveFunctionSelectors ''None'', curve_poolAddress = SYNAPSE_MAINNET_POOLS ''nUSDLP'',
     curve_tokens = [MAINNET_TOKENS ''DAI'', MAINNET_TOKENS ''USDC'', MAINNET_TOKENS ''USDT''], metaTokens = None,
     curve_gasSchedule = Fin 140000\<rparr>)]"

definition SYNAPSE_OPTIMISM_INFOS :: "(string \<times> CurveInfo) list" where
  "SYNAPSE_OPTIMISM_INFOS = js_object [
    (SYNAPSE_OPTIMISM_POOLS ''nETHLP'', \<lparr>exchangeFunctionSelector = CurveFunctionSelectors ''swap'',
     sellQuoteFunctionSelector = CurveFunctionSelectors ''calculateSwap'',
     buyQuoteFunctionSelector = CurveFunctionSelectors ''None'', curve_poolAddress = SYNAPSE_OPTIMISM_POOLS ''nETHLP'',
     curve_tokens = [OPTIMISM_TOKENS ''nETH'', OPTIMISM_TOKENS ''sWETH''], metaTokens = None,
     curve_gasSchedule = Fin 140000\<rparr>)]"

definition SYNAPSE_POLYGON_INFOS :: "(string \<times> CurveInfo) list" where
  "SYNAPSE_POLYGON_INFOS = js_object [
    (SYNAPSE_POLYGON_POOLS ''nUSDLP'', \<lparr>exchangeFunctionSelector = CurveFunctionSelectors ''swap'',
     sellQuoteFunctionSelector = CurveFunctionSelectors ''calculateSwap'',
     buyQuoteFunctionSelector = CurveFunctionSelectors ''None'', curve_poolAddress = SYNAPSE_POLYGON_POOLS ''nUSDLP'',
     curve_tokens = [POLYGON_TOKENS ''nUSD'', POLYGON_TOKENS ''DAI'', POLYGON_TOKENS ''USDC'', POLYGON_TOKENS ''USDT''],
     metaTokens = None, curve_gasSchedule = Fin 140000\<rparr>)]"

definition SYNAPSE_AVALANCHE_INFOS :: "(string \<times> CurveInfo) list" where
  "SYNAPSE_AVALANCHE_INFOS = js_object [
    (SYNAPSE_AVALANCHE_POOLS ''nUSDLP'', \<lparr>exchangeFunctionSelector = CurveFunctionSelectors ''swap'',
     sellQuoteFunctionSelector = CurveFunctionSelectors ''calculateSwap'',
     buyQuoteFunctionSelector = CurveFunctionSelectors ''None'', curve_poolAddress = SYNAPSE_AVALANCHE_POOLS ''nUSDLP'',
     curve_tokens = [AVALANCHE_TOKENS ''nUSD'', AVALANCHE_TOKENS ''DAI'', AVALANCHE_TOKENS ''USDC'',
     AVALANCHE_TOKENS ''USDT''], metaTokens = None, curve_gasSchedule = Fin 140000\<rparr>),
    (SYNAPSE_AVALANCHE_POOLS ''nETHLP'', \<lparr>exchangeFunctionSelector = CurveFunctionSelectors ''swap'',
     sellQuoteFunctionSelector = CurveFunctionSelectors ''calculateSwap'',
     buyQuoteFunctionSelector = CurveFunctionSelectors ''None'', curve_poolAddress = SYNAPSE_AVALANCHE_POOLS ''nETHLP'',
     curve_tokens = [AVALANCHE_TOKENS ''nETH'', AVALANCHE_TOKENS ''aWETH''], metaTokens = None,
     curve_gasSchedule = Fin 140000\<rparr>)]"

definition SYNAPSE_ARBITRUM_INFOS :: "(string \<times> CurveInfo) list" where
  "SYNAPSE_ARBITRUM_INFOS = js_object [
    (SYNAPSE_ARBITRUM_POOLS ''nUSDLP'', \<lparr>exchangeFunctionSelector = CurveFunctionSelectors ''swap'',
     sellQuoteFunctionSelector = CurveFunctionSelectors ''calculateSwap'',
     buyQuoteFunctionSelector = CurveFunctionSelectors ''None'', curve_poolAddress = SYNAPSE_ARBITRUM_POOLS ''nUSDLP'',
     curve_tokens = [ARBITRUM_TOKENS ''nUSD'', ARBITRUM_TOKENS ''MIM'', ARBITRUM_TOKENS ''USDC'', ARBITRUM_TOKENS ''USDT''],
     metaTokens = None, curve_gasSchedule = Fin 200000\<rparr>),
    (SYNAPSE_ARBITRUM_POOLS ''nETHLP'', \<lparr>exchangeFunctionSelector = CurveFunctionSelectors ''swap'',
     sellQuoteFunctionSelector = CurveFunctionSelectors ''calculateSwap'',
     buyQuoteFunctionSelector = CurveFunctionSelectors ''None'', curve_poolAddress = SYNAPSE_ARBITRUM_POOLS ''nETHLP'',
     curve_tokens = [ARBITRUM_TOKENS ''nETH'', ARBITRUM_TOKENS ''WETH''], metaTokens = None,
     curve_gasSchedule = Fin 175000\<rparr>)]"

definition FIREBIRDONESWAP_BSC_INFOS :: "(string \<times> CurveInfo) list" where
  "FIREBIRDONESWAP_BSC_INFOS = js_object [
    (FIREBIRDONESWAP_BSC_POOLS ''oneswap'', \<lparr>exchangeFunctionSelector = CurveFunctionSelectors ''swap'',
     sellQuoteFunctionSelector = CurveFunctionSelectors ''calculateSwap'',
     buyQuoteFunctionSelector = CurveFunctionSelectors ''None'', curve_poolAddress = FIREBIRDONESWAP_BSC_POOLS ''oneswap'',
     curve_tokens = [BSC_TOKENS ''BUSD'', BSC_TOKENS ''USDT'', BSC_TOKENS ''DAI'', BSC_TOKENS ''USDC''], metaTokens = None,
     curve_gasSchedule = Fin 100000\<rparr>)]"

definition FIREBIRDONESWAP_POLYGON_INFOS :: "(string \<times> CurveInfo) list" where
  "FIREBIRDONESWAP_POLYGON_INFOS = js_object [
    (FIREBIRDONESWAP_POLYGON_POOLS ''oneswap'', \<lparr>exchangeFunctionSelector = CurveFunctionSelectors ''swap'',
     sellQuoteFunctionSelector = CurveFunctionSelectors ''calculateSwap'',
     buyQuoteFunctionSelector = CurveFunctionSelectors ''None'',
     curve_poolAddress = FIREBIRDONESWAP_POLYGON_POOLS ''oneswap'', curve_tokens = [POLYGON_TOKENS ''DAI'',
     POLYGON_TOKENS ''USDC'', POLYGON_TOKENS ''USDT''], metaTokens = None, curve_gasSchedule = Fin 100000\<rparr>)]"

definition MOBIUSMONEY_CELO_INFOS :: "(string \<times> CurveInfo) list" where
  "MOBIUSMONEY_CELO_INFOS = js_object [
    (MOBIUSMONEY_CELO_POOLS ''usdc_optics_v2'',
     MOBIUSMONEY_CELO_SHARED\<lparr>curve_poolAddress := MOBIUSMONEY_CELO_POOLS ''usdc_optics_v2'',
     curve_tokens := [CELO_TOKENS ''cUSD'', CELO_TOKENS ''cUSDC_V2'']\<rparr>),
    (MOBIUSMONEY_CELO_POOLS ''weth_optics_v2'',
     MOBIUSMONEY_CELO_SHARED\<lparr>curve_poolAddress := MOBIUSMONEY_CELO_POOLS ''weth_optics_v2'',
     curve_tokens := [CELO_TOKENS ''cETH'', CELO_TOKENS ''oWETH'']\<rparr>),
    (MOBIUSMONEY_CELO_POOLS ''pusdc_optics_v2'',
     MOBIUSMONEY_CELO_SHARED\<lparr>curve_poolAddress := MOBIUSMONEY_CELO_POOLS ''pusdc_optics_v2'',
     curve_tokens := [CELO_TOKENS ''cUSD'', CELO_TOKENS ''pUSDC_V2'']\<rparr>),
    (MOBIUSMONEY_CELO_POOLS ''usdc_allbridge_solana'',
     MOBIUSMONEY_CELO_SHARED\<lparr>curve_poolAddress := MOBIUSMONEY_CELO_POOLS ''usdc_allbridge_solana'',
     curve_tokens := [CELO_TOKENS ''cUSD'', CELO_TOKENS ''asUSDC'']\<rparr>),
    (MOBIUSMONEY_CELO_POOLS ''usdc_poly_optics'',
     MOBIUSMONEY_CELO_SHARED\<lparr>curve_poolAddress := MOBIUSMONEY_CELO_POOLS ''usdc_poly_optics'',
     curve_tokens := [CELO_TOKENS ''cUSD'', CELO_TOKENS ''pUSD'']\<rparr>),
    (MOBIUSMONEY_CELO_POOLS ''dai_optics_v2'',
     MOBIUSMONEY_CELO_SHARED\<lparr>curve_poolAddress := MOBIUSMONEY_CELO_POOLS ''dai_optics_v2'',
     curve_tokens := [CELO_TOKENS ''cUSD'', CELO_TOKENS ''DAI'']\<rparr>)]"

record PlatypusInfo =
  pl_poolAddress :: Address
  pl_tokens :: "Address list"
  pl_gasSchedule :: js_number

definition PLATYPUS_AVALANCHE_INFOS :: "(string \<times> PlatypusInfo) list" where
  "PLATYPUS_AVALANCHE_INFOS = js_object [
    (PLATYPUS_AVALANCHE_POOLS ''usd'', \<lparr>pl_poolAddress = PLATYPUS_AVALANCHE_POOLS ''usd'',
     pl_tokens = [AVALANCHE_TOKENS ''USDT'', AVALANCHE_TOKENS ''USDC'', AVALANCHE_TOKENS ''DAI'',
     AVALANCHE_TOKENS ''nUSDC'', AVALANCHE_TOKENS ''USDt''], pl_gasSchedule = Fin 300000\<rparr>),
    (PLATYPUS_AVALANCHE_POOLS ''yusd'', \<lparr>pl_poolAddress = PLATYPUS_AVALANCHE_POOLS ''yusd'',
     pl_tokens = [AVALANCHE_TOKENS ''YUSD'', AVALANCHE_TOKENS ''nUSDC''], pl_gasSchedule = Fin 300000\<rparr>),
    (PLATYPUS_AVALANCHE_POOLS ''frax'', \<lparr>pl_poolAddress = PLATYPUS_AVALANCHE_POOLS ''frax'',
     pl_tokens = [AVALANCHE_TOKENS ''FRAX'', AVALANCHE_TOKENS ''nUSDC''], pl_gasSchedule = Fin 300000\<rparr>),
    (PLATYPUS_AVALANCHE_POOLS ''mim'', \<lparr>pl_poolAddress = PLATYPUS_AVALANCHE_POOLS ''mim'',
     pl_tokens = [AVALANCHE_TOKENS ''MIM'', AVALANCHE_TOKENS ''nUSDC''], pl_gasSchedule = Fin 300000\<rparr>),
    (PLATYPUS_AVALANCHE_POOLS ''sAVAX'', \<lparr>pl_poolAddress = PLATYPUS_AVALANCHE_POOLS ''sAVAX'',
     pl_tokens = [AVALANCHE_TOKENS ''WAVAX'', AVALANCHE_TOKENS ''sAVAX''], pl_gasSchedule = Fin 300000\<rparr>)]"

end
