(* ===== verification/Bridge_Sources.thy ===== *)
theory Bridge_Sources
  imports Pool_Tables Orders
begin

text \<open>
  Which pools and routers a source offers for a pair (\<open>bridge_source_utils.ts\<close>). Tokens are compared as
  strings, as the code does: the tables hold lower-case addresses and so must the callers.
\<close>

section \<open>Addresses\<close>

definition isValidAddress :: "Address \<Rightarrow> bool" where
  "isValidAddress address = (address \<noteq> NULL_ADDRESS)"

definition getDodoV2Offsets :: "BigNumber list" where
  "getDodoV2Offsets = map (\<lambda>i. Fin (of_nat i)) [0..<MAX_DODOV2_POOLS_QUERIED]"

section \<open>Pools of a pair\<close>

definition hasBoth :: "Address list \<Rightarrow> Address \<Rightarrow> Address \<Rightarrow> bool" where
  "hasBoth tokens takerToken makerToken = list_all (\<lambda>t. t \<in> set tokens) [makerToken, takerToken]"

definition getShellsForPair :: "ChainId \<Rightarrow> Address \<Rightarrow> Address \<Rightarrow> Address list" where
  "getShellsForPair chainId takerToken makerToken =
     (if chainId \<noteq> Mainnet then []
      else map shell_poolAddress
             (filter (\<lambda>c. hasBoth (shell_tokens c) takerToken makerToken)
               (map snd (SHELL_POOLS_BY_CHAIN_ID chainId))))"

definition getComponentForPair :: "ChainId \<Rightarrow> Address \<Rightarrow> Address \<Rightarrow> Address list" where
  "getComponentForPair chainId takerToken makerToken =
     (if chainId \<noteq> Mainnet then []
      else map shell_poolAddress
             (filter (\<lambda>c. hasBoth (shell_tokens c) takerToken makerToken)
               (map snd (COMPONENT_POOLS_BY_CHAIN_ID chainId))))"

definition getMStableForPair :: "ChainId \<Rightarrow> Address \<Rightarrow> Address \<Rightarrow> Address list" where
  "getMStableForPair chainId takerToken makerToken =
     (if chainId \<noteq> Mainnet \<and> chainId \<noteq> Polygon then []
      else map shell_poolAddress
             (filter (\<lambda>c. hasBoth (shell_tokens c) takerToken makerToken)
               (map snd (MSTABLE_POOLS_BY_CHAIN_ID chainId))))"

text \<open>The callback every Curve-like lookup filters with: the pool has both tokens and, when it is a meta pool,
  one of the two is a meta token.\<close>

definition curveTradesPair :: "Address \<Rightarrow> Address \<Rightarrow> CurveInfo \<Rightarrow> bool" where
  "curveTradesPair takerToken makerToken c =
     list_all (\<lambda>t. (t \<in> set (curve_tokens c) \<and> metaTokens c = None) \<or>
                   (t \<in> set (curve_tokens c) \<and>
                    0 < length (filter (\<lambda>v. case metaTokens c of None \<Rightarrow> False | Some ms \<Rightarrow> v \<in> set ms)
                                  [makerToken, takerToken])))
       [makerToken, takerToken]"

definition filterTokenInfos :: "Address \<Rightarrow> Address \<Rightarrow> (string \<times> CurveInfo) list \<Rightarrow> CurveInfo list" where
  "filterTokenInfos takerToken makerToken infos = filter (curveTradesPair takerToken makerToken) (map snd infos)"

definition getCurveInfosForPair :: "ChainId \<Rightarrow> Address \<Rightarrow> Address \<Rightarrow> CurveInfo list" where
  "getCurveInfosForPair chainId takerToken makerToken =
     (case chainId of
        Mainnet \<Rightarrow> filterTokenInfos takerToken makerToken CURVE_MAINNET_INFOS
      | Polygon \<Rightarrow> filterTokenInfos takerToken makerToken CURVE_POLYGON_INFOS
      | Fantom \<Rightarrow> filterTokenInfos takerToken makerToken CURVE_FANTOM_INFOS
      | Avalanche \<Rightarrow> filterTokenInfos takerToken makerToken CURVE_AVALANCHE_INFOS
      | Optimism \<Rightarrow> filterTokenInfos takerToken makerToken CURVE_OPTIMISM_INFOS
      | _ \<Rightarrow> [])"

definition getCurveV2InfosForPair :: "ChainId \<Rightarrow> Address \<Rightarrow> Address \<Rightarrow> CurveInfo list" where
  "getCurveV2InfosForPair chainId takerToken makerToken =
     (case chainId of
        Mainnet \<Rightarrow> filterTokenInfos takerToken makerToken CURVE_V2_MAINNET_INFOS
      | Polygon \<Rightarrow> filterTokenInfos takerToken makerToken CURVE_V2_POLYGON_INFOS
      | Fantom \<Rightarrow> filterTokenInfos takerToken makerToken CURVE_V2_FANTOM_INFOS
      | Avalanche \<Rightarrow> filterTokenInfos takerToken makerToken CURVE_V2_AVALANCHE_INFOS
      | Arbitrum \<Rightarrow> filterTokenInfos takerToken makerToken CURVE_V2_ARBITRUM_INFOS
      | _ \<Rightarrow> [])"

definition getNerveInfosForPair :: "ChainId \<Rightarrow> Address \<Rightarrow> Address \<Rightarrow> CurveInfo list" where
  "getNerveInfosForPair chainId takerToken makerToken =
     (if chainId \<noteq> BSC then [] else filterTokenInfos takerToken makerToken NERVE_BSC_INFOS)"

definition getSynapseInfosForPair :: "ChainId \<Rightarrow> Address \<Rightarrow> Address \<Rightarrow> CurveInfo list" where
  "getSynapseInfosForPair chainId takerToken makerToken =
     (case chainId of
        Mainnet \<Rightarrow> filterTokenInfos takerToken makerToken SYNAPSE_MAINNET_INFOS
      | Optimism \<Rightarrow> filterTokenInfos takerToken makerToken SYNAPSE_OPTIMISM_INFOS
      | BSC \<Rightarrow> filterTokenInfos takerToken makerToken SYNAPSE_BSC_INFOS
      | Polygon \<Rightarrow> filterTokenInfos takerToken makerToken SYNAPSE_POLYGON_INFOS
      | Fantom \<Rightarrow> filterTokenInfos takerToken makerToken SYNAPSE_FANTOM_INFOS
      | Avalanche \<Rightarrow> filterTokenInfos takerToken makerToken SYNAPSE_AVALANCHE_INFOS
      | Arbitrum \<Rightarrow> filterTokenInfos takerToken makerToken SYNAPSE_ARBITRUM_INFOS
      | _ \<Rightarrow> [])"

definition getFirebirdOneSwapInfosForPair :: "ChainId \<Rightarrow> Address \<Rightarrow> Address \<Rightarrow> CurveInfo list" where
  "getFirebirdOneSwapInfosForPair chainId takerToken makerToken =
     (if chainId = BSC then filterTokenInfos takerToken makerToken FIREBIRDONESWAP_BSC_INFOS
      else if chainId = Polygon then filterTokenInfos takerToken makerToken FIREBIRDONESWAP_POLYGON_INFOS
      else [])"

definition getBeltInfosForPair :: "ChainId \<Rightarrow> Address \<Rightarrow> Address \<Rightarrow> CurveInfo list" where
  "getBeltInfosForPair chainId takerToken makerToken =
     (if chainId \<noteq> BSC then [] else filterTokenInfos takerToken makerToken BELT_BSC_INFOS)"

definition getEllipsisInfosForPair :: "ChainId \<Rightarrow> Address \<Rightarrow> Address \<Rightarrow> CurveInfo list" where
  "getEllipsisInfosForPair chainId takerToken makerToken =
     (if chainId \<noteq> BSC then [] else filterTokenInfos takerToken makerToken ELLIPSIS_BSC_INFOS)"

definition chainToInfosMap :: "(ChainId \<times> (string \<times> CurveInfo) list) list" where
  "chainToInfosMap =
     [(Mainnet, SADDLE_MAINNET_INFOS), (Optimism, SADDLE_OPTIMISM_INFOS), (Arbitrum, SADDLE_ARBITRUM_INFOS)]"

definition getSaddleInfosForPair :: "ChainId \<Rightarrow> Address \<Rightarrow> Address \<Rightarrow> CurveInfo list" where
  "getSaddleInfosForPair chainId takerToken makerToken =
     (case map_of chainToInfosMap chainId of
        None \<Rightarrow> []
      | Some saddleChainInfos \<Rightarrow> filterTokenInfos takerToken makerToken saddleChainInfos)"

definition getIronSwapInfosForPair :: "ChainId \<Rightarrow> Address \<Rightarrow> Address \<Rightarrow> CurveInfo list" where
  "getIronSwapInfosForPair chainId takerToken makerToken =
     (if chainId \<noteq> Polygon then [] else filterTokenInfos takerToken makerToken IRONSWAP_POLYGON_INFOS)"

definition getAcryptosInfosForPair :: "ChainId \<Rightarrow> Address \<Rightarrow> Address \<Rightarrow> CurveInfo list" where
  "getAcryptosInfosForPair chainId takerToken makerToken =
     (if chainId \<noteq> BSC then [] else filterTokenInfos takerToken makerToken ACRYPTOS_BSC_INFOS)"

definition getMobiusMoneyInfoForPair :: "ChainId \<Rightarrow> Address \<Rightarrow> Address \<Rightarrow> CurveInfo list" where
  "getMobiusMoneyInfoForPair chainId takerToken makerToken =
     (if chainId \<noteq> Celo then [] else filterTokenInfos takerToken makerToken MOBIUSMONEY_CELO_INFOS)"

definition getPlatypusInfoForPair :: "ChainId \<Rightarrow> Address \<Rightarrow> Address \<Rightarrow> PlatypusInfo list" where
  "getPlatypusInfoForPair chainId takerToken makerToken =
     (if chainId \<noteq> Avalanche then []
      else filter (\<lambda>c. hasBoth (pl_tokens c) takerToken makerToken) (map snd PLATYPUS_AVALANCHE_INFOS))"

section \<open>Dispatch by source\<close>

definition getShellLikeInfosForPair ::
  "ChainId \<Rightarrow> Address \<Rightarrow> Address \<Rightarrow> ERC20BridgeSource \<Rightarrow> js_error + Address list" where
  "getShellLikeInfosForPair chainId takerToken makerToken source =
     (case source of
        Shell \<Rightarrow> Inr (getShellsForPair chainId takerToken makerToken)
      | Component \<Rightarrow> Inr (getComponentForPair chainId takerToken makerToken)
      | MStable \<Rightarrow> Inr (getMStableForPair chainId takerToken makerToken)
      | _ \<Rightarrow> Inl (Error (''Unknown Shell like source '' @ source_value source)))"

text \<open>\<open>xs.indexOf(x)\<close>, minus one when absent.\<close>

fun index_in :: "'a \<Rightarrow> 'a list \<Rightarrow> int" where
  "index_in x [] = - 1"
| "index_in x (y # ys) = (if x = y then 0 else if index_in x ys = - 1 then - 1 else 1 + index_in x ys)"

record CurveDetailedInfo = CurveInfo +
  makerTokenIdx :: int
  takerTokenIdx :: int

definition curvePools :: "ChainId \<Rightarrow> Address \<Rightarrow> Address \<Rightarrow> ERC20BridgeSource \<Rightarrow> js_error + CurveInfo list" where
  "curvePools chainId takerToken makerToken source =
     (case source of
        Curve \<Rightarrow> Inr (getCurveInfosForPair chainId takerToken makerToken)
      | CurveV2 \<Rightarrow> Inr (getCurveV2InfosForPair chainId takerToken makerToken)
      | Nerve \<Rightarrow> Inr (getNerveInfosForPair chainId takerToken makerToken)
      | Synapse \<Rightarrow> Inr (getSynapseInfosForPair chainId takerToken makerToken)
      | Belt \<Rightarrow> Inr (getBeltInfosForPair chainId takerToken makerToken)
      | Ellipsis \<Rightarrow> Inr (getEllipsisInfosForPair chainId takerToken makerToken)
      | Saddle \<Rightarrow> Inr (getSaddleInfosForPair chainId takerToken makerToken)
      | FirebirdOneSwap \<Rightarrow> Inr (getFirebirdOneSwapInfosForPair chainId takerToken makerToken)
      | IronSwap \<Rightarrow> Inr (getIronSwapInfosForPair chainId takerToken makerToken)
      | ACryptos \<Rightarrow> Inr (getAcryptosInfosForPair chainId takerToken makerToken)
      | MobiusMoney \<Rightarrow> Inr (getMobiusMoneyInfoForPair chainId takerToken makerToken)
      | _ \<Rightarrow> Inl (Error (''Unknown Curve like source '' @ source_value source)))"

definition getCurveLikeInfosForPair ::
  "ChainId \<Rightarrow> Address \<Rightarrow> Address \<Rightarrow> ERC20BridgeSource \<Rightarrow> js_error + CurveDetailedInfo list" where
  "getCurveLikeInfosForPair chainId takerToken makerToken source =
     res_bind (curvePools chainId takerToken makerToken source) (\<lambda>pools.
       Inr (map (\<lambda>pool. CurveInfo.extend pool
                   (CurveDetailedInfo.fields (index_in makerToken (curve_tokens pool))
                      (index_in takerToken (curve_tokens pool)))) pools))"

definition uniswapV2LikeRouterAddress :: "ChainId \<Rightarrow> ERC20BridgeSource \<Rightarrow> js_error + Address" where
  "uniswapV2LikeRouterAddress chainId source =
     (case source of
        UniswapV2 \<Rightarrow> Inr (UNISWAPV2_ROUTER_BY_CHAIN_ID chainId)
      | SushiSwap \<Rightarrow> Inr (SUSHISWAP_ROUTER_BY_CHAIN_ID chainId)
      | CryptoCom \<Rightarrow> Inr (CRYPTO_COM_ROUTER_BY_CHAIN_ID chainId)
      | PancakeSwap \<Rightarrow> Inr (PANCAKESWAP_ROUTER_BY_CHAIN_ID chainId)
      | PancakeSwapV2 \<Rightarrow> Inr (PANCAKESWAPV2_ROUTER_BY_CHAIN_ID chainId)
      | BakerySwap \<Rightarrow> Inr (BAKERYSWAP_ROUTER_BY_CHAIN_ID chainId)
      | ApeSwap \<Rightarrow> Inr (APESWAP_ROUTER_BY_CHAIN_ID chainId)
      | QuickSwap \<Rightarrow> Inr (QUICKSWAP_ROUTER_BY_CHAIN_ID chainId)
      | Dfyn \<Rightarrow> Inr (DFYN_ROUTER_BY_CHAIN_ID chainId)
      | WaultSwap \<Rightarrow> Inr (WAULTSWAP_ROUTER_BY_CHAIN_ID chainId)
      | ShibaSwap \<Rightarrow> Inr (SHIBASWAP_ROUTER_BY_CHAIN_ID chainId)
      | Pangolin \<Rightarrow> Inr (PANGOLIN_ROUTER_BY_CHAIN_ID chainId)
      | TraderJoe \<Rightarrow> Inr (TRADER_JOE_ROUTER_BY_CHAIN_ID chainId)
      | UbeSwap \<Rightarrow> Inr (UBESWAP_ROUTER_BY_CHAIN_ID chainId)
      | MorpheusSwap \<Rightarrow> Inr (MORPHEUSSWAP_ROUTER_BY_CHAIN_ID chainId)
      | SpookySwap \<Rightarrow> Inr (SPOOKYSWAP_ROUTER_BY_CHAIN_ID chainId)
      | SpiritSwap \<Rightarrow> Inr (SPIRITSWAP_ROUTER_BY_CHAIN_ID chainId)
      | BiSwap \<Rightarrow> Inr (BISWAP_ROUTER_BY_CHAIN_ID chainId)
      | Yoshi \<Rightarrow> Inr (YOSHI_ROUTER_BY_CHAIN_ID chainId)
      | MeshSwap \<Rightarrow> Inr (MESHSWAP_ROUTER_BY_CHAIN_ID chainId)
      | MDex \<Rightarrow> Inr (MDEX_ROUTER_BY_CHAIN_ID chainId)
      | KnightSwap \<Rightarrow> Inr (KNIGHTSWAP_ROUTER_BY_CHAIN_ID chainId)
      | _ \<Rightarrow> Inl (Error (''Unknown UniswapV2 like source '' @ source_value source)))"

definition BAD_TOKENS_BY_SOURCE :: "ERC20BridgeSource \<Rightarrow> Address list" where
  "BAD_TOKENS_BY_SOURCE source =
     (if source = Uniswap then [''0xb8c77482e45f1f44de1745f52c74426c631bdd52''] else [])"

definition isBadTokenForSource :: "Address \<Rightarrow> ERC20BridgeSource \<Rightarrow> bool" where
  "isBadTokenForSource token source = (toLowerCase token \<in> set (BAD_TOKENS_BY_SOURCE source))"

section \<open>Lemmas\<close>

lemma index_in_bounds: "- 1 \<le> index_in x xs" "index_in x xs < int (length xs)"
  by (induction xs) auto

lemma index_in_mem: "x \<in> set xs \<Longrightarrow> 0 \<le> index_in x xs \<and> xs ! nat (index_in x xs) = x"
proof (induction xs)
  case (Cons y ys)
  then show ?case by (auto simp: Suc_nat_eq_nat_zadd1[symmetric] add.commute)
qed simp

lemma index_in_inj: "x \<in> set xs \<Longrightarrow> y \<in> set xs \<Longrightarrow> index_in x xs = index_in y xs \<longleftrightarrow> x = y"
  by (metis index_in_mem)

lemma hasBoth_iff [simp]: "hasBoth tokens t m \<longleftrightarrow> t \<in> set tokens \<and> m \<in> set tokens"
  by (auto simp: hasBoth_def)

lemma curveTradesPair_iff:
  "curveTradesPair t m c \<longleftrightarrow>
     t \<in> set (curve_tokens c) \<and> m \<in> set (curve_tokens c) \<and>
     (\<forall>ms. metaTokens c = Some ms \<longrightarrow> t \<in> set ms \<or> m \<in> set ms)"
  by (cases "metaTokens c") (auto simp: curveTradesPair_def)

lemma curveTradesPair_commute: "curveTradesPair t m c = curveTradesPair m t c"
  by (auto simp: curveTradesPair_iff)

lemma filterTokenInfos_commute: "filterTokenInfos t m infos = filterTokenInfos m t infos"
  unfolding filterTokenInfos_def by (rule filter_cong[OF refl curveTradesPair_commute])

lemmas curve_lookups =
  getCurveInfosForPair_def getCurveV2InfosForPair_def getNerveInfosForPair_def getSynapseInfosForPair_def
  getFirebirdOneSwapInfosForPair_def getBeltInfosForPair_def getEllipsisInfosForPair_def getSaddleInfosForPair_def
  getIronSwapInfosForPair_def getAcryptosInfosForPair_def getMobiusMoneyInfoForPair_def

text \<open>The table a source searches on a chain.\<close>

definition curve_table :: "ChainId \<Rightarrow> ERC20BridgeSource \<Rightarrow> (string \<times> CurveInfo) list" where
  "curve_table chainId source =
     (case (source, chainId) of
        (Curve, Mainnet) \<Rightarrow> CURVE_MAINNET_INFOS | (Curve, Polygon) \<Rightarrow> CURVE_POLYGON_INFOS
      | (Curve, Fantom) \<Rightarrow> CURVE_FANTOM_INFOS | (Curve, Avalanche) \<Rightarrow> CURVE_AVALANCHE_INFOS
      | (Curve, Optimism) \<Rightarrow> CURVE_OPTIMISM_INFOS
      | (CurveV2, Mainnet) \<Rightarrow> CURVE_V2_MAINNET_INFOS | (CurveV2, Polygon) \<Rightarrow> CURVE_V2_POLYGON_INFOS
      | (CurveV2, Fantom) \<Rightarrow> CURVE_V2_FANTOM_INFOS | (CurveV2, Avalanche) \<Rightarrow> CURVE_V2_AVALANCHE_INFOS
      | (CurveV2, Arbitrum) \<Rightarrow> CURVE_V2_ARBITRUM_INFOS
      | (Nerve, BSC) \<Rightarrow> NERVE_BSC_INFOS
      | (Synapse, Mainnet) \<Rightarrow> SYNAPSE_MAINNET_INFOS | (Synapse, Optimism) \<Rightarrow> SYNAPSE_OPTIMISM_INFOS
      | (Synapse, BSC) \<Rightarrow> SYNAPSE_BSC_INFOS | (Synapse, Polygon) \<Rightarrow> SYNAPSE_POLYGON_INFOS
      | (Synapse, Fantom) \<Rightarrow> SYNAPSE_FANTOM_INFOS | (Synapse, Avalanche) \<Rightarrow> SYNAPSE_AVALANCHE_INFOS
      | (Synapse, Arbitrum) \<Rightarrow> SYNAPSE_ARBITRUM_INFOS
      | (Belt, BSC) \<Rightarrow> BELT_BSC_INFOS | (Ellipsis, BSC) \<Rightarrow> ELLIPSIS_BSC_INFOS
      | (Saddle, Mainnet) \<Rightarrow> SADDLE_MAINNET_INFOS | (Saddle, Optimism) \<Rightarrow> SADDLE_OPTIMISM_INFOS
      | (Saddle, Arbitrum) \<Rightarrow> SADDLE_ARBITRUM_INFOS
      | (FirebirdOneSwap, BSC) \<Rightarrow> FIREBIRDONESWAP_BSC_INFOS
      | (FirebirdOneSwap, Polygon) \<Rightarrow> FIREBIRDONESWAP_POLYGON_INFOS
      | (IronSwap, Polygon) \<Rightarrow> IRONSWAP_POLYGON_INFOS | (ACryptos, BSC) \<Rightarrow> ACRYPTOS_BSC_INFOS
      | (MobiusMoney, Celo) \<Rightarrow> MOBIUSMONEY_CELO_INFOS
      | _ \<Rightarrow> [])"

lemma filterTokenInfos_Nil [simp]: "filterTokenInfos t m [] = []"
  by (simp add: filterTokenInfos_def)

lemma curvePools_eq:
  "curvePools chainId t m source =
     (if source \<in> set curve_like then Inr (filterTokenInfos t m (curve_table chainId source))
      else Inl (Error (''Unknown Curve like source '' @ source_value source)))"
  by (cases source) (cases chainId; simp add: curvePools_def curve_table_def curve_lookups chainToInfosMap_def curve_like_def)+


text \<open>An object literal is the map of its entries read backwards, and holds none but its entries.\<close>

lemma map_of_js_object: "map_of (js_object es) = map_of (rev es)"
proof -
  have "map_of (foldl (\<lambda>m e. AList.update (fst e) (snd e) m) a es) = map_of (rev es @ a)" for a :: "(string \<times> 'a) list"
    by (induction es arbitrary: a) (auto simp: update_conv' fun_eq_iff map_add_def split: option.splits)
  then show ?thesis by (simp add: js_object_def)
qed

lemma map_of_rev_Cons:
  "map_of (rev ((a, b) # es)) k = (case map_of (rev es) k of Some v \<Rightarrow> Some v | None \<Rightarrow> if a = k then Some b else None)"
  by (simp add: map_add_def split: option.splits)

lemma map_of_rev_Nil: "map_of (rev []) k = None"
  by simp

lemma distinct_js_object: "distinct (map fst (js_object es))"
proof -
  have "distinct (map fst a) \<Longrightarrow> distinct (map fst (foldl (\<lambda>m e. AList.update (fst e) (snd e) m) a es))"
    for a :: "(string \<times> 'a) list"
    by (induction es arbitrary: a) (simp_all add: distinct_update)
  then show ?thesis by (simp add: js_object_def)
qed

lemma js_object_entry: "(k, v) \<in> set (js_object es) \<longleftrightarrow> map_of (rev es) k = Some v"
  by (metis distinct_js_object map_of_eq_Some_iff map_of_js_object)

lemma js_object_subset: "(k, v) \<in> set (js_object es) \<Longrightarrow> (k, v) \<in> set es"
  using map_of_SomeD[of "rev es" k v] by (simp add: js_object_entry)

lemmas curve_kinds =
  createCurveExchangePool_def createCurveExchangeUnderlyingPool_def createCurveMetaTriPool_def
  createCurveMetaTriBtcPool_def createCurveFactoryCryptoExchangePool_def

lemma mainnet_curve_keys: "(k, p) \<in> set CURVE_MAINNET_INFOS \<Longrightarrow> k = curve_poolAddress p"
  unfolding CURVE_MAINNET_INFOS_def by (drule js_object_subset) (auto simp: curve_kinds)

text \<open>The names of the mainnet pools, which stand for different addresses.\<close>

definition curve_names :: "string list" where
  "curve_names = [''compound'', ''PAX'', ''sUSD'', ''renBTC'', ''sBTC'', ''HBTC'', ''TRI'', ''GUSD'', ''HUSD'', ''USDN'',
     ''mUSD'', ''dUSD'', ''tBTC'', ''pBTC'', ''bBTC'', ''oBTC'', ''UST'', ''eurs'', ''seth'', ''aave'',
     ''steth'', ''saave'', ''ankreth'', ''USDP'', ''ib'', ''link'', ''btrflyweth'', ''stgusdc'',
     ''TUSD'', ''STABLEx'', ''alUSD'', ''FRAX'', ''LUSD'', ''BUSD'', ''DSU3CRV'', ''cvxcrv'', ''cvxfxs'',
     ''mim'', ''eurt'', ''ethcrv'', ''ethcvx'', ''fei_tri'', ''rai_tri'', ''DOLA_tri'', ''OUSD_tri'',
     ''d3pool'', ''triEURpool'', ''ibEURsEUR'', ''wethyfi'', ''ycrvcrv'', ''bLUSD'', ''rsr'',
     ''DOLAFRAX'', ''crvfrax'']"

lemma CURVE_POOLS_eq_iff:
  "a \<in> set curve_names \<Longrightarrow> b \<in> set curve_names \<Longrightarrow> CURVE_POOLS a = CURVE_POOLS b \<longleftrightarrow> a = b"
  unfolding CURVE_POOLS_def curve_names_def by (rule object_eq_iff) simp_all

lemma mainnet_curve_aave:
  "map_of CURVE_MAINNET_INFOS (CURVE_POOLS ''aave'') =
     Some (createCurveExchangePool [MAINNET_TOKENS ''aDAI'', MAINNET_TOKENS ''aUSDC'', MAINNET_TOKENS ''aUSDT'']
             (CURVE_POOLS ''aave'') (Fin 580000))"
  unfolding CURVE_MAINNET_INFOS_def map_of_js_object
  by (simp add: map_of_rev_Cons map_of_rev_Nil CURVE_POOLS_eq_iff curve_names_def del: rev.simps)


definition all_chains :: "ChainId list" where
  "all_chains = [Mainnet, Goerli, Ganache, BSC, Polygon, PolygonMumbai, Avalanche, Fantom, Celo, Optimism, Arbitrum]"

lemma all_chains_complete: "c \<in> set all_chains"
  by (cases c) (simp_all add: all_chains_def)

lemma list_all_memD: "list_all P xs \<Longrightarrow> x \<in> set xs \<Longrightarrow> P x"
  by (simp add: list_all_iff)

definition fork_has_router :: "ChainId \<Rightarrow> ERC20BridgeSource \<Rightarrow> bool" where
  "fork_has_router chainId source =
     (source \<in> set uniswapV2_like \<longrightarrow>
      (case uniswapV2LikeRouterAddress chainId source of Inr router \<Rightarrow> isValidAddress router | Inl e \<Rightarrow> False))"

lemma forks_checked:
  "list_all (\<lambda>c. list_all (fork_has_router c)
     (validSources (SELL_SOURCE_FILTER_BY_CHAIN_ID c) @ validSources (BUY_SOURCE_FILTER_BY_CHAIN_ID c))) all_chains"
  by code_simp

section \<open>Properties\<close>

text \<open>C34: Every pool a Curve-like source offers for a pair holds both tokens at the indices it is quoted with,
  the indices differ when the tokens do, and a meta pool is offered only for a pair with one of its meta tokens.\<close>

theorem curve_pool_indices:
  assumes "getCurveLikeInfosForPair chainId taker maker source = Inr pools" "p \<in> set pools"
  shows "curve_tokens p ! nat (takerTokenIdx p) = taker \<and> curve_tokens p ! nat (makerTokenIdx p) = maker \<and>
    0 \<le> takerTokenIdx p \<and> takerTokenIdx p < int (length (curve_tokens p)) \<and>
    0 \<le> makerTokenIdx p \<and> makerTokenIdx p < int (length (curve_tokens p)) \<and>
    (taker \<noteq> maker \<longrightarrow> takerTokenIdx p \<noteq> makerTokenIdx p) \<and>
    (\<forall>ms. metaTokens p = Some ms \<longrightarrow> taker \<in> set ms \<or> maker \<in> set ms)"
proof -
  obtain c :: CurveInfo where c: "curveTradesPair taker maker c"
    and p: "p = CurveInfo.extend c (CurveDetailedInfo.fields (index_in maker (curve_tokens c)) (index_in taker (curve_tokens c)))"
    using assms by (auto simp: getCurveLikeInfosForPair_def curvePools_eq filterTokenInfos_def split: if_splits)
  have mem: "taker \<in> set (curve_tokens c)" "maker \<in> set (curve_tokens c)"
    and meta: "\<forall>ms. metaTokens c = Some ms \<longrightarrow> taker \<in> set ms \<or> maker \<in> set ms"
    using c by (auto simp: curveTradesPair_iff)
  show ?thesis
    unfolding p using mem meta index_in_mem[OF mem(1)] index_in_mem[OF mem(2)]
      index_in_bounds(2)[of taker "curve_tokens c"] index_in_bounds(2)[of maker "curve_tokens c"] index_in_inj[OF mem] by (simp add: CurveInfo.defs CurveDetailedInfo.defs)
qed

theorem curve_pool_indices_witness:
  "\<exists>p. getCurveLikeInfosForPair Optimism (OPTIMISM_TOKENS ''USDC'') (OPTIMISM_TOKENS ''DAI'') Curve = Inr [p] \<and>
     curve_tokens p ! nat (takerTokenIdx p) = OPTIMISM_TOKENS ''USDC'' \<and> takerTokenIdx p \<noteq> makerTokenIdx p"
proof -
  let ?r = "getCurveLikeInfosForPair Optimism (OPTIMISM_TOKENS ''USDC'') (OPTIMISM_TOKENS ''DAI'') Curve"
  have "case ?r of Inr pools \<Rightarrow> length pools = 1 | Inl e \<Rightarrow> False" by code_simp
  then obtain p where "?r = Inr [p]" by (auto split: sum.splits simp: length_Suc_conv)
  moreover have "OPTIMISM_TOKENS ''USDC'' \<noteq> OPTIMISM_TOKENS ''DAI''" by code_simp
  ultimately show ?thesis
    using curve_pool_indices[of Optimism "OPTIMISM_TOKENS ''USDC''" "OPTIMISM_TOKENS ''DAI''" Curve "[p]" p] by auto
qed

text \<open>The Curve-like sources answer every pair on every chain, the reverse pair with the same pools and the
  indices exchanged; every other source is an error.\<close>

theorem curve_lookup_symmetric:
  "getCurveLikeInfosForPair chainId maker taker source =
     (if source \<in> set curve_like
      then res_bind (getCurveLikeInfosForPair chainId taker maker source) (\<lambda>pools.
             Inr (map (\<lambda>p. p\<lparr>makerTokenIdx := takerTokenIdx p, takerTokenIdx := makerTokenIdx p\<rparr>) pools))
      else Inl (Error (''Unknown Curve like source '' @ source_value source)))"
  unfolding getCurveLikeInfosForPair_def curvePools_eq
  by (simp add: filterTokenInfos_commute[of maker taker] CurveInfo.defs CurveDetailedInfo.defs)

text \<open>The mainnet table repeats the keys of the two Aave pools, so their second entries replace the first: a
  pool at the address of Curve's Aave pool is offered only between the interest-bearing tokens, and no pair of
  DAI, USDC and USDT is ever traded there.\<close>

theorem aave_underlying_pool_lost:
  assumes "p \<in> set (getCurveInfosForPair Mainnet taker maker)" "curve_poolAddress p = CURVE_POOLS ''aave''"
  shows "{taker, maker} \<subseteq> {MAINNET_TOKENS ''aDAI'', MAINNET_TOKENS ''aUSDC'', MAINNET_TOKENS ''aUSDT''} \<and>
    {taker, maker} \<inter> {MAINNET_TOKENS ''DAI'', MAINNET_TOKENS ''USDC'', MAINNET_TOKENS ''USDT''} = {}"
proof -
  obtain k where k: "(k, p) \<in> set CURVE_MAINNET_INFOS" and trades: "curveTradesPair taker maker p"
    using assms(1) by (auto simp: getCurveInfosForPair_def filterTokenInfos_def)
  have "distinct (map fst CURVE_MAINNET_INFOS)"
    unfolding CURVE_MAINNET_INFOS_def by (rule distinct_js_object)
  then have "map_of CURVE_MAINNET_INFOS (CURVE_POOLS ''aave'') = Some p"
    using k mainnet_curve_keys[OF k] assms(2) by (simp add: map_of_eq_Some_iff)
  then have "{taker, maker} \<subseteq> {MAINNET_TOKENS ''aDAI'', MAINNET_TOKENS ''aUSDC'', MAINNET_TOKENS ''aUSDT''}"
    using trades by (auto simp: mainnet_curve_aave curveTradesPair_iff createCurveExchangePool_def)
  then show ?thesis by (auto simp: MAINNET_TOKENS_eq_iff mainnet_names_def)
qed

theorem aave_underlying_pool_lost_witness:
  "\<exists>p \<in> set (getCurveInfosForPair Mainnet (MAINNET_TOKENS ''aDAI'') (MAINNET_TOKENS ''aUSDC'')).
     curve_poolAddress p = CURVE_POOLS ''aave'' \<and> MAINNET_TOKENS ''aDAI'' \<noteq> MAINNET_TOKENS ''DAI''"
proof -
  let ?p = "createCurveExchangePool [MAINNET_TOKENS ''aDAI'', MAINNET_TOKENS ''aUSDC'', MAINNET_TOKENS ''aUSDT'']
              (CURVE_POOLS ''aave'') (Fin 580000)"
  have "?p \<in> set (getCurveInfosForPair Mainnet (MAINNET_TOKENS ''aDAI'') (MAINNET_TOKENS ''aUSDC''))"
    using map_of_SomeD[OF mainnet_curve_aave]
    by (force simp: getCurveInfosForPair_def filterTokenInfos_def curveTradesPair_iff createCurveExchangePool_def)
  moreover have "curve_poolAddress ?p = CURVE_POOLS ''aave''" by (simp add: createCurveExchangePool_def)
  ultimately show ?thesis using aave_underlying_pool_lost[of ?p] by blast
qed

text \<open>Every fork of Uniswap V2 that a chain samples, for sells or for buys, has a router on that chain: no
  configured source is skipped for want of an address.\<close>

theorem sampled_forks_have_routers:
  assumes "source \<in> set (validSources (SELL_SOURCE_FILTER_BY_CHAIN_ID chainId)) \<union>
      set (validSources (BUY_SOURCE_FILTER_BY_CHAIN_ID chainId))"
    and "source \<in> set uniswapV2_like"
  shows "\<exists>router. uniswapV2LikeRouterAddress chainId source = Inr router \<and> isValidAddress router"
  using assms list_all_memD[OF list_all_memD[OF forks_checked all_chains_complete[of chainId]], of source]
  by (auto simp: fork_has_router_def split: sum.splits)

theorem sampled_forks_have_routers_witness:
  "\<exists>router. uniswapV2LikeRouterAddress Polygon QuickSwap = Inr router \<and> isValidAddress router"
  using sampled_forks_have_routers[of QuickSwap Polygon] by (simp add: uniswapV2_like_def new_SourceFilters_def)

end
