(* ===== verification/Pool_Caches.thy ===== *)
theory Pool_Caches
  imports Pool_Tables Order_Utils
begin

text \<open>
  The caches of pools and reserves the sampler operations read: Aave reserves (\<open>aave_reserves_cache.ts\<close>), Compound
  tokens (\<open>compound_ctoken_cache.ts\<close>), Balancer pools (\<open>pools_cache/pools_cache.ts\<close>, \<open>balancer_pools_cache.ts\<close>,
  \<open>no_op_pools_cache.ts\<close>), Balancer V2 swaps (\<open>pair_swaps_cache.ts\<close>, \<open>balancer_v2_swap_info_cache.ts\<close>,
  \<open>sgPoolDataService.ts\<close>) and Bancor paths (\<open>bancor_service.ts\<close>). What a subgraph, an API or a routing package
  answers is an argument; a request that fails is \<open>Inl\<close>. Times are in milliseconds; logging is left out.
\<close>

section \<open>Aave reserves\<close>

text \<open>A reserve of either version: the pool that lends it is \<open>lendingPool\<close> in V2 and \<open>pool\<close> in V3.\<close>

record AaveReserve =
  underlyingAsset :: Address
  aToken_id :: Address
  reserve_pool :: Address

type_synonym AaveCache = "Address \<rightharpoonup> AaveReserve list"

definition add_reserve :: "AaveReserve \<Rightarrow> AaveCache \<Rightarrow> AaveCache" where
  "add_reserve reserve memo =
     (let underlying = toLowerCase (underlyingAsset reserve)
      in memo(underlying \<mapsto> (case memo underlying of Some rs \<Rightarrow> rs | None \<Rightarrow> []) @ [reserve]))"

definition fetchAndUpdateReservesAsync :: "js_error + AaveReserve list \<Rightarrow> AaveCache \<Rightarrow> AaveCache" where
  "fetchAndUpdateReservesAsync response cache =
     (case response of
        Inl e \<Rightarrow> Map.empty
      | Inr reserves \<Rightarrow> foldl (\<lambda>memo reserve. add_reserve reserve memo) Map.empty reserves)"

definition matching_reserve :: "AaveCache \<Rightarrow> Address \<Rightarrow> Address \<Rightarrow> AaveReserve option" where
  "matching_reserve cache underlying aToken =
     (case cache (toLowerCase underlying) of
        None \<Rightarrow> None
      | Some rs \<Rightarrow> find (\<lambda>r. aToken_id r = toLowerCase aToken) rs)"

definition aave_get :: "AaveCache \<Rightarrow> Address \<Rightarrow> Address \<Rightarrow> AaveReserve option" where
  "aave_get cache takerToken makerToken =
     (case matching_reserve cache takerToken makerToken of
        Some r \<Rightarrow> Some r
      | None \<Rightarrow> matching_reserve cache makerToken takerToken)"

section \<open>Compound tokens\<close>

record CToken =
  tokenAddress :: Address
  underlyingAddress :: Address

text \<open>A token of the API: its address, and that of the underlying token when there is one.\<close>

type_synonym CTokenResponse = "Address \<times> Address option"
type_synonym CTokenCache = "Address \<rightharpoonup> CToken"

definition add_ctoken :: "Address \<Rightarrow> CTokenResponse \<Rightarrow> CTokenCache \<Rightarrow> CTokenCache" where
  "add_ctoken wethAddress cToken memo =
     (let underlyingAddressClean =
            (if truthy_string (snd cToken) then toLowerCase (the (snd cToken)) else wethAddress)
      in memo(underlyingAddressClean \<mapsto>
           \<lparr>tokenAddress = toLowerCase (fst cToken), underlyingAddress = underlyingAddressClean\<rparr>))"

definition fetchAndUpdateCTokensAsync ::
  "Address \<Rightarrow> js_error + CTokenResponse list \<Rightarrow> CTokenCache \<Rightarrow> CTokenCache" where
  "fetchAndUpdateCTokensAsync wethAddress response cache =
     (case response of
        Inl e \<Rightarrow> cache
      | Inr cTokens \<Rightarrow> foldl (\<lambda>memo cToken. add_ctoken wethAddress cToken memo) Map.empty cTokens)"

definition compound_get :: "CTokenCache \<Rightarrow> Address \<Rightarrow> Address \<Rightarrow> CToken option" where
  "compound_get cache takerToken makerToken =
     (case cache (toLowerCase takerToken) of
        Some cToken \<Rightarrow>
          if toLowerCase makerToken = toLowerCase (tokenAddress cToken) then Some cToken
          else (case cache (toLowerCase makerToken) of
                  Some cToken' \<Rightarrow> if toLowerCase takerToken = toLowerCase (tokenAddress cToken') then Some cToken' else None
                | None \<Rightarrow> None)
      | None \<Rightarrow>
          (case cache (toLowerCase makerToken) of
             Some cToken' \<Rightarrow> if toLowerCase takerToken = toLowerCase (tokenAddress cToken') then Some cToken' else None
           | None \<Rightarrow> None))"

section \<open>Balancer pools\<close>

text \<open>The fields of a pool of the routing package that the cache reads.\<close>

record Pool =
  pool_id :: Address
  balanceOut :: BigNumber

type_synonym PoolsCache = "string \<rightharpoonup> int \<times> Pool list"

definition DEFAULT_CACHE_TIME_MS :: int where
  "DEFAULT_CACHE_TIME_MS = 60 * 60 div 2 * 1000"

definition getKey :: "Address \<Rightarrow> Address \<Rightarrow> string" where
  "getKey takerToken makerToken = takerToken @ ''-'' @ makerToken"

definition isExpired :: "int \<Rightarrow> (int \<times> 'v) option \<Rightarrow> bool" where
  "isExpired now value = (case value of None \<Rightarrow> True | Some (expiresAt, pools) \<Rightarrow> expiresAt \<le> now)"

definition getPoolAddressesForPair :: "PoolsCache \<Rightarrow> Address \<Rightarrow> Address \<Rightarrow> Address list" where
  "getPoolAddressesForPair cache takerToken makerToken =
     (case cache (getKey takerToken makerToken) of
        None \<Rightarrow> []
      | Some (expiresAt, pools) \<Rightarrow> map pool_id pools)"

definition isFresh :: "PoolsCache \<Rightarrow> int \<Rightarrow> Address \<Rightarrow> Address \<Rightarrow> bool" where
  "isFresh cache now takerToken makerToken = (\<not> isExpired now (cache (getKey takerToken makerToken)))"

definition cachePoolsForPair :: "Address \<Rightarrow> Address \<Rightarrow> Pool list \<Rightarrow> int \<Rightarrow> PoolsCache \<Rightarrow> PoolsCache" where
  "cachePoolsForPair takerToken makerToken pools expiresAt cache = cache(getKey takerToken makerToken \<mapsto> (expiresAt, pools))"

text \<open>The call reads the cache at \<open>now\<close>; when it has to fetch, the fetch gives \<open>fetched\<close> and ends at \<open>now'\<close>, when
  the cache is \<open>cache'\<close>.\<close>

definition getAndSaveFreshPoolsForPairAsync ::
  "PoolsCache \<Rightarrow> int \<Rightarrow> Pool list \<Rightarrow> PoolsCache \<Rightarrow> int \<Rightarrow> Address \<Rightarrow> Address \<Rightarrow> PoolsCache \<times> Pool list" where
  "getAndSaveFreshPoolsForPairAsync cache now fetched cache' now' takerToken makerToken =
     (case cache (getKey takerToken makerToken) of
        Some (expiresAt, pools) \<Rightarrow>
          if \<not> isExpired now (Some (expiresAt, pools)) then (cache, pools)
          else (cachePoolsForPair takerToken makerToken fetched (now' + DEFAULT_CACHE_TIME_MS) cache', fetched)
      | None \<Rightarrow> (cachePoolsForPair takerToken makerToken fetched (now' + DEFAULT_CACHE_TIME_MS) cache', fetched))"

text \<open>The race with the timeout: the first to end decides the answer, the cache is saved all the same.\<close>

definition getFreshPoolsForPairAsync ::
  "bool \<Rightarrow> PoolsCache \<Rightarrow> int \<Rightarrow> Pool list \<Rightarrow> PoolsCache \<Rightarrow> int \<Rightarrow> Address \<Rightarrow> Address \<Rightarrow> PoolsCache \<times> Pool list" where
  "getFreshPoolsForPairAsync timedOut cache now fetched cache' now' takerToken makerToken =
     (let (c, pools) = getAndSaveFreshPoolsForPairAsync cache now fetched cache' now' takerToken makerToken
      in (c, if timedOut then [] else pools))"

definition BALANCER_MAX_POOLS_FETCHED :: nat where
  "BALANCER_MAX_POOLS_FETCHED = 3"

text \<open>The packages find and parse the pools of a pair; an exception of either is caught.\<close>

definition fetchPoolsForPairAsync ::
  "(Address \<Rightarrow> Address \<Rightarrow> js_error + 'd) \<Rightarrow> ('d \<Rightarrow> Address \<Rightarrow> Address \<Rightarrow> js_error + Pool list) \<Rightarrow> Address \<Rightarrow> Address \<Rightarrow> Pool list" where
  "fetchPoolsForPairAsync getPoolsWithTokens parsePoolData takerToken makerToken =
     (case res_bind (getPoolsWithTokens takerToken makerToken) (\<lambda>d. parsePoolData d takerToken makerToken) of
        Inl e \<Rightarrow> []
      | Inr parsed \<Rightarrow>
          let pools = js_sort (\<lambda>a b. comparedTo (balanceOut b) (balanceOut a)) parsed
          in if BALANCER_MAX_POOLS_FETCHED < length pools then take BALANCER_MAX_POOLS_FETCHED pools else pools)"

text \<open>The top pools: for every pool and every ordered pair of its tokens, the parsed pool is appended to the pools
  of the pair and the pair is cached. Every pool comes with the time at which it is processed; \<open>parse\<close> is
  \<open>parsePoolData([pool], from, to)\<close>.\<close>

type_synonym TopPools = "(Address \<times> Address) \<rightharpoonup> Pool list"

definition load_pair ::
  "('q \<Rightarrow> Address \<Rightarrow> Address \<Rightarrow> js_error + Pool list) \<Rightarrow> int \<Rightarrow> 'q \<Rightarrow> Address \<times> Address \<Rightarrow>
   TopPools \<times> PoolsCache \<Rightarrow> TopPools \<times> PoolsCache" where
  "load_pair parse now pool ft st =
     (case (ft, st) of ((f, t), (fromToPools, cache)) \<Rightarrow>
       let known = (case fromToPools (f, t) of Some ps \<Rightarrow> ps | None \<Rightarrow> []);
           fromToPools = fromToPools((f, t) \<mapsto> known)
       in case parse pool f t of
            Inr (p # _) \<Rightarrow>
              (fromToPools((f, t) \<mapsto> known @ [p]),
               cachePoolsForPair f t (known @ [p]) (now + DEFAULT_CACHE_TIME_MS) cache)
          | _ \<Rightarrow> (fromToPools, cache))"

definition token_pairs :: "Address list \<Rightarrow> (Address \<times> Address) list" where
  "token_pairs tokensList =
     concat (map (\<lambda>f. map (Pair f) (filter (\<lambda>t. toLowerCase t \<noteq> toLowerCase f) tokensList)) tokensList)"

definition load_pool ::
  "('q \<Rightarrow> Address list) \<Rightarrow> ('q \<Rightarrow> Address \<Rightarrow> Address \<Rightarrow> js_error + Pool list) \<Rightarrow>
   TopPools \<times> PoolsCache \<Rightarrow> 'q \<times> int \<Rightarrow> TopPools \<times> PoolsCache" where
  "load_pool tokensList parse st q =
     foldl (\<lambda>st ft. load_pair parse (snd q) (fst q) ft st) st (token_pairs (tokensList (fst q)))"

definition loadTopPoolsAsync ::
  "('q \<Rightarrow> Address list) \<Rightarrow> ('q \<Rightarrow> Address \<Rightarrow> Address \<Rightarrow> js_error + Pool list) \<Rightarrow>
   js_error + ('q \<times> int) list \<Rightarrow> PoolsCache \<Rightarrow> PoolsCache" where
  "loadTopPoolsAsync tokensList parse fetched cache =
     (case fetched of
        Inl e \<Rightarrow> cache
      | Inr pools \<Rightarrow> snd (foldl (load_pool tokensList parse) (Map.empty, cache) pools))"

text \<open>The chain decides which cache is made: outside the mainnet one that never holds a pool.\<close>

datatype BalancerCache = NoOpPoolsCache | BalancerPoolsCache PoolsCache

definition BalancerPoolsCache_create :: "ChainId \<Rightarrow> BalancerCache" where
  "BalancerPoolsCache_create chainId = (if chainId \<noteq> Mainnet then NoOpPoolsCache else BalancerPoolsCache Map.empty)"

definition balancer_pools :: "BalancerCache \<Rightarrow> Address \<Rightarrow> Address \<Rightarrow> Address list" where
  "balancer_pools cache takerToken makerToken =
     (case cache of NoOpPoolsCache \<Rightarrow> [] | BalancerPoolsCache c \<Rightarrow> getPoolAddressesForPair c takerToken makerToken)"

definition balancer_isFresh :: "BalancerCache \<Rightarrow> int \<Rightarrow> Address \<Rightarrow> Address \<Rightarrow> bool" where
  "balancer_isFresh cache now takerToken makerToken =
     (case cache of NoOpPoolsCache \<Rightarrow> True | BalancerPoolsCache c \<Rightarrow> isFresh c now takerToken makerToken)"


section \<open>Balancer V2 swaps\<close>

record BalancerSwapInfo =
  bs_assets :: "Address list"
  bs_swapSteps :: "BalancerBatchSwapStep list"

record BalancerSwaps =
  swapInfoExactIn :: "BalancerSwapInfo list"
  swapInfoExactOut :: "BalancerSwapInfo list"

definition EMPTY_BALANCER_SWAPS :: BalancerSwaps where
  "EMPTY_BALANCER_SWAPS = \<lparr>swapInfoExactIn = [], swapInfoExactOut = []\<rparr>"

type_synonym SwapsCache = "string \<rightharpoonup> int \<times> BalancerSwaps"

text \<open>\<open>JSON.stringify([a, b])\<close> of two addresses, which need no escape.\<close>

definition json_string :: "string \<Rightarrow> string" where
  "json_string s = [CHR 0x22] @ s @ [CHR 0x22]"

definition swapKey :: "Address \<Rightarrow> Address \<Rightarrow> string" where
  "swapKey takerToken makerToken = ''['' @ json_string takerToken @ '','' @ json_string makerToken @ '']''"

definition getCachedSwapInfoForPair ::
  "SwapsCache \<Rightarrow> int \<Rightarrow> Address \<Rightarrow> Address \<Rightarrow> bool \<Rightarrow> BalancerSwaps option" where
  "getCachedSwapInfoForPair cache now takerToken makerToken ignoreExpired =
     (let value = cache (swapKey takerToken makerToken)
      in if ignoreExpired then Some (case value of None \<Rightarrow> EMPTY_BALANCER_SWAPS | Some (expiresAt, swaps) \<Rightarrow> swaps)
         else (case value of
                 None \<Rightarrow> None
               | Some (expiresAt, swaps) \<Rightarrow> if isExpired now (Some (expiresAt, swaps)) then None else Some swaps))"

definition swaps_isFresh :: "SwapsCache \<Rightarrow> int \<Rightarrow> Address \<Rightarrow> Address \<Rightarrow> bool" where
  "swaps_isFresh cache now takerToken makerToken = (getCachedSwapInfoForPair cache now takerToken makerToken False \<noteq> None)"

definition cacheSwapInfoForPair :: "Address \<Rightarrow> Address \<Rightarrow> BalancerSwaps \<Rightarrow> int \<Rightarrow> SwapsCache \<Rightarrow> SwapsCache" where
  "cacheSwapInfoForPair takerToken makerToken swapInfo expiresAt cache =
     cache(swapKey takerToken makerToken \<mapsto> (expiresAt, swapInfo))"

text \<open>As for pools: the call reads the cache at \<open>now\<close>, and a fetch ends at \<open>now'\<close> on \<open>cache'\<close>.\<close>

definition getAndSaveFreshSwapInfoForPairAsync ::
  "SwapsCache \<Rightarrow> int \<Rightarrow> BalancerSwaps \<Rightarrow> SwapsCache \<Rightarrow> int \<Rightarrow> Address \<Rightarrow> Address \<Rightarrow> SwapsCache \<times> BalancerSwaps" where
  "getAndSaveFreshSwapInfoForPairAsync cache now fetched cache' now' takerToken makerToken =
     (let refreshed = (cacheSwapInfoForPair takerToken makerToken fetched (now' + DEFAULT_CACHE_TIME_MS) cache', fetched)
      in case cache (swapKey takerToken makerToken) of
           None \<Rightarrow> refreshed
         | Some (expiresAt, swaps) \<Rightarrow> if now \<le> expiresAt then refreshed else (cache, swaps))"

text \<open>The settings of the routing package, by chain.\<close>

record SorConfig =
  sor_chainId :: ChainId
  sor_vault :: Address
  sor_weth :: Address
  wETHwstETH :: "(string \<times> Address) option"
  connectingTokens :: "(string \<times> Address) list"
  poolsToIgnore :: "Address list option"
  lbpRaisingTokens :: "Address list option"

definition SOR_CONFIG :: "ChainId \<Rightarrow> SorConfig option" where
  "SOR_CONFIG chainId =
     (case chainId of
        Mainnet \<Rightarrow> Some \<lparr>sor_chainId = Mainnet, sor_vault = ''0xba12222222228d8ba445958a75a0704d566bf2c8'',
          sor_weth = ''0xc02aaa39b223fe8d0a0e5c4f27ead9083c756cc2'',
          wETHwstETH = Some (''0x32296969ef14eb0c6d29669c550d4a0449130230000200000000000000000080'',
            ''0x32296969ef14eb0c6d29669c550d4a0449130230''),
          connectingTokens = [(''wEth'', ''0xc02aaa39b223fe8d0a0e5c4f27ead9083c756cc2''),
            (''wstEth'', ''0x7f39c581f595b53c5cb19bd0b3f8da6c935e2ca0''),
            (''DOLA'', ''0x865377367054516e17014ccded1e7d814edc9ce4'')],
          poolsToIgnore = Some [''0xbd482ffb3e6e50dc1c437557c3bea2b68f3683ee''],
          lbpRaisingTokens = Some [''0x6b175474e89094c44da98b954eedeac495271d0f'',
            ''0xa0b86991c6218b36c1d19d4a2e9eb0ce3606eb48'', ''0xc02aaa39b223fe8d0a0e5c4f27ead9083c756cc2'']\<rparr>
      | Polygon \<Rightarrow> Some \<lparr>sor_chainId = Polygon, sor_vault = ''0xba12222222228d8ba445958a75a0704d566bf2c8'',
          sor_weth = ''0x0d500b1d8e8ef31e21c99d1db9a6444d3adf1270'', wETHwstETH = None,
          connectingTokens = [(''weth'', ''0x0d500b1d8e8ef31e21c99d1db9a6444d3adf1270''),
            (''bbrz2'', ''0xe22483774bd8611be2ad2f4194078dac9159f4ba'')],
          poolsToIgnore = Some [''0x600bd01b6526611079e12e1ff93aba7a3e34226f''],
          lbpRaisingTokens = Some [''0x8f3cf7ad23cd3cadbd9735aff958023239c6a063'',
            ''0x2791bca1f2de4661ed88a30c99a7a9449aa84174'', ''0x0d500b1d8e8ef31e21c99d1db9a6444d3adf1270'']\<rparr>
      | Arbitrum \<Rightarrow> Some \<lparr>sor_chainId = Arbitrum, sor_vault = ''0xba12222222228d8ba445958a75a0704d566bf2c8'',
          sor_weth = ''0x82af49447d8a07e3bd95bd0d56f35241523fbab1'', wETHwstETH = None,
          connectingTokens = [(''weth'', ''0x82af49447d8a07e3bd95bd0d56f35241523fbab1'')], poolsToIgnore = None,
          lbpRaisingTokens = Some [''0xda10009cbd5d07dd0cecc66161fc93d7c9000da1'',
            ''0xff970a61a04b1ca14834a43f5de4533ebddb5cc8'', ''0x82af49447d8a07e3bd95bd0d56f35241523fbab1'']\<rparr>
      | Goerli \<Rightarrow> Some \<lparr>sor_chainId = Goerli, sor_vault = ''0x65748e8287ce4b9e6d83ee853431958851550311'',
          sor_weth = ''0x9a1000d492d40bfccbc03f413a48f5b6516ec0fd'', wETHwstETH = None,
          connectingTokens = [(''weth'', ''0xdfcea9088c8a88a76ff74892c1457c17dfeef9c1'')], poolsToIgnore = None,
          lbpRaisingTokens = None\<rparr>
      | Optimism \<Rightarrow> Some \<lparr>sor_chainId = Optimism, sor_vault = ''0xba12222222228d8ba445958a75a0704d566bf2c8'',
          sor_weth = ''0x4200000000000000000000000000000000000006'', wETHwstETH = None,
          connectingTokens = [(''weth'', ''0x4200000000000000000000000000000000000006'')], poolsToIgnore = None,
          lbpRaisingTokens = Some [''0xda10009cbd5d07dd0cecc66161fc93d7c9000da1'',
            ''0x7f5c764cbc14f9669b88837ca1490cca17c31607'', ''0x4200000000000000000000000000000000000006'']\<rparr>
      | Fantom \<Rightarrow> Some \<lparr>sor_chainId = Fantom, sor_vault = ''0x20dd72ed959b6147912c2e529f0a0c651c33c9ce'',
          sor_weth = ''0x21be370d5312f44cb42ce377bc9b8a0cef1a4c83'', wETHwstETH = None,
          connectingTokens = [(''weth'', ''0x21be370d5312f44cb42ce377bc9b8a0cef1a4c83'')], poolsToIgnore = None,
          lbpRaisingTokens = None\<rparr>
      | _ \<Rightarrow> None)"

text \<open>The pools of the subgraph, less those set to be ignored.\<close>

definition isSameAddress :: "Address \<Rightarrow> Address \<Rightarrow> bool" where
  "isSameAddress address1 address2 = (toLowerCase address1 = toLowerCase address2)"

definition QUERY_BY_CHAIN_ID :: "ChainId list" where
  "QUERY_BY_CHAIN_ID = [Mainnet, Polygon, Arbitrum, Optimism, Fantom]"

definition getPools ::
  "ChainId \<Rightarrow> string option \<Rightarrow> Address list option \<Rightarrow> ('q \<Rightarrow> Address) \<Rightarrow> js_error + 'q list \<Rightarrow> 'q list" where
  "getPools chainId subgraphUrl ignored pool_address response =
     (if chainId \<notin> set QUERY_BY_CHAIN_ID \<or> \<not> truthy_string subgraphUrl then []
      else case response of
             Inl e \<Rightarrow> []
           | Inr pools \<Rightarrow>
               filter (\<lambda>p. case ignored of None \<Rightarrow> True
                           | Some addrs \<Rightarrow> find (\<lambda>addr. isSameAddress addr (pool_address p)) addrs = None) pools)"

text \<open>A swap of a path of the routing package, and a formatted step.\<close>

record NewSwap =
  sw_pool :: string
  sw_tokenIn :: Address
  sw_tokenOut :: Address
  swapAmount :: string

record SwapV2 =
  fs_poolId :: string
  fs_assetInIndex :: nat
  fs_assetOutIndex :: nat
  fs_amount :: string
  fs_userData :: string

record SwapFormatter =
  getTokenAddressesForSwap :: "NewSwap list \<Rightarrow> js_error + Address list"
  formatSequence :: "bool \<Rightarrow> NewSwap list \<Rightarrow> Address list \<Rightarrow> js_error + SwapV2 list"
  sf_BigNumber :: "string \<Rightarrow> BigNumber"

definition swap_steps :: "SwapFormatter \<Rightarrow> SwapV2 list \<Rightarrow> BalancerBatchSwapStep list" where
  "swap_steps fmt = map (\<lambda>s. \<lparr>step_poolId = fs_poolId s, assetInIndex = fs_assetInIndex s,
     assetOutIndex = fs_assetOutIndex s, step_amount = sf_BigNumber fmt (fs_amount s), userData = fs_userData s\<rparr>)"

definition format_path :: "SwapFormatter \<Rightarrow> NewSwap list \<Rightarrow> js_error + BalancerSwapInfo \<times> BalancerSwapInfo" where
  "format_path fmt path =
     (let swaps = map (\<lambda>s. s\<lparr>swapAmount := ''0''\<rparr>) path
      in res_bind (getTokenAddressesForSwap fmt swaps) (\<lambda>tokenAddresses.
         res_bind (formatSequence fmt True swaps tokenAddresses) (\<lambda>swapsExactIn.
         res_bind (formatSequence fmt False swaps tokenAddresses) (\<lambda>swapsExactOut.
           Inr (\<lparr>bs_assets = tokenAddresses, bs_swapSteps = swap_steps fmt swapsExactIn\<rparr>,
                \<lparr>bs_assets = tokenAddresses, bs_swapSteps = swap_steps fmt swapsExactOut\<rparr>)))))"

definition formatSwaps :: "SwapFormatter \<Rightarrow> NewSwap list list \<Rightarrow> js_error + BalancerSwaps" where
  "formatSwaps fmt paths =
     res_bind (res_map (format_path fmt) paths) (\<lambda>formatted.
       Inr \<lparr>swapInfoExactIn = map fst formatted, swapInfoExactOut = map snd formatted\<rparr>)"

definition MAX_CANDIDATE_PATHS_PER_PAIR :: nat where
  "MAX_CANDIDATE_PATHS_PER_PAIR = 1"

text \<open>\<open>candidates\<close> is \<open>getCandidatePathsFromDict\<close> on the dictionary of pools, for exact-in swaps of at most four pools.\<close>

definition getPoolPairSwapInfo ::
  "SwapFormatter \<Rightarrow> (Address \<Rightarrow> Address \<Rightarrow> js_error + NewSwap list list) \<Rightarrow> Address \<Rightarrow> Address \<Rightarrow> js_error + BalancerSwaps" where
  "getPoolPairSwapInfo fmt candidates takerToken makerToken =
     res_bind (candidates takerToken makerToken) (\<lambda>paths.
       if length paths = 0 then Inr EMPTY_BALANCER_SWAPS
       else formatSwaps fmt (take MAX_CANDIDATE_PATHS_PER_PAIR paths))"

definition fetchSwapInfoForPairAsync ::
  "SwapFormatter \<Rightarrow> js_error + (Address \<Rightarrow> Address \<Rightarrow> js_error + NewSwap list list) \<Rightarrow> Address \<Rightarrow> Address \<Rightarrow> BalancerSwaps" where
  "fetchSwapInfoForPairAsync fmt poolDictionary takerToken makerToken =
     (case res_bind poolDictionary (\<lambda>candidates. getPoolPairSwapInfo fmt candidates takerToken makerToken) of
        Inl e \<Rightarrow> EMPTY_BALANCER_SWAPS
      | Inr swaps \<Rightarrow> swaps)"

type_synonym TopSwaps = "(Address \<times> Address) \<rightharpoonup> BalancerSwaps"

definition load_swap_pair ::
  "(Address \<Rightarrow> Address \<Rightarrow> js_error + BalancerSwaps) \<Rightarrow> int \<Rightarrow> Address \<times> Address \<Rightarrow> TopSwaps \<times> SwapsCache \<Rightarrow> TopSwaps \<times> SwapsCache" where
  "load_swap_pair pairSwapInfo now ft st =
     (case (ft, st) of ((f, t), (fromToSwapInfo, cache)) \<Rightarrow>
        if fromToSwapInfo (f, t) \<noteq> None then (fromToSwapInfo, cache)
        else case pairSwapInfo f t of
               Inl e \<Rightarrow> (fromToSwapInfo, cache)
             | Inr info \<Rightarrow> (fromToSwapInfo((f, t) \<mapsto> info), cacheSwapInfoForPair f t info (now + DEFAULT_CACHE_TIME_MS) cache))"

text \<open>Every pool comes with the time at which it is processed. The cache other requests write meanwhile is not
  interleaved.\<close>

definition loadTopSwapsAsync ::
  "('q \<Rightarrow> Address list) \<Rightarrow> (Address \<Rightarrow> Address \<Rightarrow> js_error + BalancerSwaps) \<Rightarrow> ('q \<times> int) list \<Rightarrow> SwapsCache \<Rightarrow> SwapsCache" where
  "loadTopSwapsAsync tokensList pairSwapInfo pools cache =
     snd (foldl (\<lambda>st q. foldl (\<lambda>st ft. load_swap_pair pairSwapInfo (snd q) ft st) st (token_pairs (tokensList (fst q))))
            (Map.empty, cache) pools)"

section \<open>Bancor paths\<close>

text \<open>The key of a token in the graph of the Bancor package, undefined when the graph lacks it.\<close>

definition findToken :: "Address list \<Rightarrow> Address \<Rightarrow> Address option" where
  "findToken graph_keys token =
     (if toLowerCase token = toLowerCase (MAINNET_TOKENS ''WETH'')
      then Some ''0xeeeeeeeeeeeeeeeeeeeeeeeeeeeeeeeeeeeeeeee''
      else case filter (\<lambda>k. toLowerCase k = toLowerCase token) graph_keys of [] \<Rightarrow> None | k # ks \<Rightarrow> Some k)"

definition getPaths ::
  "Address list \<Rightarrow> (Address option \<Rightarrow> Address option \<Rightarrow> js_error + Address list list) \<Rightarrow> Address \<Rightarrow> Address \<Rightarrow> Address list list" where
  "getPaths graph_keys getPathsFunc fromToken toToken =
     (case getPathsFunc (findToken graph_keys fromToken) (findToken graph_keys toToken) of Inl e \<Rightarrow> [] | Inr paths \<Rightarrow> paths)"


section \<open>Lemmas\<close>

lemma add_reserves_lookup:
  "(case foldl (\<lambda>memo reserve. add_reserve reserve memo) m rs k of None \<Rightarrow> [] | Some xs \<Rightarrow> xs) =
   (case m k of None \<Rightarrow> [] | Some xs \<Rightarrow> xs) @ filter (\<lambda>r. toLowerCase (underlyingAsset r) = k) rs"
  by (induction rs arbitrary: m) (auto simp: add_reserve_def Let_def split: option.splits)

lemma fetched_reserves:
  assumes "fetchAndUpdateReservesAsync (Inr reserves) cache k = Some rs"
  shows "rs = filter (\<lambda>r. toLowerCase (underlyingAsset r) = k) reserves"
  using add_reserves_lookup[of Map.empty reserves k] assms by (simp add: fetchAndUpdateReservesAsync_def)

lemma fetched_reserves_none:
  assumes "fetchAndUpdateReservesAsync (Inr reserves) cache k = None"
  shows "\<forall>r \<in> set reserves. toLowerCase (underlyingAsset r) \<noteq> k"
proof -
  have "filter (\<lambda>r. toLowerCase (underlyingAsset r) = k) reserves = []"
    using add_reserves_lookup[of Map.empty reserves k] assms by (simp add: fetchAndUpdateReservesAsync_def)
  then show ?thesis by (simp add: filter_empty_conv)
qed

text \<open>A reserve joins an underlying token and its interest-bearing token.\<close>

definition reserve_of :: "Address \<Rightarrow> Address \<Rightarrow> AaveReserve \<Rightarrow> bool" where
  "reserve_of underlying aToken r \<longleftrightarrow>
     toLowerCase (underlyingAsset r) = toLowerCase underlying \<and> aToken_id r = toLowerCase aToken"

lemma matching_reserve_fetched:
  "matching_reserve (fetchAndUpdateReservesAsync (Inr reserves) cache) u a = find (reserve_of u a) reserves"
proof (cases "fetchAndUpdateReservesAsync (Inr reserves) cache (toLowerCase u)")
  case None
  then have "find (reserve_of u a) reserves = None"
    using fetched_reserves_none[OF None] by (auto simp: find_None_iff reserve_of_def)
  then show ?thesis by (simp add: matching_reserve_def None)
next
  case (Some rs)
  have "find P (filter Q xs) = find (\<lambda>x. Q x \<and> P x) xs" for P Q and xs :: "AaveReserve list"
    by (induction xs) auto
  then show ?thesis
    using fetched_reserves[OF Some] by (simp add: matching_reserve_def Some reserve_of_def[abs_def])
qed

lemma compound_get_iff:
  "compound_get cache t m = Some c \<longleftrightarrow>
     (cache (toLowerCase t) = Some c \<and> toLowerCase m = toLowerCase (tokenAddress c)) \<or>
     (\<not> (\<exists>c'. cache (toLowerCase t) = Some c' \<and> toLowerCase m = toLowerCase (tokenAddress c')) \<and>
      cache (toLowerCase m) = Some c \<and> toLowerCase t = toLowerCase (tokenAddress c))"
  by (auto simp: compound_get_def split: option.splits if_splits)

text \<open>The cached tokens are lower-case and found under their underlying token.\<close>

definition ctokens_ok :: "CTokenCache \<Rightarrow> bool" where
  "ctokens_ok cache \<longleftrightarrow> (\<forall>k c. cache k = Some c \<longrightarrow> underlyingAddress c = k \<and> toLowerCase (tokenAddress c) = tokenAddress c)"

lemma ctokens_ok_add: "ctokens_ok m \<Longrightarrow> ctokens_ok (add_ctoken weth cToken m)"
  unfolding ctokens_ok_def add_ctoken_def Let_def by (metis CToken.select_convs fun_upd_apply option.sel toLowerCase_idem)

lemma ctokens_ok_empty: "ctokens_ok Map.empty"
  by (simp add: ctokens_ok_def)

lemma ctokens_ok_fetch: "ctokens_ok cache \<Longrightarrow> ctokens_ok (fetchAndUpdateCTokensAsync weth response cache)"
proof (cases response)
  case (Inr cs)
  have "ctokens_ok m \<Longrightarrow> ctokens_ok (foldl (\<lambda>memo cToken. add_ctoken weth cToken memo) m cs)" for m
    by (induction cs arbitrary: m) (simp_all add: ctokens_ok_add)
  then show ?thesis by (simp add: fetchAndUpdateCTokensAsync_def Inr ctokens_ok_empty)
qed (simp add: fetchAndUpdateCTokensAsync_def)

interpretation pools_by_balance: comparator
  "\<lambda>a b. comparedTo (balanceOut b) (balanceOut a)" "\<lambda>p. \<exists>x. balanceOut p = Fin x"
  by unfold_locales (auto simp: comparedTo_def split: if_splits)

section \<open>Properties\<close>

text \<open>The Aave cache answers a pair with the first reserve, in the order of the subgraph, whose underlying
  and interest-bearing tokens are the pair, a deposit before a withdrawal; it answers nothing exactly when there is
  none, and after a failed request it answers nothing at all.\<close>

theorem aave_reserve_found:
  "aave_get (fetchAndUpdateReservesAsync response cache) taker maker =
     (case response of
        Inl e \<Rightarrow> None
      | Inr reserves \<Rightarrow>
          (case find (reserve_of taker maker) reserves of
             Some r \<Rightarrow> Some r
           | None \<Rightarrow> find (reserve_of maker taker) reserves))"
  by (cases response)
    (auto simp: aave_get_def matching_reserve_fetched split: option.splits,
     auto simp: matching_reserve_def fetchAndUpdateReservesAsync_def)

text \<open>Every answer of the Compound cache joins the pair: one token is the Compound token and the other the
  token it is cached under, whichever requests the cache has seen.\<close>

inductive ctoken_caches :: "Address \<Rightarrow> CTokenCache \<Rightarrow> bool" for weth where
  ctokens_start: "ctoken_caches weth Map.empty"
| ctokens_refresh: "ctoken_caches weth cache \<Longrightarrow> ctoken_caches weth (fetchAndUpdateCTokensAsync weth response cache)"

theorem compound_token_found:
  assumes "ctoken_caches weth cache" "compound_get cache taker maker = Some c"
  shows "{toLowerCase taker, toLowerCase maker} = {tokenAddress c, underlyingAddress c}"
proof -
  have "ctokens_ok cache"
    using assms(1) by (induction rule: ctoken_caches.induct) (simp_all add: ctokens_ok_empty ctokens_ok_fetch)
  with assms(2) show ?thesis by (auto simp: compound_get_iff ctokens_ok_def)
qed

theorem compound_token_found_witness:
  "compound_get (fetchAndUpdateCTokensAsync ''0xweth'' (Inr [(''0xcDAI'', Some ''0xDAI''), (''0xcETH'', None)]) Map.empty)
     ''0xWETH'' ''0xceth'' = Some \<lparr>tokenAddress = ''0xceth'', underlyingAddress = ''0xweth''\<rparr> \<and>
   {toLowerCase ''0xWETH'', toLowerCase ''0xceth''} = {''0xceth'', ''0xweth''}"
proof -
  let ?c = "fetchAndUpdateCTokensAsync ''0xweth'' (Inr [(''0xcDAI'', Some ''0xDAI''), (''0xcETH'', None)]) Map.empty"
  have "compound_get ?c ''0xWETH'' ''0xceth'' = Some \<lparr>tokenAddress = ''0xceth'', underlyingAddress = ''0xweth''\<rparr>"
    by code_simp
  then show ?thesis
    using compound_token_found[of "''0xweth''" ?c "''0xWETH''" "''0xceth''"] ctokens_start ctokens_refresh by force
qed

text \<open>A pool cache gives back only pools that have not expired or that it has just fetched; what it
  fetched is then fresh for half an hour.\<close>

theorem pools_cache_serves_fresh:
  assumes "getAndSaveFreshPoolsForPairAsync cache now fetched cache' now' taker maker = (c, pools)"
  shows "(isFresh cache now taker maker \<and> c = cache \<and> getPoolAddressesForPair cache taker maker = map pool_id pools) \<or>
    (\<not> isFresh cache now taker maker \<and> pools = fetched \<and>
     (\<forall>t < now' + DEFAULT_CACHE_TIME_MS. isFresh c t taker maker) \<and>
     getPoolAddressesForPair c taker maker = map pool_id fetched)"
  using assms
  by (auto simp: getAndSaveFreshPoolsForPairAsync_def isFresh_def isExpired_def getPoolAddressesForPair_def
      cachePoolsForPair_def split: option.splits if_splits)

theorem pools_cache_serves_fresh_witness:
  "\<exists>c. getAndSaveFreshPoolsForPairAsync Map.empty 0 [\<lparr>pool_id = ''p'', balanceOut = Fin 1\<rparr>] Map.empty 5 ''a'' ''b'' =
     (c, [\<lparr>pool_id = ''p'', balanceOut = Fin 1\<rparr>]) \<and> isFresh c 1000 ''a'' ''b''"
proof -
  let ?p = "[\<lparr>pool_id = ''p'', balanceOut = Fin 1\<rparr>]"
  obtain c where c: "getAndSaveFreshPoolsForPairAsync Map.empty 0 ?p Map.empty 5 ''a'' ''b'' = (c, ?p)"
    by (simp add: getAndSaveFreshPoolsForPairAsync_def)
  moreover have "\<not> isFresh Map.empty 0 ''a'' ''b''" by (simp add: isFresh_def isExpired_def)
  ultimately show ?thesis using pools_cache_serves_fresh[OF c] by (auto simp: DEFAULT_CACHE_TIME_MS_def)
qed

text \<open>C33: The cache of Balancer V2 swaps tests its entries the wrong way round: an entry that has expired is
  served as it is and never fetched again, and an entry that has not expired is fetched again on every call.\<close>

theorem stale_swaps_served:
  assumes "cache (swapKey taker maker) = Some (expiresAt, swaps)" "expiresAt \<noteq> now"
  shows "getAndSaveFreshSwapInfoForPairAsync cache now fetched cache' now' taker maker =
    (if swaps_isFresh cache now taker maker
     then (cacheSwapInfoForPair taker maker fetched (now' + DEFAULT_CACHE_TIME_MS) cache', fetched)
     else (cache, swaps))"
  using assms
  by (auto simp: getAndSaveFreshSwapInfoForPairAsync_def swaps_isFresh_def getCachedSwapInfoForPair_def isExpired_def)

theorem stale_swaps_served_witness:
  "getAndSaveFreshSwapInfoForPairAsync
     [swapKey ''a'' ''b'' \<mapsto> (10, \<lparr>swapInfoExactIn = [\<lparr>bs_assets = [''old''], bs_swapSteps = []\<rparr>], swapInfoExactOut = []\<rparr>)]
     20 EMPTY_BALANCER_SWAPS Map.empty 21 ''a'' ''b'' =
   ([swapKey ''a'' ''b'' \<mapsto> (10, \<lparr>swapInfoExactIn = [\<lparr>bs_assets = [''old''], bs_swapSteps = []\<rparr>], swapInfoExactOut = []\<rparr>)],
    \<lparr>swapInfoExactIn = [\<lparr>bs_assets = [''old''], bs_swapSteps = []\<rparr>], swapInfoExactOut = []\<rparr>)"
  using stale_swaps_served[of "[swapKey ''a'' ''b'' \<mapsto> (10, \<lparr>swapInfoExactIn = [\<lparr>bs_assets = [''old''], bs_swapSteps = []\<rparr>],
        swapInfoExactOut = []\<rparr>)]" "''a''" "''b''" 10 _ 20 EMPTY_BALANCER_SWAPS Map.empty 21]
  by (simp add: swaps_isFresh_def getCachedSwapInfoForPair_def isExpired_def)

text \<open>Every chain with a Balancer V2 vault has settings for the routing package, with that vault.\<close>

theorem vaults_configured:
  "BALANCER_V2_VAULT_ADDRESS_BY_CHAIN chainId = NULL_ADDRESS \<or>
   (\<exists>cfg. SOR_CONFIG chainId = Some cfg \<and> sor_chainId cfg = chainId \<and>
      sor_vault cfg = BALANCER_V2_VAULT_ADDRESS_BY_CHAIN chainId)"
  by (cases chainId) (simp_all add: BALANCER_V2_VAULT_ADDRESS_BY_CHAIN_def SOR_CONFIG_def valueByChainId_def)

text \<open>The pools fetched for a pair are at most three of those the packages give, the ones with the largest
  balance of the maker token, in falling order; a failure gives none.\<close>

theorem fetched_pools_largest:
  assumes "getPoolsWithTokens taker maker = Inr d" "parsePoolData d taker maker = Inr parsed"
    and "\<forall>p \<in> set parsed. \<exists>x. balanceOut p = Fin x"
  shows "\<exists>rest. mset parsed = mset (fetchPoolsForPairAsync getPoolsWithTokens parsePoolData taker maker @ rest) \<and>
    length (fetchPoolsForPairAsync getPoolsWithTokens parsePoolData taker maker) = min 3 (length parsed) \<and>
    sorted_wrt (\<lambda>a b. balanceOut b \<le> balanceOut a) (fetchPoolsForPairAsync getPoolsWithTokens parsePoolData taker maker @ rest)"
proof -
  let ?s = "js_sort (\<lambda>a b. comparedTo (balanceOut b) (balanceOut a)) parsed"
  let ?f = "fetchPoolsForPairAsync getPoolsWithTokens parsePoolData taker maker"
  have f: "?f = take 3 ?s"
    using assms(1,2) by (simp add: fetchPoolsForPairAsync_def BALANCER_MAX_POOLS_FETCHED_def Let_def)
  have len: "length ?s = length parsed" using mset_js_sort[of _ parsed] by (metis size_mset)
  have sorted: "sorted_wrt (\<lambda>a b. comparedTo (balanceOut b) (balanceOut a) \<le> 0) ?s" and set: "set ?s = set parsed"
    using pools_by_balance.sorted_js_sort[OF assms(3)] by blast+
  have "balanceOut b \<le> balanceOut a"
    if ab: "a \<in> set ?s" "b \<in> set ?s" and le: "comparedTo (balanceOut b) (balanceOut a) \<le> 0" for a b
  proof -
    obtain x y where "balanceOut a = Fin x" "balanceOut b = Fin y" using ab assms(3) unfolding set by blast
    with le show ?thesis by (simp add: comparedTo_def split: if_splits)
  qed
  then have "sorted_wrt (\<lambda>a b. balanceOut b \<le> balanceOut a) ?s"
    by (rule sorted_wrt_mono_rel[OF _ sorted])
  then show ?thesis
    unfolding f using len by (intro exI[of _ "drop 3 ?s"]) (simp add: mset_js_sort)
qed


theorem fetched_pools_largest_witness:
  "length (fetchPoolsForPairAsync (\<lambda>t m. Inr ()) (\<lambda>d t m. Inr (map (\<lambda>i. \<lparr>pool_id = ''p'', balanceOut = Fin (of_nat i)\<rparr>) [0..<5]))
     ''a'' ''b'') = 3"
  using fetched_pools_largest[of "\<lambda>t m. Inr ()" "''a''" "''b''" "()"
      "\<lambda>d t m. Inr (map (\<lambda>i. \<lparr>pool_id = ''p'', balanceOut = Fin (of_nat i)\<rparr>) [0..<5])"
      "map (\<lambda>i. \<lparr>pool_id = ''p'', balanceOut = Fin (of_nat i)\<rparr>) [0..<5]"] by auto

end
