(* ===== verification/Token_Graph.thy ===== *)
theory Token_Graph
  imports Token_Tables
begin

text \<open>
  The token adjacency graph (\<open>token_adjacency_graph.ts\<close>) that gives the intermediate tokens of two-hop routes,
  and the default graphs of \<open>constants.ts\<close>. The address of the wrapped native token on a chain, which comes from
  the contract-addresses package, is the argument \<open>etherToken\<close>.
\<close>

section \<open>Graph\<close>

record TokenAdjacencyGraph =
  g_graph :: "Address \<rightharpoonup> Address list"
  g_defaultTokens :: "Address list"

definition getAdjacentTokens :: "TokenAdjacencyGraph \<Rightarrow> Address \<Rightarrow> Address list" where
  "getAdjacentTokens g fromToken =
     (case g_graph g (toLowerCase fromToken) of Some ts \<Rightarrow> ts | None \<Rightarrow> g_defaultTokens g)"

definition getIntermediateTokens :: "TokenAdjacencyGraph \<Rightarrow> Address \<Rightarrow> Address \<Rightarrow> Address list" where
  "getIntermediateTokens g takerToken makerToken =
     filter (\<lambda>token. token \<noteq> toLowerCase takerToken \<and> token \<noteq> toLowerCase makerToken)
       (uniq (getAdjacentTokens g takerToken @ getAdjacentTokens g makerToken))"

section \<open>Builder\<close>

record TokenAdjacencyGraphBuilder =
  b_graph :: "Address \<rightharpoonup> Address list"
  b_defaultTokens :: "Address list"

definition new_TokenAdjacencyGraphBuilder :: "Address list \<Rightarrow> TokenAdjacencyGraphBuilder" where
  "new_TokenAdjacencyGraphBuilder defaultTokens =
     \<lparr>b_graph = Map.empty, b_defaultTokens = map toLowerCase defaultTokens\<rparr>"

definition add :: "Address \<Rightarrow> Address \<Rightarrow> TokenAdjacencyGraphBuilder \<Rightarrow> js_error + TokenAdjacencyGraphBuilder" where
  "add fromToken toToken b =
     (let fromLower = toLowerCase fromToken; toLower = toLowerCase toToken
      in if fromLower = toLower
         then Inl (Error (''from token ('' @ fromToken @ '') must be different from to token ('' @ toToken @ '')''))
         else let toTokens = (case b_graph b fromLower of Some ts \<Rightarrow> ts | None \<Rightarrow> b_defaultTokens b)
              in Inr (b\<lparr>b_graph := (b_graph b)(fromLower \<mapsto>
                          (if toLower \<in> set toTokens then toTokens else toTokens @ [toLower]))\<rparr>))"

definition addBidirectional ::
  "Address \<Rightarrow> Address \<Rightarrow> TokenAdjacencyGraphBuilder \<Rightarrow> js_error + TokenAdjacencyGraphBuilder" where
  "addBidirectional tokenA tokenB b = res_bind (add tokenA tokenB b) (add tokenB tokenA)"

text \<open>The inner loop over \<open>j\<close>, then the outer loop over \<open>i\<close>.\<close>

fun addToEach :: "Address \<Rightarrow> Address list \<Rightarrow> TokenAdjacencyGraphBuilder \<Rightarrow> js_error + TokenAdjacencyGraphBuilder" where
  "addToEach token [] b = Inr b"
| "addToEach token (t # ts) b = res_bind (addBidirectional token t b) (addToEach token ts)"

fun addCompleteSubgraph :: "Address list \<Rightarrow> TokenAdjacencyGraphBuilder \<Rightarrow> js_error + TokenAdjacencyGraphBuilder" where
  "addCompleteSubgraph [] b = Inr b"
| "addCompleteSubgraph (t # ts) b = res_bind (addToEach t ts b) (addCompleteSubgraph ts)"

definition tap ::
  "(TokenAdjacencyGraphBuilder \<Rightarrow> js_error + TokenAdjacencyGraphBuilder) \<Rightarrow> TokenAdjacencyGraphBuilder \<Rightarrow>
   js_error + TokenAdjacencyGraphBuilder" where
  "tap cb b = cb b"

definition build :: "TokenAdjacencyGraphBuilder \<Rightarrow> TokenAdjacencyGraph" where
  "build b = \<lparr>g_graph = b_graph b, g_defaultTokens = b_defaultTokens b\<rparr>"

definition getEmptyGraph :: TokenAdjacencyGraph where
  "getEmptyGraph = build (new_TokenAdjacencyGraphBuilder [])"

section \<open>Default graphs\<close>

definition DEFAULT_INTERMEDIATE_TOKENS_BY_CHAIN_ID :: "(ChainId \<Rightarrow> Address) \<Rightarrow> ChainId \<Rightarrow> Address list" where
  "DEFAULT_INTERMEDIATE_TOKENS_BY_CHAIN_ID etherToken chainId =
     (case chainId of
        Mainnet \<Rightarrow> map MAINNET_TOKENS [''WETH'', ''USDT'', ''DAI'', ''USDC'', ''WBTC'']
      | BSC \<Rightarrow> map BSC_TOKENS [''WBNB'', ''BUSD'', ''DAI'', ''USDC'', ''WETH'', ''USDT'', ''WEX'']
      | Goerli \<Rightarrow> [etherToken Goerli, ''0x11fe4b6ae13d2a6055c8d9cf65c55bac32b5d844'',
                    ''0x07865c6e87b9f70255377e024ace6630c1eaa37f'']
      | PolygonMumbai \<Rightarrow> [etherToken PolygonMumbai, ''0xe6b8a5cf854791412c1f6efc7caf629f5df1c747'']
      | Polygon \<Rightarrow> map POLYGON_TOKENS [''WMATIC'', ''WETH'', ''USDC'', ''DAI'', ''USDT'', ''WBTC'']
      | Avalanche \<Rightarrow> map AVALANCHE_TOKENS [''WAVAX'', ''WETH'', ''WBTC'', ''DAI'', ''USDT'', ''USDC'', ''nUSD'', ''nETH'',
                       ''aWETH'', ''MIM'']
      | Fantom \<Rightarrow> map FANTOM_TOKENS [''WFTM'', ''WETH'', ''DAI'', ''USDC'', ''nUSD'', ''nETH'', ''MIM'']
      | Celo \<Rightarrow> map CELO_TOKENS [''WCELO'', ''mCUSD'', ''WETHv1'', ''amCUSD'', ''WBTC'', ''cUSD'']
      | Optimism \<Rightarrow> map OPTIMISM_TOKENS [''WETH'', ''DAI'', ''USDC'', ''USDT'', ''nETH'', ''sWETH'']
      | Arbitrum \<Rightarrow> map ARBITRUM_TOKENS [''USDC'', ''USDT'', ''WETH'', ''WBTC'', ''FRAX'', ''MIM'']
      | Ganache \<Rightarrow> [])"

text \<open>The pairs and the complete subgraphs the builders of the chains add.\<close>

definition mainnet_pairs :: "(string \<times> string) list" where
  "mainnet_pairs =
     [(''cvxCRV'', ''CRV''), (''cvxFXS'', ''FXS''), (''FEI'', ''TRIBE''), (''FRAX'', ''FXS''), (''FRAX'', ''OHM''),
      (''OHMV2'', ''BTRFLY''), (''stETH'', ''wstETH''), (''cUSDC'', ''USDC''), (''cDAI'', ''DAI''), (''cWBTC'', ''WBTC'')]"

definition mainnet_synths :: "string list" where
  "mainnet_synths = [''sBTC'', ''sETH'', ''sUSD'', ''sEUR'', ''sJPY'', ''sGBP'', ''sAUD'', ''sKRW'', ''sCHF'']"

definition optimism_synths :: "string list" where
  "optimism_synths =
     [''sAAVE'', ''sAVAX'', ''sBTC'', ''sETH'', ''sEUR'', ''sLINK'', ''sMATIC'', ''sSOL'', ''sUNI'', ''sUSD'']"

fun addPairs ::
  "(string \<Rightarrow> Address) \<Rightarrow> (string \<times> string) list \<Rightarrow> TokenAdjacencyGraphBuilder \<Rightarrow> js_error + TokenAdjacencyGraphBuilder" where
  "addPairs tokens [] b = Inr b"
| "addPairs tokens ((x, y) # ps) b = res_bind (addBidirectional (tokens x) (tokens y) b) (addPairs tokens ps)"

definition graph_callback :: "ChainId \<Rightarrow> TokenAdjacencyGraphBuilder \<Rightarrow> js_error + TokenAdjacencyGraphBuilder" where
  "graph_callback chainId b =
     (case chainId of
        Mainnet \<Rightarrow> res_bind (addPairs MAINNET_TOKENS mainnet_pairs b)
                     (addCompleteSubgraph (map MAINNET_TOKENS mainnet_synths))
      | Polygon \<Rightarrow> addPairs POLYGON_TOKENS [(''QUICK'', ''ANY'')] b
      | Avalanche \<Rightarrow> addPairs AVALANCHE_TOKENS [(''aWETH'', ''nETH''), (''MIM'', ''MAG'')] b
      | Optimism \<Rightarrow> addCompleteSubgraph (map OPTIMISM_TOKENS optimism_synths) b
      | _ \<Rightarrow> Inr b)"

definition DEFAULT_TOKEN_ADJACENCY_GRAPH_BY_CHAIN_ID ::
  "(ChainId \<Rightarrow> Address) \<Rightarrow> ChainId \<Rightarrow> js_error + TokenAdjacencyGraph" where
  "DEFAULT_TOKEN_ADJACENCY_GRAPH_BY_CHAIN_ID etherToken chainId =
     res_bind (tap (graph_callback chainId)
                (new_TokenAdjacencyGraphBuilder (DEFAULT_INTERMEDIATE_TOKENS_BY_CHAIN_ID etherToken chainId)))
       (\<lambda>b. Inr (build b))"

section \<open>Lemmas\<close>

text \<open>The tokens a builder would give for a token, by its lower-case address.\<close>

definition adj :: "TokenAdjacencyGraphBuilder \<Rightarrow> Address \<Rightarrow> Address list" where
  "adj b t = (case b_graph b t of Some ts \<Rightarrow> ts | None \<Rightarrow> b_defaultTokens b)"

lemma getAdjacentTokens_build [simp]: "getAdjacentTokens (build b) t = adj b (toLowerCase t)"
  by (simp add: getAdjacentTokens_def build_def adj_def split: option.splits)

text \<open>A builder that starts from \<open>defaults\<close> and takes any successful additions.\<close>

inductive built :: "Address list \<Rightarrow> TokenAdjacencyGraphBuilder \<Rightarrow> bool" for defaults where
  built_new: "built defaults (new_TokenAdjacencyGraphBuilder defaults)"
| built_add: "built defaults b \<Longrightarrow> add f t b = Inr b' \<Longrightarrow> built defaults b'"

lemma add_Inr_iff: "(\<exists>b'. add f t b = Inr b') \<longleftrightarrow> toLowerCase f \<noteq> toLowerCase t"
  by (simp add: add_def Let_def)

lemma add_adj:
  assumes "add f t b = Inr b'"
  shows "b_defaultTokens b' = b_defaultTokens b"
    "set (adj b' k) = (if k = toLowerCase f then insert (toLowerCase t) (set (adj b k)) else set (adj b k))"
  using assms by (auto simp: add_def Let_def adj_def split: if_splits option.splits)

text \<open>\<open>extends b b'\<close>: the same default tokens and no adjacent token lost.\<close>

definition extends :: "TokenAdjacencyGraphBuilder \<Rightarrow> TokenAdjacencyGraphBuilder \<Rightarrow> bool" where
  "extends b b' \<longleftrightarrow> b_defaultTokens b' = b_defaultTokens b \<and> (\<forall>k. set (adj b k) \<subseteq> set (adj b' k))"

lemma extends_refl [simp]: "extends b b"
  by (simp add: extends_def)

lemma extends_trans: "extends a b \<Longrightarrow> extends b c \<Longrightarrow> extends a c"
  unfolding extends_def by (metis order_trans)

lemma add_extends: "add f t b = Inr b' \<Longrightarrow> extends b b'"
  using add_adj[of f t b b'] by (auto simp: extends_def)

lemma addBidirectional_Inr_iff: "(\<exists>b'. addBidirectional x y b = Inr b') \<longleftrightarrow> toLowerCase x \<noteq> toLowerCase y"
  by (auto simp: addBidirectional_def res_bind_eq_Inr) (metis add_Inr_iff)+

lemma addBidirectional_adj:
  assumes "addBidirectional x y b = Inr b'"
  shows "extends b b'" "toLowerCase y \<in> set (adj b' (toLowerCase x))" "toLowerCase x \<in> set (adj b' (toLowerCase y))"
proof -
  obtain b1 where 1: "add x y b = Inr b1" "add y x b1 = Inr b'"
    using assms by (auto simp: addBidirectional_def res_bind_eq_Inr)
  show "extends b b'" using add_extends[OF 1(1)] add_extends[OF 1(2)] by (rule extends_trans)
  show "toLowerCase y \<in> set (adj b' (toLowerCase x))" "toLowerCase x \<in> set (adj b' (toLowerCase y))"
    using add_adj(2)[OF 1(1)] add_adj(2)[OF 1(2)] by auto
qed

lemma built_addBidirectional: "built ds b \<Longrightarrow> addBidirectional x y b = Inr b' \<Longrightarrow> built ds b'"
  by (auto simp: addBidirectional_def res_bind_eq_Inr intro: built_add)

lemma addToEach_Inr_iff: "(\<exists>b'. addToEach t ts b = Inr b') \<longleftrightarrow> toLowerCase t \<notin> toLowerCase ` set ts"
proof (induction ts arbitrary: b)
  case (Cons u us)
  then show ?case using addBidirectional_Inr_iff[of t u b] by (auto simp: res_bind_eq_Inr)
qed simp

lemma addToEach_adj:
  "addToEach t ts b = Inr b' \<Longrightarrow> extends b b' \<and>
     (\<forall>u \<in> set ts. toLowerCase u \<in> set (adj b' (toLowerCase t)) \<and> toLowerCase t \<in> set (adj b' (toLowerCase u)))"
proof (induction ts arbitrary: b)
  case (Cons u us)
  then obtain b1 where b1: "addBidirectional t u b = Inr b1" "addToEach t us b1 = Inr b'"
    by (auto simp: res_bind_eq_Inr)
  with Cons.IH[OF b1(2)] addBidirectional_adj[OF b1(1)] show ?case
    by (auto simp: extends_def)
qed simp

lemma addCompleteSubgraph_Inr_iff: "(\<exists>b'. addCompleteSubgraph ts b = Inr b') \<longleftrightarrow> distinct (map toLowerCase ts)"
proof (induction ts arbitrary: b)
  case (Cons t ts)
  then show ?case using addToEach_Inr_iff[of t ts b] by (auto simp: res_bind_eq_Inr)
qed simp

lemma built_addToEach: "built ds b \<Longrightarrow> addToEach t ts b = Inr b' \<Longrightarrow> built ds b'"
  by (induction ts arbitrary: b) (auto simp: res_bind_eq_Inr intro: built_addBidirectional)

lemma built_addCompleteSubgraph: "built ds b \<Longrightarrow> addCompleteSubgraph ts b = Inr b' \<Longrightarrow> built ds b'"
  by (induction ts arbitrary: b) (auto simp: res_bind_eq_Inr intro: built_addToEach)

lemma built_addPairs: "built ds b \<Longrightarrow> addPairs tokens ps b = Inr b' \<Longrightarrow> built ds b'"
  by (induction tokens ps b rule: addPairs.induct) (auto simp: res_bind_eq_Inr intro: built_addBidirectional)

lemma addPairs_Inr_iff:
  "(\<exists>b'. addPairs tokens ps b = Inr b') \<longleftrightarrow> (\<forall>(x, y) \<in> set ps. toLowerCase (tokens x) \<noteq> toLowerCase (tokens y))"
proof (induction tokens ps b rule: addPairs.induct)
  case (2 tokens x y ps b)
  then show ?case using addBidirectional_Inr_iff[of "tokens x" "tokens y" b] by (auto simp: res_bind_eq_Inr)
qed simp

text \<open>Everything a builder holds is in lower case, and every token it knows has all the default tokens.\<close>

lemma built_invariant:
  "built ds b \<Longrightarrow> b_defaultTokens b = map toLowerCase ds \<and>
     (\<forall>k. toLowerCase ` set ds \<subseteq> set (adj b k) \<and> (\<forall>t \<in> set (adj b k). toLowerCase t = t))"
proof (induction rule: built.induct)
  case built_new
  then show ?case by (auto simp: new_TokenAdjacencyGraphBuilder_def adj_def)
next
  case (built_add b f t b')
  then show ?case using add_adj[OF built_add.hyps(2)] by (auto simp: image_subset_iff split: if_splits)
qed


lemma addCompleteSubgraph_adj:
  "addCompleteSubgraph ts b = Inr b' \<Longrightarrow> extends b b' \<and>
     (\<forall>x \<in> set ts. \<forall>y \<in> set ts. toLowerCase x \<noteq> toLowerCase y \<longrightarrow> toLowerCase y \<in> set (adj b' (toLowerCase x)))"
proof (induction ts arbitrary: b)
  case (Cons t ts)
  then obtain b1 where b1: "addToEach t ts b = Inr b1" "addCompleteSubgraph ts b1 = Inr b'"
    by (auto simp: res_bind_eq_Inr)
  have ext: "extends b1 b'" using Cons.IH[OF b1(2)] by blast
  have "extends b b'" using addToEach_adj[OF b1(1)] ext extends_trans by blast
  moreover have "toLowerCase u \<in> set (adj b' (toLowerCase t)) \<and> toLowerCase t \<in> set (adj b' (toLowerCase u))"
    if "u \<in> set ts" for u
    using addToEach_adj[OF b1(1)] ext that unfolding extends_def by blast
  ultimately show ?case using Cons.IH[OF b1(2)] by auto
qed simp

lemma built_graph_callback: "built ds b \<Longrightarrow> graph_callback chainId b = Inr b' \<Longrightarrow> built ds b'"
  by (cases chainId)
    (auto simp: graph_callback_def res_bind_eq_Inr simp del: addPairs.simps addCompleteSubgraph.simps
       intro: built_addPairs built_addCompleteSubgraph)

text \<open>The names the default graphs use stand for different tokens.\<close>

lemma mainnet_synths_distinct: "distinct (map toLowerCase (map MAINNET_TOKENS mainnet_synths))"
  by (simp add: mainnet_synths_def MAINNET_TOKENS_eq_iff mainnet_names_def)

lemma optimism_synths_distinct: "distinct (map toLowerCase (map OPTIMISM_TOKENS optimism_synths))"
  by code_simp

lemma mainnet_pairs_differ:
  "\<forall>(x, y) \<in> set mainnet_pairs. toLowerCase (MAINNET_TOKENS x) \<noteq> toLowerCase (MAINNET_TOKENS y)"
  by (simp add: mainnet_pairs_def MAINNET_TOKENS_eq_iff mainnet_names_def)

lemma other_pairs_differ:
  "\<forall>(x, y) \<in> set [(''QUICK'', ''ANY'')]. toLowerCase (POLYGON_TOKENS x) \<noteq> toLowerCase (POLYGON_TOKENS y)"
  "\<forall>(x, y) \<in> set [(''aWETH'', ''nETH''), (''MIM'', ''MAG'')].
     toLowerCase (AVALANCHE_TOKENS x) \<noteq> toLowerCase (AVALANCHE_TOKENS y)"
  by code_simp+

lemma graph_callback_total: "\<exists>b'. graph_callback chainId b = Inr b'"
proof (cases chainId)
  case Mainnet
  obtain b1 where b1: "addPairs MAINNET_TOKENS mainnet_pairs b = Inr b1"
    using addPairs_Inr_iff mainnet_pairs_differ by blast
  moreover obtain b2 where "addCompleteSubgraph (map MAINNET_TOKENS mainnet_synths) b1 = Inr b2"
    using addCompleteSubgraph_Inr_iff mainnet_synths_distinct by blast
  ultimately show ?thesis by (simp add: Mainnet graph_callback_def)
next
  case Polygon
  then show ?thesis using addPairs_Inr_iff other_pairs_differ(1) by (simp add: graph_callback_def del: addPairs.simps)
next
  case Avalanche
  then show ?thesis using addPairs_Inr_iff other_pairs_differ(2) by (simp add: graph_callback_def del: addPairs.simps)
next
  case Optimism
  then show ?thesis using addCompleteSubgraph_Inr_iff optimism_synths_distinct by (simp add: graph_callback_def)
qed (simp_all add: graph_callback_def)

section \<open>Properties\<close>

text \<open>Adding a complete subgraph fails exactly when two of its tokens are the same address up to case;
  otherwise it ends with every two of them adjacent and nothing lost of what the graph held.\<close>

theorem complete_subgraph_connects:
  "if distinct (map toLowerCase ts)
   then \<exists>b'. addCompleteSubgraph ts b = Inr b' \<and>
     (\<forall>k. set (getAdjacentTokens (build b) k) \<subseteq> set (getAdjacentTokens (build b') k)) \<and>
     (\<forall>x \<in> set ts. \<forall>y \<in> set ts. x = y \<or> toLowerCase y \<in> set (getAdjacentTokens (build b') x))
   else \<exists>e. addCompleteSubgraph ts b = Inl e"
proof (cases "distinct (map toLowerCase ts)")
  case True
  then obtain b' where b': "addCompleteSubgraph ts b = Inr b'" using addCompleteSubgraph_Inr_iff by blast
  have "toLowerCase x \<noteq> toLowerCase y" if "x \<in> set ts" "y \<in> set ts" "x \<noteq> y" for x y
    using True that by (auto simp: distinct_map dest: inj_onD)
  with addCompleteSubgraph_adj[OF b'] b' True show ?thesis unfolding extends_def by simp metis
next
  case False
  then show ?thesis using addCompleteSubgraph_Inr_iff[of ts b] by (cases "addCompleteSubgraph ts b") auto
qed

text \<open>On every chain the default graph is built without error, and for every pair its intermediate tokens
  are lower-case, without repetition, none of them a token of the pair, and include every default token of the
  chain that is not of the pair.\<close>

theorem default_graph_intermediates:
  "\<exists>g. DEFAULT_TOKEN_ADJACENCY_GRAPH_BY_CHAIN_ID etherToken chainId = Inr g \<and>
     distinct (getIntermediateTokens g taker maker) \<and>
     set (getIntermediateTokens g taker maker) \<inter> {toLowerCase taker, toLowerCase maker} = {} \<and>
     toLowerCase ` set (getIntermediateTokens g taker maker) = set (getIntermediateTokens g taker maker) \<and>
     set (map toLowerCase (DEFAULT_INTERMEDIATE_TOKENS_BY_CHAIN_ID etherToken chainId)) -
       {toLowerCase taker, toLowerCase maker} \<subseteq> set (getIntermediateTokens g taker maker)"
proof -
  let ?ds = "DEFAULT_INTERMEDIATE_TOKENS_BY_CHAIN_ID etherToken chainId"
  obtain b where b: "graph_callback chainId (new_TokenAdjacencyGraphBuilder ?ds) = Inr b"
    using graph_callback_total by blast
  then have inv: "\<And>k. toLowerCase ` set ?ds \<subseteq> set (adj b k)" "\<And>k t. t \<in> set (adj b k) \<Longrightarrow> toLowerCase t = t"
    using built_invariant[OF built_graph_callback[OF built_new]] by blast+
  have lower: "toLowerCase ` set (getIntermediateTokens (build b) taker maker) =
      set (getIntermediateTokens (build b) taker maker)"
    using inv(2) by (force simp: getIntermediateTokens_def)
  show ?thesis
    using b inv(1) lower
    by (intro exI[of _ "build b"]) (auto simp: DEFAULT_TOKEN_ADJACENCY_GRAPH_BY_CHAIN_ID_def tap_def getIntermediateTokens_def)
qed

end
