(* ===== verification/Sampler_Operations.thy ===== *)
theory Sampler_Operations
  imports Bridge_Sources Pool_Caches Token_Graph Sampler
begin

text \<open>
  The operations that sample the sources (\<open>sampler_operations.ts\<close>, \<open>sampler_contract_operation.ts\<close>,
  \<open>samplers/uniswapv3_sampler.ts\<close>). The wrapper of the sampler contract is generated: \<open>SamplerContract\<close> holds how it
  encodes a call and how it decodes the data a function returns, one decoder for each type of result. The native
  token of a chain, \<open>formatBytes32String\<close> and the Bancor package are arguments too. An operation of the code is an
  object whose fill data a callback may set; here the callback returns the samples with the fill data it leaves.
  An address that a callback does not set is undefined and written \<open>undefined_address\<close>. Logging is left out.
\<close>

section \<open>Operations on the sampler contract\<close>

record HopInfo =
  sourceIndex :: BigNumber
  returnData :: string

record SamplerContract =
  abiEncode :: "string \<Rightarrow> AbiValue list \<Rightarrow> string"
  decodeAmounts :: "string \<Rightarrow> string \<Rightarrow> js_error + BigNumber list"
  decodeAmount :: "string \<Rightarrow> string \<Rightarrow> js_error + BigNumber"
  decodeFlag :: "string \<Rightarrow> string \<Rightarrow> js_error + bool"
  decodeStringsAmounts :: "string \<Rightarrow> string \<Rightarrow> js_error + string list \<times> BigNumber list"
  decodeStringStringsAmounts :: "string \<Rightarrow> string \<Rightarrow> js_error + string \<times> string list \<times> BigNumber list"
  decodeStringAmounts :: "string \<Rightarrow> string \<Rightarrow> js_error + string \<times> BigNumber list"
  decodeFlagStringAmounts :: "string \<Rightarrow> string \<Rightarrow> js_error + bool \<times> string \<times> BigNumber list"
  decodeFlagAmounts :: "string \<Rightarrow> string \<Rightarrow> js_error + bool \<times> BigNumber list"
  decodeTicks :: "string \<Rightarrow> string \<Rightarrow> js_error + string list \<times> BigNumber list \<times> BigNumber list"
  decodeHops :: "string \<Rightarrow> string \<Rightarrow> js_error + HopInfo \<times> HopInfo \<times> BigNumber list"
  decodeCallResults :: "string \<Rightarrow> string \<Rightarrow> js_error + (string \<times> bool) list"

type_synonym quotes = "BigNumber list \<times> FillData"

record SourceQuoteOperation =
  sq_source :: ERC20BridgeSource
  sq_fillData :: FillData
  sq_function :: string
  sq_params :: "AbiValue list"
  sq_callback :: "(string \<Rightarrow> FillData \<Rightarrow> js_error + quotes) option"

definition sq_encodeCall :: "SamplerContract \<Rightarrow> SourceQuoteOperation \<Rightarrow> string" where
  "sq_encodeCall contract op = abiEncode contract (sq_function op) (sq_params op)"

definition sq_handleCallResults :: "SamplerContract \<Rightarrow> SourceQuoteOperation \<Rightarrow> string \<Rightarrow> js_error + quotes" where
  "sq_handleCallResults contract op callResults =
     (case sq_callback op of
        Some callback \<Rightarrow> callback callResults (sq_fillData op)
      | None \<Rightarrow> res_bind (decodeAmounts contract (sq_function op) callResults) (\<lambda>samples. Inr (samples, sq_fillData op)))"

definition sq_handleRevert :: "SourceQuoteOperation \<Rightarrow> string \<Rightarrow> js_error + quotes" where
  "sq_handleRevert op callResults = Inr ([], sq_fillData op)"

abbreviation v_amounts :: "BigNumber list \<Rightarrow> AbiValue" where
  "v_amounts amounts \<equiv> V_list (map V_BigNumber amounts)"

definition undefined_address :: Address where
  "undefined_address = []"

text \<open>\<open>xs[i]\<close>, NaN standing for undefined.\<close>

definition amount_at :: "BigNumber list \<Rightarrow> nat \<Rightarrow> BigNumber" where
  "amount_at amounts i = (if i < length amounts then amounts ! i else NaN)"

text \<open>\<open>ops[index.toNumber()]\<close> where a property of the element is read next: undefined raises.\<close>

definition element_at :: "'a list \<Rightarrow> BigNumber \<Rightarrow> js_error + 'a" where
  "element_at xs index =
     (case toNumber index of
        Fin q \<Rightarrow> if 0 \<le> q \<and> q = of_int \<lfloor>q\<rfloor> \<and> \<lfloor>q\<rfloor> < int (length xs) then Inr (xs ! nat \<lfloor>q\<rfloor>) else Inl TypeError
      | _ \<Rightarrow> Inl TypeError)"

section \<open>The instance\<close>

record SamplerOperations =
  so_chainId :: ChainId
  so_contract :: SamplerContract
  so_balancerCache :: BalancerCache
  so_balancerV2Cache :: "SwapsCache option"
  so_aaveV2ReservesCache :: "AaveCache option"
  so_aaveV3ReservesCache :: "AaveCache option"
  so_compoundCTokenCache :: "CTokenCache option"
  so_bancorService :: "(Address \<Rightarrow> Address \<Rightarrow> Address list list) option"
  so_graph :: TokenAdjacencyGraph
  so_nativeFeeToken :: "ChainId \<Rightarrow> Address"
  so_formatBytes32String :: "string \<Rightarrow> string"

text \<open>The caches a new instance makes for its chain, all of them empty.\<close>

definition new_SamplerOperations ::
  "ChainId \<Rightarrow> SamplerContract \<Rightarrow> TokenAdjacencyGraph \<Rightarrow> (ChainId \<Rightarrow> Address) \<Rightarrow> (string \<Rightarrow> string) \<Rightarrow> SamplerOperations" where
  "new_SamplerOperations chainId contract graph nativeFeeToken bytes32 =
     \<lparr>so_chainId = chainId, so_contract = contract,
      so_balancerCache = BalancerPoolsCache_create chainId,
      so_balancerV2Cache = (if BALANCER_V2_VAULT_ADDRESS_BY_CHAIN chainId = NULL_ADDRESS then None else Some Map.empty),
      so_aaveV2ReservesCache = (if truthy_string (AAVE_V2_SUBGRAPH_URL_BY_CHAIN_ID chainId) then Some Map.empty else None),
      so_aaveV3ReservesCache = (if truthy_string (AAVE_V3_SUBGRAPH_URL_BY_CHAIN_ID chainId) then Some Map.empty else None),
      so_compoundCTokenCache = (if truthy_string (COMPOUND_API_URL_BY_CHAIN_ID chainId) then Some Map.empty else None),
      so_bancorService = None, so_graph = graph, so_nativeFeeToken = nativeFeeToken,
      so_formatBytes32String = bytes32\<rparr>"

section \<open>Single calls\<close>

definition constant_operation :: "'r \<Rightarrow> 'r BatchedOperation" where
  "constant_operation result =
     \<lparr>encodeCall = ''0x'', handleCallResults = (\<lambda>callResults. Inr result), handleRevert = (\<lambda>callResults. Inr result)\<rparr>"

definition amounts_operation :: "SamplerContract \<Rightarrow> string \<Rightarrow> AbiValue list \<Rightarrow> BigNumber list BatchedOperation" where
  "amounts_operation contract fname params =
     \<lparr>encodeCall = abiEncode contract fname params, handleCallResults = decodeAmounts contract fname,
      handleRevert = (\<lambda>callResults. Inr [])\<rparr>"

definition getTokenDecimals :: "SamplerOperations \<Rightarrow> Address list \<Rightarrow> BigNumber list BatchedOperation" where
  "getTokenDecimals so tokens = amounts_operation (so_contract so) ''getTokenDecimals'' [v_addresses tokens]"

definition isAddressContract :: "SamplerOperations \<Rightarrow> Address \<Rightarrow> bool BatchedOperation" where
  "isAddressContract so address =
     \<lparr>encodeCall = abiEncode (so_contract so) ''isContract'' [V_string address],
      handleCallResults = decodeFlag (so_contract so) ''isContract'',
      handleRevert = (\<lambda>callResults. Inl (Error ''Invalid address for isAddressContract''))\<rparr>"

definition getGasLeft :: "SamplerOperations \<Rightarrow> BigNumber BatchedOperation" where
  "getGasLeft so =
     \<lparr>encodeCall = abiEncode (so_contract so) ''getGasLeft'' [],
      handleCallResults = decodeAmount (so_contract so) ''getGasLeft'',
      handleRevert = (\<lambda>callResults. Inl (Error ''Invalid result for getGasLeft''))\<rparr>"

definition getBlockNumber :: "SamplerOperations \<Rightarrow> BigNumber BatchedOperation" where
  "getBlockNumber so =
     \<lparr>encodeCall = abiEncode (so_contract so) ''getBlockNumber'' [],
      handleCallResults = decodeAmount (so_contract so) ''getBlockNumber'',
      handleRevert = (\<lambda>callResults. Inl (Error ''Invalid result for getBlockNumber''))\<rparr>"

text \<open>An order as the contract takes it: the fields the model keeps.\<close>

definition v_order :: "OrderFields \<Rightarrow> AbiValue" where
  "v_order ord = V_struct [V_string (ord_maker ord), V_string (ord_taker ord), V_string (ord_makerToken ord),
     V_string (ord_takerToken ord), V_BigNumber (ord_makerAmount ord), V_BigNumber (ord_takerAmount ord),
     V_BigNumber (ord_takerTokenFeeAmount ord), V_BigNumber (ord_expiry ord)]"

definition fillable_operation ::
  "SamplerOperations \<Rightarrow> string \<Rightarrow> SignedNativeOrder list \<Rightarrow> Address \<Rightarrow> BigNumber list BatchedOperation" where
  "fillable_operation so fname orders exchangeAddress =
     (if length orders = 0 then constant_operation []
      else if length orders = 1 \<and> ord_maker (sno_order (orders ! 0)) = NULL_ADDRESS then constant_operation [ZERO_AMOUNT]
      else amounts_operation (so_contract so) fname
             [V_list (map (v_order \<circ> sno_order) orders), V_list (map (V_string \<circ> sno_signature) orders),
              V_string exchangeAddress])"

definition getLimitOrderFillableTakerAmounts ::
  "SamplerOperations \<Rightarrow> SignedNativeOrder list \<Rightarrow> Address \<Rightarrow> BigNumber list BatchedOperation" where
  "getLimitOrderFillableTakerAmounts so = fillable_operation so ''getLimitOrderFillableTakerAssetAmounts''"

definition getLimitOrderFillableMakerAmounts ::
  "SamplerOperations \<Rightarrow> SignedNativeOrder list \<Rightarrow> Address \<Rightarrow> BigNumber list BatchedOperation" where
  "getLimitOrderFillableMakerAmounts so = fillable_operation so ''getLimitOrderFillableMakerAssetAmounts''"

section \<open>Quotes of a source\<close>

definition getKyberDmmSellQuotes ::
  "SamplerOperations \<Rightarrow> Address \<Rightarrow> Address list \<Rightarrow> BigNumber list \<Rightarrow>
   SourceQuoteOperation" where
  "getKyberDmmSellQuotes so router tokenAddressPath amounts =
     \<lparr>sq_source = KyberDmm, sq_fillData = NoFillData,
      sq_function = ''sampleSellsFromKyberDmm'',
      sq_params = [V_string router, v_addresses tokenAddressPath, v_amounts amounts],
      sq_callback = Some (\<lambda>callResults fillData. res_bind (decodeStringsAmounts (so_contract so) ''sampleSellsFromKyberDmm'' callResults)
        (\<lambda>(pools, samples). Inr (samples, KyberDmmFD tokenAddressPath router pools)))\<rparr>"

definition getKyberDmmBuyQuotes ::
  "SamplerOperations \<Rightarrow> Address \<Rightarrow> Address list \<Rightarrow> BigNumber list \<Rightarrow>
   SourceQuoteOperation" where
  "getKyberDmmBuyQuotes so router tokenAddressPath amounts =
     \<lparr>sq_source = KyberDmm, sq_fillData = NoFillData,
      sq_function = ''sampleBuysFromKyberDmm'',
      sq_params = [V_string router, v_addresses tokenAddressPath, v_amounts amounts],
      sq_callback = Some (\<lambda>callResults fillData. res_bind (decodeStringsAmounts (so_contract so) ''sampleBuysFromKyberDmm'' callResults)
        (\<lambda>(pools, samples). Inr (samples, KyberDmmFD tokenAddressPath router pools)))\<rparr>"

definition getUniswapSellQuotes ::
  "SamplerOperations \<Rightarrow> Address \<Rightarrow> Address \<Rightarrow> Address \<Rightarrow>
   BigNumber list \<Rightarrow> SourceQuoteOperation" where
  "getUniswapSellQuotes so router makerToken takerToken amounts =
     (let uniswapTakerToken = (if takerToken = so_nativeFeeToken so (so_chainId so) then NULL_ADDRESS else takerToken);
          uniswapMakerToken = (if makerToken = so_nativeFeeToken so (so_chainId so) then NULL_ADDRESS else makerToken)
      in \<lparr>sq_source = Uniswap, sq_fillData = GenericRouterFD router,
         sq_function = ''sampleSellsFromUniswap'',
         sq_params = [V_string router, V_string uniswapTakerToken, V_string uniswapMakerToken, v_amounts amounts],
         sq_callback = None\<rparr>)"

definition getUniswapBuyQuotes ::
  "SamplerOperations \<Rightarrow> Address \<Rightarrow> Address \<Rightarrow> Address \<Rightarrow>
   BigNumber list \<Rightarrow> SourceQuoteOperation" where
  "getUniswapBuyQuotes so router makerToken takerToken amounts =
     (let uniswapTakerToken = (if takerToken = so_nativeFeeToken so (so_chainId so) then NULL_ADDRESS else takerToken);
          uniswapMakerToken = (if makerToken = so_nativeFeeToken so (so_chainId so) then NULL_ADDRESS else makerToken)
      in \<lparr>sq_source = Uniswap, sq_fillData = GenericRouterFD router,
         sq_function = ''sampleBuysFromUniswap'',
         sq_params = [V_string router, V_string uniswapTakerToken, V_string uniswapMakerToken, v_amounts amounts],
         sq_callback = None\<rparr>)"

definition getUniswapV2SellQuotes ::
  "SamplerOperations \<Rightarrow> Address \<Rightarrow> Address list \<Rightarrow> BigNumber list \<Rightarrow>
   ERC20BridgeSource \<Rightarrow> SourceQuoteOperation" where
  "getUniswapV2SellQuotes so router tokenAddressPath amounts source =
     \<lparr>sq_source = source, sq_fillData = UniswapV2FD tokenAddressPath router,
      sq_function = ''sampleSellsFromUniswapV2'',
      sq_params = [V_string router, v_addresses tokenAddressPath, v_amounts amounts],
      sq_callback = None\<rparr>"

definition getUniswapV2BuyQuotes ::
  "SamplerOperations \<Rightarrow> Address \<Rightarrow> Address list \<Rightarrow> BigNumber list \<Rightarrow>
   ERC20BridgeSource \<Rightarrow> SourceQuoteOperation" where
  "getUniswapV2BuyQuotes so router tokenAddressPath amounts source =
     \<lparr>sq_source = source, sq_fillData = UniswapV2FD tokenAddressPath router,
      sq_function = ''sampleBuysFromUniswapV2'',
      sq_params = [V_string router, v_addresses tokenAddressPath, v_amounts amounts],
      sq_callback = None\<rparr>"

definition getCurveSellQuotes ::
  "SamplerOperations \<Rightarrow> CurveInfo \<Rightarrow> nat \<Rightarrow> nat \<Rightarrow>
   BigNumber list \<Rightarrow> ERC20BridgeSource \<Rightarrow> SourceQuoteOperation" where
  "getCurveSellQuotes so pool fromTokenIdx toTokenIdx amounts source =
     \<lparr>sq_source = source, sq_fillData = CurveFD fromTokenIdx toTokenIdx pool,
      sq_function = ''sampleSellsFromCurve'',
      sq_params = [V_struct [V_string (curve_poolAddress pool), V_string (sellQuoteFunctionSelector pool),
         V_string (buyQuoteFunctionSelector pool)], V_BigNumber (Fin (of_nat fromTokenIdx)),
         V_BigNumber (Fin (of_nat toTokenIdx)), v_amounts amounts],
      sq_callback = None\<rparr>"

definition getCurveBuyQuotes ::
  "SamplerOperations \<Rightarrow> CurveInfo \<Rightarrow> nat \<Rightarrow> nat \<Rightarrow>
   BigNumber list \<Rightarrow> ERC20BridgeSource \<Rightarrow> SourceQuoteOperation" where
  "getCurveBuyQuotes so pool fromTokenIdx toTokenIdx amounts source =
     \<lparr>sq_source = source, sq_fillData = CurveFD fromTokenIdx toTokenIdx pool,
      sq_function = ''sampleBuysFromCurve'',
      sq_params = [V_struct [V_string (curve_poolAddress pool), V_string (sellQuoteFunctionSelector pool),
         V_string (buyQuoteFunctionSelector pool)], V_BigNumber (Fin (of_nat fromTokenIdx)),
         V_BigNumber (Fin (of_nat toTokenIdx)), v_amounts amounts],
      sq_callback = None\<rparr>"

definition nonzero_samples :: "BigNumber list \<Rightarrow> BigNumber list" where
  "nonzero_samples samples = (if list_all (\<lambda>v. \<not> bn_eq v 0) samples then samples else [])"

definition getBalancerV2MultihopSellQuotes ::
  "SamplerOperations \<Rightarrow> Address \<Rightarrow> BalancerSwapInfo \<Rightarrow>
   BalancerSwapInfo \<Rightarrow> BigNumber list \<Rightarrow> ERC20BridgeSource \<Rightarrow>
   SourceQuoteOperation" where
  "getBalancerV2MultihopSellQuotes so vault quoteSwaps fillSwaps amounts source =
     \<lparr>sq_source = source, sq_fillData = BalancerV2BatchSwapFD vault (bs_swapSteps fillSwaps) (bs_assets fillSwaps) (so_chainId so),
      sq_function = ''sampleMultihopSellsFromBalancerV2'',
      sq_params = [V_string vault, V_list (map v_swapStep (bs_swapSteps quoteSwaps)), v_addresses (bs_assets quoteSwaps),
         v_amounts amounts],
      sq_callback = Some (\<lambda>callResults fillData. res_bind (decodeAmounts (so_contract so) ''sampleMultihopSellsFromBalancerV2'' callResults)
        (\<lambda>samples. Inr (nonzero_samples samples, fillData)))\<rparr>"

definition getBalancerV2MultihopBuyQuotes ::
  "SamplerOperations \<Rightarrow> Address \<Rightarrow> BalancerSwapInfo \<Rightarrow>
   BalancerSwapInfo \<Rightarrow> BigNumber list \<Rightarrow> ERC20BridgeSource \<Rightarrow>
   SourceQuoteOperation" where
  "getBalancerV2MultihopBuyQuotes so vault quoteSwaps fillSwaps amounts source =
     \<lparr>sq_source = source, sq_fillData = BalancerV2BatchSwapFD vault (bs_swapSteps fillSwaps) (bs_assets fillSwaps) (so_chainId so),
      sq_function = ''sampleMultihopBuysFromBalancerV2'',
      sq_params = [V_string vault, V_list (map v_swapStep (bs_swapSteps quoteSwaps)), v_addresses (bs_assets quoteSwaps),
         v_amounts amounts],
      sq_callback = Some (\<lambda>callResults fillData. res_bind (decodeAmounts (so_contract so) ''sampleMultihopBuysFromBalancerV2'' callResults)
        (\<lambda>samples. Inr (nonzero_samples samples, fillData)))\<rparr>"

definition getBalancerSellQuotes ::
  "SamplerOperations \<Rightarrow> Address \<Rightarrow> Address \<Rightarrow> Address \<Rightarrow>
   BigNumber list \<Rightarrow> ERC20BridgeSource \<Rightarrow> SourceQuoteOperation" where
  "getBalancerSellQuotes so poolAddress makerToken takerToken amounts source =
     \<lparr>sq_source = source, sq_fillData = PoolFD poolAddress,
      sq_function = ''sampleSellsFromBalancer'',
      sq_params = [V_string poolAddress, V_string takerToken, V_string makerToken, v_amounts amounts],
      sq_callback = None\<rparr>"

definition getBalancerBuyQuotes ::
  "SamplerOperations \<Rightarrow> Address \<Rightarrow> Address \<Rightarrow> Address \<Rightarrow>
   BigNumber list \<Rightarrow> ERC20BridgeSource \<Rightarrow> SourceQuoteOperation" where
  "getBalancerBuyQuotes so poolAddress makerToken takerToken amounts source =
     \<lparr>sq_source = source, sq_fillData = PoolFD poolAddress,
      sq_function = ''sampleBuysFromBalancer'',
      sq_params = [V_string poolAddress, V_string takerToken, V_string makerToken, v_amounts amounts],
      sq_callback = None\<rparr>"

definition getMStableSellQuotes ::
  "SamplerOperations \<Rightarrow> Address \<Rightarrow> Address \<Rightarrow> Address \<Rightarrow>
   BigNumber list \<Rightarrow> SourceQuoteOperation" where
  "getMStableSellQuotes so router makerToken takerToken amounts =
     \<lparr>sq_source = MStable, sq_fillData = GenericRouterFD router,
      sq_function = ''sampleSellsFromMStable'',
      sq_params = [V_string router, V_string takerToken, V_string makerToken, v_amounts amounts],
      sq_callback = None\<rparr>"

definition getMStableBuyQuotes ::
  "SamplerOperations \<Rightarrow> Address \<Rightarrow> Address \<Rightarrow> Address \<Rightarrow>
   BigNumber list \<Rightarrow> SourceQuoteOperation" where
  "getMStableBuyQuotes so router makerToken takerToken amounts =
     \<lparr>sq_source = MStable, sq_fillData = GenericRouterFD router,
      sq_function = ''sampleBuysFromMStable'',
      sq_params = [V_string router, V_string takerToken, V_string makerToken, v_amounts amounts],
      sq_callback = None\<rparr>"

definition getBancorSellQuotes ::
  "SamplerOperations \<Rightarrow> Address \<Rightarrow> Address \<Rightarrow> Address \<Rightarrow>
   BigNumber list \<Rightarrow> SourceQuoteOperation" where
  "getBancorSellQuotes so registry makerToken takerToken amounts =
     (let paths = (case so_bancorService so of None \<Rightarrow> [] | Some service \<Rightarrow> service takerToken makerToken)
      in \<lparr>sq_source = Bancor, sq_fillData = NoFillData,
         sq_function = ''sampleSellsFromBancor'',
         sq_params = [V_struct [V_string registry, V_list (map v_addresses paths)], V_string takerToken, V_string makerToken,
            v_amounts amounts],
         sq_callback = Some (\<lambda>callResults fillData. res_bind (decodeStringStringsAmounts (so_contract so) ''sampleSellsFromBancor'' callResults)
           (\<lambda>(networkAddress, path, samples). Inr (samples, BancorFD path networkAddress)))\<rparr>)"

definition getBancorBuyQuotes ::
  "SamplerOperations \<Rightarrow> Address \<Rightarrow> Address \<Rightarrow> Address \<Rightarrow>
   BigNumber list \<Rightarrow> SourceQuoteOperation" where
  "getBancorBuyQuotes so registry makerToken takerToken amounts =
     \<lparr>sq_source = Bancor, sq_fillData = NoFillData,
      sq_function = ''sampleBuysFromBancor'',
      sq_params = [V_struct [V_string registry, V_list []], V_string takerToken, V_string makerToken, v_amounts amounts],
      sq_callback = Some (\<lambda>callResults fillData. res_bind (decodeStringStringsAmounts (so_contract so) ''sampleBuysFromBancor'' callResults)
        (\<lambda>(networkAddress, path, samples). Inr (samples, BancorFD path networkAddress)))\<rparr>"

definition getBancorV3SellQuotes ::
  "SamplerOperations \<Rightarrow> Address \<Rightarrow> Address \<Rightarrow> Address list \<Rightarrow>
   BigNumber list \<Rightarrow> SourceQuoteOperation" where
  "getBancorV3SellQuotes so networkAddress networkInfoAddress path amounts =
     \<lparr>sq_source = BancorV3, sq_fillData = BancorFD path networkAddress,
      sq_function = ''sampleSellsFromBancorV3'',
      sq_params = [V_string (MAINNET_TOKENS ''WETH''), V_string networkInfoAddress, v_addresses path, v_amounts amounts],
      sq_callback = None\<rparr>"

definition getBancorV3BuyQuotes ::
  "SamplerOperations \<Rightarrow> Address \<Rightarrow> Address \<Rightarrow> Address list \<Rightarrow>
   BigNumber list \<Rightarrow> SourceQuoteOperation" where
  "getBancorV3BuyQuotes so networkAddress networkInfoAddress path amounts =
     \<lparr>sq_source = BancorV3, sq_fillData = BancorFD path networkAddress,
      sq_function = ''sampleBuysFromBancorV3'',
      sq_params = [V_string (MAINNET_TOKENS ''WETH''), V_string networkInfoAddress, v_addresses path, v_amounts amounts],
      sq_callback = None\<rparr>"

definition getMooniswapSellQuotes ::
  "SamplerOperations \<Rightarrow> Address \<Rightarrow> Address \<Rightarrow> Address \<Rightarrow>
   BigNumber list \<Rightarrow> SourceQuoteOperation" where
  "getMooniswapSellQuotes so registry makerToken takerToken amounts =
     (let mooniswapTakerToken = (if takerToken = so_nativeFeeToken so (so_chainId so) then NULL_ADDRESS else takerToken);
          mooniswapMakerToken = (if makerToken = so_nativeFeeToken so (so_chainId so) then NULL_ADDRESS else makerToken)
      in \<lparr>sq_source = Mooniswap, sq_fillData = NoFillData,
         sq_function = ''sampleSellsFromMooniswap'',
         sq_params = [V_string registry, V_string mooniswapTakerToken, V_string mooniswapMakerToken, v_amounts amounts],
         sq_callback = Some (\<lambda>callResults fillData. res_bind (decodeStringAmounts (so_contract so) ''sampleSellsFromMooniswap'' callResults)
           (\<lambda>(poolAddress, samples). Inr (samples, PoolFD poolAddress)))\<rparr>)"

definition getMooniswapBuyQuotes ::
  "SamplerOperations \<Rightarrow> Address \<Rightarrow> Address \<Rightarrow> Address \<Rightarrow>
   BigNumber list \<Rightarrow> SourceQuoteOperation" where
  "getMooniswapBuyQuotes so registry makerToken takerToken amounts =
     (let mooniswapTakerToken = (if takerToken = so_nativeFeeToken so (so_chainId so) then NULL_ADDRESS else takerToken);
          mooniswapMakerToken = (if makerToken = so_nativeFeeToken so (so_chainId so) then NULL_ADDRESS else makerToken)
      in \<lparr>sq_source = Mooniswap, sq_fillData = NoFillData,
         sq_function = ''sampleBuysFromMooniswap'',
         sq_params = [V_string registry, V_string mooniswapTakerToken, V_string mooniswapMakerToken, v_amounts amounts],
         sq_callback = Some (\<lambda>callResults fillData. res_bind (decodeStringAmounts (so_contract so) ''sampleBuysFromMooniswap'' callResults)
           (\<lambda>(poolAddress, samples). Inr (samples, PoolFD poolAddress)))\<rparr>)"

definition getShellSellQuotes ::
  "SamplerOperations \<Rightarrow> Address \<Rightarrow> Address \<Rightarrow> Address \<Rightarrow>
   BigNumber list \<Rightarrow> ERC20BridgeSource \<Rightarrow> SourceQuoteOperation" where
  "getShellSellQuotes so poolAddress makerToken takerToken amounts source =
     \<lparr>sq_source = source, sq_fillData = PoolFD poolAddress,
      sq_function = ''sampleSellsFromShell'',
      sq_params = [V_string poolAddress, V_string takerToken, V_string makerToken, v_amounts amounts],
      sq_callback = None\<rparr>"

definition getShellBuyQuotes ::
  "SamplerOperations \<Rightarrow> Address \<Rightarrow> Address \<Rightarrow> Address \<Rightarrow>
   BigNumber list \<Rightarrow> ERC20BridgeSource \<Rightarrow> SourceQuoteOperation" where
  "getShellBuyQuotes so poolAddress makerToken takerToken amounts source =
     \<lparr>sq_source = source, sq_fillData = PoolFD poolAddress,
      sq_function = ''sampleBuysFromShell'',
      sq_params = [V_string poolAddress, V_string takerToken, V_string makerToken, v_amounts amounts],
      sq_callback = None\<rparr>"

definition getDODOSellQuotes ::
  "SamplerOperations \<Rightarrow> DodoConfig \<Rightarrow> Address \<Rightarrow> Address \<Rightarrow>
   BigNumber list \<Rightarrow> SourceQuoteOperation" where
  "getDODOSellQuotes so opts makerToken takerToken amounts =
     \<lparr>sq_source = Dodo, sq_fillData = NoFillData,
      sq_function = ''sampleSellsFromDODO'',
      sq_params = [V_struct [V_string (dodo_registry opts), V_string (dodo_helper opts)], V_string takerToken,
         V_string makerToken, v_amounts amounts],
      sq_callback = Some (\<lambda>callResults fillData. res_bind (decodeFlagStringAmounts (so_contract so) ''sampleSellsFromDODO'' callResults)
        (\<lambda>(isSellBase, pool, samples). Inr (samples, DODOFD pool isSellBase (dodo_helper opts))))\<rparr>"

definition getDODOBuyQuotes ::
  "SamplerOperations \<Rightarrow> DodoConfig \<Rightarrow> Address \<Rightarrow> Address \<Rightarrow>
   BigNumber list \<Rightarrow> SourceQuoteOperation" where
  "getDODOBuyQuotes so opts makerToken takerToken amounts =
     \<lparr>sq_source = Dodo, sq_fillData = NoFillData,
      sq_function = ''sampleBuysFromDODO'',
      sq_params = [V_struct [V_string (dodo_registry opts), V_string (dodo_helper opts)], V_string takerToken,
         V_string makerToken, v_amounts amounts],
      sq_callback = Some (\<lambda>callResults fillData. res_bind (decodeFlagStringAmounts (so_contract so) ''sampleBuysFromDODO'' callResults)
        (\<lambda>(isSellBase, pool, samples). Inr (samples, DODOFD pool isSellBase (dodo_helper opts))))\<rparr>"

definition getDODOV2SellQuotes ::
  "SamplerOperations \<Rightarrow> Address \<Rightarrow> BigNumber \<Rightarrow> Address \<Rightarrow>
   Address \<Rightarrow> BigNumber list \<Rightarrow> SourceQuoteOperation" where
  "getDODOV2SellQuotes so registry offset makerToken takerToken amounts =
     \<lparr>sq_source = DodoV2, sq_fillData = NoFillData,
      sq_function = ''sampleSellsFromDODOV2'',
      sq_params = [V_string registry, V_BigNumber offset, V_string takerToken, V_string makerToken, v_amounts amounts],
      sq_callback = Some (\<lambda>callResults fillData. res_bind (decodeFlagStringAmounts (so_contract so) ''sampleSellsFromDODOV2'' callResults)
        (\<lambda>(isSellBase, pool, samples). Inr (samples, DODOFD pool isSellBase undefined_address)))\<rparr>"

definition getDODOV2BuyQuotes ::
  "SamplerOperations \<Rightarrow> Address \<Rightarrow> BigNumber \<Rightarrow> Address \<Rightarrow>
   Address \<Rightarrow> BigNumber list \<Rightarrow> SourceQuoteOperation" where
  "getDODOV2BuyQuotes so registry offset makerToken takerToken amounts =
     \<lparr>sq_source = DodoV2, sq_fillData = NoFillData,
      sq_function = ''sampleBuysFromDODOV2'',
      sq_params = [V_string registry, V_BigNumber offset, V_string takerToken, V_string makerToken, v_amounts amounts],
      sq_callback = Some (\<lambda>callResults fillData. res_bind (decodeFlagStringAmounts (so_contract so) ''sampleSellsFromDODOV2'' callResults)
        (\<lambda>(isSellBase, pool, samples). Inr (samples, DODOFD pool isSellBase undefined_address)))\<rparr>"

definition getMakerPsmSellQuotes ::
  "SamplerOperations \<Rightarrow> PsmInfo \<Rightarrow> Address \<Rightarrow> Address \<Rightarrow>
   BigNumber list \<Rightarrow> SourceQuoteOperation" where
  "getMakerPsmSellQuotes so psmInfo makerToken takerToken amounts =
     \<lparr>sq_source = MakerPsm, sq_fillData = MakerPsmFD True takerToken (psmAddress psmInfo) (ilkIdentifier psmInfo) (gemTokenAddress psmInfo),
      sq_function = ''sampleSellsFromMakerPsm'',
      sq_params = [V_struct [V_string (psmAddress psmInfo), V_string (ilkIdentifier psmInfo),
         V_string (gemTokenAddress psmInfo)], V_string takerToken, V_string makerToken, v_amounts amounts],
      sq_callback = None\<rparr>"

definition getMakerPsmBuyQuotes ::
  "SamplerOperations \<Rightarrow> PsmInfo \<Rightarrow> Address \<Rightarrow> Address \<Rightarrow>
   BigNumber list \<Rightarrow> SourceQuoteOperation" where
  "getMakerPsmBuyQuotes so psmInfo makerToken takerToken amounts =
     \<lparr>sq_source = MakerPsm, sq_fillData = MakerPsmFD False takerToken (psmAddress psmInfo) (ilkIdentifier psmInfo) (gemTokenAddress psmInfo),
      sq_function = ''sampleBuysFromMakerPsm'',
      sq_params = [V_struct [V_string (psmAddress psmInfo), V_string (ilkIdentifier psmInfo),
         V_string (gemTokenAddress psmInfo)], V_string takerToken, V_string makerToken, v_amounts amounts],
      sq_callback = None\<rparr>"

definition getLidoSellQuotes ::
  "SamplerOperations \<Rightarrow> LidoInfo \<Rightarrow> Address \<Rightarrow> Address \<Rightarrow>
   BigNumber list \<Rightarrow> SourceQuoteOperation" where
  "getLidoSellQuotes so lidoInfo makerToken takerToken amounts =
     \<lparr>sq_source = Lido, sq_fillData = LidoFD (stEthToken lidoInfo) (wstEthToken lidoInfo) takerToken makerToken,
      sq_function = ''sampleSellsFromLido'',
      sq_params = [V_struct [V_string (stEthToken lidoInfo), V_string (wstEthToken lidoInfo),
         V_string (wethToken lidoInfo)], V_string takerToken, V_string makerToken, v_amounts amounts],
      sq_callback = None\<rparr>"

definition getLidoBuyQuotes ::
  "SamplerOperations \<Rightarrow> LidoInfo \<Rightarrow> Address \<Rightarrow> Address \<Rightarrow>
   BigNumber list \<Rightarrow> SourceQuoteOperation" where
  "getLidoBuyQuotes so lidoInfo makerToken takerToken amounts =
     \<lparr>sq_source = Lido, sq_fillData = LidoFD (stEthToken lidoInfo) (wstEthToken lidoInfo) takerToken makerToken,
      sq_function = ''sampleBuysFromLido'',
      sq_params = [V_struct [V_string (stEthToken lidoInfo), V_string (wstEthToken lidoInfo),
         V_string (wethToken lidoInfo)], V_string takerToken, V_string makerToken, v_amounts amounts],
      sq_callback = None\<rparr>"

record AaveInfo =
  ai_lendingPool :: Address
  ai_aToken :: Address
  ai_underlyingToken :: Address

definition getAaveV2SellQuotes ::
  "SamplerOperations \<Rightarrow> AaveInfo \<Rightarrow> Address \<Rightarrow> Address \<Rightarrow>
   BigNumber list \<Rightarrow> SourceQuoteOperation" where
  "getAaveV2SellQuotes so aaveInfo makerToken takerToken amounts =
     \<lparr>sq_source = AaveV2, sq_fillData = NoFillData,
      sq_function = ''sampleSellsFromAaveV2'',
      sq_params = [V_string (ai_aToken aaveInfo), V_string (ai_underlyingToken aaveInfo), V_string takerToken,
         V_string makerToken, v_amounts amounts],
      sq_callback = Some (\<lambda>callResults fillData. res_bind (decodeAmounts (so_contract so) ''sampleSellsFromAaveV2'' callResults)
        (\<lambda>samples. Inr (samples, AaveV2FD (ai_lendingPool aaveInfo) (ai_aToken aaveInfo) undefined_address undefined_address)))\<rparr>"

definition getAaveV2BuyQuotes ::
  "SamplerOperations \<Rightarrow> AaveInfo \<Rightarrow> Address \<Rightarrow> Address \<Rightarrow>
   BigNumber list \<Rightarrow> SourceQuoteOperation" where
  "getAaveV2BuyQuotes so aaveInfo makerToken takerToken amounts =
     \<lparr>sq_source = AaveV2, sq_fillData = NoFillData,
      sq_function = ''sampleBuysFromAaveV2'',
      sq_params = [V_string (ai_aToken aaveInfo), V_string (ai_underlyingToken aaveInfo), V_string takerToken,
         V_string makerToken, v_amounts amounts],
      sq_callback = Some (\<lambda>callResults fillData. res_bind (decodeAmounts (so_contract so) ''sampleBuysFromAaveV2'' callResults)
        (\<lambda>samples. Inr (samples, AaveV2FD (ai_lendingPool aaveInfo) (ai_aToken aaveInfo) undefined_address undefined_address)))\<rparr>"

definition l2_params :: "BigNumber list \<Rightarrow> string list \<Rightarrow> AaveV3L2EncodedParameter list" where
  "l2_params amounts l2Params =
     map (\<lambda>i. \<lparr>l2_inputAmount = amount_at amounts i, l2Parameter = l2Params ! i\<rparr>) [0..<length l2Params]"

definition getAaveV3SellQuotes ::
  "SamplerOperations \<Rightarrow> AaveInfo \<Rightarrow> Address \<Rightarrow> Address \<Rightarrow>
   BigNumber list \<Rightarrow> Address \<Rightarrow> SourceQuoteOperation" where
  "getAaveV3SellQuotes so aaveInfo makerToken takerToken amounts l2EncoderAddress =
     \<lparr>sq_source = AaveV3, sq_fillData = NoFillData,
      sq_function = ''sampleSellsFromAaveV3'',
      sq_params = [V_string l2EncoderAddress, V_string (ai_aToken aaveInfo), V_string (ai_underlyingToken aaveInfo),
         V_string takerToken, V_string makerToken, v_amounts amounts],
      sq_callback = Some (\<lambda>callResults fillData. res_bind (decodeStringsAmounts (so_contract so) ''sampleSellsFromAaveV3'' callResults)
        (\<lambda>(l2Params, samples). Inr (samples, AaveV3FD (ai_lendingPool aaveInfo) (ai_aToken aaveInfo) undefined_address
           undefined_address (l2_params amounts l2Params))))\<rparr>"

definition getAaveV3BuyQuotes ::
  "SamplerOperations \<Rightarrow> AaveInfo \<Rightarrow> Address \<Rightarrow> Address \<Rightarrow>
   BigNumber list \<Rightarrow> Address \<Rightarrow> SourceQuoteOperation" where
  "getAaveV3BuyQuotes so aaveInfo makerToken takerToken amounts l2EncoderAddress =
     \<lparr>sq_source = AaveV3, sq_fillData = NoFillData,
      sq_function = ''sampleBuysFromAaveV3'',
      sq_params = [V_string l2EncoderAddress, V_string (ai_aToken aaveInfo), V_string (ai_underlyingToken aaveInfo),
         V_string takerToken, V_string makerToken, v_amounts amounts],
      sq_callback = Some (\<lambda>callResults fillData. res_bind (decodeStringsAmounts (so_contract so) ''sampleBuysFromAaveV3'' callResults)
        (\<lambda>(l2Params, samples). Inr (samples, AaveV3FD (ai_lendingPool aaveInfo) (ai_aToken aaveInfo) undefined_address
           undefined_address (l2_params amounts l2Params))))\<rparr>"

definition getCompoundSellQuotes ::
  "SamplerOperations \<Rightarrow> Address \<Rightarrow> Address \<Rightarrow> Address \<Rightarrow>
   BigNumber list \<Rightarrow> SourceQuoteOperation" where
  "getCompoundSellQuotes so cToken makerToken takerToken amounts =
     \<lparr>sq_source = Compound, sq_fillData = CompoundFD cToken takerToken makerToken,
      sq_function = ''sampleSellsFromCompound'',
      sq_params = [V_string cToken, V_string takerToken, V_string makerToken, v_amounts amounts],
      sq_callback = None\<rparr>"

definition getCompoundBuyQuotes ::
  "SamplerOperations \<Rightarrow> Address \<Rightarrow> Address \<Rightarrow> Address \<Rightarrow>
   BigNumber list \<Rightarrow> SourceQuoteOperation" where
  "getCompoundBuyQuotes so cToken makerToken takerToken amounts =
     \<lparr>sq_source = Compound, sq_fillData = CompoundFD cToken takerToken makerToken,
      sq_function = ''sampleBuysFromCompound'',
      sq_params = [V_string cToken, V_string takerToken, V_string makerToken, v_amounts amounts],
      sq_callback = None\<rparr>"

definition getGMXSellQuotes ::
  "SamplerOperations \<Rightarrow> Address \<Rightarrow> Address \<Rightarrow> Address \<Rightarrow>
   Address list \<Rightarrow> BigNumber list \<Rightarrow> SourceQuoteOperation" where
  "getGMXSellQuotes so router reader vault tokenAddressPath amounts =
     \<lparr>sq_source = GMX, sq_fillData = GMXFD router reader vault tokenAddressPath,
      sq_function = ''sampleSellsFromGMX'',
      sq_params = [V_string reader, V_string vault, v_addresses tokenAddressPath, v_amounts amounts],
      sq_callback = None\<rparr>"

definition getGMXBuyQuotes ::
  "SamplerOperations \<Rightarrow> Address \<Rightarrow> Address \<Rightarrow> Address \<Rightarrow>
   Address list \<Rightarrow> BigNumber list \<Rightarrow> SourceQuoteOperation" where
  "getGMXBuyQuotes so router reader vault tokenAddressPath amounts =
     \<lparr>sq_source = GMX, sq_fillData = GMXFD router reader vault tokenAddressPath,
      sq_function = ''sampleBuysFromGMX'',
      sq_params = [V_string reader, V_string vault, v_addresses tokenAddressPath, v_amounts amounts],
      sq_callback = None\<rparr>"

definition getPlatypusSellQuotes ::
  "SamplerOperations \<Rightarrow> Address \<Rightarrow> Address list \<Rightarrow> Address list \<Rightarrow>
   BigNumber list \<Rightarrow> SourceQuoteOperation" where
  "getPlatypusSellQuotes so router pool tokenAddressPath amounts =
     \<lparr>sq_source = Platypus, sq_fillData = PlatypusFD router pool tokenAddressPath,
      sq_function = ''sampleSellsFromPlatypus'',
      sq_params = [V_string (hd pool), v_addresses tokenAddressPath, v_amounts amounts],
      sq_callback = None\<rparr>"

definition getPlatypusBuyQuotes ::
  "SamplerOperations \<Rightarrow> Address \<Rightarrow> Address list \<Rightarrow> Address list \<Rightarrow>
   BigNumber list \<Rightarrow> SourceQuoteOperation" where
  "getPlatypusBuyQuotes so router pool tokenAddressPath amounts =
     \<lparr>sq_source = Platypus, sq_fillData = PlatypusFD router pool tokenAddressPath,
      sq_function = ''sampleBuysFromPlatypus'',
      sq_params = [V_string (hd pool), v_addresses tokenAddressPath, v_amounts amounts],
      sq_callback = None\<rparr>"

definition getSolidlySellQuotes ::
  "SamplerOperations \<Rightarrow> ERC20BridgeSource \<Rightarrow> Address \<Rightarrow> Address \<Rightarrow>
   Address \<Rightarrow> BigNumber list \<Rightarrow> SourceQuoteOperation" where
  "getSolidlySellQuotes so source router takerToken makerToken amounts =
     \<lparr>sq_source = source, sq_fillData = NoFillData,
      sq_function = ''sampleSellsFromVelodrome'',
      sq_params = [V_string router, V_string takerToken, V_string makerToken, v_amounts amounts],
      sq_callback = Some (\<lambda>callResults fillData. res_bind (decodeFlagAmounts (so_contract so) ''sampleSellsFromVelodrome'' callResults)
        (\<lambda>(isStable, samples). Inr (samples, VelodromeFD router isStable)))\<rparr>"

definition getSolidlyBuyQuotes ::
  "SamplerOperations \<Rightarrow> ERC20BridgeSource \<Rightarrow> Address \<Rightarrow> Address \<Rightarrow>
   Address \<Rightarrow> BigNumber list \<Rightarrow> SourceQuoteOperation" where
  "getSolidlyBuyQuotes so source router takerToken makerToken amounts =
     \<lparr>sq_source = source, sq_fillData = NoFillData,
      sq_function = ''sampleBuysFromVelodrome'',
      sq_params = [V_string router, V_string takerToken, V_string makerToken, v_amounts amounts],
      sq_callback = Some (\<lambda>callResults fillData. res_bind (decodeFlagAmounts (so_contract so) ''sampleBuysFromVelodrome'' callResults)
        (\<lambda>(isStable, samples). Inr (samples, VelodromeFD router isStable)))\<rparr>"

definition getSynthetixSellQuotes ::
  "SamplerOperations \<Rightarrow> Address \<Rightarrow> string \<Rightarrow> string \<Rightarrow>
   BigNumber list \<Rightarrow> SourceQuoteOperation" where
  "getSynthetixSellQuotes so readProxy takerTokenSymbol makerTokenSymbol amounts =
     (let takerTokenSymbolBytes32 = so_formatBytes32String so takerTokenSymbol;
          makerTokenSymbolBytes32 = so_formatBytes32String so makerTokenSymbol
      in \<lparr>sq_source = Synthetix, sq_fillData = NoFillData,
         sq_function = ''sampleSellsFromSynthetix'',
         sq_params = [V_string readProxy, V_string takerTokenSymbolBytes32, V_string makerTokenSymbolBytes32,
            v_amounts amounts],
         sq_callback = Some (\<lambda>callResults fillData. res_bind (decodeStringAmounts (so_contract so) ''sampleSellsFromSynthetix'' callResults)
           (\<lambda>(synthetix, samples). Inr (samples,
              SynthetixFD synthetix takerTokenSymbolBytes32 makerTokenSymbolBytes32 (so_chainId so))))\<rparr>)"

definition getSynthetixBuyQuotes ::
  "SamplerOperations \<Rightarrow> Address \<Rightarrow> string \<Rightarrow> string \<Rightarrow>
   BigNumber list \<Rightarrow> SourceQuoteOperation" where
  "getSynthetixBuyQuotes so readProxy takerTokenSymbol makerTokenSymbol amounts =
     (let takerTokenSymbolBytes32 = so_formatBytes32String so takerTokenSymbol;
          makerTokenSymbolBytes32 = so_formatBytes32String so makerTokenSymbol
      in \<lparr>sq_source = Synthetix, sq_fillData = NoFillData,
         sq_function = ''sampleBuysFromSynthetix'',
         sq_params = [V_string readProxy, V_string takerTokenSymbolBytes32, V_string makerTokenSymbolBytes32,
            v_amounts amounts],
         sq_callback = Some (\<lambda>callResults fillData. res_bind (decodeStringAmounts (so_contract so) ''sampleBuysFromSynthetix'' callResults)
           (\<lambda>(synthetix, samples). Inr (samples,
              SynthetixFD synthetix takerTokenSymbolBytes32 makerTokenSymbolBytes32 (so_chainId so))))\<rparr>)"

definition getWOOFiSellQuotes ::
  "SamplerOperations \<Rightarrow> Address \<Rightarrow> Address \<Rightarrow> Address \<Rightarrow>
   BigNumber list \<Rightarrow> SourceQuoteOperation" where
  "getWOOFiSellQuotes so router takerToken makerToken amounts =
     \<lparr>sq_source = WOOFi, sq_fillData = WOOFiFD router takerToken makerToken (so_chainId so),
      sq_function = ''sampleSellsFromWooPP'',
      sq_params = [V_string router, V_string takerToken, V_string makerToken, v_amounts amounts],
      sq_callback = None\<rparr>"

definition getWOOFiBuyQuotes ::
  "SamplerOperations \<Rightarrow> Address \<Rightarrow> Address \<Rightarrow> Address \<Rightarrow>
   BigNumber list \<Rightarrow> SourceQuoteOperation" where
  "getWOOFiBuyQuotes so router takerToken makerToken amounts =
     \<lparr>sq_source = WOOFi, sq_fillData = WOOFiFD router takerToken makerToken (so_chainId so),
      sq_function = ''sampleBuysFromWooPP'',
      sq_params = [V_string router, V_string takerToken, V_string makerToken, v_amounts amounts],
      sq_callback = None\<rparr>"

text \<open>Uniswap V3: the paths come with the gas the quoter used.\<close>

definition postProcessSamplerFunctionOutput ::
  "BigNumber list \<Rightarrow> string list \<Rightarrow> BigNumber list \<Rightarrow> js_error + PathAmount list" where
  "postProcessSamplerFunctionOutput amounts paths gasUsed =
     res_map (\<lambda>i. if i < length gasUsed
                  then Inr \<lparr>pa_path = paths ! i, pa_inputAmount = amount_at amounts i, pa_gasUsed = toNumber (gasUsed ! i)\<rparr>
                  else Inl TypeError) [0..<length paths]"

definition createSamplerOperation :: "SamplerOperations \<Rightarrow> string \<Rightarrow> Address list \<Rightarrow> BigNumber list \<Rightarrow> SourceQuoteOperation" where
  "createSamplerOperation so samplerMethodName tokenAddressPath amounts =
     (let config = UNISWAPV3_CONFIG_BY_CHAIN_ID (so_chainId so)
      in \<lparr>sq_source = UniswapV3, sq_fillData = NoFillData, sq_function = samplerMethodName,
          sq_params = [V_string (v3_factory config), v_addresses tokenAddressPath, v_amounts amounts],
          sq_callback = Some (\<lambda>callResults fillData.
            res_bind (decodeTicks (so_contract so) samplerMethodName callResults) (\<lambda>(paths, gasUsed, samples).
            res_bind (postProcessSamplerFunctionOutput amounts paths gasUsed) (\<lambda>pathAmounts.
              Inr (samples, TickDEXMultiPathFD tokenAddressPath (v3_router config) pathAmounts))))\<rparr>)"

definition createSampleSellsOperation :: "SamplerOperations \<Rightarrow> Address list \<Rightarrow> BigNumber list \<Rightarrow> SourceQuoteOperation" where
  "createSampleSellsOperation so = createSamplerOperation so ''sampleSellsFromUniswapV3''"

definition createSampleBuysOperation :: "SamplerOperations \<Rightarrow> Address list \<Rightarrow> BigNumber list \<Rightarrow> SourceQuoteOperation" where
  "createSampleBuysOperation so = createSamplerOperation so ''sampleBuysFromUniswapV3''"

end
