(* ===== verification/Quote_Sampling.thy ===== *)
theory Quote_Sampling
  imports Sampler_Operations
begin

text \<open>
  How the sampler operations choose what to sample for a pair (\<open>sampler_operations.ts\<close>): the operations of every
  source, batches of them, two-hop routes and the price of the native token.
\<close>

section \<open>Operations of a source\<close>

definition BATCH_SOURCE_FILTERS :: SourceFilters where
  "BATCH_SOURCE_FILTERS = exclude SourceFilters_all [MultiHop, Native]"

definition TWO_HOP_SOURCE_FILTERS :: SourceFilters where
  "TWO_HOP_SOURCE_FILTERS = exclude SourceFilters_all [MultiHop, Native]"

text \<open>The direct path and the paths through every intermediate token.\<close>

definition token_paths :: "Address list \<Rightarrow> Address \<Rightarrow> Address \<Rightarrow> Address list list" where
  "token_paths intermediateTokens takerToken makerToken =
     [takerToken, makerToken] # map (\<lambda>t. [takerToken, t, makerToken]) intermediateTokens"

definition isRebasing :: "Address \<Rightarrow> Address \<Rightarrow> bool" where
  "isRebasing takerToken makerToken \<longleftrightarrow> takerToken \<in> set REBASING_TOKENS \<or> makerToken \<in> set REBASING_TOKENS"

definition isLidoSupported :: "SamplerOperations \<Rightarrow> Address \<Rightarrow> Address \<Rightarrow> bool" where
  "isLidoSupported so takerTokenAddress makerTokenAddress =
     (let lidoInfo = LIDO_INFO_BY_CHAIN (so_chainId so)
      in if wethToken lidoInfo = NULL_ADDRESS then False
         else let takerToken = toLowerCase takerTokenAddress; makerToken = toLowerCase makerTokenAddress;
                  weth = toLowerCase (wethToken lidoInfo); stEth = toLowerCase (stEthToken lidoInfo);
                  wstEth = toLowerCase (wstEthToken lidoInfo)
              in if takerToken = weth \<and> makerToken = stEth then True
                 else length (filter (\<lambda>t. t \<notin> set [takerToken, makerToken]) [stEth, wstEth]) = 0)"

definition aave_info :: "AaveReserve \<Rightarrow> AaveInfo" where
  "aave_info reserve =
     \<lparr>ai_lendingPool = reserve_pool reserve, ai_aToken = aToken_id reserve, ai_underlyingToken = underlyingAsset reserve\<rparr>"

text \<open>The switch over the sources, from its \<open>Dodo\<close> branch on, and from its start.\<close>

definition sell_operations_rest ::
  "SamplerOperations \<Rightarrow> Address list \<Rightarrow> Address \<Rightarrow> Address \<Rightarrow> BigNumber list \<Rightarrow> ERC20BridgeSource \<Rightarrow>
   js_error + SourceQuoteOperation list" where
  "sell_operations_rest so intermediateTokens makerToken takerToken takerFillAmounts source =
     (let chainId = so_chainId so in
      if source \<in> set [Dystopia, Velodrome] then
        Inr [getSolidlySellQuotes so source
               (if source = Dystopia then DYSTOPIA_ROUTER_BY_CHAIN_ID chainId else VELODROME_ROUTER_BY_CHAIN_ID chainId)
               takerToken makerToken takerFillAmounts]
      else (case source of
        Dodo \<Rightarrow>
          Inr (if \<not> isValidAddress (dodo_registry (DODOV1_CONFIG_BY_CHAIN_ID chainId)) then []
               else [getDODOSellQuotes so (DODOV1_CONFIG_BY_CHAIN_ID chainId) makerToken takerToken takerFillAmounts])
      | DodoV2 \<Rightarrow>
          Inr (concat (map (\<lambda>factory.
                 map (\<lambda>offset. getDODOV2SellQuotes so factory offset makerToken takerToken takerFillAmounts) getDodoV2Offsets)
               (filter isValidAddress (DODOV2_FACTORIES_BY_CHAIN_ID chainId))))
      | Bancor \<Rightarrow>
          Inr (if \<not> isValidAddress (BANCOR_REGISTRY_BY_CHAIN_ID chainId) then []
               else [getBancorSellQuotes so (BANCOR_REGISTRY_BY_CHAIN_ID chainId) makerToken takerToken takerFillAmounts])
      | MakerPsm \<Rightarrow>
          let psmInfo = MAKER_PSM_INFO_BY_CHAIN_ID (so_formatBytes32String so) chainId
          in Inr (if \<not> isValidAddress (psmAddress psmInfo) then []
                  else [getMakerPsmSellQuotes so psmInfo makerToken takerToken takerFillAmounts])
      | UniswapV3 \<Rightarrow>
          if isRebasing takerToken makerToken then Inr []
          else let config = UNISWAPV3_CONFIG_BY_CHAIN_ID chainId
               in Inr (if \<not> isValidAddress (v3_router config) \<or> \<not> isValidAddress (v3_factory config) then []
                       else map (\<lambda>path. createSampleSellsOperation so path takerFillAmounts)
                              (token_paths intermediateTokens takerToken makerToken))
      | Lido \<Rightarrow>
          Inr (if \<not> isLidoSupported so takerToken makerToken then []
               else [getLidoSellQuotes so (LIDO_INFO_BY_CHAIN chainId) makerToken takerToken takerFillAmounts])
      | AaveV3 \<Rightarrow>
          (case so_aaveV3ReservesCache so of
             None \<Rightarrow> Inr []
           | Some cache \<Rightarrow>
               (case aave_get cache takerToken makerToken of
                  None \<Rightarrow> Inr []
                | Some reserve \<Rightarrow>
                    Inr [getAaveV3SellQuotes so (aave_info reserve) makerToken takerToken takerFillAmounts
                           (AAVE_V3_L2_ENCODERS_BY_CHAIN_ID chainId)]))
      | AaveV2 \<Rightarrow>
          (case so_aaveV2ReservesCache so of
             None \<Rightarrow> Inr []
           | Some cache \<Rightarrow>
               (case aave_get cache takerToken makerToken of
                  None \<Rightarrow> Inr []
                | Some reserve \<Rightarrow> Inr [getAaveV2SellQuotes so (aave_info reserve) makerToken takerToken takerFillAmounts]))
      | Compound \<Rightarrow>
          (case so_compoundCTokenCache so of
             None \<Rightarrow> Inr []
           | Some cache \<Rightarrow>
               (case compound_get cache takerToken makerToken of
                  None \<Rightarrow> Inr []
                | Some cToken \<Rightarrow> Inr [getCompoundSellQuotes so (tokenAddress cToken) makerToken takerToken takerFillAmounts]))
      | GMX \<Rightarrow>
          Inr (if takerToken = AVALANCHE_TOKENS ''MIM'' \<or> makerToken = AVALANCHE_TOKENS ''MIM'' then []
               else [getGMXSellQuotes so (GMX_ROUTER_BY_CHAIN_ID chainId) (GMX_READER_BY_CHAIN_ID chainId)
                       (GMX_VAULT_BY_CHAIN_ID chainId) [takerToken, makerToken] takerFillAmounts])
      | Platypus \<Rightarrow>
          Inr (map (\<lambda>pool. getPlatypusSellQuotes so (PLATYPUS_ROUTER_BY_CHAIN_ID chainId) [pl_poolAddress pool]
                     [takerToken, makerToken] takerFillAmounts)
                 (getPlatypusInfoForPair chainId takerToken makerToken))
      | BancorV3 \<Rightarrow>
          Inr [getBancorV3SellQuotes so (BANCORV3_NETWORK_BY_CHAIN_ID chainId) (BANCORV3_NETWORK_INFO_BY_CHAIN_ID chainId)
                 [takerToken, makerToken] takerFillAmounts]
      | Synthetix \<Rightarrow>
          (case (map_of (SYNTHETIX_CURRENCY_KEYS_BY_CHAIN_ID chainId) (toLowerCase takerToken),
                 map_of (SYNTHETIX_CURRENCY_KEYS_BY_CHAIN_ID chainId) (toLowerCase makerToken)) of
             (Some takerTokenSymbol, Some makerTokenSymbol) \<Rightarrow>
               Inr [getSynthetixSellQuotes so (SYNTHETIX_READ_PROXY_BY_CHAIN_ID chainId) takerTokenSymbol makerTokenSymbol takerFillAmounts]
           | _ \<Rightarrow> Inr [])
      | WOOFi \<Rightarrow>
          Inr (if \<not> (takerToken \<in> set WOOFI_SUPPORTED_TOKENS \<and> makerToken \<in> set WOOFI_SUPPORTED_TOKENS) then []
               else [getWOOFiSellQuotes so (WOOFI_ROUTER_BY_CHAIN_ID chainId) takerToken makerToken takerFillAmounts])
      | _ \<Rightarrow> Inl (Error (''Unsupported sell sample source: '' @ source_value source))))"

definition sell_operations ::
  "SamplerOperations \<Rightarrow> Address list \<Rightarrow> Address \<Rightarrow> Address \<Rightarrow> BigNumber list \<Rightarrow> ERC20BridgeSource \<Rightarrow>
   js_error + SourceQuoteOperation list" where
  "sell_operations so intermediateTokens makerToken takerToken takerFillAmounts source =
     (let chainId = so_chainId so in
      if isBadTokenForSource makerToken source \<or> isBadTokenForSource takerToken source then Inr []
      else if source = Uniswap then
        Inr (if isValidAddress (UNISWAPV1_ROUTER_BY_CHAIN_ID chainId)
             then [getUniswapSellQuotes so (UNISWAPV1_ROUTER_BY_CHAIN_ID chainId) makerToken takerToken takerFillAmounts] else [])
      else if source \<in> set [UniswapV2, SushiSwap, CryptoCom, PancakeSwap, PancakeSwapV2, BakerySwap, ApeSwap, QuickSwap,
          Dfyn, WaultSwap, ShibaSwap, Pangolin, TraderJoe, UbeSwap, SpiritSwap, SpookySwap, Yoshi, MorpheusSwap, BiSwap,
          MDex, KnightSwap, MeshSwap] then
        if isRebasing takerToken makerToken then Inr []
        else res_bind (uniswapV2LikeRouterAddress chainId source) (\<lambda>uniLikeRouter.
          Inr (if \<not> isValidAddress uniLikeRouter then []
               else map (\<lambda>path. getUniswapV2SellQuotes so uniLikeRouter path takerFillAmounts source)
                      (token_paths intermediateTokens takerToken makerToken)))
      else if source \<in> set [Curve, CurveV2, Nerve, Synapse, Belt, Ellipsis, Saddle, FirebirdOneSwap, IronSwap, ACryptos,
          MobiusMoney] then
        res_bind (getCurveLikeInfosForPair chainId takerToken makerToken source) (\<lambda>pools.
          Inr (map (\<lambda>pool. getCurveSellQuotes so (CurveInfo.truncate pool) (nat (takerTokenIdx pool)) (nat (makerTokenIdx pool))
                     takerFillAmounts source) pools))
      else if source \<in> set [Shell, Component] then
        res_bind (getShellLikeInfosForPair chainId takerToken makerToken source) (\<lambda>pools.
          Inr (map (\<lambda>pool. getShellSellQuotes so pool makerToken takerToken takerFillAmounts source) pools))
      else if source \<in> set [Beethovenx, BalancerV2] then
        (case so_balancerV2Cache so of
           None \<Rightarrow> Inr []
         | Some cache \<Rightarrow>
             let vault = BALANCER_V2_VAULT_ADDRESS_BY_CHAIN chainId
             in (case getCachedSwapInfoForPair cache 0 takerToken makerToken True of
                   None \<Rightarrow> Inr []
                 | Some swaps \<Rightarrow>
                     if vault = NULL_ADDRESS then Inr []
                     else Inr (map (\<lambda>swapInfo.
                            getBalancerV2MultihopSellQuotes so vault swapInfo swapInfo takerFillAmounts source) (swapInfoExactIn swaps))))
      else (case source of
        KyberDmm \<Rightarrow>
          Inr (if \<not> isValidAddress (KYBER_DMM_ROUTER_BY_CHAIN_ID chainId) then []
               else [getKyberDmmSellQuotes so (KYBER_DMM_ROUTER_BY_CHAIN_ID chainId) [takerToken, makerToken] takerFillAmounts])
      | MStable \<Rightarrow>
          res_bind (getShellLikeInfosForPair chainId takerToken makerToken source) (\<lambda>pools.
            Inr (map (\<lambda>pool. getMStableSellQuotes so pool makerToken takerToken takerFillAmounts) pools))
      | Mooniswap \<Rightarrow>
          Inr (map (\<lambda>registry. getMooniswapSellQuotes so registry makerToken takerToken takerFillAmounts)
                 (filter isValidAddress (MOONISWAP_REGISTRIES_BY_CHAIN_ID chainId)))
      | Balancer \<Rightarrow>
          Inr (map (\<lambda>pool. getBalancerSellQuotes so pool makerToken takerToken takerFillAmounts Balancer)
                 (balancer_pools (so_balancerCache so) takerToken makerToken))
      | _ \<Rightarrow> sell_operations_rest so intermediateTokens makerToken takerToken takerFillAmounts source))"

definition buy_operations_rest ::
  "SamplerOperations \<Rightarrow> Address list \<Rightarrow> Address \<Rightarrow> Address \<Rightarrow> BigNumber list \<Rightarrow> ERC20BridgeSource \<Rightarrow>
   js_error + SourceQuoteOperation list" where
  "buy_operations_rest so intermediateTokens makerToken takerToken makerFillAmounts source =
     (let chainId = so_chainId so in
      if source \<in> set [Dystopia, Velodrome] then
        Inr [getSolidlyBuyQuotes so source
               (if source = Dystopia then DYSTOPIA_ROUTER_BY_CHAIN_ID chainId else VELODROME_ROUTER_BY_CHAIN_ID chainId)
               takerToken makerToken makerFillAmounts]
      else (case source of
        Dodo \<Rightarrow>
          Inr (if \<not> isValidAddress (dodo_registry (DODOV1_CONFIG_BY_CHAIN_ID chainId)) then []
               else [getDODOBuyQuotes so (DODOV1_CONFIG_BY_CHAIN_ID chainId) makerToken takerToken makerFillAmounts])
      | DodoV2 \<Rightarrow>
          Inr (concat (map (\<lambda>factory.
                 map (\<lambda>offset. getDODOV2BuyQuotes so factory offset makerToken takerToken makerFillAmounts) getDodoV2Offsets)
               (filter isValidAddress (DODOV2_FACTORIES_BY_CHAIN_ID chainId))))
      | Bancor \<Rightarrow>
          Inr []
      | MakerPsm \<Rightarrow>
          let psmInfo = MAKER_PSM_INFO_BY_CHAIN_ID (so_formatBytes32String so) chainId
          in Inr (if \<not> isValidAddress (psmAddress psmInfo) then []
                  else [getMakerPsmBuyQuotes so psmInfo makerToken takerToken makerFillAmounts])
      | UniswapV3 \<Rightarrow>
          if isRebasing takerToken makerToken then Inr []
          else let config = UNISWAPV3_CONFIG_BY_CHAIN_ID chainId
               in Inr (if \<not> isValidAddress (v3_router config) \<or> \<not> isValidAddress (v3_factory config) then []
                       else map (\<lambda>path. createSampleBuysOperation so path makerFillAmounts)
                              (token_paths intermediateTokens takerToken makerToken))
      | Lido \<Rightarrow>
          Inr (if \<not> isLidoSupported so takerToken makerToken then []
               else [getLidoBuyQuotes so (LIDO_INFO_BY_CHAIN chainId) makerToken takerToken makerFillAmounts])
      | AaveV3 \<Rightarrow>
          (case so_aaveV3ReservesCache so of
             None \<Rightarrow> Inr []
           | Some cache \<Rightarrow>
               (case aave_get cache takerToken makerToken of
                  None \<Rightarrow> Inr []
                | Some reserve \<Rightarrow>
                    Inr [getAaveV3BuyQuotes so (aave_info reserve) makerToken takerToken makerFillAmounts
                           (AAVE_V3_L2_ENCODERS_BY_CHAIN_ID chainId)]))
      | AaveV2 \<Rightarrow>
          (case so_aaveV2ReservesCache so of
             None \<Rightarrow> Inr []
           | Some cache \<Rightarrow>
               (case aave_get cache takerToken makerToken of
                  None \<Rightarrow> Inr []
                | Some reserve \<Rightarrow> Inr [getAaveV2BuyQuotes so (aave_info reserve) makerToken takerToken makerFillAmounts]))
      | Compound \<Rightarrow>
          (case so_compoundCTokenCache so of
             None \<Rightarrow> Inr []
           | Some cache \<Rightarrow>
               (case compound_get cache takerToken makerToken of
                  None \<Rightarrow> Inr []
                | Some cToken \<Rightarrow> Inr [getCompoundBuyQuotes so (tokenAddress cToken) makerToken takerToken makerFillAmounts]))
      | GMX \<Rightarrow>
          Inr (if takerToken = AVALANCHE_TOKENS ''MIM'' \<or> makerToken = AVALANCHE_TOKENS ''MIM'' then []
               else [getGMXBuyQuotes so (GMX_ROUTER_BY_CHAIN_ID chainId) (GMX_READER_BY_CHAIN_ID chainId)
                       (GMX_VAULT_BY_CHAIN_ID chainId) [takerToken, makerToken] makerFillAmounts])
      | Platypus \<Rightarrow>
          Inr (map (\<lambda>pool. getPlatypusBuyQuotes so (PLATYPUS_ROUTER_BY_CHAIN_ID chainId) [pl_poolAddress pool]
                     [takerToken, makerToken] makerFillAmounts)
                 (getPlatypusInfoForPair chainId takerToken makerToken))
      | BancorV3 \<Rightarrow>
          Inr [getBancorV3BuyQuotes so (BANCORV3_NETWORK_BY_CHAIN_ID chainId) (BANCORV3_NETWORK_INFO_BY_CHAIN_ID chainId)
                 [takerToken, makerToken] makerFillAmounts]
      | Synthetix \<Rightarrow>
          (case (map_of (SYNTHETIX_CURRENCY_KEYS_BY_CHAIN_ID chainId) (toLowerCase takerToken),
                 map_of (SYNTHETIX_CURRENCY_KEYS_BY_CHAIN_ID chainId) (toLowerCase makerToken)) of
             (Some takerTokenSymbol, Some makerTokenSymbol) \<Rightarrow>
               Inr [getSynthetixBuyQuotes so (SYNTHETIX_READ_PROXY_BY_CHAIN_ID chainId) takerTokenSymbol makerTokenSymbol makerFillAmounts]
           | _ \<Rightarrow> Inr [])
      | WOOFi \<Rightarrow>
          Inr (if \<not> (takerToken \<in> set WOOFI_SUPPORTED_TOKENS \<and> makerToken \<in> set WOOFI_SUPPORTED_TOKENS) then []
               else [getWOOFiBuyQuotes so (WOOFI_ROUTER_BY_CHAIN_ID chainId) takerToken makerToken makerFillAmounts])
      | _ \<Rightarrow> Inl (Error (''Unsupported buy sample source: '' @ source_value source))))"

definition buy_operations ::
  "SamplerOperations \<Rightarrow> Address list \<Rightarrow> Address \<Rightarrow> Address \<Rightarrow> BigNumber list \<Rightarrow> ERC20BridgeSource \<Rightarrow>
   js_error + SourceQuoteOperation list" where
  "buy_operations so intermediateTokens makerToken takerToken makerFillAmounts source =
     (let chainId = so_chainId so in
      if source = Uniswap then
        Inr (if isValidAddress (UNISWAPV1_ROUTER_BY_CHAIN_ID chainId)
             then [getUniswapBuyQuotes so (UNISWAPV1_ROUTER_BY_CHAIN_ID chainId) makerToken takerToken makerFillAmounts] else [])
      else if source \<in> set [UniswapV2, SushiSwap, CryptoCom, PancakeSwap, PancakeSwapV2, BakerySwap, ApeSwap, QuickSwap,
          Dfyn, WaultSwap, ShibaSwap, Pangolin, TraderJoe, UbeSwap, SpiritSwap, SpookySwap, Yoshi, MorpheusSwap, BiSwap,
          MDex, KnightSwap, MeshSwap] then
        if isRebasing takerToken makerToken then Inr []
        else res_bind (uniswapV2LikeRouterAddress chainId source) (\<lambda>uniLikeRouter.
          Inr (if \<not> isValidAddress uniLikeRouter then []
               else map (\<lambda>path. getUniswapV2BuyQuotes so uniLikeRouter path makerFillAmounts source)
                      (token_paths intermediateTokens takerToken makerToken)))
      else if source \<in> set [Curve, CurveV2, Nerve, Synapse, Belt, Ellipsis, Saddle, FirebirdOneSwap, IronSwap, ACryptos,
          MobiusMoney] then
        res_bind (getCurveLikeInfosForPair chainId takerToken makerToken source) (\<lambda>pools.
          Inr (map (\<lambda>pool. getCurveBuyQuotes so (CurveInfo.truncate pool) (nat (takerTokenIdx pool)) (nat (makerTokenIdx pool))
                     makerFillAmounts source) pools))
      else if source \<in> set [Shell, Component] then
        res_bind (getShellLikeInfosForPair chainId takerToken makerToken source) (\<lambda>pools.
          Inr (map (\<lambda>pool. getShellBuyQuotes so pool makerToken takerToken makerFillAmounts source) pools))
      else if source \<in> set [Beethovenx, BalancerV2] then
        (case so_balancerV2Cache so of
           None \<Rightarrow> Inr []
         | Some cache \<Rightarrow>
             let vault = BALANCER_V2_VAULT_ADDRESS_BY_CHAIN chainId
             in (case getCachedSwapInfoForPair cache 0 takerToken makerToken True of
                   None \<Rightarrow> Inr []
                 | Some swaps \<Rightarrow>
                     if vault = NULL_ADDRESS then Inr []
                     else res_map (\<lambda>i. if i < length (swapInfoExactIn swaps)
                         then Inr (getBalancerV2MultihopBuyQuotes so vault (swapInfoExactOut swaps ! i)
                                     (swapInfoExactIn swaps ! i) makerFillAmounts source)
                         else Inl TypeError) [0..<length (swapInfoExactOut swaps)]))
      else (case source of
        KyberDmm \<Rightarrow>
          Inr (if \<not> isValidAddress (KYBER_DMM_ROUTER_BY_CHAIN_ID chainId) then []
               else [getKyberDmmBuyQuotes so (KYBER_DMM_ROUTER_BY_CHAIN_ID chainId) [takerToken, makerToken] makerFillAmounts])
      | MStable \<Rightarrow>
          res_bind (getShellLikeInfosForPair chainId takerToken makerToken source) (\<lambda>pools.
            Inr (map (\<lambda>pool. getMStableBuyQuotes so pool makerToken takerToken makerFillAmounts) pools))
      | Mooniswap \<Rightarrow>
          Inr (map (\<lambda>registry. getMooniswapBuyQuotes so registry makerToken takerToken makerFillAmounts)
                 (filter isValidAddress (MOONISWAP_REGISTRIES_BY_CHAIN_ID chainId)))
      | Balancer \<Rightarrow>
          Inr (map (\<lambda>pool. getBalancerBuyQuotes so pool makerToken takerToken makerFillAmounts Balancer)
                 (balancer_pools (so_balancerCache so) takerToken makerToken))
      | _ \<Rightarrow> buy_operations_rest so intermediateTokens makerToken takerToken makerFillAmounts source))"

section \<open>Operations of a pair\<close>

definition getSellQuoteOperations ::
  "SamplerOperations \<Rightarrow> ERC20BridgeSource list \<Rightarrow> Address \<Rightarrow> Address \<Rightarrow> BigNumber list \<Rightarrow>
   js_error + SourceQuoteOperation list" where
  "getSellQuoteOperations so sources makerToken takerToken takerFillAmounts =
     (let intermediateTokens = getIntermediateTokens (so_graph so) makerToken takerToken;
          allowed = getAllowed (exclude (SELL_SOURCE_FILTER_BY_CHAIN_ID (so_chainId so)) [MultiHop, Native]) sources
      in res_bind (res_map (sell_operations so intermediateTokens makerToken takerToken takerFillAmounts) allowed)
           (\<lambda>ops. Inr (concat ops)))"

definition getBuyQuoteOperations ::
  "SamplerOperations \<Rightarrow> ERC20BridgeSource list \<Rightarrow> Address \<Rightarrow> Address \<Rightarrow> BigNumber list \<Rightarrow>
   js_error + SourceQuoteOperation list" where
  "getBuyQuoteOperations so sources makerToken takerToken makerFillAmounts =
     (let intermediateTokens = getIntermediateTokens (so_graph so) makerToken takerToken;
          allowed = getAllowed BATCH_SOURCE_FILTERS sources
      in res_bind (res_map (buy_operations so intermediateTokens makerToken takerToken makerFillAmounts) allowed)
           (\<lambda>ops. Inr (concat ops)))"

section \<open>Batches\<close>

text \<open>The results of the operations, in order; an answer that is missing raises.\<close>

fun batch_results ::
  "SamplerContract \<Rightarrow> SourceQuoteOperation list \<Rightarrow> (string \<times> bool) list \<Rightarrow> js_error + quotes list" where
  "batch_results contract [] raw = Inr []"
| "batch_results contract (op # ops) [] = Inl TypeError"
| "batch_results contract (op # ops) ((data, success) # raw) =
     res_bind (if success then sq_handleCallResults contract op data else sq_handleRevert op data)
       (\<lambda>r. res_bind (batch_results contract ops raw) (\<lambda>rs. Inr (r # rs)))"

definition createBatch ::
  "SamplerContract \<Rightarrow> SourceQuoteOperation list \<Rightarrow> (quotes list \<Rightarrow> js_error + 'r) \<Rightarrow> (string \<Rightarrow> js_error + 'r) \<Rightarrow>
   'r BatchedOperation" where
  "createBatch contract subOps resultHandler revertHandler =
     \<lparr>encodeCall = abiEncode contract ''batchCall'' [V_list (map (V_string \<circ> sq_encodeCall contract) subOps)],
      handleCallResults = (\<lambda>callResults.
        res_bind (decodeCallResults contract ''batchCall'' callResults) (\<lambda>rawSubCallResults.
        res_bind (batch_results contract subOps rawSubCallResults) resultHandler)),
      handleRevert = revertHandler\<rparr>"

text \<open>The samples of the operations, each with the amount of its place.\<close>

definition dex_samples :: "BigNumber list \<Rightarrow> SourceQuoteOperation \<Rightarrow> quotes \<Rightarrow> DexSample list" where
  "dex_samples amounts op r =
     map (\<lambda>j. \<lparr>ds_source = sq_source op, ds_fillData = snd r, ds_input = amount_at amounts j, ds_output = fst r ! j\<rparr>)
       [0..<length (fst r)]"

definition samples_handler ::
  "BigNumber list \<Rightarrow> SourceQuoteOperation list \<Rightarrow> quotes list \<Rightarrow> js_error + DexSample list list" where
  "samples_handler amounts subOps results = Inr (map2 (dex_samples amounts) subOps results)"

definition getSellQuotes ::
  "SamplerOperations \<Rightarrow> ERC20BridgeSource list \<Rightarrow> Address \<Rightarrow> Address \<Rightarrow> BigNumber list \<Rightarrow>
   js_error + DexSample list list BatchedOperation" where
  "getSellQuotes so sources makerToken takerToken takerFillAmounts =
     res_bind (getSellQuoteOperations so sources makerToken takerToken takerFillAmounts) (\<lambda>subOps.
       Inr (createBatch (so_contract so) subOps (samples_handler takerFillAmounts subOps) (\<lambda>result. Inr [])))"

definition getBuyQuotes ::
  "SamplerOperations \<Rightarrow> ERC20BridgeSource list \<Rightarrow> Address \<Rightarrow> Address \<Rightarrow> BigNumber list \<Rightarrow>
   js_error + DexSample list list BatchedOperation" where
  "getBuyQuotes so sources makerToken takerToken makerFillAmounts =
     res_bind (getBuyQuoteOperations so sources makerToken takerToken makerFillAmounts) (\<lambda>subOps.
       Inr (createBatch (so_contract so) subOps (samples_handler makerFillAmounts subOps) (\<lambda>result. Inr [])))"

section \<open>Price of the native token\<close>

record AdjustedPrice =
  ap_adjustedPrice :: BigNumber
  ap_source :: ERC20BridgeSource
  ap_price :: BigNumber

definition adjusted_price ::
  "(rat \<Rightarrow> rat) \<Rightarrow> FeeSchedule \<Rightarrow> BigNumber \<Rightarrow> SourceQuoteOperation \<Rightarrow> quotes \<Rightarrow> AdjustedPrice" where
  "adjusted_price rnd feeSchedule nativeFillAmount op r =
     (case fst r of
        [] \<Rightarrow> \<lparr>ap_adjustedPrice = ZERO_AMOUNT, ap_source = sq_source op, ap_price = ZERO_AMOUNT\<rparr>
      | v # _ \<Rightarrow>
          if bn_eq v 0 then \<lparr>ap_adjustedPrice = ZERO_AMOUNT, ap_source = sq_source op, ap_price = ZERO_AMOUNT\<rparr>
          else let price = bn_div rnd v nativeFillAmount;
                   adjustedNativeAmount = nativeFillAmount + fe_fee (feeSchedule (sq_source op) (snd r))
               in \<lparr>ap_adjustedPrice = bn_div rnd v adjustedNativeAmount, ap_source = sq_source op, ap_price = price\<rparr>)"

definition best_rate ::
  "(rat \<Rightarrow> rat) \<Rightarrow> FeeSchedule \<Rightarrow> BigNumber \<Rightarrow> SourceQuoteOperation list \<Rightarrow> quotes list \<Rightarrow> js_error + BigNumber" where
  "best_rate rnd feeSchedule nativeFillAmount subOps results =
     (if length results = 0 then Inr ZERO_AMOUNT
      else Inr (ap_price (last (js_sort (\<lambda>a b. comparedTo (ap_adjustedPrice a) (ap_adjustedPrice b))
                  (map2 (adjusted_price rnd feeSchedule nativeFillAmount) subOps results)))))"

definition getBestNativeTokenSellRate ::
  "(rat \<Rightarrow> rat) \<Rightarrow> SamplerOperations \<Rightarrow> ERC20BridgeSource list \<Rightarrow> Address \<Rightarrow> Address \<Rightarrow> BigNumber \<Rightarrow> FeeSchedule \<Rightarrow>
   js_error + BigNumber BatchedOperation" where
  "getBestNativeTokenSellRate rnd so sources makerToken nativeToken nativeFillAmount feeSchedule =
     (if toLowerCase makerToken = toLowerCase nativeToken then Inr (constant_operation 1)
      else res_bind (getSellQuoteOperations so sources makerToken nativeToken [nativeFillAmount]) (\<lambda>subOps.
        Inr (createBatch (so_contract so) subOps (best_rate rnd feeSchedule nativeFillAmount subOps)
               (\<lambda>result. Inr ZERO_AMOUNT))))"

section \<open>Two hops\<close>

text \<open>The fill data of a two-hop operation holds the intermediate token until the callback adds the hops; nothing
  reads it without them, and it is written as no fill data.\<close>

definition two_hop_callback ::
  "SamplerContract \<Rightarrow> string \<Rightarrow> (BigNumber \<Rightarrow> bool) \<Rightarrow> BigNumber \<Rightarrow> Address \<Rightarrow> SourceQuoteOperation list \<Rightarrow>
   SourceQuoteOperation list \<Rightarrow> string \<Rightarrow> FillData \<Rightarrow> js_error + quotes" where
  "two_hop_callback contract fname nothing filler intermediateToken firstHopOps secondHopOps callResults fillData =
     res_bind (decodeHops contract fname callResults) (\<lambda>(firstHop, secondHop, amounts).
       if amounts = [] then Inl TypeError
       else if nothing (last amounts) then Inr (replicate (length amounts) filler, fillData)
       else res_bind (element_at firstHopOps (sourceIndex firstHop)) (\<lambda>firstHopOp.
            res_bind (sq_handleCallResults contract firstHopOp (returnData firstHop)) (\<lambda>r1.
            res_bind (element_at secondHopOps (sourceIndex secondHop)) (\<lambda>secondHopOp.
            res_bind (sq_handleCallResults contract secondHopOp (returnData secondHop)) (\<lambda>r2.
              Inr (amounts, MultiHopFD (sq_source firstHopOp) (snd r1) (sq_source secondHopOp) (snd r2) intermediateToken))))))"

definition two_hop_operation ::
  "SamplerContract \<Rightarrow> string \<Rightarrow> (BigNumber \<Rightarrow> bool) \<Rightarrow> BigNumber \<Rightarrow> nat \<Rightarrow> Address \<Rightarrow> SourceQuoteOperation list \<Rightarrow>
   SourceQuoteOperation list \<Rightarrow> SourceQuoteOperation" where
  "two_hop_operation contract fname nothing filler n intermediateToken firstHopOps secondHopOps =
     \<lparr>sq_source = MultiHop, sq_fillData = NoFillData, sq_function = fname,
      sq_params = [V_list (map (V_string \<circ> sq_encodeCall contract) firstHopOps),
        V_list (map (V_string \<circ> sq_encodeCall contract) secondHopOps), V_BigNumber (Fin (of_nat n))],
      sq_callback = Some (two_hop_callback contract fname nothing filler intermediateToken firstHopOps secondHopOps)\<rparr>"

definition getTwoHopSellQuotes ::
  "SamplerOperations \<Rightarrow> ERC20BridgeSource list \<Rightarrow> Address \<Rightarrow> Address \<Rightarrow> BigNumber list \<Rightarrow>
   js_error + DexSample list list BatchedOperation" where
  "getTwoHopSellQuotes so sources makerToken takerToken sellAmounts =
     (let allowed = getAllowed TWO_HOP_SOURCE_FILTERS sources
      in if length allowed = 0 then Inr (constant_operation [])
         else res_bind (res_map (\<lambda>intermediateToken.
                res_bind (getSellQuoteOperations so allowed intermediateToken takerToken sellAmounts) (\<lambda>firstHopOps.
                res_bind (getSellQuoteOperations so allowed makerToken intermediateToken
                    (replicate (length sellAmounts) ZERO_AMOUNT)) (\<lambda>secondHopOps.
                  Inr (two_hop_operation (so_contract so) ''sampleTwoHopSell'' (\<lambda>v. bn_eq v 0) ZERO_AMOUNT
                         (length sellAmounts) intermediateToken firstHopOps secondHopOps))))
                (getIntermediateTokens (so_graph so) makerToken takerToken)) (\<lambda>subOps.
              Inr (createBatch (so_contract so) subOps (samples_handler sellAmounts subOps) (\<lambda>result. Inr []))))"

definition getTwoHopBuyQuotes ::
  "SamplerOperations \<Rightarrow> ERC20BridgeSource list \<Rightarrow> Address \<Rightarrow> Address \<Rightarrow> BigNumber list \<Rightarrow>
   js_error + DexSample list list BatchedOperation" where
  "getTwoHopBuyQuotes so sources makerToken takerToken buyAmounts =
     (let allowed = getAllowed TWO_HOP_SOURCE_FILTERS sources
      in if length allowed = 0 then Inr (constant_operation [])
         else res_bind (res_map (\<lambda>intermediateToken.
                res_bind (getBuyQuoteOperations so allowed intermediateToken takerToken
                    (replicate (length buyAmounts) 0)) (\<lambda>firstHopOps.
                res_bind (getBuyQuoteOperations so allowed makerToken intermediateToken buyAmounts) (\<lambda>secondHopOps.
                  Inr (two_hop_operation (so_contract so) ''sampleTwoHopBuy'' (\<lambda>v. bn_eq v MAX_UINT256) MAX_UINT256
                         (length buyAmounts) intermediateToken firstHopOps secondHopOps))))
                (getIntermediateTokens (so_graph so) makerToken takerToken)) (\<lambda>subOps.
              Inr (createBatch (so_contract so) subOps (samples_handler buyAmounts subOps) (\<lambda>result. Inr []))))"

section \<open>Lemmas\<close>

lemmas sell_quote_defs =
  getKyberDmmSellQuotes_def getUniswapSellQuotes_def getUniswapV2SellQuotes_def getCurveSellQuotes_def
  getBalancerV2MultihopSellQuotes_def getBalancerSellQuotes_def getMStableSellQuotes_def getBancorSellQuotes_def
  getBancorV3SellQuotes_def getMooniswapSellQuotes_def getShellSellQuotes_def getDODOSellQuotes_def
  getDODOV2SellQuotes_def getMakerPsmSellQuotes_def getLidoSellQuotes_def getAaveV2SellQuotes_def
  getAaveV3SellQuotes_def getCompoundSellQuotes_def getGMXSellQuotes_def getPlatypusSellQuotes_def
  getSolidlySellQuotes_def getSynthetixSellQuotes_def getWOOFiSellQuotes_def createSampleSellsOperation_def
  createSamplerOperation_def

lemmas buy_quote_defs =
  getKyberDmmBuyQuotes_def getUniswapBuyQuotes_def getUniswapV2BuyQuotes_def getCurveBuyQuotes_def
  getBalancerV2MultihopBuyQuotes_def getBalancerBuyQuotes_def getMStableBuyQuotes_def
  getBancorV3BuyQuotes_def getMooniswapBuyQuotes_def getShellBuyQuotes_def getDODOBuyQuotes_def
  getDODOV2BuyQuotes_def getMakerPsmBuyQuotes_def getLidoBuyQuotes_def getAaveV2BuyQuotes_def
  getAaveV3BuyQuotes_def getCompoundBuyQuotes_def getGMXBuyQuotes_def getPlatypusBuyQuotes_def
  getSolidlyBuyQuotes_def getSynthetixBuyQuotes_def getWOOFiBuyQuotes_def createSampleBuysOperation_def
  createSamplerOperation_def

lemma curve_lookup_total:
  "source \<in> set curve_like \<Longrightarrow> \<exists>pools. getCurveLikeInfosForPair chainId t m source = Inr pools"
  by (simp add: getCurveLikeInfosForPair_def curvePools_eq)

lemma router_lookup_total:
  "source \<in> set uniswapV2_like \<Longrightarrow> \<exists>router. uniswapV2LikeRouterAddress chainId source = Inr router"
  by (cases source) (simp_all add: uniswapV2LikeRouterAddress_def uniswapV2_like_def)

lemma sell_operations_total:
  assumes "source \<noteq> MultiHop" "source \<noteq> Native"
  shows "\<exists>ops. sell_operations so ts m t amounts source = Inr ops \<and> (\<forall>op \<in> set ops. sq_source op = source)"
  using assms curve_lookup_total[of source "so_chainId so" t m] router_lookup_total[of source "so_chainId so"]
  by (cases source)
    (auto simp: sell_operations_def sell_operations_rest_def Let_def sell_quote_defs getShellLikeInfosForPair_def curve_like_def uniswapV2_like_def
      split: option.splits)


text \<open>The two lists of swaps of a cached pair go together.\<close>

definition swaps_aligned :: "SamplerOperations \<Rightarrow> bool" where
  "swaps_aligned so \<longleftrightarrow>
     (\<forall>cache k e swaps. so_balancerV2Cache so = Some cache \<longrightarrow> cache k = Some (e, swaps) \<longrightarrow>
        length (swapInfoExactOut swaps) = length (swapInfoExactIn swaps))"

lemma cached_swaps_aligned:
  assumes "swaps_aligned so" "so_balancerV2Cache so = Some cache"
    and "getCachedSwapInfoForPair cache now t m True = Some swaps"
  shows "length (swapInfoExactOut swaps) = length (swapInfoExactIn swaps)"
  using assms by (auto simp: swaps_aligned_def getCachedSwapInfoForPair_def Let_def EMPTY_BALANCER_SWAPS_def split: option.splits)

lemma getCachedSwapInfoForPair_Some: "\<exists>swaps. getCachedSwapInfoForPair cache now t m True = Some swaps"
  by (simp add: getCachedSwapInfoForPair_def Let_def)

lemma balancerV2_buys_total:
  assumes "swaps_aligned so" "source \<in> set [Beethovenx, BalancerV2]"
  shows "\<exists>ops. buy_operations so ts m t amounts source = Inr ops \<and> (\<forall>op \<in> set ops. sq_source op = source)"
proof (cases "so_balancerV2Cache so")
  case None
  then show ?thesis using assms(2) by (auto simp: buy_operations_def buy_operations_rest_def Let_def)
next
  case (Some cache)
  let ?vault = "BALANCER_V2_VAULT_ADDRESS_BY_CHAIN (so_chainId so)"
  obtain swaps where swaps: "getCachedSwapInfoForPair cache 0 t m True = Some swaps"
    using getCachedSwapInfoForPair_Some by blast
  let ?op = "\<lambda>i. getBalancerV2MultihopBuyQuotes so ?vault (swapInfoExactOut swaps ! i) (swapInfoExactIn swaps ! i) amounts source"
  have len: "length (swapInfoExactOut swaps) = length (swapInfoExactIn swaps)"
    by (rule cached_swaps_aligned[OF assms(1) Some swaps])
  have "res_map (\<lambda>i. if i < length (swapInfoExactIn swaps) then Inr (?op i) else Inl TypeError)
      [0..<length (swapInfoExactOut swaps)] = Inr (map ?op [0..<length (swapInfoExactOut swaps)])"
    by (rule res_map_all_Inr) (simp add: len)
  then show ?thesis
    using assms(2) Some swaps by (auto simp: buy_operations_def buy_operations_rest_def Let_def getBalancerV2MultihopBuyQuotes_def)
qed

lemma buy_operations_total:
  assumes "source \<noteq> MultiHop" "source \<noteq> Native" "swaps_aligned so"
  shows "\<exists>ops. buy_operations so ts m t amounts source = Inr ops \<and> (\<forall>op \<in> set ops. sq_source op = source)"
proof (cases "source \<in> set [Beethovenx, BalancerV2]")
  case True
  then show ?thesis by (rule balancerV2_buys_total[OF assms(3)])
next
  case False
  then show ?thesis
    using assms(1,2) curve_lookup_total[of source "so_chainId so" t m] router_lookup_total[of source "so_chainId so"]
    by (cases source)
      (auto simp: buy_operations_def buy_operations_rest_def Let_def buy_quote_defs getShellLikeInfosForPair_def curve_like_def uniswapV2_like_def
        split: option.splits)
qed

text \<open>Operations gathered over sources that are each total and carry their source.\<close>

lemma gathered_operations:
  assumes "\<And>s. s \<in> set sources \<Longrightarrow> \<exists>ops. f s = Inr ops \<and> (\<forall>op \<in> set ops. P s op)"
  shows "\<exists>ops. res_bind (res_map f sources) (\<lambda>ops. Inr (concat ops)) = Inr ops \<and>
    (\<forall>op \<in> set ops. \<exists>s \<in> set sources. P s op)"
proof -
  obtain opss where "res_map f sources = Inr opss" "list_all2 (\<lambda>s ops. \<forall>op \<in> set ops. P s op) sources opss"
    using res_map_total[of sources f "\<lambda>s ops. \<forall>op \<in> set ops. P s op"] assms by blast
  then show ?thesis by (fastforce simp: list_all2_conv_all_nth in_set_conv_nth)
qed

lemma batch_results_length: "batch_results contract ops raw = Inr rs \<Longrightarrow> length rs = length ops"
  by (induction contract ops raw arbitrary: rs rule: batch_results.induct) (auto simp: res_bind_eq_Inr)

text \<open>What the answer to a call makes of its operation.\<close>

definition answered :: "SamplerContract \<Rightarrow> SourceQuoteOperation \<Rightarrow> string \<times> bool \<Rightarrow> js_error + quotes" where
  "answered contract op raw =
     (if snd raw then sq_handleCallResults contract op (fst raw) else sq_handleRevert op (fst raw))"

lemma batch_results_nth:
  "batch_results contract ops raw = Inr rs \<Longrightarrow> i < length ops \<Longrightarrow> answered contract (ops ! i) (raw ! i) = Inr (rs ! i)"
proof (induction contract ops raw arbitrary: rs i rule: batch_results.induct)
  case (3 contract op ops data success raw)
  have "res_bind (answered contract op (data, success)) (\<lambda>r. res_bind (batch_results contract ops raw) (\<lambda>rs. Inr (r # rs))) = Inr rs"
    using 3(2) by (cases success) (simp_all add: answered_def)
  then obtain r rs' where "answered contract op (data, success) = Inr r" "batch_results contract ops raw = Inr rs'"
    "rs = r # rs'" by (auto simp: res_bind_eq_Inr)
  with 3 show ?case by (cases i) simp_all
qed simp_all

lemma comparedTo_Fin: "comparedTo (Fin a) (Fin b) \<le> 0 \<longleftrightarrow> a \<le> b"
  by (auto simp: comparedTo_def)

interpretation by_adjusted_price: comparator
  "\<lambda>a b. comparedTo (ap_adjustedPrice a) (ap_adjustedPrice b)" "\<lambda>p. \<exists>x. ap_adjustedPrice p = Fin x"
  by unfold_locales (auto simp: comparedTo_Fin)

lemma last_sorted_max:
  assumes "ps \<noteq> []" "\<forall>p \<in> set ps. \<exists>x. ap_adjustedPrice p = Fin x"
  shows "\<exists>p \<in> set ps. last (js_sort (\<lambda>a b. comparedTo (ap_adjustedPrice a) (ap_adjustedPrice b)) ps) = p \<and>
    (\<forall>q \<in> set ps. ap_adjustedPrice q \<le> ap_adjustedPrice p)"
proof -
  let ?s = "js_sort (\<lambda>a b. comparedTo (ap_adjustedPrice a) (ap_adjustedPrice b)) ps"
  have sorted: "sorted_wrt (\<lambda>a b. comparedTo (ap_adjustedPrice a) (ap_adjustedPrice b) \<le> 0) ?s"
    and set: "set ?s = set ps"
    using by_adjusted_price.sorted_js_sort[OF assms(2)] by blast+
  have ne: "?s \<noteq> []" using set assms(1) by (metis set_empty)
  have last: "last ?s \<in> set ps" using last_in_set[OF ne] set by simp
  have "ap_adjustedPrice q \<le> ap_adjustedPrice (last ?s)" if q: "q \<in> set ps" for q
  proof -
    obtain i where i: "i < length ?s" "?s ! i = q" using q set by (metis in_set_conv_nth)
    have "q = last ?s \<or> comparedTo (ap_adjustedPrice q) (ap_adjustedPrice (last ?s)) \<le> 0"
    proof (cases "i = length ?s - 1")
      case True
      then show ?thesis using i ne by (simp add: last_conv_nth)
    next
      case False
      then show ?thesis
        using i ne sorted_wrt_nth_less[OF sorted, of i "length ?s - 1"] by (simp add: last_conv_nth)
    qed
    moreover obtain x y where "ap_adjustedPrice q = Fin x" "ap_adjustedPrice (last ?s) = Fin y"
      using assms(2) q last by blast
    ultimately show ?thesis by (auto simp: comparedTo_Fin)
  qed
  with last show ?thesis by blast
qed

lemma sell_operations_built:
  "\<exists>ops. getSellQuoteOperations so sources maker taker amounts = Inr ops \<and>
     (\<forall>op \<in> set ops. sq_source op \<in> set sources \<and>
        sq_source op \<in> set (validSources (SELL_SOURCE_FILTER_BY_CHAIN_ID (so_chainId so))) \<and>
        sq_source op \<notin> {MultiHop, Native})"
proof -
  let ?f = "exclude (SELL_SOURCE_FILTER_BY_CHAIN_ID (so_chainId so)) [MultiHop, Native]"
  let ?ops = "sell_operations so (getIntermediateTokens (so_graph so) maker taker) maker taker amounts"
  have allowed: "s \<in> set sources \<and> s \<in> set (validSources (SELL_SOURCE_FILTER_BY_CHAIN_ID (so_chainId so))) \<and> s \<notin> {MultiHop, Native}"
    if "s \<in> set (getAllowed ?f sources)" for s
    using that by (cases "so_chainId so") (auto simp: getAllowed_def isAllowed_def exclude_def new_SourceFilters_def split: if_splits)
  then have "\<exists>ops. ?ops s = Inr ops \<and> (\<forall>op \<in> set ops. sq_source op = s)" if "s \<in> set (getAllowed ?f sources)" for s
    using that sell_operations_total[of s] by auto
  from gathered_operations[of "getAllowed ?f sources" ?ops "\<lambda>s op. sq_source op = s", OF this]
  show ?thesis unfolding getSellQuoteOperations_def Let_def using allowed by metis
qed


lemma res_map_ex: "(\<And>x. \<exists>y. f x = Inr y) \<Longrightarrow> \<exists>ys. res_map f xs = Inr ys"
  using res_map_total[of xs f "\<lambda>x y. True"] by auto

lemma element_at_mem: "element_at xs i = Inr x \<Longrightarrow> x \<in> set xs"
  by (auto simp: element_at_def split: xnum.splits if_splits)

text \<open>A contract whose decoders give fixed data.\<close>

definition sample_contract :: SamplerContract where
  "sample_contract =
     \<lparr>abiEncode = (\<lambda>fname params. fname), decodeAmounts = (\<lambda>fname data. Inr [Fin 5, Fin 9]),
      decodeAmount = (\<lambda>fname data. Inr (Fin 5)), decodeFlag = (\<lambda>fname data. Inr True),
      decodeStringsAmounts = (\<lambda>fname data. Inr ([''p'', ''q''], [Fin 5, Fin 9])),
      decodeStringStringsAmounts = (\<lambda>fname data. Inr (''n'', [''p''], [Fin 5, Fin 9])),
      decodeStringAmounts = (\<lambda>fname data. Inr (''p'', [Fin 5, Fin 9])),
      decodeFlagStringAmounts = (\<lambda>fname data. Inr (True, ''p'', [Fin 5, Fin 9])),
      decodeFlagAmounts = (\<lambda>fname data. Inr (True, [Fin 5, Fin 9])),
      decodeTicks = (\<lambda>fname data. Inr ([''p'', ''q''], [Fin 100, Fin 200], [Fin 5, Fin 9])),
      decodeHops = (\<lambda>fname data. Inr (\<lparr>sourceIndex = Fin 0, returnData = ''d''\<rparr>, \<lparr>sourceIndex = Fin 0, returnData = ''d''\<rparr>,
        [Fin 5, Fin 9])),
      decodeCallResults = (\<lambda>fname data. Inr [(''d'', True)])\<rparr>"

abbreviation sample_operations :: "ChainId \<Rightarrow> SamplerOperations" where
  "sample_operations chainId \<equiv> new_SamplerOperations chainId sample_contract getEmptyGraph (\<lambda>c. ''0xweth'') (\<lambda>s. s)"

lemma velodrome_sampled:
  "getSellQuoteOperations (sample_operations Optimism) [Velodrome] ''m'' ''t'' [Fin 1, Fin 2] =
     Inr [getSolidlySellQuotes (sample_operations Optimism) Velodrome (VELODROME_ROUTER_BY_CHAIN_ID Optimism) ''t'' ''m'' [Fin 1, Fin 2]]"
  by (simp add: getSellQuoteOperations_def Let_def getAllowed_def isAllowed_def exclude_def new_SourceFilters_def uniq_def
      sell_operations_def sell_operations_rest_def isBadTokenForSource_def BAD_TOKENS_BY_SOURCE_def new_SamplerOperations_def)

section \<open>Properties\<close>

text \<open>Sampling sells never fails to build its operations, on any chain and for any pair: every requested source
  that the chain samples is dispatched, and every operation is for such a source.\<close>

theorem sell_sampling_total:
  "\<exists>ops. getSellQuoteOperations so sources maker taker amounts = Inr ops \<and>
     (\<forall>op \<in> set ops. sq_source op \<in> set sources \<and>
        sq_source op \<in> set (validSources (SELL_SOURCE_FILTER_BY_CHAIN_ID (so_chainId so))) \<and>
        sq_source op \<notin> {MultiHop, Native})"
  by (rule sell_operations_built)

theorem sell_sampling_total_witness:
  "\<exists>ops. getSellQuoteOperations (sample_operations Polygon) ERC20BridgeSource_values ''m'' ''t'' [Fin 1] = Inr ops \<and>
     sq_source ` set ops \<subseteq> set (validSources (SELL_SOURCE_FILTER_BY_CHAIN_ID Polygon)) - {MultiHop, Native}"
proof -
  have "so_chainId (sample_operations Polygon) = Polygon" by (simp add: new_SamplerOperations_def)
  with sell_sampling_total[of "sample_operations Polygon" ERC20BridgeSource_values "''m''" "''t''" "[Fin 1]"]
  show ?thesis by auto
qed

text \<open>Sampling buys never fails to build its operations either, as long as the cached swaps of Balancer V2 come
  in pairs; every operation is for a requested source, and Bancor is never asked.\<close>

theorem buy_sampling_total:
  assumes "swaps_aligned so"
  shows "\<exists>ops. getBuyQuoteOperations so sources maker taker amounts = Inr ops \<and>
    (\<forall>op \<in> set ops. sq_source op \<in> set sources - {MultiHop, Native, Bancor})"
proof -
  let ?ops = "buy_operations so (getIntermediateTokens (so_graph so) maker taker) maker taker amounts"
  let ?P = "\<lambda>s op. sq_source op = s \<and> s \<noteq> Bancor"
  have allowed: "s \<in> set sources \<and> s \<notin> {MultiHop, Native}" if "s \<in> set (getAllowed BATCH_SOURCE_FILTERS sources)" for s
    using that by (auto simp: BATCH_SOURCE_FILTERS_def getAllowed_def isAllowed_def exclude_def new_SourceFilters_def split: if_splits)
  have "\<exists>ops. ?ops s = Inr ops \<and> (\<forall>op \<in> set ops. ?P s op)" if s: "s \<in> set (getAllowed BATCH_SOURCE_FILTERS sources)" for s
  proof (cases "s = Bancor")
    case True
    then show ?thesis by (simp add: buy_operations_def buy_operations_rest_def Let_def)
  next
    case False
    then show ?thesis using allowed[OF s] buy_operations_total[OF _ _ assms, of s] by auto
  qed
  from gathered_operations[of "getAllowed BATCH_SOURCE_FILTERS sources" ?ops ?P, OF this]
  show ?thesis unfolding getBuyQuoteOperations_def Let_def using allowed by fastforce
qed

theorem buy_sampling_total_witness:
  "\<exists>ops. getBuyQuoteOperations (sample_operations Polygon) ERC20BridgeSource_values ''m'' ''t'' [Fin 1] = Inr ops \<and>
     (\<forall>op \<in> set ops. sq_source op \<noteq> Bancor)"
proof -
  have "swaps_aligned (sample_operations Polygon)" by (simp add: swaps_aligned_def new_SamplerOperations_def)
  from buy_sampling_total[OF this, of ERC20BridgeSource_values "''m''" "''t''" "[Fin 1]"] show ?thesis by auto
qed

text \<open>C30: The samples a batch of sells hands on belong where they stand: the list of an operation carries its source,
  the sample at a place has the amount sampled at that place as input, and an operation that reverted has none.\<close>

theorem sell_samples_aligned:
  assumes "getSellQuoteOperations so sources maker taker amounts = Inr ops"
    and "getSellQuotes so sources maker taker amounts = Inr batch"
    and "decodeCallResults (so_contract so) ''batchCall'' data = Inr raw"
    and "handleCallResults batch data = Inr samples"
  shows "length samples = length ops \<and>
    (\<forall>i < length ops. \<forall>j < length (samples ! i). ds_source (samples ! i ! j) = sq_source (ops ! i) \<and>
       (j < length amounts \<longrightarrow> ds_input (samples ! i ! j) = amounts ! j)) \<and>
    (\<forall>i < length ops. \<not> snd (raw ! i) \<longrightarrow> samples ! i = [])"
proof -
  have "handleCallResults (createBatch (so_contract so) ops (samples_handler amounts ops) (\<lambda>result. Inr [])) data = Inr samples"
    using assms(1,2,4) by (simp add: getSellQuotes_def)
  then obtain rs where rs: "batch_results (so_contract so) ops raw = Inr rs" and samples: "samples = map2 (dex_samples amounts) ops rs"
    using assms(3) by (auto simp: createBatch_def samples_handler_def res_bind_eq_Inr)
  have len: "length rs = length ops" by (rule batch_results_length[OF rs])
  have "samples ! i = dex_samples amounts (ops ! i) (rs ! i)" if "i < length ops" for i
    using that len by (simp add: samples)
  moreover have "rs ! i = ([], sq_fillData (ops ! i))" if "i < length ops" "\<not> snd (raw ! i)" for i
    using batch_results_nth[OF rs that(1)] that(2) by (auto simp: answered_def sq_handleRevert_def)
  ultimately show ?thesis
    using len by (auto simp: samples dex_samples_def amount_at_def)
qed

theorem sell_samples_aligned_witness:
  "\<exists>batch samples. getSellQuotes (sample_operations Optimism) [Velodrome] ''m'' ''t'' [Fin 1, Fin 2] = Inr batch \<and>
     handleCallResults batch ''x'' = Inr samples \<and> length samples = 1 \<and> ds_input (samples ! 0 ! 1) = Fin 2"
proof -
  let ?so = "sample_operations Optimism"
  let ?op = "getSolidlySellQuotes ?so Velodrome (VELODROME_ROUTER_BY_CHAIN_ID Optimism) ''t'' ''m'' [Fin 1, Fin 2]"
  let ?batch = "createBatch sample_contract [?op] (samples_handler [Fin 1, Fin 2] [?op]) (\<lambda>result. Inr [])"
  let ?samples = "[dex_samples [Fin 1, Fin 2] ?op ([Fin 5, Fin 9], VelodromeFD (VELODROME_ROUTER_BY_CHAIN_ID Optimism) True)]"
  have contract: "so_contract ?so = sample_contract" by (simp add: new_SamplerOperations_def)
  have batch: "getSellQuotes ?so [Velodrome] ''m'' ''t'' [Fin 1, Fin 2] = Inr ?batch"
    by (simp add: getSellQuotes_def velodrome_sampled contract)
  have samples: "handleCallResults ?batch ''x'' = Inr ?samples"
    by (simp add: createBatch_def samples_handler_def sample_contract_def sq_handleCallResults_def getSolidlySellQuotes_def
        new_SamplerOperations_def)
  have raw: "decodeCallResults (so_contract ?so) ''batchCall'' ''x'' = Inr [(''d'', True)]"
    by (simp add: contract) (simp add: sample_contract_def)
  have "length (?samples ! 0) = 2" by (simp add: dex_samples_def)
  then have "ds_input (?samples ! 0 ! 1) = Fin 2"
    using conjunct1[OF conjunct2[OF sell_samples_aligned[OF velodrome_sampled batch raw samples]], rule_format, of 0 1] by simp
  with batch samples show ?thesis by (intro exI[of _ ?batch] exI[of _ ?samples]) simp
qed

text \<open>C31: The price of the native token is that of the source with the best price after fees: when the adjusted
  prices are numbers, no source has a larger one.\<close>

theorem native_rate_best_after_fees:
  assumes "length results = length subOps" "results \<noteq> []"
    and "\<forall>i < length subOps. \<exists>x. ap_adjustedPrice (adjusted_price rnd fees amount (subOps ! i) (results ! i)) = Fin x"
  shows "\<exists>i < length subOps. best_rate rnd fees amount subOps results =
      Inr (ap_price (adjusted_price rnd fees amount (subOps ! i) (results ! i))) \<and>
    (\<forall>j < length subOps. ap_adjustedPrice (adjusted_price rnd fees amount (subOps ! j) (results ! j))
      \<le> ap_adjustedPrice (adjusted_price rnd fees amount (subOps ! i) (results ! i)))"
proof -
  let ?ps = "map2 (adjusted_price rnd fees amount) subOps results"
  have len: "length ?ps = length subOps" and nth: "\<And>i. i < length subOps \<Longrightarrow> ?ps ! i = adjusted_price rnd fees amount (subOps ! i) (results ! i)"
    using assms(1) by simp_all
  have "?ps \<noteq> []" using assms(1,2) by (metis len length_0_conv)
  moreover have "\<forall>p \<in> set ?ps. \<exists>x. ap_adjustedPrice p = Fin x" using assms(3) len nth by (metis in_set_conv_nth)
  ultimately obtain p where p: "p \<in> set ?ps" "last (js_sort (\<lambda>a b. comparedTo (ap_adjustedPrice a) (ap_adjustedPrice b)) ?ps) = p"
    "\<forall>q \<in> set ?ps. ap_adjustedPrice q \<le> ap_adjustedPrice p"
    using last_sorted_max by metis
  then obtain i where "i < length subOps" "?ps ! i = p" using len by (metis in_set_conv_nth)
  moreover have "ap_adjustedPrice (adjusted_price rnd fees amount (subOps ! j) (results ! j)) \<le> ap_adjustedPrice p"
    if "j < length subOps" for j using that len nth p(3) by (metis nth_mem)
  ultimately show ?thesis using p(2) assms(2) nth by (intro exI[of _ i]) (simp add: best_rate_def)
qed

theorem native_rate_best_after_fees_witness:
  "\<exists>price. best_rate (\<lambda>x. x) (\<lambda>s fd. \<lparr>fe_gas = Fin 0, fe_fee = Fin 1\<rparr>) (Fin 1)
     [getCompoundSellQuotes (sample_operations Mainnet) ''c'' ''m'' ''t'' [Fin 1]] [([Fin 6], NoFillData)] = Inr price \<and>
     Fin 3 \<le> price"
proof -
  let ?op = "getCompoundSellQuotes (sample_operations Mainnet) ''c'' ''m'' ''t'' [Fin 1]"
  have "adjusted_price (\<lambda>x. x) (\<lambda>s fd. \<lparr>fe_gas = Fin 0, fe_fee = Fin 1\<rparr>) (Fin 1) ?op ([Fin 6], NoFillData) =
    \<lparr>ap_adjustedPrice = Fin 3, ap_source = Compound, ap_price = Fin 6\<rparr>"
    by (simp add: adjusted_price_def Let_def bn_eq_def zero_xnum_def getCompoundSellQuotes_def)
  with native_rate_best_after_fees[of "[([Fin 6], NoFillData)]" "[?op]" "\<lambda>x. x" "\<lambda>s fd. \<lparr>fe_gas = Fin 0, fe_fee = Fin 1\<rparr>" "Fin 1"]
  show ?thesis by simp
qed

text \<open>No fork of Uniswap V2 and not Uniswap V3 is asked about a pair with a rebasing token; asked about any other
  pair, a fork is asked for paths from the taker token to the maker token, direct or through an intermediate token.\<close>

theorem fork_paths_join_pair:
  assumes "source \<in> set uniswapV2_like" "sell_operations so intermediates maker taker amounts source = Inr ops"
  shows "if isRebasing taker maker then ops = []
    else \<forall>op \<in> set ops. \<exists>router path. sq_fillData op = UniswapV2FD path router \<and> isValidAddress router \<and>
      hd path = taker \<and> last path = maker \<and> set path \<subseteq> {taker, maker} \<union> set intermediates \<and> length path \<le> 3"
proof -
  obtain router where "uniswapV2LikeRouterAddress (so_chainId so) source = Inr router"
    using router_lookup_total[OF assms(1)] by blast
  moreover have "\<not> isBadTokenForSource x source" for x
    using assms(1) by (auto simp: isBadTokenForSource_def BAD_TOKENS_BY_SOURCE_def uniswapV2_like_def)
  moreover have "source \<noteq> Uniswap" using assms(1) by (auto simp: uniswapV2_like_def)
  moreover have "source \<in> set [UniswapV2, SushiSwap, CryptoCom, PancakeSwap, PancakeSwapV2, BakerySwap, ApeSwap, QuickSwap,
          Dfyn, WaultSwap, ShibaSwap, Pangolin, TraderJoe, UbeSwap, SpiritSwap, SpookySwap, Yoshi, MorpheusSwap, BiSwap,
          MDex, KnightSwap, MeshSwap]"
    using assms(1) by (auto simp: uniswapV2_like_def)
  ultimately show ?thesis
    using assms(2) by (auto simp: sell_operations_def sell_operations_rest_def Let_def token_paths_def getUniswapV2SellQuotes_def split: if_splits)
qed

theorem fork_paths_join_pair_witness:
  "sell_operations (sample_operations Mainnet) [''i''] ''m'' (MAINNET_TOKENS ''stETH'') [Fin 1] SushiSwap = Inr []"
proof -
  obtain ops where "sell_operations (sample_operations Mainnet) [''i''] ''m'' (MAINNET_TOKENS ''stETH'') [Fin 1] SushiSwap = Inr ops"
    using sell_operations_total[of SushiSwap] by blast
  moreover have "isRebasing (MAINNET_TOKENS ''stETH'') ''m''" by (simp add: isRebasing_def REBASING_TOKENS_def)
  ultimately show ?thesis
    using fork_paths_join_pair[of SushiSwap "sample_operations Mainnet" "[''i'']" "''m''" "MAINNET_TOKENS ''stETH''" "[Fin 1]"]
    by (simp add: uniswapV2_like_def)
qed

text \<open>C32: The gas of an Aave trade does not depend on its direction: the callbacks set neither the underlying token
  nor the taker token, so the schedule finds them equal and every trade, a withdrawal too, costs a deposit.\<close>

theorem aave_gas_ignores_direction:
  assumes "op \<in> {getAaveV2SellQuotes so info maker taker amounts, getAaveV2BuyQuotes so info maker taker amounts,
      getAaveV3SellQuotes so info maker taker amounts l2, getAaveV3BuyQuotes so info maker taker amounts l2}"
    and "sq_handleCallResults (so_contract so) op data = Inr (samples, fillData)"
  shows "aave_gas fillData = Inr (Fin 400000)"
  using assms
  by (auto simp: getAaveV2SellQuotes_def getAaveV2BuyQuotes_def getAaveV3SellQuotes_def getAaveV3BuyQuotes_def
      sq_handleCallResults_def aave_gas_def res_bind_eq_Inr)

theorem aave_gas_ignores_direction_witness:
  "\<exists>samples fillData. sq_handleCallResults sample_contract
     (getAaveV2SellQuotes (sample_operations Mainnet) \<lparr>ai_lendingPool = ''l'', ai_aToken = ''a'', ai_underlyingToken = ''u''\<rparr>
        ''u'' ''a'' [Fin 1]) ''x'' = Inr (samples, fillData) \<and> aave_gas fillData = Inr (Fin 400000)"
proof -
  let ?i = "\<lparr>ai_lendingPool = ''l'', ai_aToken = ''a'', ai_underlyingToken = ''u''\<rparr>"
  have "sq_handleCallResults sample_contract (getAaveV2SellQuotes (sample_operations Mainnet) ?i ''u'' ''a'' [Fin 1]) ''x'' =
    Inr ([Fin 5, Fin 9], AaveV2FD ''l'' ''a'' undefined_address undefined_address)"
    by (simp add: sq_handleCallResults_def getAaveV2SellQuotes_def new_SamplerOperations_def sample_contract_def)
  moreover have "so_contract (sample_operations Mainnet) = sample_contract" by (simp add: new_SamplerOperations_def)
  ultimately show ?thesis
    using aave_gas_ignores_direction[of _ "sample_operations Mainnet" ?i "''u''" "''a''" "[Fin 1]"] by (metis insertI1)
qed


text \<open>Two-hop sampling always builds its batch.\<close>

theorem two_hop_sampling_total:
  "\<exists>batch. getTwoHopSellQuotes so sources maker taker amounts = Inr batch"
proof -
  let ?allowed = "getAllowed TWO_HOP_SOURCE_FILTERS sources"
  let ?op = "\<lambda>token. res_bind (getSellQuoteOperations so ?allowed token taker amounts) (\<lambda>firstHopOps.
    res_bind (getSellQuoteOperations so ?allowed maker token (replicate (length amounts) ZERO_AMOUNT)) (\<lambda>secondHopOps.
      Inr (two_hop_operation (so_contract so) ''sampleTwoHopSell'' (\<lambda>v. bn_eq v 0) ZERO_AMOUNT
             (length amounts) token firstHopOps secondHopOps)))"
  have "\<exists>op. ?op token = Inr op" for token
    using sell_operations_built[of so ?allowed token taker amounts]
      sell_operations_built[of so ?allowed maker token "replicate (length amounts) ZERO_AMOUNT"] by auto
  then have "\<exists>ops. res_map ?op (getIntermediateTokens (so_graph so) maker taker) = Inr ops"
    by (rule res_map_ex)
  then show ?thesis unfolding getTwoHopSellQuotes_def Let_def by auto
qed

text \<open>A two-hop answer either carries both hops, each from an operation of its side with the fill data that
  operation read from its own return data, or, when nothing comes out of the last amount, carries no hops and only
  the filler amount.\<close>

theorem two_hop_carries_hops:
  assumes "two_hop_callback contract fname nothing filler token firstHopOps secondHopOps data NoFillData = Inr (outs, fillData)"
  shows "(fillData = NoFillData \<and> set outs \<subseteq> {filler}) \<or>
    (\<exists>op1 \<in> set firstHopOps. \<exists>op2 \<in> set secondHopOps. \<exists>data1 data2 r1 r2.
       sq_handleCallResults contract op1 data1 = Inr r1 \<and> sq_handleCallResults contract op2 data2 = Inr r2 \<and>
       fillData = MultiHopFD (sq_source op1) (snd r1) (sq_source op2) (snd r2) token \<and> \<not> nothing (last outs))"
proof -
  obtain first second amounts where hops: "decodeHops contract fname data = Inr (first, second, amounts)" "amounts \<noteq> []"
    using assms by (auto simp: two_hop_callback_def res_bind_eq_Inr split: if_splits)
  show ?thesis
  proof (cases "nothing (last amounts)")
    case True
    then have "fillData = NoFillData" "outs = replicate (length amounts) filler"
      using assms hops by (simp_all add: two_hop_callback_def)
    then show ?thesis by auto
  next
    case False
    then have "\<exists>op1 r1 op2 r2. element_at firstHopOps (sourceIndex first) = Inr op1 \<and>
      sq_handleCallResults contract op1 (returnData first) = Inr r1 \<and>
      element_at secondHopOps (sourceIndex second) = Inr op2 \<and>
      sq_handleCallResults contract op2 (returnData second) = Inr r2 \<and>
      outs = amounts \<and> fillData = MultiHopFD (sq_source op1) (snd r1) (sq_source op2) (snd r2) token"
      using assms hops by (simp add: two_hop_callback_def res_bind_eq_Inr del: split_paired_Ex) (metis fst_conv snd_conv)
    then obtain op1 r1 op2 r2 where ops: "element_at firstHopOps (sourceIndex first) = Inr op1"
        "element_at secondHopOps (sourceIndex second) = Inr op2"
      and results: "sq_handleCallResults contract op1 (returnData first) = Inr r1"
        "sq_handleCallResults contract op2 (returnData second) = Inr r2"
        "outs = amounts" "fillData = MultiHopFD (sq_source op1) (snd r1) (sq_source op2) (snd r2) token"
      by (elim exE conjE)
    show ?thesis
      by (rule disjI2, rule bexI[OF _ element_at_mem[OF ops(1)]], rule bexI[OF _ element_at_mem[OF ops(2)]])
        (use results False in \<open>intro exI conjI\<close>, simp_all)
  qed
qed

theorem two_hop_carries_hops_witness:
  "\<exists>outs fillData. two_hop_callback sample_contract ''sampleTwoHopSell'' (\<lambda>v. bn_eq v 0) 0 ''i''
      [getCompoundSellQuotes (sample_operations Mainnet) ''c'' ''i'' ''t'' [Fin 1]]
      [getMStableSellQuotes (sample_operations Mainnet) ''r'' ''m'' ''i'' [Fin 0]] ''d'' NoFillData = Inr (outs, fillData) \<and>
    fillData \<noteq> NoFillData"
proof -
  let ?op1 = "getCompoundSellQuotes (sample_operations Mainnet) ''c'' ''i'' ''t'' [Fin 1]"
  let ?op2 = "getMStableSellQuotes (sample_operations Mainnet) ''r'' ''m'' ''i'' [Fin 0]"
  let ?fd = "MultiHopFD Compound (CompoundFD ''c'' ''t'' ''i'') MStable (GenericRouterFD ''r'') ''i''"
  have "two_hop_callback sample_contract ''sampleTwoHopSell'' (\<lambda>v. bn_eq v 0) 0 ''i'' [?op1] [?op2] ''d'' NoFillData =
    Inr ([Fin 5, Fin 9], ?fd)"
    by (simp add: two_hop_callback_def sample_contract_def bn_eq_def zero_xnum_def element_at_def sq_handleCallResults_def
        getCompoundSellQuotes_def getMStableSellQuotes_def toNumber_def)
  with two_hop_carries_hops[OF this] show ?thesis by blast
qed

end
