(* ===== verification/Maker_Balances.thy ===== *)
theory Maker_Balances
  imports Order_Utils Result_Cache "HOL-Library.Word"
begin

text \<open>
  What market makers can fill: the table of maker balances, the worker that refreshes it from the chain
  (\<open>runners/rfq_maker_balance_cache_runner.ts\<close> with the contract \<open>BalanceChecker.sol\<close> it calls), and the validator
  that cuts firm RFQ quotes to the balances (\<open>services/postgres_rfqt_firm_quote_validator.ts\<close>). The table is a list
  of rows with the key (token, maker); the queries of typeorm (\<open>find\<close>, an insert that skips conflicts, \<open>save\<close>) act
  on it, and may fail. Times are milliseconds; clocks and failures are arguments. Metrics and logging are left
  out.
\<close>

section \<open>The table of balances\<close>

record MakerBalanceRow =
  mb_tokenAddress :: Address
  mb_makerAddress :: Address
  mb_timeFirstSeen :: "int option"
  mb_balance :: "BigNumber option"
  mb_timeOfSample :: "int option"

definition row_key :: "MakerBalanceRow \<Rightarrow> Address \<times> Address" where
  "row_key row = (mb_tokenAddress row, mb_makerAddress row)"

definition find_rows :: "MakerBalanceRow list \<Rightarrow> Address \<Rightarrow> Address list \<Rightarrow> MakerBalanceRow list" where
  "find_rows table token makers =
     filter (\<lambda>r. mb_tokenAddress r = token \<and> mb_makerAddress r \<in> set makers) table"

text \<open>\<open>INSERT ... ON CONFLICT DO NOTHING\<close>, and \<open>save\<close>, which sets the fields of the entity that are defined.\<close>

definition insert_row :: "MakerBalanceRow \<Rightarrow> MakerBalanceRow list \<Rightarrow> MakerBalanceRow list" where
  "insert_row row table = (if row_key row \<in> row_key ` set table then table else table @ [row])"

definition save_row :: "MakerBalanceRow \<Rightarrow> MakerBalanceRow list \<Rightarrow> MakerBalanceRow list" where
  "save_row row table =
     (if row_key row \<in> row_key ` set table
      then map (\<lambda>r. if row_key r = row_key row
                    then r\<lparr>mb_balance := mb_balance row, mb_timeOfSample := mb_timeOfSample row\<rparr> else r) table
      else table @ [row])"

section \<open>The validator of firm quotes\<close>

definition RFQ_FIRM_QUOTE_CACHE_EXPIRY :: int where
  "RFQ_FIRM_QUOTE_CACHE_EXPIRY = 60 * 1000 * 2"

text \<open>The threshold of a validator, when there is a database.\<close>

definition validator_create :: "'connection option \<Rightarrow> int option" where
  "validator_create connection = map_option (\<lambda>_. RFQ_FIRM_QUOTE_CACHE_EXPIRY) connection"

definition calculateMakerBalanceFromResult :: "int \<Rightarrow> int \<Rightarrow> MakerBalanceRow \<Rightarrow> BigNumber" where
  "calculateMakerBalanceFromResult threshold nowUnix result =
     (case mb_timeOfSample result of
        None \<Rightarrow>
          (let timeFirstSeen = (case mb_timeFirstSeen result of Some t \<Rightarrow> t | None \<Rightarrow> 0);
               msPassedSinceLastSeen = nowUnix - timeFirstSeen
           in if msPassedSinceLastSeen > threshold then 0 else PosInf)
      | Some timeOfSample \<Rightarrow>
          if nowUnix - timeOfSample > threshold then 0
          else (case mb_balance result of None \<Rightarrow> 0 | Some balance \<Rightarrow> balance))"

text \<open>The amount of a quote the taker can fill, given the balance of its maker when there is one.\<close>

definition fillable_taker_amount :: "(rat \<Rightarrow> rat) \<Rightarrow> BigNumber option \<Rightarrow> OrderFields \<Rightarrow> BigNumber" where
  "fillable_taker_amount rnd makerTokenBalanceForMaker quote =
     (case makerTokenBalanceForMaker of
        None \<Rightarrow> ord_takerAmount quote
      | Some balance \<Rightarrow>
          if ord_makerAmount quote \<le> balance then ord_takerAmount quote
          else if ord_makerAmount quote \<le> 0 then 0
          else (let partialFillableAmount =
                  integerValue ROUND_DOWN (bn_div rnd (balance * ord_takerAmount quote) (ord_makerAmount quote))
                in if \<not> is_fin partialFillableAmount then 0 else partialFillableAmount))"

definition calculateTakerFillableAmountsFromQuotes ::
    "(rat \<Rightarrow> rat) \<Rightarrow> OrderFields list \<Rightarrow> (Address \<times> BigNumber) list \<Rightarrow> Address list \<times> BigNumber list" where
  "calculateTakerFillableAmountsFromQuotes rnd quotes makerLookup =
     (let lookup = (\<lambda>quote. map_of makerLookup (toLowerCase (ord_maker quote)))
      in (uniq (map (\<lambda>quote. toLowerCase (ord_maker quote)) (filter (\<lambda>quote. lookup quote = None) quotes)),
          map (\<lambda>quote. fillable_taker_amount rnd (lookup quote) quote) quotes))"

text \<open>The clocks of one validation, that of the service and that of the database, and whether its queries fail.\<close>

record Validation =
  vr_findFails :: "js_error option"
  vr_nowUnix :: int
  vr_insertFails :: "js_error option"
  vr_dbNow :: int

definition new_row :: "Validation \<Rightarrow> Address \<Rightarrow> Address \<Rightarrow> MakerBalanceRow" where
  "new_row vr makerToken makerAddress =
     \<lparr>mb_tokenAddress = toLowerCase makerToken, mb_makerAddress = toLowerCase makerAddress,
      mb_timeFirstSeen = Some (vr_dbNow vr), mb_balance = None, mb_timeOfSample = None\<rparr>"

definition maker_lookup :: "int \<Rightarrow> int \<Rightarrow> MakerBalanceRow list \<Rightarrow> (Address \<times> BigNumber) list" where
  "maker_lookup threshold nowUnix cacheResults =
     foldl (\<lambda>lookup result.
       AList.update (mb_makerAddress result) (calculateMakerBalanceFromResult threshold nowUnix result) lookup) []
       cacheResults"

definition getRfqtTakerFillableAmountsAsync ::
    "(rat \<Rightarrow> rat) \<Rightarrow> int \<Rightarrow> Validation \<Rightarrow> OrderFields list \<Rightarrow> MakerBalanceRow list \<Rightarrow>
     (js_error + BigNumber list) \<times> MakerBalanceRow list" where
  "getRfqtTakerFillableAmountsAsync rnd threshold vr quotes table =
     (let uniqueMakerTokens = uniq (map (\<lambda>quote. toLowerCase (ord_makerToken quote)) quotes)
      in if length uniqueMakerTokens \<noteq> 1 then (Inr (map (\<lambda>_. 0) quotes), table)
         else let makerToken = hd uniqueMakerTokens;
                  makerAddresses = uniq (map (\<lambda>quote. toLowerCase (ord_maker quote)) quotes)
              in case vr_findFails vr of
                   Some e \<Rightarrow> (Inl e, table)
                 | None \<Rightarrow>
                     (let makerLookup =
                        maker_lookup threshold (vr_nowUnix vr) (find_rows table makerToken makerAddresses);
                        (makerAddressesToAddToCache, takerFillableAmounts) =
                          calculateTakerFillableAmountsFromQuotes rnd quotes makerLookup
                      in if makerAddressesToAddToCache = [] then (Inr takerFillableAmounts, table)
                         else case vr_insertFails vr of
                                Some e \<Rightarrow> (Inl e, table)
                              | None \<Rightarrow> (Inr takerFillableAmounts,
                                  fold insert_row (map (new_row vr makerToken) makerAddressesToAddToCache) table)))"

section \<open>The balance checker contract\<close>

text \<open>What the contract reads of the chain; a token call that reverts is \<open>None\<close>.\<close>

record Chain =
  ch_balanceOf :: "Address \<Rightarrow> Address \<Rightarrow> 256 word option"
  ch_allowance :: "Address \<Rightarrow> Address \<Rightarrow> Address \<Rightarrow> 256 word option"
  ch_ethBalance :: "Address \<Rightarrow> 256 word"

definition ETH_TOKEN :: Address where
  "ETH_TOKEN = ''0xeeeeeeeeeeeeeeeeeeeeeeeeeeeeeeeeeeeeeeee''"

definition min_of_balance_or_allowance :: "Chain \<Rightarrow> Address \<Rightarrow> Address \<times> Address \<Rightarrow> js_error + 256 word" where
  "min_of_balance_or_allowance chain spender user_token =
     (case user_token of (user, token) \<Rightarrow>
        if toLowerCase token \<noteq> ETH_TOKEN then
          (case (ch_balanceOf chain token user, ch_allowance chain token user spender) of
             (Some balance, Some allowance) \<Rightarrow> Inr (if allowance < balance then allowance else balance)
           | _ \<Rightarrow> Inl (Error ''revert''))
        else Inr (ch_ethBalance chain user))"

definition getMinOfBalancesOrAllowances ::
    "Chain \<Rightarrow> Address list \<Rightarrow> Address list \<Rightarrow> Address \<Rightarrow> js_error + 256 word list" where
  "getMinOfBalancesOrAllowances chain users tokens spender =
     (if length users \<noteq> length tokens then Inl (Error ''users array is a different length than the tokens array'')
      else res_map (min_of_balance_or_allowance chain spender) (zip users tokens))"

section \<open>The worker\<close>

definition MAX_BALANCE_CHECKS_PER_CALL :: nat where
  "MAX_BALANCE_CHECKS_PER_CALL = 1000"

definition CACHE_MAKER_TOKENS_FOR_MS :: int where
  "CACHE_MAKER_TOKENS_FOR_MS = RFQ_FIRM_QUOTE_CACHE_EXPIRY div 4"

definition RFQ_ALLOWANCE_TARGET :: Address where
  "RFQ_ALLOWANCE_TARGET = ''0xdef1c0ded9bec7f1a1670819833240f027b25eff''"

record BalancesCallInput =
  bci_addresses :: "Address list"
  bci_tokens :: "Address list"

text \<open>One refresh: its clocks, the call of the balance checker through the node, the rows the web processes insert
  while it waits for the balances, and whether its queries fail.\<close>

record Refresh =
  rf_now :: int
  rf_queryFails :: "js_error option"
  rf_queried :: int
  rf_updateTime :: int
  rf_call :: "Address list \<Rightarrow> Address list \<Rightarrow> Address \<Rightarrow> js_error + BigNumber list"
  rf_inserted :: "MakerBalanceRow list"
  rf_saveFails :: "js_error option"

definition selected_columns :: "MakerBalanceRow \<Rightarrow> MakerBalanceRow" where
  "selected_columns row = row\<lparr>mb_timeFirstSeen := None, mb_balance := None, mb_timeOfSample := None\<rparr>"

definition getMakerTokensAsync ::
    "Refresh \<Rightarrow> MakerBalanceRow list \<Rightarrow> MakerBalanceRow list cache \<Rightarrow>
     (js_error + MakerBalanceRow list) \<times> MakerBalanceRow list cache" where
  "getMakerTokensAsync rf table cache =
     (let key = ''undefined''; entry = map_of cache key;
          answer = (\<lambda>out. case out of Returned _ result \<Rightarrow> Inr result | Thrown e \<Rightarrow> Inl e)
      in if \<not> needs_update (\<lambda>_. True) CACHE_MAKER_TOKENS_FOR_MS (rf_now rf) entry then (Inr (snd (the entry)), cache)
         else case rf_queryFails rf of
                Some e \<Rightarrow> (answer (on_error (\<lambda>_. True) e entry), cache)
              | None \<Rightarrow> (case on_result (rf_queried rf) key (map selected_columns table) cache of
                           (cache', out) \<Rightarrow> (answer out, cache')))"

definition splitValues :: "MakerBalanceRow list \<Rightarrow> BalancesCallInput" where
  "splitValues makerTokens =
     foldl (\<lambda>input makerToken. \<lparr>bci_addresses = bci_addresses input @ [mb_makerAddress makerToken],
                               bci_tokens = bci_tokens input @ [mb_tokenAddress makerToken]\<rparr>)
       \<lparr>bci_addresses = [], bci_tokens = []\<rparr> makerTokens"

text \<open>\<open>_.chunk\<close>.\<close>

function chunk :: "nat \<Rightarrow> 'a list \<Rightarrow> 'a list list" where
  "chunk n xs = (if n = 0 \<or> xs = [] then [] else take n xs # chunk n (drop n xs))"
  by auto
termination
  by (relation "measure (\<lambda>(_, xs). length xs)") auto

declare chunk.simps [simp del]

text \<open>The balances of every chunk, printed.\<close>

definition getErc20BalancesAsync ::
    "(BigNumber \<Rightarrow> string) \<Rightarrow> Refresh \<Rightarrow> BalancesCallInput \<Rightarrow> js_error + string list" where
  "getErc20BalancesAsync print rf input =
     (let addressesChunkedArray = chunk MAX_BALANCE_CHECKS_PER_CALL (bci_addresses input);
          tokensChunkedArray = chunk MAX_BALANCE_CHECKS_PER_CALL (bci_tokens input)
      in res_bind (res_map (\<lambda>(addressesChunk, tokensChunk). rf_call rf addressesChunk tokensChunk RFQ_ALLOWANCE_TARGET)
                     (zip addressesChunkedArray tokensChunkedArray)) (\<lambda>balances.
         Inr (map print (concat balances))))"

definition updated_row ::
    "(string \<Rightarrow> BigNumber) \<Rightarrow> int \<Rightarrow> BalancesCallInput \<Rightarrow> string list \<Rightarrow> nat \<Rightarrow> MakerBalanceRow" where
  "updated_row parse updateTime input balances i =
     \<lparr>mb_tokenAddress = bci_tokens input ! i, mb_makerAddress = bci_addresses input ! i, mb_timeFirstSeen = None,
      mb_balance = Some (if i < length balances then parse (balances ! i) else NaN),
      mb_timeOfSample = Some updateTime\<rparr>"

definition updateErc20BalancesAsync ::
    "(string \<Rightarrow> BigNumber) \<Rightarrow> Refresh \<Rightarrow> BalancesCallInput \<Rightarrow> string list \<Rightarrow> MakerBalanceRow list \<Rightarrow>
     js_error + MakerBalanceRow list" where
  "updateErc20BalancesAsync parse rf input balances table =
     (let toSave = map (updated_row parse (rf_updateTime rf) input balances) [0..<length (bci_addresses input)]
      in case rf_saveFails rf of Some e \<Rightarrow> Inl e | None \<Rightarrow> Inr (fold save_row toSave table))"

definition cacheRfqBalancesAsync ::
    "(BigNumber \<Rightarrow> string) \<Rightarrow> (string \<Rightarrow> BigNumber) \<Rightarrow> Refresh \<Rightarrow> MakerBalanceRow list \<Rightarrow> MakerBalanceRow list cache \<Rightarrow>
     (js_error + unit) \<times> MakerBalanceRow list \<times> MakerBalanceRow list cache" where
  "cacheRfqBalancesAsync print parse rf table cache =
     (case getMakerTokensAsync rf table cache of
        (makerTokens, cache') \<Rightarrow>
          (let table' = fold insert_row (rf_inserted rf) table
           in case res_bind makerTokens (\<lambda>makerTokens.
                     let balancesCallInput = splitValues makerTokens
                     in res_bind (getErc20BalancesAsync print rf balancesCallInput) (\<lambda>erc20Balances.
                        updateErc20BalancesAsync parse rf balancesCallInput erc20Balances table')) of
                Inl e \<Rightarrow> (Inl e, table', cache')
              | Inr updated \<Rightarrow> (Inr (), updated, cache')))"

definition MAX_REQUEST_ERRORS :: nat where
  "MAX_REQUEST_ERRORS = 10"

definition MAX_CACHE_RFQ_BALANCES_ERRORS :: nat where
  "MAX_CACHE_RFQ_BALANCES_ERRORS = 10"

record WorkerState =
  wk_blockRequestErrors :: nat
  wk_cacheRfqBalanceErrors :: nat
  wk_lastBlockSeen :: int
  wk_table :: "MakerBalanceRow list"
  wk_cache :: "MakerBalanceRow list cache"

text \<open>One pass of the loop: the answer to the request for the block, and the refresh when there is a new one.\<close>

record Iteration =
  it_block :: "js_error + int"
  it_refresh :: Refresh

definition worker_iteration ::
    "(BigNumber \<Rightarrow> string) \<Rightarrow> (string \<Rightarrow> BigNumber) \<Rightarrow> Iteration \<Rightarrow> WorkerState \<Rightarrow> js_error + WorkerState" where
  "worker_iteration print parse it s =
     (if wk_blockRequestErrors s \<ge> MAX_REQUEST_ERRORS
      then Inl (Error ''too many bad Web3 requests to fetch blocks (reached limit of 10)'')
      else if wk_cacheRfqBalanceErrors s \<ge> MAX_CACHE_RFQ_BALANCES_ERRORS
      then Inl (Error ''too many errors from calling cacheRfqBalancesAsync (reached limit of 10)'')
      else case it_block it of
             Inl _ \<Rightarrow> Inr (s\<lparr>wk_blockRequestErrors := wk_blockRequestErrors s + 1\<rparr>)
           | Inr newBlock \<Rightarrow>
               if wk_lastBlockSeen s < newBlock then
                 (case cacheRfqBalancesAsync print parse (it_refresh it) (wk_table s) (wk_cache s) of
                    (Inl _, table, cache) \<Rightarrow>
                      Inr (s\<lparr>wk_cacheRfqBalanceErrors := wk_cacheRfqBalanceErrors s + 1, wk_table := table,
                             wk_cache := cache\<rparr>)
                  | (Inr _, table, cache) \<Rightarrow> Inr (s\<lparr>wk_lastBlockSeen := newBlock, wk_table := table, wk_cache := cache\<rparr>))
               else Inr s)"

definition worker_start :: "MakerBalanceRow list \<Rightarrow> WorkerState" where
  "worker_start table =
     \<lparr>wk_blockRequestErrors = 0, wk_cacheRfqBalanceErrors = 0, wk_lastBlockSeen = -1, wk_table = table, wk_cache = []\<rparr>"

fun runRfqBalanceCacheAsync ::
    "(BigNumber \<Rightarrow> string) \<Rightarrow> (string \<Rightarrow> BigNumber) \<Rightarrow> Iteration list \<Rightarrow> WorkerState \<Rightarrow> js_error + WorkerState" where
  "runRfqBalanceCacheAsync print parse [] s = Inr s"
| "runRfqBalanceCacheAsync print parse (it # its) s =
     res_bind (worker_iteration print parse it s) (runRfqBalanceCacheAsync print parse its)"

section \<open>The table as a map\<close>

definition row_at :: "MakerBalanceRow list \<Rightarrow> Address \<times> Address \<Rightarrow> MakerBalanceRow option" where
  "row_at table = map_of (map (\<lambda>r. (row_key r, r)) table)"

lemma row_at_simps [simp]:
  "row_at [] k = None"
  "row_at (r # rs) k = (if k = row_key r then Some r else row_at rs k)"
  by (auto simp: row_at_def)

lemma row_at_None: "row_at table k = None \<longleftrightarrow> k \<notin> row_key ` set table"
  by (induction table) auto

lemma row_at_key: "row_at table k = Some r \<Longrightarrow> row_key r = k \<and> r \<in> set table"
  by (induction table) (auto split: if_splits)

lemma row_at_mem: "distinct (map row_key table) \<Longrightarrow> r \<in> set table \<Longrightarrow> row_at table (row_key r) = Some r"
  by (induction table) (auto intro: rev_image_eqI)

lemma row_at_append: "row_at (xs @ ys) k = (case row_at xs k of Some r \<Rightarrow> Some r | None \<Rightarrow> row_at ys k)"
  by (induction xs) auto

definition sampled :: "MakerBalanceRow \<Rightarrow> MakerBalanceRow \<Rightarrow> MakerBalanceRow" where
  "sampled row r = r\<lparr>mb_balance := mb_balance row, mb_timeOfSample := mb_timeOfSample row\<rparr>"

lemma row_key_sampled [simp]: "row_key (sampled row r) = row_key r"
  by (simp add: sampled_def row_key_def)

lemma row_at_map_sampled:
  "row_at (map (\<lambda>r. if row_key r = k' then sampled row r else r) table) k =
     map_option (\<lambda>r. if k = k' then sampled row r else r) (row_at table k)"
  by (induction table) auto

lemma row_at_insert_row:
  "row_at (insert_row row table) k =
     (case row_at table k of Some r \<Rightarrow> Some r | None \<Rightarrow> if k = row_key row then Some row else None)"
  using row_at_None[of table "row_key row"] by (auto simp: insert_row_def row_at_append split: option.splits)

lemma row_at_save_row:
  "row_at (save_row row table) k =
     (if k = row_key row then Some (case row_at table k of Some r \<Rightarrow> sampled row r | None \<Rightarrow> row) else row_at table k)"
  using row_at_None[of table "row_key row"]
  by (auto simp: save_row_def row_at_map_sampled[unfolded sampled_def] row_at_append sampled_def split: option.splits)

lemma keys_insert_row:
  "row_key ` set (insert_row row table) = insert (row_key row) (row_key ` set table)"
  "distinct (map row_key table) \<Longrightarrow> distinct (map row_key (insert_row row table))"
  by (auto simp: insert_row_def)

lemma map_key_sampled: "map row_key (map (\<lambda>r. if row_key r = k then sampled row r else r) table) = map row_key table"
  by (induction table) auto

lemma keys_save_row:
  "row_key ` set (save_row row table) = insert (row_key row) (row_key ` set table)"
  "distinct (map row_key table) \<Longrightarrow> distinct (map row_key (save_row row table))"
proof -
  have *: "map row_key (save_row row table) =
      (if row_key row \<in> row_key ` set table then map row_key table else map row_key table @ [row_key row])"
    using map_key_sampled[of "row_key row" row table] unfolding save_row_def sampled_def
    by (simp only: if_distrib[of "map row_key"] map_append list.map)
  have "set (map row_key (save_row row table)) = insert (row_key row) (set (map row_key table))"
    unfolding * by (cases "row_key row \<in> row_key ` set table") (simp_all only: if_True if_False, auto)
  then show "row_key ` set (save_row row table) = insert (row_key row) (row_key ` set table)" by (simp only: list.set_map)
  show "distinct (map row_key (save_row row table))" if "distinct (map row_key table)"
    unfolding * using that by simp
qed

lemma keys_fold_insert:
  "row_key ` set (fold insert_row rows table) = row_key ` set rows \<union> row_key ` set table"
  "distinct (map row_key table) \<Longrightarrow> distinct (map row_key (fold insert_row rows table))"
  by (induction rows arbitrary: table) (auto simp: keys_insert_row)

lemma keys_fold_save:
  "row_key ` set (fold save_row rows table) = row_key ` set rows \<union> row_key ` set table"
  "distinct (map row_key table) \<Longrightarrow> distinct (map row_key (fold save_row rows table))"
  by (induction rows arbitrary: table) (auto simp: keys_save_row)

lemma row_at_fold_insert: "row_at table k = Some r \<Longrightarrow> row_at (fold insert_row rows table) k = Some r"
  by (induction rows arbitrary: table) (auto simp: row_at_insert_row)

lemma row_at_fold_insert_new:
  assumes "row_at table k = None" "row \<in> set rows" "row_key row = k" "distinct (map row_key rows)"
  shows "row_at (fold insert_row rows table) k = Some row"
  using assms
proof (induction rows arbitrary: table)
  case (Cons a rows)
  show ?case
  proof (cases "row = a")
    case True
    then have "row_at (insert_row a table) k = Some row" using Cons.prems by (simp add: row_at_insert_row)
    then show ?thesis by (simp add: row_at_fold_insert)
  next
    case False
    then have "row_key a \<noteq> k" using Cons.prems by auto
    then show ?thesis using False Cons by (auto simp: row_at_insert_row)
  qed
qed simp

lemma row_at_fold_save_other: "k \<notin> row_key ` set rows \<Longrightarrow> row_at (fold save_row rows table) k = row_at table k"
  by (induction rows arbitrary: table) (auto simp: row_at_save_row)

lemma row_at_fold_save:
  assumes "row \<in> set rows" "distinct (map row_key rows)"
  shows "row_at (fold save_row rows table) (row_key row) =
     Some (case row_at table (row_key row) of Some r \<Rightarrow> sampled row r | None \<Rightarrow> row)"
  using assms
proof (induction rows arbitrary: table)
  case (Cons a rows)
  show ?case
  proof (cases "row = a")
    case True
    then have "row_key row \<notin> row_key ` set rows" using Cons.prems by auto
    then show ?thesis unfolding True by (simp add: row_at_fold_save_other row_at_save_row)
  next
    case False
    then have "row_key row \<in> row_key ` set rows" "row_key a \<notin> row_key ` set rows" using Cons.prems by auto
    then have "row_key row \<noteq> row_key a" by metis
    then show ?thesis using False Cons by (auto simp: row_at_save_row)
  qed
qed simp

section \<open>The validator\<close>

lemma map_of_foldl_update:
  "map_of (foldl (\<lambda>m r. AList.update (f r) (g r) m) al rows) = map_of al ++ map_of (rev (map (\<lambda>r. (f r, g r)) rows))"
  by (induction rows arbitrary: al) (auto simp: update_conv map_add_def fun_eq_iff split: option.splits)

lemma find_rows_keys:
  assumes "distinct (map row_key table)"
  shows "distinct (map mb_makerAddress (find_rows table token makers))"
proof -
  have "distinct (map row_key (find_rows table token makers))"
    using assms by (simp add: find_rows_def distinct_map_filter)
  moreover have "map row_key (find_rows table token makers) =
      map (Pair token) (map mb_makerAddress (find_rows table token makers))"
    by (auto simp: find_rows_def row_key_def)
  ultimately show ?thesis by (metis distinct_map)
qed

lemma map_of_find_rows:
  "map_of (map (\<lambda>r. (mb_makerAddress r, g r)) (find_rows table token makers)) m =
     (if m \<in> set makers then map_option g (row_at table (token, m)) else None)"
  by (induction table) (auto simp: find_rows_def row_key_def)

lemma maker_lookup_at:
  assumes "distinct (map row_key table)"
  shows "map_of (maker_lookup threshold now (find_rows table token makers)) m =
     (if m \<in> set makers then map_option (calculateMakerBalanceFromResult threshold now) (row_at table (token, m)) else None)"
  unfolding maker_lookup_def map_of_foldl_update
  using map_of_find_rows[of "calculateMakerBalanceFromResult threshold now" table token makers m]
    find_rows_keys[OF assms, of token makers]
  by (simp add: map_of_rev_distinct comp_def)

text \<open>The key of the row a quote is checked against.\<close>

definition quote_key :: "OrderFields \<Rightarrow> Address \<times> Address" where
  "quote_key quote = (toLowerCase (ord_makerToken quote), toLowerCase (ord_maker quote))"

definition one_maker_token :: "OrderFields list \<Rightarrow> bool" where
  "one_maker_token quotes \<longleftrightarrow> card (set (map (\<lambda>quote. toLowerCase (ord_makerToken quote)) quotes)) = 1"

lemma uniq_Nil [simp]: "uniq [] = []"
  by (simp add: uniq_def)

lemma length_uniq: "length (uniq xs) = card (set xs)"
  by (metis distinct_card distinct_uniq set_uniq)

lemma one_token:
  assumes "one_maker_token quotes"
  obtains token where "uniq (map (\<lambda>quote. toLowerCase (ord_makerToken quote)) quotes) = [token]"
    "\<And>quote. quote \<in> set quotes \<Longrightarrow> toLowerCase (ord_makerToken quote) = token" "toLowerCase token = token"
proof -
  let ?tokens = "map (\<lambda>quote. toLowerCase (ord_makerToken quote)) quotes"
  have "length (uniq ?tokens) = 1" using assms by (simp add: length_uniq one_maker_token_def)
  then obtain token where u: "uniq ?tokens = [token]" by (cases "uniq ?tokens") auto
  then have set: "set ?tokens = {token}" by (metis list.set(1,2) set_uniq)
  then have tok: "toLowerCase (ord_makerToken quote) = token" if "quote \<in> set quotes" for quote using that by auto
  have "quotes \<noteq> []" using u by auto
  then have "toLowerCase token = token" using tok[of "hd quotes"] by (metis hd_in_set toLowerCase_idem)
  then show ?thesis using that[OF u] tok by blast
qed

text \<open>A batch that is answered: every amount is that of its own maker's row, and exactly the makers without a row
  are added.\<close>

lemma validated:
  assumes "distinct (map row_key table)" "one_maker_token quotes"
    and "getRfqtTakerFillableAmountsAsync rnd threshold vr quotes table = (Inr amounts, table')"
  shows "amounts = map (\<lambda>quote. fillable_taker_amount rnd
      (map_option (calculateMakerBalanceFromResult threshold (vr_nowUnix vr)) (row_at table (quote_key quote))) quote) quotes"
    and "\<exists>rows. table' = fold insert_row rows table \<and> distinct (map row_key rows) \<and>
      row_key ` set rows = {quote_key quote | quote. quote \<in> set quotes \<and> row_at table (quote_key quote) = None} \<and>
      (\<forall>row \<in> set rows. mb_timeFirstSeen row = Some (vr_dbNow vr) \<and> mb_balance row = None \<and> mb_timeOfSample row = None)"
proof -
  obtain token where uniq: "uniq (map (\<lambda>quote. toLowerCase (ord_makerToken quote)) quotes) = [token]"
    and tok: "\<And>quote. quote \<in> set quotes \<Longrightarrow> toLowerCase (ord_makerToken quote) = token"
    and low: "toLowerCase token = token"
    using one_token[OF assms(2)] by blast
  let ?makers = "uniq (map (\<lambda>quote. toLowerCase (ord_maker quote)) quotes)"
  let ?lookup = "maker_lookup threshold (vr_nowUnix vr) (find_rows table token ?makers)"
  have look: "map_of ?lookup (toLowerCase (ord_maker quote)) =
      map_option (calculateMakerBalanceFromResult threshold (vr_nowUnix vr)) (row_at table (quote_key quote))"
    if "quote \<in> set quotes" for quote
    using that tok[OF that] by (simp add: maker_lookup_at[OF assms(1)] quote_key_def)
  define unseen where "unseen = uniq (map (\<lambda>quote. toLowerCase (ord_maker quote))
      (filter (\<lambda>quote. map_of ?lookup (toLowerCase (ord_maker quote)) = None) quotes))"
  define rows where "rows = map (new_row vr token) unseen"
  note run = assms(3)[unfolded getRfqtTakerFillableAmountsAsync_def Let_def uniq list.sel
      calculateTakerFillableAmountsFromQuotes_def prod.case unseen_def[symmetric] rows_def[symmetric]]
  have res: "amounts = map (\<lambda>quote. fillable_taker_amount rnd (map_of ?lookup (toLowerCase (ord_maker quote))) quote) quotes"
      "table' = fold insert_row rows table"
    using run by (auto simp: rows_def split: option.splits if_splits)
  show "amounts = map (\<lambda>quote. fillable_taker_amount rnd
      (map_option (calculateMakerBalanceFromResult threshold (vr_nowUnix vr)) (row_at table (quote_key quote))) quote) quotes"
    using res(1) look by auto
  have set: "set unseen = (\<lambda>quote. toLowerCase (ord_maker quote)) `
      {quote \<in> set quotes. row_at table (quote_key quote) = None}"
    using look by (auto simp: unseen_def)
  have lower: "toLowerCase m = m" if "m \<in> set unseen" for m using that unfolding set by auto
  then have keys: "map row_key rows = map (Pair token) unseen"
    by (auto simp: rows_def new_row_def row_key_def low)
  have "distinct unseen" unfolding unseen_def by (rule distinct_uniq)
  then have dist: "distinct (map row_key rows)" unfolding keys by (simp add: distinct_map inj_on_def)
  have "row_key ` set rows = Pair token ` set unseen" by (metis keys list.set_map)
  also have "\<dots> = {quote_key quote | quote. quote \<in> set quotes \<and> row_at table (quote_key quote) = None}"
    unfolding set using tok by (auto simp: quote_key_def)
  finally have "row_key ` set rows = \<dots>" .
  moreover have "\<forall>row \<in> set rows. mb_timeFirstSeen row = Some (vr_dbNow vr) \<and> mb_balance row = None \<and>
      mb_timeOfSample row = None"
    by (simp add: rows_def new_row_def)
  ultimately show "\<exists>rows. table' = fold insert_row rows table \<and> distinct (map row_key rows) \<and>
      row_key ` set rows = {quote_key quote | quote. quote \<in> set quotes \<and> row_at table (quote_key quote) = None} \<and>
      (\<forall>row \<in> set rows. mb_timeFirstSeen row = Some (vr_dbNow vr) \<and> mb_balance row = None \<and> mb_timeOfSample row = None)"
    using res(2) dist by blast
qed

text \<open>The fillable amount is the share of the quote that the balance pays for, rounded down.\<close>

context quotient_rounding
begin

lemma fillable_share:
  assumes "ord_makerAmount quote = Fin (of_nat m)" "ord_takerAmount quote = Fin (of_nat n)" "of_nat m * eps < 1"
  shows "fillable_taker_amount rnd (Some (Fin (of_nat b))) quote = Fin (of_nat (if m \<le> b then n else b * n div m))"
proof (cases "m \<le> b")
  case False
  then have m: "0 < m" by simp
  have "of_nat b * of_nat n / of_nat m = (of_int (int b * int n) / of_int (int m) :: rat)" by simp
  moreover have "\<lfloor>rnd (of_int (int b * int n) / of_int (int m))\<rfloor> = int b * int n div int m"
    using m assms(3) by (intro floor_rnd_exact) auto
  moreover have "0 \<le> rnd (of_int (int b * int n) / of_int (int m))" by (rule rnd_nonneg) simp
  moreover have "int b * int n div int m = int (b * n div m)" by (simp add: zdiv_int)
  ultimately show ?thesis
    using False m by (simp add: fillable_taker_amount_def assms(1,2) less_eq_xnum_def zero_xnum_def Let_def)
qed (simp add: fillable_taker_amount_def assms(1,2) less_eq_xnum_def)

end

section \<open>The worker\<close>

lemma splitValues_eq:
  "splitValues rows = \<lparr>bci_addresses = map mb_makerAddress rows, bci_tokens = map mb_tokenAddress rows\<rparr>"
proof -
  have "foldl (\<lambda>input r. \<lparr>bci_addresses = bci_addresses input @ [mb_makerAddress r],
      bci_tokens = bci_tokens input @ [mb_tokenAddress r]\<rparr>) i rows =
    \<lparr>bci_addresses = bci_addresses i @ map mb_makerAddress rows, bci_tokens = bci_tokens i @ map mb_tokenAddress rows\<rparr>" for i
    by (induction rows arbitrary: i) auto
  then show ?thesis by (simp add: splitValues_def)
qed

lemma concat_chunk: "0 < n \<Longrightarrow> concat (chunk n xs) = xs"
  by (induction n xs rule: chunk.induct) (subst chunk.simps, auto)

lemma res_map_append:
  "res_map f (xs @ ys) = res_bind (res_map f xs) (\<lambda>us. res_bind (res_map f ys) (\<lambda>vs. Inr (us @ vs)))"
proof (induction xs)
  case Nil
  then show ?case by (cases "res_map f ys") auto
next
  case (Cons x xs)
  then show ?case by (cases "f x"; cases "res_map f xs"; cases "res_map f ys") auto
qed

text \<open>Calling chunk by chunk gives what one call would.\<close>

lemma res_map_chunks:
  assumes "\<And>us ts. length us = length ts \<Longrightarrow> f us ts = res_map g (zip us ts)" "0 < n" "length xs = length ys"
  shows "res_bind (res_map (\<lambda>(us, ts). f us ts) (zip (chunk n xs) (chunk n ys))) (\<lambda>bs. Inr (concat bs)) =
    res_map g (zip xs ys)"
  using assms(2,3)
proof (induction n xs arbitrary: ys rule: chunk.induct)
  case (1 n xs)
  show ?case
  proof (cases "xs = []")
    case True
    then show ?thesis by (simp add: chunk.simps)
  next
    case False
    then have ys: "ys \<noteq> []" using 1(3) by auto
    have IH: "res_bind (res_map (\<lambda>(us, ts). f us ts) (zip (chunk n (drop n xs)) (chunk n (drop n ys)))) (\<lambda>bs. Inr (concat bs)) =
        res_map g (zip (drop n xs) (drop n ys))"
      by (rule 1(1)) (use 1(2,3) False in auto)
    have "zip xs ys = zip (take n xs) (take n ys) @ zip (drop n xs) (drop n ys)"
      by (metis append_take_drop_id drop_zip take_zip)
    then have "res_map g (zip xs ys) = res_bind (f (take n xs) (take n ys)) (\<lambda>b.
        res_bind (res_map g (zip (drop n xs) (drop n ys))) (\<lambda>bs. Inr (b @ bs)))"
      using assms(1)[of "take n xs" "take n ys"] 1(3) by (simp add: res_map_append)
    also have "\<dots> = res_bind (res_map (\<lambda>(us, ts). f us ts) (zip (chunk n xs) (chunk n ys))) (\<lambda>bs. Inr (concat bs))"
      unfolding IH[symmetric] chunk.simps[of n xs] chunk.simps[of n ys] using False ys 1(2)
      by (cases "f (take n xs) (take n ys)";
          cases "res_map (\<lambda>(us, ts). f us ts) (zip (chunk n (drop n xs)) (chunk n (drop n ys)))") auto
    finally show ?thesis ..
  qed
qed

text \<open>A node that runs the contract on the state \<open>chain\<close>.\<close>

definition word_bn :: "256 word \<Rightarrow> BigNumber" where
  "word_bn w = Fin (of_nat (unat w))"

definition contract_call :: "Chain \<Rightarrow> Address list \<Rightarrow> Address list \<Rightarrow> Address \<Rightarrow> js_error + BigNumber list" where
  "contract_call chain users tokens spender =
     res_bind (getMinOfBalancesOrAllowances chain users tokens spender) (\<lambda>ws. Inr (map word_bn ws))"

definition maker_funds :: "Chain \<Rightarrow> MakerBalanceRow \<Rightarrow> js_error + 256 word" where
  "maker_funds chain row =
     min_of_balance_or_allowance chain RFQ_ALLOWANCE_TARGET (mb_makerAddress row, mb_tokenAddress row)"

lemma res_map_then_map:
  "res_bind (res_map f xs) (\<lambda>ys. Inr (map h ys)) = res_map (\<lambda>x. res_bind (f x) (\<lambda>y. Inr (h y))) xs"
proof (induction xs)
  case (Cons x xs)
  then show ?case
    by (cases "f x"; cases "res_map f xs"; cases "res_map (\<lambda>x. res_bind (f x) (\<lambda>y. Inr (h y))) xs") auto
qed simp

lemma balances_of_chain:
  assumes "rf_call rf = contract_call chain"
  shows "getErc20BalancesAsync print rf (splitValues rows) =
    res_map (\<lambda>row. res_bind (maker_funds chain row) (\<lambda>w. Inr (print (word_bn w)))) rows"
proof -
  let ?g = "\<lambda>ut. res_bind (min_of_balance_or_allowance chain RFQ_ALLOWANCE_TARGET ut) (\<lambda>w. Inr (word_bn w))"
  let ?zip = "zip (map mb_makerAddress rows) (map mb_tokenAddress rows)"
  have call: "rf_call rf us ts RFQ_ALLOWANCE_TARGET = res_map ?g (zip us ts)" if "length us = length ts" for us ts
    using that res_map_then_map[of "min_of_balance_or_allowance chain RFQ_ALLOWANCE_TARGET" "zip us ts" word_bn]
    by (simp add: assms contract_call_def getMinOfBalancesOrAllowances_def)
  let ?chunks = "res_map (\<lambda>(us, ts). rf_call rf us ts RFQ_ALLOWANCE_TARGET)
      (zip (chunk MAX_BALANCE_CHECKS_PER_CALL (map mb_makerAddress rows))
        (chunk MAX_BALANCE_CHECKS_PER_CALL (map mb_tokenAddress rows)))"
  have "res_bind ?chunks (\<lambda>bs. Inr (concat bs)) = res_map ?g ?zip"
    by (rule res_map_chunks[OF call]) (simp_all add: MAX_BALANCE_CHECKS_PER_CALL_def)
  then have E: "res_map ?g ?zip = res_bind ?chunks (\<lambda>bs. Inr (concat bs))" ..
  have "res_bind (res_map ?g ?zip) (\<lambda>bs. Inr (map print bs)) = res_bind ?chunks (\<lambda>bs. Inr (map print (concat bs)))"
    unfolding E by (cases ?chunks) simp_all
  then have "getErc20BalancesAsync print rf (splitValues rows) = res_bind (res_map ?g ?zip) (\<lambda>bs. Inr (map print bs))"
    by (simp add: getErc20BalancesAsync_def Let_def splitValues_eq)
  also have "\<dots> = res_map (\<lambda>ut. res_bind (?g ut) (\<lambda>b. Inr (print b))) ?zip" by (rule res_map_then_map)
  also have "\<dots> = res_map (\<lambda>row. res_bind (maker_funds chain row) (\<lambda>w. Inr (print (word_bn w)))) rows"
    by (induction rows) (auto simp: maker_funds_def res_bind_def split: sum.splits)
  finally show ?thesis .
qed

lemma row_key_updated_row:
  "map row_key (map (updated_row parse t (splitValues rows) bals) [0..<length rows]) = map row_key rows"
  by (rule nth_equalityI) (simp_all add: updated_row_def row_key_def splitValues_eq)

lemma maker_tokens_refresh:
  assumes "getMakerTokensAsync rf table cache = (Inr listed, cache')"
  shows "cacheRfqBalancesAsync print parse rf table cache =
    (case res_bind (getErc20BalancesAsync print rf (splitValues listed)) (\<lambda>balances.
        updateErc20BalancesAsync parse rf (splitValues listed) balances (fold insert_row (rf_inserted rf) table)) of
       Inl e \<Rightarrow> (Inl e, fold insert_row (rf_inserted rf) table, cache') | Inr updated \<Rightarrow> (Inr (), updated, cache'))"
  using assms by (simp add: cacheRfqBalancesAsync_def Let_def)

text \<open>A refresh that succeeds has saved the funds of every listed maker, and touched no other row.\<close>

lemma refreshed:
  assumes "rf_call rf = contract_call chain" "getMakerTokensAsync rf table cache = (Inr listed, cache')"
    and "distinct (map row_key listed)" "cacheRfqBalancesAsync print parse rf table cache = (Inr (), table', cache'')"
  shows "\<And>r. r \<in> set listed \<Longrightarrow> \<exists>w r'. maker_funds chain r = Inr w \<and> row_at table' (row_key r) = Some r' \<and>
      mb_balance r' = Some (parse (print (word_bn w))) \<and> mb_timeOfSample r' = Some (rf_updateTime rf)"
    and "\<And>k. k \<notin> row_key ` set listed \<Longrightarrow> row_at table' k = row_at (fold insert_row (rf_inserted rf) table) k"
proof -
  let ?T = "fold insert_row (rf_inserted rf) table"
  obtain bals where bals: "getErc20BalancesAsync print rf (splitValues listed) = Inr bals"
    and upd: "updateErc20BalancesAsync parse rf (splitValues listed) bals ?T = Inr table'"
    using assms(4) unfolding maker_tokens_refresh[OF assms(2)]
    by (cases "getErc20BalancesAsync print rf (splitValues listed)") (auto split: sum.splits)
  define saved where "saved = map (updated_row parse (rf_updateTime rf) (splitValues listed) bals) [0..<length listed]"
  have table': "table' = fold save_row saved ?T"
    using upd by (auto simp: updateErc20BalancesAsync_def Let_def saved_def splitValues_eq split: option.splits)
  have keys: "map row_key saved = map row_key listed"
    unfolding saved_def by (rule row_key_updated_row)
  have all: "list_all2 (\<lambda>r b. res_bind (maker_funds chain r) (\<lambda>w. Inr (print (word_bn w))) = Inr b) listed bals"
    using bals unfolding balances_of_chain[OF assms(1)] by (simp add: res_map_Inr_iff)
  show "\<exists>w r'. maker_funds chain r = Inr w \<and> row_at table' (row_key r) = Some r' \<and>
      mb_balance r' = Some (parse (print (word_bn w))) \<and> mb_timeOfSample r' = Some (rf_updateTime rf)"
    if r: "r \<in> set listed" for r
  proof -
    obtain i where i: "i < length listed" "listed ! i = r" using r by (metis in_set_conv_nth)
    then obtain w where w: "maker_funds chain r = Inr w" "bals ! i = print (word_bn w)"
      using list_all2_nthD[OF all, of i] by (auto simp: res_bind_eq_Inr)
    have "i < length bals" using all i by (metis list_all2_lengthD)
    then have row: "saved ! i \<in> set saved" "mb_balance (saved ! i) = Some (parse (print (word_bn w)))"
      "mb_timeOfSample (saved ! i) = Some (rf_updateTime rf)"
      using i w by (auto simp: saved_def updated_row_def)
    have "row_key (saved ! i) = row_key r" using keys i by (metis length_map nth_map)
    then have "row_at table' (row_key r) =
        Some (case row_at ?T (row_key r) of Some r' \<Rightarrow> sampled (saved ! i) r' | None \<Rightarrow> saved ! i)"
      using row_at_fold_save[OF row(1), of ?T] keys assms(3) table' by simp
    with w row show ?thesis by (auto simp: sampled_def split: option.splits)
  qed
  show "row_at table' k = row_at ?T k" if "k \<notin> row_key ` set listed" for k
    unfolding table' using that keys by (intro row_at_fold_save_other) (metis list.set_map)
qed

section \<open>The service and the worker together\<close>

text \<open>The list of makers the worker remembers names rows of the table.\<close>

definition makers_known :: "MakerBalanceRow list \<Rightarrow> MakerBalanceRow list \<Rightarrow> bool" where
  "makers_known table rows \<longleftrightarrow> distinct (map row_key rows) \<and> row_key ` set rows \<subseteq> row_key ` set table"

definition cache_known :: "MakerBalanceRow list \<Rightarrow> MakerBalanceRow list cache \<Rightarrow> bool" where
  "cache_known table cache \<longleftrightarrow>
     (\<forall>t rows. map_of cache ''undefined'' = Some (t, rows) \<longrightarrow> makers_known table rows)"

definition balances_inv :: "WorkerState \<Rightarrow> bool" where
  "balances_inv s \<longleftrightarrow> distinct (map row_key (wk_table s)) \<and>
     cache_known (wk_table s) (wk_cache s) \<and>
     wk_blockRequestErrors s \<le> MAX_REQUEST_ERRORS \<and> wk_cacheRfqBalanceErrors s \<le> MAX_CACHE_RFQ_BALANCES_ERRORS"

inductive balances_step :: "(BigNumber \<Rightarrow> string) \<Rightarrow> (string \<Rightarrow> BigNumber) \<Rightarrow> (rat \<Rightarrow> rat) \<Rightarrow> int \<Rightarrow> WorkerState \<Rightarrow> WorkerState \<Rightarrow> bool"
  for print parse rnd threshold where
  validate: "getRfqtTakerFillableAmountsAsync rnd threshold vr quotes (wk_table s) = (result, table) \<Longrightarrow>
     balances_step print parse rnd threshold s (s\<lparr>wk_table := table\<rparr>)"
| work: "worker_iteration print parse it s = Inr s' \<Longrightarrow> balances_step print parse rnd threshold s s'"

inductive_cases balances_stepE: "balances_step print parse rnd threshold s s'"

inductive balances_reachable :: "(BigNumber \<Rightarrow> string) \<Rightarrow> (string \<Rightarrow> BigNumber) \<Rightarrow> (rat \<Rightarrow> rat) \<Rightarrow> int \<Rightarrow> WorkerState \<Rightarrow> bool"
  for print parse rnd threshold where
  start: "distinct (map row_key table) \<Longrightarrow> balances_reachable print parse rnd threshold (worker_start table)"
| step: "balances_reachable print parse rnd threshold s \<Longrightarrow> balances_step print parse rnd threshold s s' \<Longrightarrow>
     balances_reachable print parse rnd threshold s'"

lemma makers_known_mono:
  "makers_known table rows \<Longrightarrow> row_key ` set table \<subseteq> row_key ` set table' \<Longrightarrow> makers_known table' rows"
  unfolding makers_known_def by (meson subset_trans)

lemma row_key_selected [simp]: "row_key (selected_columns r) = row_key r"
  by (simp add: row_key_def selected_columns_def)

lemma maker_tokens_known:
  assumes "getMakerTokensAsync rf table cache = (res, cache')" "distinct (map row_key table)"
    and "cache_known table cache"
  shows "cache_known table cache'"
    and "\<And>rows. res = Inr rows \<Longrightarrow> makers_known table rows"
proof -
  have sel: "makers_known table (map selected_columns table)"
    using assms(2) by (simp add: makers_known_def comp_def image_image)
  show "cache_known table cache'"
    using assms(1,3) sel
    by (auto simp: cache_known_def getMakerTokensAsync_def Let_def on_result_def update_conv split: if_splits option.splits)
  show "makers_known table rows" if "res = Inr rows" for rows
    using assms(1,3) sel that
    by (auto simp: cache_known_def getMakerTokensAsync_def Let_def on_result_def on_error_def needs_update_def
        split: if_splits option.splits)
qed

lemma refresh_keeps_keys:
  assumes "cacheRfqBalancesAsync print parse rf table cache = (res, table', cache')" "distinct (map row_key table)"
    and "cache_known table cache"
  shows "distinct (map row_key table')" "row_key ` set table' = row_key ` set (rf_inserted rf) \<union> row_key ` set table"
    "cache_known table' cache'"
proof -
  let ?T = "fold insert_row (rf_inserted rf) table"
  obtain tokens where tokens: "getMakerTokensAsync rf table cache = (tokens, cache')"
    using assms(1) by (auto simp: cacheRfqBalancesAsync_def Let_def split: prod.splits sum.splits)
  note known = maker_tokens_known[OF tokens assms(2,3)]
  have "table' = ?T \<or> (\<exists>rows bals. tokens = Inr rows \<and>
      table' = fold save_row (map (updated_row parse (rf_updateTime rf) (splitValues rows) bals) [0..<length rows]) ?T)"
    using assms(1) tokens
    by (auto simp: cacheRfqBalancesAsync_def Let_def updateErc20BalancesAsync_def res_bind_eq_Inr splitValues_eq
        split: sum.splits option.splits)
  then have keys: "distinct (map row_key table') \<and> row_key ` set table' = row_key ` set ?T"
  proof (elim disjE exE conjE)
    fix rows bals
    let ?saved = "map (updated_row parse (rf_updateTime rf) (splitValues rows) bals) [0..<length rows]"
    assume *: "tokens = Inr rows" "table' = fold save_row ?saved ?T"
    have "row_key ` set ?saved = row_key ` set rows" by (metis list.set_map row_key_updated_row)
    moreover have "row_key ` set rows \<subseteq> row_key ` set ?T"
      using known(2)[OF *(1)] by (auto simp: makers_known_def keys_fold_insert)
    ultimately show ?thesis unfolding *(2) using keys_fold_insert(2)[OF assms(2)] by (auto simp: keys_fold_save simp del: set_map)
  qed (use keys_fold_insert(2)[OF assms(2)] in simp)
  then show "distinct (map row_key table')" "row_key ` set table' = row_key ` set (rf_inserted rf) \<union> row_key ` set table"
    by (simp_all add: keys_fold_insert)
  then have "row_key ` set table \<subseteq> row_key ` set table'" by simp
  from makers_known_mono[OF _ this] show "cache_known table' cache'"
    using known(1) unfolding cache_known_def by metis
qed

lemma validation_inserts:
  assumes "getRfqtTakerFillableAmountsAsync rnd threshold vr quotes table = (result, table')"
  shows "\<exists>rows. table' = fold insert_row rows table"
proof -
  have "\<exists>rows. table = fold insert_row rows table" by (rule exI[of _ "[]"]) simp
  then show ?thesis
    using assms by (auto simp: getRfqtTakerFillableAmountsAsync_def Let_def split: if_splits option.splits prod.splits)
qed

lemma worker_iteration_cases:
  assumes "worker_iteration print parse it s = Inr s'"
  shows "wk_blockRequestErrors s < MAX_REQUEST_ERRORS \<and> wk_cacheRfqBalanceErrors s < MAX_CACHE_RFQ_BALANCES_ERRORS \<and>
     (isl (it_block it) \<and> s' = s\<lparr>wk_blockRequestErrors := wk_blockRequestErrors s + 1\<rparr> \<or>
      (\<exists>b. it_block it = Inr b \<and> b \<le> wk_lastBlockSeen s \<and> s' = s) \<or>
      (\<exists>b e table cache. it_block it = Inr b \<and> wk_lastBlockSeen s < b \<and>
         cacheRfqBalancesAsync print parse (it_refresh it) (wk_table s) (wk_cache s) = (Inl e, table, cache) \<and>
         s' = s\<lparr>wk_cacheRfqBalanceErrors := wk_cacheRfqBalanceErrors s + 1, wk_table := table, wk_cache := cache\<rparr>) \<or>
      (\<exists>b table cache. it_block it = Inr b \<and> wk_lastBlockSeen s < b \<and>
         cacheRfqBalancesAsync print parse (it_refresh it) (wk_table s) (wk_cache s) = (Inr (), table, cache) \<and>
         s' = s\<lparr>wk_lastBlockSeen := b, wk_table := table, wk_cache := cache\<rparr>))"
  using assms by (fastforce simp: worker_iteration_def split: if_splits sum.splits prod.splits)

lemma balances_inv_step:
  assumes "balances_step print parse rnd threshold s s'" "balances_inv s"
  shows "balances_inv s' \<and> row_key ` set (wk_table s) \<subseteq> row_key ` set (wk_table s')"
  using assms(1)
proof cases
  case (validate vr quotes result table)
  then obtain rows where "table = fold insert_row rows (wk_table s)" using validation_inserts by blast
  then have t: "distinct (map row_key table)" "row_key ` set (wk_table s) \<subseteq> row_key ` set table"
    using assms(2) by (simp_all add: balances_inv_def keys_fold_insert)
  have "cache_known table (wk_cache s)"
    using assms(2) makers_known_mono[OF _ t(2)] by (simp add: balances_inv_def cache_known_def)
  with t assms(2) show ?thesis unfolding validate(1) by (simp add: balances_inv_def)
next
  case (work it)
  have inv: "distinct (map row_key (wk_table s))" "cache_known (wk_table s) (wk_cache s)"
    using assms(2) by (simp_all add: balances_inv_def)
  note keep = refresh_keeps_keys[OF _ inv]
  show ?thesis
    using worker_iteration_cases[OF work]
  proof (elim conjE disjE exE)
    fix b e table cache
    assume "cacheRfqBalancesAsync print parse (it_refresh it) (wk_table s) (wk_cache s) = (Inl e, table, cache)"
      "s' = s\<lparr>wk_cacheRfqBalanceErrors := wk_cacheRfqBalanceErrors s + 1, wk_table := table, wk_cache := cache\<rparr>"
      "wk_cacheRfqBalanceErrors s < MAX_CACHE_RFQ_BALANCES_ERRORS"
    then show ?thesis using keep assms(2) by (auto simp: balances_inv_def)
  next
    fix b table cache
    assume "cacheRfqBalancesAsync print parse (it_refresh it) (wk_table s) (wk_cache s) = (Inr (), table, cache)"
      "s' = s\<lparr>wk_lastBlockSeen := b, wk_table := table, wk_cache := cache\<rparr>"
    then show ?thesis using keep assms(2) by (auto simp: balances_inv_def)
  qed (use assms(2) in \<open>auto simp: balances_inv_def\<close>)
qed

lemma reachable_balances_inv: "balances_reachable print parse rnd threshold s \<Longrightarrow> balances_inv s"
proof (induction rule: balances_reachable.induct)
  case (start table)
  then show ?case by (simp add: balances_inv_def worker_start_def cache_known_def)
next
  case (step s s')
  then show ?case using balances_inv_step by blast
qed

section \<open>The end of the worker\<close>

text \<open>A pass that fails whatever the state is: the block is not answered, or it is new and nothing can be saved.\<close>

definition outage :: "Iteration \<Rightarrow> bool" where
  "outage it \<longleftrightarrow> isl (it_block it) \<or>
     (\<exists>b. it_block it = Inr b \<and> -1 < b \<and> rf_saveFails (it_refresh it) \<noteq> None)"

lemma unsaved_refresh_fails:
  "rf_saveFails rf \<noteq> None \<Longrightarrow> cacheRfqBalancesAsync print parse rf table cache \<noteq> (Inr (), table', cache')"
  by (cases "getMakerTokensAsync rf table cache"; cases "fst (getMakerTokensAsync rf table cache)";
      cases "getErc20BalancesAsync print rf (splitValues (projr (fst (getMakerTokensAsync rf table cache))))")
    (auto simp: cacheRfqBalancesAsync_def Let_def updateErc20BalancesAsync_def)

lemma worker_run_block_errors:
  "runRfqBalanceCacheAsync print parse its s = Inr s' \<Longrightarrow>
     wk_blockRequestErrors s' = wk_blockRequestErrors s + length (filter (isl \<circ> it_block) its)"
proof (induction its arbitrary: s)
  case (Cons it its)
  then obtain t where t: "worker_iteration print parse it s = Inr t" "runRfqBalanceCacheAsync print parse its t = Inr s'"
    by (auto simp: res_bind_eq_Inr)
  then show ?case using Cons.IH[OF t(2)] worker_iteration_cases[OF t(1)] by (elim conjE disjE exE) auto
qed simp

text \<open>The passes of a run that begin a refresh and fail in it, counted along the run and not by the worker's own
  counter; a pass that throws at once begins none.\<close>

definition refresh_fails ::
    "(BigNumber \<Rightarrow> string) \<Rightarrow> (string \<Rightarrow> BigNumber) \<Rightarrow> Iteration \<Rightarrow> WorkerState \<Rightarrow> bool" where
  "refresh_fails print parse it s =
     (case it_block it of
        Inl _ \<Rightarrow> False
      | Inr newBlock \<Rightarrow> wk_lastBlockSeen s < newBlock \<and>
          isl (fst (cacheRfqBalancesAsync print parse (it_refresh it) (wk_table s) (wk_cache s))))"

fun failed_refreshes ::
    "(BigNumber \<Rightarrow> string) \<Rightarrow> (string \<Rightarrow> BigNumber) \<Rightarrow> Iteration list \<Rightarrow> WorkerState \<Rightarrow> nat" where
  "failed_refreshes print parse [] s = 0"
| "failed_refreshes print parse (it # its) s =
     (case worker_iteration print parse it s of
        Inl _ \<Rightarrow> 0
      | Inr s' \<Rightarrow> (if refresh_fails print parse it s then 1 else 0) + failed_refreshes print parse its s')"

lemma worker_iteration_counts:
  assumes "worker_iteration print parse it s = Inr t"
  shows "wk_blockRequestErrors t = wk_blockRequestErrors s + (if isl (it_block it) then 1 else 0)"
    "wk_cacheRfqBalanceErrors t = wk_cacheRfqBalanceErrors s + (if refresh_fails print parse it s then 1 else 0)"
  using worker_iteration_cases[OF assms] by (auto simp: refresh_fails_def split: sum.splits)

lemma worker_iteration_throws:
  "worker_iteration print parse it s = Inl e \<Longrightarrow>
     MAX_REQUEST_ERRORS \<le> wk_blockRequestErrors s \<or> MAX_CACHE_RFQ_BALANCES_ERRORS \<le> wk_cacheRfqBalanceErrors s"
  by (auto simp: worker_iteration_def split: if_splits sum.splits prod.splits)

lemma worker_run_failed_refreshes:
  "runRfqBalanceCacheAsync print parse its s = Inr s' \<Longrightarrow>
     wk_cacheRfqBalanceErrors s' = wk_cacheRfqBalanceErrors s + failed_refreshes print parse its s"
proof (induction its arbitrary: s)
  case (Cons it its)
  then obtain t where t: "worker_iteration print parse it s = Inr t" "runRfqBalanceCacheAsync print parse its t = Inr s'"
    by (auto simp: res_bind_eq_Inr)
  then show ?case using Cons.IH[OF t(2)] worker_iteration_counts(2)[OF t(1)] by simp
qed simp

lemma worker_run_throws:
  "runRfqBalanceCacheAsync print parse its s = Inl e \<Longrightarrow>
     MAX_REQUEST_ERRORS \<le> wk_blockRequestErrors s + length (filter (isl \<circ> it_block) its) \<or>
     MAX_CACHE_RFQ_BALANCES_ERRORS \<le> wk_cacheRfqBalanceErrors s + failed_refreshes print parse its s"
proof (induction its arbitrary: s)
  case (Cons it its)
  show ?case
  proof (cases "worker_iteration print parse it s")
    case (Inl e')
    then show ?thesis using worker_iteration_throws[OF Inl] by auto
  next
    case (Inr t)
    then have "runRfqBalanceCacheAsync print parse its t = Inl e" using Cons.prems by simp
    from Cons.IH[OF this] show ?thesis using worker_iteration_counts[OF Inr] Inr by (auto split: if_split_asm)
  qed
qed simp

lemma worker_run_outages:
  "runRfqBalanceCacheAsync print parse its s = Inr s' \<Longrightarrow> \<forall>it \<in> set its. outage it \<Longrightarrow> wk_lastBlockSeen s = -1 \<Longrightarrow>
     wk_blockRequestErrors s' + wk_cacheRfqBalanceErrors s' =
       wk_blockRequestErrors s + wk_cacheRfqBalanceErrors s + length its"
proof (induction its arbitrary: s)
  case (Cons it its)
  then obtain t where t: "worker_iteration print parse it s = Inr t" "runRfqBalanceCacheAsync print parse its t = Inr s'"
    by (auto simp: res_bind_eq_Inr)
  have "wk_lastBlockSeen t = -1 \<and>
      wk_blockRequestErrors t + wk_cacheRfqBalanceErrors t = wk_blockRequestErrors s + wk_cacheRfqBalanceErrors s + 1"
    using worker_iteration_cases[OF t(1)] Cons.prems(2,3) unsaved_refresh_fails
    by (elim conjE disjE exE) (auto simp: outage_def)
  then show ?case using Cons.IH[OF t(2)] Cons.prems(2) by auto
qed simp

lemma worker_run_append:
  "runRfqBalanceCacheAsync print parse (its @ its') s =
     res_bind (runRfqBalanceCacheAsync print parse its s) (runRfqBalanceCacheAsync print parse its')"
proof (induction its arbitrary: s)
  case (Cons it its)
  then show ?case by (cases "worker_iteration print parse it s") auto
qed simp

lemma worker_run_error:
  "runRfqBalanceCacheAsync print parse its s = Inl e \<Longrightarrow> \<exists>msg. e = Error msg"
proof (induction its arbitrary: s)
  case (Cons it its)
  then show ?case
    by (auto simp: res_bind_eq_Inl worker_iteration_def split: if_splits sum.splits prod.splits)
qed simp

section \<open>Properties\<close>

text \<open>However validations and refreshes follow each other, the table has one row for each pair of token and maker,
  no pair is ever forgotten, and a batch of quotes that is answered leaves the pair of every quote in the
  table, with the rows that were there as they were; the worker stops before it exceeds its error limits.\<close>

theorem makers_stay_recorded:
  assumes "balances_reachable print parse rnd threshold s"
  shows "distinct (map row_key (wk_table s)) \<and>
    wk_blockRequestErrors s \<le> MAX_REQUEST_ERRORS \<and> wk_cacheRfqBalanceErrors s \<le> MAX_CACHE_RFQ_BALANCES_ERRORS \<and>
    (balances_step print parse rnd threshold s s' \<longrightarrow> row_key ` set (wk_table s) \<subseteq> row_key ` set (wk_table s')) \<and>
    (one_maker_token quotes \<and>
       getRfqtTakerFillableAmountsAsync rnd threshold vr quotes (wk_table s) = (Inr amounts, table) \<longrightarrow>
     quote_key ` set quotes \<subseteq> row_key ` set table \<and>
     (\<forall>k r. row_at (wk_table s) k = Some r \<longrightarrow> row_at table k = Some r))"
proof -
  have inv: "balances_inv s" using reachable_balances_inv[OF assms] .
  then have dist: "distinct (map row_key (wk_table s))" by (simp add: balances_inv_def)
  have "quote_key ` set quotes \<subseteq> row_key ` set table \<and> (\<forall>k r. row_at (wk_table s) k = Some r \<longrightarrow> row_at table k = Some r)"
    if run: "one_maker_token quotes"
      "getRfqtTakerFillableAmountsAsync rnd threshold vr quotes (wk_table s) = (Inr amounts, table)"
  proof -
    obtain rows where rows: "table = fold insert_row rows (wk_table s)"
      "row_key ` set rows = {quote_key quote | quote. quote \<in> set quotes \<and> row_at (wk_table s) (quote_key quote) = None}"
      using validated(2)[OF dist run] by blast
    have "quote_key ` set quotes \<subseteq> row_key ` set table"
      unfolding rows(1) keys_fold_insert(1) rows(2) using row_at_None[of "wk_table s"] by auto
    then show ?thesis using row_at_fold_insert unfolding rows(1) by blast
  qed
  then show ?thesis using inv balances_inv_step[OF _ inv] by (simp add: balances_inv_def)
qed

text \<open>C35: A firm quote is never taken for more than the funds behind it: while the last refresh is no older than the
  threshold, the fillable amount of a listed maker's quote is the share of it that the smaller of the
  maker's balance and allowance on the chain pays for, rounded down, and all of it when that covers it.\<close>

theorem quotes_backed_by_chain:
  assumes "balances_reachable print parse rnd78 threshold s"
    and "\<forall>n. parse (print (Fin (of_nat n))) = Fin (of_nat n)" "rf_call rf = contract_call chain"
    and "getMakerTokensAsync rf (wk_table s) (wk_cache s) = (Inr listed, cache)"
    and "cacheRfqBalancesAsync print parse rf (wk_table s) (wk_cache s) = (Inr (), table, cache')"
    and "one_maker_token quotes" "getRfqtTakerFillableAmountsAsync rnd78 threshold vr quotes table = (Inr amounts, table')"
    and "vr_nowUnix vr - rf_updateTime rf \<le> threshold"
    and "i < length quotes" "quote_key (quotes ! i) \<in> row_key ` set listed"
    and "ord_makerAmount (quotes ! i) = Fin (of_nat m)" "ord_takerAmount (quotes ! i) = Fin (of_nat n)" "m < 2 ^ 256"
  shows "\<exists>w k. min_of_balance_or_allowance chain RFQ_ALLOWANCE_TARGET (prod.swap (quote_key (quotes ! i))) = Inr w \<and>
    amounts ! i = Fin (of_nat k) \<and> k = (if m \<le> unat w then n else unat w * n div m) \<and>
    k \<le> n \<and> k * m \<le> unat w * n"
proof -
  have inv: "distinct (map row_key (wk_table s))" "cache_known (wk_table s) (wk_cache s)"
    using reachable_balances_inv[OF assms(1)] by (simp_all add: balances_inv_def)
  then have "distinct (map row_key listed)"
    using maker_tokens_known(2)[OF assms(4)] by (simp add: makers_known_def)
  note saved = refreshed(1)[OF assms(3,4) this assms(5)]
  obtain r where r: "r \<in> set listed" "quote_key (quotes ! i) = row_key r" using assms(10) by blast
  have "parse (print (word_bn w)) = word_bn w" for w using assms(2) unfolding word_bn_def by blast
  then obtain w r' where w: "maker_funds chain r = Inr w" "row_at table (row_key r) = Some r'"
    "mb_balance r' = Some (word_bn w)" "mb_timeOfSample r' = Some (rf_updateTime rf)"
    using saved[OF r(1)] by auto
  have "amounts ! i = fillable_taker_amount rnd78 (Some (Fin (of_nat (unat w)))) (quotes ! i)"
    using validated(1)[OF refresh_keeps_keys(1)[OF assms(5) inv] assms(6,7)] assms(8,9) w r(2)
    by (simp add: calculateMakerBalanceFromResult_def word_bn_def)
  moreover have "of_nat m * (1 / (2 * 10 ^ 78)) < (1 :: rat)"
  proof -
    have "(of_nat m :: rat) < of_nat (2 ^ 256)" using assms(13) by (simp only: of_nat_less_iff)
    then show ?thesis by simp
  qed
  then have "fillable_taker_amount rnd78 (Some (Fin (of_nat (unat w)))) (quotes ! i) =
      Fin (of_nat (if m \<le> unat w then n else unat w * n div m))"
    by (rule dp.fillable_share[OF assms(11,12)])
  ultimately have A: "amounts ! i = Fin (of_nat (if m \<le> unat w then n else unat w * n div m))" by (rule trans)
  have G: "min_of_balance_or_allowance chain RFQ_ALLOWANCE_TARGET (prod.swap (quote_key (quotes ! i))) = Inr w"
    using w(1) by (simp add: maker_funds_def r(2) row_key_def)
  have B: "(if m \<le> b then n else b * n div m) \<le> n \<and> (if m \<le> b then n else b * n div m) * m \<le> b * n" for b
  proof (cases "m \<le> b")
    case False
    then have "b * n div m \<le> m * n div m" by (intro div_le_mono mult_le_mono1) simp
    then show ?thesis using False by (simp add: mult.commute)
  qed (simp add: mult.commute)
  show ?thesis
    by (intro exI conjI) (rule G A refl B[THEN conjunct1] B[THEN conjunct2])+
qed

text \<open>C37: One maker whose token reverts is enough to make a refresh fail: the whole call for its chunk reverts, and no
  row of any maker is updated, so all of them go stale.\<close>

theorem reverting_token_blocks_refresh:
  assumes "rf_call rf = contract_call chain" "getMakerTokensAsync rf table cache = (Inr listed, cache')"
    and "r \<in> set listed" "maker_funds chain r = Inl e"
  shows "(\<exists>e'. cacheRfqBalancesAsync print parse rf table cache = (Inl e', fold insert_row (rf_inserted rf) table, cache')) \<and>
    (\<forall>k row. row_at table k = Some row \<longrightarrow> row_at (fold insert_row (rf_inserted rf) table) k = Some row)"
proof -
  have "getErc20BalancesAsync print rf (splitValues listed) \<noteq> Inr bals" for bals
    unfolding balances_of_chain[OF assms(1)] using assms(3,4)
    by (auto simp: res_map_Inr_iff list_all2_conv_all_nth in_set_conv_nth)
  then have "\<exists>e'. cacheRfqBalancesAsync print parse rf table cache = (Inl e', fold insert_row (rf_inserted rf) table, cache')"
    unfolding maker_tokens_refresh[OF assms(2)]
    by (cases "getErc20BalancesAsync print rf (splitValues listed)") auto
  then show ?thesis using row_at_fold_insert by blast
qed

text \<open>C36: The loop of the worker ends by its failures and by nothing else: it has thrown by a pass exactly when, in
  the passes before it, ten requests for a block failed or ten refreshes did, each kind counted over the
  whole life of the worker, whatever succeeds in between. So when nothing but failures happens from the
  start, the twentieth pass at the latest throws.\<close>

theorem worker_gives_up:
  "((\<exists>msg. runRfqBalanceCacheAsync print parse (its @ [it]) (worker_start table) = Inl (Error msg)) \<longleftrightarrow>
      MAX_REQUEST_ERRORS \<le> length (filter (isl \<circ> it_block) its) \<or>
      MAX_CACHE_RFQ_BALANCES_ERRORS \<le> failed_refreshes print parse its (worker_start table)) \<and>
   (MAX_REQUEST_ERRORS + MAX_CACHE_RFQ_BALANCES_ERRORS - 1 \<le> length its \<and> (\<forall>it \<in> set its. outage it) \<longrightarrow>
      (\<exists>msg. runRfqBalanceCacheAsync print parse (its @ [it]) (worker_start table) = Inl (Error msg)))"
proof (cases "runRfqBalanceCacheAsync print parse (its @ [it]) (worker_start table)")
  case (Inl e)
  have "MAX_REQUEST_ERRORS \<le> length (filter (isl \<circ> it_block) its) \<or>
      MAX_CACHE_RFQ_BALANCES_ERRORS \<le> failed_refreshes print parse its (worker_start table)"
  proof (cases "runRfqBalanceCacheAsync print parse its (worker_start table)")
    case (Inl e')
    from worker_run_throws[OF this] show ?thesis by (simp add: worker_start_def)
  next
    case (Inr s)
    then have "worker_iteration print parse it s = Inl e"
      using \<open>runRfqBalanceCacheAsync print parse (its @ [it]) (worker_start table) = Inl e\<close>
      by (auto simp: worker_run_append res_bind_eq_Inl)
    from worker_iteration_throws[OF this] show ?thesis
      using worker_run_block_errors[OF Inr] worker_run_failed_refreshes[OF Inr] by (simp add: worker_start_def)
  qed
  then show ?thesis using worker_run_error[OF Inl] Inl by blast
next
  case (Inr s')
  then obtain s where s: "runRfqBalanceCacheAsync print parse its (worker_start table) = Inr s"
    and last: "worker_iteration print parse it s = Inr s'"
    by (auto simp: worker_run_append res_bind_eq_Inr)
  have "wk_blockRequestErrors s < MAX_REQUEST_ERRORS" "wk_cacheRfqBalanceErrors s < MAX_CACHE_RFQ_BALANCES_ERRORS"
    using worker_iteration_cases[OF last] by blast+
  moreover have "length its < MAX_REQUEST_ERRORS + MAX_CACHE_RFQ_BALANCES_ERRORS - 1" if "\<forall>it \<in> set its. outage it"
    using worker_run_outages[OF s that] calculation by (simp add: worker_start_def)
  ultimately show ?thesis
    using Inr worker_run_block_errors[OF s] worker_run_failed_refreshes[OF s]
    by (auto simp: worker_start_def not_le)
qed

text \<open>Two rows of a table, the state of the chain behind them, and a refresh.\<close>

definition sample_row :: "Address \<Rightarrow> Address \<Rightarrow> MakerBalanceRow" where
  "sample_row token maker =
     \<lparr>mb_tokenAddress = token, mb_makerAddress = maker, mb_timeFirstSeen = Some 0, mb_balance = None, mb_timeOfSample = None\<rparr>"

definition sample_chain :: Chain where
  "sample_chain =
     \<lparr>ch_balanceOf = (\<lambda>token user. if token = ''0xbad'' then None else Some 30),
      ch_allowance = (\<lambda>token user spender. Some 50), ch_ethBalance = (\<lambda>user. 7)\<rparr>"

definition sample_refresh :: Refresh where
  "sample_refresh =
     \<lparr>rf_now = 1000, rf_queryFails = None, rf_queried = 1000, rf_updateTime = 1000, rf_call = contract_call sample_chain,
      rf_inserted = [], rf_saveFails = None\<rparr>"

definition sample_firm_quote :: OrderFields where
  "sample_firm_quote =
     \<lparr>ord_maker = ''0xM1'', ord_taker = ''0xt'', ord_makerToken = ''0xA'', ord_takerToken = ''0xb'',
      ord_makerAmount = Fin (of_nat 100), ord_takerAmount = Fin (of_nat 200), ord_takerTokenFeeAmount = Fin 0,
      ord_expiry = Fin 0\<rparr>"

definition sample_validation :: Validation where
  "sample_validation = \<lparr>vr_findFails = None, vr_nowUnix = 5000, vr_insertFails = None, vr_dbNow = 5000\<rparr>"

lemma sample_reachable:
  "balances_reachable print parse rnd threshold (worker_start [sample_row ''0xa'' ''0xm1'', sample_row ''0xa'' ''0xm2''])"
  by (rule balances_reachable.start) (simp add: sample_row_def row_key_def)

lemma sample_tokens:
  "getMakerTokensAsync sample_refresh [sample_row ''0xa'' ''0xm1'', sample_row ''0xa'' ''0xm2''] [] =
     (Inr (map selected_columns [sample_row ''0xa'' ''0xm1'', sample_row ''0xa'' ''0xm2'']),
      [(''undefined'', 1000, map selected_columns [sample_row ''0xa'' ''0xm1'', sample_row ''0xa'' ''0xm2''])])"
  by (simp add: getMakerTokensAsync_def Let_def needs_update_def on_result_def sample_refresh_def)

theorem makers_stay_recorded_witness:
  "distinct (map row_key (wk_table (worker_start [sample_row ''0xa'' ''0xm1'', sample_row ''0xa'' ''0xm2'']))) \<and>
   row_key ` {sample_row ''0xa'' ''0xm1'', sample_row ''0xa'' ''0xm2''} \<subseteq>
     row_key ` set (wk_table ((worker_start [sample_row ''0xa'' ''0xm1'', sample_row ''0xa'' ''0xm2''])\<lparr>wk_blockRequestErrors := 1\<rparr>))"
proof -
  let ?s = "worker_start [sample_row ''0xa'' ''0xm1'', sample_row ''0xa'' ''0xm2'']"
  have step: "balances_step (int_string 10) (bn_of_base 10) id 0 ?s (?s\<lparr>wk_blockRequestErrors := 1\<rparr>)"
    by (rule balances_step.work[where it = "\<lparr>it_block = Inl TypeError, it_refresh = sample_refresh\<rparr>"])
      (simp add: worker_iteration_def worker_start_def MAX_REQUEST_ERRORS_def MAX_CACHE_RFQ_BALANCES_ERRORS_def)
  show ?thesis
    using makers_stay_recorded[OF sample_reachable[of "int_string 10" "bn_of_base 10" id 0], of "?s\<lparr>wk_blockRequestErrors := 1\<rparr>"] step
    by (auto simp: worker_start_def)
qed

definition sample_saved :: "Address \<Rightarrow> MakerBalanceRow" where
  "sample_saved maker = (sample_row ''0xa'' maker)\<lparr>mb_balance := Some (Fin (of_nat 30)), mb_timeOfSample := Some 1000\<rparr>"

lemma sample_refreshed:
  "fst (cacheRfqBalancesAsync (int_string 10) (bn_of_base 10) sample_refresh
     [sample_row ''0xa'' ''0xm1'', sample_row ''0xa'' ''0xm2''] []) = Inr ()"
  "fst (snd (cacheRfqBalancesAsync (int_string 10) (bn_of_base 10) sample_refresh
     [sample_row ''0xa'' ''0xm1'', sample_row ''0xa'' ''0xm2''] [])) = [sample_saved ''0xm1'', sample_saved ''0xm2'']"
  by code_simp+

lemma sample_validated:
  "getRfqtTakerFillableAmountsAsync rnd78 4000 sample_validation [sample_firm_quote]
     [sample_saved ''0xm1'', sample_saved ''0xm2''] =
   (Inr [Fin (of_nat 60)], [sample_saved ''0xm1'', sample_saved ''0xm2''])"
  by code_simp

theorem quotes_backed_by_chain_witness:
  "\<exists>w k. min_of_balance_or_allowance sample_chain RFQ_ALLOWANCE_TARGET (''0xm1'', ''0xa'') = Inr w \<and>
     Fin (of_nat 60) = Fin (of_nat k :: rat) \<and> k = unat w * 200 div 100 \<and> k * 100 \<le> unat w * 200"
proof -
  let ?T = "[sample_row ''0xa'' ''0xm1'', sample_row ''0xa'' ''0xm2'']"
  have start: "wk_table (worker_start ?T) = ?T" "wk_cache (worker_start ?T) = []" by (simp_all add: worker_start_def)
  obtain cache where refresh: "cacheRfqBalancesAsync (int_string 10) (bn_of_base 10) sample_refresh ?T [] =
      (Inr (), [sample_saved ''0xm1'', sample_saved ''0xm2''], cache)"
    using sample_refreshed by (metis prod.collapse)
  have print: "\<forall>n. bn_of_base 10 (int_string 10 (Fin (of_nat n))) = Fin (of_nat n)" using decimal.parse_print by blast
  have call: "rf_call sample_refresh = contract_call sample_chain" by (simp add: sample_refresh_def)
  have funds: "min_of_balance_or_allowance sample_chain RFQ_ALLOWANCE_TARGET (''0xm1'', ''0xa'') = Inr 30" by code_simp
  have key: "quote_key sample_firm_quote = (''0xa'', ''0xm1'')" by code_simp
  have one: "one_maker_token [sample_firm_quote]" by (simp add: one_maker_token_def)
  have listed: "quote_key ([sample_firm_quote] ! 0) \<in> row_key ` set (map selected_columns ?T)"
    by (simp add: key) (simp add: sample_row_def row_key_def)
  show ?thesis
    using quotes_backed_by_chain[OF sample_reachable print call,
        unfolded start, OF sample_tokens refresh one sample_validated _ _ listed, of 100 200] key funds
    by (auto simp: sample_validation_def sample_refresh_def sample_firm_quote_def)
qed

definition sample_reverting :: MakerBalanceRow where
  "sample_reverting = sample_row ''0xbad'' ''0xm3''"

theorem reverting_token_blocks_refresh_witness:
  "\<exists>e cache. cacheRfqBalancesAsync (int_string 10) (bn_of_base 10) sample_refresh
     [sample_row ''0xa'' ''0xm1'', sample_reverting] [] = (Inl e, [sample_row ''0xa'' ''0xm1'', sample_reverting], cache)"
proof -
  let ?T = "[sample_row ''0xa'' ''0xm1'', sample_reverting]"
  have tokens: "getMakerTokensAsync sample_refresh ?T [] =
      (Inr (map selected_columns ?T), [(''undefined'', 1000, map selected_columns ?T)])"
    by (simp add: getMakerTokensAsync_def Let_def needs_update_def on_result_def sample_refresh_def)
  have "maker_funds sample_chain (selected_columns sample_reverting) = Inl (Error ''revert'')" by code_simp
  moreover have "rf_call sample_refresh = contract_call sample_chain" "rf_inserted sample_refresh = []"
    by (simp_all add: sample_refresh_def)
  ultimately show ?thesis
    using reverting_token_blocks_refresh[OF _ tokens, of sample_chain "selected_columns sample_reverting" "Error ''revert''" "int_string 10" "bn_of_base 10"] by auto
qed

text \<open>Nine refreshes that fail, one that does not, and one that fails again.\<close>

definition failing_pass :: "int \<Rightarrow> Iteration" where
  "failing_pass b = \<lparr>it_block = Inr b, it_refresh = sample_refresh\<lparr>rf_saveFails := Some TypeError\<rparr>\<rparr>"

definition sample_passes :: "Iteration list" where
  "sample_passes = replicate 9 (failing_pass 5) @ [\<lparr>it_block = Inr 5, it_refresh = sample_refresh\<rparr>, failing_pass 6]"

lemma sample_failed_refreshes: "failed_refreshes (int_string 10) (bn_of_base 10) sample_passes (worker_start []) = 10"
  by code_simp

theorem worker_gives_up_witness:
  "\<exists>msg. runRfqBalanceCacheAsync (int_string 10) (bn_of_base 10)
     (sample_passes @ [\<lparr>it_block = Inr 7, it_refresh = sample_refresh\<rparr>]) (worker_start []) = Inl (Error msg)"
  using worker_gives_up[of "int_string 10" "bn_of_base 10" sample_passes] sample_failed_refreshes
  by (simp add: MAX_CACHE_RFQ_BALANCES_ERRORS_def)

end
