(* ===== verification/Order_Stream.thy ===== *)
theory Order_Stream
  imports Request_Parsing Order_Utils
begin

text \<open>
  The stream of order updates (\<open>services/websocket_service.ts\<close>, \<open>utils/order_watcher_utils.ts\<close>): clients subscribe
  over a web socket, the events of the order watcher are sent to every matching subscription, and connections
  that do not answer pings are closed. Sockets are named by numbers; what the service does to them
  is a list of commands. The socket library, the parsing of JSON and the schema validator answer through the
  arguments of the steps. Logging is left out, and so is the Kafka client itself.
\<close>

section \<open>Orders of the order watcher\<close>

record WatcherOrder =
  wo_takerTokenFeeAmount :: string
  wo_sender :: string
  wo_feeRecipient :: string
  wo_makerToken :: string
  wo_takerToken :: string
  wo_makerAmount :: string
  wo_takerAmount :: string
  wo_maker :: string
  wo_taker :: string
  wo_pool :: string
  wo_expiry :: string
  wo_salt :: string
  wo_chainId :: ChainId
  wo_verifyingContract :: string
  wo_signature :: Signature

record OrderWatcherEvent =
  ev_order :: WatcherOrder
  ev_orderHash :: string
  ev_remainingFillableTakerAmount :: string
  ev_state :: string

text \<open>An order as it is sent, with the state in capitals.\<close>

record StreamOrder =
  so_order :: SignedLimitOrder
  so_orderHash :: string
  so_remainingFillableTakerAmount :: BigNumber
  so_state :: string

definition char_upper :: "char \<Rightarrow> char" where
  "char_upper c = (if 97 \<le> (of_char c :: nat) \<and> (of_char c :: nat) \<le> 122 then char_of ((of_char c :: nat) - 32) else c)"

definition orderWatcherEventToSRAOrder :: "(string \<Rightarrow> BigNumber) \<Rightarrow> OrderWatcherEvent \<Rightarrow> StreamOrder" where
  "orderWatcherEventToSRAOrder parse event =
     (let order = ev_order event
      in \<lparr>so_order =
            \<lparr>sl_signature = wo_signature order, sl_sender = wo_sender order, sl_maker = wo_maker order,
             sl_taker = wo_taker order, sl_takerTokenFeeAmount = parse (wo_takerTokenFeeAmount order),
             sl_makerAmount = parse (wo_makerAmount order), sl_takerAmount = parse (wo_takerAmount order),
             sl_makerToken = wo_makerToken order, sl_takerToken = wo_takerToken order, sl_salt = parse (wo_salt order),
             sl_verifyingContract = wo_verifyingContract order, sl_feeRecipient = wo_feeRecipient order,
             sl_expiry = parse (wo_expiry order), sl_chainId = wo_chainId order, sl_pool = wo_pool order\<rparr>,
          so_orderHash = ev_orderHash event,
          so_remainingFillableTakerAmount = parse (ev_remainingFillableTakerAmount event),
          so_state = map char_upper (ev_state event)\<rparr>)"

section \<open>Requests and answers\<close>

text \<open>The payload of a request is the object of its options; \<open>type\<close> of a request is checked in the handler.\<close>

record OrderChannelRequest =
  ocr_type :: string
  ocr_requestId :: string
  ocr_payload :: "(string \<times> string) list option"

datatype SubscriptionOpts = ALL_SUBSCRIPTION_OPTS | OrdersChannelSubscriptionOpts "(string \<times> string) list"

datatype ws_error = MalformedJSONError | NotValid service_error | NotImplementedError string

text \<open>The data of a message: not JSON, or a value with the complaints of the schema validator.\<close>

datatype MessageData = NotJson | Json "AjvError list" OrderChannelRequest

datatype response = UpdateMessage string "StreamOrder list" | ErrorMessage ws_error

datatype command = Send nat response | Terminate nat | Ping nat

section \<open>State\<close>

record Socket =
  ss_isAlive :: bool
  ss_requestIds :: "string list"

record WebsocketService =
  wsv_clients :: "(nat \<times> Socket) list"
  wsv_requestIdToSocket :: "(string \<times> nat) list"
  wsv_requestIdToSubscriptionOpts :: "(string \<times> SubscriptionOpts) list"

definition websocket_start :: WebsocketService where
  "websocket_start = \<lparr>wsv_clients = [], wsv_requestIdToSocket = [], wsv_requestIdToSubscriptionOpts = []\<rparr>"

section \<open>Operations\<close>

definition matchesOrdersChannelSubscription :: "SignedLimitOrder \<Rightarrow> SubscriptionOpts \<Rightarrow> bool" where
  "matchesOrdersChannelSubscription order opts =
     (case opts of
        ALL_SUBSCRIPTION_OPTS \<Rightarrow> True
      | OrdersChannelSubscriptionOpts payload \<Rightarrow>
          (let differs = (\<lambda>token wanted. truthy_string wanted \<and> toLowerCase token \<noteq> toLowerCase (the wanted))
           in \<not> (differs (sl_takerToken order) (map_of payload ''takerToken'') \<or>
                 differs (sl_makerToken order) (map_of payload ''makerToken''))))"

text \<open>A plain object answers these names with what it inherits, which is neither false nor a set.\<close>

definition OBJECT_PROTOTYPE_KEYS :: "string list" where
  "OBJECT_PROTOTYPE_KEYS =
     [''constructor'', ''__proto__'', ''hasOwnProperty'', ''isPrototypeOf'', ''propertyIsEnumerable'', ''toLocaleString'',
      ''toString'', ''valueOf'', ''__defineGetter__'', ''__defineSetter__'', ''__lookupGetter__'', ''__lookupSetter__'']"

text \<open>\<open>add\<close> of a \<open>Set\<close>.\<close>

definition set_add :: "'a \<Rightarrow> 'a list \<Rightarrow> 'a list" where
  "set_add x xs = (if x \<in> set xs then xs else xs @ [x])"

text \<open>The orders each subscription is due for one order: the loop over the subscriptions, from a given object.\<close>

fun requestIdToOrders ::
    "StreamOrder \<Rightarrow> (string \<times> SubscriptionOpts) list \<Rightarrow> (string \<times> StreamOrder list) list \<Rightarrow>
     js_error + (string \<times> StreamOrder list) list" where
  "requestIdToOrders order [] grouped = Inr grouped"
| "requestIdToOrders order ((requestId, subscriptionOpts) # rest) grouped =
     (if matchesOrdersChannelSubscription (so_order order) subscriptionOpts then
        (case map_of grouped requestId of
           Some orderSet \<Rightarrow>
             requestIdToOrders order rest (AList.update requestId (set_add order orderSet) grouped)
         | None \<Rightarrow>
             if requestId \<in> set OBJECT_PROTOTYPE_KEYS then Inl TypeError
             else requestIdToOrders order rest (AList.update requestId [order] grouped))
      else requestIdToOrders order rest grouped)"

text \<open>\<open>Object.entries\<close>: array indices come first, in increasing order.\<close>

definition array_index :: "string \<Rightarrow> nat option" where
  "array_index key =
     (if key \<noteq> [] \<and> list_all (\<lambda>c. c \<in> set ''0123456789'') key \<and> (key = ''0'' \<or> hd key \<noteq> CHR ''0'') \<and>
         of_base 10 key < 2 ^ 32 - 1
      then Some (of_base 10 key) else None)"

definition object_entries :: "(string \<times> 'v) list \<Rightarrow> (string \<times> 'v) list" where
  "object_entries object =
     sort_key (\<lambda>entry. the (array_index (fst entry))) (filter (\<lambda>entry. array_index (fst entry) \<noteq> None) object) @
     filter (\<lambda>entry. array_index (fst entry) = None) object"

definition send_updates :: "(string \<times> nat) list \<Rightarrow> (string \<times> StreamOrder list) list \<Rightarrow> command list" where
  "send_updates requestIdToSocket grouped =
     concat (map (\<lambda>(requestId, orders).
       case map_of requestIdToSocket requestId of
         Some ws \<Rightarrow> [Send ws (UpdateMessage requestId orders)] | None \<Rightarrow> []) (object_entries grouped))"

text \<open>The loop over the orders: an exception ends it, but what was sent before is sent.\<close>

fun send_orders :: "WebsocketService \<Rightarrow> StreamOrder list \<Rightarrow> command list \<times> js_error option" where
  "send_orders s [] = ([], None)"
| "send_orders s (order # rest) =
     (case requestIdToOrders order (wsv_requestIdToSubscriptionOpts s) [] of
        Inl e \<Rightarrow> ([], Some e)
      | Inr grouped \<Rightarrow>
          (case send_orders s rest of (cmds, e) \<Rightarrow> (send_updates (wsv_requestIdToSocket s) grouped @ cmds, e)))"

definition orderUpdate :: "WebsocketService \<Rightarrow> StreamOrder list \<Rightarrow> command list \<times> js_error option" where
  "orderUpdate s apiOrders = (if length (wsv_clients s) = 0 then ([], None) else send_orders s apiOrders)"

text \<open>A message of the order watcher, when it has a value: what does not parse and what throws is only logged.\<close>

definition eachMessage :: "(string \<Rightarrow> BigNumber) \<Rightarrow> (js_error + OrderWatcherEvent) option \<Rightarrow> WebsocketService \<Rightarrow> command list" where
  "eachMessage parse message s =
     (case message of
        None \<Rightarrow> []
      | Some (Inl e) \<Rightarrow> []
      | Some (Inr jsonMessage) \<Rightarrow> fst (orderUpdate s [orderWatcherEventToSRAOrder parse jsonMessage]))"

definition processConnection :: "nat \<Rightarrow> WebsocketService \<Rightarrow> WebsocketService" where
  "processConnection ws s =
     s\<lparr>wsv_clients := wsv_clients s @ [(ws, \<lparr>ss_isAlive = True, ss_requestIds = []\<rparr>)]\<rparr>"

definition update_socket :: "nat \<Rightarrow> (Socket \<Rightarrow> Socket) \<Rightarrow> WebsocketService \<Rightarrow> WebsocketService" where
  "update_socket ws f s =
     s\<lparr>wsv_clients := map (\<lambda>(n, socket). (n, if n = ws then f socket else socket)) (wsv_clients s)\<rparr>"

definition processMessage :: "nat \<Rightarrow> MessageData \<Rightarrow> WebsocketService \<Rightarrow> ws_error + WebsocketService" where
  "processMessage ws data s =
     (case data of
        NotJson \<Rightarrow> Inl MalformedJSONError
      | Json errors message \<Rightarrow>
          (case validateSchema errors of
             Inl e \<Rightarrow> Inl (NotValid e)
           | Inr _ \<Rightarrow>
               (let requestId = ocr_requestId message
                in if ocr_type message = ''subscribe'' then
                     (let subscriptionOpts =
                        (case ocr_payload message of
                           None \<Rightarrow> ALL_SUBSCRIPTION_OPTS
                         | Some payload \<Rightarrow> if payload = [] then ALL_SUBSCRIPTION_OPTS else OrdersChannelSubscriptionOpts payload);
                        s1 = update_socket ws (\<lambda>socket. socket\<lparr>ss_requestIds := set_add requestId (ss_requestIds socket)\<rparr>) s
                      in Inr (s1\<lparr>wsv_requestIdToSubscriptionOpts :=
                                AList.update requestId subscriptionOpts (wsv_requestIdToSubscriptionOpts s1),
                              wsv_requestIdToSocket := AList.update requestId ws (wsv_requestIdToSocket s1)\<rparr>))
                   else Inl (NotImplementedError (ocr_type message)))))"

definition processError :: "nat \<Rightarrow> ws_error \<Rightarrow> command list" where
  "processError ws err = [Send ws (ErrorMessage err), Terminate ws]"

definition messageHandler :: "nat \<Rightarrow> MessageData \<Rightarrow> WebsocketService \<Rightarrow> WebsocketService \<times> command list" where
  "messageHandler ws data s =
     (case processMessage ws data s of Inl err \<Rightarrow> (s, processError ws err) | Inr s' \<Rightarrow> (s', []))"

definition pongHandler :: "nat \<Rightarrow> WebsocketService \<Rightarrow> WebsocketService" where
  "pongHandler ws s = update_socket ws (\<lambda>socket. socket\<lparr>ss_isAlive := True\<rparr>) s"

text \<open>The socket is no longer a client, and its requests are deleted.\<close>

definition closeHandler :: "nat \<Rightarrow> WebsocketService \<Rightarrow> WebsocketService" where
  "closeHandler ws s =
     (case map_of (wsv_clients s) ws of
        None \<Rightarrow> s
      | Some socket \<Rightarrow>
          s\<lparr>wsv_clients := AList.delete ws (wsv_clients s),
            wsv_requestIdToSocket := fold AList.delete (ss_requestIds socket) (wsv_requestIdToSocket s),
            wsv_requestIdToSubscriptionOpts := fold AList.delete (ss_requestIds socket) (wsv_requestIdToSubscriptionOpts s)\<rparr>)"

definition cleanupConnections :: "WebsocketService \<Rightarrow> WebsocketService \<times> command list" where
  "cleanupConnections s =
     (s\<lparr>wsv_clients := map (\<lambda>(ws, socket). (ws, if ss_isAlive socket then socket\<lparr>ss_isAlive := False\<rparr> else socket)) (wsv_clients s)\<rparr>,
      map (\<lambda>(ws, socket). if \<not> ss_isAlive socket then Terminate ws else Ping ws) (wsv_clients s))"

definition destroyAsync :: "WebsocketService \<Rightarrow> WebsocketService \<times> command list" where
  "destroyAsync s =
     (s\<lparr>wsv_requestIdToSocket := [], wsv_requestIdToSubscriptionOpts := []\<rparr>,
      map (\<lambda>(ws, _). Terminate ws) (wsv_clients s) @ map (\<lambda>(ws, _). Terminate ws) (wsv_clients s))"

section \<open>Steps\<close>

datatype stream_label =
    Connect nat | Message nat MessageData | Pong nat | Close nat | Cleanup | Destroy
  | Event "(js_error + OrderWatcherEvent) option"

inductive stream_step :: "(string \<Rightarrow> BigNumber) \<Rightarrow> WebsocketService \<Rightarrow> stream_label \<Rightarrow> WebsocketService \<Rightarrow> command list \<Rightarrow> bool"
  for parse where
  connect: "ws \<notin> fst ` set (wsv_clients s) \<Longrightarrow> stream_step parse s (Connect ws) (processConnection ws s) []"
| message: "ws \<in> fst ` set (wsv_clients s) \<Longrightarrow> messageHandler ws data s = (s', cmds) \<Longrightarrow>
     stream_step parse s (Message ws data) s' cmds"
| pong: "stream_step parse s (Pong ws) (pongHandler ws s) []"
| close: "stream_step parse s (Close ws) (closeHandler ws s) []"
| cleanup: "cleanupConnections s = (s', cmds) \<Longrightarrow> stream_step parse s Cleanup s' cmds"
| destroy: "destroyAsync s = (s', cmds) \<Longrightarrow> stream_step parse s Destroy s' cmds"
| event: "stream_step parse s (Event m) s (eachMessage parse m s)"

inductive_cases stream_stepE: "stream_step parse s l s' cmds"

inductive stream_reachable :: "(string \<Rightarrow> BigNumber) \<Rightarrow> WebsocketService \<Rightarrow> bool" for parse where
  start: "stream_reachable parse websocket_start"
| step: "stream_reachable parse s \<Longrightarrow> stream_step parse s l s' cmds \<Longrightarrow> stream_reachable parse s'"

section \<open>Invariant\<close>

text \<open>Both maps have the same requests, and every request is one its socket, which is open, has made.\<close>

definition stream_inv :: "WebsocketService \<Rightarrow> bool" where
  "stream_inv s \<longleftrightarrow> distinct (map fst (wsv_clients s)) \<and> distinct (map fst (wsv_requestIdToSocket s)) \<and>
     map fst (wsv_requestIdToSubscriptionOpts s) = map fst (wsv_requestIdToSocket s) \<and>
     (\<forall>(requestId, ws) \<in> set (wsv_requestIdToSocket s).
        \<exists>socket. (ws, socket) \<in> set (wsv_clients s) \<and> requestId \<in> set (ss_requestIds socket))"

lemma map_fst_update_same:
  "map fst al = map fst al' \<Longrightarrow> map fst (AList.update k v al) = map fst (AList.update k v' al')"
  by (induction al arbitrary: al') auto

lemma fold_delete_filter: "fold AList.delete ks al = filter (\<lambda>(k, _). k \<notin> set ks) al"
  by (induction ks arbitrary: al) (auto simp: AList.delete_eq intro!: filter_cong)

lemma map_fst_filter: "map fst (filter (\<lambda>(k, _). P k) al) = filter P (map fst al)"
  by (induction al) auto

lemma fst_update_socket [simp]: "map fst (wsv_clients (update_socket ws f s)) = map fst (wsv_clients s)"
  by (auto simp: update_socket_def)

lemma set_set_add [simp]: "set (set_add x xs) = insert x (set xs)"
  by (auto simp: set_add_def)

lemma stream_inv_message:
  assumes "stream_inv s" "processMessage ws data s = Inr s'" "ws \<in> fst ` set (wsv_clients s)"
  shows "stream_inv s'"
proof -
  obtain requestId opts where s': "s' = (update_socket ws (\<lambda>socket. socket\<lparr>ss_requestIds := set_add requestId (ss_requestIds socket)\<rparr>) s)
      \<lparr>wsv_requestIdToSubscriptionOpts := AList.update requestId opts (wsv_requestIdToSubscriptionOpts s),
       wsv_requestIdToSocket := AList.update requestId ws (wsv_requestIdToSocket s)\<rparr>"
    using assms(2) by (auto simp: processMessage_def Let_def update_socket_def split: MessageData.splits sum.splits if_splits)
  let ?f = "\<lambda>(n, socket). (n, if n = ws then socket\<lparr>ss_requestIds := set_add requestId (ss_requestIds socket)\<rparr> else socket)"
  have clients: "wsv_clients s' = map ?f (wsv_clients s)" by (simp add: s' update_socket_def)
  have old: "\<exists>socket. (n, socket) \<in> set (wsv_clients s') \<and> k \<in> set (ss_requestIds socket)"
    if k: "(k, n) \<in> set (wsv_requestIdToSocket s)" for k n
  proof -
    obtain socket where "(n, socket) \<in> set (wsv_clients s)" "k \<in> set (ss_requestIds socket)"
      using k assms(1) by (fastforce simp: stream_inv_def)
    then show ?thesis unfolding clients
      by (intro exI[of _ "snd (?f (n, socket))"]) (auto simp: image_iff intro!: bexI[of _ "(n, socket)"])
  qed
  obtain socket where "(ws, socket) \<in> set (wsv_clients s)" using assms(3) by auto
  then have new: "\<exists>socket. (ws, socket) \<in> set (wsv_clients s') \<and> requestId \<in> set (ss_requestIds socket)"
    unfolding clients by (intro exI[of _ "snd (?f (ws, socket))"]) (auto simp: image_iff intro!: bexI[of _ "(ws, socket)"])
  have entries: "(k, n) = (requestId, ws) \<or> (k, n) \<in> set (wsv_requestIdToSocket s)"
    if "(k, n) \<in> set (wsv_requestIdToSocket s')" for k n
    using that set_update_subset[of requestId ws "wsv_requestIdToSocket s"] by (auto simp: s')
  have "map fst (wsv_clients s') = map fst (wsv_clients s)" by (simp add: s')
  moreover have "distinct (map fst (wsv_requestIdToSocket s'))" using assms(1) by (simp add: s' stream_inv_def distinct_update)
  moreover have "map fst (wsv_requestIdToSubscriptionOpts s') = map fst (wsv_requestIdToSocket s')"
    using assms(1) map_fst_update_same[of "wsv_requestIdToSubscriptionOpts s" "wsv_requestIdToSocket s" requestId opts ws]
    by (simp add: s' stream_inv_def)
  ultimately show ?thesis
    using assms(1) old new entries unfolding stream_inv_def by fastforce
qed

lemma stream_inv_close:
  assumes "stream_inv s"
  shows "stream_inv (closeHandler ws s) \<and> ws \<notin> snd ` set (wsv_requestIdToSocket (closeHandler ws s))"
proof (cases "map_of (wsv_clients s) ws")
  case None
  then have "ws \<notin> fst ` set (wsv_clients s)" by (simp add: map_of_eq_None_iff)
  then have "ws \<notin> snd ` set (wsv_requestIdToSocket s)" using assms by (force simp: stream_inv_def)
  then show ?thesis using assms None by (simp add: closeHandler_def)
next
  case (Some socket)
  have dist: "distinct (map fst (wsv_clients s))" using assms by (simp add: stream_inv_def)
  have owner: "k \<in> set (ss_requestIds socket)" if k: "(k, ws) \<in> set (wsv_requestIdToSocket s)" for k
  proof -
    obtain socket' where "(ws, socket') \<in> set (wsv_clients s)" "k \<in> set (ss_requestIds socket')"
      using k assms by (fastforce simp: stream_inv_def)
    then show ?thesis using Some dist by (metis map_of_eq_Some_iff option.inject)
  qed
  then show ?thesis
    using assms Some dist
    by (auto simp: closeHandler_def stream_inv_def fold_delete_filter map_fst_filter distinct_filter distinct_delete delete_conv'
        AList.delete_eq split: prod.splits dest: bspec) metis
qed

lemma stream_inv_clients:
  assumes "stream_inv s" "\<And>n socket. ss_requestIds (g n socket) = ss_requestIds socket"
  shows "stream_inv (s\<lparr>wsv_clients := map (\<lambda>(n, socket). (n, g n socket)) (wsv_clients s)\<rparr>)"
proof -
  have "map fst (map (\<lambda>(n, socket). (n, g n socket)) (wsv_clients s)) = map fst (wsv_clients s)" by auto
  moreover have "\<exists>socket. (n, socket) \<in> set (map (\<lambda>(n, socket). (n, g n socket)) (wsv_clients s)) \<and> k \<in> set (ss_requestIds socket)"
    if k: "(k, n) \<in> set (wsv_requestIdToSocket s)" for k n
  proof -
    obtain socket where "(n, socket) \<in> set (wsv_clients s)" "k \<in> set (ss_requestIds socket)"
      using k assms(1) by (fastforce simp: stream_inv_def)
    then show ?thesis using assms(2) by (intro exI[of _ "g n socket"]) force
  qed
  moreover have "fst \<circ> (\<lambda>(n, socket). (n, g n socket)) = fst" by auto
  ultimately show ?thesis using assms(1) by (auto simp: stream_inv_def)
qed

lemma stream_inv_step:
  assumes "stream_step parse s l s' cmds" "stream_inv s"
  shows "stream_inv s'"
  using assms(1)
proof cases
  case (connect ws)
  then show ?thesis using assms(2) by (fastforce simp: stream_inv_def processConnection_def)
next
  case (message ws data)
  then show ?thesis using assms(2) stream_inv_message by (auto simp: messageHandler_def split: sum.splits)
next
  case (pong ws)
  have "stream_inv (pongHandler ws s)"
    unfolding pongHandler_def update_socket_def by (rule stream_inv_clients[OF assms(2)]) simp
  then show ?thesis using pong by simp
next
  case cleanup
  have "stream_inv (fst (cleanupConnections s))"
    unfolding cleanupConnections_def fst_conv by (rule stream_inv_clients[OF assms(2)]) simp
  then show ?thesis using cleanup by simp
qed (use assms(2) stream_inv_close in \<open>auto simp: destroyAsync_def stream_inv_def\<close>)

lemma reachable_stream_inv: "stream_reachable parse s \<Longrightarrow> stream_inv s"
proof (induction rule: stream_reachable.induct)
  case start
  then show ?case by (simp add: stream_inv_def websocket_start_def)
qed (rule stream_inv_step)

section \<open>Delivery\<close>

lemma requestIdToOrders_filter:
  assumes "distinct (map fst subs)" "set (map fst subs) \<inter> set (map fst grouped) = {}"
  shows "requestIdToOrders order subs grouped =
    (if \<exists>(k, opts) \<in> set subs. matchesOrdersChannelSubscription (so_order order) opts \<and> k \<in> set OBJECT_PROTOTYPE_KEYS
     then Inl TypeError
     else Inr (grouped @ map (\<lambda>(k, _). (k, [order]))
       (filter (\<lambda>(_, opts). matchesOrdersChannelSubscription (so_order order) opts) subs)))"
  using assms
proof (induction order subs grouped rule: requestIdToOrders.induct)
  case (2 order k opts rest grouped)
  have none: "map_of grouped k = None" using 2(5) by (auto simp: map_of_eq_None_iff)
  have upd: "AList.update k [order] grouped = grouped @ [(k, [order])]"
    using 2(5) by (intro map_fst_update_notin) auto
  show ?case
  proof (cases "matchesOrdersChannelSubscription (so_order order) opts")
    case True
    then show ?thesis
    proof (cases "k \<in> set OBJECT_PROTOTYPE_KEYS")
      case False
      then show ?thesis using True none upd 2(1)[OF True none False] 2(4,5) by auto
    qed (simp add: none)
  next
    case False
    then show ?thesis using 2(3)[OF False] 2(4,5) by auto
  qed
qed simp

lemma set_object_entries [simp]: "set (object_entries object) = set object"
  by (auto simp: object_entries_def)

lemma distinct_object_entries: "distinct object \<Longrightarrow> distinct (object_entries object)"
  by (auto simp: object_entries_def distinct_sort)

lemma distinct_sends:
  assumes "distinct (map fst grouped)"
  shows "distinct (send_updates sockets grouped)"
proof -
  have "distinct (concat (map (\<lambda>(k, orders). case map_of sockets k of
      Some ws \<Rightarrow> [Send ws (UpdateMessage k orders)] | None \<Rightarrow> []) es))" if "distinct (map fst es)" for es
    using that by (induction es) (auto split: option.splits)
  moreover have "distinct (map fst (object_entries grouped))"
    using assms by (simp add: distinct_map distinct_object_entries)
  ultimately show ?thesis unfolding send_updates_def by blast
qed

lemma distinct_map_fst_filter: "distinct (map fst al) \<Longrightarrow> distinct (map fst (filter P al))"
  by (induction al) auto

text \<open>What one order makes the service send.\<close>

lemma orderUpdate_one:
  assumes "stream_inv s"
    and "\<forall>(k, opts) \<in> set (wsv_requestIdToSubscriptionOpts s).
      matchesOrdersChannelSubscription (so_order order) opts \<longrightarrow> k \<notin> set OBJECT_PROTOTYPE_KEYS"
  shows "snd (orderUpdate s [order]) = None"
    and "set (fst (orderUpdate s [order])) =
      {Send ws (UpdateMessage k [order]) | k ws opts. (k, opts) \<in> set (wsv_requestIdToSubscriptionOpts s) \<and>
         matchesOrdersChannelSubscription (so_order order) opts \<and> (k, ws) \<in> set (wsv_requestIdToSocket s)}"
    and "distinct (fst (orderUpdate s [order]))"
proof -
  let ?match = "\<lambda>(k :: string, opts). matchesOrdersChannelSubscription (so_order order) opts"
  define grouped where "grouped = map (\<lambda>(k, _). (k, [order])) (filter ?match (wsv_requestIdToSubscriptionOpts s))"
  have dist: "distinct (map fst (wsv_requestIdToSubscriptionOpts s))" "distinct (map fst (wsv_requestIdToSocket s))"
    using assms(1) by (simp_all add: stream_inv_def)
  have "requestIdToOrders order (wsv_requestIdToSubscriptionOpts s) [] = Inr grouped"
    using requestIdToOrders_filter[OF dist(1), of "[]" order] assms(2) by (auto simp: grouped_def split: prod.splits)
  then have run: "orderUpdate s [order] =
      (if wsv_clients s = [] then [] else send_updates (wsv_requestIdToSocket s) grouped, None)"
    by (simp add: orderUpdate_def)
  then show "snd (orderUpdate s [order]) = None" by simp
  have sent: "set (send_updates (wsv_requestIdToSocket s) grouped) =
      {Send ws (UpdateMessage k orders) | k ws orders. (k, orders) \<in> set grouped \<and> (k, ws) \<in> set (wsv_requestIdToSocket s)}"
    using dist(2) by (force simp: send_updates_def split: option.splits)
  have empty: "wsv_requestIdToSocket s = []" if "wsv_clients s = []"
    using assms(1) that by (cases "wsv_requestIdToSocket s") (auto simp: stream_inv_def)
  show "set (fst (orderUpdate s [order])) =
      {Send ws (UpdateMessage k [order]) | k ws opts. (k, opts) \<in> set (wsv_requestIdToSubscriptionOpts s) \<and>
         matchesOrdersChannelSubscription (so_order order) opts \<and> (k, ws) \<in> set (wsv_requestIdToSocket s)}"
    using empty by (cases "wsv_clients s = []") (simp_all add: run sent, auto simp: grouped_def)
  have "map fst grouped = map fst (filter ?match (wsv_requestIdToSubscriptionOpts s))" by (auto simp: grouped_def)
  then have "distinct (map fst grouped)" using distinct_map_fst_filter[OF dist(1)] by simp
  from distinct_sends[OF this] show "distinct (fst (orderUpdate s [order]))" by (simp add: run)
qed

section \<open>Heartbeats\<close>

lemma map_of_map_snd: "map_of (map (\<lambda>(n, x). (n, g n x)) al) k = map_option (g k) (map_of al k)"
  by (induction al) auto

lemma alive_step:
  assumes "stream_step parse s l s' cmds" "l \<noteq> Cleanup" "l \<noteq> Close ws" "map_of (wsv_clients s) ws = Some socket"
  shows "\<exists>socket'. map_of (wsv_clients s') ws = Some socket' \<and> (ss_isAlive socket' \<longleftrightarrow> ss_isAlive socket \<or> l = Pong ws)"
  using assms(1)
proof cases
  case (connect n)
  then show ?thesis using assms(4) by (auto simp: processConnection_def map_of_append)
next
  case (message n data)
  then show ?thesis using assms(4)
    by (auto simp: messageHandler_def processMessage_def Let_def update_socket_def map_of_map_snd
        split: sum.splits MessageData.splits if_splits)
next
  case (pong n)
  then show ?thesis using assms(4) by (auto simp: pongHandler_def update_socket_def map_of_map_snd)
next
  case (close n)
  then show ?thesis using assms(3,4) by (auto simp: closeHandler_def delete_conv' split: option.splits)
qed (use assms in \<open>auto simp: destroyAsync_def\<close>)

inductive stream_run :: "(string \<Rightarrow> BigNumber) \<Rightarrow> WebsocketService \<Rightarrow> stream_label list \<Rightarrow> WebsocketService \<Rightarrow> bool"
  for parse where
  stop: "stream_run parse s [] s"
| next_step: "stream_step parse s l s' cmds \<Longrightarrow> stream_run parse s' ls s'' \<Longrightarrow> stream_run parse s (l # ls) s''"

lemma stream_inv_run: "stream_run parse s ls s' \<Longrightarrow> stream_inv s \<Longrightarrow> stream_inv s'"
  by (induction rule: stream_run.induct) (auto intro: stream_inv_step)

lemma alive_run:
  assumes "stream_run parse s ls s'" "Cleanup \<notin> set ls" "Close ws \<notin> set ls" "map_of (wsv_clients s) ws = Some socket"
  shows "\<exists>socket'. map_of (wsv_clients s') ws = Some socket' \<and> (ss_isAlive socket' \<longleftrightarrow> ss_isAlive socket \<or> Pong ws \<in> set ls)"
  using assms
proof (induction arbitrary: socket rule: stream_run.induct)
  case (next_step s l s' cmds ls s'')
  then obtain socket' where "map_of (wsv_clients s') ws = Some socket'"
    "ss_isAlive socket' \<longleftrightarrow> ss_isAlive socket \<or> l = Pong ws"
    using alive_step[OF next_step.hyps(1)] by (metis list.set_intros(1))
  then show ?case using next_step.IH[of socket'] next_step.prems by auto
qed simp

section \<open>Properties\<close>

text \<open>However connections, requests, pongs and events follow each other, the two maps hold the same requests, every
  request belongs to an open socket that made it, and a socket that has closed receives nothing more.\<close>

theorem subscriptions_consistent:
  assumes "stream_reachable parse s"
  shows "map fst (wsv_requestIdToSubscriptionOpts s) = map fst (wsv_requestIdToSocket s) \<and>
    distinct (map fst (wsv_requestIdToSocket s)) \<and>
    (\<forall>k ws. (k, ws) \<in> set (wsv_requestIdToSocket s) \<longrightarrow>
       (\<exists>socket. map_of (wsv_clients s) ws = Some socket \<and> k \<in> set (ss_requestIds socket))) \<and>
    ws \<notin> snd ` set (wsv_requestIdToSocket (closeHandler ws s))"
proof -
  have inv: "stream_inv s" using reachable_stream_inv[OF assms] .
  have "\<exists>socket. map_of (wsv_clients s) n = Some socket \<and> k \<in> set (ss_requestIds socket)"
    if "(k, n) \<in> set (wsv_requestIdToSocket s)" for k n
    using inv that unfolding stream_inv_def by (fastforce simp: map_of_eq_Some_iff)
  then show ?thesis using inv stream_inv_close[OF inv] by (auto simp: stream_inv_def)
qed

text \<open>C38: An update reaches exactly the subscriptions it matches: unless a matching request has the name of something
  every object inherits, the service sends the order once for each matching request, to the open socket that
  holds it, and nothing else.\<close>

theorem order_updates_delivered:
  assumes "stream_reachable parse s"
    and "\<forall>(k, opts) \<in> set (wsv_requestIdToSubscriptionOpts s).
      matchesOrdersChannelSubscription (so_order order) opts \<longrightarrow> k \<notin> set OBJECT_PROTOTYPE_KEYS"
  shows "\<exists>cmds. orderUpdate s [order] = (cmds, None) \<and> distinct cmds \<and>
    set cmds = {Send ws (UpdateMessage k [order]) | k ws opts.
      map_of (wsv_requestIdToSubscriptionOpts s) k = Some opts \<and>
      matchesOrdersChannelSubscription (so_order order) opts \<and> map_of (wsv_requestIdToSocket s) k = Some ws} \<and>
    (\<forall>ws r. Send ws r \<in> set cmds \<longrightarrow> ws \<in> fst ` set (wsv_clients s))"
proof -
  have inv: "stream_inv s" using reachable_stream_inv[OF assms(1)] .
  then have dist: "distinct (map fst (wsv_requestIdToSubscriptionOpts s))" "distinct (map fst (wsv_requestIdToSocket s))"
    by (simp_all add: stream_inv_def)
  have "ws \<in> fst ` set (wsv_clients s)" if "(k, ws) \<in> set (wsv_requestIdToSocket s)" for k ws
    using inv that by (force simp: stream_inv_def)
  then show ?thesis
    using orderUpdate_one[OF inv assms(2)] dist
    by (intro exI[of _ "fst (orderUpdate s [order])"]) (auto simp: prod_eq_iff map_of_eq_Some_iff)
qed

text \<open>C39: One subscription can silence the stream: a matching request whose id is the name of something every object
  inherits, such as \<open>constructor\<close>, makes the update throw, and no subscriber gets the order.\<close>

theorem prototype_key_silences_stream:
  assumes "stream_reachable parse s" "map_of (wsv_requestIdToSubscriptionOpts s) k = Some opts"
    and "k \<in> set OBJECT_PROTOTYPE_KEYS"
    and "matchesOrdersChannelSubscription (so_order (orderWatcherEventToSRAOrder parse event)) opts"
  shows "eachMessage parse (Some (Inr event)) s = []"
proof -
  have "distinct (map fst (wsv_requestIdToSubscriptionOpts s))"
    using reachable_stream_inv[OF assms(1)] by (simp add: stream_inv_def)
  then have "requestIdToOrders (orderWatcherEventToSRAOrder parse event) (wsv_requestIdToSubscriptionOpts s) [] = Inl TypeError"
    using assms(2-4) by (subst requestIdToOrders_filter) (force dest: map_of_SomeD)+
  then show ?thesis by (simp add: eachMessage_def orderUpdate_def)
qed

text \<open>Request ids are shared by all clients: when a socket closes, every id it ever subscribed with is gone, also
  when another open socket has subscribed with it since.\<close>

theorem close_drops_reused_requests:
  assumes "stream_reachable parse s" "map_of (wsv_clients s) ws = Some socket" "k \<in> set (ss_requestIds socket)"
  shows "map_of (wsv_requestIdToSocket (closeHandler ws s)) k = None \<and>
    map_of (wsv_requestIdToSubscriptionOpts (closeHandler ws s)) k = None"
  using assms(2,3) by (auto simp: closeHandler_def fold_delete_filter map_of_eq_None_iff)

text \<open>C40: Between two rounds of pings, a connection that stays open is terminated in the second round exactly when it has
  not answered the first.\<close>

theorem heartbeat:
  assumes "stream_reachable parse s" "cleanupConnections s = (s1, pings)" "ws \<in> fst ` set (wsv_clients s1)"
    and "stream_run parse s1 ls s2" "Cleanup \<notin> set ls" "Close ws \<notin> set ls"
    and "cleanupConnections s2 = (s3, cmds)"
  shows "(Terminate ws \<in> set cmds \<longleftrightarrow> Pong ws \<notin> set ls) \<and> (Ping ws \<in> set cmds \<longleftrightarrow> Pong ws \<in> set ls)"
proof -
  obtain socket where socket: "map_of (wsv_clients s1) ws = Some socket"
    using assms(3) by (metis domD dom_map_of_conv_image_fst)
  then obtain z where "socket = (if ss_isAlive z then z\<lparr>ss_isAlive := False\<rparr> else z)"
    using assms(2) by (auto simp: cleanupConnections_def map_of_map_snd)
  then have "\<not> ss_isAlive socket" by (cases "ss_isAlive z") simp_all
  then obtain socket' where socket': "map_of (wsv_clients s2) ws = Some socket'" "ss_isAlive socket' \<longleftrightarrow> Pong ws \<in> set ls"
    using alive_run[OF assms(4-6) socket] by blast
  have "stream_inv s2"
    using stream_inv_run[OF assms(4)] stream_inv_step[OF stream_step.cleanup[OF assms(2), of parse]]
      reachable_stream_inv[OF assms(1)] by blast
  then have "distinct (map fst (wsv_clients s2))" by (simp add: stream_inv_def)
  then have mem: "(ws, x) \<in> set (wsv_clients s2) \<longleftrightarrow> x = socket'" for x
    using socket'(1) by (metis map_of_eq_Some_iff option.inject)
  show ?thesis
    using assms(7) mem socket'(2)
    by (auto simp: cleanupConnections_def image_iff split: if_splits intro!: bexI[of _ "(ws, socket')"])
qed

text \<open>Two clients: the first asks for one token, the second for everything under a request id that is a parameter.\<close>

definition sample_subscribe :: "string \<Rightarrow> (string \<times> string) list option \<Rightarrow> MessageData" where
  "sample_subscribe requestId payload =
     Json [] \<lparr>ocr_type = ''subscribe'', ocr_requestId = requestId, ocr_payload = payload\<rparr>"

definition sample_stream :: "string \<Rightarrow> WebsocketService" where
  "sample_stream requestId =
     fst (messageHandler 2 (sample_subscribe requestId None)
       (fst (messageHandler 1 (sample_subscribe ''r1'' (Some [(''makerToken'', ''0xA'')]))
         (processConnection 2 (processConnection 1 websocket_start)))))"

definition sample_event :: OrderWatcherEvent where
  "sample_event =
     \<lparr>ev_order =
        \<lparr>wo_takerTokenFeeAmount = ''0'', wo_sender = ''0x0'', wo_feeRecipient = ''0x0'', wo_makerToken = ''0xa'',
         wo_takerToken = ''0xb'', wo_makerAmount = ''5'', wo_takerAmount = ''9'', wo_maker = ''0xm'', wo_taker = ''0x0'',
         wo_pool = ''0x0'', wo_expiry = ''2000'', wo_salt = ''1'', wo_chainId = Mainnet, wo_verifyingContract = ''0xe'',
         wo_signature = \<lparr>signatureType = Fin 2, sig_r = ''0xr'', sig_s = ''0xs'', sig_v = Fin 27\<rparr>\<rparr>,
      ev_orderHash = ''0xh'', ev_remainingFillableTakerAmount = ''9'', ev_state = ''added''\<rparr>"

lemma sample_stream_reachable: "stream_reachable parse (sample_stream requestId)"
proof -
  let ?s1 = "processConnection 2 (processConnection 1 websocket_start)"
  let ?m1 = "messageHandler 1 (sample_subscribe ''r1'' (Some [(''makerToken'', ''0xA'')])) ?s1"
  have "stream_reachable parse (processConnection 1 websocket_start)"
    by (rule stream_reachable.step[OF stream_reachable.start stream_step.connect]) (simp add: websocket_start_def)
  then have "stream_reachable parse ?s1"
    by (rule stream_reachable.step[OF _ stream_step.connect]) (simp add: websocket_start_def processConnection_def)
  then have s2: "stream_reachable parse (fst ?m1)"
    by (rule stream_reachable.step[OF _ stream_step.message[of 1 _ _ _ "snd ?m1"]]) (simp_all add: processConnection_def websocket_start_def)
  have "2 \<in> fst ` set (wsv_clients (fst ?m1))" by code_simp
  from stream_reachable.step[OF s2 stream_step.message[OF this, of "sample_subscribe requestId None" _ _ parse]]
  show ?thesis unfolding sample_stream_def by (metis prod.collapse)
qed

lemma sample_stream_eq:
  "wsv_clients (sample_stream k) = [(1, \<lparr>ss_isAlive = True, ss_requestIds = [''r1'']\<rparr>), (2, \<lparr>ss_isAlive = True, ss_requestIds = [k]\<rparr>)]"
  "wsv_requestIdToSocket (sample_stream k) = AList.update k 2 [(''r1'', 1)]"
  "wsv_requestIdToSubscriptionOpts (sample_stream k) =
     AList.update k ALL_SUBSCRIPTION_OPTS [(''r1'', OrdersChannelSubscriptionOpts [(''makerToken'', ''0xA'')])]"
  by (simp_all add: sample_stream_def messageHandler_def processMessage_def sample_subscribe_def validateSchema_def Let_def
      update_socket_def set_add_def processConnection_def websocket_start_def)

theorem subscriptions_consistent_witness:
  "wsv_requestIdToSocket (sample_stream ''r2'') = [(''r1'', 1), (''r2'', 2)] \<and>
   (2 :: nat) \<notin> snd ` set (wsv_requestIdToSocket (closeHandler 2 (sample_stream ''r2'')))"
  using subscriptions_consistent[OF sample_stream_reachable[of "bn_of_base 10" "''r2''"], of 2]
  by (simp add: sample_stream_eq)

theorem order_updates_delivered_witness:
  "\<exists>cmds. orderUpdate (sample_stream ''r2'') [orderWatcherEventToSRAOrder (bn_of_base 10) sample_event] = (cmds, None) \<and>
     Send 1 (UpdateMessage ''r1'' [orderWatcherEventToSRAOrder (bn_of_base 10) sample_event]) \<in> set cmds"
proof -
  let ?order = "orderWatcherEventToSRAOrder (bn_of_base 10) sample_event"
  have match: "matchesOrdersChannelSubscription (so_order ?order) (OrdersChannelSubscriptionOpts [(''makerToken'', ''0xA'')])"
    by (simp add: matchesOrdersChannelSubscription_def orderWatcherEventToSRAOrder_def sample_event_def)
      (code_simp)
  have "\<forall>(k, opts) \<in> set (wsv_requestIdToSubscriptionOpts (sample_stream ''r2'')).
      matchesOrdersChannelSubscription (so_order ?order) opts \<longrightarrow> k \<notin> set OBJECT_PROTOTYPE_KEYS"
    by (simp add: sample_stream_eq OBJECT_PROTOTYPE_KEYS_def)
  from order_updates_delivered[OF sample_stream_reachable[of "bn_of_base 10"] this] show ?thesis
    using match by (auto simp: sample_stream_eq)
qed

theorem prototype_key_silences_stream_witness:
  "eachMessage (bn_of_base 10) (Some (Inr sample_event)) (sample_stream ''constructor'') = []"
  by (rule prototype_key_silences_stream[OF sample_stream_reachable, of _ "''constructor''" ALL_SUBSCRIPTION_OPTS])
    (simp_all add: sample_stream_eq OBJECT_PROTOTYPE_KEYS_def matchesOrdersChannelSubscription_def)

theorem close_drops_reused_requests_witness:
  "map_of (wsv_requestIdToSocket (sample_stream ''r1'')) ''r1'' = Some 2 \<and>
   map_of (wsv_requestIdToSocket (closeHandler 1 (sample_stream ''r1''))) ''r1'' = None"
  using close_drops_reused_requests[OF sample_stream_reachable[of "bn_of_base 10" "''r1''"], of 1] by (simp add: sample_stream_eq)

theorem heartbeat_witness:
  "\<exists>cmds. snd (cleanupConnections (pongHandler 1 (fst (cleanupConnections (sample_stream ''r2''))))) = cmds \<and>
     Ping 1 \<in> set cmds \<and> Terminate 2 \<in> set cmds"
proof -
  let ?s = "sample_stream ''r2''"
  let ?s1 = "fst (cleanupConnections ?s)"
  have run: "stream_run (bn_of_base 10) ?s1 [Pong 1] (pongHandler 1 ?s1)"
    by (rule stream_run.next_step[OF stream_step.pong stream_run.stop])
  have clients: "fst ` set (wsv_clients ?s1) = {1, 2}" by (auto simp: cleanupConnections_def sample_stream_eq)
  have "(Terminate ws \<in> set (snd (cleanupConnections (pongHandler 1 ?s1))) \<longleftrightarrow> Pong ws \<notin> set [Pong 1]) \<and>
      (Ping ws \<in> set (snd (cleanupConnections (pongHandler 1 ?s1))) \<longleftrightarrow> Pong ws \<in> set [Pong 1])" if "ws \<in> {1, 2}" for ws
    by (rule heartbeat[OF sample_stream_reachable prod.collapse[symmetric] _ run _ _ prod.collapse[symmetric]])
      (use that clients in auto)
  from this[of 1] this[of 2] show ?thesis by auto
qed

end
