(* ===== verification/External_Clients.thy ===== *)
theory External_Clients
  imports Order_Utils
begin

text \<open>
  The clients of other services: the RFQ service (\<open>utils/rfq_client.ts\<close>), the last look of market makers
  (\<open>utils/quote_server_client.ts\<close>), the Ethereum nodes (\<open>rpc_subprovider.ts\<close>), and the helpers that choose among
  their answers (\<open>utils/quote_comparison_utils.ts\<close>, \<open>utils/hash_utils.ts\<close>). An answer is an arbitrary JSON
  value, read the way JavaScript reads it; the HTTP libraries, compression, SHA-1, the schema validator and the
  configured reading and printing of a BigNumber are arguments. Metrics and logging are left out.
\<close>

section \<open>JSON values\<close>

text \<open>A value read from JSON, where \<open>undefined\<close> is \<open>None\<close>.\<close>

datatype json =
    JNull | JBool bool | JNumber js_number | JString string | JArray "json list" | JObject "(string \<times> json) list"

type_synonym js_value = "json option"

text \<open>\<open>v.key\<close>, for the keys the clients read, none of which is inherited; \<open>v?.key\<close>; \<open>v.map(f)\<close>.\<close>

fun js_get :: "js_value \<Rightarrow> string \<Rightarrow> js_error + js_value" where
  "js_get None key = Inl TypeError"
| "js_get (Some JNull) key = Inl TypeError"
| "js_get (Some (JObject props)) key = Inr (map_of props key)"
| "js_get (Some v) key = Inr None"

definition nullish :: "js_value \<Rightarrow> bool" where
  "nullish v \<longleftrightarrow> v = None \<or> v = Some JNull"

fun js_map :: "(js_value \<Rightarrow> js_error + 'b) \<Rightarrow> js_value \<Rightarrow> js_error + 'b list" where
  "js_map f (Some (JArray xs)) = res_map (\<lambda>x. f (Some x)) xs"
| "js_map f v = Inl TypeError"

fun js_truthy :: "js_value \<Rightarrow> bool" where
  "js_truthy None = False"
| "js_truthy (Some JNull) = False"
| "js_truthy (Some (JBool b)) = b"
| "js_truthy (Some (JNumber x)) = (x \<noteq> 0 \<and> x \<noteq> NaN)"
| "js_truthy (Some (JString s)) = (s \<noteq> [])"
| "js_truthy (Some v) = True"

text \<open>\<open>{...v}\<close>: the properties of the value itself.\<close>

fun js_spread :: "js_value \<Rightarrow> (string \<times> json) list" where
  "js_spread (Some (JObject props)) = props"
| "js_spread (Some (JArray xs)) = zip (map (\<lambda>i. int_string 10 (Fin (of_nat i))) [0..<length xs]) xs"
| "js_spread (Some (JString s)) =
     zip (map (\<lambda>i. int_string 10 (Fin (of_nat i))) [0..<length s]) (map (\<lambda>c. JString [c]) s)"
| "js_spread v = []"

section \<open>The RFQ service\<close>

record 'r PostRequest =
  pr_url :: string
  pr_body :: 'r
  pr_timeout :: int
  pr_chainId :: ChainId

record AxiosResponse =
  ar_status :: int
  ar_data :: js_value

type_synonym 'r axios = "'r PostRequest \<Rightarrow> js_error + AxiosResponse"

text \<open>What the constructors of the protocol package are given.\<close>

record RfqOrderArgs =
  ra_makerToken :: js_value
  ra_takerToken :: js_value
  ra_makerAmount :: BigNumber
  ra_takerAmount :: BigNumber
  ra_maker :: js_value
  ra_taker :: js_value
  ra_chainId :: js_value
  ra_verifyingContract :: js_value
  ra_txOrigin :: js_value
  ra_pool :: js_value
  ra_salt :: BigNumber
  ra_expiry :: BigNumber

record OtcOrderArgs =
  oa_makerToken :: js_value
  oa_takerToken :: js_value
  oa_makerAmount :: BigNumber
  oa_takerAmount :: BigNumber
  oa_maker :: js_value
  oa_taker :: js_value
  oa_chainId :: js_value
  oa_verifyingContract :: js_value
  oa_txOrigin :: js_value
  oa_expiryAndNonce :: BigNumber

definition toRfqOrder :: "(js_value \<Rightarrow> BigNumber) \<Rightarrow> js_value \<Rightarrow> js_error + RfqOrderArgs" where
  "toRfqOrder bn obj =
     (if nullish obj then Inl TypeError
      else let field = (\<lambda>key. projr (js_get obj key))
           in Inr \<lparr>ra_makerToken = field ''makerToken'', ra_takerToken = field ''takerToken'',
                   ra_makerAmount = bn (field ''makerAmount''), ra_takerAmount = bn (field ''takerAmount''),
                   ra_maker = field ''maker'', ra_taker = field ''taker'', ra_chainId = field ''chainId'',
                   ra_verifyingContract = field ''verifyingContract'', ra_txOrigin = field ''txOrigin'',
                   ra_pool = field ''pool'', ra_salt = bn (field ''salt''), ra_expiry = bn (field ''expiry'')\<rparr>)"

definition toOtcOrder :: "(js_value \<Rightarrow> BigNumber) \<Rightarrow> js_value \<Rightarrow> js_error + OtcOrderArgs" where
  "toOtcOrder bn obj =
     (if nullish obj then Inl TypeError
      else let field = (\<lambda>key. projr (js_get obj key))
           in Inr \<lparr>oa_makerToken = field ''makerToken'', oa_takerToken = field ''takerToken'',
                   oa_makerAmount = bn (field ''makerAmount''), oa_takerAmount = bn (field ''takerAmount''),
                   oa_maker = field ''maker'', oa_taker = field ''taker'', oa_chainId = field ''chainId'',
                   oa_verifyingContract = field ''verifyingContract'', oa_txOrigin = field ''txOrigin'',
                   oa_expiryAndNonce = bn (field ''expiryAndNonce'')\<rparr>)"

record RfqClientQuote =
  rcq_signature :: js_value
  rcq_makerUri :: js_value
  rcq_order :: RfqOrderArgs

record ParsedV2Price =
  vp_rest :: "(string \<times> json) list"
  vp_expiry :: BigNumber
  vp_makerAmount :: BigNumber
  vp_takerAmount :: BigNumber

record ParsedV2Quote =
  vq_fillableMakerAmount :: BigNumber
  vq_fillableTakerAmount :: BigNumber
  vq_fillableTakerFeeAmount :: BigNumber
  vq_signature :: js_value
  vq_makerUri :: js_value
  vq_makerId :: js_value
  vq_order :: OtcOrderArgs

text \<open>A request to the service: anything but the data of a 200 answer is \<open>None\<close>.\<close>

definition rfq_post :: "int \<Rightarrow> string \<Rightarrow> 'r axios \<Rightarrow> string \<Rightarrow> 'r \<Rightarrow> ChainId \<Rightarrow> js_value option" where
  "rfq_post timeout rfqApiUrl post path request chainId =
     (case post \<lparr>pr_url = rfqApiUrl @ path, pr_body = request, pr_timeout = timeout, pr_chainId = chainId\<rparr> of
        Inl _ \<Rightarrow> None
      | Inr response \<Rightarrow> if ar_status response \<noteq> 200 then None else Some (ar_data response))"

definition or_else :: "(js_error + 'a) \<Rightarrow> 'a \<Rightarrow> 'a" where
  "or_else result fallback = (case result of Inl _ \<Rightarrow> fallback | Inr x \<Rightarrow> x)"

definition client_getV1PricesAsync :: "int \<Rightarrow> string \<Rightarrow> 'r axios \<Rightarrow> 'r \<Rightarrow> ChainId \<Rightarrow> js_value" where
  "client_getV1PricesAsync RFQT_REQUEST_MAX_RESPONSE_MS rfqApiUrl post request chainId =
     (case rfq_post (RFQT_REQUEST_MAX_RESPONSE_MS + 150) rfqApiUrl post ''/rfqt/v1/prices'' request chainId of
        None \<Rightarrow> Some (JObject [(''prices'', JArray [])])
      | Some data \<Rightarrow> data)"

text \<open>The \<open>quotes\<close> of the answer, which may be undefined.\<close>

definition client_getV1QuotesAsync ::
    "(js_value \<Rightarrow> BigNumber) \<Rightarrow> int \<Rightarrow> string \<Rightarrow> 'r axios \<Rightarrow> 'r \<Rightarrow> ChainId \<Rightarrow> RfqClientQuote list option" where
  "client_getV1QuotesAsync bn RFQT_REQUEST_MAX_RESPONSE_MS rfqApiUrl post request chainId =
     (case rfq_post (RFQT_REQUEST_MAX_RESPONSE_MS + 150) rfqApiUrl post ''/rfqt/v1/quotes'' request chainId of
        None \<Rightarrow> Some []
      | Some data \<Rightarrow>
          or_else (if nullish data then Inr None
             else res_bind (js_get data ''quotes'') (\<lambda>quotes.
                  res_bind (js_map (\<lambda>q.
                    res_bind (js_get q ''signature'') (\<lambda>signature. res_bind (js_get q ''makerUri'') (\<lambda>makerUri.
                    res_bind (js_get q ''order'') (\<lambda>order. res_bind (toRfqOrder bn order) (\<lambda>order'.
                    Inr \<lparr>rcq_signature = signature, rcq_makerUri = makerUri, rcq_order = order'\<rparr>))))) quotes) (\<lambda>updatedQuotes.
                  Inr (Some updatedQuotes)))) (Some []))"

definition client_getV2PricesAsync ::
    "(js_value \<Rightarrow> BigNumber) \<Rightarrow> int \<Rightarrow> string \<Rightarrow> 'r axios \<Rightarrow> 'r \<Rightarrow> ChainId \<Rightarrow> ParsedV2Price list option" where
  "client_getV2PricesAsync bn RFQT_REQUEST_MAX_RESPONSE_MS rfqApiUrl post request chainId =
     (case rfq_post (RFQT_REQUEST_MAX_RESPONSE_MS * 3) rfqApiUrl post ''/internal/rfqt/v2/prices'' request chainId of
        None \<Rightarrow> Some []
      | Some data \<Rightarrow>
          or_else (if nullish data then Inr None
             else res_bind (js_get data ''prices'') (\<lambda>prices.
                  if nullish prices then Inr None
                  else res_bind (js_map (\<lambda>q.
                    res_bind (js_get q ''expiry'') (\<lambda>expiry. res_bind (js_get q ''makerAmount'') (\<lambda>makerAmount.
                    res_bind (js_get q ''takerAmount'') (\<lambda>takerAmount.
                    Inr \<lparr>vp_rest = filter (\<lambda>(k, _). k \<notin> {''expiry'', ''makerAmount'', ''takerAmount''}) (js_spread q),
                         vp_expiry = bn expiry, vp_makerAmount = bn makerAmount, vp_takerAmount = bn takerAmount\<rparr>)))) prices)
                    (\<lambda>prices'. Inr (Some prices')))) (Some []))"

definition client_getV2QuotesAsync ::
    "(js_value \<Rightarrow> BigNumber) \<Rightarrow> int \<Rightarrow> string \<Rightarrow> 'r axios \<Rightarrow> 'r \<Rightarrow> ChainId \<Rightarrow> ParsedV2Quote list option" where
  "client_getV2QuotesAsync bn RFQT_REQUEST_MAX_RESPONSE_MS rfqApiUrl post request chainId =
     (case rfq_post (RFQT_REQUEST_MAX_RESPONSE_MS * 3) rfqApiUrl post ''/internal/rfqt/v2/quotes'' request chainId of
        None \<Rightarrow> Some []
      | Some data \<Rightarrow>
          or_else (if nullish data then Inr None
             else res_bind (js_get data ''quotes'') (\<lambda>quotes.
                  if nullish quotes then Inr None
                  else res_bind (js_map (\<lambda>q.
                    res_bind (js_get q ''fillableMakerAmount'') (\<lambda>maker. res_bind (js_get q ''fillableTakerAmount'') (\<lambda>taker.
                    res_bind (js_get q ''fillableTakerFeeAmount'') (\<lambda>fee. res_bind (js_get q ''signature'') (\<lambda>signature.
                    res_bind (js_get q ''makerUri'') (\<lambda>makerUri. res_bind (js_get q ''makerId'') (\<lambda>makerId.
                    res_bind (js_get q ''order'') (\<lambda>order. res_bind (toOtcOrder bn order) (\<lambda>order'.
                    Inr \<lparr>vq_fillableMakerAmount = bn maker, vq_fillableTakerAmount = bn taker, vq_fillableTakerFeeAmount = bn fee,
                         vq_signature = signature, vq_makerUri = makerUri, vq_makerId = makerId, vq_order = order'\<rparr>)))))))))
                    quotes) (\<lambda>quotes'. Inr (Some quotes')))) (Some []))"

definition client_isRfqtEnabled :: "string \<Rightarrow> bool" where
  "client_isRfqtEnabled rfqApiUrl \<longleftrightarrow> length rfqApiUrl \<noteq> 0"

section \<open>The last look\<close>

record LastLookFee =
  lf_amount :: BigNumber
  lf_token :: js_value
  lf_type :: js_value

record SubmitRequest =
  sr_fee :: LastLookFee
  sr_orderHash :: string
  sr_takerTokenFillAmount :: BigNumber

text \<open>The checks of the answer, in their order, where \<open>errors\<close> are the complaints of the validator.\<close>

definition check_last_look ::
    "(js_value \<Rightarrow> BigNumber) \<Rightarrow> (BigNumber \<Rightarrow> string) \<Rightarrow> string list \<Rightarrow> SubmitRequest \<Rightarrow> js_value \<Rightarrow> js_error + bool" where
  "check_last_look bn print errors payload data =
     (if errors \<noteq> [] then Inl (Error (''Error from validator: '' @ join_with (CHR '','') errors))
      else res_bind (js_get data ''fee'') (\<lambda>fee.
        res_bind (js_get fee ''amount'') (\<lambda>amount. res_bind (js_get fee ''token'') (\<lambda>token.
        res_bind (js_get fee ''type'') (\<lambda>type.
          let responseFee = \<lparr>lf_amount = bn amount, lf_token = token, lf_type = type\<rparr>
          in if responseFee \<noteq> sr_fee payload then Inl (Error ''Fee in response is not equal to fee in request'')
             else res_bind (js_get data ''signedOrderHash'') (\<lambda>hash.
                  if hash \<noteq> Some (JString (sr_orderHash payload))
                  then Inl (Error (''Requested trade for order hash '' @ sr_orderHash payload))
                  else res_bind (js_get data ''takerTokenFillAmount'') (\<lambda>filled.
                       if filled \<noteq> Some (JString (print (sr_takerTokenFillAmount payload)))
                       then Inl (Error ''takerTokenFillableAmount in response is not equal to takerTokenFillableAmount in request'')
                       else res_bind (js_get data ''proceedWithFill'') (\<lambda>proceed.
                            Inr (proceed = Some (JBool True))))))))))"

definition confirmLastLookAsync ::
    "(js_value \<Rightarrow> BigNumber) \<Rightarrow> (BigNumber \<Rightarrow> string) \<Rightarrow> (js_value \<Rightarrow> string list) \<Rightarrow> (string \<Rightarrow> SubmitRequest \<Rightarrow> js_error + AxiosResponse) \<Rightarrow>
     string \<Rightarrow> SubmitRequest \<Rightarrow> bool" where
  "confirmLastLookAsync bn print validator post makerUri payload =
     or_else (res_bind (post (makerUri @ ''/submit'') payload) (\<lambda>response.
       check_last_look bn print (validator (ar_data response)) payload (ar_data response))) False"

section \<open>Ethereum nodes\<close>

datatype RpcError =
    InternalErrorOf js_error | InternalErrorText string | MethodNotFound | PayloadError js_value

text \<open>How the callback \<open>end\<close> is called.\<close>

datatype RpcEnd = EndError RpcError | EndResult js_value

record Response =
  rs_ok :: bool
  rs_status :: int
  rs_text :: "js_error + string"

record 'body RpcEnv =
  re_random :: js_number
  re_stringify :: "json \<Rightarrow> 'body"
  re_gzip :: "'body \<Rightarrow> js_error + 'body"
  re_fetch :: "string option \<Rightarrow> 'body \<Rightarrow> js_error + Response"
  re_parse :: "string \<Rightarrow> js_error + json"

record RPCSubprovider =
  rp_rpcUrls :: "string list"
  rp_shouldCompressRequest :: bool

definition encodeRequestPayloadAsync :: "'body RpcEnv \<Rightarrow> RPCSubprovider \<Rightarrow> json \<Rightarrow> js_error + 'body" where
  "encodeRequestPayloadAsync env self finalPayload =
     (let body = re_stringify env finalPayload
      in if \<not> rp_shouldCompressRequest self then Inr body else re_gzip env body)"

text \<open>\<open>this._rpcUrls[Math.floor(Math.random() * this._rpcUrls.length)]\<close>.\<close>

definition choose_url :: "js_number \<Rightarrow> string list \<Rightarrow> string option" where
  "choose_url random urls =
     (case js_floor (js_mul random (Fin (of_nat (length urls)))) of
        Fin q \<Rightarrow> if 0 \<le> q \<and> nat \<lfloor>q\<rfloor> < length urls then Some (urls ! nat \<lfloor>q\<rfloor>) else None
      | _ \<Rightarrow> None)"

definition node_error :: "int \<Rightarrow> string \<Rightarrow> RpcError" where
  "node_error statusCode text =
     (if statusCode = 405 then MethodNotFound
      else if statusCode = 504
      then InternalErrorOf (Error ''Gateway timeout. The request took too long to process. This can happen when querying logs over too wide a block range.'')
      else InternalErrorText text)"

text \<open>A payload, already made final by the library; \<open>Inl\<close> when the handler itself rejects.\<close>

definition handleRequest :: "'body RpcEnv \<Rightarrow> RPCSubprovider \<Rightarrow> json \<Rightarrow> js_error + RpcEnd" where
  "handleRequest env self finalPayload =
     (let rpcUrl = choose_url (re_random env) (rp_rpcUrls self)
      in res_bind (encodeRequestPayloadAsync env self finalPayload) (\<lambda>body.
         case re_fetch env rpcUrl body of
           Inl err \<Rightarrow> Inr (EndError (InternalErrorOf err))
         | Inr response \<Rightarrow>
             res_bind (rs_text response) (\<lambda>text.
               if \<not> rs_ok response then Inr (EndError (node_error (rs_status response) text))
               else case re_parse env text of
                      Inl err \<Rightarrow> Inr (EndError (InternalErrorOf err))
                    | Inr data \<Rightarrow>
                        res_bind (js_get (Some data) ''error'') (\<lambda>error.
                          if js_truthy error then Inr (EndError (PayloadError error))
                          else res_bind (js_get (Some data) ''result'') (\<lambda>result. Inr (EndResult result))))))"

section \<open>Choosing\<close>

datatype ComparedQuote = Indicative V4RFQIndicativeQuoteMM | Signed SignedNativeOrder

fun getTakerToken :: "ComparedQuote \<Rightarrow> Address" where
  "getTakerToken (Signed quote) = ord_takerToken (sno_order quote)"
| "getTakerToken (Indicative quote) = iq_takerToken quote"

fun getMakerToken :: "ComparedQuote \<Rightarrow> Address" where
  "getMakerToken (Signed quote) = ord_makerToken (sno_order quote)"
| "getMakerToken (Indicative quote) = iq_makerToken quote"

fun getTakerAmount :: "ComparedQuote \<Rightarrow> BigNumber" where
  "getTakerAmount (Signed quote) = ord_takerAmount (sno_order quote)"
| "getTakerAmount (Indicative quote) = iq_takerAmount quote"

fun getMakerAmount :: "ComparedQuote \<Rightarrow> BigNumber" where
  "getMakerAmount (Signed quote) = ord_makerAmount (sno_order quote)"
| "getMakerAmount (Indicative quote) = iq_makerAmount quote"

text \<open>The expiry packed in an OTC order is read by the protocol package.\<close>

fun getExpiry :: "(SignedNativeOrder \<Rightarrow> BigNumber) \<Rightarrow> ComparedQuote \<Rightarrow> BigNumber" where
  "getExpiry parseExpiry (Signed quote) = (if sno_type quote = Otc then parseExpiry quote else ord_expiry (sno_order quote))"
| "getExpiry parseExpiry (Indicative quote) = iq_expiry quote"

definition quote_price :: "(rat \<Rightarrow> rat) \<Rightarrow> ComparedQuote \<Rightarrow> BigNumber" where
  "quote_price rnd q = bn_div rnd (getMakerAmount q) (getTakerAmount q)"

text \<open>The number a comparator returns counts by its sign.\<close>

definition number_sign :: "js_number \<Rightarrow> int" where
  "number_sign x = (if x < 0 then - 1 else if 0 < x then 1 else 0)"

definition comparePrices :: "(rat \<Rightarrow> rat) \<Rightarrow> ComparedQuote \<Rightarrow> ComparedQuote \<Rightarrow> int" where
  "comparePrices rnd a b = number_sign (toNumber (quote_price rnd b - quote_price rnd a))"

definition eligible ::
    "(SignedNativeOrder \<Rightarrow> BigNumber) \<Rightarrow> bool \<Rightarrow> Address \<Rightarrow> Address \<Rightarrow> BigNumber \<Rightarrow> BigNumber \<Rightarrow> ComparedQuote \<Rightarrow> bool" where
  "eligible parseExpiry isSelling takerToken makerToken assetFillAmount expirationCutoff q \<longleftrightarrow>
     (getTakerToken q = takerToken \<and> getMakerToken q = makerToken) \<and>
     assetFillAmount \<le> (if isSelling then getTakerAmount q else getMakerAmount q) \<and>
     expirationCutoff \<le> getExpiry parseExpiry q"

definition getBestQuote ::
    "(rat \<Rightarrow> rat) \<Rightarrow> (SignedNativeOrder \<Rightarrow> BigNumber) \<Rightarrow> BigNumber \<Rightarrow> ComparedQuote list \<Rightarrow> bool \<Rightarrow> Address \<Rightarrow> Address \<Rightarrow> BigNumber \<Rightarrow>
     BigNumber \<Rightarrow> ComparedQuote option" where
  "getBestQuote rnd parseExpiry now quotes isSelling takerToken makerToken assetFillAmount validityWindowMs =
     (let expirationCutoff = bn_div rnd (now + validityWindowMs) (Fin 1000);
          sortedQuotes = js_sort (comparePrices rnd)
            (filter (\<lambda>q. expirationCutoff \<le> getExpiry parseExpiry q)
              (filter (\<lambda>q. assetFillAmount \<le> (if isSelling then getTakerAmount q else getMakerAmount q))
                (filter (\<lambda>q. getTakerToken q = takerToken \<and> getMakerToken q = makerToken) quotes)))
      in case sortedQuotes of [] \<Rightarrow> None | q # _ \<Rightarrow> Some q)"

definition MAX_SHA1 :: BigNumber where
  "MAX_SHA1 = Fin (2 ^ 160)"

definition isHashSmallEnough :: "(string \<Rightarrow> nat) \<Rightarrow> string \<Rightarrow> js_number \<Rightarrow> bool" where
  "isHashSmallEnough sha1 message threshold =
     (if 1 \<le> threshold then True
      else if threshold = 0 then False
      else Fin (of_nat (sha1 message)) < MAX_SHA1 * bn_of_number threshold)"

section \<open>Lemmas\<close>

text \<open>A quote whose amounts can be compared.\<close>

definition comparable :: "ComparedQuote \<Rightarrow> bool" where
  "comparable q \<longleftrightarrow> (\<exists>m t. getMakerAmount q = Fin m \<and> getTakerAmount q = Fin t \<and> 0 < t)"

definition price_of :: "(rat \<Rightarrow> rat) \<Rightarrow> ComparedQuote \<Rightarrow> rat" where
  "price_of rnd q = rnd (xval (getMakerAmount q) / xval (getTakerAmount q))"

lemma number_sign_rounded: "number_sign (Fin (rnd64 x)) \<le> 0 \<longleftrightarrow> x \<le> 0"
proof -
  have "0 < rnd64 x \<longleftrightarrow> 0 < x" using rnd64_pos[of x] rnd64_mono[of x 0] by fastforce
  then show ?thesis by (auto simp: number_sign_def zero_xnum_def)
qed

lemma comparePrices_le:
  "comparable a \<Longrightarrow> comparable b \<Longrightarrow> comparePrices rnd a b \<le> 0 \<longleftrightarrow> price_of rnd b \<le> price_of rnd a"
  by (auto simp: comparable_def comparePrices_def quote_price_def price_of_def toNumber_def number_sign_rounded)

interpretation by_price: comparator "comparePrices rnd" comparable for rnd
  by unfold_locales (auto simp: comparePrices_le)

lemma js_get_ok: "\<not> nullish v \<Longrightarrow> \<exists>v'. js_get v key = Inr v'"
  by (cases "(v, key)" rule: js_get.cases) (auto simp: nullish_def)

section \<open>Properties\<close>

text \<open>The best quote is one for the pair that fills the amount and does not expire within the validity window, at
  the best price of all of those; there is none exactly when no quote qualifies.\<close>

theorem best_quote_is_best:
  assumes "\<forall>q \<in> set quotes. comparable q"
  shows "case getBestQuote rnd parseExpiry now quotes isSelling takerToken makerToken amount window of
      None \<Rightarrow> \<forall>q \<in> set quotes. \<not> eligible parseExpiry isSelling takerToken makerToken amount (bn_div rnd (now + window) (Fin 1000)) q
    | Some best \<Rightarrow> best \<in> set quotes \<and>
        eligible parseExpiry isSelling takerToken makerToken amount (bn_div rnd (now + window) (Fin 1000)) best \<and>
        (\<forall>q \<in> set quotes. eligible parseExpiry isSelling takerToken makerToken amount (bn_div rnd (now + window) (Fin 1000)) q \<longrightarrow>
           price_of rnd q \<le> price_of rnd best)"
proof -
  let ?E = "eligible parseExpiry isSelling takerToken makerToken amount (bn_div rnd (now + window) (Fin 1000))"
  have best: "getBestQuote rnd parseExpiry now quotes isSelling takerToken makerToken amount window =
      (case js_sort (comparePrices rnd) (filter ?E quotes) of [] \<Rightarrow> None | q # _ \<Rightarrow> Some q)"
    by (simp add: getBestQuote_def eligible_def Let_def conj_ac cong: filter_cong)
  have v: "\<forall>q \<in> set (filter ?E quotes). comparable q" using assms by simp
  show ?thesis
  proof (cases "js_sort (comparePrices rnd) (filter ?E quotes)")
    case Nil
    then have "set (filter ?E quotes) = {}" using by_price.sorted_js_sort[OF v, of rnd] by simp
    then have "\<forall>q \<in> set quotes. \<not> ?E q" by auto
    then show ?thesis unfolding best Nil by simp
  next
    case (Cons q qs)
    then have "sorted_wrt (\<lambda>a b. comparePrices rnd a b \<le> 0) (q # qs)" "set (q # qs) = set (filter ?E quotes)"
      using by_price.sorted_js_sort[OF v, of rnd] by auto
    moreover from this(2) have q: "q \<in> set quotes" "?E q" by auto
    ultimately have "price_of rnd q' \<le> price_of rnd q" if "q' \<in> set quotes" "?E q'" for q'
      using that assms comparePrices_le[of q q' rnd] by auto
    then show ?thesis using q by (simp add: best Cons)
  qed
qed

text \<open>A last look is confirmed only by an answer that passes the schema, repeats the fee, the order and the amount of
  the request, and says to proceed; every failure is a refusal.\<close>

theorem last_look_confirms_request:
  assumes "confirmLastLookAsync bn print validator post makerUri payload"
  shows "\<exists>response fee amount. post (makerUri @ ''/submit'') payload = Inr response \<and> validator (ar_data response) = [] \<and>
    js_get (ar_data response) ''fee'' = Inr fee \<and> js_get fee ''amount'' = Inr amount \<and> bn amount = lf_amount (sr_fee payload) \<and>
    js_get fee ''token'' = Inr (lf_token (sr_fee payload)) \<and> js_get fee ''type'' = Inr (lf_type (sr_fee payload)) \<and>
    js_get (ar_data response) ''signedOrderHash'' = Inr (Some (JString (sr_orderHash payload))) \<and>
    js_get (ar_data response) ''takerTokenFillAmount'' = Inr (Some (JString (print (sr_takerTokenFillAmount payload)))) \<and>
    js_get (ar_data response) ''proceedWithFill'' = Inr (Some (JBool True))"
proof -
  obtain response where r: "post (makerUri @ ''/submit'') payload = Inr response"
    "check_last_look bn print (validator (ar_data response)) payload (ar_data response) = Inr True"
    using assms by (auto simp: confirmLastLookAsync_def or_else_def res_bind_def split: sum.splits)
  then show ?thesis
    by (auto simp: check_last_look_def res_bind_eq_Inr Let_def split: if_splits dest!: sym[where t = "sr_fee payload"])
qed

text \<open>A request to a node calls back at most once, and hands on a result only for a successful answer that is JSON and
  has no error; it calls back in every case but three: the payload cannot be compressed, the body cannot be read, or
  the body is the JSON value null, on which reading the error throws.\<close>

theorem rpc_request_answered:
  shows "case handleRequest env self payload of
      Inl e \<Rightarrow> encodeRequestPayloadAsync env self payload = Inl e \<or>
        (\<exists>body response. encodeRequestPayloadAsync env self payload = Inr body \<and>
           re_fetch env (choose_url (re_random env) (rp_rpcUrls self)) body = Inr response \<and>
           (rs_text response = Inl e \<or>
            (\<exists>text. rs_text response = Inr text \<and> rs_ok response \<and> re_parse env text = Inr JNull \<and> e = TypeError)))
    | Inr (EndResult result) \<Rightarrow>
        (\<exists>body response text data error. encodeRequestPayloadAsync env self payload = Inr body \<and>
           re_fetch env (choose_url (re_random env) (rp_rpcUrls self)) body = Inr response \<and> rs_ok response \<and>
           rs_text response = Inr text \<and> re_parse env text = Inr data \<and>
           js_get (Some data) ''error'' = Inr error \<and> \<not> js_truthy error \<and> js_get (Some data) ''result'' = Inr result)
    | Inr (EndError err) \<Rightarrow> True"
proof -
  have null: "js_get (Some data) key = Inl e \<longleftrightarrow> data = JNull \<and> e = TypeError" for data key e
    by (cases data) auto
  show ?thesis
    by (auto simp: handleRequest_def Let_def res_bind_def null split: sum.splits if_splits RpcEnd.splits)
qed

text \<open>The RFQ client never fails, but it can answer undefined: a service that is down or answers with an error has no
  prices, and so has a list with a null in it; of a proper list every entry gives one price with its
  numbers read; and an answer without a list gives undefined, which the caller spreads into an array.\<close>

theorem v2_prices_of_answer:
  assumes "post \<lparr>pr_url = url @ ''/internal/rfqt/v2/prices'', pr_body = request, pr_timeout = max_ms * 3, pr_chainId = chainId\<rparr> = answer"
  shows "(case answer of Inl _ \<Rightarrow> True | Inr response \<Rightarrow> ar_status response \<noteq> 200 \<longrightarrow>
       client_getV2PricesAsync bn max_ms url post request chainId = Some []) \<and>
    (\<forall>props. answer = Inr \<lparr>ar_status = 200, ar_data = Some (JObject props)\<rparr> \<longrightarrow>
       (nullish (map_of props ''prices'') \<longrightarrow> client_getV2PricesAsync bn max_ms url post request chainId = None) \<and>
       (\<forall>xs. map_of props ''prices'' = Some (JArray xs) \<longrightarrow>
          (if JNull \<in> set xs then client_getV2PricesAsync bn max_ms url post request chainId = Some []
           else \<exists>ps. client_getV2PricesAsync bn max_ms url post request chainId = Some ps \<and>
             list_all2 (\<lambda>x p. vp_expiry p = bn (projr (js_get (Some x) ''expiry'')) \<and>
               vp_makerAmount p = bn (projr (js_get (Some x) ''makerAmount'')) \<and>
               vp_takerAmount p = bn (projr (js_get (Some x) ''takerAmount''))) xs ps)))"
proof -
  have post: "rfq_post (max_ms * 3) url post ''/internal/rfqt/v2/prices'' request chainId =
      (case answer of Inl _ \<Rightarrow> None | Inr response \<Rightarrow> if ar_status response \<noteq> 200 then None else Some (ar_data response))"
    by (simp add: rfq_post_def assms)
  let ?price = "\<lambda>q. res_bind (js_get q ''expiry'') (\<lambda>expiry. res_bind (js_get q ''makerAmount'') (\<lambda>makerAmount.
    res_bind (js_get q ''takerAmount'') (\<lambda>takerAmount.
    Inr \<lparr>vp_rest = filter (\<lambda>(k, _). k \<notin> {''expiry'', ''makerAmount'', ''takerAmount''}) (js_spread q),
         vp_expiry = bn expiry, vp_makerAmount = bn makerAmount, vp_takerAmount = bn takerAmount\<rparr>)))"
  have null: "\<exists>e. res_map (\<lambda>x. ?price (Some x)) xs = Inl e" if "JNull \<in> set xs" for xs
  proof (cases "res_map (\<lambda>x. ?price (Some x)) xs")
    case (Inr ps)
    then show ?thesis using that by (auto simp: res_map_Inr_iff list_all2_conv_all_nth in_set_conv_nth)
  qed simp
  have proper: "\<exists>ps. res_map (\<lambda>x. ?price (Some x)) xs = Inr ps \<and>
      list_all2 (\<lambda>x p. vp_expiry p = bn (projr (js_get (Some x) ''expiry'')) \<and>
        vp_makerAmount p = bn (projr (js_get (Some x) ''makerAmount'')) \<and>
        vp_takerAmount p = bn (projr (js_get (Some x) ''takerAmount''))) xs ps" if "JNull \<notin> set xs" for xs
  proof (rule res_map_total, rule ballI)
    fix x assume "x \<in> set xs"
    then have "\<not> nullish (Some x)" using that by (auto simp: nullish_def)
    from js_get_ok[OF this, of "''expiry''"] js_get_ok[OF this, of "''makerAmount''"] js_get_ok[OF this, of "''takerAmount''"]
    show "\<exists>p. ?price (Some x) = Inr p \<and> vp_expiry p = bn (projr (js_get (Some x) ''expiry'')) \<and>
        vp_makerAmount p = bn (projr (js_get (Some x) ''makerAmount'')) \<and>
        vp_takerAmount p = bn (projr (js_get (Some x) ''takerAmount''))"
      by (elim exE) simp
  qed
  have list: "client_getV2PricesAsync bn max_ms url post request chainId =
      or_else (res_bind (res_map (\<lambda>x. ?price (Some x)) xs) (\<lambda>ps. Inr (Some ps))) (Some [])"
    if "answer = Inr \<lparr>ar_status = 200, ar_data = Some (JObject props)\<rparr>" "map_of props ''prices'' = Some (JArray xs)" for props xs
    using that by (simp add: client_getV2PricesAsync_def post nullish_def)
  show ?thesis
  proof (intro conjI allI impI)
    fix props xs
    assume *: "answer = Inr \<lparr>ar_status = 200, ar_data = Some (JObject props)\<rparr>" "map_of props ''prices'' = Some (JArray xs)"
    show "if JNull \<in> set xs then client_getV2PricesAsync bn max_ms url post request chainId = Some []
       else \<exists>ps. client_getV2PricesAsync bn max_ms url post request chainId = Some ps \<and>
         list_all2 (\<lambda>x p. vp_expiry p = bn (projr (js_get (Some x) ''expiry'')) \<and>
           vp_makerAmount p = bn (projr (js_get (Some x) ''makerAmount'')) \<and>
           vp_takerAmount p = bn (projr (js_get (Some x) ''takerAmount''))) xs ps"
      using null[of xs] proper[of xs] unfolding list[OF *] by (auto simp: or_else_def)
  qed (auto simp: client_getV2PricesAsync_def post or_else_def nullish_def split: sum.splits)
qed

text \<open>A message selected at one threshold is selected at every larger one; all are from 1 on, and none at 0.\<close>

theorem hash_threshold_monotone:
  assumes "is_double s" "is_double t" "0 \<le> s" "s \<le> t"
  shows "(isHashSmallEnough sha1 message (Fin s) \<longrightarrow> isHashSmallEnough sha1 message (Fin t)) \<and>
    (1 \<le> t \<longrightarrow> isHashSmallEnough sha1 message (Fin t)) \<and> \<not> isHashSmallEnough sha1 message 0"
proof -
  have "dec s \<le> dec t" using assms by (intro dec_mono) (simp_all add: is_double_def)
  then have "(2 :: rat) ^ 160 * dec s \<le> 2 ^ 160 * dec t" by (intro mult_left_mono) auto
  then show ?thesis using assms(3,4)
    by (auto simp: isHashSmallEnough_def MAX_SHA1_def bn_of_number_def zero_xnum_def one_xnum_def less_eq_xnum_def)
qed

section \<open>Samples\<close>

definition sample_indicative :: "rat \<Rightarrow> rat \<Rightarrow> ComparedQuote" where
  "sample_indicative maker taker =
     Indicative \<lparr>iq_makerToken = ''0xa'', iq_takerToken = ''0xb'', iq_makerAmount = Fin maker, iq_takerAmount = Fin taker,
       iq_expiry = Fin 100, iq_makerUri = ''m''\<rparr>"

theorem best_quote_is_best_witness:
  "\<exists>best. getBestQuote rnd78 (\<lambda>_. 0) 0 [sample_indicative 10 10, sample_indicative 30 10] True ''0xb'' ''0xa'' (Fin 5) (Fin 1000) =
     Some best \<and> price_of rnd78 (sample_indicative 30 10) \<le> price_of rnd78 best"
proof -
  have c: "\<forall>q \<in> set [sample_indicative 10 10, sample_indicative 30 10]. comparable q"
    by (simp add: comparable_def sample_indicative_def)
  have "eligible (\<lambda>_. 0) True ''0xb'' ''0xa'' (Fin 5) (bn_div rnd78 (0 + Fin 1000) (Fin 1000)) (sample_indicative 30 10)"
    by code_simp
  with best_quote_is_best[OF c, where rnd = rnd78 and parseExpiry = "\<lambda>_. 0" and now = 0 and isSelling = True and
      takerToken = "''0xb''" and makerToken = "''0xa''" and amount = "Fin 5" and window = "Fin 1000"] show ?thesis
    by (auto split: option.splits)
qed

definition sample_submit :: SubmitRequest where
  "sample_submit = \<lparr>sr_fee = \<lparr>lf_amount = Fin 1, lf_token = Some (JString ''0xa''), lf_type = Some (JString ''fixed'')\<rparr>,
     sr_orderHash = ''0xh'', sr_takerTokenFillAmount = Fin (of_nat 7)\<rparr>"

definition sample_answer :: AxiosResponse where
  "sample_answer = \<lparr>ar_status = 200, ar_data = Some (JObject
     [(''fee'', JObject [(''amount'', JString ''1''), (''token'', JString ''0xa''), (''type'', JString ''fixed'')]),
      (''signedOrderHash'', JString ''0xh''), (''takerTokenFillAmount'', JString ''7''), (''proceedWithFill'', JBool True)])\<rparr>"

theorem last_look_confirms_request_witness:
  "js_get (ar_data sample_answer) ''proceedWithFill'' = Inr (Some (JBool True))"
proof -
  have "confirmLastLookAsync (\<lambda>_. Fin 1) (int_string 10) (\<lambda>_. []) (\<lambda>_ _. Inr sample_answer) ''http://m'' sample_submit"
    by (simp add: confirmLastLookAsync_def check_last_look_def sample_answer_def sample_submit_def or_else_def
        int_string_nat) code_simp
  from last_look_confirms_request[OF this] show ?thesis by auto
qed

theorem v2_prices_of_answer_witness:
  "client_getV2PricesAsync (\<lambda>_. 0) 600 ''http://rfq'' (\<lambda>r. Inr \<lparr>ar_status = 200, ar_data = Some (JObject [])\<rparr>) () Mainnet = None"
  using v2_prices_of_answer[of "\<lambda>r. Inr \<lparr>ar_status = 200, ar_data = Some (JObject [])\<rparr>" "''http://rfq''" "()" 600 Mainnet, OF refl]
  by (simp add: nullish_def)

theorem hash_threshold_monotone_witness:
  "\<not> isHashSmallEnough (\<lambda>_. 5) ''m'' 0 \<and> isHashSmallEnough (\<lambda>_. 5) ''m'' (Fin 1)"
  using hash_threshold_monotone[of 0 1 "\<lambda>_. 5" "''m''"] by (simp add: is_double_def)

end
