(* ===== verification/Spec2Isabelle.thy ===== *)
theory Spec2Isabelle
  imports Rfq_Blacklist Result_Cache Order_Book Meta_Transactions Quote_Sampling Maker_Balances
    Order_Stream External_Clients
begin

text \<open>
  Verification library of the 0x API: the service that quotes token swaps over many liquidity sources, runs an
  order book of signed limit orders, and offers gasless trades.

  \<^bold>\<open>The program.\<close> A handler parses a request into the parameters of the swap service. The service asks the swap
  quoter, which takes open limit orders from the order book and samples every source that is allowed on the chain;
  the market operation utilities turn samples and native orders into fills, ask a router how to distribute the
  input over them, ask market makers for RFQ orders, and make a path of the routed fills; the orders of the path
  are simulated into a best-case and a worst-case quote, a consumer encodes them as a call of the exchange proxy, and
  the service adds gas, prices and slippage. Gasless services wrap the quote in a meta-transaction and charge
  fees. Beside this flow run caches (pools, reserves, gas price, blacklist, slippage models, maker balances) that timers
  and other requests refresh, and a web socket stream of order updates.

  \<^bold>\<open>Numbers.\<close> \<open>Js_Number\<close> models the JavaScript number (binary64, round to nearest even) and its
  printing, \<open>Big_Number\<close> the bignumber.js operations the code uses, with NaN and the infinities. The
  rounding of BigNumber quotients is configured outside the repository and is the argument \<open>rnd\<close>; its
  documented laws are the locale \<open>quotient_rounding\<close>, interpreted on rounding half away from zero to \<open>d\<close>
  decimal places (\<open>dp\<close>) for every \<open>d\<close>. The exponent range of a number is not bounded. Machine words
  (\<open>256 word\<close>) occur where a contract is modelled.

  \<^bold>\<open>Shared theories.\<close>
  \<^item> \<open>Prelude\<close>: results of code that may throw, ordered dictionaries, array and string built-ins.
  \<^item> \<open>Result_Rules\<close>: rules that carry a statement through the stages of code that may throw.
  \<^item> \<open>Market_Types\<close>: sources, fill data, native orders, samples, fills and orders as the two \<open>types.ts\<close>
    files declare them.

  \<^bold>\<open>Liquidity and sampling.\<close>
  \<^item> \<open>Source_Filters\<close>, \<open>Source_Tables\<close>: \<open>source_filters.ts\<close> and the source lists, gas and fee schedules of
    \<open>constants.ts\<close>. A query agrees with the set of sources a filter means; the tables are consistent with each other and
    the schedule is defined and exact on well-formed fill data.
  \<^item> \<open>Token_Tables\<close>, \<open>Pool_Tables\<close>: the tokens, routers and registries of \<open>constants.ts\<close> and the pools of \<open>curve.ts\<close>, entry by
    entry; a repeated key replaces an earlier one, as in a JavaScript object.
  \<^item> \<open>Bridge_Sources\<close>: \<open>bridge_source_utils.ts\<close>, the pools and the router a source offers for a pair.
  \<^item> \<open>Token_Graph\<close>: \<open>token_adjacency_graph.ts\<close> and the default graphs; the relation \<open>built\<close> gives the invariant of a builder.
  \<^item> \<open>Pool_Caches\<close>: the caches of Aave, Compound, Balancer, Balancer V2 and Bancor (\<open>pools_cache/\<close>,
    \<open>aave_reserves_cache.ts\<close>, \<open>compound_ctoken_cache.ts\<close>, \<open>bancor_service.ts\<close>): what is found, and when it is fresh.
  \<^item> \<open>Sampler\<close>, \<open>Sampler_Operations\<close>, \<open>Quote_Sampling\<close>: \<open>sampler.ts\<close>, \<open>sampler_operations.ts\<close>,
    \<open>sampler_contract_operation.ts\<close>, \<open>samplers/uniswapv3_sampler.ts\<close>. A batch answers every operation as its own call would;
    the dispatch over the sources never fails to build its operations; samples stand at their amounts.

  \<^bold>\<open>Routing.\<close>
  \<^item> \<open>Fills\<close>, \<open>Orders\<close>, \<open>Path\<close>: \<open>rate_utils.ts\<close>, \<open>fills.ts\<close>, \<open>orders.ts\<close>, \<open>path.ts\<close>. Maker and taker amounts form a
    Galois connection; bridge data is well typed for its encoder; the orders of a path carry exactly the input of its
    fills, and its size counts a clipped fill by the share that is wanted; slippage only moves amounts against the taker; the
    comparison of paths is a strict order.
  \<^item> \<open>Path_Optimizer\<close>: \<open>path_optimizer.ts\<close>. A routed path covers the input amount although the router works on rounded
    numbers, and the path returned is no worse than any other considered. Fill adjustors are the locale
    \<open>fill_adjustor\<close>, interpreted by the identity and by the slippage adjustor.
  \<^item> \<open>Pair_Utils\<close>, \<open>Slippage_Model\<close>: \<open>pair_utils.ts\<close>, \<open>slippage_model_manager.ts\<close>, \<open>slippage_model_fill_adjustor.ts\<close>,
    \<open>s3_client.ts\<close>; refreshes of the models interleave (\<open>refresh_step\<close>).
  \<^item> \<open>Quote_Report\<close>, \<open>Market_Operations\<close>: \<open>quote_report_generator.ts\<close>, \<open>quote_requestor.ts\<close>, \<open>market_operation_utils/index.ts\<close>,
    \<open>comparison_price.ts\<close>. What is asked of whom, in which phase, and what is reported.
  \<^item> \<open>Quote_Simulation\<close>, \<open>Quote_Info\<close>: \<open>quote_simulation.ts\<close>, \<open>quote_info.ts\<close>. The simulation fills exactly the amount
    when the orders allow it, and the worst case never promises more than the best case.

  \<^bold>\<open>Quotes and services.\<close>
  \<^item> \<open>Quote_Consumer\<close>, \<open>Quote_Calldata\<close>: \<open>quote_consumers/\<close>. The encoded transformations replay the orders of the quote;
    direct routes are taken only without affiliate fees, meta-transaction and whole-balance sale (a positive slippage fee is
    dropped there); the transformations of \<open>transformERC20\<close> are written out fee by fee, and sell amounts add up.
  \<^item> \<open>Swap_Quoter\<close>: \<open>swap_quoter.ts\<close>, \<open>options.ts\<close>, \<open>asset_swapper_orderbook.ts\<close>.
  \<^item> \<open>Service_Utils\<close>, \<open>Swap_Service\<close>, \<open>Swap_Responses\<close>: \<open>service_utils.ts\<close>, \<open>swap_service.ts\<close> and what its responses guarantee:
    the fee of a gasless sell, price impact for sells and buys, gas and prices.
  \<^item> \<open>Config\<close>, \<open>Request_Parsing\<close>, \<open>Gas_Price\<close>, \<open>Swap_Handlers\<close>: \<open>config.ts\<close>, \<open>schema_utils.ts\<close>, \<open>parse_utils.ts\<close>,
    \<open>gas_price_utils.ts\<close>, \<open>swap_handlers.ts\<close>. The gas price is a heartbeat process (\<open>gas_step\<close>); a parameter that a
    request leaves out is undefined, also where it is handed to the token library.
  \<^item> \<open>Fee_Calculator\<close>, \<open>Meta_Transactions\<close>: \<open>fee_calculator.ts\<close>, \<open>meta_transaction_service.ts\<close>,
    \<open>meta_transaction_handlers.ts\<close>. When fees throw, what is transferred and to whom, and what a taker signs.
  \<^item> \<open>Order_Utils\<close>, \<open>Order_Book\<close>: \<open>order_utils.ts\<close>, \<open>pagination_utils.ts\<close>, \<open>orderbook_service.ts\<close>, \<open>sra_handlers.ts\<close>. Sorting
    rests on the locale \<open>comparator\<close> (asks, bids, pools by balance, prices), rows on the locale \<open>number_text\<close> (\<open>decimal\<close>).

  \<^bold>\<open>Processes and clients.\<close>
  \<^item> \<open>Result_Cache\<close>, \<open>Rfq_Blacklist\<close>: \<open>result_cache.ts\<close>, \<open>rfq_blocked_address_utils.ts\<close>, \<open>rfq_dyanmic_blacklist.ts\<close>; overlapping
    calls are the step relations \<open>cache_step\<close> and \<open>blacklist_step\<close>.
  \<^item> \<open>Maker_Balances\<close>: \<open>rfq_maker_balance_cache_runner.ts\<close>, \<open>postgres_rfqt_firm_quote_validator.ts\<close> and the contract
    \<open>BalanceChecker.sol\<close>. Validations and refreshes interleave (\<open>balances_step\<close>); a firm quote is never taken for more than
    the funds behind it, and the loop of the worker ends by ten failures of a kind and by nothing else.
  \<^item> \<open>Order_Stream\<close>: \<open>websocket_service.ts\<close>, \<open>order_watcher_utils.ts\<close>. Connections, subscriptions, pongs and events interleave
    (\<open>stream_step\<close>); who receives an update, and when a connection is terminated.
  \<^item> \<open>External_Clients\<close>: \<open>rfq_client.ts\<close>, \<open>quote_server_client.ts\<close>, \<open>rpc_subprovider.ts\<close>, \<open>quote_comparison_utils.ts\<close>,
    \<open>hash_utils.ts\<close>. What the clients make of an arbitrary answer.

  \<^bold>\<open>Parameters.\<close> Code outside the repository is an argument: the rounding \<open>rnd\<close>, the router and the random ids
  (\<open>RouterEnv\<close>), the contract wrapper of the sampler (\<open>SamplerContract\<close>), the protocol packages and ABI encoders
  (\<open>MarketEnv\<close>, \<open>QuoterEnv\<close>, \<open>HandlerEnv\<close>), databases, HTTP, clocks and random numbers, the environment variables
  (\<open>ConfigEnv\<close>), and the addresses of the contract-addresses package. Hypotheses on them are documented
  behaviour, and every property with one has a witness on concrete functions.

  \<^bold>\<open>Bounds and fuel.\<close> No fuel is used: recursions are structural over the lists the code iterates, and the digit loops
  of \<open>Js_Number\<close>, \<open>show_nat\<close>, \<open>to_base\<close> and the chunks of \<open>Maker_Balances\<close> have termination proofs. The endless loops of the
  program (timers, the balance worker) are step relations or runs over the list of what happens in each pass.

  \<^bold>\<open>Not modelled.\<close> The runners, routers and the middleware that wire express, typeorm and Kafka together; column
  declarations of entities; logging, metrics and Sentry; generated contract wrappers; the Solidity samplers, which run
  inside nodes and whose answers are a parameter; the timers that trigger refreshes (their effect is a step that may
  happen at any time); \<open>getBalancerV2SellQuotes\<close> and \<open>getBalancerV2BuyQuotes\<close>, which nothing calls. Strings are ASCII, and a
  date is a number of milliseconds.
\<close>

end
